(* ===== verification/Prelude.thy ===== *)
theory Prelude
  imports Complex_Main "HOL-Library.AList" "HOL-Library.Sublist"
begin

text \<open>
  Shared vocabulary of the development: Python values, exceptions, dictionaries,
  strings, the clock and UUID source the engine reads, and the list lemmas the
  component theories use.

  Conventions.
  \<^item> A Python \<open>str\<close> is a \<^typ>\<open>string\<close> holding its UTF-8 bytes; \<open>em_dash\<close> names the
    one non-ASCII character that the messages use often.
  \<^item> A Python \<open>float\<close> is a \<^typ>\<open>rat\<close>: the engine's floats are decimal literals and sums
    and products of a few of them, and no branch depends on their last binary digit.
  \<^item> A \<open>datetime\<close> is its distance from the epoch in microseconds, an \<^typ>\<open>int\<close>.
  \<^item> A \<open>dict\<close> is an association list in insertion order; \<open>AList.update\<close> overwrites in
    place and appends a new key, as Python's item assignment does.
  \<^item> An exception is its class name and its \<open>str()\<close>; only subclasses of \<open>Exception\<close>
    occur, the ones that the engine's \<open>except Exception\<close> clauses catch.
\<close>

named_theorems dict_simps \<open>lookups after updates of insertion-ordered dictionaries\<close>
named_theorems py_defs \<open>small Python operators to unfold\<close>

subsection \<open>Python values and exceptions\<close>

text \<open>
  \<open>PObj i c attrs\<close> is an instance with identity \<open>i\<close> of a class named \<open>c\<close>; an iterable
  object carries what its iterator yields in the attribute \<open>__iter__\<close>.
\<close>

datatype pyval =
    PNone
  | PBool bool
  | PInt int
  | PFloat rat
  | PStr string
  | PList "pyval list"
  | PTuple "pyval list"
  | PDict "(string \<times> pyval) list"
  | PObj nat string "(string \<times> pyval) list"

type_synonym dict = "(string \<times> pyval) list"

datatype exn = Exn (exn_type: string) (exn_str: string)

type_synonym 'a result = "exn + 'a"

text \<open>\<open>bool(v)\<close>, for instances without \<open>__bool__\<close> or \<open>__len__\<close>.\<close>

fun py_truthy :: "pyval \<Rightarrow> bool" where
  "py_truthy PNone = False"
| "py_truthy (PBool b) = b"
| "py_truthy (PInt i) = (i \<noteq> 0)"
| "py_truthy (PFloat r) = (r \<noteq> 0)"
| "py_truthy (PStr s) = (s \<noteq> [])"
| "py_truthy (PList xs) = (xs \<noteq> [])"
| "py_truthy (PTuple xs) = (xs \<noteq> [])"
| "py_truthy (PDict d) = (d \<noteq> [])"
| "py_truthy (PObj _ _ _) = True"

text \<open>\<open>type(v).__name__\<close>\<close>

fun type_name :: "pyval \<Rightarrow> string" where
  "type_name PNone = ''NoneType''"
| "type_name (PBool _) = ''bool''"
| "type_name (PInt _) = ''int''"
| "type_name (PFloat _) = ''float''"
| "type_name (PStr _) = ''str''"
| "type_name (PList _) = ''list''"
| "type_name (PTuple _) = ''tuple''"
| "type_name (PDict _) = ''dict''"
| "type_name (PObj _ c _) = c"

text \<open>\<open>getattr(v, name, None)\<close> for a data attribute; the built-in types have none of the
  attributes that the engine asks for.\<close>

fun py_getattr :: "pyval \<Rightarrow> string \<Rightarrow> pyval option" where
  "py_getattr (PObj _ _ attrs) a = map_of attrs a"
| "py_getattr _ a = None"

text \<open>\<open>a is b\<close> for instances; immutable built-ins are compared by value, and the engine
  uses \<open>is\<close> on node results and contexts only.\<close>

fun obj_id :: "pyval \<Rightarrow> nat option" where
  "obj_id (PObj i _ _) = Some i"
| "obj_id _ = None"

definition py_is :: "pyval \<Rightarrow> pyval \<Rightarrow> bool" where
  "py_is a b = (case (obj_id a, obj_id b) of
     (Some i, Some j) \<Rightarrow> i = j | (None, None) \<Rightarrow> a = b | _ \<Rightarrow> False)"

text \<open>
  The characters of a string, each with its continuation bytes: what iterating and slicing a
  \<open>str\<close> count.
\<close>

definition is_cont :: "char \<Rightarrow> bool" where
  "is_cont c = (let n = (of_char c :: nat) in 128 \<le> n \<and> n < 192)"

function utf8_chars :: "string \<Rightarrow> string list" where
  "utf8_chars [] = []"
| "utf8_chars (c # cs) = (c # takeWhile is_cont cs) # utf8_chars (dropWhile is_cont cs)"
  by pat_completeness auto
termination
  by (relation "measure length") (auto simp: less_Suc_eq_le length_dropWhile_le)

definition take_chars :: "nat \<Rightarrow> string \<Rightarrow> string" where
  "take_chars n s = concat (take n (utf8_chars s))"

text \<open>\<open>iter(v)\<close>: \<open>None\<close> where Python raises \<open>TypeError\<close>.\<close>

fun py_iter :: "pyval \<Rightarrow> pyval list option" where
  "py_iter (PList xs) = Some xs"
| "py_iter (PTuple xs) = Some xs"
| "py_iter (PStr s) = Some (map PStr (utf8_chars s))"
| "py_iter (PDict d) = Some (map (PStr \<circ> fst) d)"
| "py_iter (PObj _ _ attrs) = (case map_of attrs ''__iter__'' of
     Some (PList xs) \<Rightarrow> Some xs | _ \<Rightarrow> None)"
| "py_iter _ = None"

definition opt_str :: "string option \<Rightarrow> pyval" where
  "opt_str s = (case s of None \<Rightarrow> PNone | Some t \<Rightarrow> PStr t)"

text \<open>A \<open>str | None\<close> in a boolean position, and \<open>x or default\<close> on one.\<close>

definition truthy_str :: "string option \<Rightarrow> bool" where
  [py_defs]: "truthy_str s = (case s of None \<Rightarrow> False | Some t \<Rightarrow> t \<noteq> [])"

definition str_or :: "string option \<Rightarrow> string \<Rightarrow> string" where
  [py_defs]: "str_or s d = (case s of None \<Rightarrow> d | Some t \<Rightarrow> if t = [] then d else t)"

text \<open>\<open>f"{s}"\<close> for a \<open>str | None\<close>\<close>

definition fmt_opt :: "string option \<Rightarrow> string" where
  "fmt_opt s = (case s of None \<Rightarrow> ''None'' | Some t \<Rightarrow> t)"

lemma str_or_simps [simp]:
  "str_or None d = d" "str_or (Some []) d = d" "t \<noteq> [] \<Longrightarrow> str_or (Some t) d = t"
  by (simp_all add: py_defs)

lemma truthy_str_simps [simp]:
  "\<not> truthy_str None" "truthy_str (Some t) \<longleftrightarrow> t \<noteq> []"
  by (simp_all add: py_defs)

lemma truthy_strD [dest!]: "truthy_str v \<Longrightarrow> \<exists>t. v = Some t \<and> t \<noteq> []"
  by (cases v) auto

subsection \<open>Strings\<close>

definition em_dash :: string where
  "em_dash = [CHR 0xE2, CHR 0x80, CHR 0x94]"

definition ellipsis :: string where
  "ellipsis = [CHR 0xE2, CHR 0x80, CHR 0xA6]"

definition nl :: string where
  "nl = [CHR 10]"

text \<open>\<open>'...'\<close> around a text, as the messages write it\<close>

definition sq :: "string \<Rightarrow> string" where
  "sq s = [CHR 39] @ s @ [CHR 39]"

text \<open>\<open>str.lower()\<close>: the ASCII letters change, every other byte is kept.\<close>

definition lower_char :: "char \<Rightarrow> char" where
  "lower_char c = (let n = (of_char c :: nat) in if 65 \<le> n \<and> n \<le> 90 then char_of (n + 32) else c)"

definition py_lower :: "string \<Rightarrow> string" where
  "py_lower s = map lower_char s"

lemma py_lower_Nil [simp]: "py_lower [] = []"
  by (simp add: py_lower_def)

text \<open>\<open>str.strip()\<close>, for the ASCII white space\<close>

definition is_space :: "char \<Rightarrow> bool" where
  "is_space c = (let n = (of_char c :: nat) in 9 \<le> n \<and> n \<le> 13 \<or> 28 \<le> n \<and> n \<le> 32)"

definition py_strip :: "string \<Rightarrow> string" where
  "py_strip s = rev (dropWhile is_space (rev (dropWhile is_space s)))"

text \<open>\<open>needle in hay\<close> is \<^const>\<open>sublist\<close>, decided by its code equations.\<close>

abbreviation str_in :: "string \<Rightarrow> string \<Rightarrow> bool" where
  "str_in needle hay \<equiv> sublist needle hay"

fun show_nat :: "nat \<Rightarrow> string" where
  "show_nat n = (if n < 10 then [char_of (48 + n)]
     else show_nat (n div 10) @ [char_of (48 + n mod 10)])"

declare show_nat.simps [simp del]

definition show_int :: "int \<Rightarrow> string" where
  "show_int i = (if i < 0 then ''-'' @ show_nat (nat (- i)) else show_nat (nat i))"

text \<open>Rounding half to even, \<open>round(x, n)\<close> and the format \<open>{x:.2f}\<close>.\<close>

definition round_half_even :: "rat \<Rightarrow> int" where
  "round_half_even x =
     (let f = \<lfloor>x\<rfloor>; d = x - of_int f
      in if d < 1/2 then f else if d > 1/2 then f + 1 else if even f then f else f + 1)"

definition py_round :: "nat \<Rightarrow> rat \<Rightarrow> rat" where
  "py_round n x = of_int (round_half_even (x * 10 ^ n)) / 10 ^ n"

definition fmt2 :: "rat \<Rightarrow> string" where
  "fmt2 x = (let c = round_half_even (x * 100); a = nat \<bar>c\<bar>; r = a mod 100
     in (if c < 0 then ''-'' else []) @ show_nat (a div 100) @ ''.''
        @ (if r < 10 then ''0'' else []) @ show_nat r)"

definition show_bool :: "bool \<Rightarrow> string" where
  "show_bool b = (if b then ''True'' else ''False'')"

text \<open>\<open>sep.join(xs)\<close>\<close>

fun py_join :: "string \<Rightarrow> string list \<Rightarrow> string" where
  "py_join sep [] = []"
| "py_join sep [x] = x"
| "py_join sep (x # y # ys) = x @ sep @ py_join sep (y # ys)"

lemma round_half_even_int [simp]: "round_half_even (of_int i) = i"
  by (simp add: round_half_even_def Let_def)

lemma py_round_exact: "x * 10 ^ n = of_int i \<Longrightarrow> py_round n x = x"
  by (simp add: py_round_def field_simps)

subsection \<open>Dictionaries\<close>

lemma dict_get_set [dict_simps]:
  "map_of (AList.update k v d) j = (if j = k then Some v else map_of d j)"
  by (simp add: update_conv')

lemma dict_keys_set [dict_simps]:
  "fst ` set (AList.update k v d) = insert k (fst ` set d)"
  by (simp add: dom_update)

lemma dict_distinct_set [intro]:
  "distinct (map fst d) \<Longrightarrow> distinct (map fst (AList.update k v d))"
  by (rule distinct_update)

lemma dict_set_fresh [dict_simps]:
  "k \<notin> fst ` set d \<Longrightarrow> AList.update k v d = d @ [(k, v)]"
  by (induction d) auto

lemma dict_values_fresh:
  "k \<notin> fst ` set d \<Longrightarrow> map snd (AList.update k v d) = map snd d @ [v]"
  by (simp add: dict_set_fresh)

subsection \<open>\<open>max\<close> with a key\<close>

text \<open>\<open>max(xs, key=f)\<close> keeps the first of several maximal elements; \<open>None\<close> where Python
  raises \<open>ValueError\<close> on an empty sequence.\<close>

fun py_max :: "('a \<Rightarrow> 'k::linorder) \<Rightarrow> 'a list \<Rightarrow> 'a option" where
  "py_max f [] = None"
| "py_max f (x # xs) = Some (fold (\<lambda>y m. if f m < f y then y else m) xs x)"

lemma fold_max_mem:
  "fold (\<lambda>y m. if f m < f y then y else m) xs x \<in> insert x (set xs)"
  by (induction xs arbitrary: x) auto

lemma fold_max_ge:
  "f x \<le> f (fold (\<lambda>y m. if f m < (f y :: 'k::linorder) then y else m) xs x)"
proof (induction xs arbitrary: x)
  case (Cons a xs)
  show ?case
    using Cons.IH [of a] Cons.IH [of x] by (auto intro: order.trans less_imp_le)
qed simp

lemma fold_max_upper:
  "y \<in> set xs \<Longrightarrow> f y \<le> f (fold (\<lambda>y m. if f m < (f y :: 'k::linorder) then y else m) xs x)"
proof (induction xs arbitrary: x)
  case (Cons a xs)
  then show ?case
  proof (cases "y = a")
    case True
    show ?thesis
    proof (cases "f x < f a")
      case less: True
      then show ?thesis using True fold_max_ge [of f a xs] by simp
    next
      case False
      then show ?thesis using True fold_max_ge [of f x xs] by (auto intro: order.trans)
    qed
  qed simp
qed simp

lemma py_max_Some: "py_max f xs = Some m \<Longrightarrow> m \<in> set xs \<and> (\<forall>x. x \<in> set xs \<longrightarrow> f x \<le> f m)"
  by (cases xs) (use fold_max_mem fold_max_ge fold_max_upper in \<open>fastforce+\<close>)

lemma py_max_None [simp]: "py_max f xs = None \<longleftrightarrow> xs = []"
  by (cases xs) auto

lemma py_max_snoc:
  "py_max f (xs @ [y]) = (case py_max f xs of None \<Rightarrow> Some y
     | Some m \<Rightarrow> Some (if f m < f y then y else m))"
  by (cases xs) auto

lemma py_max_last:
  "(\<And>x. x \<in> set xs \<Longrightarrow> f x < f y) \<Longrightarrow> py_max f (xs @ [y]) = Some y"
  by (auto simp: py_max_snoc split: option.splits dest: py_max_Some)

lemma find_append:
  "find P (xs @ ys) = (case find P xs of None \<Rightarrow> find P ys | Some x \<Rightarrow> Some x)"
  by (induction xs) auto

lemma py_max_first:
  "py_max f xs = Some m \<Longrightarrow> find (\<lambda>x. f x = f m) xs = Some m"
proof (induction xs arbitrary: m rule: rev_induct)
  case (snoc y xs)
  show ?case
  proof (cases "py_max f xs")
    case None
    with snoc.prems show ?thesis by simp
  next
    case (Some m')
    show ?thesis
    proof (cases "f m' < f y")
      case True
      with snoc.prems Some have "m = y" by (simp add: py_max_snoc)
      moreover have "find (\<lambda>x. f x = f y) xs = None"
        using py_max_Some [OF Some] True by (auto simp: find_None_iff)
      ultimately show ?thesis by (simp add: find_append)
    next
      case False
      with snoc.prems Some have "m = m'" by (simp add: py_max_snoc)
      with snoc.IH [OF Some] show ?thesis by (simp add: find_append)
    qed
  qed
qed simp

subsection \<open>First match in a list\<close>

text \<open>The loops \<open>for x in xs: if p(x): return x\<close> are \<^const>\<open>List.find\<close>.\<close>

lemma find_map_filter: "find P xs = (case filter P xs of [] \<Rightarrow> None | x # _ \<Rightarrow> Some x)"
  by (induction xs) auto

lemma find_SomeD: "find P xs = Some x \<Longrightarrow> x \<in> set xs \<and> P x"
  by (auto simp: find_Some_iff)

lemma find_eq_None: "find P xs = None \<longleftrightarrow> (\<forall>x. x \<in> set xs \<longrightarrow> \<not> P x)"
  by (auto simp: find_None_iff)

lemma find_rev_SomeD:
  "find P (rev xs) = Some x \<Longrightarrow>
     \<exists>ys zs. xs = ys @ x # zs \<and> P x \<and> (\<forall>z. z \<in> set zs \<longrightarrow> \<not> P z)"
proof (induction xs rule: rev_induct)
  case (snoc a xs)
  show ?case
  proof (cases "P a")
    case True
    with snoc.prems show ?thesis
      by (intro exI [of _ xs] exI [of _ "[]"]) simp
  next
    case False
    with snoc obtain ys zs where "xs = ys @ x # zs" "P x" "\<forall>z. z \<in> set zs \<longrightarrow> \<not> P z"
      by auto
    with False show ?thesis by (intro exI [of _ ys] exI [of _ "zs @ [a]"]) auto
  qed
qed simp

lemma takeWhile_find:
  "find P xs = Some x \<Longrightarrow> xs = takeWhile (\<lambda>y. \<not> P y) xs @ x # tl (dropWhile (\<lambda>y. \<not> P y) xs)"
  by (induction xs) (auto split: if_splits)

subsection \<open>Clock and UUID source\<close>

text \<open>
  \<open>datetime.now(timezone.utc)\<close> and \<open>uuid4()\<close> read the outside world. Successive reads are
  the successive values of two sequences; the theorems that need it assume the clock to be
  monotone or the UUIDs to be distinct.
\<close>

record env =
  clock :: "nat \<Rightarrow> int"
  ticks :: nat
  uuids :: "nat \<Rightarrow> string"
  uuids_used :: nat

definition utc_now :: "env \<Rightarrow> int \<times> env" where
  "utc_now e = (clock e (ticks e), e\<lparr>ticks := Suc (ticks e)\<rparr>)"

definition uuid4 :: "env \<Rightarrow> string \<times> env" where
  "uuid4 e = (uuids e (uuids_used e), e\<lparr>uuids_used := Suc (uuids_used e)\<rparr>)"

lemma utc_now_simps [simp]:
  "fst (utc_now e) = clock e (ticks e)"
  "snd (utc_now e) = e\<lparr>ticks := Suc (ticks e)\<rparr>"
  by (simp_all add: utc_now_def)

lemma uuid4_simps [simp]:
  "fst (uuid4 e) = uuids e (uuids_used e)"
  "snd (uuid4 e) = e\<lparr>uuids_used := Suc (uuids_used e)\<rparr>"
  by (simp_all add: uuid4_def)

text \<open>
  The text functions of the standard library whose results the engine only passes on:
  \<open>str\<close> and \<open>repr\<close> of a value, \<open>datetime.isoformat\<close>, \<open>hashlib.sha256(..).hexdigest()\<close>,
  \<open>json.dumps(v, sort_keys=True, default=str)\<close> (the text or the exception),
  \<open>json.loads\<close>, the file format \<open>json.dump(v, f, indent=2, sort_keys=True)\<close> and the one-line
  \<open>json.dumps(v, ensure_ascii=False)\<close>, \<open>datetime.fromisoformat\<close>, \<open>dict(v)\<close> of a value that is not
  a dictionary; and the reflective views of a user's object: \<open>dataclasses.asdict\<close> for a
  dataclass instance, the call of its \<open>to_dict\<close> method, and its \<open>__dict__\<close>.
\<close>

record runtime =
  rt_str :: "pyval \<Rightarrow> string"
  rt_repr :: "pyval \<Rightarrow> string"
  rt_iso :: "int \<Rightarrow> string"
  rt_sha256 :: "string \<Rightarrow> string"
  rt_dumps :: "pyval \<Rightarrow> string result"
  rt_loads :: "string \<Rightarrow> pyval result"
  rt_dump_pretty :: "pyval \<Rightarrow> string result"
  rt_dump_line :: "pyval \<Rightarrow> string result"
  rt_fromiso :: "string \<Rightarrow> int result"
  rt_dict :: "pyval \<Rightarrow> (string \<times> pyval) list result"
  rt_asdict :: "pyval \<Rightarrow> pyval result option"
  rt_to_dict :: "pyval \<Rightarrow> pyval result option"
  rt_obj_dict :: "pyval \<Rightarrow> pyval option"

text \<open>\<open>str(v)\<close>: the identity on strings.\<close>

fun py_str :: "runtime \<Rightarrow> pyval \<Rightarrow> string" where
  "py_str rt (PStr s) = s"
| "py_str rt v = rt_str rt v"

subsection \<open>Concrete inputs\<close>

text \<open>
  A runtime with simple texts, a clock that counts microseconds and UUIDs of growing length:
  the theorems with hypotheses are instantiated at these.
\<close>

definition demo_rt :: runtime where
  "demo_rt = \<lparr>rt_str = (\<lambda>_. ''v''), rt_repr = (\<lambda>_. ''r''), rt_iso = show_int,
     rt_sha256 = (\<lambda>s. ''h'' @ s), rt_dumps = (\<lambda>_. Inr ''1''), rt_loads = (\<lambda>_. Inr (PInt 1)), rt_dump_pretty = (\<lambda>_. Inr ''1''),
     rt_dump_line = (\<lambda>_. Inr ''1''), rt_fromiso = (\<lambda>_. Inr 0), rt_dict = (\<lambda>_. Inr []),
     rt_asdict = (\<lambda>_. None), rt_to_dict = (\<lambda>_. None), rt_obj_dict = (\<lambda>_. None)\<rparr>"

definition demo_env :: env where
  "demo_env = \<lparr>clock = int, ticks = 0, uuids = (\<lambda>n. replicate n (CHR ''u'')), uuids_used = 0\<rparr>"

end
