(* ===== verification/Execution.thy ===== *)
theory Execution
  imports Prelude
begin

text \<open>
  Pipeline runs as data: the status enumerations (\<open>core/pipeline/status.py\<close>), the frozen
  records \<open>NodeExecution\<close> and \<open>PipelineExecution\<close> with their properties
  (\<open>core/pipeline/executor.py\<close>), the observability event
  (\<open>core/observability/events.py\<close>), and the node contract \<open>PipelineNode.execute\<close> over a
  shared \<open>PipelineContext\<close> (\<open>core/pipeline/node.py\<close>, \<open>core/pipeline/context.py\<close>).
\<close>

subsection \<open>Status enumerations\<close>

datatype node_status =
    N_PENDING | N_RUNNING | N_SUCCESS | N_FAILED | N_SKIPPED | N_ROLLED_BACK

fun node_status_value :: "node_status \<Rightarrow> string" where
  "node_status_value N_PENDING = ''pending''"
| "node_status_value N_RUNNING = ''running''"
| "node_status_value N_SUCCESS = ''success''"
| "node_status_value N_FAILED = ''failed''"
| "node_status_value N_SKIPPED = ''skipped''"
| "node_status_value N_ROLLED_BACK = ''rolled_back''"

datatype pipeline_status =
    P_CREATED | P_RUNNING | P_SUCCESS | P_FAILED | P_ROLLING_BACK | P_ROLLED_BACK

fun pipeline_status_value :: "pipeline_status \<Rightarrow> string" where
  "pipeline_status_value P_CREATED = ''created''"
| "pipeline_status_value P_RUNNING = ''running''"
| "pipeline_status_value P_SUCCESS = ''success''"
| "pipeline_status_value P_FAILED = ''failed''"
| "pipeline_status_value P_ROLLING_BACK = ''rolling_back''"
| "pipeline_status_value P_ROLLED_BACK = ''rolled_back''"

subsection \<open>Node and pipeline executions\<close>

record node_execution =
  ne_execution_id :: string
  ne_node_id :: string
  ne_status :: node_status
  ne_started_at :: int
  ne_finished_at :: "int option"
  ne_input_metadata :: dict
  ne_output_metadata :: dict
  ne_error_type :: "string option"
  ne_error_message :: "string option"
  ne_checkpoint_id :: "string option"

text \<open>Instants are microseconds, so a difference over \<open>10^6\<close> is \<open>total_seconds()\<close>.\<close>

definition duration_seconds :: "node_execution \<Rightarrow> rat option" where
  "duration_seconds n =
     (case ne_finished_at n of None \<Rightarrow> None
      | Some f \<Rightarrow> Some (of_int (f - ne_started_at n) / 1000000))"

record pipeline_execution =
  pe_execution_id :: string
  pe_status :: pipeline_status
  pe_nodes :: "node_execution list"
  pe_started_at :: int
  pe_finished_at :: "int option"

definition failed_node :: "pipeline_execution \<Rightarrow> node_execution option" where
  "failed_node e = find (\<lambda>n. ne_status n = N_FAILED) (pe_nodes e)"

definition last_successful_node :: "pipeline_execution \<Rightarrow> node_execution option" where
  "last_successful_node e = find (\<lambda>n. ne_status n = N_SUCCESS) (rev (pe_nodes e))"

lemma failed_node_SomeD:
  "failed_node e = Some n \<Longrightarrow> n \<in> set (pe_nodes e) \<and> ne_status n = N_FAILED"
  by (auto simp: failed_node_def dest: find_SomeD)

lemma failed_node_None:
  "failed_node e = None \<longleftrightarrow> (\<forall>n. n \<in> set (pe_nodes e) \<longrightarrow> ne_status n \<noteq> N_FAILED)"
  by (simp add: failed_node_def find_eq_None)

lemma last_successful_node_SomeD:
  "last_successful_node e = Some n \<Longrightarrow> n \<in> set (pe_nodes e) \<and> ne_status n = N_SUCCESS"
  by (auto simp: last_successful_node_def dest: find_SomeD)

subsection \<open>Observability events\<close>

record node_event =
  ev_execution_id :: string
  ev_pipeline_id :: string
  ev_node_id :: string
  ev_event_type :: string
  ev_timestamp :: int
  ev_status :: "string option"
  ev_message :: "string option"
  ev_metadata :: dict

subsection \<open>The shared context and the node contract\<close>

record pipeline_context =
  cx_execution_id :: string
  cx_pipeline_id :: string
  cx_artifacts :: dict
  cx_metadata :: dict
  cx_node_outputs :: dict
  cx_node_status :: "(string \<times> string) list"
  cx_started_at :: int
  cx_finished_at :: "int option"

definition set_artifact :: "string \<Rightarrow> pyval \<Rightarrow> pipeline_context \<Rightarrow> pipeline_context" where
  "set_artifact name artifact c = c\<lparr>cx_artifacts := AList.update name artifact (cx_artifacts c)\<rparr>"

text \<open>\<open>str(KeyError(m))\<close> is the quoted \<open>m\<close>.\<close>

definition get_artifact :: "string \<Rightarrow> pipeline_context \<Rightarrow> pyval result" where
  "get_artifact name c =
     (case map_of (cx_artifacts c) name of
        None \<Rightarrow> Inl (Exn ''KeyError'' (sq (''Artifact not found: '' @ name)))
      | Some a \<Rightarrow> Inr a)"

definition set_node_output :: "string \<Rightarrow> pyval \<Rightarrow> pipeline_context \<Rightarrow> pipeline_context" where
  "set_node_output nid v c = c\<lparr>cx_node_outputs := AList.update nid v (cx_node_outputs c)\<rparr>"

definition set_node_status :: "string \<Rightarrow> string \<Rightarrow> pipeline_context \<Rightarrow> pipeline_context" where
  "set_node_status nid st c = c\<lparr>cx_node_status := AList.update nid st (cx_node_status c)\<rparr>"

definition finish :: "int \<Rightarrow> pipeline_context \<Rightarrow> pipeline_context" where
  "finish now c = c\<lparr>cx_finished_at := Some now\<rparr>"

record node_result =
  nr_node_id :: string
  nr_status :: node_status
  nr_output :: pyval
  nr_error_type :: "string option"
  nr_error_message :: "string option"
  nr_metadata :: dict

text \<open>
  The hooks are the subclass's code: each may change the shared context and returns or raises.
\<close>

record pipeline_node =
  pn_node_id :: string
  pn_version :: string
  pn_validate_input :: "pipeline_context \<Rightarrow> pipeline_context \<times> unit result"
  pn_run :: "pipeline_context \<Rightarrow> pipeline_context \<times> pyval result"
  pn_validate_output :: "pyval \<Rightarrow> pipeline_context \<Rightarrow> pipeline_context \<times> unit result"

text \<open>\<open>PipelineNode.__init__\<close> refuses an empty identifier; the hooks come from the class.\<close>

definition pipeline_node_init :: "string \<Rightarrow> string \<Rightarrow> pipeline_node \<Rightarrow> pipeline_node result" where
  "pipeline_node_init nid version self =
     (if nid = [] then Inl (Exn ''ValueError'' ''node_id cannot be empty.'')
      else Inr (self\<lparr>pn_node_id := nid, pn_version := version\<rparr>))"

definition node_body :: "pipeline_node \<Rightarrow> pipeline_context \<Rightarrow> pipeline_context \<times> pyval result" where
  "node_body n c =
     (case pn_validate_input n c of
        (c1, Inl e) \<Rightarrow> (c1, Inl e)
      | (c1, Inr _) \<Rightarrow>
          (case pn_run n c1 of
             (c2, Inl e) \<Rightarrow> (c2, Inl e)
           | (c2, Inr out) \<Rightarrow>
               (case pn_validate_output n out c2 of
                  (c3, Inl e) \<Rightarrow> (c3, Inl e)
                | (c3, Inr _) \<Rightarrow> (c3, Inr out))))"

definition node_execute :: "pipeline_node \<Rightarrow> pipeline_context \<Rightarrow> pipeline_context \<times> node_result" where
  "node_execute n c =
     (let c0 = set_node_status (pn_node_id n) (node_status_value N_RUNNING) c in
      case node_body n c0 of
        (c3, Inr out) \<Rightarrow>
          (let c4 = set_node_output (pn_node_id n) out c3;
               c5 = set_node_status (pn_node_id n) (node_status_value N_SUCCESS) c4
           in (c5, \<lparr>nr_node_id = pn_node_id n, nr_status = N_SUCCESS, nr_output = out,
                    nr_error_type = None, nr_error_message = None,
                    nr_metadata = [(''node_version'', PStr (pn_version n))]\<rparr>))
      | (c3, Inl e) \<Rightarrow>
          (set_node_status (pn_node_id n) (node_status_value N_FAILED) c3,
           \<lparr>nr_node_id = pn_node_id n, nr_status = N_FAILED, nr_output = PNone,
            nr_error_type = Some (exn_type e), nr_error_message = Some (exn_str e),
            nr_metadata = [(''node_version'', PStr (pn_version n))]\<rparr>))"

definition checkpoint_metadata :: "pipeline_node \<Rightarrow> pipeline_context \<Rightarrow> dict" where
  "checkpoint_metadata n c =
     [(''node_id'', PStr (pn_node_id n)),
      (''node_version'', PStr (pn_version n)),
      (''execution_id'', PStr (cx_execution_id c)),
      (''pipeline_id'', PStr (cx_pipeline_id c))]"

lemma set_node_status_get [simp]:
  "map_of (cx_node_status (set_node_status nid st c)) j =
     (if j = nid then Some st else map_of (cx_node_status c) j)"
  by (simp add: set_node_status_def dict_simps)

lemma set_node_status_outputs [simp]:
  "cx_node_outputs (set_node_status nid st c) = cx_node_outputs c"
  by (simp add: set_node_status_def)

lemma set_node_output_get [simp]:
  "map_of (cx_node_outputs (set_node_output nid v c)) j =
     (if j = nid then Some v else map_of (cx_node_outputs c) j)"
  by (simp add: set_node_output_def dict_simps)

lemma artifact_get_after_set:
  "get_artifact k (set_artifact name v c) = (if k = name then Inr v else get_artifact k c)"
  by (simp add: get_artifact_def set_artifact_def dict_simps)

lemmas node_execute_unfold = node_execute_def node_body_def Let_def

end
