(* ===== verification/Fault.thy ===== *)
theory Fault
  imports Execution
begin

text \<open>
  Fault detection and localization: the records of \<open>core/fault/models.py\<close>,
  \<open>FaultDetector\<close> (\<open>core/fault/detector.py\<close>) and \<open>FaultLocalizer\<close>
  (\<open>core/fault/localizer.py\<close>). Both analyzers are pure; the instant that the default factory
  of \<open>FaultReport.timestamp\<close> reads is the argument \<open>now\<close>.
\<close>

subsection \<open>Models\<close>

datatype fault_severity = LOW | MEDIUM | HIGH | CRITICAL

fun severity_value :: "fault_severity \<Rightarrow> string" where
  "severity_value LOW = ''low''"
| "severity_value MEDIUM = ''medium''"
| "severity_value HIGH = ''high''"
| "severity_value CRITICAL = ''critical''"

datatype fault_type =
    VALIDATION_ERROR | SCHEMA_MISMATCH | MISSING_ARTIFACT | CORRUPTED_ARTIFACT
  | DEPENDENCY_FAILURE | EXECUTION_ERROR | TIMEOUT | RESOURCE_ERROR | UNKNOWN

fun fault_type_value :: "fault_type \<Rightarrow> string" where
  "fault_type_value VALIDATION_ERROR = ''validation_error''"
| "fault_type_value SCHEMA_MISMATCH = ''schema_mismatch''"
| "fault_type_value MISSING_ARTIFACT = ''missing_artifact''"
| "fault_type_value CORRUPTED_ARTIFACT = ''corrupted_artifact''"
| "fault_type_value DEPENDENCY_FAILURE = ''dependency_failure''"
| "fault_type_value EXECUTION_ERROR = ''execution_error''"
| "fault_type_value TIMEOUT = ''timeout''"
| "fault_type_value RESOURCE_ERROR = ''resource_error''"
| "fault_type_value UNKNOWN = ''unknown''"

text \<open>Severities are ordered by operational urgency.\<close>

fun severity_rank :: "fault_severity \<Rightarrow> nat" where
  "severity_rank LOW = 0"
| "severity_rank MEDIUM = 1"
| "severity_rank HIGH = 2"
| "severity_rank CRITICAL = 3"

instantiation fault_severity :: linorder
begin

definition less_eq_fault_severity :: "fault_severity \<Rightarrow> fault_severity \<Rightarrow> bool" where
  "less_eq_fault_severity a b \<longleftrightarrow> severity_rank a \<le> severity_rank b"

definition less_fault_severity :: "fault_severity \<Rightarrow> fault_severity \<Rightarrow> bool" where
  "less_fault_severity a b \<longleftrightarrow> severity_rank a < severity_rank b"

instance
proof
  fix a b :: fault_severity
  show "a \<le> b \<Longrightarrow> b \<le> a \<Longrightarrow> a = b"
    by (cases a; cases b) (simp_all add: less_eq_fault_severity_def)
qed (auto simp: less_eq_fault_severity_def less_fault_severity_def)

end

record fault_report =
  fr_execution_id :: string
  fr_detected :: bool
  fr_observed_node :: "string option"
  fr_fault_type :: fault_type
  fr_severity :: fault_severity
  fr_message :: string
  fr_evidence :: dict
  fr_timestamp :: int

definition fault_report_to_dict :: "runtime \<Rightarrow> fault_report \<Rightarrow> dict" where
  "fault_report_to_dict rt f =
     [(''execution_id'', PStr (fr_execution_id f)),
      (''detected'', PBool (fr_detected f)),
      (''observed_node'', opt_str (fr_observed_node f)),
      (''fault_type'', PStr (fault_type_value (fr_fault_type f))),
      (''severity'', PStr (severity_value (fr_severity f))),
      (''message'', PStr (fr_message f)),
      (''evidence'', PDict (fr_evidence f)),
      (''timestamp'', PStr (rt_iso rt (fr_timestamp f)))]"

record fault_localization =
  fl_execution_id :: string
  fl_observed_node :: "string option"
  fl_probable_root_node :: "string option"
  fl_confidence :: rat
  fl_reasoning :: string
  fl_evidence :: "string list"

definition localization_to_dict :: "fault_localization \<Rightarrow> dict" where
  "localization_to_dict l =
     [(''execution_id'', PStr (fl_execution_id l)),
      (''observed_node'', opt_str (fl_observed_node l)),
      (''probable_root_node'', opt_str (fl_probable_root_node l)),
      (''confidence'', PFloat (fl_confidence l)),
      (''reasoning'', PStr (fl_reasoning l)),
      (''evidence'', PList (map PStr (fl_evidence l)))]"

subsection \<open>Detection\<close>

text \<open>\<open>node_said\<close> is the common prefix of the messages.\<close>

definition node_said :: "string \<Rightarrow> string \<Rightarrow> string" where
  "node_said node_id rest = ''Node '' @ sq node_id @ '' '' @ rest"

definition classify ::
  "string \<Rightarrow> string \<Rightarrow> string \<Rightarrow> string \<Rightarrow> fault_type \<times> fault_severity \<times> string" where
  "classify error_type error_message msg_lower node_id =
     (if error_type = ''KeyError'' then
        (if str_in ''column'' msg_lower then
           (SCHEMA_MISMATCH, HIGH,
            node_said node_id (''raised KeyError referencing a missing column: '' @ error_message))
         else
           (SCHEMA_MISMATCH, MEDIUM,
            node_said node_id (''raised KeyError '' @ em_dash @ '' expected key missing: '' @ error_message)))
      else if error_type = ''FileNotFoundError'' then
        (MISSING_ARTIFACT, HIGH,
         node_said node_id (''could not locate a required artifact or file: '' @ error_message))
      else if error_type = ''ValueError'' then
        (if str_in ''output validation'' msg_lower then
           (VALIDATION_ERROR, HIGH,
            node_said node_id (''failed output validation: '' @ error_message))
         else if str_in ''validation'' msg_lower then
           (VALIDATION_ERROR, MEDIUM,
            node_said node_id (''encountered a validation error: '' @ error_message))
         else
           (EXECUTION_ERROR, MEDIUM,
            node_said node_id (''raised ValueError: '' @ error_message)))
      else if error_type = ''TimeoutError'' then
        (TIMEOUT, HIGH, node_said node_id (''timed out during execution: '' @ error_message))
      else if error_type = ''MemoryError'' then
        (RESOURCE_ERROR, CRITICAL,
         node_said node_id (''exhausted available memory: '' @ error_message))
      else if error_type = ''PermissionError'' then
        (if list_ex (\<lambda>kw. str_in kw msg_lower)
              [''integrity'', ''tamper'', ''corrupt'', ''security''] then
           (CORRUPTED_ARTIFACT, CRITICAL,
            node_said node_id (''PermissionError with integrity/security hint: '' @ error_message))
         else
           (MISSING_ARTIFACT, HIGH,
            node_said node_id (''was denied access to a required resource: '' @ error_message)))
      else if error_type = ''SecurityError'' \<or> error_type = ''IntegrityError'' then
        (CORRUPTED_ARTIFACT, CRITICAL,
         node_said node_id (''raised '' @ error_type
           @ '' indicating potential data corruption or security event: '' @ error_message))
      else if error_type = ''RuntimeError'' then
        (if str_in ''dependency'' msg_lower then
           (DEPENDENCY_FAILURE, HIGH,
            node_said node_id (''reported a dependency failure: '' @ error_message))
         else
           (EXECUTION_ERROR, MEDIUM,
            node_said node_id (''raised RuntimeError: '' @ error_message)))
      else if error_type \<noteq> [] then
        (EXECUTION_ERROR, MEDIUM,
         node_said node_id (''raised '' @ error_type @ '': '' @ error_message))
      else
        (UNKNOWN, MEDIUM,
         node_said node_id (''failed with an unclassified error. Message: '' @ error_message)))"

definition detect :: "int \<Rightarrow> pipeline_execution \<Rightarrow> fault_report" where
  "detect now execution =
     (if pe_status execution = P_SUCCESS then
        \<lparr>fr_execution_id = pe_execution_id execution, fr_detected = False,
         fr_observed_node = None, fr_fault_type = UNKNOWN, fr_severity = LOW,
         fr_message = ''Pipeline completed successfully. No fault detected.'',
         fr_evidence = [], fr_timestamp = now\<rparr>
      else
        (case failed_node execution of
           None \<Rightarrow>
             \<lparr>fr_execution_id = pe_execution_id execution, fr_detected = True,
              fr_observed_node = None, fr_fault_type = UNKNOWN, fr_severity = HIGH,
              fr_message = ''Pipeline status is FAILED but no failed node was recorded. This is an unexpected execution state.'',
              fr_evidence = [(''pipeline_status'', PStr (pipeline_status_value (pe_status execution))),
                             (''node_count'', PInt (int (length (pe_nodes execution))))],
              fr_timestamp = now\<rparr>
         | Some failed \<Rightarrow>
             (let error_type = str_or (ne_error_type failed) [];
                  error_message = str_or (ne_error_message failed) [];
                  msg_lower = py_lower error_message;
                  evidence =
                    [(''node_id'', PStr (ne_node_id failed)),
                     (''error_type'', PStr error_type),
                     (''error_message'', PStr error_message),
                     (''node_status'', PStr (node_status_value (ne_status failed)))]
                    @ (if ne_input_metadata failed \<noteq> []
                       then [(''input_metadata'', PDict (ne_input_metadata failed))] else []);
                  (fault_type, severity, message) =
                    classify error_type error_message msg_lower (ne_node_id failed)
              in \<lparr>fr_execution_id = pe_execution_id execution, fr_detected = True,
                  fr_observed_node = Some (ne_node_id failed), fr_fault_type = fault_type,
                  fr_severity = severity, fr_message = message, fr_evidence = evidence,
                  fr_timestamp = now\<rparr>)))"

subsection \<open>Facts about detection\<close>

definition severity_of_fault :: "fault_type \<Rightarrow> fault_severity set" where
  "severity_of_fault t =
     (case t of CORRUPTED_ARTIFACT \<Rightarrow> {CRITICAL} | RESOURCE_ERROR \<Rightarrow> {CRITICAL}
      | MISSING_ARTIFACT \<Rightarrow> {HIGH} | TIMEOUT \<Rightarrow> {HIGH} | DEPENDENCY_FAILURE \<Rightarrow> {HIGH}
      | SCHEMA_MISMATCH \<Rightarrow> {MEDIUM, HIGH} | VALIDATION_ERROR \<Rightarrow> {MEDIUM, HIGH}
      | EXECUTION_ERROR \<Rightarrow> {MEDIUM} | UNKNOWN \<Rightarrow> {MEDIUM})"

lemma classify_severity:
  "classify et em ml nid = (t, sv, m) \<Longrightarrow> sv \<in> severity_of_fault t"
  unfolding classify_def by (auto simp: severity_of_fault_def split: if_splits)

lemma detect_success:
  "pe_status e = P_SUCCESS \<Longrightarrow>
     \<not> fr_detected (detect now e) \<and> fr_observed_node (detect now e) = None
     \<and> fr_severity (detect now e) = LOW \<and> fr_fault_type (detect now e) = UNKNOWN"
  by (simp add: detect_def)

lemma detect_execution_id [simp]: "fr_execution_id (detect now e) = pe_execution_id e"
  by (simp add: detect_def Let_def split: option.split prod.split)

lemma detect_detected [simp]: "fr_detected (detect now e) \<longleftrightarrow> pe_status e \<noteq> P_SUCCESS"
  by (simp add: detect_def Let_def split: option.split prod.split)

lemma detect_observed [simp]:
  "fr_observed_node (detect now e) =
     (if pe_status e = P_SUCCESS then None else map_option ne_node_id (failed_node e))"
  by (simp add: detect_def Let_def split: option.split prod.split)

lemma detect_failed:
  assumes "pe_status e \<noteq> P_SUCCESS" and "failed_node e = Some n"
  shows "fr_fault_type (detect now e) =
           fst (classify (str_or (ne_error_type n) []) (str_or (ne_error_message n) [])
                  (py_lower (str_or (ne_error_message n) [])) (ne_node_id n))"
    and "fr_severity (detect now e) =
           fst (snd (classify (str_or (ne_error_type n) []) (str_or (ne_error_message n) [])
                  (py_lower (str_or (ne_error_message n) [])) (ne_node_id n)))"
    and "map_of (fr_evidence (detect now e)) ''error_type'' = Some (PStr (str_or (ne_error_type n) []))"
    and "map_of (fr_evidence (detect now e)) ''error_message'' =
           Some (PStr (str_or (ne_error_message n) []))"
  using assms by (simp_all add: detect_def Let_def split: prod.split)

lemma detect_at:
  "detect now e = (detect 0 e)\<lparr>fr_timestamp := now\<rparr>"
  by (simp add: detect_def Let_def split: option.split prod.split)

lemma detect_severity_not_low:
  assumes "pe_status e \<noteq> P_SUCCESS"
  shows "fr_severity (detect now e) \<noteq> LOW"
proof (cases "failed_node e")
  case None
  with assms show ?thesis by (simp add: detect_def)
next
  case (Some n)
  obtain t sv m where c: "classify (str_or (ne_error_type n) []) (str_or (ne_error_message n) [])
      (py_lower (str_or (ne_error_message n) [])) (ne_node_id n) = (t, sv, m)"
    by (metis prod_cases3)
  with classify_severity [OF c] detect_failed(2) [OF assms Some] show ?thesis
    by (auto simp: severity_of_fault_def split: fault_type.splits)
qed

subsection \<open>Localization\<close>

text \<open>\<open>events_by_node.setdefault(event.node_id, []).append(event)\<close>\<close>

definition index_events :: "node_event list \<Rightarrow> (string \<times> node_event list) list" where
  "index_events events =
     fold (\<lambda>ev d. AList.update (ev_node_id ev)
             (case map_of d (ev_node_id ev) of None \<Rightarrow> [ev] | Some es \<Rightarrow> es @ [ev]) d)
       events []"

definition preceding_nodes :: "pipeline_execution \<Rightarrow> string \<Rightarrow> node_execution list" where
  "preceding_nodes execution observed =
     takeWhile (\<lambda>n. ne_node_id n \<noteq> observed) (pe_nodes execution)"

definition rule2_failed :: "node_execution \<Rightarrow> bool" where
  "rule2_failed candidate \<longleftrightarrow> ne_status candidate = N_FAILED"

definition rule3_event :: "(string \<times> node_event list) list \<Rightarrow> node_execution \<Rightarrow> bool" where
  "rule3_event by_node candidate \<longleftrightarrow>
     list_ex (\<lambda>ev. ev_event_type ev = ''output_validation_failed'')
       (case map_of by_node (ne_node_id candidate) of None \<Rightarrow> [] | Some es \<Rightarrow> es)"

definition rule4_metadata :: "runtime \<Rightarrow> node_execution \<Rightarrow> bool" where
  "rule4_metadata rt candidate \<longleftrightarrow>
     (let meta = ne_output_metadata candidate in
        map_of meta ''validation_failed'' = Some (PBool True)
        \<or> map_of meta ''output_validation'' = Some (PStr ''failed'')
        \<or> py_lower (py_str rt (case map_of meta ''validation_status'' of
              None \<Rightarrow> PStr [] | Some v \<Rightarrow> v)) = ''failed'')"

definition rule5_no_checkpoint :: "node_execution \<Rightarrow> bool" where
  "rule5_no_checkpoint candidate \<longleftrightarrow>
     ne_status candidate = N_SUCCESS \<and> ne_checkpoint_id candidate = None"

definition localized ::
  "pipeline_execution \<Rightarrow> string option \<Rightarrow> string option \<Rightarrow> rat \<Rightarrow> string \<Rightarrow> string list
     \<Rightarrow> fault_localization" where
  "localized execution observed culprit conf why evidence =
     \<lparr>fl_execution_id = pe_execution_id execution, fl_observed_node = observed,
      fl_probable_root_node = culprit, fl_confidence = conf, fl_reasoning = why,
      fl_evidence = evidence\<rparr>"

definition localize_rule2 ::
  "runtime \<Rightarrow> pipeline_execution \<Rightarrow> string \<Rightarrow> node_execution \<Rightarrow> fault_localization" where
  "localize_rule2 rt execution observed candidate =
     localized execution (Some observed) (Some (ne_node_id candidate)) (90/100)
       (''Preceding node '' @ sq (ne_node_id candidate)
         @ '' has status FAILED. This is the most direct upstream failure and is the probable root cause of the observed failure at ''
         @ sq observed @ ''.'')
       [''node '' @ sq (ne_node_id candidate) @ '' status=FAILED (error_type=''
         @ rt_repr rt (opt_str (ne_error_type candidate)) @ '')'']"

definition localize_rule3 ::
  "runtime \<Rightarrow> pipeline_execution \<Rightarrow> string \<Rightarrow> node_execution \<Rightarrow> fault_localization" where
  "localize_rule3 rt execution observed candidate =
     localized execution (Some observed) (Some (ne_node_id candidate)) (85/100)
       (''Observability event '' @ sq ''output_validation_failed''
         @ '' was recorded for preceding node '' @ sq (ne_node_id candidate)
         @ ''. This strongly suggests the root cause is upstream of the observed failure at ''
         @ sq observed @ ''.'')
       [''event output_validation_failed for node '' @ sq (ne_node_id candidate)
         @ '' (event_type='' @ rt_repr rt (PStr ''output_validation_failed'') @ '')'']"

definition localize_rule4 ::
  "runtime \<Rightarrow> pipeline_execution \<Rightarrow> string \<Rightarrow> node_execution \<Rightarrow> fault_localization" where
  "localize_rule4 rt execution observed candidate =
     localized execution (Some observed) (Some (ne_node_id candidate)) (85/100)
       (''Preceding node '' @ sq (ne_node_id candidate)
         @ '' has output_metadata indicating output validation failure. This is the probable root cause of the observed failure at ''
         @ sq observed @ ''.'')
       [''node '' @ sq (ne_node_id candidate) @ '' output_metadata indicates validation failure: ''
         @ py_str rt (PDict (ne_output_metadata candidate))]"

definition localize_rule5 ::
  "pipeline_execution \<Rightarrow> string \<Rightarrow> node_execution \<Rightarrow> fault_localization" where
  "localize_rule5 execution observed candidate =
     localized execution (Some observed) (Some (ne_node_id candidate)) (75/100)
       (''Preceding node '' @ sq (ne_node_id candidate)
         @ '' has status SUCCESS but no checkpoint_id was recorded. This suggests the node output may have been invalid or unpersisted, possibly causing the downstream failure at ''
         @ sq observed @ ''.'')
       [''node '' @ sq (ne_node_id candidate)
         @ '' succeeded but has no checkpoint_id (artifact may be invalid)'']"

definition localize_rule6 :: "pipeline_execution \<Rightarrow> string \<Rightarrow> fault_localization" where
  "localize_rule6 execution observed =
     localized execution (Some observed) (Some observed) (55/100)
       (''No upstream evidence was found to shift root cause away from the observed failure node ''
         @ sq observed
         @ ''. The observed node is the most likely root cause, but confidence is conservative without further evidence.'')
       [''only_evidence: node '' @ sq observed @ '' raised the observed exception'']"

definition localize ::
  "runtime \<Rightarrow> pipeline_execution \<Rightarrow> fault_report \<Rightarrow> node_event list \<Rightarrow> fault_localization" where
  "localize rt execution fault events =
     (if \<not> fr_detected fault then
        localized execution None None 1
          ''Pipeline completed successfully. No fault localization required.'' []
      else (case fr_observed_node fault of
        None \<Rightarrow>
          localized execution None None (30/100)
            ''Fault was detected but no failed node was recorded. Root cause cannot be determined.''
            [''fault_detected_without_node'']
      | Some observed \<Rightarrow>
          (let by_node = index_events events;
               candidates = rev (preceding_nodes execution observed)
           in case find rule2_failed candidates of
                Some c \<Rightarrow> localize_rule2 rt execution observed c
              | None \<Rightarrow>
                (case find (rule3_event by_node) candidates of
                   Some c \<Rightarrow> localize_rule3 rt execution observed c
                 | None \<Rightarrow>
                   (case find (rule4_metadata rt) candidates of
                      Some c \<Rightarrow> localize_rule4 rt execution observed c
                    | None \<Rightarrow>
                      (case find rule5_no_checkpoint candidates of
                         Some c \<Rightarrow> localize_rule5 execution observed c
                       | None \<Rightarrow> localize_rule6 execution observed))))))"

subsection \<open>Facts about localization\<close>

lemma index_events_lookup:
  "map_of (index_events evs) i =
     (let es = filter (\<lambda>ev. ev_node_id ev = i) evs in if es = [] then None else Some es)"
  by (induction evs rule: rev_induct)
    (auto simp: index_events_def Let_def dict_simps split: option.splits if_splits)

lemma rule3_event_iff:
  "rule3_event (index_events evs) c \<longleftrightarrow>
     list_ex (\<lambda>ev. ev_node_id ev = ne_node_id c
                   \<and> ev_event_type ev = ''output_validation_failed'') evs"
  by (auto simp: rule3_event_def index_events_lookup Let_def list_ex_iff filter_empty_conv
      split: option.splits if_splits)

lemmas localize_rules =
  localize_rule2_def localize_rule3_def localize_rule4_def localize_rule5_def localize_rule6_def
  localized_def

lemma localize_ids [simp]: "fl_execution_id (localize rt e f evs) = pe_execution_id e"
  by (simp add: localize_def localize_rules Let_def split: option.split)

lemma localize_observed [simp]:
  "fl_observed_node (localize rt e f evs) = (if fr_detected f then fr_observed_node f else None)"
  by (simp add: localize_def localize_rules Let_def split: option.split)

lemma localize_at [simp]: "localize rt e (f\<lparr>fr_timestamp := t\<rparr>) evs = localize rt e f evs"
  by (simp add: localize_def)

lemma preceding_nodes_subset: "set (preceding_nodes e obs) \<subseteq> set (pe_nodes e)"
  by (auto simp: preceding_nodes_def dest: set_takeWhileD)

text \<open>Nodes that ran before the first failed one did not fail.\<close>

lemma preceding_not_failed:
  assumes "failed_node e = Some n" and "c \<in> set (preceding_nodes e (ne_node_id n))"
  shows "ne_status c \<noteq> N_FAILED"
proof -
  have "takeWhile (\<lambda>m. ne_node_id m \<noteq> ne_node_id n) ns
        = takeWhile (\<lambda>m. ne_node_id m \<noteq> ne_node_id n) (takeWhile (\<lambda>m. ne_status m \<noteq> N_FAILED) ns)"
    if "find (\<lambda>n. ne_status n = N_FAILED) ns = Some n" for ns
    using that by (induction ns) (auto split: if_splits)
  with assms have "c \<in> set (takeWhile (\<lambda>m. ne_status m \<noteq> N_FAILED) (pe_nodes e))"
    by (auto simp: preceding_nodes_def failed_node_def dest: set_takeWhileD)
  then show ?thesis by (auto dest: set_takeWhileD)
qed

lemma localize_confidence_le:
  "fr_detected f \<Longrightarrow> fl_confidence (localize rt e f evs) \<le> 95/100"
  by (simp add: localize_def localize_rules Let_def split: option.split)

text \<open>
  The strength of the upstream evidence against a node, and the node with the strongest
  evidence, the nearest one to the observed failure among equals.
\<close>

definition evidence_level :: "runtime \<Rightarrow> node_event list \<Rightarrow> node_execution \<Rightarrow> nat" where
  "evidence_level rt evs c =
     (if ne_status c = N_FAILED then 4
      else if list_ex (\<lambda>ev. ev_node_id ev = ne_node_id c
                \<and> ev_event_type ev = ''output_validation_failed'') evs then 3
      else if rule4_metadata rt c then 2
      else if ne_status c = N_SUCCESS \<and> ne_checkpoint_id c = None then 1
      else 0)"

definition localize_spec ::
  "runtime \<Rightarrow> pipeline_execution \<Rightarrow> string \<Rightarrow> node_event list \<Rightarrow> fault_localization" where
  "localize_spec rt e obs evs =
     (case py_max (evidence_level rt evs) (rev (preceding_nodes e obs)) of
        None \<Rightarrow> localize_rule6 e obs
      | Some c \<Rightarrow>
          (case evidence_level rt evs c of
             0 \<Rightarrow> localize_rule6 e obs
           | Suc 0 \<Rightarrow> localize_rule5 e obs c
           | Suc (Suc 0) \<Rightarrow> localize_rule4 rt e obs c
           | Suc (Suc (Suc 0)) \<Rightarrow> localize_rule3 rt e obs c
           | _ \<Rightarrow> localize_rule2 rt e obs c))"

lemma find_level:
  assumes m: "py_max f xs = Some m" and P: "\<And>x. x \<in> set xs \<Longrightarrow> P x \<longleftrightarrow> f x = f m"
  shows "find P xs = Some m"
proof -
  have "find P xs = find (\<lambda>x. f x = f m) xs"
    by (rule find_cong [OF refl P])
  with py_max_first [OF m] show ?thesis by simp
qed

lemma find_below:
  assumes m: "py_max f xs = Some m" and P: "\<And>x. x \<in> set xs \<Longrightarrow> P x \<Longrightarrow> f m < (f x :: 'k::linorder)"
  shows "find P xs = None"
  using py_max_Some [OF m] P by (auto simp: find_eq_None not_less [symmetric])

lemma evidence_level_alt:
  "evidence_level rt evs c =
     (if rule2_failed c then 4 else if rule3_event (index_events evs) c then 3
      else if rule4_metadata rt c then 2 else if rule5_no_checkpoint c then 1 else 0)"
  by (simp add: evidence_level_def rule2_failed_def rule3_event_iff rule5_no_checkpoint_def)

text \<open>The cascade of scans is one search for the maximal level.\<close>

lemma localize_spec_chain:
  "localize_spec rt e obs evs =
      (let cs = rev (preceding_nodes e obs) in
       case find rule2_failed cs of Some c \<Rightarrow> localize_rule2 rt e obs c
       | None \<Rightarrow> (case find (rule3_event (index_events evs)) cs of Some c \<Rightarrow> localize_rule3 rt e obs c
       | None \<Rightarrow> (case find (rule4_metadata rt) cs of Some c \<Rightarrow> localize_rule4 rt e obs c
       | None \<Rightarrow> (case find rule5_no_checkpoint cs of Some c \<Rightarrow> localize_rule5 e obs c
       | None \<Rightarrow> localize_rule6 e obs))))"
proof (cases "py_max (evidence_level rt evs) (rev (preceding_nodes e obs))")
  case None
  then show ?thesis by (simp add: localize_spec_def)
next
  case (Some m)
  let ?f = "evidence_level rt evs" and ?cs = "rev (preceding_nodes e obs)"
  note alt = evidence_level_alt [of rt evs]
  have le: "?f x \<le> ?f m" if "x \<in> set ?cs" for x
    using py_max_Some [OF Some] that by blast
  consider (four) "?f m = 4" | (three) "?f m = 3" | (two) "?f m = 2" | (one) "?f m = 1"
    | (zero) "?f m = 0"
    by (metis evidence_level_alt)
  then show ?thesis
  proof cases
    case four
    have "find rule2_failed ?cs = Some m"
      using four by (intro find_level [OF Some]) (simp add: alt)
    with four Some show ?thesis by (simp add: localize_spec_def numeral_eq_Suc)
  next
    case three
    have "find rule2_failed ?cs = None"
      using three by (intro find_below [OF Some]) (simp add: alt)
    moreover have "find (rule3_event (index_events evs)) ?cs = Some m"
      
    proof (rule find_level [OF Some])
      fix x assume "x \<in> set ?cs"
      from le [OF this] three show "rule3_event (index_events evs) x \<longleftrightarrow> ?f x = ?f m"
        by (auto simp: alt [of x] split: if_splits)
    qed
    ultimately show ?thesis using three Some by (simp add: localize_spec_def numeral_eq_Suc)
  next
    case two
    have "find rule2_failed ?cs = None" "find (rule3_event (index_events evs)) ?cs = None"
      using two by (intro find_below [OF Some]; simp add: alt)+
    moreover have "find (rule4_metadata rt) ?cs = Some m"
      
    proof (rule find_level [OF Some])
      fix x assume "x \<in> set ?cs"
      from le [OF this] two show "rule4_metadata rt x \<longleftrightarrow> ?f x = ?f m"
        by (auto simp: alt [of x] split: if_splits)
    qed
    ultimately show ?thesis using two Some by (simp add: localize_spec_def numeral_eq_Suc)
  next
    case one
    have "find rule2_failed ?cs = None" "find (rule3_event (index_events evs)) ?cs = None"
      "find (rule4_metadata rt) ?cs = None"
      using one by (intro find_below [OF Some]; simp add: alt)+
    moreover have "find rule5_no_checkpoint ?cs = Some m"
      
    proof (rule find_level [OF Some])
      fix x assume "x \<in> set ?cs"
      from le [OF this] one show "rule5_no_checkpoint x \<longleftrightarrow> ?f x = ?f m"
        by (auto simp: alt [of x] split: if_splits)
    qed
    ultimately show ?thesis using one Some by (simp add: localize_spec_def)
  next
    case zero
    have "find rule2_failed ?cs = None" "find (rule3_event (index_events evs)) ?cs = None"
      "find (rule4_metadata rt) ?cs = None" "find rule5_no_checkpoint ?cs = None"
      using zero by (intro find_below [OF Some]; simp add: alt)+
    then show ?thesis using zero Some by (simp add: localize_spec_def)
  qed
qed

text \<open>FaultDetector.detect reports a fault exactly when the pipeline status is not SUCCESS; it names
  the first failed node; a report is CRITICAL exactly for corrupted artifacts and exhausted
  resources, and only the report of a successful run is LOW.\<close>

theorem detect_correct:
  "fr_detected (detect now e) = (pe_status e \<noteq> P_SUCCESS)
   \<and> fr_observed_node (detect now e)
       = (if pe_status e = P_SUCCESS then None else map_option ne_node_id (failed_node e))
   \<and> (fr_severity (detect now e) = CRITICAL)
       = (fr_fault_type (detect now e) \<in> {CORRUPTED_ARTIFACT, RESOURCE_ERROR})
   \<and> (fr_severity (detect now e) = LOW) = (pe_status e = P_SUCCESS)"
proof (cases "pe_status e = P_SUCCESS")
  case True
  then show ?thesis by (simp add: detect_def)
next
  case bad: False
  show ?thesis
  proof (cases "failed_node e")
    case None
    with bad show ?thesis by (simp add: detect_def)
  next
    case (Some n)
    obtain t sv m where c: "classify (str_or (ne_error_type n) []) (str_or (ne_error_message n) [])
        (py_lower (str_or (ne_error_message n) [])) (ne_node_id n) = (t, sv, m)"
      by (metis prod_cases3)
    with classify_severity [OF c] detect_failed(1,2) [OF bad Some] bad show ?thesis
      by (auto simp: severity_of_fault_def split: fault_type.splits)
  qed
qed

text \<open>C11: FaultLocalizer.localize, whose four rules each scan the upstream nodes, returns the upstream
  node with the strongest evidence (a FAILED status before a validation event before failed
  validation metadata before a missing checkpoint), the nearest one to the observed failure
  among equals, and the observed node itself only when no upstream node carries evidence.\<close>

theorem localize_strongest_nearest:
  "localize rt e f evs =
     (if \<not> fr_detected f then
        localized e None None 1 ''Pipeline completed successfully. No fault localization required.'' []
      else (case fr_observed_node f of
         None \<Rightarrow> localized e None None (30/100)
            ''Fault was detected but no failed node was recorded. Root cause cannot be determined.''
            [''fault_detected_without_node'']
       | Some obs \<Rightarrow> localize_spec rt e obs evs))"
proof -
  have "localize_spec rt e obs evs =
      (let cs = rev (preceding_nodes e obs) in
       case find rule2_failed cs of Some c \<Rightarrow> localize_rule2 rt e obs c
       | None \<Rightarrow> (case find (rule3_event (index_events evs)) cs of Some c \<Rightarrow> localize_rule3 rt e obs c
       | None \<Rightarrow> (case find (rule4_metadata rt) cs of Some c \<Rightarrow> localize_rule4 rt e obs c
       | None \<Rightarrow> (case find rule5_no_checkpoint cs of Some c \<Rightarrow> localize_rule5 e obs c
       | None \<Rightarrow> localize_rule6 e obs))))" for obs
    by (rule localize_spec_chain)
  then show ?thesis
    unfolding localize_def by (simp only: Let_def option.case_eq_if)
qed

end
