(* ===== verification/Checkpoints.thy ===== *)
theory Checkpoints
  imports Execution
begin

text \<open>
  The two checkpoint managers. \<open>cm_\<close> names model the file-backed manager that the pipeline
  executor and the recovery layers share (\<open>core/pipeline/checkpoints/manager.py\<close>), \<open>mm_\<close>
  names the in-memory one (\<open>core/checkpoints/manager.py\<close>, \<open>core/checkpoints/models.py\<close>).
  The locale \<open>checkpoint_store\<close> is what their clients rely on; both managers interpret it.
\<close>

subsection \<open>The file-backed manager\<close>

record checkpoint =
  ck_checkpoint_id :: string
  ck_execution_id :: string
  ck_node_id :: string
  ck_created_at :: int
  ck_node_version :: string
  ck_data_hash :: string
  ck_input_schema :: dict
  ck_output_schema :: dict
  ck_artifact_path :: "string option"
  ck_validation_status :: string
  ck_metadata :: dict

text \<open>
  \<open>mg_files\<close> is the directory: for a path that exists the JSON document that reading it gives, or the
  exception that opening, decoding or parsing it raises (a corrupt or unreadable file).
  \<open>mg_write_error\<close> is the environment's answer to opening a path for writing: the \<open>OSError\<close> it
  raises, if any.
\<close>

record manager =
  mg_root_dir :: string
  mg_checkpoints :: "(string \<times> checkpoint) list"
  mg_files :: "string \<rightharpoonup> pyval result"
  mg_write_error :: "string \<Rightarrow> exn option"

definition is_type_or_value_error :: "exn \<Rightarrow> bool" where
  "is_type_or_value_error e \<longleftrightarrow> exn_type e = ''TypeError'' \<or> exn_type e = ''ValueError''"

fun json_native :: "pyval \<Rightarrow> bool" where
  "json_native (PObj _ _ _) = False"
| "json_native PNone = False"
| "json_native _ = True"

text \<open>The serialization attempts in the order of the source; each falls through to the next.\<close>

definition serialize_repr :: "runtime \<Rightarrow> pyval \<Rightarrow> string result" where
  "serialize_repr rt a = rt_dumps rt (PStr (rt_repr rt a))"

definition serialize_obj_dict :: "runtime \<Rightarrow> pyval \<Rightarrow> string result" where
  "serialize_obj_dict rt a =
     (case rt_obj_dict rt a of
        None \<Rightarrow> serialize_repr rt a
      | Some d \<Rightarrow> (case rt_dumps rt d of
          Inr t \<Rightarrow> Inr t
        | Inl e \<Rightarrow> if is_type_or_value_error e then serialize_repr rt a else Inl e))"

definition serialize_to_dict :: "runtime \<Rightarrow> pyval \<Rightarrow> string result" where
  "serialize_to_dict rt a =
     (case rt_to_dict rt a of
        None \<Rightarrow> serialize_obj_dict rt a
      | Some r \<Rightarrow> (case (case r of Inl e \<Rightarrow> Inl e | Inr d \<Rightarrow> rt_dumps rt d) of
          Inr t \<Rightarrow> Inr t
        | Inl e \<Rightarrow> if is_type_or_value_error e then serialize_obj_dict rt a else Inl e))"

definition serialize_dataclass :: "runtime \<Rightarrow> pyval \<Rightarrow> string result" where
  "serialize_dataclass rt a =
     (case rt_asdict rt a of
        None \<Rightarrow> serialize_to_dict rt a
      | Some r \<Rightarrow> (case (case r of Inl e \<Rightarrow> Inl e | Inr d \<Rightarrow> rt_dumps rt d) of
          Inr t \<Rightarrow> Inr t
        | Inl e \<Rightarrow> serialize_to_dict rt a))"

definition serialize :: "runtime \<Rightarrow> pyval \<Rightarrow> string result" where
  "serialize rt a =
     (if a = PNone then Inr ''null''
      else if json_native a then
        (case rt_dumps rt a of
           Inr t \<Rightarrow> Inr t
         | Inl e \<Rightarrow> if is_type_or_value_error e then serialize_dataclass rt a else Inl e)
      else serialize_dataclass rt a)"

definition hash_artifact :: "runtime \<Rightarrow> pyval \<Rightarrow> string result" where
  "hash_artifact rt a =
     (case serialize rt a of Inl e \<Rightarrow> Inl e | Inr t \<Rightarrow> Inr (rt_sha256 rt t))"

definition artifact_file :: "string \<Rightarrow> string \<Rightarrow> string" where
  "artifact_file rdir cid = rdir @ ''/'' @ cid @ ''.json''"

definition metadata_file :: "string \<Rightarrow> string \<Rightarrow> string" where
  "metadata_file rdir cid = rdir @ ''/'' @ cid @ ''.metadata.json''"

definition write_json :: "string \<Rightarrow> pyval \<Rightarrow> manager \<Rightarrow> unit result \<times> manager" where
  "write_json path doc m =
     (case mg_write_error m path of
        Some e \<Rightarrow> (Inl e, m)
      | None \<Rightarrow> (Inr (), m\<lparr>mg_files := (mg_files m)(path \<mapsto> Inr doc)\<rparr>))"

definition store_artifact :: "runtime \<Rightarrow> string \<Rightarrow> pyval \<Rightarrow> manager \<Rightarrow> string result \<times> manager" where
  "store_artifact rt cid artifact m =
     (let path = artifact_file (mg_root_dir m) cid in
      case serialize rt artifact of
        Inl e \<Rightarrow> (Inl e, m)
      | Inr payload \<Rightarrow>
          (case rt_loads rt payload of
             Inl e \<Rightarrow> (Inl e, m)
           | Inr parsed \<Rightarrow>
               (case write_json path parsed m of
                  (Inl e, m') \<Rightarrow> (Inl e, m')
                | (Inr _, m') \<Rightarrow> (Inr path, m'))))"

definition checkpoint_dict :: "runtime \<Rightarrow> checkpoint \<Rightarrow> dict" where
  "checkpoint_dict rt c =
     [(''checkpoint_id'', PStr (ck_checkpoint_id c)),
      (''execution_id'', PStr (ck_execution_id c)),
      (''node_id'', PStr (ck_node_id c)),
      (''created_at'', PStr (rt_iso rt (ck_created_at c))),
      (''node_version'', PStr (ck_node_version c)),
      (''data_hash'', PStr (ck_data_hash c)),
      (''input_schema'', PDict (ck_input_schema c)),
      (''output_schema'', PDict (ck_output_schema c)),
      (''artifact_path'', opt_str (ck_artifact_path c)),
      (''validation_status'', PStr (ck_validation_status c)),
      (''metadata'', PDict (ck_metadata c))]"

definition persist_metadata :: "runtime \<Rightarrow> checkpoint \<Rightarrow> manager \<Rightarrow> unit result \<times> manager" where
  "persist_metadata rt c m =
     write_json (metadata_file (mg_root_dir m) (ck_checkpoint_id c)) (PDict (checkpoint_dict rt c)) m"

text \<open>\<open>self._checkpoints[checkpoint.checkpoint_id] = checkpoint\<close>\<close>

definition cm_register :: "checkpoint \<Rightarrow> manager \<Rightarrow> manager" where
  "cm_register c m = m\<lparr>mg_checkpoints := AList.update (ck_checkpoint_id c) c (mg_checkpoints m)\<rparr>"

definition cm_create ::
  "runtime \<Rightarrow> string \<Rightarrow> string \<Rightarrow> pyval \<Rightarrow> string \<Rightarrow> dict \<Rightarrow> dict \<Rightarrow> string \<Rightarrow> dict
     \<Rightarrow> manager \<times> env \<Rightarrow> checkpoint result \<times> manager \<times> env" where
  "cm_create rt execution_id node_id artifact node_version input_schema output_schema
       validation_status metadata me =
     (let (m, e) = me; (cid, e1) = uuid4 e in
      case hash_artifact rt artifact of
        Inl x \<Rightarrow> (Inl x, m, e1)
      | Inr data_hash \<Rightarrow>
          (case (if artifact = PNone then (Inr None, m)
                 else (case store_artifact rt cid artifact m of
                         (Inl x, m1) \<Rightarrow> (Inl x, m1)
                       | (Inr p, m1) \<Rightarrow> (Inr (Some p), m1))) of
             (Inl x, m1) \<Rightarrow> (Inl x, m1, e1)
           | (Inr artifact_path, m1) \<Rightarrow>
               (let (now, e2) = utc_now e1;
                    c = \<lparr>ck_checkpoint_id = cid, ck_execution_id = execution_id,
                         ck_node_id = node_id, ck_created_at = now,
                         ck_node_version = node_version, ck_data_hash = data_hash,
                         ck_input_schema = input_schema, ck_output_schema = output_schema,
                         ck_artifact_path = artifact_path,
                         ck_validation_status = validation_status, ck_metadata = metadata\<rparr>;
                    m2 = cm_register c m1
                in case persist_metadata rt c m2 of
                     (Inl x, m3) \<Rightarrow> (Inl x, m3, e2)
                   | (Inr _, m3) \<Rightarrow> (Inr c, m3, e2))))"

definition cm_get :: "manager \<Rightarrow> string \<Rightarrow> checkpoint option" where
  "cm_get m cid = map_of (mg_checkpoints m) cid"

definition cm_list :: "manager \<Rightarrow> checkpoint list" where
  "cm_list m = map snd (mg_checkpoints m)"

definition cm_last_known_good :: "manager \<Rightarrow> string option \<Rightarrow> checkpoint option" where
  "cm_last_known_good m execution_id =
     (let candidates = filter (\<lambda>c. ck_validation_status c = ''passed'') (cm_list m);
          candidates = (case execution_id of
             None \<Rightarrow> candidates
           | Some x \<Rightarrow> filter (\<lambda>c. ck_execution_id c = x) candidates)
      in py_max ck_created_at candidates)"

definition cm_restore :: "manager \<Rightarrow> string \<Rightarrow> pyval result" where
  "cm_restore m cid =
     (case cm_get m cid of
        None \<Rightarrow> Inl (Exn ''KeyError'' (sq (''Checkpoint not found: '' @ cid)))
      | Some c \<Rightarrow>
          (case ck_artifact_path c of
             None \<Rightarrow> Inr PNone
           | Some path \<Rightarrow>
               (case mg_files m path of
                  None \<Rightarrow> Inl (Exn ''FileNotFoundError'' (''Checkpoint artifact missing: '' @ path))
                | Some content \<Rightarrow> content)))"

subsection \<open>The in-memory manager\<close>

record mem_checkpoint =
  mc_checkpoint_id :: string
  mc_execution_id :: string
  mc_pipeline_id :: string
  mc_node_id :: string
  mc_node_version :: string
  mc_created_at :: int
  mc_artifact_reference :: "string option"
  mc_input_schema :: dict
  mc_output_schema :: dict
  mc_data_hash :: "string option"
  mc_configuration :: dict
  mc_dependency_versions :: "(string \<times> string) list"
  mc_validation_status :: string
  mc_metadata :: dict

record mem_manager =
  mm_checkpoints :: "(string \<times> mem_checkpoint) list"
  mm_artifacts :: "(string \<times> pyval) list"

definition mm_build_id :: "runtime \<Rightarrow> string \<Rightarrow> string \<Rightarrow> string" where
  "mm_build_id rt execution_id node_id = take 16 (rt_sha256 rt (execution_id @ '':'' @ node_id))"

definition mm_hash_artifact :: "runtime \<Rightarrow> pyval \<Rightarrow> string result" where
  "mm_hash_artifact rt artifact =
     (case rt_dumps rt artifact of
        Inr t \<Rightarrow> Inr (rt_sha256 rt t)
      | Inl e \<Rightarrow> if exn_type e = ''TypeError'' then Inr (rt_sha256 rt (rt_repr rt artifact)) else Inl e)"

text \<open>\<open>mm_add\<close> is the pair of item assignments at the end of \<open>create\<close>.\<close>

definition mm_add :: "mem_checkpoint \<Rightarrow> mem_manager \<Rightarrow> mem_manager" where
  "mm_add c m = m\<lparr>mm_checkpoints := AList.update (mc_checkpoint_id c) c (mm_checkpoints m)\<rparr>"

definition mm_create ::
  "runtime \<Rightarrow> pipeline_node \<Rightarrow> pipeline_context \<Rightarrow> pyval \<Rightarrow> dict \<Rightarrow> dict \<Rightarrow> dict
     \<Rightarrow> (string \<times> string) list \<Rightarrow> string \<Rightarrow> mem_manager \<times> env
     \<Rightarrow> mem_checkpoint result \<times> mem_manager \<times> env" where
  "mm_create rt node context artifact input_schema output_schema configuration
       dependency_versions validation_status me =
     (let (m, e) = me;
          cid = mm_build_id rt (cx_execution_id context) (pn_node_id node);
          reference = ''artifact://'' @ cid
      in case mm_hash_artifact rt artifact of
           Inl x \<Rightarrow> (Inl x, m, e)
         | Inr data_hash \<Rightarrow>
             (let (now, e1) = utc_now e;
                  c = \<lparr>mc_checkpoint_id = cid, mc_execution_id = cx_execution_id context,
                       mc_pipeline_id = cx_pipeline_id context, mc_node_id = pn_node_id node,
                       mc_node_version = pn_version node, mc_created_at = now,
                       mc_artifact_reference = Some reference, mc_input_schema = input_schema,
                       mc_output_schema = output_schema, mc_data_hash = Some data_hash,
                       mc_configuration = configuration,
                       mc_dependency_versions = dependency_versions,
                       mc_validation_status = validation_status, mc_metadata = []\<rparr>;
                  m1 = mm_add c m;
                  m2 = m1\<lparr>mm_artifacts := AList.update reference artifact (mm_artifacts m1)\<rparr>
              in (Inr c, m2, e1)))"

definition mm_get :: "mem_manager \<Rightarrow> string \<Rightarrow> mem_checkpoint result" where
  "mm_get m cid =
     (case map_of (mm_checkpoints m) cid of
        None \<Rightarrow> Inl (Exn ''KeyError'' (sq (''Checkpoint not found: '' @ cid)))
      | Some c \<Rightarrow> Inr c)"

definition mm_get_artifact :: "mem_manager \<Rightarrow> string \<Rightarrow> pyval result" where
  "mm_get_artifact m cid =
     (case mm_get m cid of
        Inl e \<Rightarrow> Inl e
      | Inr c \<Rightarrow>
          (case mc_artifact_reference c of
             None \<Rightarrow> Inl (Exn ''ValueError'' ''Checkpoint has no artifact reference.'')
           | Some reference \<Rightarrow>
               (case map_of (mm_artifacts m) reference of
                  None \<Rightarrow> Inl (Exn ''KeyError'' (sq reference))
                | Some a \<Rightarrow> Inr a)))"

definition mm_last_known_good :: "mem_manager \<Rightarrow> string \<Rightarrow> mem_checkpoint option" where
  "mm_last_known_good m execution_id =
     py_max mc_created_at
       (filter (\<lambda>c. mc_execution_id c = execution_id \<and> mc_validation_status c = ''passed'')
          (map snd (mm_checkpoints m)))"

subsection \<open>What clients of a checkpoint store rely on\<close>

text \<open>The most recent accepted checkpoint of a run, on any checkpoint type.\<close>

definition latest_good ::
  "('c \<Rightarrow> string) \<Rightarrow> ('c \<Rightarrow> string) \<Rightarrow> ('c \<Rightarrow> int) \<Rightarrow> 'c list \<Rightarrow> string \<Rightarrow> 'c option" where
  "latest_good owner status stamp cs x =
     py_max stamp (filter (\<lambda>c. owner c = x \<and> status c = ''passed'') cs)"

locale checkpoint_store =
  fixes lookup :: "'s \<Rightarrow> string \<Rightarrow> 'c option"
    and entries :: "'s \<Rightarrow> 'c list"
    and add :: "'c \<Rightarrow> 's \<Rightarrow> 's"
    and ident :: "'c \<Rightarrow> string"
    and owner :: "'c \<Rightarrow> string"
    and status :: "'c \<Rightarrow> string"
    and stamp :: "'c \<Rightarrow> int"
    and last_good :: "'s \<Rightarrow> string \<Rightarrow> 'c option"
    and invar :: "'s \<Rightarrow> bool"
  assumes lookup_add: "lookup (add c s) k = (if k = ident c then Some c else lookup s k)"
    and entries_add: "lookup s (ident c) = None \<Longrightarrow> entries (add c s) = entries s @ [c]"
    and entries_lookup: "invar s \<Longrightarrow> c \<in> set (entries s) \<longleftrightarrow> lookup s (ident c) = Some c"
    and invar_add: "invar s \<Longrightarrow> invar (add c s)"
    and last_good_latest: "last_good s x = latest_good owner status stamp (entries s) x"
begin

lemma last_good_sound:
  assumes "invar s" and "last_good s x = Some c"
  shows "lookup s (ident c) = Some c \<and> owner c = x \<and> status c = ''passed''"
  using assms py_max_Some [of stamp _ c] by (fastforce simp: last_good_latest latest_good_def entries_lookup)

lemma last_good_upper:
  assumes "invar s" and "last_good s x = Some c"
    and "lookup s (ident d) = Some d" "owner d = x" "status d = ''passed''"
  shows "stamp d \<le> stamp c"
proof -
  have "d \<in> set (filter (\<lambda>c. owner c = x \<and> status c = ''passed'') (entries s))"
    using assms by (simp add: entries_lookup)
  with assms(2) py_max_Some show ?thesis
    by (fastforce simp: last_good_latest latest_good_def)
qed

lemma last_good_other:
  "lookup s (ident c) = None \<Longrightarrow> owner c \<noteq> x \<or> status c \<noteq> ''passed'' \<Longrightarrow>
     last_good (add c s) x = last_good s x"
  by (auto simp: last_good_latest latest_good_def entries_add)

lemma last_good_newest:
  assumes "lookup s (ident c) = None" and "owner c = x" "status c = ''passed''"
    and "\<And>d. d \<in> set (entries s) \<Longrightarrow> owner d = x \<Longrightarrow> stamp d < stamp c"
  shows "last_good (add c s) x = Some c"
  using assms by (auto simp: last_good_latest latest_good_def entries_add intro!: py_max_last)

end

definition cm_invar :: "manager \<Rightarrow> bool" where
  "cm_invar m \<longleftrightarrow> distinct (map fst (mg_checkpoints m))
     \<and> list_all (\<lambda>(k, c). k = ck_checkpoint_id c) (mg_checkpoints m)"

definition mm_invar :: "mem_manager \<Rightarrow> bool" where
  "mm_invar m \<longleftrightarrow> distinct (map fst (mm_checkpoints m))
     \<and> list_all (\<lambda>(k, c). k = mc_checkpoint_id c) (mm_checkpoints m)"

lemma list_all_update:
  "list_all P d \<Longrightarrow> P (k, v) \<Longrightarrow> list_all P (AList.update k v d)"
  by (induction d) auto

lemma dict_keyed_entries:
  assumes "distinct (map fst d)" and "list_all (\<lambda>(k, c). k = f c) d"
  shows "c \<in> set (map snd d) \<longleftrightarrow> map_of d (f c) = Some c"
proof
  assume "c \<in> set (map snd d)"
  then obtain k where k: "(k, c) \<in> set d" by auto
  with assms(2) have "k = f c" by (auto simp: list_all_iff)
  with k assms(1) show "map_of d (f c) = Some c" by (simp add: map_of_is_SomeI)
next
  assume "map_of d (f c) = Some c"
  then have "(f c, c) \<in> set d" by (rule map_of_SomeD)
  then show "c \<in> set (map snd d)" by force
qed

interpretation cm: checkpoint_store cm_get cm_list cm_register ck_checkpoint_id ck_execution_id
  ck_validation_status ck_created_at "\<lambda>m x. cm_last_known_good m (Some x)" cm_invar
proof
  show "cm_invar m \<Longrightarrow> (c \<in> set (cm_list m)) = (cm_get m (ck_checkpoint_id c) = Some c)" for m c
    unfolding cm_list_def cm_get_def cm_invar_def by (rule dict_keyed_entries) auto
  show "cm_invar m \<Longrightarrow> cm_invar (cm_register c m)" for m c
    by (auto simp: cm_invar_def cm_register_def list_all_update)
qed (auto simp: cm_get_def cm_list_def cm_register_def dict_simps dict_values_fresh map_of_eq_None_iff
    cm_last_known_good_def latest_good_def conj_commute)

interpretation mm: checkpoint_store "\<lambda>m. map_of (mm_checkpoints m)" "\<lambda>m. map snd (mm_checkpoints m)"
  mm_add mc_checkpoint_id mc_execution_id mc_validation_status mc_created_at mm_last_known_good mm_invar
proof
  show "mm_invar m \<Longrightarrow> (c \<in> set (map snd (mm_checkpoints m)))
      = (map_of (mm_checkpoints m) (mc_checkpoint_id c) = Some c)" for m c
    unfolding mm_invar_def by (rule dict_keyed_entries) auto
  show "mm_invar m \<Longrightarrow> mm_invar (mm_add c m)" for m c
    by (auto simp: mm_invar_def mm_add_def list_all_update)
qed (auto simp: mm_add_def dict_simps dict_values_fresh map_of_eq_None_iff
    mm_last_known_good_def latest_good_def)

subsection \<open>Effect of creating a checkpoint\<close>

lemma write_json_checkpoints:
  "write_json p d m = (r, m') \<Longrightarrow> mg_checkpoints m' = mg_checkpoints m
     \<and> mg_write_error m' = mg_write_error m \<and> mg_root_dir m' = mg_root_dir m"
  by (auto simp: write_json_def split: option.splits)

lemma store_artifact_checkpoints:
  "store_artifact rt cid a m = (r, m') \<Longrightarrow> mg_checkpoints m' = mg_checkpoints m
     \<and> mg_write_error m' = mg_write_error m \<and> mg_root_dir m' = mg_root_dir m"
  by (auto simp: store_artifact_def Let_def split: sum.splits prod.splits dest: write_json_checkpoints)

lemma cm_create_ok:
  assumes "cm_create rt x n a v is os vs md (m, e) = (Inr c, m', e')"
  shows "mg_checkpoints m' = AList.update (ck_checkpoint_id c) c (mg_checkpoints m)"
    and "mg_write_error m' = mg_write_error m"
    and "ck_checkpoint_id c = uuids e (uuids_used e)" "ck_execution_id c = x" "ck_node_id c = n"
    and "ck_created_at c = clock e (ticks e)" "ck_validation_status c = vs"
    and "e' = e\<lparr>uuids_used := Suc (uuids_used e), ticks := Suc (ticks e)\<rparr>"
  using assms
  by (auto simp: cm_create_def uuid4_def utc_now_def cm_register_def persist_metadata_def Let_def
      split: sum.splits prod.splits if_splits
      dest!: store_artifact_checkpoints write_json_checkpoints)

lemma cm_create_err:
  assumes "cm_create rt x n a v is os vs md (m, e) = (Inl err, m', e')"
    and "\<And>p. mg_write_error m p = None"
  shows "mg_checkpoints m' = mg_checkpoints m" "mg_write_error m' = mg_write_error m"
    and "clock e' = clock e" "uuids e' = uuids e" "ticks e \<le> ticks e'" "uuids_used e \<le> uuids_used e'"
  using assms
  by (auto simp: cm_create_def uuid4_def utc_now_def cm_register_def persist_metadata_def Let_def
      write_json_def split: sum.splits prod.splits if_splits option.splits
      dest!: store_artifact_checkpoints)

text \<open>
  The environment the freshness arguments need: UUIDs never repeat and the clock advances
  between reads; and a store in which every identifier and instant was drawn from it.
\<close>

definition env_ok :: "env \<Rightarrow> bool" where
  "env_ok e \<longleftrightarrow> inj (uuids e) \<and> strict_mono (clock e)"

definition env_le :: "env \<Rightarrow> env \<Rightarrow> bool" where
  "env_le e e' \<longleftrightarrow> uuids e' = uuids e \<and> clock e' = clock e
     \<and> uuids_used e \<le> uuids_used e' \<and> ticks e \<le> ticks e'"

definition drawn :: "env \<Rightarrow> string \<Rightarrow> bool" where
  "drawn e u \<longleftrightarrow> u \<in> uuids e ` {..<uuids_used e}"

definition stored_before :: "env \<Rightarrow> manager \<Rightarrow> bool" where
  "stored_before e m \<longleftrightarrow> cm_invar m \<and>
     list_all (\<lambda>c. drawn e (ck_checkpoint_id c) \<and> drawn e (ck_execution_id c)
                   \<and> ck_created_at c \<in> clock e ` {..<ticks e}) (cm_list m)"

lemma env_le_refl [simp]: "env_le e e"
  by (simp add: env_le_def)

lemma env_le_trans: "env_le a b \<Longrightarrow> env_le b c \<Longrightarrow> env_le a c"
  by (simp add: env_le_def)

lemma env_ok_le: "env_ok e \<Longrightarrow> env_le e e' \<Longrightarrow> env_ok e'"
  by (simp add: env_ok_def env_le_def)

lemma drawn_le: "drawn e u \<Longrightarrow> env_le e e' \<Longrightarrow> drawn e' u"
  by (force simp: drawn_def env_le_def)

lemma not_drawn_next: "env_ok e \<Longrightarrow> \<not> drawn e (uuids e (uuids_used e))"
  by (auto simp: drawn_def env_ok_def inj_def)

lemma stored_before_le:
  assumes "stored_before e m" and "env_le e e'" and "mg_checkpoints m' = mg_checkpoints m"
  shows "stored_before e' m'"
proof -
  have "clock e ` {..<ticks e} \<subseteq> clock e' ` {..<ticks e'}"
    using assms(2) by (auto simp: env_le_def)
  with assms show ?thesis
    by (auto simp: stored_before_def cm_invar_def cm_list_def list_all_iff intro: drawn_le)
qed

text \<open>A new checkpoint is fresh and younger than every stored one.\<close>

lemma cm_create_fresh:
  assumes mk: "cm_create rt x n a v is os vs md (m, e) = (Inr c, m', e')"
    and ok: "env_ok e" and st: "stored_before e m"
  shows "cm_get m (ck_checkpoint_id c) = None"
    and "d \<in> set (cm_list m) \<Longrightarrow> ck_created_at d < ck_created_at c"
proof -
  note f = cm_create_ok [OF mk]
  show "cm_get m (ck_checkpoint_id c) = None"
  proof (rule ccontr)
    assume "cm_get m (ck_checkpoint_id c) \<noteq> None"
    then obtain d where d: "cm_get m (ck_checkpoint_id c) = Some d" by auto
    with st have "ck_checkpoint_id d = ck_checkpoint_id c" "d \<in> set (cm_list m)"
      by (auto simp: stored_before_def cm_invar_def cm_get_def cm_list_def list_all_iff
          dest!: map_of_SomeD intro: rev_image_eqI)
    with st have "drawn e (ck_checkpoint_id c)" by (auto simp: stored_before_def list_all_iff)
    with not_drawn_next [OF ok] f(3) show False by simp
  qed
  assume "d \<in> set (cm_list m)"
  with st obtain i where "i < ticks e" "ck_created_at d = clock e i"
    by (auto simp: stored_before_def list_all_iff)
  with ok f(6) show "ck_created_at d < ck_created_at c"
    by (simp add: env_ok_def strict_monoD)
qed

lemma cm_create_stored:
  assumes mk: "cm_create rt x n a v is os vs md (m, e) = (Inr c, m', e')"
    and ok: "env_ok e" and st: "stored_before e m" and x: "drawn e x"
  shows "stored_before e' m'" and "env_le e e'" and "cm_list m' = cm_list m @ [c]"
    and "vs = ''passed'' \<Longrightarrow> cm_last_known_good m' (Some x) = Some c"
    and "cm_get m' k = (if k = ck_checkpoint_id c then Some c else cm_get m k)"
proof -
  note f = cm_create_ok [OF mk] and fresh = cm_create_fresh [OF mk ok st]
  have reg: "mg_checkpoints m' = mg_checkpoints (cm_register c m)"
    by (simp add: f(1) cm_register_def)
  then have same: "cm_list m' = cm_list (cm_register c m)" "cm_get m' = cm_get (cm_register c m)"
    "cm_last_known_good m' = cm_last_known_good (cm_register c m)"
    by (simp_all add: cm_list_def cm_get_def cm_last_known_good_def fun_eq_iff)
  show le: "env_le e e'" by (simp add: f(8) env_le_def)
  show l: "cm_list m' = cm_list m @ [c]"
    using cm.entries_add [OF fresh(1)] by (simp add: same)
  have "drawn e' (ck_checkpoint_id c)"
    unfolding drawn_def f(3) using f(8) by (intro image_eqI [of _ _ "uuids_used e"]) auto
  moreover have "ck_created_at c \<in> clock e' ` {..<ticks e'}"
    unfolding f(6) using f(8) by (intro image_eqI [of _ _ "ticks e"]) auto
  moreover have "drawn e' (ck_execution_id c)" using f(4) x le by (simp add: drawn_le)
  ultimately show "stored_before e' m'"
    using stored_before_le [OF st le refl] cm.invar_add [of m c] reg
    by (auto simp: stored_before_def l cm_invar_def)
  show "cm_last_known_good m' (Some x) = Some c" if "vs = ''passed''"
    unfolding same using fresh f that by (intro cm.last_good_newest) auto
  show "cm_get m' k = (if k = ck_checkpoint_id c then Some c else cm_get m k)"
    unfolding same by (rule cm.lookup_add)
qed

end
