(* ===== verification/Pipeline.thy ===== *)
theory Pipeline
  imports Checkpoints
begin

text \<open>
  The sequential pipeline executor (\<open>core/pipeline/executor.py\<close>). A node is a user's object:
  its methods are functions that may change the world \<open>'w\<close> they live in and the context
  they are given, and return or raise. The checkpoint manager, the clock, the UUID source and
  that world are the state \<open>'w sys\<close> threaded through a run.
\<close>

subsection \<open>Nodes and contexts\<close>

text \<open>A method of one argument: the new world, the argument after the call, the outcome.\<close>

type_synonym 'w user_fn = "'w \<Rightarrow> pyval \<Rightarrow> 'w \<times> pyval \<times> pyval result"

record 'w node_obj =
  nd_node_id :: pyval
  nd_name :: pyval
  nd_class :: string
  nd_str :: string
  nd_version :: "pyval option"
  nd_run :: "'w user_fn option"
  nd_call :: "'w user_fn option"
  nd_validate_output :: "'w user_fn option"
  nd_input_metadata :: "'w user_fn option"

text \<open>
  How a context object takes a result: its \<open>set_value\<close> method, and the assignment of its
  \<open>value\<close> attribute (\<open>None\<close> where it raises).
\<close>

record 'w context_ops =
  co_set_value :: "pyval \<Rightarrow> ('w \<Rightarrow> pyval \<Rightarrow> 'w \<times> pyval \<times> unit result) option"
  co_assign_value :: "pyval \<Rightarrow> pyval \<Rightarrow> pyval option"

record 'w sys =
  sy_manager :: manager
  sy_env :: env
  sy_world :: 'w

definition sys_now :: "'w sys \<Rightarrow> int \<times> 'w sys" where
  "sys_now s = (let (t, e) = utc_now (sy_env s) in (t, s\<lparr>sy_env := e\<rparr>))"

definition sys_uuid :: "'w sys \<Rightarrow> string \<times> 'w sys" where
  "sys_uuid s = (let (u, e) = uuid4 (sy_env s) in (u, s\<lparr>sy_env := e\<rparr>))"

definition node_id_of :: "runtime \<Rightarrow> 'w node_obj \<Rightarrow> string" where
  "node_id_of rt node =
     (if py_truthy (nd_node_id node) then py_str rt (nd_node_id node)
      else if nd_call node \<noteq> None \<and> py_truthy (nd_name node) then py_str rt (nd_name node)
      else nd_class node)"

definition run_node :: "'w node_obj \<Rightarrow> 'w user_fn" where
  "run_node node w ctx =
     (case nd_run node of
        Some f \<Rightarrow> f w ctx
      | None \<Rightarrow>
          (case nd_call node of
             Some f \<Rightarrow> f w ctx
           | None \<Rightarrow> (w, ctx, Inl (Exn ''TypeError''
               (''Pipeline node '' @ sq (nd_str node) @ '' must provide run(context) or be callable.'')))))"

text \<open>The provider's exceptions are not caught here.\<close>

definition input_metadata_of :: "'w node_obj \<Rightarrow> 'w \<Rightarrow> pyval \<Rightarrow> 'w \<times> pyval \<times> dict result" where
  "input_metadata_of node w ctx =
     (case nd_input_metadata node of
        None \<Rightarrow> (w, ctx, Inr [])
      | Some f \<Rightarrow>
          (case f w ctx of
             (w1, ctx1, Inl e) \<Rightarrow> (w1, ctx1, Inl e)
           | (w1, ctx1, Inr (PDict d)) \<Rightarrow> (w1, ctx1, Inr d)
           | (w1, ctx1, Inr _) \<Rightarrow> (w1, ctx1, Inr [])))"

definition attr_not_none :: "pyval \<Rightarrow> string \<Rightarrow> pyval option" where
  "attr_not_none v a =
     (case py_getattr v a of None \<Rightarrow> None | Some x \<Rightarrow> if x = PNone then None else Some x)"

text \<open>\<open>tuple(shape)\<close> and \<open>[str(c) for c in columns]\<close>, skipped on a \<open>TypeError\<close>.\<close>

definition shape_entry :: "pyval \<Rightarrow> dict" where
  "shape_entry result =
     (case attr_not_none result ''shape'' of
        None \<Rightarrow> []
      | Some v \<Rightarrow> (case py_iter v of None \<Rightarrow> [] | Some xs \<Rightarrow> [(''shape'', PTuple xs)]))"

definition columns_entry :: "runtime \<Rightarrow> pyval \<Rightarrow> dict" where
  "columns_entry rt result =
     (case attr_not_none result ''columns'' of
        None \<Rightarrow> []
      | Some v \<Rightarrow> (case py_iter v of None \<Rightarrow> []
          | Some xs \<Rightarrow> [(''columns'', PList (map (\<lambda>x. PStr (py_str rt x)) xs))]))"

definition output_metadata_of :: "runtime \<Rightarrow> pyval \<Rightarrow> dict" where
  "output_metadata_of rt result =
     (if result = PNone then []
      else [(''result_type'', PStr (type_name result))] @ shape_entry result
             @ columns_entry rt result)"

definition schema_from_metadata :: "dict \<Rightarrow> dict" where
  "schema_from_metadata meta =
     (let pick = (\<lambda>k. case map_of meta k of None \<Rightarrow> [] | Some v \<Rightarrow> [(k, v)])
      in pick ''shape'' @ pick ''columns'' @ pick ''result_type'')"

definition validate_node_output :: "'w node_obj \<Rightarrow> 'w \<Rightarrow> pyval \<Rightarrow> 'w \<times> pyval \<times> unit result" where
  "validate_node_output node w result =
     (case nd_validate_output node of
        None \<Rightarrow> (w, result, Inr ())
      | Some f \<Rightarrow>
          (case f w result of
             (w1, r1, Inl e) \<Rightarrow> (w1, r1, Inl e)
           | (w1, r1, Inr valid) \<Rightarrow>
               (w1, r1, if valid = PBool False
                        then Inl (Exn ''ValueError'' ''Node output validation failed.'')
                        else Inr ())))"

definition create_checkpoint ::
  "runtime \<Rightarrow> 'w node_obj \<Rightarrow> string \<Rightarrow> pyval \<Rightarrow> dict \<Rightarrow> dict \<Rightarrow> manager \<times> env
     \<Rightarrow> checkpoint result \<times> manager \<times> env" where
  "create_checkpoint rt node execution_id result input_metadata output_metadata me =
     cm_create rt execution_id (node_id_of rt node) result
       (case nd_version node of None \<Rightarrow> ''unknown'' | Some v \<Rightarrow> py_str rt v)
       (schema_from_metadata input_metadata) (schema_from_metadata output_metadata)
       ''passed'' [(''node_type'', PStr (nd_class node))] me"

text \<open>
  \<open>_update_context\<close>: the new context, or the exception of the context's own setter. When the
  result is the context object itself, \<open>result\<close> is the later view of that one object.
\<close>

definition update_context ::
  "'w context_ops \<Rightarrow> 'w \<Rightarrow> pyval \<Rightarrow> pyval \<Rightarrow> 'w \<times> pyval result" where
  "update_context ops w context result =
     (if context = PNone then (w, Inr result)
      else if py_is result context then (w, Inr result)
      else (case co_set_value ops context of
        Some setter \<Rightarrow>
          (case setter w result of
             (w1, c1, Inl e) \<Rightarrow> (w1, Inl e)
           | (w1, c1, Inr _) \<Rightarrow> (w1, Inr c1))
      | None \<Rightarrow>
          (if py_getattr context ''value'' \<noteq> None then
             (case co_assign_value ops context result of
                Some c1 \<Rightarrow> (w, Inr c1)
              | None \<Rightarrow> (w, Inr result))
           else (w, Inr result))))"

subsection \<open>One node\<close>

text \<open>
  What a node leaves behind: an exception outside the guarded part, a stop with the records
  appended (the last one FAILED), or a SUCCESS record and the next context.
\<close>

datatype node_outcome =
    Propagated exn
  | Stopped "node_execution list"
  | Continued node_execution pyval

definition failed_record ::
  "string \<Rightarrow> string \<Rightarrow> int \<Rightarrow> int \<Rightarrow> dict \<Rightarrow> exn \<Rightarrow> node_execution" where
  "failed_record nxid nid t0 t1 input_metadata e =
     \<lparr>ne_execution_id = nxid, ne_node_id = nid, ne_status = N_FAILED, ne_started_at = t0,
      ne_finished_at = Some t1, ne_input_metadata = input_metadata, ne_output_metadata = [],
      ne_error_type = Some (exn_type e), ne_error_message = Some (exn_str e),
      ne_checkpoint_id = None\<rparr>"

definition success_record ::
  "string \<Rightarrow> string \<Rightarrow> int \<Rightarrow> int \<Rightarrow> dict \<Rightarrow> dict \<Rightarrow> checkpoint \<Rightarrow> node_execution" where
  "success_record nxid nid t0 t1 input_metadata output_metadata c =
     \<lparr>ne_execution_id = nxid, ne_node_id = nid, ne_status = N_SUCCESS, ne_started_at = t0,
      ne_finished_at = Some t1, ne_input_metadata = input_metadata,
      ne_output_metadata = output_metadata, ne_error_type = None, ne_error_message = None,
      ne_checkpoint_id = Some (ck_checkpoint_id c)\<rparr>"

text \<open>The guarded part up to the checkpoint: run, describe, validate, store.\<close>

definition produce ::
  "runtime \<Rightarrow> string \<Rightarrow> 'w node_obj \<Rightarrow> dict \<Rightarrow> pyval \<Rightarrow> 'w sys
     \<Rightarrow> (pyval \<times> pyval \<times> dict \<times> checkpoint) result \<times> 'w sys" where
  "produce rt eid node input_metadata ctx s =
     (case run_node node (sy_world s) ctx of
        (w1, ctx1, Inl e) \<Rightarrow> (Inl e, s\<lparr>sy_world := w1\<rparr>)
      | (w1, ctx1, Inr r) \<Rightarrow>
          (case validate_node_output node w1 r of
             (w2, r2, Inl e) \<Rightarrow> (Inl e, s\<lparr>sy_world := w2\<rparr>)
           | (w2, r2, Inr _) \<Rightarrow>
               (let om = output_metadata_of rt r in
                case create_checkpoint rt node eid r2 input_metadata om
                       (sy_manager s, sy_env s) of
                  (Inl e, m1, e1) \<Rightarrow>
                    (Inl e, s\<lparr>sy_manager := m1, sy_env := e1, sy_world := w2\<rparr>)
                | (Inr c, m1, e1) \<Rightarrow>
                    (Inr (ctx1, r2, om, c), s\<lparr>sy_manager := m1, sy_env := e1, sy_world := w2\<rparr>))))"

text \<open>
  The context update comes after the SUCCESS record was appended, inside the same
  \<open>try\<close>: when the context's setter raises, a FAILED record of the same node follows it.
\<close>

definition exec_node ::
  "runtime \<Rightarrow> 'w context_ops \<Rightarrow> string \<Rightarrow> 'w node_obj \<Rightarrow> pyval \<Rightarrow> 'w sys
     \<Rightarrow> node_outcome \<times> 'w sys" where
  "exec_node rt ops eid node ctx s0 =
     (let nid = node_id_of rt node;
          (nxid, s1) = sys_uuid s0;
          (t0, s2) = sys_now s1
      in case input_metadata_of node (sy_world s2) ctx of
           (w, ctx1, Inl e) \<Rightarrow> (Propagated e, s2\<lparr>sy_world := w\<rparr>)
         | (w, ctx1, Inr im) \<Rightarrow>
             (case produce rt eid node im ctx1 (s2\<lparr>sy_world := w\<rparr>) of
                (Inl e, s3) \<Rightarrow>
                  (let (t1, s4) = sys_now s3 in (Stopped [failed_record nxid nid t0 t1 im e], s4))
              | (Inr (ctx2, r, om, c), s3) \<Rightarrow>
                  (let (t1, s4) = sys_now s3;
                       rec = success_record nxid nid t0 t1 im om c
                   in case update_context ops (sy_world s4) ctx2 r of
                        (w1, Inr ctx3) \<Rightarrow> (Continued rec ctx3, s4\<lparr>sy_world := w1\<rparr>)
                      | (w1, Inl e) \<Rightarrow>
                          (let (t2, s5) = sys_now (s4\<lparr>sy_world := w1\<rparr>)
                           in (Stopped [rec, failed_record nxid nid t0 t2 im e], s5)))))"

subsection \<open>The run\<close>

fun exec_nodes ::
  "runtime \<Rightarrow> 'w context_ops \<Rightarrow> string \<Rightarrow> 'w node_obj list \<Rightarrow> pyval \<Rightarrow> node_execution list
     \<Rightarrow> 'w sys \<Rightarrow> (pipeline_status \<times> node_execution list) result \<times> 'w sys" where
  "exec_nodes rt ops eid [] ctx acc s = (Inr (P_SUCCESS, acc), s)"
| "exec_nodes rt ops eid (n # ns) ctx acc s =
     (case exec_node rt ops eid n ctx s of
        (Propagated e, s') \<Rightarrow> (Inl e, s')
      | (Stopped rs, s') \<Rightarrow> (Inr (P_FAILED, acc @ rs), s')
      | (Continued r ctx', s') \<Rightarrow> exec_nodes rt ops eid ns ctx' (acc @ [r]) s')"

text \<open>The executor's state is the system and its history, which only grows.\<close>

definition execute ::
  "runtime \<Rightarrow> 'w context_ops \<Rightarrow> 'w node_obj list \<Rightarrow> pyval \<Rightarrow> 'w sys \<times> pipeline_execution list
     \<Rightarrow> pipeline_execution result \<times> 'w sys \<times> pipeline_execution list" where
  "execute rt ops nodes context st =
     (let (s0, history) = st;
          (eid, s1) = sys_uuid s0;
          (t0, s2) = sys_now s1
      in case exec_nodes rt ops eid nodes context [] s2 of
           (Inl e, s3) \<Rightarrow> (Inl e, s3, history)
         | (Inr (status, records), s3) \<Rightarrow>
             (let (t1, s4) = sys_now s3;
                  pe = \<lparr>pe_execution_id = eid, pe_status = status, pe_nodes = records,
                        pe_started_at = t0, pe_finished_at = Some t1\<rparr>
              in (Inr pe, s4, history @ [pe])))"

definition last_known_good_checkpoint :: "'w sys \<Rightarrow> string \<Rightarrow> checkpoint option" where
  "last_known_good_checkpoint s eid = cm_last_known_good (sy_manager s) (Some eid)"

subsection \<open>Shape of a run\<close>

text \<open>
  \<open>run_records rt nodes rs\<close>: the records of a finished run. The SUCCESS records are those
  of the leading nodes, in order; a FAILED record, if any, is the last one and belongs to the
  first node without a SUCCESS record, or, when the context refused the result, to the last
  node with one.
\<close>

definition all_success :: "node_execution list \<Rightarrow> bool" where
  "all_success rs \<longleftrightarrow> list_all (\<lambda>r. ne_status r = N_SUCCESS) rs"

definition names_nodes :: "runtime \<Rightarrow> 'w node_obj list \<Rightarrow> node_execution list \<Rightarrow> bool" where
  "names_nodes rt nodes rs \<longleftrightarrow>
     length rs \<le> length nodes \<and> map ne_node_id rs = map (node_id_of rt) (take (length rs) nodes)"

definition stopped_at :: "runtime \<Rightarrow> 'w node_obj list \<Rightarrow> node_execution list \<Rightarrow> bool" where
  "stopped_at rt nodes rs \<longleftrightarrow>
     (\<exists>oks f k. rs = oks @ [f] \<and> all_success oks \<and> names_nodes rt nodes oks
        \<and> ne_status f = N_FAILED \<and> k < length nodes \<and> ne_node_id f = node_id_of rt (nodes ! k)
        \<and> (length oks = k \<or> length oks = Suc k))"

lemma all_success_simps [simp]:
  "all_success []" "all_success (r # rs) \<longleftrightarrow> ne_status r = N_SUCCESS \<and> all_success rs"
  "all_success (rs @ qs) \<longleftrightarrow> all_success rs \<and> all_success qs"
  by (auto simp: all_success_def)

lemma names_nodes_simps [simp]:
  "names_nodes rt ns []"
  "names_nodes rt (n # ns) (r # rs) \<longleftrightarrow> ne_node_id r = node_id_of rt n \<and> names_nodes rt ns rs"
  by (auto simp: names_nodes_def)

lemma stopped_at_Cons:
  "stopped_at rt ns rs \<Longrightarrow> ne_status r = N_SUCCESS \<Longrightarrow> ne_node_id r = node_id_of rt n
     \<Longrightarrow> stopped_at rt (n # ns) (r # rs)"
  unfolding stopped_at_def
  by (elim exE, rename_tac oks f k, rule_tac x = "r # oks" in exI, rule_tac x = f in exI,
      rule_tac x = "Suc k" in exI) auto

lemma exec_node_shape:
  "exec_node rt ops eid n ctx s = (out, s') \<Longrightarrow>
     (case out of Propagated e \<Rightarrow> True
      | Stopped rs \<Rightarrow> stopped_at rt [n] rs
      | Continued r c \<Rightarrow> ne_status r = N_SUCCESS \<and> ne_node_id r = node_id_of rt n)"
  unfolding stopped_at_def
  by (auto simp: exec_node_def Let_def success_record_def failed_record_def names_nodes_def
      split: prod.splits sum.splits)

lemma stopped_at_more: "stopped_at rt [n] rs \<Longrightarrow> stopped_at rt (n # ns) rs"
  unfolding stopped_at_def names_nodes_def by (auto 4 4 simp: take_Cons' split: if_splits)

lemma exec_nodes_shape:
  "exec_nodes rt ops eid ns ctx acc s = (Inr (st, rs), s') \<Longrightarrow>
     \<exists>rs'. rs = acc @ rs' \<and>
       (if st = P_SUCCESS then all_success rs' \<and> names_nodes rt ns rs' \<and> length rs' = length ns
        else st = P_FAILED \<and> stopped_at rt ns rs')"
proof (induction ns arbitrary: ctx acc s)
  case Nil
  then show ?case by simp
next
  case (Cons n ns)
  obtain out s1 where x: "exec_node rt ops eid n ctx s = (out, s1)" by fastforce
  show ?case
  proof (cases out)
    case (Propagated e)
    with Cons.prems x show ?thesis by simp
  next
    case (Stopped rs')
    with exec_node_shape [OF x] Cons.prems x show ?thesis by (auto intro: stopped_at_more)
  next
    case (Continued r ctx')
    then have n: "ne_status r = N_SUCCESS" "ne_node_id r = node_id_of rt n"
      using exec_node_shape [OF x] by auto
    obtain rs' where "rs = (acc @ [r]) @ rs'"
      "if st = P_SUCCESS then all_success rs' \<and> names_nodes rt ns rs' \<and> length rs' = length ns
        else st = P_FAILED \<and> stopped_at rt ns rs'"
      using Cons.IH [of ctx' "acc @ [r]" s1] Cons.prems x Continued by auto
    with n show ?thesis by (intro exI [of _ "r # rs'"]) (auto intro: stopped_at_Cons split: if_splits)
  qed
qed

subsection \<open>The store along a run\<close>

definition sys_ok :: "'w sys \<Rightarrow> bool" where
  "sys_ok s \<longleftrightarrow> env_ok (sy_env s) \<and> stored_before (sy_env s) (sy_manager s)
     \<and> mg_write_error (sy_manager s) = (\<lambda>_. None)"

text \<open>The checkpoint that the last SUCCESS record of a list names.\<close>

definition last_ok :: "node_execution list \<Rightarrow> string option" where
  "last_ok rs = (case find (\<lambda>r. ne_status r = N_SUCCESS) (rev rs) of
     None \<Rightarrow> None | Some r \<Rightarrow> ne_checkpoint_id r)"

definition lkg_id :: "'w sys \<Rightarrow> string \<Rightarrow> string option" where
  "lkg_id s eid = map_option ck_checkpoint_id (last_known_good_checkpoint s eid)"

lemma last_ok_snoc:
  "last_ok (rs @ [r]) = (if ne_status r = N_SUCCESS then ne_checkpoint_id r else last_ok rs)"
  by (simp add: last_ok_def)

lemma produce_cases:
  assumes p: "produce rt eid node im ctx s = (out, s')"
  obtains (early) w x where "out = Inl x" "s' = s\<lparr>sy_world := w\<rparr>"
    | (err) x om r w m' e' where
        "out = Inl x" "s' = s\<lparr>sy_manager := m', sy_env := e', sy_world := w\<rparr>"
        "create_checkpoint rt node eid r im om (sy_manager s, sy_env s) = (Inl x, m', e')"
    | (made) c om r w m' e' c1 where
        "out = Inr (c1, r, om, c)" "s' = s\<lparr>sy_manager := m', sy_env := e', sy_world := w\<rparr>"
        "create_checkpoint rt node eid r im om (sy_manager s, sy_env s) = (Inr c, m', e')"
proof -
  obtain w1 c1 o1 where 1: "run_node node (sy_world s) ctx = (w1, c1, o1)" by (rule prod_cases3)
  show thesis
  proof (cases o1)
    case (Inl x)
    with p 1 show ?thesis by (intro early) (auto simp: produce_def)
  next
    case o1: (Inr r)
    obtain w2 r2 o2 where 2: "validate_node_output node w1 r = (w2, r2, o2)" by (rule prod_cases3)
    show ?thesis
    proof (cases o2)
      case (Inl x)
      with p 1 2 o1 show ?thesis by (intro early) (auto simp: produce_def)
    next
      case o2: (Inr u)
      obtain o3 m1 e1 where 3: "create_checkpoint rt node eid r2 im (output_metadata_of rt r)
          (sy_manager s, sy_env s) = (o3, m1, e1)" by (rule prod_cases3)
      show ?thesis
      proof (cases o3)
        case (Inl x)
        with p 1 2 3 o1 o2 show ?thesis by (intro err) (auto simp: produce_def)
      next
        case (Inr c)
        with p 1 2 3 o1 o2 show ?thesis by (intro made) (auto simp: produce_def)
      qed
    qed
  qed
qed

lemma produce_ok:
  assumes p: "produce rt eid node im ctx s = (out, s')"
    and ok: "sys_ok s" and eid: "drawn (sy_env s) eid"
  shows "sys_ok s' \<and> env_le (sy_env s) (sy_env s') \<and>
     lkg_id s' eid = (case out of Inr (_, _, _, c) \<Rightarrow> Some (ck_checkpoint_id c)
                       | Inl _ \<Rightarrow> lkg_id s eid)"
proof -
  have e: "env_ok (sy_env s)" and st: "stored_before (sy_env s) (sy_manager s)"
    and w: "mg_write_error (sy_manager s) = (\<lambda>_. None)"
    using ok by (auto simp: sys_ok_def)
  have lk: "lkg_id t eid = lkg_id s eid"
    if "mg_checkpoints (sy_manager t) = mg_checkpoints (sy_manager s)" for t :: "'a sys"
    using that by (simp add: lkg_id_def last_known_good_checkpoint_def cm_last_known_good_def cm_list_def)
  from p show ?thesis
  proof (cases rule: produce_cases)
    case early
    then show ?thesis using ok lk [of s'] by (simp add: sys_ok_def)
  next
    case (err x om r w' m' e')
    note f = cm_create_err [OF err(3) [unfolded create_checkpoint_def]]
    have le: "env_le (sy_env s) e'" using f w by (simp add: env_le_def)
    moreover have "sys_ok s'" using err(2) f(1,2) w env_ok_le [OF e le] stored_before_le [OF st le]
      by (simp add: sys_ok_def)
    ultimately show ?thesis using err(1,2) f(1) w lk [of s'] by simp
  next
    case (made c om r w' m' e' c1)
    note mk = made(3) [unfolded create_checkpoint_def]
    note f = cm_create_stored [OF mk e st eid] and g = cm_create_ok [OF mk]
    have "sys_ok s'" using made(2) f(1,2) g(2) w env_ok_le [OF e f(2)] by (simp add: sys_ok_def)
    then show ?thesis using made(1,2) f(2,4)
      by (simp add: lkg_id_def last_known_good_checkpoint_def)
  qed
qed

lemma exec_node_cases:
  assumes x: "exec_node rt ops eid n ctx s = (out, s')"
  obtains (propagated) e w e1 where
        "out = Propagated e" "s' = s\<lparr>sy_env := e1, sy_world := w\<rparr>" "env_le (sy_env s) e1"
    | (failed) e w e1 im ctx1 s3 r where
        "produce rt eid n im ctx1 (s\<lparr>sy_env := e1, sy_world := w\<rparr>) = (Inl e, s3)"
        "env_le (sy_env s) e1" "out = Stopped [r]" "ne_status r = N_FAILED"
        "s' = s3\<lparr>sy_env := snd (utc_now (sy_env s3))\<rparr>"
    | (continued) w e1 im ctx1 s3 c1 v om c r w1 ctx3 where
        "produce rt eid n im ctx1 (s\<lparr>sy_env := e1, sy_world := w\<rparr>) = (Inr (c1, v, om, c), s3)"
        "env_le (sy_env s) e1" "out = Continued r ctx3" "ne_status r = N_SUCCESS"
        "ne_checkpoint_id r = Some (ck_checkpoint_id c)" "ne_node_id r = node_id_of rt n"
        "ne_output_metadata r = om"
        "s' = s3\<lparr>sy_env := snd (utc_now (sy_env s3)), sy_world := w1\<rparr>"
    | (setter_failed) w e1 im ctx1 s3 c1 v om c r f w1 where
        "produce rt eid n im ctx1 (s\<lparr>sy_env := e1, sy_world := w\<rparr>) = (Inr (c1, v, om, c), s3)"
        "env_le (sy_env s) e1" "out = Stopped [r, f]" "ne_status r = N_SUCCESS"
        "ne_checkpoint_id r = Some (ck_checkpoint_id c)" "ne_status f = N_FAILED"
        "ne_output_metadata r = om"
        "s' = s3\<lparr>sy_world := w1, sy_env := snd (utc_now (snd (utc_now (sy_env s3))))\<rparr>"
proof -
  let ?e1 = "snd (utc_now (snd (uuid4 (sy_env s))))"
  let ?nx = "uuids (sy_env s) (uuids_used (sy_env s))" and ?t0 = "clock (sy_env s) (ticks (sy_env s))"
  have le: "env_le (sy_env s) ?e1" by (simp add: env_le_def)
  obtain w c1 o1 where 1: "input_metadata_of n (sy_world s) ctx = (w, c1, o1)" by (rule prod_cases3)
  let ?s2 = "s\<lparr>sy_env := ?e1, sy_world := w\<rparr>"
  show thesis
  proof (cases o1)
    case (Inl e)
    with x 1 show ?thesis
      by (intro propagated [of e w ?e1] le)
        (auto simp: exec_node_def sys_uuid_def sys_now_def uuid4_def utc_now_def)
  next
    case o1: (Inr im)
    obtain o2 s3 where 2: "produce rt eid n im c1 ?s2 = (o2, s3)" by fastforce
    show ?thesis
    proof (cases o2)
      case (Inl e)
      with x 1 2 o1 show ?thesis
        by (intro failed [OF 2 [unfolded Inl] le])
          (auto simp: exec_node_def sys_uuid_def sys_now_def uuid4_def utc_now_def failed_record_def)
    next
      case (Inr q)
      obtain ctx2 v om c where q: "q = (ctx2, v, om, c)" by (rule prod_cases4)
      obtain w1 o3 where 3: "update_context ops (sy_world s3) ctx2 v = (w1, o3)" by fastforce
      show ?thesis
      proof (cases o3)
        case Inl3: (Inl e)
        let ?r = "success_record ?nx (node_id_of rt n) ?t0 (clock (sy_env s3) (ticks (sy_env s3))) im om c"
        let ?f = "failed_record ?nx (node_id_of rt n) ?t0 (clock (sy_env s3) (Suc (ticks (sy_env s3)))) im e"
        have f: "out = Stopped [?r, ?f]"
          "s' = s3\<lparr>sy_world := w1, sy_env := snd (utc_now (snd (utc_now (sy_env s3))))\<rparr>"
          using x 1 2 3 o1 q Inr Inl3
          by (simp_all add: exec_node_def Let_def sys_uuid_def sys_now_def uuid4_def utc_now_def)
        show ?thesis
          by (rule setter_failed [OF 2 [unfolded Inr q] le f(1) _ _ _ _ f(2)])
            (simp_all add: failed_record_def success_record_def)
      next
        case Inr3: (Inr ctx3)
        let ?r = "success_record ?nx (node_id_of rt n) ?t0 (clock (sy_env s3) (ticks (sy_env s3))) im om c"
        have f: "out = Continued ?r ctx3"
          "s' = s3\<lparr>sy_env := snd (utc_now (sy_env s3)), sy_world := w1\<rparr>"
          using x 1 2 3 o1 q Inr Inr3
          by (simp_all add: exec_node_def Let_def sys_uuid_def sys_now_def uuid4_def utc_now_def)
        show ?thesis
          by (rule continued [OF 2 [unfolded Inr q] le f(1) _ _ _ _ f(2)])
            (simp_all add: success_record_def)
      qed
    qed
  qed
qed

lemma sys_ok_env:
  "sys_ok s \<Longrightarrow> env_le (sy_env s) e \<Longrightarrow> sys_ok (s\<lparr>sy_env := e\<rparr>)"
  by (auto simp: sys_ok_def intro: env_ok_le stored_before_le)

lemma sys_ok_world [simp]: "sys_ok (s\<lparr>sy_world := w\<rparr>) = sys_ok s"
  by (simp add: sys_ok_def)

lemma lkg_id_manager [simp]:
  "lkg_id (s\<lparr>sy_env := e\<rparr>) x = lkg_id s x" "lkg_id (s\<lparr>sy_world := w\<rparr>) x = lkg_id s x"
  by (simp_all add: lkg_id_def last_known_good_checkpoint_def)

lemma env_le_tick [intro]: "env_le a b \<Longrightarrow> env_le a (b\<lparr>ticks := n\<rparr>)" if "ticks b \<le> n" for a b
  using that by (simp add: env_le_def)

lemma sys_ok_tick [intro]:
  "sys_ok s \<Longrightarrow> ticks (sy_env s) \<le> n \<Longrightarrow> sys_ok (s\<lparr>sy_env := sy_env s\<lparr>ticks := n\<rparr>\<rparr>)"
  by (rule sys_ok_env) (auto simp: env_le_def)

lemma sys_ok_tick_world [intro]:
  "sys_ok s \<Longrightarrow> ticks (sy_env s) \<le> n
     \<Longrightarrow> sys_ok (s\<lparr>sy_world := w, sy_env := sy_env s\<lparr>ticks := n\<rparr>\<rparr>)"
  using sys_ok_tick [of "s\<lparr>sy_world := w\<rparr>"] by simp

definition records_of :: "node_outcome \<Rightarrow> node_execution list" where
  "records_of out = (case out of Propagated _ \<Rightarrow> [] | Stopped rs \<Rightarrow> rs | Continued r _ \<Rightarrow> [r])"

lemma exec_node_ok:
  assumes x: "exec_node rt ops eid n ctx s = (out, s')"
    and ok: "sys_ok s" and eid: "drawn (sy_env s) eid" and acc: "lkg_id s eid = last_ok acc"
  shows "sys_ok s' \<and> env_le (sy_env s) (sy_env s') \<and> lkg_id s' eid = last_ok (acc @ records_of out)"
proof -
  have pre: "sys_ok (s\<lparr>sy_env := e1, sy_world := w\<rparr>)" "drawn e1 eid"
    if "env_le (sy_env s) e1" for e1 w
    using that ok eid by (auto simp: drawn_le sys_ok_env)
  from x show ?thesis
  proof (cases rule: exec_node_cases)
    case (propagated e w e1)
    then show ?thesis using pre(1) [of e1 w] acc by (simp add: records_of_def)
  next
    case (failed e w e1 im ctx1 s3 r)
    from produce_ok [OF failed(1) pre(1)] pre(2) failed acc show ?thesis
      by (auto simp: records_of_def last_ok_snoc intro: env_le_trans)
  next
    case (continued w e1 im ctx1 s3 c1 v om c r w1 ctx3)
    from produce_ok [OF continued(1) pre(1)] pre(2) continued show ?thesis
      by (auto simp: records_of_def last_ok_snoc intro: env_le_trans)
  next
    case (setter_failed w e1 im ctx1 s3 c1 v om c r f w1)
    have "last_ok (acc @ [r, f]) = Some (ck_checkpoint_id c)"
      using setter_failed last_ok_snoc [of "acc @ [r]" f] by (simp add: last_ok_snoc)
    with produce_ok [OF setter_failed(1) pre(1)] pre(2) setter_failed show ?thesis
      by (auto simp: records_of_def intro: env_le_trans)
  qed
qed

lemma exec_nodes_ok:
  assumes "exec_nodes rt ops eid ns ctx acc s = (res, s')"
    and "sys_ok s" "drawn (sy_env s) eid" "lkg_id s eid = last_ok acc"
  shows "sys_ok s' \<and> env_le (sy_env s) (sy_env s')
     \<and> (case res of Inl _ \<Rightarrow> True | Inr (_, rs) \<Rightarrow> lkg_id s' eid = last_ok rs)"
  using assms
proof (induction ns arbitrary: ctx acc s)
  case Nil
  then show ?case by auto
next
  case (Cons n ns)
  obtain out s1 where x: "exec_node rt ops eid n ctx s = (out, s1)" by fastforce
  note one = exec_node_ok [OF x Cons.prems(2-4)]
  show ?case
  proof (cases out)
    case (Continued r ctx')
    with one have "sys_ok s1" "drawn (sy_env s1) eid" "lkg_id s1 eid = last_ok (acc @ [r])"
      using Cons.prems(3) by (auto simp: records_of_def intro: drawn_le)
    moreover have "exec_nodes rt ops eid ns ctx' (acc @ [r]) s1 = (res, s')"
      using Cons.prems(1) x Continued by simp
    ultimately show ?thesis using Cons.IH one env_le_trans by blast
  qed (use Cons.prems(1) x one in \<open>auto simp: records_of_def\<close>)
qed

lemma lkg_id_undrawn:
  assumes "stored_before (sy_env s) (sy_manager s)" and "\<not> drawn (sy_env s) x"
  shows "lkg_id s x = None"
proof -
  have "ck_execution_id c \<noteq> x" if "c \<in> set (cm_list (sy_manager s))" for c
    using assms that by (auto simp: stored_before_def list_all_iff)
  then show ?thesis
    by (auto simp: lkg_id_def last_known_good_checkpoint_def cm_last_known_good_def filter_empty_conv)
qed

lemma last_ok_last_successful:
  "last_ok (pe_nodes pe) = (case last_successful_node pe of None \<Rightarrow> None | Some n \<Rightarrow> ne_checkpoint_id n)"
  by (simp add: last_ok_def last_successful_node_def)

lemma execute_start:
  assumes "sys_ok s"
  shows "sys_ok (snd (sys_now (snd (sys_uuid s))))"
    and "drawn (sy_env (snd (sys_now (snd (sys_uuid s))))) (fst (sys_uuid s))"
    and "lkg_id (snd (sys_now (snd (sys_uuid s)))) (fst (sys_uuid s)) = None"
proof -
  let ?u = "fst (sys_uuid s)" and ?s = "snd (sys_now (snd (sys_uuid s)))"
  have eq: "?s = s\<lparr>sy_env := snd (utc_now (snd (uuid4 (sy_env s))))\<rparr>"
    "?u = uuids (sy_env s) (uuids_used (sy_env s))"
    by (simp_all add: sys_now_def sys_uuid_def utc_now_def uuid4_def)
  show "sys_ok ?s" unfolding eq by (rule sys_ok_env [OF assms]) (simp add: env_le_def)
  show "drawn (sy_env ?s) ?u" unfolding eq drawn_def by force
  show "lkg_id ?s ?u = None"
    unfolding eq using assms not_drawn_next [of "sy_env s"]
    by (simp add: sys_ok_def lkg_id_undrawn)
qed

text \<open>C2: PipelineExecutor.execute runs the nodes in order and stops at the first that fails: a finished run
  is SUCCESS with one SUCCESS record per node, or FAILED with the SUCCESS records of the
  leading nodes and a FAILED record after them; the history gains exactly the returned
  execution, and nothing when an exception escapes the input metadata provider.\<close>

theorem execute_stops_at_first_failure:
  "case execute rt ops nodes ctx (s, history) of
     (Inl e, s', history') \<Rightarrow> history' = history
   | (Inr pe, s', history') \<Rightarrow>
       history' = history @ [pe] \<and> pe_finished_at pe \<noteq> None
       \<and> (if pe_status pe = P_SUCCESS
          then all_success (pe_nodes pe) \<and> names_nodes rt nodes (pe_nodes pe)
               \<and> length (pe_nodes pe) = length nodes
          else pe_status pe = P_FAILED \<and> stopped_at rt nodes (pe_nodes pe))"
proof -
  obtain u s1 where 1: "sys_uuid s = (u, s1)" by fastforce
  obtain t s2 where 2: "sys_now s1 = (t, s2)" by fastforce
  obtain res s3 where 3: "exec_nodes rt ops u nodes ctx [] s2 = (res, s3)" by fastforce
  show ?thesis
  proof (cases res)
    case (Inl e)
    with 1 2 3 show ?thesis by (simp add: execute_def)
  next
    case (Inr q)
    obtain st rs where q: "q = (st, rs)" by fastforce
    obtain t1 s4 where 4: "sys_now s3 = (t1, s4)" by fastforce
    from q exec_nodes_shape [of rt ops u nodes ctx "[]" s2 st rs s3] 1 2 3 4 Inr show ?thesis
      by (simp add: execute_def Let_def)
  qed
qed

text \<open>C3: When UUIDs never repeat, the clock advances between reads and the store can be written,
  last_known_good_checkpoint names, after every finished run, the checkpoint of
  last_successful_node, and none when no node succeeded.\<close>

theorem last_known_good_is_last_success:
  assumes "sys_ok s"
  shows "case execute rt ops nodes ctx (s, history) of
     (Inl e, s', _) \<Rightarrow> sys_ok s'
   | (Inr pe, s', _) \<Rightarrow> sys_ok s' \<and>
       map_option ck_checkpoint_id (last_known_good_checkpoint s' (pe_execution_id pe))
         = (case last_successful_node pe of None \<Rightarrow> None | Some n \<Rightarrow> ne_checkpoint_id n)"
proof -
  obtain u s1 where 1: "sys_uuid s = (u, s1)" by fastforce
  obtain t s2 where 2: "sys_now s1 = (t, s2)" by fastforce
  obtain res s3 where 3: "exec_nodes rt ops u nodes ctx [] s2 = (res, s3)" by fastforce
  from execute_start [OF assms] 1 2 have "sys_ok s2" "drawn (sy_env s2) u" "lkg_id s2 u = last_ok []"
    by (simp_all add: last_ok_def)
  note run = exec_nodes_ok [OF 3 this]
  show ?thesis
  proof (cases res)
    case (Inl e)
    with 1 2 3 run show ?thesis by (simp add: execute_def)
  next
    case (Inr q)
    obtain st rs where q: "q = (st, rs)" by fastforce
    let ?s4 = "s3\<lparr>sy_env := snd (utc_now (sy_env s3))\<rparr>"
    have "sys_ok ?s4" "lkg_id ?s4 u = last_ok rs"
      using run Inr q by auto
    with 1 2 3 Inr q show ?thesis
      by (simp add: execute_def sys_now_def lkg_id_def utc_now_def Let_def last_ok_def
          last_successful_node_def)
  qed
qed

subsection \<open>A concrete run\<close>

text \<open>
  The inputs at which the theorems with hypotheses are instantiated, over the runtime and
  the environment \<open>demo_rt\<close> and \<open>demo_env\<close>.
\<close>

definition demo_manager :: manager where
  "demo_manager = \<lparr>mg_root_dir = ''r'', mg_checkpoints = [], mg_files = Map.empty,
     mg_write_error = (\<lambda>_. None)\<rparr>"

definition demo_sys :: "unit sys" where
  "demo_sys = \<lparr>sy_manager = demo_manager, sy_env = demo_env, sy_world = ()\<rparr>"

definition demo_ops :: "unit context_ops" where
  "demo_ops = \<lparr>co_set_value = (\<lambda>_. None), co_assign_value = (\<lambda>_ _. None)\<rparr>"

definition demo_node :: "string \<Rightarrow> pyval result \<Rightarrow> unit node_obj" where
  "demo_node nid out = \<lparr>nd_node_id = PStr nid, nd_name = PNone, nd_class = ''Node'', nd_str = nid,
     nd_version = None, nd_run = Some (\<lambda>w c. (w, c, out)), nd_call = None,
     nd_validate_output = None, nd_input_metadata = None\<rparr>"

definition demo_nodes :: "unit node_obj list" where
  "demo_nodes = [demo_node ''load'' (Inr (PInt 1)), demo_node ''train'' (Inl (Exn ''ValueError'' ''bad''))]"

lemmas demo_defs = demo_rt_def demo_env_def demo_manager_def demo_sys_def demo_ops_def demo_node_def
  demo_nodes_def

lemma demo_env_ok [simp]: "env_ok demo_env"
  by (auto simp: env_ok_def demo_env_def inj_def strict_mono_def replicate_eq_replicate)

lemma demo_sys_ok [simp]: "sys_ok demo_sys"
  using demo_env_ok
  by (simp add: sys_ok_def demo_sys_def demo_manager_def stored_before_def cm_invar_def cm_list_def)

lemmas execute_defs =
  execute_def exec_node_def produce_def run_node_def validate_node_output_def create_checkpoint_def
  cm_create_def input_metadata_of_def update_context_def sys_uuid_def sys_now_def uuid4_def
  utc_now_def hash_artifact_def store_artifact_def serialize_def write_json_def cm_register_def
  persist_metadata_def node_id_of_def py_is_def output_metadata_of_def shape_entry_def
  columns_entry_def attr_not_none_def schema_from_metadata_def failed_record_def success_record_def

text \<open>The second node fails, so the run's last known good checkpoint is the first node's.\<close>

theorem last_known_good_is_last_success_witness:
  "sys_ok demo_sys \<and>
   (case execute demo_rt demo_ops demo_nodes PNone (demo_sys, []) of
      (Inl e, _) \<Rightarrow> False
    | (Inr pe, s', _) \<Rightarrow>
        map ne_status (pe_nodes pe) = [N_SUCCESS, N_FAILED] \<and>
        map_option ck_checkpoint_id (last_known_good_checkpoint s' (pe_execution_id pe)) = Some ''uu'')"
proof -
  obtain res s' h where x: "execute demo_rt demo_ops demo_nodes PNone (demo_sys, []) = (res, s', h)"
    by (rule prod_cases3)
  have "\<exists>pe. res = Inr pe \<and> map ne_status (pe_nodes pe) = [N_SUCCESS, N_FAILED]
      \<and> map ne_checkpoint_id (pe_nodes pe) = [Some ''uu'', None]"
    using x by (auto simp: execute_defs demo_defs Let_def numeral_2_eq_2)
  then obtain pe a b where pe: "res = Inr pe" "pe_nodes pe = [a, b]" "ne_status a = N_SUCCESS"
    "ne_status b = N_FAILED" "ne_checkpoint_id a = Some ''uu''" by (auto simp: map_eq_Cons_conv)
  with last_known_good_is_last_success [OF demo_sys_ok, of demo_rt demo_ops demo_nodes PNone "[]"] x
  show ?thesis by (simp add: last_successful_node_def)
qed

end
