(* ===== verification/Decision.thy ===== *)
theory Decision
  imports Fault Pipeline
begin

text \<open>
  \<open>RecoveryDecisionEngine\<close> (\<open>core/recovery/decision.py\<close>), the policy that maps a fault
  report, its localization and the last known good checkpoint to a recovery action, and
  \<open>PipelineExecutor.analyze_failure\<close>, which chains detection, localization and decision.
\<close>

subsection \<open>Models\<close>

datatype recovery_action_type =
    RETRY | RERUN_FROM_NODE | ROLLBACK | QUARANTINE | MANUAL_REVIEW | ABORT

fun action_value :: "recovery_action_type \<Rightarrow> string" where
  "action_value RETRY = ''retry''"
| "action_value RERUN_FROM_NODE = ''rerun_from_node''"
| "action_value ROLLBACK = ''rollback''"
| "action_value QUARANTINE = ''quarantine''"
| "action_value MANUAL_REVIEW = ''manual_review''"
| "action_value ABORT = ''abort''"

record recovery_decision =
  rd_execution_id :: string
  rd_action :: recovery_action_type
  rd_requires_approval :: bool
  rd_reason :: string
  rd_target_node :: "string option"
  rd_checkpoint_id :: "string option"
  rd_evidence :: dict
  rd_confidence :: rat

definition decision_to_dict :: "recovery_decision \<Rightarrow> dict" where
  "decision_to_dict d =
     [(''execution_id'', PStr (rd_execution_id d)),
      (''action'', PStr (action_value (rd_action d))),
      (''requires_approval'', PBool (rd_requires_approval d)),
      (''reason'', PStr (rd_reason d)),
      (''target_node'', opt_str (rd_target_node d)),
      (''checkpoint_id'', opt_str (rd_checkpoint_id d)),
      (''evidence'', PDict (rd_evidence d)),
      (''confidence'', PFloat (rd_confidence d))]"

subsection \<open>The engine\<close>

text \<open>\<open>a or b\<close> on optional strings\<close>

definition opt_or :: "string option \<Rightarrow> string option \<Rightarrow> string option" where
  "opt_or a b = (if truthy_str a then a else b)"

definition security_keywords :: "string list" where
  "security_keywords = [''integrity'', ''tamper'', ''corrupt'', ''security'', ''breach'', ''unauthori'']"

text \<open>
  RULE 2. The error type is compared before the message is lowered, so only a report
  without a telling type needs its message to be a string.
\<close>

definition security_hint :: "pyval \<Rightarrow> pyval \<Rightarrow> bool result" where
  "security_hint error_type evidence_msg =
     (if error_type = PStr ''SecurityError'' \<or> error_type = PStr ''IntegrityError'' then Inr True
      else (case evidence_msg of
        PStr m \<Rightarrow> Inr (list_ex (\<lambda>kw. str_in kw (py_lower m)) security_keywords)
      | v \<Rightarrow> Inl (Exn ''AttributeError'' (sq (type_name v) @ '' object has no attribute '' @ sq ''lower''))))"

definition evidence_get :: "dict \<Rightarrow> string \<Rightarrow> pyval" where
  "evidence_get d k = (case map_of d k of None \<Rightarrow> PStr [] | Some v \<Rightarrow> v)"

definition decide_corrupted ::
  "string \<Rightarrow> fault_report \<Rightarrow> fault_localization \<Rightarrow> string option \<Rightarrow> recovery_decision result" where
  "decide_corrupted eid fault loc checkpoint_id =
     (let evidence_msg = evidence_get (fr_evidence fault) ''error_message'';
          error_type = evidence_get (fr_evidence fault) ''error_type'';
          observed = sq (fmt_opt (fr_observed_node fault));
          ft = PStr (fault_type_value (fr_fault_type fault))
      in case security_hint error_type evidence_msg of
        Inl e \<Rightarrow> Inl e
      | Inr True \<Rightarrow> Inr
          \<lparr>rd_execution_id = eid, rd_action = QUARANTINE, rd_requires_approval = True,
           rd_reason = ''CORRUPTED_ARTIFACT fault with explicit security/integrity evidence. Component ''
             @ observed @ '' must be quarantined pending investigation. Do NOT retry automatically.'',
           rd_target_node = fr_observed_node fault, rd_checkpoint_id = None,
           rd_evidence = [(''fault_type'', ft),
             (''severity'', PStr (severity_value (fr_severity fault))),
             (''error_type'', error_type), (''error_message'', evidence_msg)],
           rd_confidence = 95/100\<rparr>
      | Inr False \<Rightarrow> Inr
          (case checkpoint_id of
             Some cid \<Rightarrow>
               \<lparr>rd_execution_id = eid, rd_action = ROLLBACK, rd_requires_approval = True,
                rd_reason = ''CORRUPTED_ARTIFACT at node '' @ observed
                  @ '' without explicit security evidence. Rolling back to last-known-good checkpoint ''
                  @ sq cid @ ''.'',
                rd_target_node = fl_probable_root_node loc, rd_checkpoint_id = Some cid,
                rd_evidence = [(''fault_type'', ft), (''checkpoint_id'', PStr cid)],
                rd_confidence = 80/100\<rparr>
           | None \<Rightarrow>
               \<lparr>rd_execution_id = eid, rd_action = ABORT, rd_requires_approval = True,
                rd_reason = ''CORRUPTED_ARTIFACT at node '' @ observed
                  @ '' with no valid checkpoint available for rollback. Automated recovery is not safe.'',
                rd_target_node = fr_observed_node fault, rd_checkpoint_id = None,
                rd_evidence = [(''fault_type'', ft)], rd_confidence = 90/100\<rparr>))"

text \<open>RULE 4\<close>

definition decide_missing ::
  "string \<Rightarrow> fault_report \<Rightarrow> fault_localization \<Rightarrow> string option \<Rightarrow> recovery_decision" where
  "decide_missing eid fault loc checkpoint_id =
     (let observed = sq (fmt_opt (fr_observed_node fault));
          ft = PStr (fault_type_value (fr_fault_type fault))
      in case checkpoint_id of
        Some cid \<Rightarrow>
          \<lparr>rd_execution_id = eid, rd_action = ROLLBACK, rd_requires_approval = True,
           rd_reason = ''MISSING_ARTIFACT at node '' @ observed
             @ ''. A valid last-known-good checkpoint '' @ sq cid
             @ '' exists. Rolling back to restore the missing artifact.'',
           rd_target_node = fl_probable_root_node loc, rd_checkpoint_id = Some cid,
           rd_evidence = [(''fault_type'', ft), (''checkpoint_id'', PStr cid)],
           rd_confidence = 85/100\<rparr>
      | None \<Rightarrow>
          \<lparr>rd_execution_id = eid, rd_action = ABORT, rd_requires_approval = True,
           rd_reason = ''MISSING_ARTIFACT at node '' @ observed
             @ '' with no valid checkpoint for rollback. Cannot recover automatically.'',
           rd_target_node = fr_observed_node fault, rd_checkpoint_id = None,
           rd_evidence = [(''fault_type'', ft)], rd_confidence = 90/100\<rparr>)"

text \<open>RULE 5\<close>

definition decide_dependency ::
  "string \<Rightarrow> fault_report \<Rightarrow> fault_localization \<Rightarrow> string option \<Rightarrow> recovery_decision" where
  "decide_dependency eid fault loc checkpoint_id =
     (let root_node = fl_probable_root_node loc;
          observed = sq (fmt_opt (fr_observed_node fault));
          ft = PStr (fault_type_value (fr_fault_type fault))
      in if truthy_str root_node \<and> root_node \<noteq> fr_observed_node fault then
           \<lparr>rd_execution_id = eid, rd_action = RERUN_FROM_NODE, rd_requires_approval = False,
            rd_reason = ''DEPENDENCY_FAILURE observed at '' @ observed
              @ '' but root cause localized to '' @ sq (fmt_opt root_node)
              @ ''. Re-run from root cause node.'',
            rd_target_node = root_node, rd_checkpoint_id = checkpoint_id,
            rd_evidence = [(''fault_type'', ft), (''root_node'', opt_str root_node)],
            rd_confidence = fl_confidence loc\<rparr>
         else (case checkpoint_id of
           Some cid \<Rightarrow>
             \<lparr>rd_execution_id = eid, rd_action = ROLLBACK, rd_requires_approval = True,
              rd_reason = ''DEPENDENCY_FAILURE at '' @ observed
                @ '' with no better upstream localization. Rolling back to checkpoint ''
                @ sq cid @ ''.'',
              rd_target_node = None, rd_checkpoint_id = Some cid,
              rd_evidence = [(''fault_type'', ft)], rd_confidence = 70/100\<rparr>
         | None \<Rightarrow>
             \<lparr>rd_execution_id = eid, rd_action = MANUAL_REVIEW, rd_requires_approval = True,
              rd_reason = ''DEPENDENCY_FAILURE at '' @ observed
                @ '' with no checkpoint and no upstream localization. Manual review required.'',
              rd_target_node = None, rd_checkpoint_id = None,
              rd_evidence = [(''fault_type'', ft)], rd_confidence = 60/100\<rparr>))"

text \<open>RULE 7\<close>

definition decide_execution ::
  "string \<Rightarrow> fault_report \<Rightarrow> fault_localization \<Rightarrow> string option \<Rightarrow> recovery_decision" where
  "decide_execution eid fault loc checkpoint_id =
     (let observed = sq (fmt_opt (fr_observed_node fault));
          ft = fault_type_value (fr_fault_type fault)
      in case checkpoint_id of
        Some cid \<Rightarrow>
          \<lparr>rd_execution_id = eid, rd_action = ROLLBACK, rd_requires_approval = True,
           rd_reason = ''Fault type '' @ ft @ '' at node '' @ observed
             @ ''. Rolling back to last-known-good checkpoint '' @ sq cid @ '' as the safest option.'',
           rd_target_node = fl_probable_root_node loc, rd_checkpoint_id = Some cid,
           rd_evidence = [(''fault_type'', PStr ft), (''checkpoint_id'', PStr cid)],
           rd_confidence = 70/100\<rparr>
      | None \<Rightarrow>
          \<lparr>rd_execution_id = eid, rd_action = ABORT, rd_requires_approval = True,
           rd_reason = ''Fault type '' @ ft @ '' at node '' @ observed
             @ '' with no valid checkpoint. No safe automated recovery path available.'',
           rd_target_node = fr_observed_node fault, rd_checkpoint_id = None,
           rd_evidence = [(''fault_type'', PStr ft)], rd_confidence = 80/100\<rparr>)"

text \<open>RULE 8\<close>

definition decide_resource :: "string \<Rightarrow> fault_report \<Rightarrow> string option \<Rightarrow> recovery_decision" where
  "decide_resource eid fault checkpoint_id =
     (let observed = sq (fmt_opt (fr_observed_node fault));
          ft = fault_type_value (fr_fault_type fault)
      in case checkpoint_id of
        Some cid \<Rightarrow>
          \<lparr>rd_execution_id = eid, rd_action = ROLLBACK, rd_requires_approval = True,
           rd_reason = ''Fault type '' @ ft @ '' at node '' @ observed
             @ ''. Rolling back to checkpoint '' @ sq cid @ '' before retrying with adjusted resources.'',
           rd_target_node = None, rd_checkpoint_id = Some cid,
           rd_evidence = [(''fault_type'', PStr ft), (''checkpoint_id'', PStr cid)],
           rd_confidence = 75/100\<rparr>
      | None \<Rightarrow>
          \<lparr>rd_execution_id = eid, rd_action = MANUAL_REVIEW, rd_requires_approval = True,
           rd_reason = ''Fault type '' @ ft @ '' at node '' @ observed
             @ '' with no checkpoint. Manual review required to assess resource constraints.'',
           rd_target_node = fr_observed_node fault, rd_checkpoint_id = None,
           rd_evidence = [(''fault_type'', PStr ft)], rd_confidence = 65/100\<rparr>)"

text \<open>RULE 3: the decision, if the root node is known.\<close>

definition decide_rerun ::
  "string \<Rightarrow> fault_report \<Rightarrow> fault_localization \<Rightarrow> string option \<Rightarrow> recovery_decision option" where
  "decide_rerun eid fault loc checkpoint_id =
     (case opt_or (fl_probable_root_node loc) (fr_observed_node fault) of
        None \<Rightarrow> None
      | Some root_node \<Rightarrow> Some
          \<lparr>rd_execution_id = eid, rd_action = RERUN_FROM_NODE, rd_requires_approval = False,
           rd_reason = ''Fault type '' @ fault_type_value (fr_fault_type fault)
             @ '' with localized root node '' @ sq root_node
             @ ''. Re-running from this node is the targeted recovery.'',
           rd_target_node = Some root_node, rd_checkpoint_id = checkpoint_id,
           rd_evidence = [(''fault_type'', PStr (fault_type_value (fr_fault_type fault))),
             (''root_node'', PStr root_node),
             (''localization_confidence'', PFloat (fl_confidence loc))],
           rd_confidence = fl_confidence loc\<rparr>)"

definition decide ::
  "pipeline_execution \<Rightarrow> fault_report \<Rightarrow> fault_localization \<Rightarrow> checkpoint option
     \<Rightarrow> recovery_decision result" where
  "decide execution fault loc last_good =
     (let eid = pe_execution_id execution;
          checkpoint_id = map_option ck_checkpoint_id last_good;
          ft = fr_fault_type fault; ftv = fault_type_value ft;
          sv = severity_value (fr_severity fault);
          observed = sq (fmt_opt (fr_observed_node fault))
      in if \<not> fr_detected fault then Inr
           \<lparr>rd_execution_id = eid, rd_action = RETRY, rd_requires_approval = False,
            rd_reason = ''No fault was detected. Pipeline completed successfully. A simple retry is safe.'',
            rd_target_node = None, rd_checkpoint_id = None,
            rd_evidence = [(''fault_detected'', PBool False)], rd_confidence = 1\<rparr>
         else if fr_severity fault = LOW then Inr
           \<lparr>rd_execution_id = eid, rd_action = RETRY, rd_requires_approval = False,
            rd_reason = ''Fault severity is LOW. A retry is the safest and least disruptive action. Fault type: ''
              @ ftv @ ''.'',
            rd_target_node = None, rd_checkpoint_id = None,
            rd_evidence = [(''severity'', PStr sv), (''fault_type'', PStr ftv)],
            rd_confidence = 90/100\<rparr>
         else if ft = CORRUPTED_ARTIFACT then decide_corrupted eid fault loc checkpoint_id
         else (case (if ft = VALIDATION_ERROR \<or> ft = SCHEMA_MISMATCH
                     then decide_rerun eid fault loc checkpoint_id else None) of
           Some d \<Rightarrow> Inr d
         | None \<Rightarrow> Inr
             (if ft = MISSING_ARTIFACT then decide_missing eid fault loc checkpoint_id
              else if ft = DEPENDENCY_FAILURE then decide_dependency eid fault loc checkpoint_id
              else if fr_severity fault = CRITICAL then
                \<lparr>rd_execution_id = eid, rd_action = MANUAL_REVIEW, rd_requires_approval = True,
                 rd_reason = ''CRITICAL severity fault ('' @ ftv @ '') at node '' @ observed
                   @ ''. Automated recovery is not safe for CRITICAL faults without a well-understood recovery path.'',
                 rd_target_node = fr_observed_node fault, rd_checkpoint_id = None,
                 rd_evidence = [(''severity'', PStr sv), (''fault_type'', PStr ftv)],
                 rd_confidence = 90/100\<rparr>
              else if ft = EXECUTION_ERROR \<or> ft = UNKNOWN then
                decide_execution eid fault loc checkpoint_id
              else if ft = TIMEOUT \<or> ft = RESOURCE_ERROR then
                decide_resource eid fault checkpoint_id
              else
                \<lparr>rd_execution_id = eid, rd_action = ABORT, rd_requires_approval = True,
                 rd_reason = ''Unhandled fault type '' @ sq ftv @ '' (severity='' @ sv @ '') at node ''
                   @ observed @ ''. Aborting: no safe automated recovery rule matched.'',
                 rd_target_node = fr_observed_node fault, rd_checkpoint_id = None,
                 rd_evidence = [(''fault_type'', PStr ftv), (''severity'', PStr sv),
                   (''reason'', PStr ''no_matching_recovery_rule'')],
                 rd_confidence = 50/100\<rparr>)))"

subsection \<open>Fault analysis\<close>

definition analyze_failure ::
  "runtime \<Rightarrow> pipeline_execution \<Rightarrow> node_event list \<Rightarrow> 'w sys
     \<Rightarrow> (fault_report \<times> fault_localization \<times> recovery_decision) result \<times> 'w sys" where
  "analyze_failure rt execution events s =
     (let (now, s1) = sys_now s;
          fault = detect now execution;
          loc = localize rt execution fault events;
          last_checkpoint = last_known_good_checkpoint s1 (pe_execution_id execution)
      in case decide execution fault loc last_checkpoint of
           Inl e \<Rightarrow> (Inl e, s1)
         | Inr d \<Rightarrow> (Inr (fault, loc, d), s1))"

subsection \<open>Facts\<close>

lemmas decide_defs = decide_def decide_corrupted_def decide_missing_def decide_dependency_def
  decide_execution_def decide_resource_def decide_rerun_def

lemma decide_err:
  "decide e f loc lg = Inl x \<Longrightarrow> fr_fault_type f = CORRUPTED_ARTIFACT
     \<and> (\<nexists>m. evidence_get (fr_evidence f) ''error_message'' = PStr m)"
  by (auto simp: decide_def decide_corrupted_def security_hint_def Let_def
      split: if_splits option.splits pyval.splits sum.splits bool.splits)

lemma truthy_or: "opt_or a b = None \<Longrightarrow> b = None"
  by (auto simp: opt_or_def split: if_splits)

lemma decide_corrupted_cases:
  assumes "decide_corrupted eid f loc ck = Inr d"
  shows "rd_requires_approval d" and "rd_action d \<in> {QUARANTINE, ROLLBACK, ABORT}"
    and "rd_checkpoint_id d = (if rd_action d = ROLLBACK then ck else None)"
    and "rd_action d = ROLLBACK \<Longrightarrow> ck \<noteq> None"
  using assms
  by (auto simp: decide_corrupted_def Let_def split: sum.splits bool.splits option.splits)

lemma decide_plain_cases:
  "rd_requires_approval (decide_missing eid f loc ck)"
  "rd_action (decide_missing eid f loc ck) = (if ck = None then ABORT else ROLLBACK)"
  "rd_checkpoint_id (decide_missing eid f loc ck) = ck"
  "rd_requires_approval (decide_execution eid f loc ck)"
  "rd_action (decide_execution eid f loc ck) = (if ck = None then ABORT else ROLLBACK)"
  "rd_checkpoint_id (decide_execution eid f loc ck) = ck"
  "rd_requires_approval (decide_resource eid f ck)"
  "rd_action (decide_resource eid f ck) = (if ck = None then MANUAL_REVIEW else ROLLBACK)"
  "rd_checkpoint_id (decide_resource eid f ck) = ck"
  "rd_action (decide_dependency eid f loc ck) =
     (if truthy_str (fl_probable_root_node loc) \<and> fl_probable_root_node loc \<noteq> fr_observed_node f
      then RERUN_FROM_NODE else if ck = None then MANUAL_REVIEW else ROLLBACK)"
  "rd_checkpoint_id (decide_dependency eid f loc ck) = ck"
  "rd_requires_approval (decide_dependency eid f loc ck) =
     (rd_action (decide_dependency eid f loc ck) \<noteq> RERUN_FROM_NODE)"
  "rd_target_node (decide_dependency eid f loc ck) =
     (if truthy_str (fl_probable_root_node loc) \<and> fl_probable_root_node loc \<noteq> fr_observed_node f
      then fl_probable_root_node loc else None)"
  by (auto simp: decide_missing_def decide_execution_def decide_resource_def decide_dependency_def
      Let_def split: option.splits if_splits)

lemma decide_rerun_cases:
  "decide_rerun eid f loc ck = Some d \<Longrightarrow> rd_action d = RERUN_FROM_NODE
     \<and> \<not> rd_requires_approval d \<and> rd_target_node d \<noteq> None \<and> rd_checkpoint_id d = ck"
  by (auto simp: decide_rerun_def Let_def split: option.splits)

text \<open>Which decisions are safe to take: the invariant of every decision.\<close>

definition decision_ok :: "fault_report \<Rightarrow> checkpoint option \<Rightarrow> recovery_decision \<Rightarrow> bool" where
  "decision_ok f lg d \<longleftrightarrow>
     (rd_requires_approval d \<longleftrightarrow> rd_action d \<notin> {RETRY, RERUN_FROM_NODE})
     \<and> (rd_action d = RETRY \<longleftrightarrow> \<not> fr_detected f \<or> fr_severity f = LOW)
     \<and> (rd_action d = ROLLBACK \<longrightarrow> lg \<noteq> None \<and> rd_checkpoint_id d = map_option ck_checkpoint_id lg)
     \<and> (rd_action d = RERUN_FROM_NODE \<longrightarrow> rd_target_node d \<noteq> None)
     \<and> (rd_checkpoint_id d \<noteq> None \<longrightarrow> rd_checkpoint_id d = map_option ck_checkpoint_id lg)"

lemma decide_ok:
  assumes "decide e f loc lg = Inr d"
  shows "decision_ok f lg d"
proof -
  let ?ft = "fr_fault_type f" and ?ck = "map_option ck_checkpoint_id lg"
  define r where "r = (if ?ft = VALIDATION_ERROR \<or> ?ft = SCHEMA_MISMATCH
                       then decide_rerun (pe_execution_id e) f loc ?ck else None)"
  consider (none) "\<not> fr_detected f" | (low) "fr_detected f" "fr_severity f = LOW"
    | (corrupted) "fr_detected f" "fr_severity f \<noteq> LOW" "?ft = CORRUPTED_ARTIFACT"
    | (rerun) d' where "fr_detected f" "fr_severity f \<noteq> LOW" "?ft \<noteq> CORRUPTED_ARTIFACT" "r = Some d'"
    | (rest) "fr_detected f" "fr_severity f \<noteq> LOW" "?ft \<noteq> CORRUPTED_ARTIFACT" "r = None"
    by (cases r) auto
  then show ?thesis
  proof cases
    case none
    with assms show ?thesis by (auto simp: decide_def decision_ok_def Let_def)
  next
    case low
    with assms show ?thesis by (auto simp: decide_def decision_ok_def Let_def)
  next
    case corrupted
    with assms have "decide_corrupted (pe_execution_id e) f loc (map_option ck_checkpoint_id lg) = Inr d"
      by (simp add: decide_def)
    from decide_corrupted_cases [OF this] corrupted show ?thesis
      by (auto simp: decision_ok_def split: if_splits)
  next
    case rerun
    with assms have "d = d'" by (simp add: decide_def Let_def flip: r_def)
    moreover have "decide_rerun (pe_execution_id e) f loc ?ck = Some d'"
      using rerun by (simp add: r_def split: if_splits)
    ultimately show ?thesis using decide_rerun_cases rerun by (fastforce simp: decision_ok_def)
  next
    case rest
    with assms show ?thesis
      by (auto simp: decide_def Let_def decision_ok_def decide_plain_cases simp flip: r_def
          split: if_splits)
  qed
qed

text \<open>
  The policy of the whole analysis, on the failing node's error: only the decisions that a
  detector's report can reach are left.
\<close>

definition restore_or :: "recovery_action_type \<Rightarrow> bool \<Rightarrow> recovery_action_type" where
  "restore_or a has_checkpoint = (if has_checkpoint then ROLLBACK else a)"

definition policy :: "string \<Rightarrow> string \<Rightarrow> bool \<Rightarrow> bool \<Rightarrow> recovery_action_type" where
  "policy et msg has_checkpoint upstream =
     (if et = ''SecurityError'' \<or> et = ''IntegrityError''
         \<or> et = ''PermissionError'' \<and> list_ex (\<lambda>kw. str_in kw msg) [''integrity'', ''tamper'', ''corrupt'', ''security'']
      then QUARANTINE
      else if et = ''KeyError'' \<or> et = ''ValueError'' \<and> str_in ''validation'' msg then RERUN_FROM_NODE
      else if et = ''MemoryError'' then MANUAL_REVIEW
      else if et = ''TimeoutError'' then restore_or MANUAL_REVIEW has_checkpoint
      else if et = ''RuntimeError'' \<and> str_in ''dependency'' msg then
        (if upstream then RERUN_FROM_NODE else restore_or MANUAL_REVIEW has_checkpoint)
      else restore_or ABORT has_checkpoint)"

lemma output_validation_in: "str_in ''output validation'' m \<Longrightarrow> str_in ''validation'' m"
  by (rule sublist_order.order_trans [of _ "''output validation''"]) (simp_all add: sublist_code)

text \<open>The action of a decision, on the report's type, severity and evidence.\<close>

definition action_of ::
  "fault_type \<Rightarrow> fault_severity \<Rightarrow> bool \<Rightarrow> bool \<Rightarrow> bool \<Rightarrow> recovery_action_type" where
  "action_of ft sv hint has_checkpoint upstream =
     (case ft of
        CORRUPTED_ARTIFACT \<Rightarrow> if hint then QUARANTINE else restore_or ABORT has_checkpoint
      | VALIDATION_ERROR \<Rightarrow> RERUN_FROM_NODE
      | SCHEMA_MISMATCH \<Rightarrow> RERUN_FROM_NODE
      | MISSING_ARTIFACT \<Rightarrow> restore_or ABORT has_checkpoint
      | DEPENDENCY_FAILURE \<Rightarrow>
          if upstream then RERUN_FROM_NODE else restore_or MANUAL_REVIEW has_checkpoint
      | t \<Rightarrow> if sv = CRITICAL then MANUAL_REVIEW
             else if t = EXECUTION_ERROR \<or> t = UNKNOWN then restore_or ABORT has_checkpoint
             else restore_or MANUAL_REVIEW has_checkpoint)"

lemma decide_action:
  assumes "fr_detected f" "fr_severity f \<noteq> LOW" "fr_observed_node f \<noteq> None"
    and h: "security_hint (evidence_get (fr_evidence f) ''error_type'')
              (evidence_get (fr_evidence f) ''error_message'') = Inr h"
  shows "\<exists>d. decide e f loc lg = Inr d \<and> rd_action d = action_of (fr_fault_type f) (fr_severity f) h
     (lg \<noteq> None) (truthy_str (fl_probable_root_node loc) \<and> fl_probable_root_node loc \<noteq> fr_observed_node f)"
proof (cases "fr_fault_type f = CORRUPTED_ARTIFACT")
  case True
  with assms show ?thesis
    by (auto simp: decide_def decide_corrupted_def action_of_def restore_or_def Let_def
        split: bool.split option.split)
next
  case False
  obtain root_node where r: "opt_or (fl_probable_root_node loc) (fr_observed_node f) = Some root_node"
    using assms(3) truthy_or by fastforce
  show ?thesis
  proof (cases "fr_fault_type f")
    case DEPENDENCY_FAILURE
    with assms show ?thesis
      by (simp add: decide_def Let_def action_of_def restore_or_def decide_plain_cases)
  qed (use False assms r in \<open>simp_all add: decide_def Let_def action_of_def restore_or_def
      decide_plain_cases decide_rerun_def\<close>)
qed

text \<open>Every decision of RecoveryDecisionEngine.decide is safe to take: it needs no approval only for a
  retry or a rerun, it retries only without a fault or with a LOW one, a rollback names the
  last known good checkpoint, which exists, and a rerun names its node; an exception can come
  only from evidence that is not text.\<close>

theorem decide_safe:
  "case decide e f loc lg of
     Inl _ \<Rightarrow> fr_fault_type f = CORRUPTED_ARTIFACT
       \<and> (\<nexists>m. evidence_get (fr_evidence f) ''error_message'' = PStr m)
   | Inr d \<Rightarrow> decision_ok f lg d"
  by (cases "decide e f loc lg") (simp_all add: decide_err decide_ok)

lemma policy_classify:
  assumes c: "classify et em (py_lower em) nid = (ft, sv, m)"
    and h: "security_hint (PStr et) (PStr em) = Inr h"
  shows "action_of ft sv h ck up = policy et (py_lower em) ck up"
proof -
  let ?m = "py_lower em"
  have hint: "h" if "ft = CORRUPTED_ARTIFACT"
    using that c h by (auto simp: classify_def security_hint_def security_keywords_def split: if_splits)
  show ?thesis
    using c hint output_validation_in [of ?m]
    unfolding classify_def policy_def
    by (simp split: if_splits) (auto simp: action_of_def)
qed

definition analysis_action ::
  "pipeline_execution \<Rightarrow> bool \<Rightarrow> fault_localization \<Rightarrow> recovery_action_type" where
  "analysis_action e has_checkpoint loc =
     (if pe_status e = P_SUCCESS then RETRY
      else (case failed_node e of
        None \<Rightarrow> restore_or ABORT has_checkpoint
      | Some n \<Rightarrow>
          policy (str_or (ne_error_type n) []) (py_lower (str_or (ne_error_message n) []))
            has_checkpoint
            (truthy_str (fl_probable_root_node loc)
             \<and> fl_probable_root_node loc \<noteq> Some (ne_node_id n))))"

lemma decide_detected:
  "\<exists>d. decide e (detect now e) loc lg = Inr d \<and> rd_action d = analysis_action e (lg \<noteq> None) loc"
proof (cases "pe_status e = P_SUCCESS")
  case True
  then show ?thesis by (simp add: decide_def analysis_action_def Let_def)
next
  case bad: False
  show ?thesis
  proof (cases "failed_node e")
    case None
    with bad show ?thesis
      by (simp add: decide_def analysis_action_def Let_def detect_def decide_plain_cases restore_or_def)
  next
    case (Some n)
    let ?et = "str_or (ne_error_type n) []" and ?em = "str_or (ne_error_message n) []"
    obtain t sv m where c: "classify ?et ?em (py_lower ?em) (ne_node_id n) = (t, sv, m)"
      by (rule prod_cases3)
    note d = detect_failed [OF bad Some, of now]
    have "\<exists>h. security_hint (PStr ?et) (PStr ?em) = Inr h" by (auto simp: security_hint_def)
    then obtain h where h: "security_hint (PStr ?et) (PStr ?em) = Inr h" ..
    have "\<exists>d. decide e (detect now e) loc lg = Inr d \<and> rd_action d =
        action_of t sv h (lg \<noteq> None) (truthy_str (fl_probable_root_node loc)
          \<and> fl_probable_root_node loc \<noteq> Some (ne_node_id n))"
      using decide_action [of "detect now e" h e loc lg] bad Some c h d
        detect_severity_not_low [OF bad, of now]
      by (simp add: evidence_get_def)
    with policy_classify [OF c h] Some bad show ?thesis by (simp add: analysis_action_def)
  qed
qed

text \<open>C6: PipelineExecutor.analyze_failure never fails and changes nothing but the clock; its action is the
  policy table on the failing node's error type and lowered message, on whether the run has a
  last known good checkpoint and on whether localization points upstream. The engine's rules
  for LOW faults, for corruption without a security hint and for CRITICAL severity other than
  memory exhaustion never apply.\<close>

theorem analyze_failure_policy:
  "case analyze_failure rt e evs s of
     (Inl _, _) \<Rightarrow> False
   | (Inr (f, loc, d), s') \<Rightarrow>
       f = detect (fst (sys_now s)) e \<and> loc = localize rt e f evs
       \<and> s' = snd (sys_now s) \<and> sy_manager s' = sy_manager s \<and> sy_world s' = sy_world s
       \<and> decision_ok f (last_known_good_checkpoint s (pe_execution_id e)) d
       \<and> rd_action d
           = analysis_action e (last_known_good_checkpoint s (pe_execution_id e) \<noteq> None) loc"
proof -
  let ?now = "fst (sys_now s)" and ?s1 = "snd (sys_now s)"
  have same: "sy_manager ?s1 = sy_manager s" "sy_world ?s1 = sy_world s"
    by (simp_all add: sys_now_def utc_now_def)
  let ?f = "detect ?now e" and ?lg = "last_known_good_checkpoint s (pe_execution_id e)"
  have lg: "last_known_good_checkpoint ?s1 x = last_known_good_checkpoint s x" for x
    by (simp add: last_known_good_checkpoint_def same)
  obtain d where d: "decide e ?f (localize rt e ?f evs) ?lg = Inr d"
    "rd_action d = analysis_action e (?lg \<noteq> None) (localize rt e ?f evs)"
    using decide_detected by blast
  have "analyze_failure rt e evs s = (Inr (?f, localize rt e ?f evs, d), ?s1)"
    by (simp add: analyze_failure_def split_beta Let_def lg d(1))
  with same d(2) decide_ok [OF d(1)] show ?thesis by simp
qed

text \<open>The exceptions of core/integrity/errors.py are documented to be classified as CORRUPTED_ARTIFACT,
  but FaultDetector knows only the names SecurityError and IntegrityError: a node that raises
  one of them is an EXECUTION_ERROR, whose action is a rollback or an abort, never QUARANTINE.\<close>

theorem integrity_errors_not_quarantined:
  "list_all (\<lambda>et.
     if pe_status e \<noteq> P_SUCCESS \<and> map_option ne_error_type (failed_node e) = Some (Some et)
     then fr_fault_type (detect now e) = EXECUTION_ERROR \<and> fr_severity (detect now e) = MEDIUM
       \<and> analysis_action e ck loc = (if ck then ROLLBACK else ABORT)
     else True)
   [''ArtifactIntegrityError'', ''ChecksumMismatchError'', ''MissingIntegrityMetadataError'']"
proof -
  have "fr_fault_type (detect now e) = EXECUTION_ERROR \<and> fr_severity (detect now e) = MEDIUM
       \<and> analysis_action e ck loc = (if ck then ROLLBACK else ABORT)"
    if et: "et \<in> set [''ArtifactIntegrityError'', ''ChecksumMismatchError'', ''MissingIntegrityMetadataError'']"
      and bad: "pe_status e \<noteq> P_SUCCESS" and some: "map_option ne_error_type (failed_node e) = Some (Some et)" for et
  proof -
    from some obtain n where n: "failed_node e = Some n" "ne_error_type n = Some et" by auto
    have et: "et \<noteq> []" "et \<noteq> ''KeyError''" "et \<noteq> ''FileNotFoundError''" "et \<noteq> ''ValueError''"
      "et \<noteq> ''TimeoutError''" "et \<noteq> ''MemoryError''" "et \<noteq> ''PermissionError''"
      "et \<noteq> ''SecurityError''" "et \<noteq> ''IntegrityError''" "et \<noteq> ''RuntimeError''"
      using et by (elim set_ConsD [elim_format] disjE; simp)+
    with detect_failed(1,2) [OF bad n(1), of now] bad n show ?thesis
      by (simp add: classify_def analysis_action_def policy_def restore_or_def)
  qed
  then show ?thesis unfolding list_all_iff by (intro ballI) (simp only: if_bool_eq_conj simp_thms, blast)
qed

end
