(* ===== verification/Integrity.thy ===== *)
theory Integrity
  imports Checkpoints
begin

text \<open>
  Artifact integrity (\<open>core/integrity/models.py\<close>, \<open>core/integrity/checker.py\<close>): SHA-256
  manifests in sidecar files, their verification, and the trust assessment of checkpoints.
  Files are byte strings; a manifest read back is whatever JSON the sidecar holds, so its
  fields are Python values.
\<close>

subsection \<open>Models\<close>

datatype integrity_status = I_PASSED | I_FAILED | I_NO_MANIFEST | I_ARTIFACT_MISSING

fun integrity_status_value :: "integrity_status \<Rightarrow> string" where
  "integrity_status_value I_PASSED = ''passed''"
| "integrity_status_value I_FAILED = ''failed''"
| "integrity_status_value I_NO_MANIFEST = ''no_manifest''"
| "integrity_status_value I_ARTIFACT_MISSING = ''artifact_missing''"

record integrity_manifest =
  im_algorithm :: pyval
  im_checksum :: pyval
  im_artifact_id :: pyval
  im_artifact_version :: pyval
  im_created_at :: pyval
  im_execution_id :: pyval
  im_dataset_fingerprint :: pyval
  im_checkpoint_id :: pyval

definition manifest_to_dict :: "integrity_manifest \<Rightarrow> dict" where
  "manifest_to_dict m =
     [(''algorithm'', im_algorithm m), (''checksum'', im_checksum m),
      (''artifact_id'', im_artifact_id m), (''artifact_version'', im_artifact_version m),
      (''created_at'', im_created_at m), (''execution_id'', im_execution_id m),
      (''dataset_fingerprint'', im_dataset_fingerprint m),
      (''checkpoint_id'', im_checkpoint_id m)]"

text \<open>\<open>data[key]\<close> on parsed JSON, and \<open>data.get(key, default)\<close> on a dictionary\<close>

definition json_item :: "pyval \<Rightarrow> string \<Rightarrow> pyval result" where
  "json_item data key =
     (case data of
        PDict d \<Rightarrow> (case map_of d key of
           None \<Rightarrow> Inl (Exn ''KeyError'' (sq key)) | Some v \<Rightarrow> Inr v)
      | PList _ \<Rightarrow> Inl (Exn ''TypeError'' ''list indices must be integers or slices, not str'')
      | PStr _ \<Rightarrow> Inl (Exn ''TypeError'' (''string indices must be integers, not '' @ sq ''str''))
      | v \<Rightarrow> Inl (Exn ''TypeError'' (sq (type_name v) @ '' object is not subscriptable'')))"

definition json_get :: "pyval \<Rightarrow> string \<Rightarrow> pyval \<Rightarrow> pyval" where
  "json_get data key d =
     (case data of PDict kvs \<Rightarrow> (case map_of kvs key of None \<Rightarrow> d | Some v \<Rightarrow> v) | _ \<Rightarrow> d)"

text \<open>The five subscripts of \<open>from_dict\<close> in evaluation order; only a dictionary passes the first.\<close>

definition manifest_from_dict :: "pyval \<Rightarrow> integrity_manifest result" where
  "manifest_from_dict data =
     (case json_item data ''algorithm'' of Inl e \<Rightarrow> Inl e | Inr alg \<Rightarrow>
     (case json_item data ''checksum'' of Inl e \<Rightarrow> Inl e | Inr cs \<Rightarrow>
     (case json_item data ''artifact_id'' of Inl e \<Rightarrow> Inl e | Inr aid \<Rightarrow>
     (case json_item data ''created_at'' of Inl e \<Rightarrow> Inl e | Inr made \<Rightarrow>
     (case json_item data ''execution_id'' of Inl e \<Rightarrow> Inl e | Inr xid \<Rightarrow>
        Inr \<lparr>im_algorithm = alg, im_checksum = cs, im_artifact_id = aid,
             im_artifact_version = json_get data ''artifact_version'' (PStr ''1.0''),
             im_created_at = made, im_execution_id = xid,
             im_dataset_fingerprint = json_get data ''dataset_fingerprint'' (PStr []),
             im_checkpoint_id = json_get data ''checkpoint_id'' PNone\<rparr>)))))"

record integrity_result =
  ir_valid :: bool
  ir_status :: integrity_status
  ir_artifact_path :: string
  ir_algorithm :: string
  ir_expected_checksum :: pyval
  ir_actual_checksum :: "string option"
  ir_checked_at :: int
  ir_reason :: string

definition integrity_result_to_dict :: "runtime \<Rightarrow> integrity_result \<Rightarrow> dict" where
  "integrity_result_to_dict rt r =
     [(''valid'', PBool (ir_valid r)),
      (''status'', PStr (integrity_status_value (ir_status r))),
      (''artifact_path'', PStr (ir_artifact_path r)),
      (''algorithm'', PStr (ir_algorithm r)),
      (''expected_checksum'', ir_expected_checksum r),
      (''actual_checksum'', opt_str (ir_actual_checksum r)),
      (''checked_at'', PStr (rt_iso rt (ir_checked_at r))),
      (''reason'', PStr (ir_reason r))]"

record trust_report =
  tr_checkpoint_id :: "string option"
  tr_exists :: bool
  tr_structurally_valid :: bool
  tr_integrity_verified :: bool
  tr_trusted :: bool
  tr_trust_level :: string
  tr_reason :: string

definition trust_report_to_dict :: "trust_report \<Rightarrow> dict" where
  "trust_report_to_dict r =
     [(''checkpoint_id'', opt_str (tr_checkpoint_id r)), (''exists'', PBool (tr_exists r)),
      (''structurally_valid'', PBool (tr_structurally_valid r)),
      (''integrity_verified'', PBool (tr_integrity_verified r)),
      (''trusted'', PBool (tr_trusted r)), (''trust_level'', PStr (tr_trust_level r)),
      (''reason'', PStr (tr_reason r))]"

subsection \<open>The file system\<close>

text \<open>
  Regular files with their bytes, and the environment's answers: the exception that reading
  a file raises, that preparing a temporary file beside a path raises, that \<open>os.replace\<close>
  raises, and that the \<open>shutil.move\<close> which replaces it raises.
\<close>

record fs =
  fs_files :: "string \<rightharpoonup> string"
  fs_read_error :: "string \<Rightarrow> exn option"
  fs_tmp_error :: "string \<Rightarrow> exn option"
  fs_replace_error :: "string \<Rightarrow> exn option"
  fs_move_error :: "string \<Rightarrow> exn option"

definition path_exists :: "fs \<Rightarrow> string \<Rightarrow> bool" where
  "path_exists f p \<longleftrightarrow> fs_files f p \<noteq> None"

text \<open>\<open>Path(p).name\<close> of a normalised path\<close>

definition path_name :: "string \<Rightarrow> string" where
  "path_name p = rev (takeWhile (\<lambda>c. c \<noteq> CHR ''/'') (rev p))"

text \<open>\<open>p.parent / (p.name + suffix)\<close> appends the suffix to a normalised path with a name.\<close>

definition manifest_path :: "string \<Rightarrow> string" where
  "manifest_path p = p @ ''.manifest.json''"

subsection \<open>Checksums\<close>

text \<open>
  The \<open>while chunk := f.read(n): h.update(chunk)\<close> loop. A hash object is the bytes it was
  fed: \<open>update(a); update(b)\<close> is \<open>update(a + b)\<close>.
\<close>

function hash_loop :: "nat \<Rightarrow> string \<Rightarrow> string \<Rightarrow> string" where
  "hash_loop n fed rest =
     (let chunk = take (Suc n) rest
      in if chunk = [] then fed else hash_loop n (fed @ chunk) (drop (Suc n) rest))"
  by pat_completeness auto
termination
  by (relation "measure (\<lambda>(n, fed, rest). length rest)") auto

declare hash_loop.simps [simp del]

definition chunk_size :: nat where
  "chunk_size = 65536"

definition compute_checksum :: "runtime \<Rightarrow> fs \<Rightarrow> string \<Rightarrow> string result" where
  "compute_checksum rt f path =
     (case fs_files f path of
        None \<Rightarrow> Inl (Exn ''FileNotFoundError'' (''Artifact not found for checksum: '' @ path))
      | Some bytes \<Rightarrow>
          (case fs_read_error f path of
             Some e \<Rightarrow> Inl e
           | None \<Rightarrow> Inr (rt_sha256 rt (hash_loop (chunk_size - 1) [] bytes))))"

text \<open>Reading in chunks loses nothing.\<close>

lemma hash_loop_all: "hash_loop n fed rest = fed @ rest"
proof (induction n fed rest rule: hash_loop.induct)
  case (1 n fed rest)
  show ?case
  proof (cases "rest = []")
    case True
    then show ?thesis by (subst hash_loop.simps) simp
  next
    case False
    then have "hash_loop n fed rest = hash_loop n (fed @ take (Suc n) rest) (drop (Suc n) rest)"
      by (subst hash_loop.simps) (simp add: Let_def)
    also have "\<dots> = fed @ rest" using 1 False by simp
    finally show ?thesis .
  qed
qed

lemma compute_checksum_simps [simp]:
  "fs_files f p = Some b \<Longrightarrow> fs_read_error f p = None
     \<Longrightarrow> compute_checksum rt f p = Inr (rt_sha256 rt b)"
  by (simp add: compute_checksum_def hash_loop_all)

subsection \<open>Creating a manifest\<close>

definition is_os_error :: "exn \<Rightarrow> bool" where
  "is_os_error e \<longleftrightarrow> exn_type e \<in>
     {''OSError'', ''PermissionError'', ''FileNotFoundError'', ''FileExistsError'',
      ''IsADirectoryError'', ''NotADirectoryError'', ''InterruptedError'', ''TimeoutError''}"

text \<open>The temporary file is gone whatever happens; the target changes only on success.\<close>

definition write_json_atomic :: "runtime \<Rightarrow> string \<Rightarrow> pyval \<Rightarrow> fs \<Rightarrow> unit result \<times> fs" where
  "write_json_atomic rt path data f =
     (case fs_tmp_error f path of
        Some e \<Rightarrow> (Inl e, f)
      | None \<Rightarrow>
          (case rt_dump_pretty rt data of
             Inl e \<Rightarrow> (Inl e, f)
           | Inr text \<Rightarrow>
               (let done = f\<lparr>fs_files := (fs_files f)(path \<mapsto> text)\<rparr> in
                case fs_replace_error f path of
                  None \<Rightarrow> (Inr (), done)
                | Some e \<Rightarrow>
                    (if is_os_error e then
                       (case fs_move_error f path of
                          None \<Rightarrow> (Inr (), done)
                        | Some e' \<Rightarrow> (Inl e', f))
                     else (Inl e, f)))))"

definition create_manifest ::
  "runtime \<Rightarrow> string \<Rightarrow> string \<Rightarrow> string \<Rightarrow> string option \<Rightarrow> string \<Rightarrow> fs \<times> env
     \<Rightarrow> integrity_manifest result \<times> fs \<times> env" where
  "create_manifest rt path execution_id dataset_fingerprint checkpoint_id model_name fe =
     (let (f, e) = fe in
      case compute_checksum rt f path of
        Inl x \<Rightarrow> (Inl x, f, e)
      | Inr checksum \<Rightarrow>
          (let (now, e1) = utc_now e;
               manifest = \<lparr>im_algorithm = PStr ''sha256'', im_checksum = PStr checksum,
                 im_artifact_id = PStr (if model_name \<noteq> [] then model_name @ '':'' @ execution_id
                                        else execution_id),
                 im_artifact_version = PStr ''1.0'', im_created_at = PStr (rt_iso rt now),
                 im_execution_id = PStr execution_id,
                 im_dataset_fingerprint = PStr dataset_fingerprint,
                 im_checkpoint_id = opt_str checkpoint_id\<rparr>
           in case write_json_atomic rt (manifest_path path) (PDict (manifest_to_dict manifest)) f of
                (Inl x, f1) \<Rightarrow> (Inl x, f1, e1)
              | (Inr _, f1) \<Rightarrow> (Inr manifest, f1, e1)))"

subsection \<open>Verification\<close>

definition integrity_failure ::
  "int \<Rightarrow> string \<Rightarrow> integrity_status \<Rightarrow> pyval \<Rightarrow> string option \<Rightarrow> string \<Rightarrow> integrity_result" where
  "integrity_failure now path st expected actual reason =
     \<lparr>ir_valid = False, ir_status = st, ir_artifact_path = path, ir_algorithm = ''sha256'',
      ir_expected_checksum = expected, ir_actual_checksum = actual, ir_checked_at = now,
      ir_reason = reason\<rparr>"

text \<open>
  \<open>f"{v[:12]}"\<close>: a manifest's checksum need not be a string. A number, a boolean or null
  cannot be sliced, and nothing catches that \<open>TypeError\<close>.
\<close>

definition slice12 :: "runtime \<Rightarrow> pyval \<Rightarrow> string result" where
  "slice12 rt v =
     (case v of
        PStr s \<Rightarrow> Inr (take_chars 12 s)
      | PList xs \<Rightarrow> Inr (rt_str rt (PList (take 12 xs)))
      | PTuple xs \<Rightarrow> Inr (rt_str rt (PTuple (take 12 xs)))
      | PDict _ \<Rightarrow> Inl (Exn ''TypeError'' (''unhashable type: '' @ sq ''slice''))
      | w \<Rightarrow> Inl (Exn ''TypeError'' (sq (type_name w) @ '' object is not subscriptable'')))"

text \<open>\<open>if raise_on_failure: raise C(reason)\<close>, else the result\<close>

definition failed_or_raise :: "bool \<Rightarrow> string \<Rightarrow> integrity_result \<Rightarrow> integrity_result result" where
  "failed_or_raise raise_on_failure cls r =
     (if raise_on_failure then Inl (Exn cls (ir_reason r)) else Inr r)"

definition verify :: "runtime \<Rightarrow> int \<Rightarrow> fs \<Rightarrow> string \<Rightarrow> bool \<Rightarrow> integrity_result result" where
  "verify rt now f path raise_on_failure =
     (if \<not> path_exists f path then
        failed_or_raise raise_on_failure ''ArtifactIntegrityError''
          (integrity_failure now path I_ARTIFACT_MISSING PNone None
             (''Artifact not found on disk: '' @ path))
      else case fs_files f (manifest_path path) of
        None \<Rightarrow>
          failed_or_raise raise_on_failure ''MissingIntegrityMetadataError''
            (integrity_failure now path I_NO_MANIFEST PNone None
               (''No integrity manifest found for '' @ sq (path_name path)
                @ ''. This is a legacy artifact '' @ em_dash @ '' integrity is unverified.''))
      | Some text \<Rightarrow>
          (case (case fs_read_error f (manifest_path path) of Some e \<Rightarrow> Inl e
                 | None \<Rightarrow> (case rt_loads rt text of Inl e \<Rightarrow> Inl e
                            | Inr raw \<Rightarrow> manifest_from_dict raw)) of
             Inl e \<Rightarrow>
               failed_or_raise raise_on_failure ''ArtifactIntegrityError''
                 (integrity_failure now path I_FAILED PNone None
                    (''Manifest could not be parsed: '' @ exn_str e))
           | Inr manifest \<Rightarrow>
               (case compute_checksum rt f path of
                  Inl e \<Rightarrow>
                    failed_or_raise raise_on_failure ''ArtifactIntegrityError''
                      (integrity_failure now path I_FAILED (im_checksum manifest) None
                         (''Could not compute checksum: '' @ exn_str e))
                | Inr actual \<Rightarrow>
                    (if PStr actual \<noteq> im_checksum manifest then
                       (case slice12 rt (im_checksum manifest) of
                          Inl e \<Rightarrow> Inl e
                        | Inr expected12 \<Rightarrow>
                            failed_or_raise raise_on_failure ''ChecksumMismatchError''
                              (integrity_failure now path I_FAILED (im_checksum manifest) (Some actual)
                                 (''Checksum mismatch for '' @ sq (path_name path) @ '': expected ''
                                  @ expected12 @ ellipsis @ '', got '' @ take_chars 12 actual @ ellipsis)))
                     else
                       Inr \<lparr>ir_valid = True, ir_status = I_PASSED, ir_artifact_path = path,
                            ir_algorithm = ''sha256'', ir_expected_checksum = im_checksum manifest,
                            ir_actual_checksum = Some actual, ir_checked_at = now,
                            ir_reason = ''Integrity verified: SHA-256 matches manifest for ''
                              @ sq (path_name path) @ ''.''\<rparr>))))"

subsection \<open>Checkpoint trust\<close>

definition assess_checkpoint_trust :: "checkpoint option \<Rightarrow> trust_report" where
  "assess_checkpoint_trust checkpoint =
     (case checkpoint of
        None \<Rightarrow>
          \<lparr>tr_checkpoint_id = None, tr_exists = False, tr_structurally_valid = False,
           tr_integrity_verified = False, tr_trusted = False, tr_trust_level = ''unavailable'',
           tr_reason = ''No checkpoint provided.''\<rparr>
      | Some c \<Rightarrow>
          (let cid = ck_checkpoint_id c; exists = cid \<noteq> []; vstatus = ck_validation_status c;
               data_hash = ck_data_hash c; node_id = ck_node_id c;
               structurally_valid =
                 (cid \<noteq> [] \<and> vstatus \<noteq> [] \<and> node_id \<noteq> [] \<and> vstatus = ''passed'');
               integrity_verified = (structurally_valid \<and> data_hash \<noteq> []);
               trusted = (structurally_valid \<and> integrity_verified);
               (level, reason) =
                 (if trusted then
                    (''integrity_verified'', ''Checkpoint '' @ sq cid
                       @ '' is trusted: validation_status=passed, data_hash present.'')
                  else if structurally_valid then
                    (''structurally_valid'', ''Checkpoint '' @ sq cid
                       @ '' is structurally valid but data_hash is absent '' @ em_dash
                       @ '' integrity unverified.'')
                  else if exists then
                    (''exists'', ''Checkpoint '' @ sq cid
                       @ '' exists but failed structural checks (validation_status=''
                       @ sq vstatus @ '').'')
                  else (''unavailable'', ''Checkpoint has no valid checkpoint_id.''))
           in \<lparr>tr_checkpoint_id = Some cid, tr_exists = exists,
               tr_structurally_valid = structurally_valid,
               tr_integrity_verified = integrity_verified, tr_trusted = trusted,
               tr_trust_level = level, tr_reason = reason\<rparr>))"

definition select_trusted_checkpoint :: "checkpoint list \<Rightarrow> checkpoint option" where
  "select_trusted_checkpoint candidates =
     py_max ck_created_at (filter (\<lambda>c. tr_trusted (assess_checkpoint_trust (Some c))) candidates)"

subsection \<open>Facts\<close>

lemma manifest_path_neq [simp]: "manifest_path p \<noteq> p" "p \<noteq> manifest_path p"
  by (simp_all add: manifest_path_def)

lemma manifest_from_dict_same:
  assumes "map_of d = map_of (manifest_to_dict m)"
  shows "manifest_from_dict (PDict d) = Inr m"
  using assms by (simp add: manifest_from_dict_def json_item_def json_get_def manifest_to_dict_def)

lemma write_json_atomic_cases:
  "write_json_atomic rt p d f = (r, f') \<Longrightarrow>
     (case r of
        Inl _ \<Rightarrow> f' = f
      | Inr _ \<Rightarrow> (\<exists>t. rt_dump_pretty rt d = Inr t \<and> f' = f\<lparr>fs_files := (fs_files f)(p \<mapsto> t)\<rparr>))"
  by (auto simp: write_json_atomic_def Let_def split: option.splits sum.splits if_splits)

lemma create_manifest_ok:
  assumes "create_manifest rt p x fp cid nm (f, e) = (Inr m, f', e')"
  shows "\<exists>b t. fs_files f p = Some b \<and> im_checksum m = PStr (rt_sha256 rt b)
     \<and> rt_dump_pretty rt (PDict (manifest_to_dict m)) = Inr t
     \<and> f' = f\<lparr>fs_files := (fs_files f)(manifest_path p \<mapsto> t)\<rparr>"
  using assms
  by (auto simp: create_manifest_def compute_checksum_def Let_def hash_loop_all
      split: option.splits sum.splits prod.splits dest!: write_json_atomic_cases)

lemma trusted_iff:
  "tr_trusted (assess_checkpoint_trust (Some c)) \<longleftrightarrow>
     ck_checkpoint_id c \<noteq> [] \<and> ck_node_id c \<noteq> [] \<and> ck_data_hash c \<noteq> []
     \<and> ck_validation_status c = ''passed''"
  by (auto simp: assess_checkpoint_trust_def Let_def)

lemma verify_after_manifest:
  assumes "create_manifest rt p x fp cid nm (f, e) = (Inr m, f1, e1)"
    and "rt_dump_pretty rt (PDict (manifest_to_dict m)) = Inr t"
    and "rt_loads rt t = Inr (PDict d)" and "map_of d = map_of (manifest_to_dict m)"
    and "fs_read_error f p = None" and "fs_read_error f (manifest_path p) = None"
  shows "case verify rt now (f1\<lparr>fs_files := (fs_files f1)(p \<mapsto> b)\<rparr>) p False of
     Inl _ \<Rightarrow> False
   | Inr r \<Rightarrow> ir_status r = (if PStr (rt_sha256 rt b) = im_checksum m then I_PASSED else I_FAILED)
       \<and> ir_valid r = (PStr (rt_sha256 rt b) = im_checksum m)
       \<and> Some (im_checksum m) = map_option (\<lambda>b0. PStr (rt_sha256 rt b0)) (fs_files f p)"
proof -
  obtain b0 t' where c: "fs_files f p = Some b0" "im_checksum m = PStr (rt_sha256 rt b0)"
    "f1 = f\<lparr>fs_files := (fs_files f)(manifest_path p \<mapsto> t)\<rparr>"
    using create_manifest_ok [OF assms(1)] assms(2) by auto
  show ?thesis
    using c assms manifest_from_dict_same [OF assms(4)]
    by (simp add: verify_def path_exists_def failed_or_raise_def integrity_failure_def slice12_def)
qed

text \<open>C12: An artifact with a manifest made by create_manifest verifies as PASSED as long as its bytes have
  the recorded SHA-256, and as FAILED, without an exception, once they do not; json.dump and
  json.loads are assumed to give back the same keys and values for this one document.\<close>

theorem manifest_detects_tampering:
  assumes "create_manifest rt p x fp cid nm (f, e) = (Inr m, f1, e1)"
    and "rt_dump_pretty rt (PDict (manifest_to_dict m)) = Inr t"
    and "rt_loads rt t = Inr (PDict d)" and "map_of d = map_of (manifest_to_dict m)"
    and "fs_read_error f p = None" and "fs_read_error f (manifest_path p) = None"
  shows "case verify rt now (f1\<lparr>fs_files := (fs_files f1)(p \<mapsto> b)\<rparr>) p False of
     Inl _ \<Rightarrow> False
   | Inr r \<Rightarrow> ir_status r = (if PStr (rt_sha256 rt b) = im_checksum m then I_PASSED else I_FAILED)
       \<and> ir_valid r = (PStr (rt_sha256 rt b) = im_checksum m)
       \<and> Some (im_checksum m) = map_option (\<lambda>b0. PStr (rt_sha256 rt b0)) (fs_files f p)"
  using verify_after_manifest [OF assms] .

text \<open>The bytes \<open>x\<close> are stored with their manifest and then overwritten by \<open>y\<close>.\<close>

definition demo_manifest :: integrity_manifest where
  "demo_manifest = \<lparr>im_algorithm = PStr ''sha256'', im_checksum = PStr ''hx'',
     im_artifact_id = PStr ''m:e'', im_artifact_version = PStr ''1.0'', im_created_at = PStr (show_int 0),
     im_execution_id = PStr ''e'', im_dataset_fingerprint = PStr [], im_checkpoint_id = PNone\<rparr>"

definition demo_json_rt :: runtime where
  "demo_json_rt = demo_rt\<lparr>rt_dump_pretty := (\<lambda>_. Inr ''j''),
     rt_loads := (\<lambda>_. Inr (PDict (manifest_to_dict demo_manifest)))\<rparr>"

definition demo_fs :: fs where
  "demo_fs = \<lparr>fs_files = [''a'' \<mapsto> ''x''], fs_read_error = (\<lambda>_. None), fs_tmp_error = (\<lambda>_. None),
     fs_replace_error = (\<lambda>_. None), fs_move_error = (\<lambda>_. None)\<rparr>"

theorem manifest_detects_tampering_witness:
  "case verify demo_json_rt 0 (demo_fs\<lparr>fs_files := [''a'' \<mapsto> ''y'', manifest_path ''a'' \<mapsto> ''j'']\<rparr>) ''a'' False of
     Inl _ \<Rightarrow> False | Inr r \<Rightarrow> ir_status r = I_FAILED \<and> \<not> ir_valid r"
proof -
  let ?f1 = "demo_fs\<lparr>fs_files := (fs_files demo_fs)(manifest_path ''a'' \<mapsto> ''j'')\<rparr>"
  have mk: "create_manifest demo_json_rt ''a'' ''e'' [] None ''m'' (demo_fs, demo_env)
      = (Inr demo_manifest, ?f1, snd (utc_now demo_env))"
    by (simp add: create_manifest_def demo_fs_def demo_json_rt_def demo_rt_def demo_env_def
        demo_manifest_def write_json_atomic_def utc_now_def opt_str_def)
  have rt: "rt_dump_pretty demo_json_rt x = Inr ''j''" "rt_sha256 demo_json_rt y = ''h'' @ y"
    "rt_loads demo_json_rt z = Inr (PDict (manifest_to_dict demo_manifest))" for x y z
    by (simp_all add: demo_json_rt_def demo_rt_def)
  have fs: "fs_read_error demo_fs = (\<lambda>_. None)" "fs_files demo_fs = [''a'' \<mapsto> ''x'']"
    by (simp_all add: demo_fs_def)
  have cs: "im_checksum demo_manifest = PStr ''hx''" by (simp add: demo_manifest_def)
  show ?thesis
    using manifest_detects_tampering [OF mk rt(1) rt(3) refl, where now = 0 and b = "''y''"]
    by (simp add: rt fs cs fun_upd_twist split: sum.splits)
qed

text \<open>select_trusted_checkpoint returns a most recent one of the trusted candidates: a newer checkpoint
  that is not trusted never displaces an older trusted one. On the checkpoints of one run in a
  store whose entries have identifiers, nodes and hashes, it is last_known_good.\<close>

theorem select_trusted_correct:
  "(case select_trusted_checkpoint cs of
      None \<Rightarrow> \<not> list_ex (\<lambda>d. tr_trusted (assess_checkpoint_trust (Some d))) cs
    | Some c \<Rightarrow> c \<in> set cs \<and> tr_trusted (assess_checkpoint_trust (Some c))
        \<and> list_all (\<lambda>d. if tr_trusted (assess_checkpoint_trust (Some d))
                        then ck_created_at d \<le> ck_created_at c else True) cs)
   \<and> (if list_all (\<lambda>c. ck_checkpoint_id c \<noteq> [] \<and> ck_node_id c \<noteq> [] \<and> ck_data_hash c \<noteq> []) (cm_list m)
      then select_trusted_checkpoint (filter (\<lambda>c. ck_execution_id c = x) (cm_list m))
             = cm_last_known_good m (Some x)
      else True)"
proof (rule conjI)
  show "case select_trusted_checkpoint cs of
      None \<Rightarrow> \<not> list_ex (\<lambda>d. tr_trusted (assess_checkpoint_trust (Some d))) cs
    | Some c \<Rightarrow> c \<in> set cs \<and> tr_trusted (assess_checkpoint_trust (Some c))
        \<and> list_all (\<lambda>d. if tr_trusted (assess_checkpoint_trust (Some d))
                        then ck_created_at d \<le> ck_created_at c else True) cs"
  proof (cases "select_trusted_checkpoint cs")
    case None
    then show ?thesis by (simp add: select_trusted_checkpoint_def filter_empty_conv list_ex_iff)
  next
    case (Some c)
    from py_max_Some [OF this [unfolded select_trusted_checkpoint_def]] Some show ?thesis
      by (simp add: list_all_iff)
  qed
  show "if list_all (\<lambda>c. ck_checkpoint_id c \<noteq> [] \<and> ck_node_id c \<noteq> [] \<and> ck_data_hash c \<noteq> []) (cm_list m)
      then select_trusted_checkpoint (filter (\<lambda>c. ck_execution_id c = x) (cm_list m))
             = cm_last_known_good m (Some x)
      else True"
  proof (rule if_bool_eq_conj [THEN iffD2], intro conjI impI)
    assume "list_all (\<lambda>c. ck_checkpoint_id c \<noteq> [] \<and> ck_node_id c \<noteq> [] \<and> ck_data_hash c \<noteq> []) (cm_list m)"
    then have "filter (\<lambda>c. tr_trusted (assess_checkpoint_trust (Some c))) (filter (\<lambda>c. ck_execution_id c = x) (cm_list m))
        = filter (\<lambda>c. ck_execution_id c = x) (filter (\<lambda>c. ck_validation_status c = ''passed'') (cm_list m))"
      by (auto simp: trusted_iff list_all_iff intro!: filter_cong)
    then show "select_trusted_checkpoint (filter (\<lambda>c. ck_execution_id c = x) (cm_list m))
        = cm_last_known_good m (Some x)"
      by (simp add: select_trusted_checkpoint_def cm_last_known_good_def)
  qed simp
qed

end
