(* ===== verification/Validator.thy ===== *)
theory Validator
  imports Integrity
begin

text \<open>
  The recovery validation gate (\<open>core/recovery/validator.py\<close>) and its result records
  (\<open>ValidationCheck\<close>, \<open>ValidationResult\<close> of \<open>core/recovery/models.py\<close>). Whether a path
  exists on disk is the argument \<open>on_disk\<close>.
\<close>

subsection \<open>Models\<close>

record validation_check =
  vc_name :: string
  vc_passed :: bool
  vc_message :: string

record validation_result =
  vr_passed :: bool
  vr_checks :: "validation_check list"
  vr_failures :: "string list"
  vr_message :: string

definition validation_to_dict :: "validation_result \<Rightarrow> dict" where
  "validation_to_dict r =
     [(''passed'', PBool (vr_passed r)),
      (''failures'', PList (map PStr (vr_failures r))),
      (''message'', PStr (vr_message r)),
      (''checks'', PList (map (\<lambda>c. PDict [(''name'', PStr (vc_name c)),
           (''passed'', PBool (vc_passed c)), (''message'', PStr (vc_message c))]) (vr_checks r)))]"

definition check :: "string \<Rightarrow> bool \<Rightarrow> string \<Rightarrow> validation_check" where
  "check name passed message = \<lparr>vc_name = name, vc_passed = passed, vc_message = message\<rparr>"

definition build_result :: "validation_check list \<Rightarrow> validation_result" where
  "build_result checks =
     (let failures = map vc_name (filter (\<lambda>c. \<not> vc_passed c) checks);
          passed = (length failures = 0)
      in \<lparr>vr_passed = passed, vr_checks = checks, vr_failures = failures,
          vr_message = (if passed then ''All validation checks passed.''
                        else ''Validation failed: '' @ py_join '', '' failures)\<rparr>)"

subsection \<open>Node executions\<close>

text \<open>\<open>c not in actual\<close> for a string \<open>c\<close>, collected over the expected columns.\<close>

definition py_contains :: "pyval \<Rightarrow> string \<Rightarrow> bool result" where
  "py_contains v c =
     (case v of
        PStr s \<Rightarrow> Inr (str_in c s)
      | w \<Rightarrow> (case py_iter w of
           Some xs \<Rightarrow> Inr (PStr c \<in> set xs)
         | None \<Rightarrow> Inl (Exn ''TypeError''
             (''argument of type '' @ sq (type_name w) @ '' is not iterable''))))"

fun missing_columns :: "string list \<Rightarrow> pyval \<Rightarrow> string list result" where
  "missing_columns [] actual = Inr []"
| "missing_columns (c # cs) actual =
     (case py_contains actual c of
        Inl e \<Rightarrow> Inl e
      | Inr present \<Rightarrow>
          (case missing_columns cs actual of
             Inl e \<Rightarrow> Inl e
           | Inr ms \<Rightarrow> Inr (if present then ms else c # ms)))"

definition schema_check ::
  "runtime \<Rightarrow> node_execution \<Rightarrow> string list option \<Rightarrow> validation_check list result" where
  "schema_check rt n expected =
     (case expected of
        None \<Rightarrow> Inr []
      | Some cols \<Rightarrow>
          (case map_of (ne_output_metadata n) ''columns'' of
             None \<Rightarrow> Inr [check ''schema_columns_match'' False
                        ''No 'columns' key in output_metadata for schema check.'']
           | Some PNone \<Rightarrow> Inr [check ''schema_columns_match'' False
                        ''No 'columns' key in output_metadata for schema check.'']
           | Some actual \<Rightarrow>
               (case missing_columns cols actual of
                  Inl e \<Rightarrow> Inl e
                | Inr missing \<Rightarrow>
                    Inr [check ''schema_columns_match'' (length missing = 0)
                      (if length missing = 0 then ''Schema columns match.''
                       else ''Missing columns: '' @ rt_str rt (PList (map PStr missing)))])))"

definition node_checks :: "node_execution \<Rightarrow> validation_check list" where
  "node_checks n =
     (let status_ok = (ne_status n = N_SUCCESS);
          no_error = ((ne_error_type n = None \<and> ne_error_message n = None) \<or> ne_status n \<noteq> N_SUCCESS);
          has_output = (ne_output_metadata n \<noteq> [])
      in [check ''node_status_success'' status_ok
            (''Node '' @ sq (ne_node_id n) @ '' status is '' @ sq (node_status_value (ne_status n))
             @ '' ('' @ (if status_ok then ''OK'' else ''FAIL '' @ em_dash @ '' expected SUCCESS'') @ '')''),
          check ''no_unresolved_error'' no_error
            (if no_error then ''No unresolved error_type on node execution.''
             else ''Node '' @ sq (ne_node_id n) @ '' has status SUCCESS but error_type=''
               @ sq (fmt_opt (ne_error_type n)) @ '' is set.''),
          check ''output_metadata_present'' has_output
            (if has_output then ''output_metadata is populated.''
             else ''Node '' @ sq (ne_node_id n) @ '' has empty output_metadata.'')])"

definition validate_node_execution ::
  "runtime \<Rightarrow> node_execution \<Rightarrow> string list option \<Rightarrow> validation_result result" where
  "validate_node_execution rt n expected =
     (case schema_check rt n expected of
        Inl e \<Rightarrow> Inl e
      | Inr schema \<Rightarrow> Inr (build_result (node_checks n @ schema)))"

subsection \<open>Checkpoints\<close>

definition validate_checkpoint :: "(string \<Rightarrow> bool) \<Rightarrow> checkpoint \<Rightarrow> validation_result" where
  "validate_checkpoint on_disk c =
     (let has_id = (ck_checkpoint_id c \<noteq> []);
          status_ok = (ck_validation_status c = ''passed'');
          has_hash = (ck_data_hash c \<noteq> [])
      in build_result
        ([check ''checkpoint_id_present'' has_id
            (if has_id then ''checkpoint_id='' @ sq (ck_checkpoint_id c)
             else ''checkpoint_id is missing or empty.''),
          check ''validation_status_passed'' status_ok
            (if status_ok then ''validation_status == 'passed'.''
             else ''validation_status is '' @ sq (ck_validation_status c) @ '', expected 'passed'.''),
          check ''data_hash_present'' has_hash
            (if has_hash then ''data_hash is present.''
             else ''data_hash is missing '' @ em_dash @ '' checkpoint integrity unknown.'')]
         @ (case ck_artifact_path c of
              Some p \<Rightarrow>
                [check ''artifact_path_exists'' (on_disk p)
                   (if on_disk p then ''Artifact at '' @ sq p @ '' exists.''
                    else ''Artifact path '' @ sq p @ '' does not exist on disk.'')]
            | None \<Rightarrow>
                [check ''artifact_path_exists'' True
                   (''No artifact_path '' @ em_dash @ '' in-memory checkpoint (OK).'')])))"

definition validate_full ::
  "runtime \<Rightarrow> (string \<Rightarrow> bool) \<Rightarrow> node_execution \<Rightarrow> checkpoint option \<Rightarrow> string list option
     \<Rightarrow> validation_result result" where
  "validate_full rt on_disk n checkpoint expected =
     (case validate_node_execution rt n expected of
        Inl e \<Rightarrow> Inl e
      | Inr node_result \<Rightarrow>
          Inr (build_result
            (case checkpoint of
               Some c \<Rightarrow> vr_checks node_result @ vr_checks (validate_checkpoint on_disk c)
             | None \<Rightarrow> vr_checks node_result)))"

subsection \<open>Artifacts\<close>

definition validate_artifact_integrity ::
  "(string \<Rightarrow> bool) \<Rightarrow> string option \<Rightarrow> integrity_result option \<Rightarrow> validation_result" where
  "validate_artifact_integrity on_disk path result =
     build_result
       [check ''artifact_path_provided'' (path \<noteq> None)
          (case path of Some p \<Rightarrow> ''artifact_path='' @ sq p
           | None \<Rightarrow> ''artifact_path is None '' @ em_dash @ '' cannot validate artifact.''),
        (case path of
           Some p \<Rightarrow> check ''artifact_exists_on_disk'' (on_disk p)
             (if on_disk p then ''Artifact exists at '' @ sq p @ ''.''
              else ''Artifact not found on disk: '' @ sq p @ ''.'')
         | None \<Rightarrow> check ''artifact_exists_on_disk'' False
             (''Cannot check existence '' @ em_dash @ '' path not provided.'')),
        check ''integrity_check_was_performed'' (result \<noteq> None)
          (if result \<noteq> None then ''Integrity check result is available.''
           else ''No integrity check was performed '' @ em_dash @ '' treating as unverified.''),
        (case result of
           Some r \<Rightarrow>
             (let integrity_ok = (ir_status r \<in> {I_PASSED, I_NO_MANIFEST}) in
              check ''integrity_check_passed'' integrity_ok
                (if integrity_ok
                 then ''Integrity status: '' @ integrity_status_value (ir_status r) @ '' (acceptable).''
                 else ''Integrity check FAILED: '' @ ir_reason r))
         | None \<Rightarrow> check ''integrity_check_passed'' False ''No integrity result to evaluate.'')]"

subsection \<open>Facts\<close>

lemma check_simps [simp]:
  "vc_name (check n p m) = n" "vc_passed (check n p m) = p" "vc_message (check n p m) = m"
  by (simp_all add: check_def)

lemma build_result_passed [simp]: "vr_passed (build_result cs) \<longleftrightarrow> list_all vc_passed cs"
  by (auto simp: build_result_def Let_def filter_empty_conv list_all_iff)

lemma build_result_checks [simp]: "vr_checks (build_result cs) = cs"
  by (simp add: build_result_def Let_def)

lemma build_result_failures [simp]: "vr_failures (build_result cs) = [] \<longleftrightarrow> list_all vc_passed cs"
  by (auto simp: build_result_def Let_def filter_empty_conv list_all_iff)

text \<open>What the gate accepts, as conditions on the node and on the checkpoint.\<close>

definition columns_present :: "node_execution \<Rightarrow> string list option \<Rightarrow> bool" where
  "columns_present n expected =
     (case expected of
        None \<Rightarrow> True
      | Some cols \<Rightarrow>
          (case map_of (ne_output_metadata n) ''columns'' of
             None \<Rightarrow> False
           | Some v \<Rightarrow> v \<noteq> PNone \<and> missing_columns cols v = Inr []))"

definition node_acceptable :: "node_execution \<Rightarrow> string list option \<Rightarrow> bool" where
  "node_acceptable n expected \<longleftrightarrow>
     ne_status n = N_SUCCESS \<and> ne_error_type n = None \<and> ne_error_message n = None
     \<and> ne_output_metadata n \<noteq> [] \<and> columns_present n expected"

definition checkpoint_acceptable :: "(string \<Rightarrow> bool) \<Rightarrow> checkpoint \<Rightarrow> bool" where
  "checkpoint_acceptable on_disk c \<longleftrightarrow>
     ck_checkpoint_id c \<noteq> [] \<and> ck_validation_status c = ''passed'' \<and> ck_data_hash c \<noteq> []
     \<and> (case ck_artifact_path c of None \<Rightarrow> True | Some p \<Rightarrow> on_disk p)"

lemma validate_checkpoint_passed [simp]:
  "vr_passed (validate_checkpoint on_disk c) \<longleftrightarrow> checkpoint_acceptable on_disk c"
  by (simp add: validate_checkpoint_def Let_def checkpoint_acceptable_def split: option.split)

lemma validate_checkpoint_checks:
  "list_all vc_passed (vr_checks (validate_checkpoint on_disk c)) \<longleftrightarrow> checkpoint_acceptable on_disk c"
  by (simp add: validate_checkpoint_def Let_def checkpoint_acceptable_def split: option.split)

lemma schema_check_passed:
  "(case schema_check rt n expected of Inl _ \<Rightarrow> False | Inr cs \<Rightarrow> list_all vc_passed cs)
     \<longleftrightarrow> columns_present n expected"
  by (auto simp: schema_check_def columns_present_def split: option.split pyval.split sum.split)

lemma node_checks_passed:
  "list_all vc_passed (node_checks n) \<longleftrightarrow>
     ne_status n = N_SUCCESS \<and> ne_error_type n = None \<and> ne_error_message n = None
     \<and> ne_output_metadata n \<noteq> []"
  by (auto simp: node_checks_def Let_def)

text \<open>validate_full accepts a recovered node, with its checkpoint if there is one, exactly when the
  node succeeded without an error, has output metadata naming every expected column, and the
  checkpoint has an identifier, a hash, status passed and an existing artifact file; failures
  lists the failed checks, so it is empty exactly when the gate accepts.\<close>

theorem validate_full_correct:
  "(case validate_full rt on_disk n c expected of Inl _ \<Rightarrow> False | Inr r \<Rightarrow> vr_passed r)
     = (node_acceptable n expected
        \<and> (case c of None \<Rightarrow> True | Some k \<Rightarrow> checkpoint_acceptable on_disk k))
   \<and> (case validate_full rt on_disk n c expected of
        Inl _ \<Rightarrow> \<not> columns_present n expected
      | Inr r \<Rightarrow> vr_passed r = (vr_failures r = []))"
proof (cases "schema_check rt n expected")
  case (Inl e)
  with schema_check_passed [of rt n expected] show ?thesis
    by (simp add: validate_full_def validate_node_execution_def node_acceptable_def)
next
  case (Inr cs)
  have "list_all vc_passed cs = columns_present n expected"
    using schema_check_passed [of rt n expected] Inr by simp
  with Inr show ?thesis
    by (auto simp: validate_full_def validate_node_execution_def node_acceptable_def
        node_checks_passed validate_checkpoint_checks split: option.split)
qed

end
