(* ===== verification/RecoveryExec.thy ===== *)
theory RecoveryExec
  imports Decision Validator
begin

text \<open>
  \<open>RecoveryExecutor\<close> (\<open>core/recovery/executor.py\<close>) and its result record
  (\<open>RecoveryResult\<close> of \<open>core/recovery/models.py\<close>). The configuration holds the checkpoint
  manager, which the executor only reads; the state is its event list, the clock and the
  world the nodes live in. The validator and the quarantine are the default ones.
\<close>

subsection \<open>Results and state\<close>

record recovery_result =
  rr_execution_id :: string
  rr_action :: recovery_action_type
  rr_status :: string
  rr_success :: bool
  rr_recovered_from_checkpoint :: "string option"
  rr_resumed_from_node :: "string option"
  rr_message :: string
  rr_evidence :: "string list"
  rr_rollback_performed :: bool
  rr_validation_passed :: bool
  rr_events :: "node_event list"
  rr_timestamp :: int

definition recovery_result_to_dict :: "runtime \<Rightarrow> recovery_result \<Rightarrow> dict" where
  "recovery_result_to_dict rt r =
     [(''execution_id'', PStr (rr_execution_id r)),
      (''action'', PStr (action_value (rr_action r))),
      (''status'', PStr (rr_status r)),
      (''success'', PBool (rr_success r)),
      (''recovered_from_checkpoint'', opt_str (rr_recovered_from_checkpoint r)),
      (''resumed_from_node'', opt_str (rr_resumed_from_node r)),
      (''message'', PStr (rr_message r)),
      (''evidence'', PList (map PStr (rr_evidence r))),
      (''rollback_performed'', PBool (rr_rollback_performed r)),
      (''validation_passed'', PBool (rr_validation_passed r)),
      (''timestamp'', PStr (rt_iso rt (rr_timestamp r)))]"

record rx_config =
  cf_runtime :: runtime
  cf_manager :: manager
  cf_pipeline_id :: string
  cf_max_attempts :: int

record 'w rx =
  rx_events :: "node_event list"
  rx_env :: env
  rx_world :: 'w

definition emit ::
  "rx_config \<Rightarrow> string \<Rightarrow> string \<Rightarrow> string \<Rightarrow> string \<Rightarrow> string \<Rightarrow> dict \<Rightarrow> 'w rx \<Rightarrow> 'w rx" where
  "emit cf execution_id node_id event_type status message metadata s =
     (let (now, e) = utc_now (rx_env s);
          ev = \<lparr>ev_execution_id = execution_id, ev_pipeline_id = cf_pipeline_id cf,
                ev_node_id = node_id, ev_event_type = event_type, ev_timestamp = now,
                ev_status = Some status, ev_message = Some message, ev_metadata = metadata\<rparr>
      in s\<lparr>rx_events := rx_events s @ [ev], rx_env := e\<rparr>)"

text \<open>\<open>decision.target_node or "pipeline"\<close>\<close>

definition target_or :: "string \<Rightarrow> recovery_decision \<Rightarrow> string" where
  "target_or d dec = str_or (rd_target_node dec) d"

text \<open>A \<open>RecoveryResult\<close> with the events so far; its timestamp is read last.\<close>

definition make_result ::
  "recovery_decision \<Rightarrow> string \<Rightarrow> bool \<Rightarrow> string option \<Rightarrow> string option \<Rightarrow> string \<Rightarrow> string list
     \<Rightarrow> bool \<Rightarrow> bool \<Rightarrow> 'w rx \<Rightarrow> recovery_result \<times> 'w rx" where
  "make_result dec status success from resumed message evidence rollback validated s =
     (let (now, e) = utc_now (rx_env s) in
      (\<lparr>rr_execution_id = rd_execution_id dec, rr_action = rd_action dec, rr_status = status,
        rr_success = success, rr_recovered_from_checkpoint = from,
        rr_resumed_from_node = resumed, rr_message = message, rr_evidence = evidence,
        rr_rollback_performed = rollback, rr_validation_passed = validated,
        rr_events = rx_events s, rr_timestamp = now\<rparr>, s\<lparr>rx_env := e\<rparr>))"

definition failed_result ::
  "rx_config \<Rightarrow> recovery_decision \<Rightarrow> string \<Rightarrow> string \<Rightarrow> string list \<Rightarrow> 'w rx
     \<Rightarrow> recovery_result \<times> 'w rx" where
  "failed_result cf dec status message evidence s =
     make_result dec status False None None message
       (if evidence = [] then [''recovery_failed''] else evidence) False False
       (emit cf (rd_execution_id dec) (target_or ''pipeline'' dec) ''recovery_failed'' ''failed''
          message [] s)"

text \<open>The record that \<open>ArtifactQuarantine.quarantine\<close> returns.\<close>

definition quarantine_record ::
  "runtime \<Rightarrow> int \<Rightarrow> string \<Rightarrow> string option \<Rightarrow> string option \<Rightarrow> string \<Rightarrow> dict" where
  "quarantine_record rt now execution_id node_id checkpoint_id reason =
     [(''quarantine_requested'', PBool True), (''execution_id'', PStr execution_id),
      (''node_id'', opt_str node_id), (''checkpoint_id'', opt_str checkpoint_id),
      (''reason'', PStr reason), (''timestamp'', PStr (rt_iso rt now))]"

subsection \<open>Helpers\<close>

definition exn_text :: "exn \<Rightarrow> string" where
  "exn_text e = exn_type e @ '': '' @ exn_str e"

definition on_disk :: "manager \<Rightarrow> string \<Rightarrow> bool" where
  "on_disk m p \<longleftrightarrow> mg_files m p \<noteq> None"

definition load_and_validate_checkpoint :: "rx_config \<Rightarrow> string \<Rightarrow> checkpoint result" where
  "load_and_validate_checkpoint cf cid =
     (case cm_get (cf_manager cf) cid of
        None \<Rightarrow> Inl (Exn ''CheckpointNotFoundError''
                  (''Checkpoint '' @ sq cid @ '' not found in CheckpointManager.''))
      | Some c \<Rightarrow>
          (let validation = validate_checkpoint (on_disk (cf_manager cf)) c in
           if \<not> vr_passed validation then
             Inl (Exn ''CheckpointValidationError''
               (''Checkpoint '' @ sq cid @ '' failed integrity validation: '' @ vr_message validation))
           else Inr c))"

text \<open>Unlike the pipeline's \<open>_node_id\<close>, the name is taken whether or not the node is callable.\<close>

definition recovery_node_id :: "runtime \<Rightarrow> 'w node_obj \<Rightarrow> string" where
  "recovery_node_id rt node =
     (if py_truthy (nd_node_id node) then py_str rt (nd_node_id node)
      else if py_truthy (nd_name node) then py_str rt (nd_name node)
      else nd_class node)"

definition recovery_run_node :: "'w node_obj \<Rightarrow> 'w user_fn" where
  "recovery_run_node node w ctx =
     (case nd_run node of
        Some f \<Rightarrow> f w ctx
      | None \<Rightarrow>
          (case nd_call node of
             Some f \<Rightarrow> f w ctx
           | None \<Rightarrow> (w, ctx, Inl (Exn ''TypeError''
               (''Recovery node '' @ sq (nd_str node) @ '' must provide run(context) or be callable.'')))))"

definition make_node_exec ::
  "runtime \<Rightarrow> string \<Rightarrow> string \<Rightarrow> pyval \<Rightarrow> 'w rx \<Rightarrow> node_execution \<times> 'w rx" where
  "make_node_exec rt execution_id node_id result s =
     (let (now, e) = utc_now (rx_env s) in
      (\<lparr>ne_execution_id = execution_id, ne_node_id = node_id, ne_status = N_SUCCESS,
        ne_started_at = now, ne_finished_at = Some now, ne_input_metadata = [],
        ne_output_metadata = [(''result_type'', PStr (type_name result))]
          @ shape_entry result @ columns_entry rt result,
        ne_error_type = None, ne_error_message = None, ne_checkpoint_id = None\<rparr>,
       s\<lparr>rx_env := e\<rparr>))"

subsection \<open>RETRY\<close>

text \<open>The supplied callable acts on the world and returns or raises.\<close>

definition execute_retry ::
  "rx_config \<Rightarrow> recovery_decision \<Rightarrow> ('w \<Rightarrow> 'w \<times> unit result) option \<Rightarrow> 'w rx
     \<Rightarrow> recovery_result result \<times> 'w rx" where
  "execute_retry cf dec pipeline_callable s0 =
     (let eid = rd_execution_id dec;
          s1 = emit cf eid ''pipeline'' ''recovery_retry'' ''running'' ''Attempting pipeline retry.'' [] s0
      in case pipeline_callable of
        None \<Rightarrow>
          (let s2 = emit cf eid ''pipeline'' ''recovery_completed'' ''skipped''
                      ''Retry requested but no pipeline_callable was supplied.'' [] s1;
               (r, s3) = make_result dec ''skipped'' False None None
                 ''RETRY action requested but no pipeline_callable was provided to RecoveryExecutor. Retry was not executed.''
                 [''retry_skipped: no pipeline_callable supplied''] False False s2
           in (Inr r, s3))
      | Some f \<Rightarrow>
          (case f (rx_world s1) of
             (w, Inl e) \<Rightarrow>
               (let s2 = emit cf eid ''pipeline'' ''recovery_failed'' ''failed''
                           (''Pipeline retry failed: '' @ exn_str e) [] (s1\<lparr>rx_world := w\<rparr>);
                    (r, s3) = failed_result cf dec ''failed''
                      (''Pipeline retry raised: '' @ exn_text e)
                      [''retry_exception: '' @ exn_str e] s2
                in (Inr r, s3))
           | (w, Inr _) \<Rightarrow>
               (let s2 = emit cf eid ''pipeline'' ''recovery_completed'' ''success''
                           ''Pipeline retry completed successfully.'' [] (s1\<lparr>rx_world := w\<rparr>);
                    (r, s3) = make_result dec ''success'' True None None
                      ''Pipeline retry completed successfully.'' [''retry_executed_successfully'']
                      False True s2
                in (Inr r, s3))))"

subsection \<open>RERUN_FROM_NODE\<close>

text \<open>
  The attempts for one node: \<open>k\<close> is the next attempt's number, the natural number counts
  those that remain. The outcome is the failed result of a closed validation gate, or the
  context and the last exception with which the loop ended.
\<close>

primrec rerun_attempts ::
  "rx_config \<Rightarrow> recovery_decision \<Rightarrow> 'w node_obj \<Rightarrow> string \<Rightarrow> nat \<Rightarrow> nat \<Rightarrow> pyval \<Rightarrow> exn option
     \<Rightarrow> 'w rx \<Rightarrow> (recovery_result + pyval \<times> exn option) \<times> 'w rx" where
  "rerun_attempts cf dec node nid 0 k ctx last_exc s = (Inr (ctx, last_exc), s)"
| "rerun_attempts cf dec node nid (Suc m) k ctx last_exc s =
     (let eid = rd_execution_id dec;
          s1 = emit cf eid nid ''recovery_rerun_started'' ''running''
                 (''Rerunning node '' @ sq nid @ '' (attempt '' @ show_nat k @ '').'') [] s
      in case recovery_run_node node (rx_world s1) ctx of
           (w, ctx1, Inl e) \<Rightarrow>
             rerun_attempts cf dec node nid m (Suc k) ctx1 (Some e)
               (emit cf eid nid ''recovery_failed'' ''failed''
                  (''Node '' @ sq nid @ '' rerun failed: '' @ exn_str e) [] (s1\<lparr>rx_world := w\<rparr>))
         | (w, ctx1, Inr result) \<Rightarrow>
             (let (node_exec, s2) = make_node_exec (cf_runtime cf) eid nid result (s1\<lparr>rx_world := w\<rparr>);
                  s3 = emit cf eid nid ''recovery_validation_started'' ''running''
                         (''Validating rerun output of '' @ sq nid @ ''.'') [] s2
              in case validate_node_execution (cf_runtime cf) node_exec None of
                   Inl e \<Rightarrow>
                     rerun_attempts cf dec node nid m (Suc k) result (Some e)
                       (emit cf eid nid ''recovery_failed'' ''failed''
                          (''Node '' @ sq nid @ '' rerun failed: '' @ exn_str e) [] s3)
                 | Inr validation \<Rightarrow>
                     (if \<not> vr_passed validation then
                        (let s4 = emit cf eid nid ''recovery_validation_failed'' ''failed''
                                    (vr_message validation) [] s3;
                             (r, s5) = failed_result cf dec ''failed''
                               (''Node '' @ sq nid @ '' rerun produced invalid output. Validation: ''
                                @ vr_message validation) (vr_failures validation) s4
                         in (Inl r, s5))
                      else
                        (Inr (result, None),
                         emit cf eid nid ''recovery_validation_passed'' ''success''
                           (''Node '' @ sq nid @ '' rerun validated successfully.'') [] s3))))"

text \<open>
  The loop over the nodes: whether the target was found, the context and the first rerun
  node. A failed result ends it.
\<close>

primrec rerun_nodes ::
  "rx_config \<Rightarrow> recovery_decision \<Rightarrow> 'w node_obj list \<Rightarrow> bool \<Rightarrow> string option \<Rightarrow> pyval \<Rightarrow> 'w rx
     \<Rightarrow> (recovery_result + bool \<times> string option) \<times> 'w rx" where
  "rerun_nodes cf dec [] found rerun_id ctx s = (Inr (found, rerun_id), s)"
| "rerun_nodes cf dec (node # rest) found rerun_id ctx s =
     (let nid = recovery_node_id (cf_runtime cf) node in
      if \<not> found \<and> Some nid \<noteq> rd_target_node dec then rerun_nodes cf dec rest found rerun_id ctx s
      else
        (case rerun_attempts cf dec node nid (nat (cf_max_attempts cf)) 1 ctx None s of
           (Inl r, s1) \<Rightarrow> (Inl r, s1)
         | (Inr (ctx1, Some e), s1) \<Rightarrow>
             (let (r, s2) = failed_result cf dec ''failed''
                (''Node '' @ sq nid @ '' failed after '' @ show_int (cf_max_attempts cf)
                 @ '' attempt(s): '' @ exn_text e)
                [''rerun_failed: '' @ nid @ '': '' @ exn_str e] s1
              in (Inl r, s2))
         | (Inr (ctx1, None), s1) \<Rightarrow>
             rerun_nodes cf dec rest True (Some (str_or rerun_id nid)) ctx1 s1))"

definition restore_for_rerun :: "rx_config \<Rightarrow> string option \<Rightarrow> pyval result" where
  "restore_for_rerun cf checkpoint_id =
     (case checkpoint_id of
        None \<Rightarrow> Inr PNone
      | Some cid \<Rightarrow>
          (case load_and_validate_checkpoint cf cid of
             Inl e \<Rightarrow> Inl e
           | Inr c \<Rightarrow>
               (case cm_restore (cf_manager cf) cid of
                  Inl e \<Rightarrow> Inl (Exn ''CheckpointNotFoundError''
                    (''Could not restore artifact from checkpoint '' @ sq cid @ '': '' @ exn_str e))
                | Inr artifact \<Rightarrow> Inr artifact)))"

definition execute_rerun ::
  "rx_config \<Rightarrow> recovery_decision \<Rightarrow> 'w node_obj list option \<Rightarrow> 'w rx
     \<Rightarrow> recovery_result result \<times> 'w rx" where
  "execute_rerun cf dec nodes s0 =
     (let eid = rd_execution_id dec; target = rd_target_node dec; checkpoint_id = rd_checkpoint_id dec
      in case restore_for_rerun cf checkpoint_id of
        Inl e \<Rightarrow> (Inl e, s0)
      | Inr restored \<Rightarrow>
          (let s1 = emit cf eid (target_or ''unknown'' dec) ''recovery_rerun_started'' ''running''
                 (''Rerun from node '' @ sq (fmt_opt target) @ '' (upstream checkpoint: ''
                  @ rt_repr (cf_runtime cf) (opt_str checkpoint_id) @ '').'')
                 [(''checkpoint_id'', opt_str checkpoint_id), (''target_node'', opt_str target)] s0
           in case nodes of
             None \<Rightarrow>
               (let (r, s2) = failed_result cf dec ''failed''
                  ''RERUN_FROM_NODE requires a 'nodes' iterable but none was provided to RecoveryExecutor.execute().''
                  [] s1 in (Inr r, s2))
           | Some node_list \<Rightarrow>
               (case rerun_nodes cf dec node_list False None restored s1 of
                  (Inl r, s2) \<Rightarrow> (Inr r, s2)
                | (Inr (found, rerun_id), s2) \<Rightarrow>
                    (if \<not> found then
                       (let (r, s3) = failed_result cf dec ''failed''
                          (''Target node '' @ sq (fmt_opt target) @ '' was not found in the supplied nodes list.'')
                          [] s2 in (Inr r, s3))
                     else
                       (let s3 = emit cf eid (target_or ''unknown'' dec) ''recovery_completed''
                                   ''success'' ''Rerun from node completed successfully.'' [] s2;
                            (r, s4) = make_result dec ''success'' True checkpoint_id rerun_id
                              (''Rerun from node '' @ sq (fmt_opt rerun_id) @ '' completed successfully.'')
                              [''rerun_from_node: '' @ fmt_opt rerun_id,
                               ''upstream_checkpoint: '' @ fmt_opt checkpoint_id]
                              (checkpoint_id \<noteq> None) True s3
                        in (Inr r, s4))))))"

subsection \<open>ROLLBACK and the passive actions\<close>

definition execute_rollback ::
  "rx_config \<Rightarrow> recovery_decision \<Rightarrow> 'w rx \<Rightarrow> recovery_result result \<times> 'w rx" where
  "execute_rollback cf dec s0 =
     (let eid = rd_execution_id dec in
      case rd_checkpoint_id dec of
        None \<Rightarrow>
          (let (r, s1) = failed_result cf dec ''failed''
             ''ROLLBACK action requires a checkpoint_id but none was set on the RecoveryDecision.'' [] s0
           in (Inr r, s1))
      | Some cid \<Rightarrow>
          (let s1 = emit cf eid (target_or ''pipeline'' dec) ''recovery_checkpoint_restored'' ''running''
                 (''Attempting rollback to checkpoint '' @ sq cid @ ''.'')
                 [(''checkpoint_id'', PStr cid)] s0
           in case load_and_validate_checkpoint cf cid of
             Inl e \<Rightarrow> (Inl e, s1)
           | Inr c \<Rightarrow>
               (case cm_restore (cf_manager cf) cid of
                  Inl e \<Rightarrow> (Inl (Exn ''CheckpointNotFoundError''
                    (''Failed to restore artifact from checkpoint '' @ sq cid @ '': '' @ exn_str e)), s1)
                | Inr artifact \<Rightarrow>
                    (let nid = ck_node_id c;
                         s2 = emit cf eid nid ''recovery_validation_started'' ''running''
                                (''Validating restored checkpoint '' @ sq cid @ ''.'') [] s1;
                         validation = validate_checkpoint (on_disk (cf_manager cf)) c
                     in if \<not> vr_passed validation then
                          (let s3 = emit cf eid nid ''recovery_validation_failed'' ''failed''
                                      (vr_message validation) [] s2;
                               (r, s4) = failed_result cf dec ''failed''
                                 (''Checkpoint '' @ sq cid @ '' failed validation after restore: ''
                                  @ vr_message validation) (vr_failures validation) s3
                           in (Inr r, s4))
                        else
                          (let s3 = emit cf eid nid ''recovery_validation_passed'' ''success''
                                      (''Checkpoint '' @ sq cid @ '' validated successfully.'') [] s2;
                               s4 = emit cf eid nid ''recovery_rollback'' ''success''
                                      (''Rollback to checkpoint '' @ sq cid @ '' (node '' @ sq nid
                                       @ '') completed.'') [(''checkpoint_id'', PStr cid)] s3;
                               s5 = emit cf eid nid ''recovery_completed'' ''success''
                                      ''Rollback recovery completed.'' [] s4;
                               (r, s6) = make_result dec ''success'' True (Some cid) None
                                 (''Rollback to checkpoint '' @ sq cid @ '' (node '' @ sq nid
                                  @ '') completed and validated.'')
                                 [''rollback_to_checkpoint: '' @ cid, ''checkpoint_node: '' @ nid,
                                  ''validation_status: '' @ ck_validation_status c] True True s5
                           in (Inr r, s6))))))"

definition execute_abort ::
  "rx_config \<Rightarrow> recovery_decision \<Rightarrow> 'w rx \<Rightarrow> recovery_result \<times> 'w rx" where
  "execute_abort cf dec s =
     make_result dec ''aborted'' False None None (''Recovery aborted: '' @ rd_reason dec)
       [''abort: no safe automated recovery path''] False False
       (emit cf (rd_execution_id dec) (target_or ''pipeline'' dec) ''recovery_aborted'' ''aborted''
          (''Recovery aborted. Reason: '' @ rd_reason dec) [] s)"

definition execute_manual_review ::
  "rx_config \<Rightarrow> recovery_decision \<Rightarrow> 'w rx \<Rightarrow> recovery_result \<times> 'w rx" where
  "execute_manual_review cf dec s =
     make_result dec ''pending_review'' False None None
       (''Recovery requires manual human review. No automated action was taken. Reason: '' @ rd_reason dec)
       [''manual_review_required'', ''reason: '' @ rd_reason dec] False False
       (emit cf (rd_execution_id dec) (target_or ''pipeline'' dec) ''recovery_manual_review'' ''pending''
          (''Manual review required. No automated action taken. Reason: '' @ rd_reason dec) [] s)"

definition execute_quarantine ::
  "rx_config \<Rightarrow> recovery_decision \<Rightarrow> 'w rx \<Rightarrow> recovery_result \<times> 'w rx" where
  "execute_quarantine cf dec s0 =
     (let (now, e) = utc_now (rx_env s0);
          qrec = quarantine_record (cf_runtime cf) now (rd_execution_id dec)
                     (rd_target_node dec) (rd_checkpoint_id dec) (rd_reason dec);
          target = fmt_opt (rd_target_node dec)
      in make_result dec ''quarantined'' False None None
           (''Component '' @ sq target @ '' has been quarantined pending investigation. Reason: ''
            @ rd_reason dec)
           [''quarantine_recorded'', ''node: '' @ target, ''reason: '' @ rd_reason dec] False False
           (emit cf (rd_execution_id dec) (target_or ''pipeline'' dec) ''recovery_quarantined''
              ''quarantined'' (''Component '' @ sq target @ '' quarantined. Reason: '' @ rd_reason dec)
              qrec (s0\<lparr>rx_env := e\<rparr>)))"

subsection \<open>The executor\<close>

definition dispatch ::
  "rx_config \<Rightarrow> recovery_decision \<Rightarrow> 'w node_obj list option \<Rightarrow> ('w \<Rightarrow> 'w \<times> unit result) option
     \<Rightarrow> 'w rx \<Rightarrow> recovery_result result \<times> 'w rx" where
  "dispatch cf dec nodes pipeline_callable s =
     (case rd_action dec of
        RETRY \<Rightarrow> execute_retry cf dec pipeline_callable s
      | RERUN_FROM_NODE \<Rightarrow> execute_rerun cf dec nodes s
      | ROLLBACK \<Rightarrow> execute_rollback cf dec s
      | ABORT \<Rightarrow> (let (r, s') = execute_abort cf dec s in (Inr r, s'))
      | MANUAL_REVIEW \<Rightarrow> (let (r, s') = execute_manual_review cf dec s in (Inr r, s'))
      | QUARANTINE \<Rightarrow> (let (r, s') = execute_quarantine cf dec s in (Inr r, s')))"

definition recover ::
  "rx_config \<Rightarrow> recovery_decision \<Rightarrow> 'w node_obj list option \<Rightarrow> ('w \<Rightarrow> 'w \<times> unit result) option
     \<Rightarrow> 'w rx \<Rightarrow> recovery_result \<times> 'w rx" where
  "recover cf dec nodes pipeline_callable s =
     (let eid = rd_execution_id dec; nid = target_or ''pipeline'' dec;
          av = action_value (rd_action dec);
          s1 = emit cf eid nid ''recovery_started'' ''running'' (''Starting recovery action: '' @ av)
                 [(''action'', PStr av), (''checkpoint_id'', opt_str (rd_checkpoint_id dec)),
                  (''target_node'', opt_str (rd_target_node dec))] (s\<lparr>rx_events := []\<rparr>)
      in case dispatch cf dec nodes pipeline_callable s1 of
           (Inr r, s2) \<Rightarrow> (r, s2)
         | (Inl e, s2) \<Rightarrow>
             (let s3 = emit cf eid nid ''recovery_failed'' ''failed'' (exn_str e) [] s2 in
              if exn_type e = ''CheckpointNotFoundError'' \<or> exn_type e = ''CheckpointValidationError''
              then failed_result cf dec ''failed'' (exn_str e) [''checkpoint_error: '' @ exn_text e] s3
              else failed_result cf dec ''failed'' (''Unexpected recovery error: '' @ exn_str e)
                     [''exception: '' @ exn_text e] s3))"

subsection \<open>Facts\<close>

text \<open>The event log only grows, by events of the decision's execution.\<close>

definition grows :: "string \<Rightarrow> 'w rx \<Rightarrow> 'w rx \<Rightarrow> bool" where
  "grows eid s s' \<longleftrightarrow>
     (\<exists>evs. rx_events s' = rx_events s @ evs \<and> list_all (\<lambda>ev. ev_execution_id ev = eid) evs)"

lemma grows_refl [simp, intro]: "grows eid s s"
  by (simp add: grows_def)

lemma grows_trans [trans]: "grows eid a b \<Longrightarrow> grows eid b c \<Longrightarrow> grows eid a c"
  by (auto simp: grows_def)

lemma grows_same [intro]: "rx_events s' = rx_events s \<Longrightarrow> grows eid s s'"
  by (simp add: grows_def)

lemma emit_world [simp]: "rx_world (emit cf eid nid ty st m md s) = rx_world s"
  by (simp add: emit_def utc_now_def)

lemma grows_emit [intro]: "grows eid a s \<Longrightarrow> grows eid a (emit cf eid nid ty st m md s)"
  by (auto simp: emit_def utc_now_def grows_def)

lemma grows_world [simp]: "grows eid a (s\<lparr>rx_world := w\<rparr>) = grows eid a s"
  "grows eid a (s\<lparr>rx_env := e\<rparr>) = grows eid a s"
  by (simp_all add: grows_def)

text \<open>
  The invariant of every result: success, status and validation agree; a checkpoint is named
  exactly when a restore was performed, and only by a successful recovery from the decision's
  checkpoint, which was validated and restored; the events are the executor's log.
\<close>

definition result_ok ::
  "rx_config \<Rightarrow> recovery_decision \<Rightarrow> recovery_result \<Rightarrow> bool" where
  "result_ok cf dec r \<longleftrightarrow>
     rr_execution_id r = rd_execution_id dec \<and> rr_action r = rd_action dec
     \<and> (rr_success r \<longleftrightarrow> rr_status r = ''success'') \<and> (rr_validation_passed r \<longleftrightarrow> rr_success r)
     \<and> (rr_rollback_performed r \<longleftrightarrow> rr_recovered_from_checkpoint r \<noteq> None)
     \<and> (rr_recovered_from_checkpoint r \<noteq> None \<longrightarrow> rr_success r
          \<and> rr_recovered_from_checkpoint r = rd_checkpoint_id dec
          \<and> \<not> isl (restore_for_rerun cf (rd_checkpoint_id dec)))
     \<and> (rr_resumed_from_node r \<noteq> None \<longrightarrow> rr_success r \<and> rd_action dec = RERUN_FROM_NODE)
     \<and> (rr_success r \<longrightarrow> rd_action dec \<in> {RETRY, RERUN_FROM_NODE, ROLLBACK})"

text \<open>A result with the log it closes.\<close>

definition logged :: "string \<Rightarrow> 'w rx \<Rightarrow> recovery_result \<Rightarrow> 'w rx \<Rightarrow> bool" where
  "logged eid s r s' \<longleftrightarrow> rr_events r = rx_events s' \<and> grows eid s s'"

lemma make_result_D:
  "make_result dec st ok from res msg ev rb v s = (r, s') \<Longrightarrow>
     rr_execution_id r = rd_execution_id dec \<and> rr_action r = rd_action dec \<and> rr_status r = st
     \<and> rr_success r = ok \<and> rr_recovered_from_checkpoint r = from \<and> rr_resumed_from_node r = res
     \<and> rr_rollback_performed r = rb \<and> rr_validation_passed r = v \<and> rr_message r = msg
     \<and> rr_evidence r = ev \<and> rx_world s' = rx_world s"
  by (auto simp: make_result_def utc_now_def)

lemma make_result_logged [intro]:
  "make_result dec st ok from res msg ev rb v s = (r, s') \<Longrightarrow> grows eid a s \<Longrightarrow> logged eid a r s'"
  by (auto simp: make_result_def utc_now_def logged_def grows_def)

lemma failed_result_D:
  "failed_result cf dec st msg ev s = (r, s') \<Longrightarrow>
     \<not> rr_success r \<and> rr_status r = st \<and> rr_message r = msg \<and> rx_world s' = rx_world s
     \<and> (st \<noteq> ''success'' \<longrightarrow> result_ok cf dec r)"
  unfolding failed_result_def
  by (drule make_result_D) (auto simp: result_ok_def)

lemma failed_result_logged [intro]:
  "failed_result cf dec st msg ev s = (r, s') \<Longrightarrow> grows (rd_execution_id dec) a s
     \<Longrightarrow> logged (rd_execution_id dec) a r s'"
  unfolding failed_result_def by (erule make_result_logged) auto

subsection \<open>The validation gate of a rerun\<close>

text \<open>
  The record that \<open>_make_node_exec\<close> builds always has status SUCCESS, no error and a
  \<open>result_type\<close> entry, and no columns are expected: the gate never closes.
\<close>

lemma rerun_gate_open:
  assumes "make_node_exec rt eid nid result s = (n, s')"
  shows "\<exists>v. validate_node_execution rt n None = Inr v \<and> vr_passed v"
  using assms
  by (auto simp: make_node_exec_def utc_now_def validate_node_execution_def schema_check_def
      node_checks_passed)

lemma make_node_exec_world:
  "make_node_exec rt eid nid result s = (n, s') \<Longrightarrow> rx_world s' = rx_world s \<and> rx_events s' = rx_events s"
  by (auto simp: make_node_exec_def utc_now_def)

text \<open>What a rerun does to the world, without events and messages.\<close>

primrec tries :: "'w node_obj \<Rightarrow> nat \<Rightarrow> 'w \<Rightarrow> pyval \<Rightarrow> exn option \<Rightarrow> 'w \<times> pyval \<times> exn option" where
  "tries node 0 w ctx last_exc = (w, ctx, last_exc)"
| "tries node (Suc m) w ctx last_exc =
     (case recovery_run_node node w ctx of
        (w1, ctx1, Inl e) \<Rightarrow> tries node m w1 ctx1 (Some e)
      | (w1, ctx1, Inr result) \<Rightarrow> (w1, result, None))"

primrec run_all :: "nat \<Rightarrow> 'w node_obj list \<Rightarrow> 'w \<Rightarrow> pyval \<Rightarrow> 'w \<times> exn option" where
  "run_all m [] w ctx = (w, None)"
| "run_all m (node # rest) w ctx =
     (case tries node m w ctx None of
        (w1, ctx1, Some e) \<Rightarrow> (w1, Some e)
      | (w1, ctx1, None) \<Rightarrow> run_all m rest w1 ctx1)"

lemma rerun_attempts_tries:
  "\<exists>s'. rerun_attempts cf dec node nid m k ctx last_exc s =
       (Inr (snd (tries node m (rx_world s) ctx last_exc)), s')
     \<and> rx_world s' = fst (tries node m (rx_world s) ctx last_exc)
     \<and> grows (rd_execution_id dec) s s'"
proof (induction m arbitrary: k ctx last_exc s)
  case 0
  then show ?case by auto
next
  case (Suc m)
  let ?eid = "rd_execution_id dec"
  obtain w ctx1 out where run: "recovery_run_node node (rx_world s) ctx = (w, ctx1, out)"
    by (rule prod_cases3)
  show ?case
  proof (cases out)
    case (Inl e)
    let ?s1 = "emit cf ?eid nid ''recovery_failed'' ''failed''
        (''Node '' @ sq nid @ '' rerun failed: '' @ exn_str e) []
        ((emit cf ?eid nid ''recovery_rerun_started'' ''running''
            (''Rerunning node '' @ sq nid @ '' (attempt '' @ show_nat k @ '').'') [] s)\<lparr>rx_world := w\<rparr>)"
    have g: "grows ?eid s ?s1" by (intro grows_emit) (simp add: grows_emit)
    obtain s' where s': "rerun_attempts cf dec node nid m (Suc k) ctx1 (Some e) ?s1 =
         (Inr (snd (tries node m w ctx1 (Some e))), s')"
       "rx_world s' = fst (tries node m w ctx1 (Some e))" "grows ?eid ?s1 s'"
      using Suc.IH [of "Suc k" ctx1 "Some e" ?s1] by auto
    with run Inl grows_trans [OF g s'(3)] show ?thesis by (simp add: Let_def)
  next
    case (Inr result)
    let ?s1 = "(emit cf ?eid nid ''recovery_rerun_started'' ''running''
            (''Rerunning node '' @ sq nid @ '' (attempt '' @ show_nat k @ '').'') [] s)\<lparr>rx_world := w\<rparr>"
    obtain n s2 where n: "make_node_exec (cf_runtime cf) ?eid nid result ?s1 = (n, s2)" by fastforce
    obtain v where v: "validate_node_execution (cf_runtime cf) n None = Inr v" "vr_passed v"
      using rerun_gate_open [OF n] by auto
    have "grows ?eid s ?s1" by (simp add: grows_emit)
    with make_node_exec_world [OF n] have "grows ?eid s s2" by (auto simp: grows_def)
    then show ?thesis
      using run Inr n v make_node_exec_world [OF n] by (auto simp: Let_def intro!: grows_emit)
  qed
qed

definition from_target :: "runtime \<Rightarrow> string option \<Rightarrow> 'w node_obj list \<Rightarrow> 'w node_obj list" where
  "from_target rt target nodes = dropWhile (\<lambda>n. Some (recovery_node_id rt n) \<noteq> target) nodes"

lemma from_target_Cons [simp]:
  "from_target rt t (n # ns) = (if Some (recovery_node_id rt n) = t then n # ns else from_target rt t ns)"
  by (simp add: from_target_def)

lemma from_target_Nil [simp]: "from_target rt t [] = []"
  by (simp add: from_target_def)

lemma logged_trans: "grows eid a b \<Longrightarrow> logged eid b r s' \<Longrightarrow> logged eid a r s'"
  by (auto simp: logged_def dest: grows_trans)

lemma rerun_nodes_run:
  "case rerun_nodes cf dec ns found rid ctx s of
     (Inl r, s') \<Rightarrow>
       (\<exists>e. run_all (nat (cf_max_attempts cf))
              (if found then ns else from_target (cf_runtime cf) (rd_target_node dec) ns)
              (rx_world s) ctx = (rx_world s', Some e))
       \<and> \<not> rr_success r \<and> result_ok cf dec r \<and> logged (rd_execution_id dec) s r s'
   | (Inr (fnd, rid'), s') \<Rightarrow>
       run_all (nat (cf_max_attempts cf))
         (if found then ns else from_target (cf_runtime cf) (rd_target_node dec) ns)
         (rx_world s) ctx = (rx_world s', None)
       \<and> fnd = (found \<or> from_target (cf_runtime cf) (rd_target_node dec) ns \<noteq> [])
       \<and> grows (rd_execution_id dec) s s'"
proof (induction ns arbitrary: found rid ctx s)
  case Nil
  then show ?case by simp
next
  case (Cons n ns)
  let ?m = "nat (cf_max_attempts cf)" and ?eid = "rd_execution_id dec"
  define nid where "nid = recovery_node_id (cf_runtime cf) n"
  show ?case
  proof (cases "\<not> found \<and> Some nid \<noteq> rd_target_node dec")
    case True
    then have suffix: "from_target (cf_runtime cf) (rd_target_node dec) (n # ns)
        = from_target (cf_runtime cf) (rd_target_node dec) ns"
      and step: "rerun_nodes cf dec (n # ns) False rid ctx s = rerun_nodes cf dec ns False rid ctx s"
      and no: "found = False"
      by (simp_all add: nid_def)
    show ?thesis
      unfolding step suffix no if_False
      by (rule Cons.IH [where found = False, unfolded if_False])
  next
    case False
    obtain w c1 last where t: "tries n ?m (rx_world s) ctx None = (w, c1, last)" by (rule prod_cases3)
    obtain s1 where s1: "rerun_attempts cf dec n nid ?m 1 ctx None s = (Inr (c1, last), s1)"
      "rx_world s1 = w" "grows ?eid s s1"
      using rerun_attempts_tries [of cf dec n nid ?m 1 ctx None s] t by auto
    have suffix: "(if found then n # ns else from_target (cf_runtime cf) (rd_target_node dec) (n # ns)) = n # ns"
      using False by (auto simp: nid_def)
    show ?thesis
    proof (cases last)
      case None
      note ih = Cons.IH [where found = True and rid = "Some (str_or rid nid)" and ctx = c1 and s = s1]
      obtain out s2 where o: "rerun_nodes cf dec ns True (Some (str_or rid nid)) c1 s1 = (out, s2)"
        by fastforce
      have step: "rerun_nodes cf dec (n # ns) found rid ctx s = (out, s2)"
        using False s1 None o by (auto simp: nid_def [symmetric] Let_def)
      show ?thesis
        unfolding step suffix using ih [unfolded o] t None s1(2,3) False
        by (auto simp: nid_def split: sum.splits dest: logged_trans grows_trans)
    next
      case (Some e)
      obtain r s2 where f: "failed_result cf dec ''failed''
          (''Node '' @ sq nid @ '' failed after '' @ show_int (cf_max_attempts cf)
           @ '' attempt(s): '' @ exn_text e) [''rerun_failed: '' @ nid @ '': '' @ exn_str e] s1 = (r, s2)"
        by fastforce
      have step: "rerun_nodes cf dec (n # ns) found rid ctx s = (Inl r, s2)"
        using False s1 Some f by (auto simp: nid_def [symmetric] Let_def)
      show ?thesis
        unfolding step suffix using failed_result_D [OF f] failed_result_logged [OF f s1(3)] t Some s1(2,3) by simp
    qed
  qed
qed

subsection \<open>Every action\<close>

text \<open>
  A checkpoint that the manager knows and the validator accepts; the validator only asks whether
  the artifact file exists, so restoring it still fails when the file cannot be read as JSON.
\<close>

definition accepted :: "rx_config \<Rightarrow> string \<Rightarrow> bool" where
  "accepted cf cid =
     (case cm_get (cf_manager cf) cid of
        None \<Rightarrow> False | Some c \<Rightarrow> checkpoint_acceptable (on_disk (cf_manager cf)) c)"

definition artifact_reads :: "manager \<Rightarrow> checkpoint \<Rightarrow> bool" where
  "artifact_reads m c \<longleftrightarrow>
     (case ck_artifact_path c of
        None \<Rightarrow> True
      | Some p \<Rightarrow> (case mg_files m p of Some (Inr doc) \<Rightarrow> True | _ \<Rightarrow> False))"

definition usable :: "rx_config \<Rightarrow> string \<Rightarrow> bool" where
  "usable cf cid \<longleftrightarrow>
     accepted cf cid
     \<and> (case cm_get (cf_manager cf) cid of None \<Rightarrow> False | Some c \<Rightarrow> artifact_reads (cf_manager cf) c)"

lemma load_checkpoint_iff:
  "load_and_validate_checkpoint cf cid = Inr c \<longleftrightarrow>
     cm_get (cf_manager cf) cid = Some c \<and> accepted cf cid"
  by (auto simp: load_and_validate_checkpoint_def accepted_def Let_def split: option.split)

lemma load_checkpoint_Inl: "isl (load_and_validate_checkpoint cf cid) \<longleftrightarrow> \<not> accepted cf cid"
  by (auto simp: load_and_validate_checkpoint_def accepted_def Let_def split: option.split)

lemma accepted_restore: "accepted cf cid \<Longrightarrow> isl (cm_restore (cf_manager cf) cid) \<longleftrightarrow> \<not> usable cf cid"
  by (auto simp: usable_def accepted_def artifact_reads_def cm_restore_def checkpoint_acceptable_def on_disk_def
      split: option.splits sum.splits)

lemma usable_accepted: "usable cf cid \<Longrightarrow> accepted cf cid"
  by (simp add: usable_def)

lemma usable_restore: "usable cf cid \<Longrightarrow> \<exists>a. cm_restore (cf_manager cf) cid = Inr a"
  using accepted_restore [of cf cid] usable_accepted [of cf cid] by (cases "cm_restore (cf_manager cf) cid") auto

text \<open>The case the validator does not see: the file is there and holds no JSON.\<close>

lemma corrupt_artifact_unusable:
  "cm_get (cf_manager cf) cid = Some c \<Longrightarrow> ck_artifact_path c = Some p \<Longrightarrow> mg_files (cf_manager cf) p = Some (Inl e)
     \<Longrightarrow> \<not> usable cf cid"
  by (simp add: usable_def artifact_reads_def)

lemma restore_for_rerun_iff:
  "isl (restore_for_rerun cf cid) \<longleftrightarrow> (case cid of None \<Rightarrow> False | Some c \<Rightarrow> \<not> usable cf c)"
proof (cases cid)
  case None
  then show ?thesis by (simp add: restore_for_rerun_def)
next
  case (Some c)
  show ?thesis
  proof (cases "load_and_validate_checkpoint cf c")
    case (Inl e)
    with Some load_checkpoint_Inl [of cf c] usable_accepted [of cf c] show ?thesis by (auto simp: restore_for_rerun_def)
  next
    case (Inr ck)
    with load_checkpoint_iff have u: "accepted cf c" by auto
    with accepted_restore [OF u] Some Inr show ?thesis
      by (cases "cm_restore (cf_manager cf) c") (auto simp: restore_for_rerun_def)
  qed
qed

lemma execute_retry_ok:
  assumes x: "execute_retry cf dec pc s = (out, s')" and act: "rd_action dec = RETRY"
  shows "\<exists>r. out = Inr r \<and> result_ok cf dec r \<and> logged (rd_execution_id dec) s r s'"
proof -
  let ?eid = "rd_execution_id dec"
  let ?s1 = "emit cf ?eid ''pipeline'' ''recovery_retry'' ''running'' ''Attempting pipeline retry.'' [] s"
  show ?thesis
  proof (cases pc)
    case None
    let ?s2 = "emit cf ?eid ''pipeline'' ''recovery_completed'' ''skipped''
        ''Retry requested but no pipeline_callable was supplied.'' [] ?s1"
    obtain r where m: "make_result dec ''skipped'' False None None
       ''RETRY action requested but no pipeline_callable was provided to RecoveryExecutor. Retry was not executed.''
       [''retry_skipped: no pipeline_callable supplied''] False False ?s2 = (r, s')" and o: "out = Inr r"
      using x None by (auto simp: execute_retry_def Let_def split: prod.splits)
    with make_result_D [OF m] make_result_logged [OF m, of ?eid s] show ?thesis
      by (auto simp: result_ok_def)
  next
    case (Some f)
    obtain w q where q: "f (rx_world s) = (w, q)" by fastforce
    show ?thesis
    proof (cases q)
      case (Inl e)
      let ?s2 = "emit cf ?eid ''pipeline'' ''recovery_failed'' ''failed''
          (''Pipeline retry failed: '' @ exn_str e) [] (?s1\<lparr>rx_world := w\<rparr>)"
      obtain r where m: "failed_result cf dec ''failed'' (''Pipeline retry raised: '' @ exn_text e)
          [''retry_exception: '' @ exn_str e] ?s2 = (r, s')" and o: "out = Inr r"
        using x Some q Inl
        by (auto simp: execute_retry_def Let_def simp del: append.simps split: prod.splits)
      have "grows ?eid s ?s2" by (intro grows_emit) (simp add: grows_emit)
      with o failed_result_D [OF m] failed_result_logged [OF m] show ?thesis by simp
    next
      case (Inr u)
      let ?s2 = "emit cf ?eid ''pipeline'' ''recovery_completed'' ''success''
          ''Pipeline retry completed successfully.'' [] (?s1\<lparr>rx_world := w\<rparr>)"
      obtain r where m: "make_result dec ''success'' True None None
          ''Pipeline retry completed successfully.'' [''retry_executed_successfully''] False True ?s2
          = (r, s')" and o: "out = Inr r"
        using x Some q Inr by (auto simp: execute_retry_def Let_def split: prod.splits)
      have "grows ?eid s ?s2" by (intro grows_emit) (simp add: grows_emit)
      with o act make_result_D [OF m] make_result_logged [OF m] show ?thesis
        by (simp add: result_ok_def)
    qed
  qed
qed

lemma execute_rerun_ok:
  assumes x: "execute_rerun cf dec nodes s = (out, s')" and act: "rd_action dec = RERUN_FROM_NODE"
  shows "case out of
      Inl e \<Rightarrow> isl (restore_for_rerun cf (rd_checkpoint_id dec)) \<and> s' = s
    | Inr r \<Rightarrow> result_ok cf dec r \<and> logged (rd_execution_id dec) s r s'
        \<and> (\<exists>ctx. restore_for_rerun cf (rd_checkpoint_id dec) = Inr ctx \<and>
            (case nodes of
               None \<Rightarrow> \<not> rr_success r \<and> rx_world s' = rx_world s
             | Some ns \<Rightarrow>
                 (let suffix = from_target (cf_runtime cf) (rd_target_node dec) ns;
                      (w, failure) = run_all (nat (cf_max_attempts cf)) suffix (rx_world s) ctx
                  in rx_world s' = w \<and> rr_success r = (failure = None \<and> suffix \<noteq> [])))
            \<and> (rr_success r \<longrightarrow> rr_recovered_from_checkpoint r = rd_checkpoint_id dec))"
proof (cases "restore_for_rerun cf (rd_checkpoint_id dec)")
  case (Inl e)
  with x show ?thesis by (auto simp: execute_rerun_def Let_def)
next
  case (Inr ctx)
  let ?eid = "rd_execution_id dec" and ?target = "rd_target_node dec"
  define s1 where "s1 = emit cf ?eid (target_or ''unknown'' dec) ''recovery_rerun_started'' ''running''
     (''Rerun from node '' @ sq (fmt_opt ?target) @ '' (upstream checkpoint: ''
      @ rt_repr (cf_runtime cf) (opt_str (rd_checkpoint_id dec)) @ '').'')
     [(''checkpoint_id'', opt_str (rd_checkpoint_id dec)), (''target_node'', opt_str ?target)] s"
  have g: "grows ?eid s s1" and w: "rx_world s1 = rx_world s" by (auto simp: s1_def)
  note x1 = x [unfolded execute_rerun_def Let_def Inr sum.case, folded s1_def]
  show ?thesis
  proof (cases nodes)
    case None
    obtain r where m: "failed_result cf dec ''failed''
        ''RERUN_FROM_NODE requires a 'nodes' iterable but none was provided to RecoveryExecutor.execute().''
        [] s1 = (r, s')" and o: "out = Inr r"
      using x1 None by (auto split: prod.splits)
    with failed_result_D [OF m] failed_result_logged [OF m g] None Inr w show ?thesis by simp
  next
    case (Some ns)
    let ?suffix = "from_target (cf_runtime cf) ?target ns"
    obtain q s2 where q: "rerun_nodes cf dec ns False None ctx s1 = (q, s2)" by fastforce
    note run = rerun_nodes_run [where cf = cf and dec = dec and ns = ns and found = False and rid = None
        and ctx = ctx and s = s1, unfolded q, simplified]
    show ?thesis
    proof (cases q)
      case q': (Inl r)
      with x1 Some q have "out = Inr r" "s' = s2" by auto
      with run q' Some Inr w logged_trans [OF g] show ?thesis by auto
    next
      case q': (Inr fr)
      obtain found rid where fr: "fr = (found, rid)" by fastforce
      note run = run [unfolded q' fr, simplified]
      have g2: "grows ?eid s s2" using run g grows_trans by blast
      show ?thesis
      proof (cases found)
        case False
        obtain r where m: "failed_result cf dec ''failed''
            (''Target node '' @ sq (fmt_opt ?target) @ '' was not found in the supplied nodes list.'')
            [] s2 = (r, s')" and o: "out = Inr r"
          using x1 Some q q' fr False by (auto simp del: append.simps split: prod.splits)
        with failed_result_D [OF m] failed_result_logged [OF m g2] run False Some Inr w show ?thesis
          by (auto simp del: append.simps)
      next
        case True
        let ?s3 = "emit cf ?eid (target_or ''unknown'' dec) ''recovery_completed''
            ''success'' ''Rerun from node completed successfully.'' [] s2"
        obtain r where m: "make_result dec ''success'' True (rd_checkpoint_id dec) rid
            (''Rerun from node '' @ sq (fmt_opt rid) @ '' completed successfully.'')
            [''rerun_from_node: '' @ fmt_opt rid, ''upstream_checkpoint: '' @ fmt_opt (rd_checkpoint_id dec)]
            (rd_checkpoint_id dec \<noteq> None) True ?s3 = (r, s')" and o: "out = Inr r"
          using x1 Some q q' fr True by (auto simp del: append.simps split: prod.splits)
        from o make_result_D [OF m] make_result_logged [OF m grows_emit [OF g2]] run True Some Inr w act
        show ?thesis by (simp add: result_ok_def)
      qed
    qed
  qed
qed

lemma execute_rollback_ok:
  assumes x: "execute_rollback cf dec s = (out, s')" and act: "rd_action dec = ROLLBACK"
  shows "rx_world s' = rx_world s \<and> grows (rd_execution_id dec) s s' \<and>
     (case out of
        Inl e \<Rightarrow> (\<exists>cid. rd_checkpoint_id dec = Some cid \<and> \<not> usable cf cid)
      | Inr r \<Rightarrow> result_ok cf dec r \<and> logged (rd_execution_id dec) s r s'
          \<and> rr_success r = (rd_checkpoint_id dec \<noteq> None)
          \<and> rr_recovered_from_checkpoint r = rd_checkpoint_id dec
          \<and> (case rd_checkpoint_id dec of None \<Rightarrow> True | Some cid \<Rightarrow> usable cf cid))"
proof (cases "rd_checkpoint_id dec")
  case None
  with x obtain r where m: "failed_result cf dec ''failed''
     ''ROLLBACK action requires a checkpoint_id but none was set on the RecoveryDecision.'' [] s = (r, s')"
    and o: "out = Inr r"
    by (auto simp: execute_rollback_def Let_def split: prod.splits)
  with failed_result_D [OF m] failed_result_logged [OF m] None show ?thesis
    by (auto simp: logged_def result_ok_def)
next
  case (Some cid)
  let ?eid = "rd_execution_id dec"
  define s1 where "s1 = emit cf ?eid (target_or ''pipeline'' dec) ''recovery_checkpoint_restored'' ''running''
       (''Attempting rollback to checkpoint '' @ sq cid @ ''.'') [(''checkpoint_id'', PStr cid)] s"
  have g: "grows ?eid s s1" "rx_world s1 = rx_world s" by (auto simp: s1_def)
  show ?thesis
  proof (cases "load_and_validate_checkpoint cf cid")
    case (Inl e)
    with x Some g load_checkpoint_Inl [of cf cid] usable_accepted [of cf cid] show ?thesis
      by (auto simp: execute_rollback_def Let_def s1_def)
  next
    case (Inr c)
    then have acc: "accepted cf cid" and ok: "vr_passed (validate_checkpoint (on_disk (cf_manager cf)) c)"
      by (auto simp: load_checkpoint_iff accepted_def)
    show ?thesis
    proof (cases "cm_restore (cf_manager cf) cid")
      case (Inl e)
      with accepted_restore [OF acc] have "\<not> usable cf cid" by simp
      with x Some g Inr Inl show ?thesis
        by (auto simp: execute_rollback_def Let_def s1_def)
    next
      case a: (Inr a)
      with accepted_restore [OF acc] have u: "usable cf cid" by simp
      let ?nid = "ck_node_id c"
      let ?s2 = "emit cf ?eid ?nid ''recovery_validation_started'' ''running''
          (''Validating restored checkpoint '' @ sq cid @ ''.'') [] s1"
      let ?s3 = "emit cf ?eid ?nid ''recovery_validation_passed'' ''success''
          (''Checkpoint '' @ sq cid @ '' validated successfully.'') [] ?s2"
      let ?s4 = "emit cf ?eid ?nid ''recovery_rollback'' ''success''
          (''Rollback to checkpoint '' @ sq cid @ '' (node '' @ sq ?nid @ '') completed.'')
          [(''checkpoint_id'', PStr cid)] ?s3"
      let ?s5 = "emit cf ?eid ?nid ''recovery_completed'' ''success'' ''Rollback recovery completed.'' [] ?s4"
      obtain r where m: "make_result dec ''success'' True (Some cid) None
           (''Rollback to checkpoint '' @ sq cid @ '' (node '' @ sq ?nid @ '') completed and validated.'')
           [''rollback_to_checkpoint: '' @ cid, ''checkpoint_node: '' @ ?nid,
            ''validation_status: '' @ ck_validation_status c] True True ?s5 = (r, s')"
        and o: "out = Inr r"
        using x Some Inr a ok
        by (auto simp: execute_rollback_def Let_def simp flip: s1_def simp del: append.simps
            split: prod.splits)
      have l: "logged ?eid s r s'" using make_result_logged [OF m, of ?eid s] g(1) by (simp add: grows_emit)
      have "\<not> isl (restore_for_rerun cf (Some cid))" using u by (simp add: restore_for_rerun_iff)
      with l make_result_D [OF m] o g u act Some show ?thesis
        by (simp add: result_ok_def logged_def)
    qed
  qed
qed

lemma passive_ok:
  assumes "(r, s') \<in> {execute_abort cf dec s, execute_manual_review cf dec s, execute_quarantine cf dec s}"
  shows "result_ok cf dec r \<and> \<not> rr_success r \<and> logged (rd_execution_id dec) s r s' \<and> rx_world s' = rx_world s"
proof -
  obtain st msg ev s1 where m: "make_result dec st False None None msg ev False False s1 = (r, s')"
    "st \<noteq> ''success''" "grows (rd_execution_id dec) s s1" "rx_world s1 = rx_world s"
  proof -
    assume *: "\<And>st msg ev s1. make_result dec st False None None msg ev False False s1 = (r, s') \<Longrightarrow>
       st \<noteq> ''success'' \<Longrightarrow> grows (rd_execution_id dec) s s1 \<Longrightarrow> rx_world s1 = rx_world s \<Longrightarrow> thesis"
    from assms consider (a) "execute_abort cf dec s = (r, s')" | (m) "execute_manual_review cf dec s = (r, s')"
      | (q) "execute_quarantine cf dec s = (r, s')" by auto
    then show thesis
    proof cases
      case a
      then show ?thesis unfolding execute_abort_def by (rule *) auto
    next
      case m
      then show ?thesis unfolding execute_manual_review_def by (rule *) auto
    next
      case q
      then show ?thesis unfolding execute_quarantine_def Let_def utc_now_def prod.case
        by (rule *) (auto intro!: grows_emit)
    qed
  qed
  with make_result_D [OF m(1)] make_result_logged [OF m(1,3)] show ?thesis by (simp add: result_ok_def)
qed

subsection \<open>The executor as a whole\<close>

lemma dispatch_ok:
  assumes "dispatch cf dec nodes pc s = (out, s')"
  shows "(case out of
        Inl e \<Rightarrow> grows (rd_execution_id dec) s s'
          \<and> (case rd_checkpoint_id dec of None \<Rightarrow> False | Some cid \<Rightarrow> \<not> usable cf cid)
      | Inr r \<Rightarrow> result_ok cf dec r \<and> logged (rd_execution_id dec) s r s')"
    and "rd_action dec \<notin> {RETRY, RERUN_FROM_NODE} \<Longrightarrow> rx_world s' = rx_world s"
proof -
  have "(case out of
        Inl e \<Rightarrow> grows (rd_execution_id dec) s s'
          \<and> (case rd_checkpoint_id dec of None \<Rightarrow> False | Some cid \<Rightarrow> \<not> usable cf cid)
      | Inr r \<Rightarrow> result_ok cf dec r \<and> logged (rd_execution_id dec) s r s')
    \<and> (rd_action dec \<notin> {RETRY, RERUN_FROM_NODE} \<longrightarrow> rx_world s' = rx_world s)"
  proof (cases "rd_action dec")
    case RETRY
    with assms execute_retry_ok [of cf dec pc s out s'] show ?thesis by (auto simp: dispatch_def)
  next
    case RERUN_FROM_NODE
    with assms execute_rerun_ok [of cf dec nodes s out s'] show ?thesis
      by (cases out) (auto simp: dispatch_def restore_for_rerun_iff split: option.splits)
  next
    case ROLLBACK
    with assms execute_rollback_ok [of cf dec s out s'] show ?thesis
      by (cases out) (auto simp: dispatch_def)
  next
    case QUARANTINE
    with assms passive_ok [of _ s' cf dec s] show ?thesis
      by (auto simp: dispatch_def split: prod.splits)
  next
    case MANUAL_REVIEW
    with assms passive_ok [of _ s' cf dec s] show ?thesis
      by (auto simp: dispatch_def split: prod.splits)
  next
    case ABORT
    with assms passive_ok [of _ s' cf dec s] show ?thesis
      by (auto simp: dispatch_def split: prod.splits)
  qed
  then show "(case out of
        Inl e \<Rightarrow> grows (rd_execution_id dec) s s'
          \<and> (case rd_checkpoint_id dec of None \<Rightarrow> False | Some cid \<Rightarrow> \<not> usable cf cid)
      | Inr r \<Rightarrow> result_ok cf dec r \<and> logged (rd_execution_id dec) s r s')"
    and "rd_action dec \<notin> {RETRY, RERUN_FROM_NODE} \<Longrightarrow> rx_world s' = rx_world s"
    by auto
qed

definition recover_start :: "rx_config \<Rightarrow> recovery_decision \<Rightarrow> 'w rx \<Rightarrow> 'w rx" where
  "recover_start cf dec s =
     emit cf (rd_execution_id dec) (target_or ''pipeline'' dec) ''recovery_started'' ''running''
       (''Starting recovery action: '' @ action_value (rd_action dec))
       [(''action'', PStr (action_value (rd_action dec))),
        (''checkpoint_id'', opt_str (rd_checkpoint_id dec)),
        (''target_node'', opt_str (rd_target_node dec))] (s\<lparr>rx_events := []\<rparr>)"

lemma recover_start_simps [simp]: "rx_world (recover_start cf dec s) = rx_world s"
  by (simp add: recover_start_def)

lemma recover_start_events:
  "\<exists>ev. rx_events (recover_start cf dec s) = [ev] \<and> ev_execution_id ev = rd_execution_id dec
     \<and> ev_event_type ev = ''recovery_started''"
  by (simp add: recover_start_def emit_def utc_now_def)

text \<open>The exception handler of \<open>execute\<close>: every exception becomes a failed result.\<close>

lemma recover_cases:
  assumes "recover cf dec nodes pc s = (r, s')"
  obtains (normal) "dispatch cf dec nodes pc (recover_start cf dec s) = (Inr r, s')"
    | (raised) e s2 where "dispatch cf dec nodes pc (recover_start cf dec s) = (Inl e, s2)"
        "\<not> rr_success r" "result_ok cf dec r" "rx_world s' = rx_world s2"
        "logged (rd_execution_id dec) s2 r s'"
proof -
  obtain out s2 where d: "dispatch cf dec nodes pc (recover_start cf dec s) = (out, s2)" by fastforce
  note u = assms [unfolded recover_def Let_def, folded recover_start_def, unfolded d prod.case]
  show thesis
  proof (cases out)
    case (Inr q)
    with u d show ?thesis by (intro normal) simp
  next
    case (Inl e)
    define s3 where "s3 = emit cf (rd_execution_id dec) (target_or ''pipeline'' dec)
       ''recovery_failed'' ''failed'' (exn_str e) [] s2"
    have g: "grows (rd_execution_id dec) s2 s3" "rx_world s3 = rx_world s2" by (auto simp: s3_def)
    obtain msg ev where "failed_result cf dec ''failed'' msg ev s3 = (r, s')"
      using u Inl by (auto simp: s3_def simp del: append.simps split: if_splits)
    from failed_result_D [OF this] failed_result_logged [OF this g(1)] g(2) d Inl show ?thesis
      by (intro raised) auto
  qed
qed

text \<open>RecoveryExecutor.execute always returns a consistent, audited result: success, status, validation
  and the restored checkpoint agree; success comes only from a retry, a rerun or a rollback;
  the result carries exactly the events of this call, which start with recovery_started and
  belong to the decision's execution; and ROLLBACK, ABORT, MANUAL_REVIEW and QUARANTINE run no
  node and no callable.\<close>

theorem recover_audited:
  "let (r, s') = recover cf dec nodes pc s in
     result_ok cf dec r
     \<and> rr_events r = rx_events s' \<and> list_all (\<lambda>ev. ev_execution_id ev = rd_execution_id dec) (rr_events r)
     \<and> (case rr_events r of [] \<Rightarrow> False | ev # _ \<Rightarrow> ev_event_type ev = ''recovery_started'')
     \<and> (if rd_action dec \<in> {RETRY, RERUN_FROM_NODE} then True else rx_world s' = rx_world s)"
proof -
  obtain r s' where x: "recover cf dec nodes pc s = (r, s')" by fastforce
  obtain ev where ev: "rx_events (recover_start cf dec s) = [ev]" "ev_execution_id ev = rd_execution_id dec"
     "ev_event_type ev = ''recovery_started''" using recover_start_events by blast
  have "result_ok cf dec r \<and> logged (rd_execution_id dec) (recover_start cf dec s) r s'
      \<and> (rd_action dec \<in> {RETRY, RERUN_FROM_NODE} \<or> rx_world s' = rx_world s)"
    using x
  proof (cases rule: recover_cases)
    case normal
    from dispatch_ok [OF this] show ?thesis by auto
  next
    case (raised e s2)
    from dispatch_ok [OF raised(1)] raised logged_trans show ?thesis by auto
  qed
  with ev x show ?thesis by (auto simp: logged_def grows_def)
qed

lemma recover_rollback:
  assumes x: "recover cf d nodes pc s = (r, s')" and act: "rd_action d = ROLLBACK"
  shows "rr_success r = (case rd_checkpoint_id d of None \<Rightarrow> False | Some cid \<Rightarrow> usable cf cid)"
    and "rr_recovered_from_checkpoint r = (if rr_success r then rd_checkpoint_id d else None)"
    and "rr_resumed_from_node r = None" and "rx_world s' = rx_world s"
proof -
  have "result_ok cf d r \<and> rx_world s' = rx_world s
     \<and> rr_success r = (case rd_checkpoint_id d of None \<Rightarrow> False | Some cid \<Rightarrow> usable cf cid)
     \<and> (rr_success r \<longrightarrow> rr_recovered_from_checkpoint r = rd_checkpoint_id d)"
    using x
  proof (cases rule: recover_cases)
    case normal
    then have "execute_rollback cf d (recover_start cf d s) = (Inr r, s')"
      by (simp add: dispatch_def act)
    from execute_rollback_ok [OF this act] show ?thesis by (auto split: option.splits)
  next
    case (raised e s2)
    then have "execute_rollback cf d (recover_start cf d s) = (Inl e, s2)"
      by (simp add: dispatch_def act)
    from execute_rollback_ok [OF this act] raised show ?thesis by auto
  qed
  then show "rr_success r = (case rd_checkpoint_id d of None \<Rightarrow> False | Some cid \<Rightarrow> usable cf cid)"
    and "rr_recovered_from_checkpoint r = (if rr_success r then rd_checkpoint_id d else None)"
    and "rr_resumed_from_node r = None" and "rx_world s' = rx_world s"
    using act by (auto simp: result_ok_def)
qed

text \<open>
  C5: A rollback succeeds exactly when the decision names a checkpoint that the manager knows, that
  the validator accepts and whose artifact, if it has one, can be read back from its file: a file
  that exists but is unreadable or no JSON passes the validator and fails the rollback. It restores
  that checkpoint and nothing else, runs nothing, and does not depend on what was decided besides.
\<close>

theorem rollback_correct:
  "let (r, s') = recover cf (dec\<lparr>rd_action := ROLLBACK\<rparr>) nodes pc s in
     rr_success r = (case rd_checkpoint_id dec of None \<Rightarrow> False | Some cid \<Rightarrow> usable cf cid)
     \<and> rr_recovered_from_checkpoint r = (if rr_success r then rd_checkpoint_id dec else None)
     \<and> rr_resumed_from_node r = None \<and> rx_world s' = rx_world s"
proof -
  obtain r s' where x: "recover cf (dec\<lparr>rd_action := ROLLBACK\<rparr>) nodes pc s = (r, s')" by fastforce
  from recover_rollback [OF x] x show ?thesis by simp
qed

text \<open>C4: A rerun does to the world what running the nodes from the target onward does, each node tried at
  most max_attempts times from the restored artifact, the run stopping at the first node whose
  tries all raise; it succeeds exactly when the checkpoint can be restored, the target is among
  the nodes and no node exhausts its tries. The validation gate after each node never
  closes.\<close>

theorem rerun_correct:
  "let dec = d\<lparr>rd_action := RERUN_FROM_NODE\<rparr>;
       (r, s') = recover cf dec (Some ns) pc s;
       suffix = from_target (cf_runtime cf) (rd_target_node dec) ns in
     case restore_for_rerun cf (rd_checkpoint_id dec) of
       Inl _ \<Rightarrow> \<not> rr_success r \<and> rx_world s' = rx_world s
     | Inr ctx \<Rightarrow>
         (let (w, failure) = run_all (nat (cf_max_attempts cf)) suffix (rx_world s) ctx in
            rx_world s' = w \<and> rr_success r = (failure = None \<and> suffix \<noteq> [])
            \<and> rr_recovered_from_checkpoint r = (if rr_success r then rd_checkpoint_id dec else None))"
proof -
  define dec where "dec = d\<lparr>rd_action := RERUN_FROM_NODE\<rparr>"
  have act: "rd_action dec = RERUN_FROM_NODE" by (simp add: dec_def)
  obtain r s' where x: "recover cf dec (Some ns) pc s = (r, s')" by fastforce
  have *: "case restore_for_rerun cf (rd_checkpoint_id dec) of
       Inl _ \<Rightarrow> \<not> rr_success r \<and> rx_world s' = rx_world s
     | Inr ctx \<Rightarrow>
         (let (w, failure) = run_all (nat (cf_max_attempts cf))
               (from_target (cf_runtime cf) (rd_target_node dec) ns) (rx_world s) ctx in
            rx_world s' = w
            \<and> rr_success r = (failure = None \<and> from_target (cf_runtime cf) (rd_target_node dec) ns \<noteq> [])
            \<and> rr_recovered_from_checkpoint r = (if rr_success r then rd_checkpoint_id dec else None))"
    using x
  proof (cases rule: recover_cases)
    case normal
    then have e: "execute_rerun cf dec (Some ns) (recover_start cf dec s) = (Inr r, s')"
      by (simp add: dispatch_def act)
    from execute_rerun_ok [OF e act] obtain ctx where ctx: "result_ok cf dec r"
      "restore_for_rerun cf (rd_checkpoint_id dec) = Inr ctx"
      "let suffix = from_target (cf_runtime cf) (rd_target_node dec) ns;
           (w, failure) = run_all (nat (cf_max_attempts cf)) suffix (rx_world s) ctx
       in rx_world s' = w \<and> rr_success r = (failure = None \<and> suffix \<noteq> [])"
      "rr_success r \<longrightarrow> rr_recovered_from_checkpoint r = rd_checkpoint_id dec"
      by auto
    then show ?thesis
      by (cases "run_all (nat (cf_max_attempts cf)) (from_target (cf_runtime cf) (rd_target_node dec) ns)
            (rx_world s) ctx")
        (auto simp: Let_def result_ok_def)
  next
    case (raised e s2)
    then have "execute_rerun cf dec (Some ns) (recover_start cf dec s) = (Inl e, s2)"
      by (simp add: dispatch_def act)
    from execute_rerun_ok [OF this act] raised show ?thesis by (auto split: sum.splits)
  qed
  with x show ?thesis unfolding dec_def [symmetric] Let_def by simp
qed

end
