(* ===== verification/RootCause.thy ===== *)
theory RootCause
  imports Fault
begin

text \<open>
  \<open>RootCauseAnalyzer\<close> (\<open>core/analysis/root_cause.py\<close>). Categories are the strings of the
  source, its dictionaries are association lists, and confidences are rationals.
\<close>

subsection \<open>Tables\<close>

fun fault_to_hypothesis :: "fault_type \<Rightarrow> string" where
  "fault_to_hypothesis SCHEMA_MISMATCH = ''SCHEMA_MISMATCH''"
| "fault_to_hypothesis MISSING_ARTIFACT = ''MISSING_ARTIFACT''"
| "fault_to_hypothesis CORRUPTED_ARTIFACT = ''CORRUPTED_ARTIFACT''"
| "fault_to_hypothesis VALIDATION_ERROR = ''INVALID_TRANSFORMATION''"
| "fault_to_hypothesis DEPENDENCY_FAILURE = ''DEPENDENCY_FAILURE''"
| "fault_to_hypothesis RESOURCE_ERROR = ''RESOURCE_FAILURE''"
| "fault_to_hypothesis TIMEOUT = ''TIMEOUT''"
| "fault_to_hypothesis EXECUTION_ERROR = ''EXECUTION_ERROR''"
| "fault_to_hypothesis UNKNOWN = ''UNKNOWN''"

fun secondary_hypotheses :: "fault_type \<Rightarrow> string list" where
  "secondary_hypotheses SCHEMA_MISMATCH = [''INVALID_TRANSFORMATION'', ''CONFIGURATION_FAILURE'']"
| "secondary_hypotheses MISSING_ARTIFACT = [''DEPENDENCY_FAILURE'', ''INVALID_TRANSFORMATION'']"
| "secondary_hypotheses CORRUPTED_ARTIFACT = [''DATA_QUALITY_FAILURE'', ''DEPENDENCY_FAILURE'']"
| "secondary_hypotheses VALIDATION_ERROR = [''SCHEMA_MISMATCH'', ''DATA_QUALITY_FAILURE'']"
| "secondary_hypotheses DEPENDENCY_FAILURE = [''MISSING_ARTIFACT'', ''CONFIGURATION_FAILURE'']"
| "secondary_hypotheses EXECUTION_ERROR =
     [''DEPENDENCY_FAILURE'', ''CONFIGURATION_FAILURE'', ''RESOURCE_FAILURE'']"
| "secondary_hypotheses RESOURCE_ERROR = [''TIMEOUT'', ''CONFIGURATION_FAILURE'']"
| "secondary_hypotheses TIMEOUT = [''RESOURCE_FAILURE'', ''CONFIGURATION_FAILURE'']"
| "secondary_hypotheses UNKNOWN = [''EXECUTION_ERROR'', ''CONFIGURATION_FAILURE'']"

definition repair_categories :: "(string \<times> string list) list" where
  "repair_categories =
     [(''SCHEMA_MISMATCH'', [''remap_schema'', ''rerun_from_transformation_node'']),
      (''MISSING_ARTIFACT'', [''restore_checkpoint'', ''rebuild_intermediate_artifact'']),
      (''CORRUPTED_ARTIFACT'',
         [''restore_checkpoint'', ''quarantine_artifact'', ''rebuild_intermediate_artifact'']),
      (''INVALID_TRANSFORMATION'', [''rerun_from_node'', ''use_validated_preprocessing_config'']),
      (''DEPENDENCY_FAILURE'', [''rerun_from_root_node'', ''restore_checkpoint'']),
      (''RESOURCE_FAILURE'', [''retry_with_reduced_load'', ''manual_review'']),
      (''CONFIGURATION_FAILURE'', [''restore_configuration'', ''manual_review'']),
      (''DATA_QUALITY_FAILURE'', [''rerun_preprocessing'', ''apply_data_quality_guard'']),
      (''EXECUTION_ERROR'', [''rollback_to_checkpoint'', ''rerun_from_node'', ''manual_review'']),
      (''TIMEOUT'', [''retry_with_reduced_load'', ''manual_review'']),
      (''UNKNOWN'', [''manual_review''])]"

definition repair_for :: "string \<Rightarrow> string list" where
  "repair_for category =
     (case map_of repair_categories category of None \<Rightarrow> [''manual_review''] | Some r \<Rightarrow> r)"

subsection \<open>Reports\<close>

record hypothesis =
  rh_category :: string
  rh_confidence :: rat
  rh_explanation :: string
  rh_evidence :: "string list"
  rh_repair_categories :: "string list"

record root_cause_report =
  rc_execution_id :: string
  rc_root_node :: "string option"
  rc_primary_fault_type :: string
  rc_hypotheses :: "hypothesis list"
  rc_confidence :: rat
  rc_evidence :: "string list"
  rc_recommended :: "string list"
  rc_analysed_at :: int

definition top_hypothesis :: "root_cause_report \<Rightarrow> hypothesis option" where
  "top_hypothesis r = (case rc_hypotheses r of [] \<Rightarrow> None | h # _ \<Rightarrow> Some h)"

definition root_cause_to_dict :: "runtime \<Rightarrow> root_cause_report \<Rightarrow> dict" where
  "root_cause_to_dict rt r =
     [(''execution_id'', PStr (rc_execution_id r)),
      (''root_node'', opt_str (rc_root_node r)),
      (''primary_fault_type'', PStr (rc_primary_fault_type r)),
      (''confidence'', PFloat (rc_confidence r)),
      (''evidence'', PList (map PStr (rc_evidence r))),
      (''recommended_repair_categories'', PList (map PStr (rc_recommended r))),
      (''hypotheses'', PList (map (\<lambda>h. PDict
         [(''category'', PStr (rh_category h)),
          (''confidence'', PFloat (rh_confidence h)),
          (''explanation'', PStr (rh_explanation h)),
          (''evidence'', PList (map PStr (rh_evidence h))),
          (''repair_categories'', PList (map PStr (rh_repair_categories h)))]) (rc_hypotheses r))),
      (''analysed_at'', PStr (rt_iso rt (rc_analysed_at r)))]"

subsection \<open>Analysis\<close>

definition base_confidence :: "fault_report \<Rightarrow> rat" where
  "base_confidence fault =
     (if fr_fault_type fault \<in> {SCHEMA_MISMATCH, MISSING_ARTIFACT, CORRUPTED_ARTIFACT, VALIDATION_ERROR}
      then 75/100
      else if fr_fault_type fault = EXECUTION_ERROR then 55/100
      else if fr_fault_type fault = DEPENDENCY_FAILURE then 60/100
      else 40/100)"

definition localization_boost :: "fault_localization \<Rightarrow> rat" where
  "localization_boost loc =
     (if truthy_str (fl_probable_root_node loc) \<and> fl_confidence loc \<ge> 85/100 then 10/100
      else if truthy_str (fl_probable_root_node loc) \<and> fl_confidence loc \<ge> 60/100 then 5/100
      else 0)"

definition explain :: "string \<Rightarrow> fault_report \<Rightarrow> fault_localization \<Rightarrow> string" where
  "explain category fault loc =
     (let node = sq (str_or (fl_probable_root_node loc) (str_or (fr_observed_node fault) ''unknown''));
          base =
            [(''SCHEMA_MISMATCH'', ''The schema of the output produced by node '' @ node
                @ '' does not match what downstream nodes expect. This is the most likely cause of the detected ''
                @ fault_type_value (fr_fault_type fault) @ '' fault.''),
             (''MISSING_ARTIFACT'', ''An artifact required by node '' @ node
                @ '' or a downstream consumer was not found. This can occur if a previous node failed to write its output or if the artifact was deleted.''),
             (''CORRUPTED_ARTIFACT'', ''An artifact at or produced by node '' @ node
                @ '' failed integrity verification. This may indicate data corruption or a failed write.''),
             (''INVALID_TRANSFORMATION'', ''Node '' @ node
                @ '' applied a transformation that produced invalid output. This may indicate a preprocessing misconfiguration or a feature engineering error.''),
             (''DEPENDENCY_FAILURE'', ''A dependency of node '' @ node
                @ '' failed. The failure propagated to downstream nodes. Root cause is likely upstream of the observed failure point.''),
             (''RESOURCE_FAILURE'', ''Node '' @ node
                @ '' encountered a resource constraint (memory, CPU, disk) that caused the failure. Check resource availability.''),
             (''CONFIGURATION_FAILURE'', ''Node '' @ node
                @ '' may have been misconfigured. Validate parameters, environment variables, and external service connectivity.''),
             (''DATA_QUALITY_FAILURE'', ''Input data at node '' @ node
                @ '' does not meet quality requirements. Check for unexpected nulls, out-of-range values, or schema drift.''),
             (''EXECUTION_ERROR'', ''Node '' @ node
                @ '' raised an unexpected exception during execution. Inspect the error trace for the specific cause.''),
             (''TIMEOUT'', ''Node '' @ node
                @ '' exceeded its time limit. Consider reducing workload or increasing timeout configuration.'')]
      in case map_of base category of
           Some t \<Rightarrow> t
         | None \<Rightarrow> ''Unclassified failure at node '' @ node @ '' '' @ em_dash
             @ '' manual inspection required.'')"

definition explain_secondary :: "string \<Rightarrow> fault_report \<Rightarrow> string" where
  "explain_secondary category fault =
     ''Secondary hypothesis: the '' @ fault_type_value (fr_fault_type fault)
     @ '' fault may also be explained by a '' @ category
     @ '' condition. This is less likely than the primary hypothesis but should be considered if primary repair steps fail.''"

definition base_evidence ::
  "pipeline_execution \<Rightarrow> fault_report \<Rightarrow> fault_localization \<Rightarrow> node_event list \<Rightarrow> string list" where
  "base_evidence execution fault loc events =
     (if fr_detected fault then
        [''fault_detected: type='' @ fault_type_value (fr_fault_type fault) @ '' severity=''
           @ severity_value (fr_severity fault) @ '' node='' @ fmt_opt (fr_observed_node fault)]
      else [])
     @ (if truthy_str (fl_probable_root_node loc) then
          [''localized_root: node='' @ fmt_opt (fl_probable_root_node loc) @ '' confidence=''
             @ fmt2 (fl_confidence loc)]
        else [])
     @ (case failed_node execution of
          None \<Rightarrow> []
        | Some n \<Rightarrow>
            (''failed_node: id='' @ ne_node_id n @ '' error='' @ fmt_opt (ne_error_type n))
            # (if truthy_str (ne_error_message n)
               then [''error_message: '' @ take_chars 200 (fmt_opt (ne_error_message n))] else []))
     @ (case last_successful_node execution of
          None \<Rightarrow> []
        | Some n \<Rightarrow> [''last_success: node='' @ ne_node_id n @ '' checkpoint=''
                       @ fmt_opt (ne_checkpoint_id n)])
     @ (if list_ex (\<lambda>ev. ev_event_type ev = ''output_validation_failed'') events
        then [''event_corroboration: output_validation_failed seen''] else [])
     @ (if list_ex (\<lambda>ev. ev_event_type ev = ''node_failed'') events
        then [''event_corroboration: node_failed event seen''] else [])"

text \<open>\<open>max(min(primary * (0.60 - i * 0.10), 0.95), 0.05)\<close>, rounded to three digits\<close>

definition secondary_confidence :: "rat \<Rightarrow> nat \<Rightarrow> rat" where
  "secondary_confidence primary i =
     py_round 3 (max (min (primary * (60/100 - of_nat i * (10/100))) (95/100)) (5/100))"

definition secondary_hypothesis ::
  "fault_report \<Rightarrow> string list \<Rightarrow> rat \<Rightarrow> nat \<Rightarrow> string \<Rightarrow> hypothesis" where
  "secondary_hypothesis fault evidence primary i cat =
     \<lparr>rh_category = cat, rh_confidence = secondary_confidence primary i,
      rh_explanation = explain_secondary cat fault,
      rh_evidence = (case evidence of [] \<Rightarrow> [] | e # _ \<Rightarrow> [e])
        @ [''secondary_hypothesis_rank: '' @ show_nat (i + 1)],
      rh_repair_categories = repair_for cat\<rparr>"

definition primary_confidence :: "fault_report \<Rightarrow> fault_localization \<Rightarrow> node_event list \<Rightarrow> rat" where
  "primary_confidence fault loc events =
     min (base_confidence fault + localization_boost loc + (if events \<noteq> [] then 5/100 else 0)) (95/100)"

definition primary_hypothesis ::
  "pipeline_execution \<Rightarrow> fault_report \<Rightarrow> fault_localization \<Rightarrow> node_event list \<Rightarrow> hypothesis" where
  "primary_hypothesis execution fault loc events =
     (let category = fault_to_hypothesis (fr_fault_type fault) in
      \<lparr>rh_category = category, rh_confidence = primary_confidence fault loc events,
       rh_explanation = explain category fault loc,
       rh_evidence = base_evidence execution fault loc events,
       rh_repair_categories = repair_for category\<rparr>)"

text \<open>\<open>list.sort(key=.., reverse=True)\<close> is stable, as sorting on the negated key is.\<close>

definition analyze ::
  "int \<Rightarrow> pipeline_execution \<Rightarrow> fault_report \<Rightarrow> fault_localization \<Rightarrow> node_event list
     \<Rightarrow> root_cause_report" where
  "analyze now execution fault loc events =
     (let evidence = base_evidence execution fault loc events;
          primary = primary_confidence fault loc events;
          hypotheses = sort_key (\<lambda>h. - rh_confidence h)
            (primary_hypothesis execution fault loc events
               # map (\<lambda>(i, cat). secondary_hypothesis fault evidence primary i cat)
                   (enumerate 0 (secondary_hypotheses (fr_fault_type fault))));
          top = hd hypotheses
      in \<lparr>rc_execution_id = pe_execution_id execution,
          rc_root_node = fl_probable_root_node loc,
          rc_primary_fault_type = fault_type_value (fr_fault_type fault),
          rc_hypotheses = hypotheses, rc_confidence = rh_confidence top,
          rc_evidence = evidence, rc_recommended = rh_repair_categories top,
          rc_analysed_at = now\<rparr>)"

subsection \<open>Facts\<close>

text \<open>Confidences are multiples of one twentieth, so rounding to three digits changes nothing.\<close>

lemma primary_confidence_twentieths:
  "\<exists>n::int. primary_confidence f loc evs = of_int n / 20 \<and> 8 \<le> n \<and> n \<le> 18"
proof -
  have "base_confidence f \<in> {of_int 15 / 20, of_int 11 / 20, of_int 12 / 20, of_int 8 / 20}"
    by (simp add: base_confidence_def)
  then obtain b :: int where b: "base_confidence f = of_int b / 20" "8 \<le> b" "b \<le> 15"
    by (elim insertE emptyE; force)
  have "localization_boost loc \<in> {of_int 2 / 20, of_int 1 / 20, of_int 0 / 20}"
    by (simp add: localization_boost_def)
  then obtain l :: int where l: "localization_boost loc = of_int l / 20" "0 \<le> l" "l \<le> 2"
    by (elim insertE emptyE; force)
  let ?e = "if evs \<noteq> [] then 1 else 0 :: int"
  have "base_confidence f + localization_boost loc + (if evs \<noteq> [] then 5/100 else 0)
      = of_int (b + l + ?e) / 20"
    using b l by simp
  moreover have "b + l + ?e \<le> 18" "8 \<le> b + l + ?e" using b l by auto
  moreover have "of_int (b + l + ?e) / 20 \<le> (95/100 :: rat)"
  proof -
    have "of_int (b + l + ?e) \<le> (of_int 18 :: rat)" by (simp only: of_int_le_iff calculation)
    then show ?thesis by simp
  qed
  ultimately show ?thesis by (intro exI [of _ "b + l + ?e"]) (simp add: primary_confidence_def)
qed

lemma secondary_confidence_value:
  assumes "p = of_int n / 20" "8 \<le> n" "n \<le> 18" "i < 3"
  shows "secondary_confidence p i = of_int (n * (6 - int i)) / 200"
proof -
  define m where "m = n * (6 - int i)"
  have v: "p * (60/100 - of_nat i * (10/100)) = of_int m / 200"
    unfolding assms(1) m_def using assms(4) by (simp add: field_simps)
  have "10 \<le> m" using assms mult_mono [of 8 n 4 "6 - int i"] by (simp add: m_def)
  then have lo: "(10 :: rat) \<le> of_int m" by simp
  have "m \<le> 190" using assms mult_mono [of n 18 "6 - int i" 6] by (simp add: m_def)
  then have hi: "of_int m \<le> (190 :: rat)" by simp
  have "max (min (of_int m / 200) (95/100)) (5/100) = (of_int m / 200 :: rat)" using lo hi by simp
  moreover have "py_round 3 (of_int m / 200) = of_int m / 200"
    by (rule py_round_exact [where i = "5 * m"]) simp
  ultimately show ?thesis unfolding secondary_confidence_def v by (simp add: m_def)
qed

text \<open>The primary hypothesis is ahead of the secondary ones, which are already in order.\<close>

lemma secondary_order:
  assumes "p = of_int n / 20" "8 \<le> n" "n \<le> 18"
  shows "secondary_confidence p 0 < p"
    and "secondary_confidence p 1 < secondary_confidence p 0"
    and "secondary_confidence p 2 < secondary_confidence p 1"
    and "5/100 \<le> secondary_confidence p 2" and "p \<le> 95/100"
proof -
  have "(8 :: rat) \<le> of_int n" "of_int n \<le> (18 :: rat)" using assms by simp_all
  then show "secondary_confidence p 0 < p"
    and "secondary_confidence p 1 < secondary_confidence p 0"
    and "secondary_confidence p 2 < secondary_confidence p 1"
    and "5/100 \<le> secondary_confidence p 2" and "p \<le> 95/100"
    using secondary_confidence_value [OF assms, of 0] secondary_confidence_value [OF assms, of 1]
      secondary_confidence_value [OF assms, of 2]
    unfolding assms(1) by simp_all
qed

lemma secondary_length: "length (secondary_hypotheses t) \<in> {2, 3}"
  by (cases t) simp_all

text \<open>The hypotheses before sorting are in descending order.\<close>

lemma hypotheses_sorted:
  fixes first :: hypothesis and f :: fault_report and ev :: "string list"
  assumes p: "rh_confidence first = p" "p = of_int n / 20" "8 \<le> n" "n \<le> 18"
    and cats: "length cats \<in> {2, 3}"
  defines "hs \<equiv> first # map (\<lambda>(i, cat). secondary_hypothesis f ev p i cat) (enumerate 0 cats)"
  shows "sorted (map (\<lambda>h. - rh_confidence h) hs)"
    and "list_all (\<lambda>h. 5/100 \<le> rh_confidence h \<and> rh_confidence h \<le> 95/100) hs"
    and "map rh_category hs = rh_category first # cats"
proof -
  note o = secondary_order [OF p(2-4)]
  consider (two) a b where "cats = [a, b]" | (three) a b c where "cats = [a, b, c]"
    using cats by (auto simp: length_Suc_conv numeral_2_eq_2 numeral_3_eq_3)
  then have "sorted (map (\<lambda>h. - rh_confidence h) hs)
      \<and> list_all (\<lambda>h. 5/100 \<le> rh_confidence h \<and> rh_confidence h \<le> 95/100) hs
      \<and> map rh_category hs = rh_category first # cats"
    using o p(1) by cases (auto simp: hs_def secondary_hypothesis_def numeral_2_eq_2 simp del: of_nat_Suc)
  then show "sorted (map (\<lambda>h. - rh_confidence h) hs)"
    and "list_all (\<lambda>h. 5/100 \<le> rh_confidence h \<and> rh_confidence h \<le> 95/100) hs"
    and "map rh_category hs = rh_category first # cats" by blast+
qed

lemma analyze_hypotheses:
  "rc_hypotheses (analyze now e f loc evs) =
     primary_hypothesis e f loc evs
       # map (\<lambda>(i, cat). secondary_hypothesis f (base_evidence e f loc evs)
               (primary_confidence f loc evs) i cat)
           (enumerate 0 (secondary_hypotheses (fr_fault_type f)))" (is "_ = ?hs")
  and hypotheses_ranked:
  "sorted (map (\<lambda>h. - rh_confidence h) (rc_hypotheses (analyze now e f loc evs)))"
  "list_all (\<lambda>h. 5/100 \<le> rh_confidence h \<and> rh_confidence h \<le> 95/100)
     (rc_hypotheses (analyze now e f loc evs))"
  "map rh_category (rc_hypotheses (analyze now e f loc evs))
     = fault_to_hypothesis (fr_fault_type f) # secondary_hypotheses (fr_fault_type f)"
proof -
  obtain n :: int where n: "primary_confidence f loc evs = of_int n / 20" "8 \<le> n" "n \<le> 18"
    using primary_confidence_twentieths by blast
  have first: "rh_confidence (primary_hypothesis e f loc evs) = primary_confidence f loc evs"
    "rh_category (primary_hypothesis e f loc evs) = fault_to_hypothesis (fr_fault_type f)"
    by (simp_all add: primary_hypothesis_def Let_def)
  note h = hypotheses_sorted [OF first(1) n secondary_length [of "fr_fault_type f"],
      of f "base_evidence e f loc evs"]
  show hs: "rc_hypotheses (analyze now e f loc evs) = ?hs"
    using sort_key_id_if_sorted [OF h(1)] by (simp add: analyze_def Let_def)
  show "sorted (map (\<lambda>h. - rh_confidence h) (rc_hypotheses (analyze now e f loc evs)))"
    unfolding hs by (rule h(1))
  show "list_all (\<lambda>h. 5/100 \<le> rh_confidence h \<and> rh_confidence h \<le> 95/100)
     (rc_hypotheses (analyze now e f loc evs))"
    unfolding hs by (rule h(2))
  show "map rh_category (rc_hypotheses (analyze now e f loc evs))
     = fault_to_hypothesis (fr_fault_type f) # secondary_hypotheses (fr_fault_type f)"
    unfolding hs h(3) by (simp add: first)
qed

lemma analyze_head:
  "rc_hypotheses (analyze now e f loc evs) = h # hs \<Longrightarrow>
     rc_confidence (analyze now e f loc evs) = rh_confidence h
     \<and> rc_recommended (analyze now e f loc evs) = rh_repair_categories h"
  by (auto simp: analyze_def Let_def)

lemma analyze_root [simp]: "rc_root_node (analyze now e f loc evs) = fl_probable_root_node loc"
  by (simp add: analyze_def Let_def)

lemma analyze_top:
  "top_hypothesis (analyze now e f loc evs) = Some (primary_hypothesis e f loc evs)"
  by (simp add: top_hypothesis_def analyze_hypotheses)

text \<open>RootCauseAnalyzer.analyze ranks its hypotheses by descending confidence, within 0.05 and 0.95, the
  hypothesis of the detected fault type first and the secondary ones after it in the order of
  their table, so sorting never demotes the primary one; the report's confidence and repair
  categories are the primary hypothesis's.\<close>

theorem analyze_ranked:
  "let r = analyze now e f loc evs in
     sorted (map (\<lambda>h. - rh_confidence h) (rc_hypotheses r))
     \<and> list_all (\<lambda>h. 5/100 \<le> rh_confidence h \<and> rh_confidence h \<le> 95/100) (rc_hypotheses r)
     \<and> map rh_category (rc_hypotheses r)
         = fault_to_hypothesis (fr_fault_type f) # secondary_hypotheses (fr_fault_type f)
     \<and> rc_confidence r = primary_confidence f loc evs
     \<and> rc_recommended r = repair_for (fault_to_hypothesis (fr_fault_type f))
     \<and> rc_root_node r = fl_probable_root_node loc"
  using hypotheses_ranked [of now e f loc evs] analyze_head [OF analyze_hypotheses [of now e f loc evs]]
  by (simp add: Let_def) (simp add: primary_hypothesis_def Let_def)

end
