(* ===== verification/Planner.thy ===== *)
theory Planner
  imports RootCause
begin

text \<open>
  \<open>RepairPlanner\<close> (\<open>core/repair/planner.py\<close>): a root cause report becomes an ordered plan of
  repair steps. Action types and risk levels are the source's string constants.
\<close>

subsection \<open>Steps and plans\<close>

record repair_step =
  st_index :: nat
  st_action :: string
  st_target_node :: "string option"
  st_target_artifact :: "string option"
  st_reason :: string
  st_required_checkpoint :: "string option"
  st_risk :: string
  st_requires_validation :: bool
  st_metadata :: dict

definition step_to_dict :: "repair_step \<Rightarrow> dict" where
  "step_to_dict s =
     [(''step_index'', PInt (int (st_index s))), (''action_type'', PStr (st_action s)),
      (''target_node'', opt_str (st_target_node s)),
      (''target_artifact'', opt_str (st_target_artifact s)), (''reason'', PStr (st_reason s)),
      (''required_checkpoint'', opt_str (st_required_checkpoint s)),
      (''risk_level'', PStr (st_risk s)),
      (''requires_validation'', PBool (st_requires_validation s)),
      (''metadata'', PDict (st_metadata s))]"

record repair_plan =
  pl_execution_id :: string
  pl_category :: string
  pl_steps :: "repair_step list"
  pl_root_node :: "string option"
  pl_requires_approval :: bool
  pl_rationale :: string
  pl_planned_at :: int

definition step_count :: "repair_plan \<Rightarrow> nat" where
  "step_count p = length (pl_steps p)"

definition has_automated_steps :: "repair_plan \<Rightarrow> bool" where
  "has_automated_steps p = list_ex (\<lambda>s. st_action s \<noteq> ''MANUAL_REVIEW'') (pl_steps p)"

definition plan_to_dict :: "runtime \<Rightarrow> repair_plan \<Rightarrow> dict" where
  "plan_to_dict rt p =
     [(''execution_id'', PStr (pl_execution_id p)),
      (''hypothesis_category'', PStr (pl_category p)),
      (''root_node'', opt_str (pl_root_node p)),
      (''requires_approval'', PBool (pl_requires_approval p)),
      (''rationale'', PStr (pl_rationale p)),
      (''step_count'', PInt (int (step_count p))),
      (''steps'', PList (map (\<lambda>s. PDict (step_to_dict s)) (pl_steps p))),
      (''planned_at'', PStr (rt_iso rt (pl_planned_at p)))]"

text \<open>A step without artifact and metadata, as every builder makes it\<close>

definition mk_step ::
  "nat \<Rightarrow> string \<Rightarrow> string option \<Rightarrow> string \<Rightarrow> string option \<Rightarrow> string \<Rightarrow> bool \<Rightarrow> repair_step" where
  "mk_step i action node reason ck risk validate =
     \<lparr>st_index = i, st_action = action, st_target_node = node, st_target_artifact = None,
      st_reason = reason, st_required_checkpoint = ck, st_risk = risk,
      st_requires_validation = validate, st_metadata = []\<rparr>"

subsection \<open>Step builders\<close>

definition steps_schema_mismatch :: "string option \<Rightarrow> string option \<Rightarrow> repair_step list" where
  "steps_schema_mismatch node lkg =
     (if truthy_str node \<and> truthy_str lkg then
        [mk_step 0 ''REMAP_SCHEMA'' node
           (''Apply schema remapping at node '' @ sq (fmt_opt node)
            @ '' to align output schema with downstream expectations.'') lkg ''LOW'' True,
         mk_step 1 ''RERUN_FROM_CHECKPOINT'' node
           (''Rerun from checkpoint preceding node '' @ sq (fmt_opt node) @ '' after schema fix.'')
           lkg ''MEDIUM'' True]
      else
        [mk_step 0 ''MANUAL_REVIEW'' node
           ''Schema mismatch with no checkpoint available. Manual schema inspection required.''
           None ''HIGH'' False])"

definition steps_missing_artifact :: "string option \<Rightarrow> string option \<Rightarrow> repair_step list" where
  "steps_missing_artifact node lkg =
     (let restore = (if truthy_str lkg then
            [mk_step 0 ''RESTORE_CHECKPOINT'' node
               (''Restore last-known-good checkpoint to recover missing artifact at ''
                @ sq (fmt_opt node) @ ''.'') lkg ''MEDIUM'' True] else [])
      in restore @
        [mk_step (length restore) ''REBUILD_ARTIFACT'' node
           (''Rebuild the missing artifact at node '' @ sq (fmt_opt node) @ '' by re-executing the node.'')
           lkg ''MEDIUM'' True])"

definition steps_corrupted_artifact :: "string option \<Rightarrow> string option \<Rightarrow> repair_step list" where
  "steps_corrupted_artifact node lkg =
     (let restore = (if truthy_str lkg then
            [mk_step 0 ''RESTORE_CHECKPOINT'' node
               (''Restore checkpoint before corrupted artifact at '' @ sq (fmt_opt node) @ ''.'')
               lkg ''HIGH'' True] else [])
      in restore @
        [mk_step (length restore) ''MANUAL_REVIEW'' node
           ''Corrupted artifact detected. Manual inspection required to determine source of corruption before rebuilding.''
           None ''CRITICAL'' False])"

definition steps_invalid_transformation :: "string option \<Rightarrow> string option \<Rightarrow> repair_step list" where
  "steps_invalid_transformation node lkg =
     [mk_step 0 ''USE_VALIDATED_PREPROCESSING'' node
        (''Apply the previously validated preprocessing configuration at node '' @ sq (fmt_opt node)
         @ '' instead of the failing one.'') lkg ''LOW'' True]
     @ (if truthy_str lkg then
          [mk_step 1 ''RERUN_FROM_CHECKPOINT'' node
             ''Rerun from checkpoint with corrected transformation.'' lkg ''MEDIUM'' True] else [])"

definition steps_dependency_failure :: "string option \<Rightarrow> string option \<Rightarrow> repair_step list" where
  "steps_dependency_failure node lkg =
     (if truthy_str lkg then
        [mk_step 0 ''RESTORE_CHECKPOINT'' node
           (''Restore checkpoint to state before dependency failure at '' @ sq (fmt_opt node) @ ''.'')
           lkg ''MEDIUM'' True,
         mk_step 1 ''RERUN_FROM_CHECKPOINT'' node
           (''Rerun from root cause node '' @ sq (fmt_opt node) @ '' after restoring the checkpoint.'')
           lkg ''MEDIUM'' True]
      else
        [mk_step 0 ''MANUAL_REVIEW'' node
           ''Dependency failure with no checkpoint. Manual inspection of dependency chain required.''
           None ''HIGH'' False])"

definition steps_resource_failure :: "string option \<Rightarrow> repair_step list" where
  "steps_resource_failure node =
     [mk_step 0 ''MANUAL_REVIEW'' node
        (''Resource failure at '' @ sq (fmt_opt node)
         @ ''. Manual review of memory/CPU/disk constraints required before retry.'')
        None ''HIGH'' False]"

definition steps_configuration_failure :: "string option \<Rightarrow> repair_step list" where
  "steps_configuration_failure node =
     [mk_step 0 ''RESTORE_CONFIGURATION'' node
        (''Restore the last validated configuration for node '' @ sq (fmt_opt node) @ ''.'')
        None ''MEDIUM'' True,
      mk_step 1 ''RERUN_NODE'' node
        (''Rerun node '' @ sq (fmt_opt node) @ '' with restored configuration.'')
        None ''MEDIUM'' True]"

definition steps_data_quality_failure :: "string option \<Rightarrow> string option \<Rightarrow> repair_step list" where
  "steps_data_quality_failure node lkg =
     [mk_step 0 ''USE_VALIDATED_PREPROCESSING'' node
        (''Apply data quality guards and validated preprocessing at node '' @ sq (fmt_opt node) @ ''.'')
        lkg ''LOW'' True,
      mk_step 1 ''RERUN_NODE'' node
        (''Rerun node '' @ sq (fmt_opt node) @ '' with data quality guards applied.'')
        lkg ''MEDIUM'' True]"

definition steps_execution_error :: "string option \<Rightarrow> string option \<Rightarrow> repair_step list" where
  "steps_execution_error node lkg =
     (let restore = (if truthy_str lkg then
            [mk_step 0 ''RESTORE_CHECKPOINT'' node
               (''Rollback to last-known-good checkpoint before execution failure at ''
                @ sq (fmt_opt node) @ ''.'') lkg ''MEDIUM'' True] else [])
      in restore @
        [mk_step (length restore) ''MANUAL_REVIEW'' node
           ''Execution error requires manual inspection of the exception trace before automated rerun.''
           None ''HIGH'' False])"

definition steps_timeout :: "string option \<Rightarrow> repair_step list" where
  "steps_timeout node =
     [mk_step 0 ''MANUAL_REVIEW'' node
        (''Timeout at '' @ sq (fmt_opt node)
         @ ''. Review resource constraints and adjust timeout configuration before retry.'')
        None ''MEDIUM'' False]"

definition steps_unknown :: "string option \<Rightarrow> repair_step list" where
  "steps_unknown node =
     [mk_step 0 ''MANUAL_REVIEW'' node
        ''Unknown root cause. Human investigation required before any automated repair is attempted.''
        None ''CRITICAL'' False]"

definition build_steps :: "string \<Rightarrow> string option \<Rightarrow> string option \<Rightarrow> repair_step list" where
  "build_steps category node lkg =
     (if category = ''SCHEMA_MISMATCH'' then steps_schema_mismatch node lkg
      else if category = ''MISSING_ARTIFACT'' then steps_missing_artifact node lkg
      else if category = ''CORRUPTED_ARTIFACT'' then steps_corrupted_artifact node lkg
      else if category = ''INVALID_TRANSFORMATION'' then steps_invalid_transformation node lkg
      else if category = ''DEPENDENCY_FAILURE'' then steps_dependency_failure node lkg
      else if category = ''RESOURCE_FAILURE'' then steps_resource_failure node
      else if category = ''CONFIGURATION_FAILURE'' then steps_configuration_failure node
      else if category = ''DATA_QUALITY_FAILURE'' then steps_data_quality_failure node lkg
      else if category = ''EXECUTION_ERROR'' then steps_execution_error node lkg
      else if category = ''TIMEOUT'' then steps_timeout node
      else steps_unknown node)"

definition build_rationale :: "string \<Rightarrow> root_cause_report \<Rightarrow> string" where
  "build_rationale category r =
     ''RepairPlan for execution '' @ sq (rc_execution_id r) @ ''. Primary hypothesis: '' @ category
     @ '' (confidence='' @ fmt2 (rc_confidence r) @ ''). Root node: ''
     @ str_or (rc_root_node r) ''unknown''
     @ ''. Steps ordered by risk (lowest first). All steps require validation gate before continuing.''"

definition plan :: "int \<Rightarrow> root_cause_report \<Rightarrow> string option \<Rightarrow> repair_plan" where
  "plan now r lkg =
     (let category = (case top_hypothesis r of None \<Rightarrow> ''UNKNOWN'' | Some h \<Rightarrow> rh_category h);
          steps = build_steps category (rc_root_node r) lkg
      in \<lparr>pl_execution_id = rc_execution_id r, pl_category = category, pl_steps = steps,
          pl_root_node = rc_root_node r,
          pl_requires_approval = list_ex (\<lambda>s. st_risk s = ''HIGH'' \<or> st_risk s = ''CRITICAL''
             \<or> st_action s = ''MANUAL_REVIEW'') steps,
          pl_rationale = build_rationale category r, pl_planned_at = now\<rparr>)"

subsection \<open>Facts\<close>

lemmas step_builders =
  steps_schema_mismatch_def steps_missing_artifact_def steps_corrupted_artifact_def
  steps_invalid_transformation_def steps_dependency_failure_def steps_resource_failure_def
  steps_configuration_failure_def steps_data_quality_failure_def steps_execution_error_def
  steps_timeout_def steps_unknown_def

definition risk_rank :: "string \<Rightarrow> nat" where
  "risk_rank r = (if r = ''LOW'' then 0 else if r = ''MEDIUM'' then 1 else if r = ''HIGH'' then 2 else 3)"

text \<open>
  A plan the executor can follow: numbered from zero, of ascending risk, ending where a human
  takes over; what needs a checkpoint names one; all but the human's step are validated; no
  risky step without one.
\<close>

definition plan_ok :: "string option \<Rightarrow> repair_step list \<Rightarrow> bool" where
  "plan_ok lkg steps \<longleftrightarrow>
     steps \<noteq> [] \<and> map st_index steps = [0..<length steps]
     \<and> sorted (map (\<lambda>s. risk_rank (st_risk s)) steps)
     \<and> list_all (\<lambda>s. st_action s \<in> {''RESTORE_CHECKPOINT'', ''RERUN_FROM_CHECKPOINT'', ''REMAP_SCHEMA''}
          \<longrightarrow> truthy_str lkg \<and> st_required_checkpoint s = lkg) steps
     \<and> list_all (\<lambda>s. st_requires_validation s \<longleftrightarrow> st_action s \<noteq> ''MANUAL_REVIEW'') steps
     \<and> list_all (\<lambda>s. st_action s \<noteq> ''MANUAL_REVIEW'') (butlast steps)
     \<and> (list_ex (\<lambda>s. st_risk s = ''HIGH'' \<or> st_risk s = ''CRITICAL'') steps
          \<longrightarrow> st_action (last steps) = ''MANUAL_REVIEW'')"

lemma mk_step_simps [simp]:
  "st_index (mk_step i a n r c k v) = i" "st_action (mk_step i a n r c k v) = a"
  "st_target_node (mk_step i a n r c k v) = n" "st_required_checkpoint (mk_step i a n r c k v) = c"
  "st_risk (mk_step i a n r c k v) = k" "st_requires_validation (mk_step i a n r c k v) = v"
  by (simp_all add: mk_step_def)

lemma steps_ok:
  "plan_ok lkg (steps_schema_mismatch node lkg)"
  "plan_ok lkg (steps_missing_artifact node lkg)"
  "plan_ok lkg (steps_corrupted_artifact node lkg)"
  "plan_ok lkg (steps_invalid_transformation node lkg)"
  "plan_ok lkg (steps_dependency_failure node lkg)"
  "plan_ok lkg (steps_resource_failure node)"
  "plan_ok lkg (steps_configuration_failure node)"
  "plan_ok lkg (steps_data_quality_failure node lkg)"
  "plan_ok lkg (steps_execution_error node lkg)"
  "plan_ok lkg (steps_timeout node)"
  "plan_ok lkg (steps_unknown node)"
  by (simp_all add: step_builders plan_ok_def risk_rank_def Let_def upt_rec)

lemma build_steps_ok: "plan_ok lkg (build_steps category node lkg)"
  by (simp add: build_steps_def steps_ok)

lemma manual_last:
  assumes "plan_ok lkg steps"
  shows "list_ex (\<lambda>s. st_action s = ''MANUAL_REVIEW'') steps \<longleftrightarrow> st_action (last steps) = ''MANUAL_REVIEW''"
proof -
  obtain xs x where steps: "steps = xs @ [x]"
    using assms by (cases steps rule: rev_exhaust) (auto simp: plan_ok_def)
  with assms have "\<not> list_ex (\<lambda>s. st_action s = ''MANUAL_REVIEW'') xs"
    by (auto simp: plan_ok_def list_ex_iff list_all_iff)
  with steps show ?thesis by simp
qed

lemma automated_steps:
  assumes "plan_ok lkg steps"
  shows "list_ex (\<lambda>s. st_action s \<noteq> ''MANUAL_REVIEW'') steps \<longleftrightarrow>
     length steps > 1 \<or> st_action (last steps) \<noteq> ''MANUAL_REVIEW''"
proof -
  obtain xs x where steps: "steps = xs @ [x]"
    using assms by (cases steps rule: rev_exhaust) (auto simp: plan_ok_def)
  with assms have "list_all (\<lambda>s. st_action s \<noteq> ''MANUAL_REVIEW'') xs" by (simp add: plan_ok_def)
  with steps show ?thesis by (cases xs) auto
qed

lemma plan_steps:
  "pl_steps (plan now (analyze t e f loc evs) lkg)
     = build_steps (fault_to_hypothesis (fr_fault_type f)) (fl_probable_root_node loc) lkg"
  by (simp add: plan_def analyze_top Let_def) (simp add: primary_hypothesis_def Let_def)

lemma plan_approval:
  "pl_requires_approval (plan now r lkg)
     = list_ex (\<lambda>s. st_action s = ''MANUAL_REVIEW'') (pl_steps (plan now r lkg))"
proof -
  have ok: "plan_ok lkg (pl_steps (plan now r lkg))" by (simp add: plan_def Let_def build_steps_ok)
  then show ?thesis
    using manual_last [OF ok] by (auto simp: plan_def Let_def plan_ok_def list_ex_iff)
qed

text \<open>RepairPlanner.plan makes an executable plan of any report: its steps are numbered from zero in
  ascending risk, every step that restores or reruns from a checkpoint requires the last known
  good one, which exists, every automated step is validated, a manual step comes last, and the
  plan requires approval exactly when it has a manual step.\<close>

theorem plan_executable:
  "plan_ok lkg (pl_steps (plan now r lkg))
   \<and> pl_requires_approval (plan now r lkg)
       = list_ex (\<lambda>s. st_action s = ''MANUAL_REVIEW'') (pl_steps (plan now r lkg))
   \<and> has_automated_steps (plan now r lkg) =
       (if pl_requires_approval (plan now r lkg) then length (pl_steps (plan now r lkg)) > 1 else True)"
proof -
  let ?s = "pl_steps (plan now r lkg)"
  have ok: "plan_ok lkg ?s" by (simp add: plan_def Let_def build_steps_ok)
  note ap = plan_approval [of now r lkg]
  from automated_steps [OF ok] manual_last [OF ok]
  have "has_automated_steps (plan now r lkg) = (length ?s > 1 \<or> \<not> pl_requires_approval (plan now r lkg))"
    unfolding has_automated_steps_def ap by simp
  with ok ap show ?thesis by auto
qed

end
