(* ===== verification/Sandbox.thy ===== *)
theory Sandbox
  imports Planner
begin

text \<open>
  \<open>SandboxExecutor\<close> (\<open>core/repair/sandbox.py\<close>): a plan is executed step by step through
  registered handlers and a backend. A handler is a user's function over the world \<open>'w\<close>; the
  backend maps a handler to what it runs, the identity for \<open>InProcessBackend\<close>.
\<close>

subsection \<open>Backends, handlers and records\<close>

type_synonym 'w handler = "'w \<Rightarrow> repair_step \<Rightarrow> pyval \<Rightarrow> 'w \<times> pyval result"

record 'w backend =
  bk_mode :: string
  bk_run :: "'w handler \<Rightarrow> 'w handler"

definition in_process_backend :: "'w backend" where
  "in_process_backend = \<lparr>bk_mode = ''in_process'', bk_run = (\<lambda>h. h)\<rparr>"

record 'w sandbox =
  sb_backend :: "'w backend"
  sb_handlers :: "(string \<times> 'w handler) list"

definition sandbox_init :: "'w backend option \<Rightarrow> 'w sandbox" where
  "sandbox_init b =
     \<lparr>sb_backend = (case b of None \<Rightarrow> in_process_backend | Some k \<Rightarrow> k), sb_handlers = []\<rparr>"

definition register_handler :: "string \<Rightarrow> 'w handler \<Rightarrow> 'w sandbox \<Rightarrow> 'w sandbox" where
  "register_handler action h sb = sb\<lparr>sb_handlers := AList.update action h (sb_handlers sb)\<rparr>"

record step_record =
  sr_index :: nat
  sr_action :: string
  sr_target_node :: "string option"
  sr_status :: string
  sr_message :: string
  sr_validation_passed :: bool
  sr_executed_at :: int

definition step_record_to_dict :: "runtime \<Rightarrow> step_record \<Rightarrow> dict" where
  "step_record_to_dict rt r =
     [(''step_index'', PInt (int (sr_index r))), (''action_type'', PStr (sr_action r)),
      (''target_node'', opt_str (sr_target_node r)), (''status'', PStr (sr_status r)),
      (''message'', PStr (sr_message r)), (''validation_passed'', PBool (sr_validation_passed r)),
      (''executed_at'', PStr (rt_iso rt (sr_executed_at r)))]"

record sandbox_result =
  sx_execution_id :: string
  sx_plan_category :: string
  sx_status :: string
  sx_success :: bool
  sx_steps_executed :: "step_record list"
  sx_steps_succeeded :: nat
  sx_steps_failed :: nat
  sx_message :: string
  sx_execution_mode :: string
  sx_completed_at :: int

definition sandbox_result_to_dict :: "runtime \<Rightarrow> sandbox_result \<Rightarrow> dict" where
  "sandbox_result_to_dict rt r =
     [(''execution_id'', PStr (sx_execution_id r)), (''plan_category'', PStr (sx_plan_category r)),
      (''status'', PStr (sx_status r)), (''success'', PBool (sx_success r)),
      (''steps_succeeded'', PInt (int (sx_steps_succeeded r))),
      (''steps_failed'', PInt (int (sx_steps_failed r))), (''message'', PStr (sx_message r)),
      (''execution_mode'', PStr (sx_execution_mode r)),
      (''steps_executed'', PList (map (\<lambda>s. PDict (step_record_to_dict rt s)) (sx_steps_executed r))),
      (''completed_at'', PStr (rt_iso rt (sx_completed_at r)))]"

subsection \<open>One step\<close>

definition mk_record ::
  "repair_step \<Rightarrow> string \<Rightarrow> string \<Rightarrow> bool \<Rightarrow> env \<Rightarrow> step_record \<times> env" where
  "mk_record s status message validated e =
     (let (now, e1) = utc_now e in
      (\<lparr>sr_index = st_index s, sr_action = st_action s, sr_target_node = st_target_node s,
        sr_status = status, sr_message = message, sr_validation_passed = validated,
        sr_executed_at = now\<rparr>, e1))"

text \<open>\<open>result.get(key, default)\<close>; only a dictionary has \<open>get\<close>.\<close>

definition result_get :: "pyval \<Rightarrow> string \<Rightarrow> pyval \<Rightarrow> pyval result" where
  "result_get r key d =
     (case r of
        PDict kvs \<Rightarrow> Inr (case map_of kvs key of None \<Rightarrow> d | Some v \<Rightarrow> v)
      | v \<Rightarrow> Inl (Exn ''AttributeError'' (sq (type_name v) @ '' object has no attribute '' @ sq ''get'')))"

text \<open>
  What the handler's answer says: success, message and validation, or the exception that the
  handler or the reading of its answer raised.
\<close>

definition read_answer :: "runtime \<Rightarrow> pyval result \<Rightarrow> (bool \<times> string \<times> bool) result" where
  "read_answer rt out =
     (case out of Inl e \<Rightarrow> Inl e
      | Inr r \<Rightarrow> (case result_get r ''success'' (PBool False) of Inl e \<Rightarrow> Inl e
      | Inr ok \<Rightarrow> (case result_get r ''message'' (PStr []) of Inl e \<Rightarrow> Inl e
      | Inr msg \<Rightarrow> (case result_get r ''validation_passed'' (PBool (py_truthy ok)) of Inl e \<Rightarrow> Inl e
      | Inr v \<Rightarrow> Inr (py_truthy ok, py_str rt msg, py_truthy v)))))"

definition execute_step ::
  "runtime \<Rightarrow> 'w sandbox \<Rightarrow> repair_step \<Rightarrow> pyval \<Rightarrow> env \<times> 'w \<Rightarrow> step_record \<times> env \<times> 'w" where
  "execute_step rt sb s context ew =
     (let (e, w) = ew in
      case map_of (sb_handlers sb) (st_action s) of
        None \<Rightarrow>
          (let (r, e1) = mk_record s ''skipped''
             (''No handler registered for '' @ sq (st_action s)
              @ ''. Step deferred to future sandbox implementation.'') False e in (r, e1, w))
      | Some h \<Rightarrow>
          (let (w1, out) = bk_run (sb_backend sb) h w s context in
           case read_answer rt out of
             Inl x \<Rightarrow>
               (let (r, e1) = mk_record s ''failed''
                  (''Handler raised: '' @ exn_type x @ '': '' @ exn_str x) False e in (r, e1, w1))
           | Inr (success, message, validation_ok) \<Rightarrow>
               (if st_requires_validation s \<and> \<not> validation_ok then
                  (let (r, e1) = mk_record s ''failed''
                     (''Validation gate failed after step '' @ sq (st_action s) @ '': '' @ message)
                     False e in (r, e1, w1))
                else
                  (let (r, e1) = mk_record s (if success then ''success'' else ''failed'')
                     message validation_ok e in (r, e1, w1)))))"

subsection \<open>The plan\<close>

text \<open>The loop's records and counter; \<open>True\<close> when a failed step ended it.\<close>

primrec run_steps ::
  "runtime \<Rightarrow> 'w sandbox \<Rightarrow> pyval \<Rightarrow> repair_step list \<Rightarrow> step_record list \<Rightarrow> nat \<Rightarrow> env \<times> 'w
     \<Rightarrow> (step_record list \<times> nat \<times> (repair_step \<times> step_record) option) \<times> env \<times> 'w" where
  "run_steps rt sb ctx [] recs succeeded ew = ((recs, succeeded, None), ew)"
| "run_steps rt sb ctx (s # ss) recs succeeded ew =
     (let (r, ew1) = execute_step rt sb s ctx ew in
      if sr_status r = ''failed'' then ((recs @ [r], succeeded, Some (s, r)), ew1)
      else run_steps rt sb ctx ss (recs @ [r])
             (if sr_status r = ''success'' then Suc succeeded else succeeded) ew1)"

definition execute_plan ::
  "runtime \<Rightarrow> 'w sandbox \<Rightarrow> repair_plan \<Rightarrow> pyval \<Rightarrow> env \<times> 'w \<Rightarrow> sandbox_result \<times> env \<times> 'w" where
  "execute_plan rt sb p context ew =
     (case run_steps rt sb context (pl_steps p) [] 0 ew of
        ((recs, succeeded, failure), e, w) \<Rightarrow>
          (let (now, e1) = utc_now e in
           case failure of
             Some (s, r) \<Rightarrow>
               (\<lparr>sx_execution_id = pl_execution_id p, sx_plan_category = pl_category p,
                 sx_status = (if succeeded > 0 then ''partial'' else ''failed''), sx_success = False,
                 sx_steps_executed = recs, sx_steps_succeeded = succeeded, sx_steps_failed = 1,
                 sx_message = ''Sandbox halted at step '' @ show_nat (st_index s) @ '' (''
                   @ st_action s @ ''): '' @ sr_message r,
                 sx_execution_mode = bk_mode (sb_backend sb), sx_completed_at = now\<rparr>, e1, w)
           | None \<Rightarrow>
               (\<lparr>sx_execution_id = pl_execution_id p, sx_plan_category = pl_category p,
                 sx_status = ''success'', sx_success = True,
                 sx_steps_executed = recs, sx_steps_succeeded = succeeded, sx_steps_failed = 0,
                 sx_message = ''Sandbox completed: '' @ show_nat succeeded
                   @ '' step(s) succeeded, 0 failed.'',
                 sx_execution_mode = bk_mode (sb_backend sb), sx_completed_at = now\<rparr>, e1, w)))"

subsection \<open>Facts\<close>

lemma mk_record_simps [simp]:
  "mk_record s st msg v e = (\<lparr>sr_index = st_index s, sr_action = st_action s,
     sr_target_node = st_target_node s, sr_status = st, sr_message = msg, sr_validation_passed = v,
     sr_executed_at = clock e (ticks e)\<rparr>, e\<lparr>ticks := Suc (ticks e)\<rparr>)"
  by (simp add: mk_record_def utc_now_def)

text \<open>What a record says about its step.\<close>

definition record_ok :: "'w sandbox \<Rightarrow> repair_step \<Rightarrow> step_record \<Rightarrow> bool" where
  "record_ok sb s r \<longleftrightarrow>
     sr_index r = st_index s \<and> sr_action r = st_action s
     \<and> sr_status r \<in> {''success'', ''failed'', ''skipped''}
     \<and> (sr_status r = ''skipped'' \<longleftrightarrow> map_of (sb_handlers sb) (st_action s) = None)
     \<and> (sr_status r = ''success'' \<and> st_requires_validation s \<longrightarrow> sr_validation_passed r)"

lemma execute_step_ok:
  "execute_step rt sb s ctx ew = (r, ew') \<Longrightarrow> record_ok sb s r"
  by (auto simp: execute_step_def record_ok_def Let_def split: prod.splits option.splits
      sum.splits if_splits)

lemma execute_step_skipped:
  "map_of (sb_handlers sb) (st_action s) = None \<Longrightarrow>
     execute_step rt sb s ctx (e, w) = (r, e', w') \<Longrightarrow> w' = w \<and> sr_status r = ''skipped''"
  by (auto simp: execute_step_def Let_def)

definition succeeded_in :: "step_record list \<Rightarrow> nat" where
  "succeeded_in recs = length (filter (\<lambda>r. sr_status r = ''success'') recs)"

lemma run_steps_spec:
  assumes "run_steps rt sb ctx ss recs n ew = ((recs', n', failure), ew')"
  shows "\<exists>new. recs' = recs @ new \<and> n' = n + succeeded_in new
     \<and> list_all2 (record_ok sb) (take (length new) ss) new \<and> length new \<le> length ss
     \<and> (case failure of
          None \<Rightarrow> length new = length ss \<and> list_all (\<lambda>r. sr_status r \<noteq> ''failed'') new
        | Some (s, r) \<Rightarrow> new \<noteq> [] \<and> last new = r \<and> sr_status r = ''failed''
            \<and> s = ss ! (length new - 1) \<and> list_all (\<lambda>r. sr_status r \<noteq> ''failed'') (butlast new))"
  using assms
proof (induction ss arbitrary: recs n ew)
  case Nil
  then show ?case by (simp add: succeeded_in_def)
next
  case (Cons s ss)
  obtain r ew1 where x: "execute_step rt sb s ctx ew = (r, ew1)" by (metis surj_pair)
  note ok = execute_step_ok [OF x]
  show ?case
  proof (cases "sr_status r = ''failed''")
    case True
    with Cons.prems x ok show ?thesis
      by (intro exI [of _ "[r]"]) (auto simp: succeeded_in_def)
  next
    case False
    let ?n = "if sr_status r = ''success'' then Suc n else n"
    from Cons.prems x False have "run_steps rt sb ctx ss (recs @ [r]) ?n ew1 = ((recs', n', failure), ew')"
      by simp
    from Cons.IH [OF this] obtain new where new: "recs' = (recs @ [r]) @ new" "n' = ?n + succeeded_in new"
      "list_all2 (record_ok sb) (take (length new) ss) new" "length new \<le> length ss"
      "case failure of
          None \<Rightarrow> length new = length ss \<and> list_all (\<lambda>r. sr_status r \<noteq> ''failed'') new
        | Some (s, r) \<Rightarrow> new \<noteq> [] \<and> last new = r \<and> sr_status r = ''failed''
            \<and> s = ss ! (length new - 1) \<and> list_all (\<lambda>r. sr_status r \<noteq> ''failed'') (butlast new)"
      by blast
    show ?thesis
      using new ok False
      by (intro exI [of _ "r # new"]) (auto simp: succeeded_in_def nth_Cons' split: option.splits)
  qed
qed

text \<open>SandboxExecutor.execute_plan executes the steps in order and halts at the first that fails: the
  records describe the executed prefix, only their last one can be a failure, it succeeds
  exactly when none is, and the counters count the records; a step counts as done only with a
  passed validation where it requires one, and is skipped exactly when its action has no
  handler.\<close>

theorem execute_plan_halts_at_failure:
  "let r = fst (execute_plan rt sb p ctx ew); recs = sx_steps_executed r in
     length recs \<le> length (pl_steps p)
     \<and> list_all2 (record_ok sb) (take (length recs) (pl_steps p)) recs
     \<and> list_all (\<lambda>r. sr_status r \<noteq> ''failed'') (butlast recs)
     \<and> sx_success r = list_all (\<lambda>r. sr_status r \<noteq> ''failed'') recs
     \<and> (if sx_success r then length recs = length (pl_steps p) else recs \<noteq> [])
     \<and> sx_steps_succeeded r = succeeded_in recs
     \<and> sx_steps_failed r = (if sx_success r then 0 else 1)
     \<and> sx_status r = (if sx_success r then ''success''
                       else if succeeded_in recs > 0 then ''partial'' else ''failed'')"
proof -
  obtain recs n failure e w where run: "run_steps rt sb ctx (pl_steps p) [] 0 ew = ((recs, n, failure), e, w)"
    by (metis prod.exhaust)
  from run_steps_spec [OF this] have s: "n = succeeded_in recs" "length recs \<le> length (pl_steps p)"
    "list_all2 (record_ok sb) (take (length recs) (pl_steps p)) recs"
    and f: "case failure of
          None \<Rightarrow> length recs = length (pl_steps p) \<and> list_all (\<lambda>r. sr_status r \<noteq> ''failed'') recs
        | Some (s, r) \<Rightarrow> recs \<noteq> [] \<and> last recs = r \<and> sr_status r = ''failed''
            \<and> s = pl_steps p ! (length recs - 1) \<and> list_all (\<lambda>r. sr_status r \<noteq> ''failed'') (butlast recs)"
    by auto
  show ?thesis
  proof (cases failure)
    case None
    with f have "list_all (\<lambda>r. sr_status r \<noteq> ''failed'') (butlast recs)"
      by (auto simp: list_all_iff dest: in_set_butlastD)
    with None s f run show ?thesis by (simp add: execute_plan_def utc_now_def Let_def)
  next
    case (Some sr)
    obtain s r where sr: "sr = (s, r)" by fastforce
    with f Some have "recs \<noteq> []" "\<not> list_all (\<lambda>r. sr_status r \<noteq> ''failed'') recs"
      by (auto simp: list_all_iff intro!: bexI [of _ "last recs"])
    with Some sr s f run show ?thesis by (simp add: execute_plan_def utc_now_def Let_def)
  qed
qed

lemma run_steps_no_handler:
  "list_all (\<lambda>s. map_of (sb_handlers sb) (st_action s) = None) ss \<Longrightarrow>
     \<exists>new e'. run_steps rt sb ctx ss recs n (e, w) = ((recs @ new, n, None), e', w)
       \<and> list_all (\<lambda>r. sr_status r = ''skipped'') new \<and> length new = length ss"
proof (induction ss arbitrary: recs e)
  case Nil
  then show ?case by simp
next
  case (Cons s ss)
  obtain r e1 w1 where x: "execute_step rt sb s ctx (e, w) = (r, e1, w1)" by (rule prod_cases3)
  with Cons.prems have r: "w1 = w" "sr_status r = ''skipped''"
    using execute_step_skipped [of sb s rt ctx e w r e1 w1] by auto
  from Cons.IH [of "recs @ [r]" e1] Cons.prems obtain new e' where
    "run_steps rt sb ctx ss (recs @ [r]) n (e1, w) = (((recs @ [r]) @ new, n, None), e', w)"
    "list_all (\<lambda>r. sr_status r = ''skipped'') new" "length new = length ss" by auto
  with x r show ?case by (intro exI [of _ "r # new"] exI [of _ e']) simp
qed

text \<open>What a step and a plan come to, without the records: success and the world left.\<close>

definition step_outcome ::
  "runtime \<Rightarrow> 'w sandbox \<Rightarrow> pyval \<Rightarrow> repair_step \<Rightarrow> 'w \<Rightarrow> bool \<times> 'w" where
  "step_outcome rt sb ctx s w =
     (case map_of (sb_handlers sb) (st_action s) of
        None \<Rightarrow> (True, w)
      | Some h \<Rightarrow>
          (let (w1, out) = bk_run (sb_backend sb) h w s ctx in
           (case read_answer rt out of
              Inl _ \<Rightarrow> False
            | Inr (ok, _, validated) \<Rightarrow> ok \<and> (st_requires_validation s \<longrightarrow> validated), w1)))"

primrec steps_outcome ::
  "runtime \<Rightarrow> 'w sandbox \<Rightarrow> pyval \<Rightarrow> repair_step list \<Rightarrow> 'w \<Rightarrow> bool \<times> 'w" where
  "steps_outcome rt sb ctx [] w = (True, w)"
| "steps_outcome rt sb ctx (s # ss) w =
     (let (ok, w1) = step_outcome rt sb ctx s w
      in if ok then steps_outcome rt sb ctx ss w1 else (False, w1))"

lemma execute_step_outcome:
  assumes "execute_step rt sb s ctx (e, w) = (r, e', w')"
  shows "step_outcome rt sb ctx s w = (sr_status r \<noteq> ''failed'', w')"
  using assms
  by (auto simp: execute_step_def step_outcome_def Let_def split: option.splits prod.splits
      sum.splits if_splits)

lemma run_steps_outcome:
  "run_steps rt sb ctx ss recs n (e, w) = ((recs', n', failure), e', w') \<Longrightarrow>
     steps_outcome rt sb ctx ss w = (failure = None, w')"
proof (induction ss arbitrary: recs n e w)
  case Nil
  then show ?case by simp
next
  case (Cons s ss)
  obtain r e1 w1 where x: "execute_step rt sb s ctx (e, w) = (r, e1, w1)" by (rule prod_cases3)
  from Cons x execute_step_outcome [OF x] show ?case
    by (cases "sr_status r = ''failed''") auto
qed

lemma execute_plan_outcome:
  assumes "execute_plan rt sb p ctx (e, w) = (r, e', w')"
  shows "steps_outcome rt sb ctx (pl_steps p) w = (sx_success r, w')"
proof -
  obtain recs n failure e1 w1 where
    run: "run_steps rt sb ctx (pl_steps p) [] 0 (e, w) = ((recs, n, failure), e1, w1)"
    by (metis prod.exhaust)
  from run_steps_outcome [OF run] run assms show ?thesis
    by (cases failure) (auto simp: execute_plan_def utc_now_def Let_def)
qed

lemma steps_outcome_no_handler:
  "list_all (\<lambda>s. map_of (sb_handlers sb) (st_action s) = None) ss \<Longrightarrow>
     steps_outcome rt sb ctx ss w = (True, w)"
  by (induction ss) (simp_all add: step_outcome_def)

text \<open>A plan for whose actions no handler is registered succeeds although no step of it is executed:
  every step is skipped, none is validated and the world is unchanged. The result's success is
  documented as true only if all steps passed validation.\<close>

theorem unhandled_plan_succeeds:
  "if list_all (\<lambda>s. map_of (sb_handlers sb) (st_action s) = None) (pl_steps p)
   then (let (r, e', w') = execute_plan rt sb p ctx (e, w) in
           sx_success r \<and> sx_status r = ''success'' \<and> sx_steps_succeeded r = 0 \<and> w' = w
           \<and> list_all (\<lambda>r. sr_status r = ''skipped'') (sx_steps_executed r))
   else True"
proof (rule if_bool_eq_conj [THEN iffD2], intro conjI impI)
  assume "list_all (\<lambda>s. map_of (sb_handlers sb) (st_action s) = None) (pl_steps p)"
  from run_steps_no_handler [OF this, of rt ctx "[]" 0 e w] obtain new e' where
    "run_steps rt sb ctx (pl_steps p) [] 0 (e, w) = ((new, 0, None), e', w)"
    "list_all (\<lambda>r. sr_status r = ''skipped'') new" by auto
  then show "let (r, e', w') = execute_plan rt sb p ctx (e, w) in
           sx_success r \<and> sx_status r = ''success'' \<and> sx_steps_succeeded r = 0 \<and> w' = w
           \<and> list_all (\<lambda>r. sr_status r = ''skipped'') (sx_steps_executed r)"
    by (simp add: execute_plan_def utc_now_def Let_def)
qed simp

end
