(* ===== verification/SelfHealing.thy ===== *)
theory SelfHealing
  imports RecoveryExec Sandbox
begin

text \<open>
  \<open>SelfHealingOrchestrator\<close> (\<open>core/self_healing/orchestrator.py\<close>) and its result
  (\<open>core/self_healing/models.py\<close>): one call of \<open>handle_failure\<close> runs detection, localization,
  diagnosis, decision, planning, the safety check, the sandbox, validation, and resumes, rolls
  back or escalates. The analyzers of the model cannot raise, so only the decision engine's
  \<open>except\<close> clause is a branch here.
\<close>

subsection \<open>Results\<close>

datatype healing_status =
    H_DETECTED | H_LOCALIZED | H_DIAGNOSED | H_PLANNED | H_SAFETY_CHECKED | H_SANDBOX_EXECUTING
  | H_VALIDATING | H_RESUMED | H_ROLLED_BACK | H_QUARANTINED | H_MANUAL_REVIEW | H_ABORTED
  | H_FAILED | H_NO_FAULT

fun healing_status_value :: "healing_status \<Rightarrow> string" where
  "healing_status_value H_DETECTED = ''detected''"
| "healing_status_value H_LOCALIZED = ''localized''"
| "healing_status_value H_DIAGNOSED = ''diagnosed''"
| "healing_status_value H_PLANNED = ''planned''"
| "healing_status_value H_SAFETY_CHECKED = ''safety_checked''"
| "healing_status_value H_SANDBOX_EXECUTING = ''sandbox_executing''"
| "healing_status_value H_VALIDATING = ''validating''"
| "healing_status_value H_RESUMED = ''resumed''"
| "healing_status_value H_ROLLED_BACK = ''rolled_back''"
| "healing_status_value H_QUARANTINED = ''quarantined''"
| "healing_status_value H_MANUAL_REVIEW = ''manual_review''"
| "healing_status_value H_ABORTED = ''aborted''"
| "healing_status_value H_FAILED = ''failed''"
| "healing_status_value H_NO_FAULT = ''no_fault''"

record healing_timestamps =
  tm_started :: int
  tm_detected :: "int option"
  tm_localized :: "int option"
  tm_diagnosed :: "int option"
  tm_planned :: "int option"
  tm_sandbox_started :: "int option"
  tm_sandbox_completed :: "int option"
  tm_validated :: "int option"
  tm_completed :: "int option"

definition iso_opt :: "runtime \<Rightarrow> int option \<Rightarrow> pyval" where
  "iso_opt rt t = (case t of None \<Rightarrow> PNone | Some v \<Rightarrow> PStr (rt_iso rt v))"

definition timestamps_to_dict :: "runtime \<Rightarrow> healing_timestamps \<Rightarrow> dict" where
  "timestamps_to_dict rt t =
     [(''started_at'', iso_opt rt (Some (tm_started t))),
      (''detected_at'', iso_opt rt (tm_detected t)),
      (''localized_at'', iso_opt rt (tm_localized t)),
      (''diagnosed_at'', iso_opt rt (tm_diagnosed t)),
      (''planned_at'', iso_opt rt (tm_planned t)),
      (''sandbox_started_at'', iso_opt rt (tm_sandbox_started t)),
      (''sandbox_completed_at'', iso_opt rt (tm_sandbox_completed t)),
      (''validated_at'', iso_opt rt (tm_validated t)),
      (''completed_at'', iso_opt rt (tm_completed t))]"

record healing_result =
  hr_execution_id :: string
  hr_success :: bool
  hr_final_status :: healing_status
  hr_fault_report :: "dict option"
  hr_localization :: "dict option"
  hr_root_cause :: "dict option"
  hr_recovery_decision :: "dict option"
  hr_repair_plan :: "dict option"
  hr_sandbox_result :: "dict option"
  hr_recovery_result :: "dict option"
  hr_validation_result :: "dict option"
  hr_resumed_from_node :: "string option"
  hr_rolled_back_to :: "string option"
  hr_audit_references :: "string list"
  hr_errors :: "string list"
  hr_timestamps :: healing_timestamps
  hr_events :: "node_event list"

definition opt_dict :: "dict option \<Rightarrow> pyval" where
  "opt_dict d = (case d of None \<Rightarrow> PNone | Some kvs \<Rightarrow> PDict kvs)"

definition healing_to_dict :: "runtime \<Rightarrow> healing_result \<Rightarrow> dict" where
  "healing_to_dict rt r =
     [(''execution_id'', PStr (hr_execution_id r)), (''success'', PBool (hr_success r)),
      (''final_status'', PStr (healing_status_value (hr_final_status r))),
      (''fault_report'', opt_dict (hr_fault_report r)),
      (''localization'', opt_dict (hr_localization r)),
      (''root_cause'', opt_dict (hr_root_cause r)),
      (''recovery_decision'', opt_dict (hr_recovery_decision r)),
      (''repair_plan'', opt_dict (hr_repair_plan r)),
      (''sandbox_result'', opt_dict (hr_sandbox_result r)),
      (''recovery_result'', opt_dict (hr_recovery_result r)),
      (''validation_result'', opt_dict (hr_validation_result r)),
      (''resumed_from_node'', opt_str (hr_resumed_from_node r)),
      (''rolled_back_to_checkpoint'', opt_str (hr_rolled_back_to r)),
      (''audit_references'', PList (map PStr (hr_audit_references r))),
      (''errors'', PList (map PStr (hr_errors r))),
      (''timestamps'', PDict (timestamps_to_dict rt (hr_timestamps r)))]"

subsection \<open>Configuration and state\<close>

text \<open>
  \<open>hc_recovery\<close> configures the recovery executor, injected or default. The state holds the
  orchestrator's event log, the recovery executor's, the clock and the world.
\<close>

record 'w heal_config =
  hc_runtime :: runtime
  hc_manager :: manager
  hc_auto_approve_low_risk :: bool
  hc_pipeline_id :: string
  hc_recovery :: rx_config
  hc_sandbox :: "'w sandbox"

record 'w heal =
  hl_events :: "node_event list"
  hl_rx_events :: "node_event list"
  hl_env :: env
  hl_world :: 'w

text \<open>The default collaborators of \<open>__init__\<close>\<close>

definition heal_init ::
  "runtime \<Rightarrow> manager \<Rightarrow> bool \<Rightarrow> string \<Rightarrow> rx_config option \<Rightarrow> 'w sandbox option \<Rightarrow> 'w heal_config" where
  "heal_init rt m auto_approve pipeline_id recovery sandbox =
     \<lparr>hc_runtime = rt, hc_manager = m, hc_auto_approve_low_risk = auto_approve,
      hc_pipeline_id = pipeline_id,
      hc_recovery = (case recovery of Some cf \<Rightarrow> cf
        | None \<Rightarrow> \<lparr>cf_runtime = rt, cf_manager = m, cf_pipeline_id = pipeline_id, cf_max_attempts = 1\<rparr>),
      hc_sandbox = (case sandbox of Some sb \<Rightarrow> sb | None \<Rightarrow> sandbox_init None)\<rparr>"

definition hl_now :: "'w heal \<Rightarrow> int \<times> 'w heal" where
  "hl_now s = (let (t, e) = utc_now (hl_env s) in (t, s\<lparr>hl_env := e\<rparr>))"

definition hl_emit ::
  "'w heal_config \<Rightarrow> string \<Rightarrow> string \<Rightarrow> string \<Rightarrow> string \<Rightarrow> dict \<Rightarrow> 'w heal \<Rightarrow> 'w heal" where
  "hl_emit hc execution_id event_type status message metadata s =
     (let (now, e) = utc_now (hl_env s);
          ev = \<lparr>ev_execution_id = execution_id, ev_pipeline_id = hc_pipeline_id hc,
                ev_node_id = ''self_healing'', ev_event_type = event_type, ev_timestamp = now,
                ev_status = Some status, ev_message = Some message, ev_metadata = metadata\<rparr>
      in s\<lparr>hl_events := hl_events s @ [ev], hl_env := e\<rparr>)"

text \<open>A result with nothing but its outcome; it is completed now and carries the log.\<close>

definition hl_result ::
  "string \<Rightarrow> bool \<Rightarrow> healing_status \<Rightarrow> string list \<Rightarrow> healing_timestamps \<Rightarrow> 'w heal
     \<Rightarrow> healing_result \<times> 'w heal" where
  "hl_result eid success status errors stamps s =
     (let (now, s1) = hl_now s in
      (\<lparr>hr_execution_id = eid, hr_success = success, hr_final_status = status,
        hr_fault_report = None, hr_localization = None, hr_root_cause = None,
        hr_recovery_decision = None, hr_repair_plan = None, hr_sandbox_result = None,
        hr_recovery_result = None, hr_validation_result = None, hr_resumed_from_node = None,
        hr_rolled_back_to = None, hr_audit_references = [], hr_errors = errors,
        hr_timestamps = stamps\<lparr>tm_completed := Some now\<rparr>, hr_events = hl_events s1\<rparr>, s1))"

definition started :: "int \<Rightarrow> healing_timestamps" where
  "started t = \<lparr>tm_started = t, tm_detected = None, tm_localized = None, tm_diagnosed = None,
     tm_planned = None, tm_sandbox_started = None, tm_sandbox_completed = None,
     tm_validated = None, tm_completed = None\<rparr>"

subsection \<open>Steps 1 to 4: the analysis\<close>

text \<open>The four analysis results of one call, with its timestamps so far.\<close>

record chain =
  cn_fault :: fault_report
  cn_loc :: fault_localization
  cn_root :: root_cause_report
  cn_decision :: recovery_decision
  cn_stamps :: healing_timestamps

definition with_chain :: "runtime \<Rightarrow> chain \<Rightarrow> healing_result \<Rightarrow> healing_result" where
  "with_chain rt c r =
     r\<lparr>hr_fault_report := Some (fault_report_to_dict rt (cn_fault c)),
       hr_localization := Some (localization_to_dict (cn_loc c)),
       hr_root_cause := Some (root_cause_to_dict rt (cn_root c)),
       hr_recovery_decision := Some (decision_to_dict (cn_decision c))\<rparr>"

text \<open>A result that closes the call after the analysis\<close>

definition chain_result ::
  "'w heal_config \<Rightarrow> string \<Rightarrow> chain \<Rightarrow> bool \<Rightarrow> healing_status \<Rightarrow> string list \<Rightarrow> 'w heal
     \<Rightarrow> healing_result \<times> 'w heal" where
  "chain_result hc eid c success status errors s =
     (let (r, s1) = hl_result eid success status errors (cn_stamps c) s
      in (with_chain (hc_runtime hc) c r, s1))"

definition detect_step ::
  "'w heal_config \<Rightarrow> pipeline_execution \<Rightarrow> 'w heal \<Rightarrow> (fault_report \<times> int) \<times> 'w heal" where
  "detect_step hc execution s0 =
     (let (now, s1) = hl_now s0;
          fault = detect now execution;
          (t, s2) = hl_now s1
      in ((fault, t),
          hl_emit hc (pe_execution_id execution) ''fault_detected'' ''running''
            (''Fault detection: detected='' @ show_bool (fr_detected fault) @ '' type=''
             @ fault_type_value (fr_fault_type fault))
            (fault_report_to_dict (hc_runtime hc) fault) s2))"

definition localize_step ::
  "'w heal_config \<Rightarrow> pipeline_execution \<Rightarrow> fault_report \<Rightarrow> node_event list \<Rightarrow> 'w heal
     \<Rightarrow> (fault_localization \<times> int) \<times> 'w heal" where
  "localize_step hc execution fault events s0 =
     (let loc = localize (hc_runtime hc) execution fault events;
          (t, s1) = hl_now s0
      in ((loc, t),
          hl_emit hc (pe_execution_id execution) ''fault_localized'' ''running''
            (''Localized root node: '' @ fmt_opt (fl_probable_root_node loc) @ '' (confidence=''
             @ fmt2 (fl_confidence loc) @ '')'')
            (localization_to_dict loc) s1))"

definition diagnose_step ::
  "'w heal_config \<Rightarrow> pipeline_execution \<Rightarrow> fault_report \<Rightarrow> fault_localization \<Rightarrow> node_event list
     \<Rightarrow> 'w heal \<Rightarrow> (root_cause_report \<times> int) \<times> 'w heal" where
  "diagnose_step hc execution fault loc events s0 =
     (let (now, s1) = hl_now s0;
          cause = analyze now execution fault loc events;
          (t, s2) = hl_now s1
      in ((cause, t),
          hl_emit hc (pe_execution_id execution) ''root_cause_analyzed'' ''running''
            (''Root cause: '' @ rc_primary_fault_type cause @ '' (confidence=''
             @ fmt2 (rc_confidence cause) @ '') root_node='' @ fmt_opt (rc_root_node cause))
            [(''primary_fault_type'', PStr (rc_primary_fault_type cause)),
             (''confidence'', PFloat (rc_confidence cause)),
             (''root_node'', opt_str (rc_root_node cause))] s2))"

text \<open>\<open>_error_result\<close> after the decision engine raised\<close>

definition decision_error ::
  "'w heal_config \<Rightarrow> string \<Rightarrow> fault_report \<Rightarrow> fault_localization \<Rightarrow> root_cause_report \<Rightarrow> int \<Rightarrow> exn
     \<Rightarrow> 'w heal \<Rightarrow> healing_result \<times> 'w heal" where
  "decision_error hc eid fault loc cause ts_started e s =
     (let errors = [''RecoveryDecisionEngine raised: '' @ exn_text e];
          s1 = hl_emit hc eid ''self_healing_aborted'' ''failed''
                 ''RecoveryDecisionEngine raised an unexpected exception.''
                 [(''errors'', PList (map PStr errors))] s;
          (r, s2) = hl_result eid False H_FAILED errors (started ts_started) s1
      in (r\<lparr>hr_fault_report := Some (fault_report_to_dict (hc_runtime hc) fault),
            hr_localization := Some (localization_to_dict loc),
            hr_root_cause := Some (root_cause_to_dict (hc_runtime hc) cause)\<rparr>, s2))"

subsection \<open>Steps 5 and 6: plan and safety check\<close>

definition plan_step ::
  "'w heal_config \<Rightarrow> string \<Rightarrow> root_cause_report \<Rightarrow> string option \<Rightarrow> 'w heal
     \<Rightarrow> (repair_plan \<times> int) \<times> 'w heal" where
  "plan_step hc eid cause ckid s0 =
     (let (now, s1) = hl_now s0;
          rplan = plan now cause ckid;
          (t, s2) = hl_now s1
      in ((rplan, t),
          hl_emit hc eid ''repair_plan_created'' ''running''
            (''Repair plan: '' @ show_nat (step_count rplan) @ '' step(s) category=''
             @ pl_category rplan @ '' requires_approval='' @ show_bool (pl_requires_approval rplan))
            [(''step_count'', PInt (int (step_count rplan))),
             (''category'', PStr (pl_category rplan)),
             (''requires_approval'', PBool (pl_requires_approval rplan))] s2))"

definition has_manual_step :: "repair_plan \<Rightarrow> bool" where
  "has_manual_step p = list_ex (\<lambda>s. st_action s = ''MANUAL_REVIEW'') (pl_steps p)"

definition plan_is_auto_safe :: "bool \<Rightarrow> repair_plan \<Rightarrow> bool" where
  "plan_is_auto_safe auto_approve_low_risk p \<longleftrightarrow>
     (\<not> pl_requires_approval p \<and> \<not> has_manual_step p)
     \<or> (auto_approve_low_risk \<and> \<not> has_manual_step p
        \<and> list_all (\<lambda>s. st_risk s = ''LOW'' \<or> st_risk s = ''MEDIUM'') (pl_steps p))"

definition safety_event :: "'w heal_config \<Rightarrow> string \<Rightarrow> repair_plan \<Rightarrow> 'w heal \<Rightarrow> 'w heal" where
  "safety_event hc eid p s =
     (let safe = plan_is_auto_safe (hc_auto_approve_low_risk hc) p in
      hl_emit hc eid ''repair_safety_checked'' ''running''
        (''Safety check: auto_safe='' @ show_bool safe @ '' requires_approval=''
         @ show_bool (pl_requires_approval p))
        [(''auto_safe'', PBool safe), (''has_manual_step'', PBool (has_manual_step p)),
         (''requires_approval'', PBool (pl_requires_approval p))] s)"

definition approval_result ::
  "'w heal_config \<Rightarrow> string \<Rightarrow> chain \<Rightarrow> repair_plan \<Rightarrow> 'w heal \<Rightarrow> healing_result \<times> 'w heal" where
  "approval_result hc eid c p s0 =
     (let s1 = hl_emit hc eid ''manual_review_required'' ''pending''
                 (''Repair plan requires human approval before execution. Step count=''
                  @ show_nat (step_count p) @ '' category='' @ pl_category p) [] s0;
          (r, s2) = chain_result hc eid c False H_MANUAL_REVIEW [] s1
      in (r\<lparr>hr_repair_plan := Some (plan_to_dict (hc_runtime hc) p)\<rparr>, s2))"

subsection \<open>Step 7: sandbox\<close>

definition sandbox_step ::
  "'w heal_config \<Rightarrow> string \<Rightarrow> repair_plan \<Rightarrow> 'w heal
     \<Rightarrow> (sandbox_result \<times> int \<times> int) \<times> 'w heal" where
  "sandbox_step hc eid p s0 =
     (let (t0, s1) = hl_now s0;
          s2 = hl_emit hc eid ''repair_sandbox_started'' ''running''
                 (''Sandbox execution started. Backend: '' @ bk_mode (sb_backend (hc_sandbox hc))
                  @ '' (no OS-level isolation for in_process backend). Steps: ''
                  @ show_nat (step_count p)) [] s1;
          (sx, e, w) = execute_plan (hc_runtime hc) (hc_sandbox hc) p PNone (hl_env s2, hl_world s2);
          (t1, s3) = hl_now (s2\<lparr>hl_env := e, hl_world := w\<rparr>)
      in ((sx, t0, t1),
          hl_emit hc eid ''repair_sandbox_completed''
            (if sx_success sx then ''success'' else ''failed'')
            (''Sandbox completed: success='' @ show_bool (sx_success sx) @ '' ''
             @ show_nat (sx_steps_succeeded sx) @ ''/'' @ show_nat (step_count p) @ '' steps OK'')
            [(''success'', PBool (sx_success sx)),
             (''steps_succeeded'', PInt (int (sx_steps_succeeded sx))),
             (''steps_failed'', PInt (int (sx_steps_failed sx))),
             (''execution_mode'', PStr (sx_execution_mode sx))] s3))"

subsection \<open>Steps 8 and 9: validation, resume or rollback\<close>

text \<open>The checkpoint validation after a successful sandbox run; absent when it does not apply.\<close>

definition checkpoint_gate ::
  "'w heal_config \<Rightarrow> recovery_decision \<Rightarrow> checkpoint option \<Rightarrow> validation_result option" where
  "checkpoint_gate hc d lkg =
     (case lkg of
        None \<Rightarrow> None
      | Some c \<Rightarrow> if rd_action d = ROLLBACK \<or> rd_action d = RERUN_FROM_NODE
                 then Some (validate_checkpoint (on_disk (hc_manager hc)) c) else None)"

text \<open>A result after the sandbox: the chain, the plan and the sandbox result\<close>

definition repair_result ::
  "'w heal_config \<Rightarrow> string \<Rightarrow> chain \<Rightarrow> repair_plan \<Rightarrow> sandbox_result \<Rightarrow> bool \<Rightarrow> healing_status
     \<Rightarrow> string list \<Rightarrow> 'w heal \<Rightarrow> healing_result \<times> 'w heal" where
  "repair_result hc eid c p sx success status errors s =
     (let (r, s1) = chain_result hc eid c success status errors s
      in (r\<lparr>hr_repair_plan := Some (plan_to_dict (hc_runtime hc) p),
            hr_sandbox_result := Some (sandbox_result_to_dict (hc_runtime hc) sx)\<rparr>, s1))"

definition resume ::
  "'w heal_config \<Rightarrow> string \<Rightarrow> chain \<Rightarrow> repair_plan \<Rightarrow> sandbox_result \<Rightarrow> validation_result option
     \<Rightarrow> 'w heal \<Rightarrow> healing_result \<times> 'w heal" where
  "resume hc eid c p sx gate s0 =
     (let s1 = hl_emit hc eid ''repair_validation_passed'' ''success''
                 ''Repair validated successfully. Pipeline can resume.'' [] s0;
          s2 = hl_emit hc eid ''pipeline_resumed'' ''success''
                 (''Pipeline resumed from node: '' @ str_or (pl_root_node p) ''unknown'') [] s1;
          (r, s3) = repair_result hc eid c p sx True H_RESUMED [] s2
      in (r\<lparr>hr_validation_result := map_option validation_to_dict gate,
            hr_resumed_from_node := pl_root_node p\<rparr>, s3))"

definition rollback_decision :: "string \<Rightarrow> string \<Rightarrow> recovery_decision" where
  "rollback_decision eid cid =
     \<lparr>rd_execution_id = eid, rd_action = ROLLBACK, rd_requires_approval = False,
      rd_reason = ''Sandbox repair failed validation. Rolling back to last-known-good checkpoint.'',
      rd_target_node = None, rd_checkpoint_id = Some cid, rd_evidence = [], rd_confidence = 1\<rparr>"

text \<open>The recovery executor's call, on its own event log and the shared clock and world\<close>

definition run_recovery ::
  "'w heal_config \<Rightarrow> recovery_decision \<Rightarrow> 'w heal \<Rightarrow> recovery_result \<times> 'w heal" where
  "run_recovery hc d s =
     (let (r, x) = recover (hc_recovery hc) d None None
            \<lparr>rx_events = hl_rx_events s, rx_env = hl_env s, rx_world = hl_world s\<rparr>
      in (r, s\<lparr>hl_rx_events := rx_events x, hl_env := rx_env x, hl_world := rx_world x\<rparr>))"

text \<open>The end of step 9b: the errors, the checkpoint rolled back to and the rollback's result\<close>

definition rollback_end ::
  "'w heal_config \<Rightarrow> string \<Rightarrow> chain \<Rightarrow> repair_plan \<Rightarrow> sandbox_result \<Rightarrow> string list
     \<Rightarrow> string option \<Rightarrow> recovery_result option \<Rightarrow> 'w heal \<Rightarrow> healing_result \<times> 'w heal" where
  "rollback_end hc eid c p sx errors rolled_back_to rr s0 =
     (let final_status = (if rolled_back_to \<noteq> None then H_ROLLED_BACK else H_FAILED);
          s1 = hl_emit hc eid
                 (if truthy_str rolled_back_to then ''pipeline_rollback_completed'' else ''self_healing_aborted'')
                 (if truthy_str rolled_back_to then ''success'' else ''failed'')
                 (''Final status: '' @ healing_status_value final_status @ ''. Rolled back to: ''
                  @ str_or rolled_back_to ''N/A'') [] s0;
          (r, s2) = repair_result hc eid c p sx False final_status errors s1
      in (r\<lparr>hr_recovery_result := map_option (recovery_result_to_dict (hc_runtime hc)) rr,
            hr_rolled_back_to := rolled_back_to\<rparr>, s2))"

definition roll_back ::
  "'w heal_config \<Rightarrow> string \<Rightarrow> chain \<Rightarrow> repair_plan \<Rightarrow> sandbox_result \<Rightarrow> checkpoint option
     \<Rightarrow> 'w heal \<Rightarrow> healing_result \<times> 'w heal" where
  "roll_back hc eid c p sx lkg s0 =
     (let s1 = hl_emit hc eid ''pipeline_rollback_started'' ''running''
                 ''Sandbox repair did not validate. Attempting rollback to last known-good checkpoint.''
                 [] s0
      in case lkg of
        None \<Rightarrow>
          rollback_end hc eid c p sx [''No last-known-good checkpoint available for rollback.'']
            None None s1
      | Some k \<Rightarrow>
          (let trust = validate_checkpoint (on_disk (hc_manager hc)) k; cid = ck_checkpoint_id k in
           if vr_passed trust then
             (let (rr, s2) = run_recovery hc (rollback_decision eid cid) s1 in
              if rr_success rr then
                rollback_end hc eid c p sx [] (Some cid) (Some rr)
                  (hl_emit hc eid ''pipeline_rollback_completed'' ''success''
                     (''Rollback to checkpoint '' @ sq cid @ '' completed.'') [] s2)
              else
                rollback_end hc eid c p sx [''Rollback failed: '' @ rr_message rr] None (Some rr) s2)
           else
             (let s2 = hl_emit hc eid ''manual_review_required'' ''pending''
                         ''Rollback checkpoint failed trust validation. Manual review required.'' [] s1;
                  (r, s3) = repair_result hc eid c p sx False H_MANUAL_REVIEW
                    [''Last-known-good checkpoint failed trust validation: '' @ vr_message trust] s2
              in (r\<lparr>hr_validation_result := Some (validation_to_dict trust)\<rparr>, s3))))"

definition repair_stage ::
  "'w heal_config \<Rightarrow> string \<Rightarrow> chain \<Rightarrow> repair_plan \<Rightarrow> checkpoint option \<Rightarrow> 'w heal
     \<Rightarrow> healing_result \<times> 'w heal" where
  "repair_stage hc eid c0 p lkg s0 =
     (let ((sx, t0, t1), s1) = sandbox_step hc eid p s0;
          (tv, s2) = hl_now s1;
          c = c0\<lparr>cn_stamps := (cn_stamps c0)\<lparr>tm_sandbox_started := Some t0,
                tm_sandbox_completed := Some t1, tm_validated := Some tv\<rparr>\<rparr>;
          s3 = hl_emit hc eid ''repair_validation_started'' ''running'' ''Validating repair outcome.'' [] s2;
          gate = checkpoint_gate hc (cn_decision c) lkg
      in if \<not> sx_success sx then roll_back hc eid c p sx lkg s3
         else (case gate of
           None \<Rightarrow> resume hc eid c p sx None s3
         | Some v \<Rightarrow>
             (if vr_passed v then resume hc eid c p sx (Some v) s3
              else roll_back hc eid c p sx lkg
                (hl_emit hc eid ''repair_validation_failed'' ''failed''
                   (''Checkpoint validation failed after sandbox: '' @ vr_message v) [] s3))))"

subsection \<open>The whole call\<close>

text \<open>After the decision: the actions that are never automated, or plan, check and repair\<close>

definition act_stage ::
  "'w heal_config \<Rightarrow> string \<Rightarrow> chain \<Rightarrow> checkpoint option \<Rightarrow> 'w heal \<Rightarrow> healing_result \<times> 'w heal" where
  "act_stage hc eid c lkg s =
     (let d = cn_decision c; reason = rd_reason d in
      if rd_action d = MANUAL_REVIEW then
        chain_result hc eid c False H_MANUAL_REVIEW []
          (hl_emit hc eid ''manual_review_required'' ''pending'' (''Manual review required: '' @ reason) [] s)
      else if rd_action d = ABORT then
        chain_result hc eid c False H_ABORTED []
          (hl_emit hc eid ''self_healing_aborted'' ''aborted'' (''Recovery aborted: '' @ reason) [] s)
      else if rd_action d = QUARANTINE then
        chain_result hc eid c False H_QUARANTINED []
          (hl_emit hc eid ''self_healing_quarantined'' ''quarantined'' (''Artifact quarantined: '' @ reason) [] s)
      else
        (let ((p, t), s1) = plan_step hc eid (cn_root c) (map_option ck_checkpoint_id lkg) s;
             c1 = c\<lparr>cn_stamps := (cn_stamps c)\<lparr>tm_planned := Some t\<rparr>\<rparr>;
             s2 = safety_event hc eid p s1
         in if \<not> plan_is_auto_safe (hc_auto_approve_low_risk hc) p
            then approval_result hc eid c1 p s2
            else repair_stage hc eid c1 p lkg s2))"

definition decide_stage ::
  "'w heal_config \<Rightarrow> pipeline_execution \<Rightarrow> fault_report \<Rightarrow> fault_localization \<Rightarrow> root_cause_report
     \<Rightarrow> healing_timestamps \<Rightarrow> checkpoint option \<Rightarrow> 'w heal \<Rightarrow> healing_result \<times> 'w heal" where
  "decide_stage hc execution fault loc cause stamps lkg s0 =
     (let eid = pe_execution_id execution in
      case decide execution fault loc lkg of
        Inl e \<Rightarrow> decision_error hc eid fault loc cause (tm_started stamps) e s0
      | Inr d \<Rightarrow>
          (let (t, s1) = hl_now s0;
               s2 = hl_emit hc eid ''recovery_decision_made'' ''running''
                      (''Recovery decision: '' @ action_value (rd_action d) @ '' requires_approval=''
                       @ show_bool (rd_requires_approval d)) (decision_to_dict d) s1
           in act_stage hc eid \<lparr>cn_fault = fault, cn_loc = loc, cn_root = cause, cn_decision = d,
                cn_stamps = stamps\<rparr> lkg s2))"

definition handle_failure ::
  "'w heal_config \<Rightarrow> pipeline_execution \<Rightarrow> node_event list \<Rightarrow> checkpoint option \<Rightarrow> 'w heal
     \<Rightarrow> healing_result \<times> 'w heal" where
  "handle_failure hc execution events last_good s0 =
     (let eid = pe_execution_id execution;
          (t_start, s1) = hl_now (s0\<lparr>hl_events := []\<rparr>);
          s2 = hl_emit hc eid ''self_healing_started'' ''running''
                 ''SelfHealingOrchestrator started.'' [(''execution_id'', PStr eid)] s1;
          lkg = (case last_good of
             None \<Rightarrow> cm_last_known_good (hc_manager hc) (Some eid) | Some c \<Rightarrow> Some c);
          ((fault, t_detected), s3) = detect_step hc execution s2
      in if \<not> fr_detected fault then
           (let s4 = hl_emit hc eid ''self_healing_completed'' ''success''
                       ''No fault detected. Pipeline is healthy.'' [] s3;
                (r, s5) = hl_result eid True H_NO_FAULT []
                  ((started t_start)\<lparr>tm_detected := Some t_detected\<rparr>) s4
            in (r\<lparr>hr_fault_report := Some (fault_report_to_dict (hc_runtime hc) fault)\<rparr>, s5))
         else
           (let ((loc, t_localized), s4) = localize_step hc execution fault events s3;
                ((cause, t_diagnosed), s5) = diagnose_step hc execution fault loc events s4
            in decide_stage hc execution fault loc cause
                 ((started t_start)\<lparr>tm_detected := Some t_detected, tm_localized := Some t_localized,
                    tm_diagnosed := Some t_diagnosed\<rparr>) lkg s5))"

subsection \<open>What a call comes to\<close>

text \<open>The outcome of a stage: success, final status and the world it leaves.\<close>

definition obs :: "healing_result \<times> 'w heal \<Rightarrow> bool \<times> healing_status \<times> 'w" where
  "obs q = (hr_success (fst q), hr_final_status (fst q), hl_world (snd q))"

lemma hl_now_world [simp]: "hl_world (snd (hl_now s)) = hl_world s"
  by (simp add: hl_now_def utc_now_def)

lemma hl_emit_world [simp]: "hl_world (hl_emit hc eid ty st msg md s) = hl_world s"
  by (simp add: hl_emit_def utc_now_def)

lemma obs_hl_result [simp]: "obs (hl_result eid ok st er tm s) = (ok, st, hl_world s)"
  by (simp add: hl_result_def obs_def hl_now_def utc_now_def)

lemma obs_upd:
  "hr_success (f (fst q)) = hr_success (fst q) \<Longrightarrow> hr_final_status (f (fst q)) = hr_final_status (fst q)
     \<Longrightarrow> obs (let (r, s) = q in (f r, s)) = obs q"
  by (simp add: obs_def split_beta)

lemma obs_chain_result [simp]: "obs (chain_result hc eid c ok st er s) = (ok, st, hl_world s)"
  unfolding chain_result_def by (subst obs_upd) (simp_all add: with_chain_def)

lemma obs_repair_result [simp]: "obs (repair_result hc eid c p sx ok st er s) = (ok, st, hl_world s)"
  unfolding repair_result_def by (subst obs_upd) simp_all

lemma obs_approval_result [simp]:
  "obs (approval_result hc eid c p s) = (False, H_MANUAL_REVIEW, hl_world s)"
  unfolding approval_result_def Let_def by (subst obs_upd [unfolded Let_def]) simp_all

lemma obs_resume [simp]: "obs (resume hc eid c p sx gate s) = (True, H_RESUMED, hl_world s)"
  unfolding resume_def Let_def by (subst obs_upd [unfolded Let_def]) simp_all

lemma obs_rollback_end [simp]:
  "obs (rollback_end hc eid c p sx errors rb rr s) =
     (False, if rb \<noteq> None then H_ROLLED_BACK else H_FAILED, hl_world s)"
  unfolding rollback_end_def Let_def by (subst obs_upd [unfolded Let_def]) simp_all

lemma obs_decision_error [simp]:
  "obs (decision_error hc eid fault loc cause t e s) = (False, H_FAILED, hl_world s)"
  unfolding decision_error_def Let_def by (subst obs_upd [unfolded Let_def]) simp_all

lemma run_recovery_rollback:
  assumes "run_recovery hc (rollback_decision eid cid) s = (rr, s')"
  shows "rr_success rr = usable (hc_recovery hc) cid" and "hl_world s' = hl_world s"
proof -
  obtain r x where x: "recover (hc_recovery hc) (rollback_decision eid cid) None None
      \<lparr>rx_events = hl_rx_events s, rx_env = hl_env s, rx_world = hl_world s\<rparr> = (r, x)" by fastforce
  from recover_rollback [OF x] assms x show "rr_success rr = usable (hc_recovery hc) cid"
    and "hl_world s' = hl_world s"
    by (auto simp: run_recovery_def rollback_decision_def)
qed

definition rollback_status :: "'w heal_config \<Rightarrow> checkpoint option \<Rightarrow> healing_status" where
  "rollback_status hc lkg =
     (case lkg of
        None \<Rightarrow> H_FAILED
      | Some k \<Rightarrow>
          (if \<not> checkpoint_acceptable (on_disk (hc_manager hc)) k then H_MANUAL_REVIEW
           else if usable (hc_recovery hc) (ck_checkpoint_id k) then H_ROLLED_BACK
           else H_FAILED))"

lemma obs_roll_back [simp]:
  "obs (roll_back hc eid c p sx lkg s) = (False, rollback_status hc lkg, hl_world s)"
proof (cases lkg)
  case None
  then show ?thesis by (simp add: roll_back_def rollback_status_def)
next
  case (Some k)
  let ?s1 = "hl_emit hc eid ''pipeline_rollback_started'' ''running''
      ''Sandbox repair did not validate. Attempting rollback to last known-good checkpoint.'' [] s"
  show ?thesis
  proof (cases "checkpoint_acceptable (on_disk (hc_manager hc)) k")
    case True
    obtain rr s2 where r: "run_recovery hc (rollback_decision eid (ck_checkpoint_id k)) ?s1 = (rr, s2)"
      by fastforce
    from run_recovery_rollback [OF r] r True Some show ?thesis
      by (simp add: roll_back_def Let_def rollback_status_def)
  next
    case False
    with Some show ?thesis
      unfolding roll_back_def Let_def
      by (simp add: rollback_status_def) (subst obs_upd [unfolded Let_def]; simp)
  qed
qed

text \<open>The analysis stages change nothing but the clock and the log.\<close>

lemma detect_step_ok:
  "\<exists>now t s'. detect_step hc e s = ((detect now e, t), s') \<and> hl_world s' = hl_world s"
  by (auto simp: detect_step_def hl_now_def hl_emit_def utc_now_def Let_def)

lemma localize_step_ok:
  "\<exists>t s'. localize_step hc e f evs s = ((localize (hc_runtime hc) e f evs, t), s')
     \<and> hl_world s' = hl_world s"
  by (simp add: localize_step_def hl_now_def hl_emit_def utc_now_def Let_def)

lemma diagnose_step_ok:
  "\<exists>now t s'. diagnose_step hc e f loc evs s = ((analyze now e f loc evs, t), s')
     \<and> hl_world s' = hl_world s"
  by (auto simp: diagnose_step_def hl_now_def hl_emit_def utc_now_def Let_def)

lemma plan_step_ok:
  "\<exists>now t s'. plan_step hc eid cause ck s = ((plan now cause ck, t), s') \<and> hl_world s' = hl_world s"
  by (auto simp: plan_step_def hl_now_def hl_emit_def utc_now_def Let_def)

lemma sandbox_step_ok:
  assumes "steps_outcome (hc_runtime hc) (hc_sandbox hc) PNone (pl_steps p) (hl_world s) = (ok, w)"
  shows "\<exists>sx t0 t1 s'. sandbox_step hc eid p s = ((sx, t0, t1), s') \<and> sx_success sx = ok \<and> hl_world s' = w"
proof -
  obtain t0 s1 where s1: "hl_now s = (t0, s1)" by fastforce
  define s2 where "s2 = hl_emit hc eid ''repair_sandbox_started'' ''running''
                 (''Sandbox execution started. Backend: '' @ bk_mode (sb_backend (hc_sandbox hc))
                  @ '' (no OS-level isolation for in_process backend). Steps: ''
                  @ show_nat (step_count p)) [] s1"
  have w: "hl_world s2 = hl_world s" using hl_now_world [of s] s1 by (simp add: s2_def)
  obtain sx e w' where x: "execute_plan (hc_runtime hc) (hc_sandbox hc) p PNone (hl_env s2, hl_world s) = (sx, e, w')"
    by (rule prod_cases3)
  from execute_plan_outcome [OF x] assms have sx: "sx_success sx = ok" "w' = w" by simp_all
  obtain t1 s3 where s3: "hl_now (s2\<lparr>hl_env := e, hl_world := w\<rparr>) = (t1, s3)" by fastforce
  then have "hl_world s3 = w" using hl_now_world [of "s2\<lparr>hl_env := e, hl_world := w\<rparr>"] by simp
  with sx s3 x w s1 show ?thesis
    unfolding sandbox_step_def Let_def s1 prod.case s2_def [symmetric] by simp
qed

lemma auto_safe_plan:
  "plan_is_auto_safe auto_approve (plan now cause ck) \<longleftrightarrow>
     \<not> list_ex (\<lambda>s. st_action s = ''MANUAL_REVIEW'') (pl_steps (plan now cause ck))"
  by (auto simp: plan_is_auto_safe_def has_manual_step_def plan_approval)

subsection \<open>The specification of a call\<close>

text \<open>Whether a repaired run may resume: what it restarts from must be acceptable.\<close>

definition may_resume :: "'w heal_config \<Rightarrow> recovery_action_type \<Rightarrow> checkpoint option \<Rightarrow> bool" where
  "may_resume hc action lkg \<longleftrightarrow>
     (case lkg of
        None \<Rightarrow> True
      | Some c \<Rightarrow> action = ROLLBACK \<or> action = RERUN_FROM_NODE
                   \<longrightarrow> checkpoint_acceptable (on_disk (hc_manager hc)) c)"

definition repair_outcome ::
  "'w heal_config \<Rightarrow> recovery_action_type \<Rightarrow> repair_step list \<Rightarrow> checkpoint option \<Rightarrow> 'w
     \<Rightarrow> bool \<times> healing_status \<times> 'w" where
  "repair_outcome hc action steps lkg w =
     (if list_ex (\<lambda>s. st_action s = ''MANUAL_REVIEW'') steps then (False, H_MANUAL_REVIEW, w)
      else (let (ok, w') = steps_outcome (hc_runtime hc) (hc_sandbox hc) PNone steps w in
            if ok \<and> may_resume hc action lkg then (True, H_RESUMED, w')
            else (False, rollback_status hc lkg, w')))"

definition healing_outcome ::
  "'w heal_config \<Rightarrow> pipeline_execution \<Rightarrow> node_event list \<Rightarrow> checkpoint option \<Rightarrow> 'w
     \<Rightarrow> bool \<times> healing_status \<times> 'w" where
  "healing_outcome hc e evs lkg w =
     (let loc = localize (hc_runtime hc) e (detect 0 e) evs;
          action = analysis_action e (lkg \<noteq> None) loc
      in if pe_status e = P_SUCCESS then (True, H_NO_FAULT, w)
         else if action = MANUAL_REVIEW then (False, H_MANUAL_REVIEW, w)
         else if action = ABORT then (False, H_ABORTED, w)
         else if action = QUARANTINE then (False, H_QUARANTINED, w)
         else repair_outcome hc action
                (build_steps (fault_to_hypothesis (fr_fault_type (detect 0 e)))
                   (fl_probable_root_node loc) (map_option ck_checkpoint_id lkg))
                lkg w)"

text \<open>The checkpoint of a call\<close>

definition call_checkpoint ::
  "'w heal_config \<Rightarrow> pipeline_execution \<Rightarrow> checkpoint option \<Rightarrow> checkpoint option" where
  "call_checkpoint hc e last_good =
     (case last_good of None \<Rightarrow> cm_last_known_good (hc_manager hc) (Some (pe_execution_id e))
      | Some c \<Rightarrow> Some c)"

lemma passed_acceptable: "vr_passed (validate_checkpoint od c) = checkpoint_acceptable od c"
  by (simp add: validate_checkpoint_def Let_def checkpoint_acceptable_def split: option.split)

lemma checkpoint_gate_passes:
  "(case checkpoint_gate hc d lkg of None \<Rightarrow> True | Some v \<Rightarrow> vr_passed v)
     = may_resume hc (rd_action d) lkg"
  by (auto simp: checkpoint_gate_def may_resume_def passed_acceptable split: option.split)

lemma obs_repair_stage:
  assumes "steps_outcome (hc_runtime hc) (hc_sandbox hc) PNone (pl_steps p) (hl_world s) = (ok, w)"
  shows "obs (repair_stage hc eid c p lkg s) =
    (if ok \<and> may_resume hc (rd_action (cn_decision c)) lkg then (True, H_RESUMED, w)
     else (False, rollback_status hc lkg, w))"
proof -
  obtain sx t0 t1 s1 where x: "sandbox_step hc eid p s = ((sx, t0, t1), s1)"
    "sx_success sx = ok" "hl_world s1 = w"
    using sandbox_step_ok [OF assms] by blast
  obtain tv s2 where s2: "hl_now s1 = (tv, s2)" by fastforce
  with hl_now_world [of s1] x have w: "hl_world s2 = w" by simp
  show ?thesis
    using x s2 w checkpoint_gate_passes [of hc "cn_decision c" lkg]
    by (cases "checkpoint_gate hc (cn_decision c) lkg") (simp_all add: repair_stage_def Let_def)
qed

lemma obs_act_stage:
  assumes "cn_root c = analyze t e (detect t' e) loc evs"
    and "loc = localize (hc_runtime hc) e (detect 0 e) evs"
    and "rd_action (cn_decision c) = analysis_action e (lkg \<noteq> None) loc"
    and bad: "pe_status e \<noteq> P_SUCCESS"
  shows "obs (act_stage hc eid c lkg s) = healing_outcome hc e evs lkg (hl_world s)"
proof -
  let ?a = "rd_action (cn_decision c)"
  show ?thesis
  proof (cases "?a = MANUAL_REVIEW \<or> ?a = ABORT \<or> ?a = QUARANTINE")
    case True
    with assms show ?thesis by (auto simp: act_stage_def Let_def healing_outcome_def)
  next
    case False
    let ?ck = "map_option ck_checkpoint_id lkg"
    obtain now t s1 where p: "plan_step hc eid (cn_root c) ?ck s = ((plan now (cn_root c) ?ck, t), s1)"
      "hl_world s1 = hl_world s"
      using plan_step_ok by blast
    let ?p = "plan now (cn_root c) ?ck"
    have "fr_fault_type (detect t' e) = fr_fault_type (detect 0 e)" by (simp add: detect_at [of t'])
    then have steps: "pl_steps ?p = build_steps (fault_to_hypothesis (fr_fault_type (detect 0 e)))
        (fl_probable_root_node loc) ?ck"
      by (simp add: assms(1) plan_steps)
    obtain ok w where o: "steps_outcome (hc_runtime hc) (hc_sandbox hc) PNone (pl_steps ?p) (hl_world s) = (ok, w)"
      by fastforce
    have w: "hl_world (safety_event hc eid ?p s1) = hl_world s" by (simp add: safety_event_def Let_def p)
    have "obs (act_stage hc eid c lkg s) = repair_outcome hc ?a (pl_steps ?p) lkg (hl_world s)"
      using False p w o obs_repair_stage [of hc ?p "safety_event hc eid ?p s1" ok w eid
          "c\<lparr>cn_stamps := (cn_stamps c)\<lparr>tm_planned := Some t\<rparr>\<rparr>" lkg]
      by (simp add: act_stage_def Let_def auto_safe_plan repair_outcome_def)
    moreover have "healing_outcome hc e evs lkg (hl_world s) = repair_outcome hc ?a (pl_steps ?p) lkg (hl_world s)"
      using False assms steps by (simp add: healing_outcome_def Let_def)
    ultimately show ?thesis by simp
  qed
qed

lemma handle_failure_outcome:
  "obs (handle_failure hc e evs last_good s) =
     healing_outcome hc e evs (call_checkpoint hc e last_good) (hl_world s)"
proof -
  let ?eid = "pe_execution_id e" and ?lkg = "call_checkpoint hc e last_good"
  obtain t1 s1 where s1: "hl_now (s\<lparr>hl_events := []\<rparr>) = (t1, s1)" by fastforce
  with hl_now_world [of "s\<lparr>hl_events := []\<rparr>"] have w1: "hl_world s1 = hl_world s" by simp
  let ?s2 = "hl_emit hc ?eid ''self_healing_started'' ''running''
                 ''SelfHealingOrchestrator started.'' [(''execution_id'', PStr ?eid)] s1"
  obtain now t2 s3 where s3: "detect_step hc e ?s2 = ((detect now e, t2), s3)" "hl_world s3 = hl_world s"
    using detect_step_ok [of hc e ?s2] w1 by auto
  note start = s1 s3(1) call_checkpoint_def [symmetric]
  show ?thesis
  proof (cases "pe_status e = P_SUCCESS")
    case True
    with s3(2) show ?thesis
      unfolding handle_failure_def Let_def start prod.case
      by (simp add: healing_outcome_def) (subst obs_upd [unfolded Let_def]; simp)
  next
    case bad: False
    let ?f = "detect now e" and ?loc = "localize (hc_runtime hc) e (detect now e) evs"
    have loc: "?loc = localize (hc_runtime hc) e (detect 0 e) evs" by (simp add: detect_at [of now])
    obtain t3 s4 where s4: "localize_step hc e ?f evs s3 = ((?loc, t3), s4)" "hl_world s4 = hl_world s"
      using localize_step_ok [of hc e ?f evs s3] s3(2) by auto
    obtain t t4 s5 where s5: "diagnose_step hc e ?f ?loc evs s4 = ((analyze t e ?f ?loc evs, t4), s5)"
      "hl_world s5 = hl_world s"
      using diagnose_step_ok [of hc e ?f ?loc evs s4] s4(2) by auto
    obtain d where d: "decide e ?f ?loc ?lkg = Inr d"
      "rd_action d = analysis_action e (?lkg \<noteq> None) ?loc"
      using decide_detected by blast
    obtain t6 s6 where s6: "hl_now s5 = (t6, s6)" by fastforce
    with hl_now_world [of s5] s5(2) have w6: "hl_world s6 = hl_world s" by simp
    show ?thesis
      using bad d(2) loc w6
      unfolding handle_failure_def Let_def start prod.case s4(1) s5(1) decide_stage_def d(1) sum.case s6
      by (simp del: detect_detected add: obs_act_stage [where t = t and t' = now and e = e and evs = evs])
        simp
  qed
qed

text \<open>C1: SelfHealingOrchestrator.handle_failure implements its specification: a healthy run is left alone;
  the policy's manual review, abort and quarantine end the call with the world untouched; a
  plan with a manual step waits for a human; otherwise the plan runs in the sandbox, and the run
  resumes only if every step succeeded, validated where required, and what it restarts from is
  an acceptable checkpoint; a failed repair rolls back to the last known good checkpoint if that
  is acceptable and can be restored.\<close>

theorem handle_failure_correct:
  "let (r, s') = handle_failure hc e evs last_good s in
     (hr_success r, hr_final_status r, hl_world s')
       = healing_outcome hc e evs (call_checkpoint hc e last_good) (hl_world s)"
  using handle_failure_outcome [of hc e evs last_good s] by (simp add: obs_def split_beta)

lemma repair_world:
  "repair_outcome hc a steps lkg w = (ok, st, w') \<Longrightarrow>
     ok = (st = H_RESUMED) \<and> st \<in> {H_RESUMED, H_ROLLED_BACK, H_FAILED, H_MANUAL_REVIEW}
     \<and> (lkg = None \<longrightarrow> st \<noteq> H_ROLLED_BACK)
     \<and> (list_ex (\<lambda>s. st_action s = ''MANUAL_REVIEW'') steps \<longrightarrow> st = H_MANUAL_REVIEW \<and> w' = w)"
  by (auto simp: repair_outcome_def rollback_status_def split: if_splits prod.splits option.splits)

text \<open>The kinds of faults whose repair plan always ends with a human.\<close>

definition manual_faults :: "fault_type set" where
  "manual_faults = {CORRUPTED_ARTIFACT, EXECUTION_ERROR, RESOURCE_ERROR, TIMEOUT, UNKNOWN}"

lemma manual_faults_plan:
  "t \<in> manual_faults \<Longrightarrow>
     list_ex (\<lambda>s. st_action s = ''MANUAL_REVIEW'') (build_steps (fault_to_hypothesis t) node lkg)"
  by (auto simp: manual_faults_def build_steps_def step_builders Let_def)

text \<open>SelfHealingOrchestrator.handle_failure is conservative: it claims success only when nothing was
  wrong or the run may resume, it rolls back only to a checkpoint it has, and after a corrupted
  artifact, an execution error, a resource failure, a timeout or an unclassified failure it
  neither changes anything nor resumes, whatever the configuration and the handlers.\<close>

theorem handle_failure_conservative:
  "let (r, s') = handle_failure hc e evs last_good s in
     hr_success r = (hr_final_status r \<in> {H_NO_FAULT, H_RESUMED})
     \<and> (if hr_final_status r = H_ROLLED_BACK then call_checkpoint hc e last_good \<noteq> None else True)
     \<and> (if pe_status e \<noteq> P_SUCCESS \<and> fr_fault_type (detect 0 e) \<in> manual_faults
        then hl_world s' = hl_world s \<and> hr_final_status r \<in> {H_MANUAL_REVIEW, H_ABORTED, H_QUARANTINED}
        else True)"
proof -
  obtain r s' where r: "handle_failure hc e evs last_good s = (r, s')" by fastforce
  let ?lkg = "call_checkpoint hc e last_good"
  have o: "healing_outcome hc e evs ?lkg (hl_world s) = (hr_success r, hr_final_status r, hl_world s')"
    using handle_failure_outcome [of hc e evs last_good s] r by (simp add: obs_def)
  let ?loc = "localize (hc_runtime hc) e (detect 0 e) evs"
  let ?a = "analysis_action e (?lkg \<noteq> None) ?loc"
  show ?thesis
  proof (cases "pe_status e = P_SUCCESS \<or> ?a = MANUAL_REVIEW \<or> ?a = ABORT \<or> ?a = QUARANTINE")
    case True
    with o r show ?thesis by (auto simp: healing_outcome_def Let_def split: if_splits)
  next
    case False
    with o have "repair_outcome hc ?a (build_steps (fault_to_hypothesis (fr_fault_type (detect 0 e)))
        (fl_probable_root_node ?loc) (map_option ck_checkpoint_id ?lkg)) ?lkg (hl_world s)
        = (hr_success r, hr_final_status r, hl_world s')"
      by (simp add: healing_outcome_def Let_def)
    from repair_world [OF this] manual_faults_plan [of "fr_fault_type (detect 0 e)"] r False
    show ?thesis by auto
  qed
qed

subsection \<open>The automatic approval of low risks\<close>

lemma with_auto [simp]:
  fixes hc :: "'w heal_config" and b :: bool
  defines "hb \<equiv> hc\<lparr>hc_auto_approve_low_risk := b\<rparr>"
  shows "hl_emit hb = hl_emit hc" and "chain_result hb = chain_result hc"
    and "detect_step hb = detect_step hc" and "localize_step hb = localize_step hc"
    and "diagnose_step hb = diagnose_step hc" and "decision_error hb = decision_error hc"
    and "plan_step hb = plan_step hc" and "approval_result hb = approval_result hc"
    and "sandbox_step hb = sandbox_step hc" and "checkpoint_gate hb = checkpoint_gate hc"
    and "repair_result hb = repair_result hc" and "resume hb = resume hc"
    and "run_recovery hb = run_recovery hc" and "rollback_end hb = rollback_end hc"
    and "roll_back hb = roll_back hc" and "repair_stage hb = repair_stage hc"
proof -
  show e: "hl_emit hb = hl_emit hc" by (intro ext) (simp add: hl_emit_def hb_def)
  show c: "chain_result hb = chain_result hc" by (intro ext) (simp add: chain_result_def hb_def)
  note f = e [unfolded hb_def] c [unfolded hb_def]
  show "detect_step hb = detect_step hc" by (intro ext) (simp add: detect_step_def hb_def f)
  show "localize_step hb = localize_step hc" by (intro ext) (simp add: localize_step_def hb_def f)
  show "diagnose_step hb = diagnose_step hc" by (intro ext) (simp add: diagnose_step_def hb_def f)
  show "decision_error hb = decision_error hc" by (intro ext) (simp add: decision_error_def hb_def f)
  show "plan_step hb = plan_step hc" by (intro ext) (simp add: plan_step_def hb_def f)
  show "approval_result hb = approval_result hc" by (intro ext) (simp add: approval_result_def hb_def f)
  show s: "sandbox_step hb = sandbox_step hc" by (intro ext) (simp add: sandbox_step_def hb_def f)
  show g: "checkpoint_gate hb = checkpoint_gate hc" by (intro ext) (simp add: checkpoint_gate_def hb_def split: option.split)
  show r: "repair_result hb = repair_result hc" by (intro ext) (simp add: repair_result_def hb_def f)
  note f = f r [unfolded hb_def]
  show u: "resume hb = resume hc" by (intro ext) (simp add: resume_def hb_def f)
  show v: "run_recovery hb = run_recovery hc" by (intro ext) (simp add: run_recovery_def hb_def)
  show w: "rollback_end hb = rollback_end hc" by (intro ext) (simp add: rollback_end_def hb_def f)
  note f = f u [unfolded hb_def] v [unfolded hb_def] w [unfolded hb_def]
  show x: "roll_back hb = roll_back hc" 
    by (intro ext) (simp add: roll_back_def hb_def f Let_def split_beta split: option.split)
  show "repair_stage hb = repair_stage hc"
    by (intro ext) (simp add: repair_stage_def hb_def f s [unfolded hb_def] g [unfolded hb_def]
        x [unfolded hb_def] Let_def split_beta split: option.split)
qed

lemma safety_event_auto:
  "safety_event (hc\<lparr>hc_auto_approve_low_risk := b\<rparr>) eid (plan now cause ck) s
     = safety_event hc eid (plan now cause ck) s"
  by (simp add: safety_event_def auto_safe_plan)

lemma act_stage_auto:
  "act_stage (hc\<lparr>hc_auto_approve_low_risk := b\<rparr>) eid c lkg s = act_stage hc eid c lkg s"
proof -
  let ?ck = "map_option ck_checkpoint_id lkg"
  obtain now t s1 where p: "plan_step hc eid (cn_root c) ?ck s = ((plan now (cn_root c) ?ck, t), s1)"
    using plan_step_ok by blast
  show ?thesis by (simp add: act_stage_def Let_def p safety_event_auto auto_safe_plan)
qed

lemma decide_stage_auto:
  "decide_stage (hc\<lparr>hc_auto_approve_low_risk := b\<rparr>) = decide_stage hc"
  by (intro ext) (simp add: decide_stage_def act_stage_auto Let_def split_beta split: sum.split)

text \<open>C14: The auto_approve_low_risk setting of SelfHealingOrchestrator has no effect at all: with it or
  without it, handle_failure returns the same result and log and leaves the same state. A plan
  without a manual step never requires approval, so it is executed also when the setting is
  off, which is documented as always requiring human approval.\<close>

theorem auto_approve_has_no_effect:
  "handle_failure (hc\<lparr>hc_auto_approve_low_risk := b\<rparr>) e evs last_good s
     = handle_failure hc e evs last_good s"
  by (cases last_good) (simp_all add: handle_failure_def decide_stage_auto Let_def split_beta)

subsection \<open>The default orchestrator\<close>

lemma default_sandbox [simp]: "sb_handlers (hc_sandbox (heal_init rt m b pid rx None)) = []"
  by (simp add: heal_init_def sandbox_init_def)

lemma default_repair_outcome:
  assumes "sb_handlers (hc_sandbox hc) = []"
  shows "repair_outcome hc a steps lkg w =
    (if list_ex (\<lambda>s. st_action s = ''MANUAL_REVIEW'') steps then (False, H_MANUAL_REVIEW, w)
     else if may_resume hc a lkg then (True, H_RESUMED, w) else (False, H_MANUAL_REVIEW, w))"
  using steps_outcome_no_handler [of "hc_sandbox hc" steps "hc_runtime hc" PNone w] assms
  by (auto simp: repair_outcome_def list_all_iff may_resume_def rollback_status_def
      split: option.splits)

lemma missing_file_outcome:
  assumes "pe_status e \<noteq> P_SUCCESS" "failed_node e = Some n"
    and "ne_error_type n = Some ''FileNotFoundError''"
  shows "fr_fault_type (detect now e) = MISSING_ARTIFACT"
    and "analysis_action e True loc = ROLLBACK"
  using assms detect_failed(1) [OF assms(1,2), of now]
  by (simp_all add: classify_def analysis_action_def policy_def restore_or_def)

lemma missing_plan_automated:
  "\<not> list_ex (\<lambda>s. st_action s = ''MANUAL_REVIEW'')
     (build_steps (fault_to_hypothesis MISSING_ARTIFACT) node lkg)"
  by (simp add: build_steps_def steps_missing_artifact_def)

text \<open>C15: A SelfHealingOrchestrator created with the default sandbox repairs nothing: no handler is
  registered, every step of a plan is skipped, and the world is never changed, nor is anything
  ever rolled back. After a node failed for a missing file in a run with an acceptable last
  known good checkpoint, it still reports success and a resumed pipeline, although the decision
  was a rollback that requires approval.\<close>

theorem default_orchestrator_repairs_nothing:
  "let hc = heal_init rt m b pid rx None; (r, s') = handle_failure hc e evs last_good s in
     hl_world s' = hl_world s \<and> hr_final_status r \<notin> {H_ROLLED_BACK, H_FAILED}
     \<and> (case (failed_node e, call_checkpoint hc e last_good) of
          (Some n, Some c) \<Rightarrow>
            if pe_status e \<noteq> P_SUCCESS \<and> ne_error_type n = Some ''FileNotFoundError''
               \<and> checkpoint_acceptable (on_disk m) c
            then hr_success r \<and> hr_final_status r = H_RESUMED
              \<and> (case decide e (detect 0 e) (localize rt e (detect 0 e) evs) (Some c) of
                   Inr d \<Rightarrow> rd_action d = ROLLBACK \<and> rd_requires_approval d | Inl _ \<Rightarrow> False)
            else True
        | _ \<Rightarrow> True)"
proof -
  define hc where "hc = heal_init rt m b pid rx (None :: 'a sandbox option)"
  have h: "sb_handlers (hc_sandbox hc) = []" "hc_runtime hc = rt" "hc_manager hc = m"
    by (simp_all add: hc_def) (simp_all add: heal_init_def)
  obtain r s' where r: "handle_failure hc e evs last_good s = (r, s')" by fastforce
  let ?lkg = "call_checkpoint hc e last_good"
  have o: "healing_outcome hc e evs ?lkg (hl_world s) = (hr_success r, hr_final_status r, hl_world s')"
    using handle_failure_outcome [of hc e evs last_good s] r by (simp add: obs_def)
  have w: "hl_world s' = hl_world s" "hr_final_status r \<notin> {H_ROLLED_BACK, H_FAILED}"
    using o by (auto simp: healing_outcome_def Let_def default_repair_outcome [OF h(1)] split: if_splits)
  have m: "hr_success r \<and> hr_final_status r = H_RESUMED
      \<and> (case decide e (detect 0 e) (localize rt e (detect 0 e) evs) (Some c) of
           Inr d \<Rightarrow> rd_action d = ROLLBACK \<and> rd_requires_approval d | Inl _ \<Rightarrow> False)"
    if n: "failed_node e = Some n" "ne_error_type n = Some ''FileNotFoundError''"
      and bad: "pe_status e \<noteq> P_SUCCESS"
      and c: "?lkg = Some c" "checkpoint_acceptable (on_disk m) c" for n c
  proof -
    note f = missing_file_outcome [OF bad n]
    have "healing_outcome hc e evs ?lkg (hl_world s) = (True, H_RESUMED, hl_world s)"
      using f(2) c bad h missing_plan_automated
      by (simp add: healing_outcome_def f(1) Let_def default_repair_outcome may_resume_def
          del: fault_to_hypothesis.simps)
    with o have "hr_success r \<and> hr_final_status r = H_RESUMED" by simp
    moreover obtain d where d: "decide e (detect 0 e) (localize rt e (detect 0 e) evs) (Some c) = Inr d"
      "rd_action d = analysis_action e True (localize rt e (detect 0 e) evs)"
      using decide_detected [of e 0 "localize rt e (detect 0 e) evs" "Some c"] by auto
    ultimately show ?thesis using f(2) decide_ok [OF d(1)] by (simp add: decision_ok_def)
  qed
  show ?thesis
    unfolding Let_def hc_def [symmetric] r prod.case
    using w m by (auto split: option.split)
qed

end
