(* ===== verification/AuditLog.thy ===== *)
theory AuditLog
  imports Integrity Validator Sandbox
begin

text \<open>
  The security audit log (\<open>core/security/models.py\<close>, \<open>core/security/audit.py\<close>): events, the
  in-memory and the JSONL backend, and \<open>SecurityAuditLogger\<close> over either. An event read back
  from a file holds whatever JSON the line has, so its untyped fields are Python values. The
  locks of the code make each operation one step, which is what the model takes it to be.
\<close>

subsection \<open>Models\<close>

datatype security_event_type =
    INTEGRITY_CHECK_STARTED | INTEGRITY_CHECK_PASSED | INTEGRITY_CHECK_FAILED
  | ARTIFACT_QUARANTINED | SECURITY_REVIEW_REQUIRED | TRUSTED_CHECKPOINT_SELECTED
  | UNTRUSTED_CHECKPOINT_REJECTED | RECOVERY_BLOCKED_INTEGRITY | SECURITY_AUDIT_RECORDED
  | ARTIFACT_LOADED_UNVERIFIED | ARTIFACT_LOAD_BLOCKED

fun event_type_value :: "security_event_type \<Rightarrow> string" where
  "event_type_value INTEGRITY_CHECK_STARTED = ''integrity_check_started''"
| "event_type_value INTEGRITY_CHECK_PASSED = ''integrity_check_passed''"
| "event_type_value INTEGRITY_CHECK_FAILED = ''integrity_check_failed''"
| "event_type_value ARTIFACT_QUARANTINED = ''artifact_quarantined''"
| "event_type_value SECURITY_REVIEW_REQUIRED = ''security_review_required''"
| "event_type_value TRUSTED_CHECKPOINT_SELECTED = ''trusted_checkpoint_selected''"
| "event_type_value UNTRUSTED_CHECKPOINT_REJECTED = ''untrusted_checkpoint_rejected''"
| "event_type_value RECOVERY_BLOCKED_INTEGRITY = ''recovery_blocked_by_integrity''"
| "event_type_value SECURITY_AUDIT_RECORDED = ''security_audit_recorded''"
| "event_type_value ARTIFACT_LOADED_UNVERIFIED = ''artifact_loaded_unverified''"
| "event_type_value ARTIFACT_LOAD_BLOCKED = ''artifact_load_blocked''"

definition all_event_types :: "security_event_type list" where
  "all_event_types =
     [INTEGRITY_CHECK_STARTED, INTEGRITY_CHECK_PASSED, INTEGRITY_CHECK_FAILED,
      ARTIFACT_QUARANTINED, SECURITY_REVIEW_REQUIRED, TRUSTED_CHECKPOINT_SELECTED,
      UNTRUSTED_CHECKPOINT_REJECTED, RECOVERY_BLOCKED_INTEGRITY, SECURITY_AUDIT_RECORDED,
      ARTIFACT_LOADED_UNVERIFIED, ARTIFACT_LOAD_BLOCKED]"

datatype security_severity = S_INFO | S_WARNING | S_HIGH | S_CRITICAL

fun security_severity_value :: "security_severity \<Rightarrow> string" where
  "security_severity_value S_INFO = ''info''"
| "security_severity_value S_WARNING = ''warning''"
| "security_severity_value S_HIGH = ''high''"
| "security_severity_value S_CRITICAL = ''critical''"

text \<open>\<open>SecurityEventType(v)\<close> and \<open>SecuritySeverity(v)\<close>: the member with that value\<close>

definition event_type_of :: "runtime \<Rightarrow> pyval \<Rightarrow> security_event_type result" where
  "event_type_of rt v =
     (case find (\<lambda>t. v = PStr (event_type_value t)) all_event_types of
        Some t \<Rightarrow> Inr t
      | None \<Rightarrow> Inl (Exn ''ValueError'' (rt_repr rt v @ '' is not a valid SecurityEventType'')))"

definition security_severity_of :: "runtime \<Rightarrow> pyval \<Rightarrow> security_severity result" where
  "security_severity_of rt v =
     (case find (\<lambda>t. v = PStr (security_severity_value t)) [S_INFO, S_WARNING, S_HIGH, S_CRITICAL] of
        Some t \<Rightarrow> Inr t
      | None \<Rightarrow> Inl (Exn ''ValueError'' (rt_repr rt v @ '' is not a valid SecuritySeverity'')))"

record audit_event =
  ae_event_id :: pyval
  ae_event_type :: security_event_type
  ae_execution_id :: pyval
  ae_component :: pyval
  ae_severity :: security_severity
  ae_timestamp :: int
  ae_action :: pyval
  ae_reason :: pyval
  ae_metadata :: pyval

text \<open>The constructor with its default factories\<close>

definition mk_event ::
  "security_event_type \<Rightarrow> string \<Rightarrow> string \<Rightarrow> security_severity \<Rightarrow> string \<Rightarrow> string \<Rightarrow> dict \<Rightarrow> env
     \<Rightarrow> audit_event \<times> env" where
  "mk_event t execution_id component sev action reason metadata e =
     (let (uid, e1) = uuid4 e; (now, e2) = utc_now e1 in
      (\<lparr>ae_event_id = PStr uid, ae_event_type = t, ae_execution_id = PStr execution_id,
        ae_component = PStr component, ae_severity = sev, ae_timestamp = now,
        ae_action = PStr action, ae_reason = PStr reason, ae_metadata = PDict metadata\<rparr>, e2))"

definition as_dict :: "runtime \<Rightarrow> pyval \<Rightarrow> dict result" where
  "as_dict rt v = (case v of PDict kvs \<Rightarrow> Inr kvs | _ \<Rightarrow> rt_dict rt v)"

definition event_to_dict :: "runtime \<Rightarrow> audit_event \<Rightarrow> dict result" where
  "event_to_dict rt e =
     (case as_dict rt (ae_metadata e) of
        Inl x \<Rightarrow> Inl x
      | Inr md \<Rightarrow> Inr
         [(''event_id'', ae_event_id e),
          (''event_type'', PStr (event_type_value (ae_event_type e))),
          (''execution_id'', ae_execution_id e), (''component'', ae_component e),
          (''severity'', PStr (security_severity_value (ae_severity e))),
          (''timestamp'', PStr (rt_iso rt (ae_timestamp e))),
          (''action'', ae_action e), (''reason'', ae_reason e), (''metadata'', PDict md)])"

text \<open>\<open>_event_from_dict\<close>, its arguments in evaluation order\<close>

definition datetime_of :: "runtime \<Rightarrow> pyval \<Rightarrow> int result" where
  "datetime_of rt v =
     (case v of PStr s \<Rightarrow> rt_fromiso rt s
      | _ \<Rightarrow> Inl (Exn ''TypeError'' ''fromisoformat: argument must be str''))"

definition event_from_dict :: "runtime \<Rightarrow> pyval \<Rightarrow> audit_event result" where
  "event_from_dict rt data =
     (case json_item data ''event_id'' of Inl x \<Rightarrow> Inl x | Inr uid \<Rightarrow>
     (case json_item data ''event_type'' of Inl x \<Rightarrow> Inl x | Inr ty \<Rightarrow>
     (case event_type_of rt ty of Inl x \<Rightarrow> Inl x | Inr t \<Rightarrow>
     (case json_item data ''execution_id'' of Inl x \<Rightarrow> Inl x | Inr xid \<Rightarrow>
     (case json_item data ''component'' of Inl x \<Rightarrow> Inl x | Inr cp \<Rightarrow>
     (case json_item data ''severity'' of Inl x \<Rightarrow> Inl x | Inr sv \<Rightarrow>
     (case security_severity_of rt sv of Inl x \<Rightarrow> Inl x | Inr sev \<Rightarrow>
     (case json_item data ''timestamp'' of Inl x \<Rightarrow> Inl x | Inr ts \<Rightarrow>
     (case datetime_of rt ts of Inl x \<Rightarrow> Inl x | Inr at' \<Rightarrow>
     (case json_item data ''action'' of Inl x \<Rightarrow> Inl x | Inr ac \<Rightarrow>
     (case json_item data ''reason'' of Inl x \<Rightarrow> Inl x | Inr rs \<Rightarrow>
        Inr \<lparr>ae_event_id = uid, ae_event_type = t, ae_execution_id = xid, ae_component = cp,
             ae_severity = sev, ae_timestamp = at', ae_action = ac, ae_reason = rs,
             ae_metadata = json_get data ''metadata'' (PDict [])\<rparr>)))))))))))"

subsection \<open>The JSONL file\<close>

text \<open>
  The lines of a text file: carriage returns end a line too, and the empty line that a CR LF
  pair then gives is skipped by the reader below.
\<close>

definition is_newline :: "char \<Rightarrow> bool" where
  "is_newline c \<longleftrightarrow> c = CHR 10 \<or> c = CHR 13"

fun file_lines :: "string \<Rightarrow> string \<Rightarrow> string list" where
  "file_lines acc [] = (if acc = [] then [] else [acc])"
| "file_lines acc (c # cs) =
     (if is_newline c then acc # file_lines [] cs else file_lines (acc @ [c]) cs)"

definition replay_line :: "runtime \<Rightarrow> string \<Rightarrow> audit_event list" where
  "replay_line rt raw =
     (let line = py_strip raw in
      if line = [] then []
      else (case rt_loads rt line of
              Inl _ \<Rightarrow> []
            | Inr data \<Rightarrow> (case event_from_dict rt data of Inl _ \<Rightarrow> [] | Inr e \<Rightarrow> [e])))"

definition replay :: "runtime \<Rightarrow> string \<Rightarrow> audit_event list" where
  "replay rt text = concat (map (replay_line rt) (file_lines [] text))"

text \<open>
  The backend's memory and its file, absent until the first append. \<open>jl_fault\<close> is what the
  next append meets: nothing, or an exception after some bytes of the line were written, or
  before the file could be opened.
\<close>

datatype write_fault = No_Fault | Open_Fails exn | Write_Fails nat exn

record jsonl =
  jl_memory :: "audit_event list"
  jl_file :: "string option"
  jl_fault :: write_fault

definition jsonl_init ::
  "runtime \<Rightarrow> exn option \<Rightarrow> exn option \<Rightarrow> string option \<Rightarrow> jsonl result" where
  "jsonl_init rt mkdir_error read_error file =
     (case mkdir_error of
        Some x \<Rightarrow> Inl x
      | None \<Rightarrow>
          (case file of
             None \<Rightarrow> Inr \<lparr>jl_memory = [], jl_file = None, jl_fault = No_Fault\<rparr>
           | Some text \<Rightarrow>
               (case read_error of
                  Some x \<Rightarrow> (if is_os_error x
                     then Inr \<lparr>jl_memory = [], jl_file = Some text, jl_fault = No_Fault\<rparr> else Inl x)
                | None \<Rightarrow> Inr \<lparr>jl_memory = replay rt text, jl_file = Some text, jl_fault = No_Fault\<rparr>)))"

definition file_text :: "string option \<Rightarrow> string" where
  "file_text file = (case file of None \<Rightarrow> [] | Some t \<Rightarrow> t)"

text \<open>A caught \<open>OSError\<close> is only warned about.\<close>

definition warn_or_raise :: "exn \<Rightarrow> unit result" where
  "warn_or_raise x = (if is_os_error x then Inr () else Inl x)"

definition jsonl_append :: "runtime \<Rightarrow> audit_event \<Rightarrow> jsonl \<Rightarrow> unit result \<times> jsonl" where
  "jsonl_append rt e j =
     (let j1 = j\<lparr>jl_memory := jl_memory j @ [e]\<rparr> in
      case jl_fault j of
        Open_Fails x \<Rightarrow> (warn_or_raise x, j1)
      | f \<Rightarrow>
          (let text = file_text (jl_file j);
               written = (\<lambda>s. j1\<lparr>jl_file := Some (text @ s)\<rparr>)
           in case event_to_dict rt e of
                Inl x \<Rightarrow> (warn_or_raise x, written [])
              | Inr d \<Rightarrow>
                  (case rt_dump_line rt (PDict d) of
                     Inl x \<Rightarrow> (warn_or_raise x, written [])
                   | Inr line \<Rightarrow>
                       (case f of
                          Write_Fails n x \<Rightarrow> (warn_or_raise x, written (take n (line @ nl)))
                        | _ \<Rightarrow> (Inr (), written (line @ nl))))))"

subsection \<open>The logger\<close>

datatype audit_backend = InMemory "audit_event list" | Jsonl jsonl

definition logger_init :: "runtime \<Rightarrow> exn option \<Rightarrow> exn option \<Rightarrow> string option option \<Rightarrow> audit_backend result" where
  "logger_init rt mkdir_error read_error log_path =
     (case log_path of
        None \<Rightarrow> Inr (InMemory [])
      | Some file \<Rightarrow> (case jsonl_init rt mkdir_error read_error file of
                        Inl x \<Rightarrow> Inl x | Inr j \<Rightarrow> Inr (Jsonl j)))"

fun backend_append :: "runtime \<Rightarrow> audit_event \<Rightarrow> audit_backend \<Rightarrow> unit result \<times> audit_backend" where
  "backend_append rt e (InMemory es) = (Inr (), InMemory (es @ [e]))"
| "backend_append rt e (Jsonl j) = (let (r, j') = jsonl_append rt e j in (r, Jsonl j'))"

fun all_events :: "audit_backend \<Rightarrow> audit_event list" where
  "all_events (InMemory es) = es"
| "all_events (Jsonl j) = jl_memory j"

text \<open>\<open>record(event)\<close>; the left injection is a value that is not an event.\<close>

definition record_event ::
  "runtime \<Rightarrow> pyval + audit_event \<Rightarrow> audit_backend \<Rightarrow> unit result \<times> audit_backend" where
  "record_event rt v b =
     (case v of
        Inl other \<Rightarrow>
          (Inl (Exn ''ValueError'' (''Expected SecurityAuditEvent, got '' @ type_name other)), b)
      | Inr e \<Rightarrow> backend_append rt e b)"

definition find_by_execution :: "string \<Rightarrow> audit_backend \<Rightarrow> audit_event list" where
  "find_by_execution execution_id b =
     filter (\<lambda>e. ae_execution_id e = PStr execution_id) (all_events b)"

text \<open>A generator expression whose condition may raise\<close>

fun filter_result :: "('a \<Rightarrow> bool result) \<Rightarrow> 'a list \<Rightarrow> 'a list result" where
  "filter_result p [] = Inr []"
| "filter_result p (x # xs) =
     (case p x of Inl e \<Rightarrow> Inl e
      | Inr b \<Rightarrow> (case filter_result p xs of Inl e \<Rightarrow> Inl e
                  | Inr ys \<Rightarrow> Inr (if b then x # ys else ys)))"

definition mentions_artifact :: "string \<Rightarrow> audit_event \<Rightarrow> bool result" where
  "mentions_artifact aid e =
     (case result_get (ae_metadata e) ''artifact_id'' PNone of Inl x \<Rightarrow> Inl x
      | Inr v \<Rightarrow> if v = PStr aid then Inr True
        else (case py_contains (ae_action e) aid of Inl x \<Rightarrow> Inl x
              | Inr True \<Rightarrow> Inr True
              | Inr False \<Rightarrow> py_contains (ae_reason e) aid))"

definition find_by_artifact :: "string \<Rightarrow> audit_backend \<Rightarrow> audit_event list result" where
  "find_by_artifact aid b = filter_result (mentions_artifact aid) (all_events b)"

definition find_by_type :: "security_event_type \<Rightarrow> audit_backend \<Rightarrow> audit_event list" where
  "find_by_type t b = filter (\<lambda>e. ae_event_type e = t) (all_events b)"

definition event_count :: "audit_backend \<Rightarrow> nat" where
  "event_count b = length (all_events b)"

subsection \<open>The append-only interface\<close>

text \<open>
  What every audit backend promises its callers, and what follows for any sequence of
  recordings: an item is an event together with what writing it meets.
\<close>

locale append_only =
  fixes append :: "'x \<Rightarrow> 'b \<Rightarrow> unit result \<times> 'b"
    and event_of :: "'x \<Rightarrow> 'e"
    and events :: "'b \<Rightarrow> 'e list"
  assumes appended: "events (snd (append x b)) = events b @ [event_of x]"
begin

lemma appended_all:
  "events (fold (\<lambda>x b. snd (append x b)) xs b) = events b @ map event_of xs"
  by (induction xs arbitrary: b) (simp_all add: appended)

lemma query_all:
  "filter P (events (fold (\<lambda>x b. snd (append x b)) xs b))
     = filter P (events b) @ filter P (map event_of xs)"
  by (simp add: appended_all)

end

fun set_fault :: "write_fault \<Rightarrow> audit_backend \<Rightarrow> audit_backend" where
  "set_fault f (InMemory es) = InMemory es"
| "set_fault f (Jsonl j) = Jsonl (j\<lparr>jl_fault := f\<rparr>)"

definition record_facing ::
  "runtime \<Rightarrow> write_fault \<times> audit_event \<Rightarrow> audit_backend \<Rightarrow> unit result \<times> audit_backend" where
  "record_facing rt x b = record_event rt (Inr (snd x)) (set_fault (fst x) b)"

lemma jsonl_append_memory [simp]: "jl_memory (snd (jsonl_append rt e j)) = jl_memory j @ [e]"
  by (simp add: jsonl_append_def Let_def split: write_fault.split sum.split)

lemma backend_append_events [simp]: "all_events (snd (backend_append rt e b)) = all_events b @ [e]"
  by (cases b) (simp_all add: split_beta)

lemma set_fault_events [simp]: "all_events (set_fault f b) = all_events b"
  by (cases b) simp_all

interpretation jl: append_only "jsonl_append rt" "\<lambda>e. e" jl_memory for rt
  by unfold_locales simp

interpretation lg: append_only "record_facing rt" snd all_events for rt
  by unfold_locales (simp add: record_facing_def record_event_def)

subsection \<open>Properties\<close>

text \<open>SecurityAuditLogger is append-only: whatever the writes of its file meet, a sequence of recorded
  events ends up after the events already there, all of them, in order and unchanged, and the
  queries by execution and type and the count see exactly these. A value that is not an event is
  refused with a ValueError and changes nothing.\<close>

theorem audit_log_append_only:
  "let b' = fold (\<lambda>x b. snd (record_facing rt x b)) xs b in
     all_events b' = all_events b @ map snd xs
     \<and> find_by_execution eid b'
         = find_by_execution eid b @ filter (\<lambda>e. ae_execution_id e = PStr eid) (map snd xs)
     \<and> find_by_type t b' = find_by_type t b @ filter (\<lambda>e. ae_event_type e = t) (map snd xs)
     \<and> event_count b' = event_count b + length xs
     \<and> (case record_event rt (Inl v) b of
          (Inl e, b2) \<Rightarrow> exn_type e = ''ValueError'' \<and> b2 = b | (Inr _, _) \<Rightarrow> False)"
  unfolding find_by_execution_def find_by_type_def event_count_def Let_def lg.appended_all
  by (simp add: record_event_def)

subsection \<open>Reading the file back\<close>

lemma file_lines_split:
  "xs \<noteq> [] \<Longrightarrow> is_newline (last xs) \<Longrightarrow> file_lines acc (xs @ ys) = file_lines acc xs @ file_lines [] ys"
proof (induction xs arbitrary: acc)
  case Nil
  then show ?case by simp
next
  case (Cons c cs)
  then show ?case by (cases "cs = []") auto
qed

lemma file_lines_line:
  "list_all (\<lambda>c. \<not> is_newline c) line \<Longrightarrow> file_lines acc (line @ nl) = [acc @ line]"
  by (induction line arbitrary: acc) (simp_all add: nl_def is_newline_def)

definition ends_line :: "string \<Rightarrow> bool" where
  "ends_line t \<longleftrightarrow> t = [] \<or> is_newline (last t)"

lemma replay_line_end:
  "ends_line t \<Longrightarrow> list_all (\<lambda>c. \<not> is_newline c) line
     \<Longrightarrow> replay rt (t @ line @ nl) = replay rt t @ replay_line rt line"
  by (cases "t = []") (simp_all add: replay_def ends_line_def file_lines_split file_lines_line)

lemma event_roundtrip:
  assumes "event_to_dict rt e = Inr d" "ae_metadata e = PDict md"
    and "rt_fromiso rt (rt_iso rt (ae_timestamp e)) = Inr (ae_timestamp e)"
  shows "event_from_dict rt (PDict d) = Inr e"
proof -
  have t: "event_type_of rt (PStr (event_type_value t)) = Inr t" for t
    by (cases t) (simp_all add: event_type_of_def all_event_types_def)
  have s: "security_severity_of rt (PStr (security_severity_value v)) = Inr v" for v
    by (cases v) (simp_all add: security_severity_of_def)
  show ?thesis
    using assms
    by (auto simp: event_to_dict_def as_dict_def event_from_dict_def json_item_def json_get_def
        datetime_of_def t s)
qed

text \<open>
  What is assumed of \<open>json\<close> and \<open>datetime\<close> for one event: the dump is one line of text without
  surrounding space that loads as the same document, and the date's text reads back.
\<close>

definition json_ok :: "runtime \<Rightarrow> audit_event \<Rightarrow> bool" where
  "json_ok rt e \<longleftrightarrow>
     (case ae_metadata e of PDict _ \<Rightarrow> True | _ \<Rightarrow> False)
     \<and> rt_fromiso rt (rt_iso rt (ae_timestamp e)) = Inr (ae_timestamp e)
     \<and> (case event_to_dict rt e of Inl _ \<Rightarrow> False | Inr d \<Rightarrow>
          (case rt_dump_line rt (PDict d) of Inl _ \<Rightarrow> False | Inr line \<Rightarrow>
             rt_loads rt line = Inr (PDict d) \<and> line \<noteq> [] \<and> py_strip line = line
             \<and> list_all (\<lambda>c. \<not> is_newline c) line))"

lemma jsonl_append_ok:
  assumes "json_ok rt e" "jl_fault j = No_Fault" "ends_line t" "t = file_text (jl_file j)"
  shows "\<exists>t'. jsonl_append rt e j = (Inr (), j\<lparr>jl_memory := jl_memory j @ [e], jl_file := Some t'\<rparr>)
     \<and> ends_line t' \<and> replay rt t' = replay rt t @ [e]"
proof -
  obtain md where md: "ae_metadata e = PDict md"
    using assms(1) by (auto simp: json_ok_def split: pyval.splits)
  obtain d where d: "event_to_dict rt e = Inr d" using md by (simp add: event_to_dict_def as_dict_def)
  obtain line where l: "rt_dump_line rt (PDict d) = Inr line" "rt_loads rt line = Inr (PDict d)"
    "line \<noteq> []" "py_strip line = line" "list_all (\<lambda>c. \<not> is_newline c) line"
    using assms(1) d by (auto simp: json_ok_def split: sum.splits)
  have "event_from_dict rt (PDict d) = Inr e"
    using event_roundtrip [OF d md] assms(1) by (simp add: json_ok_def)
  then have "replay rt (t @ line @ nl) = replay rt t @ [e]"
    using l replay_line_end [OF assms(3) l(5), of rt] by (simp add: replay_line_def)
  moreover have "ends_line (t @ line @ nl)" by (simp add: ends_line_def nl_def is_newline_def)
  ultimately show ?thesis
    using d l(1) assms(2,4) by (intro exI [of _ "t @ line @ nl"]) (simp add: jsonl_append_def Let_def)
qed

lemma jsonl_append_all:
  assumes "list_all (json_ok rt) es" "jl_fault j = No_Fault" "ends_line t"
    "t = file_text (jl_file j)"
  shows "replay rt (file_text (jl_file (fold (\<lambda>e j. snd (jsonl_append rt e j)) es j))) = replay rt t @ es"
  using assms
proof (induction es arbitrary: j t)
  case Nil
  then show ?case by simp
next
  case (Cons e es)
  obtain t1 where t1: "snd (jsonl_append rt e j) = j\<lparr>jl_memory := jl_memory j @ [e], jl_file := Some t1\<rparr>"
    "ends_line t1" "replay rt t1 = replay rt t @ [e]"
    using jsonl_append_ok [of rt e j t] Cons.prems by auto
  from Cons.IH [of "j\<lparr>jl_memory := jl_memory j @ [e], jl_file := Some t1\<rparr>" t1] Cons.prems t1
  show ?case by (simp add: file_text_def)
qed

text \<open>
  The last line of a file when no newline ends it, what precedes it, and the line that an event is
  dumped to
\<close>

definition torn_line :: "string \<Rightarrow> string" where
  "torn_line t = rev (takeWhile (\<lambda>c. \<not> is_newline c) (rev t))"

definition whole_lines :: "string \<Rightarrow> string" where
  "whole_lines t = rev (dropWhile (\<lambda>c. \<not> is_newline c) (rev t))"

definition dumped :: "runtime \<Rightarrow> audit_event \<Rightarrow> string" where
  "dumped rt e =
     (case event_to_dict rt e of Inl _ \<Rightarrow> [] | Inr d \<Rightarrow> (case rt_dump_line rt (PDict d) of Inl _ \<Rightarrow> [] | Inr line \<Rightarrow> line))"

text \<open>
  What a reopened log reads after further events were recorded: on a torn last line the first of
  them continues that line, and the two are read as one.
\<close>

definition read_back :: "runtime \<Rightarrow> string \<Rightarrow> audit_event list \<Rightarrow> audit_event list" where
  "read_back rt t es =
     (if torn_line t = [] then replay rt t @ es
      else (case es of
              [] \<Rightarrow> replay rt t
            | e # later \<Rightarrow> replay rt (whole_lines t) @ replay_line rt (torn_line t @ dumped rt e) @ later))"

lemma torn_split: "whole_lines t @ torn_line t = t"
proof -
  have "rev (takeWhile (\<lambda>c. \<not> is_newline c) (rev t) @ dropWhile (\<lambda>c. \<not> is_newline c) (rev t)) = t"
    by simp
  then show ?thesis by (simp only: rev_append whole_lines_def torn_line_def)
qed

lemma whole_ends: "ends_line (whole_lines t)"
proof (cases "dropWhile (\<lambda>c. \<not> is_newline c) (rev t)")
  case (Cons c cs)
  then have "is_newline c" by (simp add: dropWhile_eq_Cons_conv)
  with Cons show ?thesis by (simp add: ends_line_def whole_lines_def)
qed (simp add: ends_line_def whole_lines_def)

lemma torn_no_newline: "list_all (\<lambda>c. \<not> is_newline c) (torn_line t)"
  by (auto simp: torn_line_def list_all_iff dest: set_takeWhileD)

lemma not_torn: "torn_line t = [] \<Longrightarrow> ends_line t"
  using torn_split [of t] whole_ends [of t] by simp

lemma dumped_ok:
  assumes "json_ok rt e"
  shows "list_all (\<lambda>c. \<not> is_newline c) (dumped rt e)"
    and "jl_fault j = No_Fault \<Longrightarrow>
      jsonl_append rt e j = (Inr (), j\<lparr>jl_memory := jl_memory j @ [e], jl_file := Some (file_text (jl_file j) @ dumped rt e @ nl)\<rparr>)"
  using assms by (auto simp: json_ok_def dumped_def jsonl_append_def Let_def split: sum.splits pyval.splits)

lemma reads_back:
  assumes "list_all (json_ok rt) es" "jl_fault j = No_Fault"
  shows "replay rt (file_text (jl_file (fold (\<lambda>e j. snd (jsonl_append rt e j)) es j))) = read_back rt (file_text (jl_file j)) es"
proof (cases "torn_line (file_text (jl_file j)) = []")
  case True
  with jsonl_append_all [OF assms not_torn [OF True] refl] show ?thesis by (simp add: read_back_def)
next
  case torn: False
  show ?thesis
  proof (cases es)
    case Nil
    with torn show ?thesis by (simp add: read_back_def)
  next
    case (Cons e later)
    let ?t = "file_text (jl_file j)"
    define j1 where "j1 = j\<lparr>jl_memory := jl_memory j @ [e], jl_file := Some (?t @ dumped rt e @ nl)\<rparr>"
    have e: "json_ok rt e" and later: "list_all (json_ok rt) later" using assms(1) Cons by auto
    have line: "list_all (\<lambda>c. \<not> is_newline c) (torn_line ?t @ dumped rt e)"
      using torn_no_newline dumped_ok(1) [OF e] by simp
    have joined: "file_text (jl_file j1) = whole_lines ?t @ (torn_line ?t @ dumped rt e) @ nl"
      using torn_split [of ?t] by (simp add: j1_def file_text_def flip: append_assoc)
    have "ends_line (file_text (jl_file j1))"
      by (simp add: j1_def file_text_def ends_line_def nl_def is_newline_def)
    from jsonl_append_all [OF later _ this refl] assms(2)
    have "replay rt (file_text (jl_file (fold (\<lambda>e j. snd (jsonl_append rt e j)) later j1))) = replay rt (file_text (jl_file j1)) @ later"
      by (simp add: j1_def)
    also have "replay rt (file_text (jl_file j1)) = replay rt (whole_lines ?t) @ replay_line rt (torn_line ?t @ dumped rt e)"
      unfolding joined by (rule replay_line_end [OF whole_ends line])
    finally show ?thesis
      using Cons torn dumped_ok(2) [OF e assms(2)] by (simp add: read_back_def j1_def)
  qed
qed

lemma init_replays: "\<exists>j. jsonl_init rt None None text' = Inr j \<and> jl_memory j = replay rt (file_text text')"
  by (cases text') (simp_all add: jsonl_init_def replay_def file_text_def)

text \<open>
  C13: A SecurityAuditLogger reopened on the file of another one has that one's whole log - the events
  that were in the file when the first was opened, and after them every event it recorded, in order -
  provided that the file it found ended with a newline. On a file whose last line was torn the first
  new event is appended to that line, and the reopened log has whatever the two read as together,
  nothing unless that is a document, and every event after it. The writes are assumed to succeed, and
  JSON and dates to read back as they were written.
\<close>

theorem audit_log_survives_restart:
  assumes "jsonl_init rt None None old = Inr j"
    and "list_all (json_ok rt) es"
  shows "let j1 = fold (\<lambda>e j. snd (jsonl_append rt e j)) es j in
     case jsonl_init rt None None (jl_file j1) of
       Inl _ \<Rightarrow> False
     | Inr j2 \<Rightarrow>
         jl_memory j1 = jl_memory j @ es
         \<and> jl_memory j2 = (if torn_line (file_text old) = [] then jl_memory j1 else read_back rt (file_text old) es)"
proof -
  have j: "jl_memory j = replay rt (file_text old)" "jl_file j = old" "jl_fault j = No_Fault"
    using assms(1) by (auto simp: jsonl_init_def replay_def file_text_def split: option.splits)
  define j1 where "j1 = fold (\<lambda>e j. snd (jsonl_append rt e j)) es j"
  have "replay rt (file_text (jl_file j1)) = read_back rt (file_text old) es"
    using reads_back [OF assms(2) j(3)] j(2) by (simp add: j1_def)
  moreover have "jl_memory j1 = jl_memory j @ es" using jl.appended_all [of rt es j] by (simp add: j1_def)
  moreover obtain j2 where "jsonl_init rt None None (jl_file j1) = Inr j2" "jl_memory j2 = replay rt (file_text (jl_file j1))"
    using init_replays by blast
  ultimately show ?thesis
    unfolding Let_def j1_def [symmetric] using j(1) by (simp add: read_back_def)
qed

text \<open>Two events without metadata texts, over a JSON that knows their documents.\<close>

definition demo_event :: "nat \<Rightarrow> audit_event" where
  "demo_event n = fst (mk_event INTEGRITY_CHECK_FAILED ''e'' ''c'' S_HIGH ''a'' ''r'' []
     (demo_env\<lparr>ticks := n, uuids_used := n\<rparr>))"

definition demo_audit_rt :: runtime where
  "demo_audit_rt = demo_rt\<lparr>rt_iso := (\<lambda>t. if t = 0 then ''0'' else ''1''),
     rt_fromiso := (\<lambda>s. Inr (if s = ''0'' then 0 else 1)),
     rt_dump_line := (\<lambda>v. Inr (if event_to_dict (demo_rt\<lparr>rt_iso := (\<lambda>t. if t = 0 then ''0'' else ''1'')\<rparr>)
         (demo_event 0) = (case v of PDict d \<Rightarrow> Inr d | _ \<Rightarrow> Inr []) then ''{a}'' else ''{b}'')),
     rt_loads := (\<lambda>s. case event_to_dict (demo_rt\<lparr>rt_iso := (\<lambda>t. if t = 0 then ''0'' else ''1'')\<rparr>)
         (demo_event (if s = ''{a}'' then 0 else 1)) of Inl x \<Rightarrow> Inl x | Inr d \<Rightarrow> Inr (PDict d))\<rparr>"

lemma demo_json_ok: "list_all (json_ok demo_audit_rt) [demo_event 0, demo_event 1]"
  by (simp add: json_ok_def event_to_dict_def as_dict_def demo_audit_rt_def demo_rt_def demo_event_def
      mk_event_def demo_env_def utc_now_def uuid4_def py_strip_def is_space_def is_newline_def)

theorem audit_log_survives_restart_witness:
  "\<exists>j. jsonl_init demo_audit_rt None None None = Inr j \<and>
     (let j1 = fold (\<lambda>e j. snd (jsonl_append demo_audit_rt e j)) [demo_event 0, demo_event 1] j in
      case jsonl_init demo_audit_rt None None (jl_file j1) of
        Inl _ \<Rightarrow> False | Inr j2 \<Rightarrow> jl_memory j2 = [demo_event 0, demo_event 1])"
proof -
  obtain j where j: "jsonl_init demo_audit_rt None None None = Inr j" "jl_memory j = []"
    by (simp add: jsonl_init_def)
  have "torn_line (file_text None) = []" by (simp add: torn_line_def file_text_def)
  with audit_log_survives_restart [OF j(1) demo_json_ok] j show ?thesis
    by (auto simp: Let_def split: sum.splits)
qed

end
