(* ===== verification/Security.thy ===== *)
theory Security
  imports AuditLog
begin

text \<open>
  \<open>SecurityRecoveryManager\<close> (\<open>core/security/recovery.py\<close>): the response to a failed integrity
  check. Every action is an event of the audit log; recording can raise only what the log's
  backend raises.
\<close>

subsection \<open>Records\<close>

record quarantine_entry =
  qe_artifact_id :: string
  qe_artifact_path :: string
  qe_reason :: string
  qe_quarantined_at :: int
  qe_execution_id :: string
  qe_integrity_status :: string
  qe_audit_event_id :: pyval

definition quarantine_to_dict :: "runtime \<Rightarrow> quarantine_entry \<Rightarrow> dict" where
  "quarantine_to_dict rt q =
     [(''artifact_id'', PStr (qe_artifact_id q)), (''artifact_path'', PStr (qe_artifact_path q)),
      (''quarantine_reason'', PStr (qe_reason q)),
      (''quarantined_at'', PStr (rt_iso rt (qe_quarantined_at q))),
      (''execution_id'', PStr (qe_execution_id q)),
      (''integrity_status'', PStr (qe_integrity_status q)),
      (''audit_event_id'', qe_audit_event_id q)]"

record security_decision =
  sd_execution_id :: string
  sd_recommended_action :: string
  sd_artifact_id :: string
  sd_trusted_checkpoint_id :: "string option"
  sd_rationale :: string
  sd_requires_human_review :: bool
  sd_audit_event_id :: pyval

definition security_decision_to_dict :: "security_decision \<Rightarrow> dict" where
  "security_decision_to_dict d =
     [(''execution_id'', PStr (sd_execution_id d)),
      (''recommended_action'', PStr (sd_recommended_action d)),
      (''artifact_id'', PStr (sd_artifact_id d)),
      (''trusted_checkpoint_id'', opt_str (sd_trusted_checkpoint_id d)),
      (''rationale'', PStr (sd_rationale d)),
      (''requires_human_review'', PBool (sd_requires_human_review d)),
      (''audit_event_id'', sd_audit_event_id d)]"

record security =
  sc_log :: audit_backend
  sc_quarantine :: "quarantine_entry list"
  sc_env :: env

definition component_name :: string where
  "component_name = ''SecurityRecoveryManager''"

text \<open>\<open>self.audit_logger.record(SecurityAuditEvent(..))\<close>\<close>

definition log_event ::
  "runtime \<Rightarrow> security_event_type \<Rightarrow> string \<Rightarrow> security_severity \<Rightarrow> string \<Rightarrow> string \<Rightarrow> dict
     \<Rightarrow> security \<Rightarrow> audit_event result \<times> security" where
  "log_event rt t eid sev action reason metadata s =
     (let (ev, e) = mk_event t eid component_name sev action reason metadata (sc_env s);
          (r, b) = record_event rt (Inr ev) (sc_log s);
          s' = s\<lparr>sc_log := b, sc_env := e\<rparr>
      in case r of Inl x \<Rightarrow> (Inl x, s') | Inr _ \<Rightarrow> (Inr ev, s'))"

subsection \<open>Helpers\<close>

definition map_severity :: "integrity_status \<Rightarrow> security_severity" where
  "map_severity st =
     (if st = I_FAILED then S_CRITICAL else if st = I_NO_MANIFEST then S_WARNING
      else if st = I_ARTIFACT_MISSING then S_HIGH else S_INFO)"

definition quarantine_artifact ::
  "runtime \<Rightarrow> string \<Rightarrow> string \<Rightarrow> string \<Rightarrow> string \<Rightarrow> string \<Rightarrow> pyval \<Rightarrow> security
     \<Rightarrow> quarantine_entry result \<times> security" where
  "quarantine_artifact rt aid path reason eid st audit_id s =
     (let (now, e) = utc_now (sc_env s);
          q = \<lparr>qe_artifact_id = aid, qe_artifact_path = path, qe_reason = reason,
               qe_quarantined_at = now, qe_execution_id = eid, qe_integrity_status = st,
               qe_audit_event_id = audit_id\<rparr>
      in case log_event rt ARTIFACT_QUARANTINED eid S_HIGH
              (''Artifact '' @ sq aid @ '' recorded as quarantined (metadata only).'')
              ''No automatic file deletion or credential revocation. Human review required for destructive action.''
              [(''artifact_id'', PStr aid), (''artifact_path'', PStr path),
               (''integrity_status'', PStr st), (''quarantine_audit_event_id'', audit_id)]
              (s\<lparr>sc_quarantine := sc_quarantine s @ [q], sc_env := e\<rparr>) of
           (Inl x, s1) \<Rightarrow> (Inl x, s1)
         | (Inr _, s1) \<Rightarrow> (Inr q, s1))"

definition find_trusted_checkpoint :: "manager \<Rightarrow> string \<Rightarrow> string option" where
  "find_trusted_checkpoint m eid =
     (let all = cm_list m;
          scoped = filter (\<lambda>c. ck_execution_id c = eid) all;
          candidates = (if scoped \<noteq> [] then scoped else all)
      in map_option ck_checkpoint_id (select_trusted_checkpoint candidates))"

definition make_decision ::
  "integrity_result \<Rightarrow> string \<Rightarrow> string \<Rightarrow> string option \<Rightarrow> pyval \<Rightarrow> security_decision" where
  "make_decision ir eid aid trusted fail_event_id =
     (let a = sq aid; t = sq (fmt_opt trusted);
          (action, rationale) =
            (if ir_status ir = I_FAILED then
               (if truthy_str trusted then
                  (''quarantine_and_rollback'',
                   ''Artifact '' @ a @ '' has a checksum mismatch '' @ em_dash
                   @ '' it may have been modified. Quarantine recorded. Trusted checkpoint '' @ t
                   @ '' is available for rollback. Human authorization required before rollback executes.'')
                else
                  (''quarantine_manual_review'',
                   ''Artifact '' @ a @ '' has a checksum mismatch and no trusted checkpoint is available. ''
                   @ ''Manual review and human authorization required before any recovery action.''))
             else if ir_status ir = I_NO_MANIFEST then
               (if truthy_str trusted then
                  (''rollback_to_trusted'',
                   ''Artifact '' @ a @ '' has no integrity manifest (legacy artifact). It cannot be verified. ''
                   @ ''Trusted checkpoint '' @ t @ '' is available as a safer alternative.'')
                else
                  (''block_and_review'',
                   ''Artifact '' @ a @ '' is unverified and no trusted checkpoint exists. ''
                   @ ''Cannot proceed safely without human review.''))
             else
               (''block_and_review'',
                ''Unexpected integrity status '' @ sq (integrity_status_value (ir_status ir))
                @ '' for '' @ a @ ''. Blocking recovery until human review clears the artifact.''))
      in \<lparr>sd_execution_id = eid, sd_recommended_action = action, sd_artifact_id = aid,
          sd_trusted_checkpoint_id = trusted, sd_rationale = rationale,
          sd_requires_human_review = True, sd_audit_event_id = fail_event_id\<rparr>)"

subsection \<open>Entry points\<close>

definition handle_integrity_failure ::
  "runtime \<Rightarrow> integrity_result \<Rightarrow> string \<Rightarrow> string \<Rightarrow> manager option \<Rightarrow> security
     \<Rightarrow> security_decision result \<times> security" where
  "handle_integrity_failure rt ir eid aid cm s0 =
     (let st = integrity_status_value (ir_status ir) in
      case log_event rt INTEGRITY_CHECK_FAILED eid (map_severity (ir_status ir))
             (''Integrity check failed for artifact '' @ sq aid) (ir_reason ir)
             [(''artifact_id'', PStr aid), (''artifact_path'', PStr (ir_artifact_path ir)),
              (''status'', PStr st), (''expected_checksum'', ir_expected_checksum ir),
              (''actual_checksum'', opt_str (ir_actual_checksum ir))] s0 of
        (Inl x, s1) \<Rightarrow> (Inl x, s1)
      | (Inr fail, s1) \<Rightarrow>
          (case quarantine_artifact rt aid (ir_artifact_path ir) (ir_reason ir) eid st (ae_event_id fail) s1 of
             (Inl x, s2) \<Rightarrow> (Inl x, s2)
           | (Inr q, s2) \<Rightarrow>
               (let trusted = (case cm of None \<Rightarrow> None | Some m \<Rightarrow> find_trusted_checkpoint m eid);
                    d = make_decision ir eid aid trusted (ae_event_id fail)
                in case log_event rt SECURITY_AUDIT_RECORDED eid S_INFO
                        (''Security decision recorded: '' @ sd_recommended_action d) (sd_rationale d)
                        [(''artifact_id'', PStr aid),
                         (''recommended_action'', PStr (sd_recommended_action d)),
                         (''trusted_checkpoint_id'', opt_str trusted),
                         (''requires_human_review'', PBool (sd_requires_human_review d)),
                         (''quarantine_audit_event_id'', qe_audit_event_id q)] s2 of
                     (Inl x, s3) \<Rightarrow> (Inl x, s3)
                   | (Inr _, s3) \<Rightarrow> (Inr d, s3))))"

definition sc_select_trusted ::
  "runtime \<Rightarrow> checkpoint list \<Rightarrow> string \<Rightarrow> security \<Rightarrow> checkpoint option result \<times> security" where
  "sc_select_trusted rt checkpoints eid s =
     (let trusted = select_trusted_checkpoint checkpoints;
          (r, s1) =
            (case trusted of
               Some c \<Rightarrow>
                 log_event rt TRUSTED_CHECKPOINT_SELECTED eid S_INFO
                   (''Trusted checkpoint selected: '' @ ck_checkpoint_id c)
                   ''Checkpoint is structurally valid and integrity verified.''
                   [(''checkpoint_id'', PStr (ck_checkpoint_id c))] s
             | None \<Rightarrow>
                 log_event rt UNTRUSTED_CHECKPOINT_REJECTED eid S_WARNING
                   ''No trusted checkpoint found among candidates.''
                   ''All candidates failed integrity or structural checks.''
                   [(''candidate_count'', PInt (int (length checkpoints)))] s)
      in case r of Inl x \<Rightarrow> (Inl x, s1) | Inr _ \<Rightarrow> (Inr trusted, s1))"

subsection \<open>Facts\<close>

lemma log_event_ok:
  assumes "log_event rt t eid sev a r md s = (res, s')"
  shows "\<exists>ev. all_events (sc_log s') = all_events (sc_log s) @ [ev] \<and> ae_event_type ev = t
     \<and> ae_execution_id ev = PStr eid \<and> (\<forall>ev'. res = Inr ev' \<longrightarrow> ev' = ev)
     \<and> sc_quarantine s' = sc_quarantine s
     \<and> (\<forall>es. sc_log s = InMemory es \<longrightarrow> res = Inr ev \<and> sc_log s' = InMemory (es @ [ev]))"
proof -
  obtain ev e where ev: "mk_event t eid component_name sev a r md (sc_env s) = (ev, e)" by fastforce
  obtain q b where b: "backend_append rt ev (sc_log s) = (q, b)" by fastforce
  have "all_events b = all_events (sc_log s) @ [ev]" using backend_append_events [of rt ev "sc_log s"] b by simp
  moreover have "ae_event_type ev = t" "ae_execution_id ev = PStr eid"
    using ev by (auto simp: mk_event_def Let_def split_beta)
  ultimately show ?thesis
    using assms ev b
    by (intro exI [of _ ev]) (auto simp: log_event_def record_event_def Let_def split: sum.splits)
qed

lemma quarantine_ok:
  assumes "quarantine_artifact rt aid path reason eid st audit_id s = (res, s')"
  shows "\<exists>ev q. all_events (sc_log s') = all_events (sc_log s) @ [ev]
     \<and> ae_event_type ev = ARTIFACT_QUARANTINED \<and> ae_execution_id ev = PStr eid
     \<and> sc_quarantine s' = sc_quarantine s @ [q] \<and> qe_artifact_id q = aid \<and> qe_audit_event_id q = audit_id
     \<and> (\<forall>q'. res = Inr q' \<longrightarrow> q' = q)
     \<and> (\<forall>es. sc_log s = InMemory es \<longrightarrow> res = Inr q \<and> sc_log s' = InMemory (es @ [ev]))"
proof -
  obtain now e where e: "utc_now (sc_env s) = (now, e)" by fastforce
  define q where "q = \<lparr>qe_artifact_id = aid, qe_artifact_path = path, qe_reason = reason,
               qe_quarantined_at = now, qe_execution_id = eid, qe_integrity_status = st,
               qe_audit_event_id = audit_id\<rparr>"
  let ?s = "s\<lparr>sc_quarantine := sc_quarantine s @ [q], sc_env := e\<rparr>"
  obtain r s1 where l: "log_event rt ARTIFACT_QUARANTINED eid S_HIGH
              (''Artifact '' @ sq aid @ '' recorded as quarantined (metadata only).'')
              ''No automatic file deletion or credential revocation. Human review required for destructive action.''
              [(''artifact_id'', PStr aid), (''artifact_path'', PStr path),
               (''integrity_status'', PStr st), (''quarantine_audit_event_id'', audit_id)] ?s = (r, s1)"
    by fastforce
  have res: "(res, s') = (case r of Inl x \<Rightarrow> (Inl x, s1) | Inr _ \<Rightarrow> (Inr q, s1))"
    using assms unfolding quarantine_artifact_def Let_def e prod.case q_def [symmetric] l
    by (simp split: sum.splits)
  from log_event_ok [OF l] obtain ev where ev: "all_events (sc_log s1) = all_events (sc_log s) @ [ev]"
    "ae_event_type ev = ARTIFACT_QUARANTINED" "ae_execution_id ev = PStr eid"
    "sc_quarantine s1 = sc_quarantine s @ [q]"
    "\<And>es. sc_log s = InMemory es \<Longrightarrow> r = Inr ev \<and> sc_log s1 = InMemory (es @ [ev])"
    by auto
  then show ?thesis
    using res by (intro exI [of _ ev] exI [of _ q]) (auto simp: q_def split: sum.splits)
qed

text \<open>The policy table\<close>

definition security_policy :: "integrity_status \<Rightarrow> bool \<Rightarrow> string" where
  "security_policy st has_trusted =
     (case st of
        I_FAILED \<Rightarrow> if has_trusted then ''quarantine_and_rollback'' else ''quarantine_manual_review''
      | I_NO_MANIFEST \<Rightarrow> if has_trusted then ''rollback_to_trusted'' else ''block_and_review''
      | _ \<Rightarrow> ''block_and_review'')"

lemma select_trusted_member:
  "select_trusted_checkpoint cs = Some c \<Longrightarrow>
     c \<in> set cs \<and> tr_trusted (assess_checkpoint_trust (Some c))
     \<and> list_all (\<lambda>d. if tr_trusted (assess_checkpoint_trust (Some d))
                     then ck_created_at d \<le> ck_created_at c else True) cs"
  unfolding select_trusted_checkpoint_def by (drule py_max_Some) (simp add: list_all_iff)

lemma find_trusted_truthy:
  "truthy_str (find_trusted_checkpoint m eid) \<longleftrightarrow> find_trusted_checkpoint m eid \<noteq> None"
  by (auto simp: find_trusted_checkpoint_def Let_def trusted_iff py_defs split: option.splits
      dest!: select_trusted_member)

lemma make_decision_policy:
  "sd_recommended_action (make_decision ir eid aid t x) = security_policy (ir_status ir) (truthy_str t)
   \<and> sd_requires_human_review (make_decision ir eid aid t x)
   \<and> sd_trusted_checkpoint_id (make_decision ir eid aid t x) = t
   \<and> sd_audit_event_id (make_decision ir eid aid t x) = x"
  by (cases "ir_status ir") (simp_all add: make_decision_def security_policy_def Let_def)

text \<open>The checkpoint that a decision may name: newest trusted of the run, or of the store if the run has none.\<close>

definition rollback_target :: "manager \<Rightarrow> string \<Rightarrow> checkpoint option" where
  "rollback_target m eid =
     select_trusted_checkpoint
       (if list_ex (\<lambda>c. ck_execution_id c = eid) (cm_list m)
        then filter (\<lambda>c. ck_execution_id c = eid) (cm_list m) else cm_list m)"

lemma find_trusted_target: "find_trusted_checkpoint m eid = map_option ck_checkpoint_id (rollback_target m eid)"
  by (simp add: find_trusted_checkpoint_def rollback_target_def Let_def filter_empty_conv list_ex_iff)

text \<open>The cases of a call: where recording raised, if it did.\<close>

lemma handle_integrity_cases:
  assumes "handle_integrity_failure rt ir eid aid cm s = (res, s')"
  shows "\<exists>new. all_events (sc_log s') = all_events (sc_log s) @ new
     \<and> list_all (\<lambda>e. ae_execution_id e = PStr eid) new
     \<and> (case res of
          Inl _ \<Rightarrow> map ae_event_type new \<in> {[INTEGRITY_CHECK_FAILED],
             [INTEGRITY_CHECK_FAILED, ARTIFACT_QUARANTINED],
             [INTEGRITY_CHECK_FAILED, ARTIFACT_QUARANTINED, SECURITY_AUDIT_RECORDED]}
           \<and> (\<forall>es. sc_log s \<noteq> InMemory es)
        | Inr d \<Rightarrow> map ae_event_type new = [INTEGRITY_CHECK_FAILED, ARTIFACT_QUARANTINED, SECURITY_AUDIT_RECORDED]
           \<and> d = make_decision ir eid aid (case cm of None \<Rightarrow> None | Some m \<Rightarrow> find_trusted_checkpoint m eid)
                   (ae_event_id (hd new))
           \<and> (\<exists>q. sc_quarantine s' = sc_quarantine s @ [q] \<and> qe_artifact_id q = aid
                \<and> qe_audit_event_id q = ae_event_id (hd new)))"
proof -
  let ?st = "integrity_status_value (ir_status ir)"
  let ?t = "case cm of None \<Rightarrow> None | Some m \<Rightarrow> find_trusted_checkpoint m eid"
  obtain r1 s1 where 1: "log_event rt INTEGRITY_CHECK_FAILED eid (map_severity (ir_status ir))
             (''Integrity check failed for artifact '' @ sq aid) (ir_reason ir)
             [(''artifact_id'', PStr aid), (''artifact_path'', PStr (ir_artifact_path ir)),
              (''status'', PStr ?st), (''expected_checksum'', ir_expected_checksum ir),
              (''actual_checksum'', opt_str (ir_actual_checksum ir))] s = (r1, s1)" by fastforce
  from log_event_ok [OF 1] obtain e1 where e1: "all_events (sc_log s1) = all_events (sc_log s) @ [e1]"
    "ae_event_type e1 = INTEGRITY_CHECK_FAILED" "ae_execution_id e1 = PStr eid"
    "\<And>e. r1 = Inr e \<Longrightarrow> e = e1" "sc_quarantine s1 = sc_quarantine s"
    "\<And>es. sc_log s = InMemory es \<Longrightarrow> r1 = Inr e1 \<and> sc_log s1 = InMemory (es @ [e1])" by blast
  show ?thesis
  proof (cases r1)
    case (Inl x)
    have "sc_log s \<noteq> InMemory es" for es using e1(6) [of es] Inl by auto
    moreover have "res = Inl x" "s' = s1"
      using assms unfolding handle_integrity_failure_def Let_def 1 prod.case Inl sum.case by simp_all
    ultimately show ?thesis using e1(1-3) by (intro exI [of _ "[e1]"]) simp
  next
    case (Inr f)
    then have f: "r1 = Inr e1" using e1(4) by simp
    obtain r2 s2 where 2: "quarantine_artifact rt aid (ir_artifact_path ir) (ir_reason ir) eid ?st
        (ae_event_id e1) s1 = (r2, s2)" by fastforce
    from quarantine_ok [OF 2] obtain e2 q where e2: "all_events (sc_log s2) = all_events (sc_log s1) @ [e2]"
      "ae_event_type e2 = ARTIFACT_QUARANTINED" "ae_execution_id e2 = PStr eid"
      "sc_quarantine s2 = sc_quarantine s1 @ [q]" "qe_artifact_id q = aid"
      "qe_audit_event_id q = ae_event_id e1" "\<And>q'. r2 = Inr q' \<Longrightarrow> q' = q"
      "\<And>es. sc_log s1 = InMemory es \<Longrightarrow> r2 = Inr q \<and> sc_log s2 = InMemory (es @ [e2])" by blast
    show ?thesis
    proof (cases r2)
      case (Inl x)
      have "sc_log s \<noteq> InMemory es" for es using e1(6) [of es] e2(8) [of "es @ [e1]"] Inl by auto
      moreover have "res = Inl x" "s' = s2"
        using assms unfolding handle_integrity_failure_def Let_def 1 prod.case f sum.case 2 Inl by simp_all
      ultimately show ?thesis using e1(1-3) e2(1-3) by (intro exI [of _ "[e1, e2]"]) simp
    next
      case (Inr q')
      define d where "d = make_decision ir eid aid ?t (ae_event_id e1)"
      obtain r3 s3 where 3: "log_event rt SECURITY_AUDIT_RECORDED eid S_INFO
                        (''Security decision recorded: '' @ sd_recommended_action d) (sd_rationale d)
                        [(''artifact_id'', PStr aid),
                         (''recommended_action'', PStr (sd_recommended_action d)),
                         (''trusted_checkpoint_id'', opt_str ?t),
                         (''requires_human_review'', PBool (sd_requires_human_review d)),
                         (''quarantine_audit_event_id'', qe_audit_event_id q)] s2 = (r3, s3)" by fastforce
      from log_event_ok [OF 3] obtain e3 where e3: "all_events (sc_log s3) = all_events (sc_log s2) @ [e3]"
        "ae_event_type e3 = SECURITY_AUDIT_RECORDED" "ae_execution_id e3 = PStr eid"
        "sc_quarantine s3 = sc_quarantine s2"
        "\<And>es. sc_log s2 = InMemory es \<Longrightarrow> r3 = Inr e3 \<and> sc_log s3 = InMemory (es @ [e3])" by blast
      have "r2 = Inr q" using Inr e2(7) by simp
      have res: "(res, s') = (case r3 of Inl x \<Rightarrow> (Inl x, s3) | Inr _ \<Rightarrow> (Inr d, s3))"
        using assms
        unfolding handle_integrity_failure_def Let_def 1 prod.case f sum.case 2 \<open>r2 = Inr q\<close>
          d_def [symmetric] 3
        by simp
      show ?thesis
      proof (cases r3)
        case (Inl x)
        have "sc_log s \<noteq> InMemory es" for es
          using e1(6) [of es] e2(8) [of "es @ [e1]"] e3(5) [of "es @ [e1, e2]"] Inl by auto
        with res Inl e1(1-3) e2(1-3) e3(1-3) show ?thesis by (intro exI [of _ "[e1, e2, e3]"]) simp
      next
        case (Inr e)
        with res e1(1-3,5) e2(1-6) e3(1-4) show ?thesis
          by (intro exI [of _ "[e1, e2, e3]"]) (simp add: d_def)
      qed
    qed
  qed
qed

text \<open>SecurityRecoveryManager.handle_integrity_failure answers by its policy table and always asks for
  human review; it names as rollback target the newest trusted checkpoint of the run, or of the
  store when the run has none; it logs the failure, the quarantine and the decision, in that
  order, for the run, and adds one quarantine record that refers to the failure event. With
  the in-memory log it never raises.\<close>

theorem integrity_failure_response:
  "case handle_integrity_failure rt ir eid aid cm s of
     (Inl _, s') \<Rightarrow> (case sc_log s of InMemory _ \<Rightarrow> False | Jsonl _ \<Rightarrow> True)
   | (Inr d, s') \<Rightarrow>
       (let target = (case cm of None \<Rightarrow> None | Some m \<Rightarrow> rollback_target m eid);
            new = drop (length (all_events (sc_log s))) (all_events (sc_log s')) in
        sd_recommended_action d = security_policy (ir_status ir) (target \<noteq> None)
        \<and> sd_requires_human_review d
        \<and> sd_trusted_checkpoint_id d = map_option ck_checkpoint_id target
        \<and> (case target of None \<Rightarrow> True | Some c \<Rightarrow> tr_trusted (assess_checkpoint_trust (Some c)))
        \<and> take (length (all_events (sc_log s))) (all_events (sc_log s')) = all_events (sc_log s)
        \<and> map ae_event_type new = [INTEGRITY_CHECK_FAILED, ARTIFACT_QUARANTINED, SECURITY_AUDIT_RECORDED]
        \<and> list_all (\<lambda>e. ae_execution_id e = PStr eid) new
        \<and> sd_audit_event_id d = ae_event_id (hd new)
        \<and> map qe_artifact_id (sc_quarantine s') = map qe_artifact_id (sc_quarantine s) @ [aid]
        \<and> qe_audit_event_id (last (sc_quarantine s')) = ae_event_id (hd new))"
proof -
  obtain res s' where r: "handle_integrity_failure rt ir eid aid cm s = (res, s')" by fastforce
  from handle_integrity_cases [OF r] show ?thesis
  proof (cases res)
    case (Inl x)
    with handle_integrity_cases [OF r] r show ?thesis by (auto split: audit_backend.split)
  next
    case (Inr d)
    let ?t = "case cm of None \<Rightarrow> None | Some m \<Rightarrow> find_trusted_checkpoint m eid"
    let ?target = "case cm of None \<Rightarrow> None | Some m \<Rightarrow> rollback_target m eid"
    have t: "?t = map_option ck_checkpoint_id ?target" "truthy_str ?t \<longleftrightarrow> ?target \<noteq> None"
      using find_trusted_truthy by (auto simp: find_trusted_target split: option.split)
    have tr: "case ?target of None \<Rightarrow> True | Some c \<Rightarrow> tr_trusted (assess_checkpoint_trust (Some c))"
      by (auto simp: rollback_target_def dest!: select_trusted_member split: option.split)
    from handle_integrity_cases [OF r] Inr obtain new q where n:
      "all_events (sc_log s') = all_events (sc_log s) @ new" "list_all (\<lambda>e. ae_execution_id e = PStr eid) new"
      "map ae_event_type new = [INTEGRITY_CHECK_FAILED, ARTIFACT_QUARANTINED, SECURITY_AUDIT_RECORDED]"
      "d = make_decision ir eid aid ?t (ae_event_id (hd new))"
      "sc_quarantine s' = sc_quarantine s @ [q]" "qe_artifact_id q = aid" "qe_audit_event_id q = ae_event_id (hd new)"
      by auto
    show ?thesis
      unfolding r Inr prod.case sum.case Let_def
      using n(1-3,5-) tr t make_decision_policy [of ir eid aid ?t "ae_event_id (hd new)"]
      by (simp add: n(4))
  qed
qed

end
