(* ===== verification/L1Cache.thy ===== *)
theory L1Cache
  imports Prelude
begin

text \<open>
  The in-process cache tier \<open>L1Cache\<close> (\<open>app/api/core/cache.py\<close>). An \<open>OrderedDict\<close> is an
  association list in its order, oldest first. Seconds are rationals; an operation gets the
  readings of \<open>time.monotonic()\<close> and \<open>time.time()\<close> that it makes. The epoch times of an entry are
  the values that the caller gave, of any type: a lookup that compares one which is no number
  raises. The lock makes each operation one step.
\<close>

subsection \<open>Comparing with a clock\<close>

text \<open>A JSON value as a number: numbers and booleans compare by value.\<close>

fun num_of :: "pyval \<Rightarrow> rat option" where
  "num_of (PInt i) = Some (of_int i)"
| "num_of (PFloat r) = Some r"
| "num_of (PBool b) = Some (if b then 1 else 0)"
| "num_of _ = None"

text \<open>\<open>now < v\<close>, which raises for a value that is not a number\<close>

definition no_number :: "pyval \<Rightarrow> exn" where
  "no_number v = Exn ''TypeError'' (sq ''<'' @ '' not supported between instances of '' @ sq ''float''
     @ '' and '' @ sq (type_name v))"

definition before :: "rat \<Rightarrow> pyval \<Rightarrow> bool result" where
  "before now v = (case num_of v of Some r \<Rightarrow> Inr (now < r) | None \<Rightarrow> Inl (no_number v))"

subsection \<open>State\<close>

record 'v l1_entry =
  le_value :: 'v
  le_expires_mono :: rat
  le_created_mono :: rat
  le_created_epoch :: pyval
  le_expires_epoch :: pyval
  le_stale_until :: pyval

type_synonym 'v store = "(string \<times> 'v l1_entry) list"

record 'v l1 =
  l1_max_entries :: int
  l1_default_ttl :: rat
  l1_store :: "'v store"
  l1_hits :: nat
  l1_misses :: nat
  l1_evictions :: nat
  l1_expirations :: nat

definition l1_init :: "int \<Rightarrow> rat \<Rightarrow> 'v l1" where
  "l1_init max_entries default_ttl =
     \<lparr>l1_max_entries = max_entries, l1_default_ttl = default_ttl, l1_store = [], l1_hits = 0,
      l1_misses = 0, l1_evictions = 0, l1_expirations = 0\<rparr>"

text \<open>\<open>move_to_end(key)\<close> of a key that is there\<close>

definition move_to_end :: "'k \<Rightarrow> ('k \<times> 'a) list \<Rightarrow> ('k \<times> 'a) list" where
  "move_to_end k xs =
     (case map_of xs k of None \<Rightarrow> xs | Some v \<Rightarrow> AList.delete k xs @ [(k, v)])"

record l1_meta =
  me_created_epoch :: pyval
  me_expires_epoch :: pyval
  me_stale_until :: pyval

definition entry_meta :: "'v l1_entry \<Rightarrow> l1_meta" where
  "entry_meta e = \<lparr>me_created_epoch = le_created_epoch e, me_expires_epoch = le_expires_epoch e,
     me_stale_until = le_stale_until e\<rparr>"

subsection \<open>Operations\<close>

text \<open>The answer of a lookup: hit, stale, value and metadata.\<close>

type_synonym 'v answer = "bool \<times> bool \<times> 'v option \<times> l1_meta option"

definition is_fresh :: "rat \<Rightarrow> rat \<Rightarrow> 'v l1_entry \<Rightarrow> bool result" where
  "is_fresh now_mono now_epoch e =
     (case before now_epoch (le_expires_epoch e) of
        Inl x \<Rightarrow> Inl x
      | Inr b \<Rightarrow> Inr (b \<and> now_mono < le_expires_mono e))"

definition in_stale_window :: "rat \<Rightarrow> bool \<Rightarrow> 'v l1_entry \<Rightarrow> bool result" where
  "in_stale_window now_epoch allow_stale e =
     (if allow_stale then before now_epoch (le_stale_until e) else Inr False)"

definition l1_touch :: "string \<Rightarrow> 'v l1 \<Rightarrow> 'v l1" where
  "l1_touch key c = c\<lparr>l1_store := move_to_end key (l1_store c), l1_hits := l1_hits c + 1\<rparr>"

definition l1_get_detailed ::
  "rat \<Rightarrow> rat \<Rightarrow> string \<Rightarrow> bool \<Rightarrow> 'v l1 \<Rightarrow> 'v answer result \<times> 'v l1" where
  "l1_get_detailed now_mono now_epoch key allow_stale c =
     (case map_of (l1_store c) key of
        None \<Rightarrow> (Inr (False, False, None, None), c\<lparr>l1_misses := l1_misses c + 1\<rparr>)
      | Some e \<Rightarrow>
          (case is_fresh now_mono now_epoch e of
             Inl x \<Rightarrow> (Inl x, c)
           | Inr True \<Rightarrow> (Inr (True, False, Some (le_value e), Some (entry_meta e)), l1_touch key c)
           | Inr False \<Rightarrow>
               (case in_stale_window now_epoch allow_stale e of
                  Inl x \<Rightarrow> (Inl x, c)
                | Inr True \<Rightarrow> (Inr (True, True, Some (le_value e), Some (entry_meta e)), l1_touch key c)
                | Inr False \<Rightarrow>
                    (Inr (False, False, None, None),
                     c\<lparr>l1_store := AList.delete key (l1_store c), l1_expirations := l1_expirations c + 1,
                       l1_misses := l1_misses c + 1\<rparr>))))"

definition l1_get :: "rat \<Rightarrow> rat \<Rightarrow> string \<Rightarrow> 'v l1 \<Rightarrow> (bool \<times> 'v option) result \<times> 'v l1" where
  "l1_get now_mono now_epoch key c =
     (case l1_get_detailed now_mono now_epoch key False c of
        (Inl x, c') \<Rightarrow> (Inl x, c')
      | (Inr (hit, stale, val, _), c') \<Rightarrow> (Inr (hit \<and> \<not> stale, val), c'))"

definition opt_default :: "'a option \<Rightarrow> 'a \<Rightarrow> 'a" where
  "opt_default x d = (case x of None \<Rightarrow> d | Some v \<Rightarrow> v)"

text \<open>\<open>x if x is not None else d\<close>\<close>

definition not_none :: "pyval \<Rightarrow> pyval \<Rightarrow> pyval" where
  "not_none x d = (if x = PNone then d else x)"

definition new_entry ::
  "rat \<Rightarrow> rat \<Rightarrow> 'v \<Rightarrow> rat \<Rightarrow> pyval \<Rightarrow> pyval \<Rightarrow> pyval \<Rightarrow> 'v l1_entry" where
  "new_entry now_mono now_epoch value duration created expires stale =
     (let e_epoch = not_none expires (PFloat (now_epoch + duration)) in
      \<lparr>le_value = value, le_expires_mono = now_mono + duration, le_created_mono = now_mono,
       le_created_epoch = not_none created (PFloat now_epoch), le_expires_epoch = e_epoch,
       le_stale_until = not_none stale e_epoch\<rparr>)"

text \<open>Inserting an entry and evicting the oldest one above the bound\<close>

definition l1_put :: "string \<Rightarrow> 'v l1_entry \<Rightarrow> 'v l1 \<Rightarrow> 'v l1" where
  "l1_put key e c =
     (let s = l1_store c;
          s1 = (if key \<in> fst ` set s then move_to_end key s else s);
          s2 = AList.update key e s1
      in if int (length s2) > l1_max_entries c
         then c\<lparr>l1_store := tl s2, l1_evictions := l1_evictions c + 1\<rparr>
         else c\<lparr>l1_store := s2\<rparr>)"

definition l1_set ::
  "rat \<Rightarrow> rat \<Rightarrow> string \<Rightarrow> 'v \<Rightarrow> rat option \<Rightarrow> pyval \<Rightarrow> pyval \<Rightarrow> pyval \<Rightarrow> 'v l1 \<Rightarrow> 'v l1" where
  "l1_set now_mono now_epoch key value ttl created expires stale c =
     l1_put key (new_entry now_mono now_epoch value (opt_default ttl (l1_default_ttl c))
       created expires stale) c"

definition l1_delete :: "string \<Rightarrow> 'v l1 \<Rightarrow> bool \<times> 'v l1" where
  "l1_delete key c =
     (if key \<in> fst ` set (l1_store c)
      then (True, c\<lparr>l1_store := AList.delete key (l1_store c)\<rparr>) else (False, c))"

text \<open>
  \<open>rx r k\<close> is whether the compiled regular expression \<open>r\<close> matches \<open>k\<close>, or the exception that
  compiling it raises.
\<close>

definition wildcard_regex :: "string \<Rightarrow> string" where
  "wildcard_regex pattern =
     ''^'' @ concat (map (\<lambda>ch. if ch = CHR ''*'' then ''.*'' else [ch]) pattern) @ ''$''"

definition l1_delete_pattern ::
  "(string \<Rightarrow> (string \<Rightarrow> bool) result) \<Rightarrow> string \<Rightarrow> 'v l1 \<Rightarrow> nat result \<times> 'v l1" where
  "l1_delete_pattern rx pattern c =
     (case rx (wildcard_regex pattern) of
        Inl e \<Rightarrow> (Inl e, c)
      | Inr m \<Rightarrow>
          (let ks = filter m (map fst (l1_store c))
           in (Inr (length ks), c\<lparr>l1_store := fold AList.delete ks (l1_store c)\<rparr>)))"

definition l1_clear :: "'v l1 \<Rightarrow> 'v l1" where
  "l1_clear c = c\<lparr>l1_store := []\<rparr>"

definition l1_size :: "'v l1 \<Rightarrow> nat" where
  "l1_size c = length (l1_store c)"

definition l1_stats :: "'v l1 \<Rightarrow> dict" where
  "l1_stats c =
     (let total = l1_hits c + l1_misses c;
          hit_rate = (if total > 0 then py_round 4 (of_nat (l1_hits c) / of_nat total) else 0)
      in [(''entries'', PInt (int (length (l1_store c)))),
          (''max_entries'', PInt (l1_max_entries c)), (''hits'', PInt (int (l1_hits c))),
          (''misses'', PInt (int (l1_misses c))), (''hit_rate'', PFloat hit_rate),
          (''evictions'', PInt (int (l1_evictions c))),
          (''expirations'', PInt (int (l1_expirations c)))])"

subsection \<open>Facts about the order\<close>

lemma move_to_end_delete:
  "map_of xs k = Some v \<Longrightarrow> move_to_end k xs = AList.delete k xs @ [(k, v)]"
  by (simp add: move_to_end_def)

lemma update_move_to_end:
  "k \<in> fst ` set xs \<Longrightarrow> AList.update k e (move_to_end k xs) = AList.delete k xs @ [(k, e)]"
proof -
  assume "k \<in> fst ` set xs"
  then obtain v where "map_of xs k = Some v" by (metis domD dom_map_of_conv_image_fst)
  moreover have "AList.update k e (ys @ [(k, v)]) = ys @ [(k, e)]" if "k \<notin> fst ` set ys" for ys
    using that by (induction ys) auto
  moreover have "k \<notin> fst ` set (AList.delete k xs)" by (rule delete_notin_dom)
  ultimately show ?thesis by (simp add: move_to_end_delete)
qed

text \<open>Setting a key puts it last, and the first one goes when there are too many.\<close>

lemma l1_put_eq:
  "l1_put key e c =
     (let s = AList.delete key (l1_store c) @ [(key, e)]
      in if int (length s) > l1_max_entries c
         then c\<lparr>l1_store := tl s, l1_evictions := l1_evictions c + 1\<rparr> else c\<lparr>l1_store := s\<rparr>)"
  by (cases "key \<in> fst ` set (l1_store c)") (simp_all add: l1_put_def Let_def update_move_to_end dict_set_fresh)

lemma l1_put_store:
  "l1_store (l1_put key e c) =
     (let s = AList.delete key (l1_store c) @ [(key, e)]
      in if int (length s) > l1_max_entries c then tl s else s)"
  by (simp add: l1_put_eq Let_def)

text \<open>
  The bound and the order's keys: an invariant of every operation, and with it the counters
  count.
\<close>

definition l1_invar :: "'v l1 \<Rightarrow> bool" where
  "l1_invar c \<longleftrightarrow> distinct (map fst (l1_store c)) \<and> int (length (l1_store c)) \<le> max 0 (l1_max_entries c)"

datatype 'v l1_op =
    Get string bool
  | Set string 'v "rat option" pyval pyval pyval
  | Delete string
  | Clear

text \<open>One operation at a monotonic and an epoch time; only a lookup answers.\<close>

definition l1_step :: "rat \<times> rat \<times> 'v l1_op \<Rightarrow> 'v l1 \<Rightarrow> 'v answer result option \<times> 'v l1" where
  "l1_step x c =
     (case x of (m, t, op) \<Rightarrow>
        (case op of
           Get k stale \<Rightarrow> (let (a, c') = l1_get_detailed m t k stale c in (Some a, c'))
         | Set k v ttl cr ex st \<Rightarrow> (None, l1_set m t k v ttl cr ex st c)
         | Delete k \<Rightarrow> (None, snd (l1_delete k c))
         | Clear \<Rightarrow> (None, l1_clear c)))"

primrec l1_run :: "(rat \<times> rat \<times> 'v l1_op) list \<Rightarrow> 'v l1 \<Rightarrow> 'v answer result option list \<times> 'v l1" where
  "l1_run [] c = ([], c)"
| "l1_run (x # xs) c =
     (let (a, c1) = l1_step x c; (as, c2) = l1_run xs c1 in (a # as, c2))"

lemma distinct_tl_map: "distinct (map f xs) \<Longrightarrow> distinct (map f (tl xs))"
  by (cases xs) auto

lemma delete_snoc_keys:
  assumes "distinct (map fst xs)"
  shows "distinct (map fst (AList.delete k xs @ [(k, e)]))"
    and "length (AList.delete k xs @ [(k, e)]) \<le> Suc (length xs)"
    and "k \<in> fst ` set xs \<Longrightarrow> length (AList.delete k xs @ [(k, e)]) \<le> length xs"
proof -
  show "distinct (map fst (AList.delete k xs @ [(k, e)]))"
    using assms by (simp add: distinct_delete delete_notin_dom)
  show "length (AList.delete k xs @ [(k, e)]) \<le> Suc (length xs)" by (simp add: length_delete_le)
  show "length (AList.delete k xs @ [(k, e)]) \<le> length xs" if "k \<in> fst ` set xs"
  proof -
    from that have "length (AList.delete k xs) < length xs"
      unfolding AList.delete_eq by (auto intro!: length_filter_less)
    then show ?thesis by simp
  qed
qed

lemma l1_put_invar:
  assumes "l1_invar c"
  shows "l1_invar (l1_put key e c)"
proof -
  have m: "l1_max_entries (l1_put key e c) = l1_max_entries c" by (simp add: l1_put_def Let_def)
  from assms have d: "distinct (map fst (l1_store c))" by (simp add: l1_invar_def)
  show ?thesis
    using assms delete_snoc_keys [OF d, of key e]
    unfolding l1_invar_def m l1_put_store Let_def
    by (auto intro: distinct_tl_map simp del: map_append distinct_append)
qed

lemma l1_step_invar: "l1_invar c \<Longrightarrow> l1_step x c = (a, c') \<Longrightarrow> l1_invar c' \<and> l1_max_entries c' = l1_max_entries c"
proof (cases x)
  case (fields m t op)
  assume i: "l1_invar c" and s: "l1_step x c = (a, c')"
  have d: "distinct (map fst (l1_store c))" using i by (simp add: l1_invar_def)
  show ?thesis
  proof (cases op)
    case (Get k stale)
    have "k \<in> fst ` set (l1_store c)" if "map_of (l1_store c) k = Some e" for e
      using that by (metis domI dom_map_of_conv_image_fst)
    then show ?thesis
      using i s fields Get delete_snoc_keys [OF d, of k] length_delete_le [of k "l1_store c"]
      by (auto simp: l1_step_def l1_get_detailed_def l1_touch_def l1_invar_def move_to_end_delete distinct_delete
          split: option.splits sum.splits bool.splits simp del: map_append distinct_append)
  next
    case (Set k v ttl cr ex st)
    with i s fields show ?thesis
      by (auto simp: l1_step_def l1_set_def l1_put_invar) (simp add: l1_put_def Let_def)
  next
    case (Delete k)
    with i s fields length_delete_le [of k "l1_store c"] show ?thesis
      by (auto simp: l1_step_def l1_delete_def l1_invar_def distinct_delete)
  next
    case Clear
    with i s fields show ?thesis by (auto simp: l1_step_def l1_clear_def l1_invar_def)
  qed
qed

subsection \<open>The specification: least recently used\<close>

text \<open>
  A cache of entries stamped with the time of their last use, without any order: above its
  bound it drops the entry used longest ago.
\<close>

record 'v lru =
  lr_map :: "string \<rightharpoonup> 'v l1_entry \<times> nat"
  lr_tick :: nat
  lr_max :: int
  lr_default_ttl :: rat

definition lru_init :: "int \<Rightarrow> rat \<Rightarrow> 'v lru" where
  "lru_init mx ttl = \<lparr>lr_map = Map.empty, lr_tick = 0, lr_max = mx, lr_default_ttl = ttl\<rparr>"

definition lru_use :: "string \<Rightarrow> 'v l1_entry \<Rightarrow> 'v lru \<Rightarrow> 'v lru" where
  "lru_use k e s = s\<lparr>lr_map := (lr_map s)(k \<mapsto> (e, lr_tick s)), lr_tick := Suc (lr_tick s)\<rparr>"

definition oldest :: "'v lru \<Rightarrow> nat" where
  "oldest s = Min (snd ` ran (lr_map s))"

definition lru_drop_oldest :: "'v lru \<Rightarrow> 'v lru" where
  "lru_drop_oldest s =
     s\<lparr>lr_map := (\<lambda>k. case lr_map s k of None \<Rightarrow> None
        | Some (e, t) \<Rightarrow> if t = oldest s then None else Some (e, t))\<rparr>"

text \<open>
  What a stored entry is at a monotonic and an epoch time, decided without the order of the
  code's comparisons: a time that is needed and is no number, fresh, stale, or expired.
\<close>

datatype standing = Unreadable pyval | Fresh | Stale | Expired

definition standing_of :: "rat \<Rightarrow> rat \<Rightarrow> bool \<Rightarrow> 'v l1_entry \<Rightarrow> standing" where
  "standing_of m t allow e =
     (let expires = num_of (le_expires_epoch e); stale_until = num_of (le_stale_until e);
          fresh = (expires \<noteq> None \<and> m < le_expires_mono e \<and> t < the expires)
      in if expires = None then Unreadable (le_expires_epoch e)
         else if fresh then Fresh
         else if \<not> allow then Expired
         else if stale_until = None then Unreadable (le_stale_until e)
         else if t < the stale_until then Stale else Expired)"

definition lru_step :: "rat \<times> rat \<times> 'v l1_op \<Rightarrow> 'v lru \<Rightarrow> 'v answer result option \<times> 'v lru" where
  "lru_step x s =
     (case x of (m, t, op) \<Rightarrow>
        (case op of
           Get k stale \<Rightarrow>
             (case lr_map s k of
                None \<Rightarrow> (Some (Inr (False, False, None, None)), s)
              | Some (e, _) \<Rightarrow>
                  (case standing_of m t stale e of
                     Unreadable v \<Rightarrow> (Some (Inl (no_number v)), s)
                   | Fresh \<Rightarrow> (Some (Inr (True, False, Some (le_value e), Some (entry_meta e))), lru_use k e s)
                   | Stale \<Rightarrow> (Some (Inr (True, True, Some (le_value e), Some (entry_meta e))), lru_use k e s)
                   | Expired \<Rightarrow>
                       (Some (Inr (False, False, None, None)), s\<lparr>lr_map := (lr_map s)(k := None)\<rparr>)))
         | Set k v ttl cr ex st \<Rightarrow>
             (let s1 = lru_use k (new_entry m t v (opt_default ttl (lr_default_ttl s)) cr ex st) s
              in (None, if int (card (dom (lr_map s1))) > lr_max s then lru_drop_oldest s1 else s1))
         | Delete k \<Rightarrow> (None, s\<lparr>lr_map := (lr_map s)(k := None)\<rparr>)
         | Clear \<Rightarrow> (None, s\<lparr>lr_map := Map.empty\<rparr>)))"

primrec lru_run :: "(rat \<times> rat \<times> 'v l1_op) list \<Rightarrow> 'v lru \<Rightarrow> 'v answer result option list" where
  "lru_run [] s = []"
| "lru_run (x # xs) s = (let (a, s1) = lru_step x s in a # lru_run xs s1)"

subsection \<open>The order is the time of last use\<close>

text \<open>The stored list with the stamps: in the order of the stamps, which are all past.\<close>

definition stamped :: "(string \<times> 'v l1_entry \<times> nat) list \<Rightarrow> nat \<Rightarrow> bool" where
  "stamped xs n \<longleftrightarrow> distinct (map fst xs) \<and> sorted_wrt (<) (map (snd \<circ> snd) xs)
     \<and> (\<forall>t \<in> set (map (snd \<circ> snd) xs). t < n)"

definition lru_rel :: "'v l1 \<Rightarrow> 'v lru \<Rightarrow> (string \<times> 'v l1_entry \<times> nat) list \<Rightarrow> bool" where
  "lru_rel c s xs \<longleftrightarrow>
     l1_store c = map (\<lambda>(k, p). (k, fst p)) xs \<and> lr_map s = map_of xs \<and> stamped xs (lr_tick s)
     \<and> l1_max_entries c = lr_max s \<and> l1_default_ttl c = lr_default_ttl s"

text \<open>The code's lookup by the standing of the entry\<close>

lemma l1_get_detailed_standing:
  "l1_get_detailed m t k allow c =
     (case map_of (l1_store c) k of
        None \<Rightarrow> (Inr (False, False, None, None), c\<lparr>l1_misses := l1_misses c + 1\<rparr>)
      | Some e \<Rightarrow>
          (case standing_of m t allow e of
             Unreadable v \<Rightarrow> (Inl (no_number v), c)
           | Fresh \<Rightarrow> (Inr (True, False, Some (le_value e), Some (entry_meta e)), l1_touch k c)
           | Stale \<Rightarrow> (Inr (True, True, Some (le_value e), Some (entry_meta e)), l1_touch k c)
           | Expired \<Rightarrow>
               (Inr (False, False, None, None),
                c\<lparr>l1_store := AList.delete k (l1_store c), l1_expirations := l1_expirations c + 1,
                  l1_misses := l1_misses c + 1\<rparr>)))"
  by (auto simp: l1_get_detailed_def standing_of_def is_fresh_def in_stale_window_def before_def Let_def
      split: option.split bool.split)

lemma delete_map_fst: "AList.delete k (map (\<lambda>(k, p). (k, fst p)) xs) = map (\<lambda>(k, p). (k, fst p)) (AList.delete k xs)"
  by (induction xs) auto

lemma stamped_delete: "stamped xs n \<Longrightarrow> stamped (AList.delete k xs) n"
  by (simp add: stamped_def distinct_delete) (simp add: AList.delete_eq sorted_wrt_map sorted_wrt_filter)

lemma stamped_snoc: "stamped xs n \<Longrightarrow> k \<notin> fst ` set xs \<Longrightarrow> stamped (xs @ [(k, e, n)]) (Suc n)"
  by (auto simp: stamped_def sorted_wrt_append less_Suc_eq)

lemma stamped_tl: "stamped xs n \<Longrightarrow> stamped (tl xs) n"
  by (cases xs) (auto simp: stamped_def)

lemma map_of_snoc_delete: "map_of (AList.delete k xs @ [(k, p)]) = (map_of xs)(k \<mapsto> p)"
  by (rule ext) (simp add: map_of_append map_add_def delete_conv split: option.split)

lemma rel_use:
  assumes "lru_rel c s xs"
  shows "lru_rel (c\<lparr>l1_store := AList.delete k (l1_store c) @ [(k, e)]\<rparr>) (lru_use k e s)
     (AList.delete k xs @ [(k, e, lr_tick s)])"
  using assms stamped_snoc [OF stamped_delete, of xs "lr_tick s" k k e]
  by (simp add: lru_rel_def lru_use_def delete_map_fst map_of_snoc_delete delete_notin_dom
      del: map_of_append)

lemma rel_remove:
  "lru_rel c s xs \<Longrightarrow>
     lru_rel (c\<lparr>l1_store := AList.delete k (l1_store c)\<rparr>) (s\<lparr>lr_map := (lr_map s)(k := None)\<rparr>) (AList.delete k xs)"
  by (simp add: lru_rel_def delete_map_fst stamped_delete delete_conv')

text \<open>The first entry is the one used longest ago.\<close>

lemma oldest_first:
  assumes "lru_rel c s ((k, e, t) # xs)"
  shows "oldest s = t"
proof -
  have d: "distinct (map fst ((k, e, t) # xs))" "\<forall>u \<in> set (map (snd \<circ> snd) xs). t < u"
    using assms by (auto simp: lru_rel_def stamped_def)
  have "ran (lr_map s) = snd ` set ((k, e, t) # xs)"
    using assms d(1) by (simp add: lru_rel_def ran_distinct del: map_of.simps)
  then have r: "snd ` ran (lr_map s) = insert t (set (map (snd \<circ> snd) xs))" by force
  then show ?thesis
    unfolding oldest_def r using d(2) by (intro Min_eqI) (auto simp: order.strict_implies_order)
qed

lemma rel_drop:
  assumes r: "lru_rel c s xs" and ne: "xs \<noteq> []"
  shows "lru_rel (c\<lparr>l1_store := tl (l1_store c)\<rparr>) (lru_drop_oldest s) (tl xs)"
proof -
  obtain k e t ys where xs: "xs = (k, e, t) # ys" using ne by (metis list.exhaust prod_cases3)
  have o: "oldest s = t" using oldest_first r xs by blast
  have d: "k \<notin> fst ` set ys" and later: "\<And>k' e' t'. (k', e', t') \<in> set ys \<Longrightarrow> t < t'"
    using r xs by (auto simp: lru_rel_def stamped_def)
  have "lr_map (lru_drop_oldest s) = map_of ys"
  proof
    fix j
    show "lr_map (lru_drop_oldest s) j = map_of ys j"
    proof (cases "map_of ys j")
      case None
      with r xs o show ?thesis by (simp add: lru_drop_oldest_def lru_rel_def)
    next
      case (Some p)
      obtain e' t' where p: "p = (e', t')" by fastforce
      from map_of_SomeD [OF Some [unfolded p]] later [of j e' t'] d have "j \<noteq> k" "t' \<noteq> t" by force+
      with Some p r xs o show ?thesis by (simp add: lru_drop_oldest_def lru_rel_def)
    qed
  qed
  with r xs stamped_tl [of xs "lr_tick s"] show ?thesis
    by (simp add: lru_rel_def) (simp add: lru_drop_oldest_def)
qed

lemma rel_card: "lru_rel c s xs \<Longrightarrow> card (dom (lr_map s)) = length (l1_store c)"
  using distinct_card [of "map fst xs"] by (auto simp: lru_rel_def stamped_def dom_map_of_conv_image_fst)

lemma rel_lookup: "lru_rel c s xs \<Longrightarrow> map_of (l1_store c) k = map_option fst (lr_map s k)"
  by (simp add: lru_rel_def map_of_map)

text \<open>The counters play no part.\<close>

lemma rel_counters [simp]:
  "lru_rel (c\<lparr>l1_hits := h\<rparr>) s xs = lru_rel c s xs" "lru_rel (c\<lparr>l1_misses := h\<rparr>) s xs = lru_rel c s xs"
  "lru_rel (c\<lparr>l1_evictions := h\<rparr>) s xs = lru_rel c s xs"
  "lru_rel (c\<lparr>l1_expirations := h\<rparr>) s xs = lru_rel c s xs"
  by (simp_all add: lru_rel_def)

lemma move_to_end_rel:
  assumes "lru_rel c s xs" "lr_map s k = Some (e, t)"
  shows "lru_rel (c\<lparr>l1_store := move_to_end k (l1_store c)\<rparr>) (lru_use k e s) (AList.delete k xs @ [(k, e, lr_tick s)])"
  using rel_use [OF assms(1), of k e] rel_lookup [OF assms(1), of k] assms(2)
  by (simp add: move_to_end_delete)

lemma put_rel:
  assumes r: "lru_rel c s xs"
  shows "\<exists>ys. lru_rel (l1_put k e c)
     (if int (card (dom (lr_map (lru_use k e s)))) > lr_max s then lru_drop_oldest (lru_use k e s)
      else lru_use k e s) ys"
proof -
  let ?c = "c\<lparr>l1_store := AList.delete k (l1_store c) @ [(k, e)]\<rparr>" and ?s = "lru_use k e s"
  let ?xs = "AList.delete k xs @ [(k, e, lr_tick s)]"
  note u = rel_use [OF r, of k e]
  have n: "card (dom (lr_map ?s)) = length (l1_store ?c)" by (rule rel_card [OF u])
  have m: "l1_max_entries c = lr_max s" using r by (simp add: lru_rel_def)
  have p: "l1_put k e c = (if int (length (l1_store ?c)) > l1_max_entries c
      then ?c\<lparr>l1_store := tl (l1_store ?c), l1_evictions := l1_evictions c + 1\<rparr> else ?c)"
    by (simp add: l1_put_eq Let_def)
  show ?thesis
    unfolding p n m using u rel_drop [OF u] by auto
qed

lemma step_rel:
  assumes r: "lru_rel c s xs"
  shows "\<exists>a c' s' ys. l1_step x c = (a, c') \<and> lru_step x s = (a, s') \<and> lru_rel c' s' ys"
proof -
  obtain m t op where x: "x = (m, t, op)" by (rule prod_cases3)
  show ?thesis
  proof (cases op)
    case (Get k stale)
    show ?thesis
    proof (cases "lr_map s k")
      case None
      with r rel_lookup [OF r, of k] show ?thesis
        by (auto simp: x Get l1_step_def lru_step_def l1_get_detailed_def)
    next
      case (Some p)
      obtain e u where p: "p = (e, u)" by fastforce
      with Some have l: "map_of (l1_store c) k = Some e" "lr_map s k = Some (e, u)"
        using rel_lookup [OF r, of k] by simp_all
      have "lru_rel (l1_touch k c) (lru_use k e s) (AList.delete k xs @ [(k, e, lr_tick s)])"
        using move_to_end_rel [OF r l(2)] by (simp add: l1_touch_def)
      moreover have "lru_rel (c\<lparr>l1_store := AList.delete k (l1_store c), l1_expirations := l1_expirations c + 1,
          l1_misses := l1_misses c + 1\<rparr>) (s\<lparr>lr_map := (lr_map s)(k := None)\<rparr>) (AList.delete k xs)"
        using rel_remove [OF r, of k] by simp
      ultimately show ?thesis
        using r l
        by (cases "standing_of m t stale e")
          (auto simp: x Get l1_step_def lru_step_def l1_get_detailed_standing)
    qed
  next
    case (Set k v ttl cr ex st)
    from r have "l1_default_ttl c = lr_default_ttl s" by (simp add: lru_rel_def)
    with put_rel [OF r, of k "new_entry m t v (opt_default ttl (l1_default_ttl c)) cr ex st"] show ?thesis
      by (auto simp: x Set l1_step_def lru_step_def l1_set_def Let_def)
  next
    case (Delete k)
    have "AList.delete k (l1_store c) = l1_store c" if "k \<notin> fst ` set (l1_store c)" using that by simp
    with rel_remove [OF r, of k] show ?thesis
      by (auto simp: x Delete l1_step_def lru_step_def l1_delete_def)
  next
    case Clear
    have "lru_rel (l1_clear c) (s\<lparr>lr_map := Map.empty\<rparr>) []"
      using r by (simp add: lru_rel_def l1_clear_def stamped_def)
    then show ?thesis by (auto simp: x Clear l1_step_def lru_step_def)
  qed
qed

lemma run_rel: "lru_rel c s xs \<Longrightarrow> fst (l1_run ops c) = lru_run ops s"
proof (induction ops arbitrary: c s xs)
  case Nil
  then show ?case by simp
next
  case (Cons x ops)
  from step_rel [OF Cons.prems, of x] obtain a c' s' ys where
    "l1_step x c = (a, c')" "lru_step x s = (a, s')" "lru_rel c' s' ys" by blast
  with Cons.IH show ?case by (simp add: split_beta)
qed

lemma init_rel: "lru_rel (l1_init mx ttl) (lru_init mx ttl) []"
  by (simp add: lru_rel_def l1_init_def lru_init_def stamped_def)

subsection \<open>Properties\<close>

text \<open>C18: L1Cache is a least-recently-used cache: every sequence of lookups, insertions, deletions and
  clears gives the same answers as a cache that stamps each entry with its last use and, above
  the bound, drops the entry that was used longest ago. Of both, a lookup that needs a time which
  is no number raises and uses nothing.\<close>

theorem l1_cache_is_lru:
  "fst (l1_run ops (l1_init max_entries ttl)) = lru_run ops (lru_init max_entries ttl)"
  by (rule run_rel [OF init_rel])

lemma run_invar: "l1_invar c \<Longrightarrow> l1_invar (snd (l1_run ops c)) \<and> l1_max_entries (snd (l1_run ops c)) = l1_max_entries c"
proof (induction ops arbitrary: c)
  case Nil
  then show ?case by simp
next
  case (Cons x ops)
  obtain a c' where x: "l1_step x c = (a, c')" by fastforce
  with l1_step_invar [OF Cons.prems x] Cons.IH [of c'] show ?case by (simp add: split_beta)
qed

lemma init_invar: "l1_invar (l1_init mx ttl)" and init_bound: "l1_max_entries (l1_init mx ttl) = mx"
  by (simp_all add: l1_invar_def l1_init_def)

text \<open>L1Cache stays within its bound: after any sequence of operations a new cache has at most
  max_entries entries (none for a bound below one), each key once.\<close>

theorem l1_cache_bounded:
  "let c = snd (l1_run ops (l1_init max_entries ttl)) in
     int (l1_size c) \<le> max 0 max_entries \<and> distinct (map fst (l1_store c))"
  using run_invar [OF init_invar [of max_entries ttl], of ops]
  by (auto simp: l1_invar_def l1_size_def init_bound)

text \<open>L1Cache.get_detailed never serves an entry past its hard limits: a fresh hit is before both
  expiry times, a stale one is asked for and before the stale limit, a miss for a stored
  key has removed it, and a comparison with a time that is no number raises and changes nothing.
  An entry whose short L1 time has run out is stale even before the expiry
  time of its envelope, so a caller that allows stale answers gets a stale hit, and starts a
  refresh, for a value that the second tier still holds as fresh.\<close>

theorem l1_never_serves_expired:
  "case l1_get_detailed now_mono now_epoch k allow_stale c of
     (Inl x, c') \<Rightarrow> c' = c \<and> (\<exists>e v. map_of (l1_store c) k = Some e \<and> v \<in> {le_expires_epoch e, le_stale_until e}
                          \<and> num_of v = None \<and> x = no_number v)
   | (Inr (hit, stale, val, _), c') \<Rightarrow>
       (case map_of (l1_store c) k of
          None \<Rightarrow> \<not> hit \<and> val = None
        | Some e \<Rightarrow>
            (if hit then val = Some (le_value e)
               \<and> (if stale then allow_stale \<and> before now_epoch (le_stale_until e) = Inr True
                  else before now_epoch (le_expires_epoch e) = Inr True \<and> now_mono < le_expires_mono e)
             else val = None \<and> map_of (l1_store c') k = None)
            \<and> (case (num_of (le_expires_epoch e), num_of (le_stale_until e)) of
                 (Some x, Some y) \<Rightarrow>
                   (if now_mono \<ge> le_expires_mono e \<and> now_epoch < x \<and> x \<le> y
                    then hit = allow_stale \<and> stale = allow_stale else True)
               | _ \<Rightarrow> True))"
  by (auto simp: l1_get_detailed_standing standing_of_def before_def delete_conv' Let_def
      split: option.splits if_splits)

end
