(* ===== verification/Breaker.thy ===== *)
theory Breaker
  imports Prelude
begin

text \<open>
  \<open>RedisCircuitBreaker\<close>, alias \<open>CircuitBreaker\<close> (\<open>app/api/core/cache.py\<close>): a state machine over
  monotonic time in seconds. The lock makes each method one step; the log messages are left out.
\<close>

subsection \<open>The machine\<close>

datatype circuit_state = CLOSED | OPEN | HALF_OPEN | DISABLED

fun circuit_state_value :: "circuit_state \<Rightarrow> string" where
  "circuit_state_value CLOSED = ''CLOSED''"
| "circuit_state_value OPEN = ''OPEN''"
| "circuit_state_value HALF_OPEN = ''HALF_OPEN''"
| "circuit_state_value DISABLED = ''DISABLED''"

record breaker =
  br_threshold :: int
  br_cooldown :: rat
  br_name :: string
  br_state :: circuit_state
  br_failures :: nat
  br_changed :: rat

definition breaker_init :: "int \<Rightarrow> rat \<Rightarrow> string \<Rightarrow> rat \<Rightarrow> breaker" where
  "breaker_init threshold cooldown name now =
     \<lparr>br_threshold = threshold, br_cooldown = cooldown, br_name = name, br_state = CLOSED,
      br_failures = 0, br_changed = now\<rparr>"

definition can_attempt :: "rat \<Rightarrow> breaker \<Rightarrow> bool \<times> breaker" where
  "can_attempt now b =
     (case br_state b of
        DISABLED \<Rightarrow> (False, b)
      | CLOSED \<Rightarrow> (True, b)
      | OPEN \<Rightarrow>
          (if now - br_changed b \<ge> br_cooldown b
           then (True, b\<lparr>br_state := HALF_OPEN, br_changed := now\<rparr>) else (False, b))
      | HALF_OPEN \<Rightarrow> (True, b))"

definition record_success :: "breaker \<Rightarrow> breaker" where
  "record_success b = b\<lparr>br_state := CLOSED, br_failures := 0\<rparr>"

definition record_failure :: "rat \<Rightarrow> breaker \<Rightarrow> breaker" where
  "record_failure now b =
     (if br_state b = DISABLED then b
      else
        (let b1 = b\<lparr>br_failures := br_failures b + 1\<rparr> in
         if br_state b1 = CLOSED \<and> int (br_failures b1) \<ge> br_threshold b1
         then b1\<lparr>br_state := OPEN, br_changed := now\<rparr>
         else if br_state b1 = HALF_OPEN then b1\<lparr>br_state := OPEN, br_changed := now\<rparr>
         else b1))"

subsection \<open>Runs\<close>

text \<open>What callers do to a breaker, in any order: ask, report success, report failure.\<close>

datatype br_event = Ask rat bool | Succeeded | Failed rat

inductive br_step :: "breaker \<Rightarrow> br_event \<Rightarrow> breaker \<Rightarrow> bool" where
  ask: "can_attempt now b = (ok, b') \<Longrightarrow> br_step b (Ask now ok) b'"
| succeeded: "br_step b Succeeded (record_success b)"
| failed: "br_step b (Failed now) (record_failure now b)"

inductive br_run :: "breaker \<Rightarrow> br_event list \<Rightarrow> breaker \<Rightarrow> bool" where
  nil: "br_run b [] b"
| snoc: "br_run b evs b1 \<Longrightarrow> br_step b1 ev b2 \<Longrightarrow> br_run b (evs @ [ev]) b2"

inductive_cases br_step_askE: "br_step b (Ask now ok) b'"
inductive_cases br_step_succeededE: "br_step b Succeeded b'"
inductive_cases br_step_failedE: "br_step b (Failed now) b'"

inductive_simps br_step_ask_iff: "br_step b (Ask now ok) b'"

text \<open>Failures since the last success\<close>

definition streak :: "br_event list \<Rightarrow> nat" where
  "streak evs = length (filter (\<lambda>e. case e of Failed _ \<Rightarrow> True | _ \<Rightarrow> False)
     (takeWhile (\<lambda>e. e \<noteq> Succeeded) (rev evs)))"

lemma streak_simps [simp]:
  "streak [] = 0" "streak (evs @ [Succeeded]) = 0"
  "streak (evs @ [Failed t]) = Suc (streak evs)" "streak (evs @ [Ask t ok]) = streak evs"
  by (simp_all add: streak_def)

text \<open>
  The time of the last change of a run that left the breaker open or half open: its last trip
  or admitted probe.
\<close>

definition br_invar :: "breaker \<Rightarrow> br_event list \<Rightarrow> breaker \<Rightarrow> bool" where
  "br_invar b0 evs b \<longleftrightarrow>
     br_threshold b = br_threshold b0 \<and> br_cooldown b = br_cooldown b0
     \<and> br_state b \<noteq> DISABLED \<and> br_failures b = streak evs
     \<and> (br_state b = CLOSED \<longleftrightarrow> int (streak evs) < br_threshold b0)"

lemma br_step_invar:
  assumes "br_step b ev b'" "br_invar b0 evs b" "br_threshold b0 \<ge> 1"
  shows "br_invar b0 (evs @ [ev]) b'"
  using assms
proof cases
  case (ask now ok)
  with assms(2) show ?thesis
    by (auto simp: br_invar_def can_attempt_def split: circuit_state.splits if_splits)
next
  case succeeded
  with assms(2,3) show ?thesis by (simp add: br_invar_def record_success_def)
next
  case (failed now)
  with assms(2) show ?thesis
    by (cases "br_state b") (auto simp: br_invar_def record_failure_def Let_def)
qed

lemma br_run_invar:
  assumes "br_run (breaker_init th cd nm t0) evs b" "th \<ge> 1"
  shows "br_invar (breaker_init th cd nm t0) evs b"
  using assms
proof (induction "breaker_init th cd nm t0" evs b rule: br_run.induct)
  case nil
  then show ?case by (simp add: br_invar_def breaker_init_def)
next
  case (snoc evs b1 ev b2)
  have "br_threshold (breaker_init th cd nm t0) \<ge> 1" using snoc.prems by (simp add: breaker_init_def)
  with snoc show ?case using br_step_invar by blast
qed

text \<open>A run as a computation, so that concrete runs evaluate.\<close>

fun br_exec :: "br_event \<Rightarrow> breaker \<Rightarrow> breaker" where
  "br_exec (Ask now _) b = snd (can_attempt now b)"
| "br_exec Succeeded b = record_success b"
| "br_exec (Failed now) b = record_failure now b"

subsection \<open>Properties\<close>

text \<open>After any sequence of requests and reports to a new circuit breaker with a positive threshold, its
  failure count is the number of failures since the last success, and it is CLOSED exactly while
  that number is below the threshold.\<close>

theorem breaker_trips_at_threshold:
  assumes "br_run (breaker_init threshold cooldown name t0) evs b" and "threshold \<ge> 1"
  shows "br_failures b = streak evs \<and> (br_state b = CLOSED) = (int (streak evs) < threshold)
     \<and> br_state b \<noteq> DISABLED"
  using br_run_invar [OF assms] by (simp add: br_invar_def breaker_init_def)

theorem breaker_trips_at_threshold_witness:
  "br_state (fold br_exec [Failed 1, Succeeded, Failed 2, Failed 3] (breaker_init 2 30 ''r'' 0)) = OPEN
   \<and> streak [Failed 1, Succeeded, Failed 2, Failed 3] = 2"
proof -
  let ?b0 = "breaker_init 2 30 ''r'' 0" and ?evs = "[Failed 1, Succeeded, Failed 2, Failed 3]"
  have "br_run ?b0 ((((([] @ [Failed 1]) @ [Succeeded]) @ [Failed 2]) @ [Failed 3]))
      (record_failure 3 (record_failure 2 (record_success (record_failure 1 ?b0))))"
    by (rule br_run.snoc [OF br_run.snoc [OF br_run.snoc [OF br_run.snoc [OF br_run.nil
          br_step.failed] br_step.succeeded] br_step.failed] br_step.failed])
  then have run: "br_run ?b0 ?evs (fold br_exec ?evs ?b0)" by simp
  have s: "streak ?evs = 2" by (simp add: streak_def)
  from breaker_trips_at_threshold [OF run] s have "br_state (fold br_exec ?evs ?b0) \<noteq> CLOSED" by simp
  moreover have "br_state (fold br_exec ?evs ?b0) = OPEN"
    by (simp add: breaker_init_def record_failure_def record_success_def)
  ultimately show ?thesis using s by simp
qed

text \<open>C28: While a breaker is OPEN, every request within the cooldown is refused and changes nothing, so no
  sequence of such requests and of failure reports reaches the dependency; once the cooldown is
  over the next request is admitted, so a breaker never stays shut. Half open it admits every
  request, not the single probe of its documentation.\<close>

theorem breaker_fast_fails_and_recovers:
  "let b1 = fold record_failure ts b in
     (if br_state b = OPEN
      then (if t - br_changed b < br_cooldown b then can_attempt t b1 = (False, b1)
            else fst (can_attempt t b1))
      else True)
     \<and> (if br_state b \<noteq> DISABLED then fst (can_attempt (br_changed b + br_cooldown b) b) else True)
     \<and> (if br_state b = HALF_OPEN then can_attempt t b = (True, b) else True)"
proof -
  have f: "br_state (fold record_failure ts c) = OPEN \<and> br_changed (fold record_failure ts c) = br_changed c
      \<and> br_cooldown (fold record_failure ts c) = br_cooldown c" if "br_state c = OPEN" for ts c
    using that by (induction ts arbitrary: c) (auto simp: record_failure_def)
  show ?thesis using f [of b ts] by (auto simp: can_attempt_def Let_def split: circuit_state.split)
qed

end
