(* ===== verification/SingleFlight.thy ===== *)
theory SingleFlight
  imports Prelude
begin

text \<open>
  \<open>SingleFlightManager\<close> and its use in \<open>TieredCacheManager.get_or_set\<close>
  (\<open>app/api/core/cache.py\<close>), with its concurrency: any number of threads take the steps of the
  protected region in any interleaving. A lock object is its number; the pool lock makes
  \<open>acquire_flight\<close> and \<open>release_flight\<close> one step each.
\<close>

subsection \<open>The lock table\<close>

record flights =
  sf_locks :: "string \<rightharpoonup> nat \<times> nat"
  sf_next :: nat

definition flights_init :: flights where
  "flights_init = \<lparr>sf_locks = Map.empty, sf_next = 0\<rparr>"

definition acquire_flight :: "string \<Rightarrow> flights \<Rightarrow> nat \<times> flights" where
  "acquire_flight key f =
     (case sf_locks f key of
        Some (lock, refs) \<Rightarrow> (lock, f\<lparr>sf_locks := (sf_locks f)(key \<mapsto> (lock, refs + 1))\<rparr>)
      | None \<Rightarrow>
          (sf_next f, f\<lparr>sf_locks := (sf_locks f)(key \<mapsto> (sf_next f, 1)), sf_next := sf_next f + 1\<rparr>))"

definition release_flight :: "string \<Rightarrow> flights \<Rightarrow> flights" where
  "release_flight key f =
     (case sf_locks f key of
        None \<Rightarrow> f
      | Some (lock, refs) \<Rightarrow>
          (if refs \<le> 1 then f\<lparr>sf_locks := (sf_locks f)(key := None)\<rparr>
           else f\<lparr>sf_locks := (sf_locks f)(key \<mapsto> (lock, refs - 1))\<rparr>))"

subsection \<open>Threads\<close>

text \<open>
  Where a thread is after it missed both tiers: it has its lock object and waits, it holds
  the lock, it has the producer's result, it is done and still holds the lock, it has released
  the lock and not yet the flight.
\<close>

datatype phase =
    Idle | Waiting string nat | Holding string nat | Produced string nat | Done string nat
  | Unlocked string nat

fun flight_of :: "phase \<Rightarrow> (string \<times> nat) option" where
  "flight_of Idle = None"
| "flight_of (Waiting k l) = Some (k, l)"
| "flight_of (Holding k l) = Some (k, l)"
| "flight_of (Produced k l) = Some (k, l)"
| "flight_of (Done k l) = Some (k, l)"
| "flight_of (Unlocked k l) = Some (k, l)"

fun has_lock :: "phase \<Rightarrow> nat option" where
  "has_lock (Holding k l) = Some l"
| "has_lock (Produced k l) = Some l"
| "has_lock (Done k l) = Some l"
| "has_lock _ = None"

text \<open>
  The system: the table, the owner of each lock, the threads, the keys that a tier holds as
  fresh, and for each key how often the producer ran, how often a result was lost (the producer
  raised, the write failed, the entry expired or was evicted) and how often it ran for a
  background refresh. \<open>_refresh_worker\<close> takes the flight as a request does and produces without
  looking at the tiers again (rules \<open>refresh\<close>, \<open>refresh_raises\<close>).
\<close>

record flight_sys =
  fy_flights :: flights
  fy_owner :: "nat \<rightharpoonup> nat"
  fy_phase :: "nat \<Rightarrow> phase"
  fy_cached :: "string set"
  fy_calls :: "string \<Rightarrow> nat"
  fy_lost :: "string \<Rightarrow> nat"
  fy_refreshes :: "string \<Rightarrow> nat"

definition flight_sys_init :: "string set \<Rightarrow> flight_sys" where
  "flight_sys_init cached =
     \<lparr>fy_flights = flights_init, fy_owner = Map.empty, fy_phase = (\<lambda>_. Idle), fy_cached = cached,
      fy_calls = (\<lambda>_. 0), fy_lost = (\<lambda>_. 0), fy_refreshes = (\<lambda>_. 0)\<rparr>"

abbreviation set_phase :: "nat \<Rightarrow> phase \<Rightarrow> flight_sys \<Rightarrow> flight_sys" where
  "set_phase t p s \<equiv> s\<lparr>fy_phase := (fy_phase s)(t := p)\<rparr>"

inductive flight_step :: "flight_sys \<Rightarrow> flight_sys \<Rightarrow> bool" where
  join: "fy_phase s t = Idle \<Longrightarrow> acquire_flight k (fy_flights s) = (l, f) \<Longrightarrow>
     flight_step s (set_phase t (Waiting k l) (s\<lparr>fy_flights := f\<rparr>))"
| lock: "fy_phase s t = Waiting k l \<Longrightarrow> fy_owner s l = None \<Longrightarrow>
     flight_step s (set_phase t (Holding k l) (s\<lparr>fy_owner := (fy_owner s)(l \<mapsto> t)\<rparr>))"
| recheck_hit: "fy_phase s t = Holding k l \<Longrightarrow> k \<in> fy_cached s \<Longrightarrow>
     flight_step s (set_phase t (Done k l) s)"
| produce: "fy_phase s t = Holding k l \<Longrightarrow> k \<notin> fy_cached s \<Longrightarrow>
     flight_step s (set_phase t (Produced k l) (s\<lparr>fy_calls := (fy_calls s)(k := fy_calls s k + 1)\<rparr>))"
| produce_raises: "fy_phase s t = Holding k l \<Longrightarrow> k \<notin> fy_cached s \<Longrightarrow>
     flight_step s (set_phase t (Done k l)
       (s\<lparr>fy_calls := (fy_calls s)(k := fy_calls s k + 1), fy_lost := (fy_lost s)(k := fy_lost s k + 1)\<rparr>))"
| refresh: "fy_phase s t = Holding k l \<Longrightarrow>
     flight_step s (set_phase t (Produced k l)
       (s\<lparr>fy_calls := (fy_calls s)(k := fy_calls s k + 1), fy_refreshes := (fy_refreshes s)(k := fy_refreshes s k + 1)\<rparr>))"
| refresh_raises: "fy_phase s t = Holding k l \<Longrightarrow>
     flight_step s (set_phase t (Done k l)
       (s\<lparr>fy_calls := (fy_calls s)(k := fy_calls s k + 1), fy_refreshes := (fy_refreshes s)(k := fy_refreshes s k + 1)\<rparr>))"
| store: "fy_phase s t = Produced k l \<Longrightarrow>
     flight_step s (set_phase t (Done k l) (s\<lparr>fy_cached := insert k (fy_cached s)\<rparr>))"
| store_fails: "fy_phase s t = Produced k l \<Longrightarrow>
     flight_step s (set_phase t (Done k l) (s\<lparr>fy_lost := (fy_lost s)(k := fy_lost s k + 1)\<rparr>))"
| unlock: "fy_phase s t = Done k l \<Longrightarrow>
     flight_step s (set_phase t (Unlocked k l) (s\<lparr>fy_owner := (fy_owner s)(l := None)\<rparr>))"
| leave: "fy_phase s t = Unlocked k l \<Longrightarrow>
     flight_step s (set_phase t Idle (s\<lparr>fy_flights := release_flight k (fy_flights s)\<rparr>))"
| expire: "k \<in> fy_cached s \<Longrightarrow>
     flight_step s (s\<lparr>fy_cached := fy_cached s - {k}, fy_lost := (fy_lost s)(k := fy_lost s k + 1)\<rparr>)"

inductive flight_reachable :: "string set \<Rightarrow> flight_sys \<Rightarrow> bool" for cached where
  start: "flight_reachable cached (flight_sys_init cached)"
| step: "flight_reachable cached s \<Longrightarrow> flight_step s s' \<Longrightarrow> flight_reachable cached s'"

subsection \<open>The table agrees with the threads\<close>

definition users :: "flight_sys \<Rightarrow> string \<Rightarrow> nat set" where
  "users s k = {t. \<exists>l. flight_of (fy_phase s t) = Some (k, l)}"

text \<open>
  A key is in the table with as many references as it has threads, all on its lock; locks of
  different keys differ; a lock's owner is the thread that is past it.
\<close>

definition entry_ok :: "(nat \<times> nat) option \<Rightarrow> nat set \<Rightarrow> nat \<Rightarrow> bool" where
  "entry_ok e U next' \<longleftrightarrow>
     finite U \<and> (case e of None \<Rightarrow> U = {} | Some (l, n) \<Rightarrow> n = card U \<and> U \<noteq> {} \<and> l < next')"

definition table_ok :: "flight_sys \<Rightarrow> bool" where
  "table_ok s \<longleftrightarrow>
     (\<forall>k. entry_ok (sf_locks (fy_flights s) k) (users s k) (sf_next (fy_flights s)))
     \<and> (\<forall>t k l. flight_of (fy_phase s t) = Some (k, l) \<longrightarrow> map_option fst (sf_locks (fy_flights s) k) = Some l)
     \<and> (\<forall>k k' l. map_option fst (sf_locks (fy_flights s) k) = Some l
          \<longrightarrow> map_option fst (sf_locks (fy_flights s) k') = Some l \<longrightarrow> k = k')"

definition owner_ok :: "flight_sys \<Rightarrow> bool" where
  "owner_ok s \<longleftrightarrow> (\<forall>t l. fy_owner s l = Some t \<longleftrightarrow> has_lock (fy_phase s t) = Some l)"

lemma entry_ok_next: "entry_ok e U n \<Longrightarrow> n \<le> m \<Longrightarrow> entry_ok e U m"
  by (auto simp: entry_ok_def split: option.splits)

lemma entry_ok_first: "entry_ok (Some (l, Suc 0)) {t} (Suc l)"
  by (simp add: entry_ok_def)

lemma entry_ok_more: "entry_ok (Some (l, n)) U m \<Longrightarrow> t \<notin> U \<Longrightarrow> entry_ok (Some (l, Suc n)) (insert t U) m"
  by (simp add: entry_ok_def)

lemma entry_ok_fewer:
  "entry_ok (Some (l, n)) U m \<Longrightarrow> t \<in> U \<Longrightarrow>
     entry_ok (if n \<le> 1 then None else Some (l, n - 1)) (U - {t}) m"
  by (auto simp: entry_ok_def card_le_Suc0_iff_eq)

lemma users_set_phase:
  "users (set_phase t p s) k =
     (if map_option fst (flight_of p) = Some k then insert t (users s k) else users s k - {t})"
  by (cases "flight_of p") (auto simp: users_def)

text \<open>A joining or leaving thread changes the table together with its phase.\<close>

lemma users_joined:
  "(\<And>j. t \<notin> users s j) \<Longrightarrow>
     users (set_phase t (Waiting k l) (s\<lparr>fy_flights := f\<rparr>)) j = (if j = k then insert t (users s k) else users s j)"
  by (auto simp: users_def split: if_splits)

lemma users_left:
  "fy_phase s t = Unlocked k l \<Longrightarrow>
     users (set_phase t Idle (s\<lparr>fy_flights := f\<rparr>)) j = (if j = k then users s k - {t} else users s j)"
  by (auto simp: users_def split: if_splits)

lemma users_fields [simp]:
  "users (s\<lparr>fy_flights := f\<rparr>) k = users s k" "users (s\<lparr>fy_owner := ow\<rparr>) k = users s k"
  "users (s\<lparr>fy_cached := c\<rparr>) k = users s k" "users (s\<lparr>fy_calls := n\<rparr>) k = users s k"
  "users (s\<lparr>fy_lost := n\<rparr>) k = users s k" "users (s\<lparr>fy_refreshes := n\<rparr>) k = users s k"
  by (simp_all add: users_def)

text \<open>Only joining and leaving touch the table.\<close>

lemma table_ok_same:
  assumes "table_ok s" "fy_flights s' = fy_flights s"
    and f: "\<And>t. flight_of (fy_phase s' t) = flight_of (fy_phase s t)"
  shows "table_ok s'"
proof -
  have "users s' k = users s k" for k using f by (simp add: users_def)
  with assms show ?thesis unfolding table_ok_def by simp
qed

lemma table_ok_join:
  assumes ok: "table_ok s" and idle: "fy_phase s t = Idle"
    and a: "acquire_flight k (fy_flights s) = (l, f)"
  shows "table_ok (set_phase t (Waiting k l) (s\<lparr>fy_flights := f\<rparr>))"
proof -
  let ?L = "sf_locks (fy_flights s)" and ?n = "sf_next (fy_flights s)"
  let ?s = "set_phase t (Waiting k l) (s\<lparr>fy_flights := f\<rparr>)"
  have t: "t \<notin> users s j" for j using idle by (simp add: users_def)
  then have u: "users ?s j = (if j = k then insert t (users s k) else users s j)" for j
    by (rule users_joined)
  have e: "entry_ok (?L j) (users s j) ?n" for j using ok by (simp add: table_ok_def)
  have old: "map_option fst (?L j) = Some l'" if "flight_of (fy_phase s t') = Some (j, l')" for t' j l'
    using ok that by (simp add: table_ok_def)
  have inj: "j = j'" if "map_option fst (?L j) = Some l'" "map_option fst (?L j') = Some l'" for j j' l'
    using ok that unfolding table_ok_def by blast
  have lt: "l' < ?n" if "map_option fst (?L j) = Some l'" for j l'
    using e [of j] that by (auto simp: entry_ok_def)
  show ?thesis
  proof (cases "?L k")
    case None
    with a have f: "l = ?n" "sf_locks f = ?L(k \<mapsto> (?n, Suc 0))" "sf_next f = Suc ?n"
      by (auto simp: acquire_flight_def)
    have "users s k = {}" using e [of k] None by (simp add: entry_ok_def)
    with u have e': "entry_ok (sf_locks f j) (users ?s j) (sf_next f)" for j
      using e [of j] entry_ok_first [of ?n t] by (auto simp: f intro: entry_ok_next)
    have "j \<noteq> k" if "flight_of (fy_phase s t') = Some (j, l')" for t' j l'
      using old [OF that] None by auto
    with old e' lt inj show ?thesis
      unfolding table_ok_def by (simp add: f(1,2)) (metis less_irrefl)
  next
    case (Some p)
    obtain n where p: "p = (l, n)" "sf_locks f = ?L(k \<mapsto> (l, Suc n))" "sf_next f = ?n"
      using a Some by (cases p) (auto simp: acquire_flight_def)
    have e': "entry_ok (sf_locks f j) (users ?s j) (sf_next f)" for j
      using e [of j] entry_ok_more [of l n "users s k" ?n t] t e [of k] Some p u by auto
    have m: "map_option fst (sf_locks f j) = map_option fst (?L j)" for j using Some p by simp
    with old e' inj Some p show ?thesis unfolding table_ok_def by simp
  qed
qed

lemma table_ok_leave:
  assumes ok: "table_ok s" and t: "fy_phase s t = Unlocked k l"
  shows "table_ok (set_phase t Idle (s\<lparr>fy_flights := release_flight k (fy_flights s)\<rparr>))"
proof -
  let ?L = "sf_locks (fy_flights s)" and ?n = "sf_next (fy_flights s)"
  let ?f = "release_flight k (fy_flights s)" and ?s = "set_phase t Idle (s\<lparr>fy_flights := release_flight k (fy_flights s)\<rparr>)"
  have u: "users ?s j = (if j = k then users s k - {t} else users s j)" for j
    by (rule users_left [OF t])
  have e: "entry_ok (?L j) (users s j) ?n" for j using ok by (simp add: table_ok_def)
  have old: "map_option fst (?L j) = Some l'" if "flight_of (fy_phase s t') = Some (j, l')" for t' j l'
    using ok that by (simp add: table_ok_def)
  have inj: "j = j'" if "map_option fst (?L j) = Some l'" "map_option fst (?L j') = Some l'" for j j' l'
    using ok that unfolding table_ok_def by blast
  obtain n where k: "?L k = Some (l, n)" using old [of t k l] t by auto
  have f: "sf_locks ?f = ?L(k := if n \<le> 1 then None else Some (l, n - 1))" "sf_next ?f = ?n"
    using k by (auto simp: release_flight_def)
  have mem: "t \<in> users s k" using t by (simp add: users_def)
  have e': "entry_ok (sf_locks ?f j) (users ?s j) (sf_next ?f)" for j
  proof (cases "j = k")
    case True
    have "entry_ok (if n \<le> 1 then None else Some (l, n - 1)) (users s k - {t}) ?n"
      using entry_ok_fewer [OF e [of k, unfolded k] mem] .
    then show ?thesis unfolding u f using True by (simp only: fun_upd_same if_True simp_thms)
  next
    case False
    then show ?thesis unfolding u f using e [of j] by (simp only: fun_upd_other if_False simp_thms not_False_eq_True)
  qed
  have still: "1 < n" if "flight_of (fy_phase s t') = Some (k, l')" "t' \<noteq> t" for t' l'
  proof (rule ccontr)
    assume "\<not> 1 < n"
    moreover have "n = card (users s k)" "finite (users s k)" using e [of k] k by (auto simp: entry_ok_def)
    ultimately have "card (users s k) \<le> Suc 0" "finite (users s k)" by simp_all
    then have "\<forall>x \<in> users s k. \<forall>y \<in> users s k. x = y" using card_le_Suc0_iff_eq by blast
    moreover have "t' \<in> users s k" using that(1) by (auto simp: users_def)
    ultimately show False using mem that(2) by blast
  qed
  have "map_option fst (sf_locks ?f j) = Some l'" if "flight_of (fy_phase ?s t') = Some (j, l')" for t' j l'
  proof -
    have x: "flight_of (fy_phase s t') = Some (j, l')" "t' \<noteq> t" using that by (auto split: if_splits)
    with old [OF x(1)] still [of t' l'] k show ?thesis unfolding f by auto
  qed
  moreover have "j = j'" if "map_option fst (sf_locks ?f j) = Some l'" "map_option fst (sf_locks ?f j') = Some l'"
    for j j' l'
    using that inj k unfolding f by (auto split: if_splits)
  ultimately show ?thesis using e' unfolding table_ok_def by simp
qed

lemma owner_ok_step:
  assumes "flight_step s s'" "table_ok s" "owner_ok s"
  shows "owner_ok s'"
  using assms
proof cases
  case (lock t k l)
  then have "has_lock (fy_phase s t') \<noteq> Some l" for t'
    using assms(3) unfolding owner_ok_def by (metis option.distinct(1))
  with lock assms(3) show ?thesis by (auto simp: owner_ok_def)
next
  case (unlock t k l)
  have own: "fy_owner s l' = Some t' \<longleftrightarrow> has_lock (fy_phase s t') = Some l'" for t' l'
    using assms(3) by (simp add: owner_ok_def)
  have "fy_owner s l = Some t" using own unlock(2) by simp
  then have "t' = t" if "has_lock (fy_phase s t') = Some l" for t' using own [of l t'] that by simp
  then show ?thesis using own unlock by (auto simp: owner_ok_def)
qed (use assms(3) in \<open>auto simp: owner_ok_def\<close>)

lemma table_ok_step:
  assumes "flight_step s s'" "table_ok s"
  shows "table_ok s'"
  using assms(1)
proof cases
  case (join t k l f)
  then show ?thesis using table_ok_join [OF assms(2)] by simp
next
  case (leave t k l)
  then show ?thesis using table_ok_leave [OF assms(2)] by simp
qed (auto intro: table_ok_same [OF assms(2)])

text \<open>At most one production of a key is neither lost nor kept.\<close>

definition producing :: "flight_sys \<Rightarrow> string \<Rightarrow> bool" where
  "producing s k \<longleftrightarrow> k \<in> fy_cached s \<or> (\<exists>t l. fy_phase s t = Produced k l)"

definition calls_ok :: "flight_sys \<Rightarrow> bool" where
  "calls_ok s \<longleftrightarrow>
     (\<forall>k. fy_calls s k \<le> fy_lost s k + fy_refreshes s k + (if producing s k then 1 else 0))"

lemma flight_of_has_lock: "has_lock p = Some l \<Longrightarrow> \<exists>k. flight_of p = Some (k, l)"
  by (cases p) simp_all

lemma same_lock:
  assumes "table_ok s" "flight_of (fy_phase s t) = Some (k, l)" "flight_of (fy_phase s t') = Some (k', l')"
  shows "k = k' \<longleftrightarrow> l = l'"
  using assms unfolding table_ok_def by (metis option.inject)

lemma one_holder:
  assumes "owner_ok s" "has_lock (fy_phase s t) = Some l" "has_lock (fy_phase s t') = Some l"
  shows "t = t'"
  using assms unfolding owner_ok_def by (metis option.inject)

lemma key_holder:
  assumes "table_ok s" "owner_ok s" "flight_of (fy_phase s t) = Some (k, l)" "flight_of (fy_phase s t') = Some (k, l')"
    and "has_lock (fy_phase s t) = Some l" "has_lock (fy_phase s t') = Some l'"
  shows "t = t'"
  using assms same_lock one_holder by blast

lemma producing_set_phase:
  assumes "producing s j" "\<And>l. fy_phase s t \<noteq> Produced j l"
  shows "producing (set_phase t p s) j"
proof -
  consider "j \<in> fy_cached s" | t' l where "fy_phase s t' = Produced j l"
    using assms(1) unfolding producing_def by blast
  then show ?thesis
  proof cases
    case 2
    then have "(fy_phase (set_phase t p s)) t' = Produced j l" using assms(2) by auto
    then show ?thesis unfolding producing_def by blast
  qed (simp add: producing_def)
qed

lemma producingI: "fy_phase s t = Produced j l \<Longrightarrow> producing s j"
  unfolding producing_def by blast

lemma producing_fields [simp]:
  "producing (s\<lparr>fy_flights := f, fy_phase := p\<rparr>) k = producing (s\<lparr>fy_phase := p\<rparr>) k"
  "producing (s\<lparr>fy_owner := ow, fy_phase := p\<rparr>) k = producing (s\<lparr>fy_phase := p\<rparr>) k"
  "producing (s\<lparr>fy_calls := n, fy_phase := p\<rparr>) k = producing (s\<lparr>fy_phase := p\<rparr>) k"
  "producing (s\<lparr>fy_calls := n, fy_lost := m, fy_phase := p\<rparr>) k = producing (s\<lparr>fy_phase := p\<rparr>) k"
  "producing (s\<lparr>fy_calls := n, fy_refreshes := m, fy_phase := p\<rparr>) k = producing (s\<lparr>fy_phase := p\<rparr>) k"
  "producing (s\<lparr>fy_lost := m, fy_phase := p\<rparr>) k = producing (s\<lparr>fy_phase := p\<rparr>) k"
  by (simp_all add: producing_def)

text \<open>One step's effect on one key: what the accounting needs of the rules.\<close>

lemma flight_step_account:
  assumes st: "flight_step s s'" and ok: "table_ok s" "owner_ok s"
  shows "(fy_calls s' j = fy_calls s j \<and> fy_lost s j \<le> fy_lost s' j \<and> fy_refreshes s' j = fy_refreshes s j
            \<and> (producing s j \<longrightarrow> producing s' j))
       \<or> (fy_calls s' j = fy_calls s j \<and> fy_lost s' j = fy_lost s j + 1 \<and> fy_refreshes s' j = fy_refreshes s j)
       \<or> (fy_calls s' j = fy_calls s j + 1 \<and> fy_lost s' j = fy_lost s j \<and> fy_refreshes s' j = fy_refreshes s j
            \<and> \<not> producing s j \<and> producing s' j)
       \<or> (fy_calls s' j = fy_calls s j + 1
            \<and> fy_lost s' j + fy_refreshes s' j = fy_lost s j + fy_refreshes s j + 1
            \<and> (producing s j \<longrightarrow> producing s' j))"
  using st
proof cases
  case (produce t k l)
  have "t = t'" if "fy_phase s t' = Produced k l'" for t' l'
    by (rule key_holder [OF ok, of t k l t' l']) (use produce that in simp_all)
  then have n: "\<not> producing s k" using produce by (auto simp: producing_def)
  have "producing s' k" by (rule producingI [of _ t _ l]) (use produce in simp)
  then show ?thesis using n produce producing_set_phase [of s j t]  by (cases "j = k") auto
next
  case (expire k)
  then show ?thesis by (cases "j = k") (auto simp: producing_def)
next
  case (store t k l)
  then show ?thesis
    using producing_set_phase [of s j t "Done k l"] by (cases "j = k") (auto simp: producing_def)
next
  case (store_fails t k l)
  then show ?thesis using producing_set_phase [of s j t "Done k l"] by (cases "j = k") auto
next
  case (refresh t k l)
  then show ?thesis using producing_set_phase [of s j t "Produced k l"] by (cases "j = k") auto
next
  case (refresh_raises t k l)
  then show ?thesis using producing_set_phase [of s j t "Done k l"] by (cases "j = k") auto
next
  case (produce_raises t k l)
  then show ?thesis using producing_set_phase [of s j t "Done k l"] by (cases "j = k") auto
next
  case (join t k l f)
  then show ?thesis using producing_set_phase [of s j t "Waiting k l"] by auto
next
  case (lock t k l)
  then show ?thesis using producing_set_phase [of s j t "Holding k l"] by auto
next
  case (recheck_hit t k l)
  then show ?thesis using producing_set_phase [of s j t "Done k l"] by auto
next
  case (unlock t k l)
  then show ?thesis using producing_set_phase [of s j t "Unlocked k l"] by auto
next
  case (leave t k l)
  then show ?thesis using producing_set_phase [of s j t Idle] by auto
qed

lemma calls_ok_step:
  assumes "flight_step s s'" "table_ok s" "owner_ok s" "calls_ok s"
  shows "calls_ok s'"
  unfolding calls_ok_def
proof
  fix j
  have "fy_calls s j \<le> fy_lost s j + fy_refreshes s j + (if producing s j then 1 else 0)"
    using assms(4) by (simp add: calls_ok_def)
  with flight_step_account [OF assms(1,2,3), of j]
  show "fy_calls s' j \<le> fy_lost s' j + fy_refreshes s' j + (if producing s' j then 1 else 0)"
    by (auto split: if_splits)
qed

lemma flight_reachable_ok:
  "flight_reachable cached s \<Longrightarrow> table_ok s \<and> owner_ok s \<and> calls_ok s"
proof (induction rule: flight_reachable.induct)
  case start
  show ?case
    by (simp add: flight_sys_init_def table_ok_def owner_ok_def calls_ok_def users_def entry_ok_def flights_init_def)
next
  case (step s s')
  then show ?case using table_ok_step owner_ok_step calls_ok_step by metis
qed

lemmas flight_ok = flight_reachable_ok [THEN conjunct1] flight_reachable_ok [THEN conjunct2, THEN conjunct1]
  flight_reachable_ok [THEN conjunct2, THEN conjunct2]

lemma at_most_one_producer:
  assumes "flight_reachable cached s"
  shows "fy_calls s k \<le> fy_lost s k + fy_refreshes s k + 1"
  using flight_ok(3) [OF assms] by (auto simp: calls_ok_def split: if_splits dest: spec [of _ k])

text \<open>
  C17: Single flight. In every interleaving of any number of threads, two threads inside the
  protected region of one key are the same thread; the lock table holds a key exactly as long as
  some thread uses it, so it is empty again once all threads are done; and the producer of a key
  ran at most once more than its results were lost or refreshed in the background.
\<close>

theorem single_flight_per_key:
  assumes "flight_reachable cached s"
  shows "(flight_of (fy_phase s t) = Some (k, l) \<and> has_lock (fy_phase s t) = Some l
            \<and> flight_of (fy_phase s t') = Some (k, l') \<and> has_lock (fy_phase s t') = Some l' \<longrightarrow> t = t')
         \<and> (sf_locks (fy_flights s) k = None \<longleftrightarrow> (\<forall>t l. flight_of (fy_phase s t) \<noteq> Some (k, l)))
         \<and> fy_calls s k \<le> fy_lost s k + fy_refreshes s k + 1"
proof (intro conjI impI)
  show "t = t'" if "flight_of (fy_phase s t) = Some (k, l) \<and> has_lock (fy_phase s t) = Some l
      \<and> flight_of (fy_phase s t') = Some (k, l') \<and> has_lock (fy_phase s t') = Some l'"
    using key_holder [OF flight_ok(1,2) [OF assms]] that by blast
  have e: "entry_ok (sf_locks (fy_flights s) k) (users s k) (sf_next (fy_flights s))"
    using flight_ok(1) [OF assms] by (simp add: table_ok_def)
  show "sf_locks (fy_flights s) k = None \<longleftrightarrow> (\<forall>t l. flight_of (fy_phase s t) \<noteq> Some (k, l))"
  proof (cases "sf_locks (fy_flights s) k")
    case None
    then show ?thesis using e by (simp add: entry_ok_def users_def)
  next
    case (Some p)
    then show ?thesis using e by (cases p) (auto simp: entry_ok_def users_def)
  qed
  show "fy_calls s k \<le> fy_lost s k + fy_refreshes s k + 1" by (rule at_most_one_producer [OF assms])
qed

text \<open>Two threads miss one key together: the second joins the first one's flight and waits.\<close>

definition two_flights :: flight_sys where
  "two_flights = set_phase 1 (Waiting ''k'' 0) (set_phase 0 (Waiting ''k'' 0)
     ((flight_sys_init {})\<lparr>fy_flights := snd (acquire_flight ''k'' (snd (acquire_flight ''k'' flights_init)))\<rparr>))"

lemma two_flights_reachable: "flight_reachable {} two_flights"
proof -
  let ?f = "snd (acquire_flight ''k'' flights_init)"
  let ?s = "set_phase 0 (Waiting ''k'' 0) ((flight_sys_init {})\<lparr>fy_flights := ?f\<rparr>)"
  have 1: "flight_step (flight_sys_init {}) ?s"
    by (rule flight_step.join) (simp_all add: flight_sys_init_def acquire_flight_def flights_init_def)
  have 2: "flight_step ?s (set_phase 1 (Waiting ''k'' 0) (?s\<lparr>fy_flights := snd (acquire_flight ''k'' ?f)\<rparr>))"
    by (rule flight_step.join) (simp_all add: flight_sys_init_def acquire_flight_def flights_init_def)
  have "two_flights = set_phase 1 (Waiting ''k'' 0) (?s\<lparr>fy_flights := snd (acquire_flight ''k'' ?f)\<rparr>)"
    by (simp add: two_flights_def)
  then show ?thesis
    using flight_reachable.step [OF flight_reachable.step [OF flight_reachable.start 1] 2] by (simp only:)
qed

theorem single_flight_per_key_witness:
  "flight_reachable {} two_flights \<and> sf_locks (fy_flights two_flights) ''k'' \<noteq> None
   \<and> fy_calls two_flights ''k'' \<le> fy_lost two_flights ''k'' + fy_refreshes two_flights ''k'' + 1"
proof (intro conjI)
  have "flight_of (fy_phase two_flights 0) = Some (''k'', 0)"
    by (simp add: two_flights_def flight_sys_init_def)
  then show "sf_locks (fy_flights two_flights) ''k'' \<noteq> None"
    by (subst single_flight_per_key [OF two_flights_reachable, THEN conjunct2, THEN conjunct1]) blast
  show "fy_calls two_flights ''k'' \<le> fy_lost two_flights ''k'' + fy_refreshes two_flights ''k'' + 1"
    by (rule single_flight_per_key [OF two_flights_reachable, THEN conjunct2, THEN conjunct2])
qed (rule two_flights_reachable)

end
