(* ===== verification/RedisTier.thy ===== *)
theory RedisTier
  imports L1Cache Breaker SingleFlight
begin

text \<open>
  The second cache tier (\<open>app/api/core/cache.py\<close>): serialization, the versioned envelope, the
  cache keys and \<open>L2RedisClient\<close>. The Redis client, JSON, zlib, base64 and the clocks are
  parameters (\<open>cache_env\<close>); a world \<open>'w\<close> holds what they and the producers read and change.
\<close>

subsection \<open>Parameters\<close>

text \<open>
  Redis: connecting, \<open>GET\<close>, \<open>SET .. EX\<close>, \<open>DEL\<close>, the keys that a \<open>SCAN\<close> iteration yields with the
  exception that ends it, \<open>PING\<close>. A call may raise.
\<close>

record 'w cache_env =
  ce_mono :: "'w \<Rightarrow> rat \<times> 'w"
  ce_epoch :: "'w \<Rightarrow> rat \<times> 'w"
  ce_installed :: bool
  ce_connect :: "string \<Rightarrow> int \<Rightarrow> rat \<Rightarrow> rat \<Rightarrow> 'w \<Rightarrow> unit result \<times> 'w"
  ce_get :: "string \<Rightarrow> 'w \<Rightarrow> string option result \<times> 'w"
  ce_set :: "string \<Rightarrow> string \<Rightarrow> int \<Rightarrow> 'w \<Rightarrow> unit result \<times> 'w"
  ce_delete :: "string \<Rightarrow> 'w \<Rightarrow> unit result \<times> 'w"
  ce_scan :: "string \<Rightarrow> int \<Rightarrow> 'w \<Rightarrow> (string list \<times> exn option) \<times> 'w"
  ce_ping :: "'w \<Rightarrow> pyval result \<times> 'w"
  ce_is_timeout :: "exn \<Rightarrow> bool"
  ce_json :: "pyval \<Rightarrow> string result"
  ce_json_plain :: "pyval \<Rightarrow> string result"
  ce_json_sorted :: "pyval \<Rightarrow> string result"
  ce_loads :: "string \<Rightarrow> pyval result"
  ce_compress :: "string \<Rightarrow> string"
  ce_decompress :: "string \<Rightarrow> string result"
  ce_b64encode :: "string \<Rightarrow> string"
  ce_b64decode :: "string \<Rightarrow> string result"
  ce_utf8 :: "string \<Rightarrow> string result"
  ce_utc_iso :: "rat \<Rightarrow> string result"
  ce_str :: "pyval \<Rightarrow> string"
  ce_sha256 :: "string \<Rightarrow> string"

text \<open>The settings that the cache reads; \<open>cs_url\<close> is \<open>REDIS_URL\<close>.\<close>

record cache_settings =
  cs_enabled :: bool
  cs_url :: "string option"
  cs_ttl_default :: rat
  cs_l1_ttl_default :: rat
  cs_l1_max_entries :: int
  cs_max_connections :: int
  cs_connect_timeout :: rat
  cs_socket_timeout :: rat
  cs_breaker_seconds :: rat
  cs_compression_threshold :: int
  cs_stale_max_seconds :: rat
  cs_schema_version :: int

subsection \<open>Serialization\<close>

definition MAX_DECOMPRESSED_BYTES :: int where
  "MAX_DECOMPRESSED_BYTES = 10 * 1024 * 1024"

definition serialize_cache_value :: "'w cache_env \<Rightarrow> pyval \<Rightarrow> int \<Rightarrow> (string \<times> bool) result" where
  "serialize_cache_value E value compression_threshold =
     (case ce_json E value of
        Inl e \<Rightarrow> Inl e
      | Inr raw_json \<Rightarrow>
          (if int (length raw_json) > compression_threshold
           then Inr (ce_b64encode E (ce_compress E raw_json), True)
           else Inr (raw_json, False)))"

definition deserialize_cache_value :: "'w cache_env \<Rightarrow> pyval \<Rightarrow> pyval \<Rightarrow> pyval result" where
  "deserialize_cache_value E payload compression =
     (if compression = PStr ''zlib'' then
        (case payload of
           PStr payload_str \<Rightarrow>
             (case ce_b64decode E payload_str of
                Inl e \<Rightarrow> Inl e
              | Inr compressed \<Rightarrow>
                  (case ce_decompress E compressed of
                     Inl e \<Rightarrow> Inl e
                   | Inr decompressed \<Rightarrow>
                       (if int (length decompressed) > MAX_DECOMPRESSED_BYTES
                        then Inl (Exn ''ValueError'' (''Decompressed payload size exceeds ''
                               @ show_int MAX_DECOMPRESSED_BYTES @ '' bytes limit''))
                        else (case ce_utf8 E decompressed of Inl e \<Rightarrow> Inl e | Inr t \<Rightarrow> ce_loads E t))))
         | v \<Rightarrow> Inl (Exn ''AttributeError'' (sq (type_name v) @ '' object has no attribute '' @ sq ''encode'')))
      else if compression = PStr ''none'' then
        (case payload of
           PStr payload_str \<Rightarrow> ce_loads E payload_str
         | v \<Rightarrow> Inl (Exn ''TypeError'' (''the JSON object must be str, bytes or bytearray, not '' @ type_name v)))
      else Inl (Exn ''ValueError'' (''Unsupported compression type: '' @ ce_str E compression)))"

subsection \<open>State\<close>

text \<open>
  The state of a \<open>TieredCacheManager\<close>, which its \<open>L2RedisClient\<close> shares: the client reports to
  the manager's circuit breaker and, through \<open>on_error\<close>, to its metrics. A submitted background
  refresh waits in \<open>tc_queue\<close>. The latency samples are left out.
\<close>

record 'w refresh =
  rf_key :: string
  rf_ttl :: rat
  rf_producer :: "'w \<Rightarrow> pyval result \<times> 'w"
  rf_l1_ttl :: rat
  rf_allow_stale :: bool
  rf_stale_max :: "rat option"

record 'w tiered =
  tc_enabled :: "bool option"
  tc_l1 :: "pyval l1"
  tc_circuit :: breaker
  tc_l2_url :: "string option"
  tc_l2_configured :: bool
  tc_l2_connected :: bool
  tc_flights :: flights
  tc_prevented :: nat
  tc_active :: "string list"
  tc_queue :: "'w refresh list"
  tc_metrics :: "(string \<times> nat) list"
  tc_world :: 'w

definition inc_metric :: "string \<Rightarrow> 'w tiered \<Rightarrow> 'w tiered" where
  "inc_metric name s =
     (case map_of (tc_metrics s) name of
        None \<Rightarrow> s
      | Some n \<Rightarrow> s\<lparr>tc_metrics := AList.update name (n + 1) (tc_metrics s)\<rparr>)"

text \<open>Reading a clock; the breaker's methods read the monotonic one when they need it.\<close>

definition mono_now :: "'w cache_env \<Rightarrow> 'w tiered \<Rightarrow> rat \<times> 'w tiered" where
  "mono_now E s = (let (t, w) = ce_mono E (tc_world s) in (t, s\<lparr>tc_world := w\<rparr>))"

definition epoch_now :: "'w cache_env \<Rightarrow> 'w tiered \<Rightarrow> rat \<times> 'w tiered" where
  "epoch_now E s = (let (t, w) = ce_epoch E (tc_world s) in (t, s\<lparr>tc_world := w\<rparr>))"

definition circuit_can_attempt :: "'w cache_env \<Rightarrow> 'w tiered \<Rightarrow> bool \<times> 'w tiered" where
  "circuit_can_attempt E s =
     (if br_state (tc_circuit s) \<in> {DISABLED, CLOSED} then (br_state (tc_circuit s) = CLOSED, s)
      else (let (now, s1) = mono_now E s; (ok, b) = can_attempt now (tc_circuit s1)
            in (ok, s1\<lparr>tc_circuit := b\<rparr>)))"

definition circuit_failure :: "'w cache_env \<Rightarrow> 'w tiered \<Rightarrow> 'w tiered" where
  "circuit_failure E s =
     (if br_state (tc_circuit s) = DISABLED then s
      else (let (now, s1) = mono_now E s in s1\<lparr>tc_circuit := record_failure now (tc_circuit s1)\<rparr>))"

definition circuit_success :: "'w tiered \<Rightarrow> 'w tiered" where
  "circuit_success s = s\<lparr>tc_circuit := record_success (tc_circuit s)\<rparr>"

subsection \<open>The client\<close>

text \<open>\<open>L2RedisClient.__init__\<close>: the address it uses and whether it is configured\<close>

definition upstash_tls :: "string option \<Rightarrow> string option" where
  "upstash_tls url =
     (case url of
        None \<Rightarrow> None
      | Some u \<Rightarrow>
          (if u \<noteq> [] \<and> str_in ''upstash.io'' u \<and> prefix ''redis://'' u
           then Some (''rediss://'' @ drop 8 u) else Some u))"

definition l2_is_configured :: "string option \<Rightarrow> bool" where
  "l2_is_configured url = (case url of None \<Rightarrow> False | Some u \<Rightarrow> py_strip u \<noteq> [])"

definition l2_get_client :: "'w cache_env \<Rightarrow> cache_settings \<Rightarrow> 'w tiered \<Rightarrow> bool \<times> 'w tiered" where
  "l2_get_client E S s =
     (case tc_l2_url s of
        None \<Rightarrow> (False, s)
      | Some url \<Rightarrow>
          (if \<not> tc_l2_configured s \<or> url = [] \<or> \<not> cs_enabled S \<or> \<not> ce_installed E then (False, s)
           else if tc_l2_connected s then (True, s)
           else
             (case ce_connect E url (cs_max_connections S) (cs_connect_timeout S) (cs_socket_timeout S)
                     (tc_world s) of
                (Inr _, w) \<Rightarrow> (True, s\<lparr>tc_l2_connected := True, tc_world := w\<rparr>)
              | (Inl _, w) \<Rightarrow>
                  (False, inc_metric ''cache_l2_error'' (circuit_failure E (s\<lparr>tc_world := w\<rparr>))))))"

text \<open>
  The part that the operations share: ask the breaker, get the client, call it, and report the
  outcome to the breaker (\<open>get\<close> and \<open>set\<close> also count the error). \<open>None\<close> is the early return.
\<close>

definition l2_attempt :: "'w cache_env \<Rightarrow> cache_settings \<Rightarrow> 'w tiered \<Rightarrow> bool \<times> 'w tiered" where
  "l2_attempt E S s =
     (let (ok, s1) = circuit_can_attempt E s in if \<not> ok then (False, s1) else l2_get_client E S s1)"

definition l2_error_metric :: "'w cache_env \<Rightarrow> exn \<Rightarrow> string" where
  "l2_error_metric E e = (if ce_is_timeout E e then ''cache_l2_timeout'' else ''cache_l2_error'')"

definition l2_call ::
  "'w cache_env \<Rightarrow> bool \<Rightarrow> ('w \<Rightarrow> 'a result \<times> 'w) \<Rightarrow> 'w tiered \<Rightarrow> 'a option \<times> 'w tiered" where
  "l2_call E count_error call s =
     (case call (tc_world s) of
        (Inr v, w) \<Rightarrow> (Some v, circuit_success (s\<lparr>tc_world := w\<rparr>))
      | (Inl e, w) \<Rightarrow>
          (let s1 = circuit_failure E (s\<lparr>tc_world := w\<rparr>)
           in (None, if count_error then inc_metric (l2_error_metric E e) s1 else s1)))"

definition l2_get :: "'w cache_env \<Rightarrow> cache_settings \<Rightarrow> string \<Rightarrow> 'w tiered \<Rightarrow> string option \<times> 'w tiered" where
  "l2_get E S key s =
     (let (ok, s1) = l2_attempt E S s in
      if \<not> ok then (None, s1)
      else (let (r, s2) = l2_call E True (ce_get E key) s1
            in (case r of None \<Rightarrow> None | Some val \<Rightarrow> val, s2)))"

definition l2_set ::
  "'w cache_env \<Rightarrow> cache_settings \<Rightarrow> string \<Rightarrow> string \<Rightarrow> int \<Rightarrow> 'w tiered \<Rightarrow> bool \<times> 'w tiered" where
  "l2_set E S key value ex_seconds s =
     (let (ok, s1) = l2_attempt E S s in
      if \<not> ok then (False, s1)
      else (let (r, s2) = l2_call E True (ce_set E key value (max 1 ex_seconds)) s1 in (r \<noteq> None, s2)))"

definition l2_delete :: "'w cache_env \<Rightarrow> cache_settings \<Rightarrow> string \<Rightarrow> 'w tiered \<Rightarrow> bool \<times> 'w tiered" where
  "l2_delete E S key s =
     (let (ok, s1) = l2_attempt E S s in
      if \<not> ok then (False, s1)
      else (let (r, s2) = l2_call E False (ce_delete E key) s1 in (r \<noteq> None, s2)))"

definition l2_ping :: "'w cache_env \<Rightarrow> cache_settings \<Rightarrow> 'w tiered \<Rightarrow> bool \<times> 'w tiered" where
  "l2_ping E S s =
     (if \<not> tc_l2_configured s \<or> \<not> cs_enabled S then (False, s)
      else
        (let (ok, s1) = l2_get_client E S s in
         if \<not> ok then (False, s1)
         else (let (r, s2) = l2_call E False (ce_ping E) s1
               in (case r of None \<Rightarrow> False | Some res \<Rightarrow> py_truthy res, s2))))"

definition l2_close :: "'w tiered \<Rightarrow> 'w tiered" where
  "l2_close s = s\<lparr>tc_l2_connected := False\<rparr>"

text \<open>
  \<open>scan_iter\<close> with the loop body of its caller, which runs for every key as it is yielded; the
  keys are those the iteration yields from the world in which it starts.
\<close>

definition l2_scan ::
  "'w cache_env \<Rightarrow> cache_settings \<Rightarrow> string \<Rightarrow> (string \<Rightarrow> 'w tiered \<Rightarrow> 'w tiered) \<Rightarrow> 'w tiered
     \<Rightarrow> nat \<times> 'w tiered" where
  "l2_scan E S match' body s =
     (let (ok, s1) = l2_attempt E S s in
      if \<not> ok then (0, s1)
      else
        (let ((ks, err), w) = ce_scan E match' 100 (tc_world s1);
             s2 = fold body ks (s1\<lparr>tc_world := w\<rparr>)
         in (length ks, case err of None \<Rightarrow> circuit_success s2 | Some _ \<Rightarrow> circuit_failure E s2)))"

subsection \<open>Cache keys\<close>

text \<open>\<open>str(v).replace(":", "_").replace(" ", "_")\<close>\<close>

definition clean_version :: "string \<Rightarrow> string" where
  "clean_version v = map (\<lambda>c. if c = CHR '':'' \<or> c = CHR '' '' then CHR ''_'' else c) v"

definition build_cache_key ::
  "'w cache_env \<Rightarrow> cache_settings \<Rightarrow> string \<Rightarrow> string \<Rightarrow> string option \<Rightarrow> dict option
     \<Rightarrow> string option \<Rightarrow> string option \<Rightarrow> string option \<Rightarrow> string result" where
  "build_cache_key E S domain resource entity_id params model_version dataset_version auth_scope =
     (let parts = [''crucible'', ''cache'', ''v'' @ show_int (cs_schema_version S), domain, resource,
             str_or entity_id ''all''];
          rest = (if truthy_str model_version then [''m:'' @ clean_version (the model_version)] else [])
            @ (if truthy_str dataset_version then [''d:'' @ clean_version (the dataset_version)] else [])
            @ (if truthy_str auth_scope then [''a:'' @ the auth_scope] else [])
      in case params of
           None \<Rightarrow> Inr (py_join '':'' (parts @ [''p:none''] @ rest))
         | Some [] \<Rightarrow> Inr (py_join '':'' (parts @ [''p:none''] @ rest))
         | Some d \<Rightarrow>
             (case ce_json_sorted E (PDict d) of
                Inl e \<Rightarrow> Inl e
              | Inr param_str \<Rightarrow>
                  Inr (py_join '':'' (parts @ [''p:'' @ take 10 (ce_sha256 E param_str)] @ rest))))"

subsection \<open>A key tells its fields apart\<close>

definition no_colon :: "string \<Rightarrow> bool" where
  "no_colon s \<longleftrightarrow> CHR '':'' \<notin> set s"

lemma takeWhile_colon:
  "no_colon a \<Longrightarrow> no_colon b \<Longrightarrow> a @ CHR '':'' # s = b @ CHR '':'' # t \<Longrightarrow> a = b \<and> s = t"
proof (induction a arbitrary: b)
  case Nil
  then show ?case by (cases b) (auto simp: no_colon_def)
next
  case (Cons x a)
  then show ?case by (cases b) (auto simp: no_colon_def)
qed

lemma no_colon_join: "no_colon a \<Longrightarrow> a \<noteq> b @ CHR '':'' # s"
  by (auto simp: no_colon_def)

lemma py_join_Cons: "py_join sep (x # ys) = x @ (case ys of [] \<Rightarrow> [] | _ \<Rightarrow> sep @ py_join sep ys)"
  by (cases ys) simp_all

lemma py_join_colon_inj:
  "list_all no_colon xs \<Longrightarrow> list_all no_colon ys \<Longrightarrow> xs \<noteq> [] \<Longrightarrow> ys \<noteq> [] \<Longrightarrow>
     py_join '':'' xs = py_join '':'' ys \<Longrightarrow> xs = ys"
proof (induction xs arbitrary: ys)
  case (Cons x xs)
  then obtain y ys' where y: "ys = y # ys'" by (cases ys) auto
  show ?case
  proof (cases xs)
    case Nil
    with Cons.prems y no_colon_join [of x y] show ?thesis by (cases ys') auto
  next
    case (Cons x' xs')
    with Cons.prems y no_colon_join [of y x "py_join '':'' xs"] have ys': "ys' \<noteq> []"
      by (cases ys') auto
    have j: "py_join '':'' (u # us) = u @ CHR '':'' # py_join '':'' us" if "us \<noteq> []" for u us
      using that by (cases us) simp_all
    have "x @ CHR '':'' # py_join '':'' xs = y @ CHR '':'' # py_join '':'' ys'"
      using Cons.prems(5) y j [of xs x] j [OF ys', of y] Cons by simp
    then have "x = y" "py_join '':'' xs = py_join '':'' ys'"
      using takeWhile_colon [of x y] Cons.prems(1,2) y by simp_all
    moreover have "xs = ys'"
      by (rule Cons.IH) (use Cons Cons.prems(1,2) y ys' calculation(2) in simp_all)
    ultimately show ?thesis using y by simp
  qed
qed simp

lemma py_join_split:
  "py_join sep (xs @ (a @ sep @ b) # ys) = py_join sep (xs @ a # b # ys)"
proof (induction xs)
  case Nil
  show ?case by (cases ys) simp_all
next
  case (Cons x xs)
  then show ?case by (cases xs) simp_all
qed

text \<open>The fields that a key is meant to depend on, an absent or empty one being \<open>None\<close>\<close>

definition key_part :: "(string \<Rightarrow> string) \<Rightarrow> string option \<Rightarrow> string option" where
  "key_part f v = (if truthy_str v then Some (f (the v)) else None)"

definition params_part :: "'w cache_env \<Rightarrow> dict option \<Rightarrow> string" where
  "params_part E params =
     (case params of
        None \<Rightarrow> ''none''
      | Some d \<Rightarrow> (if d = [] then ''none''
          else (case ce_json_sorted E (PDict d) of Inl e \<Rightarrow> [] | Inr t \<Rightarrow> take 10 (ce_sha256 E t))))"

definition tag :: "string \<Rightarrow> string option \<Rightarrow> string list" where
  "tag t v = (case v of None \<Rightarrow> [] | Some x \<Rightarrow> [t, x])"

lemma build_cache_key_fields:
  assumes "build_cache_key E S domain resource entity params mv dv scope = Inr k"
  shows "k = py_join '':'' ([''crucible'', ''cache'', ''v'' @ show_int (cs_schema_version S), domain, resource,
             str_or entity ''all'', ''p'', params_part E params] @ tag ''m'' (key_part clean_version mv)
             @ tag ''d'' (key_part clean_version dv) @ tag ''a'' (key_part id scope))"
proof -
  let ?L = "[''crucible'', ''cache'', ''v'' @ show_int (cs_schema_version S), domain, resource, str_or entity ''all'']"
  let ?R = "\<lambda>f. (if truthy_str mv then [''m'' @ f @ clean_version (the mv)] else [])
            @ (if truthy_str dv then [''d'' @ f @ clean_version (the dv)] else [])
            @ (if truthy_str scope then [''a'' @ f @ the scope] else [])"
  have R: "py_join '':'' (xs @ ?R '':'') = py_join '':'' (xs @ tag ''m'' (key_part clean_version mv)
             @ tag ''d'' (key_part clean_version dv) @ tag ''a'' (key_part id scope))" for xs
    using py_join_split [of "'':''" xs "''m''"] py_join_split [of "'':''" xs "''d''"] py_join_split [of "'':''" xs "''a''"]
      py_join_split [of "'':''" "xs @ [''m'', clean_version (the mv)]" "''d''"]
      py_join_split [of "'':''" "xs @ [''m'', clean_version (the mv)]" "''a''"]
      py_join_split [of "'':''" "xs @ [''d'', clean_version (the dv)]" "''a''"]
      py_join_split [of "'':''" "xs @ [''m'', clean_version (the mv), ''d'', clean_version (the dv)]" "''a''"]
    by (simp add: tag_def key_part_def del: py_join.simps)
  have "k = py_join '':'' (?L @ (''p'' @ '':'' @ params_part E params) # ?R '':'')"
    using assms unfolding build_cache_key_def Let_def
    by (auto simp: params_part_def simp del: py_join.simps split: option.splits list.splits sum.splits if_splits)
  also have "\<dots> = py_join '':'' ((?L @ [''p'', params_part E params]) @ ?R '':'')"
    using py_join_split [of "'':''" ?L "''p''" "params_part E params" "?R '':''"] by (simp del: py_join.simps)
  finally show ?thesis unfolding R by simp
qed

lemma no_colon_parts [simp]:
  "no_colon []" "no_colon (c # s) \<longleftrightarrow> c \<noteq> CHR '':'' \<and> no_colon s" "no_colon (s @ t) \<longleftrightarrow> no_colon s \<and> no_colon t"
  "no_colon (clean_version v)"
  by (auto simp: no_colon_def clean_version_def)

lemma no_colon_show_nat: "no_colon (show_nat n)"
proof (induction n rule: show_nat.induct)
  case (1 n)
  have "char_of (48 + d) \<noteq> CHR '':''" if "d < 10" for d :: nat
  proof
    assume "char_of (48 + d) = CHR '':''"
    then have "of_char (char_of (48 + d) :: char) = (of_char (CHR '':'') :: nat)" by simp
    with that show False by simp
  qed
  with 1 show ?case by (subst show_nat.simps) auto
qed

lemma no_colon_show_int [simp]: "no_colon (show_int i)"
  by (simp add: show_int_def no_colon_show_nat)

lemma tag_inj:
  assumes "tag ''m'' m @ tag ''d'' d @ tag ''a'' a = tag ''m'' m' @ tag ''d'' d' @ tag ''a'' a'"
  shows "m = m' \<and> d = d' \<and> a = a'"
  using assms by (auto simp: tag_def split: option.splits)

text \<open>
  Authorization-safe cache keys. As long as the domain, the resource, the entity, the hash
  and the scopes hold no colon (model and dataset versions are cleaned of theirs), two requests
  share a cache key only if they agree in domain, resource, entity, parameter hash, cleaned
  model version, cleaned dataset version and authorization scope: nobody is served an entry
  cached under another scope.
\<close>

theorem cache_keys_separate_scopes:
  assumes k: "build_cache_key E S dmn res ent ps mv dv scope = Inr k"
    and k': "build_cache_key E S dmn' res' ent' ps' mv' dv' scope' = Inr k"
    and clean: "list_all no_colon [dmn, res, str_or ent ''all'', params_part E ps, str_or scope [],
                  dmn', res', str_or ent' ''all'', params_part E ps', str_or scope' []]"
  shows "key_part id scope = key_part id scope'
         \<and> (dmn, res, str_or ent ''all'', params_part E ps) = (dmn', res', str_or ent' ''all'', params_part E ps')
         \<and> key_part clean_version mv = key_part clean_version mv'
         \<and> key_part clean_version dv = key_part clean_version dv'"
proof -
  let ?f = "\<lambda>dmn res ent ps mv dv scope.
    [''crucible'', ''cache'', ''v'' @ show_int (cs_schema_version S), dmn, res, str_or ent ''all'', ''p'',
       params_part E ps] @ tag ''m'' (key_part clean_version mv) @ tag ''d'' (key_part clean_version dv)
       @ tag ''a'' (key_part id scope)"
  have t: "list_all no_colon (tag ''m'' (key_part clean_version m) @ tag ''d'' (key_part clean_version d)
      @ tag ''a'' (key_part id a))" if "no_colon (str_or a [])" for m d a
    using that by (cases a) (auto simp: tag_def key_part_def)
  have "?f dmn res ent ps mv dv scope = ?f dmn' res' ent' ps' mv' dv' scope'"
  proof (rule py_join_colon_inj)
    show "py_join '':'' (?f dmn res ent ps mv dv scope) = py_join '':'' (?f dmn' res' ent' ps' mv' dv' scope')"
      using build_cache_key_fields [OF k] build_cache_key_fields [OF k'] by (simp only:)
  qed (use clean t [of scope mv dv] t [of scope' mv' dv'] in simp_all)
  then have "[dmn, res, str_or ent ''all'', ''p'', params_part E ps] = [dmn', res', str_or ent' ''all'', ''p'', params_part E ps']"
    and tags: "tag ''m'' (key_part clean_version mv) @ tag ''d'' (key_part clean_version dv) @ tag ''a'' (key_part id scope)
      = tag ''m'' (key_part clean_version mv') @ tag ''d'' (key_part clean_version dv') @ tag ''a'' (key_part id scope')"
    by simp_all
  with tag_inj [OF tags] show ?thesis by simp
qed

subsection \<open>Concrete inputs\<close>

text \<open>
  A world of a time that does not pass and a Redis dictionary; JSON texts are strings
  themselves, except that the text of an envelope is a name for it.
\<close>

type_synonym demo_world = "rat \<times> (string \<times> string) list"

definition demo_cache_env :: "dict \<Rightarrow> demo_world cache_env" where
  "demo_cache_env env =
     \<lparr>ce_mono = (\<lambda>w. (fst w, w)), ce_epoch = (\<lambda>w. (fst w, w)), ce_installed = True,
      ce_connect = (\<lambda>_ _ _ _ w. (Inr (), w)),
      ce_get = (\<lambda>k w. (Inr (map_of (snd w) k), w)),
      ce_set = (\<lambda>k v _ w. (Inr (), (fst w, AList.update k v (snd w)))),
      ce_delete = (\<lambda>k w. (Inr (), (fst w, AList.delete k (snd w)))),
      ce_scan = (\<lambda>_ _ w. (([], None), w)), ce_ping = (\<lambda>w. (Inr (PBool True), w)), ce_is_timeout = (\<lambda>_. False),
      ce_json = (\<lambda>v. case v of PStr t \<Rightarrow> Inr t | _ \<Rightarrow> Inr ''v''), ce_json_plain = (\<lambda>_. Inr ''envelope''),
      ce_json_sorted = (\<lambda>_. Inr ''params''),
      ce_loads = (\<lambda>t. if t = ''envelope'' then Inr (PDict env) else Inr (PStr t)),
      ce_compress = (\<lambda>t. t), ce_decompress = Inr, ce_b64encode = (\<lambda>t. t), ce_b64decode = Inr,
      ce_utf8 = Inr, ce_utc_iso = (\<lambda>_. Inr ''then''), ce_str = (\<lambda>_. ''v''), ce_sha256 = (\<lambda>s. s)\<rparr>"

definition demo_cache_settings :: cache_settings where
  "demo_cache_settings =
     \<lparr>cs_enabled = True, cs_url = Some ''redis://h'', cs_ttl_default = 60, cs_l1_ttl_default = 10,
      cs_l1_max_entries = 1000, cs_max_connections = 10, cs_connect_timeout = 1, cs_socket_timeout = 3/2,
      cs_breaker_seconds = 30, cs_compression_threshold = 25600, cs_stale_max_seconds = 300, cs_schema_version = 1\<rparr>"

lemma demo_key:
  "build_cache_key (demo_cache_env []) demo_cache_settings ''production'' ''forecast'' None None (Some ''m 1'') None (Some ''admin'')
     = Inr ''crucible:cache:v1:production:forecast:all:p:none:m:m_1:a:admin''"
  by code_simp

theorem cache_keys_separate_scopes_witness:
  "\<exists>k. build_cache_key (demo_cache_env []) demo_cache_settings ''production'' ''forecast'' None None (Some ''m 1'') None
       (Some ''admin'') = Inr k
     \<and> key_part id (Some ''admin'') = key_part id (Some ''admin'')"
  using cache_keys_separate_scopes [OF demo_key demo_key] demo_key
  by (simp add: params_part_def no_colon_def)

end
