(* ===== verification/TieredCache.thy ===== *)
theory TieredCache
  imports RedisTier
begin

text \<open>
  \<open>TieredCacheManager\<close> (\<open>app/api/core/cache.py\<close>): the envelope, the reads and writes of the two
  tiers, \<open>get\<close>, \<open>set\<close>, \<open>get_or_set\<close>, the background refresh and the invalidations. One caller
  runs at a time; what other threads do while a caller waits for a key's lock is a parameter
  \<open>wait\<close> of \<open>get_or_set\<close> (\<open>SingleFlight\<close> has the interleavings).
\<close>

subsection \<open>Creation\<close>

definition cache_metrics :: "string list" where
  "cache_metrics =
     [''cache_l1_hit'', ''cache_l1_miss'', ''cache_l2_hit'', ''cache_l2_miss'', ''cache_producer_call'',
      ''cache_l2_error'', ''cache_l2_timeout'', ''cache_l2_circuit_open'', ''cache_write_error'',
      ''cache_deserialize_error'', ''cache_compression'', ''cache_invalidation'',
      ''cache_stampede_prevented'', ''cache_stale_served'', ''cache_stale_refresh_started'',
      ''cache_stale_refresh_completed'', ''cache_stale_refresh_error'']"

definition tiered_init ::
  "'w cache_env \<Rightarrow> cache_settings \<Rightarrow> bool option \<Rightarrow> int option \<Rightarrow> rat option \<Rightarrow> string option \<Rightarrow> 'w \<Rightarrow> 'w tiered" where
  "tiered_init E S enabled l1_max l1_ttl redis_url w =
     (let (now, w1) = ce_mono E w;
          url = upstash_tls (case redis_url of None \<Rightarrow> cs_url S | Some u \<Rightarrow> Some u);
          b = breaker_init 3 (cs_breaker_seconds S) ''Redis'' now
      in \<lparr>tc_enabled = enabled,
          tc_l1 = l1_init (opt_default l1_max (cs_l1_max_entries S)) (opt_default l1_ttl (cs_l1_ttl_default S)),
          tc_circuit = (if \<not> l2_is_configured url \<or> \<not> cs_enabled S then b\<lparr>br_state := DISABLED\<rparr> else b),
          tc_l2_url = url, tc_l2_configured = l2_is_configured url, tc_l2_connected = False,
          tc_flights = flights_init, tc_prevented = 0, tc_active = [], tc_queue = [],
          tc_metrics = map (\<lambda>m. (m, 0)) cache_metrics, tc_world = w1\<rparr>)"

definition is_enabled :: "cache_settings \<Rightarrow> 'w tiered \<Rightarrow> bool" where
  "is_enabled S s = opt_default (tc_enabled s) (cs_enabled S)"

subsection \<open>Envelopes\<close>

text \<open>
  \<open>_encode\<close>: the text and the envelope. \<open>ttl\<close> and the stale window are numbers of seconds.
\<close>

definition mk_envelope :: "cache_settings \<Rightarrow> bool \<Rightarrow> string \<Rightarrow> rat \<Rightarrow> rat \<Rightarrow> rat \<Rightarrow> string \<Rightarrow> dict" where
  "mk_envelope S is_compressed iso_text c_epoch e_epoch s_epoch payload =
     [(''schema_version'', PInt (cs_schema_version S)), (''serializer'', PStr ''json''),
      (''compression'', PStr (if is_compressed then ''zlib'' else ''none'')),
      (''created_at'', PStr (iso_text @ ''Z'')), (''created_at_epoch'', PFloat c_epoch),
      (''expires_at_epoch'', PFloat e_epoch), (''stale_until_epoch'', PFloat s_epoch),
      (''payload'', PStr payload)]"

definition tc_encode ::
  "'w cache_env \<Rightarrow> cache_settings \<Rightarrow> pyval \<Rightarrow> rat \<Rightarrow> bool \<Rightarrow> rat \<Rightarrow> rat option \<Rightarrow> 'w tiered
     \<Rightarrow> (string \<times> dict) result \<times> 'w tiered" where
  "tc_encode E S value ttl allow_stale stale_window created s =
     (case serialize_cache_value E value (cs_compression_threshold S) of
        Inl e \<Rightarrow> (Inl e, s)
      | Inr (payload, is_compressed) \<Rightarrow>
          (let s1 = (if is_compressed then inc_metric ''cache_compression'' s else s);
               (now, s2) = epoch_now E s1;
               c_epoch = opt_default created now;
               e_epoch = c_epoch + ttl;
               s_epoch = e_epoch + (if allow_stale then stale_window else 0)
           in (case ce_utc_iso E c_epoch of
                 Inl e \<Rightarrow> (Inl e, s2)
               | Inr iso_text \<Rightarrow>
                   (let env = mk_envelope S is_compressed iso_text c_epoch e_epoch s_epoch payload
                    in (case ce_json_plain E (PDict env) of
                          Inl e \<Rightarrow> (Inl e, s2)
                        | Inr raw \<Rightarrow> (Inr (raw, env), s2))))))"

definition validate_envelope :: "cache_settings \<Rightarrow> pyval \<Rightarrow> bool" where
  "validate_envelope S env =
     (case env of
        PDict d \<Rightarrow>
          (case map_of d ''schema_version'' of
             None \<Rightarrow> False
           | Some v \<Rightarrow> num_of v = Some (of_int (cs_schema_version S))) \<and> map_of d ''payload'' \<noteq> None
      | _ \<Rightarrow> False)"

text \<open>The answer: the value and the envelope, \<open>None\<close> for \<open>(False, None, None)\<close>.\<close>

definition decode_envelope :: "'w cache_env \<Rightarrow> cache_settings \<Rightarrow> string \<Rightarrow> (pyval \<times> dict) option" where
  "decode_envelope E S raw =
     (case ce_loads E raw of
        Inr (PDict d) \<Rightarrow>
          (if validate_envelope S (PDict d) then
             (case deserialize_cache_value E (opt_default (map_of d ''payload'') PNone)
                     (opt_default (map_of d ''compression'') (PStr ''none'')) of
                Inl _ \<Rightarrow> None
              | Inr v \<Rightarrow> Some (v, d))
           else None)
      | _ \<Rightarrow> None)"

definition tc_decode ::
  "'w cache_env \<Rightarrow> cache_settings \<Rightarrow> string \<Rightarrow> 'w tiered \<Rightarrow> (pyval \<times> dict) option \<times> 'w tiered" where
  "tc_decode E S raw s =
     (case decode_envelope E S raw of
        None \<Rightarrow> (None, inc_metric ''cache_deserialize_error'' s)
      | Some r \<Rightarrow> (Some r, s))"

subsection \<open>The two tiers\<close>

definition read_l1 :: "'w cache_env \<Rightarrow> string \<Rightarrow> bool \<Rightarrow> 'w tiered \<Rightarrow> pyval answer result \<times> 'w tiered" where
  "read_l1 E key allow_stale s =
     (let (m, s1) = mono_now E s; (t, s2) = epoch_now E s1;
          (a, c) = l1_get_detailed m t key allow_stale (tc_l1 s2)
      in (a, s2\<lparr>tc_l1 := c\<rparr>))"

text \<open>\<open>_write_l1\<close> with the times of an envelope, whatever they are; \<open>env.get(f)\<close>\<close>

definition env_get :: "dict \<Rightarrow> string \<Rightarrow> pyval" where
  "env_get env name = opt_default (map_of env name) PNone"

definition write_l1 :: "'w cache_env \<Rightarrow> string \<Rightarrow> pyval \<Rightarrow> rat \<Rightarrow> dict \<Rightarrow> 'w tiered \<Rightarrow> 'w tiered" where
  "write_l1 E key value l1_ttl env s =
     (let (m, s1) = mono_now E s; (t, s2) = epoch_now E s1
      in s2\<lparr>tc_l1 := l1_set m t key value (Some l1_ttl) (env_get env ''created_at_epoch'')
              (env_get env ''expires_at_epoch'') (env_get env ''stale_until_epoch'') (tc_l1 s2)\<rparr>)"

text \<open>The answer: stale or not, the value and the envelope.\<close>

definition judge_envelope :: "rat \<Rightarrow> bool \<Rightarrow> pyval \<times> dict \<Rightarrow> (bool \<times> pyval \<times> dict) option result" where
  "judge_envelope now allow_stale r =
     (case r of (val, env) \<Rightarrow>
        (let expires_at = opt_default (map_of env ''expires_at_epoch'') (PFloat 0);
             stale_until = opt_default (map_of env ''stale_until_epoch'') expires_at
         in (case before now expires_at of
               Inl e \<Rightarrow> Inl e
             | Inr True \<Rightarrow> Inr (Some (False, val, env))
             | Inr False \<Rightarrow>
                 (if allow_stale then
                    (case before now stale_until of
                       Inl e \<Rightarrow> Inl e
                     | Inr True \<Rightarrow> Inr (Some (True, val, env))
                     | Inr False \<Rightarrow> Inr None)
                  else Inr None))))"

definition read_l2 ::
  "'w cache_env \<Rightarrow> cache_settings \<Rightarrow> string \<Rightarrow> bool \<Rightarrow> 'w tiered
     \<Rightarrow> (bool \<times> pyval \<times> dict) option result \<times> 'w tiered" where
  "read_l2 E S key allow_stale s =
     (if \<not> tc_l2_configured s then (Inr None, s)
      else
        (case l2_get E S key s of
           (None, s1) \<Rightarrow> (Inr None, s1)
         | (Some raw, s1) \<Rightarrow>
             (case tc_decode E S raw s1 of
                (None, s2) \<Rightarrow> (Inr None, snd (l2_delete E S key s2))
              | (Some r, s2) \<Rightarrow>
                  (let (now, s3) = epoch_now E s2 in (judge_envelope now allow_stale r, s3)))))"

definition write_l2 ::
  "'w cache_env \<Rightarrow> cache_settings \<Rightarrow> string \<Rightarrow> string \<Rightarrow> int \<Rightarrow> 'w tiered \<Rightarrow> bool \<times> 'w tiered" where
  "write_l2 E S key raw ttl s =
     (if \<not> tc_l2_configured s then (False, s) else l2_set E S key raw ttl s)"

text \<open>\<open>int(x)\<close>\<close>

definition py_int :: "rat \<Rightarrow> int" where
  "py_int x = (if x < 0 then \<lceil>x\<rceil> else \<lfloor>x\<rfloor>)"

text \<open>
  What the end of \<open>set\<close>, \<open>get_or_set\<close> and the refresh worker share: encode, write the second
  tier, write the first.
\<close>

definition populate ::
  "'w cache_env \<Rightarrow> cache_settings \<Rightarrow> string \<Rightarrow> pyval \<Rightarrow> rat \<Rightarrow> rat \<Rightarrow> bool \<Rightarrow> rat \<Rightarrow> rat option
     \<Rightarrow> 'w tiered \<Rightarrow> unit result \<times> 'w tiered" where
  "populate E S key value ttl l1_ttl allow_stale stale_window created s =
     (case tc_encode E S value ttl allow_stale stale_window created s of
        (Inl e, s1) \<Rightarrow> (Inl e, s1)
      | (Inr (raw, env), s1) \<Rightarrow>
          (let l2_ttl = py_int (ttl + (if allow_stale then stale_window else 0));
               (_, s2) = write_l2 E S key raw l2_ttl s1
           in (Inr (), write_l1 E key value l1_ttl env s2)))"

subsection \<open>Background refresh\<close>

definition schedule_swr_refresh :: "'w refresh \<Rightarrow> 'w tiered \<Rightarrow> bool \<times> 'w tiered" where
  "schedule_swr_refresh r s =
     (if rf_key r \<in> set (tc_active s) then (False, s)
      else
        (let s1 = s\<lparr>tc_active := rf_key r # tc_active s\<rparr>;
             s2 = inc_metric ''cache_stale_refresh_started'' s1
         in (True, s2\<lparr>tc_queue := tc_queue s2 @ [r]\<rparr>)))"

definition enter_flight :: "('w tiered \<Rightarrow> 'w tiered) \<Rightarrow> string \<Rightarrow> 'w tiered \<Rightarrow> 'w tiered" where
  "enter_flight wait key s = wait (s\<lparr>tc_flights := snd (acquire_flight key (tc_flights s))\<rparr>)"

definition exit_flight :: "string \<Rightarrow> 'w tiered \<Rightarrow> 'w tiered" where
  "exit_flight key s = s\<lparr>tc_flights := release_flight key (tc_flights s)\<rparr>"

definition call_producer :: "('w \<Rightarrow> pyval result \<times> 'w) \<Rightarrow> 'w tiered \<Rightarrow> pyval result \<times> 'w tiered" where
  "call_producer producer s =
     (let s1 = inc_metric ''cache_producer_call'' s; (r, w) = producer (tc_world s1)
      in (r, s1\<lparr>tc_world := w\<rparr>))"

text \<open>\<open>_refresh_worker\<close>\<close>

definition refresh_worker ::
  "'w cache_env \<Rightarrow> cache_settings \<Rightarrow> ('w tiered \<Rightarrow> 'w tiered) \<Rightarrow> 'w refresh \<Rightarrow> 'w tiered \<Rightarrow> 'w tiered" where
  "refresh_worker E S wait r s =
     (let s1 = enter_flight wait (rf_key r) s;
          (res, s2) =
            (case call_producer (rf_producer r) s1 of
               (Inl e, s2) \<Rightarrow> (Inl e, s2)
             | (Inr fresh, s2) \<Rightarrow>
                 (let (now, s3) = epoch_now E s2;
                      window = opt_default (rf_stale_max r) (cs_stale_max_seconds S)
                  in (case populate E S (rf_key r) fresh (rf_ttl r) (rf_l1_ttl r) (rf_allow_stale r) window
                             (Some now) s3 of
                        (Inl e, s4) \<Rightarrow> (Inl e, s4)
                      | (Inr u, s4) \<Rightarrow> (Inr u, inc_metric ''cache_stale_refresh_completed'' s4))));
          s5 = exit_flight (rf_key r) s2;
          s6 = (case res of Inl _ \<Rightarrow> inc_metric ''cache_stale_refresh_error'' s5 | Inr _ \<Rightarrow> s5)
      in s6\<lparr>tc_active := removeAll (rf_key r) (tc_active s6)\<rparr>)"

text \<open>The executor takes the first submitted refresh.\<close>

definition run_refresh ::
  "'w cache_env \<Rightarrow> cache_settings \<Rightarrow> ('w tiered \<Rightarrow> 'w tiered) \<Rightarrow> 'w tiered \<Rightarrow> 'w tiered" where
  "run_refresh E S wait s =
     (case tc_queue s of [] \<Rightarrow> s | r # rs \<Rightarrow> refresh_worker E S wait r (s\<lparr>tc_queue := rs\<rparr>))"

subsection \<open>The public operations\<close>

definition tc_get ::
  "'w cache_env \<Rightarrow> cache_settings \<Rightarrow> string \<Rightarrow> bool \<Rightarrow> 'w tiered \<Rightarrow> pyval option result \<times> 'w tiered" where
  "tc_get E S key allow_stale s =
     (case read_l1 E key allow_stale s of
        (Inl e, s1) \<Rightarrow> (Inl e, s1)
      | (Inr (True, is_stale, val, _), s1) \<Rightarrow>
          (Inr val, inc_metric (if is_stale then ''cache_stale_served'' else ''cache_l1_hit'') s1)
      | (_, s1) \<Rightarrow>
          (case read_l2 E S key allow_stale (inc_metric ''cache_l1_miss'' s1) of
             (Inl e, s2) \<Rightarrow> (Inl e, s2)
           | (Inr (Some (is_stale, val, env)), s2) \<Rightarrow>
               (let s3 = inc_metric (if is_stale then ''cache_stale_served'' else ''cache_l2_hit'') s2
                in (Inr (Some val), write_l1 E key val (cs_l1_ttl_default S) env s3))
           | (Inr None, s2) \<Rightarrow> (Inr None, inc_metric ''cache_l2_miss'' s2)))"

definition tc_set ::
  "'w cache_env \<Rightarrow> cache_settings \<Rightarrow> string \<Rightarrow> pyval \<Rightarrow> rat option \<Rightarrow> bool \<Rightarrow> rat option \<Rightarrow> 'w tiered
     \<Rightarrow> bool \<times> 'w tiered" where
  "tc_set E S key value ttl allow_stale stale_max s =
     (let effective_ttl = opt_default ttl (cs_ttl_default S);
          effective_l1_ttl = min effective_ttl (cs_l1_ttl_default S);
          stale_window = opt_default stale_max (cs_stale_max_seconds S)
      in (case populate E S key value effective_ttl effective_l1_ttl allow_stale stale_window None s of
            (Inr _, s1) \<Rightarrow> (True, s1)
          | (Inl _, s1) \<Rightarrow> (False, inc_metric ''cache_write_error'' s1)))"

text \<open>Steps 3 to 5 of \<open>get_or_set\<close>, inside the flight of the key.\<close>

definition count_prevented :: "string \<Rightarrow> 'w tiered \<Rightarrow> 'w tiered" where
  "count_prevented hit s =
     inc_metric hit (inc_metric ''cache_stampede_prevented'' (s\<lparr>tc_prevented := tc_prevented s + 1\<rparr>))"

definition produce_and_store ::
  "'w cache_env \<Rightarrow> cache_settings \<Rightarrow> 'w refresh \<Rightarrow> rat \<Rightarrow> 'w tiered \<Rightarrow> pyval result \<times> 'w tiered" where
  "produce_and_store E S r stale_window s =
     (case call_producer (rf_producer r) s of
        (Inl e, s1) \<Rightarrow> (Inl e, s1)
      | (Inr value, s1) \<Rightarrow>
          (let (now, s2) = epoch_now E s1
           in (case populate E S (rf_key r) value (rf_ttl r) (rf_l1_ttl r) (rf_allow_stale r) stale_window
                      (Some now) s2 of
                 (Inl _, s3) \<Rightarrow> (Inr value, inc_metric ''cache_write_error'' s3)
               | (Inr _, s3) \<Rightarrow> (Inr value, s3))))"

definition in_flight ::
  "'w cache_env \<Rightarrow> cache_settings \<Rightarrow> 'w refresh \<Rightarrow> rat \<Rightarrow> 'w tiered \<Rightarrow> pyval result \<times> 'w tiered" where
  "in_flight E S r stale_window s =
     (case read_l1 E (rf_key r) False s of
        (Inl e, s1) \<Rightarrow> (Inl e, s1)
      | (Inr (True, False, Some val, _), s1) \<Rightarrow> (Inr val, count_prevented ''cache_l1_hit'' s1)
      | (_, s1) \<Rightarrow>
          (case read_l2 E S (rf_key r) False s1 of
             (Inl e, s2) \<Rightarrow> (Inl e, s2)
           | (Inr (Some (False, val, env)), s2) \<Rightarrow>
               (Inr val, write_l1 E (rf_key r) val (rf_l1_ttl r) env (count_prevented ''cache_l2_hit'' s2))
           | (_, s2) \<Rightarrow> produce_and_store E S r stale_window s2))"

text \<open>
  \<open>get_or_set\<close>. Its arguments are those of the refresh that it may submit; \<open>l1_ttl\<close> is the
  argument of that name, \<open>rf_l1_ttl\<close> the effective one.
\<close>

definition mk_request ::
  "cache_settings \<Rightarrow> string \<Rightarrow> rat \<Rightarrow> ('w \<Rightarrow> pyval result \<times> 'w) \<Rightarrow> rat option \<Rightarrow> bool \<Rightarrow> rat option \<Rightarrow> 'w refresh" where
  "mk_request S key ttl producer l1_ttl allow_stale stale_max =
     \<lparr>rf_key = key, rf_ttl = ttl, rf_producer = producer,
      rf_l1_ttl = opt_default l1_ttl (min ttl (cs_l1_ttl_default S)), rf_allow_stale = allow_stale,
      rf_stale_max = stale_max\<rparr>"

definition get_or_set ::
  "'w cache_env \<Rightarrow> cache_settings \<Rightarrow> ('w tiered \<Rightarrow> 'w tiered) \<Rightarrow> 'w refresh \<Rightarrow> 'w tiered
     \<Rightarrow> pyval result \<times> 'w tiered" where
  "get_or_set E S wait r s =
     (if \<not> is_enabled S s
      then (let (v, w) = rf_producer r (tc_world s) in (v, s\<lparr>tc_world := w\<rparr>))
      else
        (let stale_window = opt_default (rf_stale_max r) (cs_stale_max_seconds S) in
         case read_l1 E (rf_key r) (rf_allow_stale r) s of
           (Inl e, s1) \<Rightarrow> (Inl e, s1)
         | (Inr (True, True, Some val, _), s1) \<Rightarrow>
             (Inr val, snd (schedule_swr_refresh r (inc_metric ''cache_stale_served'' s1)))
         | (Inr (True, False, Some val, _), s1) \<Rightarrow> (Inr val, inc_metric ''cache_l1_hit'' s1)
         | (_, s1) \<Rightarrow>
             (case read_l2 E S (rf_key r) (rf_allow_stale r) (inc_metric ''cache_l1_miss'' s1) of
                (Inl e, s2) \<Rightarrow> (Inl e, s2)
              | (Inr (Some (True, val, env)), s2) \<Rightarrow>
                  (let s3 = write_l1 E (rf_key r) val (rf_l1_ttl r) env (inc_metric ''cache_stale_served'' s2)
                   in (Inr val, snd (schedule_swr_refresh r s3)))
              | (Inr (Some (False, val, env)), s2) \<Rightarrow>
                  (Inr val, write_l1 E (rf_key r) val (rf_l1_ttl r) env (inc_metric ''cache_l2_hit'' s2))
              | (Inr None, s2) \<Rightarrow>
                  (let s3 = enter_flight wait (rf_key r) (inc_metric ''cache_l2_miss'' s2);
                       (res, s4) = in_flight E S r stale_window s3
                   in (res, exit_flight (rf_key r) s4)))))"

subsection \<open>Invalidation\<close>

definition tc_delete :: "'w cache_env \<Rightarrow> cache_settings \<Rightarrow> string \<Rightarrow> 'w tiered \<Rightarrow> bool \<times> 'w tiered" where
  "tc_delete E S key s =
     (let (d1, c) = l1_delete key (tc_l1 s); (d2, s1) = l2_delete E S key (s\<lparr>tc_l1 := c\<rparr>)
      in (d1 \<or> d2, inc_metric ''cache_invalidation'' s1))"

definition tc_delete_pattern ::
  "'w cache_env \<Rightarrow> cache_settings \<Rightarrow> (string \<Rightarrow> (string \<Rightarrow> bool) result) \<Rightarrow> string \<Rightarrow> 'w tiered
     \<Rightarrow> nat result \<times> 'w tiered" where
  "tc_delete_pattern E S rx pattern s =
     (case l1_delete_pattern rx pattern (tc_l1 s) of
        (Inl e, c) \<Rightarrow> (Inl e, s\<lparr>tc_l1 := c\<rparr>)
      | (Inr n, c) \<Rightarrow>
          (let (m, s1) = l2_scan E S pattern (\<lambda>k. snd \<circ> l2_delete E S k) (s\<lparr>tc_l1 := c\<rparr>)
           in (Inr (n + m), inc_metric ''cache_invalidation'' s1)))"

definition key_prefix :: "cache_settings \<Rightarrow> string \<Rightarrow> string" where
  "key_prefix S dmn = ''crucible:cache:v'' @ show_int (cs_schema_version S) @ '':'' @ dmn @ '':''"

definition tc_invalidate_domain ::
  "'w cache_env \<Rightarrow> cache_settings \<Rightarrow> (string \<Rightarrow> (string \<Rightarrow> bool) result) \<Rightarrow> string \<Rightarrow> 'w tiered
     \<Rightarrow> nat result \<times> 'w tiered" where
  "tc_invalidate_domain E S rx dmn s =
     (case tc_delete_pattern E S rx (key_prefix S dmn @ ''*'') s of
        (Inl e, s1) \<Rightarrow> (Inl e, s1)
      | (Inr n, s1) \<Rightarrow>
          (case tc_delete_pattern E S rx (dmn @ '':*'') s1 of
             (Inl e, s2) \<Rightarrow> (Inl e, s2)
           | (Inr m, s2) \<Rightarrow> (Inr (n + m), s2)))"

definition model_domain :: "string \<Rightarrow> string" where
  "model_domain task =
     (if task = ''production_forecast'' \<or> task = ''shortfall'' then ''production''
      else if task = ''equipment_failure'' then ''equipment''
      else if task = ''prospectivity'' then ''exploration'' else task)"

definition tc_invalidate_model ::
  "'w cache_env \<Rightarrow> cache_settings \<Rightarrow> (string \<Rightarrow> (string \<Rightarrow> bool) result) \<Rightarrow> string \<Rightarrow> string option
     \<Rightarrow> 'w tiered \<Rightarrow> nat result \<times> 'w tiered" where
  "tc_invalidate_model E S rx task model_version s =
     (let pattern = key_prefix S (model_domain task)
            @ (if truthy_str model_version then ''*:m:'' @ the model_version @ ''*'' else ''*'')
      in tc_delete_pattern E S rx pattern s)"

definition tc_invalidate_dataset ::
  "'w cache_env \<Rightarrow> cache_settings \<Rightarrow> (string \<Rightarrow> (string \<Rightarrow> bool) result) \<Rightarrow> string \<Rightarrow> string option
     \<Rightarrow> 'w tiered \<Rightarrow> nat result \<times> 'w tiered" where
  "tc_invalidate_dataset E S rx dmn dataset_version s = tc_invalidate_domain E S rx dmn s"

definition tc_invalidate_entity ::
  "'w cache_env \<Rightarrow> cache_settings \<Rightarrow> (string \<Rightarrow> (string \<Rightarrow> bool) result) \<Rightarrow> string \<Rightarrow> string
     \<Rightarrow> 'w tiered \<Rightarrow> nat result \<times> 'w tiered" where
  "tc_invalidate_entity E S rx dmn entity_id s =
     tc_delete_pattern E S rx (key_prefix S dmn @ ''*:'' @ entity_id @ '':*'') s"

definition tc_clear :: "'w cache_env \<Rightarrow> cache_settings \<Rightarrow> 'w tiered \<Rightarrow> 'w tiered" where
  "tc_clear E S s =
     (let (_, s1) = l2_scan E S (''crucible:cache:v'' @ show_int (cs_schema_version S) @ '':*'')
            (\<lambda>k. snd \<circ> l2_delete E S k) (s\<lparr>tc_l1 := l1_clear (tc_l1 s)\<rparr>)
      in inc_metric ''cache_invalidation'' s1)"

subsection \<open>What the parts leave alone\<close>

named_theorems tier_frame \<open>fields that an operation does not change\<close>

text \<open>Everything but the metrics, the world, the breaker and the connection\<close>

definition kept :: "'w tiered \<Rightarrow> 'w tiered \<Rightarrow> bool" where
  "kept s s' \<longleftrightarrow> tc_active s' = tc_active s \<and> tc_queue s' = tc_queue s \<and> tc_l1 s' = tc_l1 s
     \<and> tc_flights s' = tc_flights s \<and> tc_enabled s' = tc_enabled s
     \<and> tc_l2_configured s' = tc_l2_configured s \<and> tc_l2_url s' = tc_l2_url s"

lemma keptD [tier_frame]:
  assumes "kept s s'"
  shows "tc_active s' = tc_active s" "tc_queue s' = tc_queue s" "tc_l1 s' = tc_l1 s"
    "tc_flights s' = tc_flights s" "tc_enabled s' = tc_enabled s"
    "tc_l2_configured s' = tc_l2_configured s" "tc_l2_url s' = tc_l2_url s"
  using assms by (simp_all add: kept_def)

lemma kept_refl [simp]: "kept s s"
  by (simp add: kept_def)

lemma kept_trans [trans]: "kept s s1 \<Longrightarrow> kept s1 s2 \<Longrightarrow> kept s s2"
  by (simp add: kept_def)

lemma kept_fields [simp]:
  "kept s (s1\<lparr>tc_world := w\<rparr>) = kept s s1" "kept s (s1\<lparr>tc_circuit := b\<rparr>) = kept s s1"
  "kept s (s1\<lparr>tc_l2_connected := c\<rparr>) = kept s s1" "kept s (s1\<lparr>tc_metrics := m\<rparr>) = kept s s1"
  "kept s (s1\<lparr>tc_prevented := n\<rparr>) = kept s s1"
  by (simp_all add: kept_def)

lemma kept_inc_metric [simp]: "kept s (inc_metric n s1) = kept s s1"
  by (simp add: inc_metric_def split: option.split)

lemma kept_mono_now: "mono_now E s = (t, s') \<Longrightarrow> kept s s'"
  by (auto simp: mono_now_def split: prod.splits)

lemma kept_epoch_now: "epoch_now E s = (t, s') \<Longrightarrow> kept s s'"
  by (auto simp: epoch_now_def split: prod.splits)

lemma kept_circuit_failure: "kept s (circuit_failure E s)"
  using kept_mono_now [of E s] by (auto simp: circuit_failure_def split: prod.split)

lemma kept_circuit_failure_of: "kept s s1 \<Longrightarrow> kept s (circuit_failure E s1)"
  using kept_circuit_failure kept_trans by blast

lemma kept_circuit_success: "kept s (circuit_success s1) = kept s s1"
  by (simp add: circuit_success_def)

lemma kept_can_attempt: "circuit_can_attempt E s = (ok, s') \<Longrightarrow> kept s s'"
  using kept_mono_now [of E s] by (auto simp: circuit_can_attempt_def split: prod.splits if_splits)

lemma kept_get_client: "l2_get_client E S s = (ok, s') \<Longrightarrow> kept s s'"
  by (auto simp: l2_get_client_def kept_circuit_failure_of split: option.splits if_splits prod.splits sum.splits)

lemma kept_attempt: "l2_attempt E S s = (ok, s') \<Longrightarrow> kept s s'"
  by (auto simp: l2_attempt_def split: prod.splits if_splits
      intro: kept_trans [OF kept_can_attempt kept_get_client] kept_can_attempt)

lemma kept_call: "l2_call E c f s = (r, s') \<Longrightarrow> kept s s'"
  by (auto simp: l2_call_def Let_def kept_circuit_failure_of kept_circuit_success split: prod.splits sum.splits if_splits)

lemma kept_l2_get: "l2_get E S key s = (r, s') \<Longrightarrow> kept s s'"
  by (auto simp: l2_get_def split: prod.splits if_splits intro: kept_trans [OF kept_attempt kept_call] kept_attempt)

lemma kept_l2_set: "l2_set E S key v x s = (r, s') \<Longrightarrow> kept s s'"
  by (auto simp: l2_set_def split: prod.splits if_splits intro: kept_trans [OF kept_attempt kept_call] kept_attempt)

lemma kept_l2_delete: "l2_delete E S key s = (r, s') \<Longrightarrow> kept s s'"
  by (auto simp: l2_delete_def split: prod.splits if_splits intro: kept_trans [OF kept_attempt kept_call] kept_attempt)

lemma kept_l2_delete_snd: "kept s (snd (l2_delete E S key s))"
  using kept_l2_delete [of E S key s] by (metis prod.collapse)

lemma kept_fold_delete: "kept s (fold (\<lambda>k. snd \<circ> l2_delete E S k) ks s)"
proof (induction ks arbitrary: s)
  case (Cons k ks)
  show ?case using kept_trans [OF kept_l2_delete_snd Cons.IH] by simp
qed simp

lemma kept_scan: "l2_scan E S p (\<lambda>k. snd \<circ> l2_delete E S k) s = (n, s') \<Longrightarrow> kept s s'"
proof -
  assume a: "l2_scan E S p (\<lambda>k. snd \<circ> l2_delete E S k) s = (n, s')"
  obtain ok s1 where s1: "l2_attempt E S s = (ok, s1)" by fastforce
  have k: "kept s (fold (\<lambda>k. snd \<circ> l2_delete E S k) ks (s1\<lparr>tc_world := w\<rparr>))" for ks w
    using kept_trans [OF kept_attempt [OF s1, THEN kept_fields(1) [THEN iffD2]] kept_fold_delete] .
  show ?thesis
    using a s1 k kept_attempt [OF s1] kept_circuit_failure_of [OF k]
    by (auto simp: l2_scan_def Let_def kept_circuit_success split: if_splits prod.splits option.splits)
qed

lemma kept_encode: "tc_encode E S v ttl a w c s = (r, s') \<Longrightarrow> kept s s'"
proof -
  have "kept s s2" if "epoch_now E (if b then inc_metric m s else s) = (t, s2)" for b m t s2
    using kept_epoch_now [OF that] kept_trans [of s "inc_metric m s" s2] by (cases b) auto
  then show "tc_encode E S v ttl a w c s = (r, s') \<Longrightarrow> kept s s'"
    unfolding tc_encode_def Let_def by (fastforce split: sum.splits prod.splits)
qed

lemma kept_decode: "tc_decode E S raw s = (r, s') \<Longrightarrow> kept s s'"
  by (auto simp: tc_decode_def split: option.splits)

lemma kept_write_l2: "write_l2 E S key raw x s = (r, s') \<Longrightarrow> kept s s'"
  using kept_l2_set by (auto simp: write_l2_def split: if_splits)

lemma kept_read_l2: "read_l2 E S key a s = (r, s') \<Longrightarrow> kept s s'"
proof (cases "tc_l2_configured s")
  case True
  assume r: "read_l2 E S key a s = (r, s')"
  obtain g s1 where g: "l2_get E S key s = (g, s1)" by fastforce
  then have 1: "kept s s1" by (rule kept_l2_get)
  show ?thesis
  proof (cases g)
    case None
    with r g True 1 show ?thesis by (simp add: read_l2_def)
  next
    case (Some raw)
    obtain d s2 where d: "tc_decode E S raw s1 = (d, s2)" by fastforce
    have 2: "kept s s2" using 1 kept_decode [OF d] by (rule kept_trans)
    obtain now s3 where 3: "epoch_now E s2 = (now, s3)" by fastforce
    show ?thesis
    proof (cases d)
      case None
      with r g True Some d show ?thesis using kept_trans [OF 2 kept_l2_delete_snd] by (auto simp: read_l2_def)
    next
      case s: (Some x)
      with r g True Some d 3 show ?thesis using kept_trans [OF 2 kept_epoch_now [OF 3]] by (auto simp: read_l2_def)
    qed
  qed
qed (simp add: read_l2_def)

subsection \<open>One background refresh per key\<close>

definition same_swr :: "'w tiered \<Rightarrow> 'w tiered \<Rightarrow> bool" where
  "same_swr s s' \<longleftrightarrow> tc_active s' = tc_active s \<and> tc_queue s' = tc_queue s"

lemma same_swr_refl [simp]: "same_swr s s"
  by (simp add: same_swr_def)

lemma same_swr_trans [trans]: "same_swr s s1 \<Longrightarrow> same_swr s1 s2 \<Longrightarrow> same_swr s s2"
  by (simp add: same_swr_def)

lemma kept_same_swr: "kept s s' \<Longrightarrow> same_swr s s'"
  by (simp add: kept_def same_swr_def)

lemma same_swr_fields [simp]:
  "same_swr s (s1\<lparr>tc_world := w\<rparr>) = same_swr s s1" "same_swr s (s1\<lparr>tc_l1 := c\<rparr>) = same_swr s s1"
  "same_swr s (s1\<lparr>tc_flights := f\<rparr>) = same_swr s s1" "same_swr s (s1\<lparr>tc_prevented := n\<rparr>) = same_swr s s1"
  "same_swr s (s1\<lparr>tc_metrics := m\<rparr>) = same_swr s s1"
  "same_swr s (inc_metric mt s1) = same_swr s s1" "same_swr s (exit_flight k s1) = same_swr s s1"
  "same_swr s (count_prevented h s1) = same_swr s s1"
  by (simp_all add: same_swr_def inc_metric_def exit_flight_def count_prevented_def split: option.split)

lemma clocks_kept:
  "mono_now E s = (m, s1) \<Longrightarrow> epoch_now E s1 = (t, s2) \<Longrightarrow> kept s s2"
  by (rule kept_trans [OF kept_mono_now kept_epoch_now])

lemma swr_read_l1: "read_l1 E key a s = (x, s') \<Longrightarrow> same_swr s s'"
proof -
  assume r: "read_l1 E key a s = (x, s')"
  obtain m s1 where 1: "mono_now E s = (m, s1)" by fastforce
  obtain t s2 where 2: "epoch_now E s1 = (t, s2)" by fastforce
  obtain y c where 3: "l1_get_detailed m t key a (tc_l1 s2) = (y, c)" by fastforce
  from r 1 2 3 have "s' = s2\<lparr>tc_l1 := c\<rparr>" by (simp add: read_l1_def)
  with kept_same_swr [OF clocks_kept [OF 1 2]] show ?thesis by simp
qed

lemma write_l1_eq:
  "mono_now E s = (m, s1) \<Longrightarrow> epoch_now E s1 = (t, s2) \<Longrightarrow>
     write_l1 E key v x env s =
       s2\<lparr>tc_l1 := l1_set m t key v (Some x) (env_get env ''created_at_epoch'')
              (env_get env ''expires_at_epoch'') (env_get env ''stale_until_epoch'') (tc_l1 s2)\<rparr>"
  by (simp add: write_l1_def)

lemma read_l1_cases:
  obtains (raised) e s1 where "read_l1 E key a s = (Inl e, s1)"
  | (answered) h st v m s1 where "read_l1 E key a s = (Inr (h, st, v, m), s1)"
  by (cases "read_l1 E key a s"; cases "fst (read_l1 E key a s)") (auto intro: prod_cases4)

lemma swr_write_l1: "same_swr s (write_l1 E key v x env s)"
proof -
  obtain m s1 where 1: "mono_now E s = (m, s1)" by fastforce
  obtain t s2 where 2: "epoch_now E s1 = (t, s2)" by fastforce
  show ?thesis unfolding write_l1_eq [OF 1 2] using kept_same_swr [OF clocks_kept [OF 1 2]] by simp
qed

lemma swr_write_l1_of: "same_swr s s1 \<Longrightarrow> same_swr s (write_l1 E key v x env s1)"
  using swr_write_l1 same_swr_trans by blast

lemma swr_read_l2: "read_l2 E S key a s = (r, s') \<Longrightarrow> same_swr s s'"
  by (rule kept_same_swr [OF kept_read_l2])

lemma swr_populate: "populate E S key v ttl l1 a w c s = (r, s') \<Longrightarrow> same_swr s s'"
proof -
  assume p: "populate E S key v ttl l1 a w c s = (r, s')"
  obtain e s1 where e: "tc_encode E S v ttl a w c s = (e, s1)" by fastforce
  have 1: "same_swr s s1" by (rule kept_same_swr [OF kept_encode [OF e]])
  show ?thesis
  proof (cases e)
    case (Inl x)
    with p e 1 show ?thesis by (simp add: populate_def)
  next
    case (Inr y)
    obtain raw env where y: "y = (raw, env)" by fastforce
    obtain ok s2 where 2: "write_l2 E S key raw (py_int (ttl + (if a then w else 0))) s1 = (ok, s2)" by fastforce
    have "same_swr s s2" using 1 kept_same_swr [OF kept_write_l2 [OF 2]] by (rule same_swr_trans)
    with p e Inr y 2 show ?thesis by (auto simp: populate_def Let_def swr_write_l1_of)
  qed
qed

lemma swr_call_producer: "call_producer f s = (r, s') \<Longrightarrow> same_swr s s'"
  by (auto simp: call_producer_def Let_def split: prod.splits)

lemma swr_produce: "produce_and_store E S r w s = (x, s') \<Longrightarrow> same_swr s s'"
proof -
  assume p: "produce_and_store E S r w s = (x, s')"
  obtain v s1 where c: "call_producer (rf_producer r) s = (v, s1)" by fastforce
  have 1: "same_swr s s1" by (rule swr_call_producer [OF c])
  obtain now s2 where e: "epoch_now E s1 = (now, s2)" by fastforce
  have 2: "same_swr s s2" using 1 kept_same_swr [OF kept_epoch_now [OF e]] by (rule same_swr_trans)
  show ?thesis
  proof (cases v)
    case (Inl x)
    with p c 1 show ?thesis by (simp add: produce_and_store_def)
  next
    case (Inr y)
    obtain z s3 where z: "populate E S (rf_key r) y (rf_ttl r) (rf_l1_ttl r) (rf_allow_stale r) w (Some now) s2 = (z, s3)"
      by fastforce
    have "same_swr s s3" using 2 swr_populate [OF z] by (rule same_swr_trans)
    with p c e Inr z show ?thesis by (cases z) (auto simp: produce_and_store_def)
  qed
qed

lemma swr_in_flight: "in_flight E S r w s = (x, s') \<Longrightarrow> same_swr s s'"
proof -
  assume f: "in_flight E S r w s = (x, s')"
  show ?thesis
  proof (cases rule: read_l1_cases [of E "rf_key r" False s])
    case (raised e s1)
    with f swr_read_l1 [OF raised] show ?thesis by (simp add: in_flight_def)
  next
  case (answered h st v m s1)
  note 1 = answered
  obtain y s2 where 2: "read_l2 E S (rf_key r) False s1 = (y, s2)" by fastforce
  have a: "same_swr s s1" by (rule swr_read_l1 [OF 1])
  have b: "same_swr s s2" using a swr_read_l2 [OF 2] by (rule same_swr_trans)
  obtain z s3 where 3: "produce_and_store E S r w s2 = (z, s3)" by fastforce
  have c: "same_swr s s3" using b swr_produce [OF 3] by (rule same_swr_trans)
  show ?thesis
  proof (cases "h \<and> \<not> st \<and> v \<noteq> None")
    case True
    with f 1 a show ?thesis by (auto simp: in_flight_def)
  next
    case False
    then have "(x, s') = (case read_l2 E S (rf_key r) False s1 of (Inl e, s2) \<Rightarrow> (Inl e, s2)
           | (Inr (Some (False, val, env)), s2) \<Rightarrow>
               (Inr val, write_l1 E (rf_key r) val (rf_l1_ttl r) env (count_prevented ''cache_l2_hit'' s2))
           | (_, s2) \<Rightarrow> produce_and_store E S r w s2)"
      using f 1 by (cases h; cases st; cases v) (simp_all add: in_flight_def)
    with 2 3 b c show ?thesis
      by (cases y) (auto simp: swr_write_l1_of split: option.splits bool.splits prod.splits)
  qed
  qed
qed

text \<open>
  The keys with a refresh in progress (\<open>R\<close>) or submitted are the active keys, each once. What
  other threads do during a wait respects this.
\<close>

definition swr_inv :: "string set \<Rightarrow> 'w tiered \<Rightarrow> bool" where
  "swr_inv R s \<longleftrightarrow> distinct (tc_active s) \<and> distinct (map rf_key (tc_queue s))
     \<and> set (tc_active s) = rf_key ` set (tc_queue s) \<union> R \<and> R \<inter> rf_key ` set (tc_queue s) = {}"

definition wait_ok :: "('w tiered \<Rightarrow> 'w tiered) \<Rightarrow> bool" where
  "wait_ok wait \<longleftrightarrow> (\<forall>R s. swr_inv R s \<longrightarrow> swr_inv R (wait s))"

lemma swr_inv_same: "same_swr s s' \<Longrightarrow> swr_inv R s' = swr_inv R s"
  by (simp add: same_swr_def swr_inv_def)

lemma swr_inv_schedule: "swr_inv R s \<Longrightarrow> swr_inv R (snd (schedule_swr_refresh r s))"
proof (cases "rf_key r \<in> set (tc_active s)")
  case False
  assume i: "swr_inv R s"
  let ?s = "(inc_metric ''cache_stale_refresh_started'' (s\<lparr>tc_active := rf_key r # tc_active s\<rparr>))"
  have e: "tc_active ?s = rf_key r # tc_active s" "tc_queue ?s = tc_queue s"
    by (simp_all add: inc_metric_def split: option.split)
  show ?thesis
    using i False by (auto simp: schedule_swr_refresh_def Let_def swr_inv_def e)
qed (simp add: schedule_swr_refresh_def)

lemma swr_inv_enter: "wait_ok wait \<Longrightarrow> swr_inv R s \<Longrightarrow> swr_inv R (enter_flight wait key s)"
  unfolding wait_ok_def enter_flight_def
  using swr_inv_same [of s "s\<lparr>tc_flights := snd (acquire_flight key (tc_flights s))\<rparr>" R] by simp

lemma swr_inv_flight:
  assumes "wait_ok wait" "swr_inv R s"
  shows "swr_inv R (exit_flight key (snd (in_flight E S r w (enter_flight wait key s))))"
proof -
  obtain x s1 where 1: "in_flight E S r w (enter_flight wait key s) = (x, s1)" by fastforce
  have "swr_inv R s1" using swr_inv_enter [OF assms] swr_inv_same [OF swr_in_flight [OF 1]] by blast
  then show ?thesis using 1 by (simp add: swr_inv_def exit_flight_def)
qed

text \<open>The three ways through \<open>get_or_set\<close>\<close>

lemma get_or_set_cases:
  assumes en: "is_enabled S s" and l1: "read_l1 E (rf_key r) (rf_allow_stale r) s = (Inr (h, st, v, m), s1)"
  shows "h \<Longrightarrow> v = Some val \<Longrightarrow> get_or_set E S wait r s =
           (Inr val, if st then snd (schedule_swr_refresh r (inc_metric ''cache_stale_served'' s1))
                     else inc_metric ''cache_l1_hit'' s1)"
    and "\<not> (h \<and> v \<noteq> None) \<Longrightarrow>
         read_l2 E S (rf_key r) (rf_allow_stale r) (inc_metric ''cache_l1_miss'' s1) = (y, s2) \<Longrightarrow>
         get_or_set E S wait r s =
           (case y of
              Inl e \<Rightarrow> (Inl e, s2)
            | Inr (Some (stale, val, env)) \<Rightarrow>
                (Inr val,
                 if stale then snd (schedule_swr_refresh r
                   (write_l1 E (rf_key r) val (rf_l1_ttl r) env (inc_metric ''cache_stale_served'' s2)))
                 else write_l1 E (rf_key r) val (rf_l1_ttl r) env (inc_metric ''cache_l2_hit'' s2))
            | Inr None \<Rightarrow>
                (let (res, s4) = in_flight E S r (opt_default (rf_stale_max r) (cs_stale_max_seconds S))
                       (enter_flight wait (rf_key r) (inc_metric ''cache_l2_miss'' s2))
                 in (res, exit_flight (rf_key r) s4)))"
proof -
  show "get_or_set E S wait r s =
           (Inr val, if st then snd (schedule_swr_refresh r (inc_metric ''cache_stale_served'' s1))
                     else inc_metric ''cache_l1_hit'' s1)" if "h" "v = Some val"
    using that en l1 by (cases st) (simp_all add: get_or_set_def)
  show "get_or_set E S wait r s = (case y of
              Inl e \<Rightarrow> (Inl e, s2)
            | Inr (Some (stale, val, env)) \<Rightarrow>
                (Inr val,
                 if stale then snd (schedule_swr_refresh r
                   (write_l1 E (rf_key r) val (rf_l1_ttl r) env (inc_metric ''cache_stale_served'' s2)))
                 else write_l1 E (rf_key r) val (rf_l1_ttl r) env (inc_metric ''cache_l2_hit'' s2))
            | Inr None \<Rightarrow>
                (let (res, s4) = in_flight E S r (opt_default (rf_stale_max r) (cs_stale_max_seconds S))
                       (enter_flight wait (rf_key r) (inc_metric ''cache_l2_miss'' s2))
                 in (res, exit_flight (rf_key r) s4)))"
    if "\<not> (h \<and> v \<noteq> None)" "read_l2 E S (rf_key r) (rf_allow_stale r) (inc_metric ''cache_l1_miss'' s1) = (y, s2)"
    using that en l1
    by (cases h; cases st; cases v) (auto simp: get_or_set_def Let_def split: sum.split option.split bool.split)
qed

lemma get_or_set_l1_raises:
  "is_enabled S s \<Longrightarrow> read_l1 E (rf_key r) (rf_allow_stale r) s = (Inl e, s1) \<Longrightarrow>
     get_or_set E S wait r s = (Inl e, s1)"
  by (simp add: get_or_set_def)

lemma swr_inv_get_or_set:
  assumes w: "wait_ok wait" and i: "swr_inv R s"
  shows "swr_inv R (snd (get_or_set E S wait r s))"
proof (cases "is_enabled S s")
  case False
  then show ?thesis using i by (simp add: get_or_set_def swr_inv_def split: prod.split)
next
  case True
  show ?thesis
  proof (cases rule: read_l1_cases [of E "rf_key r" "rf_allow_stale r" s])
    case (raised e s1)
    with get_or_set_l1_raises [OF True raised] swr_inv_same [OF swr_read_l1 [OF raised]] i show ?thesis by simp
  next
  case (answered h st v m s1)
  note 1 = answered
  have i1: "swr_inv R s1" using swr_inv_same [OF swr_read_l1 [OF 1]] i by blast
  have m: "swr_inv R (inc_metric n s') = swr_inv R s'" for n s'
    by (rule swr_inv_same) simp
  have wl: "swr_inv R (write_l1 E k val x env s') = swr_inv R s'" for k val x env s'
    by (rule swr_inv_same [OF swr_write_l1])
  show ?thesis
  proof (cases "h \<and> v \<noteq> None")
    case hit: True
    then obtain val where "v = Some val" by auto
    with get_or_set_cases(1) [OF True 1] hit i1 show ?thesis by (simp add: m swr_inv_schedule)
  next
    case miss: False
    obtain y s2 where 2: "read_l2 E S (rf_key r) (rf_allow_stale r) (inc_metric ''cache_l1_miss'' s1) = (y, s2)"
      by fastforce
    have i2: "swr_inv R s2" using swr_inv_same [OF swr_read_l2 [OF 2]] i1 m by blast
    let ?f = "in_flight E S r (opt_default (rf_stale_max r) (cs_stale_max_seconds S))
                       (enter_flight wait (rf_key r) (inc_metric ''cache_l2_miss'' s2))"
    have f: "swr_inv R (exit_flight (rf_key r) (snd ?f))"
      by (rule swr_inv_flight [OF w]) (simp add: m i2)
    show ?thesis
    proof (cases y)
      case (Inl e)
      with get_or_set_cases(2) [OF True 1 miss 2] i2 show ?thesis by simp
    next
      case (Inr z)
      then show ?thesis
      proof (cases z)
        case None
        with get_or_set_cases(2) [OF True 1 miss 2] Inr f show ?thesis by (simp add: Let_def split_beta)
      next
        case (Some t)
        obtain stale val env where "t = (stale, val, env)" by (cases t)
        with get_or_set_cases(2) [OF True 1 miss 2] Inr Some i2 show ?thesis
          by (simp add: swr_inv_schedule m wl)
      qed
    qed
  qed
  qed
qed

lemma swr_inv_worker:
  assumes w: "wait_ok wait" and i: "swr_inv (insert (rf_key r) R) s" and new: "rf_key r \<notin> R"
  shows "swr_inv R (refresh_worker E S wait r s)"
    and "rf_key r \<notin> set (tc_active (refresh_worker E S wait r s))"
proof -
  let ?R = "insert (rf_key r) R"
  let ?p = "\<lambda>s1. case call_producer (rf_producer r) s1 of
               (Inl e, s2) \<Rightarrow> (Inl e, s2)
             | (Inr fresh, s2) \<Rightarrow>
                 (let (now, s3) = epoch_now E s2;
                      window = opt_default (rf_stale_max r) (cs_stale_max_seconds S)
                  in (case populate E S (rf_key r) fresh (rf_ttl r) (rf_l1_ttl r) (rf_allow_stale r) window
                             (Some now) s3 of
                        (Inl e, s4) \<Rightarrow> (Inl e, s4)
                      | (Inr u, s4) \<Rightarrow> (Inr u, inc_metric ''cache_stale_refresh_completed'' s4)))"
  have p: "same_swr s1 (snd (?p s1))" for s1
  proof -
    obtain v s2 where c: "call_producer (rf_producer r) s1 = (v, s2)" by fastforce
    obtain now s3 where e: "epoch_now E s2 = (now, s3)" by fastforce
    have 3: "same_swr s1 s3"
      using swr_call_producer [OF c] kept_same_swr [OF kept_epoch_now [OF e]] by (rule same_swr_trans)
    show ?thesis
    proof (cases v)
      case (Inl e)
      with c swr_call_producer [OF c] show ?thesis by simp
    next
      case (Inr y)
      obtain z s4 where z: "populate E S (rf_key r) y (rf_ttl r) (rf_l1_ttl r) (rf_allow_stale r)
          (opt_default (rf_stale_max r) (cs_stale_max_seconds S)) (Some now) s3 = (z, s4)" by fastforce
      have "same_swr s1 s4" using 3 swr_populate [OF z] by (rule same_swr_trans)
      with c e z Inr show ?thesis by (cases z) simp_all
    qed
  qed
  obtain res s2 where r: "?p (enter_flight wait (rf_key r) s) = (res, s2)" by (rule prod.exhaust)
  have "same_swr (enter_flight wait (rf_key r) s) s2"
    using p [of "enter_flight wait (rf_key r) s"] unfolding r by simp
  then have "swr_inv ?R s2"
    using swr_inv_enter [OF w i, of "rf_key r"] swr_inv_same by blast
  moreover have s': "\<exists>s6. refresh_worker E S wait r s = s6\<lparr>tc_active := removeAll (rf_key r) (tc_active s6)\<rparr>
      \<and> same_swr s2 s6"
    using r unfolding refresh_worker_def Let_def by (cases res) auto
  ultimately show "swr_inv R (refresh_worker E S wait r s)"
    and "rf_key r \<notin> set (tc_active (refresh_worker E S wait r s))"
    using new by (auto simp: swr_inv_def same_swr_def distinct_removeAll)
qed

lemma swr_inv_refresh:
  assumes w: "wait_ok wait" and i: "swr_inv R s"
  shows "swr_inv R (run_refresh E S wait s)"
proof (cases "tc_queue s")
  case Nil
  with i show ?thesis by (simp add: run_refresh_def)
next
  case (Cons r rs)
  have "swr_inv (insert (rf_key r) R) (s\<lparr>tc_queue := rs\<rparr>)" "rf_key r \<notin> R"
    using i Cons by (auto simp: swr_inv_def)
  with swr_inv_worker(1) [OF w] Cons show ?thesis by (simp add: run_refresh_def)
qed

text \<open>A caller's operations and the executor's, one after the other\<close>

datatype 'w tc_op =
    OpGet string bool
  | OpSet string pyval "rat option" bool "rat option"
  | OpGetOrSet "'w refresh"
  | OpDelete string
  | OpDeletePattern string
  | OpClear
  | OpRefresh

fun tc_step ::
  "'w cache_env \<Rightarrow> cache_settings \<Rightarrow> (string \<Rightarrow> (string \<Rightarrow> bool) result) \<Rightarrow> ('w tiered \<Rightarrow> 'w tiered)
     \<Rightarrow> 'w tc_op \<Rightarrow> 'w tiered \<Rightarrow> 'w tiered" where
  "tc_step E S rx wait (OpGet k a) s = snd (tc_get E S k a s)"
| "tc_step E S rx wait (OpSet k v ttl a m) s = snd (tc_set E S k v ttl a m s)"
| "tc_step E S rx wait (OpGetOrSet r) s = snd (get_or_set E S wait r s)"
| "tc_step E S rx wait (OpDelete k) s = snd (tc_delete E S k s)"
| "tc_step E S rx wait (OpDeletePattern p) s = snd (tc_delete_pattern E S rx p s)"
| "tc_step E S rx wait OpClear s = tc_clear E S s"
| "tc_step E S rx wait OpRefresh s = run_refresh E S wait s"

lemma swr_get: "tc_get E S k a s = (x, s') \<Longrightarrow> same_swr s s'"
proof -
  assume g: "tc_get E S k a s = (x, s')"
  show ?thesis
  proof (cases rule: read_l1_cases [of E k a s])
    case (raised e s1)
    with g swr_read_l1 [OF raised] show ?thesis by (simp add: tc_get_def)
  next
    case (answered h st v m s1)
    note 1 = answered
    obtain y s2 where 2: "read_l2 E S k a (inc_metric ''cache_l1_miss'' s1) = (y, s2)" by fastforce
  have a: "same_swr s s1" by (rule swr_read_l1 [OF 1])
  have "same_swr s s2"
    using a same_swr_trans [of s "inc_metric ''cache_l1_miss'' s1", OF _ swr_read_l2 [OF 2]] by simp
  then show ?thesis
    using g 1 2 a by (cases h; cases y) (auto simp: tc_get_def swr_write_l1_of Let_def split: option.splits)
  qed
qed

lemma swr_set: "tc_set E S k v ttl a m s = (x, s') \<Longrightarrow> same_swr s s'"
proof -
  assume t: "tc_set E S k v ttl a m s = (x, s')"
  obtain z s1 where z: "populate E S k v (opt_default ttl (cs_ttl_default S))
      (min (opt_default ttl (cs_ttl_default S)) (cs_l1_ttl_default S)) a
      (opt_default m (cs_stale_max_seconds S)) None s = (z, s1)" by fastforce
  from t swr_populate [OF z] show ?thesis
    by (cases z) (auto simp: tc_set_def z)
qed

lemma swr_delete: "tc_delete E S k s = (x, s') \<Longrightarrow> same_swr s s'"
proof -
  assume d: "tc_delete E S k s = (x, s')"
  obtain b c where l: "l1_delete k (tc_l1 s) = (b, c)" by fastforce
  obtain b2 s1 where 2: "l2_delete E S k (s\<lparr>tc_l1 := c\<rparr>) = (b2, s1)" by fastforce
  from d l 2 kept_same_swr [OF kept_l2_delete [OF 2]] show ?thesis
    by (auto simp: tc_delete_def same_swr_def inc_metric_def split: option.splits)
qed

lemma swr_delete_pattern: "tc_delete_pattern E S rx p s = (x, s') \<Longrightarrow> same_swr s s'"
proof -
  assume d: "tc_delete_pattern E S rx p s = (x, s')"
  obtain b c where l: "l1_delete_pattern rx p (tc_l1 s) = (b, c)" by fastforce
  obtain b2 s1 where 2: "l2_scan E S p (\<lambda>k. snd \<circ> l2_delete E S k) (s\<lparr>tc_l1 := c\<rparr>) = (b2, s1)" by fastforce
  have "same_swr s s1" using kept_same_swr [OF kept_scan [OF 2]] by (simp add: same_swr_def)
  with d l 2 show ?thesis by (cases b) (auto simp: tc_delete_pattern_def)
qed

lemma swr_clear: "same_swr s (tc_clear E S s)"
proof -
  obtain b2 s1 where 2: "l2_scan E S (''crucible:cache:v'' @ show_int (cs_schema_version S) @ '':*'')
      (\<lambda>k. snd \<circ> l2_delete E S k) (s\<lparr>tc_l1 := l1_clear (tc_l1 s)\<rparr>) = (b2, s1)" by fastforce
  have "same_swr s s1" using kept_same_swr [OF kept_scan [OF 2]] by (simp add: same_swr_def)
  with 2 show ?thesis by (simp add: tc_clear_def)
qed

lemma swr_inv_step: "wait_ok wait \<Longrightarrow> swr_inv R s \<Longrightarrow> swr_inv R (tc_step E S rx wait op s)"
proof (cases op)
  case (OpGet k a)
  then show "swr_inv R s \<Longrightarrow> ?thesis" using swr_inv_same [OF swr_get [of E S k a s]] by (metis prod.collapse tc_step.simps(1))
next
  case (OpSet k v ttl a m)
  then show "swr_inv R s \<Longrightarrow> ?thesis"
    using swr_inv_same [OF swr_set [of E S k v ttl a m s]] by (metis prod.collapse tc_step.simps(2))
next
  case (OpDelete k)
  then show "swr_inv R s \<Longrightarrow> ?thesis" using swr_inv_same [OF swr_delete [of E S k s]] by (metis prod.collapse tc_step.simps(4))
next
  case (OpDeletePattern p)
  then show "swr_inv R s \<Longrightarrow> ?thesis"
    using swr_inv_same [OF swr_delete_pattern [of E S rx p s]] by (metis prod.collapse tc_step.simps(5))
next
  case OpClear
  then show "swr_inv R s \<Longrightarrow> ?thesis" using swr_inv_same [OF swr_clear [of s E S]] by simp
qed (simp_all add: swr_inv_get_or_set swr_inv_refresh)

definition tc_run ::
  "'w cache_env \<Rightarrow> cache_settings \<Rightarrow> (string \<Rightarrow> (string \<Rightarrow> bool) result) \<Rightarrow> ('w tiered \<Rightarrow> 'w tiered)
     \<Rightarrow> 'w tc_op list \<Rightarrow> 'w tiered \<Rightarrow> 'w tiered" where
  "tc_run E S rx wait ops s = fold (tc_step E S rx wait) ops s"

lemma swr_inv_run: "wait_ok wait \<Longrightarrow> swr_inv R s \<Longrightarrow> swr_inv R (tc_run E S rx wait ops s)"
  unfolding tc_run_def by (induction ops arbitrary: s) (simp_all add: swr_inv_step)

lemma wait_ok_run: "wait_ok wait \<Longrightarrow> wait_ok (tc_run E S rx wait ops)"
  by (simp add: wait_ok_def swr_inv_run)

lemma wait_ok_id: "wait_ok id"
  by (simp add: wait_ok_def)

lemma swr_inv_init: "swr_inv {} (tiered_init E S en mx ttl url w)"
  by (simp add: swr_inv_def tiered_init_def Let_def split: prod.split)

text \<open>
  Background refreshes are deduplicated. After any operations of callers and of the
  executor, with any operations \<open>others\<close> of further threads during every wait for a lock, the
  submitted refreshes are for distinct keys and the active keys are exactly theirs; and a
  refresh that runs takes its key out of the active ones even when its producer raises, so no
  key is ever blocked from being refreshed again.
\<close>

theorem one_refresh_per_key:
  "let s = tc_run E S rx (tc_run E S rx id others) ops (tiered_init E S en mx ttl url w)
   in distinct (map rf_key (tc_queue s)) \<and> set (tc_active s) = rf_key ` set (tc_queue s)
      \<and> (case tc_queue s of [] \<Rightarrow> True
         | r # rs \<Rightarrow> rf_key r \<notin> set (tc_active (refresh_worker E S (tc_run E S rx id others) r (s\<lparr>tc_queue := rs\<rparr>))))"
proof -
  let ?wait = "tc_run E S rx id others"
  let ?s = "tc_run E S rx ?wait ops (tiered_init E S en mx ttl url w)"
  have w: "wait_ok ?wait" by (rule wait_ok_run [OF wait_ok_id])
  have i: "swr_inv {} ?s" by (rule swr_inv_run [OF w swr_inv_init])
  have "rf_key r \<notin> set (tc_active (refresh_worker E S ?wait r (?s\<lparr>tc_queue := rs\<rparr>)))"
    if "tc_queue ?s = r # rs" for r rs
    by (rule swr_inv_worker(2) [OF w, of _ "{}"]) (use i that in \<open>auto simp: swr_inv_def\<close>)
  with i show ?thesis unfolding Let_def swr_inv_def by (auto split: list.split)
qed

subsection \<open>Envelopes round trip\<close>

lemma encode_shape:
  assumes "tc_encode E S v ttl allow_stale window created s = (Inr (raw, env), s')"
  obtains payload z iso_text c where
    "serialize_cache_value E v (cs_compression_threshold S) = Inr (payload, z)"
    "env = mk_envelope S z iso_text c (c + ttl) (c + ttl + (if allow_stale then window else 0)) payload"
    "ce_json_plain E (PDict env) = Inr raw" "created = None \<or> created = Some c"
    "created = None \<Longrightarrow> c = fst (ce_epoch E (tc_world s))"
proof -
  obtain payload z where p: "serialize_cache_value E v (cs_compression_threshold S) = Inr (payload, z)"
    using assms by (auto simp: tc_encode_def split: sum.splits)
  define s1 where "s1 = (if z then inc_metric ''cache_compression'' s else s)"
  obtain now s2 where n: "epoch_now E s1 = (now, s2)" by fastforce
  have w: "tc_world s1 = tc_world s" by (simp add: s1_def inc_metric_def split: option.split)
  have now: "now = fst (ce_epoch E (tc_world s))"
    using n w by (auto simp: epoch_now_def split: prod.splits)
  have "tc_encode E S v ttl allow_stale window created s =
     (let c = opt_default created now in
      (case ce_utc_iso E c of Inl e \<Rightarrow> (Inl e, s2)
       | Inr t \<Rightarrow>
           (let env = mk_envelope S z t c (c + ttl) (c + ttl + (if allow_stale then window else 0)) payload
            in (case ce_json_plain E (PDict env) of Inl e \<Rightarrow> (Inl e, s2) | Inr raw \<Rightarrow> (Inr (raw, env), s2)))))"
    using n unfolding tc_encode_def p s1_def by (simp add: Let_def)
  with assms that [OF p] now show ?thesis
    by (cases created) (auto simp: opt_default_def Let_def split: sum.splits)
qed

lemma mk_envelope_fields [simp]:
  "map_of (mk_envelope S z t c e st payload) ''schema_version'' = Some (PInt (cs_schema_version S))"
  "map_of (mk_envelope S z t c e st payload) ''compression'' = Some (PStr (if z then ''zlib'' else ''none''))"
  "map_of (mk_envelope S z t c e st payload) ''payload'' = Some (PStr payload)"
  "map_of (mk_envelope S z t c e st payload) ''created_at_epoch'' = Some (PFloat c)"
  "map_of (mk_envelope S z t c e st payload) ''expires_at_epoch'' = Some (PFloat e)"
  "map_of (mk_envelope S z t c e st payload) ''stale_until_epoch'' = Some (PFloat st)"
  by (simp_all add: mk_envelope_def)

text \<open>
  C19: Envelopes round trip. Where JSON, zlib and base64 invert their encodings of a value and
  its envelope, what \<open>_encode\<close> writes \<open>_decode\<close> reads back: the same value and the same
  envelope, judged fresh until creation plus \<open>ttl\<close> and stale until the end of the stale window
  when that was allowed. The one exception is a compressed value of more than 10 MB, which can
  be written and never be read again.
\<close>

theorem envelope_roundtrip:
  assumes enc: "tc_encode E S v ttl allow_stale window created s = (Inr (raw, env), s')"
    and json: "ce_json E v = Inr txt" "ce_loads E txt = Inr v"
    and plain: "ce_json_plain E (PDict env) = Inr raw \<Longrightarrow> ce_loads E raw = Inr (PDict env)"
    and zlib: "ce_b64decode E (ce_b64encode E (ce_compress E txt)) = Inr (ce_compress E txt)"
      "ce_decompress E (ce_compress E txt) = Inr txt" "ce_utf8 E txt = Inr txt"
  shows "if int (length txt) > cs_compression_threshold S \<and> int (length txt) > MAX_DECOMPRESSED_BYTES
         then decode_envelope E S raw = None
         else decode_envelope E S raw = Some (v, env)
           \<and> (let c = opt_default created (fst (ce_epoch E (tc_world s))) in
              judge_envelope now allow (v, env) =
                Inr (if now < c + ttl then Some (False, v, env)
                     else if allow \<and> now < c + ttl + (if allow_stale then window else 0) then Some (True, v, env)
                     else None))"
proof -
  obtain payload z t c where p: "serialize_cache_value E v (cs_compression_threshold S) = Inr (payload, z)"
    and e: "env = mk_envelope S z t c (c + ttl) (c + ttl + (if allow_stale then window else 0)) payload"
    and r: "ce_json_plain E (PDict env) = Inr raw" and cr: "created = None \<or> created = Some c"
      "created = None \<Longrightarrow> c = fst (ce_epoch E (tc_world s))"
    using encode_shape [OF enc] by metis
  have l: "ce_loads E raw = Inr (PDict env)" by (rule plain [OF r])
  have z: "z \<longleftrightarrow> int (length txt) > cs_compression_threshold S"
    and pay: "payload = (if z then ce_b64encode E (ce_compress E txt) else txt)"
    using p json(1) by (auto simp: serialize_cache_value_def split: if_splits)
  have d: "deserialize_cache_value E (PStr payload) (PStr (if z then ''zlib'' else ''none'')) =
      (if z \<and> int (length txt) > MAX_DECOMPRESSED_BYTES
       then Inl (Exn ''ValueError'' (''Decompressed payload size exceeds ''
                               @ show_int MAX_DECOMPRESSED_BYTES @ '' bytes limit'')) else Inr v)"
    using zlib json(2) by (cases z) (simp_all add: deserialize_cache_value_def pay)
  have "decode_envelope E S raw =
      (if z \<and> int (length txt) > MAX_DECOMPRESSED_BYTES then None else Some (v, env))"
    by (simp add: decode_envelope_def l validate_envelope_def e opt_default_def d)
  moreover have "opt_default created (fst (ce_epoch E (tc_world s))) = c"
    using cr by (auto simp: opt_default_def)
  moreover have "judge_envelope now allow (v, env) =
      Inr (if now < c + ttl then Some (False, v, env)
           else if allow \<and> now < c + ttl + (if allow_stale then window else 0) then Some (True, v, env) else None)"
    by (simp add: judge_envelope_def before_def e opt_default_def Let_def split: bool.split)
  ultimately show ?thesis using z by (simp add: Let_def)
qed

subsection \<open>Reading what was written\<close>

lemma l1_put_found: "1 \<le> l1_max_entries c \<Longrightarrow> map_of (l1_store (l1_put key e c)) key = Some e"
proof -
  assume m: "1 \<le> l1_max_entries c"
  let ?s = "AList.delete key (l1_store c)"
  have k: "key \<notin> fst ` set ?s" by (rule delete_notin_dom)
  then have 1: "map_of (?s @ [(key, e)]) key = Some e" by (simp add: map_add_Some_iff map_of_eq_None_iff)
  have "map_of (tl (?s @ [(key, e)])) key = Some e" if "?s \<noteq> []"
  proof -
    from that have "tl (?s @ [(key, e)]) = tl ?s @ [(key, e)]" by simp
    moreover have "key \<notin> fst ` set (tl ?s)" using k that by (auto dest: list.set_sel(2))
    ultimately show ?thesis by (simp add: map_add_Some_iff map_of_eq_None_iff)
  qed
  with 1 m show ?thesis unfolding l1_put_store Let_def by (cases "?s") auto
qed

lemma env_get_envelope [simp]:
  "env_get (mk_envelope S z t c e st payload) ''created_at_epoch'' = PFloat c"
  "env_get (mk_envelope S z t c e st payload) ''expires_at_epoch'' = PFloat e"
  "env_get (mk_envelope S z t c e st payload) ''stale_until_epoch'' = PFloat st"
  by (simp_all add: env_get_def opt_default_def)

lemma kept_populate_l1:
  assumes "populate E S key v ttl l1_ttl allow_stale window created s = (Inr (), s')"
    and "1 \<le> l1_max_entries (tc_l1 s)"
  obtains e c where "map_of (l1_store (tc_l1 s')) key = Some e" "le_value e = v"
    "le_expires_mono e = le_created_mono e + l1_ttl" "le_created_epoch e = PFloat c"
    "le_expires_epoch e = PFloat (c + ttl)"
    "le_stale_until e = PFloat (c + ttl + (if allow_stale then window else 0))"
proof -
  obtain x s1 where x: "tc_encode E S v ttl allow_stale window created s = (x, s1)" by fastforce
  with assms obtain raw env where xr: "x = Inr (raw, env)" by (cases x) (auto simp: populate_def)
  obtain ok s2 where w: "write_l2 E S key raw (py_int (ttl + (if allow_stale then window else 0))) s1 = (ok, s2)"
    by fastforce
  have s': "s' = write_l1 E key v l1_ttl env s2" using assms(1) x xr w by (simp add: populate_def)
  obtain payload z t c where e: "env = mk_envelope S z t c (c + ttl) (c + ttl + (if allow_stale then window else 0)) payload"
    using encode_shape [OF x [unfolded xr]] by metis
  obtain m s3 where 3: "mono_now E s2 = (m, s3)" by fastforce
  obtain n s4 where 4: "epoch_now E s3 = (n, s4)" by fastforce
  have k: "kept s s4"
    using kept_trans [OF kept_trans [OF kept_encode [OF x] kept_write_l2 [OF w]] clocks_kept [OF 3 4]] .
  let ?e = "new_entry m n v l1_ttl (PFloat c) (PFloat (c + ttl)) (PFloat (c + ttl + (if allow_stale then window else 0)))"
  have "tc_l1 s' = l1_put key ?e (tc_l1 s)"
    unfolding s' write_l1_eq [OF 3 4] by (simp add: e l1_set_def opt_default_def keptD(3) [OF k])
  with l1_put_found [OF assms(2)] show ?thesis
    by (intro that [of ?e c]) (simp_all add: new_entry_def not_none_def Let_def)
qed

text \<open>
  A write is read back, whatever Redis does. When \<open>set\<close> reports success, the first tier
  holds the value, fresh for the shorter of \<open>ttl\<close> and the first tier's own bound on the
  monotonic clock and for \<open>ttl\<close> from its creation; and a \<open>get\<close> that finds the clocks within
  these times returns the value after reading the clocks only: Redis is not asked.
\<close>

theorem cache_read_your_write:
  assumes "tc_set E S key v (Some ttl) allow_stale stale_max s = (True, s1)"
    and "1 \<le> l1_max_entries (tc_l1 s)"
  shows "\<exists>e c. map_of (l1_store (tc_l1 s1)) key = Some e \<and> le_value e = v
     \<and> le_expires_mono e = le_created_mono e + min ttl (cs_l1_ttl_default S)
     \<and> le_created_epoch e = PFloat c \<and> le_expires_epoch e = PFloat (c + ttl)
     \<and> (case ce_mono E (tc_world s1) of (m, w1) \<Rightarrow> case ce_epoch E w1 of (t, w2) \<Rightarrow>
          m < le_expires_mono e \<and> t < c + ttl \<longrightarrow>
          fst (tc_get E S key allow s1) = Inr (Some v) \<and> tc_world (snd (tc_get E S key allow s1)) = w2)"
proof -
  let ?w = "opt_default stale_max (cs_stale_max_seconds S)"
  have "\<exists>u. populate E S key v ttl (min ttl (cs_l1_ttl_default S)) allow_stale ?w None s = (Inr u, s1)"
    using assms(1) by (auto simp: tc_set_def opt_default_def Let_def split: prod.splits sum.splits)
  then obtain u :: unit where u: "populate E S key v ttl (min ttl (cs_l1_ttl_default S)) allow_stale ?w None s = (Inr u, s1)"
    by blast
  have p: "populate E S key v ttl (min ttl (cs_l1_ttl_default S)) allow_stale ?w None s = (Inr (), s1)"
    using u by simp
  obtain e c where e: "map_of (l1_store (tc_l1 s1)) key = Some e" "le_value e = v"
    "le_expires_mono e = le_created_mono e + min ttl (cs_l1_ttl_default S)"
    "le_created_epoch e = PFloat c" "le_expires_epoch e = PFloat (c + ttl)"
    by (rule kept_populate_l1 [OF p assms(2)]) auto
  obtain m w1 where m: "ce_mono E (tc_world s1) = (m, w1)" by fastforce
  obtain t w2 where t: "ce_epoch E w1 = (t, w2)" by fastforce
  have "fst (tc_get E S key allow s1) = Inr (Some v) \<and> tc_world (snd (tc_get E S key allow s1)) = w2"
    if "m < le_expires_mono e \<and> t < c + ttl"
    using that e m t
    by (simp add: tc_get_def read_l1_def mono_now_def epoch_now_def l1_get_detailed_def is_fresh_def
        before_def inc_metric_def split: option.split)
  with e m t show ?thesis by auto
qed

subsection \<open>Where an answer comes from\<close>

text \<open>
  What a stored value offers to a reader at an epoch time, from the times it is stored with:
  the value while it is fresh (\<open>live\<close> is the first tier's own limit) or, for a reader that
  allows it, within its stale window; the exception for a time that is needed and is no number;
  nothing otherwise.
\<close>

definition held_offer :: "rat \<Rightarrow> bool \<Rightarrow> bool \<Rightarrow> pyval \<Rightarrow> pyval \<Rightarrow> pyval \<Rightarrow> pyval result option" where
  "held_offer now allow live expires stale_until v =
     (let fresh = (live \<and> (\<exists>x \<in> set_option (num_of expires). now < x));
          stale = (\<exists>y \<in> set_option (num_of stale_until). now < y)
      in if num_of expires = None then Some (Inl (no_number expires))
         else if fresh then Some (Inr v)
         else if allow \<and> num_of stale_until = None then Some (Inl (no_number stale_until))
         else if allow \<and> stale then Some (Inr v) else None)"

text \<open>What the first tier offers in a state, at the readings of the clocks in it\<close>

definition l1_offer :: "'w cache_env \<Rightarrow> string \<Rightarrow> bool \<Rightarrow> 'w tiered \<Rightarrow> pyval result option" where
  "l1_offer E key allow s =
     (let (m, w) = ce_mono E (tc_world s); (t, _) = ce_epoch E w in
      case map_of (l1_store (tc_l1 s)) key of
        None \<Rightarrow> None
      | Some e \<Rightarrow>
          held_offer t allow (m < le_expires_mono e) (le_expires_epoch e) (le_stale_until e) (le_value e))"

text \<open>
  What Redis offers in a state: of what it answers there, an envelope of the schema that can be
  decoded, at the reading of the clock after the answer. Anything else, a failure of Redis
  included, is no offer.
\<close>

definition l2_offer :: "'w cache_env \<Rightarrow> cache_settings \<Rightarrow> string \<Rightarrow> bool \<Rightarrow> 'w tiered \<Rightarrow> pyval result option" where
  "l2_offer E S key allow s =
     (if \<not> tc_l2_configured s then None
      else
        (case l2_get E S key s of
           (None, _) \<Rightarrow> None
         | (Some raw, s1) \<Rightarrow>
             (case decode_envelope E S raw of
                None \<Rightarrow> None
              | Some (v, env) \<Rightarrow>
                  (let expires = opt_default (map_of env ''expires_at_epoch'') (PFloat 0) in
                   held_offer (fst (ce_epoch E (tc_world s1))) allow True expires
                     (opt_default (map_of env ''stale_until_epoch'') expires) v))))"

primrec first_offer :: "'a option list \<Rightarrow> 'a \<Rightarrow> 'a" where
  "first_offer [] d = d"
| "first_offer (x # xs) d = (case x of None \<Rightarrow> first_offer xs d | Some a \<Rightarrow> a)"

text \<open>The state in which the request has the lock of its key, when it missed both tiers\<close>

definition at_lock ::
  "'w cache_env \<Rightarrow> cache_settings \<Rightarrow> ('w tiered \<Rightarrow> 'w tiered) \<Rightarrow> 'w refresh \<Rightarrow> 'w tiered \<Rightarrow> 'w tiered" where
  "at_lock E S wait r s =
     (let s1 = snd (read_l1 E (rf_key r) (rf_allow_stale r) s);
          s2 = snd (read_l2 E S (rf_key r) (rf_allow_stale r) (inc_metric ''cache_l1_miss'' s1))
      in enter_flight wait (rf_key r) (inc_metric ''cache_l2_miss'' s2))"

lemma read_l1_offer:
  "l1_offer E key allow s =
     (case fst (read_l1 E key allow s) of
        Inl e \<Rightarrow> Some (Inl e)
      | Inr (h, st, v, m) \<Rightarrow> if h then map_option Inr v else None)"
  by (auto simp: l1_offer_def held_offer_def read_l1_def mono_now_def epoch_now_def l1_get_detailed_standing
      standing_of_def Let_def split: prod.split option.split)

lemma read_l1_hit:
  "read_l1 E key allow s = (Inr (h, st, v, m), s') \<Longrightarrow> h = (v \<noteq> None) \<and> (st \<longrightarrow> allow)"
  by (auto simp: read_l1_def mono_now_def epoch_now_def l1_get_detailed_standing standing_of_def Let_def
      split: prod.splits option.splits if_splits)

lemma decode_world: "tc_decode E S raw s = (x, s') \<Longrightarrow> x = decode_envelope E S raw \<and> tc_world s' = tc_world s"
  by (auto simp: tc_decode_def inc_metric_def split: option.splits)

lemma judge_held_offer:
  "held_offer now allow True (opt_default (map_of env ''expires_at_epoch'') (PFloat 0))
     (opt_default (map_of env ''stale_until_epoch'') (opt_default (map_of env ''expires_at_epoch'') (PFloat 0))) v =
   (case judge_envelope now allow (v, env) of
      Inl e \<Rightarrow> Some (Inl e)
    | Inr None \<Rightarrow> None
    | Inr (Some (b, v, env)) \<Rightarrow> Some (Inr v))"
  by (auto simp: held_offer_def judge_envelope_def before_def Let_def split: option.split bool.split)

lemma judge_stale: "judge_envelope now allow r = Inr (Some (b, v, env)) \<Longrightarrow> b \<Longrightarrow> allow"
  by (auto simp: judge_envelope_def Let_def split: prod.splits sum.splits bool.splits if_splits)

lemma read_l2_offer:
  "l2_offer E S key allow s =
     (case fst (read_l2 E S key allow s) of
        Inl e \<Rightarrow> Some (Inl e)
      | Inr None \<Rightarrow> None
      | Inr (Some (b, v, env)) \<Rightarrow> Some (Inr v))"
proof (cases "tc_l2_configured s")
  case True
  obtain g s1 where g: "l2_get E S key s = (g, s1)" by fastforce
  show ?thesis
  proof (cases g)
    case None
    with True g show ?thesis by (simp add: l2_offer_def read_l2_def)
  next
    case (Some raw)
    obtain d s2 where d: "tc_decode E S raw s1 = (d, s2)" by fastforce
    note w = decode_world [OF d]
    obtain now s3 where 3: "epoch_now E s2 = (now, s3)" by fastforce
    have n: "now = fst (ce_epoch E (tc_world s1))" using 3 w by (auto simp: epoch_now_def split: prod.splits)
    show ?thesis
    proof (cases d)
      case None
      with True g Some d w show ?thesis by (simp add: l2_offer_def read_l2_def)
    next
      case (Some p)
      obtain v env where p: "p = (v, env)" by fastforce
      have r: "read_l2 E S key allow s = (judge_envelope now allow (v, env), s3)"
        using True g \<open>g = Some raw\<close> d Some p 3 by (simp add: read_l2_def)
      have "decode_envelope E S raw = Some (v, env)" using w Some p by simp
      then have "l2_offer E S key allow s =
          held_offer now allow True (opt_default (map_of env ''expires_at_epoch'') (PFloat 0))
            (opt_default (map_of env ''stale_until_epoch'') (opt_default (map_of env ''expires_at_epoch'') (PFloat 0))) v"
        using True g \<open>g = Some raw\<close> by (simp add: l2_offer_def n Let_def)
      then show ?thesis unfolding judge_held_offer r by simp
    qed
  qed
qed (simp add: l2_offer_def read_l2_def)

lemma read_l2_stale:
  "read_l2 E S key allow s = (Inr (Some (b, v, env)), s') \<Longrightarrow> b \<Longrightarrow> allow"
  by (auto simp: read_l2_def dest: judge_stale split: if_splits prod.splits option.splits)

lemma produce_answer: "fst (produce_and_store E S r w s) = fst (rf_producer r (tc_world s))"
  by (auto simp: produce_and_store_def call_producer_def inc_metric_def Let_def
      split: prod.splits sum.splits option.splits)

lemma in_flight_answer:
  "fst (in_flight E S r w s) =
     (let s1 = snd (read_l1 E (rf_key r) False s); s2 = snd (read_l2 E S (rf_key r) False s1)
      in first_offer [l1_offer E (rf_key r) False s, l2_offer E S (rf_key r) False s1]
           (fst (rf_producer r (tc_world s2))))"
proof (cases rule: read_l1_cases [of E "rf_key r" False s])
  case (raised e s1)
  then show ?thesis by (simp add: in_flight_def read_l1_offer Let_def)
next
  case (answered h st v m s1)
  note hit = read_l1_hit [OF answered]
  obtain y s2 where 2: "read_l2 E S (rf_key r) False s1 = (y, s2)" by fastforce
  show ?thesis
  proof (cases v)
    case (Some val)
    with answered hit show ?thesis by (simp add: in_flight_def read_l1_offer Let_def)
  next
    case None
    show ?thesis
    proof (cases y)
      case (Inl e)
      with answered hit None 2 show ?thesis by (simp add: in_flight_def read_l1_offer read_l2_offer Let_def)
    next
      case (Inr z)
      show ?thesis
      proof (cases z)
        case None
        with answered hit \<open>v = None\<close> 2 Inr produce_answer [of E S r w s2] show ?thesis
          by (simp add: in_flight_def read_l1_offer read_l2_offer Let_def)
      next
        case (Some t)
        obtain b val env where t: "t = (b, val, env)" by (cases t)
        have "\<not> b" using read_l2_stale [of E S "rf_key r" False s1] 2 Inr Some t by auto
        with answered hit None 2 Inr Some t show ?thesis
          by (simp add: in_flight_def read_l1_offer read_l2_offer Let_def)
      qed
    qed
  qed
qed

text \<open>
  C16: The cache is transparent and Redis cannot break a request. \<open>get_or_set\<close> gives the first
  answer of five sources, each judged in the state and at the clock readings of its own lookup:
  the first tier, Redis, and, once the lock of the key is held and whatever other threads did
  during the wait, the first tier and Redis again, now for a fresh value only, and last the
  producer, whose value is returned or whose exception is raised. A tier answers with the value
  it holds under the key while that is fresh or, where the caller allows it, within its stale
  window; an expired, undecodable or foreign entry and every failure of Redis are no answer. The
  one other exception is for a stored time that the lookup needs and that is no number: both
  tiers compare it outside of every handler. A disabled cache runs the producer.
\<close>

theorem get_or_set_answers:
  "let key = rf_key r; allow = rf_allow_stale r;
       s1 = inc_metric ''cache_l1_miss'' (snd (read_l1 E key allow s));
       locked = at_lock E S wait r s;
       s2 = snd (read_l1 E key False locked);
       s3 = snd (read_l2 E S key False s2)
   in fst (get_or_set E S wait r s) =
        (if is_enabled S s
         then first_offer
                [l1_offer E key allow s, l2_offer E S key allow s1,
                 l1_offer E key False locked, l2_offer E S key False s2]
                (fst (rf_producer r (tc_world s3)))
         else fst (rf_producer r (tc_world s)))"
proof (cases "is_enabled S s")
  case False
  then show ?thesis by (simp add: get_or_set_def Let_def split: prod.split)
next
  case True
  show ?thesis
  proof (cases rule: read_l1_cases [of E "rf_key r" "rf_allow_stale r" s])
    case (raised e s1)
    with get_or_set_l1_raises [OF True raised] True show ?thesis by (simp add: read_l1_offer Let_def)
  next
    case (answered h st v m s1)
    note hit = read_l1_hit [OF answered]
    obtain y s2 where 2: "read_l2 E S (rf_key r) (rf_allow_stale r) (inc_metric ''cache_l1_miss'' s1) = (y, s2)"
      by fastforce
    have al: "at_lock E S wait r s = enter_flight wait (rf_key r) (inc_metric ''cache_l2_miss'' s2)"
      by (simp add: at_lock_def answered 2)
    show ?thesis
    proof (cases v)
      case (Some val)
      with get_or_set_cases(1) [OF True answered] hit answered True show ?thesis
        by (simp add: read_l1_offer Let_def)
    next
      case None
      then have g: "\<not> (h \<and> v \<noteq> None)" by simp
      show ?thesis
        using get_or_set_cases(2) [OF True answered g 2] hit None answered 2 True al
          in_flight_answer [of E S r "opt_default (rf_stale_max r) (cs_stale_max_seconds S)" "at_lock E S wait r s"]
        by (auto simp: read_l1_offer [of _ _ "rf_allow_stale r" s] read_l2_offer [of _ _ _ "rf_allow_stale r"]
            Let_def split_beta split: sum.split option.split)
    qed
  qed
qed

subsection \<open>Concrete runs\<close>

definition demo_envelope :: dict where
  "demo_envelope = mk_envelope demo_cache_settings False ''then'' 5 65 65 ''val''"

definition demo_tiered :: "demo_world tiered" where
  "demo_tiered = tiered_init (demo_cache_env demo_envelope) demo_cache_settings None None None None (5, [])"

lemma demo_encode:
  "tc_encode (demo_cache_env demo_envelope) demo_cache_settings (PStr ''val'') 60 False 300 None demo_tiered
     = (Inr (''envelope'', demo_envelope), demo_tiered)"
  by (simp add: tc_encode_def serialize_cache_value_def demo_cache_env_def demo_cache_settings_def demo_tiered_def
      tiered_init_def epoch_now_def opt_default_def demo_envelope_def Let_def)

theorem envelope_roundtrip_witness:
  "decode_envelope (demo_cache_env demo_envelope) demo_cache_settings ''envelope'' = Some (PStr ''val'', demo_envelope)
   \<and> judge_envelope 64 False (PStr ''val'', demo_envelope) = Inr (Some (False, PStr ''val'', demo_envelope))"
  using envelope_roundtrip [OF demo_encode, of "''val''" 64 False]
  by (simp add: demo_cache_env_def demo_cache_settings_def demo_tiered_def tiered_init_def opt_default_def
      MAX_DECOMPRESSED_BYTES_def Let_def)

lemma demo_set:
  "\<exists>s1. tc_set (demo_cache_env demo_envelope) demo_cache_settings ''k'' (PStr ''val'') (Some 60) False None demo_tiered
     = (True, s1)"
  by (simp add: tc_set_def populate_def opt_default_def demo_encode [simplified demo_cache_settings_def]
      demo_cache_settings_def Let_def split: prod.split)

theorem cache_read_your_write_witness:
  "\<exists>s1 e. tc_set (demo_cache_env demo_envelope) demo_cache_settings ''k'' (PStr ''val'') (Some 60) False None demo_tiered
     = (True, s1) \<and> map_of (l1_store (tc_l1 s1)) ''k'' = Some e \<and> le_value e = PStr ''val''"
proof -
  obtain s1 where s1: "tc_set (demo_cache_env demo_envelope) demo_cache_settings ''k'' (PStr ''val'') (Some 60) False None
      demo_tiered = (True, s1)"
    using demo_set by blast
  have "1 \<le> l1_max_entries (tc_l1 demo_tiered)"
    by (simp add: demo_tiered_def tiered_init_def demo_cache_settings_def demo_cache_env_def l1_init_def
        opt_default_def Let_def)
  from cache_read_your_write [OF s1 this] s1 show ?thesis by blast
qed

text \<open>
  Redis holds an envelope whose expiry is a text: it passes the validation, and the comparison
  raises out of \<open>get\<close>.
\<close>

lemma bad_expiry_raises:
  "\<exists>env e. validate_envelope demo_cache_settings (PDict env) \<and> judge_envelope now allow (PStr ''val'', env) = Inl e"
  by (rule exI [of _ "[(''schema_version'', PInt 1), (''payload'', PStr ''val''), (''expires_at_epoch'', PStr ''soon'')]"])
    (simp add: validate_envelope_def judge_envelope_def before_def opt_default_def demo_cache_settings_def)

end
