(* ===== verification/Terrain.thy ===== *)
theory Terrain
  imports Prelude
begin

text \<open>
  The cost surface that the haulage router searches (\<open>app/api/core/routing/config.py\<close>,
  \<open>terrain.py\<close>, \<open>cost.py\<close>). Floats are reals here, because the code takes exponentials, sines
  and square roots of them; an array layer is a function of row and column.
\<close>

subsection \<open>Configuration\<close>

datatype factor = Slope | Flood | Road | Mining | Weather | Traffic

definition FACTORS :: "factor list" where
  "FACTORS = [Slope, Flood, Road, Mining, Weather, Traffic]"

fun factor_name :: "factor \<Rightarrow> string" where
  "factor_name Slope = ''slope''"
| "factor_name Flood = ''flood''"
| "factor_name Road = ''road''"
| "factor_name Mining = ''mining''"
| "factor_name Weather = ''weather''"
| "factor_name Traffic = ''traffic''"

record cost_weights =
  alpha_distance :: real
  beta_slope :: real
  gamma_flood :: real
  delta_road :: real
  epsilon_mining :: real
  zeta_weather :: real
  eta_traffic :: real

text \<open>The weights without overrides from the environment\<close>

definition default_weights :: cost_weights where
  "default_weights = \<lparr>alpha_distance = 1, beta_slope = 2.2, gamma_flood = 3, delta_road = 2.5,
     epsilon_mining = 2, zeta_weather = 1.5, eta_traffic = 1.2\<rparr>"

fun risk_weight :: "cost_weights \<Rightarrow> factor \<Rightarrow> real" where
  "risk_weight w Slope = beta_slope w"
| "risk_weight w Flood = gamma_flood w"
| "risk_weight w Road = delta_road w"
| "risk_weight w Mining = epsilon_mining w"
| "risk_weight w Weather = zeta_weather w"
| "risk_weight w Traffic = eta_traffic w"

definition max_risk_weight_sum :: "cost_weights \<Rightarrow> real" where
  "max_risk_weight_sum w = sum_list (map (risk_weight w) FACTORS)"

record hard_constraints =
  block_restricted_zones :: bool
  block_active_excavation :: bool
  flood_block_threshold :: real
  slope_block_degrees :: real

definition default_constraints :: hard_constraints where
  "default_constraints = \<lparr>block_restricted_zones = True, block_active_excavation = True,
     flood_block_threshold = 0.85, slope_block_degrees = 18\<rparr>"

record vehicle_profile =
  vp_name :: string
  base_speed_kmh :: real
  slope_sensitivity :: real
  flood_sensitivity :: real
  road_sensitivity :: real
  max_grade_degrees :: real
  payload_tonnes :: real

definition haul_truck :: vehicle_profile where
  "haul_truck = \<lparr>vp_name = ''haul_truck'', base_speed_kmh = 28, slope_sensitivity = 1.45,
     flood_sensitivity = 1.3, road_sensitivity = 1.25, max_grade_degrees = 12, payload_tonnes = 55\<rparr>"

definition VEHICLE_PROFILES :: "(string \<times> vehicle_profile) list" where
  "VEHICLE_PROFILES =
     [(''haul_truck'', haul_truck),
      (''articulated_dumper'', \<lparr>vp_name = ''articulated_dumper'', base_speed_kmh = 32,
         slope_sensitivity = 1.15, flood_sensitivity = 0.95, road_sensitivity = 0.9,
         max_grade_degrees = 16, payload_tonnes = 32\<rparr>),
      (''water_tanker'', \<lparr>vp_name = ''water_tanker'', base_speed_kmh = 35, slope_sensitivity = 1.25,
         flood_sensitivity = 1.1, road_sensitivity = 1.1, max_grade_degrees = 14, payload_tonnes = 18\<rparr>),
      (''light_vehicle'', \<lparr>vp_name = ''light_vehicle'', base_speed_kmh = 48, slope_sensitivity = 0.8,
         flood_sensitivity = 1.45, road_sensitivity = 1.35, max_grade_degrees = 20,
         payload_tonnes = 0.5\<rparr>)]"

definition get_vehicle :: "string option \<Rightarrow> vehicle_profile" where
  "get_vehicle name =
     (case map_of VEHICLE_PROFILES (py_lower (str_or name ''haul_truck'')) of
        None \<Rightarrow> haul_truck | Some v \<Rightarrow> v)"

definition RISK_BANDS :: "(real \<times> string \<times> string) list" where
  "RISK_BANDS = [(0, ''Safe'', ''ok''), (21, ''Low Risk'', ''ok2''), (41, ''Moderate'', ''warn''),
     (61, ''High Risk'', ''danger''), (81, ''Critical'', ''critical'')]"

definition risk_band :: "real \<Rightarrow> string \<times> string" where
  "risk_band score =
     fold (\<lambda>(lower, name, tone) acc. if score \<ge> lower then (name, tone) else acc)
       RISK_BANDS (snd (hd RISK_BANDS))"

text \<open>\<open>GridConfig.__post_init__\<close>: cells and radius outside their ranges are replaced.\<close>

record grid_config =
  gc_cells :: int
  gc_radius_km :: real
  gc_diagonal :: bool

definition mk_grid_config :: "int \<Rightarrow> real \<Rightarrow> bool \<Rightarrow> grid_config" where
  "mk_grid_config cells radius diagonal =
     \<lparr>gc_cells = (if 8 \<le> cells \<and> cells \<le> 256 then cells else 64),
      gc_radius_km = (if 0.5 \<le> radius \<and> radius \<le> 60 then radius else 8), gc_diagonal = diagonal\<rparr>"

subsection \<open>Conditions\<close>

definition clip :: "real \<Rightarrow> real \<Rightarrow> real \<Rightarrow> real" where
  "clip lo hi x = max lo (min hi x)"

record conditions =
  rainfall_mm :: real
  road_condition :: real
  traffic_level :: real
  visibility :: real
  wind_speed_kmh :: real
  active_blasting :: bool

text \<open>
  \<open>float(v)\<close> of a payload value: \<open>None\<close> for \<open>TypeError\<close> or \<open>ValueError\<close>; the parser of
  numerals is a parameter, and not-a-number values are outside the model.
\<close>

fun to_float :: "(string \<Rightarrow> real option) \<Rightarrow> pyval \<Rightarrow> real option" where
  "to_float parse (PInt i) = Some (of_int i)"
| "to_float parse (PFloat r) = Some (of_rat r)"
| "to_float parse (PBool b) = Some (if b then 1 else 0)"
| "to_float parse (PStr s) = parse s"
| "to_float parse _ = None"

definition payload_num :: "(string \<Rightarrow> real option) \<Rightarrow> dict \<Rightarrow> string \<Rightarrow> real \<Rightarrow> real \<Rightarrow> real \<Rightarrow> real" where
  "payload_num parse p key dflt lo hi =
     (case map_of p key of
        None \<Rightarrow> clip lo hi dflt
      | Some v \<Rightarrow> (case to_float parse v of None \<Rightarrow> dflt | Some x \<Rightarrow> clip lo hi x))"

definition conditions_from_payload :: "(string \<Rightarrow> real option) \<Rightarrow> dict option \<Rightarrow> conditions" where
  "conditions_from_payload parse payload =
     (let p = (case payload of None \<Rightarrow> [] | Some d \<Rightarrow> d);
          num = payload_num parse p
      in \<lparr>rainfall_mm = (if map_of p ''rainfall'' \<noteq> None then num ''rainfall'' 0 0 500
                         else num ''rainfall_mm'' 0 0 500),
          road_condition = num ''road_condition'' 0.7 0 1, traffic_level = num ''traffic_level'' 0.3 0 1,
          visibility = num ''visibility'' 0.9 0 1, wind_speed_kmh = num ''wind_speed_kmh'' 8 0 200,
          active_blasting = (case map_of p ''active_blasting'' of None \<Rightarrow> False | Some v \<Rightarrow> py_truthy v)\<rparr>)"

definition rainfall_factor :: "conditions \<Rightarrow> real" where
  "rainfall_factor c = 1 - exp (- rainfall_mm c / 45)"

definition weather_severity :: "conditions \<Rightarrow> real" where
  "weather_severity c =
     (let wind = min 1 (wind_speed_kmh c / 80)
      in min 1 (0.55 * rainfall_factor c + 0.25 * (1 - visibility c) + 0.2 * wind))"

subsection \<open>The terrain\<close>

type_synonym layer = "nat \<Rightarrow> nat \<Rightarrow> real"

record terrain =
  tg_mine_id :: string
  tg_lat :: real
  tg_lon :: real
  tg_n :: nat
  tg_radius_km :: real
  tg_lat_min :: real
  tg_lat_max :: real
  tg_lon_min :: real
  tg_lon_max :: real
  tg_elevation_m :: layer
  tg_slope_deg :: layer
  tg_road_quality :: layer
  tg_flood_base :: layer
  tg_landslide :: layer
  tg_mining_activity :: layer
  tg_traffic_base :: layer
  tg_restricted :: "nat \<Rightarrow> nat \<Rightarrow> bool"
  tg_excavation :: "nat \<Rightarrow> nat \<Rightarrow> bool"

definition EARTH_RADIUS_KM :: real where
  "EARTH_RADIUS_KM = 6371.0088"

definition radians :: "real \<Rightarrow> real" where
  "radians x = x * pi / 180"

definition haversine_km :: "real \<Rightarrow> real \<Rightarrow> real \<Rightarrow> real \<Rightarrow> real" where
  "haversine_km lat1 lon1 lat2 lon2 =
     (let p1 = radians lat1; p2 = radians lat2; dp = p2 - p1; dl = radians (lon2 - lon1);
          a = (sin (dp / 2))\<^sup>2 + cos p1 * cos p2 * (sin (dl / 2))\<^sup>2
      in 2 * EARTH_RADIUS_KM * arcsin (sqrt a))"

definition cell_center :: "terrain \<Rightarrow> nat \<times> nat \<Rightarrow> real \<times> real" where
  "cell_center g = (\<lambda>(row, col).
     (tg_lat_max g - (real row + 0.5) * (tg_lat_max g - tg_lat_min g) / real (tg_n g),
      tg_lon_min g + (real col + 0.5) * (tg_lon_max g - tg_lon_min g) / real (tg_n g)))"

text \<open>\<open>int(x)\<close> truncates towards zero.\<close>

definition py_trunc :: "real \<Rightarrow> int" where
  "py_trunc x = (if x < 0 then \<lceil>x\<rceil> else \<lfloor>x\<rfloor>)"

definition to_cell :: "terrain \<Rightarrow> real \<Rightarrow> real \<Rightarrow> nat \<times> nat" where
  "to_cell g lat lon =
     (let row = py_trunc ((tg_lat_max g - lat) / (tg_lat_max g - tg_lat_min g) * real (tg_n g));
          col = py_trunc ((lon - tg_lon_min g) / (tg_lon_max g - tg_lon_min g) * real (tg_n g));
          n = int (tg_n g)
      in (nat (max 0 (min (n - 1) row)), nat (max 0 (min (n - 1) col))))"

definition terrain_contains :: "terrain \<Rightarrow> real \<Rightarrow> real \<Rightarrow> bool" where
  "terrain_contains g lat lon \<longleftrightarrow>
     tg_lat_min g \<le> lat \<and> lat \<le> tg_lat_max g \<and> tg_lon_min g \<le> lon \<and> lon \<le> tg_lon_max g"

definition cell_size_km :: "terrain \<Rightarrow> real" where
  "cell_size_km g = 2 * tg_radius_km g / real (tg_n g)"

text \<open>The bounds that \<open>_build_grid\<close> gives a grid\<close>

definition grid_bounds :: "real \<Rightarrow> real \<Rightarrow> real \<Rightarrow> real \<times> real \<times> real \<times> real" where
  "grid_bounds lat lon radius_km =
     (let dlat = radius_km / 111.32; dlon = radius_km / (111.32 * max 0.2 (cos (radians lat)))
      in (lat - dlat, lat + dlat, lon - dlon, lon + dlon))"

definition flood_risk :: "terrain \<Rightarrow> conditions \<Rightarrow> layer" where
  "flood_risk g c = (\<lambda>i j. clip 0 1 (tg_flood_base g i j * (0.18 + 0.92 * rainfall_factor c)))"

definition traffic_risk :: "terrain \<Rightarrow> conditions \<Rightarrow> layer" where
  "traffic_risk g c = (\<lambda>i j. clip 0 1 (tg_traffic_base g i j * (0.35 + 1.15 * traffic_level c)))"

definition road_risk :: "terrain \<Rightarrow> conditions \<Rightarrow> layer" where
  "road_risk g c = (\<lambda>i j.
     (let base = 1 - tg_road_quality g i j; reported = 1 - road_condition c;
          combined = 0.6 * base + 0.4 * reported
      in clip 0 1 (combined * (1 + 0.55 * rainfall_factor c * combined))))"

definition slope_risk :: "terrain \<Rightarrow> layer" where
  "slope_risk g = (\<lambda>i j. clip 0 1 (tg_slope_deg g i j / 20))"

definition mining_risk :: "terrain \<Rightarrow> conditions \<Rightarrow> layer" where
  "mining_risk g c =
     (if active_blasting c then (\<lambda>i j. clip 0 1 (tg_mining_activity g i j * 1.6)) else tg_mining_activity g)"

definition blocked_mask ::
  "terrain \<Rightarrow> conditions \<Rightarrow> hard_constraints \<Rightarrow> vehicle_profile \<Rightarrow> nat \<Rightarrow> nat \<Rightarrow> bool" where
  "blocked_mask g c k v i j \<longleftrightarrow>
     block_restricted_zones k \<and> tg_restricted g i j
     \<or> block_active_excavation k \<and> tg_excavation g i j
     \<or> flood_risk g c i j \<ge> flood_block_threshold k
     \<or> tg_slope_deg g i j > min (slope_block_degrees k) (max_grade_degrees v)"

subsection \<open>The cost surface\<close>

record cost_surface =
  cu_grid :: terrain
  cu_weights :: cost_weights
  cu_vehicle :: vehicle_profile
  cu_conditions :: conditions
  cu_factor :: "factor \<Rightarrow> layer"
  cu_blocked :: "nat \<Rightarrow> nat \<Rightarrow> bool"
  cu_cost_per_km :: layer
  cu_risk_0_100 :: layer

definition grid_cells :: "nat \<Rightarrow> (nat \<times> nat) list" where
  "grid_cells n = List.product [0..<n] [0..<n]"

text \<open>\<open>_unit\<close>: a layer scaled to 0..1; the array is not empty.\<close>

definition unit_layer :: "nat \<Rightarrow> layer \<Rightarrow> layer" where
  "unit_layer n a =
     (let vs = map (\<lambda>(i, j). a i j) (grid_cells n); lo = Min (set vs); hi = Max (set vs)
      in if hi > lo then (\<lambda>i j. (a i j - lo) / (hi - lo)) else (\<lambda>i j. 0))"

definition cost_factor :: "terrain \<Rightarrow> vehicle_profile \<Rightarrow> conditions \<Rightarrow> factor \<Rightarrow> layer" where
  "cost_factor g v c f = (\<lambda>i j.
     (let road = road_risk g c i j * road_sensitivity v;
          exposure = 0.5 + 0.5 * unit_layer (tg_n g) (tg_elevation_m g) i j
      in clip 0 1
           (case f of
              Slope \<Rightarrow> slope_risk g i j * slope_sensitivity v
            | Flood \<Rightarrow> flood_risk g c i j * flood_sensitivity v
            | Road \<Rightarrow> road
            | Mining \<Rightarrow> mining_risk g c i j
            | Weather \<Rightarrow> clip 0 1 (weather_severity c * exposure * (1 + 0.3 * road))
            | Traffic \<Rightarrow> traffic_risk g c i j)))"

definition weighted_risk :: "cost_weights \<Rightarrow> (factor \<Rightarrow> real) \<Rightarrow> real" where
  "weighted_risk w v = sum_list (map (\<lambda>f. risk_weight w f * v f) FACTORS)"

definition build_cost_surface ::
  "terrain \<Rightarrow> cost_weights \<Rightarrow> hard_constraints \<Rightarrow> vehicle_profile \<Rightarrow> conditions \<Rightarrow> cost_surface" where
  "build_cost_surface g w k v c =
     (let risk = (\<lambda>i j. weighted_risk w (\<lambda>f. cost_factor g v c f i j))
      in \<lparr>cu_grid = g, cu_weights = w, cu_vehicle = v, cu_conditions = c, cu_factor = cost_factor g v c,
          cu_blocked = blocked_mask g c k v, cu_cost_per_km = (\<lambda>i j. alpha_distance w + risk i j),
          cu_risk_0_100 = (\<lambda>i j. clip 0 100 (100 * risk i j / max (1 / 10 ^ 9) (max_risk_weight_sum w)))\<rparr>)"

definition factor_vector :: "cost_surface \<Rightarrow> nat \<Rightarrow> nat \<Rightarrow> (factor \<times> real) list" where
  "factor_vector s row col = map (\<lambda>f. (f, cu_factor s f row col)) FACTORS"

definition dominant_factor :: "cost_surface \<Rightarrow> nat \<Rightarrow> nat \<Rightarrow> factor option" where
  "dominant_factor s row col =
     py_max (\<lambda>f. risk_weight (cu_weights s) f * cu_factor s f row col) FACTORS"

definition speed_kmh :: "cost_surface \<Rightarrow> nat \<times> nat \<Rightarrow> real" where
  "speed_kmh s = (\<lambda>(row, col).
     max 3 (base_speed_kmh (cu_vehicle s)
       * (1 - 0.55 * cu_factor s Slope row col) * (1 - 0.45 * cu_factor s Road row col)
       * (1 - 0.5 * cu_factor s Traffic row col) * (1 - 0.4 * cu_factor s Flood row col)
       * (1 - 0.25 * cu_factor s Weather row col)))"

definition min_cost_per_km :: "cost_surface \<Rightarrow> real" where
  "min_cost_per_km s =
     (let cs = map (\<lambda>(i, j). cu_cost_per_km s i j)
            (filter (\<lambda>(i, j). \<not> cu_blocked s i j) (grid_cells (tg_n (cu_grid s))));
          a = alpha_distance (cu_weights s)
      in if cs = [] then a else max a (Min (set cs)))"

subsection \<open>What the surface guarantees\<close>

lemma clip_bounds: "lo \<le> hi \<Longrightarrow> lo \<le> clip lo hi x \<and> clip lo hi x \<le> hi"
  by (simp add: clip_def)

lemma cost_factor_bounds: "0 \<le> cost_factor g v c f i j \<and> cost_factor g v c f i j \<le> 1"
  unfolding cost_factor_def Let_def by (rule clip_bounds) simp

definition weights_nonneg :: "cost_weights \<Rightarrow> bool" where
  "weights_nonneg w \<longleftrightarrow> 0 \<le> alpha_distance w \<and> list_all (\<lambda>f. 0 \<le> risk_weight w f) FACTORS"

lemma risk_weight_nonneg: "weights_nonneg w \<Longrightarrow> 0 \<le> risk_weight w f"
  by (cases f) (simp_all add: weights_nonneg_def FACTORS_def)

lemma weighted_risk_bounds:
  assumes "weights_nonneg w" "\<And>f. 0 \<le> v f \<and> v f \<le> 1"
  shows "0 \<le> weighted_risk w v" "weighted_risk w v \<le> max_risk_weight_sum w"
proof -
  have "risk_weight w f * v f \<le> risk_weight w f * 1" for f
    by (rule mult_left_mono) (use assms risk_weight_nonneg in auto)
  then show "weighted_risk w v \<le> max_risk_weight_sum w"
    unfolding weighted_risk_def max_risk_weight_sum_def by (intro sum_list_mono) simp
  show "0 \<le> weighted_risk w v"
    unfolding weighted_risk_def by (rule sum_list_nonneg) (use assms risk_weight_nonneg in auto)
qed

lemma grid_cells_mem [simp]: "(i, j) \<in> set (grid_cells n) \<longleftrightarrow> i < n \<and> j < n"
  by (auto simp: grid_cells_def)

lemma min_cost_le:
  assumes "i < tg_n (cu_grid s)" "j < tg_n (cu_grid s)" "\<not> cu_blocked s i j"
    and "alpha_distance (cu_weights s) \<le> cu_cost_per_km s i j"
  shows "min_cost_per_km s \<le> cu_cost_per_km s i j"
proof -
  let ?C = "set (map (\<lambda>(i, j). cu_cost_per_km s i j)
      (filter (\<lambda>(i, j). \<not> cu_blocked s i j) (grid_cells (tg_n (cu_grid s)))))"
  have m: "cu_cost_per_km s i j \<in> ?C"
    using assms(1-3) by (auto intro!: image_eqI [where x = "(i, j)"])
  then have "Min ?C \<le> cu_cost_per_km s i j" by (intro Min_le) simp_all
  with m assms(4) show ?thesis unfolding min_cost_per_km_def Let_def by auto
qed

text \<open>
  C32: A cost surface is well formed for every terrain, weather and vehicle, with weights that
  are not negative: each factor lies in 0..1 and each risk in 0..100, a traversable kilometre
  costs at least the distance weight and at most that plus all risk weights, the speed used
  for travel times is never below 3 km/h, and the rate that scales the heuristic is at least
  the distance weight and at most the cost of any traversable cell.
\<close>

theorem surface_well_formed:
  assumes w: "weights_nonneg w"
  shows "let s = build_cost_surface g w k v c in 0 \<le> cu_factor s f i j \<and> cu_factor s f i j \<le> 1
    \<and> 0 \<le> cu_risk_0_100 s i j \<and> cu_risk_0_100 s i j \<le> 100
    \<and> alpha_distance w \<le> cu_cost_per_km s i j
    \<and> cu_cost_per_km s i j \<le> alpha_distance w + max_risk_weight_sum w
    \<and> 3 \<le> speed_kmh s (i, j) \<and> alpha_distance w \<le> min_cost_per_km s
    \<and> (if i < tg_n g \<and> j < tg_n g \<and> \<not> blocked_mask g c k v i j
       then min_cost_per_km s \<le> cu_cost_per_km s i j else True)"
proof -
  define s where "s = build_cost_surface g w k v c"
  have b: "0 \<le> weighted_risk w (\<lambda>f. cost_factor g v c f i j)"
    "weighted_risk w (\<lambda>f. cost_factor g v c f i j) \<le> max_risk_weight_sum w"
    by (rule weighted_risk_bounds [OF w]; rule cost_factor_bounds)+
  have "min_cost_per_km s \<le> cu_cost_per_km s i j"
    if "i < tg_n g" "j < tg_n g" "\<not> blocked_mask g c k v i j"
    by (rule min_cost_le) (use that b in \<open>simp_all add: s_def build_cost_surface_def Let_def\<close>)
  moreover have "alpha_distance w \<le> min_cost_per_km s"
    by (simp add: min_cost_per_km_def Let_def s_def build_cost_surface_def)
  moreover have "3 \<le> speed_kmh s (i, j)" by (simp add: speed_kmh_def)
  ultimately show ?thesis
    using b cost_factor_bounds [of g v c f i j] clip_bounds [of 0 100]
    by (simp add: s_def build_cost_surface_def Let_def)
qed

text \<open>Flat and dry ground of two by two cells, one of them restricted\<close>

definition demo_terrain :: terrain where
  "demo_terrain =
     \<lparr>tg_mine_id = ''m'', tg_lat = 0, tg_lon = 0, tg_n = 2, tg_radius_km = 1, tg_lat_min = - 1 / 250,
      tg_lat_max = 1 / 250, tg_lon_min = - 1 / 250, tg_lon_max = 1 / 250, tg_elevation_m = (\<lambda>_ _. 0), tg_slope_deg = (\<lambda>_ _. 0),
      tg_road_quality = (\<lambda>_ _. 1), tg_flood_base = (\<lambda>_ _. 0), tg_landslide = (\<lambda>_ _. 0),
      tg_mining_activity = (\<lambda>_ _. 0), tg_traffic_base = (\<lambda>_ _. 0),
      tg_restricted = (\<lambda>i j. i = 0 \<and> j = 1), tg_excavation = (\<lambda>_ _. False)\<rparr>"

definition demo_conditions :: conditions where
  "demo_conditions = conditions_from_payload (\<lambda>_. None) None"

definition demo_surface :: cost_surface where
  "demo_surface = build_cost_surface demo_terrain default_weights default_constraints haul_truck demo_conditions"

lemma default_weights_nonneg: "weights_nonneg default_weights"
  by (simp add: weights_nonneg_def FACTORS_def default_weights_def)

theorem surface_well_formed_witness:
  "alpha_distance default_weights \<le> min_cost_per_km demo_surface
   \<and> alpha_distance default_weights \<le> cu_cost_per_km demo_surface 0 0"
  using surface_well_formed [OF default_weights_nonneg, of demo_terrain default_constraints haul_truck demo_conditions _ 0 0]
  unfolding demo_surface_def Let_def by blast

end
