(* ===== verification/Sphere.thy ===== *)
theory Sphere
  imports Terrain
begin

text \<open>
  Great-circle geometry: \<open>haversine_km\<close> (\<open>app/api/core/routing/terrain.py\<close>) is the angle between
  two points of the sphere times its radius, and so a metric. The search rests on its triangle
  inequality.
\<close>

subsection \<open>Angles between unit vectors\<close>

definition dot :: "real \<times> real \<times> real \<Rightarrow> real \<times> real \<times> real \<Rightarrow> real" where
  "dot = (\<lambda>(x1, x2, x3) (y1, y2, y3). x1 * y1 + x2 * y2 + x3 * y3)"

definition det3 :: "real \<times> real \<times> real \<Rightarrow> real \<times> real \<times> real \<Rightarrow> real \<times> real \<times> real \<Rightarrow> real" where
  "det3 = (\<lambda>(x1, x2, x3) (y1, y2, y3) (z1, z2, z3).
     x1 * (y2 * z3 - y3 * z2) - x2 * (y1 * z3 - y3 * z1) + x3 * (y1 * z2 - y2 * z1))"

text \<open>The Gram determinant of three vectors is a square.\<close>

lemma gram:
  "dot x x * dot y y * dot z z + 2 * dot x y * dot y z * dot x z
     - dot x x * (dot y z)\<^sup>2 - dot y y * (dot x z)\<^sup>2 - dot z z * (dot x y)\<^sup>2 = (det3 x y z)\<^sup>2"
  by (cases x; cases y; cases z) (simp add: dot_def det3_def power2_eq_square algebra_simps)

lemma cauchy: "(dot x y)\<^sup>2 \<le> dot x x * dot y y"
proof -
  obtain x1 x2 x3 y1 y2 y3 where [simp]: "x = (x1, x2, x3)" "y = (y1, y2, y3)" by (cases x; cases y)
  have "dot x x * dot y y - (dot x y)\<^sup>2
      = (x1 * y2 - x2 * y1)\<^sup>2 + (x1 * y3 - x3 * y1)\<^sup>2 + (x2 * y3 - x3 * y2)\<^sup>2"
    by (simp add: dot_def power2_eq_square algebra_simps)
  also have "\<dots> \<ge> 0" by simp
  finally show ?thesis by simp
qed

lemma unit_dot_bounds:
  assumes "dot x x = 1" "dot y y = 1"
  shows "- 1 \<le> dot x y" "dot x y \<le> 1"
proof -
  have "(dot x y)\<^sup>2 \<le> 1" using cauchy [of x y] assms by simp
  then have "\<bar>dot x y\<bar> \<le> 1" by (simp add: abs_square_le_1)
  then show "- 1 \<le> dot x y" "dot x y \<le> 1" by simp_all
qed

lemma angle_triangle:
  assumes u: "dot x x = 1" "dot y y = 1" "dot z z = 1"
  shows "arccos (dot x z) \<le> arccos (dot x y) + arccos (dot y z)"
proof -
  let ?a = "dot x y" and ?b = "dot y z" and ?c = "dot x z"
  let ?s = "arccos ?a + arccos ?b"
  note bounds = unit_dot_bounds [OF u(1,2)] unit_dot_bounds [OF u(2,3)] unit_dot_bounds [OF u(1,3)]
  have sq: "?a\<^sup>2 \<le> 1" "?b\<^sup>2 \<le> 1" using cauchy [of x y] cauchy [of y z] u by simp_all
  have "0 \<le> (det3 x y z)\<^sup>2" by simp
  then have "(?a * ?b - ?c)\<^sup>2 \<le> (1 - ?a\<^sup>2) * (1 - ?b\<^sup>2)"
    using gram [of x y z] u by (simp add: power2_eq_square algebra_simps)
  then have "\<bar>?a * ?b - ?c\<bar> \<le> sqrt ((1 - ?a\<^sup>2) * (1 - ?b\<^sup>2))"
    by (metis real_sqrt_abs real_sqrt_le_iff)
  then have "?a * ?b - sqrt (1 - ?a\<^sup>2) * sqrt (1 - ?b\<^sup>2) \<le> ?c" by (simp add: real_sqrt_mult)
  moreover have "cos ?s = ?a * ?b - sqrt (1 - ?a\<^sup>2) * sqrt (1 - ?b\<^sup>2)"
    using bounds by (simp add: cos_add cos_arccos sin_arccos)
  ultimately have c: "cos ?s \<le> ?c" by simp
  have pos: "0 \<le> ?s" using bounds arccos_lbound by (simp add: add_nonneg_nonneg)
  show ?thesis
  proof (cases "?s \<le> pi")
    case True
    have "arccos ?c \<le> arccos (cos ?s)" using c bounds by (intro arccos_le_arccos) simp_all
    also have "\<dots> = ?s" using pos True by (rule arccos_cos)
    finally show ?thesis .
  next
    case False
    then show ?thesis using arccos_ubound [of ?c] bounds by simp
  qed
qed

subsection \<open>Points of the sphere\<close>

definition point :: "real \<Rightarrow> real \<Rightarrow> real \<times> real \<times> real" where
  "point lat lon = (cos (radians lat) * cos (radians lon), cos (radians lat) * sin (radians lon), sin (radians lat))"

lemma point_unit [simp]: "dot (point lat lon) (point lat lon) = 1"
proof -
  have "dot (point lat lon) (point lat lon)
      = (cos (radians lat))\<^sup>2 * ((cos (radians lon))\<^sup>2 + (sin (radians lon))\<^sup>2) + (sin (radians lat))\<^sup>2"
    by (simp only: dot_def point_def prod.case power2_eq_square algebra_simps)
  then show ?thesis by simp
qed

text \<open>The quantity under the root in the formula\<close>

definition hav :: "real \<Rightarrow> real \<Rightarrow> real \<Rightarrow> real \<Rightarrow> real" where
  "hav lat1 lon1 lat2 lon2 =
     (sin ((radians lat2 - radians lat1) / 2))\<^sup>2
       + cos (radians lat1) * cos (radians lat2) * (sin (radians (lon2 - lon1) / 2))\<^sup>2"

lemma half_angle: "2 * (sin (x / 2))\<^sup>2 = 1 - cos (x :: real)"
  using cos_double_sin [of "x / 2"] by simp

lemma hav_dot: "dot (point lat1 lon1) (point lat2 lon2) = 1 - 2 * hav lat1 lon1 lat2 lon2"
proof -
  let ?p = "radians lat1" and ?q = "radians lat2" and ?l = "radians lon1" and ?m = "radians lon2"
  have r: "radians (lon2 - lon1) = ?m - ?l" by (simp add: radians_def diff_divide_distrib left_diff_distrib)
  have "2 * hav lat1 lon1 lat2 lon2 = (1 - cos (?q - ?p)) + cos ?p * cos ?q * (1 - cos (?m - ?l))"
    unfolding half_angle [symmetric] hav_def r by (simp add: distrib_left)
  then show ?thesis by (simp add: dot_def point_def cos_diff algebra_simps)
qed

lemma hav_bounds: "0 \<le> hav lat1 lon1 lat2 lon2" "hav lat1 lon1 lat2 lon2 \<le> 1"
  using unit_dot_bounds [of "point lat1 lon1" "point lat2 lon2"] by (simp_all add: hav_dot)

lemma haversine_angle:
  "haversine_km lat1 lon1 lat2 lon2 = EARTH_RADIUS_KM * arccos (dot (point lat1 lon1) (point lat2 lon2))"
proof -
  let ?a = "hav lat1 lon1 lat2 lon2"
  have s: "0 \<le> sqrt ?a" "sqrt ?a \<le> 1" using hav_bounds [of lat1 lon1 lat2 lon2] by simp_all
  have "sin (arcsin (sqrt ?a)) = sqrt ?a" using s by (intro sin_arcsin) linarith+
  then have "cos (2 * arcsin (sqrt ?a)) = 1 - 2 * ?a"
    using hav_bounds [of lat1 lon1 lat2 lon2] by (simp add: cos_double_sin)
  then have "arccos (1 - 2 * ?a) = arccos (cos (2 * arcsin (sqrt ?a)))" by simp
  also have "\<dots> = 2 * arcsin (sqrt ?a)"
  proof (rule arccos_cos)
    have "arcsin 0 \<le> arcsin (sqrt ?a)" using s by (intro arcsin_le_arcsin) simp_all
    then show "0 \<le> 2 * arcsin (sqrt ?a)" by simp
    show "2 * arcsin (sqrt ?a) \<le> pi" using arcsin_ubound [of "sqrt ?a"] s by simp
  qed
  finally show ?thesis by (simp add: haversine_km_def Let_def hav_dot hav_def)
qed

lemma haversine_nonneg: "0 \<le> haversine_km lat1 lon1 lat2 lon2"
  unfolding haversine_angle EARTH_RADIUS_KM_def
  using arccos_lbound unit_dot_bounds by (intro mult_nonneg_nonneg) simp_all

lemma haversine_self [simp]: "haversine_km lat lon lat lon = 0"
  by (simp add: haversine_angle)

lemma haversine_commute: "haversine_km lat1 lon1 lat2 lon2 = haversine_km lat2 lon2 lat1 lon1"
  by (simp add: haversine_angle dot_def point_def mult.commute)

lemma haversine_triangle:
  "haversine_km lat1 lon1 lat3 lon3 \<le> haversine_km lat1 lon1 lat2 lon2 + haversine_km lat2 lon2 lat3 lon3"
proof -
  have "arccos (dot (point lat1 lon1) (point lat3 lon3))
      \<le> arccos (dot (point lat1 lon1) (point lat2 lon2)) + arccos (dot (point lat2 lon2) (point lat3 lon3))"
    by (rule angle_triangle) simp_all
  then have "EARTH_RADIUS_KM * arccos (dot (point lat1 lon1) (point lat3 lon3))
      \<le> EARTH_RADIUS_KM * (arccos (dot (point lat1 lon1) (point lat2 lon2))
          + arccos (dot (point lat2 lon2) (point lat3 lon3)))"
    by (rule mult_left_mono) (simp add: EARTH_RADIUS_KM_def)
  then show ?thesis unfolding haversine_angle by (simp add: distrib_left)
qed

text \<open>The distance is at most the way along a meridian and then along a parallel.\<close>

lemma arccos_cos_le: "arccos (cos x) \<le> \<bar>x\<bar>"
proof (cases "\<bar>x\<bar> \<le> pi")
  case True
  then have "arccos (cos \<bar>x\<bar>) = \<bar>x\<bar>" by (intro arccos_cos) simp_all
  then show ?thesis by simp
next
  case False
  then show ?thesis using arccos_ubound [of "cos x"] by simp
qed

lemma haversine_meridian: "haversine_km lat1 lon lat2 lon \<le> EARTH_RADIUS_KM * \<bar>radians lat1 - radians lat2\<bar>"
proof -
  let ?p = "radians lat1" and ?q = "radians lat2" and ?l = "radians lon"
  have "dot (point lat1 lon) (point lat2 lon) = cos ?p * cos ?q * ((cos ?l)\<^sup>2 + (sin ?l)\<^sup>2) + sin ?p * sin ?q"
    by (simp only: dot_def point_def prod.case power2_eq_square algebra_simps)
  then have "dot (point lat1 lon) (point lat2 lon) = cos (?p - ?q)" by (simp add: cos_diff)
  then show ?thesis
    unfolding haversine_angle EARTH_RADIUS_KM_def using arccos_cos_le [of "?p - ?q"] by simp
qed

lemma haversine_parallel: "haversine_km lat lon1 lat lon2 \<le> EARTH_RADIUS_KM * \<bar>radians lon1 - radians lon2\<bar>"
proof -
  let ?p = "radians lat" and ?d = "radians lon1 - radians lon2"
  have "dot (point lat lon1) (point lat lon2) = (cos ?p)\<^sup>2 * cos ?d + (sin ?p)\<^sup>2"
    unfolding cos_diff by (simp only: dot_def point_def prod.case power2_eq_square algebra_simps)
  also have "\<dots> = cos ?d + (sin ?p)\<^sup>2 * (1 - cos ?d)"
    unfolding cos_squared_eq by (simp add: algebra_simps)
  finally have "cos ?d \<le> dot (point lat lon1) (point lat lon2)" by simp
  then have "arccos (dot (point lat lon1) (point lat lon2)) \<le> arccos (cos ?d)"
    using unit_dot_bounds [of "point lat lon1" "point lat lon2"] by (intro arccos_le_arccos) simp_all
  also have "\<dots> \<le> \<bar>?d\<bar>" by (rule arccos_cos_le)
  finally show ?thesis unfolding haversine_angle EARTH_RADIUS_KM_def by simp
qed

lemma haversine_corner:
  "haversine_km lat1 lon1 lat2 lon2
     \<le> EARTH_RADIUS_KM * (\<bar>radians lat1 - radians lat2\<bar> + \<bar>radians lon1 - radians lon2\<bar>)"
  using haversine_triangle [of lat1 lon1 lat2 lon2 lat2 lon1] haversine_meridian [of lat1 lon1 lat2]
    haversine_parallel [of lat2 lon1 lon2] by (simp add: distrib_left)

end
