(* ===== verification/AStar.thy ===== *)
theory AStar
  imports Sphere "HOL-Library.Product_Lexorder"
begin

text \<open>
  The route search (\<open>app/api/core/routing/astar.py\<close>). A cell's index is its row times the grid
  width plus its column; the heap of (estimate, index) pairs is a sorted list, in Python's order
  of tuples; the array \<open>g_score\<close> is a map, infinite where it has no entry.
\<close>

subsection \<open>Moves\<close>

type_synonym cell = "nat \<times> nat"
type_synonym offset = "int \<times> int \<times> real"

definition NEIGHBOURS_8 :: "offset list" where
  "NEIGHBOURS_8 =
     [(-1, 0, 1), (1, 0, 1), (0, -1, 1), (0, 1, 1), (-1, -1, sqrt 2), (-1, 1, sqrt 2), (1, -1, sqrt 2),
      (1, 1, sqrt 2)]"

definition NEIGHBOURS_4 :: "offset list" where
  "NEIGHBOURS_4 = take 4 NEIGHBOURS_8"

definition neighbours :: "bool \<Rightarrow> offset list" where
  "neighbours diagonal = (if diagonal then NEIGHBOURS_8 else NEIGHBOURS_4)"

definition cell_index :: "nat \<Rightarrow> cell \<Rightarrow> nat" where
  "cell_index n = (\<lambda>(r, c). r * n + c)"

definition cell_of :: "nat \<Rightarrow> nat \<Rightarrow> cell" where
  "cell_of n i = (i div n, i mod n)"

definition grid_n :: "cost_surface \<Rightarrow> nat" where
  "grid_n su = tg_n (cu_grid su)"

definition is_blocked :: "cost_surface \<Rightarrow> cell \<Rightarrow> bool" where
  "is_blocked su = (\<lambda>(r, c). cu_blocked su r c)"

definition cell_rate :: "cost_surface \<Rightarrow> cell \<Rightarrow> real" where
  "cell_rate su = (\<lambda>(r, c). cu_cost_per_km su r c)"

text \<open>The cost of one edge: the mean rate of its cells over its length, and the penalty.\<close>

definition step_cost :: "cost_surface \<Rightarrow> layer option \<Rightarrow> cell \<Rightarrow> cell \<Rightarrow> real \<Rightarrow> real" where
  "step_cost su penalty a b mult =
     (let edge_km = cell_size_km (cu_grid su) * mult;
          rate_edge = 0.5 * (cell_rate su a + cell_rate su b)
      in rate_edge * edge_km + (case penalty of None \<Rightarrow> 0 | Some p \<Rightarrow> p (fst b) (snd b) * edge_km))"

text \<open>The cell an offset leads to, when it is on the grid and not blocked, with its cost\<close>

definition move :: "cost_surface \<Rightarrow> layer option \<Rightarrow> cell \<Rightarrow> offset \<Rightarrow> (cell \<times> real) option" where
  "move su penalty a off =
     (case off of (dy, dx, mult) \<Rightarrow>
        (let nr = int (fst a) + dy; nc = int (snd a) + dx; n = int (grid_n su); b = (nat nr, nat nc)
         in if 0 \<le> nr \<and> nr < n \<and> 0 \<le> nc \<and> nc < n \<and> \<not> is_blocked su b
            then Some (b, step_cost su penalty a b mult) else None))"

definition heuristic :: "cost_surface \<Rightarrow> cell \<Rightarrow> cell \<Rightarrow> real" where
  "heuristic su goal c =
     (let (goal_lat, goal_lon) = cell_center (cu_grid su) goal; (lat, lon) = cell_center (cu_grid su) c
      in haversine_km lat lon goal_lat goal_lon * min_cost_per_km su)"

subsection \<open>The search\<close>

record search =
  sr_g :: "nat \<Rightarrow> real option"
  sr_came :: "nat \<Rightarrow> nat option"
  sr_closed :: "nat set"
  sr_heap :: "(real \<times> nat) list"
  sr_expanded :: nat

text \<open>A \<open>NoRouteError\<close> with its message and reason, or another exception\<close>

datatype route_error = No_Route string string | Raised exn

definition relax :: "(cell \<Rightarrow> (cell \<times> real) option) \<Rightarrow> nat \<Rightarrow> (cell \<Rightarrow> real) \<Rightarrow> nat \<Rightarrow> search \<Rightarrow> search" where
  "relax mv n h current s =
     (case mv (cell_of n current) of
        None \<Rightarrow> s
      | Some (b, step) \<Rightarrow>
          (let neighbour = cell_index n b in
           if neighbour \<in> sr_closed s then s
           else
             (case sr_g s current of
                None \<Rightarrow> s
              | Some d \<Rightarrow>
                  (let tentative = d + step in
                   if (case sr_g s neighbour of None \<Rightarrow> True | Some d' \<Rightarrow> tentative < d')
                   then s\<lparr>sr_g := (sr_g s)(neighbour \<mapsto> tentative),
                          sr_came := (sr_came s)(neighbour \<mapsto> current),
                          sr_heap := insort (tentative + h b, neighbour) (sr_heap s)\<rparr>
                   else s))))"

lemma relax_heap: "length (sr_heap (relax mv n h u s)) \<le> Suc (length (sr_heap s))"
  by (simp add: relax_def Let_def split: option.split)

lemma relax_closed [simp]:
  "sr_closed (relax mv n h u s) = sr_closed s" "sr_expanded (relax mv n h u s) = sr_expanded s"
  by (simp_all add: relax_def Let_def split: option.split)

definition relax_all ::
  "cost_surface \<Rightarrow> layer option \<Rightarrow> offset list \<Rightarrow> (cell \<Rightarrow> real) \<Rightarrow> nat \<Rightarrow> search \<Rightarrow> search" where
  "relax_all su penalty offs h current s =
     fold (\<lambda>off. relax (\<lambda>a. move su penalty a off) (grid_n su) h current) offs s"

lemma relax_all_closed [simp]:
  "sr_closed (relax_all su penalty offs h u s) = sr_closed s"
  "sr_expanded (relax_all su penalty offs h u s) = sr_expanded s"
  unfolding relax_all_def by (induction offs arbitrary: s) simp_all

lemma relax_all_heap: "length (sr_heap (relax_all su penalty offs h u s)) \<le> length (sr_heap s) + length offs"
proof (induction offs arbitrary: s)
  case (Cons off offs)
  let ?s = "relax (\<lambda>a. move su penalty a off) (grid_n su) h u s"
  have "length (sr_heap (relax_all su penalty offs h u ?s)) \<le> length (sr_heap ?s) + length offs"
    by (rule Cons.IH)
  with relax_heap [of "\<lambda>a. move su penalty a off" "grid_n su" h u s] show ?case by (simp add: relax_all_def)
qed (simp add: relax_all_def)

lemma card_open_less:
  assumes "u < N" "u \<notin> C"
  shows "card ({..<N} - insert u C) < card ({..<N} - (C :: nat set))"
  by (rule psubset_card_mono) (use assms in auto)

text \<open>
  The loop. An index outside of the arrays raises; the result is the search state at the goal.
  Each round closes a cell or shortens the heap.
\<close>

definition unreachable :: route_error where
  "unreachable = No_Route (''No traversable route exists between these points under the current ''
     @ ''conditions. Blocked zones may completely separate them.'') ''unreachable''"

function search_loop ::
  "cost_surface \<Rightarrow> layer option \<Rightarrow> offset list \<Rightarrow> (cell \<Rightarrow> real) \<Rightarrow> nat \<Rightarrow> search \<Rightarrow> route_error + search" where
  "search_loop su penalty offs h goal s =
     (case sr_heap s of
        [] \<Rightarrow> Inl unreachable
      | (_, current) # rest \<Rightarrow>
          (if current \<ge> grid_n su * grid_n su then Inl (Raised (Exn ''IndexError'' ''index out of bounds''))
           else if current \<in> sr_closed s then search_loop su penalty offs h goal (s\<lparr>sr_heap := rest\<rparr>)
           else
             (let s1 = s\<lparr>sr_heap := rest, sr_closed := insert current (sr_closed s),
                         sr_expanded := sr_expanded s + 1\<rparr>
              in if current = goal then Inr s1
                 else search_loop su penalty offs h goal (relax_all su penalty offs h current s1))))"
  by pat_completeness auto

termination
proof (relation "measure (\<lambda>(su, penalty, offs, h, goal, s).
    Suc (length offs) * card ({..<grid_n su * grid_n su} - sr_closed s) + length (sr_heap s))", goal_cases)
  case 1
  show ?case by simp
next
  case (2 su penalty offs h goal s p rest f u)
  then show ?case by simp
next
  case (3 su penalty offs h goal s p rest f current s1)
  let ?N = "grid_n su * grid_n su"
  have "card ({..<?N} - insert current (sr_closed s)) < card ({..<?N} - sr_closed s)"
    by (rule card_open_less) (use 3 in auto)
  then have "Suc (length offs) * card ({..<?N} - insert current (sr_closed s)) + Suc (length offs)
      \<le> Suc (length offs) * card ({..<?N} - sr_closed s)"
    by (metis Suc_leI add.commute mult_Suc_right mult_le_mono2)
  moreover have "length (sr_heap (relax_all su penalty offs h current s1)) \<le> length rest + length offs"
    using relax_all_heap [of su penalty offs h current s1] 3 by simp
  ultimately show ?case using 3 by simp
qed

declare search_loop.simps [simp del]

text \<open>\<open>_reconstruct\<close>: following the parents; \<open>None\<close> if that never ended.\<close>

partial_function (option) reconstruct :: "(nat \<Rightarrow> nat option) \<Rightarrow> nat \<Rightarrow> nat list \<Rightarrow> nat list option" where
  "reconstruct came current path =
     (case came current of
        None \<Rightarrow> Some (current # path)
      | Some p \<Rightarrow> reconstruct came p (current # path))"

subsection \<open>Routes\<close>

record route_result =
  rr_cells :: "cell list"
  rr_coordinates :: "(real \<times> real) list"
  rr_distance_km :: real
  rr_travel_time_min :: real
  rr_total_cost :: real
  rr_factor_means :: "factor \<Rightarrow> real"
  rr_risk_score :: real
  rr_nodes_expanded :: nat
  rr_label :: string
  rr_penalty_applied :: real

definition round_real :: "nat \<Rightarrow> real \<Rightarrow> real" where
  "round_real n x =
     (let y = x * 10 ^ n; f = \<lfloor>y\<rfloor>; d = y - of_int f
      in of_int (if d < 1 / 2 then f else if d > 1 / 2 then f + 1 else if even f then f else f + 1) / 10 ^ n)"

definition safety_score :: "route_result \<Rightarrow> real" where
  "safety_score r = round_real 1 (100 - rr_risk_score r)"

text \<open>The consecutive cells of a path with the length of their segment\<close>

definition segments :: "cost_surface \<Rightarrow> cell list \<Rightarrow> (cell \<times> cell \<times> real) list" where
  "segments su cells =
     map (\<lambda>(a, b).
       (let (lat0, lon0) = cell_center (cu_grid su) a; (lat1, lon1) = cell_center (cu_grid su) b
        in (a, b, haversine_km lat0 lon0 lat1 lon1))) (zip cells (tl cells))"

definition factor_at :: "cost_surface \<Rightarrow> factor \<Rightarrow> cell \<Rightarrow> real" where
  "factor_at su f = (\<lambda>(r, c). cu_factor su f r c)"

text \<open>\<open>_finalise\<close>; \<open>cells\<close> is not empty.\<close>

definition finalise ::
  "cost_surface \<Rightarrow> cell list \<Rightarrow> nat \<Rightarrow> string \<Rightarrow> layer option \<Rightarrow> route_result" where
  "finalise su cells expanded label penalty =
     (let segs = segments su cells;
          total_km = sum_list (map (\<lambda>(a, b, km). km) segs);
          total_min = sum_list (map (\<lambda>(a, b, km). km / (0.5 * (speed_kmh su a + speed_kmh su b)) * 60) segs);
          total_cost = sum_list (map (\<lambda>(a, b, km). 0.5 * (cell_rate su a + cell_rate su b) * km) segs);
          penalty_total = (case penalty of None \<Rightarrow> 0
            | Some p \<Rightarrow> sum_list (map (\<lambda>(a, b, km). p (fst b) (snd b) * km) segs));
          weighted = (\<lambda>f. sum_list (map (\<lambda>(a, b, km). 0.5 * (factor_at su f a + factor_at su f b) * km) segs));
          means = (if total_km \<le> 0 then (\<lambda>f. factor_at su f (hd cells)) else (\<lambda>f. weighted f / total_km));
          risk = weighted_risk (cu_weights su) means
      in \<lparr>rr_cells = cells, rr_coordinates = map (cell_center (cu_grid su)) cells,
          rr_distance_km = total_km, rr_travel_time_min = total_min, rr_total_cost = total_cost,
          rr_factor_means = means,
          rr_risk_score = min 100 (100 * risk / max (1 / 10 ^ 9) (max_risk_weight_sum (cu_weights su))),
          rr_nodes_expanded = expanded, rr_label = label, rr_penalty_applied = penalty_total\<rparr>)"

definition start_blocked :: route_error where
  "start_blocked = No_Route (''The start point is inside a blocked zone (restricted, active excavation, ''
     @ ''flooded, or too steep for this vehicle).'') ''start_blocked''"

definition goal_blocked :: route_error where
  "goal_blocked = No_Route (''The destination is inside a blocked zone (restricted, active excavation, ''
     @ ''flooded, or too steep for this vehicle).'') ''goal_blocked''"

definition in_grid :: "cost_surface \<Rightarrow> cell \<Rightarrow> bool" where
  "in_grid su c \<longleftrightarrow> fst c < grid_n su \<and> snd c < grid_n su"

definition search_init :: "cost_surface \<Rightarrow> cell \<Rightarrow> cell \<Rightarrow> search" where
  "search_init su start goal =
     (let i = cell_index (grid_n su) start
      in \<lparr>sr_g = Map.empty(i \<mapsto> 0), sr_came = Map.empty, sr_closed = {},
          sr_heap = [(heuristic su goal start, i)], sr_expanded = 0\<rparr>)"

text \<open>\<open>None\<close> would be a call that does not return.\<close>

definition astar ::
  "cost_surface \<Rightarrow> cell \<Rightarrow> cell \<Rightarrow> bool \<Rightarrow> layer option \<Rightarrow> string \<Rightarrow> (route_error + route_result) option" where
  "astar su start goal diagonal penalty label =
     (if \<not> in_grid su start then Some (Inl (Raised (Exn ''IndexError'' ''index out of bounds'')))
      else if is_blocked su start then Some (Inl start_blocked)
      else if \<not> in_grid su goal then Some (Inl (Raised (Exn ''IndexError'' ''index out of bounds'')))
      else if is_blocked su goal then Some (Inl goal_blocked)
      else
        (case search_loop su penalty (neighbours diagonal) (heuristic su goal) (cell_index (grid_n su) goal)
                (search_init su start goal) of
           Inl e \<Rightarrow> Some (Inl e)
         | Inr s \<Rightarrow>
             map_option (\<lambda>path. Inr (finalise su (map (cell_of (grid_n su)) path) (sr_expanded s) label penalty))
               (reconstruct (sr_came s) (cell_index (grid_n su) goal) [])))"

text \<open>\<open>route_through\<close>: the legs in order, the first one that raises ending the call\<close>

fun legs ::
  "cost_surface \<Rightarrow> cell list \<Rightarrow> bool \<Rightarrow> layer option \<Rightarrow> string \<Rightarrow> (route_error + route_result list) option" where
  "legs su (a # b # ps) diagonal penalty label =
     (case astar su a b diagonal penalty label of
        None \<Rightarrow> None
      | Some (Inl e) \<Rightarrow> Some (Inl e)
      | Some (Inr r) \<Rightarrow>
          (case legs su (b # ps) diagonal penalty label of
             None \<Rightarrow> None
           | Some (Inl e) \<Rightarrow> Some (Inl e)
           | Some (Inr rs) \<Rightarrow> Some (Inr (r # rs))))"
| "legs su ps diagonal penalty label = Some (Inr [])"

fun merge_legs :: "route_result list \<Rightarrow> cell list" where
  "merge_legs [] = []"
| "merge_legs (r # rs) = rr_cells r @ concat (map (tl \<circ> rr_cells) rs)"

definition route_through ::
  "cost_surface \<Rightarrow> cell list \<Rightarrow> bool \<Rightarrow> layer option \<Rightarrow> string \<Rightarrow> (route_error + route_result) option" where
  "route_through su points diagonal penalty label =
     (if length points < 2
      then Some (Inl (Raised (Exn ''ValueError'' ''At least a start and a destination are required'')))
      else
        (case legs su points diagonal penalty label of
           None \<Rightarrow> None
         | Some (Inl e) \<Rightarrow> Some (Inl e)
         | Some (Inr ls) \<Rightarrow>
             Some (Inr (finalise su (merge_legs ls) (sum_list (map rr_nodes_expanded ls)) label penalty))))"

subsection \<open>Alternatives\<close>

definition overlap :: "route_result \<Rightarrow> route_result \<Rightarrow> real" where
  "overlap a b =
     (if rr_cells a = [] then 0
      else real (card (set (rr_cells a) \<inter> set (rr_cells b))) / real (length (rr_cells a)))"

definition mean_layer :: "nat \<Rightarrow> layer \<Rightarrow> real" where
  "mean_layer n a = sum_list (map (\<lambda>(i, j). a i j) (grid_cells n)) / real (n * n)"

definition add_corridor :: "nat \<Rightarrow> real \<Rightarrow> route_result \<Rightarrow> layer \<Rightarrow> layer" where
  "add_corridor k scale route penalty =
     fold (\<lambda>(r, c) p. \<lambda>i j. if r - k \<le> i \<and> i \<le> r + k \<and> c - k \<le> j \<and> j \<le> c + k then p i j + scale else p i j)
       (rr_cells route) penalty"

fun alternatives_loop ::
  "nat \<Rightarrow> nat \<Rightarrow> cost_surface \<Rightarrow> cell list \<Rightarrow> route_result \<Rightarrow> bool \<Rightarrow> nat \<Rightarrow> real \<Rightarrow> layer
     \<Rightarrow> route_result list \<Rightarrow> (route_error + route_result list) option" where
  "alternatives_loop 0 i su points primary diagonal k scale penalty results = Some (Inr results)"
| "alternatives_loop (Suc m) i su points primary diagonal k scale penalty results =
     (case route_through su points diagonal (Some penalty) (''alternative-'' @ show_nat (i + 1)) of
        None \<Rightarrow> None
      | Some (Inl (No_Route _ _)) \<Rightarrow> Some (Inr results)
      | Some (Inl e) \<Rightarrow> Some (Inl e)
      | Some (Inr alt) \<Rightarrow>
          (if overlap alt primary > 0.85 \<or> list_ex (\<lambda>r. overlap alt r > 0.85) results
           then alternatives_loop m (i + 1) su points primary diagonal k scale (add_corridor k scale alt penalty) results
           else alternatives_loop m (i + 1) su points primary diagonal k scale (add_corridor k scale alt penalty)
                  (results @ [alt])))"

definition alternative_routes ::
  "cost_surface \<Rightarrow> cell list \<Rightarrow> route_result \<Rightarrow> bool \<Rightarrow> nat \<Rightarrow> nat \<Rightarrow> real
     \<Rightarrow> (route_error + route_result list) option" where
  "alternative_routes su points primary diagonal count corridor_cells penalty_strength =
     (let scale = penalty_strength * max 1 (mean_layer (grid_n su) (cu_cost_per_km su));
          penalty = add_corridor corridor_cells scale primary (\<lambda>_ _. 0)
      in alternatives_loop count 0 su points primary diagonal corridor_cells scale penalty [])"

end
