(* ===== verification/AStarCorrect.thy ===== *)
theory AStarCorrect
  imports AStar
begin

text \<open>
  Correctness of the route search (\<open>AStar\<close>): it always returns, its route avoids every blocked
  cell, it reports no route only when there is none, and with a consistent heuristic the route
  is the cheapest one.
\<close>

subsection \<open>Routes as the specification has them\<close>

definition moves :: "cost_surface \<Rightarrow> layer option \<Rightarrow> offset list \<Rightarrow> cell \<Rightarrow> cell \<Rightarrow> real \<Rightarrow> bool" where
  "moves su penalty offs a b w \<longleftrightarrow> (\<exists>off \<in> set offs. move su penalty a off = Some (b, w))"

text \<open>A route from one cell over a list of cells to another, and its cost\<close>

inductive route :: "cost_surface \<Rightarrow> layer option \<Rightarrow> offset list \<Rightarrow> cell \<Rightarrow> cell list \<Rightarrow> cell \<Rightarrow> real \<Rightarrow> bool"
  for su penalty offs a where
  here: "route su penalty offs a [a] a 0"
| step: "route su penalty offs a cs b c \<Longrightarrow> moves su penalty offs b b' w \<Longrightarrow>
     route su penalty offs a (cs @ [b']) b' (c + w)"

lemma moves_in_grid: "moves su penalty offs a b w \<Longrightarrow> in_grid su b \<and> \<not> is_blocked su b"
proof -
  have "in_grid su b \<and> \<not> is_blocked su b" if "move su penalty a off = Some (b, w)" for off
    using that by (cases off) (auto simp: move_def in_grid_def Let_def split: if_splits)
  then show "moves su penalty offs a b w \<Longrightarrow> in_grid su b \<and> \<not> is_blocked su b"
    unfolding moves_def by blast
qed

lemma route_avoids_blocked:
  assumes "route su penalty offs a cs b c" "in_grid su a" "\<not> is_blocked su a" "x \<in> set cs"
  shows "in_grid su x \<and> \<not> is_blocked su x"
  using assms by (induction rule: route.induct) (auto dest: moves_in_grid)

lemma route_ends: "route su penalty offs a cs b c \<Longrightarrow> cs \<noteq> [] \<and> hd cs = a \<and> last cs = b"
  by (induction rule: route.induct) auto

subsection \<open>Cells and indices\<close>

lemma cell_of_index [simp]: "snd c < n \<Longrightarrow> cell_of n (cell_index n c) = c"
  by (cases c) (simp add: cell_of_def cell_index_def)

lemma cell_index_less: "fst c < n \<Longrightarrow> snd c < n \<Longrightarrow> cell_index n c < n * n"
proof (cases c)
  case (Pair i j)
  assume "fst c < n" "snd c < n"
  then have "i * n + j < Suc i * n" "Suc i * n \<le> n * n"
    using Pair mult_le_mono1 [of "Suc i" n n] by simp_all
  then show ?thesis using Pair by (simp add: cell_index_def)
qed

lemma index_in_grid: "in_grid su c \<Longrightarrow> cell_of (grid_n su) (cell_index (grid_n su) c) = c
    \<and> cell_index (grid_n su) c < grid_n su * grid_n su"
  by (simp add: in_grid_def cell_index_less)

definition edge :: "cost_surface \<Rightarrow> layer option \<Rightarrow> offset list \<Rightarrow> nat \<Rightarrow> nat \<Rightarrow> real \<Rightarrow> bool" where
  "edge su penalty offs u v w \<longleftrightarrow>
     (\<exists>b. moves su penalty offs (cell_of (grid_n su) u) b w \<and> v = cell_index (grid_n su) b)"

lemma edge_less: "edge su penalty offs u v w \<Longrightarrow> v < grid_n su * grid_n su"
  unfolding edge_def using moves_in_grid index_in_grid by blast

lemma edge_moves: "edge su penalty offs u v w \<Longrightarrow>
    moves su penalty offs (cell_of (grid_n su) u) (cell_of (grid_n su) v) w"
  unfolding edge_def using moves_in_grid index_in_grid by metis

lemma moves_edge: "moves su penalty offs a b w \<Longrightarrow> in_grid su a \<Longrightarrow>
    edge su penalty offs (cell_index (grid_n su) a) (cell_index (grid_n su) b) w"
  unfolding edge_def using index_in_grid [of su a] by (intro exI [of _ b]) simp

subsection \<open>One relaxation\<close>

text \<open>What a relaxation does to the cell it looks at\<close>

definition updated :: "search \<Rightarrow> (cell \<Rightarrow> real) \<Rightarrow> nat \<Rightarrow> nat \<Rightarrow> cell \<Rightarrow> real \<Rightarrow> search" where
  "updated s h u v b d =
     s\<lparr>sr_g := (sr_g s)(v \<mapsto> d), sr_came := (sr_came s)(v \<mapsto> u), sr_heap := insort (d + h b, v) (sr_heap s)\<rparr>"

lemma relax_cases:
  assumes "sr_g s u = Some d"
  obtains "relax mv n h u s = s" "mv (cell_of n u) = None"
  | b w where "mv (cell_of n u) = Some (b, w)" "relax mv n h u s = s"
      "cell_index n b \<in> sr_closed s \<or> (\<exists>d'. sr_g s (cell_index n b) = Some d' \<and> d' \<le> d + w)"
  | b w where "mv (cell_of n u) = Some (b, w)" "cell_index n b \<notin> sr_closed s"
      "\<forall>d'. sr_g s (cell_index n b) = Some d' \<longrightarrow> d + w < d'"
      "relax mv n h u s = updated s h u (cell_index n b) b (d + w)"
proof (cases "mv (cell_of n u)")
  case None
  then show ?thesis by (intro that(1)) (simp_all add: relax_def)
next
  case (Some p)
  obtain b w where p: "p = (b, w)" by fastforce
  let ?v = "cell_index n b"
  show ?thesis
  proof (cases "?v \<in> sr_closed s \<or> (\<exists>d'. sr_g s ?v = Some d' \<and> d' \<le> d + w)")
    case True
    then have "relax mv n h u s = s" using Some p assms by (auto simp: relax_def Let_def)
    then show ?thesis using that(2) Some p True by blast
  next
    case False
    then have "\<forall>d'. sr_g s ?v = Some d' \<longrightarrow> d + w < d'" by auto
    moreover from this False have "relax mv n h u s = updated s h u ?v b (d + w)"
      using Some p assms by (cases "sr_g s ?v") (auto simp: relax_def updated_def Let_def)
    ultimately show ?thesis using that(3) Some p False by blast
  qed
qed

text \<open>A property kept by every relaxation of \<open>u\<close> is kept by the loop over the neighbours.\<close>

lemma relax_all_induct [consumes 1, case_names relax]:
  assumes "I s"
    and "\<And>s off. I s \<Longrightarrow> off \<in> set offs \<Longrightarrow> I (relax (\<lambda>a. move su penalty a off) (grid_n su) h u s)"
  shows "I (relax_all su penalty offs h u s)"
  using assms unfolding relax_all_def by (induction offs arbitrary: s) simp_all

subsection \<open>Soundness of the state\<close>

fun closing_order :: "(nat \<Rightarrow> nat option) \<Rightarrow> nat list \<Rightarrow> bool" where
  "closing_order came [] = True"
| "closing_order came (v # xs) =
     ((case came v of None \<Rightarrow> True | Some u \<Rightarrow> u \<in> set xs) \<and> v \<notin> set xs \<and> closing_order came xs)"

lemma closing_order_upd: "v \<notin> set xs \<Longrightarrow> closing_order (came(v \<mapsto> u)) xs = closing_order came xs"
  by (induction xs) auto

text \<open>
  The invariant: known costs are those of the parents, everything known and not closed waits in
  the heap, and the cells of \<open>P\<close> have been expanded.
\<close>

definition search_ok ::
  "cost_surface \<Rightarrow> layer option \<Rightarrow> offset list \<Rightarrow> nat \<Rightarrow> nat set \<Rightarrow> search \<Rightarrow> bool" where
  "search_ok su penalty offs start P s \<longleftrightarrow>
     sr_g s start = Some 0 \<and> sr_came s start = None
     \<and> sr_closed s \<subseteq> {..<grid_n su * grid_n su} \<and> sr_expanded s = card (sr_closed s)
     \<and> (\<forall>v d. sr_g s v = Some d \<longrightarrow> v < grid_n su * grid_n su
          \<and> (v \<notin> sr_closed s \<longrightarrow> v \<in> snd ` set (sr_heap s))
          \<and> (sr_came s v = None \<longrightarrow> v = start))
     \<and> (\<forall>x \<in> set (sr_heap s). sr_g s (snd x) \<noteq> None)
     \<and> (\<forall>v p. sr_came s v = Some p \<longrightarrow>
          (\<exists>dp w. p \<in> sr_closed s \<and> edge su penalty offs p v w \<and> sr_g s p = Some dp \<and> sr_g s v = Some (dp + w)))
     \<and> (\<forall>u \<in> sr_closed s. sr_g s u \<noteq> None)
     \<and> (\<forall>u \<in> P. \<forall>v w. edge su penalty offs u v w \<longrightarrow> sr_g s v \<noteq> None)
     \<and> (\<exists>xs. set xs = sr_closed s \<and> closing_order (sr_came s) xs)"

lemma search_okD:
  assumes "search_ok su penalty offs start P s"
  shows "sr_g s start = Some 0" "sr_came s start = None" "sr_closed s \<subseteq> {..<grid_n su * grid_n su}"
    "sr_expanded s = card (sr_closed s)"
    "sr_g s v = Some d \<Longrightarrow> v < grid_n su * grid_n su"
    "sr_g s v = Some d \<Longrightarrow> v \<notin> sr_closed s \<Longrightarrow> v \<in> snd ` set (sr_heap s)"
    "sr_g s v = Some d \<Longrightarrow> sr_came s v = None \<Longrightarrow> v = start"
    "x \<in> set (sr_heap s) \<Longrightarrow> \<exists>d. sr_g s (snd x) = Some d"
    "sr_came s v = Some p \<Longrightarrow> \<exists>dp w. p \<in> sr_closed s \<and> edge su penalty offs p v w \<and> sr_g s p = Some dp
       \<and> sr_g s v = Some (dp + w)"
    "u \<in> sr_closed s \<Longrightarrow> \<exists>d. sr_g s u = Some d"
    "u \<in> P \<Longrightarrow> edge su penalty offs u v w \<Longrightarrow> \<exists>d. sr_g s v = Some d"
    "\<exists>xs. set xs = sr_closed s \<and> closing_order (sr_came s) xs"
  using assms unfolding search_ok_def by blast+

lemma search_ok_updated:
  assumes ok: "search_ok su penalty offs start P s" and u: "u \<in> sr_closed s" "sr_g s u = Some d"
    and st: "start \<in> sr_closed s" and e: "edge su penalty offs u v w" and v: "v \<notin> sr_closed s"
  shows "search_ok su penalty offs start P (updated s h u v b (d + w))"
proof -
  let ?s = "updated s h u v b (d + w)"
  note D = search_okD [OF ok]
  have f: "sr_g ?s = (sr_g s)(v \<mapsto> d + w)" "sr_came ?s = (sr_came s)(v \<mapsto> u)" "sr_closed ?s = sr_closed s"
    "sr_expanded ?s = sr_expanded s" "set (sr_heap ?s) = insert (d + w + h b, v) (set (sr_heap s))"
    by (simp_all add: updated_def set_insort_key)
  have ne: "start \<noteq> v" "u \<noteq> v" using st u v by auto
  obtain xs where xs: "set xs = sr_closed s" "closing_order (sr_came s) xs" using D(12) by blast
  have came: "\<exists>dp w'. p \<in> sr_closed s \<and> edge su penalty offs p x w' \<and> sr_g ?s p = Some dp \<and> sr_g ?s x = Some (dp + w')"
    if "sr_came ?s x = Some p" for x p
  proof (cases "x = v")
    case True
    with that have "p = u" by (simp add: f)
    with True u e ne show ?thesis by (intro exI [of _ d] exI [of _ w]) (simp add: f)
  next
    case False
    with that have "sr_came s x = Some p" by (simp add: f)
    from D(9) [OF this] obtain dp w' where x: "p \<in> sr_closed s" "edge su penalty offs p x w'"
      "sr_g s p = Some dp" "sr_g s x = Some (dp + w')" by blast
    moreover from x(1) v have "p \<noteq> v" by auto
    ultimately show ?thesis using False by (auto simp: f)
  qed
  have order: "set xs = sr_closed s \<and> closing_order (sr_came ?s) xs"
    using xs v by (simp add: f closing_order_upd)
  show ?thesis
    unfolding search_ok_def f(3,4)
  proof (intro conjI)
    show "\<forall>x d'. sr_g ?s x = Some d' \<longrightarrow> x < grid_n su * grid_n su
          \<and> (x \<notin> sr_closed s \<longrightarrow> x \<in> snd ` set (sr_heap ?s)) \<and> (sr_came ?s x = None \<longrightarrow> x = start)"
      using D(5-7) edge_less [OF e] by (auto simp: f)
    show "\<forall>x \<in> set (sr_heap ?s). sr_g ?s (snd x) \<noteq> None" using D(8) by (auto simp: f)
    show "\<forall>x p. sr_came ?s x = Some p \<longrightarrow>
          (\<exists>dp w. p \<in> sr_closed s \<and> edge su penalty offs p x w \<and> sr_g ?s p = Some dp \<and> sr_g ?s x = Some (dp + w))"
      using came by blast
    show "\<forall>u \<in> P. \<forall>x w. edge su penalty offs u x w \<longrightarrow> sr_g ?s x \<noteq> None" using D(11) by (auto simp: f)
    show "\<exists>xs. set xs = sr_closed s \<and> closing_order (sr_came ?s) xs" using order by blast
  qed (use D(1-4,10) ne in \<open>auto simp: f\<close>)
qed

lemma search_ok_relax:
  assumes ok: "search_ok su penalty offs start P s" and u: "u \<in> sr_closed s" and st: "start \<in> sr_closed s"
    and off: "off \<in> set offs"
  shows "search_ok su penalty offs start P (relax (\<lambda>a. move su penalty a off) (grid_n su) h u s)"
proof -
  obtain d where d: "sr_g s u = Some d" using search_okD(10) [OF ok u] by blast
  show ?thesis
  proof (cases rule: relax_cases [OF d, of "\<lambda>a. move su penalty a off" "grid_n su" h])
    case (3 b w)
    have "edge su penalty offs u (cell_index (grid_n su) b) w" 
      unfolding edge_def moves_def using 3(1) off by blast
    then show ?thesis using search_ok_updated [OF ok u d st] 3 by simp
  qed (use ok in simp_all)
qed

text \<open>The cost of a closed cell never changes, and a known cost stays known.\<close>

lemma relax_closed_g: "v \<in> sr_closed s \<Longrightarrow> sr_g (relax mv n h u s) v = sr_g s v"
  by (auto simp: relax_def Let_def split: option.split)

lemma relax_known: "sr_g s v \<noteq> None \<Longrightarrow> sr_g (relax mv n h u s) v \<noteq> None"
  by (auto simp: relax_def Let_def split: option.split)

lemma relax_all_known:
  assumes "off \<in> set offs" "move su penalty (cell_of (grid_n su) u) off = Some (b, w)"
    and "u \<in> sr_closed s" "sr_g s u = Some d" "\<And>v. v \<in> sr_closed s \<Longrightarrow> sr_g s v \<noteq> None"
  shows "sr_g (relax_all su penalty offs h u s) (cell_index (grid_n su) b) \<noteq> None"
proof -
  let ?v = "cell_index (grid_n su) b"
  have keep: "sr_g s' ?v \<noteq> None \<Longrightarrow> sr_g (relax_all su penalty os h u s') ?v \<noteq> None" for os s'
    by (rule relax_all_induct [where I = "\<lambda>s. sr_g s ?v \<noteq> None"]) (assumption, rule relax_known)
  from assms(1,3-5) show ?thesis
  proof (induction offs arbitrary: s)
    case (Cons o' offs)
    let ?s = "relax (\<lambda>a. move su penalty a o') (grid_n su) h u s"
    have all: "relax_all su penalty (o' # offs) h u s = relax_all su penalty offs h u ?s"
      by (simp add: relax_all_def)
    show ?case
    proof (cases "o' = off")
      case True
      have "sr_g ?s ?v \<noteq> None"
      proof (cases rule: relax_cases [OF Cons.prems(3), of "\<lambda>a. move su penalty a o'" "grid_n su" h])
        case 1
        with True assms(2) show ?thesis by simp
      next
        case (2 b' w')
        with True assms(2) Cons.prems(4) show ?thesis by auto
      next
        case (3 b' w')
        with True assms(2) show ?thesis by (simp add: updated_def)
      qed
      then show ?thesis unfolding all by (rule keep)
    next
      case False
      with Cons.prems have "off \<in> set offs" "sr_g ?s u = Some d" by (simp_all add: relax_closed_g)
      with Cons.prems Cons.IH [of ?s] show ?thesis unfolding all by (simp add: relax_closed_g)
    qed
  qed simp
qed

subsection \<open>One round of the loop\<close>

definition start_first :: "nat \<Rightarrow> search \<Rightarrow> bool" where
  "start_first start s \<longleftrightarrow> start \<in> sr_closed s \<or> snd ` set (sr_heap s) \<subseteq> {start}"

definition pop :: "nat \<Rightarrow> (real \<times> nat) list \<Rightarrow> search \<Rightarrow> search" where
  "pop u rest s =
     s\<lparr>sr_heap := rest, sr_closed := insert u (sr_closed s), sr_expanded := sr_expanded s + 1\<rparr>"

lemma pop_fields [simp]:
  "sr_g (pop u rest s) = sr_g s" "sr_came (pop u rest s) = sr_came s" "sr_heap (pop u rest s) = rest"
  "sr_closed (pop u rest s) = insert u (sr_closed s)" "sr_expanded (pop u rest s) = Suc (sr_expanded s)"
  by (simp_all add: pop_def)

lemma search_ok_discard:
  assumes "search_ok su penalty offs start P s" "sr_heap s = (f, u) # rest" "u \<in> sr_closed s"
  shows "search_ok su penalty offs start P (s\<lparr>sr_heap := rest\<rparr>)"
  using assms unfolding search_ok_def by auto

lemma search_ok_pop:
  assumes ok: "search_ok su penalty offs start P s" and h: "sr_heap s = (f, u) # rest" and u: "u \<notin> sr_closed s"
  shows "search_ok su penalty offs start P (pop u rest s)"
proof -
  note D = search_okD [OF ok]
  obtain d where d: "sr_g s u = Some d" using D(8) [of "(f, u)"] h by auto
  have N: "u < grid_n su * grid_n su" by (rule D(5) [OF d])
  obtain xs where xs: "set xs = sr_closed s" "closing_order (sr_came s) xs" using D(12) by blast
  have "closing_order (sr_came s) (u # xs)"
    using xs u D(9) [of u] by (cases "sr_came s u") auto
  with xs have order: "\<exists>xs. set xs = insert u (sr_closed s) \<and> closing_order (sr_came s) xs"
    by (intro exI [of _ "u # xs"]) simp
  have "card (insert u (sr_closed s)) = Suc (sr_expanded s)"
    using u D(3,4) by (simp add: finite_subset [OF D(3)])
  then show ?thesis
    unfolding search_ok_def pop_fields
  proof (intro conjI)
    show "insert u (sr_closed s) \<subseteq> {..<grid_n su * grid_n su}" using D(3) N by simp
    show "\<forall>v d. sr_g s v = Some d \<longrightarrow> v < grid_n su * grid_n su
        \<and> (v \<notin> insert u (sr_closed s) \<longrightarrow> v \<in> snd ` set rest) \<and> (sr_came s v = None \<longrightarrow> v = start)"
      using D(5-7) h by fastforce
    show "\<forall>x \<in> set rest. sr_g s (snd x) \<noteq> None" using D(8) h by force
    show "\<forall>v p. sr_came s v = Some p \<longrightarrow> (\<exists>dp w. p \<in> insert u (sr_closed s) \<and> edge su penalty offs p v w
        \<and> sr_g s p = Some dp \<and> sr_g s v = Some (dp + w))"
      using D(9) by blast
    show "\<forall>x \<in> insert u (sr_closed s). sr_g s x \<noteq> None" using D(10) d by auto
    show "\<forall>x \<in> P. \<forall>v w. edge su penalty offs x v w \<longrightarrow> sr_g s v \<noteq> None" using D(11) by fastforce
    show "\<exists>xs. set xs = insert u (sr_closed s) \<and> closing_order (sr_came s) xs" by (rule order)
  qed (use D(1,2) in simp_all)
qed

lemma search_ok_expanded:
  "search_ok su penalty offs start P s \<Longrightarrow>
     (\<And>u v w. u \<in> Q \<Longrightarrow> edge su penalty offs u v w \<Longrightarrow> sr_g s v \<noteq> None) \<Longrightarrow> search_ok su penalty offs start Q s"
  by (simp add: search_ok_def)

lemma search_ok_round:
  assumes ok: "search_ok su penalty offs start (sr_closed s) s" and st: "start_first start s"
    and h: "sr_heap s = (f, u) # rest" and u: "u \<notin> sr_closed s"
  shows "search_ok su penalty offs start (insert u (sr_closed s)) (relax_all su penalty offs h u (pop u rest s))"
    and "start \<in> insert u (sr_closed s)"
proof -
  let ?s = "pop u rest s" and ?P = "sr_closed s"
  let ?t = "relax_all su penalty offs h u ?s"
  have ok1: "search_ok su penalty offs start ?P ?s" by (rule search_ok_pop [OF ok h u])
  show st': "start \<in> insert u ?P" using st h by (auto simp: start_first_def)
  obtain d where d: "sr_g ?s u = Some d" using search_okD(10) [OF ok1, of u] by auto
  have "search_ok su penalty offs start ?P ?t \<and> sr_closed ?t = insert u ?P"
  proof (rule relax_all_induct [where I = "\<lambda>t. search_ok su penalty offs start ?P t \<and> sr_closed t = insert u ?P"])
    show "search_ok su penalty offs start ?P ?s \<and> sr_closed ?s = insert u ?P" using ok1 by simp
  next
    fix t off
    assume t: "search_ok su penalty offs start ?P t \<and> sr_closed t = insert u ?P" and off: "off \<in> set offs"
    then show "search_ok su penalty offs start ?P (relax (\<lambda>a. move su penalty a off) (grid_n su) h u t)
        \<and> sr_closed (relax (\<lambda>a. move su penalty a off) (grid_n su) h u t) = insert u ?P"
      using search_ok_relax [of su penalty offs start ?P t u off h] st' by simp
  qed
  then have t: "search_ok su penalty offs start ?P ?t" by blast
  have "sr_g ?t v \<noteq> None" if e: "edge su penalty offs u v w" for v w
  proof -
    from e obtain b off where "off \<in> set offs" "move su penalty (cell_of (grid_n su) u) off = Some (b, w)"
      "v = cell_index (grid_n su) b"
      unfolding edge_def moves_def by blast
    then show ?thesis using relax_all_known [of off offs su penalty u b w ?s d h] d search_okD(10) [OF ok1] by auto
  qed
  then show "search_ok su penalty offs start (insert u ?P) ?t"
    using search_okD(11) [OF t] by (intro search_ok_expanded [OF t]) auto
qed

subsection \<open>The loop ends with a route or a separation\<close>

text \<open>A set of cells that holds the start and not the goal and that no move leaves\<close>

definition separated :: "cost_surface \<Rightarrow> layer option \<Rightarrow> offset list \<Rightarrow> nat \<Rightarrow> nat \<Rightarrow> bool" where
  "separated su penalty offs start goal \<longleftrightarrow>
     (\<exists>C. start \<in> C \<and> goal \<notin> C \<and> (\<forall>u \<in> C. \<forall>v w. edge su penalty offs u v w \<longrightarrow> v \<in> C))"

lemma search_loop_sound:
  assumes "search_ok su penalty offs start (sr_closed s) s" "start_first start s" "goal \<notin> sr_closed s"
  shows "case search_loop su penalty offs h goal s of
           Inl e \<Rightarrow> e = unreachable \<and> separated su penalty offs start goal
         | Inr t \<Rightarrow> search_ok su penalty offs start (sr_closed t - {goal}) t \<and> goal \<in> sr_closed t"
  using assms
proof (induction su penalty offs h goal s rule: search_loop.induct)
  case (1 su penalty offs h goal s)
  note ok = 1(3) and D = search_okD [OF 1(3)]
  show ?case
  proof (cases "sr_heap s")
    case Nil
    have closed: "v \<in> sr_closed s" if "sr_g s v = Some d" for v d using D(6) [OF that] Nil by auto
    have "\<forall>u \<in> sr_closed s. \<forall>v w. edge su penalty offs u v w \<longrightarrow> v \<in> sr_closed s"
      using D(11) closed by blast
    then have "separated su penalty offs start goal"
      unfolding separated_def using closed [OF D(1)] 1(5) by blast
    then show ?thesis using Nil by (subst search_loop.simps) simp
  next
    case (Cons x rest)
    obtain f u where x: "x = (f, u)" by fastforce
    obtain d where d: "sr_g s u = Some d" using D(8) [of x] Cons x by auto
    have N: "u < grid_n su * grid_n su" by (rule D(5) [OF d])
    show ?thesis
    proof (cases "u \<in> sr_closed s")
      case True
      have st: "start_first start (s\<lparr>sr_heap := rest\<rparr>)" using 1(4) Cons by (auto simp: start_first_def)
      have ok': "search_ok su penalty offs start (sr_closed s) (s\<lparr>sr_heap := rest\<rparr>)"
        by (rule search_ok_discard [OF ok]) (use Cons x True in simp_all)
      have "case search_loop su penalty offs h goal (s\<lparr>sr_heap := rest\<rparr>) of
           Inl e \<Rightarrow> e = unreachable \<and> separated su penalty offs start goal
         | Inr t \<Rightarrow> search_ok su penalty offs start (sr_closed t - {goal}) t \<and> goal \<in> sr_closed t"
        by (rule 1(1) [OF Cons x [symmetric]]) (use N True st ok' 1(5) in simp_all)
      then show ?thesis using Cons x N True by (subst search_loop.simps) simp
    next
      case False
      have h: "sr_heap s = (f, u) # rest" using Cons x by simp
      show ?thesis
      proof (cases "u = goal")
        case True
        have "search_ok su penalty offs start (sr_closed s) (pop u rest s)"
          by (rule search_ok_pop [OF ok h False])
        moreover have "insert goal (sr_closed s) - {goal} = sr_closed s" using False True by auto
        ultimately show ?thesis using h N False True by (subst search_loop.simps) (simp add: Let_def pop_def)
      next
        case neq: False
        let ?t = "relax_all su penalty offs h u (pop u rest s)"
        have t: "search_ok su penalty offs start (sr_closed ?t) ?t" "start_first start ?t" "goal \<notin> sr_closed ?t"
          using search_ok_round [OF ok 1(4) h False] neq 1(5) by (simp_all add: start_first_def)
        have "search_loop su penalty offs h goal s = search_loop su penalty offs h goal ?t"
          using h N False neq by (subst search_loop.simps) (simp add: Let_def pop_def)
        moreover have "case search_loop su penalty offs h goal ?t of
           Inl e \<Rightarrow> e = unreachable \<and> separated su penalty offs start goal
         | Inr t \<Rightarrow> search_ok su penalty offs start (sr_closed t - {goal}) t \<and> goal \<in> sr_closed t"
          by (rule 1(2) [OF Cons x [symmetric]]) (use t N False neq in \<open>simp_all add: pop_def\<close>)
        ultimately show ?thesis by simp
      qed
    qed
  qed
qed

lemma search_init_ok:
  assumes "in_grid su start"
  defines "i \<equiv> cell_index (grid_n su) start"
  shows "search_ok su penalty offs i (sr_closed (search_init su start goal)) (search_init su start goal)"
    and "start_first i (search_init su start goal)"
  using index_in_grid [OF assms(1)]
  by (auto simp: search_ok_def search_init_def start_first_def i_def Let_def split: if_splits
      intro: exI [of _ "[]"])

subsection \<open>Following the parents\<close>

lemma reconstruct_route:
  assumes ok: "search_ok su penalty offs start P s" and xs: "closing_order (sr_came s) xs" "set xs \<subseteq> sr_closed s"
    and v: "v \<in> set xs" "sr_g s v = Some d"
  shows "\<exists>p. reconstruct (sr_came s) v path = Some (p @ path)
     \<and> route su penalty offs (cell_of (grid_n su) start) (map (cell_of (grid_n su)) p) (cell_of (grid_n su) v) d"
  using xs v
proof (induction xs arbitrary: v d path)
  case (Cons x xs)
  note D = search_okD [OF ok]
  show ?case
  proof (cases "v = x")
    case False
    with Cons show ?thesis by simp
  next
    case True
    show ?thesis
    proof (cases "sr_came s v")
      case None
      have "v = start" using D(7) Cons.prems(4) None by blast
      moreover have "d = 0" using Cons.prems(4) D(1) \<open>v = start\<close> by simp
      moreover have "reconstruct (sr_came s) v path = Some ([v] @ path)"
        using None by (subst reconstruct.simps) simp
      ultimately show ?thesis by (intro exI [of _ "[v]"]) (simp add: route.here)
    next
      case (Some u)
      obtain du w where u: "edge su penalty offs u v w" "sr_g s u = Some du" "sr_g s v = Some (du + w)"
        using D(9) [OF Some] by blast
      have "u \<in> set xs" using Cons.prems(1) True Some by simp
      with Cons.IH [of u du "v # path"] Cons.prems(1,2) u(2) obtain p where
        p: "reconstruct (sr_came s) u (v # path) = Some (p @ v # path)"
        "route su penalty offs (cell_of (grid_n su) start) (map (cell_of (grid_n su)) p) (cell_of (grid_n su) u) du"
        by auto
      have "reconstruct (sr_came s) v path = Some ((p @ [v]) @ path)"
        using Some p(1) by (subst reconstruct.simps) simp
      moreover have "d = du + w" using Cons.prems(4) u(3) by simp
      moreover have "route su penalty offs (cell_of (grid_n su) start) (map (cell_of (grid_n su)) (p @ [v]))
          (cell_of (grid_n su) v) (du + w)"
        using route.step [OF p(2) edge_moves [OF u(1)]] by simp
      ultimately show ?thesis by blast
    qed
  qed
qed simp

lemma separated_no_route:
  assumes "separated su penalty offs (cell_index (grid_n su) a) (cell_index (grid_n su) b)" "in_grid su a"
  shows "\<not> route su penalty offs a cs b c"
proof
  assume r: "route su penalty offs a cs b c"
  obtain C where C: "cell_index (grid_n su) a \<in> C" "cell_index (grid_n su) b \<notin> C"
    "\<forall>u \<in> C. \<forall>v w. edge su penalty offs u v w \<longrightarrow> v \<in> C"
    using assms(1) unfolding separated_def by blast
  from r have "cell_index (grid_n su) b \<in> C \<and> in_grid su b"
  proof (induction rule: route.induct)
    case here
    with C(1) assms(2) show ?case by simp
  next
    case (step cs x c x' w)
    with C(3) moves_edge [of su penalty offs x x' w] moves_in_grid [OF step.hyps(2)] show ?case by blast
  qed
  with C(2) show False by blast
qed

lemma astar_returns:
  assumes "in_grid su start" "in_grid su goal"
  shows "case astar su start goal diagonal penalty label of
     None \<Rightarrow> False
   | Some (Inr r) \<Rightarrow> (\<exists>c. route su penalty (neighbours diagonal) start (rr_cells r) goal c)
        \<and> list_all (\<lambda>x. in_grid su x \<and> \<not> is_blocked su x) (rr_cells r)
        \<and> rr_nodes_expanded r \<le> grid_n su * grid_n su
   | Some (Inl e) \<Rightarrow> e \<in> {start_blocked, goal_blocked, unreachable}
        \<and> (is_blocked su start \<or> is_blocked su goal
           \<or> \<not> (\<exists>cs c. route su penalty (neighbours diagonal) start cs goal c))"
proof (cases "is_blocked su start \<or> is_blocked su goal")
  case True
  with assms show ?thesis by (auto simp: astar_def)
next
  case False
  let ?n = "grid_n su" and ?offs = "neighbours diagonal"
  let ?i = "cell_index ?n start" and ?j = "cell_index ?n goal"
  let ?r = "search_loop su penalty ?offs (heuristic su goal) ?j (search_init su start goal)"
  have new: "?j \<notin> sr_closed (search_init su start goal)" by (simp add: search_init_def Let_def)
  note loop = search_loop_sound [OF search_init_ok(1) [OF assms(1), where penalty = penalty and offs = ?offs and goal = goal] search_init_ok(2) [OF assms(1)] new, of "heuristic su goal"]
  show ?thesis
  proof (cases ?r)
    case (Inl e)
    then have "e = unreachable" "separated su penalty ?offs ?i ?j" using loop by simp_all
    with separated_no_route [OF this(2) assms(1)] assms False Inl show ?thesis by (simp add: astar_def)
  next
    case (Inr s)
    then have ok: "search_ok su penalty ?offs ?i (sr_closed s - {?j}) s" and j: "?j \<in> sr_closed s"
      using loop by simp_all
    note D = search_okD [OF ok]
    obtain xs where xs: "set xs = sr_closed s" "closing_order (sr_came s) xs" using D(12) by blast
    obtain d where d: "sr_g s ?j = Some d" using D(10) [OF j] by blast
    obtain p where p: "reconstruct (sr_came s) ?j [] = Some p"
      "route su penalty ?offs (cell_of ?n ?i) (map (cell_of ?n) p) (cell_of ?n ?j) d"
      using reconstruct_route [OF ok xs(2), of ?j d "[]"] xs(1) j d by auto
    have r: "route su penalty ?offs start (map (cell_of ?n) p) goal d"
      using p(2) index_in_grid [OF assms(1)] index_in_grid [OF assms(2)] by simp
    have "card (sr_closed s) \<le> card {..<?n * ?n}" by (rule card_mono) (use D(3) in simp_all)
    then have "sr_expanded s \<le> ?n * ?n" using D(4) by simp
    moreover have "list_all (\<lambda>x. in_grid su x \<and> \<not> is_blocked su x) (map (cell_of ?n) p)"
      using route_avoids_blocked [OF r assms(1)] False by (auto simp: list_all_iff)
    moreover have "astar su start goal diagonal penalty label
        = Some (Inr (finalise su (map (cell_of ?n) p) (sr_expanded s) label penalty))"
      using assms False Inr p(1) by (simp add: astar_def)
    ultimately show ?thesis using r by (auto simp: finalise_def Let_def)
  qed
qed

text \<open>
  C30: The route search terminates with the right kind of answer, for every surface, penalty and
  pair of cells of the grid. Within at most as many expansions as the grid has cells it returns
  a route of adjacent cells from start to goal in which no cell is blocked - and it reports that
  there is none exactly when the start or the goal is blocked or no such route exists.
\<close>

theorem astar_terminates:
  assumes "in_grid su start" "in_grid su goal"
  shows "case astar su start goal diagonal penalty label of
     None \<Rightarrow> False
   | Some (Inr r) \<Rightarrow> (\<exists>c. route su penalty (neighbours diagonal) start (rr_cells r) goal c)
        \<and> list_all (\<lambda>x. in_grid su x \<and> \<not> is_blocked su x) (rr_cells r)
        \<and> rr_nodes_expanded r \<le> grid_n su * grid_n su
   | Some (Inl e) \<Rightarrow> e \<in> {start_blocked, goal_blocked, unreachable}
        \<and> (is_blocked su start \<or> is_blocked su goal
           \<or> \<not> (\<exists>cs c. route su penalty (neighbours diagonal) start cs goal c))"
  using assms by (rule astar_returns)

subsection \<open>Optimality\<close>

text \<open>The heuristic never drops by more than a move costs.\<close>

definition consistent :: "cost_surface \<Rightarrow> layer option \<Rightarrow> offset list \<Rightarrow> (cell \<Rightarrow> real) \<Rightarrow> bool" where
  "consistent su penalty offs h \<longleftrightarrow>
     (\<forall>a b w. in_grid su a \<longrightarrow> \<not> is_blocked su a \<longrightarrow> moves su penalty offs a b w \<longrightarrow> h a \<le> w + h b)"

text \<open>
  The invariant of best-first order, with the estimate \<open>K\<close> of the cell closed last: closed cells
  are below it and waiting ones above.
\<close>

definition best_first ::
  "cost_surface \<Rightarrow> layer option \<Rightarrow> offset list \<Rightarrow> (nat \<Rightarrow> real) \<Rightarrow> real \<Rightarrow> nat set \<Rightarrow> search \<Rightarrow> bool" where
  "best_first su penalty offs hf K P s \<longleftrightarrow>
     sorted (sr_heap s)
     \<and> (\<forall>v d. sr_g s v = Some d \<longrightarrow> v \<notin> sr_closed s \<longrightarrow> (d + hf v, v) \<in> set (sr_heap s))
     \<and> (\<forall>(f, v) \<in> set (sr_heap s). \<exists>d. sr_g s v = Some d \<and> d + hf v \<le> f)
     \<and> (\<forall>u \<in> P. \<forall>d. sr_g s u = Some d \<longrightarrow>
          (\<forall>v w. edge su penalty offs u v w \<longrightarrow> (\<exists>d'. sr_g s v = Some d' \<and> d' \<le> d + w)))
     \<and> (\<forall>v. sr_g s v \<noteq> None \<longrightarrow> \<not> is_blocked su (cell_of (grid_n su) v))
     \<and> (\<forall>u \<in> sr_closed s. \<forall>d. sr_g s u = Some d \<longrightarrow> d + hf u \<le> K)
     \<and> (\<forall>(f, v) \<in> set (sr_heap s). K \<le> f)"

lemma best_firstD:
  assumes "best_first su penalty offs hf K P s"
  shows "sorted (sr_heap s)"
    "sr_g s v = Some d \<Longrightarrow> v \<notin> sr_closed s \<Longrightarrow> (d + hf v, v) \<in> set (sr_heap s)"
    "(f, v) \<in> set (sr_heap s) \<Longrightarrow> \<exists>d. sr_g s v = Some d \<and> d + hf v \<le> f"
    "u \<in> P \<Longrightarrow> sr_g s u = Some d \<Longrightarrow> edge su penalty offs u v w \<Longrightarrow> \<exists>d'. sr_g s v = Some d' \<and> d' \<le> d + w"
    "sr_g s v = Some d \<Longrightarrow> \<not> is_blocked su (cell_of (grid_n su) v)"
    "u \<in> sr_closed s \<Longrightarrow> sr_g s u = Some d \<Longrightarrow> d + hf u \<le> K"
    "(f, v) \<in> set (sr_heap s) \<Longrightarrow> K \<le> f"
  using assms unfolding best_first_def by blast+

lemma best_first_updated:
  assumes bf: "best_first su penalty offs hf K P s" and P: "P \<subseteq> sr_closed s"
    and u: "u \<in> sr_closed s" "sr_g s u = Some d" and K: "K \<le> d + hf u"
    and e: "edge su penalty offs u v w" and c: "hf u \<le> w + hf v"
    and v: "v \<notin> sr_closed s" "\<And>d'. sr_g s v = Some d' \<Longrightarrow> d + w < d'" and b: "h b = hf v"
  shows "best_first su penalty offs hf K P (updated s h u v b (d + w))"
proof -
  let ?s = "updated s h u v b (d + w)"
  note D = best_firstD [OF bf]
  have f: "sr_g ?s = (sr_g s)(v \<mapsto> d + w)" "sr_closed ?s = sr_closed s"
    "set (sr_heap ?s) = insert (d + w + hf v, v) (set (sr_heap s))"
    by (simp_all add: updated_def set_insort_key b)
  have so: "sorted (sr_heap ?s)" using D(1) by (simp add: updated_def sorted_insort)
  have nb: "\<not> is_blocked su (cell_of (grid_n su) v)"
    using edge_moves [OF e] moves_in_grid by blast
  show ?thesis
    unfolding best_first_def f(2)
  proof (intro conjI)
    show "\<forall>x dx. sr_g ?s x = Some dx \<longrightarrow> x \<notin> sr_closed s \<longrightarrow> (dx + hf x, x) \<in> set (sr_heap ?s)"
      using D(2) by (simp add: f)
    show "\<forall>(fx, x) \<in> set (sr_heap ?s). \<exists>dx. sr_g ?s x = Some dx \<and> dx + hf x \<le> fx"
    proof (clarsimp simp: f, intro conjI impI)
      fix fx x assume a: "(fx, x) \<in> set (sr_heap s)"
      show "\<exists>dx. sr_g s x = Some dx \<and> dx + hf x \<le> fx" by (rule D(3) [OF a])
      assume "x = v"
      with D(3) [OF a] v(2) show "d + w + hf v \<le> fx" by fastforce
    qed
    show "\<forall>x \<in> P. \<forall>dx. sr_g ?s x = Some dx \<longrightarrow>
          (\<forall>y wy. edge su penalty offs x y wy \<longrightarrow> (\<exists>d'. sr_g ?s y = Some d' \<and> d' \<le> dx + wy))"
    proof (intro ballI allI impI)
      fix x dx y wy assume x: "x \<in> P" "sr_g ?s x = Some dx" "edge su penalty offs x y wy"
      then have "sr_g s x = Some dx" using P v(1) by (auto simp: f split: if_splits)
      then obtain d' where "sr_g s y = Some d'" "d' \<le> dx + wy" using D(4) [OF x(1) _ x(3)] by blast
      then show "\<exists>d'. sr_g ?s y = Some d' \<and> d' \<le> dx + wy" using v(2) by (force simp: f)
    qed
    show "\<forall>x. sr_g ?s x \<noteq> None \<longrightarrow> \<not> is_blocked su (cell_of (grid_n su) x)" using D(5) nb by (auto simp: f)
    show "\<forall>x \<in> sr_closed s. \<forall>dx. sr_g ?s x = Some dx \<longrightarrow> dx + hf x \<le> K" using D(6) v(1) by (auto simp: f)
    show "\<forall>(fx, x) \<in> set (sr_heap ?s). K \<le> fx" using D(7) K c by (auto simp: f)
  qed (rule so)
qed

text \<open>Expanding \<open>u\<close> completes it: its neighbours cost no more than the way over \<open>u\<close>.\<close>

lemma best_first_relax_all:
  assumes bf: "best_first su penalty offs (\<lambda>v. h (cell_of (grid_n su) v)) K P s"
    and P: "P \<subseteq> sr_closed s" and u: "u \<in> sr_closed s" "sr_g s u = Some d"
    and K: "K = d + h (cell_of (grid_n su) u)"
    and N: "in_grid su (cell_of (grid_n su) u)" and con: "consistent su penalty offs h"
    and known: "\<And>v. v \<in> sr_closed s \<Longrightarrow> sr_g s v \<noteq> None"
  shows "best_first su penalty offs (\<lambda>v. h (cell_of (grid_n su) v)) K (insert u P) (relax_all su penalty offs h u s)"
proof -
  let ?n = "grid_n su" and ?hf = "\<lambda>v. h (cell_of (grid_n su) v)"
  have "\<not> is_blocked su (cell_of ?n u)" using best_firstD(5) [OF bf u(2)] .
  then have c: "?hf u \<le> w + ?hf v" if "edge su penalty offs u v w" for v w
    using con N edge_moves [OF that] unfolding consistent_def by blast
  define done' where "done' t off \<longleftrightarrow> (\<forall>b w. move su penalty (cell_of ?n u) off = Some (b, w) \<longrightarrow>
      (\<exists>d'. sr_g t (cell_index ?n b) = Some d' \<and> d' \<le> d + w))" for t :: search and off
  define I where "I t \<longleftrightarrow> best_first su penalty offs ?hf K P t \<and> sr_closed t = sr_closed s \<and> sr_g t u = Some d
      \<and> (\<forall>v \<in> sr_closed s. sr_g t v \<noteq> None)" for t :: search
  have step: "I (relax (\<lambda>a. move su penalty a off) ?n h u t)
      \<and> done' (relax (\<lambda>a. move su penalty a off) ?n h u t) off
      \<and> (\<forall>o'. done' t o' \<longrightarrow> done' (relax (\<lambda>a. move su penalty a off) ?n h u t) o')"
    if t: "I t" and off: "off \<in> set offs" for t off
  proof -
    let ?t = "relax (\<lambda>a. move su penalty a off) ?n h u t"
    from t have bt: "best_first su penalty offs ?hf K P t" and ct: "sr_closed t = sr_closed s" and gt: "sr_g t u = Some d"
      and kt: "\<forall>v \<in> sr_closed s. sr_g t v \<noteq> None"
      by (simp_all add: I_def)
    show ?thesis
    proof (cases rule: relax_cases [OF gt, of "\<lambda>a. move su penalty a off" ?n h])
      case 1
      with t show ?thesis by (auto simp: done'_def)
    next
      case (2 b w)
      have e: "edge su penalty offs u (cell_index ?n b) w"
        unfolding edge_def moves_def using 2(1) off by blast
      have "\<exists>d'. sr_g t (cell_index ?n b) = Some d' \<and> d' \<le> d + w"
      proof (cases "cell_index ?n b \<in> sr_closed t")
        case True
        then obtain d' where d': "sr_g t (cell_index ?n b) = Some d'" using kt ct by blast
        have "d' + ?hf (cell_index ?n b) \<le> K" using best_firstD(6) [OF bt True d'] .
        then have "d' \<le> d + w" using K c [OF e] by simp
        with d' show ?thesis by blast
      qed (use 2(3) in blast)
      with 2 t show ?thesis by (auto simp: done'_def)
    next
      case (3 b w)
      have e: "edge su penalty offs u (cell_index ?n b) w"
        unfolding edge_def moves_def using 3(1) off by blast
      have hb: "h b = ?hf (cell_index ?n b)"
        using 3(1) off moves_in_grid [of su penalty offs "cell_of ?n u" b w] index_in_grid
        unfolding moves_def by (metis off)
      have "best_first su penalty offs ?hf K P ?t"
        unfolding 3(4)
      proof (rule best_first_updated [OF bt _ _ gt _ e])
        show "?hf u \<le> w + ?hf (cell_index ?n b)" by (rule c [OF e])
        show "\<And>d'. sr_g t (cell_index ?n b) = Some d' \<Longrightarrow> d + w < d'" using 3(3) by blast
        show "h b = ?hf (cell_index ?n b)" by (rule hb)
      qed (use P u(1) ct K 3(2) in simp_all)
      moreover have "sr_g ?t u = Some d" using gt u(1) ct by (simp add: relax_closed_g)
      moreover have "\<forall>v \<in> sr_closed s. sr_g ?t v \<noteq> None" using kt ct by (simp add: relax_closed_g)
      moreover have "done' ?t off" using 3(1) by (simp add: done'_def 3(4) updated_def)
      moreover have "done' ?t o'" if "done' t o'" for o'
        using that 3(3) unfolding done'_def 3(4) updated_def by (force split: if_splits)
      ultimately show ?thesis using ct by (auto simp: I_def)
    qed
  qed
  have all: "I (fold (\<lambda>off. relax (\<lambda>a. move su penalty a off) ?n h u) os t)
      \<and> (\<forall>o' \<in> set os \<union> {o'. done' t o'}. done' (fold (\<lambda>off. relax (\<lambda>a. move su penalty a off) ?n h u) os t) o')"
    if "I t" "set os \<subseteq> set offs" for os t
    using that
  proof (induction os arbitrary: t)
    case (Cons off os)
    let ?t = "relax (\<lambda>a. move su penalty a off) ?n h u t"
    have s: "I ?t" "done' ?t off" "\<And>o'. done' t o' \<Longrightarrow> done' ?t o'"
      using step [OF Cons.prems(1), of off] Cons.prems(2) by (simp, simp, metis list.set_intros(1) subset_code(1))
    with Cons.IH [of ?t] Cons.prems(2) show ?case by auto
  qed simp
  let ?t = "relax_all su penalty offs h u s"
  have I: "I ?t" and dn: "\<forall>off \<in> set offs. done' ?t off"
    using all [of s offs] bf u(2) known unfolding relax_all_def by (auto simp: I_def)
  have new: "\<exists>d'. sr_g ?t v = Some d' \<and> d' \<le> d + w" if "edge su penalty offs u v w" for v w
    using that dn unfolding edge_def moves_def done'_def by blast
  show ?thesis
    using I new unfolding I_def best_first_def by auto
qed

lemma best_first_pop:
  assumes bf: "best_first su penalty offs hf K P s" and h: "sr_heap s = (f, u) # rest" and u: "u \<notin> sr_closed s"
  shows "\<exists>d. sr_g s u = Some d \<and> f = d + hf u" and "best_first su penalty offs hf f P (pop u rest s)"
proof -
  note D = best_firstD [OF bf]
  have le: "f \<le> f'" if "(f', v) \<in> set (sr_heap s)" for f' v
    using that D(1) h by (auto simp: less_eq_prod_def)
  obtain d where d: "sr_g s u = Some d" "d + hf u \<le> f" using D(3) [of f u] h by auto
  have f: "f = d + hf u" using le [OF D(2) [OF d(1) u]] d(2) by simp
  with d show "\<exists>d. sr_g s u = Some d \<and> f = d + hf u" by blast
  have K: "K \<le> f" using D(7) [of f u] h by simp
  show "best_first su penalty offs hf f P (pop u rest s)"
    unfolding best_first_def pop_fields
  proof (intro conjI)
    show "sorted rest" using D(1) h by simp
    show "\<forall>v d. sr_g s v = Some d \<longrightarrow> v \<notin> insert u (sr_closed s) \<longrightarrow> (d + hf v, v) \<in> set rest"
      using D(2) h by fastforce
    show "\<forall>(f, v) \<in> set rest. \<exists>d. sr_g s v = Some d \<and> d + hf v \<le> f" using D(3) h by auto
    show "\<forall>x \<in> P. \<forall>d. sr_g s x = Some d \<longrightarrow>
          (\<forall>v w. edge su penalty offs x v w \<longrightarrow> (\<exists>d'. sr_g s v = Some d' \<and> d' \<le> d + w))"
      using D(4) by blast
    show "\<forall>v. sr_g s v \<noteq> None \<longrightarrow> \<not> is_blocked su (cell_of (grid_n su) v)" using D(5) by auto
    show "\<forall>x \<in> insert u (sr_closed s). \<forall>d. sr_g s x = Some d \<longrightarrow> d + hf x \<le> f"
      using D(6) K d f by fastforce
    show "\<forall>(f', v) \<in> set rest. f \<le> f'" using le h by auto
  qed
qed

lemma best_first_discard:
  assumes bf: "best_first su penalty offs hf K P s" and h: "sr_heap s = (f, u) # rest" and u: "u \<in> sr_closed s"
  shows "best_first su penalty offs hf K P (s\<lparr>sr_heap := rest\<rparr>)"
  using bf h u unfolding best_first_def by auto

text \<open>Some waiting cell of every route to \<open>b\<close> has an estimate that the route cannot beat.\<close>

lemma best_first_bound:
  assumes bf: "best_first su penalty offs (\<lambda>v. h (cell_of (grid_n su) v)) K (sr_closed s) s"
    and start: "sr_g s (cell_index (grid_n su) a) = Some 0" "in_grid su a" "\<not> is_blocked su a"
    and con: "consistent su penalty offs h" and r: "route su penalty offs a cs b c"
  shows "(cell_index (grid_n su) b \<in> sr_closed s \<and> (\<exists>d. sr_g s (cell_index (grid_n su) b) = Some d \<and> d \<le> c))
       \<or> (\<exists>(f, v) \<in> set (sr_heap s). f \<le> c + h b)"
  using r
proof (induction rule: route.induct)
  case here
  show ?case
    using best_firstD(2) [OF bf start(1)] start index_in_grid [OF start(2)] by force
next
  case (step cs b c b' w)
  let ?n = "grid_n su"
  have b: "in_grid su b" "\<not> is_blocked su b"
    using route_avoids_blocked [OF step.hyps(1) start(2,3)] route_ends [OF step.hyps(1)] by (metis last_in_set)+
  have b': "in_grid su b'" using moves_in_grid [OF step.hyps(2)] by simp
  have hb: "h b \<le> w + h b'" using con b step.hyps(2) unfolding consistent_def by blast
  have e: "edge su penalty offs (cell_index ?n b) (cell_index ?n b') w" by (rule moves_edge [OF step.hyps(2) b(1)])
  from step.IH show ?case
  proof (elim disjE conjE exE)
    fix d assume c: "cell_index ?n b \<in> sr_closed s" and d: "sr_g s (cell_index ?n b) = Some d" "d \<le> c"
    obtain d' where d': "sr_g s (cell_index ?n b') = Some d'" "d' \<le> d + w"
      using best_firstD(4) [OF bf c d(1) e] by blast
    show ?thesis
    proof (cases "cell_index ?n b' \<in> sr_closed s")
      case True
      with d' d(2) show ?thesis by force
    next
      case False
      have "(d' + h b', cell_index ?n b') \<in> set (sr_heap s)"
        using best_firstD(2) [OF bf d'(1) False] index_in_grid [OF b'] by simp
      with d' d(2) show ?thesis by force
    qed
  next
    assume "\<exists>(f, v) \<in> set (sr_heap s). f \<le> c + h b"
    with hb show ?thesis by force
  qed
qed

lemma search_loop_best:
  assumes "search_ok su penalty offs (cell_index (grid_n su) a) (sr_closed s) s"
    and "start_first (cell_index (grid_n su) a) s"
    and "best_first su penalty offs (\<lambda>v. h (cell_of (grid_n su) v)) K (sr_closed s) s"
    and "goal \<notin> sr_closed s" "goal = cell_index (grid_n su) g" "in_grid su g" "in_grid su a" "\<not> is_blocked su a"
    and "consistent su penalty offs h"
  shows "case search_loop su penalty offs h goal s of
           Inl e \<Rightarrow> True
         | Inr t \<Rightarrow> \<exists>d. sr_g t goal = Some d \<and> (\<forall>cs c. route su penalty offs a cs g c \<longrightarrow> d \<le> c)"
  using assms
proof (induction su penalty offs h goal s arbitrary: K rule: search_loop.induct)
  case (1 su penalty offs h goal s)
  note ok = 1(3) and st = 1(4) and bf = 1(5) and D = search_okD [OF 1(3)]
  let ?hf = "\<lambda>v. h (cell_of (grid_n su) v)"
  show ?case
  proof (cases "sr_heap s")
    case Nil
    then show ?thesis by (subst search_loop.simps) simp
  next
    case (Cons x rest)
    obtain f u where x: "x = (f, u)" by fastforce
    have h: "sr_heap s = (f, u) # rest" using Cons x by simp
    obtain d where d: "sr_g s u = Some d" using D(8) [of x] Cons x by auto
    have N: "u < grid_n su * grid_n su" by (rule D(5) [OF d])
    show ?thesis
    proof (cases "u \<in> sr_closed s")
      case True
      have "start_first (cell_index (grid_n su) a) (s\<lparr>sr_heap := rest\<rparr>)" using st Cons by (auto simp: start_first_def)
      moreover have "search_ok su penalty offs (cell_index (grid_n su) a) (sr_closed s) (s\<lparr>sr_heap := rest\<rparr>)"
        by (rule search_ok_discard [OF ok h True])
      moreover have "best_first su penalty offs ?hf K (sr_closed s) (s\<lparr>sr_heap := rest\<rparr>)"
        by (rule best_first_discard [OF bf h True])
      ultimately have "case search_loop su penalty offs h goal (s\<lparr>sr_heap := rest\<rparr>) of
           Inl e \<Rightarrow> True
         | Inr t \<Rightarrow> \<exists>d. sr_g t goal = Some d \<and> (\<forall>cs c. route su penalty offs a cs g c \<longrightarrow> d \<le> c)"
        by (intro 1(1) [OF Cons x [symmetric]]) (use N True 1(6-11) in simp_all)
      then show ?thesis using h N True by (subst search_loop.simps) simp
    next
      case False
      show ?thesis
      proof (cases "u = goal")
        case True
        obtain dg where dg: "sr_g s goal = Some dg" "f = dg + ?hf goal" using best_first_pop(1) [OF bf h False] True by auto
        have hg: "?hf goal = h g" using 1(7) index_in_grid [OF 1(8)] by simp
        have "dg \<le> c" if r: "route su penalty offs a cs g c" for cs c
        proof -
          obtain f' v where "(f', v) \<in> set (sr_heap s)" "f' \<le> c + h g"
            using best_first_bound [OF bf D(1) 1(9,10,11) r] 1(6,7) by blast
          moreover from this(1) have "f \<le> f'" using best_firstD(1) [OF bf] h by (auto simp: less_eq_prod_def)
          ultimately show ?thesis using dg hg by simp
        qed
        then show ?thesis using h N False True dg by (subst search_loop.simps) (simp add: Let_def)
      next
        case neq: False
        let ?t = "relax_all su penalty offs h u (pop u rest s)"
        have t: "search_ok su penalty offs (cell_index (grid_n su) a) (sr_closed ?t) ?t"
          "start_first (cell_index (grid_n su) a) ?t" "goal \<notin> sr_closed ?t"
          using search_ok_round [OF ok st h False] neq 1(6) by (simp_all add: start_first_def)
        obtain du where du: "sr_g s u = Some du" "f = du + ?hf u" using best_first_pop(1) [OF bf h False] by blast
        have "in_grid su (cell_of (grid_n su) u)"
          using N unfolding in_grid_def cell_of_def
          by (cases "grid_n su = 0") (simp_all add: less_mult_imp_div_less)
        then have "best_first su penalty offs ?hf f (insert u (sr_closed s)) ?t"
          using best_first_relax_all [OF best_first_pop(2) [OF bf h False], of u du] du 1(11)
            search_okD(10) [OF search_ok_pop [OF ok h False]]
          by auto
        then have b: "best_first su penalty offs ?hf f (sr_closed ?t) ?t" by simp
        have "search_loop su penalty offs h goal s = search_loop su penalty offs h goal ?t"
          using h N False neq by (subst search_loop.simps) (simp add: Let_def pop_def)
        moreover have "case search_loop su penalty offs h goal ?t of
           Inl e \<Rightarrow> True
         | Inr t \<Rightarrow> \<exists>d. sr_g t goal = Some d \<and> (\<forall>cs c. route su penalty offs a cs g c \<longrightarrow> d \<le> c)"
          by (rule 1(2) [OF Cons x [symmetric]]) (use t b N False neq 1(6-11) in \<open>simp_all add: pop_def\<close>)
        ultimately show ?thesis by simp
      qed
    qed
  qed
qed

subsection \<open>The heuristic is consistent\<close>

text \<open>
  The grid's nominal edge lengths are no shorter than the great-circle distances between the
  cells they join; and the rate of the heuristic is a lower bound of every traversable cell.
\<close>

definition edges_measured :: "cost_surface \<Rightarrow> offset list \<Rightarrow> bool" where
  "edges_measured su offs \<longleftrightarrow>
     (\<forall>a dy dx mult b w. (dy, dx, mult) \<in> set offs \<longrightarrow> move su None a (dy, dx, mult) = Some (b, w) \<longrightarrow>
        haversine_km (fst (cell_center (cu_grid su) a)) (snd (cell_center (cu_grid su) a))
          (fst (cell_center (cu_grid su) b)) (snd (cell_center (cu_grid su) b))
        \<le> cell_size_km (cu_grid su) * mult)"

definition rates_bounded :: "cost_surface \<Rightarrow> bool" where
  "rates_bounded su \<longleftrightarrow> 0 \<le> min_cost_per_km su
     \<and> (\<forall>c. in_grid su c \<longrightarrow> \<not> is_blocked su c \<longrightarrow> min_cost_per_km su \<le> cell_rate su c)"

lemma built_rates_bounded:
  assumes w: "weights_nonneg w"
  shows "rates_bounded (build_cost_surface g w k v c)"
proof -
  let ?su = "build_cost_surface g w k v c"
  have a: "0 \<le> alpha_distance w" using w by (simp add: weights_nonneg_def)
  have "0 \<le> min_cost_per_km ?su"
    using a unfolding min_cost_per_km_def Let_def by (simp add: build_cost_surface_def Let_def le_max_iff_disj)
  moreover have "min_cost_per_km ?su \<le> cell_rate ?su (i, j)"
    if "in_grid ?su (i, j)" "\<not> is_blocked ?su (i, j)" for i j
  proof -
    have "0 \<le> weighted_risk w (\<lambda>f. cost_factor g v c f i j)"
      by (rule weighted_risk_bounds [OF w]) (rule cost_factor_bounds)
    then have "alpha_distance (cu_weights ?su) \<le> cu_cost_per_km ?su i j"
      by (simp add: build_cost_surface_def Let_def)
    then show ?thesis
      using min_cost_le [of i ?su j] that by (simp add: in_grid_def is_blocked_def cell_rate_def grid_n_def)
  qed
  ultimately show ?thesis unfolding rates_bounded_def by auto
qed

lemma neighbours_positive: "(dy, dx, mult) \<in> set (neighbours diagonal) \<Longrightarrow> 0 \<le> mult"
  by (auto simp: neighbours_def NEIGHBOURS_4_def NEIGHBOURS_8_def split: if_splits)

definition penalty_nonneg :: "layer option \<Rightarrow> bool" where
  "penalty_nonneg penalty \<longleftrightarrow> (case penalty of None \<Rightarrow> True | Some p \<Rightarrow> \<forall>i j. 0 \<le> p i j)"

lemma heuristic_consistent:
  assumes em: "edges_measured su (neighbours diagonal)" and rb: "rates_bounded su"
    and size: "0 \<le> cell_size_km (cu_grid su)" and pen: "penalty_nonneg penalty"
  shows "consistent su penalty (neighbours diagonal) (heuristic su goal)"
  unfolding consistent_def
proof (intro allI impI)
  fix a b w
  assume a: "in_grid su a" "\<not> is_blocked su a" and m: "moves su penalty (neighbours diagonal) a b w"
  let ?g = "cu_grid su" and ?rate = "min_cost_per_km su"
  obtain dy dx mult where off: "(dy, dx, mult) \<in> set (neighbours diagonal)"
    "move su penalty a (dy, dx, mult) = Some (b, w)"
    using m unfolding moves_def by fast
  have w: "w = step_cost su penalty a b mult" and nopen: "move su None a (dy, dx, mult) = Some (b, step_cost su None a b mult)"
    using off(2) by (auto simp: move_def Let_def split: if_splits)
  have b: "in_grid su b" "\<not> is_blocked su b" using moves_in_grid [OF m] by simp_all
  define km where "km = cell_size_km ?g * mult"
  have km: "0 \<le> km" unfolding km_def using size neighbours_positive [OF off(1)] by simp
  define D where "D p q = haversine_km (fst (cell_center ?g p)) (snd (cell_center ?g p))
     (fst (cell_center ?g q)) (snd (cell_center ?g q))" for p q
  have h: "heuristic su goal p = D p goal * ?rate" for p
    by (simp add: heuristic_def D_def split_beta)
  have "D a goal \<le> D a b + D b goal" unfolding D_def by (rule haversine_triangle)
  then have "D a goal * ?rate \<le> D a b * ?rate + D b goal * ?rate"
    using rb unfolding rates_bounded_def by (metis distrib_right mult_right_mono)
  moreover have "D a b \<le> km" using em off(1) nopen unfolding edges_measured_def D_def km_def by blast
  then have "D a b * ?rate \<le> km * ?rate" using rb by (simp add: rates_bounded_def mult_right_mono)
  moreover have "km * ?rate \<le> km * (0.5 * (cell_rate su a + cell_rate su b))"
  proof (rule mult_left_mono [OF _ km])
    have "?rate \<le> cell_rate su a" "?rate \<le> cell_rate su b" 
      using rb a b unfolding rates_bounded_def by blast+
    then show "?rate \<le> 0.5 * (cell_rate su a + cell_rate su b)" by simp
  qed
  moreover have "0 \<le> (case penalty of None \<Rightarrow> 0 | Some p \<Rightarrow> p (fst b) (snd b) * km)"
    using pen km by (auto simp: penalty_nonneg_def split: option.splits)
  then have "km * (0.5 * (cell_rate su a + cell_rate su b)) \<le> w"
    unfolding w step_cost_def Let_def km_def by (simp add: mult.commute)
  ultimately show "heuristic su goal a \<le> w + heuristic su goal b" unfolding h by simp
qed

subsection \<open>The cheapest route\<close>

lemma search_init_best:
  assumes "in_grid su a" "\<not> is_blocked su a"
  shows "best_first su penalty offs (\<lambda>v. heuristic su goal (cell_of (grid_n su) v)) (heuristic su goal a) {}
     (search_init su a goal)"
  using assms index_in_grid [OF assms(1)]
  by (auto simp: best_first_def search_init_def Let_def split: if_splits)

text \<open>
  C29: A* is optimal. On a surface built from weights that are not negative, with a penalty that
  is not negative and nominal edge lengths no shorter than the great-circle distances, the
  straight-line heuristic is consistent - by the triangle inequality of \<open>haversine_km\<close> - and the
  route returned costs the search no more than any other route from start to goal that avoids
  the blocked cells, although closed cells are never reopened.
\<close>

theorem astar_optimal:
  assumes su: "su = build_cost_surface g w k v c" "weights_nonneg w" "0 \<le> tg_radius_km g"
    and pen: "penalty_nonneg penalty" and em: "edges_measured su (neighbours diagonal)"
    and cells: "in_grid su start" "in_grid su goal"
  shows "case astar su start goal diagonal penalty label of
     Some (Inr r) \<Rightarrow> \<exists>best. route su penalty (neighbours diagonal) start (rr_cells r) goal best
        \<and> (\<forall>cs cost. route su penalty (neighbours diagonal) start cs goal cost \<longrightarrow> best \<le> cost)
   | _ \<Rightarrow> is_blocked su start \<or> is_blocked su goal
        \<or> \<not> (\<exists>cs cost. route su penalty (neighbours diagonal) start cs goal cost)"
proof (cases "is_blocked su start \<or> is_blocked su goal")
  case True
  with cells show ?thesis by (auto simp: astar_def)
next
  case False
  let ?n = "grid_n su" and ?offs = "neighbours diagonal" and ?h = "heuristic su goal"
  let ?i = "cell_index ?n start" and ?j = "cell_index ?n goal" and ?s = "search_init su start goal"
  let ?r = "search_loop su penalty ?offs ?h ?j ?s"
  have size: "0 \<le> cell_size_km (cu_grid su)"
    using su(3) by (simp add: su(1) cell_size_km_def build_cost_surface_def Let_def)
  have con: "consistent su penalty ?offs ?h"
    using heuristic_consistent [OF em _ size pen] built_rates_bounded [OF su(2)] su(1) by blast
  have new: "?j \<notin> sr_closed ?s" and none: "sr_closed ?s = {}" by (simp_all add: search_init_def Let_def)
  note init = search_init_ok(1) [OF cells(1), where penalty = penalty and offs = ?offs and goal = goal]
  have best: "best_first su penalty ?offs (\<lambda>v. ?h (cell_of ?n v)) (?h start) (sr_closed ?s) ?s"
    unfolding none by (rule search_init_best) (use cells False in simp_all)
  note loop = search_loop_sound [OF init search_init_ok(2) [OF cells(1)] new, of ?h]
  note opt = search_loop_best [OF init search_init_ok(2) [OF cells(1)] best new refl cells(2,1) _ con]
  show ?thesis
  proof (cases ?r)
    case (Inl e)
    then have "separated su penalty ?offs ?i ?j" using loop by simp
    with separated_no_route [OF this cells(1)] cells False Inl show ?thesis by (simp add: astar_def)
  next
    case (Inr s)
    then have ok: "search_ok su penalty ?offs ?i (sr_closed s - {?j}) s" and j: "?j \<in> sr_closed s"
      using loop by simp_all
    obtain d where d: "sr_g s ?j = Some d" "\<forall>cs c. route su penalty ?offs start cs goal c \<longrightarrow> d \<le> c"
      using opt False Inr by auto
    obtain xs where xs: "set xs = sr_closed s" "closing_order (sr_came s) xs"
      using search_okD(12) [OF ok] by blast
    obtain p where p: "reconstruct (sr_came s) ?j [] = Some p"
      "route su penalty ?offs (cell_of ?n ?i) (map (cell_of ?n) p) (cell_of ?n ?j) d"
      using reconstruct_route [OF ok xs(2), of ?j d "[]"] xs(1) j d(1) by auto
    have "route su penalty ?offs start (map (cell_of ?n) p) goal d"
      using p(2) index_in_grid [OF cells(1)] index_in_grid [OF cells(2)] by simp
    moreover have "astar su start goal diagonal penalty label
        = Some (Inr (finalise su (map (cell_of ?n) p) (sr_expanded s) label penalty))"
      using cells False Inr p(1) by (simp add: astar_def)
    ultimately show ?thesis using d(2) by (auto simp: finalise_def Let_def)
  qed
qed

lemma demo_in_grid: "in_grid demo_surface (0, 0)" "in_grid demo_surface (1, 1)"
  by (simp_all add: in_grid_def grid_n_def demo_surface_def demo_terrain_def build_cost_surface_def Let_def)

lemma neighbours_unit:
  "(dy, dx, mult) \<in> set (neighbours diagonal) \<Longrightarrow>
     \<bar>dy\<bar> + \<bar>dx\<bar> = 1 \<and> mult = 1 \<or> \<bar>dy\<bar> + \<bar>dx\<bar> = 2 \<and> mult = sqrt 2"
  by (auto simp: neighbours_def NEIGHBOURS_4_def NEIGHBOURS_8_def split: if_splits)

lemma demo_distance:
  "haversine_km (fst (cell_center demo_terrain a)) (snd (cell_center demo_terrain a))
     (fst (cell_center demo_terrain b)) (snd (cell_center demo_terrain b))
   \<le> 0.6 * real_of_int (\<bar>int (fst b) - int (fst a)\<bar> + \<bar>int (snd b) - int (snd a)\<bar>)"
proof -
  let ?y = "\<bar>real (fst b) - real (fst a)\<bar>" and ?x = "\<bar>real (snd b) - real (snd a)\<bar>"
  have "\<bar>radians (fst (cell_center demo_terrain a)) - radians (fst (cell_center demo_terrain b))\<bar> = ?y * pi / 45000"
       "\<bar>radians (snd (cell_center demo_terrain a)) - radians (snd (cell_center demo_terrain b))\<bar> = ?x * pi / 45000"
    by (auto simp: cell_center_def demo_terrain_def radians_def split_beta abs_if field_simps)
  then have "haversine_km (fst (cell_center demo_terrain a)) (snd (cell_center demo_terrain a))
      (fst (cell_center demo_terrain b)) (snd (cell_center demo_terrain b))
      \<le> EARTH_RADIUS_KM * (?y * pi / 45000 + ?x * pi / 45000)"
    using haversine_corner by metis
  also have "\<dots> = (EARTH_RADIUS_KM * pi / 45000) * (?y + ?x)"
    by (simp add: field_simps)
  also have "\<dots> \<le> 0.6 * (?y + ?x)"
    using pi_less_4 by (intro mult_right_mono) (simp_all add: EARTH_RADIUS_KM_def)
  finally show ?thesis by simp
qed

lemma demo_edges_measured: "edges_measured demo_surface (neighbours diagonal)"
  unfolding edges_measured_def
proof (intro allI impI)
  fix a dy dx mult b w
  assume off: "(dy, dx, mult) \<in> set (neighbours diagonal)"
    and mv: "move demo_surface None a (dy, dx, mult) = Some (b, w)"
  have g: "cu_grid demo_surface = demo_terrain" by (simp add: demo_surface_def build_cost_surface_def Let_def)
  have size: "cell_size_km demo_terrain = 1" by (simp add: cell_size_km_def demo_terrain_def)
  have "int (fst b) = int (fst a) + dy" "int (snd b) = int (snd a) + dx"
    using mv by (auto simp: move_def Let_def split: if_splits)
  then have "haversine_km (fst (cell_center demo_terrain a)) (snd (cell_center demo_terrain a))
      (fst (cell_center demo_terrain b)) (snd (cell_center demo_terrain b)) \<le> 0.6 * real_of_int (\<bar>dy\<bar> + \<bar>dx\<bar>)"
    using demo_distance [of a b] by simp
  also have "\<dots> \<le> mult"
    using neighbours_unit [OF off] real_le_rsqrt [of "1.2" 2] by (auto simp: power2_eq_square)
  finally show "haversine_km (fst (cell_center (cu_grid demo_surface) a)) (snd (cell_center (cu_grid demo_surface) a))
      (fst (cell_center (cu_grid demo_surface) b)) (snd (cell_center (cu_grid demo_surface) b))
      \<le> cell_size_km (cu_grid demo_surface) * mult"
    by (simp add: g size)
qed

theorem astar_terminates_witness:
  "case astar demo_surface (0, 0) (1, 1) False None ''primary'' of None \<Rightarrow> False | Some _ \<Rightarrow> True"
  using astar_terminates [OF demo_in_grid, where diagonal = False and penalty = None and label = "''primary''"]
  by (simp split: option.splits)

theorem astar_optimal_witness:
  "case astar demo_surface (0, 0) (1, 1) False None ''primary'' of
     Some (Inr r) \<Rightarrow> \<exists>best. route demo_surface None (neighbours False) (0, 0) (rr_cells r) (1, 1) best
        \<and> (\<forall>cs cost. route demo_surface None (neighbours False) (0, 0) cs (1, 1) cost \<longrightarrow> best \<le> cost)
   | _ \<Rightarrow> is_blocked demo_surface (0, 0) \<or> is_blocked demo_surface (1, 1)
        \<or> \<not> (\<exists>cs cost. route demo_surface None (neighbours False) (0, 0) cs (1, 1) cost)"
proof (rule astar_optimal [OF demo_surface_def default_weights_nonneg])
  show "0 \<le> tg_radius_km demo_terrain" by (simp add: demo_terrain_def)
  show "penalty_nonneg None" by (simp add: penalty_nonneg_def)
qed (rule demo_edges_measured demo_in_grid)+

subsection \<open>Routes over several points and alternatives\<close>

text \<open>The legs join up: each goes from one point to the next one.\<close>

fun joined :: "cost_surface \<Rightarrow> layer option \<Rightarrow> offset list \<Rightarrow> cell list \<Rightarrow> route_result list \<Rightarrow> bool" where
  "joined su penalty offs (a # b # ps) (r # rs) \<longleftrightarrow>
     (\<exists>c. route su penalty offs a (rr_cells r) b c) \<and> joined su penalty offs (b # ps) rs"
| "joined su penalty offs [a] [] \<longleftrightarrow> True"
| "joined su penalty offs _ _ \<longleftrightarrow> False"

lemma astar_route:
  assumes "in_grid su a" "in_grid su b"
  shows "astar su a b diagonal penalty label \<noteq> None"
    and "astar su a b diagonal penalty label = Some (Inr r) \<Longrightarrow>
       \<exists>c. route su penalty (neighbours diagonal) a (rr_cells r) b c"
    and "astar su a b diagonal penalty label = Some (Inr r) \<Longrightarrow> \<not> is_blocked su a"
    and "astar su a b diagonal penalty label = Some (Inl e) \<Longrightarrow> \<exists>m reason. e = No_Route m reason"
  subgoal using astar_returns [OF assms, where diagonal = diagonal and penalty = penalty and label = label] by (auto split: option.splits)
  subgoal using astar_returns [OF assms, where diagonal = diagonal and penalty = penalty and label = label] by simp
  subgoal by (simp add: astar_def split: if_splits)
  subgoal using astar_returns [OF assms, where diagonal = diagonal and penalty = penalty and label = label]
    by (auto simp: start_blocked_def goal_blocked_def unreachable_def)
  done

lemma legs_joined:
  assumes "list_all (in_grid su) ps" "ps \<noteq> []"
  shows "case legs su ps diagonal penalty label of
           None \<Rightarrow> False
         | Some (Inl e) \<Rightarrow> \<exists>m reason. e = No_Route m reason
         | Some (Inr rs) \<Rightarrow> joined su penalty (neighbours diagonal) ps rs \<and> (2 \<le> length ps \<longrightarrow> \<not> is_blocked su (hd ps))"
  using assms
proof (induction su ps diagonal penalty label rule: legs.induct)
  case (1 su a b ps diagonal penalty label)
  have g: "in_grid su a" "in_grid su b" "list_all (in_grid su) (b # ps)" using 1(2) by simp_all
  note A = astar_route [OF g(1,2), where diagonal = diagonal and penalty = penalty and label = label]
  obtain x where x: "astar su a b diagonal penalty label = Some x" using A(1) by blast
  show ?case
  proof (cases x)
    case (Inl e)
    with x A(4) [of e] show ?thesis by simp
  next
    case (Inr r)
    with 1(1) [OF x, of r] g(3) x A(2,3) [of r] show ?thesis
      by (auto split: option.splits sum.splits)
  qed
qed simp_all

lemma route_append:
  assumes r: "route su penalty offs a cs b c" and q: "route su penalty offs b ds d c'"
  shows "route su penalty offs a (cs @ tl ds) d (c + c')"
  using q
proof (induction rule: route.induct)
  case here
  with r show ?case by simp
next
  case (step ds d c' d' w)
  have "ds \<noteq> []" using route_ends [OF step.hyps(1)] by simp
  with route.step [OF step.IH step.hyps(2)] show ?case by (simp add: add.assoc)
qed

lemma joined_merge:
  "joined su penalty offs ps rs \<Longrightarrow> rs \<noteq> [] \<Longrightarrow>
     (\<exists>c. route su penalty offs (hd ps) (merge_legs rs) (last ps) c) \<and> set ps \<subseteq> set (merge_legs rs)"
proof (induction su penalty offs ps rs rule: joined.induct)
  case (1 su penalty offs a b ps r rs)
  obtain c where r: "route su penalty offs a (rr_cells r) b c" and j: "joined su penalty offs (b # ps) rs"
    using 1(2) by auto
  show ?case
  proof (cases rs)
    case Nil
    with j have "ps = []" by (cases ps) auto
    with Nil r route_ends [OF r] show ?thesis by (auto intro: last_in_set hd_in_set)
  next
    case (Cons r2 rs')
    with 1(1) [OF j] obtain c' where
      q: "route su penalty offs b (merge_legs rs) (last (b # ps)) c'" "set (b # ps) \<subseteq> set (merge_legs rs)" by auto
    have ne: "rr_cells r2 \<noteq> []" using j Cons route_ends by (cases ps) fastforce+
    have m: "merge_legs (r # rs) = rr_cells r @ tl (merge_legs rs)" using Cons ne by simp
    have "b \<in> set (rr_cells r)" "a \<in> set (rr_cells r)" using route_ends [OF r] by auto
    moreover have "set (merge_legs rs) \<subseteq> insert b (set (tl (merge_legs rs)))"
      using route_ends [OF q(1)] by (metis eq_refl list.collapse list.simps(15))
    ultimately have "set (a # b # ps) \<subseteq> set (merge_legs (r # rs))" unfolding m using q(2) by auto
    moreover have "\<exists>c. route su penalty offs a (merge_legs (r # rs)) (last (a # b # ps)) c"
      unfolding m using route_append [OF r q(1)] by auto
    ultimately show ?thesis by simp
  qed
qed auto

text \<open>A usable route: it joins the points and enters no blocked cell.\<close>

definition usable :: "cost_surface \<Rightarrow> offset list \<Rightarrow> cell list \<Rightarrow> cell list \<Rightarrow> bool" where
  "usable su offs points cells \<longleftrightarrow>
     (\<exists>penalty c. route su penalty offs (hd points) cells (last points) c)
     \<and> set points \<subseteq> set cells \<and> list_all (\<lambda>x. in_grid su x \<and> \<not> is_blocked su x) cells"

lemma route_through_ok:
  assumes g: "list_all (in_grid su) points" and two: "2 \<le> length points"
  shows "case route_through su points diagonal penalty label of
           None \<Rightarrow> False
         | Some (Inl e) \<Rightarrow> \<exists>m reason. e = No_Route m reason
         | Some (Inr r) \<Rightarrow> usable su (neighbours diagonal) points (rr_cells r)"
proof -
  have ne: "points \<noteq> []" using two by auto
  note L = legs_joined [OF g ne, where diagonal = diagonal and penalty = penalty and label = label]
  show ?thesis
  proof (cases "legs su points diagonal penalty label")
    case None
    with L show ?thesis by simp
  next
    case (Some x)
    show ?thesis
    proof (cases x)
      case (Inl e)
      with L Some two show ?thesis by (simp add: route_through_def)
    next
      case (Inr ls)
      with L Some two have j: "joined su penalty (neighbours diagonal) points ls" and nb: "\<not> is_blocked su (hd points)"
        by simp_all
      have "ls \<noteq> []" using j two by (cases points rule: list.exhaust; cases "tl points") auto
      from joined_merge [OF j this] obtain c where
        c: "route su penalty (neighbours diagonal) (hd points) (merge_legs ls) (last points) c"
        "set points \<subseteq> set (merge_legs ls)" by blast
      have "in_grid su (hd points)" using g ne by (cases points) simp_all
      from route_avoids_blocked [OF c(1) this nb] c have "usable su (neighbours diagonal) points (merge_legs ls)"
        by (auto simp: usable_def list_all_iff)
      with Some Inr two show ?thesis by (simp add: route_through_def finalise_def Let_def)
    qed
  qed
qed

definition distinct_routes :: "route_result \<Rightarrow> route_result list \<Rightarrow> bool" where
  "distinct_routes primary rs \<longleftrightarrow>
     list_all (\<lambda>r. overlap r primary \<le> 0.85) rs \<and> sorted_wrt (\<lambda>a b. overlap b a \<le> 0.85) rs"

lemma alternatives_loop_ok:
  assumes "list_all (in_grid su) points" "2 \<le> length points" "distinct_routes primary results"
    and "list_all (\<lambda>r. usable su (neighbours diagonal) points (rr_cells r)) results"
  shows "\<exists>rs. alternatives_loop m i su points primary diagonal k scale penalty results = Some (Inr rs)
     \<and> length rs \<le> length results + m \<and> distinct_routes primary rs
     \<and> list_all (\<lambda>r. usable su (neighbours diagonal) points (rr_cells r)) rs"
  using assms
proof (induction m arbitrary: i penalty results)
  case (Suc m)
  note ok = route_through_ok [OF Suc.prems(1,2), where diagonal = diagonal and penalty = "Some penalty"
      and label = "''alternative-'' @ show_nat (i + 1)"]
  obtain x where x: "route_through su points diagonal (Some penalty) (''alternative-'' @ show_nat (i + 1)) = Some x"
    using ok by (auto split: option.splits)
  show ?case
  proof (cases x)
    case (Inl e)
    with ok x obtain m' reason where "e = No_Route m' reason" by auto
    with x Inl Suc.prems show ?thesis by simp
  next
    case (Inr alt)
    let ?p = "add_corridor k scale alt penalty"
    have u: "usable su (neighbours diagonal) points (rr_cells alt)" using ok x Inr by simp
    show ?thesis
    proof (cases "overlap alt primary > 0.85 \<or> list_ex (\<lambda>r. overlap alt r > 0.85) results")
      case True
      with Suc.IH [OF Suc.prems, of "i + 1" ?p] x Inr show ?thesis by force
    next
      case False
      then have "distinct_routes primary (results @ [alt])"
        using Suc.prems(3) by (auto simp: distinct_routes_def sorted_wrt_append list_ex_iff not_less)
      with Suc.IH [OF Suc.prems(1,2), of "results @ [alt]" "i + 1" ?p] u Suc.prems(4) x Inr False show ?thesis by auto
    qed
  qed
qed simp

text \<open>
  Alternative routes are real alternatives. For two or more points of the grid the call
  returns at most as many routes as asked for; each of them joins the points and avoids every
  blocked cell, shares at most 85% of its cells with the primary route and at most 85% with any
  alternative found before it; and neither a missing route nor anything else makes it raise.
\<close>

theorem alternatives_distinct:
  assumes "list_all (in_grid su) points" "2 \<le> length points"
  shows "\<exists>rs. alternative_routes su points primary diagonal count k strength = Some (Inr rs)
     \<and> length rs \<le> count \<and> list_all (\<lambda>r. usable su (neighbours diagonal) points (rr_cells r)) rs
     \<and> list_all (\<lambda>r. overlap r primary \<le> 0.85) rs \<and> sorted_wrt (\<lambda>a b. overlap b a \<le> 0.85) rs"
  unfolding alternative_routes_def Let_def
  using alternatives_loop_ok [OF assms, of primary "[]"] by (fastforce simp: distinct_routes_def)

definition demo_primary :: route_result where
  "demo_primary = finalise demo_surface [(0, 0), (1, 0), (1, 1)] 3 ''primary'' None"

theorem alternatives_distinct_witness:
  "\<exists>rs. alternative_routes demo_surface [(0, 0), (1, 1)] demo_primary False 2 2 (8 / 5) = Some (Inr rs) \<and> length rs \<le> 2"
  using alternatives_distinct [of demo_surface "[(0, 0), (1, 1)]", where primary = demo_primary and diagonal = False
      and count = 2 and k = 2 and strength = "8 / 5"] demo_in_grid by auto

end
