(* ===== verification/DecisionStore.thy ===== *)
theory DecisionStore
  imports Prelude "HOL-Library.List_Lexorder" "HOL-Library.Char_ord"
begin

text \<open>
  The decision loop's persistence (\<open>app/api/core/decision_store.py\<close>): response plans, their
  lifecycle and their audit log. The database is a record of its tables; a statement acts on it
  or raises, as an arbitrary function \<open>ora\<close> of the statement and the tables says (constraints,
  lost connections); a JSON column holds the dictionary that is dumped into it. Transactions
  run one after the other: the rows are locked \<open>FOR UPDATE\<close>.
\<close>

subsection \<open>The lifecycle\<close>

datatype lifecycle_state =
    DRAFT | SIMULATED | READY_FOR_REVIEW | APPROVED | REJECTED | EXECUTING | COMPLETED | MEASURED | LEARNED

fun lifecycle_value :: "lifecycle_state \<Rightarrow> string" where
  "lifecycle_value DRAFT = ''DRAFT''"
| "lifecycle_value SIMULATED = ''SIMULATED''"
| "lifecycle_value READY_FOR_REVIEW = ''READY_FOR_REVIEW''"
| "lifecycle_value APPROVED = ''APPROVED''"
| "lifecycle_value REJECTED = ''REJECTED''"
| "lifecycle_value EXECUTING = ''EXECUTING''"
| "lifecycle_value COMPLETED = ''COMPLETED''"
| "lifecycle_value MEASURED = ''MEASURED''"
| "lifecycle_value LEARNED = ''LEARNED''"

definition lifecycle_states :: "lifecycle_state list" where
  "lifecycle_states =
     [DRAFT, SIMULATED, READY_FOR_REVIEW, APPROVED, REJECTED, EXECUTING, COMPLETED, MEASURED, LEARNED]"

text \<open>\<open>LifecycleState(v)\<close>; \<open>None\<close> where it raises \<open>ValueError\<close>\<close>

definition parse_lifecycle :: "string \<Rightarrow> lifecycle_state option" where
  "parse_lifecycle v = find (\<lambda>s. lifecycle_value s = v) lifecycle_states"

fun TRANSITIONS :: "lifecycle_state \<Rightarrow> lifecycle_state list" where
  "TRANSITIONS DRAFT = [SIMULATED, REJECTED]"
| "TRANSITIONS SIMULATED = [READY_FOR_REVIEW, DRAFT, REJECTED]"
| "TRANSITIONS READY_FOR_REVIEW = [APPROVED, REJECTED, DRAFT]"
| "TRANSITIONS APPROVED = [EXECUTING, REJECTED]"
| "TRANSITIONS REJECTED = [DRAFT]"
| "TRANSITIONS EXECUTING = [COMPLETED]"
| "TRANSITIONS COMPLETED = [MEASURED]"
| "TRANSITIONS MEASURED = [LEARNED]"
| "TRANSITIONS LEARNED = []"

definition can_transition :: "lifecycle_state \<Rightarrow> lifecycle_state \<Rightarrow> bool" where
  "can_transition current target \<longleftrightarrow> target \<in> set (TRANSITIONS current)"

definition allowed_from :: "lifecycle_state \<Rightarrow> string list" where
  "allowed_from current = sort (map lifecycle_value (TRANSITIONS current))"

subsection \<open>Tables\<close>

record plan_row =
  pr_id :: nat
  pr_ref :: string
  pr_incident :: "int option"
  pr_mine_id :: string
  pr_state :: string
  pr_fields :: dict

record audit_entry =
  ae_event_type :: string
  ae_actor_id :: string
  ae_actor_role :: string
  ae_entity_type :: string
  ae_entity_id :: string
  ae_payload :: dict

record action_row =
  ac_plan_id :: nat
  ac_position :: nat
  ac_fields :: dict

record approval_row =
  ap_plan_id :: nat
  ap_required_role :: string
  ap_decision :: string
  ap_actor_id :: string
  ap_actor_role :: string
  ap_rationale :: "string option"
  ap_modifications :: "dict option"

record incident_event =
  ie_incident_id :: int
  ie_event_type :: string
  ie_actor_id :: string
  ie_description :: string
  ie_payload :: dict

text \<open>\<open>db_next_id\<close> is the sequence of \<open>response_plans.id\<close>: above every identity it gave out.\<close>

record gov_db =
  db_plans :: "plan_row list"
  db_next_id :: nat
  db_actions :: "action_row list"
  db_approvals :: "approval_row list"
  db_audit :: "audit_entry list"
  db_events :: "incident_event list"

datatype statement =
    Select_Next_Ref
  | Insert_Plan plan_row
  | Insert_Action action_row
  | Insert_Audit audit_entry
  | Insert_Event incident_event
  | Select_Plan nat
  | Update_State nat string
  | Insert_Approval approval_row
  | Commit

type_synonym db_oracle = "statement \<Rightarrow> gov_db \<Rightarrow> exn option"

fun apply_statement :: "statement \<Rightarrow> gov_db \<Rightarrow> gov_db" where
  "apply_statement (Insert_Plan p) db =
     db\<lparr>db_plans := db_plans db @ [p\<lparr>pr_id := db_next_id db\<rparr>], db_next_id := db_next_id db + 1\<rparr>"
| "apply_statement (Insert_Action a) db = db\<lparr>db_actions := db_actions db @ [a]\<rparr>"
| "apply_statement (Insert_Audit a) db = db\<lparr>db_audit := db_audit db @ [a]\<rparr>"
| "apply_statement (Insert_Event a) db = db\<lparr>db_events := db_events db @ [a]\<rparr>"
| "apply_statement (Update_State i v) db =
     db\<lparr>db_plans := map (\<lambda>p. if pr_id p = i then p\<lparr>pr_state := v\<rparr> else p) (db_plans db)\<rparr>"
| "apply_statement (Insert_Approval a) db = db\<lparr>db_approvals := db_approvals db @ [a]\<rparr>"
| "apply_statement _ db = db"

definition tx_execute :: "db_oracle \<Rightarrow> statement \<Rightarrow> gov_db \<Rightarrow> gov_db result" where
  "tx_execute ora st db = (case ora st db of Some e \<Rightarrow> Inl e | None \<Rightarrow> Inr (apply_statement st db))"

text \<open>\<open>with transaction() as tx\<close>: commit after the block, roll back when anything raises.\<close>

definition transaction :: "db_oracle \<Rightarrow> (gov_db \<Rightarrow> ('a \<times> gov_db) result) \<Rightarrow> gov_db \<Rightarrow> 'a result \<times> gov_db" where
  "transaction ora block db =
     (case block db of
        Inl e \<Rightarrow> (Inl e, db)
      | Inr (r, db1) \<Rightarrow>
          (case ora Commit db1 of Some e \<Rightarrow> (Inl e, db) | None \<Rightarrow> (Inr r, db1)))"

subsection \<open>Creating a plan\<close>

definition pad6 :: "nat \<Rightarrow> string" where
  "pad6 n = replicate (6 - length (show_nat n)) (CHR ''0'') @ show_nat n"

definition next_plan_ref :: "gov_db \<Rightarrow> string" where
  "next_plan_ref db = ''RP-'' @ pad6 (fold max (map pr_id (db_plans db)) 0 + 1)"

definition write_audit :: "db_oracle \<Rightarrow> audit_entry \<Rightarrow> gov_db \<Rightarrow> gov_db result" where
  "write_audit ora entry db = tx_execute ora (Insert_Audit entry) db"

text \<open>The actions in order; an action without a key or a title raises.\<close>

fun insert_actions :: "db_oracle \<Rightarrow> nat \<Rightarrow> nat \<Rightarrow> dict list \<Rightarrow> gov_db \<Rightarrow> gov_db result" where
  "insert_actions ora plan_id position [] db = Inr db"
| "insert_actions ora plan_id position (a # as) db =
     (if map_of a ''key'' = None then Inl (Exn ''KeyError'' (sq ''key''))
      else if map_of a ''title'' = None then Inl (Exn ''KeyError'' (sq ''title''))
      else
        (case tx_execute ora (Insert_Action \<lparr>ac_plan_id = plan_id, ac_position = position, ac_fields = a\<rparr>) db of
           Inl e \<Rightarrow> Inl e
         | Inr db1 \<Rightarrow> insert_actions ora plan_id (position + 1) as db1))"

record create_request =
  cr_mine_id :: string
  cr_objective :: string
  cr_created_by :: string
  cr_actor_role :: string
  cr_incident_id :: "int option"
  cr_actions :: "dict list"
  cr_fields :: dict

record created_plan =
  cp_id :: nat
  cp_ref :: string
  cp_state :: string

definition opt_event :: "db_oracle \<Rightarrow> incident_event option \<Rightarrow> gov_db \<Rightarrow> gov_db result" where
  "opt_event ora ev db = (case ev of None \<Rightarrow> Inr db | Some x \<Rightarrow> tx_execute ora (Insert_Event x) db)"

definition create_block :: "db_oracle \<Rightarrow> create_request \<Rightarrow> gov_db \<Rightarrow> (created_plan \<times> gov_db) result" where
  "create_block ora q db =
     (case ora Select_Next_Ref db of
        Some e \<Rightarrow> Inl e
      | None \<Rightarrow>
          (let ref' = next_plan_ref db; i = db_next_id db;
               row = \<lparr>pr_id = i, pr_ref = ref', pr_incident = cr_incident_id q, pr_mine_id = cr_mine_id q,
                      pr_state = ''SIMULATED'', pr_fields = cr_fields q\<rparr>;
               audit = \<lparr>ae_event_type = ''response_plan.created'', ae_actor_id = cr_created_by q,
                        ae_actor_role = cr_actor_role q, ae_entity_type = ''response_plan'',
                        ae_entity_id = ref',
                        ae_payload = [(''mine_id'', PStr (cr_mine_id q)), (''objective'', PStr (cr_objective q)),
                          (''action_count'', PInt (int (length (cr_actions q))))]
                          @ filter (\<lambda>(k, v). k \<in> {''expected_delta_t'', ''calculation_mode'', ''evidence_quality''})
                              (cr_fields q)\<rparr>;
               event = map_option (\<lambda>inc. \<lparr>ie_incident_id = inc, ie_event_type = ''PLAN_GENERATED'',
                        ie_actor_id = cr_created_by q,
                        ie_description = ''Response plan '' @ ref' @ '' generated with ''
                          @ show_nat (length (cr_actions q)) @ '' action(s).'',
                        ie_payload = [(''plan_ref'', PStr ref')]\<rparr>) (cr_incident_id q)
           in (case tx_execute ora (Insert_Plan row) db of
                 Inl e \<Rightarrow> Inl e
               | Inr db1 \<Rightarrow>
                   (case insert_actions ora i 1 (cr_actions q) db1 of
                      Inl e \<Rightarrow> Inl e
                    | Inr db2 \<Rightarrow>
                        (case write_audit ora audit db2 of
                           Inl e \<Rightarrow> Inl e
                         | Inr db3 \<Rightarrow>
                             (case opt_event ora event db3 of
                                Inl e \<Rightarrow> Inl e
                              | Inr db4 \<Rightarrow>
                                  Inr (\<lparr>cp_id = i, cp_ref = ref', cp_state = ''SIMULATED''\<rparr>, db4)))))))"

definition create_plan :: "db_oracle \<Rightarrow> create_request \<Rightarrow> gov_db \<Rightarrow> created_plan result \<times> gov_db" where
  "create_plan ora q db = transaction ora (create_block ora q) db"

subsection \<open>Moving a plan\<close>

definition illegal_transition :: "string \<Rightarrow> string \<Rightarrow> string \<Rightarrow> exn" where
  "illegal_transition entity from to =
     Exn ''IllegalStateTransition'' (entity @ '' cannot move from '' @ from @ '' to '' @ to @ ''.'')"

record transition_request =
  tr_actor_id :: string
  tr_actor_role :: string
  tr_rationale :: "string option"
  tr_modifications :: "dict option"

fun incident_event_type :: "lifecycle_state \<Rightarrow> string option" where
  "incident_event_type APPROVED = Some ''PLAN_APPROVED''"
| "incident_event_type REJECTED = Some ''PLAN_REJECTED''"
| "incident_event_type EXECUTING = Some ''ACTION_STARTED''"
| "incident_event_type COMPLETED = Some ''ACTION_COMPLETED''"
| "incident_event_type MEASURED = Some ''OUTCOME_RECORDED''"
| "incident_event_type _ = None"

definition truthy_dict :: "dict option \<Rightarrow> bool" where
  "truthy_dict d = (case d of None \<Rightarrow> False | Some x \<Rightarrow> x \<noteq> [])"

definition transition_approval ::
  "db_oracle \<Rightarrow> nat \<Rightarrow> lifecycle_state \<Rightarrow> transition_request \<Rightarrow> gov_db \<Rightarrow> gov_db result" where
  "transition_approval ora plan_id target q db =
     (if target = APPROVED \<or> target = REJECTED
      then tx_execute ora (Insert_Approval
             \<lparr>ap_plan_id = plan_id, ap_required_role = tr_actor_role q,
              ap_decision = (if truthy_dict (tr_modifications q) then ''MODIFIED'' else lifecycle_value target),
              ap_actor_id = tr_actor_id q, ap_actor_role = tr_actor_role q, ap_rationale = tr_rationale q,
              ap_modifications = (if truthy_dict (tr_modifications q) then tr_modifications q else None)\<rparr>) db
      else Inr db)"

definition transition_audit :: "plan_row \<Rightarrow> lifecycle_state \<Rightarrow> lifecycle_state \<Rightarrow> transition_request \<Rightarrow> audit_entry" where
  "transition_audit p current target q =
     \<lparr>ae_event_type = ''response_plan.'' @ py_lower (lifecycle_value target), ae_actor_id = tr_actor_id q,
      ae_actor_role = tr_actor_role q, ae_entity_type = ''response_plan'', ae_entity_id = pr_ref p,
      ae_payload = [(''from'', PStr (lifecycle_value current)), (''to'', PStr (lifecycle_value target)),
        (''rationale'', opt_str (tr_rationale q)),
        (''modifications'', (case tr_modifications q of None \<Rightarrow> PNone | Some d \<Rightarrow> PDict d))]\<rparr>"

definition transition_event ::
  "plan_row \<Rightarrow> lifecycle_state \<Rightarrow> lifecycle_state \<Rightarrow> transition_request \<Rightarrow> incident_event option" where
  "transition_event p current target q =
     (case (pr_incident p, incident_event_type target) of
        (Some inc, Some ty) \<Rightarrow>
          Some \<lparr>ie_incident_id = inc, ie_event_type = ty, ie_actor_id = tr_actor_id q,
                ie_description = ''Plan '' @ pr_ref p @ '': '' @ lifecycle_value current @ '' to ''
                  @ lifecycle_value target @ ''.'',
                ie_payload = [(''rationale'', opt_str (tr_rationale q))]\<rparr>
      | _ \<Rightarrow> None)"

definition transition_block ::
  "db_oracle \<Rightarrow> nat \<Rightarrow> lifecycle_state \<Rightarrow> transition_request \<Rightarrow> gov_db
     \<Rightarrow> ((string \<times> lifecycle_state \<times> lifecycle_state) \<times> gov_db) result" where
  "transition_block ora plan_id target q db =
     (case ora (Select_Plan plan_id) db of
        Some e \<Rightarrow> Inl e
      | None \<Rightarrow>
          (case find (\<lambda>p. pr_id p = plan_id) (db_plans db) of
             None \<Rightarrow> Inl (illegal_transition ''Response plan'' ''UNKNOWN'' (lifecycle_value target))
           | Some p \<Rightarrow>
               (case parse_lifecycle (pr_state p) of
                  None \<Rightarrow> Inl (Exn ''ValueError'' (sq (pr_state p) @ '' is not a valid LifecycleState''))
                | Some current \<Rightarrow>
                    (if \<not> can_transition current target
                     then Inl (illegal_transition (''Response plan '' @ pr_ref p) (lifecycle_value current)
                            (lifecycle_value target))
                     else
                       (case tx_execute ora (Update_State plan_id (lifecycle_value target)) db of
                          Inl e \<Rightarrow> Inl e
                        | Inr db1 \<Rightarrow>
                            (case transition_approval ora plan_id target q db1 of
                               Inl e \<Rightarrow> Inl e
                             | Inr db2 \<Rightarrow>
                                 (case write_audit ora (transition_audit p current target q) db2 of
                                    Inl e \<Rightarrow> Inl e
                                  | Inr db3 \<Rightarrow>
                                      (case opt_event ora (transition_event p current target q) db3 of
                                         Inl e \<Rightarrow> Inl e
                                       | Inr db4 \<Rightarrow> Inr ((pr_ref p, current, target), db4)))))))))"

definition transition_plan ::
  "db_oracle \<Rightarrow> nat \<Rightarrow> lifecycle_state \<Rightarrow> transition_request \<Rightarrow> gov_db
     \<Rightarrow> (string \<times> lifecycle_state \<times> lifecycle_state) result \<times> gov_db" where
  "transition_plan ora plan_id target q db = transaction ora (transition_block ora plan_id target q) db"

text \<open>Reading a plan back; \<open>ORDER BY position\<close> and \<open>ORDER BY decided_at\<close> are the orders of insertion.\<close>

definition get_plan :: "nat \<Rightarrow> gov_db \<Rightarrow> (plan_row \<times> action_row list \<times> approval_row list) option" where
  "get_plan plan_id db =
     (case find (\<lambda>p. pr_id p = plan_id) (db_plans db) of
        None \<Rightarrow> None
      | Some p \<Rightarrow> Some (p, sort_key ac_position (filter (\<lambda>a. ac_plan_id a = plan_id) (db_actions db)),
                           filter (\<lambda>a. ap_plan_id a = plan_id) (db_approvals db)))"

record plan_page =
  pp_items :: "plan_row list"
  pp_total :: nat
  pp_limit :: int
  pp_offset :: nat
  pp_has_more :: bool

definition list_plans :: "string \<Rightarrow> string option \<Rightarrow> int \<Rightarrow> nat \<Rightarrow> gov_db \<Rightarrow> plan_page" where
  "list_plans mine_id state limit offset db =
     (let limit' = max 1 (min limit 100);
          hits = filter (\<lambda>p. pr_mine_id p = mine_id \<and> (truthy_str state \<longrightarrow> Some (pr_state p) = state))
                   (db_plans db);
          rows = take (nat limit') (drop offset (rev hits))
      in \<lparr>pp_items = rows, pp_total = length hits, pp_limit = limit', pp_offset = offset,
           pp_has_more = offset + length rows < length hits\<rparr>)"

subsection \<open>References\<close>

text \<open>The number a text of digits stands for\<close>

definition digits_value :: "string \<Rightarrow> nat" where
  "digits_value s = fold (\<lambda>c n. n * 10 + (of_char c - 48)) s 0"

lemma digits_value_snoc: "digits_value (s @ [c]) = digits_value s * 10 + (of_char c - 48)"
  by (simp add: digits_value_def)

lemma of_char_digit: "n < 10 \<Longrightarrow> (of_char (char_of (48 + n) :: char) :: nat) = 48 + n"
  by simp

lemma digits_value_show_nat [simp]: "digits_value (show_nat n) = n"
proof (induction n rule: less_induct)
  case (less n)
  show ?case
  proof (cases "n < 10")
    case True
    then show ?thesis
      using of_char_digit [of n] by (subst show_nat.simps) (simp add: digits_value_def del: of_char_of)
  next
    case False
    then have "digits_value (show_nat (n div 10)) = n div 10"
      by (intro less.IH) simp
    moreover have "n mod 10 < 10"
      by simp
    ultimately show ?thesis
      using False of_char_digit [of "n mod 10"]
      by (subst show_nat.simps) (simp add: digits_value_snoc del: of_char_of)
  qed
qed

lemma digits_value_zeros: "digits_value (replicate k (CHR ''0'') @ s) = digits_value s"
  by (induction k) (simp_all add: digits_value_def)

lemma pad6_inject: "pad6 m = pad6 n \<longleftrightarrow> m = n"
  by (metis digits_value_show_nat digits_value_zeros pad6_def)

lemma fold_max_eq: "fold max xs (a :: nat) = Max (insert a (set xs))"
  by (simp flip: Max.set_eq_fold)

lemma fold_max_bound: "(\<And>x. x \<in> set xs \<Longrightarrow> x < (b :: nat)) \<Longrightarrow> a < b \<Longrightarrow> fold max xs a < b"
  by (simp add: fold_max_eq)

lemma fold_max_above: "x \<in> set xs \<Longrightarrow> x \<le> fold max xs (a :: nat)"
  by (simp add: fold_max_eq)

subsection \<open>What a committed call changes\<close>

text \<open>The tables but the actions and the incident timeline\<close>

definition core_tables :: "gov_db \<Rightarrow> plan_row list \<times> nat \<times> approval_row list \<times> audit_entry list" where
  "core_tables db = (db_plans db, db_next_id db, db_approvals db, db_audit db)"

lemma tx_execute_Inr: "tx_execute ora st db = Inr db' \<longleftrightarrow> ora st db = None \<and> db' = apply_statement st db"
  by (auto simp: tx_execute_def split: option.splits)

lemma insert_actions_core: "insert_actions ora i n as db = Inr db' \<Longrightarrow> core_tables db' = core_tables db"
  by (induction ora i n as db rule: insert_actions.induct)
     (auto simp: tx_execute_Inr core_tables_def split: if_splits sum.splits)

lemma opt_event_core: "opt_event ora ev db = Inr db' \<Longrightarrow> core_tables db' = core_tables db"
  by (auto simp: opt_event_def tx_execute_Inr core_tables_def split: option.splits)

lemma transaction_cases:
  assumes "transaction ora block db = (r, db')"
  obtains e where "r = Inl e" "db' = db" | x where "r = Inr x" "block db = Inr (x, db')" "ora Commit db' = None"
  using assms by (auto simp: transaction_def split: sum.splits option.splits prod.splits)

lemma create_block_Inr:
  assumes "create_block ora q db = Inr (c, db')"
  obtains row entry where
    "core_tables db' = (db_plans db @ [row], db_next_id db + 1, db_approvals db, db_audit db @ [entry])"
    "pr_id row = db_next_id db" "pr_ref row = next_plan_ref db" "pr_state row = ''SIMULATED''"
    "ae_event_type entry = ''response_plan.created''" "ae_entity_id entry = next_plan_ref db"
    "c = \<lparr>cp_id = db_next_id db, cp_ref = next_plan_ref db, cp_state = ''SIMULATED''\<rparr>"
proof -
  let ?row = "\<lparr>pr_id = db_next_id db, pr_ref = next_plan_ref db, pr_incident = cr_incident_id q,
    pr_mine_id = cr_mine_id q, pr_state = ''SIMULATED'', pr_fields = cr_fields q\<rparr>"
  from assms obtain entry ev db2 db4 where
      ins: "insert_actions ora (db_next_id db) 1 (cr_actions q) (apply_statement (Insert_Plan ?row) db) = Inr db2"
    and ev: "opt_event ora ev (apply_statement (Insert_Audit entry) db2) = Inr db4"
    and entry: "ae_event_type entry = ''response_plan.created''" "ae_entity_id entry = next_plan_ref db"
    and res: "c = \<lparr>cp_id = db_next_id db, cp_ref = next_plan_ref db, cp_state = ''SIMULATED''\<rparr>" "db' = db4"
    by (auto simp: create_block_def Let_def tx_execute_Inr write_audit_def split: option.splits sum.splits)
  have "core_tables db' = (db_plans db @ [?row], db_next_id db + 1, db_approvals db, db_audit db @ [entry])"
    using insert_actions_core [OF ins] opt_event_core [OF ev] res by (simp add: core_tables_def)
  then show thesis
    by (rule that) (use entry res in simp_all)
qed

text \<open>One row's state is overwritten.\<close>

definition set_state :: "nat \<Rightarrow> string \<Rightarrow> plan_row list \<Rightarrow> plan_row list" where
  "set_state i v ps = map (\<lambda>p. if pr_id p = i then p\<lparr>pr_state := v\<rparr> else p) ps"

lemma set_state_keys [simp]:
  "map pr_id (set_state i v ps) = map pr_id ps" "map pr_ref (set_state i v ps) = map pr_ref ps"
  by (simp_all add: set_state_def)

lemma set_stateE:
  assumes "p \<in> set (set_state i v ps)"
  obtains "p \<in> set ps" "pr_id p \<noteq> i" | p0 where "p0 \<in> set ps" "pr_id p0 = i" "p = p0\<lparr>pr_state := v\<rparr>"
  using assms by (auto simp: set_state_def split: if_splits)

lemma transition_block_Inr:
  assumes "transition_block ora i target q db = Inr (r, db')"
  obtains p current where
    "p \<in> set (db_plans db)" "pr_id p = i" "parse_lifecycle (pr_state p) = Some current"
    "can_transition current target" "r = (pr_ref p, current, target)"
    "db_plans db' = set_state i (lifecycle_value target) (db_plans db)" "db_next_id db' = db_next_id db"
    "db_audit db' = db_audit db @ [transition_audit p current target q]"
    "set (db_approvals db) \<subseteq> set (db_approvals db')"
    "target = APPROVED \<longrightarrow> (\<exists>a \<in> set (db_approvals db'). ap_plan_id a = i \<and> ap_decision a \<in> {''APPROVED'', ''MODIFIED''})"
proof -
  from assms obtain p current db1 db2 db3 where
      f: "find (\<lambda>p. pr_id p = i) (db_plans db) = Some p"
    and c: "parse_lifecycle (pr_state p) = Some current" "can_transition current target"
    and up: "db1 = apply_statement (Update_State i (lifecycle_value target)) db"
    and ap: "transition_approval ora i target q db1 = Inr db2"
    and au: "db3 = apply_statement (Insert_Audit (transition_audit p current target q)) db2"
    and ev: "opt_event ora (transition_event p current target q) db3 = Inr db'"
    and r: "r = (pr_ref p, current, target)"
    by (auto simp: transition_block_def tx_execute_Inr write_audit_def split: option.splits sum.splits if_splits)
  have p: "p \<in> set (db_plans db)" "pr_id p = i"
    using find_SomeD [OF f] by auto
  have core: "core_tables db' = core_tables db3"
    by (rule opt_event_core [OF ev])
  have tabs: "db_plans db2 = db_plans db1" "db_next_id db2 = db_next_id db1" "db_audit db2 = db_audit db1"
      "set (db_approvals db1) \<subseteq> set (db_approvals db2)"
      "target = APPROVED \<longrightarrow> (\<exists>a \<in> set (db_approvals db2). ap_plan_id a = i \<and> ap_decision a \<in> {''APPROVED'', ''MODIFIED''})"
    using ap by (auto simp: transition_approval_def tx_execute_Inr split: if_splits)
  have "db_plans db' = set_state i (lifecycle_value target) (db_plans db)"
       "db_next_id db' = db_next_id db" "db_audit db' = db_audit db @ [transition_audit p current target q]"
       "db_approvals db' = db_approvals db2" "set (db_approvals db) \<subseteq> set (db_approvals db2)"
    using core tabs(1-4) by (simp_all add: core_tables_def up au set_state_def)
  with that [OF p c r] tabs(5) show thesis
    by simp
qed

subsection \<open>Histories\<close>

text \<open>
  The states that calls reach from the empty tables: creations and moves whose statements fail
  wherever they may, and identities that the sequence hands out and a rollback throws away.
\<close>

inductive gov_step :: "gov_db \<Rightarrow> gov_db \<Rightarrow> bool" where
  created: "create_plan ora q db = (r, db') \<Longrightarrow> gov_step db db'"
| moved: "transition_plan ora i target q db = (r, db') \<Longrightarrow> gov_step db db'"
| skipped: "gov_step db (db\<lparr>db_next_id := db_next_id db + k\<rparr>)"

definition empty_gov :: gov_db where
  "empty_gov = \<lparr>db_plans = [], db_next_id = 1, db_actions = [], db_approvals = [], db_audit = [], db_events = []\<rparr>"

inductive gov_reach :: "gov_db \<Rightarrow> bool" where
  start: "gov_reach empty_gov"
| step: "gov_reach db \<Longrightarrow> gov_step db db' \<Longrightarrow> gov_reach db'"

text \<open>
  The abstract machine that the audit log drives: a plan enters at \<open>SIMULATED\<close> when its creation
  is logged, and an entry moves it when it names the plan's state and a permitted edge.
\<close>

definition payload_state :: "string \<Rightarrow> audit_entry \<Rightarrow> lifecycle_state option" where
  "payload_state k e = (case map_of (ae_payload e) k of Some (PStr v) \<Rightarrow> parse_lifecycle v | _ \<Rightarrow> None)"

definition replay_entry ::
  "audit_entry \<Rightarrow> (string \<Rightarrow> lifecycle_state option) \<Rightarrow> (string \<Rightarrow> lifecycle_state option)" where
  "replay_entry e m =
     (if ae_event_type e = ''response_plan.created'' then m(ae_entity_id e := Some SIMULATED)
      else
        (case (payload_state ''from'' e, payload_state ''to'' e) of
           (Some a, Some b) \<Rightarrow>
             if m (ae_entity_id e) = Some a \<and> can_transition a b then m(ae_entity_id e := Some b)
             else m(ae_entity_id e := None)
         | _ \<Rightarrow> m(ae_entity_id e := None)))"

definition replay_log :: "audit_entry list \<Rightarrow> string \<Rightarrow> lifecycle_state option" where
  "replay_log es = fold replay_entry es Map.empty"

lemma replay_snoc: "replay_log (es @ [e]) = replay_entry e (replay_log es)"
  by (simp add: replay_log_def)

lemma parse_lifecycle_value [simp]: "parse_lifecycle (lifecycle_value s) = Some s"
  by (cases s) (simp_all add: parse_lifecycle_def lifecycle_states_def)

lemma parse_lifecycle_Some: "parse_lifecycle v = Some s \<Longrightarrow> v = lifecycle_value s"
  by (auto simp: parse_lifecycle_def dest: find_SomeD)

lemma lower_value_not_created: "py_lower (lifecycle_value s) \<noteq> ''created''"
proof -
  have "length (py_lower (lifecycle_value s)) \<noteq> 7 \<or> s = LEARNED"
    by (cases s) (simp_all add: py_lower_def)
  moreover have "py_lower ''LEARNED'' \<noteq> ''created''"
    by code_simp
  ultimately show ?thesis
    by auto
qed

lemma replay_transition:
  "replay_log es (pr_ref p) = Some current \<Longrightarrow> can_transition current target \<Longrightarrow>
     replay_log (es @ [transition_audit p current target q]) = (replay_log es)(pr_ref p := Some target)"
  by (simp add: replay_snoc replay_entry_def transition_audit_def payload_state_def lower_value_not_created)

subsection \<open>The ledger invariant\<close>

definition authorised :: "lifecycle_state \<Rightarrow> bool" where
  "authorised s \<longleftrightarrow> s \<in> {APPROVED, EXECUTING, COMPLETED, MEASURED, LEARNED}"

definition has_approval :: "gov_db \<Rightarrow> nat \<Rightarrow> bool" where
  "has_approval db i \<longleftrightarrow>
     (\<exists>a \<in> set (db_approvals db). ap_plan_id a = i \<and> ap_decision a \<in> {''APPROVED'', ''MODIFIED''})"

text \<open>What the row of a plan says, the log reconstructs; an authorised plan has its approval on file.\<close>

definition plan_logged :: "gov_db \<Rightarrow> plan_row \<Rightarrow> bool" where
  "plan_logged db p \<longleftrightarrow>
     (\<exists>s. pr_state p = lifecycle_value s \<and> replay_log (db_audit db) (pr_ref p) = Some s
        \<and> (authorised s \<longrightarrow> has_approval db (pr_id p)))"

definition keys_fresh :: "gov_db \<Rightarrow> bool" where
  "keys_fresh db \<longleftrightarrow> 1 \<le> db_next_id db \<and> distinct (map pr_id (db_plans db)) \<and> distinct (map pr_ref (db_plans db))
     \<and> (\<forall>p \<in> set (db_plans db). pr_id p < db_next_id db
          \<and> (\<exists>n. pr_ref p = ''RP-'' @ pad6 n \<and> n \<le> pr_id p))"

definition gov_inv :: "gov_db \<Rightarrow> bool" where
  "gov_inv db \<longleftrightarrow> keys_fresh db \<and> (\<forall>p \<in> set (db_plans db). plan_logged db p)"

lemma next_ref_fresh:
  assumes "keys_fresh db" "p \<in> set (db_plans db)"
  shows "pr_ref p \<noteq> next_plan_ref db"
proof -
  obtain n where n: "pr_ref p = ''RP-'' @ pad6 n" "n \<le> pr_id p"
    using assms by (auto simp: keys_fresh_def)
  have "pr_id p \<le> fold max (map pr_id (db_plans db)) 0"
    using assms(2) by (intro fold_max_above) simp
  with n show ?thesis
    by (simp add: next_plan_ref_def pad6_inject)
qed

lemma next_ref_bound:
  assumes "keys_fresh db"
  shows "fold max (map pr_id (db_plans db)) 0 + 1 \<le> db_next_id db"
proof -
  have "fold max (map pr_id (db_plans db)) 0 < db_next_id db"
    using assms by (intro fold_max_bound) (auto simp: keys_fresh_def)
  then show ?thesis
    by simp
qed

lemma keys_fresh_create:
  assumes "keys_fresh db" "db_plans db' = db_plans db @ [row]" "db_next_id db' = db_next_id db + 1"
    "pr_id row = db_next_id db" "pr_ref row = next_plan_ref db"
  shows "keys_fresh db'"
proof -
  have "\<exists>n. pr_ref row = ''RP-'' @ pad6 n \<and> n \<le> pr_id row"
    using next_ref_bound [OF assms(1)] assms(4,5) by (auto simp: next_plan_ref_def)
  moreover have "pr_ref row \<notin> pr_ref ` set (db_plans db)"
    using next_ref_fresh [OF assms(1)] assms(5) by force
  moreover have "pr_id row \<notin> pr_id ` set (db_plans db)"
    using assms(1,4) by (auto simp: keys_fresh_def)
  ultimately show ?thesis
    using assms(1-4) by (auto simp: keys_fresh_def)
qed

lemma keys_fresh_move:
  assumes "keys_fresh db" "db_plans db' = set_state i v (db_plans db)" "db_next_id db' = db_next_id db"
  shows "keys_fresh db'"
proof -
  have "pr_id p < db_next_id db \<and> (\<exists>n. pr_ref p = ''RP-'' @ pad6 n \<and> n \<le> pr_id p)"
    if "p \<in> set (set_state i v (db_plans db))" for p
    using that assms(1) by (auto simp: keys_fresh_def elim!: set_stateE)
  then show ?thesis
    using assms by (simp add: keys_fresh_def)
qed

lemma gov_inv_create:
  assumes inv: "gov_inv db" and run: "create_plan ora q db = (r, db')"
  shows "gov_inv db'"
  using run [unfolded create_plan_def]
proof (cases rule: transaction_cases)
  case (2 c)
  from 2(2) obtain row entry where core: "core_tables db' =
        (db_plans db @ [row], db_next_id db + 1, db_approvals db, db_audit db @ [entry])"
      and row: "pr_id row = db_next_id db" "pr_ref row = next_plan_ref db" "pr_state row = ''SIMULATED''"
      and entry: "ae_event_type entry = ''response_plan.created''" "ae_entity_id entry = next_plan_ref db"
    by (rule create_block_Inr)
  have fresh: "keys_fresh db"
    using inv by (simp add: gov_inv_def)
  have replay_log: "replay_log (db_audit db') = (replay_log (db_audit db))(next_plan_ref db := Some SIMULATED)"
    using core entry by (simp add: core_tables_def replay_snoc replay_entry_def)
  have "plan_logged db' row"
    using row replay_log by (auto simp: plan_logged_def authorised_def intro!: exI [of _ SIMULATED])
  moreover have "plan_logged db' p" if "p \<in> set (db_plans db)" for p
    using inv that next_ref_fresh [OF fresh that] core replay_log
    by (auto simp: gov_inv_def plan_logged_def has_approval_def core_tables_def)
  moreover have "keys_fresh db'"
    using keys_fresh_create [OF fresh _ _ row(1,2)] core by (simp add: core_tables_def)
  ultimately show ?thesis
    using core by (auto simp: gov_inv_def core_tables_def)
qed (use inv in simp)

lemma authorised_step:
  "can_transition a b \<Longrightarrow> authorised b \<Longrightarrow> authorised a \<or> b = APPROVED"
  by (cases a) (auto simp: can_transition_def authorised_def)

lemma gov_inv_move:
  assumes inv: "gov_inv db" and run: "transition_plan ora i target q db = (r, db')"
  shows "gov_inv db'"
  using run [unfolded transition_plan_def]
proof (cases rule: transaction_cases)
  case (2 x)
  from 2(2) obtain p current where
      p: "p \<in> set (db_plans db)" "pr_id p = i" "parse_lifecycle (pr_state p) = Some current"
    and edge: "can_transition current target" "x = (pr_ref p, current, target)"
    and plans: "db_plans db' = set_state i (lifecycle_value target) (db_plans db)" "db_next_id db' = db_next_id db"
    and audit: "db_audit db' = db_audit db @ [transition_audit p current target q]"
    and appr: "set (db_approvals db) \<subseteq> set (db_approvals db')"
      "target = APPROVED \<longrightarrow> (\<exists>a \<in> set (db_approvals db'). ap_plan_id a = i \<and> ap_decision a \<in> {''APPROVED'', ''MODIFIED''})"
    by (rule transition_block_Inr)
  have fresh: "keys_fresh db" and logged: "\<And>p. p \<in> set (db_plans db) \<Longrightarrow> plan_logged db p"
    using inv by (simp_all add: gov_inv_def)
  obtain s where s: "pr_state p = lifecycle_value s" "replay_log (db_audit db) (pr_ref p) = Some s"
      "authorised s \<longrightarrow> has_approval db i"
    using logged [OF p(1)] p(2) by (auto simp: plan_logged_def)
  have cur: "s = current"
    using p(3) s(1) by simp
  have replay_log: "replay_log (db_audit db') = (replay_log (db_audit db))(pr_ref p := Some target)"
    using replay_transition edge s(2) cur audit by simp
  have keep: "has_approval db j \<Longrightarrow> has_approval db' j" for j
    using appr(1) by (auto simp: has_approval_def)
  have unique: "p' = p" if "p' \<in> set (db_plans db)" "pr_ref p' = pr_ref p \<or> pr_id p' = i" for p'
    using that p(1,2) fresh by (auto simp: keys_fresh_def distinct_map dest: inj_onD)
  have "plan_logged db' p'" if "p' \<in> set (db_plans db')" for p'
    using that [unfolded plans(1)]
  proof (cases rule: set_stateE)
    case 1
    then have "pr_ref p' \<noteq> pr_ref p"
      using unique p(2) by auto
    then show ?thesis
      using logged [OF 1(1)] replay_log keep by (auto simp: plan_logged_def)
  next
    case (2 p0)
    then have "p0 = p"
      using unique by blast
    moreover have "authorised target \<longrightarrow> has_approval db' i"
      using authorised_step [OF edge(1)] s(3) cur keep appr(2) by (auto simp: has_approval_def)
    ultimately show ?thesis
      using 2 p(2) replay_log by (auto simp: plan_logged_def intro!: exI [of _ target])
  qed
  moreover have "keys_fresh db'"
    using keys_fresh_move [OF fresh plans] .
  ultimately show ?thesis
    by (simp add: gov_inv_def)
qed (use inv in simp)

lemma gov_inv_step: "gov_step db db' \<Longrightarrow> gov_inv db \<Longrightarrow> gov_inv db'"
proof (induction rule: gov_step.induct)
  case (skipped db k)
  then show ?case
    by (auto simp: gov_inv_def keys_fresh_def plan_logged_def has_approval_def)
qed (auto intro: gov_inv_create gov_inv_move)

lemma gov_inv_reach: "gov_reach db \<Longrightarrow> gov_inv db"
proof (induction rule: gov_reach.induct)
  case start
  show ?case
    by (simp add: gov_inv_def keys_fresh_def empty_gov_def)
qed (rule gov_inv_step)

text \<open>A call that raises leaves every table as it was; one that returns took a permitted edge and logged it.\<close>

lemma transition_all_or_nothing:
  assumes "transition_plan ora i target q db = (r, db')"
  shows "case r of
           Inl e \<Rightarrow> db' = db
         | Inr (ref, current, to) \<Rightarrow> to = target \<and> can_transition current target
             \<and> db_plans db' = set_state i (lifecycle_value target) (db_plans db)
             \<and> length (db_audit db') = length (db_audit db) + 1"
  using assms [unfolded transition_plan_def]
proof (cases rule: transaction_cases)
  case (2 x)
  then show ?thesis
    by (auto elim!: transition_block_Inr)
qed simp

definition demo_request :: create_request where
  "demo_request = \<lparr>cr_mine_id = ''M1'', cr_objective = ''recover tonnage'', cr_created_by = ''ana'',
     cr_actor_role = ''planner'', cr_incident_id = Some 7,
     cr_actions = [[(''key'', PStr ''k''), (''title'', PStr ''t'')]],
     cr_fields = [(''expected_delta_t'', PNone)]\<rparr>"

definition demo_move :: transition_request where
  "demo_move = \<lparr>tr_actor_id = ''bo'', tr_actor_role = ''manager'', tr_rationale = Some ''ok'', tr_modifications = None\<rparr>"

definition demo_gov :: gov_db where
  "demo_gov = snd (transition_plan (\<lambda>_ _. None) 1 READY_FOR_REVIEW demo_move
     (snd (create_plan (\<lambda>_ _. None) demo_request empty_gov)))"

lemma demo_gov_reach: "gov_reach demo_gov"
proof -
  let ?db = "snd (create_plan (\<lambda>_ _. None) demo_request empty_gov)"
  have "gov_step empty_gov ?db"
    by (rule gov_step.created [OF surjective_pairing])
  moreover have "gov_step ?db demo_gov"
    unfolding demo_gov_def by (rule gov_step.moved [OF surjective_pairing])
  ultimately show ?thesis
    using gov_reach.start gov_reach.step by blast
qed

text \<open>
  C31: The audit log alone reconstructs the decision ledger. Whatever creations and moves were
  called, and whichever of their statements failed, the plans have distinct references; replaying
  the log entries of a plan's reference, which are chained along the edges of \<open>TRANSITIONS\<close>, ends in
  exactly the lifecycle state that its row holds; and a plan that is approved or beyond has an
  approval of its own on file.
\<close>

theorem ledger_reconstructs_plans:
  assumes "gov_reach db"
  shows "distinct (map pr_ref (db_plans db))
    \<and> (\<forall>p \<in> set (db_plans db). \<exists>s. pr_state p = lifecycle_value s
         \<and> replay_log (db_audit db) (pr_ref p) = Some s
         \<and> (s \<in> {APPROVED, EXECUTING, COMPLETED, MEASURED, LEARNED} \<longrightarrow>
              (\<exists>a \<in> set (db_approvals db). ap_plan_id a = pr_id p
                 \<and> ap_decision a \<in> {''APPROVED'', ''MODIFIED''})))"
  using gov_inv_reach [OF assms]
  unfolding gov_inv_def keys_fresh_def plan_logged_def authorised_def has_approval_def by simp

theorem ledger_reconstructs_plans_witness:
  "map pr_ref (db_plans demo_gov) = [''RP-000001''] \<and> map pr_state (db_plans demo_gov) = [''READY_FOR_REVIEW'']
     \<and> replay_log (db_audit demo_gov) ''RP-000001'' = Some READY_FOR_REVIEW"
proof -
  have refs: "map pr_ref (db_plans demo_gov) = [''RP-000001'']"
    and state: "map pr_state (db_plans demo_gov) = [''READY_FOR_REVIEW'']"
    by code_simp+
  obtain p where p: "db_plans demo_gov = [p]" "pr_ref p = ''RP-000001''"
    using refs by (auto simp: map_eq_Cons_conv)
  obtain s where s: "pr_state p = lifecycle_value s" "replay_log (db_audit demo_gov) (pr_ref p) = Some s"
    using ledger_reconstructs_plans [OF demo_gov_reach] p(1) by auto
  have "lifecycle_value s = ''READY_FOR_REVIEW''"
    using s(1) state p(1) by simp
  then have "s = READY_FOR_REVIEW"
    by (cases s) simp_all
  with refs state s(2) p(2) show ?thesis
    by simp
qed

end
