(* ===== verification/Measures.thy ===== *)
theory Measures
  imports Prelude "HOL-Library.List_Lexorder" "HOL-Library.Char_ord"
begin

text \<open>
  How a value says what it rests on (\<open>app/api/core/provenance.py\<close>), the numbers and texts that
  the measuring modules share, and the short-lived memoisation of their reads
  (\<open>app/api/core/memo.py\<close>).
\<close>

subsection \<open>Provenance\<close>

datatype calculation_mode = MODEL_BACKED | HEURISTIC | INSUFFICIENT_DATA

fun calculation_mode_value :: "calculation_mode \<Rightarrow> string" where
  "calculation_mode_value MODEL_BACKED = ''MODEL_BACKED''"
| "calculation_mode_value HEURISTIC = ''HEURISTIC''"
| "calculation_mode_value INSUFFICIENT_DATA = ''INSUFFICIENT_DATA''"

datatype scope = S_MINE | S_ASSET | S_SHIFT | S_TARGET | S_REGIONAL | S_PLATFORM

fun scope_value :: "scope \<Rightarrow> string" where
  "scope_value S_MINE = ''MINE''"
| "scope_value S_ASSET = ''ASSET''"
| "scope_value S_SHIFT = ''SHIFT''"
| "scope_value S_TARGET = ''TARGET''"
| "scope_value S_REGIONAL = ''REGIONAL''"
| "scope_value S_PLATFORM = ''PLATFORM''"

datatype data_freshness = F_LIVE | F_RECENT | F_STALE | F_EXPIRED

fun freshness_value :: "data_freshness \<Rightarrow> string" where
  "freshness_value F_LIVE = ''LIVE''"
| "freshness_value F_RECENT = ''RECENT''"
| "freshness_value F_STALE = ''STALE''"
| "freshness_value F_EXPIRED = ''EXPIRED''"

text \<open>\<open>DataFreshness.from_age\<close>\<close>

definition freshness_from_age :: "rat option \<Rightarrow> data_freshness" where
  "freshness_from_age seconds =
     (case seconds of
        None \<Rightarrow> F_EXPIRED
      | Some s \<Rightarrow>
          if s < 0 then F_EXPIRED
          else if s < 900 then F_LIVE
          else if s < 7200 then F_RECENT
          else if s < 86400 then F_STALE
          else F_EXPIRED)"

subsection \<open>Numbers of a row\<close>

text \<open>
  \<open>_num\<close>: the value of a column as a float, or \<open>None\<close>. The parser of numerals in texts is a
  parameter.
\<close>

type_synonym parser = "string \<Rightarrow> rat option"

fun py_float :: "parser \<Rightarrow> pyval \<Rightarrow> rat option" where
  "py_float parse (PInt i) = Some (of_int i)"
| "py_float parse (PFloat r) = Some r"
| "py_float parse (PBool b) = Some (if b then 1 else 0)"
| "py_float parse (PStr s) = parse s"
| "py_float parse _ = None"

definition row_num :: "parser \<Rightarrow> dict \<Rightarrow> string \<Rightarrow> rat option" where
  "row_num parse row key = (case map_of row key of None \<Rightarrow> None | Some v \<Rightarrow> py_float parse v)"

definition row_num0 :: "parser \<Rightarrow> dict \<Rightarrow> string \<Rightarrow> rat" where
  "row_num0 parse row key = (case row_num parse row key of None \<Rightarrow> 0 | Some x \<Rightarrow> x)"

text \<open>\<open>row[key]\<close> for a column that the statement selects\<close>

definition column :: "dict \<Rightarrow> string \<Rightarrow> pyval" where
  "column row key = (case map_of row key of None \<Rightarrow> PNone | Some v \<Rightarrow> v)"

text \<open>A count, which SQL returns as an integer\<close>

fun py_count :: "pyval \<Rightarrow> int" where
  "py_count (PInt i) = i"
| "py_count _ = 0"

definition opt_float :: "rat option \<Rightarrow> pyval" where
  "opt_float x = (case x of None \<Rightarrow> PNone | Some r \<Rightarrow> PFloat r)"

definition opt_round :: "nat \<Rightarrow> rat option \<Rightarrow> pyval" where
  "opt_round n x = opt_float (map_option (py_round n) x)"

subsection \<open>Formats\<close>

text \<open>Digits in groups of three\<close>

fun group3 :: "string \<Rightarrow> string" where
  "group3 (a # b # c # d # s) = a # b # c # CHR 44 # group3 (d # s)"
| "group3 s = s"

definition commas :: "nat \<Rightarrow> string" where
  "commas n = rev (group3 (rev (show_nat n)))"

definition zero_pad :: "nat \<Rightarrow> string \<Rightarrow> string" where
  "zero_pad n s = replicate (n - length s) (CHR ''0'') @ s"

text \<open>\<open>{x:.nf}\<close> and \<open>{x:,.nf}\<close>, the latter with grouped digits\<close>

definition fmt_with :: "(nat \<Rightarrow> string) \<Rightarrow> nat \<Rightarrow> rat \<Rightarrow> string" where
  "fmt_with shown n x =
     (let a = nat (round_half_even (\<bar>x\<bar> * 10 ^ n))
      in (if x < 0 then ''-'' else []) @ shown (a div 10 ^ n)
         @ (if n = 0 then [] else ''.'' @ zero_pad n (show_nat (a mod 10 ^ n))))"

definition fmt_fixed :: "nat \<Rightarrow> rat \<Rightarrow> string" where
  "fmt_fixed = fmt_with show_nat"

definition fmt_commas :: "nat \<Rightarrow> rat \<Rightarrow> string" where
  "fmt_commas = fmt_with commas"

text \<open>\<open>{x:+.nf}\<close> and \<open>{x:+,.nf}\<close>: the sign is always written\<close>

definition fmt_signed :: "(nat \<Rightarrow> rat \<Rightarrow> string) \<Rightarrow> nat \<Rightarrow> rat \<Rightarrow> string" where
  "fmt_signed fmt n x = (if x < 0 then fmt n x else ''+'' @ fmt n x)"

text \<open>\<open>str.upper()\<close>, for the ASCII letters, and \<open>replace("_", " ")\<close>\<close>

definition upper_char :: "char \<Rightarrow> char" where
  "upper_char c = (let n = (of_char c :: nat) in if 97 \<le> n \<and> n \<le> 122 then char_of (n - 32) else c)"

definition upper_text :: "string \<Rightarrow> string" where
  "upper_text s = map upper_char s"

definition blanks :: "string \<Rightarrow> string" where
  "blanks s = map (\<lambda>c. if c = CHR ''_'' then CHR '' '' else c) s"

subsection \<open>Memoised reads\<close>

text \<open>
  The store of a \<open>ttl_cache\<close>: for every argument tuple when it was computed, in the monotonic
  clock's seconds, and the value. Lookup and storing are atomic, under the lock; the wrapped
  function runs in between, so a call may store after others have.
\<close>

type_synonym ('k, 'v) memo = "('k \<times> (rat \<times> 'v)) list"

definition memo_lookup :: "rat \<Rightarrow> rat \<Rightarrow> 'k \<Rightarrow> ('k, 'v) memo \<Rightarrow> 'v option" where
  "memo_lookup ttl now key store =
     (case map_of store key of
        None \<Rightarrow> None
      | Some (at', v) \<Rightarrow> if now - at' < ttl then Some v else None)"

text \<open>\<open>min(store, key=...)\<close>, the first of the oldest\<close>

definition memo_oldest :: "('k, 'v) memo \<Rightarrow> 'k option" where
  "memo_oldest store = map_option fst (py_max (\<lambda>(k, t, v). - t) store)"

definition memo_put :: "nat \<Rightarrow> rat \<Rightarrow> 'k \<Rightarrow> 'v \<Rightarrow> ('k, 'v) memo \<Rightarrow> ('k, 'v) memo" where
  "memo_put maxsize now key value store =
     AList.update key (now, value)
       (if maxsize \<le> length store
        then (case memo_oldest store of None \<Rightarrow> store | Some k \<Rightarrow> AList.delete k store) else store)"

text \<open>A call that no other call overlaps: a raising function stores nothing.\<close>

definition memo_call ::
  "rat \<Rightarrow> nat \<Rightarrow> ('k \<Rightarrow> 'v result) \<Rightarrow> 'k \<Rightarrow> rat \<Rightarrow> ('k, 'v) memo \<Rightarrow> 'v result \<times> ('k, 'v) memo" where
  "memo_call ttl maxsize fn key now store =
     (case memo_lookup ttl now key store of
        Some v \<Rightarrow> (Inr v, store)
      | None \<Rightarrow>
          (case fn key of
             Inl e \<Rightarrow> (Inl e, store)
           | Inr v \<Rightarrow> (Inr v, memo_put maxsize now key v store)))"

definition memo_clear :: "('k, 'v) memo \<Rightarrow> ('k, 'v) memo" where
  "memo_clear store = []"

text \<open>\<open>clear_all\<close> clears every store of the registry.\<close>

definition memo_clear_all :: "('k, 'v) memo list \<Rightarrow> ('k, 'v) memo list" where
  "memo_clear_all registry = map memo_clear registry"

lemma memo_oldest_mem:
  assumes "memo_oldest store = Some k"
  shows "k \<in> fst ` set store"
proof -
  obtain x where x: "py_max (\<lambda>(k, t, v). - t) store = Some x" "k = fst x"
    using assms by (auto simp: memo_oldest_def)
  have "x \<in> set store"
    using py_max_Some [OF x(1)] by (rule conjunct1)
  with x(2) show ?thesis
    by simp
qed

lemma delete_length: "distinct (map fst s) \<Longrightarrow> k \<in> fst ` set s \<Longrightarrow> Suc (length (AList.delete k s)) = length s"
proof (induction s)
  case (Cons x s)
  show ?case
  proof (cases "fst x = k")
    case True
    with Cons.prems(1) have "k \<notin> fst ` set s" by simp
    with True show ?thesis by simp
  next
    case False
    with Cons.prems(2) have "k \<in> fst ` set s" by simp
    with Cons.IH Cons.prems(1) False show ?thesis by simp
  qed
qed simp

lemma update_length: "length (AList.update k v s) \<le> Suc (length s)"
proof (induction s)
  case (Cons x s)
  then show ?case by (cases x) simp
qed simp

text \<open>The size of a store never passes its bound, however the calls overlap.\<close>

lemma memo_put_bounded:
  assumes "distinct (map fst s)" "length s \<le> maxsize" "0 < maxsize"
  shows "distinct (map fst (memo_put maxsize now key v s)) \<and> length (memo_put maxsize now key v s) \<le> maxsize"
proof (cases "maxsize \<le> length s")
  case True
  with assms(3) have "s \<noteq> []" by auto
  then obtain k where k: "memo_oldest s = Some k"
    by (cases "memo_oldest s") (auto simp: memo_oldest_def)
  have "Suc (length (AList.delete k s)) = length s"
    by (rule delete_length [OF assms(1) memo_oldest_mem [OF k]])
  then have "length (memo_put maxsize now key v s) \<le> maxsize"
    using update_length [of key "(now, v)" "AList.delete k s"] True assms(2) k by (simp add: memo_put_def)
  moreover have "distinct (map fst (memo_put maxsize now key v s))"
    using True k assms(1) by (auto simp: memo_put_def intro: distinct_update distinct_delete)
  ultimately show ?thesis by simp
next
  case False
  then show ?thesis
    using assms(1) update_length [of key "(now, v)" s] by (auto simp: memo_put_def intro: distinct_update)
qed

text \<open>What a call answers was computed less than the lifetime ago, or now.\<close>

lemma memo_call_fresh:
  assumes "memo_call ttl maxsize fn key now store = (Inr v, store')"
  shows "fn key = Inr v \<or> (\<exists>t. map_of store key = Some (t, v) \<and> now - t < ttl)"
  using assms by (auto simp: memo_call_def memo_lookup_def split: option.splits sum.splits prod.splits if_splits)

end
