(* ===== verification/Clock.thy ===== *)
theory Clock
  imports Measures
begin

text \<open>
  What "now" means for a mine (\<open>app/api/core/clock.py\<close>): live when the newest observation is
  recent, otherwise the newest observation itself. Times are microseconds since the epoch, in UTC.
\<close>

definition LIVE_THRESHOLD_HOURS :: rat where
  "LIVE_THRESHOLD_HOURS = 36"

definition CLOCK_TTL_SECONDS :: rat where
  "CLOCK_TTL_SECONDS = 60"

datatype clock_mode = C_LIVE | C_BENCHMARK | C_UNKNOWN

fun clock_mode_value :: "clock_mode \<Rightarrow> string" where
  "clock_mode_value C_LIVE = ''LIVE''"
| "clock_mode_value C_BENCHMARK = ''BENCHMARK''"
| "clock_mode_value C_UNKNOWN = ''UNKNOWN''"

record operational_clock =
  oc_mode :: clock_mode
  oc_reference_time :: int
  oc_dataset_epoch :: "int option"
  oc_lag_days :: rat

definition is_benchmark :: "operational_clock \<Rightarrow> bool" where
  "is_benchmark c \<longleftrightarrow> oc_mode c = C_BENCHMARK"

text \<open>\<open>timedelta.total_seconds()\<close>\<close>

definition total_seconds :: "int \<Rightarrow> rat" where
  "total_seconds d = of_int d / 10 ^ 6"

definition age_seconds :: "operational_clock \<Rightarrow> int option \<Rightarrow> rat option" where
  "age_seconds c observed = map_option (\<lambda>t. total_seconds (oc_reference_time c - t)) observed"

text \<open>\<open>strftime("%d %b %Y")\<close> and \<open>isoformat(timespec="seconds")\<close> are parameters.\<close>

record time_format =
  tf_day :: "int \<Rightarrow> string"
  tf_iso :: "int \<Rightarrow> string"

definition caveat :: "time_format \<Rightarrow> operational_clock \<Rightarrow> string option" where
  "caveat tf c =
     (case oc_mode c of
        C_LIVE \<Rightarrow> None
      | C_UNKNOWN \<Rightarrow> Some ''No dated observations are available for this mine.''
      | C_BENCHMARK \<Rightarrow>
          Some (''Benchmark dataset. Freshness is measured against the most recent ''
            @ ''observation ('' @ (case oc_dataset_epoch c of None \<Rightarrow> ''an unknown date'' | Some e \<Rightarrow> tf_day tf e)
            @ ''), not against the current date.''))"

definition clock_as_dict :: "time_format \<Rightarrow> operational_clock \<Rightarrow> dict" where
  "clock_as_dict tf c =
     [(''mode'', PStr (clock_mode_value (oc_mode c))), (''reference_time'', PStr (tf_iso tf (oc_reference_time c))),
      (''dataset_epoch'', opt_str (map_option (tf_iso tf) (oc_dataset_epoch c))),
      (''wall_clock_lag_days'', PFloat (py_round 1 (oc_lag_days c))), (''caveat'', opt_str (caveat tf c))]"

text \<open>
  The answer of one of the two \<open>MAX\<close> statements: a timestamp, the day of a date, or neither. A
  naive timestamp counts as UTC, and a date as one minute before its end.
\<close>

datatype sql_time = SDatetime int | SDate int | SNull

definition day_microseconds :: int where
  "day_microseconds = 86400 * 10 ^ 6"

fun candidate :: "sql_time \<Rightarrow> int option" where
  "candidate (SDatetime t) = Some t"
| "candidate (SDate d) = Some (d * day_microseconds + (23 * 3600 + 59 * 60) * 10 ^ 6)"
| "candidate SNull = None"

text \<open>A statement that raises is logged and skipped.\<close>

definition candidates :: "sql_time list result list \<Rightarrow> int list" where
  "candidates answers =
     concat (map (\<lambda>a. case a of Inl _ \<Rightarrow> [] | Inr [] \<Rightarrow> []
        | Inr (v # _) \<Rightarrow> (case candidate v of None \<Rightarrow> [] | Some t \<Rightarrow> [t])) answers)"

definition newest_observation :: "sql_time list result \<Rightarrow> sql_time list result \<Rightarrow> int option" where
  "newest_observation equipment production = py_max id (candidates [equipment, production])"

definition resolve_uncached :: "int \<Rightarrow> int option \<Rightarrow> operational_clock" where
  "resolve_uncached now epoch =
     (case epoch of
        None \<Rightarrow> \<lparr>oc_mode = C_UNKNOWN, oc_reference_time = now, oc_dataset_epoch = None, oc_lag_days = 0\<rparr>
      | Some e \<Rightarrow>
          (let lag_hours = total_seconds (now - e) / 3600 in
           if lag_hours \<le> LIVE_THRESHOLD_HOURS
           then \<lparr>oc_mode = C_LIVE, oc_reference_time = now, oc_dataset_epoch = Some e, oc_lag_days = 0\<rparr>
           else \<lparr>oc_mode = C_BENCHMARK, oc_reference_time = e, oc_dataset_epoch = Some e,
                  oc_lag_days = lag_hours / 24\<rparr>))"

text \<open>
  \<open>resolve_clock\<close>: \<open>now\<close> and the answers are read when the cache does not hold the mine;
  \<open>t\<close> and \<open>t'\<close> are the monotonic clock at the lookup and at the end.
\<close>

type_synonym clock_cache = "(string option, operational_clock) memo"

definition resolve_clock ::
  "bool \<Rightarrow> string option \<Rightarrow> rat \<Rightarrow> rat \<Rightarrow> int \<Rightarrow> (string option \<Rightarrow> int option) \<Rightarrow> clock_cache
     \<Rightarrow> operational_clock \<times> clock_cache" where
  "resolve_clock refresh mine_id t t' now newest cache =
     (case (if refresh then None else memo_lookup CLOCK_TTL_SECONDS t mine_id cache) of
        Some c \<Rightarrow> (c, cache)
      | None \<Rightarrow>
          (let c = resolve_uncached now (newest mine_id) in (c, AList.update mine_id (t', c) cache)))"

subsection \<open>What a clock guarantees\<close>

lemma newest_observation_max:
  "newest_observation a b = Some e \<Longrightarrow> e \<in> set (candidates [a, b]) \<and> (\<forall>t. t \<in> set (candidates [a, b]) \<longrightarrow> t \<le> e)"
  unfolding newest_observation_def by (drule py_max_Some) simp

text \<open>
  Nothing observed so far is ever younger than the reference point of its benchmark clock, and a
  live clock trails the newest observation by at most the threshold.
\<close>

lemma clock_reference:
  assumes "resolve_uncached now (Some e) = c"
  shows "oc_dataset_epoch c = Some e
     \<and> (if total_seconds (now - e) \<le> 36 * 3600 then oc_mode c = C_LIVE \<and> oc_reference_time c = now \<and> oc_lag_days c = 0
        else oc_mode c = C_BENCHMARK \<and> oc_reference_time c = e \<and> 3 / 2 < oc_lag_days c)"
  using assms by (auto simp: resolve_uncached_def Let_def LIVE_THRESHOLD_HOURS_def field_simps)

lemma benchmark_age_nonneg:
  assumes "resolve_uncached now (newest_observation a b) = c" "is_benchmark c" "t \<in> set (candidates [a, b])"
  shows "\<exists>s. age_seconds c (Some t) = Some s \<and> 0 \<le> s"
proof (cases "newest_observation a b")
  case None
  with assms(1,2) show ?thesis by (auto simp: resolve_uncached_def is_benchmark_def)
next
  case (Some e)
  have "t \<le> e"
    using newest_observation_max [OF Some] assms(3) by simp
  moreover have "oc_reference_time c = e"
    using clock_reference [of now e c] assms(1,2) Some
    by (cases "total_seconds (now - e) \<le> 36 * 3600") (simp_all add: is_benchmark_def)
  ultimately have "age_seconds c (Some t) = Some (total_seconds (e - t))" "0 \<le> total_seconds (e - t)"
    by (simp_all add: age_seconds_def total_seconds_def)
  then show ?thesis
    by blast
qed

text \<open>A cached clock was resolved less than the lifetime ago.\<close>

lemma resolve_clock_cases:
  assumes "resolve_clock refresh mine_id t t' now newest cache = (c, cache')"
  shows "c = resolve_uncached now (newest mine_id)
     \<or> (\<exists>s. map_of cache mine_id = Some (s, c) \<and> t - s < CLOCK_TTL_SECONDS \<and> \<not> refresh \<and> cache' = cache)"
  using assms
  by (auto simp: resolve_clock_def memo_lookup_def Let_def split: if_splits option.splits prod.splits)

end
