(* ===== verification/Bottleneck.thy ===== *)
theory Bottleneck
  imports Clock
begin

text \<open>
  Which stage of the material flow limits production (\<open>app/api/core/bottleneck.py\<close>). The rows
  that the statements answer are arguments, each of them able to fail; the memoisation of the
  readers is the one of \<open>Measures\<close>.
\<close>

subsection \<open>Stages\<close>

definition STAGE_ORDER :: "string list" where
  "STAGE_ORDER = [''face'', ''loading'', ''haulage'', ''processing'', ''stockpile'', ''dispatch'']"

definition STAGE_LABELS :: "(string \<times> string) list" where
  "STAGE_LABELS = [(''face'', ''Face preparation''), (''loading'', ''Loading''), (''haulage'', ''Haulage''),
     (''processing'', ''Processing''), (''stockpile'', ''Stockpile''), (''dispatch'', ''Dispatch'')]"

definition stage_label :: "string \<Rightarrow> string" where
  "stage_label key = (case map_of STAGE_LABELS key of None \<Rightarrow> [] | Some l \<Rightarrow> l)"

definition CONSTRAINED_UTILISATION :: rat where
  "CONSTRAINED_UTILISATION = 85 / 100"

definition SATURATED_UTILISATION :: rat where
  "SATURATED_UTILISATION = 95 / 100"

record stage =
  sg_key :: string
  sg_label :: string
  sg_throughput :: "rat option"
  sg_capacity :: "rat option"
  sg_mode :: calculation_mode
  sg_basis :: string
  sg_evidence :: dict
  sg_unavailable :: "string option"

definition utilisation :: "stage \<Rightarrow> rat option" where
  "utilisation s =
     (case (sg_throughput s, sg_capacity s) of
        (Some t, Some c) \<Rightarrow> if c = 0 then None else Some (t / c)
      | _ \<Rightarrow> None)"

definition headroom :: "stage \<Rightarrow> rat option" where
  "headroom s = (case (sg_throughput s, sg_capacity s) of (Some t, Some c) \<Rightarrow> Some (c - t) | _ \<Rightarrow> None)"

definition stage_status :: "stage \<Rightarrow> string" where
  "stage_status s =
     (case utilisation s of
        None \<Rightarrow> ''UNKNOWN''
      | Some u \<Rightarrow>
          if u \<ge> SATURATED_UTILISATION then ''SATURATED''
          else if u \<ge> CONSTRAINED_UTILISATION then ''CONSTRAINED'' else ''NOMINAL'')"

definition stage_as_dict :: "stage \<Rightarrow> dict" where
  "stage_as_dict s =
     [(''key'', PStr (sg_key s)), (''label'', PStr (sg_label s)),
      (''throughput_t'', opt_round 1 (sg_throughput s)), (''capacity_t'', opt_round 1 (sg_capacity s)),
      (''utilisation_pct'', opt_round 1 (map_option (\<lambda>u. u * 100) (utilisation s))),
      (''headroom_t'', opt_round 1 (headroom s)), (''status'', PStr (stage_status s)),
      (''calculation_mode'', PStr (calculation_mode_value (sg_mode s))), (''basis'', PStr (sg_basis s)),
      (''evidence'', PDict (sg_evidence s)), (''unavailable_reason'', opt_str (sg_unavailable s))]"

definition unavailable :: "string \<Rightarrow> string \<Rightarrow> stage" where
  "unavailable key reason =
     \<lparr>sg_key = key, sg_label = stage_label key, sg_throughput = None, sg_capacity = None,
      sg_mode = INSUFFICIENT_DATA, sg_basis = ''Not established'', sg_evidence = [], sg_unavailable = Some reason\<rparr>"

subsection \<open>Data\<close>

record flow_source =
  fs_latest_shift :: "dict list result"
  fs_peaks :: "dict list result"
  fs_fleet :: "dict list result"
  fs_ceiling :: "dict list result"

record peaks =
  pk_production :: "rat option"
  pk_ore :: "rat option"
  pk_loader_avg :: "rat option"
  pk_excavator_avg :: "rat option"
  pk_shifts :: int

definition no_peaks :: peaks where
  "no_peaks = \<lparr>pk_production = None, pk_ore = None, pk_loader_avg = None, pk_excavator_avg = None, pk_shifts = 0\<rparr>"

definition demonstrated_peaks :: "parser \<Rightarrow> flow_source \<Rightarrow> peaks result" where
  "demonstrated_peaks parse src =
     (case fs_peaks src of
        Inl e \<Rightarrow> Inl e
      | Inr [] \<Rightarrow> Inr no_peaks
      | Inr (r # _) \<Rightarrow>
          Inr \<lparr>pk_production = row_num parse r ''production'', pk_ore = row_num parse r ''ore'',
               pk_loader_avg = row_num parse r ''loader_avg'', pk_excavator_avg = row_num parse r ''excavator_avg'',
               pk_shifts = py_count (column r ''shifts'')\<rparr>)"

record fleet =
  fl_payload :: "rat option"
  fl_payload_n :: int
  fl_trucks :: int
  fl_machines :: int
  fl_truck_share :: "rat option"

definition fleet_profile :: "parser \<Rightarrow> flow_source \<Rightarrow> fleet result" where
  "fleet_profile parse src =
     (case fs_fleet src of
        Inl e \<Rightarrow> Inl e
      | Inr rows \<Rightarrow>
          (let r = (case rows of [] \<Rightarrow> [] | x # _ \<Rightarrow> x); machines = py_count (column r ''machines'');
               trucks = py_count (column r ''trucks'')
           in if rows = [] \<or> machines = 0
              then Inr \<lparr>fl_payload = None, fl_payload_n = 0, fl_trucks = 0, fl_machines = 0, fl_truck_share = None\<rparr>
              else Inr \<lparr>fl_payload = row_num parse r ''payload'', fl_payload_n = py_count (column r ''payload_n''),
                        fl_trucks = trucks, fl_machines = machines,
                        fl_truck_share = Some (of_int trucks / of_int machines)\<rparr>))"

definition stockpile_ceiling :: "parser \<Rightarrow> flow_source \<Rightarrow> rat option result" where
  "stockpile_ceiling parse src =
     (case fs_ceiling src of
        Inl e \<Rightarrow> Inl e
      | Inr [] \<Rightarrow> Inr None
      | Inr (r # _) \<Rightarrow> Inr (row_num parse r ''peak''))"

subsection \<open>Stage builders\<close>

definition face_stage :: "parser \<Rightarrow> dict \<Rightarrow> peaks \<Rightarrow> stage" where
  "face_stage parse row pk =
     (case row_num parse row ''ore_available_t'' of
        None \<Rightarrow> unavailable ''face'' ''ore_available_t is not recorded for this shift''
      | Some ore \<Rightarrow>
          \<lparr>sg_key = ''face'', sg_label = stage_label ''face'',
           sg_throughput = row_num parse row ''actual_production_t'', sg_capacity = Some ore,
           sg_mode = MODEL_BACKED,
           sg_basis = ''Broken ore available at the face this shift, as recorded. This is a ''
             @ ''measured quantity, not an inferred rate.'',
           sg_evidence = [(''ore_available_t'', opt_round 1 (Some ore)),
             (''drill_availability'', opt_round 3 (row_num parse row ''drill_availability''))],
           sg_unavailable = None\<rparr>)"

definition present :: "rat option list \<Rightarrow> rat list" where
  "present xs = map the (filter (\<lambda>x. x \<noteq> None) xs)"

definition mean :: "rat list \<Rightarrow> rat" where
  "mean xs = sum_list xs / of_nat (length xs)"

definition loading_factor :: "rat list \<Rightarrow> rat list \<Rightarrow> rat \<times> string" where
  "loading_factor current baseline =
     (if current = [] \<or> baseline = [] \<or> sum_list baseline = 0
      then (1, ''availability unadjusted '' @ em_dash @ '' loader and excavator availability not recorded'')
      else (mean current / mean baseline,
            ''scaled by current loader/excavator availability ('' @ fmt_fixed 0 (mean current * 100)
              @ ''% against a '' @ fmt_fixed 0 (mean baseline * 100) @ ''% average)''))"

definition loading_stage :: "parser \<Rightarrow> dict \<Rightarrow> peaks \<Rightarrow> stage" where
  "loading_stage parse row pk =
     (let loader = row_num parse row ''loader_availability'';
          excavator = row_num parse row ''excavator_availability''
      in case (pk_production pk, row_num parse row ''actual_production_t'') of
           (Some peak, Some production) \<Rightarrow>
             (let (f, note) = loading_factor (present [loader, excavator])
                                (present [pk_loader_avg pk, pk_excavator_avg pk])
              in \<lparr>sg_key = ''loading'', sg_label = stage_label ''loading'', sg_throughput = Some production,
                  sg_capacity = Some (peak * f), sg_mode = HEURISTIC,
                  sg_basis = ''Best demonstrated rate: the 95th-percentile shift over '' @ show_int (pk_shifts pk)
                    @ '' recorded shifts, '' @ note @ ''. No nameplate loading ''
                    @ ''rating is recorded, so this is inferred from history.'',
                  sg_evidence = [(''demonstrated_peak_t'', opt_round 1 (Some peak)),
                    (''availability_factor'', opt_round 3 (Some f)), (''loader_availability'', opt_round 3 loader),
                    (''excavator_availability'', opt_round 3 excavator)],
                  sg_unavailable = None\<rparr>)
         | _ \<Rightarrow> unavailable ''loading'' ''no production history from which to establish a rate'')"

definition times_sign :: string where
  "times_sign = [CHR 0xC3, CHR 0x97]"

definition haulage_stage :: "parser \<Rightarrow> dict \<Rightarrow> fleet \<Rightarrow> stage" where
  "haulage_stage parse row fl =
     (let queue = row_num0 parse row ''truck_queue_time_min'';
          inputs = [(''truck payload'', fl_payload fl), (''fleet composition'', fl_truck_share fl),
                    (''cycle time'', row_num parse row ''average_cycle_time_min''),
                    (''working hours'', row_num parse row ''working_hours''),
                    (''active equipment count'', row_num parse row ''active_equipment_count'')];
          missing = map fst (filter (\<lambda>(n, v). v = None) inputs)
      in if missing \<noteq> [] then unavailable ''haulage'' (''missing '' @ py_join '', '' missing)
         else
           (let payload = the (fl_payload fl); share = the (fl_truck_share fl);
                cycle = the (row_num parse row ''average_cycle_time_min'');
                hours = the (row_num parse row ''working_hours'');
                active = the (row_num parse row ''active_equipment_count'');
                trucks = active * share; trips = hours * 60 / (cycle + queue)
            in if cycle + queue \<le> 0 then unavailable ''haulage'' ''recorded cycle time is zero or negative''
               else if trucks \<le> 0
               then unavailable ''haulage'' ''no trucks are in scope for this production record''
               else
                 \<lparr>sg_key = ''haulage'', sg_label = stage_label ''haulage'',
                  sg_throughput = row_num parse row ''actual_production_t'',
                  sg_capacity = Some (trucks * trips * payload), sg_mode = MODEL_BACKED,
                  sg_basis = ''Derived: '' @ fmt_fixed 1 trucks @ '' trucks in scope ('' @ fmt_fixed 0 active
                    @ '' active machines '' @ times_sign @ '' the '' @ fmt_fixed 0 (share * 100)
                    @ ''% truck share of a '' @ show_int (fl_machines fl) @ ''-machine fleet) '' @ times_sign
                    @ '' '' @ fmt_fixed 1 trips @ '' trips '' @ times_sign @ '' '' @ fmt_fixed 1 payload
                    @ '' t payload over a '' @ fmt_fixed 0 hours @ ''-hour shift. Cycle time ''
                    @ fmt_fixed 1 cycle @ '' min plus '' @ fmt_fixed 1 queue @ '' min queueing, all measured.'',
                  sg_evidence = [(''trucks_in_scope'', opt_round 2 (Some trucks)), (''fleet_trucks'', PInt (fl_trucks fl)),
                    (''fleet_machines'', PInt (fl_machines fl)), (''truck_share_pct'', opt_round 1 (Some (share * 100))),
                    (''cycle_time_min'', opt_round 1 (Some cycle)), (''queue_time_min'', opt_round 1 (Some queue)),
                    (''trips_per_truck'', opt_round 1 (Some trips)), (''payload_t'', opt_round 1 (Some payload)),
                    (''payload_observations'', PInt (fl_payload_n fl)),
                    (''haul_distance_km'', opt_round 2 (row_num parse row ''haul_distance_km'')),
                    (''scope_note'', PStr (''Production is recorded per zone-shift; the truck count is scaled ''
                       @ ''to that scope rather than taken fleet-wide.''))],
                  sg_unavailable = None\<rparr>))"

definition processing_stage :: "parser \<Rightarrow> dict \<Rightarrow> stage" where
  "processing_stage parse row =
     (case row_num parse row ''processing_capacity_t'' of
        None \<Rightarrow> unavailable ''processing'' ''processing_capacity_t is not recorded for this shift''
      | Some capacity \<Rightarrow>
          \<lparr>sg_key = ''processing'', sg_label = stage_label ''processing'',
           sg_throughput = row_num parse row ''actual_production_t'', sg_capacity = Some capacity,
           sg_mode = MODEL_BACKED,
           sg_basis = ''Recorded processing capacity for the shift, as reported by the plant.'',
           sg_evidence = [(''processing_capacity_t'', opt_round 1 (Some capacity)),
             (''ore_routing_delay_hours'', opt_round 2 (row_num parse row ''ore_routing_delay_hours''))],
           sg_unavailable = None\<rparr>)"

definition stockpile_stage :: "parser \<Rightarrow> dict \<Rightarrow> flow_source \<Rightarrow> stage result" where
  "stockpile_stage parse row src =
     (case row_num parse row ''stockpile_t'' of
        None \<Rightarrow> Inr (unavailable ''stockpile'' ''stockpile_t is not recorded for this shift'')
      | Some stock \<Rightarrow>
          (case stockpile_ceiling parse src of
             Inl e \<Rightarrow> Inl e
           | Inr peak \<Rightarrow>
               Inr \<lparr>sg_key = ''stockpile'', sg_label = stage_label ''stockpile'', sg_throughput = Some stock,
                    sg_capacity = peak, sg_mode = HEURISTIC,
                    sg_basis = ''Stockpile is a buffer rather than a throughput stage. Utilisation is ''
                      @ ''current stock against the highest level ever recorded at this mine, ''
                      @ ''which stands in for an unrecorded holding capacity.'',
                    sg_evidence = [(''stockpile_t'', opt_round 1 (Some stock)), (''highest_recorded_t'', opt_round 1 peak),
                      (''production_this_shift_t'', opt_round 1 (row_num parse row ''actual_production_t''))],
                    sg_unavailable = None\<rparr>))"

subsection \<open>The analysis\<close>

text \<open>\<open>max(..., key=lambda s: s.utilisation)\<close> over measured stages\<close>

definition most_loaded :: "stage list \<Rightarrow> stage option" where
  "most_loaded ss = py_max (\<lambda>s. the (utilisation s)) ss"

definition measured :: "stage list \<Rightarrow> stage list" where
  "measured ss = filter (\<lambda>s. utilisation s \<noteq> None \<and> sg_key s \<noteq> ''stockpile'') ss"

definition bottleneck_reason :: "stage \<Rightarrow> stage list \<Rightarrow> string" where
  "bottleneck_reason b stages =
     (let pct = (\<lambda>s. fmt_fixed 0 (the (utilisation s) * 100));
          others = filter (\<lambda>s. sg_key s \<noteq> sg_key b) (measured stages);
          unmeasured = map (\<lambda>s. py_lower (sg_label s)) (filter (\<lambda>s. utilisation s = None) stages)
      in py_join '' ''
          ([sg_label b @ '' is running at '' @ pct b @ ''% of its '' @ fmt_commas 0 (the (sg_capacity b)) @ '' t capacity.'']
           @ (case most_loaded others of
                None \<Rightarrow> []
              | Some r \<Rightarrow> [''The next most loaded stage, '' @ py_lower (sg_label r) @ '', is at '' @ pct r @ ''%.''])
           @ (case headroom b of
                None \<Rightarrow> []
              | Some h \<Rightarrow>
                  if h > 0 then [''It has '' @ fmt_commas 0 h @ '' t of headroom before it saturates.'']
                  else [''It is '' @ fmt_commas 0 \<bar>h\<bar> @ '' t beyond its established capacity, so that ''
                          @ ''capacity figure may understate what the stage can do.''])
           @ (if unmeasured = [] then []
              else [''This compares only measured stages; '' @ py_join '', '' unmeasured
                      @ (if length unmeasured = 1 then '' has'' else '' have'')
                      @ '' no recorded throughput and could be tighter.''])))"

record bottleneck =
  bn_stage :: string
  bn_label :: string
  bn_utilisation_pct :: rat
  bn_headroom :: "rat option"
  bn_status :: string
  bn_mode :: calculation_mode
  bn_basis :: string
  bn_reason :: string

record flow_report =
  fr_mine_id :: string
  fr_as_of :: "string option"
  fr_shift :: pyval
  fr_production :: pyval
  fr_planned :: pyval
  fr_stages :: "stage list"
  fr_bottleneck :: "bottleneck option"
  fr_unmeasured :: "string list"
  fr_mode :: calculation_mode
  fr_data_origin :: pyval
  fr_unavailable_reason :: "string option"

definition mk_bottleneck :: "stage list \<Rightarrow> stage \<Rightarrow> bottleneck" where
  "mk_bottleneck stages b =
     \<lparr>bn_stage = sg_key b, bn_label = sg_label b, bn_utilisation_pct = py_round 1 (the (utilisation b) * 100),
      bn_headroom = map_option (py_round 1) (headroom b), bn_status = stage_status b, bn_mode = sg_mode b,
      bn_basis = sg_basis b, bn_reason = bottleneck_reason b stages\<rparr>"

definition flow_stages :: "parser \<Rightarrow> flow_source \<Rightarrow> dict \<Rightarrow> stage list result" where
  "flow_stages parse src row =
     (case demonstrated_peaks parse src of
        Inl e \<Rightarrow> Inl e
      | Inr pk \<Rightarrow>
          (case fleet_profile parse src of
             Inl e \<Rightarrow> Inl e
           | Inr fl \<Rightarrow>
               (case stockpile_stage parse row src of
                  Inl e \<Rightarrow> Inl e
                | Inr stock \<Rightarrow>
                    Inr [face_stage parse row pk, loading_stage parse row pk, haulage_stage parse row fl,
                         processing_stage parse row, stock,
                         unavailable ''dispatch''
                           ''no dispatch throughput is recorded in the operational schema''])))"

definition analyse_flow :: "runtime \<Rightarrow> parser \<Rightarrow> flow_source \<Rightarrow> string \<Rightarrow> flow_report result" where
  "analyse_flow rt parse src mine_id =
     (case fs_latest_shift src of
        Inl e \<Rightarrow> Inl e
      | Inr [] \<Rightarrow>
          Inr \<lparr>fr_mine_id = mine_id, fr_as_of = None, fr_shift = PNone, fr_production = PNone, fr_planned = PNone,
               fr_stages = [], fr_bottleneck = None, fr_unmeasured = [], fr_mode = INSUFFICIENT_DATA,
               fr_data_origin = PNone,
               fr_unavailable_reason = Some (''No production records exist for '' @ mine_id
                 @ '', so material flow cannot be analysed.'')\<rparr>
      | Inr (row # _) \<Rightarrow>
          (case flow_stages parse src row of
             Inl e \<Rightarrow> Inl e
           | Inr stages \<Rightarrow>
               (let b = most_loaded (measured stages) in
                Inr \<lparr>fr_mine_id = mine_id, fr_as_of = Some (py_str rt (column row ''date'')),
                     fr_shift = column row ''shift'',
                     fr_production = opt_round 1 (row_num parse row ''actual_production_t''),
                     fr_planned = opt_round 1 (row_num parse row ''planned_production_t''),
                     fr_stages = stages, fr_bottleneck = map_option (mk_bottleneck stages) b,
                     fr_unmeasured = map sg_key (filter (\<lambda>s. utilisation s = None) stages),
                     fr_mode = (case b of Some s \<Rightarrow> if sg_mode s = MODEL_BACKED then MODEL_BACKED else HEURISTIC
                                | None \<Rightarrow> HEURISTIC),
                     fr_data_origin = (let o' = column row ''data_origin'' in
                                       if py_truthy o' then o' else PStr ''SYNTHETIC''),
                     fr_unavailable_reason = None\<rparr>)))"

subsection \<open>The stage it names\<close>

lemma find_filter: "find Q (filter P xs) = find (\<lambda>x. P x \<and> Q x) xs"
  by (induction xs) auto

lemma find_split:
  "find P xs = Some x \<Longrightarrow> \<exists>pre post. xs = pre @ x # post \<and> list_all (\<lambda>z. \<not> P z) pre"
proof (induction xs)
  case (Cons a xs)
  show ?case
  proof (cases "P a")
    case True
    with Cons.prems show ?thesis by (rule_tac x = "[]" in exI, rule_tac x = xs in exI) simp
  next
    case False
    with Cons obtain pre post where "xs = pre @ x # post" "list_all (\<lambda>z. \<not> P z) pre" by auto
    with False show ?thesis by (rule_tac x = "a # pre" in exI, rule_tac x = post in exI) simp
  qed
qed simp

lemma unavailable_utilisation [simp]: "utilisation (unavailable key reason) = None"
  by (simp add: utilisation_def unavailable_def)

lemma stage_modes:
  "sg_mode (face_stage parse row pk) = INSUFFICIENT_DATA \<Longrightarrow> utilisation (face_stage parse row pk) = None"
  "sg_mode (loading_stage parse row pk) = INSUFFICIENT_DATA \<Longrightarrow> utilisation (loading_stage parse row pk) = None"
  "sg_mode (haulage_stage parse row fl) = INSUFFICIENT_DATA \<Longrightarrow> utilisation (haulage_stage parse row fl) = None"
  "sg_mode (processing_stage parse row) = INSUFFICIENT_DATA \<Longrightarrow> utilisation (processing_stage parse row) = None"
  by (auto simp: face_stage_def loading_stage_def haulage_stage_def processing_stage_def Let_def
        split: option.splits prod.splits if_splits)

lemma stage_keys:
  "sg_key (face_stage parse row pk) = ''face''" "sg_key (loading_stage parse row pk) = ''loading''"
  "sg_key (haulage_stage parse row fl) = ''haulage''" "sg_key (processing_stage parse row) = ''processing''"
  "stockpile_stage parse row src = Inr s \<Longrightarrow> sg_key s = ''stockpile''"
  by (auto simp: face_stage_def loading_stage_def haulage_stage_def processing_stage_def stockpile_stage_def
        unavailable_def Let_def split: option.splits prod.splits sum.splits)

lemma flow_stages_keys: "flow_stages parse src row = Inr ss \<Longrightarrow> map sg_key ss = STAGE_ORDER"
  by (auto simp: flow_stages_def stage_keys STAGE_ORDER_def unavailable_def split: sum.splits)

lemma flow_stages_modes:
  assumes "flow_stages parse src row = Inr ss" "s \<in> set (measured ss)"
  shows "sg_mode s \<noteq> INSUFFICIENT_DATA"
proof
  assume m: "sg_mode s = INSUFFICIENT_DATA"
  have s: "s \<in> set ss" "utilisation s \<noteq> None" "sg_key s \<noteq> ''stockpile''"
    using assms(2) by (simp_all add: measured_def)
  obtain pk fl stock where "stockpile_stage parse row src = Inr stock"
    "set ss = {face_stage parse row pk, loading_stage parse row pk, haulage_stage parse row fl,
       processing_stage parse row, stock,
       unavailable ''dispatch'' ''no dispatch throughput is recorded in the operational schema''}"
    using assms(1) by (auto simp: flow_stages_def split: sum.splits)
  with s(1) consider "s = face_stage parse row pk" | "s = loading_stage parse row pk" | "s = haulage_stage parse row fl"
    | "s = processing_stage parse row" | "sg_key s = ''stockpile''" | "utilisation s = None"
    using stage_keys(5) [of parse row src stock] by auto
  then show False
    by cases (use m s(2,3) stage_modes in simp_all)
qed

text \<open>No stage but the stockpile is more loaded, and none before it as much.\<close>

definition limits_flow :: "stage list \<Rightarrow> stage \<Rightarrow> rat \<Rightarrow> bool" where
  "limits_flow ss s u \<longleftrightarrow>
     (\<exists>pre post. ss = pre @ s # post
        \<and> list_all (\<lambda>x. case utilisation x of None \<Rightarrow> True | Some v \<Rightarrow> sg_key x = ''stockpile'' \<or> v < u) pre
        \<and> list_all (\<lambda>x. case utilisation x of None \<Rightarrow> True | Some v \<Rightarrow> sg_key x = ''stockpile'' \<or> v \<le> u) post)"

lemma most_loaded_limits:
  assumes "most_loaded (measured ss) = Some s"
  shows "\<exists>u. utilisation s = Some u \<and> sg_key s \<noteq> ''stockpile'' \<and> limits_flow ss s u"
proof -
  let ?P = "\<lambda>s. utilisation s \<noteq> None \<and> sg_key s \<noteq> ''stockpile''" and ?f = "\<lambda>s. the (utilisation s)"
  have max: "py_max ?f (filter ?P ss) = Some s"
    using assms by (simp add: most_loaded_def measured_def)
  note top = py_max_Some [OF max]
  have "?P s"
    using conjunct1 [OF top] by simp
  then obtain u where u: "utilisation s = Some u" "sg_key s \<noteq> ''stockpile''"
    by auto
  have found: "find (\<lambda>x. ?P x \<and> ?f x = ?f s) ss = Some s"
    using py_max_first [OF max] by (simp add: find_filter)
  obtain pre post where ss: "ss = pre @ s # post" "list_all (\<lambda>z. \<not> (?P z \<and> ?f z = ?f s)) pre"
    using find_split [OF found] by (elim exE conjE) (rule that)
  have le: "v \<le> u" if "x \<in> set ss" "utilisation x = Some v" "sg_key x \<noteq> ''stockpile''" for x v
  proof -
    have "the (utilisation x) \<le> the (utilisation s)"
      by (rule conjunct2 [OF top, rule_format]) (use that in simp)
    with that(2) u(1) show ?thesis
      by simp
  qed
  have "list_all (\<lambda>x. case utilisation x of None \<Rightarrow> True | Some v \<Rightarrow> sg_key x = ''stockpile'' \<or> v < u) pre"
    unfolding list_all_iff
  proof
    fix x assume x: "x \<in> set pre"
    with ss(2) have "\<not> (?P x \<and> ?f x = ?f s)"
      by (simp add: list_all_iff)
    with x ss(1) le [of x] u(1)
    show "case utilisation x of None \<Rightarrow> True | Some v \<Rightarrow> sg_key x = ''stockpile'' \<or> v < u"
      by (cases "utilisation x") (auto simp: order_less_le)
  qed
  moreover have "list_all (\<lambda>x. case utilisation x of None \<Rightarrow> True | Some v \<Rightarrow> sg_key x = ''stockpile'' \<or> v \<le> u) post"
    using ss(1) le by (auto simp: list_all_iff split: option.splits)
  ultimately show ?thesis
    using u ss(1) unfolding limits_flow_def by blast
qed

lemma measured_Nil: "measured ss = [] \<longleftrightarrow> list_all (\<lambda>s. utilisation s = None \<or> sg_key s = ''stockpile'') ss"
  by (auto simp: measured_def filter_empty_conv list_all_iff)

lemma analyse_flow_mode:
  assumes "analyse_flow rt parse src mine_id = Inr r" "fr_bottleneck r = Some b"
  shows "bn_mode b \<noteq> INSUFFICIENT_DATA"
proof -
  obtain row ss s where ss: "flow_stages parse src row = Inr ss" "most_loaded (measured ss) = Some s" "bn_mode b = sg_mode s"
    using assms by (auto simp: analyse_flow_def Let_def mk_bottleneck_def split: sum.splits list.splits)
  have "s \<in> set (measured ss)"
    using py_max_Some [OF ss(2) [unfolded most_loaded_def]] by (rule conjunct1)
  with flow_stages_modes [OF ss(1)] ss(3) show ?thesis
    by simp
qed

text \<open>
  The bottleneck that a flow analysis names is the stage that limits production. Among the
  stages of \<open>STAGE_ORDER\<close> it is the first one with the largest utilisation - never the stockpile,
  never a stage without a measured throughput and capacity - and its percentage, mode and headroom
  are those of that stage. It is \<open>None\<close> exactly when no such stage is measured, and the stages
  listed as unmeasured are the ones that no comparison considered.
\<close>

theorem bottleneck_limits_flow:
  "case analyse_flow rt parse src mine_id of
     Inl _ \<Rightarrow> True
   | Inr r \<Rightarrow>
       map sg_key (fr_stages r) \<in> {[], STAGE_ORDER}
       \<and> fr_unmeasured r = map sg_key (filter (\<lambda>s. utilisation s = None) (fr_stages r))
       \<and> (case fr_bottleneck r of
            None \<Rightarrow> list_all (\<lambda>s. utilisation s = None \<or> sg_key s = ''stockpile'') (fr_stages r)
          | Some b \<Rightarrow>
              (\<exists>s u. utilisation s = Some u \<and> limits_flow (fr_stages r) s u
                 \<and> bn_stage b = sg_key s \<and> sg_key s \<noteq> ''stockpile''
                 \<and> bn_utilisation_pct b = py_round 1 (u * 100) \<and> bn_headroom b = map_option (py_round 1) (headroom s)
                 \<and> bn_mode b = sg_mode s \<and> bn_mode b \<noteq> INSUFFICIENT_DATA))"
proof (cases "\<exists>row rows ss. fs_latest_shift src = Inr (row # rows) \<and> flow_stages parse src row = Inr ss")
  case False
  then show ?thesis
    by (auto simp: analyse_flow_def split: sum.splits list.splits)
next
  case True
  then obtain row rows ss where src: "fs_latest_shift src = Inr (row # rows)" "flow_stages parse src row = Inr ss"
    by blast
  show ?thesis
  proof (cases "most_loaded (measured ss)")
    case None
    then have "list_all (\<lambda>s. utilisation s = None \<or> sg_key s = ''stockpile'') ss"
      by (simp add: most_loaded_def flip: measured_Nil)
    with None src flow_stages_keys [OF src(2)] show ?thesis
      by (simp add: analyse_flow_def Let_def)
  next
    case (Some s)
    have "s \<in> set (measured ss)"
      using py_max_Some [OF Some [unfolded most_loaded_def]] by (rule conjunct1)
    then have "sg_mode s \<noteq> INSUFFICIENT_DATA"
      by (rule flow_stages_modes [OF src(2)])
    moreover obtain u where "utilisation s = Some u" "sg_key s \<noteq> ''stockpile''" "limits_flow ss s u"
      using most_loaded_limits [OF Some] by blast
    ultimately show ?thesis
      using Some src flow_stages_keys [OF src(2)]
      by (auto simp: analyse_flow_def Let_def mk_bottleneck_def)
  qed
qed

text \<open>A recorded capacity of zero makes a stage unmeasured, whatever moved through it.\<close>

lemma zero_capacity_unmeasured:
  "row_num parse row ''processing_capacity_t'' = Some 0 \<Longrightarrow> utilisation (processing_stage parse row) = None"
  by (simp add: processing_stage_def utilisation_def split: option.split)

end
