(* ===== verification/StateEngine.thy ===== *)
theory StateEngine
  imports Bottleneck
begin

text \<open>
  Is the mine in a state that needs attention (\<open>app/api/core/state_engine.py\<close>)? Each signal is a
  function of the rows its statement answers; a builder that raises gives \<open>Inl\<close>. The builders only
  read, so their concurrent evaluation has the result of evaluating them in order.
\<close>

subsection \<open>Signals\<close>

datatype severity = V_NONE | V_WATCH | V_DISRUPTION | V_CRITICAL

fun state_severity_value :: "severity \<Rightarrow> string" where
  "state_severity_value V_NONE = ''NONE''"
| "state_severity_value V_WATCH = ''WATCH''"
| "state_severity_value V_DISRUPTION = ''DISRUPTION''"
| "state_severity_value V_CRITICAL = ''CRITICAL''"

fun rank :: "severity \<Rightarrow> nat" where
  "rank V_NONE = 0"
| "rank V_WATCH = 1"
| "rank V_DISRUPTION = 2"
| "rank V_CRITICAL = 3"

datatype operational_state = O_NORMAL | O_WATCH | O_DISRUPTION | O_CRITICAL | O_UNKNOWN

fun operational_value :: "operational_state \<Rightarrow> string" where
  "operational_value O_NORMAL = ''NORMAL''"
| "operational_value O_WATCH = ''WATCH''"
| "operational_value O_DISRUPTION = ''DISRUPTION''"
| "operational_value O_CRITICAL = ''CRITICAL''"
| "operational_value O_UNKNOWN = ''UNKNOWN''"

definition PRODUCTION_GAP_WATCH_PCT :: rat where "PRODUCTION_GAP_WATCH_PCT = 5"
definition PRODUCTION_GAP_DISRUPTION_PCT :: rat where "PRODUCTION_GAP_DISRUPTION_PCT = 12"
definition PRODUCTION_GAP_CRITICAL_PCT :: rat where "PRODUCTION_GAP_CRITICAL_PCT = 25"
definition EQUIPMENT_RISK_WATCH :: rat where "EQUIPMENT_RISK_WATCH = 35 / 100"
definition EQUIPMENT_RISK_DISRUPTION :: rat where "EQUIPMENT_RISK_DISRUPTION = 55 / 100"
definition MAINTENANCE_OVERDUE_WATCH_DAYS :: rat where "MAINTENANCE_OVERDUE_WATCH_DAYS = 7"
definition MAINTENANCE_OVERDUE_CRITICAL_DAYS :: rat where "MAINTENANCE_OVERDUE_CRITICAL_DAYS = 21"

record signal =
  si_key :: string
  si_label :: string
  si_severity :: severity
  si_value :: "rat option"
  si_unit :: string
  si_reason :: string
  si_source :: string
  si_scope :: scope
  si_observed_at :: "string option"
  si_threshold :: "rat option"
  si_mode :: calculation_mode
  si_deep_link :: "string option"
  si_evidence :: dict

definition signal_as_dict :: "signal \<Rightarrow> dict" where
  "signal_as_dict s =
     [(''key'', PStr (si_key s)), (''label'', PStr (si_label s)), (''severity'', PStr (state_severity_value (si_severity s))),
      (''value'', opt_round 2 (si_value s)), (''unit'', PStr (si_unit s)), (''reason'', PStr (si_reason s)),
      (''source'', PStr (si_source s)), (''scope'', PStr (scope_value (si_scope s))),
      (''observed_at'', opt_str (si_observed_at s)), (''threshold'', opt_float (si_threshold s)),
      (''calculation_mode'', PStr (calculation_mode_value (si_mode s))), (''deep_link'', opt_str (si_deep_link s)),
      (''evidence'', PDict (si_evidence s))]"

text \<open>A signal that could not be evaluated\<close>

definition unmeasured_signal ::
  "string \<Rightarrow> string \<Rightarrow> string \<Rightarrow> string \<Rightarrow> string \<Rightarrow> scope \<Rightarrow> severity \<Rightarrow> string option \<Rightarrow> signal" where
  "unmeasured_signal key label' unit' reason source sc sev link =
     \<lparr>si_key = key, si_label = label', si_severity = sev, si_value = None, si_unit = unit', si_reason = reason,
      si_source = source, si_scope = sc, si_observed_at = None, si_threshold = None, si_mode = INSUFFICIENT_DATA,
      si_deep_link = link, si_evidence = []\<rparr>"

record state_world =
  sw_rt :: runtime
  sw_parse :: parser
  sw_tf :: time_format

text \<open>
  What the statements answer: rows, the incidents per severity, and for a task whether a model is
  loaded with its metadata.
\<close>

record state_source =
  ss_production :: "dict list result"
  ss_equipment :: "dict list result"
  ss_maintenance :: "dict list result"
  ss_flow :: flow_source
  ss_incidents :: "(string \<times> int) list result"
  ss_serving :: "string \<Rightarrow> (bool \<times> dict) result"

subsection \<open>Operational signals\<close>

definition production_signal :: "state_world \<Rightarrow> state_source \<Rightarrow> signal result" where
  "production_signal w src =
     (let none = (\<lambda>reason. unmeasured_signal ''production_gap'' ''Production against plan'' ''%'' reason
                    ''ops.production_records'' S_MINE V_NONE (Some ''/operations/production''))
      in case ss_production src of
           Inl e \<Rightarrow> Inl e
         | Inr [] \<Rightarrow> Inr (none ''No production records exist for this mine.'')
         | Inr (r # rs) \<Rightarrow>
             (let rows = r # rs;
                  planned = sum_list (map (\<lambda>x. row_num0 (sw_parse w) x ''planned_production_t'') rows);
                  actual = sum_list (map (\<lambda>x. row_num0 (sw_parse w) x ''actual_production_t'') rows);
                  gap_t = planned - actual; gap_pct = 100 * gap_t / planned
              in if planned \<le> 0 then Inr (none ''No production plan is recorded for the recent shifts.'')
                 else
                   (let (sev, threshold) =
                          (if gap_pct \<ge> PRODUCTION_GAP_CRITICAL_PCT then (V_CRITICAL, PRODUCTION_GAP_CRITICAL_PCT)
                           else if gap_pct \<ge> PRODUCTION_GAP_DISRUPTION_PCT
                           then (V_DISRUPTION, PRODUCTION_GAP_DISRUPTION_PCT)
                           else if gap_pct \<ge> PRODUCTION_GAP_WATCH_PCT then (V_WATCH, PRODUCTION_GAP_WATCH_PCT)
                           else (V_NONE, PRODUCTION_GAP_WATCH_PCT));
                        shifts = show_nat (length rows);
                        reason =
                          (if gap_pct < 0
                           then ''Production is '' @ fmt_fixed 1 \<bar>gap_pct\<bar> @ ''% ahead of plan over the last ''
                             @ shifts @ '' shifts ('' @ fmt_commas 0 actual @ '' t against '' @ fmt_commas 0 planned
                             @ '' t planned).''
                           else ''Production is '' @ fmt_fixed 1 gap_pct @ ''% below plan over the last '' @ shifts
                             @ '' shifts '' @ em_dash @ '' '' @ fmt_commas 0 gap_t @ '' t short of ''
                             @ fmt_commas 0 planned @ '' t planned.'')
                    in Inr \<lparr>si_key = ''production_gap'', si_label = ''Production against plan'', si_severity = sev,
                            si_value = Some gap_pct, si_unit = ''%'', si_reason = reason,
                            si_source = ''ops.production_records'', si_scope = S_MINE,
                            si_observed_at = Some (py_str (sw_rt w) (column r ''date'')),
                            si_threshold = Some threshold, si_mode = MODEL_BACKED,
                            si_deep_link = Some ''/operations/production'',
                            si_evidence = [(''shifts_considered'', PInt (int (length rows))),
                              (''planned_t'', PFloat (py_round 1 planned)), (''actual_t'', PFloat (py_round 1 actual)),
                              (''gap_t'', PFloat (py_round 1 gap_t))]\<rparr>)))"

definition machine_name :: "state_world \<Rightarrow> dict \<Rightarrow> string" where
  "machine_name w r = py_str (sw_rt w) (column r ''machine_id'')"

definition flagged_rows :: "state_world \<Rightarrow> dict list \<Rightarrow> dict list" where
  "flagged_rows w rows = filter (\<lambda>r. row_num0 (sw_parse w) r ''failure_next_24h'' > 1 / 2) rows"

definition equipment_signal :: "state_world \<Rightarrow> state_source \<Rightarrow> signal result" where
  "equipment_signal w src =
     (case ss_equipment src of
        Inl e \<Rightarrow> Inl e
      | Inr [] \<Rightarrow>
          Inr (unmeasured_signal ''equipment_risk'' ''Equipment failure exposure'' ''share''
            ''No equipment telemetry exists for this mine.'' ''ops.equipment_telemetry'' S_MINE V_NONE
            (Some ''/equipment''))
      | Inr (r # rs) \<Rightarrow>
          (let rows = r # rs; flagged = flagged_rows w rows;
               share = of_nat (length flagged) / of_nat (length rows);
               (sev, threshold) =
                 (if share \<ge> EQUIPMENT_RISK_DISRUPTION then (V_DISRUPTION, EQUIPMENT_RISK_DISRUPTION)
                  else if share \<ge> EQUIPMENT_RISK_WATCH then (V_WATCH, EQUIPMENT_RISK_WATCH)
                  else (V_NONE, EQUIPMENT_RISK_WATCH));
               more = (if length flagged > 3 then '' and '' @ show_nat (length flagged - 3) @ '' more'' else []);
               reason =
                 (if flagged \<noteq> []
                  then show_nat (length flagged) @ '' of '' @ show_nat (length rows)
                    @ '' machines are flagged for failure within 24 hours (''
                    @ py_join '', '' (map (machine_name w) (take 3 flagged)) @ more @ '').''
                  else ''None of the '' @ show_nat (length rows) @ '' machines are flagged for near-term failure.'')
           in Inr \<lparr>si_key = ''equipment_risk'', si_label = ''Equipment failure exposure'', si_severity = sev,
                   si_value = Some share, si_unit = ''share'', si_reason = reason,
                   si_source = ''ops.equipment_telemetry'', si_scope = S_MINE,
                   si_observed_at = Some (py_str (sw_rt w) (column r ''datetime'')), si_threshold = Some threshold,
                   si_mode = MODEL_BACKED, si_deep_link = Some ''/equipment'',
                   si_evidence = [(''machines'', PInt (int (length rows))), (''flagged'', PInt (int (length flagged))),
                     (''flagged_ids'', PList (map (PStr \<circ> machine_name w) (take 10 flagged))),
                     (''note'', PStr (''failure_next_24h is a 0/1 label in this schema, so this is the ''
                        @ ''share of the fleet flagged rather than a calibrated probability.''))]\<rparr>))"

definition overdue_days :: "state_world \<Rightarrow> dict \<Rightarrow> rat" where
  "overdue_days w r = row_num0 (sw_parse w) r ''maintenance_overdue_days''"

definition maintenance_signal :: "state_world \<Rightarrow> state_source \<Rightarrow> signal result" where
  "maintenance_signal w src =
     (case ss_maintenance src of
        Inl e \<Rightarrow> Inl e
      | Inr rows \<Rightarrow>
          (case py_max (overdue_days w) rows of
             None \<Rightarrow>
               Inr (unmeasured_signal ''maintenance_overdue'' ''Maintenance backlog'' ''days''
                 ''No maintenance records exist for this mine.'' ''ops.equipment_telemetry'' S_MINE V_NONE
                 (Some ''/equipment''))
           | Some worst \<Rightarrow>
               (let days = overdue_days w worst; overdue = filter (\<lambda>r. overdue_days w r > 0) rows;
                    (sev, threshold) =
                      (if days \<ge> MAINTENANCE_OVERDUE_CRITICAL_DAYS
                       then (V_DISRUPTION, MAINTENANCE_OVERDUE_CRITICAL_DAYS)
                       else if days \<ge> MAINTENANCE_OVERDUE_WATCH_DAYS
                       then (V_WATCH, MAINTENANCE_OVERDUE_WATCH_DAYS)
                       else (V_NONE, MAINTENANCE_OVERDUE_WATCH_DAYS))
                in Inr \<lparr>si_key = ''maintenance_overdue'', si_label = ''Maintenance backlog'', si_severity = sev,
                        si_value = Some days, si_unit = ''days'',
                        si_reason =
                          (if overdue \<noteq> []
                           then show_nat (length overdue) @ '' of '' @ show_nat (length rows)
                             @ '' machines are overdue for service; the worst is '' @ machine_name w worst @ '' at ''
                             @ fmt_fixed 0 days @ '' days.''
                           else ''No machine at this mine is overdue for service.''),
                        si_source = ''ops.equipment_telemetry'', si_scope = S_MINE,
                        si_observed_at = Some (py_str (sw_rt w) (column worst ''datetime'')),
                        si_threshold = Some threshold, si_mode = MODEL_BACKED, si_deep_link = Some ''/equipment'',
                        si_evidence = [(''machines'', PInt (int (length rows))), (''overdue'', PInt (int (length overdue))),
                          (''worst_machine'', PStr (machine_name w worst)), (''worst_days'', PFloat (py_round 1 days))]\<rparr>)))"

definition bottleneck_signal :: "state_world \<Rightarrow> state_source \<Rightarrow> string \<Rightarrow> signal result" where
  "bottleneck_signal w src mine_id =
     (case analyse_flow (sw_rt w) (sw_parse w) (ss_flow src) mine_id of
        Inl e \<Rightarrow> Inl e
      | Inr report \<Rightarrow>
          (case fr_bottleneck report of
             None \<Rightarrow>
               Inr (unmeasured_signal ''bottleneck'' ''Material flow constraint'' ''%''
                 (str_or (fr_unavailable_reason report) ''No stage could be measured.'') ''core.bottleneck'' S_MINE
                 V_NONE (Some ''/operations/bottlenecks''))
           | Some b \<Rightarrow>
               (let u = bn_utilisation_pct b / 100;
                    (sev, threshold) =
                      (if u \<ge> SATURATED_UTILISATION then (V_DISRUPTION, SATURATED_UTILISATION * 100)
                       else if u \<ge> CONSTRAINED_UTILISATION then (V_WATCH, CONSTRAINED_UTILISATION * 100)
                       else (V_NONE, CONSTRAINED_UTILISATION * 100))
                in Inr \<lparr>si_key = ''bottleneck'', si_label = ''Material flow constraint'', si_severity = sev,
                        si_value = Some (bn_utilisation_pct b), si_unit = ''%'', si_reason = bn_reason b,
                        si_source = ''core.bottleneck'', si_scope = S_MINE, si_observed_at = fr_as_of report,
                        si_threshold = Some threshold, si_mode = bn_mode b,
                        si_deep_link = Some ''/operations/bottlenecks'',
                        si_evidence = [(''stage'', PStr (bn_stage b)), (''headroom_t'', opt_float (bn_headroom b))]\<rparr>)))"

text \<open>The open incidents per severity; \<open>GROUP BY\<close> gives each severity one row.\<close>

definition incident_counts :: "(string \<times> int) list \<Rightarrow> (string \<times> int) list" where
  "incident_counts rows = fold (\<lambda>(s, n). AList.update s n) rows []"

definition counted :: "(string \<times> int) list \<Rightarrow> string \<Rightarrow> bool" where
  "counted counts s \<longleftrightarrow> (case map_of counts s of None \<Rightarrow> False | Some n \<Rightarrow> n \<noteq> 0)"

definition open_incident_signal :: "state_world \<Rightarrow> state_source \<Rightarrow> signal result" where
  "open_incident_signal w src =
     (case ss_incidents src of
        Inl e \<Rightarrow> Inl e
      | Inr rows \<Rightarrow>
          (let counts = incident_counts rows; total = sum_list (map snd counts)
           in Inr \<lparr>si_key = ''open_incidents'', si_label = ''Open incidents'',
                   si_severity =
                     (if counted counts ''CRITICAL'' then V_CRITICAL
                      else if counted counts ''HIGH'' then V_DISRUPTION
                      else if total \<noteq> 0 then V_WATCH else V_NONE),
                   si_value = Some (of_int total), si_unit = ''incidents'',
                   si_reason =
                     (if total = 0 then ''No incidents are currently open.''
                      else show_int total @ '' open incident(s): ''
                        @ py_join '', '' (map (\<lambda>(s, n). show_int n @ '' '' @ py_lower s) (sort_key fst counts))),
                   si_source = ''ops.incidents'', si_scope = S_MINE, si_observed_at = None, si_threshold = Some 1,
                   si_mode = MODEL_BACKED, si_deep_link = Some ''/incidents'',
                   si_evidence = map (\<lambda>(s, n). (s, PInt n)) counts\<rparr>))"

subsection \<open>Platform signals\<close>

definition freshness_severity :: "data_freshness \<Rightarrow> severity" where
  "freshness_severity f =
     (case f of F_LIVE \<Rightarrow> V_NONE | F_RECENT \<Rightarrow> V_NONE | F_STALE \<Rightarrow> V_WATCH | F_EXPIRED \<Rightarrow> V_DISRUPTION)"

definition freshness_signal :: "state_world \<Rightarrow> operational_clock \<Rightarrow> int \<Rightarrow> signal" where
  "freshness_signal w c now =
     (case oc_dataset_epoch c of
        None \<Rightarrow>
          unmeasured_signal ''data_freshness'' ''Data freshness'' ''hours''
            ''No dated observations are available for this mine.'' ''core.clock'' S_PLATFORM V_DISRUPTION (Some ''/data'')
      | Some epoch \<Rightarrow>
          if is_benchmark c
          then \<lparr>si_key = ''data_freshness'', si_label = ''Data freshness'', si_severity = V_WATCH,
                si_value = Some (oc_lag_days c), si_unit = ''days'',
                si_reason = ''This mine is running on a benchmark dataset whose most recent observation is ''
                  @ tf_day (sw_tf w) epoch @ '', '' @ fmt_fixed 0 (oc_lag_days c)
                  @ '' days ago. Operational readings describe that period, not the present.'',
                si_source = ''core.clock'', si_scope = S_PLATFORM, si_observed_at = Some (tf_iso (sw_tf w) epoch),
                si_threshold = None, si_mode = MODEL_BACKED, si_deep_link = Some ''/data'',
                si_evidence = [(''mode'', PStr (clock_mode_value (oc_mode c))),
                  (''lag_days'', PFloat (py_round 1 (oc_lag_days c)))]\<rparr>
          else
            (let age_h = total_seconds (now - epoch) / 3600; f = freshness_from_age (Some (age_h * 3600))
             in \<lparr>si_key = ''data_freshness'', si_label = ''Data freshness'', si_severity = freshness_severity f,
                 si_value = Some age_h, si_unit = ''hours'',
                 si_reason = ''Newest observation is '' @ fmt_fixed 1 age_h @ '' hours old (''
                   @ py_lower (freshness_value f) @ '').'',
                 si_source = ''core.clock'', si_scope = S_PLATFORM, si_observed_at = Some (tf_iso (sw_tf w) epoch),
                 si_threshold = None, si_mode = MODEL_BACKED, si_deep_link = Some ''/data'', si_evidence = []\<rparr>))"

definition serving_tasks :: "string list" where
  "serving_tasks = [''production_forecast'', ''shortfall'', ''equipment_failure'', ''prospectivity'']"

text \<open>The status of a task and whether its approved champion is missing\<close>

definition serving_status :: "state_world \<Rightarrow> (bool \<times> dict) result \<Rightarrow> string \<times> bool" where
  "serving_status w answer =
     (case answer of
        Inl _ \<Rightarrow> (''ERROR'', True)
      | Inr (loaded, meta) \<Rightarrow>
          (let v = column meta ''serving_status'';
               status = (if py_truthy v then py_str (sw_rt w) v else ''UNKNOWN'')
           in (status, \<not> loaded \<or> status \<noteq> ''SYNCED'')))"

definition model_signal :: "state_world \<Rightarrow> state_source \<Rightarrow> signal" where
  "model_signal w src =
     (let answers = map (\<lambda>t. (t, serving_status w (ss_serving src t))) serving_tasks;
          missing = map fst (filter (\<lambda>(t, st, gone). gone) answers);
          n = length serving_tasks;
          (sev, reason) =
            (if missing = []
             then (V_NONE, ''All '' @ show_nat n @ '' models are serving and in sync with the registry.'')
             else if length missing = n
             then (V_DISRUPTION, ''No model is serving; every prediction would be heuristic.'')
             else (V_WATCH, show_nat (length missing) @ '' of '' @ show_nat n
                     @ '' models are not serving the approved champion: '' @ py_join '', '' missing @ ''.''))
      in \<lparr>si_key = ''model_serving'', si_label = ''Model serving integrity'', si_severity = sev,
          si_value = Some (of_nat n - of_nat (length missing)), si_unit = ''models'', si_reason = reason,
          si_source = ''core.ml_loader'', si_scope = S_PLATFORM, si_observed_at = None,
          si_threshold = Some (of_nat n), si_mode = MODEL_BACKED, si_deep_link = Some ''/models'',
          si_evidence = map (\<lambda>(t, st, gone). (t, PStr st)) answers\<rparr>)"

subsection \<open>Assembly\<close>

text \<open>
  A builder that raised: the label is its name without underscores at the ends and without
  \<open>_signal\<close>, as \<open>strip\<close>, \<open>replace\<close> and \<open>title\<close> make it of the seven names that occur.
\<close>

definition builder_labels :: "(string \<times> string) list" where
  "builder_labels =
     [(''production_signal'', ''Production''), (''equipment_signal'', ''Equipment''),
      (''maintenance_signal'', ''Maintenance''), (''bottleneck_signal'', ''Bottleneck''),
      (''open_incident_signal'', ''Open Incident''), (''freshness_signal'', ''Freshness''),
      (''model_signal'', ''Model'')]"

definition failed_signal :: "string \<Rightarrow> exn \<Rightarrow> signal" where
  "failed_signal name e =
     unmeasured_signal name (case map_of builder_labels name of None \<Rightarrow> [] | Some l \<Rightarrow> l) []
       (''This check could not be evaluated: '' @ exn_type e @ ''.'') ''core.state_engine'' S_PLATFORM V_WATCH None"

text \<open>The answers of the builders, in their order\<close>

definition collect_signals :: "(string \<times> signal result) list \<Rightarrow> signal list" where
  "collect_signals answers = map (\<lambda>(name, a). case a of Inl e \<Rightarrow> failed_signal name e | Inr s \<Rightarrow> s) answers"

definition evaluated :: "signal \<Rightarrow> bool" where
  "evaluated s \<longleftrightarrow> si_mode s \<noteq> INSUFFICIENT_DATA"

fun state_of_severity :: "severity \<Rightarrow> operational_state" where
  "state_of_severity V_NONE = O_NORMAL"
| "state_of_severity V_WATCH = O_WATCH"
| "state_of_severity V_DISRUPTION = O_DISRUPTION"
| "state_of_severity V_CRITICAL = O_CRITICAL"

definition state_from :: "signal list \<Rightarrow> operational_state" where
  "state_from signals =
     (case py_max (rank \<circ> si_severity) (filter evaluated signals) of
        None \<Rightarrow> O_UNKNOWN
      | Some s \<Rightarrow> state_of_severity (si_severity s))"

text \<open>\<open>sorted(..., reverse=True)\<close> keeps the order of signals with equal rank.\<close>

definition headline :: "operational_state \<Rightarrow> signal list \<Rightarrow> string" where
  "headline st signals =
     (case st of
        O_UNKNOWN \<Rightarrow> ''The platform has no measurable signals for this mine.''
      | O_NORMAL \<Rightarrow> ''All measured signals are within their normal range.''
      | _ \<Rightarrow>
          (case sort_key (\<lambda>s. - int (rank (si_severity s))) (filter (\<lambda>s. rank (si_severity s) > 0) signals) of
             [] \<Rightarrow> ''State could not be attributed to a specific signal.''
           | [lead] \<Rightarrow> si_reason lead
           | lead # second # _ \<Rightarrow> si_reason lead @ '' Also contributing: '' @ py_lower (si_label second) @ ''.''))"

record state_report =
  sp_mine_id :: string
  sp_scope :: scope
  sp_state :: operational_state
  sp_headline :: string
  sp_signals :: "signal list"
  sp_unmeasured :: "string list"
  sp_clock :: operational_clock
  sp_evaluated_at :: int

definition operational_answers :: "state_world \<Rightarrow> state_source \<Rightarrow> string \<Rightarrow> (string \<times> signal result) list" where
  "operational_answers w src mine_id =
     [(''production_signal'', production_signal w src), (''equipment_signal'', equipment_signal w src),
      (''maintenance_signal'', maintenance_signal w src), (''bottleneck_signal'', bottleneck_signal w src mine_id),
      (''open_incident_signal'', open_incident_signal w src)]"

definition mine_state :: "state_world \<Rightarrow> state_source \<Rightarrow> string \<Rightarrow> operational_clock \<Rightarrow> int \<Rightarrow> state_report" where
  "mine_state w src mine_id c now =
     (let signals = collect_signals (operational_answers w src mine_id); st = state_from signals
      in \<lparr>sp_mine_id = mine_id, sp_scope = S_MINE, sp_state = st, sp_headline = headline st signals,
          sp_signals = signals, sp_unmeasured = map si_key (filter (\<lambda>s. \<not> evaluated s) signals), sp_clock = c,
          sp_evaluated_at = now\<rparr>)"

text \<open>The report on the platform carries no list of unmeasured signals.\<close>

definition platform_state ::
  "state_world \<Rightarrow> state_source \<Rightarrow> string option \<Rightarrow> operational_clock \<Rightarrow> int \<Rightarrow> int \<Rightarrow> state_report" where
  "platform_state w src mine_id c now now' =
     (let signals = collect_signals [(''freshness_signal'', Inr (freshness_signal w c now)),
                      (''model_signal'', Inr (model_signal w src))];
          st = state_from signals
      in \<lparr>sp_mine_id = (case mine_id of None \<Rightarrow> [] | Some m \<Rightarrow> m), sp_scope = S_PLATFORM, sp_state = st,
          sp_headline = headline st signals, sp_signals = signals, sp_unmeasured = [], sp_clock = c,
          sp_evaluated_at = now'\<rparr>)"

subsection \<open>What the state means\<close>

text \<open>
  The specification speaks of the readings only: each check has a level, the number of the limits
  that its reading has reached, or none when there is nothing to read.
\<close>

definition steps :: "rat list \<Rightarrow> rat \<Rightarrow> nat" where
  "steps limits x = length (filter (\<lambda>l. l \<le> x) limits)"

definition production_level :: "state_world \<Rightarrow> state_source \<Rightarrow> nat option" where
  "production_level w src =
     (case ss_production src of
        Inl _ \<Rightarrow> None
      | Inr rows \<Rightarrow>
          (let tonnes = (\<lambda>k. sum_list (map (\<lambda>r. row_num0 (sw_parse w) r k) rows));
               planned = tonnes ''planned_production_t''; actual = tonnes ''actual_production_t''
           in if planned \<le> 0 then None else Some (steps [5, 12, 25] (100 * (planned - actual) / planned))))"

definition equipment_level :: "state_world \<Rightarrow> state_source \<Rightarrow> nat option" where
  "equipment_level w src =
     (case ss_equipment src of
        Inl _ \<Rightarrow> None
      | Inr rows \<Rightarrow>
          if rows = [] then None
          else Some (steps [35 / 100, 55 / 100] (of_nat (length (flagged_rows w rows)) / of_nat (length rows))))"

definition maintenance_level :: "state_world \<Rightarrow> state_source \<Rightarrow> nat option" where
  "maintenance_level w src =
     (case ss_maintenance src of
        Inl _ \<Rightarrow> None
      | Inr rows \<Rightarrow> if rows = [] then None else Some (steps [7, 21] (Max (overdue_days w ` set rows))))"

definition flow_level :: "state_world \<Rightarrow> state_source \<Rightarrow> string \<Rightarrow> nat option" where
  "flow_level w src mine_id =
     (case analyse_flow (sw_rt w) (sw_parse w) (ss_flow src) mine_id of
        Inl _ \<Rightarrow> None
      | Inr r \<Rightarrow> map_option (\<lambda>b. steps [85, 95] (bn_utilisation_pct b)) (fr_bottleneck r))"

definition incident_level :: "state_world \<Rightarrow> state_source \<Rightarrow> nat option" where
  "incident_level w src =
     (case ss_incidents src of
        Inl _ \<Rightarrow> None
      | Inr rows \<Rightarrow>
          Some (if counted (incident_counts rows) ''CRITICAL'' then 3
                else if counted (incident_counts rows) ''HIGH'' then 2
                else if sum_list (map snd (incident_counts rows)) \<noteq> 0 then 1 else 0))"

text \<open>The worst level decides; with nothing measured the state is unknown.\<close>

definition state_of_levels :: "nat option list \<Rightarrow> operational_state" where
  "state_of_levels ls =
     (let xs = map the (filter (\<lambda>l. l \<noteq> None) ls)
      in if xs = [] then O_UNKNOWN else [O_NORMAL, O_WATCH, O_DISRUPTION, O_CRITICAL] ! Max (set xs))"

definition signal_level :: "signal \<Rightarrow> nat option" where
  "signal_level s = (if evaluated s then Some (rank (si_severity s)) else None)"

lemma unmeasured_level [simp]: "signal_level (unmeasured_signal k l u r so sc sv li) = None"
  by (simp add: signal_level_def evaluated_def unmeasured_signal_def)

lemma failed_level [simp]: "signal_level (failed_signal name e) = None"
  by (simp add: failed_signal_def)

lemma state_of_rank: "state_of_severity v = [O_NORMAL, O_WATCH, O_DISRUPTION, O_CRITICAL] ! rank v"
  by (cases v) simp_all

lemma signal_levels: "map the (filter (\<lambda>l. l \<noteq> None) (map signal_level ss)) = map (rank \<circ> si_severity) (filter evaluated ss)"
  by (induction ss) (simp_all add: signal_level_def)

lemma state_from_levels: "state_from ss = state_of_levels (map signal_level ss)"
proof (cases "py_max (rank \<circ> si_severity) (filter evaluated ss)")
  case None
  then show ?thesis
    unfolding state_from_def state_of_levels_def signal_levels Let_def by simp
next
  case (Some s)
  note top = py_max_Some [OF Some]
  have "Max (set (map (rank \<circ> si_severity) (filter evaluated ss))) = rank (si_severity s)"
    by (rule Max_eqI) (use top in auto)
  moreover have "filter evaluated ss \<noteq> []"
    using Some by (cases "filter evaluated ss") simp_all
  ultimately show ?thesis
    using Some unfolding state_from_def state_of_levels_def signal_levels Let_def by (simp add: state_of_rank)
qed

lemma production_signal_level:
  "(case production_signal w src of Inl _ \<Rightarrow> None | Inr s \<Rightarrow> signal_level s) = production_level w src"
  by (auto simp: production_signal_def production_level_def Let_def signal_level_def evaluated_def steps_def
        unmeasured_signal_def PRODUCTION_GAP_WATCH_PCT_def PRODUCTION_GAP_DISRUPTION_PCT_def
        PRODUCTION_GAP_CRITICAL_PCT_def split: sum.splits list.splits if_splits)

lemma equipment_signal_level:
  "(case equipment_signal w src of Inl _ \<Rightarrow> None | Inr s \<Rightarrow> signal_level s) = equipment_level w src"
  by (auto simp: equipment_signal_def equipment_level_def Let_def signal_level_def evaluated_def steps_def
        unmeasured_signal_def EQUIPMENT_RISK_WATCH_def EQUIPMENT_RISK_DISRUPTION_def
        split: sum.splits list.splits if_splits)

lemma py_max_Max: "py_max f xs = Some m \<Longrightarrow> f m = Max (f ` set xs)"
  by (rule Max_eqI [symmetric]) (use py_max_Some in fastforce)+

lemma maintenance_signal_level:
  "(case maintenance_signal w src of Inl _ \<Rightarrow> None | Inr s \<Rightarrow> signal_level s) = maintenance_level w src"
proof (cases "ss_maintenance src")
  case (Inr rows)
  show ?thesis
  proof (cases "py_max (overdue_days w) rows")
    case None
    with Inr show ?thesis by (simp add: maintenance_signal_def maintenance_level_def)
  next
    case (Some m)
    then have "rows \<noteq> []" by auto
    with Inr Some show ?thesis
      unfolding maintenance_signal_def maintenance_level_def
      by (simp add: Let_def py_max_Max [OF Some, symmetric] steps_def signal_level_def evaluated_def
            MAINTENANCE_OVERDUE_WATCH_DAYS_def MAINTENANCE_OVERDUE_CRITICAL_DAYS_def)
  qed
qed (simp add: maintenance_signal_def maintenance_level_def)

lemma bottleneck_signal_level:
  "(case bottleneck_signal w src mine_id of Inl _ \<Rightarrow> None | Inr s \<Rightarrow> signal_level s) = flow_level w src mine_id"
proof (cases "analyse_flow (sw_rt w) (sw_parse w) (ss_flow src) mine_id")
  case (Inr r)
  show ?thesis
  proof (cases "fr_bottleneck r")
    case (Some b)
    have "bn_mode b \<noteq> INSUFFICIENT_DATA"
      by (rule analyse_flow_mode [OF Inr Some])
    with Inr Some show ?thesis
      by (simp add: bottleneck_signal_def flow_level_def Let_def signal_level_def evaluated_def steps_def
            CONSTRAINED_UTILISATION_def SATURATED_UTILISATION_def field_simps)
  qed (simp add: bottleneck_signal_def flow_level_def Inr)
qed (simp add: bottleneck_signal_def flow_level_def)

lemma incident_signal_level:
  "(case open_incident_signal w src of Inl _ \<Rightarrow> None | Inr s \<Rightarrow> signal_level s) = incident_level w src"
  by (simp add: open_incident_signal_def incident_level_def Let_def signal_level_def evaluated_def split: sum.split)

lemma collect_levels:
  "map signal_level (collect_signals answers)
     = map (\<lambda>(name, a). case a of Inl _ \<Rightarrow> None | Inr s \<Rightarrow> signal_level s) answers"
  by (auto simp: collect_signals_def split: sum.split)

lemma state_from_unknown: "state_from ss = O_UNKNOWN \<longleftrightarrow> (\<forall>l \<in> set (map signal_level ss). l = None)"
proof -
  have "state_of_severity v \<noteq> O_UNKNOWN" for v
    by (cases v) simp_all
  then have "state_from ss = O_UNKNOWN \<longleftrightarrow> filter evaluated ss = []"
    unfolding state_from_def by (cases "py_max (rank \<circ> si_severity) (filter evaluated ss)") auto
  then show ?thesis
    by (auto simp: filter_empty_conv signal_level_def)
qed

text \<open>
  C33: The state of a mine is the worst level among its checks and nothing else. It is the largest
  number of limits - 5, 12 and 25% below plan, 35 and 55% of the machines flagged, 7 and 21 days
  overdue, 85 and 95% of the limiting stage's capacity, an open incident of some, high or critical
  severity - that the reading of any check has reached; it is unknown exactly when no check has a
  reading. All five checks are reported in order, whatever fails, and those without a reading are
  listed, by their keys and in order, as unmeasured.
\<close>

theorem mine_state_is_worst_level:
  "let r = mine_state w src mine_id c now;
       levels = [production_level w src, equipment_level w src, maintenance_level w src, flow_level w src mine_id,
                 incident_level w src]
   in sp_state r = state_of_levels levels \<and> map signal_level (sp_signals r) = levels
      \<and> sp_unmeasured r = [si_key s. (s, l) \<leftarrow> zip (sp_signals r) levels, l = None]
      \<and> length (sp_unmeasured r) = length (filter (\<lambda>l. l = None) levels)
      \<and> (sp_state r = O_UNKNOWN \<longleftrightarrow> set levels = {None})"
proof -
  define levels where "levels = [production_level w src, equipment_level w src, maintenance_level w src,
    flow_level w src mine_id, incident_level w src]"
  have sig: "map signal_level (sp_signals (mine_state w src mine_id c now)) = levels"
    by (simp add: mine_state_def Let_def collect_levels operational_answers_def levels_def production_signal_level
          equipment_signal_level maintenance_signal_level bottleneck_signal_level incident_signal_level)
  have built: "sp_state (mine_state w src mine_id c now) = state_from (sp_signals (mine_state w src mine_id c now))"
    by (simp add: mine_state_def Let_def)
  then have st: "sp_state (mine_state w src mine_id c now) = state_of_levels levels"
    by (simp only: state_from_levels sig)
  have "length (sp_unmeasured (mine_state w src mine_id c now))
      = length (filter (\<lambda>l. l = None) (map signal_level (sp_signals (mine_state w src mine_id c now))))"
    by (simp add: mine_state_def Let_def filter_map comp_def signal_level_def)
  moreover have "map si_key (filter (\<lambda>s. \<not> evaluated s) ss)
      = [si_key s. (s, l) \<leftarrow> zip ss (map signal_level ss), l = None]" for ss
    by (induction ss) (auto simp: signal_level_def)
  then have "sp_unmeasured (mine_state w src mine_id c now)
      = [si_key s. (s, l) \<leftarrow> zip (sp_signals (mine_state w src mine_id c now)) levels, l = None]"
    unfolding sig [symmetric] by (simp add: mine_state_def Let_def)
  moreover have "state_of_levels levels = O_UNKNOWN \<longleftrightarrow> (\<forall>l \<in> set levels. l = None)"
    using state_from_unknown [of "sp_signals (mine_state w src mine_id c now)"] unfolding built [symmetric] sig st .
  then have "state_of_levels levels = O_UNKNOWN \<longleftrightarrow> set levels = {None}"
    by (auto simp: levels_def)
  ultimately show ?thesis
    unfolding levels_def [symmetric] Let_def sig st by simp
qed

text \<open>
  A check that fails has no level, so the state is that of the remaining checks: it does not keep
  the state from being normal.
\<close>

lemma failed_check_ignored:
  "state_from (collect_signals (xs @ [(name, Inl e)] @ ys)) = state_from (collect_signals (xs @ ys))"
  by (simp add: state_from_def collect_signals_def failed_signal_def unmeasured_signal_def evaluated_def)

text \<open>
  A production row of today counts as observed one minute before midnight, which lies ahead of
  the clock: the feed is live, and its freshness expired.
\<close>

lemma same_day_row_expires:
  assumes "newest_observation (Inr []) (Inr [SDate d]) = Some e" "now < e"
  shows "oc_mode (resolve_uncached now (Some e)) = C_LIVE
     \<and> si_severity (freshness_signal w (resolve_uncached now (Some e)) now) = V_DISRUPTION"
proof -
  have neg: "total_seconds (now - e) < 0"
    using assms(2) by (simp add: total_seconds_def)
  then have "oc_mode (resolve_uncached now (Some e)) = C_LIVE" "oc_dataset_epoch (resolve_uncached now (Some e)) = Some e"
    by (simp_all add: resolve_uncached_def Let_def LIVE_THRESHOLD_HOURS_def)
  moreover have "freshness_from_age (Some (total_seconds (now - e) / 3600 * 3600)) = F_EXPIRED"
    using neg by (simp add: freshness_from_age_def)
  ultimately show ?thesis
    by (simp add: freshness_signal_def is_benchmark_def Let_def freshness_severity_def)
qed

end
