(* ===== verification/Constraints.thy ===== *)
theory Constraints
  imports AStarCorrect Clock
begin

text \<open>
  What the mine will and will not permit (\<open>app/api/core/constraints.py\<close>). The statements are
  evaluated on the tables' rows of the mine, and each of them can fail; the haul route is asked
  of the router of \<open>AStar\<close>.
\<close>

subsection \<open>Checks and reports\<close>

datatype constraint_kind = HARD | SOFT

fun constraint_kind_value :: "constraint_kind \<Rightarrow> string" where
  "constraint_kind_value HARD = ''HARD''"
| "constraint_kind_value SOFT = ''SOFT''"

datatype constraint_outcome = PASSED | FAILED | NOT_EVALUATED

fun constraint_outcome_value :: "constraint_outcome \<Rightarrow> string" where
  "constraint_outcome_value PASSED = ''PASSED''"
| "constraint_outcome_value FAILED = ''FAILED''"
| "constraint_outcome_value NOT_EVALUATED = ''NOT_EVALUATED''"

record constraint_check =
  cc_key :: string
  cc_label :: string
  cc_kind :: constraint_kind
  cc_outcome :: constraint_outcome
  cc_reason :: string
  cc_evidence :: "string option"
  cc_penalty :: rat

definition check_blocking :: "constraint_check \<Rightarrow> bool" where
  "check_blocking c \<longleftrightarrow> cc_kind c = HARD \<and> cc_outcome c \<noteq> PASSED"

definition check_as_dict :: "constraint_check \<Rightarrow> dict" where
  "check_as_dict c =
     [(''key'', PStr (cc_key c)), (''label'', PStr (cc_label c)),
      (''kind'', PStr (constraint_kind_value (cc_kind c))),
      (''outcome'', PStr (constraint_outcome_value (cc_outcome c))), (''reason'', PStr (cc_reason c)),
      (''evidence'', opt_str (cc_evidence c))]"

record constraint_report =
  cr_action_type :: string
  cr_checks :: "constraint_check list"

definition report_blockers :: "constraint_report \<Rightarrow> constraint_check list" where
  "report_blockers r = filter check_blocking (cr_checks r)"

definition feasible :: "constraint_report \<Rightarrow> bool" where
  "feasible r \<longleftrightarrow> \<not> list_ex check_blocking (cr_checks r)"

definition evaluated_count :: "constraint_report \<Rightarrow> nat" where
  "evaluated_count r = length (filter (\<lambda>c. cc_outcome c \<noteq> NOT_EVALUATED) (cr_checks r))"

definition relevant_count :: "constraint_report \<Rightarrow> nat" where
  "relevant_count r = length (cr_checks r)"

definition soft_penalty :: "constraint_report \<Rightarrow> rat" where
  "soft_penalty r =
     min 1 (sum_list (map cc_penalty (filter (\<lambda>c. cc_kind c = SOFT \<and> cc_outcome c \<noteq> PASSED) (cr_checks r))))"

definition report_reason :: "constraint_report \<Rightarrow> string" where
  "report_reason r =
     (let unevaluated = filter (\<lambda>c. cc_outcome c = NOT_EVALUATED) (cr_checks r);
          unrunnable = filter (\<lambda>c. cc_outcome c = NOT_EVALUATED) (report_blockers r);
          failed = filter (\<lambda>c. cc_outcome c = FAILED) (report_blockers r)
      in if report_blockers r = []
         then (if unevaluated = [] then ''All applicable operational constraints satisfied.''
               else ''Permitted. '' @ show_nat (length unevaluated) @ '' advisory check(s) could not be evaluated: ''
                 @ py_join ''; '' (map cc_label unevaluated))
         else py_join '' ''
           ((case failed of [] \<Rightarrow> [] | c # _ \<Rightarrow> [cc_reason c])
            @ (case unrunnable of [] \<Rightarrow> []
               | c # _ \<Rightarrow> [''Cannot confirm '' @ py_lower (cc_label c) @ '' '' @ em_dash @ '' '' @ cc_reason c])))"

definition report_as_dict :: "constraint_report \<Rightarrow> dict" where
  "report_as_dict r =
     [(''action_type'', PStr (cr_action_type r)), (''feasible'', PBool (feasible r)), (''reason'', PStr (report_reason r)),
      (''checks'', PList (map (PDict \<circ> check_as_dict) (cr_checks r))),
      (''constraints_checked'', PList (map (PStr \<circ> cc_key) (cr_checks r))),
      (''evaluated'', PInt (int (evaluated_count r))), (''relevant'', PInt (int (relevant_count r)))]"

definition MAX_REDEPLOY_FAILURE_RISK :: rat where
  "MAX_REDEPLOY_FAILURE_RISK = 60 / 100"

definition MAINTENANCE_LOCKOUT_DAYS :: rat where
  "MAINTENANCE_LOCKOUT_DAYS = 14"

definition MAX_CRUSHER_TRIM :: rat where
  "MAX_CRUSHER_TRIM = 20 / 100"

definition MAX_TELEMETRY_AGE_HOURS :: rat where
  "MAX_TELEMETRY_AGE_HOURS = 12"

definition MAX_SHIFT_OPERATING_HOURS :: rat where
  "MAX_SHIFT_OPERATING_HOURS = 12"

subsection \<open>The sources\<close>

text \<open>
  The rows of a mine in \<open>ops.equipment_telemetry\<close> and \<open>ops.production_records\<close>, as many
  observations per machine as were recorded, and which of the statements fail
\<close>

record telemetry_row =
  te_machine :: string
  te_type :: "string option"
  te_failure :: "rat option"
  te_overdue :: "rat option"
  te_time :: int

record hours_row =
  ho_date :: int
  ho_hours :: "rat option"
  ho_availability :: "rat option"

datatype constraint_query = Q_Redeploy | Q_Overdue | Q_Hours | Q_Newest

record constraint_source =
  cs_telemetry :: "telemetry_row list"
  cs_hours :: "hours_row list"
  cs_fails :: "constraint_query \<Rightarrow> bool"

text \<open>
  The services around the evaluators: the text functions, the clock of the mine and the router's
  grid and configuration
\<close>

record constraint_world =
  cw_rt :: runtime
  cw_parse :: parser
  cw_tf :: time_format
  cw_clock :: operational_clock
  cw_grid :: "rat \<Rightarrow> rat \<Rightarrow> terrain"
  cw_weights :: cost_weights
  cw_constraints :: hard_constraints

text \<open>\<open>_safe_query\<close>: \<open>None\<close> when the source cannot be reached\<close>

definition safe_query :: "constraint_source \<Rightarrow> constraint_query \<Rightarrow> 'a list \<Rightarrow> 'a list option" where
  "safe_query src q rows = (if cs_fails src q then None else Some rows)"

text \<open>\<open>ORDER BY failure_next_24h ASC LIMIT 5\<close>: nulls come last.\<close>

definition failure_order :: "telemetry_row \<Rightarrow> nat \<times> rat" where
  "failure_order t = (case te_failure t of None \<Rightarrow> (1, 0) | Some r \<Rightarrow> (0, r))"

definition select_redeploy :: "constraint_source \<Rightarrow> telemetry_row list" where
  "select_redeploy src = take 5 (sort_key failure_order (cs_telemetry src))"

definition past_lockout :: "telemetry_row \<Rightarrow> bool" where
  "past_lockout t \<longleftrightarrow> (case te_overdue t of None \<Rightarrow> False | Some d \<Rightarrow> d > MAINTENANCE_LOCKOUT_DAYS)"

definition select_overdue :: "constraint_source \<Rightarrow> telemetry_row list" where
  "select_overdue src = take 1 (sort_key (\<lambda>t. - the (te_overdue t)) (filter past_lockout (cs_telemetry src)))"

definition select_hours :: "constraint_source \<Rightarrow> hours_row list" where
  "select_hours src = take 1 (sort_key (\<lambda>h. - ho_date h) (cs_hours src))"

definition select_newest :: "constraint_source \<Rightarrow> int option" where
  "select_newest src = (if cs_telemetry src = [] then None else Some (Max (te_time ` set (cs_telemetry src))))"

subsection \<open>Values of the details\<close>

definition py_or :: "pyval option \<Rightarrow> pyval \<Rightarrow> pyval" where
  "py_or v d = (case v of None \<Rightarrow> d | Some x \<Rightarrow> if py_truthy x then x else d)"

definition no_attribute :: "pyval \<Rightarrow> string \<Rightarrow> exn" where
  "no_attribute v a = Exn ''AttributeError'' (sq (type_name v) @ '' object has no attribute '' @ sq a)"

definition py_upper :: "pyval \<Rightarrow> string result" where
  "py_upper v = (case v of PStr s \<Rightarrow> Inr (upper_text s) | _ \<Rightarrow> Inl (no_attribute v ''upper''))"

text \<open>\<open>float(v)\<close>, or the exception it raises\<close>

definition to_float_result :: "constraint_world \<Rightarrow> pyval \<Rightarrow> rat result" where
  "to_float_result w v =
     (case py_float (cw_parse w) v of
        Some x \<Rightarrow> Inr x
      | None \<Rightarrow>
          (case v of
             PStr s \<Rightarrow> Inl (Exn ''ValueError'' (''could not convert string to float: '' @ rt_repr (cw_rt w) v))
           | _ \<Rightarrow> Inl (Exn ''TypeError'' (''float() argument must be a string or a real number, not ''
                    @ sq (type_name v)))))"

text \<open>\<open>v[i]\<close> for a small \<open>i\<close>\<close>

definition subscript :: "pyval \<Rightarrow> nat \<Rightarrow> pyval result" where
  "subscript v i =
     (case v of
        PList xs \<Rightarrow> if i < length xs then Inr (xs ! i) else Inl (Exn ''IndexError'' ''list index out of range'')
      | PTuple xs \<Rightarrow> if i < length xs then Inr (xs ! i) else Inl (Exn ''IndexError'' ''tuple index out of range'')
      | PStr s \<Rightarrow>
          if i < length (utf8_chars s) then Inr (PStr (utf8_chars s ! i))
          else Inl (Exn ''IndexError'' ''string index out of range'')
      | PDict d \<Rightarrow> Inl (Exn ''KeyError'' (show_nat i))
      | _ \<Rightarrow> Inl (Exn ''TypeError'' (sq (type_name v) @ '' object is not subscriptable'')))"

subsection \<open>Evaluators\<close>

definition hard_check :: "string \<Rightarrow> string \<Rightarrow> constraint_outcome \<Rightarrow> string \<Rightarrow> string option \<Rightarrow> constraint_check" where
  "hard_check key label' outcome reason evidence =
     \<lparr>cc_key = key, cc_label = label', cc_kind = HARD, cc_outcome = outcome, cc_reason = reason,
      cc_evidence = evidence, cc_penalty = 0\<rparr>"

definition soft_check ::
  "string \<Rightarrow> string \<Rightarrow> constraint_outcome \<Rightarrow> string \<Rightarrow> string option \<Rightarrow> rat \<Rightarrow> constraint_check" where
  "soft_check key label' outcome reason evidence penalty =
     \<lparr>cc_key = key, cc_label = label', cc_kind = SOFT, cc_outcome = outcome, cc_reason = reason,
      cc_evidence = evidence, cc_penalty = penalty\<rparr>"

definition eval_redeploy :: "constraint_source \<Rightarrow> string \<Rightarrow> constraint_check list" where
  "eval_redeploy src mine_id =
     (let check = hard_check ''equipment_availability'' ''A healthy unit is available to redeploy''
      in case safe_query src Q_Redeploy (select_redeploy src) of
           None \<Rightarrow> [check NOT_EVALUATED ''equipment telemetry is unavailable'' None]
         | Some [] \<Rightarrow> [check NOT_EVALUATED (''no equipment is registered against '' @ mine_id) None]
         | Some (best # _) \<Rightarrow>
             (let risk = (case te_failure best of None \<Rightarrow> 0 | Some r \<Rightarrow> r); machine = te_machine best;
                  evidence = Some (machine @ '': failure_next_24h='' @ fmt_fixed 3 risk)
              in if risk > MAX_REDEPLOY_FAILURE_RISK
                 then [check FAILED (''No healthy machine available. The lowest-risk unit '' @ machine @ '' carries a ''
                         @ fmt_fixed 0 (risk * 100) @ ''% 24-hour failure risk, above the ''
                         @ fmt_fixed 0 (MAX_REDEPLOY_FAILURE_RISK * 100) @ ''% redeploy limit.'') evidence]
                 else [check PASSED (str_or (te_type best) ''Unit'' @ '' '' @ machine @ '' is available at ''
                         @ fmt_fixed 0 (risk * 100) @ ''% 24-hour failure risk.'') evidence]))"

definition eval_blast :: "dict \<Rightarrow> constraint_check list result" where
  "eval_blast details =
     (let check = hard_check ''shift_safety_window'' ''Blast falls inside a permitted shift window''
      in case py_upper (py_or (map_of details ''shift'') (PStr [])) of
           Inl e \<Rightarrow> Inl e
         | Inr shift \<Rightarrow>
             if shift = [] then Inr [check NOT_EVALUATED ''no shift was specified for the proposed blast'' None]
             else if shift = ''S3''
             then Inr [check FAILED (''Blasting is prohibited during the night shift (S3) under the ''
                         @ ''DGMS-informed site rule configured for this mine.'') (Some (''shift='' @ shift))]
             else Inr [check PASSED (''Shift '' @ shift @ '' is a permitted blasting window.'')
                         (Some (''shift='' @ shift))])"

definition eval_defer :: "constraint_world \<Rightarrow> constraint_source \<Rightarrow> string \<Rightarrow> constraint_check list" where
  "eval_defer w src mine_id =
     (let check = hard_check ''maintenance_lockout'' ''No unit is past its maintenance lockout''
      in case safe_query src Q_Overdue (select_overdue src) of
           None \<Rightarrow> [check NOT_EVALUATED ''maintenance records are unavailable'' None]
         | Some (unit' # _) \<Rightarrow>
             (let days = py_str (cw_rt w) (opt_float (te_overdue unit'))
              in [check FAILED (''Unit '' @ te_machine unit' @ '' is already '' @ days
                    @ '' days overdue for service, past the '' @ fmt_fixed 0 MAINTENANCE_LOCKOUT_DAYS
                    @ ''-day lockout. Further deferral is refused.'')
                    (Some (te_machine unit' @ '': maintenance_overdue_days='' @ days))])
         | Some [] \<Rightarrow>
             [check PASSED (''No unit at '' @ mine_id @ '' is more than '' @ fmt_fixed 0 MAINTENANCE_LOCKOUT_DAYS
                @ '' days overdue for service.'') None])"

definition eval_crusher :: "constraint_world \<Rightarrow> dict \<Rightarrow> constraint_check list result" where
  "eval_crusher w details =
     (let check = hard_check ''crusher_vibration_limit'' ''Speed increase is within motor vibration tolerance'';
          v = column details ''magnitude''
      in if v = PNone then Inr [check NOT_EVALUATED ''no throughput increase was specified'' None]
         else
           (case to_float_result w v of
              Inl e \<Rightarrow> Inl e
            | Inr m \<Rightarrow>
                (let evidence = Some (''magnitude='' @ fmt_fixed 3 m)
                 in if m > MAX_CRUSHER_TRIM
                    then Inr [check FAILED (''A '' @ fmt_fixed 0 (m * 100) @ ''% throughput increase exceeds the ''
                                @ fmt_fixed 0 (MAX_CRUSHER_TRIM * 100) @ ''% motor vibration threshold.'') evidence]
                    else Inr [check PASSED (''A '' @ fmt_fixed 0 (m * 100) @ ''% throughput increase is within the ''
                                @ fmt_fixed 0 (MAX_CRUSHER_TRIM * 100) @ ''% vibration threshold.'') evidence])))"

text \<open>
  The probe route: from the open cell nearest to the centre to the open cell farthest from there,
  the first in row order of several
\<close>

definition open_cells :: "cost_surface \<Rightarrow> cell list" where
  "open_cells su = filter (\<lambda>c. \<not> is_blocked su c) (grid_cells (grid_n su))"

definition cell_distance :: "cell \<Rightarrow> cell \<Rightarrow> int" where
  "cell_distance a b = (int (fst a) - int (fst b))\<^sup>2 + (int (snd a) - int (snd b))\<^sup>2"

definition probe_centre :: "cost_surface \<Rightarrow> cell" where
  "probe_centre su =
     (let c = (grid_n su div 2, grid_n su div 2)
      in if is_blocked su c
         then (case py_max (\<lambda>x. - cell_distance x c) (open_cells su) of None \<Rightarrow> c | Some x \<Rightarrow> x) else c)"

definition probe_goal :: "cost_surface \<Rightarrow> cell" where
  "probe_goal su =
     (let c = probe_centre su in case py_max (\<lambda>x. cell_distance x c) (open_cells su) of None \<Rightarrow> c | Some x \<Rightarrow> x)"

definition open_fraction :: "cost_surface \<Rightarrow> real" where
  "open_fraction su = real (length (open_cells su)) / real (grid_n su * grid_n su)"

text \<open>\<open>{x:.nf}\<close> of a real\<close>

definition fmt_real :: "nat \<Rightarrow> real \<Rightarrow> string" where
  "fmt_real n x =
     (let a = nat \<lfloor>round_real n \<bar>x\<bar> * 10 ^ n\<rfloor>
      in (if x < 0 then ''-'' else []) @ show_nat (a div 10 ^ n)
         @ (if n = 0 then [] else ''.'' @ zero_pad n (show_nat (a mod 10 ^ n))))"

text \<open>\<open>_route_exists\<close> on the surface it builds; the search always returns (\<open>astar_returns\<close>).\<close>

definition route_exists :: "cost_surface \<Rightarrow> (bool \<times> string) result" where
  "route_exists su =
     (if open_fraction su < 5 / 100
      then Inr (False, ''only '' @ fmt_real 1 (open_fraction su * 100) @ ''% of the haul network is traversable'')
      else if open_cells su = [] then Inr (False, ''no traversable cell exists in the haul network'')
      else
        (case the (astar su (probe_centre su) (probe_goal su) True None ''feasibility_probe'') of
           Inl (No_Route msg reason) \<Rightarrow>
             Inr (False, ''no traversable route across the haul network ('' @ msg @ '')'')
         | Inl (Raised e) \<Rightarrow> Inl e
         | Inr r \<Rightarrow>
             Inr (True, ''probe route of '' @ fmt_real 1 (rr_distance_km r)
                   @ '' km found across the haul network'')))"

definition probe_surface :: "constraint_world \<Rightarrow> rat \<Rightarrow> rat \<Rightarrow> vehicle_profile \<Rightarrow> cost_surface" where
  "probe_surface w lat lon v =
     build_cost_surface (cw_grid w lat lon) (cw_weights w) (cw_constraints w) v
       (conditions_from_payload (\<lambda>_. None) None)"

text \<open>The vehicle type of the details is hashed by the cache and looked up in lower case.\<close>

definition vehicle_of :: "pyval \<Rightarrow> string result" where
  "vehicle_of v =
     (case v of
        PStr s \<Rightarrow> Inr s
      | PList _ \<Rightarrow> Inl (Exn ''TypeError'' (''unhashable type: '' @ sq ''list''))
      | PDict _ \<Rightarrow> Inl (Exn ''TypeError'' (''unhashable type: '' @ sq ''dict''))
      | _ \<Rightarrow> Inl (no_attribute v ''lower''))"

definition probe :: "constraint_world \<Rightarrow> pyval \<Rightarrow> pyval \<Rightarrow> (string \<times> bool \<times> string) result" where
  "probe w location vehicle =
     (case subscript location 0 of Inl e \<Rightarrow> Inl e | Inr a \<Rightarrow>
     (case to_float_result w a of Inl e \<Rightarrow> Inl e | Inr lat \<Rightarrow>
     (case subscript location 1 of Inl e \<Rightarrow> Inl e | Inr b \<Rightarrow>
     (case to_float_result w b of Inl e \<Rightarrow> Inl e | Inr lon \<Rightarrow>
     (case vehicle_of vehicle of Inl e \<Rightarrow> Inl e | Inr name \<Rightarrow>
     (case route_exists (probe_surface w lat lon (get_vehicle (Some name))) of
        Inl e \<Rightarrow> Inl e
      | Inr (ok, evidence) \<Rightarrow> Inr (name, ok, evidence)))))))"

definition eval_reroute :: "constraint_world \<Rightarrow> dict \<Rightarrow> constraint_check list" where
  "eval_reroute w details =
     (let check = hard_check ''route_feasibility'' ''A compliant haul route exists'';
          location = column details ''location'';
          vehicle = py_or (map_of details ''vehicle_type'') (PStr ''haul_truck'')
      in if \<not> py_truthy location
         then [check NOT_EVALUATED ''mine coordinates are unavailable, so no route could be searched'' None]
         else
           (case probe w location vehicle of
              Inl e \<Rightarrow>
                [check NOT_EVALUATED (''the routing engine could not be consulted ('' @ exn_str e @ '')'') None]
            | Inr (name, ok, evidence) \<Rightarrow>
                [check (if ok then PASSED else FAILED)
                   (if ok then ''The routing engine confirms a compliant haul route for a '' @ blanks name @ '': ''
                      @ evidence @ ''.''
                    else ''No compliant haul route is available: '' @ evidence @ ''.'') (Some evidence)]))"

definition eval_extend :: "constraint_world \<Rightarrow> constraint_source \<Rightarrow> dict \<Rightarrow> constraint_check list result" where
  "eval_extend w src details =
     (let time = hard_check ''working_time_limit'' ''Extended running stays inside working-time limits'';
          crew = soft_check ''operator_availability'' ''Enough operators are available to crew the extension''
      in case safe_query src Q_Hours (select_hours src) of
           None \<Rightarrow>
             Inr [time NOT_EVALUATED ''no production record is available to establish current operating hours'' None]
         | Some [] \<Rightarrow>
             Inr [time NOT_EVALUATED ''no production record is available to establish current operating hours'' None]
         | Some (row # _) \<Rightarrow>
             (case to_float_result w (py_or (map_of details ''magnitude'') (PFloat 0)) of
                Inl e \<Rightarrow> Inl e
              | Inr m \<Rightarrow>
                  (let limit = fmt_fixed 0 MAX_SHIFT_OPERATING_HOURS; percent = fmt_fixed 0 (m * 100);
                       first = (case ho_hours row of
                           None \<Rightarrow> time NOT_EVALUATED ''current operating hours are not recorded for this mine'' None
                         | Some current \<Rightarrow>
                             (let projected = current * (1 + m);
                                  evidence = Some (''working_hours='' @ fmt_fixed 1 current)
                              in if projected > MAX_SHIFT_OPERATING_HOURS
                                 then time FAILED (''Extending by '' @ percent @ ''% would take operating time to ''
                                        @ fmt_fixed 1 projected @ '' h, past the '' @ limit @ ''-hour shift limit.'') evidence
                                 else time PASSED (''Extending by '' @ percent @ ''% takes operating time to ''
                                        @ fmt_fixed 1 projected @ '' h, inside the '' @ limit @ ''-hour limit.'') evidence));
                       second = (case ho_availability row of
                           None \<Rightarrow>
                             crew NOT_EVALUATED ''operator availability is not recorded for this mine'' None (25 / 100)
                         | Some a \<Rightarrow>
                             (let evidence = Some (''operator_availability_pct='' @ fmt_fixed 1 a)
                              in if a < 80
                                 then crew FAILED (''Operator availability is '' @ fmt_fixed 0 a
                                        @ ''%, which will limit how much of the extension can actually be crewed.'')
                                        evidence (2 / 10)
                                 else crew PASSED (''Operator availability is '' @ fmt_fixed 0 a @ ''%.'') evidence 0))
                   in Inr [first, second])))"

definition telemetry_freshness :: "constraint_world \<Rightarrow> constraint_source \<Rightarrow> constraint_check list" where
  "telemetry_freshness w src =
     (let check = soft_check ''telemetry_freshness'' ''Telemetry is recent enough to act on''; c = cw_clock w
      in if oc_mode c = C_UNKNOWN
         then [check NOT_EVALUATED ''no dated observations are available for this mine'' None (3 / 10)]
         else
           (case (if cs_fails src Q_Newest then None else select_newest src) of
              None \<Rightarrow>
                [check NOT_EVALUATED ''no equipment telemetry timestamp is available for this mine'' None (3 / 10)]
            | Some newest \<Rightarrow>
                (let age_h = total_seconds (oc_reference_time c - newest) / 3600;
                     suffix = (case caveat (cw_tf w) c of None \<Rightarrow> [] | Some t \<Rightarrow> '' ('' @ t @ '')'');
                     evidence = Some (''newest='' @ tf_iso (cw_tf w) newest)
                 in if age_h > MAX_TELEMETRY_AGE_HOURS
                    then [check FAILED (''Newest telemetry is '' @ fmt_fixed 1 age_h @ '' hours old, beyond the ''
                            @ fmt_fixed 0 MAX_TELEMETRY_AGE_HOURS @ ''-hour acting window.'' @ suffix) evidence (4 / 10)]
                    else [check PASSED (''Newest telemetry is '' @ fmt_fixed 1 age_h @ '' hours old.'' @ suffix)
                            evidence 0])))"

definition evaluator ::
  "constraint_world \<Rightarrow> constraint_source \<Rightarrow> string \<Rightarrow> dict \<Rightarrow> string \<Rightarrow> constraint_check list result option" where
  "evaluator w src mine_id details action =
     map_of [(''equipment_redeploy'', Inr (eval_redeploy src mine_id)), (''blast_reschedule'', eval_blast details),
             (''maintenance_defer'', Inr (eval_defer w src mine_id)), (''crusher_speed_trim'', eval_crusher w details),
             (''fleet_reroute'', Inr (eval_reroute w details)),
             (''extend_operating_hours'', eval_extend w src details)] action"

definition evaluate_constraints ::
  "constraint_world \<Rightarrow> constraint_source \<Rightarrow> string \<Rightarrow> string \<Rightarrow> dict \<Rightarrow> constraint_report result" where
  "evaluate_constraints w src action mine_id details =
     (case evaluator w src mine_id details action of
        None \<Rightarrow>
          Inr \<lparr>cr_action_type = action,
               cr_checks = [hard_check ''known_action'' ''Action has defined operational constraints'' NOT_EVALUATED
                  (''no constraint rules are defined for action '' @ sq action) None]\<rparr>
      | Some (Inl e) \<Rightarrow> Inl e
      | Some (Inr checks) \<Rightarrow> Inr \<lparr>cr_action_type = action, cr_checks = checks @ telemetry_freshness w src\<rparr>)"

subsection \<open>What feasible means\<close>

text \<open>
  What the rules let pass, action by action, over the tables and the haul network: every hard rule was
  evaluated, with the defaults that it takes, and holds.
\<close>

definition healthy_unit :: "constraint_source \<Rightarrow> bool" where
  "healthy_unit src \<longleftrightarrow> \<not> cs_fails src Q_Redeploy \<and> cs_telemetry src \<noteq> []
     \<and> ((\<exists>t \<in> set (cs_telemetry src). \<exists>r. te_failure t = Some r \<and> r \<le> MAX_REDEPLOY_FAILURE_RISK)
        \<or> (\<forall>t \<in> set (cs_telemetry src). te_failure t = None))"

definition day_shift :: "dict \<Rightarrow> bool" where
  "day_shift details \<longleftrightarrow>
     (\<exists>s. py_upper (py_or (map_of details ''shift'') (PStr [])) = Inr s \<and> s \<noteq> [] \<and> s \<noteq> ''S3'')"

definition no_lockout :: "constraint_source \<Rightarrow> bool" where
  "no_lockout src \<longleftrightarrow> \<not> cs_fails src Q_Overdue \<and> (\<forall>t \<in> set (cs_telemetry src). \<not> past_lockout t)"

definition small_trim :: "constraint_world \<Rightarrow> dict \<Rightarrow> bool" where
  "small_trim w details \<longleftrightarrow> (\<exists>m. to_float_result w (column details ''magnitude'') = Inr m \<and> m \<le> MAX_CRUSHER_TRIM)"

definition network_connected :: "cost_surface \<Rightarrow> bool" where
  "network_connected su \<longleftrightarrow> 5 / 100 \<le> open_fraction su \<and> open_cells su \<noteq> []
     \<and> (\<exists>cs c. route su None (neighbours True) (probe_centre su) cs (probe_goal su) c)"

definition haul_route :: "constraint_world \<Rightarrow> dict \<Rightarrow> bool" where
  "haul_route w details \<longleftrightarrow>
     (let location = column details ''location''; vehicle = py_or (map_of details ''vehicle_type'') (PStr ''haul_truck'')
      in py_truthy location
         \<and> (\<exists>a b lat lon name. subscript location 0 = Inr a \<and> to_float_result w a = Inr lat
              \<and> subscript location 1 = Inr b \<and> to_float_result w b = Inr lon \<and> vehicle_of vehicle = Inr name
              \<and> network_connected (probe_surface w lat lon (get_vehicle (Some name)))))"

definition inside_hours :: "constraint_world \<Rightarrow> constraint_source \<Rightarrow> dict \<Rightarrow> bool" where
  "inside_hours w src details \<longleftrightarrow> \<not> cs_fails src Q_Hours
     \<and> (\<exists>row h m. select_hours src = [row] \<and> ho_hours row = Some h
          \<and> to_float_result w (py_or (map_of details ''magnitude'') (PFloat 0)) = Inr m
          \<and> h * (1 + m) \<le> MAX_SHIFT_OPERATING_HOURS)"

definition permits :: "constraint_world \<Rightarrow> constraint_source \<Rightarrow> string \<Rightarrow> dict \<Rightarrow> bool" where
  "permits w src action details \<longleftrightarrow>
     (if action = ''equipment_redeploy'' then healthy_unit src
      else if action = ''blast_reschedule'' then day_shift details
      else if action = ''maintenance_defer'' then no_lockout src
      else if action = ''crusher_speed_trim'' then small_trim w details
      else if action = ''fleet_reroute'' then haul_route w details
      else if action = ''extend_operating_hours'' then inside_hours w src details
      else False)"

text \<open>A list of checks lets the action pass.\<close>

definition passes :: "constraint_check list result \<Rightarrow> bool" where
  "passes a \<longleftrightarrow> (case a of Inl _ \<Rightarrow> False | Inr cs \<Rightarrow> \<not> list_ex check_blocking cs)"

lemma passes_simps [simp]: "\<not> passes (Inl e)" "passes (Inr []) "
  "passes (Inr (c # cs)) \<longleftrightarrow> \<not> check_blocking c \<and> passes (Inr cs)"
  by (simp_all add: passes_def)

lemma hard_blocking [simp]: "check_blocking (hard_check k l out r e) \<longleftrightarrow> out \<noteq> PASSED"
  by (simp add: check_blocking_def hard_check_def)

lemma soft_blocking [simp]: "\<not> check_blocking (soft_check k l out r e p)"
  by (simp add: check_blocking_def soft_check_def)

lemma freshness_advisory: "\<not> list_ex check_blocking (telemetry_freshness w src)"
  by (simp add: telemetry_freshness_def Let_def split: option.split)

lemma sort_key_hd:
  assumes "sort_key f xs = y # ys"
  shows "y \<in> set xs \<and> (\<forall>x \<in> set xs. f y \<le> f x)"
proof -
  have "sorted (map f (y # ys))"
    using sorted_sort_key [of f xs] assms by simp
  moreover have "set xs = set (y # ys)"
    using set_sort [of f xs] assms by simp
  ultimately show ?thesis
    by auto
qed

lemma redeploy_passes: "passes (Inr (eval_redeploy src mine_id)) \<longleftrightarrow> healthy_unit src"
proof (cases "cs_fails src Q_Redeploy \<or> cs_telemetry src = []")
  case True
  then show ?thesis
    by (auto simp: eval_redeploy_def healthy_unit_def safe_query_def select_redeploy_def Let_def)
next
  case False
  obtain best rest where sorted: "sort_key failure_order (cs_telemetry src) = best # rest"
    using False by (cases "sort_key failure_order (cs_telemetry src)") (auto dest: arg_cong [of _ _ set])
  note min = sort_key_hd [OF sorted]
  have "passes (Inr (eval_redeploy src mine_id))
      \<longleftrightarrow> (case te_failure best of None \<Rightarrow> 0 | Some r \<Rightarrow> r) \<le> MAX_REDEPLOY_FAILURE_RISK"
    using False sorted
    by (simp add: eval_redeploy_def safe_query_def select_redeploy_def Let_def not_less)
  also have "\<dots> \<longleftrightarrow> healthy_unit src"
  proof (cases "te_failure best")
    case None
    have "te_failure t = None" if "t \<in> set (cs_telemetry src)" for t
    proof -
      have "failure_order best \<le> failure_order t"
        using min that by blast
      with None show ?thesis
        by (cases "te_failure t") (simp_all add: failure_order_def less_eq_prod_def)
    qed
    with None False show ?thesis
      by (auto simp: healthy_unit_def MAX_REDEPLOY_FAILURE_RISK_def)
  next
    case (Some r)
    have "r \<le> r'" if "t \<in> set (cs_telemetry src)" "te_failure t = Some r'" for t r'
    proof -
      have "failure_order best \<le> failure_order t"
        using min that by blast
      with Some that(2) show ?thesis
        by (simp add: failure_order_def less_eq_prod_def)
    qed
    moreover have "best \<in> set (cs_telemetry src)"
      using min by blast
    ultimately show ?thesis
      using Some False by (force simp: healthy_unit_def intro: order_trans)
  qed
  finally show ?thesis .
qed

lemma blast_passes: "passes (eval_blast details) \<longleftrightarrow> day_shift details"
  by (auto simp: eval_blast_def day_shift_def Let_def split: sum.split)

lemma defer_passes: "passes (Inr (eval_defer w src mine_id)) \<longleftrightarrow> no_lockout src"
proof (cases "cs_fails src Q_Overdue")
  case False
  show ?thesis
  proof (cases "filter past_lockout (cs_telemetry src) = []")
    case True
    with False show ?thesis
      by (auto simp: eval_defer_def no_lockout_def safe_query_def select_overdue_def Let_def filter_empty_conv)
  next
    case found: False
    then obtain u us where "sort_key (\<lambda>t. - the (te_overdue t)) (filter past_lockout (cs_telemetry src)) = u # us"
      by (cases "sort_key (\<lambda>t. - the (te_overdue t)) (filter past_lockout (cs_telemetry src))")
         (auto dest: arg_cong [of _ _ set])
    with False found show ?thesis
      by (auto simp: eval_defer_def no_lockout_def safe_query_def select_overdue_def Let_def filter_empty_conv)
  qed
qed (simp add: eval_defer_def no_lockout_def safe_query_def Let_def)

lemma crusher_passes: "passes (eval_crusher w details) \<longleftrightarrow> small_trim w details"
  by (auto simp: eval_crusher_def small_trim_def Let_def to_float_result_def not_less split: sum.split)

lemma extend_passes: "passes (eval_extend w src details) \<longleftrightarrow> inside_hours w src details"
proof (cases "cs_fails src Q_Hours \<or> select_hours src = []")
  case True
  then show ?thesis
    by (auto simp: eval_extend_def inside_hours_def safe_query_def Let_def)
next
  case False
  then obtain row where "select_hours src = [row]"
    by (cases "sort_key (\<lambda>h. - ho_date h) (cs_hours src)") (auto simp: select_hours_def)
  with False show ?thesis
    by (auto simp: eval_extend_def inside_hours_def safe_query_def Let_def not_less split: sum.split option.split)
qed

text \<open>The probe runs between open cells, so that the search answers whether a route exists.\<close>

lemma open_cells_mem [simp]: "c \<in> set (open_cells su) \<longleftrightarrow> in_grid su c \<and> \<not> is_blocked su c"
  by (cases c) (auto simp: open_cells_def in_grid_def)

lemma probe_centre_open:
  assumes "open_cells su \<noteq> []"
  shows "in_grid su (probe_centre su) \<and> \<not> is_blocked su (probe_centre su)"
proof (cases "is_blocked su (grid_n su div 2, grid_n su div 2)")
  case True
  obtain x where x: "py_max (\<lambda>x. - cell_distance x (grid_n su div 2, grid_n su div 2)) (open_cells su) = Some x"
    using assms by (cases "open_cells su") auto
  then have "x \<in> set (open_cells su)"
    by (rule conjunct1 [OF py_max_Some])
  then show ?thesis
    using True x by (simp add: probe_centre_def Let_def)
next
  case False
  obtain c where "c \<in> set (open_cells su)"
    using assms by (cases "open_cells su") auto
  then have "0 < grid_n su"
    by (auto simp: in_grid_def)
  with False show ?thesis
    by (simp add: probe_centre_def Let_def in_grid_def)
qed

lemma probe_goal_open:
  assumes "open_cells su \<noteq> []"
  shows "in_grid su (probe_goal su) \<and> \<not> is_blocked su (probe_goal su)"
proof -
  obtain x where x: "py_max (\<lambda>x. cell_distance x (probe_centre su)) (open_cells su) = Some x"
    using assms by (cases "open_cells su") auto
  then have "x \<in> set (open_cells su)"
    by (rule conjunct1 [OF py_max_Some])
  then show ?thesis
    using x by (simp add: probe_goal_def Let_def)
qed

lemma route_exists_connected:
  "\<exists>ok evidence. route_exists su = Inr (ok, evidence) \<and> (ok \<longleftrightarrow> network_connected su)"
proof (cases "open_fraction su < 5 / 100 \<or> open_cells su = []")
  case True
  then show ?thesis
    by (auto simp: route_exists_def network_connected_def)
next
  case False
  note ends = probe_centre_open [of su] probe_goal_open [of su]
  note answer = astar_returns [where su = su and start = "probe_centre su" and goal = "probe_goal su" and diagonal = True
      and penalty = None and label = "''feasibility_probe''"]
  let ?a = "astar su (probe_centre su) (probe_goal su) True None ''feasibility_probe''"
  consider r where "?a = Some (Inr r)" | e where "?a = Some (Inl e)" | "?a = None"
    by (cases ?a; cases "the ?a") auto
  then show ?thesis
  proof cases
    case 1
    with answer ends False have "\<exists>c. route su None (neighbours True) (probe_centre su) (rr_cells r) (probe_goal su) c"
      by simp
    with 1 False show ?thesis
      by (auto simp: route_exists_def network_connected_def)
  next
    case 2
    with answer ends False have e: "e \<in> {start_blocked, goal_blocked, unreachable}"
      "\<not> (\<exists>cs c. route su None (neighbours True) (probe_centre su) cs (probe_goal su) c)"
      by simp_all
    from e(1) obtain msg reason where "e = No_Route msg reason"
      by (auto simp: start_blocked_def goal_blocked_def unreachable_def)
    with 2 e(2) False show ?thesis
      by (intro exI [of _ False]) (simp add: route_exists_def network_connected_def)
  next
    case 3
    with answer ends False show ?thesis
      by simp
  qed
qed

lemma probe_found:
  "(\<exists>name evidence. probe w location vehicle = Inr (name, True, evidence))
   \<longleftrightarrow> (\<exists>a b lat lon name. subscript location 0 = Inr a \<and> to_float_result w a = Inr lat
          \<and> subscript location 1 = Inr b \<and> to_float_result w b = Inr lon \<and> vehicle_of vehicle = Inr name
          \<and> network_connected (probe_surface w lat lon (get_vehicle (Some name))))"
proof -
  have found: "(\<exists>ev. route_exists su = Inr (True, ev)) \<longleftrightarrow> network_connected su" for su
    using route_exists_connected [of su] by auto
  show ?thesis
    unfolding found [symmetric]
    by (auto simp: probe_def split: sum.splits prod.splits)
qed

lemma reroute_passes: "passes (Inr (eval_reroute w details)) \<longleftrightarrow> haul_route w details"
proof -
  let ?location = "column details ''location''"
  let ?vehicle = "py_or (map_of details ''vehicle_type'') (PStr ''haul_truck'')"
  have "passes (Inr (eval_reroute w details))
      \<longleftrightarrow> py_truthy ?location \<and> (\<exists>name evidence. probe w ?location ?vehicle = Inr (name, True, evidence))"
    by (auto simp: eval_reroute_def Let_def split: sum.split prod.split)
  then show ?thesis
    unfolding probe_found haul_route_def Let_def .
qed

lemma evaluate_permits:
  "(\<exists>r. evaluate_constraints w src action mine_id details = Inr r \<and> feasible r) \<longleftrightarrow> permits w src action details"
proof -
  have "(\<exists>r. evaluate_constraints w src action mine_id details = Inr r \<and> feasible r)
      \<longleftrightarrow> (case evaluator w src mine_id details action of None \<Rightarrow> False | Some a \<Rightarrow> passes a)"
    by (auto simp: evaluate_constraints_def feasible_def passes_def freshness_advisory split: option.split sum.split)
  also have "\<dots> \<longleftrightarrow> permits w src action details"
    unfolding permits_def redeploy_passes [symmetric, of src mine_id] blast_passes [symmetric]
      defer_passes [symmetric, of src w mine_id] crusher_passes [symmetric] reroute_passes [symmetric]
      extend_passes [symmetric]
    by (simp add: evaluator_def)
  finally show ?thesis .
qed

text \<open>
  The rules as they are meant: each is decided by readings that were recorded and by details that
  were given. A unit, however old its reading, is under the failure limit; the shift is given and is
  not the night shift; every unit has a maintenance reading and none is past its lockout; the trim is
  given and within the vibration limit; the router finds a route for the vehicle that was given; and
  the last shift, extended as was given, stays inside the working-time limit.
\<close>

definition given :: "dict \<Rightarrow> string \<Rightarrow> bool" where
  "given details name \<longleftrightarrow> py_truthy (column details name)"

definition unit_assessed :: "constraint_source \<Rightarrow> bool" where
  "unit_assessed src \<longleftrightarrow> (\<exists>t \<in> set (cs_telemetry src). \<exists>r. te_failure t = Some r \<and> r \<le> MAX_REDEPLOY_FAILURE_RISK)"

definition maintenance_recorded :: "constraint_source \<Rightarrow> bool" where
  "maintenance_recorded src \<longleftrightarrow> cs_telemetry src \<noteq> [] \<and> list_all (\<lambda>t. te_overdue t \<noteq> None) (cs_telemetry src)"

definition route_for :: "constraint_world \<Rightarrow> pyval \<Rightarrow> pyval \<Rightarrow> bool" where
  "route_for w location vehicle \<longleftrightarrow> py_truthy location
     \<and> (\<exists>a b lat lon name. subscript location 0 = Inr a \<and> to_float_result w a = Inr lat
          \<and> subscript location 1 = Inr b \<and> to_float_result w b = Inr lon \<and> vehicle_of vehicle = Inr name
          \<and> network_connected (probe_surface w lat lon (get_vehicle (Some name))))"

definition hours_for :: "constraint_world \<Rightarrow> constraint_source \<Rightarrow> pyval \<Rightarrow> bool" where
  "hours_for w src extension \<longleftrightarrow> \<not> cs_fails src Q_Hours
     \<and> (case select_hours src of
          [] \<Rightarrow> False
        | row # rows \<Rightarrow>
            (case (ho_hours row, to_float_result w extension) of
               (Some h, Inr m) \<Rightarrow> h * (1 + m) \<le> MAX_SHIFT_OPERATING_HOURS
             | _ \<Rightarrow> False))"

definition evidence_permits :: "constraint_world \<Rightarrow> constraint_source \<Rightarrow> string \<Rightarrow> dict \<Rightarrow> bool" where
  "evidence_permits w src action details =
     (if action = ''equipment_redeploy'' then \<not> cs_fails src Q_Redeploy \<and> unit_assessed src
      else if action = ''blast_reschedule'' then given details ''shift'' \<and> day_shift details
      else if action = ''maintenance_defer'' then maintenance_recorded src \<and> no_lockout src
      else if action = ''crusher_speed_trim'' then column details ''magnitude'' \<noteq> PNone \<and> small_trim w details
      else if action = ''fleet_reroute''
      then given details ''vehicle_type'' \<and> route_for w (column details ''location'') (column details ''vehicle_type'')
      else if action = ''extend_operating_hours''
      then given details ''magnitude'' \<and> hours_for w src (column details ''magnitude'')
      else False)"

text \<open>
  What passes besides, on defaults that stand for readings and details that are missing: no unit was
  ever assessed, which counts as free of risk; a unit without a maintenance reading, or no unit at
  all, which counts as serviced; no vehicle, which is a haul truck; and no extension, which is none.
\<close>

definition default_permits :: "constraint_world \<Rightarrow> constraint_source \<Rightarrow> string \<Rightarrow> dict \<Rightarrow> bool" where
  "default_permits w src action details =
     (if action = ''equipment_redeploy''
      then \<not> cs_fails src Q_Redeploy \<and> cs_telemetry src \<noteq> [] \<and> list_all (\<lambda>t. te_failure t = None) (cs_telemetry src)
      else if action = ''blast_reschedule'' then False
      else if action = ''maintenance_defer'' then \<not> maintenance_recorded src \<and> no_lockout src
      else if action = ''crusher_speed_trim'' then False
      else if action = ''fleet_reroute''
      then \<not> given details ''vehicle_type'' \<and> route_for w (column details ''location'') (PStr ''haul_truck'')
      else if action = ''extend_operating_hours'' then \<not> given details ''magnitude'' \<and> hours_for w src (PFloat 0)
      else False)"

lemma column_or: "py_or (map_of details k) d = (if given details k then column details k else d)"
  by (auto simp: py_or_def given_def column_def split: option.split)

lemma healthy_split:
  "healthy_unit src \<longleftrightarrow> \<not> cs_fails src Q_Redeploy
     \<and> (unit_assessed src \<or> cs_telemetry src \<noteq> [] \<and> list_all (\<lambda>t. te_failure t = None) (cs_telemetry src))"
  by (auto simp: healthy_unit_def unit_assessed_def list_all_iff)

lemma day_shift_given: "day_shift details \<Longrightarrow> given details ''shift''"
  by (rule ccontr) (auto simp: day_shift_def column_or py_upper_def upper_text_def)

lemma small_trim_given: "small_trim w details \<Longrightarrow> column details ''magnitude'' \<noteq> PNone"
  by (auto simp: small_trim_def to_float_result_def)

lemma route_for_vehicle:
  "haul_route w details
   \<longleftrightarrow> route_for w (column details ''location'') (if given details ''vehicle_type'' then column details ''vehicle_type'' else PStr ''haul_truck'')"
  unfolding route_for_def haul_route_def Let_def column_or by (rule refl)

lemma hours_for_extension:
  "inside_hours w src details
   \<longleftrightarrow> hours_for w src (if given details ''magnitude'' then column details ''magnitude'' else PFloat 0)"
proof (cases "sort_key (\<lambda>h. - ho_date h) (cs_hours src)")
  case Nil
  then show ?thesis by (simp add: inside_hours_def hours_for_def select_hours_def)
next
  case (Cons row rows)
  then show ?thesis
    by (auto simp: inside_hours_def hours_for_def select_hours_def column_or split: option.splits sum.splits)
qed

lemma if_both: "(if c then p else q) \<or> (if c then p' else q') \<longleftrightarrow> (if c then p \<or> p' else q \<or> q')"
  by simp

lemma permits_split: "permits w src action details \<longleftrightarrow> evidence_permits w src action details \<or> default_permits w src action details"
proof -
  note cases = permits_def evidence_permits_def default_permits_def if_both
  have "healthy_unit src \<longleftrightarrow> \<not> cs_fails src Q_Redeploy \<and> unit_assessed src
      \<or> \<not> cs_fails src Q_Redeploy \<and> cs_telemetry src \<noteq> [] \<and> list_all (\<lambda>t. te_failure t = None) (cs_telemetry src)"
    unfolding healthy_split by blast
  moreover have "day_shift details \<longleftrightarrow> given details ''shift'' \<and> day_shift details \<or> False"
    using day_shift_given by blast
  moreover have "no_lockout src \<longleftrightarrow> maintenance_recorded src \<and> no_lockout src \<or> \<not> maintenance_recorded src \<and> no_lockout src"
    by blast
  moreover have "small_trim w details \<longleftrightarrow> column details ''magnitude'' \<noteq> PNone \<and> small_trim w details \<or> False"
    using small_trim_given by blast
  moreover have "haul_route w details
      \<longleftrightarrow> given details ''vehicle_type'' \<and> route_for w (column details ''location'') (column details ''vehicle_type'')
        \<or> \<not> given details ''vehicle_type'' \<and> route_for w (column details ''location'') (PStr ''haul_truck'')"
    by (cases "given details ''vehicle_type''") (simp_all only: route_for_vehicle if_True if_False simp_thms)
  moreover have "inside_hours w src details
      \<longleftrightarrow> given details ''magnitude'' \<and> hours_for w src (column details ''magnitude'')
        \<or> \<not> given details ''magnitude'' \<and> hours_for w src (PFloat 0)"
    by (cases "given details ''magnitude''") (simp_all only: hours_for_extension if_True if_False simp_thms)
  ultimately show ?thesis
    unfolding cases by (simp only: simp_thms)
qed

lemma both_if: "(if c then p else q) \<and> (if c then p' else q') \<longleftrightarrow> (if c then p \<and> p' else q \<and> q')"
  by simp

lemma evidence_or_default: "\<not> (evidence_permits w src action details \<and> default_permits w src action details)"
proof -
  have "\<not> ((\<not> cs_fails src Q_Redeploy \<and> unit_assessed src)
      \<and> \<not> cs_fails src Q_Redeploy \<and> cs_telemetry src \<noteq> [] \<and> list_all (\<lambda>t. te_failure t = None) (cs_telemetry src))"
    by (auto simp: unit_assessed_def list_all_iff)
  then show ?thesis
    unfolding evidence_permits_def default_permits_def both_if by (simp only: if_False if_cancel simp_thms split: if_split) blast
qed


text \<open>An old observation of a unit decides although a later one flags it.\<close>

lemma old_observation_is_healthy:
  "cs_telemetry src = [old, new] \<Longrightarrow> te_machine old = te_machine new \<Longrightarrow> te_time old < te_time new \<Longrightarrow>
     te_failure old = Some 0 \<Longrightarrow> te_failure new = Some 1 \<Longrightarrow> \<not> cs_fails src Q_Redeploy \<Longrightarrow> healthy_unit src"
  by (simp add: healthy_unit_def MAX_REDEPLOY_FAILURE_RISK_def)

end
