(* ===== verification/Access.thy ===== *)
theory Access
  imports Measures
begin

text \<open>
  Roles and mine scopes (\<open>app/api/core/rbac.py\<close>). A user is the dictionary of the token's claims;
  a dependency returns the user or raises an HTTP error.
\<close>

subsection \<open>Roles\<close>

definition VALID_ROLES :: "string list" where
  "VALID_ROLES = [''super_admin'', ''management'', ''production_admin'', ''exploration_admin'', ''equipment_admin'',
     ''mine_planner'']"

definition ROLE_DEPARTMENT :: "(string \<times> string) list" where
  "ROLE_DEPARTMENT =
     [(''super_admin'', ''all''), (''management'', ''all''), (''production_admin'', ''production''),
      (''exploration_admin'', ''exploration''), (''equipment_admin'', ''equipment''), (''mine_planner'', ''planning'')]"

definition SUPER_ADMIN :: string where
  "SUPER_ADMIN = ''super_admin''"

text \<open>The claims in use are texts; \<open>mine_id\<close> and \<open>allowed_mines\<close> come as they are in the token.\<close>

record user_claims =
  us_role :: "string option"
  us_identity :: string
  us_allowed_mines :: pyval
  us_mine_id :: pyval

definition user_role :: "user_claims \<Rightarrow> string" where
  "user_role u = (case us_role u of None \<Rightarrow> ''guest'' | Some r \<Rightarrow> r)"

datatype http_error = Http_Error nat string | Http_Raised exn

definition forbidden :: "string \<Rightarrow> string \<Rightarrow> http_error" where
  "forbidden role required =
     Http_Error 403 (''Role '' @ sq role @ '' is not authorized for this action. Required: '' @ required)"

definition require_role :: "string \<Rightarrow> user_claims \<Rightarrow> http_error + user_claims" where
  "require_role role u =
     (if user_role u = SUPER_ADMIN then Inr u else if user_role u = role then Inr u
      else Inl (forbidden (user_role u) role))"

text \<open>\<open>f"one of {sorted(roles)}"\<close>, for role names without quotes\<close>

definition role_list :: "string list \<Rightarrow> string" where
  "role_list roles = ''['' @ py_join '', '' (map sq (sort roles)) @ '']''"

definition require_any_role :: "string list \<Rightarrow> user_claims \<Rightarrow> http_error + user_claims" where
  "require_any_role roles u =
     (if user_role u = SUPER_ADMIN then Inr u else if user_role u \<in> set roles then Inr u
      else Inl (forbidden (user_role u) (''one of '' @ role_list roles)))"

definition require_department :: "string \<Rightarrow> user_claims \<Rightarrow> http_error + user_claims" where
  "require_department department u =
     (if user_role u = SUPER_ADMIN \<or> user_role u = ''management'' then Inr u
      else if (case map_of ROLE_DEPARTMENT (user_role u) of None \<Rightarrow> [] | Some d \<Rightarrow> d) = department then Inr u
      else Inl (forbidden (user_role u) (''department:'' @ department)))"

definition require_authenticated :: "user_claims \<Rightarrow> http_error + user_claims" where
  "require_authenticated u =
     (if us_role u = None \<or> us_role u = Some ''guest'' then Inl (Http_Error 401 ''Authentication required'') else Inr u)"

definition domain_roles :: "string \<Rightarrow> string list" where
  "domain_roles domain =
     (case map_of [(''production'', [''production_admin'']), (''equipment'', [''equipment_admin'']),
                   (''exploration'', [''exploration_admin'']), (''maintenance'', [''equipment_admin'']),
                   (''planning'', [''mine_planner''])] (py_lower domain) of
        None \<Rightarrow> [] | Some rs \<Rightarrow> rs)"

definition check_domain_access :: "user_claims \<Rightarrow> string \<Rightarrow> bool" where
  "check_domain_access u domain \<longleftrightarrow> user_role u = SUPER_ADMIN \<or> user_role u \<in> set (domain_roles domain)"

definition require_domain_permission :: "string \<Rightarrow> user_claims \<Rightarrow> http_error + user_claims" where
  "require_domain_permission domain u =
     (case require_authenticated u of
        Inl e \<Rightarrow> Inl e
      | Inr v \<Rightarrow>
          if check_domain_access v domain then Inr v
          else Inl (forbidden (user_role v) (''domain:'' @ domain @ ''_admin'')))"

subsection \<open>Mine scopes\<close>

text \<open>\<open>s in v\<close>: an element of a list, a key of a dictionary, a part of a text.\<close>

definition py_in :: "string \<Rightarrow> pyval \<Rightarrow> bool result" where
  "py_in s v =
     (case v of
        PStr t \<Rightarrow> Inr (str_in s t)
      | PList xs \<Rightarrow> Inr (PStr s \<in> set xs)
      | PTuple xs \<Rightarrow> Inr (PStr s \<in> set xs)
      | PDict d \<Rightarrow> Inr (s \<in> fst ` set d)
      | _ \<Rightarrow> Inl (Exn ''TypeError'' (''argument of type '' @ sq (type_name v) @ '' is not iterable'')))"

text \<open>
  \<open>check_mine_access\<close>: the user is absent for an empty dictionary; the set of the users warned
  about is the state; \<open>env\<close> is \<open>settings.ENVIRONMENT\<close>.
\<close>

definition check_mine_access ::
  "string \<Rightarrow> user_claims option \<Rightarrow> string \<Rightarrow> string set \<Rightarrow> bool result \<times> string set" where
  "check_mine_access env user mine_id warned =
     (case user of
        None \<Rightarrow> (Inr False, warned)
      | Some u \<Rightarrow>
          if user_role u = SUPER_ADMIN then (Inr True, warned)
          else if py_truthy (us_allowed_mines u)
          then (case py_in ''*'' (us_allowed_mines u) of
                  Inl e \<Rightarrow> (Inl e, warned)
                | Inr star \<Rightarrow>
                    (case py_in ''all'' (us_allowed_mines u) of
                       Inl e \<Rightarrow> (Inl e, warned)
                     | Inr every \<Rightarrow>
                         if star \<or> every then (Inr True, warned) else (py_in mine_id (us_allowed_mines u), warned)))
          else if py_truthy (us_mine_id u) then (Inr (us_mine_id u = PStr mine_id), warned)
          else if py_lower env = ''production'' then (Inr False, warned)
          else (Inr True, insert (us_identity u) warned))"

text \<open>The first mine whose check raises ends the call.\<close>

fun accessible_mines ::
  "string \<Rightarrow> user_claims option \<Rightarrow> string list \<Rightarrow> string set \<Rightarrow> string list result \<times> string set" where
  "accessible_mines env user [] warned = (Inr [], warned)"
| "accessible_mines env user (m # ms) warned =
     (case check_mine_access env user m warned of
        (Inl e, warned') \<Rightarrow> (Inl e, warned')
      | (Inr ok, warned') \<Rightarrow>
          (case accessible_mines env user ms warned' of
             (Inl e, warned'') \<Rightarrow> (Inl e, warned'')
           | (Inr rest, warned'') \<Rightarrow> (Inr (if ok then m # rest else rest), warned'')))"

definition require_mine_access ::
  "string \<Rightarrow> string \<Rightarrow> user_claims option \<Rightarrow> string set \<Rightarrow> (http_error + user_claims option) \<times> string set" where
  "require_mine_access env mine_id user warned =
     (case check_mine_access env user mine_id warned of
        (Inl e, warned') \<Rightarrow> (Inl (Http_Raised e), warned')
      | (Inr ok, warned') \<Rightarrow>
          (if ok then (Inr user, warned')
           else (Inl (Http_Error 403 (''User is not authorized for mine '' @ sq mine_id)), warned')))"

subsection \<open>Who sees what in production\<close>

text \<open>
  The mines that a scope names: all of them for a super administrator or a star, the listed ones
  for a list, the assigned one, none without a scope - and for a scope that is a text every mine
  whose identifier is a part of it.
\<close>

definition in_scope :: "user_claims \<Rightarrow> string \<Rightarrow> bool" where
  "in_scope u m \<longleftrightarrow>
     user_role u = SUPER_ADMIN
     \<or> (case us_allowed_mines u of
          PList xs \<Rightarrow> if xs = [] then us_mine_id u = PStr m \<and> m \<noteq> []
                       else \<not> disjnt {PStr ''*'', PStr ''all'', PStr m} (set xs)
        | PStr t \<Rightarrow> if t = [] then us_mine_id u = PStr m \<and> m \<noteq> []
                    else str_in ''*'' t \<or> str_in ''all'' t \<or> str_in m t
        | PNone \<Rightarrow> us_mine_id u = PStr m \<and> m \<noteq> []
        | _ \<Rightarrow> False)"

definition list_or_text :: "pyval \<Rightarrow> bool" where
  "list_or_text v \<longleftrightarrow> (case v of PList _ \<Rightarrow> True | PStr _ \<Rightarrow> True | PNone \<Rightarrow> True | _ \<Rightarrow> False)"

lemma production_access:
  assumes "py_lower env = ''production''" "list_or_text (us_allowed_mines u)" "list_or_text (us_mine_id u)"
  shows "check_mine_access env (Some u) m warned = (Inr (in_scope u m), warned)"
  using assms
  by (cases "us_allowed_mines u"; cases "us_mine_id u")
     (auto simp: check_mine_access_def in_scope_def list_or_text_def py_in_def disjnt_def)

text \<open>
  In production a user sees exactly the mines of the scope, in the order of the candidates,
  and nobody is let in for want of a scope: the listed mines, the assigned mine or, for a super
  administrator and a star, all of them; with neither list nor assignment none. Where the scope
  is a text instead of a list it is searched for the identifier, so that a mine is visible as soon
  as its identifier, or the word all, is a part of that text.
\<close>

theorem accessible_mines_in_scope:
  assumes "py_lower env = ''production''" "list_or_text (us_allowed_mines u)" "list_or_text (us_mine_id u)"
  shows "accessible_mines env (Some u) ms warned = (Inr (filter (in_scope u) ms), warned)"
  by (induction ms) (simp_all add: production_access [OF assms])

definition demo_user :: user_claims where
  "demo_user = \<lparr>us_role = Some ''mine_planner'', us_identity = ''ana'', us_allowed_mines = PStr ''M12'', us_mine_id = PNone\<rparr>"

theorem accessible_mines_in_scope_witness:
  "accessible_mines ''production'' (Some demo_user) [''M1'', ''M12'', ''M3''] {} = (Inr [''M1'', ''M12''], {})"
proof -
  have "py_lower ''production'' = ''production''"
    by code_simp
  then have "accessible_mines ''production'' (Some demo_user) [''M1'', ''M12'', ''M3''] {}
      = (Inr (filter (in_scope demo_user) [''M1'', ''M12'', ''M3'']), {})"
    by (rule accessible_mines_in_scope) (simp_all add: demo_user_def list_or_text_def)
  moreover have "str_in ''M1'' ''M12''" "\<not> str_in ''M3'' ''M12''" "\<not> str_in ''*'' ''M12''" "\<not> str_in ''all'' ''M12''"
    by code_simp+
  ultimately show ?thesis
    by (simp add: in_scope_def demo_user_def user_role_def SUPER_ADMIN_def)
qed

end
