(* ===== verification/Evidence.thy ===== *)
theory Evidence
  imports Clock
begin

text \<open>
  How well an answer is supported: the grade of its evidence and the lineage of a value
  (\<open>app/api/core/evidence.py\<close> and the models of \<open>app/api/core/provenance.py\<close>).
\<close>

subsection \<open>Grades\<close>

datatype evidence_quality = E_HIGH | E_MEDIUM | E_LOW | E_UNAVAILABLE

fun quality_value :: "evidence_quality \<Rightarrow> string" where
  "quality_value E_HIGH = ''HIGH''"
| "quality_value E_MEDIUM = ''MEDIUM''"
| "quality_value E_LOW = ''LOW''"
| "quality_value E_UNAVAILABLE = ''UNAVAILABLE''"

fun quality_rank :: "evidence_quality \<Rightarrow> nat" where
  "quality_rank E_UNAVAILABLE = 0"
| "quality_rank E_LOW = 1"
| "quality_rank E_MEDIUM = 2"
| "quality_rank E_HIGH = 3"

lemma quality_rank_inj: "quality_rank a = quality_rank b \<longleftrightarrow> a = b"
  by (cases a; cases b) simp_all

text \<open>\<open>__lt__\<close> compares the ranks, which makes the grades a linear order.\<close>

definition grade_below :: "evidence_quality \<Rightarrow> evidence_quality \<Rightarrow> bool" where
  "grade_below a b \<longleftrightarrow> quality_rank a < quality_rank b"

instantiation evidence_quality :: linorder
begin

definition less_eq_evidence_quality :: "evidence_quality \<Rightarrow> evidence_quality \<Rightarrow> bool" where
  "less_eq_evidence_quality a b \<longleftrightarrow> quality_rank a \<le> quality_rank b"

definition less_evidence_quality :: "evidence_quality \<Rightarrow> evidence_quality \<Rightarrow> bool" where
  "less_evidence_quality a b \<longleftrightarrow> grade_below a b"

instance
  by standard (auto simp: less_eq_evidence_quality_def less_evidence_quality_def grade_below_def quality_rank_inj)

end

lemmas quality_order = less_eq_evidence_quality_def less_evidence_quality_def grade_below_def

subsection \<open>Factors\<close>

record evidence_factor =
  ef_key :: string
  ef_label :: string
  ef_score :: rat
  ef_detail :: string
  ef_weight :: rat

definition contribution :: "evidence_factor \<Rightarrow> rat" where
  "contribution f = ef_score f * ef_weight f"

record evidence_assessment =
  ea_quality :: evidence_quality
  ea_factors :: "evidence_factor list"
  ea_limiters :: "string list"

definition evidence_reasons :: "evidence_assessment \<Rightarrow> string list" where
  "evidence_reasons a = map ef_detail (ea_factors a)"

definition weighted_score :: "evidence_factor list \<Rightarrow> rat" where
  "weighted_score fs =
     (let total_weight = sum_list (map ef_weight fs)
      in if total_weight \<le> 0 then 0 else sum_list (map contribution fs) / total_weight)"

definition evidence_as_dict :: "evidence_assessment \<Rightarrow> dict" where
  "evidence_as_dict a =
     [(''quality'', PStr (quality_value (ea_quality a))), (''limiters'', PList (map PStr (ea_limiters a))),
      (''factors'', PList (map (\<lambda>f. PDict
         [(''key'', PStr (ef_key f)), (''label'', PStr (ef_label f)), (''score'', PFloat (py_round 3 (ef_score f))),
          (''detail'', PStr (ef_detail f))]) (ea_factors a)))]"

fun freshness_score :: "data_freshness \<Rightarrow> rat" where
  "freshness_score F_LIVE = 1"
| "freshness_score F_RECENT = 75 / 100"
| "freshness_score F_STALE = 35 / 100"
| "freshness_score F_EXPIRED = 0"

definition freshness_factor :: "data_freshness \<Rightarrow> rat option \<Rightarrow> evidence_factor" where
  "freshness_factor freshness age =
     \<lparr>ef_key = ''freshness'', ef_label = ''Data freshness'', ef_score = freshness_score freshness,
      ef_detail =
        (case age of
           None \<Rightarrow> ''Age of the underlying data is unknown''
         | Some s \<Rightarrow>
             if s < 90 then ''Telemetry is '' @ fmt_fixed 0 s @ '' seconds old''
             else if s < 5400 then ''Telemetry is '' @ fmt_fixed 0 (s / 60) @ '' minutes old''
             else ''Telemetry is '' @ fmt_fixed 1 (s / 3600) @ '' hours old''
               @ (if freshness = F_EXPIRED then '' '' @ em_dash @ '' older than one working day'' else [])),
      ef_weight = 14 / 10\<rparr>"

definition clip01 :: "rat \<Rightarrow> rat" where
  "clip01 x = max 0 (min 1 x)"

definition completeness_factor :: "int \<Rightarrow> int \<Rightarrow> evidence_factor" where
  "completeness_factor present required =
     (let factor = \<lambda>score detail. \<lparr>ef_key = ''completeness'', ef_label = ''Feature completeness'', ef_score = score,
            ef_detail = detail, ef_weight = 12 / 10\<rparr>
      in if required \<le> 0 then factor 0 ''Feature schema is unknown''
         else factor (clip01 (of_int present / of_int required))
           (if required - present = 0 then ''All '' @ show_int required @ '' required inputs available''
            else show_int present @ '' of '' @ show_int required @ '' required inputs available (''
              @ show_int (required - present) @ '' substituted from historical medians)''))"

definition model_factor :: "bool \<Rightarrow> string option \<Rightarrow> evidence_factor" where
  "model_factor model_available serving_status =
     (let factor = \<lambda>score detail. \<lparr>ef_key = ''model'', ef_label = ''Model availability'', ef_score = score,
            ef_detail = detail, ef_weight = 15 / 10\<rparr>;
          status = upper_text (str_or serving_status [])
      in if \<not> model_available then factor 0 (''No model is serving this task '' @ em_dash @ '' estimate is heuristic'')
         else if status = ''SYNCED'' then factor 1 ''Champion model is serving and in sync with the registry''
         else if status = ''SYNC_PENDING'' \<or> status = ''SYNC_FAILED''
         then factor (55 / 100) (''A model is serving, but it is not the current approved champion (''
                @ py_lower (blanks status) @ '')'')
         else factor (7 / 10) ''A model is serving; registry sync state is unreported'')"

definition MIN_HISTORICAL_CASES :: int where
  "MIN_HISTORICAL_CASES = 3"

definition STRONG_HISTORICAL_CASES :: int where
  "STRONG_HISTORICAL_CASES = 12"

definition historical_factor :: "int \<Rightarrow> evidence_factor" where
  "historical_factor n =
     (let factor = \<lambda>score detail. \<lparr>ef_key = ''history'', ef_label = ''Historical support'', ef_score = score,
            ef_detail = detail, ef_weight = 8 / 10\<rparr>
      in if n \<le> 0 then factor 0 ''No comparable past situations on record''
         else if n < MIN_HISTORICAL_CASES
         then factor (3 / 10) (''Only '' @ show_int n @ '' comparable past situation(s) on record'')
         else factor (if n < STRONG_HISTORICAL_CASES then 7 / 10 else 1)
                (show_int n @ '' comparable past situations on record''))"

definition constraint_factor :: "int \<Rightarrow> int \<Rightarrow> evidence_factor" where
  "constraint_factor evaluated' relevant =
     (let factor = \<lambda>score detail. \<lparr>ef_key = ''constraints'', ef_label = ''Constraint coverage'', ef_score = score,
            ef_detail = detail, ef_weight = 13 / 10\<rparr>
      in if relevant \<le> 0 then factor 1 ''No operational constraints apply''
         else factor (clip01 (of_int evaluated' / of_int relevant))
           (if relevant - evaluated' = 0 then ''All '' @ show_int relevant @ '' applicable constraints evaluated''
            else show_int evaluated' @ '' of '' @ show_int relevant @ '' applicable constraints evaluated '' @ em_dash
              @ '' '' @ show_int (relevant - evaluated') @ '' could not be checked''))"

subsection \<open>Grading\<close>

definition HIGH_THRESHOLD :: rat where
  "HIGH_THRESHOLD = 82 / 100"

definition MEDIUM_THRESHOLD :: rat where
  "MEDIUM_THRESHOLD = 55 / 100"

definition LOW_THRESHOLD :: rat where
  "LOW_THRESHOLD = 25 / 100"

definition grade_of_score :: "rat \<Rightarrow> evidence_quality" where
  "grade_of_score score =
     (if score \<ge> HIGH_THRESHOLD then E_HIGH else if score \<ge> MEDIUM_THRESHOLD then E_MEDIUM
      else if score \<ge> LOW_THRESHOLD then E_LOW else E_UNAVAILABLE)"

text \<open>\<open>{f.key: f for f in factors}\<close>: the last factor of a key\<close>

definition factor_of :: "evidence_factor list \<Rightarrow> string \<Rightarrow> evidence_factor option" where
  "factor_of fs key = find (\<lambda>f. ef_key f = key) (rev fs)"

type_synonym grading = "evidence_quality \<times> string list"

definition cap :: "evidence_quality \<Rightarrow> string \<Rightarrow> grading \<Rightarrow> grading" where
  "cap limit why g = (if quality_rank (fst g) > quality_rank limit then (limit, snd g @ [why]) else g)"

definition cap_model :: "evidence_factor list \<Rightarrow> grading \<Rightarrow> grading" where
  "cap_model fs g =
     (case factor_of fs ''model'' of
        None \<Rightarrow> g
      | Some f \<Rightarrow>
          if ef_score f \<le> 0 then cap E_LOW ''No model is serving this task'' g
          else if ef_score f < 6 / 10 then cap E_MEDIUM ''The serving model is not the approved champion'' g
          else g)"

definition cap_freshness :: "evidence_factor list \<Rightarrow> grading \<Rightarrow> grading" where
  "cap_freshness fs g =
     (case factor_of fs ''freshness'' of
        None \<Rightarrow> g
      | Some f \<Rightarrow>
          if ef_score f \<le> 0 then cap E_LOW ''The underlying data is older than one working day'' g
          else if ef_score f < 5 / 10 then cap E_MEDIUM ''The underlying data is several hours old'' g
          else g)"

definition cap_constraints :: "evidence_factor list \<Rightarrow> grading \<Rightarrow> grading" where
  "cap_constraints fs g =
     (case factor_of fs ''constraints'' of
        None \<Rightarrow> g
      | Some f \<Rightarrow>
          if ef_score f < 1 then cap E_MEDIUM ''Not every applicable constraint could be evaluated'' g else g)"

definition cap_completeness :: "evidence_factor list \<Rightarrow> grading \<Rightarrow> grading" where
  "cap_completeness fs g =
     (case factor_of fs ''completeness'' of
        None \<Rightarrow> g
      | Some f \<Rightarrow>
          if ef_score f < 75 / 100 then cap E_MEDIUM ''A quarter or more of the model inputs were substituted'' g
          else g)"

definition assess :: "evidence_factor list \<Rightarrow> evidence_assessment" where
  "assess fs =
     (if fs = [] then \<lparr>ea_quality = E_UNAVAILABLE, ea_factors = [], ea_limiters = [''Nothing was measured'']\<rparr>
      else
        (let g = cap_completeness fs (cap_constraints fs (cap_freshness fs (cap_model fs
                   (grade_of_score (weighted_score fs), []))))
         in \<lparr>ea_quality = fst g, ea_factors = fs, ea_limiters = snd g\<rparr>))"

subsection \<open>Lineage\<close>

text \<open>An observation time: a timestamp, a plain date, a text, or nothing\<close>

datatype observed = Ob_Time int | Ob_Date int | Ob_Text string | Ob_None

record provenance =
  pv_generated_at :: string
  pv_data_time :: "string option"
  pv_data_age :: "rat option"
  pv_freshness :: data_freshness
  pv_model_version :: "string option"
  pv_dataset_version :: "string option"
  pv_feature_version :: "string option"
  pv_serving_status :: "string option"
  pv_source_records :: nat
  pv_data_origin :: string
  pv_assumptions :: "string list"
  pv_constraints_checked :: "string list"

definition provenance_default :: "string \<Rightarrow> provenance" where
  "provenance_default generated_at =
     \<lparr>pv_generated_at = generated_at, pv_data_time = None, pv_data_age = None, pv_freshness = F_EXPIRED,
      pv_model_version = None, pv_dataset_version = None, pv_feature_version = None, pv_serving_status = None,
      pv_source_records = 0, pv_data_origin = ''SYNTHETIC'', pv_assumptions = [], pv_constraints_checked = []\<rparr>"

text \<open>
  \<open>from_observation\<close>: a text is read by \<open>fromisoformat\<close>, a parameter; a plain date is neither a text
  nor a timestamp and leaves the age unknown.
\<close>

definition observed_time :: "(string \<Rightarrow> int option) \<Rightarrow> observed \<Rightarrow> int option" where
  "observed_time parse_iso ob =
     (case ob of Ob_Time t \<Rightarrow> Some t | Ob_Text s \<Rightarrow> parse_iso s | Ob_Date d \<Rightarrow> None | Ob_None \<Rightarrow> None)"

definition from_observation ::
  "time_format \<Rightarrow> (string \<Rightarrow> int option) \<Rightarrow> int \<Rightarrow> observed \<Rightarrow> provenance \<Rightarrow> provenance" where
  "from_observation tf parse_iso now ob given =
     (let t = observed_time parse_iso ob; age = map_option (\<lambda>t. total_seconds (now - t)) t
      in given\<lparr>pv_data_time := map_option (tf_iso tf) t, pv_data_age := map_option (py_round 1) age,
               pv_freshness := freshness_from_age age\<rparr>)"

record measure =
  ms_value :: "rat option"
  ms_unit :: string
  ms_label :: string
  ms_scope :: scope
  ms_mode :: calculation_mode
  ms_quality :: evidence_quality
  ms_reasons :: "string list"
  ms_provenance :: provenance
  ms_unavailable_reason :: "string option"

definition measure_available :: "measure \<Rightarrow> bool" where
  "measure_available m \<longleftrightarrow> ms_value m \<noteq> None"

definition measure_unavailable ::
  "string \<Rightarrow> string \<Rightarrow> string \<Rightarrow> scope \<Rightarrow> string \<Rightarrow> provenance option \<Rightarrow> measure" where
  "measure_unavailable generated_at label' u sc reason prov =
     \<lparr>ms_value = None, ms_unit = u, ms_label = label', ms_scope = sc, ms_mode = INSUFFICIENT_DATA,
      ms_quality = E_UNAVAILABLE, ms_reasons = [],
      ms_provenance = (case prov of None \<Rightarrow> provenance_default generated_at | Some p \<Rightarrow> p),
      ms_unavailable_reason = Some reason\<rparr>"

definition measure_render :: "nat \<Rightarrow> measure \<Rightarrow> string" where
  "measure_render places m =
     (case ms_value m of
        None \<Rightarrow> ''Not available''
      | Some x \<Rightarrow> py_strip (fmt_commas places x @ '' '' @ ms_unit m))"

subsection \<open>Properties\<close>

text \<open>A factor of the key scores below a bound.\<close>

definition scores_below :: "evidence_factor list \<Rightarrow> string \<Rightarrow> rat \<Rightarrow> bool" where
  "scores_below fs key b \<longleftrightarrow> (\<exists>f. factor_of fs key = Some f \<and> ef_score f < b)"

definition scores_nothing :: "evidence_factor list \<Rightarrow> string \<Rightarrow> bool" where
  "scores_nothing fs key \<longleftrightarrow> (\<exists>f. factor_of fs key = Some f \<and> ef_score f \<le> 0)"

text \<open>What ruins an answer, and what only weakens it\<close>

definition ruined :: "evidence_factor list \<Rightarrow> bool" where
  "ruined fs \<longleftrightarrow> scores_nothing fs ''model'' \<or> scores_nothing fs ''freshness''"

definition weakened :: "evidence_factor list \<Rightarrow> bool" where
  "weakened fs \<longleftrightarrow> scores_below fs ''model'' (6 / 10) \<or> scores_below fs ''freshness'' (5 / 10)
     \<or> scores_below fs ''constraints'' 1 \<or> scores_below fs ''completeness'' (75 / 100)"

definition grade_limit :: "evidence_factor list \<Rightarrow> evidence_quality" where
  "grade_limit fs = (if ruined fs then E_LOW else if weakened fs then E_MEDIUM else E_HIGH)"

text \<open>A grading whose grade is a limit, and which names a limiter exactly when that lowered the grade\<close>

definition limited :: "evidence_quality \<Rightarrow> evidence_quality \<Rightarrow> grading \<Rightarrow> bool" where
  "limited q l g \<longleftrightarrow> fst g = min q l \<and> (snd g = [] \<longleftrightarrow> fst g = q)"

lemma limited_start: "limited q E_HIGH (q, [])"
  by (cases q) (simp_all add: limited_def min_def quality_order)

lemma limited_cap: "limited q l g \<Longrightarrow> limited q (min l l') (cap l' why g)"
  by (cases q; cases l; cases l') (auto simp: limited_def cap_def min_def quality_order)

lemma limited_high: "min l E_HIGH = l" "min E_HIGH l = l"
  by (cases l; simp add: min_def quality_order)+

text \<open>The limit that the factor of a key sets by its score\<close>

definition key_limit :: "evidence_factor list \<Rightarrow> string \<Rightarrow> (rat \<Rightarrow> evidence_quality) \<Rightarrow> evidence_quality" where
  "key_limit fs key bound = (case factor_of fs key of None \<Rightarrow> E_HIGH | Some f \<Rightarrow> bound (ef_score f))"

lemma limited_key:
  assumes "limited q l g"
  shows "limited q (min l (key_limit fs ''model'' (\<lambda>s. if s \<le> 0 then E_LOW else if s < 6 / 10 then E_MEDIUM else E_HIGH)))
           (cap_model fs g)"
    and "limited q (min l (key_limit fs ''freshness'' (\<lambda>s. if s \<le> 0 then E_LOW else if s < 5 / 10 then E_MEDIUM else E_HIGH)))
           (cap_freshness fs g)"
    and "limited q (min l (key_limit fs ''constraints'' (\<lambda>s. if s < 1 then E_MEDIUM else E_HIGH))) (cap_constraints fs g)"
    and "limited q (min l (key_limit fs ''completeness'' (\<lambda>s. if s < 75 / 100 then E_MEDIUM else E_HIGH)))
           (cap_completeness fs g)"
  using assms limited_cap [OF assms]
  by (auto simp: cap_model_def cap_freshness_def cap_constraints_def cap_completeness_def key_limit_def limited_high
      split: option.split)

lemma limits_combine:
  "min (min (min (min E_HIGH (key_limit fs ''model'' (\<lambda>s. if s \<le> 0 then E_LOW else if s < 6 / 10 then E_MEDIUM else E_HIGH)))
     (key_limit fs ''freshness'' (\<lambda>s. if s \<le> 0 then E_LOW else if s < 5 / 10 then E_MEDIUM else E_HIGH)))
     (key_limit fs ''constraints'' (\<lambda>s. if s < 1 then E_MEDIUM else E_HIGH)))
     (key_limit fs ''completeness'' (\<lambda>s. if s < 75 / 100 then E_MEDIUM else E_HIGH)) = grade_limit fs"
  by (cases "factor_of fs ''model''"; cases "factor_of fs ''freshness''"; cases "factor_of fs ''constraints''";
      cases "factor_of fs ''completeness''")
    (simp_all add: key_limit_def grade_limit_def ruined_def weakened_def scores_below_def scores_nothing_def
      min_def quality_order)

lemma assess_limited:
  assumes "fs \<noteq> []"
  shows "limited (grade_of_score (weighted_score fs)) (grade_limit fs) (ea_quality (assess fs), ea_limiters (assess fs))"
proof -
  have "limited (grade_of_score (weighted_score fs)) (grade_limit fs)
     (cap_completeness fs (cap_constraints fs (cap_freshness fs (cap_model fs (grade_of_score (weighted_score fs), [])))))"
    unfolding limits_combine [symmetric] by (intro limited_key limited_start)
  with assms show ?thesis
    by (simp add: assess_def Let_def)
qed

text \<open>Scores between nothing and one give a weighted score between nothing and one.\<close>

definition measured_factor :: "evidence_factor \<Rightarrow> bool" where
  "measured_factor f \<longleftrightarrow> 0 \<le> ef_score f \<and> ef_score f \<le> 1 \<and> 0 < ef_weight f"

lemma factors_measured [simp]:
  "measured_factor (freshness_factor fr age)" "measured_factor (completeness_factor p r)"
  "measured_factor (model_factor ok st)" "measured_factor (historical_factor n)" "measured_factor (constraint_factor e r)"
  by (cases fr; simp add: measured_factor_def freshness_factor_def)
    (auto simp: measured_factor_def completeness_factor_def model_factor_def historical_factor_def
      constraint_factor_def clip01_def Let_def)

lemma weighted_score_range:
  assumes "\<forall>f \<in> set fs. measured_factor f"
  shows "0 \<le> weighted_score fs \<and> weighted_score fs \<le> 1"
proof -
  have "0 \<le> sum_list (map contribution fs) \<and> sum_list (map contribution fs) \<le> sum_list (map ef_weight fs)"
    using assms
  proof (induction fs)
    case (Cons f fs)
    have "0 \<le> contribution f" "contribution f \<le> ef_weight f"
      using Cons.prems by (auto simp: contribution_def measured_factor_def mult_left_le_one_le)
    with Cons show ?case by simp
  qed simp
  then show ?thesis
    by (auto simp: weighted_score_def Let_def divide_le_eq_1)
qed

text \<open>
  C10: The grade of an answer is what its weighted score earns, but never more than its weakest
  necessary input allows: without a serving model or with expired data at most LOW; with a model
  that is not the champion, stale data, an unchecked constraint or more than a quarter of the inputs
  substituted - exactly a quarter does not count - at most MEDIUM. No other factor can compensate for
  these, and the assessment names a limiter exactly when a limit lowered the grade. Without any
  factor nothing is claimed.
\<close>

theorem evidence_grade_is_limited:
  "let a = assess fs; earned = grade_of_score (weighted_score fs)
   in if fs = [] then ea_quality a = E_UNAVAILABLE
      else ea_quality a = min earned (grade_limit fs) \<and> (ea_limiters a = [] \<longleftrightarrow> ea_quality a = earned)"
  using assess_limited [of fs] by (simp add: limited_def Let_def assess_def)

text \<open>
  The limiter says "a quarter or more", but at exactly a quarter there is none and the grade can be
  HIGH.
\<close>

lemma exact_quarter_is_not_limited:
  "ea_quality (assess [completeness_factor 3 4, model_factor True (Some ''SYNCED'')]) = E_HIGH
   \<and> ea_limiters (assess [completeness_factor 3 4, model_factor True (Some ''SYNCED'')]) = []"
  by code_simp

end
