(* ===== verification/Scenario.thy ===== *)
theory Scenario
  imports Constraints Evidence "HOL-Library.Option_ord"
begin

text \<open>
  The vocabulary of a scenario, the catalogue of interventions, what they cost and how they are
  ordered (\<open>app/api/core/scenario/types.py\<close>, \<open>catalogue.py\<close>, \<open>economics.py\<close>, \<open>ranking.py\<close>).
\<close>

subsection \<open>Controls\<close>

datatype scenario_objective = MAXIMIZE_PRODUCTION | BALANCED | MINIMIZE_COST | MINIMIZE_RISK

fun objective_value :: "scenario_objective \<Rightarrow> string" where
  "objective_value MAXIMIZE_PRODUCTION = ''MAXIMIZE_PRODUCTION''"
| "objective_value BALANCED = ''BALANCED''"
| "objective_value MINIMIZE_COST = ''MINIMIZE_COST''"
| "objective_value MINIMIZE_RISK = ''MINIMIZE_RISK''"

definition all_objectives :: "scenario_objective list" where
  "all_objectives = [MAXIMIZE_PRODUCTION, BALANCED, MINIMIZE_COST, MINIMIZE_RISK]"

datatype risk_tolerance = CONSERVATIVE | RT_BALANCED | AGGRESSIVE

datatype flexibility = FX_NONE | FX_LOW | FX_MEDIUM | FX_HIGH

fun flex_magnitude :: "flexibility \<Rightarrow> rat" where
  "flex_magnitude FX_NONE = 0"
| "flex_magnitude FX_LOW = 5 / 100"
| "flex_magnitude FX_MEDIUM = 10 / 100"
| "flex_magnitude FX_HIGH = 15 / 100"

record scenario_controls =
  ctl_mine_id :: string
  ctl_objective :: scenario_objective
  ctl_max_fuel_pct :: rat
  ctl_fleet :: flexibility
  ctl_route :: flexibility
  ctl_maintenance :: flexibility
  ctl_operating_time :: flexibility
  ctl_risk_tolerance :: risk_tolerance
  ctl_max_actions :: int

definition default_controls :: "string \<Rightarrow> scenario_controls" where
  "default_controls mine_id =
     \<lparr>ctl_mine_id = mine_id, ctl_objective = BALANCED, ctl_max_fuel_pct = 10, ctl_fleet = FX_MEDIUM,
      ctl_route = FX_MEDIUM, ctl_maintenance = FX_NONE, ctl_operating_time = FX_NONE,
      ctl_risk_tolerance = RT_BALANCED, ctl_max_actions = 3\<rparr>"

subsection \<open>Context\<close>

text \<open>
  A model-ready row: its columns in the order of the model. The serving model is a parameter, any
  function on such rows that may raise.
\<close>

type_synonym frame = "(string \<times> rat) list"

record scenario_context =
  cx_mine_id :: string
  cx_location :: "(rat \<times> rat) option"
  cx_baseline :: "rat option"
  cx_planned :: "rat option"
  cx_features :: "frame option"
  cx_model :: "(frame \<Rightarrow> rat result) option"
  cx_latest_row :: dict
  cx_provenance :: provenance
  cx_baseline_model_backed :: bool

text \<open>\<open>a - b\<close> where both are known\<close>

definition opt_minus :: "rat option \<Rightarrow> rat option \<Rightarrow> rat option" where
  "opt_minus a b = (case (a, b) of (Some x, Some y) \<Rightarrow> Some (x - y) | _ \<Rightarrow> None)"

definition gap_pct :: "rat option \<Rightarrow> rat option \<Rightarrow> rat option" where
  "gap_pct gap planned =
     (case (gap, planned) of (Some g, Some p) \<Rightarrow> if p = 0 then None else Some (100 * g / p) | _ \<Rightarrow> None)"

definition context_gap :: "scenario_context \<Rightarrow> rat option" where
  "context_gap c = opt_minus (cx_planned c) (cx_baseline c)"

definition context_gap_pct :: "scenario_context \<Rightarrow> rat option" where
  "context_gap_pct c = gap_pct (context_gap c) (cx_planned c)"

subsection \<open>Outcomes and results\<close>

record intervention_outcome =
  io_key :: string
  io_title :: string
  io_description :: string
  io_magnitude :: rat
  io_delta :: "rat option"
  io_mode :: calculation_mode
  io_method :: string
  io_constraints :: constraint_report
  io_evidence :: evidence_assessment
  io_cost :: "rat option"
  io_cost_basis :: string
  io_fuel :: "rat option"
  io_risk :: rat
  io_tradeoffs :: "string list"
  io_rejected :: "string option"

definition outcome_feasible :: "intervention_outcome \<Rightarrow> bool" where
  "outcome_feasible o' \<longleftrightarrow> io_rejected o' = None \<and> feasible (io_constraints o')"

definition outcome_available :: "intervention_outcome \<Rightarrow> bool" where
  "outcome_available o' \<longleftrightarrow> outcome_feasible o' \<and> io_delta o' \<noteq> None"

definition outcome_as_dict :: "intervention_outcome \<Rightarrow> dict" where
  "outcome_as_dict o' =
     [(''key'', PStr (io_key o')), (''title'', PStr (io_title o')), (''description'', PStr (io_description o')),
      (''magnitude'', PFloat (py_round 4 (io_magnitude o'))), (''expected_delta_t'', opt_round 1 (io_delta o')),
      (''calculation_mode'', PStr (calculation_mode_value (io_mode o'))), (''method'', PStr (io_method o')),
      (''cost_inr'', opt_round 0 (io_cost o')), (''cost_basis'', PStr (io_cost_basis o')),
      (''fuel_delta_pct'', opt_round 2 (io_fuel o')), (''risk_delta'', PFloat (py_round 3 (io_risk o'))),
      (''feasible'', PBool (outcome_feasible o')), (''rejected_reason'', opt_str (io_rejected o')),
      (''tradeoffs'', PList (map PStr (io_tradeoffs o'))),
      (''constraints'', PDict (report_as_dict (io_constraints o'))),
      (''evidence'', PDict (evidence_as_dict (io_evidence o')))]"

record scenario_result =
  rs_scenario_id :: string
  rs_mine_id :: string
  rs_objective :: scenario_objective
  rs_created_at :: string
  rs_created_by :: string
  rs_scope :: scope
  rs_baseline :: "rat option"
  rs_planned :: "rat option"
  rs_projected :: "rat option"
  rs_selected :: "intervention_outcome list"
  rs_considered :: "intervention_outcome list"
  rs_mode :: calculation_mode
  rs_evidence :: "evidence_assessment option"
  rs_provenance :: provenance
  rs_unavailable :: "string option"

text \<open>The values that are known, and their sum when there is one\<close>

definition known :: "('a \<Rightarrow> 'b option) \<Rightarrow> 'a list \<Rightarrow> 'b list" where
  "known f xs = List.map_filter f xs"

definition opt_total :: "rat list \<Rightarrow> rat option" where
  "opt_total xs = (if xs = [] then None else Some (sum_list xs))"

definition net_delta :: "scenario_result \<Rightarrow> rat option" where
  "net_delta r = opt_total (known io_delta (rs_selected r))"

definition net_cost :: "scenario_result \<Rightarrow> rat option" where
  "net_cost r = opt_total (known io_cost (rs_selected r))"

definition result_gap :: "scenario_result \<Rightarrow> rat option" where
  "result_gap r = opt_minus (rs_planned r) (rs_baseline r)"

definition residual_gap :: "scenario_result \<Rightarrow> rat option" where
  "residual_gap r = opt_minus (rs_planned r) (rs_projected r)"

subsection \<open>Catalogue\<close>

record intervention_spec =
  iv_key :: string
  iv_title :: string
  iv_description :: string
  iv_features :: "string list"
  iv_scales_up :: bool
  iv_heuristic :: rat
  iv_cost_driver :: "string option"
  iv_risk :: rat
  iv_fuel :: rat
  iv_inputs :: "string list"
  iv_tradeoffs :: "string list"
  iv_approval_roles :: "string list"
  iv_horizon :: string
  iv_owner :: string

definition spec_equipment_redeploy :: intervention_spec where
  "spec_equipment_redeploy =
     \<lparr>iv_key = ''equipment_redeploy'', iv_title = ''Reallocate haulage to the constrained route'',
      iv_description = ''Move available low-risk haulage capacity onto the stage that is currently limiting production.'',
      iv_features = [''equipment_availability_pct'', ''available_equipment_count'', ''equipment_utilization_pct'', ''utilization_pct'', ''operating_hours''],
      iv_scales_up = True, iv_heuristic = 10 / 100, iv_cost_driver = Some ''equipment_operating_cost_inr'',
      iv_risk = 2 / 100, iv_fuel = 60 / 100, iv_inputs = [],
      iv_tradeoffs =
        [''Units moved onto the constrained route leave their current face short-handed.'',
         ''Relocation consumes part of the shift before any extra tonnes are produced.''],
      iv_approval_roles = [''production_admin''], iv_horizon = ''NEXT'',
      iv_owner = ''Fleet Coordinator''\<rparr>"

definition spec_fleet_reroute :: intervention_spec where
  "spec_fleet_reroute =
     \<lparr>iv_key = ''fleet_reroute'', iv_title = ''Reroute haulage away from the congested corridor'',
      iv_description = ''Send loaded trucks via an alternative haul route to cut queueing and cycle time.'',
      iv_features = [''average_cycle_time_min'', ''truck_queue_time_min'', ''haul_distance_km''],
      iv_scales_up = False, iv_heuristic = 9 / 100, iv_cost_driver = Some ''haul_cost_inr'',
      iv_risk = 1 / 100, iv_fuel = 100 / 100, iv_inputs = [],
      iv_tradeoffs =
        [''An alternative route is usually longer, raising fuel burn per tonne.'',
         ''Route risk must be re-checked against current ground and weather conditions.''],
      iv_approval_roles = [''production_admin''], iv_horizon = ''NEXT'',
      iv_owner = ''Dispatch''\<rparr>"

definition spec_crusher_speed_trim :: intervention_spec where
  "spec_crusher_speed_trim =
     \<lparr>iv_key = ''crusher_speed_trim'', iv_title = ''Raise primary crusher throughput'',
      iv_description = ''Increase crusher feed rate to clear a processing-side restriction.'',
      iv_features = [''processing_capacity_t''],
      iv_scales_up = True, iv_heuristic = 5 / 100, iv_cost_driver = Some ''processing_cost_inr'',
      iv_risk = 4 / 100, iv_fuel = 20 / 100, iv_inputs = [''magnitude''],
      iv_tradeoffs =
        [''Sustained higher feed rates accelerate liner and motor wear.'',
         ''Gains stop at the next downstream limit, which may be stockpile capacity.''],
      iv_approval_roles = [''production_admin''], iv_horizon = ''NEXT'',
      iv_owner = ''Processing Supervisor''\<rparr>"

definition spec_blast_reschedule :: intervention_spec where
  "spec_blast_reschedule =
     \<lparr>iv_key = ''blast_reschedule'', iv_title = ''Advance the next blast'',
      iv_description = ''Bring the scheduled blast forward so broken ore is available earlier in the shift.'',
      iv_features = [''ore_available_t'', ''blast_delay_hours''],
      iv_scales_up = True, iv_heuristic = 7 / 100, iv_cost_driver = Some ''blast_cost_inr'',
      iv_risk = 5 / 100, iv_fuel = 0, iv_inputs = [''shift''],
      iv_tradeoffs =
        [''Advancing a blast compresses the clearance and re-entry window.'',
         ''Fragmentation quality may suffer if preparation is shortened.''],
      iv_approval_roles = [''production_admin'', ''super_admin''], iv_horizon = ''NEXT_SHIFT'',
      iv_owner = ''Drill & Blast Engineer''\<rparr>"

definition spec_maintenance_defer :: intervention_spec where
  "spec_maintenance_defer =
     \<lparr>iv_key = ''maintenance_defer'', iv_title = ''Defer non-critical maintenance'',
      iv_description = ''Hold a non-critical service until the lowest-production window to keep units available now.'',
      iv_features = [''planned_maintenance_hours'', ''total_downtime_hours''],
      iv_scales_up = False, iv_heuristic = 4 / 100, iv_cost_driver = Some ''maintenance_cost_inr'',
      iv_risk = 18 / 100, iv_fuel = 0, iv_inputs = [],
      iv_tradeoffs =
        [''Deferral raises unplanned-failure exposure for the whole deferred period.'',
         ''An unplanned stop costs more production than the deferral recovers.''],
      iv_approval_roles = [''equipment_admin'', ''super_admin''], iv_horizon = ''NEXT_SHIFT'',
      iv_owner = ''Maintenance Manager''\<rparr>"

definition spec_extend_operating_hours :: intervention_spec where
  "spec_extend_operating_hours =
     \<lparr>iv_key = ''extend_operating_hours'', iv_title = ''Extend productive operating time'',
      iv_description = ''Recover lost operating time by tightening shift changeover and reducing idle periods.'',
      iv_features = [''working_hours'', ''operating_hours'', ''shift_efficiency''],
      iv_scales_up = True, iv_heuristic = 6 / 100, iv_cost_driver = Some ''equipment_operating_cost_inr'',
      iv_risk = 3 / 100, iv_fuel = 80 / 100, iv_inputs = [],
      iv_tradeoffs =
        [''Extended running reduces the window available for routine servicing.'',
         ''Operator fatigue rises toward the end of an extended period.''],
      iv_approval_roles = [''production_admin''], iv_horizon = ''NOW'',
      iv_owner = ''Shift Supervisor''\<rparr>"

definition CATALOGUE :: "intervention_spec list" where
  "CATALOGUE = [spec_equipment_redeploy, spec_fleet_reroute, spec_crusher_speed_trim, spec_blast_reschedule,
     spec_maintenance_defer, spec_extend_operating_hours]"

text \<open>The dictionary has every entry under its own key.\<close>

definition catalogue_spec :: "string \<Rightarrow> intervention_spec option" where
  "catalogue_spec key = find (\<lambda>s. iv_key s = key) CATALOGUE"

definition all_specs :: "intervention_spec list" where
  "all_specs = CATALOGUE"

lemmas spec_defs = spec_equipment_redeploy_def spec_fleet_reroute_def spec_crusher_speed_trim_def
  spec_blast_reschedule_def spec_maintenance_defer_def spec_extend_operating_hours_def

subsection \<open>Economics\<close>

definition rupee :: string where
  "rupee = [CHR 0xE2, CHR 0x82, CHR 0xB9]"

record mine_economics =
  me_mine_id :: string
  me_shifts :: int
  me_production :: "rat option"
  me_cost_lines :: "(string \<times> rat) list"
  me_ore_value :: "rat option"

definition economics_available :: "mine_economics \<Rightarrow> bool" where
  "economics_available e \<longleftrightarrow> me_shifts e > 0 \<and> me_cost_lines e \<noteq> []"

definition truthy_num :: "rat option \<Rightarrow> bool" where
  "truthy_num x \<longleftrightarrow> (case x of None \<Rightarrow> False | Some r \<Rightarrow> r \<noteq> 0)"

definition ore_value_per_tonne :: "mine_economics \<Rightarrow> rat option" where
  "ore_value_per_tonne e =
     (if \<not> truthy_num (me_ore_value e) \<or> \<not> truthy_num (me_production e) then None
      else Some (the (me_ore_value e) / the (me_production e)))"

definition total_cost_per_shift :: "mine_economics \<Rightarrow> rat" where
  "total_cost_per_shift e = sum_list (map snd (me_cost_lines e))"

text \<open>\<open>driver.replace("_inr", "")\<close>: every occurrence, from the left\<close>

fun drop_inr :: "string \<Rightarrow> string" where
  "drop_inr [] = []"
| "drop_inr (c # cs) = (if take 4 (c # cs) = ''_inr'' then drop_inr (drop 3 cs) else c # drop_inr cs)"

definition incremental_cost :: "mine_economics \<Rightarrow> string \<Rightarrow> rat \<Rightarrow> rat option \<times> string" where
  "incremental_cost e driver magnitude =
     (case map_of (me_cost_lines e) driver of
        None \<Rightarrow> (None, ''No '' @ blanks driver @ '' recorded for '' @ me_mine_id e)
      | Some base \<Rightarrow>
          (Some (base * magnitude),
           fmt_fixed 0 (magnitude * 100) @ ''% of the mine'' @ [CHR 39] @ ''s mean '' @ blanks (drop_inr driver)
           @ '' ('' @ rupee @ fmt_commas 0 base @ '' per shift over '' @ show_int (me_shifts e) @ '' shifts)''))"

definition value_of :: "mine_economics \<Rightarrow> rat \<Rightarrow> rat option \<times> string" where
  "value_of e tonnes =
     (case ore_value_per_tonne e of
        None \<Rightarrow> (None, ''Ore value per tonne is not recorded for this mine'')
      | Some rate \<Rightarrow>
          (Some (tonnes * rate), ''at the mine'' @ [CHR 39] @ ''s mean ore value of '' @ rupee @ fmt_commas 0 rate @ ''/t''))"

definition empty_economics :: mine_economics where
  "empty_economics = \<lparr>me_mine_id = [], me_shifts = 0, me_production = None, me_cost_lines = [], me_ore_value = None\<rparr>"

text \<open>
  The one row of means that the statement answers: the number of shifts, and a mean, which is null
  without observations, for every other column
\<close>

type_synonym economics_row = "int \<times> (string \<times> rat option) list"

definition econ_num :: "economics_row \<Rightarrow> string \<Rightarrow> rat option" where
  "econ_num row key = (case map_of (snd row) key of None \<Rightarrow> None | Some x \<Rightarrow> x)"

definition cost_columns :: "string list" where
  "cost_columns = [''equipment_operating_cost_inr'', ''maintenance_cost_inr'', ''blast_cost_inr'', ''haul_cost_inr'',
     ''processing_cost_inr'']"

definition mine_economics_of :: "string \<Rightarrow> economics_row list result \<Rightarrow> mine_economics" where
  "mine_economics_of mine_id answer =
     (case answer of
        Inl _ \<Rightarrow> empty_economics
      | Inr [] \<Rightarrow> empty_economics
      | Inr (row # _) \<Rightarrow>
          if fst row = 0 then empty_economics
          else \<lparr>me_mine_id = mine_id, me_shifts = fst row, me_production = econ_num row ''production_t'',
                me_cost_lines = known (\<lambda>k. map_option (Pair k) (econ_num row k)) cost_columns,
                me_ore_value = econ_num row ''ore_value_inr''\<rparr>)"

subsection \<open>Ranking\<close>

fun evidence_weight :: "evidence_quality \<Rightarrow> rat" where
  "evidence_weight E_HIGH = 1"
| "evidence_weight E_MEDIUM = 85 / 100"
| "evidence_weight E_LOW = 6 / 10"
| "evidence_weight E_UNAVAILABLE = 4 / 10"

definition outcome_weight :: "intervention_outcome \<Rightarrow> rat" where
  "outcome_weight o' = evidence_weight (ea_quality (io_evidence o'))"

definition opt_num :: "rat option \<Rightarrow> rat" where
  "opt_num x = (case x of None \<Rightarrow> 0 | Some r \<Rightarrow> r)"

definition production_score :: "intervention_outcome \<Rightarrow> rat" where
  "production_score o' = opt_num (io_delta o') * outcome_weight o'"

text \<open>A score of minus infinity is \<^const>\<open>None\<close>, which the order on options puts below every other.\<close>

definition cost_score :: "intervention_outcome \<Rightarrow> rat option" where
  "cost_score o' = map_option (\<lambda>c. - c) (io_cost o')"

definition risk_score :: "intervention_outcome \<Rightarrow> rat" where
  "risk_score o' = - io_risk o' * outcome_weight o'"

definition balanced_score :: "intervention_outcome \<Rightarrow> rat" where
  "balanced_score o' =
     (let delta = opt_num (io_delta o') * outcome_weight o'
      in if delta \<le> 0 then delta
         else (let cost_lakh = opt_num (io_cost o') / 100000; efficiency = delta / max cost_lakh (5 / 100)
               in efficiency * (1 - min (5 / 10) (io_risk o'))))"

definition outcome_score :: "scenario_objective \<Rightarrow> intervention_outcome \<Rightarrow> rat option" where
  "outcome_score objective o' =
     (case objective of
        MAXIMIZE_PRODUCTION \<Rightarrow> Some (production_score o')
      | MINIMIZE_COST \<Rightarrow> cost_score o'
      | MINIMIZE_RISK \<Rightarrow> Some (risk_score o')
      | BALANCED \<Rightarrow> Some (balanced_score o'))"

text \<open>\<open>sorted(xs, key=f, reverse=True)\<close> keeps the order of equal elements.\<close>

definition sorted_desc :: "('a \<Rightarrow> 'k::linorder) \<Rightarrow> 'a list \<Rightarrow> 'a list" where
  "sorted_desc f xs = rev (sort_key f (rev xs))"

definition recovers :: "intervention_outcome \<Rightarrow> bool" where
  "recovers o' \<longleftrightarrow> opt_num (io_delta o') > 0"

definition rank_outcomes :: "intervention_outcome list \<Rightarrow> scenario_controls \<Rightarrow> intervention_outcome list" where
  "rank_outcomes outcomes controls =
     (let available = filter outcome_available outcomes;
          pool = (if ctl_objective controls \<noteq> MINIMIZE_COST then filter recovers available else available)
      in sorted_desc (outcome_score (ctl_objective controls)) pool)"

definition or_list :: "'a list \<Rightarrow> 'a list \<Rightarrow> 'a list" where
  "or_list xs ys = (if xs = [] then ys else xs)"

definition objective_winner :: "intervention_outcome list \<Rightarrow> scenario_objective \<Rightarrow> string option" where
  "objective_winner available objective =
     (let pool = (if objective \<noteq> MINIMIZE_COST then or_list (filter recovers available) available else available)
      in map_option io_key (py_max (outcome_score objective) pool))"

definition winners :: "intervention_outcome list \<Rightarrow> (string \<times> string option) list" where
  "winners outcomes =
     (let available = filter outcome_available outcomes
      in map (\<lambda>obj. (objective_value obj, if available = [] then None else objective_winner available obj)) all_objectives)"

definition objectives_agree :: "intervention_outcome list \<Rightarrow> bool" where
  "objectives_agree outcomes \<longleftrightarrow> length (remdups (known snd (winners outcomes))) \<le> 1"

subsection \<open>What an order promises\<close>

lemma set_sorted_desc [simp]: "set (sorted_desc f xs) = set xs"
  by (simp add: sorted_desc_def)

lemma distinct_sorted_desc [simp]: "distinct (sorted_desc f xs) \<longleftrightarrow> distinct xs"
  by (simp add: sorted_desc_def)

lemma sorted_desc_wrt: "sorted_wrt (\<lambda>a b. f b \<le> f a) (sorted_desc f xs)"
  using sorted_sort_key [of f "rev xs"] by (simp add: sorted_desc_def sorted_wrt_rev sorted_map)

text \<open>Every element kept by a cut of the order is at least as good as every element cut off.\<close>

lemma sorted_desc_take_drop:
  assumes "a \<in> set (take k (sorted_desc f xs))" "b \<in> set (drop k (sorted_desc f xs))"
  shows "f b \<le> f a"
  using sorted_desc_wrt [of f xs] assms
  by (metis append_take_drop_id sorted_wrt_append)

lemma rank_outcomes_set:
  "set (rank_outcomes os c) = {o' \<in> set os. outcome_available o' \<and> (ctl_objective c \<noteq> MINIMIZE_COST \<longrightarrow> recovers o')}"
  by (auto simp: rank_outcomes_def Let_def)

lemma known_mem: "x \<in> set (known f xs) \<longleftrightarrow> (\<exists>a \<in> set xs. f a = Some x)"
  by (induction xs) (auto simp: known_def List.map_filter_simps split: option.splits)

text \<open>
  The winner of an objective is an available action that no other available action beats; a
  losing action wins only on cost, or when every available action loses.
\<close>

lemma objective_winner_best:
  assumes "objective_winner available objective = Some key"
  shows "\<exists>o' \<in> set available. io_key o' = key
     \<and> (\<forall>p \<in> set available. recovers p \<or> objective = MINIMIZE_COST \<longrightarrow> outcome_score objective p \<le> outcome_score objective o')"
proof -
  define pool where
    "pool = (if objective \<noteq> MINIMIZE_COST then or_list (filter recovers available) available else available)"
  obtain m where m: "py_max (outcome_score objective) pool = Some m" "io_key m = key"
    using assms by (auto simp: objective_winner_def pool_def Let_def)
  note best = py_max_Some [OF m(1)]
  have sub: "set pool \<subseteq> set available" "\<forall>p \<in> set available. recovers p \<or> objective = MINIMIZE_COST \<longrightarrow> p \<in> set pool"
    by (auto simp: pool_def or_list_def filter_empty_conv)
  show ?thesis
  proof (rule bexI [of _ m], intro conjI ballI impI)
    fix p assume "p \<in> set available" "recovers p \<or> objective = MINIMIZE_COST"
    with sub(2) have "p \<in> set pool" by blast
    with best show "outcome_score objective p \<le> outcome_score objective m" by simp
  qed (use m best sub in auto)
qed

text \<open>
  Two scores do not follow the rule that weaker evidence ranks below stronger evidence and that an
  unpriced action is not free: added risk is discounted by the evidence weight, so that weaker
  evidence scores higher, and the balanced score takes a missing cost for zero.
\<close>

lemma weak_evidence_wins_on_risk:
  assumes "io_risk a = io_risk b" "0 < io_risk a"
    "ea_quality (io_evidence a) = E_HIGH" "ea_quality (io_evidence b) = E_UNAVAILABLE"
  shows "outcome_score MINIMIZE_RISK a < outcome_score MINIMIZE_RISK b"
  using assms by (simp add: outcome_score_def risk_score_def outcome_weight_def)

lemma unpriced_is_free_when_balanced:
  "outcome_score BALANCED (o'\<lparr>io_cost := None\<rparr>) = outcome_score BALANCED (o'\<lparr>io_cost := Some 0\<rparr>)"
  by (simp add: outcome_score_def balanced_score_def outcome_weight_def opt_num_def Let_def)

end
