(* ===== verification/ScenarioEngine.thy ===== *)
theory ScenarioEngine
  imports Scenario
begin

text \<open>
  The features of a model row (\<open>app/api/core/features.py\<close>) and the evaluation of a scenario
  (\<open>app/api/core/scenario/engine.py\<close>): the context of a mine, one intervention, all of them.
\<close>

subsection \<open>Features\<close>

text \<open>A row of \<open>ops.production_records\<close>: its date, and its other columns\<close>

record production_row =
  pr_date :: observed
  pr_cols :: dict

text \<open>
  \<open>parse_feature_date\<close>. The parser of a text in one of the formats is a parameter; a date counts
  from midnight, and times are microseconds since the epoch.
\<close>

type_synonym time_parser = "string \<Rightarrow> string \<Rightarrow> int option"

definition date_formats :: "string list" where
  "date_formats = [''%Y-%m-%d %H:%M:%S'', ''%Y-%m-%d'', ''%Y-%m-%dT%H:%M:%S'', ''%d-%m-%Y'']"

definition parse_feature_date :: "time_parser \<Rightarrow> observed \<Rightarrow> int option" where
  "parse_feature_date strptime ob =
     (case ob of
        Ob_None \<Rightarrow> None
      | Ob_Time t \<Rightarrow> Some t
      | Ob_Date d \<Rightarrow> Some (d * day_microseconds)
      | Ob_Text v \<Rightarrow>
          (let s = py_strip v; t = takeWhile (\<lambda>c. c \<noteq> CHR ''+'') (filter (\<lambda>c. c \<noteq> CHR ''Z'') s)
           in if s = [] then None
              else (case known (strptime t) date_formats of [] \<Rightarrow> None | d # _ \<Rightarrow> Some d)))"

text \<open>\<open>year\<close>, \<open>month\<close> and \<open>weekday()\<close> of a time in the Gregorian calendar\<close>

definition civil_month :: "int \<Rightarrow> int \<times> int" where
  "civil_month days =
     (let z = days + 719468; era = z div 146097; doe = z mod 146097;
          yoe = (doe - doe div 1460 + doe div 36524 - doe div 146096) div 365;
          doy = doe - (365 * yoe + yoe div 4 - yoe div 100); mp = (5 * doy + 2) div 153;
          month = (if mp < 10 then mp + 3 else mp - 9)
      in (yoe + era * 400 + (if month \<le> 2 then 1 else 0), month))"

definition weekday :: "int \<Rightarrow> int" where
  "weekday days = (days + 3) mod 7"

definition derived_features :: "int option \<Rightarrow> frame" where
  "derived_features date =
     (case date of
        None \<Rightarrow> []
      | Some t \<Rightarrow>
          (let days = t div day_microseconds; (year, month) = civil_month days
           in [(''year'', of_int year), (''month'', of_int month), (''day_of_week'', of_int (weekday days))]))"

text \<open>\<open>row.get(col)\<close>; of the date only a text can be a number.\<close>

definition row_get :: "production_row \<Rightarrow> string \<Rightarrow> pyval" where
  "row_get row col =
     (if col = ''date'' then (case pr_date row of Ob_Text s \<Rightarrow> PStr s | _ \<Rightarrow> PNone) else column (pr_cols row) col)"

type_synonym medians = "(string \<times> rat option) list"

definition median_of :: "medians \<Rightarrow> string \<Rightarrow> rat" where
  "median_of meds col = (case map_of meds col of Some (Some x) \<Rightarrow> x | _ \<Rightarrow> 0)"

definition production_feature :: "parser \<Rightarrow> frame \<Rightarrow> production_row \<Rightarrow> medians \<Rightarrow> string \<Rightarrow> rat" where
  "production_feature parse derived row meds col =
     (case map_of derived col of
        Some x \<Rightarrow> x
      | None \<Rightarrow> (case py_float parse (row_get row col) of Some x \<Rightarrow> x | None \<Rightarrow> median_of meds col))"

text \<open>The frame with the columns of the model in their order, and the dictionary it is built from\<close>

definition feature_dict :: "(string \<Rightarrow> rat) \<Rightarrow> string list \<Rightarrow> frame" where
  "feature_dict value names = fold (\<lambda>c d. AList.update c (value c) d) names []"

definition build_production_features ::
  "parser \<Rightarrow> time_parser \<Rightarrow> production_row \<Rightarrow> string list \<Rightarrow> medians \<Rightarrow> frame \<times> frame" where
  "build_production_features parse strptime row names meds =
     (let value = production_feature parse (derived_features (parse_feature_date strptime (pr_date row))) row meds
      in (map (\<lambda>c. (c, value c)) names, feature_dict value names))"

type_synonym category_map = "(string \<times> (string \<times> int) list) list"

definition equipment_feature :: "runtime \<Rightarrow> parser \<Rightarrow> dict \<Rightarrow> category_map \<Rightarrow> medians \<Rightarrow> string \<Rightarrow> rat" where
  "equipment_feature rt parse row cats meds col =
     (case map_of cats col of
        Some mapping \<Rightarrow>
          (case map_of mapping (py_str rt (py_or (map_of row col) (PStr []))) of Some n \<Rightarrow> of_int n | None \<Rightarrow> -1)
      | None \<Rightarrow> (case py_float parse (column row col) of Some x \<Rightarrow> x | None \<Rightarrow> median_of meds col))"

definition build_equipment_features ::
  "runtime \<Rightarrow> parser \<Rightarrow> dict \<Rightarrow> string list \<Rightarrow> category_map \<Rightarrow> medians \<Rightarrow> frame \<times> frame" where
  "build_equipment_features rt parse row names cats meds =
     (let value = equipment_feature rt parse row cats meds
      in (map (\<lambda>c. (c, value c)) names, feature_dict value names))"

text \<open>\<open>validate_feature_consistency\<close> on two single rows, with the default absolute tolerance\<close>

definition frames_consistent :: "rat \<Rightarrow> frame \<Rightarrow> frame \<Rightarrow> bool" where
  "frames_consistent rtol a b \<longleftrightarrow>
     map fst a = map fst b
     \<and> list_all2 (\<lambda>x y. \<bar>snd x - snd y\<bar> \<le> 1 / 10 ^ 8 + rtol * \<bar>snd y\<bar>) a b"

subsection \<open>Context\<close>

definition MAX_CREDIBLE_DELTA_FRACTION :: rat where
  "MAX_CREDIBLE_DELTA_FRACTION = 25 / 100"

text \<open>\<open>_latest_production_row\<close>: the first row that the statement answers, if it does\<close>

definition latest_production_row :: "production_row list result \<Rightarrow> production_row option" where
  "latest_production_row answer = (case answer of Inr (row # _) \<Rightarrow> Some row | _ \<Rightarrow> None)"

definition feature_completeness :: "parser \<Rightarrow> production_row \<Rightarrow> string list \<Rightarrow> nat \<times> nat" where
  "feature_completeness parse row names =
     (length (filter (\<lambda>c. c \<in> {''year'', ''month'', ''day_of_week''} \<or> py_float parse (row_get row c) \<noteq> None) names),
      length names)"

text \<open>\<open>float(row[key])\<close> for a column that is not null\<close>

definition float_or_none :: "constraint_world \<Rightarrow> production_row \<Rightarrow> string \<Rightarrow> rat option result" where
  "float_or_none w row key =
     (case column (pr_cols row) key of
        PNone \<Rightarrow> Inr None
      | v \<Rightarrow> (case to_float_result w v of Inl e \<Rightarrow> Inl e | Inr x \<Rightarrow> Inr (Some x)))"

text \<open>What a scenario reads besides the services of the constraints: the model and its metadata\<close>

record scenario_services =
  ss_model :: "(frame \<Rightarrow> rat result) option"
  ss_meta :: dict
  ss_names :: "string list"
  ss_medians :: medians
  ss_strptime :: time_parser
  ss_from_iso :: "string \<Rightarrow> int option"
  ss_now :: int

definition meta_text :: "constraint_world \<Rightarrow> dict \<Rightarrow> string \<Rightarrow> string option" where
  "meta_text w meta key = Some (py_str (cw_rt w) (py_or (map_of meta key) (PStr [])))"

text \<open>A plain date stands for one minute before its end.\<close>

definition observation_of :: "observed \<Rightarrow> observed" where
  "observation_of ob =
     (case ob of Ob_Date d \<Rightarrow> Ob_Time (d * day_microseconds + (23 * 3600 + 59 * 60) * 10 ^ 6) | _ \<Rightarrow> ob)"

definition operational_age :: "operational_clock \<Rightarrow> observed \<Rightarrow> rat option result" where
  "operational_age c ob =
     (case ob of
        Ob_None \<Rightarrow> Inr None
      | Ob_Time t \<Rightarrow> Inr (age_seconds c (Some t))
      | Ob_Text s \<Rightarrow> Inl (no_attribute (PStr s) ''tzinfo'')
      | Ob_Date d \<Rightarrow> Inl (Exn ''AttributeError'' ''date''))"

text \<open>\<open>setdefault\<close>\<close>

definition set_default :: "string \<Rightarrow> pyval \<Rightarrow> dict \<Rightarrow> dict" where
  "set_default k v d = (if map_of d k = None then d @ [(k, v)] else d)"

definition context_provenance ::
  "constraint_world \<Rightarrow> scenario_services \<Rightarrow> production_row \<Rightarrow> bool \<Rightarrow> provenance result" where
  "context_provenance w ss row model_backed =
     (let ob = observation_of (pr_date row); meta = ss_meta ss;
          given = (provenance_default (tf_iso (cw_tf w) (ss_now ss)))
            \<lparr>pv_model_version := meta_text w meta ''version'', pv_dataset_version := meta_text w meta ''dataset_version'',
             pv_feature_version := (if ss_names ss = [] then None else Some (show_nat (length (ss_names ss)))),
             pv_serving_status := meta_text w meta ''serving_status'', pv_source_records := 1,
             pv_data_origin := py_str (cw_rt w) (py_or (map_of (pr_cols row) ''data_origin'') (PStr ''SYNTHETIC'')),
             pv_assumptions := (if model_backed then []
               else [''Baseline is the most recent recorded production, not a model forecast.''])\<rparr>;
          p = from_observation (cw_tf w) (ss_from_iso ss) (ss_now ss) ob given
      in case operational_age (cw_clock w) ob of
           Inl e \<Rightarrow> Inl e
         | Inr age \<Rightarrow>
             Inr (p\<lparr>pv_data_age := map_option (py_round 1) age, pv_freshness := freshness_from_age age,
                    pv_assumptions := pv_assumptions p @ (case caveat (cw_tf w) (cw_clock w) of None \<Rightarrow> [] | Some t \<Rightarrow> [t])\<rparr>))"

text \<open>The baseline: what the model predicts, else what was recorded, else what was planned\<close>

definition predicted_baseline :: "scenario_services \<Rightarrow> frame option \<Rightarrow> rat option" where
  "predicted_baseline ss features =
     (case (features, ss_model ss) of
        (Some f, Some predict) \<Rightarrow> (case predict f of Inr x \<Rightarrow> Some x | Inl _ \<Rightarrow> None)
      | _ \<Rightarrow> None)"

definition context_baseline ::
  "constraint_world \<Rightarrow> production_row \<Rightarrow> rat option \<Rightarrow> rat option result" where
  "context_baseline w row predicted =
     (case predicted of
        Some x \<Rightarrow> Inr (Some x)
      | None \<Rightarrow>
          (if column (pr_cols row) ''actual_production_t'' \<noteq> PNone then float_or_none w row ''actual_production_t''
           else float_or_none w row ''planned_production_t''))"

definition empty_context ::
  "constraint_world \<Rightarrow> scenario_services \<Rightarrow> string \<Rightarrow> (rat \<times> rat) option \<Rightarrow> scenario_context" where
  "empty_context w ss mine_id location =
     \<lparr>cx_mine_id = mine_id, cx_location = location, cx_baseline = None, cx_planned = None, cx_features = None,
      cx_model = ss_model ss, cx_latest_row = [],
      cx_provenance = (provenance_default (tf_iso (cw_tf w) (ss_now ss)))
        \<lparr>pv_model_version := meta_text w (ss_meta ss) ''version'',
         pv_dataset_version := meta_text w (ss_meta ss) ''dataset_version'',
         pv_serving_status := meta_text w (ss_meta ss) ''serving_status'',
         pv_assumptions := [''No production history is recorded for this mine.'']\<rparr>,
      cx_baseline_model_backed = False\<rparr>"

text \<open>
  \<open>build_context\<close>. The counts are put into the row object itself, which the memo of
  \<open>_latest_production_row\<close> keeps: the columns of the answer are what the memo holds afterwards.
\<close>

definition build_context ::
  "constraint_world \<Rightarrow> scenario_services \<Rightarrow> string \<Rightarrow> (rat \<times> rat) option \<Rightarrow> production_row option \<Rightarrow> scenario_context result"
where
  "build_context w ss mine_id location found =
     (case found of
        None \<Rightarrow> Inr (empty_context w ss mine_id location)
      | Some row \<Rightarrow>
          (let (present, required) = (if ss_names ss = [] then (0, 0) else feature_completeness (cw_parse w) row (ss_names ss));
               features = (if ss_names ss = [] then None
                 else Some (fst (build_production_features (cw_parse w) (ss_strptime ss) row (ss_names ss) (ss_medians ss))));
               predicted = predicted_baseline ss features
           in case context_baseline w row predicted of Inl e \<Rightarrow> Inl e | Inr baseline \<Rightarrow>
             (case context_provenance w ss row (predicted \<noteq> None) of Inl e \<Rightarrow> Inl e | Inr provenance \<Rightarrow>
             (case float_or_none w row ''planned_production_t'' of Inl e \<Rightarrow> Inl e | Inr planned \<Rightarrow>
              Inr \<lparr>cx_mine_id = mine_id, cx_location = location, cx_baseline = baseline, cx_planned = planned,
                   cx_features = features, cx_model = ss_model ss,
                   cx_latest_row = set_default ''_feature_required'' (PInt (int required))
                     (set_default ''_feature_present'' (PInt (int present)) (pr_cols row)),
                   cx_provenance = provenance, cx_baseline_model_backed = (predicted \<noteq> None)\<rparr>))))"

subsection \<open>One intervention\<close>

definition FLAT_RESPONSE_FRACTION :: rat where
  "FLAT_RESPONSE_FRACTION = 1 / 1000"

definition scale_column :: "rat \<Rightarrow> string \<Rightarrow> frame \<Rightarrow> frame" where
  "scale_column k c f = map (\<lambda>(d, x). (d, if d = c then x * k else x)) f"

definition move_factor :: "intervention_spec \<Rightarrow> rat \<Rightarrow> rat" where
  "move_factor spec magnitude = (if iv_scales_up spec then 1 + magnitude else max (5 / 100) (1 - magnitude))"

definition moved_columns :: "intervention_spec \<Rightarrow> frame \<Rightarrow> string list" where
  "moved_columns spec f = filter (\<lambda>c. c \<in> set (map fst f)) (iv_features spec)"

definition plus_minus :: string where
  "plus_minus = [CHR 0xC2, CHR 0xB1]"

definition model_delta :: "intervention_spec \<Rightarrow> scenario_context \<Rightarrow> rat \<Rightarrow> rat option \<times> string" where
  "model_delta spec ctx magnitude =
     (case cx_model ctx of
        None \<Rightarrow> (None, ''no production model is serving'')
      | Some predict \<Rightarrow>
          (case cx_features ctx of
             None \<Rightarrow> (None, ''the feature vector could not be built'')
           | Some [] \<Rightarrow> (None, ''the feature vector could not be built'')
           | Some f \<Rightarrow>
               (let columns = moved_columns spec f; k = move_factor spec magnitude
                in if columns = []
                   then (None, ''none of this action'' @ [CHR 39] @ ''s inputs (''
                     @ py_join '', '' (take 3 (iv_features spec)) @ '') exist in the current feature schema'')
                   else
                     (case (predict f, predict (fold (scale_column k) columns f)) of
                        (Inl e, _) \<Rightarrow> (None, ''the model could not score the adjusted inputs ('' @ exn_type e @ '')'')
                      | (_, Inl e) \<Rightarrow> (None, ''the model could not score the adjusted inputs ('' @ exn_type e @ '')'')
                      | (Inr before, Inr after) \<Rightarrow>
                          (let delta = after - before; ceiling' = \<bar>before\<bar> * MAX_CREDIBLE_DELTA_FRACTION;
                               moved = py_join '', '' (take 3 columns) @ (if length columns > 3 then ellipsis else []);
                               percent = fmt_signed fmt_fixed 0 ((k - 1) * 100)
                           in if \<bar>delta\<bar> < \<bar>before\<bar> * FLAT_RESPONSE_FRACTION
                              then (None, ''the model'' @ [CHR 39] @ ''s output is flat to a '' @ percent @ ''% move in '' @ moved
                                @ '' '' @ em_dash @ '' at this magnitude the change does not register in the model'')
                              else if \<bar>delta\<bar> > ceiling'
                              then (Some (if delta > 0 then ceiling' else - ceiling'),
                                ''model re-scored with '' @ moved @ '' moved '' @ percent @ ''%, clamped to '' @ plus_minus
                                @ fmt_fixed 0 (MAX_CREDIBLE_DELTA_FRACTION * 100) @ ''% of baseline'')
                              else (Some delta, ''model re-scored with '' @ moved @ '' moved '' @ percent @ ''%''))))))"

definition constraint_details :: "scenario_context \<Rightarrow> rat \<Rightarrow> dict \<Rightarrow> dict" where
  "constraint_details ctx magnitude extra =
     fold (\<lambda>(k, v) d. AList.update k v d) extra
       ((''magnitude'', PFloat magnitude)
        # (case cx_location ctx of None \<Rightarrow> [] | Some (lat, lon) \<Rightarrow> [(''location'', PTuple [PFloat lat, PFloat lon])]))"

definition intervention_cost :: "intervention_spec \<Rightarrow> mine_economics \<Rightarrow> rat \<Rightarrow> rat option \<times> string" where
  "intervention_cost spec econ magnitude =
     (case iv_cost_driver spec of
        None \<Rightarrow> (None, ''Not estimated'')
      | Some driver \<Rightarrow>
          if driver \<noteq> [] \<and> economics_available econ then incremental_cost econ driver magnitude
          else (None, ''Not estimated''))"

definition base_factors :: "scenario_context \<Rightarrow> constraint_report \<Rightarrow> mine_economics \<Rightarrow> evidence_factor list" where
  "base_factors ctx report econ =
     (let required = py_count (column (cx_latest_row ctx) ''_feature_required'');
          present = (if required = 0 then 0 else py_count (column (cx_latest_row ctx) ''_feature_present''))
      in [freshness_factor (pv_freshness (cx_provenance ctx)) (pv_data_age (cx_provenance ctx)),
          completeness_factor present required,
          constraint_factor (int (evaluated_count report)) (int (relevant_count report)),
          historical_factor (me_shifts econ)])"

text \<open>An outcome without any estimate: what every exit of \<open>evaluate_intervention\<close> fills in\<close>

definition plain_outcome ::
  "intervention_spec \<Rightarrow> rat \<Rightarrow> string \<Rightarrow> constraint_report \<Rightarrow> evidence_assessment \<Rightarrow> rat option \<times> string
     \<Rightarrow> string option \<Rightarrow> intervention_outcome" where
  "plain_outcome spec magnitude method' report evidence cost rejected =
     \<lparr>io_key = iv_key spec, io_title = iv_title spec, io_description = iv_description spec, io_magnitude = magnitude,
      io_delta = None, io_mode = INSUFFICIENT_DATA, io_method = method', io_constraints = report,
      io_evidence = evidence, io_cost = fst cost, io_cost_basis = snd cost, io_fuel = None, io_risk = 0,
      io_tradeoffs = iv_tradeoffs spec, io_rejected = rejected\<rparr>"

definition estimated_outcome ::
  "intervention_spec \<Rightarrow> scenario_context \<Rightarrow> rat \<Rightarrow> constraint_report \<Rightarrow> rat option \<times> string \<Rightarrow> evidence_factor list
     \<Rightarrow> rat \<Rightarrow> intervention_outcome" where
  "estimated_outcome spec ctx magnitude report cost factors baseline =
     (let (md, how) = model_delta spec ctx magnitude;
          status = pv_serving_status (cx_provenance ctx);
          evidence = assess (factors @ [model_factor (md \<noteq> None \<and> cx_model ctx \<noteq> None) status]);
          shape = plain_outcome spec magnitude
            (if md \<noteq> None then how else ''declared operational estimate '' @ em_dash @ '' '' @ how) report evidence cost None
      in shape\<lparr>io_delta := Some (case md of Some d \<Rightarrow> d | None \<Rightarrow> baseline * iv_heuristic spec * (magnitude / (10 / 100))),
               io_mode := (if md \<noteq> None then MODEL_BACKED else HEURISTIC),
               io_fuel := (if iv_fuel spec = 0 then None else Some (iv_fuel spec * magnitude * 100)),
               io_risk := iv_risk spec * (magnitude / (10 / 100))\<rparr>)"

definition evaluate_intervention ::
  "constraint_world \<Rightarrow> constraint_source \<Rightarrow> mine_economics \<Rightarrow> intervention_spec \<Rightarrow> scenario_context \<Rightarrow> rat \<Rightarrow> dict
     \<Rightarrow> intervention_outcome result" where
  "evaluate_intervention w src econ spec ctx magnitude extra =
     (case evaluate_constraints w src (iv_key spec) (cx_mine_id ctx) (constraint_details ctx magnitude extra) of
        Inl e \<Rightarrow> Inl e
      | Inr report \<Rightarrow>
          (let cost = intervention_cost spec econ magnitude; factors = base_factors ctx report econ;
               status = pv_serving_status (cx_provenance ctx)
           in if \<not> feasible report
              then Inr (plain_outcome spec magnitude
                     (''not evaluated '' @ em_dash @ '' the action is not currently permitted'') report
                     (assess (factors @ [model_factor (cx_model ctx \<noteq> None) status])) cost (Some (report_reason report)))
              else
                (case cx_baseline ctx of
                   None \<Rightarrow>
                     Inr (plain_outcome spec magnitude ''no production baseline exists for this mine'' report
                       (assess (factors @ [model_factor False None])) cost None)
                 | Some baseline \<Rightarrow> Inr (estimated_outcome spec ctx magnitude report cost factors baseline))))"

subsection \<open>A whole scenario\<close>

definition flex_of :: "scenario_controls \<Rightarrow> string \<Rightarrow> flexibility option" where
  "flex_of c key =
     map_of [(''equipment_redeploy'', ctl_fleet c), (''fleet_reroute'', ctl_route c),
             (''maintenance_defer'', ctl_maintenance c), (''extend_operating_hours'', ctl_operating_time c)] key"

definition magnitude_for :: "intervention_spec \<Rightarrow> scenario_controls \<Rightarrow> rat option" where
  "magnitude_for spec c =
     (let m = (case flex_of c (iv_key spec) of
                 Some f \<Rightarrow> flex_magnitude f
               | None \<Rightarrow> min (15 / 100) (max 0 (ctl_max_fuel_pct c / 100)))
      in if m = 0 then None else Some m)"

definition excluded_outcome :: "intervention_spec \<Rightarrow> intervention_outcome" where
  "excluded_outcome spec =
     plain_outcome spec 0 ''excluded by the flexibility settings for this scenario''
       \<lparr>cr_action_type = iv_key spec, cr_checks = []\<rparr> (assess []) (None, ''Not estimated'')
       (Some ''Excluded: the manager left no flexibility in this dimension.'')"

definition extra_inputs :: "intervention_spec \<Rightarrow> dict" where
  "extra_inputs spec = (if ''shift'' \<in> set (iv_inputs spec) then [(''shift'', PStr ''S1'')] else [])"

definition tolerate :: "scenario_controls \<Rightarrow> intervention_outcome \<Rightarrow> intervention_outcome" where
  "tolerate c o' =
     (if ctl_risk_tolerance c = CONSERVATIVE \<and> outcome_available o' \<and> io_risk o' > 10 / 100
      then o'\<lparr>io_rejected := Some (''Excluded under a conservative risk setting: this action raises ''
             @ ''equipment exposure beyond the tolerance set for this scenario.'')\<rparr>
      else o')"

definition consider_spec ::
  "constraint_world \<Rightarrow> constraint_source \<Rightarrow> mine_economics \<Rightarrow> scenario_controls \<Rightarrow> scenario_context \<Rightarrow> intervention_spec
     \<Rightarrow> intervention_outcome result" where
  "consider_spec w src econ c ctx spec =
     (case magnitude_for spec c of
        None \<Rightarrow> Inr (excluded_outcome spec)
      | Some m \<Rightarrow>
          (case evaluate_intervention w src econ spec ctx m (extra_inputs spec) of
             Inl e \<Rightarrow> Inl e
           | Inr o' \<Rightarrow> Inr (tolerate c o')))"

fun consider_all ::
  "constraint_world \<Rightarrow> constraint_source \<Rightarrow> mine_economics \<Rightarrow> scenario_controls \<Rightarrow> scenario_context
     \<Rightarrow> intervention_spec list \<Rightarrow> intervention_outcome list result" where
  "consider_all w src econ c ctx [] = Inr []"
| "consider_all w src econ c ctx (spec # specs) =
     (case consider_spec w src econ c ctx spec of
        Inl e \<Rightarrow> Inl e
      | Inr o' \<Rightarrow>
          (case consider_all w src econ c ctx specs of Inl e \<Rightarrow> Inl e | Inr os \<Rightarrow> Inr (o' # os)))"

text \<open>\<open>xs[:k]\<close>, where a negative bound counts from the end\<close>

definition py_take :: "int \<Rightarrow> 'a list \<Rightarrow> 'a list" where
  "py_take k xs = (if k \<ge> 0 then take (nat k) xs else take (nat (int (length xs) + k)) xs)"

definition scenario_mode :: "intervention_outcome list \<Rightarrow> calculation_mode" where
  "scenario_mode selected =
     (let modes = io_mode ` set selected
      in if MODEL_BACKED \<in> modes then (if modes = {MODEL_BACKED} then MODEL_BACKED else HEURISTIC)
         else if selected \<noteq> [] then HEURISTIC else INSUFFICIENT_DATA)"

text \<open>\<open>min(..., key=rank)\<close>, the first of the weakest\<close>

definition weakest_evidence :: "intervention_outcome list \<Rightarrow> evidence_assessment option" where
  "weakest_evidence selected = py_max (\<lambda>e. - int (quality_rank (ea_quality e))) (map io_evidence selected)"

definition new_result ::
  "scenario_controls \<Rightarrow> scenario_context \<Rightarrow> string \<Rightarrow> string \<Rightarrow> string \<Rightarrow> scenario_result" where
  "new_result c ctx hex now created_by =
     \<lparr>rs_scenario_id = ''SC-'' @ upper_text (take 6 hex), rs_mine_id = cx_mine_id ctx, rs_objective = ctl_objective c,
      rs_created_at = now, rs_created_by = created_by, rs_scope = S_MINE, rs_baseline = cx_baseline ctx,
      rs_planned = cx_planned ctx, rs_projected = None, rs_selected = [], rs_considered = [],
      rs_mode = INSUFFICIENT_DATA, rs_evidence = None, rs_provenance = cx_provenance ctx, rs_unavailable = None\<rparr>"

definition run_scenario ::
  "constraint_world \<Rightarrow> constraint_source \<Rightarrow> mine_economics \<Rightarrow> scenario_controls \<Rightarrow> scenario_context
     \<Rightarrow> string \<Rightarrow> string \<Rightarrow> string \<Rightarrow> scenario_result result" where
  "run_scenario w src econ c ctx hex now created_by =
     (let result = new_result c ctx hex now created_by
      in case cx_baseline ctx of
           None \<Rightarrow>
             Inr (result\<lparr>rs_unavailable := Some (''No production history is recorded for '' @ cx_mine_id ctx
               @ '', so there is no baseline to simulate against.'')\<rparr>)
         | Some baseline \<Rightarrow>
             (case consider_all w src econ c ctx CATALOGUE of
                Inl e \<Rightarrow> Inl e
              | Inr considered \<Rightarrow>
                  (let selected = py_take (ctl_max_actions c) (rank_outcomes considered c)
                   in Inr (result\<lparr>rs_considered := considered, rs_selected := selected,
                        rs_projected := Some (baseline + sum_list (known io_delta selected)),
                        rs_mode := scenario_mode selected,
                        rs_evidence := (if selected \<noteq> [] then weakest_evidence selected else Some (assess [])),
                        rs_unavailable := (if selected \<noteq> [] then None
                          else Some (''No permitted action is available under the current constraints and ''
                            @ ''flexibility settings.''))\<rparr>))))"

subsection \<open>Every action is considered\<close>

lemma catalogue_cases:
  assumes "spec \<in> set CATALOGUE"
  obtains "spec = spec_equipment_redeploy" | "spec = spec_fleet_reroute" | "spec = spec_crusher_speed_trim"
    | "spec = spec_blast_reschedule" | "spec = spec_maintenance_defer" | "spec = spec_extend_operating_hours"
  using assms by (auto simp: CATALOGUE_def)

lemma catalogue_distinct: "distinct (map iv_key CATALOGUE)"
  by (simp add: CATALOGUE_def spec_defs)

lemma details_magnitude [simp]:
  "map_of (constraint_details ctx m (extra_inputs spec)) ''magnitude'' = Some (PFloat m)"
  by (simp add: constraint_details_def extra_inputs_def dict_simps split: option.split)

lemma details_shift:
  "\<exists>v. py_upper (py_or (map_of (constraint_details ctx m (extra_inputs spec)) ''shift'') (PStr [])) = Inr v"
  by (auto simp: constraint_details_def extra_inputs_def dict_simps py_or_def py_upper_def split: option.split)

lemma float_magnitude: "to_float_result w (PFloat m) = Inr m"
  by (simp add: to_float_result_def)

text \<open>The details that a scenario builds are well-typed: no constraint raises on them.\<close>

lemma constraints_return:
  assumes "spec \<in> set CATALOGUE"
  shows "\<exists>r. evaluate_constraints w src (iv_key spec) mine_id (constraint_details ctx m (extra_inputs spec)) = Inr r"
proof -
  let ?d = "constraint_details ctx m (extra_inputs spec)"
  have or: "to_float_result w (py_or (Some (PFloat m)) (PFloat 0)) = Inr m"
    by (simp add: py_or_def float_magnitude)
  have "\<exists>cs. eval_blast ?d = Inr cs"
    using details_shift [of ctx m spec] by (auto simp: eval_blast_def Let_def)
  moreover have "\<exists>cs. eval_crusher w ?d = Inr cs"
    by (simp add: eval_crusher_def column_def float_magnitude Let_def)
  moreover have "\<exists>cs. eval_extend w src ?d = Inr cs"
    by (simp add: eval_extend_def or Let_def split: option.split list.split)
  moreover note assms
  ultimately show ?thesis
    by (elim catalogue_cases) (auto simp: evaluate_constraints_def evaluator_def spec_defs)
qed

lemma consider_returns: "spec \<in> set CATALOGUE \<Longrightarrow> \<exists>o'. consider_spec w src econ c ctx spec = Inr o'"
  using constraints_return [of spec w src "cx_mine_id ctx" ctx "the (magnitude_for spec c)"]
  by (auto simp: consider_spec_def evaluate_intervention_def Let_def split: option.splits)

lemma consider_all_returns:
  "set specs \<subseteq> set CATALOGUE \<Longrightarrow> \<exists>os. consider_all w src econ c ctx specs = Inr os"
proof (induction specs)
  case (Cons spec specs)
  then obtain os o' where "consider_all w src econ c ctx specs = Inr os" "consider_spec w src econ c ctx spec = Inr o'"
    using consider_returns [of spec w src econ c ctx] by auto
  then show ?case by simp
qed simp

lemma consider_all_elements:
  "consider_all w src econ c ctx specs = Inr os \<Longrightarrow> list_all2 (\<lambda>s o'. consider_spec w src econ c ctx s = Inr o') specs os"
  by (induction specs arbitrary: os) (auto split: sum.splits)

lemma tolerate_simps [simp]:
  "io_key (tolerate c o') = io_key o'" "io_magnitude (tolerate c o') = io_magnitude o'" "io_delta (tolerate c o') = io_delta o'"
  "io_mode (tolerate c o') = io_mode o'" "io_risk (tolerate c o') = io_risk o'" "io_constraints (tolerate c o') = io_constraints o'"
  by (simp_all add: tolerate_def)

lemma plain_outcome_simps [simp]:
  "io_key (plain_outcome s m how rep ev cost rej) = iv_key s" "io_magnitude (plain_outcome s m how rep ev cost rej) = m"
  "io_delta (plain_outcome s m how rep ev cost rej) = None" "io_mode (plain_outcome s m how rep ev cost rej) = INSUFFICIENT_DATA"
  "io_rejected (plain_outcome s m how rep ev cost rej) = rej" "io_constraints (plain_outcome s m how rep ev cost rej) = rep"
  "io_risk (plain_outcome s m how rep ev cost rej) = 0"
  by (simp_all add: plain_outcome_def)

lemma estimated_outcome_simps [simp]:
  "io_key (estimated_outcome s ctx m rep cost fs b) = iv_key s" "io_magnitude (estimated_outcome s ctx m rep cost fs b) = m"
  "io_constraints (estimated_outcome s ctx m rep cost fs b) = rep" "io_rejected (estimated_outcome s ctx m rep cost fs b) = None"
  by (simp_all add: estimated_outcome_def Let_def split: prod.split)

text \<open>How an outcome comes about, exit by exit\<close>

lemma consider_specE:
  assumes "consider_spec w src econ c ctx spec = Inr o'"
  obtains (excluded) "magnitude_for spec c = None" "o' = excluded_outcome spec"
  | (forbidden) m rep how ev cost where "magnitude_for spec c = Some m" "\<not> feasible rep"
      "evaluate_constraints w src (iv_key spec) (cx_mine_id ctx) (constraint_details ctx m (extra_inputs spec)) = Inr rep"
      "o' = tolerate c (plain_outcome spec m how rep ev cost (Some (report_reason rep)))"
  | (baseless) m rep how ev cost where "magnitude_for spec c = Some m" "cx_baseline ctx = None"
      "o' = tolerate c (plain_outcome spec m how rep ev cost None)"
  | (estimated) m rep cost fs b where "magnitude_for spec c = Some m" "cx_baseline ctx = Some b" "feasible rep"
      "evaluate_constraints w src (iv_key spec) (cx_mine_id ctx) (constraint_details ctx m (extra_inputs spec)) = Inr rep"
      "o' = tolerate c (estimated_outcome spec ctx m rep cost fs b)"
proof (cases "magnitude_for spec c")
  case None
  with assms show ?thesis by (intro excluded) (simp_all add: consider_spec_def)
next
  case (Some m)
  note m = this
  let ?d = "constraint_details ctx m (extra_inputs spec)"
  obtain rep where rep: "evaluate_constraints w src (iv_key spec) (cx_mine_id ctx) ?d = Inr rep"
    using assms Some by (auto simp: consider_spec_def evaluate_intervention_def split: sum.splits)
  show ?thesis
  proof (cases "feasible rep")
    case False
    with assms Some rep
    have "o' = tolerate c (plain_outcome spec m (''not evaluated '' @ em_dash @ '' the action is not currently permitted'') rep
       (assess (base_factors ctx rep econ @ [model_factor (cx_model ctx \<noteq> None) (pv_serving_status (cx_provenance ctx))]))
       (intervention_cost spec econ m) (Some (report_reason rep)))"
      by (simp add: consider_spec_def evaluate_intervention_def Let_def)
    then show ?thesis
      by (rule forbidden [OF Some False rep])
  next
    case True
    show ?thesis
    proof (cases "cx_baseline ctx")
      case None
      with assms Some rep True
      have "o' = tolerate c (plain_outcome spec m ''no production baseline exists for this mine'' rep
         (assess (base_factors ctx rep econ @ [model_factor False None])) (intervention_cost spec econ m) None)"
        by (simp add: consider_spec_def evaluate_intervention_def Let_def)
      then show ?thesis
        by (rule baseless [OF m None])
    next
      case (Some b)
      with assms m rep True
      have "o' = tolerate c (estimated_outcome spec ctx m rep (intervention_cost spec econ m) (base_factors ctx rep econ) b)"
        by (simp add: consider_spec_def evaluate_intervention_def Let_def)
      then show ?thesis
        by (rule estimated [OF m Some True rep])
    qed
  qed
qed

lemma consider_key: "consider_spec w src econ c ctx spec = Inr o' \<Longrightarrow> io_key o' = iv_key spec"
  by (erule consider_specE) (simp_all add: excluded_outcome_def)

lemma considered_keys:
  "list_all2 (\<lambda>s o'. consider_spec w src econ c ctx s = Inr o') specs os \<Longrightarrow> map io_key os = map iv_key specs"
  by (induction rule: list_all2_induct) (auto dest: consider_key)

subsection \<open>The selected response\<close>

definition eligible :: "scenario_controls \<Rightarrow> intervention_outcome list \<Rightarrow> intervention_outcome list" where
  "eligible c os = filter (\<lambda>o'. outcome_available o' \<and> (ctl_objective c \<noteq> MINIMIZE_COST \<longrightarrow> recovers o')) os"

text \<open>The best eligible actions, best first, and as many as may be chosen\<close>

definition best_response :: "scenario_controls \<Rightarrow> intervention_outcome list \<Rightarrow> intervention_outcome list \<Rightarrow> bool" where
  "best_response c considered selected \<longleftrightarrow>
     (let score = outcome_score (ctl_objective c)
      in distinct (map io_key selected) \<and> set selected \<subseteq> set (eligible c considered)
         \<and> sorted_wrt (\<lambda>a b. score b \<le> score a) selected
         \<and> (\<forall>a \<in> set selected. \<forall>b \<in> set (eligible c considered) - set selected. score b \<le> score a)
         \<and> (0 \<le> ctl_max_actions c \<longrightarrow> length selected = min (nat (ctl_max_actions c)) (length (eligible c considered))))"

lemma rank_outcomes_eligible: "rank_outcomes os c = sorted_desc (outcome_score (ctl_objective c)) (eligible c os)"
  by (simp add: rank_outcomes_def eligible_def Let_def conj_commute)

lemma py_take_take: "\<exists>n. py_take k xs = take n xs \<and> (0 \<le> k \<longrightarrow> n = nat k)"
  by (cases "0 \<le> k") (auto simp: py_take_def)

lemma sorted_desc_length [simp]: "length (sorted_desc f xs) = length xs"
  by (simp add: sorted_desc_def)

lemma selection_best:
  assumes "distinct (map io_key considered)"
  shows "best_response c considered (py_take (ctl_max_actions c) (rank_outcomes considered c))"
proof -
  let ?score = "outcome_score (ctl_objective c)" and ?e = "eligible c considered"
  let ?ranked = "sorted_desc ?score ?e"
  obtain n where n: "py_take (ctl_max_actions c) ?ranked = take n ?ranked" "0 \<le> ctl_max_actions c \<longrightarrow> n = nat (ctl_max_actions c)"
    using py_take_take by blast
  have "distinct (map io_key ?e)"
    using assms by (simp add: eligible_def distinct_map_filter)
  then have "distinct (map io_key ?ranked)"
    by (simp add: distinct_map)
  then have "distinct (map io_key (take n ?ranked))"
    by (simp add: take_map [symmetric])
  moreover have "set (take n ?ranked) \<subseteq> set ?e"
    using set_take_subset [of n ?ranked] by simp
  moreover have "sorted_wrt (\<lambda>a b. ?score b \<le> ?score a) (take n ?ranked)"
    using sorted_desc_wrt by (rule sorted_wrt_take)
  moreover have "?score b \<le> ?score a" if "a \<in> set (take n ?ranked)" "b \<in> set ?e - set (take n ?ranked)" for a b
  proof (rule sorted_desc_take_drop [OF that(1)])
    have "set ?ranked = set (take n ?ranked) \<union> set (drop n ?ranked)"
      by (simp only: set_append [symmetric] append_take_drop_id)
    with that(2) show "b \<in> set (drop n ?ranked)"
      by auto
  qed
  ultimately show ?thesis
    using n by (simp add: best_response_def rank_outcomes_eligible Let_def min.commute)
qed

text \<open>The rules of the mine permit the action with the magnitude that the scenario proposes.\<close>

definition permitted_outcome ::
  "constraint_world \<Rightarrow> constraint_source \<Rightarrow> scenario_context \<Rightarrow> intervention_outcome \<Rightarrow> bool" where
  "permitted_outcome w src ctx o' \<longleftrightarrow>
     (\<exists>spec \<in> set CATALOGUE. io_key o' = iv_key spec
        \<and> permits w src (iv_key spec) (constraint_details ctx (io_magnitude o') (extra_inputs spec)))"

lemma excluded_unavailable [simp]: "\<not> outcome_available (excluded_outcome spec)"
  by (simp add: excluded_outcome_def outcome_available_def outcome_feasible_def)

lemma available_delta: "outcome_available o' \<Longrightarrow> io_delta o' \<noteq> None"
  by (simp add: outcome_available_def)

lemma available_permitted:
  assumes "consider_spec w src econ c ctx spec = Inr o'" "outcome_available o'" "spec \<in> set CATALOGUE"
  shows "permitted_outcome w src ctx o'"
  using assms(1)
proof (cases rule: consider_specE)
  case (estimated m rep cost fs b)
  then have "permits w src (iv_key spec) (constraint_details ctx m (extra_inputs spec))"
    using evaluate_permits by blast
  with estimated(5) assms(3) show ?thesis
    by (auto simp: permitted_outcome_def)
qed (use available_delta [OF assms(2)] assms(2) in auto)

text \<open>A scenario always returns, and this is what it returns.\<close>

lemma run_scenario_returns:
  obtains os where "consider_all w src econ c ctx CATALOGUE = Inr os"
    "list_all2 (\<lambda>s o'. consider_spec w src econ c ctx s = Inr o') CATALOGUE os"
  using consider_all_returns [OF order_refl] consider_all_elements by blast

lemma considered_spec:
  assumes "list_all2 (\<lambda>s o'. consider_spec w src econ c ctx s = Inr o') CATALOGUE os" "o' \<in> set os"
  obtains spec where "spec \<in> set CATALOGUE" "consider_spec w src econ c ctx spec = Inr o'"
proof -
  obtain i where i: "i < length os" "o' = os ! i"
    using assms(2) by (auto simp: in_set_conv_nth)
  with assms(1) have "i < length CATALOGUE" "consider_spec w src econ c ctx (CATALOGUE ! i) = Inr o'"
    by (auto simp: list_all2_conv_all_nth)
  then show ?thesis
    by (intro that [of "CATALOGUE ! i"] nth_mem)
qed

text \<open>
  C8: A scenario answers with the best permitted response. It never raises; without a baseline it
  selects nothing and says why. Otherwise it considers every action of the catalogue once, in order,
  and selects distinct ones among those that are available and, unless cost is the objective,
  recover production: the best by the score of the objective, best first, none of them worse than
  any action left out, as many as the manager allows. Every selected action is permitted by the
  rules of the mine at the magnitude proposed, and the projection is the baseline plus what the
  selected actions are expected to change.
\<close>

theorem scenario_selects_best_permitted:
  "\<exists>r. run_scenario w src econ c ctx hex now created_by = Inr r
     \<and> (case cx_baseline ctx of
          None \<Rightarrow> rs_selected r = [] \<and> rs_projected r = None \<and> rs_mode r = INSUFFICIENT_DATA \<and> rs_unavailable r \<noteq> None
        | Some baseline \<Rightarrow>
            map io_key (rs_considered r) = map iv_key CATALOGUE
            \<and> best_response c (rs_considered r) (rs_selected r)
            \<and> list_all (permitted_outcome w src ctx) (rs_selected r)
            \<and> rs_projected r = Some (baseline + sum_list (map (the \<circ> io_delta) (rs_selected r))))"
proof (cases "cx_baseline ctx")
  case None
  then show ?thesis by (simp add: run_scenario_def new_result_def Let_def)
next
  case (Some baseline)
  obtain os where os: "consider_all w src econ c ctx CATALOGUE = Inr os"
    "list_all2 (\<lambda>s o'. consider_spec w src econ c ctx s = Inr o') CATALOGUE os"
    by (rule run_scenario_returns)
  let ?sel = "py_take (ctl_max_actions c) (rank_outcomes os c)"
  have keys: "map io_key os = map iv_key CATALOGUE"
    by (rule considered_keys [OF os(2)])
  then have best: "best_response c os ?sel"
    by (intro selection_best) (simp add: catalogue_distinct)
  then have sel: "o' \<in> set os \<and> outcome_available o'" if "o' \<in> set ?sel" for o'
    using that by (auto simp: best_response_def eligible_def Let_def)
  have "permitted_outcome w src ctx o'" if "o' \<in> set ?sel" for o'
    using sel [OF that] considered_spec [OF os(2), of o'] available_permitted by metis
  moreover have "known io_delta xs = map (the \<circ> io_delta) xs" if "\<forall>o' \<in> set xs. outcome_available o'" for xs
    using that by (induction xs) (auto simp: known_def List.map_filter_simps dest: available_delta)
  ultimately show ?thesis
    using Some os(1) keys best sel by (simp add: run_scenario_def new_result_def Let_def list_all_iff)
qed

subsection \<open>The latitude of the manager\<close>

lemma flex_range: "0 \<le> flex_magnitude f \<and> flex_magnitude f \<le> 15 / 100"
  by (cases f) simp_all

lemma magnitude_range:
  assumes "magnitude_for spec c = Some m"
  shows "0 < m \<and> m \<le> 15 / 100 \<and> flex_of c (iv_key spec) \<noteq> Some FX_NONE"
  using assms flex_range
  by (auto simp: magnitude_for_def Let_def min_def max_def order.strict_iff_order split: option.splits if_splits)

lemma heuristic_range: "spec \<in> set CATALOGUE \<Longrightarrow> 0 \<le> iv_heuristic spec \<and> iv_heuristic spec \<le> 10 / 100"
  by (auto simp: CATALOGUE_def spec_defs)

text \<open>A delta of the model is within the credible part of what the model predicts unchanged.\<close>

definition credible :: "scenario_context \<Rightarrow> rat \<Rightarrow> bool" where
  "credible ctx d \<longleftrightarrow> (\<exists>predict f before. cx_model ctx = Some predict \<and> cx_features ctx = Some f
     \<and> predict f = Inr before \<and> \<bar>d\<bar> \<le> \<bar>before\<bar> * (25 / 100))"

lemma model_delta_credible:
  assumes "model_delta spec ctx m = (Some d, how)"
  shows "credible ctx d"
proof -
  obtain predict where p: "cx_model ctx = Some predict"
    using assms by (cases "cx_model ctx") (simp_all add: model_delta_def)
  obtain x xs where f: "cx_features ctx = Some (x # xs)"
    using assms p by (auto simp: model_delta_def split: option.splits list.splits)
  let ?f = "x # xs" and ?k = "move_factor spec m" and ?cols = "moved_columns spec (x # xs)"
  have cols: "?cols \<noteq> []"
    using assms p f by (auto simp: model_delta_def Let_def)
  obtain before after where r: "predict ?f = Inr before" "predict (fold (scale_column ?k) ?cols ?f) = Inr after"
    using assms p f cols
    by (cases "predict ?f"; cases "predict (fold (scale_column ?k) ?cols ?f)") (simp_all add: model_delta_def Let_def)
  have "\<bar>d\<bar> \<le> \<bar>before\<bar> * (25 / 100)"
    using assms p f cols r
    by (simp add: model_delta_def Let_def MAX_CREDIBLE_DELTA_FRACTION_def abs_le_iff split: if_splits) linarith+
  with p f r show ?thesis
    unfolding credible_def by blast
qed

definition within_latitude :: "scenario_context \<Rightarrow> rat \<Rightarrow> intervention_outcome \<Rightarrow> bool" where
  "within_latitude ctx baseline o' \<longleftrightarrow>
     0 \<le> io_magnitude o' \<and> io_magnitude o' \<le> 15 / 100
     \<and> (\<not> feasible (io_constraints o') \<longrightarrow> io_delta o' = None)
     \<and> (case io_delta o' of
          None \<Rightarrow> io_mode o' = INSUFFICIENT_DATA
        | Some d \<Rightarrow>
            (io_mode o' = MODEL_BACKED \<and> credible ctx d) \<or> (io_mode o' = HEURISTIC \<and> \<bar>d\<bar> \<le> \<bar>baseline\<bar> * (15 / 100)))"

lemma estimated_delta:
  "io_delta (estimated_outcome s ctx m rep cost fs b)
     = Some (case fst (model_delta s ctx m) of Some d \<Rightarrow> d | None \<Rightarrow> b * iv_heuristic s * (m / (10 / 100)))"
  "io_mode (estimated_outcome s ctx m rep cost fs b) = (if fst (model_delta s ctx m) \<noteq> None then MODEL_BACKED else HEURISTIC)"
  by (simp_all add: estimated_outcome_def Let_def split: prod.split)

lemma heuristic_delta_bound:
  assumes "0 \<le> h" "h \<le> 10 / 100" "0 < m" "m \<le> 15 / 100"
  shows "\<bar>b * h * (m / (10 / 100))\<bar> \<le> \<bar>b\<bar> * (15 / (100 :: rat))"
proof -
  have "h * (m * 10) \<le> 10 / 100 * (15 / 100 * 10)"
    using assms by (intro mult_mono) simp_all
  then have "\<bar>b\<bar> * (h * (m * 10)) \<le> \<bar>b\<bar> * (15 / 100)"
    by (intro mult_left_mono) simp_all
  with assms show ?thesis
    by (simp add: abs_mult mult.assoc)
qed

lemma consider_within_latitude:
  assumes "consider_spec w src econ c ctx spec = Inr o'" "cx_baseline ctx = Some b" "spec \<in> set CATALOGUE"
  shows "within_latitude ctx b o'"
  using assms(1)
proof (cases rule: consider_specE)
  case excluded
  then show ?thesis by (simp add: within_latitude_def excluded_outcome_def)
next
  case (forbidden m rep how ev cost)
  with magnitude_range [OF forbidden(1)] show ?thesis by (simp add: within_latitude_def)
next
  case (baseless m rep how ev cost)
  with assms(2) show ?thesis by simp
next
  case (estimated m rep cost fs b')
  note m = magnitude_range [OF estimated(1)]
  show ?thesis
  proof (cases "fst (model_delta spec ctx m)")
    case None
    with estimated assms(2) m heuristic_range [OF assms(3)] heuristic_delta_bound [of "iv_heuristic spec" m b] show ?thesis
      by (simp add: within_latitude_def estimated_delta)
  next
    case (Some d)
    then have "credible ctx d"
      by (intro model_delta_credible [of spec ctx m d "snd (model_delta spec ctx m)"]) (simp add: prod_eq_iff)
    with estimated Some m show ?thesis
      by (simp add: within_latitude_def estimated_delta)
  qed
qed

lemma tolerate_risk:
  "outcome_available (tolerate c o') \<Longrightarrow> ctl_risk_tolerance c = CONSERVATIVE \<Longrightarrow> io_risk o' \<le> 10 / 100"
  by (auto simp: tolerate_def outcome_available_def outcome_feasible_def split: if_splits)

lemma available_tolerated:
  assumes "consider_spec w src econ c ctx spec = Inr o'" "outcome_available o'"
  shows "flex_of c (io_key o') \<noteq> Some FX_NONE \<and> (ctl_risk_tolerance c = CONSERVATIVE \<longrightarrow> io_risk o' \<le> 10 / 100)"
  using assms(1)
proof (cases rule: consider_specE)
  case (estimated m rep cost fs b)
  with assms(2) tolerate_risk [of c "estimated_outcome spec ctx m rep cost fs b"] magnitude_range [OF estimated(1)]
  show ?thesis by simp
qed (use available_delta [OF assms(2)] assms(2) in auto)

definition tolerated :: "scenario_controls \<Rightarrow> intervention_outcome \<Rightarrow> bool" where
  "tolerated c o' \<longleftrightarrow> flex_of c (io_key o') \<noteq> Some FX_NONE
     \<and> (ctl_risk_tolerance c = CONSERVATIVE \<longrightarrow> io_risk o' \<le> 10 / 100)"

text \<open>
  C9: A scenario stays within the latitude of the manager and within what the model can know. Every
  action is scaled by at most 15 per cent; an action that the rules forbid gets no number; an effect
  of the model is at most a quarter of what the model predicts for the unchanged mine, a declared
  one at most 15 per cent of the baseline, and which of the two it is is said. An action in a
  dimension without flexibility is never selected, and under a conservative setting none that raises
  the exposure of the equipment by more than a tenth.
\<close>

theorem scenario_stays_in_latitude:
  "case (run_scenario w src econ c ctx hex now created_by, cx_baseline ctx) of
     (Inr r, Some baseline) \<Rightarrow>
       list_all (within_latitude ctx baseline) (rs_considered r) \<and> list_all (tolerated c) (rs_selected r)
   | (_, baseline) \<Rightarrow> baseline = None"
proof (cases "cx_baseline ctx")
  case None
  then show ?thesis by (simp split: sum.split)
next
  case (Some baseline)
  obtain os where os: "consider_all w src econ c ctx CATALOGUE = Inr os"
    "list_all2 (\<lambda>s o'. consider_spec w src econ c ctx s = Inr o') CATALOGUE os"
    by (rule run_scenario_returns)
  let ?sel = "py_take (ctl_max_actions c) (rank_outcomes os c)"
  have "list_all (within_latitude ctx baseline) os"
    unfolding list_all_iff using considered_spec [OF os(2)] consider_within_latitude [OF _ Some] by metis
  moreover have "best_response c os ?sel"
    by (intro selection_best) (simp add: considered_keys [OF os(2)] catalogue_distinct)
  then have "o' \<in> set os \<and> outcome_available o'" if "o' \<in> set ?sel" for o'
    using that by (auto simp: best_response_def eligible_def Let_def)
  then have "list_all (tolerated c) ?sel"
    unfolding list_all_iff tolerated_def using considered_spec [OF os(2)] available_tolerated by metis
  ultimately show ?thesis
    using Some os(1) by (simp add: run_scenario_def new_result_def Let_def)
qed

text \<open>
  Two things the model shows besides. The ceiling on additional fuel only scales the actions without
  a flexibility of their own: it never limits the reallocation or the rerouting of haulage, whose
  fuel it is about. And the counts of a row that a former context left in it are kept.
\<close>

lemma fuel_ceiling_ignored:
  assumes "spec \<in> {spec_equipment_redeploy, spec_fleet_reroute, spec_extend_operating_hours}"
  shows "magnitude_for spec (c\<lparr>ctl_max_fuel_pct := x\<rparr>) = magnitude_for spec c"
  using assms by (auto simp: magnitude_for_def flex_of_def spec_defs)

lemma stale_counts_kept:
  assumes "build_context w ss mine_id location (Some row) = Inr ctx" "map_of (pr_cols row) ''_feature_present'' = Some v"
  shows "map_of (cx_latest_row ctx) ''_feature_present'' = Some v"
  using assms by (auto simp: build_context_def set_default_def Let_def split: sum.splits prod.splits if_splits)

text \<open>The frame for the model has exactly its columns, in its order.\<close>

lemma frame_columns: "map fst (fst (build_production_features parse strptime row names meds)) = names"
  by (simp add: build_production_features_def Let_def comp_def)

end
