(* ===== verification/ScenarioReport.thy ===== *)
theory ScenarioReport
  imports ScenarioEngine
begin

text \<open>
  Why an action was chosen and the others not, and the payload of a scenario
  (\<open>app/api/core/scenario/explain.py\<close>, \<open>serialize.py\<close>).
\<close>

subsection \<open>Explanations\<close>

fun objective_phrase :: "scenario_objective \<Rightarrow> string" where
  "objective_phrase MAXIMIZE_PRODUCTION = ''recovering the most production''"
| "objective_phrase MINIMIZE_COST = ''keeping cost down''"
| "objective_phrase MINIMIZE_RISK = ''adding the least equipment risk''"
| "objective_phrase BALANCED = ''balancing production recovery against cost and risk''"

fun mode_phrase :: "calculation_mode \<Rightarrow> string" where
  "mode_phrase MODEL_BACKED = ''from the production model''"
| "mode_phrase HEURISTIC = ''from a declared operational estimate, not the model''"
| "mode_phrase INSUFFICIENT_DATA = ''not estimated''"

definition tonnes :: "rat option \<Rightarrow> string" where
  "tonnes v =
     (case v of
        None \<Rightarrow> ''an amount that could not be estimated''
      | Some x \<Rightarrow> fmt_signed fmt_commas 0 x @ '' t'')"

definition rupees :: "rat option \<Rightarrow> string" where
  "rupees v =
     (case v of
        None \<Rightarrow> ''an unpriced amount''
      | Some x \<Rightarrow>
          if \<bar>x\<bar> \<ge> 100000 then rupee @ fmt_commas 2 (x / 100000) @ '' lakh'' else rupee @ fmt_commas 0 x)"

definition why_this :: "intervention_outcome \<Rightarrow> scenario_objective \<Rightarrow> string" where
  "why_this o' objective =
     py_join '' ''
       ([io_title o' @ '' is expected to change production by '' @ tonnes (io_delta o') @ '' (''
           @ mode_phrase (io_mode o') @ '': '' @ io_method o' @ '').'']
        @ (if io_cost o' \<noteq> None
           then [''Estimated incremental cost is '' @ rupees (io_cost o') @ '' '' @ em_dash @ '' '' @ io_cost_basis o' @ ''.'']
           else [''Cost could not be estimated: '' @ io_cost_basis o' @ ''.''])
        @ (if io_risk o' > 1 / 100
           then [''It raises equipment risk exposure by '' @ fmt_fixed 0 (io_risk o' * 100) @ ''%.''] else [])
        @ [''It leads on '' @ objective_phrase objective @ '', which is the objective set for this scenario.'']
        @ (case ea_limiters (io_evidence o') of
             [] \<Rightarrow> []
           | l # _ \<Rightarrow> [''Evidence is graded '' @ py_lower (quality_value (ea_quality (io_evidence o'))) @ '' because ''
               @ py_lower l @ ''.'']))"

definition lost_on :: "intervention_outcome \<Rightarrow> intervention_outcome \<Rightarrow> scenario_objective \<Rightarrow> string" where
  "lost_on o' chosen objective =
     (case objective of
        MAXIMIZE_PRODUCTION \<Rightarrow>
          ''Recovers '' @ tonnes (io_delta o') @ '' against '' @ tonnes (io_delta chosen) @ '' for ''
            @ py_lower (io_title chosen) @ ''.''
      | MINIMIZE_COST \<Rightarrow>
          (if io_cost o' = None then ''Cost could not be estimated, so it cannot be ranked on cost.''
           else ''Costs '' @ rupees (io_cost o') @ '' against '' @ rupees (io_cost chosen) @ ''.'')
      | MINIMIZE_RISK \<Rightarrow>
          ''Adds '' @ fmt_fixed 0 (io_risk o' * 100) @ ''% equipment risk exposure against ''
            @ fmt_fixed 0 (io_risk chosen * 100) @ ''% for '' @ py_lower (io_title chosen) @ ''.''
      | BALANCED \<Rightarrow>
          py_join '', ''
            ([''Recovers '' @ tonnes (io_delta o') @ '' at '' @ rupees (io_cost o')]
             @ (if io_delta chosen \<noteq> None
                then [''against '' @ tonnes (io_delta chosen) @ '' at '' @ rupees (io_cost chosen) @ '' for ''
                        @ py_lower (io_title chosen)] else []))
          @ (if io_risk o' > io_risk chosen + 1 / 100 then '', and carries more added equipment risk'' else []) @ ''.'')"

definition why_not :: "intervention_outcome \<Rightarrow> intervention_outcome option \<Rightarrow> scenario_objective \<Rightarrow> string" where
  "why_not o' chosen objective =
     (if truthy_str (io_rejected o') then str_or (io_rejected o') []
      else if \<not> feasible (io_constraints o') then report_reason (io_constraints o')
      else if io_delta o' = None then ''Effect could not be estimated: '' @ io_method o' @ ''.''
      else
        (case chosen of
           None \<Rightarrow> ''No action was selected for this scenario.''
         | Some ch \<Rightarrow> if io_key o' = io_key ch then [] else lost_on o' ch objective))"

definition winners_dict :: "intervention_outcome list \<Rightarrow> pyval" where
  "winners_dict os = PDict (map (\<lambda>(k, v). (k, opt_str v)) (winners os))"

definition refused_entry :: "scenario_objective \<Rightarrow> intervention_outcome \<Rightarrow> pyval" where
  "refused_entry objective o' =
     PDict [(''key'', PStr (io_key o')), (''title'', PStr (io_title o')), (''reason'', PStr (why_not o' None objective))]"

definition alternative_entry :: "scenario_objective \<Rightarrow> intervention_outcome \<Rightarrow> intervention_outcome \<Rightarrow> pyval" where
  "alternative_entry objective chosen o' =
     PDict [(''key'', PStr (io_key o')), (''title'', PStr (io_title o')),
       (''reason'', PStr (why_not o' (Some chosen) objective)), (''feasible'', PBool (outcome_feasible o')),
       (''expected_delta_t'', opt_round 1 (io_delta o')), (''cost_inr'', opt_round 0 (io_cost o'))]"

definition disagreeing :: "intervention_outcome list \<Rightarrow> intervention_outcome \<Rightarrow> string list" where
  "disagreeing os chosen =
     map fst (filter (\<lambda>(_, key). truthy_str key \<and> key \<noteq> Some (io_key chosen)) (winners os))"

definition explain_summary :: "scenario_result \<Rightarrow> intervention_outcome \<Rightarrow> string" where
  "explain_summary r chosen =
     py_join '' ''
       ([''Recommended: '' @ py_lower (io_title chosen) @ '', expected to change production by ''
           @ tonnes (io_delta chosen) @ ''.'']
        @ (case residual_gap r of
             None \<Rightarrow> []
           | Some g \<Rightarrow>
               if g > 0 then [''A gap of '' @ fmt_commas 0 g @ '' t against plan would remain.'']
               else [''This would bring production back to plan.''])
        @ (if \<not> objectives_agree (rs_considered r) \<and> disagreeing (rs_considered r) chosen \<noteq> []
           then [''The objectives disagree: a different action leads on ''
             @ py_join '', '' (map (\<lambda>o'. py_lower (blanks o')) (disagreeing (rs_considered r) chosen)) @ ''.'']
           else []))"

definition opt_evidence :: "evidence_assessment option \<Rightarrow> pyval" where
  "opt_evidence e = (case e of None \<Rightarrow> PNone | Some a \<Rightarrow> PDict (evidence_as_dict a))"

definition explain_scenario :: "scenario_result \<Rightarrow> dict" where
  "explain_scenario r =
     (case rs_selected r of
        [] \<Rightarrow>
          [(''summary'', PStr (str_or (rs_unavailable r) ''No permitted action is available under the current settings.'')),
           (''recommended'', PNone), (''why_this'', PNone),
           (''why_not'', PList (map (refused_entry (rs_objective r)) (rs_considered r))),
           (''objective_winners'', winners_dict (rs_considered r)), (''objectives_agree'', PBool True),
           (''calculation_mode'', PStr (calculation_mode_value (rs_mode r)))]
      | chosen # _ \<Rightarrow>
          [(''summary'', PStr (explain_summary r chosen)), (''recommended'', PStr (io_key chosen)),
           (''why_this'', PStr (why_this chosen (rs_objective r))),
           (''why_not'', PList (map (alternative_entry (rs_objective r) chosen)
              (filter (\<lambda>o'. io_key o' \<noteq> io_key chosen) (rs_considered r)))),
           (''objective_winners'', winners_dict (rs_considered r)),
           (''objectives_agree'', PBool (objectives_agree (rs_considered r))),
           (''calculation_mode'', PStr (calculation_mode_value (rs_mode r))),
           (''evidence'', opt_evidence (rs_evidence r))])"

subsection \<open>Payloads\<close>

definition DISCLAIMER :: string where
  "DISCLAIMER = ''Scenario outputs are model-assisted estimates evaluated against '' @
     ''DGMS-informed safety constraints. They support a human decision and do not '' @
     ''authorise or perform any operational action.''"

definition outcome_horizon :: "intervention_outcome \<Rightarrow> string" where
  "outcome_horizon o' = (case catalogue_spec (io_key o') of Some s \<Rightarrow> iv_horizon s | None \<Rightarrow> ''NEXT'')"

definition outcome_urgency :: "intervention_outcome \<Rightarrow> string" where
  "outcome_urgency o' =
     (case map_of [(''NOW'', ''HIGH''), (''NEXT'', ''MEDIUM''), (''NEXT_SHIFT'', ''LOW'')] (outcome_horizon o') of
        Some u \<Rightarrow> u | None \<Rightarrow> ''MEDIUM'')"

definition intervention_payload :: "intervention_outcome \<Rightarrow> dict" where
  "intervention_payload o' =
     outcome_as_dict o' @
     [(''type'', PStr (io_key o')), (''intervention'', PStr (io_key o')), (''detail'', PStr (io_title o')),
      (''urgency'', PStr (outcome_urgency o')),
      (''evidence_quality'', PStr (quality_value (ea_quality (io_evidence o')))),
      (''cost_source'', PStr (if io_cost o' \<noteq> None then ''DERIVED_FROM_MINE_RECORDS'' else ''NOT_ESTIMATED'')),
      (''production_delta_source'', PStr (calculation_mode_value (io_mode o')))]"

definition provenance_payload :: "provenance \<Rightarrow> dict" where
  "provenance_payload p =
     [(''generated_at'', PStr (pv_generated_at p)), (''data_time'', opt_str (pv_data_time p)),
      (''data_age_seconds'', opt_float (pv_data_age p)), (''freshness'', PStr (freshness_value (pv_freshness p))),
      (''model_version'', opt_str (pv_model_version p)), (''dataset_version'', opt_str (pv_dataset_version p)),
      (''feature_version'', opt_str (pv_feature_version p)), (''serving_status'', opt_str (pv_serving_status p)),
      (''source_records'', PInt (int (pv_source_records p))), (''data_origin'', PStr (pv_data_origin p)),
      (''assumptions'', PList (map PStr (pv_assumptions p)))]"

definition scenario_payload :: "scenario_result \<Rightarrow> dict" where
  "scenario_payload r =
     (let prov = rs_provenance r; selected = PList (map (PDict \<circ> intervention_payload) (rs_selected r));
          gap = result_gap r; residual = residual_gap r
      in [(''scenario_id'', PStr (rs_scenario_id r)), (''mine_id'', PStr (rs_mine_id r)),
          (''scope'', PStr (scope_value (rs_scope r))), (''objective'', PStr (objective_value (rs_objective r))),
          (''created_at'', PStr (rs_created_at r)), (''created_by'', PStr (rs_created_by r)),
          (''status'', PStr (if rs_mode r = INSUFFICIENT_DATA then ''insufficient_data'' else ''simulated'')),
          (''calculation_mode'', PStr (calculation_mode_value (rs_mode r))),
          (''unavailable_reason'', opt_str (rs_unavailable r)),
          (''baseline'', PDict
             [(''production_t'', opt_round 1 (rs_baseline r)), (''planned_production_t'', opt_round 1 (rs_planned r)),
              (''production_gap_t'', opt_round 1 gap), (''production_gap_pct'', opt_round 2 (gap_pct gap (rs_planned r)))]),
          (''scenario'', PDict
             [(''production_t'', opt_round 1 (rs_projected r)), (''net_delta_t'', opt_round 1 (net_delta r)),
              (''net_cost_inr'', opt_round 0 (net_cost r)), (''residual_gap_t'', opt_round 1 residual),
              (''residual_gap_pct'', opt_round 2 (gap_pct residual (rs_planned r)))]),
          (''actions_applied'', selected), (''interventions'', selected),
          (''considered'', PList (map (PDict \<circ> intervention_payload) (rs_considered r))),
          (''explanation'', PDict (explain_scenario r)), (''evidence'', opt_evidence (rs_evidence r)),
          (''provenance'', PDict (provenance_payload prov)), (''model_version'', opt_str (pv_model_version prov)),
          (''dataset_version'', opt_str (pv_dataset_version prov)), (''serving_status'', opt_str (pv_serving_status prov)),
          (''data_origin'', PStr (pv_data_origin prov)), (''disclaimer'', PStr DISCLAIMER)])"

subsection \<open>Every action is explained\<close>

text \<open>A failed check says why it failed.\<close>

definition says_why :: "constraint_check \<Rightarrow> bool" where
  "says_why c \<longleftrightarrow> cc_reason c \<noteq> []"

lemma says_why_checks [simp]:
  "says_why (hard_check k l out r e) \<longleftrightarrow> r \<noteq> []" "says_why (soft_check k l out r e p) \<longleftrightarrow> r \<noteq> []"
  by (simp_all add: says_why_def hard_check_def soft_check_def)

lemma redeploy_says: "list_all says_why (eval_redeploy src mine_id)"
  by (simp add: eval_redeploy_def Let_def split: option.split list.split)

lemma blast_says: "eval_blast d = Inr cs \<Longrightarrow> list_all says_why cs"
  by (auto simp: eval_blast_def Let_def split: sum.splits if_splits)

lemma defer_says: "list_all says_why (eval_defer w src mine_id)"
  by (simp add: eval_defer_def Let_def split: option.split list.split)

lemma crusher_says: "eval_crusher w d = Inr cs \<Longrightarrow> list_all says_why cs"
  by (auto simp: eval_crusher_def Let_def split: sum.splits if_splits)

lemma reroute_says: "list_all says_why (eval_reroute w d)"
  by (simp add: eval_reroute_def Let_def split: sum.split prod.split)

lemma extend_says: "eval_extend w src d = Inr cs \<Longrightarrow> list_all says_why cs"
  by (auto simp: eval_extend_def Let_def split: option.splits list.splits sum.splits if_splits)

lemma freshness_says: "list_all says_why (telemetry_freshness w src)"
  by (simp add: telemetry_freshness_def Let_def split: option.split)

lemma evaluation_says:
  assumes "evaluate_constraints w src action mine_id d = Inr r"
  shows "list_all says_why (cr_checks r)"
proof (cases "evaluator w src mine_id d action")
  case None
  with assms show ?thesis by (auto simp: evaluate_constraints_def)
next
  case (Some a)
  with assms obtain cs where cs: "a = Inr cs" "cr_checks r = cs @ telemetry_freshness w src"
    by (cases a) (auto simp: evaluate_constraints_def)
  have "list_all says_why cs"
    using Some cs(1) redeploy_says blast_says defer_says crusher_says reroute_says extend_says
    by (auto simp: evaluator_def split: if_splits)
  with cs(2) freshness_says show ?thesis by simp
qed

lemma py_join_nonempty: "x \<in> set xs \<Longrightarrow> x \<noteq> [] \<Longrightarrow> py_join sep xs \<noteq> []"
  by (induction sep xs rule: py_join.induct) auto

lemma report_reason_nonempty:
  assumes "list_all says_why (cr_checks r)" "\<not> feasible r"
  shows "report_reason r \<noteq> []"
proof -
  have blocked: "report_blockers r \<noteq> []"
    using assms(2) by (auto simp: feasible_def report_blockers_def list_ex_iff filter_empty_conv)
  define failed where "failed = filter (\<lambda>c. cc_outcome c = FAILED) (report_blockers r)"
  define unrunnable where "unrunnable = filter (\<lambda>c. cc_outcome c = NOT_EVALUATED) (report_blockers r)"
  have cover: "failed \<noteq> [] \<or> unrunnable \<noteq> []"
  proof -
    obtain c cs where c: "report_blockers r = c # cs" using blocked by (cases "report_blockers r") auto
    then have "check_blocking c" by (auto simp: report_blockers_def filter_eq_Cons_iff)
    then show ?thesis
      using c by (cases "cc_outcome c") (auto simp: failed_def unrunnable_def check_blocking_def)
  qed
  have "cc_reason c \<noteq> []" if "failed = c # cs" for c cs
  proof -
    have "c \<in> set (cr_checks r)"
      using that by (auto simp: failed_def report_blockers_def filter_eq_Cons_iff)
    with assms(1) show ?thesis by (auto simp: list_all_iff says_why_def)
  qed
  with blocked cover show ?thesis
    unfolding report_reason_def Let_def failed_def [symmetric] unrunnable_def [symmetric]
    by (cases failed; cases unrunnable) auto
qed

lemma lost_on_nonempty: "lost_on o' chosen objective \<noteq> []"
  by (cases objective) (simp_all add: lost_on_def)

lemma considered_reason:
  assumes "consider_spec w src econ c ctx spec = Inr o'" "cx_baseline ctx = Some b"
    "\<forall>ch. chosen = Some ch \<longrightarrow> io_key o' \<noteq> io_key ch"
  shows "why_not o' chosen objective \<noteq> []"
  using assms(1)
proof (cases rule: consider_specE)
  case excluded
  then show ?thesis by (simp add: excluded_outcome_def why_not_def)
next
  case (forbidden m rep how ev cost)
  have "report_reason rep \<noteq> []"
    by (rule report_reason_nonempty [OF evaluation_says [OF forbidden(3)] forbidden(2)])
  moreover have "io_rejected o' = Some (report_reason rep)"
    using forbidden(4) by (simp add: tolerate_def outcome_available_def)
  ultimately show ?thesis by (simp add: why_not_def)
next
  case (baseless m rep how ev cost)
  with assms(2) show ?thesis by simp
next
  case (estimated m rep cost fs b')
  have "io_delta o' \<noteq> None" "feasible (io_constraints o')"
    using estimated by (simp_all add: estimated_outcome_def Let_def split: prod.split)
  moreover have "io_rejected o' = None \<or> truthy_str (io_rejected o')"
    using estimated(5) by (simp add: tolerate_def)
  ultimately show ?thesis
    using assms(3) lost_on_nonempty by (cases "io_rejected o'") (auto simp: why_not_def split: option.split)
qed

text \<open>The explanation gives the action a reason of its own.\<close>

definition reasoned :: "dict \<Rightarrow> intervention_outcome \<Rightarrow> bool" where
  "reasoned d o' \<longleftrightarrow>
     (\<exists>entries e reason. map_of d ''why_not'' = Some (PList entries) \<and> PDict e \<in> set entries
        \<and> map_of e ''key'' = Some (PStr (io_key o')) \<and> map_of e ''reason'' = Some (PStr reason) \<and> reason \<noteq> [])"

definition explained :: "dict \<Rightarrow> intervention_outcome \<Rightarrow> bool" where
  "explained d o' \<longleftrightarrow> map_of d ''recommended'' = Some (PStr (io_key o')) \<or> reasoned d o'"

lemma refused_reasoned:
  assumes "map_of d ''why_not'' = Some (PList (map (refused_entry objective) os))" "o' \<in> set os"
    "why_not o' None objective \<noteq> []"
  shows "reasoned d o'"
  unfolding reasoned_def
  by (rule exI, rule exI [of _ "[(''key'', PStr (io_key o')), (''title'', PStr (io_title o')),
        (''reason'', PStr (why_not o' None objective))]"])
    (use assms in \<open>auto simp: refused_entry_def image_iff\<close>)

lemma alternative_reasoned:
  assumes "map_of d ''why_not'' = Some (PList (map (alternative_entry objective chosen) os))" "o' \<in> set os"
    "why_not o' (Some chosen) objective \<noteq> []"
  shows "reasoned d o'"
proof -
  obtain e where e: "alternative_entry objective chosen o' = PDict e" "map_of e ''key'' = Some (PStr (io_key o'))"
    "map_of e ''reason'' = Some (PStr (why_not o' (Some chosen) objective))"
    by (simp add: alternative_entry_def)
  then have "PDict e \<in> set (map (alternative_entry objective chosen) os)"
    using assms(2) by (metis image_eqI set_map)
  with e assms show ?thesis
    unfolding reasoned_def by blast
qed

text \<open>
  A scenario explains itself completely. Every action that was considered is either the one
  recommended, which is the best of the selected ones, or has an entry of its own that says in words
  why it is not: the rule that forbids it, the manager's own settings, or the dimension on which it
  lost. No reason is ever empty.
\<close>

theorem scenario_explains_every_action:
  "case (run_scenario w src econ c ctx hex now created_by, cx_baseline ctx) of
     (Inr r, Some baseline) \<Rightarrow>
       list_all (explained (explain_scenario r)) (rs_considered r)
       \<and> map_of (explain_scenario r) ''recommended''
           = Some (case rs_selected r of [] \<Rightarrow> PNone | best # _ \<Rightarrow> PStr (io_key best))
   | (_, baseline) \<Rightarrow> baseline = None"
proof (cases "cx_baseline ctx")
  case None
  then show ?thesis by (simp split: sum.split)
next
  case (Some b)
  obtain os where os: "consider_all w src econ c ctx CATALOGUE = Inr os"
    "list_all2 (\<lambda>s o'. consider_spec w src econ c ctx s = Inr o') CATALOGUE os"
    by (rule run_scenario_returns)
  then obtain r where r: "run_scenario w src econ c ctx hex now created_by = Inr r" "rs_considered r = os"
    using Some by (simp add: run_scenario_def Let_def)
  have why: "why_not o' chosen (rs_objective r) \<noteq> []"
    if "o' \<in> set os" "\<forall>ch. chosen = Some ch \<longrightarrow> io_key o' \<noteq> io_key ch" for o' chosen
    using considered_spec [OF os(2) that(1)] considered_reason [OF _ Some that(2)] by metis
  have "explained (explain_scenario r) o'" if o': "o' \<in> set os" for o'
  proof (cases "rs_selected r")
    case Nil
    have "reasoned (explain_scenario r) o'"
      by (rule refused_reasoned [of _ "rs_objective r" os])
        (use Nil r(2) o' why in \<open>simp_all add: explain_scenario_def\<close>)
    then show ?thesis by (simp add: explained_def)
  next
    case (Cons best rest)
    show ?thesis
    proof (cases "io_key o' = io_key best")
      case True
      with Cons show ?thesis by (simp add: explained_def explain_scenario_def)
    next
      case False
      have "reasoned (explain_scenario r) o'"
        by (rule alternative_reasoned [of _ "rs_objective r" best "filter (\<lambda>o'. io_key o' \<noteq> io_key best) os"])
          (use Cons r(2) o' why False in \<open>simp_all add: explain_scenario_def\<close>)
      then show ?thesis by (simp add: explained_def)
    qed
  qed
  then show ?thesis
    using Some r by (auto simp: list_all_iff explain_scenario_def split: list.split)
qed

end
