(* ===== verification/Attention.thy ===== *)
theory Attention
  imports StateEngine Scenario
begin

text \<open>
  What needs the manager, in what order (\<open>app/api/core/attention.py\<close>): the signals of the state
  engine, read back from its report, become ranked items or gaps in knowledge.
\<close>

subsection \<open>Signals read back\<close>

definition text_of :: "pyval \<Rightarrow> string" where
  "text_of v = (case v of PStr s \<Rightarrow> s | _ \<Rightarrow> [])"

definition opt_text_of :: "pyval \<Rightarrow> string option" where
  "opt_text_of v = (case v of PStr s \<Rightarrow> Some s | _ \<Rightarrow> None)"

definition number_in :: "pyval \<Rightarrow> rat option" where
  "number_in v = (case v of PInt i \<Rightarrow> Some (of_int i) | PFloat r \<Rightarrow> Some r | PBool b \<Rightarrow> Some (if b then 1 else 0) | _ \<Rightarrow> None)"

text \<open>\<open>Severity(v)\<close>, \<open>Scope(v)\<close> and \<open>CalculationMode(v)\<close>\<close>

definition severity_of :: "string \<Rightarrow> severity option" where
  "severity_of t = find (\<lambda>s. state_severity_value s = t) [V_NONE, V_WATCH, V_DISRUPTION, V_CRITICAL]"

definition scope_of :: "string \<Rightarrow> scope option" where
  "scope_of t = find (\<lambda>s. scope_value s = t) [S_MINE, S_ASSET, S_SHIFT, S_TARGET, S_REGIONAL, S_PLATFORM]"

definition mode_of :: "string \<Rightarrow> calculation_mode option" where
  "mode_of t = find (\<lambda>m. calculation_mode_value m = t) [MODEL_BACKED, HEURISTIC, INSUFFICIENT_DATA]"

definition bad_value :: "string \<Rightarrow> string \<Rightarrow> exn" where
  "bad_value v enum = Exn ''ValueError'' (sq v @ '' is not a valid '' @ enum)"

text \<open>\<open>_signal_from_dict\<close>, of a dictionary that has the keys of \<^const>\<open>signal_as_dict\<close>\<close>

definition signal_from_dict :: "dict \<Rightarrow> signal result" where
  "signal_from_dict raw =
     (let text = \<lambda>k. text_of (column raw k)
      in case severity_of (text ''severity'') of None \<Rightarrow> Inl (bad_value (text ''severity'') ''Severity'') | Some sev \<Rightarrow>
        (case scope_of (text ''scope'') of None \<Rightarrow> Inl (bad_value (text ''scope'') ''Scope'') | Some sc \<Rightarrow>
        (case mode_of (text ''calculation_mode'') of
           None \<Rightarrow> Inl (bad_value (text ''calculation_mode'') ''CalculationMode'')
         | Some m \<Rightarrow>
             Inr \<lparr>si_key = text ''key'', si_label = text ''label'', si_severity = sev, si_value = number_in (column raw ''value''),
                  si_unit = text ''unit'', si_reason = text ''reason'', si_source = text ''source'', si_scope = sc,
                  si_observed_at = opt_text_of (column raw ''observed_at''), si_threshold = number_in (column raw ''threshold''),
                  si_mode = m, si_deep_link = opt_text_of (column raw ''deep_link''),
                  si_evidence = (case py_or (map_of raw ''evidence'') (PDict []) of PDict d \<Rightarrow> d | _ \<Rightarrow> [])\<rparr>)))"

text \<open>What is read back is the signal, its value rounded.\<close>

definition reread :: "signal \<Rightarrow> signal" where
  "reread s = s\<lparr>si_value := map_option (py_round 2) (si_value s)\<rparr>"

lemma severity_roundtrip [simp]: "severity_of (state_severity_value v) = Some v"
  by (cases v) (simp_all add: severity_of_def)

lemma scope_roundtrip [simp]: "scope_of (scope_value sc) = Some sc"
  by (cases sc) (simp_all add: scope_of_def)

lemma mode_roundtrip [simp]: "mode_of (calculation_mode_value m) = Some m"
  by (cases m) (simp_all add: mode_of_def)

lemma opt_text_roundtrip [simp]: "opt_text_of (opt_str t) = t"
  by (cases t) (simp_all add: opt_text_of_def opt_str_def)

lemma number_roundtrip [simp]: "number_in (opt_float x) = x" "number_in (opt_round n x) = map_option (py_round n) x"
  by (cases x; simp add: number_in_def opt_float_def opt_round_def)+

lemma signal_roundtrip: "signal_from_dict (signal_as_dict s) = Inr (reread s)"
  by (cases "si_evidence s = []")
    (simp_all add: signal_from_dict_def signal_as_dict_def column_def text_of_def py_or_def reread_def Let_def)

subsection \<open>Items\<close>

definition MAX_ITEMS :: int where
  "MAX_ITEMS = 6"

fun severity_weight :: "severity \<Rightarrow> rat" where
  "severity_weight V_CRITICAL = 4"
| "severity_weight V_DISRUPTION = 3"
| "severity_weight V_WATCH = 3 / 2"
| "severity_weight V_NONE = 0"

definition urgency :: "string \<Rightarrow> rat" where
  "urgency key =
     (case map_of [(''production_gap'', 1), (''equipment_risk'', 12 / 10), (''bottleneck'', 9 / 10),
                   (''maintenance_overdue'', 6 / 10), (''open_incidents'', 11 / 10)] key of
        Some u \<Rightarrow> u | None \<Rightarrow> 1)"

fun support_weight :: "evidence_quality \<Rightarrow> rat" where
  "support_weight E_HIGH = 1"
| "support_weight E_MEDIUM = 85 / 100"
| "support_weight E_LOW = 6 / 10"
| "support_weight E_UNAVAILABLE = 3 / 10"

definition incident_type :: "string \<Rightarrow> string" where
  "incident_type key =
     (case map_of [(''production_gap'', ''PRODUCTION_SHORTFALL''), (''equipment_risk'', ''EQUIPMENT_RISK''),
                   (''bottleneck'', ''HAULAGE_BOTTLENECK''), (''maintenance_overdue'', ''EQUIPMENT_RISK''),
                   (''open_incidents'', ''OTHER'')] key of
        Some t \<Rightarrow> t | None \<Rightarrow> ''OTHER'')"

record attention_item =
  ai_key :: string
  ai_title :: string
  ai_severity :: severity
  ai_summary :: string
  ai_impact :: "rat option"
  ai_impact_basis :: string
  ai_mode :: calculation_mode
  ai_evidence :: evidence_quality
  ai_score :: rat
  ai_drivers :: "dict list"
  ai_deep_link :: "string option"
  ai_incident_type :: string
  ai_signature :: string

definition item_as_dict :: "attention_item \<Rightarrow> dict" where
  "item_as_dict i =
     [(''key'', PStr (ai_key i)), (''title'', PStr (ai_title i)), (''severity'', PStr (state_severity_value (ai_severity i))),
      (''summary'', PStr (ai_summary i)), (''impact_t'', opt_round 1 (ai_impact i)),
      (''impact_basis'', PStr (ai_impact_basis i)), (''calculation_mode'', PStr (calculation_mode_value (ai_mode i))),
      (''evidence_quality'', PStr (quality_value (ai_evidence i))), (''score'', PFloat (py_round 3 (ai_score i))),
      (''drivers'', PList (map PDict (ai_drivers i))), (''deep_link'', opt_str (ai_deep_link i)),
      (''incident_type'', PStr (ai_incident_type i)), (''signature'', PStr (ai_signature i))]"

type_synonym impact = "rat option \<times> string \<times> calculation_mode"

text \<open>
  \<open>_equipment_exposure\<close>: the statement answers one row with the mean recorded output of the
  machines it is asked for, which is null without any.
\<close>

type_synonym exposure = "string list \<Rightarrow> rat option list result"

definition flagged_ids :: "signal \<Rightarrow> string list" where
  "flagged_ids s = (case column (si_evidence s) ''flagged_ids'' of PList vs \<Rightarrow> map text_of vs | _ \<Rightarrow> [])"

definition equipment_exposure :: "exposure \<Rightarrow> signal \<Rightarrow> impact" where
  "equipment_exposure ask s =
     (let flagged = flagged_ids s
      in if flagged = [] then (None, ''No machine is currently flagged.'', INSUFFICIENT_DATA)
         else
           (case ask flagged of
              Inl _ \<Rightarrow> (None, ''Equipment production history is unavailable.'', INSUFFICIENT_DATA)
            | Inr (Some mean' # _) \<Rightarrow>
                (Some (mean' * of_nat (length flagged)),
                 ''Mean recorded output of the '' @ show_nat (length flagged) @ '' flagged machine(s) (''
                   @ fmt_commas 1 mean' @ '' t each per observation).'', HEURISTIC)
            | Inr _ \<Rightarrow>
                (None, ''The flagged machines have no recorded production contribution.'', INSUFFICIENT_DATA)))"

definition impact_for :: "exposure \<Rightarrow> signal \<Rightarrow> impact" where
  "impact_for ask s =
     (if si_key s = ''production_gap''
      then
        (case number_in (column (si_evidence s) ''gap_t'') of
           None \<Rightarrow> (None, ''Gap could not be established.'', INSUFFICIENT_DATA)
         | Some gap \<Rightarrow>
             (let shifts = (case column (si_evidence s) ''shifts_considered'' of PInt n \<Rightarrow> if n = 0 then 1 else n | _ \<Rightarrow> 1)
              in (Some (gap / of_int shifts),
                  ''Mean shortfall per shift across the last '' @ show_int shifts @ '' shifts ('' @ fmt_commas 0 gap
                    @ '' t total).'', MODEL_BACKED)))
      else if si_key s = ''bottleneck''
      then
        (case number_in (column (si_evidence s) ''headroom_t'') of
           None \<Rightarrow> (None, ''Stage headroom could not be established.'', INSUFFICIENT_DATA)
         | Some headroom' \<Rightarrow>
             if headroom' \<ge> 0
             then (Some headroom', ''Tonnes still available at the constraining stage before it saturates.'', MODEL_BACKED)
             else (Some \<bar>headroom'\<bar>, ''The stage is already running beyond its established capacity by this ''
                     @ ''much, so the capacity figure may understate it.'', HEURISTIC))
      else if si_key s = ''equipment_risk'' then equipment_exposure ask s
      else (None, ''Production impact cannot be reliably estimated from available data.'', INSUFFICIENT_DATA))"

definition evidence_grade :: "signal \<Rightarrow> calculation_mode \<Rightarrow> evidence_quality" where
  "evidence_grade s m =
     (if si_mode s = INSUFFICIENT_DATA then E_UNAVAILABLE
      else if m = INSUFFICIENT_DATA then E_LOW
      else if m = HEURISTIC then E_MEDIUM
      else E_HIGH)"

definition item_title :: "signal \<Rightarrow> string" where
  "item_title s =
     (case map_of [(''production_gap'', ''Production shortfall''), (''equipment_risk'', ''Equipment failure risk''),
                   (''bottleneck'', ''Material flow constraint''), (''maintenance_overdue'', ''Maintenance backlog''),
                   (''open_incidents'', ''Open incidents'')] (si_key s) of
        Some t \<Rightarrow> t | None \<Rightarrow> si_label s)"

text \<open>\<open>f":{evidence.get(k, '')}"\<close>\<close>

definition signature_detail :: "runtime \<Rightarrow> signal \<Rightarrow> string \<Rightarrow> string" where
  "signature_detail rt s k = '':'' @ (case map_of (si_evidence s) k of None \<Rightarrow> [] | Some v \<Rightarrow> py_str rt v)"

definition signature :: "runtime \<Rightarrow> string \<Rightarrow> signal \<Rightarrow> string" where
  "signature rt mine_id s =
     mine_id @ '':'' @ si_key s
       @ (if si_key s = ''bottleneck'' then signature_detail rt s ''stage''
          else if si_key s = ''maintenance_overdue'' then signature_detail rt s ''worst_machine'' else [])"

definition driver_of :: "signal \<Rightarrow> dict" where
  "driver_of s =
     fold (\<lambda>(k, v) d. AList.update k v d) (si_evidence s)
       [(''label'', PStr (si_label s)), (''value'', opt_float (si_value s)), (''unit'', PStr (si_unit s)),
        (''threshold'', opt_float (si_threshold s)), (''source'', PStr (si_source s)),
        (''observed_at'', opt_str (si_observed_at s))]"

definition item_score :: "signal \<Rightarrow> rat option \<Rightarrow> evidence_quality \<Rightarrow> rat" where
  "item_score s impact grade =
     (let score = severity_weight (si_severity s) * urgency (si_key s) * support_weight grade
      in case impact of
           None \<Rightarrow> score
         | Some x \<Rightarrow> if x = 0 then score else score * (1 + min (1 / 2) (\<bar>x\<bar> / 1000)))"

definition item_of :: "runtime \<Rightarrow> exposure \<Rightarrow> string \<Rightarrow> signal \<Rightarrow> attention_item" where
  "item_of rt ask mine_id s =
     (let (impact, basis, m) = impact_for ask s; grade = evidence_grade s m
      in \<lparr>ai_key = si_key s, ai_title = item_title s, ai_severity = si_severity s, ai_summary = si_reason s,
          ai_impact = impact, ai_impact_basis = basis, ai_mode = m, ai_evidence = grade,
          ai_score = item_score s impact grade, ai_drivers = [driver_of s], ai_deep_link = si_deep_link s,
          ai_incident_type = incident_type (si_key s), ai_signature = signature rt mine_id s\<rparr>)"

subsection \<open>The queue\<close>

definition gap_entry :: "signal \<Rightarrow> dict" where
  "gap_entry s =
     [(''key'', PStr (si_key s)), (''label'', PStr (si_label s)), (''reason'', PStr (si_reason s)),
      (''deep_link'', opt_str (si_deep_link s))]"

record attention_queue =
  aq_mine_id :: string
  aq_state :: operational_state
  aq_headline :: string
  aq_items :: "attention_item list"
  aq_item_count :: nat
  aq_suppressed :: int
  aq_knowledge_gaps :: "dict list"
  aq_clock :: operational_clock
  aq_evaluated_at :: int

text \<open>The loop over the raw signals: the gaps and the items, each in the order of the signals\<close>

fun read_signals :: "runtime \<Rightarrow> exposure \<Rightarrow> string \<Rightarrow> dict list \<Rightarrow> (dict list \<times> attention_item list) result" where
  "read_signals rt ask mine_id [] = Inr ([], [])"
| "read_signals rt ask mine_id (raw # raws) =
     (case signal_from_dict raw of
        Inl e \<Rightarrow> Inl e
      | Inr s \<Rightarrow>
          (case read_signals rt ask mine_id raws of
             Inl e \<Rightarrow> Inl e
           | Inr (gaps, items) \<Rightarrow>
               if si_mode s = INSUFFICIENT_DATA then Inr (gap_entry s # gaps, items)
               else if si_severity s = V_NONE then Inr (gaps, items)
               else Inr (gaps, item_of rt ask mine_id s # items)))"

text \<open>\<open>build\<close> on the report of the state engine; \<open>items[:limit]\<close> with a limit that is not negative\<close>

definition build_attention ::
  "runtime \<Rightarrow> exposure \<Rightarrow> string \<Rightarrow> nat \<Rightarrow> state_report \<Rightarrow> attention_queue result" where
  "build_attention rt ask mine_id limit st =
     (case read_signals rt ask mine_id (map signal_as_dict (sp_signals st)) of
        Inl e \<Rightarrow> Inl e
      | Inr (gaps, items) \<Rightarrow>
          (let ranked = sorted_desc ai_score items
           in Inr \<lparr>aq_mine_id = mine_id, aq_state = sp_state st, aq_headline = sp_headline st,
                   aq_items = take limit ranked, aq_item_count = length items,
                   aq_suppressed = max 0 (int (length items) - int limit), aq_knowledge_gaps = gaps,
                   aq_clock = sp_clock st, aq_evaluated_at = sp_evaluated_at st\<rparr>))"

definition attention_as_dict :: "time_format \<Rightarrow> attention_queue \<Rightarrow> dict" where
  "attention_as_dict tf q =
     [(''mine_id'', PStr (aq_mine_id q)), (''state'', PStr (operational_value (aq_state q))),
      (''headline'', PStr (aq_headline q)), (''items'', PList (map (PDict \<circ> item_as_dict) (aq_items q))),
      (''item_count'', PInt (int (aq_item_count q))), (''suppressed'', PInt (aq_suppressed q)),
      (''knowledge_gaps'', PList (map PDict (aq_knowledge_gaps q))), (''clock'', PDict (clock_as_dict tf (aq_clock q))),
      (''evaluated_at'', PStr (tf_iso tf (aq_evaluated_at q)))]"

subsection \<open>What the queue keeps\<close>

lemma reread_simps [simp]:
  "si_key (reread s) = si_key s" "si_severity (reread s) = si_severity s" "si_mode (reread s) = si_mode s"
  "si_evidence (reread s) = si_evidence s" "evaluated (reread s) = evaluated s"
  by (simp_all add: reread_def evaluated_def)

text \<open>A signal that is measured and not normal\<close>

definition pressing :: "signal \<Rightarrow> bool" where
  "pressing s \<longleftrightarrow> evaluated s \<and> si_severity s \<noteq> V_NONE"

lemma read_signals_report:
  "read_signals rt ask mine_id (map signal_as_dict ss)
     = Inr (map (gap_entry \<circ> reread) (filter (\<lambda>s. \<not> evaluated s) ss),
            map (item_of rt ask mine_id \<circ> reread) (filter pressing ss))"
  by (induction ss) (auto simp: signal_roundtrip pressing_def evaluated_def)

lemma pressing_level: "pressing s \<longleftrightarrow> (case signal_level s of None \<Rightarrow> False | Some l \<Rightarrow> 0 < l)"
  by (cases "si_severity s") (auto simp: pressing_def signal_level_def)

subsection \<open>Scores\<close>

lemma item_simps [simp]:
  "ai_key (item_of rt ask m s) = si_key s" "ai_severity (item_of rt ask m s) = si_severity s"
  "ai_evidence (item_of rt ask m s) = evidence_grade s (snd (snd (impact_for ask s)))"
  "ai_score (item_of rt ask m s) = item_score s (fst (impact_for ask s)) (evidence_grade s (snd (snd (impact_for ask s))))"
  by (simp_all add: item_of_def Let_def split: prod.split)

lemma support_range: "0 < support_weight g \<and> support_weight g \<le> 1"
  by (cases g) simp_all

definition base_score :: "signal \<Rightarrow> evidence_quality \<Rightarrow> rat" where
  "base_score s g = severity_weight (si_severity s) * urgency (si_key s) * support_weight g"

lemma item_score_base:
  "item_score s x g = (case x of None \<Rightarrow> base_score s g
     | Some v \<Rightarrow> if v = 0 then base_score s g else base_score s g * (1 + min (1 / 2) (\<bar>v\<bar> / 1000)))"
  by (simp add: item_score_def base_score_def Let_def split: option.split)

lemma item_score_bounds:
  assumes "0 \<le> base_score s g"
  shows "base_score s g \<le> item_score s x g \<and> item_score s x g \<le> base_score s g * (3 / 2)"
proof (cases x)
  case None
  with assms show ?thesis by (simp add: item_score_base)
next
  case (Some v)
  have "1 \<le> 1 + min (1 / 2) (\<bar>v\<bar> / 1000) \<and> 1 + min (1 / 2) (\<bar>v\<bar> / 1000) \<le> 3 / 2"
    by (simp add: min_def)
  then have "base_score s g * 1 \<le> base_score s g * (1 + min (1 / 2) (\<bar>v\<bar> / 1000))
      \<and> base_score s g * (1 + min (1 / 2) (\<bar>v\<bar> / 1000)) \<le> base_score s g * (3 / 2)"
    using assms mult_left_mono by blast
  with Some assms show ?thesis by (simp add: item_score_base)
qed

text \<open>What the impact of each kind of signal rests on\<close>

lemma equipment_grade:
  assumes "si_key s = ''equipment_risk''"
  shows "evidence_grade s (snd (snd (impact_for ask s))) \<noteq> E_HIGH"
proof -
  have "snd (snd (equipment_exposure ask s)) \<noteq> MODEL_BACKED"
    by (simp add: equipment_exposure_def Let_def split: sum.split list.split option.split)
  then show ?thesis
    using assms by (cases "snd (snd (equipment_exposure ask s))") (simp_all add: impact_for_def evidence_grade_def)
qed

lemma no_impact_grade:
  assumes "si_key s = ''open_incidents'' \<or> si_key s = ''maintenance_overdue''" "evaluated s"
  shows "evidence_grade s (snd (snd (impact_for ask s))) = E_LOW"
  using assms by (auto simp: impact_for_def evidence_grade_def evaluated_def)

definition known_keys :: "string list" where
  "known_keys = [''production_gap'', ''equipment_risk'', ''bottleneck'', ''maintenance_overdue'', ''open_incidents'']"

lemma watch_score:
  assumes "si_severity s = V_WATCH" "si_key s \<in> set known_keys" "evaluated s"
  shows "item_score s x (evidence_grade s (snd (snd (impact_for ask s)))) \<le> 23 / 10"
proof -
  define g where "g = evidence_grade s (snd (snd (impact_for ask s)))"
  have "0 \<le> base_score s g \<and> base_score s g * (3 / 2) \<le> 23 / 10"
  proof (cases "si_key s = ''equipment_risk''")
    case True
    then have "g \<noteq> E_HIGH" unfolding g_def by (rule equipment_grade)
    then have "support_weight g \<le> 85 / 100" by (cases g) simp_all
    with True assms(1) support_range [of g] show ?thesis by (simp add: base_score_def urgency_def)
  next
    case False
    show ?thesis
    proof (cases "si_key s = ''open_incidents''")
      case True
      then have "g = E_LOW" unfolding g_def by (intro no_impact_grade assms(3)) simp
      with True assms(1) show ?thesis by (simp add: base_score_def urgency_def)
    next
      case other: False
      with False assms(2) have "urgency (si_key s) \<le> 1 \<and> 0 \<le> urgency (si_key s)"
        by (auto simp: known_keys_def urgency_def)
      with support_range [of g] have "urgency (si_key s) * support_weight g \<le> 1 * 1 \<and> 0 \<le> urgency (si_key s) * support_weight g"
        by (intro conjI mult_mono mult_nonneg_nonneg) simp_all
      moreover have "base_score s g = 3 / 2 * (urgency (si_key s) * support_weight g)"
        using assms(1) by (simp add: base_score_def)
      ultimately show ?thesis by linarith
    qed
  qed
  then show ?thesis
    using item_score_bounds [of s g x] unfolding g_def [symmetric] by linarith
qed

text \<open>A critical signal is a production gap of known size, or open incidents.\<close>

definition critical_ok :: "signal \<Rightarrow> bool" where
  "critical_ok s \<longleftrightarrow> si_key s \<in> set known_keys
     \<and> (si_severity s = V_CRITICAL \<longrightarrow>
          (si_key s = ''production_gap'' \<and> number_in (column (si_evidence s) ''gap_t'') \<noteq> None) \<or> si_key s = ''open_incidents'')"

lemma critical_score:
  assumes "critical_ok s" "si_severity s = V_CRITICAL" "evaluated s"
  shows "26 / 10 \<le> item_score s x (evidence_grade s (snd (snd (impact_for ask s))))"
proof -
  define g where "g = evidence_grade s (snd (snd (impact_for ask s)))"
  consider "si_key s = ''production_gap''" "number_in (column (si_evidence s) ''gap_t'') \<noteq> None" | "si_key s = ''open_incidents''"
    using assms(1,2) by (auto simp: critical_ok_def)
  then have "26 / 10 \<le> base_score s g"
  proof cases
    case 1
    with assms(3) have "g = E_HIGH"
      by (auto simp: g_def impact_for_def evidence_grade_def evaluated_def Let_def)
    with 1 assms(2) show ?thesis by (simp add: base_score_def urgency_def)
  next
    case 2
    then have "g = E_LOW" unfolding g_def by (intro no_impact_grade assms(3)) simp
    with 2 assms(2) show ?thesis by (simp add: base_score_def urgency_def)
  qed
  then show ?thesis
    using item_score_bounds [of s g x] unfolding g_def [symmetric] by linarith
qed

lemma equipment_signal_key: "equipment_signal w src = Inr s \<Longrightarrow> si_key s = ''equipment_risk'' \<and> si_severity s \<noteq> V_CRITICAL"
  by (auto simp: equipment_signal_def unmeasured_signal_def Let_def split: sum.splits list.splits if_splits prod.splits)

lemma maintenance_signal_key: "maintenance_signal w src = Inr s \<Longrightarrow> si_key s = ''maintenance_overdue'' \<and> si_severity s \<noteq> V_CRITICAL"
  by (auto simp: maintenance_signal_def unmeasured_signal_def Let_def split: sum.splits option.splits if_splits prod.splits)

lemma bottleneck_signal_key: "bottleneck_signal w src mine_id = Inr s \<Longrightarrow> si_key s = ''bottleneck'' \<and> si_severity s \<noteq> V_CRITICAL"
  by (auto simp: bottleneck_signal_def unmeasured_signal_def Let_def split: sum.splits option.splits if_splits prod.splits)

lemma incident_signal_key: "open_incident_signal w src = Inr s \<Longrightarrow> si_key s = ''open_incidents''"
  by (auto simp: open_incident_signal_def Let_def split: sum.splits)

lemma production_signal_key:
  assumes "production_signal w src = Inr s"
  shows "si_key s = ''production_gap'' \<and> (evaluated s \<longrightarrow> number_in (column (si_evidence s) ''gap_t'') \<noteq> None)"
proof -
  have gap: "number_in (column [(''shifts_considered'', a), (''planned_t'', b), (''actual_t'', c), (''gap_t'', PFloat g)] ''gap_t'') \<noteq> None"
    for a b c g by (simp add: column_def number_in_def)
  have "case production_signal w src of Inl e \<Rightarrow> True
      | Inr s \<Rightarrow> si_key s = ''production_gap'' \<and> (evaluated s \<longrightarrow> number_in (column (si_evidence s) ''gap_t'') \<noteq> None)"
    unfolding production_signal_def Let_def case_prod_beta
    by (simp add: unmeasured_signal_def evaluated_def gap del: not_None_eq split: sum.split list.split)
  with assms show ?thesis
    by simp
qed

lemma signals_critical_ok:
  assumes "s \<in> set (sp_signals (mine_state w src mine_id c now))" "evaluated s"
  shows "critical_ok s"
proof -
  have "\<not> evaluated (failed_signal name e)" for name e
    by (simp add: failed_signal_def unmeasured_signal_def evaluated_def)
  with assms consider "production_signal w src = Inr s" | "equipment_signal w src = Inr s" | "maintenance_signal w src = Inr s"
    | "bottleneck_signal w src mine_id = Inr s" | "open_incident_signal w src = Inr s"
    by (auto simp: mine_state_def collect_signals_def operational_answers_def Let_def split: sum.splits)
  then show ?thesis
  proof cases
    case 1
    with production_signal_key [OF 1] assms(2) show ?thesis by (simp add: critical_ok_def known_keys_def)
  next
    case 2
    with equipment_signal_key [OF 2] show ?thesis by (simp add: critical_ok_def known_keys_def)
  next
    case 3
    with maintenance_signal_key [OF 3] show ?thesis by (simp add: critical_ok_def known_keys_def)
  next
    case 4
    with bottleneck_signal_key [OF 4] show ?thesis by (simp add: critical_ok_def known_keys_def)
  next
    case 5
    with incident_signal_key [OF 5] show ?thesis by (simp add: critical_ok_def known_keys_def)
  qed
qed

lemma critical_above_watch:
  assumes "critical_ok s" "evaluated s" "si_severity s = V_CRITICAL" "critical_ok t" "evaluated t" "si_severity t = V_WATCH"
  shows "ai_score (item_of rt ask m t) < ai_score (item_of rt ask m s)"
proof -
  have "26 / 10 \<le> ai_score (item_of rt ask m s)" "ai_score (item_of rt ask m t) \<le> 23 / 10"
    using critical_score [OF assms(1,3,2)] watch_score [OF assms(6) _ assms(5)] assms(4) by (simp_all add: critical_ok_def)
  then show ?thesis by linarith
qed

text \<open>One item is ranked at least as high as another, and not a mere watch above a critical one.\<close>

definition well_ranked :: "attention_item \<Rightarrow> attention_item \<Rightarrow> bool" where
  "well_ranked a b \<longleftrightarrow> ai_score b \<le> ai_score a \<and> \<not> (ai_severity a = V_WATCH \<and> ai_severity b = V_CRITICAL)"

definition mine_levels :: "state_world \<Rightarrow> state_source \<Rightarrow> string \<Rightarrow> nat option list" where
  "mine_levels w src mine_id =
     [production_level w src, equipment_level w src, maintenance_level w src, flow_level w src mine_id, incident_level w src]"

lemma mine_state_levels: "map signal_level (sp_signals (mine_state w src mine_id c now)) = mine_levels w src mine_id"
  by (simp add: mine_state_def Let_def collect_levels operational_answers_def mine_levels_def production_signal_level
      equipment_signal_level maintenance_signal_level bottleneck_signal_level incident_signal_level)

lemma filter_levels:
  "length (filter P (map signal_level ss)) = length (filter (\<lambda>s. P (signal_level s)) ss)"
  by (simp add: filter_map comp_def)

text \<open>
  The attention queue is the state of the mine and nothing else. A check whose reading has reached
  a limit gives exactly one item, a check without a reading exactly one gap in knowledge and never an
  item, a check within its limits neither. The queue shows the highest scores first, as many as the
  limit allows, and says how many it suppresses; whatever tonnage is at stake, an item that is only
  to be watched never stands above a critical one.
\<close>

theorem attention_queue_is_state:
  "let st = mine_state w src mine_id c now; levels = mine_levels w src mine_id
   in \<exists>q. build_attention rt ask mine_id limit st = Inr q
        \<and> aq_item_count q = length (filter (\<lambda>l. case l of None \<Rightarrow> False | Some n \<Rightarrow> 0 < n) levels)
        \<and> length (aq_knowledge_gaps q) = length (filter (\<lambda>l. l = None) levels)
        \<and> length (aq_items q) = min limit (aq_item_count q)
        \<and> aq_suppressed q = int (aq_item_count q) - int (length (aq_items q))
        \<and> sorted_wrt well_ranked (aq_items q)
        \<and> list_all (\<lambda>i. ai_evidence i \<noteq> E_UNAVAILABLE) (aq_items q)"
proof -
  define ss where "ss = sp_signals (mine_state w src mine_id c now)"
  define items where "items = map (item_of rt ask mine_id \<circ> reread) (filter pressing ss)"
  define ranked where "ranked = sorted_desc ai_score items"
  have item: "\<exists>s. i = item_of rt ask mine_id (reread s) \<and> critical_ok s \<and> evaluated s" if "i \<in> set ranked" for i
    using that signals_critical_ok by (auto simp: ranked_def items_def ss_def pressing_def)
  have ranks: "well_ranked a b" if mem: "a \<in> set ranked" "b \<in> set ranked" and "ai_score b \<le> ai_score a" for a b
  proof -
    obtain s where s: "a = item_of rt ask mine_id (reread s)" "critical_ok s" "evaluated s"
      using item [OF mem(1)] by (elim exE conjE) (rule that)
    obtain t where t: "b = item_of rt ask mine_id (reread t)" "critical_ok t" "evaluated t"
      using item [OF mem(2)] by (elim exE conjE) (rule that)
    have ok: "critical_ok (reread s)" "critical_ok (reread t)"
      using s(2) t(2) by (simp_all add: critical_ok_def)
    have "\<not> (ai_severity a = V_WATCH \<and> ai_severity b = V_CRITICAL)"
    proof
      assume sev: "ai_severity a = V_WATCH \<and> ai_severity b = V_CRITICAL"
      have "ai_score a < ai_score b"
        unfolding s(1) t(1) by (rule critical_above_watch [OF ok(2) _ _ ok(1)]) (use sev s t in simp_all)
      with \<open>ai_score b \<le> ai_score a\<close> show False by simp
    qed
    with \<open>ai_score b \<le> ai_score a\<close> show ?thesis
      by (simp add: well_ranked_def)
  qed
  have "sorted_wrt (\<lambda>a b. ai_score b \<le> ai_score a) ranked"
    unfolding ranked_def by (rule sorted_desc_wrt)
  then have "sorted_wrt well_ranked ranked"
    by (rule sorted_wrt_mono_rel [rotated]) (rule ranks)
  then have sorted: "sorted_wrt well_ranked (take limit ranked)"
    by (rule sorted_wrt_take)
  have "ai_evidence i \<noteq> E_UNAVAILABLE" if "i \<in> set (take limit ranked)" for i
    using item [OF in_set_takeD [OF that]] by (auto simp: evidence_grade_def evaluated_def split: if_splits)
  then have graded: "list_all (\<lambda>i. ai_evidence i \<noteq> E_UNAVAILABLE) (take limit ranked)"
    by (simp add: list_all_iff)
  have len: "length ranked = length items" "length items = length (filter pressing ss)"
    by (simp_all add: ranked_def items_def sorted_desc_def)
  have count: "length (filter pressing ss)
      = length (filter (\<lambda>l. case l of None \<Rightarrow> False | Some n \<Rightarrow> 0 < n) (mine_levels w src mine_id))"
    unfolding mine_state_levels [symmetric, of w src mine_id c now] filter_levels ss_def
    by (rule arg_cong [where f = length], rule filter_cong) (simp_all add: pressing_level)
  have gaps: "length (filter (\<lambda>s. \<not> evaluated s) ss) = length (filter (\<lambda>l. l = None) (mine_levels w src mine_id))"
    unfolding mine_state_levels [symmetric, of w src mine_id c now] filter_levels ss_def by (simp add: signal_level_def)
  define st where "st = mine_state w src mine_id c now"
  define q where "q = \<lparr>aq_mine_id = mine_id, aq_state = sp_state st, aq_headline = sp_headline st,
     aq_items = take limit ranked, aq_item_count = length items, aq_suppressed = max 0 (int (length items) - int limit),
     aq_knowledge_gaps = map (gap_entry \<circ> reread) (filter (\<lambda>s. \<not> evaluated s) ss), aq_clock = sp_clock st,
     aq_evaluated_at = sp_evaluated_at st\<rparr>"
  have built: "build_attention rt ask mine_id limit (mine_state w src mine_id c now) = Inr q"
    unfolding build_attention_def ss_def [symmetric] read_signals_report
    by (simp add: q_def st_def items_def ranked_def)
  have q: "aq_item_count q = length items" "aq_items q = take limit ranked"
    "aq_suppressed q = max 0 (int (length items) - int limit)"
    "aq_knowledge_gaps q = map (gap_entry \<circ> reread) (filter (\<lambda>s. \<not> evaluated s) ss)"
    by (simp_all add: q_def)
  have "length (aq_items q) = min limit (length items)"
    by (simp add: q len(1) min.commute)
  with built sorted graded len(2) count gaps q show ?thesis
    unfolding Let_def by (intro exI [of _ q] conjI) simp_all
qed

text \<open>
  Only a watch is kept below a critical item. A constraint of the material flow that is merely a
  disruption outranks critical open incidents, and so does a mere watch on production a
  maintenance backlog that is a disruption.
\<close>

lemma disruption_outranks_critical:
  assumes "si_key s = ''bottleneck''" "si_severity s = V_DISRUPTION" "evaluated s"
    "number_in (column (si_evidence s) ''headroom_t'') = Some x" "0 \<le> x"
    and "si_key t = ''open_incidents''" "si_severity t = V_CRITICAL" "evaluated t"
  shows "ai_score (item_of rt ask m t) < ai_score (item_of rt ask m s)"
proof -
  have "evidence_grade s (snd (snd (impact_for ask s))) = E_HIGH"
    using assms(1,3,4,5) by (simp add: impact_for_def evidence_grade_def evaluated_def)
  then have "27 / 10 \<le> ai_score (item_of rt ask m s)"
    using item_score_bounds [of s E_HIGH "fst (impact_for ask s)"] assms(1,2) by (simp add: base_score_def urgency_def)
  moreover have "impact_for ask t
      = (None, ''Production impact cannot be reliably estimated from available data.'', INSUFFICIENT_DATA)"
    using assms(6) by (simp add: impact_for_def)
  then have "ai_score (item_of rt ask m t) = 264 / 100"
    using assms(6-8) by (simp add: item_score_base base_score_def urgency_def evidence_grade_def evaluated_def)
  ultimately show ?thesis by simp
qed

end
