(* ===== verification/Recommendations.thy ===== *)
theory Recommendations
  imports Attention ScenarioEngine
begin

text \<open>
  What to do about what needs attention (\<open>app/api/core/recommendations.py\<close>): the catalogue actions
  that are relevant to an item, evaluated by the scenario engine, offered or refused.
\<close>

subsection \<open>Relevance\<close>

definition RESPONSE_MAP :: "(string \<times> string list) list" where
  "RESPONSE_MAP =
     [(''production_gap'', [''equipment_redeploy'', ''fleet_reroute'', ''crusher_speed_trim'', ''blast_reschedule'',
         ''extend_operating_hours'']),
      (''bottleneck'', [''crusher_speed_trim'', ''equipment_redeploy'', ''fleet_reroute'', ''blast_reschedule'']),
      (''equipment_risk'', [''equipment_redeploy'', ''maintenance_defer'']),
      (''maintenance_overdue'', [''equipment_redeploy'']),
      (''open_incidents'', [])]"

definition BOTTLENECK_STAGE_ACTIONS :: "(string \<times> string list) list" where
  "BOTTLENECK_STAGE_ACTIONS =
     [(''face'', [''blast_reschedule'', ''extend_operating_hours'']),
      (''loading'', [''equipment_redeploy'', ''extend_operating_hours'']),
      (''haulage'', [''fleet_reroute'', ''equipment_redeploy'']),
      (''processing'', [''crusher_speed_trim'']),
      (''stockpile'', [''fleet_reroute''])]"

text \<open>The stage that the last driver with one names\<close>

definition driver_stage :: "dict list \<Rightarrow> string" where
  "driver_stage drivers = fold (\<lambda>d stage. let t = text_of (column d ''stage'') in if t = [] then stage else t) drivers []"

definition relevant_keys :: "attention_item \<Rightarrow> string list" where
  "relevant_keys item =
     (let keys = (case map_of RESPONSE_MAP (ai_key item) of None \<Rightarrow> [] | Some ks \<Rightarrow> ks);
          stage = driver_stage (ai_drivers item)
      in if ai_key item = ''bottleneck''
         then (case map_of BOTTLENECK_STAGE_ACTIONS stage of Some ks \<Rightarrow> if stage = [] then keys else ks | None \<Rightarrow> keys)
         else keys)"

definition relevant_specs :: "attention_item \<Rightarrow> intervention_spec list" where
  "relevant_specs item = known catalogue_spec (relevant_keys item)"

subsection \<open>Recommendations\<close>

record recommendation =
  rn_key :: string
  rn_title :: string
  rn_addresses :: string
  rn_action :: string
  rn_reason :: string
  rn_delta :: "rat option"
  rn_mode :: calculation_mode
  rn_method :: string
  rn_cost :: "rat option"
  rn_cost_basis :: string
  rn_risk :: rat
  rn_evidence :: evidence_quality
  rn_feasible :: bool
  rn_constraint_summary :: string
  rn_tradeoffs :: "string list"
  rn_horizon :: string
  rn_owner :: string
  rn_approval_roles :: "string list"
  rn_closes_pct :: "rat option"

definition recommendation_as_dict :: "recommendation \<Rightarrow> dict" where
  "recommendation_as_dict r =
     [(''key'', PStr (rn_key r)), (''title'', PStr (rn_title r)), (''addresses'', PStr (rn_addresses r)),
      (''action'', PStr (rn_action r)), (''reason'', PStr (rn_reason r)), (''expected_delta_t'', opt_round 1 (rn_delta r)),
      (''calculation_mode'', PStr (calculation_mode_value (rn_mode r))), (''method'', PStr (rn_method r)),
      (''cost_inr'', opt_round 0 (rn_cost r)), (''cost_basis'', PStr (rn_cost_basis r)),
      (''risk_delta'', PFloat (py_round 3 (rn_risk r))), (''evidence_quality'', PStr (quality_value (rn_evidence r))),
      (''feasible'', PBool (rn_feasible r)), (''constraint_summary'', PStr (rn_constraint_summary r)),
      (''tradeoffs'', PList (map PStr (rn_tradeoffs r))), (''horizon'', PStr (rn_horizon r)), (''owner'', PStr (rn_owner r)),
      (''approval_roles'', PList (map PStr (rn_approval_roles r))), (''closes_pct'', opt_round 1 (rn_closes_pct r)),
      (''requires_approval'', PBool True)]"

text \<open>The impact of an item as its payload has it\<close>

definition item_impact :: "attention_item \<Rightarrow> rat option" where
  "item_impact item = map_option (py_round 1) (ai_impact item)"

definition closes_pct :: "rat option \<Rightarrow> rat option \<Rightarrow> rat option" where
  "closes_pct impact delta =
     (case (impact, delta) of
        (Some i, Some d) \<Rightarrow> if i = 0 \<or> d = 0 then None else Some (min 100 (100 * d / \<bar>i\<bar>))
      | _ \<Rightarrow> None)"

definition recommendation_reason :: "intervention_outcome \<Rightarrow> attention_item \<Rightarrow> string" where
  "recommendation_reason o' item =
     (case io_delta o' of
        None \<Rightarrow> ''Effect on '' @ py_lower (ai_title item) @ '' could not be estimated: '' @ io_method o' @ ''.''
      | Some d \<Rightarrow>
          (case closes_pct (item_impact item) (Some d) of
             Some c \<Rightarrow>
               ''Expected to recover '' @ fmt_signed fmt_commas 1 d @ '' t, closing about '' @ fmt_fixed 0 c
                 @ ''% of the '' @ fmt_commas 1 \<bar>opt_num (item_impact item)\<bar> @ '' t at stake.''
           | None \<Rightarrow> ''Expected to change production by '' @ fmt_signed fmt_commas 1 d @ '' t.''))"

definition from_outcome :: "intervention_outcome \<Rightarrow> intervention_spec \<Rightarrow> attention_item \<Rightarrow> recommendation" where
  "from_outcome o' spec item =
     \<lparr>rn_key = io_key o', rn_title = iv_title spec, rn_addresses = ai_key item, rn_action = iv_description spec,
      rn_reason = recommendation_reason o' item, rn_delta = io_delta o', rn_mode = io_mode o', rn_method = io_method o',
      rn_cost = io_cost o', rn_cost_basis = io_cost_basis o', rn_risk = io_risk o',
      rn_evidence = ea_quality (io_evidence o'), rn_feasible = outcome_feasible o',
      rn_constraint_summary = report_reason (io_constraints o'), rn_tradeoffs = io_tradeoffs o',
      rn_horizon = iv_horizon spec, rn_owner = iv_owner spec, rn_approval_roles = iv_approval_roles spec,
      rn_closes_pct = closes_pct (item_impact item) (io_delta o')\<rparr>"

text \<open>\<open>_outcome_stub\<close>: what the ranker reads of a recommendation\<close>

definition outcome_stub :: "recommendation \<Rightarrow> intervention_outcome" where
  "outcome_stub r =
     \<lparr>io_key = rn_key r, io_title = rn_title r, io_description = rn_action r, io_magnitude = 10 / 100,
      io_delta = rn_delta r, io_mode = rn_mode r, io_method = rn_method r,
      io_constraints = \<lparr>cr_action_type = rn_key r, cr_checks = []\<rparr>,
      io_evidence = \<lparr>ea_quality = rn_evidence r, ea_factors = [], ea_limiters = []\<rparr>, io_cost = rn_cost r,
      io_cost_basis = rn_cost_basis r, io_fuel = None, io_risk = rn_risk r, io_tradeoffs = [], io_rejected = None\<rparr>"

subsection \<open>Offers\<close>

text \<open>What is offered and what is blocked, each in the order in which it was evaluated\<close>

type_synonym offers = "recommendation list \<times> recommendation list"

definition answered :: "offers \<Rightarrow> string \<Rightarrow> bool" where
  "answered os key \<longleftrightarrow> key \<in> rn_key ` set (fst os) \<or> key \<in> rn_key ` set (snd os)"

definition offer ::
  "constraint_world \<Rightarrow> constraint_source \<Rightarrow> mine_economics \<Rightarrow> scenario_context \<Rightarrow> attention_item \<Rightarrow> intervention_spec
     \<Rightarrow> offers \<Rightarrow> offers result" where
  "offer w src econ ctx item spec os =
     (if answered os (iv_key spec) then Inr os
      else
        (case evaluate_intervention w src econ spec ctx (10 / 100) (extra_inputs spec) of
           Inl e \<Rightarrow> Inl e
         | Inr o' \<Rightarrow>
             (let r = from_outcome o' spec item
              in if outcome_available o' \<and> recovers o' then Inr (fst os @ [r], snd os) else Inr (fst os, snd os @ [r]))))"

fun offer_specs ::
  "constraint_world \<Rightarrow> constraint_source \<Rightarrow> mine_economics \<Rightarrow> scenario_context \<Rightarrow> attention_item \<Rightarrow> intervention_spec list
     \<Rightarrow> offers \<Rightarrow> offers result" where
  "offer_specs w src econ ctx item [] os = Inr os"
| "offer_specs w src econ ctx item (spec # specs) os =
     (case offer w src econ ctx item spec os of
        Inl e \<Rightarrow> Inl e | Inr os' \<Rightarrow> offer_specs w src econ ctx item specs os')"

fun offer_items ::
  "constraint_world \<Rightarrow> constraint_source \<Rightarrow> mine_economics \<Rightarrow> scenario_context \<Rightarrow> attention_item list
     \<Rightarrow> offers \<Rightarrow> offers result" where
  "offer_items w src econ ctx [] os = Inr os"
| "offer_items w src econ ctx (item # items) os =
     (case offer_specs w src econ ctx item (relevant_specs item) os of
        Inl e \<Rightarrow> Inl e | Inr os' \<Rightarrow> offer_items w src econ ctx items os')"

record recommendation_set =
  rb_mine_id :: string
  rb_objective :: "scenario_objective option"
  rb_recommendations :: "recommendation list"
  rb_blocked :: "recommendation list"
  rb_baseline :: "rat option"
  rb_planned :: "rat option"
  rb_note :: "string option"

definition no_recommendations :: "string \<Rightarrow> string \<Rightarrow> recommendation_set" where
  "no_recommendations mine_id note =
     \<lparr>rb_mine_id = mine_id, rb_objective = None, rb_recommendations = [], rb_blocked = [], rb_baseline = None,
      rb_planned = None, rb_note = Some note\<rparr>"

definition build_recommendations ::
  "constraint_world \<Rightarrow> constraint_source \<Rightarrow> mine_economics \<Rightarrow> string \<Rightarrow> attention_item list
     \<Rightarrow> scenario_context result \<Rightarrow> scenario_objective \<Rightarrow> nat \<Rightarrow> recommendation_set result" where
  "build_recommendations w src econ mine_id items context' objective limit =
     (if items = [] then Inr (no_recommendations mine_id ''Nothing currently requires attention at this mine.'')
      else
        (case context' of
           Inl e \<Rightarrow> Inl e
         | Inr ctx \<Rightarrow>
             (case cx_baseline ctx of
                None \<Rightarrow>
                  Inr (no_recommendations mine_id (''No production baseline exists for '' @ mine_id
                    @ '', so the effect of any action cannot be estimated.''))
              | Some baseline \<Rightarrow>
                  (case offer_items w src econ ctx items ([], []) of
                     Inl e \<Rightarrow> Inl e
                   | Inr (offered, blocked) \<Rightarrow>
                       (let ranked = sorted_desc (\<lambda>r. outcome_score objective (outcome_stub r)) offered
                        in Inr \<lparr>rb_mine_id = mine_id, rb_objective = Some objective,
                                rb_recommendations = take limit ranked, rb_blocked = blocked,
                                rb_baseline = Some (py_round 1 baseline),
                                rb_planned = (if truthy_num (cx_planned ctx) then map_option (py_round 1) (cx_planned ctx) else None),
                                rb_note = (if ranked \<noteq> [] then None
                                  else Some ''No permitted action is currently available for the detected problems.'')\<rparr>)))))"

subsection \<open>One problem claims each action\<close>

text \<open>The pairs of a problem and an action in the order of the queue, and the first with a given action\<close>

definition relevant_pairs :: "attention_item list \<Rightarrow> (attention_item \<times> intervention_spec) list" where
  "relevant_pairs items = concat (map (\<lambda>item. map (Pair item) (relevant_specs item)) items)"

definition pair_key :: "attention_item \<times> intervention_spec \<Rightarrow> string" where
  "pair_key p = iv_key (snd p)"

definition claim ::
  "(attention_item \<times> intervention_spec) list \<Rightarrow> string \<Rightarrow> (attention_item \<times> intervention_spec) option" where
  "claim pairs key = find (\<lambda>p. pair_key p = key) pairs"

definition proposal ::
  "constraint_world \<Rightarrow> constraint_source \<Rightarrow> mine_economics \<Rightarrow> scenario_context \<Rightarrow> intervention_spec
     \<Rightarrow> intervention_outcome result" where
  "proposal w src econ ctx spec = evaluate_intervention w src econ spec ctx (10 / 100) (extra_inputs spec)"

definition effective :: "intervention_outcome \<Rightarrow> bool" where
  "effective o' \<longleftrightarrow> outcome_available o' \<and> recovers o'"

text \<open>The recommendation states the outcome of the action for the problem that claims it; \<open>good\<close> tells which outcomes.\<close>

definition states_claim ::
  "constraint_world \<Rightarrow> constraint_source \<Rightarrow> mine_economics \<Rightarrow> scenario_context \<Rightarrow> (attention_item \<times> intervention_spec) list
     \<Rightarrow> (intervention_outcome \<Rightarrow> bool) \<Rightarrow> recommendation \<Rightarrow> bool" where
  "states_claim w src econ ctx pairs good r \<longleftrightarrow>
     (case claim pairs (rn_key r) of
        None \<Rightarrow> False
      | Some (item, spec) \<Rightarrow>
          (case proposal w src econ ctx spec of
             Inl _ \<Rightarrow> False
           | Inr o' \<Rightarrow> good o' \<and> r = from_outcome o' spec item))"

definition claims_answered ::
  "constraint_world \<Rightarrow> constraint_source \<Rightarrow> mine_economics \<Rightarrow> scenario_context \<Rightarrow> (attention_item \<times> intervention_spec) list
     \<Rightarrow> offers \<Rightarrow> bool" where
  "claims_answered w src econ ctx pairs os \<longleftrightarrow>
     distinct (map rn_key (fst os @ snd os)) \<and> rn_key ` set (fst os @ snd os) = pair_key ` set pairs
     \<and> list_all (states_claim w src econ ctx pairs effective) (fst os)
     \<and> list_all (states_claim w src econ ctx pairs (\<lambda>o'. \<not> effective o')) (snd os)"

fun offer_pairs ::
  "constraint_world \<Rightarrow> constraint_source \<Rightarrow> mine_economics \<Rightarrow> scenario_context
     \<Rightarrow> (attention_item \<times> intervention_spec) list \<Rightarrow> offers \<Rightarrow> offers result" where
  "offer_pairs w src econ ctx [] os = Inr os"
| "offer_pairs w src econ ctx ((item, spec) # pairs) os =
     (case offer w src econ ctx item spec os of
        Inl e \<Rightarrow> Inl e | Inr os' \<Rightarrow> offer_pairs w src econ ctx pairs os')"

lemma offer_pairs_append:
  "offer_pairs w src econ ctx (ps @ qs) os =
     (case offer_pairs w src econ ctx ps os of Inl e \<Rightarrow> Inl e | Inr os' \<Rightarrow> offer_pairs w src econ ctx qs os')"
  by (induction ps arbitrary: os) (auto split: sum.split)

lemma offer_specs_pairs: "offer_specs w src econ ctx item specs os = offer_pairs w src econ ctx (map (Pair item) specs) os"
  by (induction specs arbitrary: os) (auto split: sum.split)

lemma offer_items_pairs: "offer_items w src econ ctx items os = offer_pairs w src econ ctx (relevant_pairs items) os"
  by (induction items arbitrary: os)
     (auto simp: relevant_pairs_def offer_pairs_append offer_specs_pairs split: sum.split)

lemma evaluate_key: "evaluate_intervention w src econ spec ctx m extra = Inr o' \<Longrightarrow> io_key o' = iv_key spec"
  by (auto simp: evaluate_intervention_def Let_def split: sum.splits if_splits option.splits)

lemma evaluate_returns:
  "spec \<in> set CATALOGUE \<Longrightarrow> \<exists>o'. evaluate_intervention w src econ spec ctx m (extra_inputs spec) = Inr o'"
  using constraints_return [of spec w src "cx_mine_id ctx" ctx m]
  by (auto simp: evaluate_intervention_def Let_def split: option.splits)

lemma relevant_specs_catalogue: "set (relevant_specs item) \<subseteq> set CATALOGUE"
  by (auto simp: relevant_specs_def known_mem catalogue_spec_def dest: find_SomeD)

lemma from_outcome_key [simp]: "rn_key (from_outcome o' spec item) = io_key o'"
  by (simp add: from_outcome_def)

lemma states_claim_extend:
  "states_claim w src econ ctx ps good r \<Longrightarrow> states_claim w src econ ctx (ps @ qs) good r"
  by (auto simp: states_claim_def claim_def find_append split: option.splits)

lemma offer_step:
  assumes ok: "claims_answered w src econ ctx ps os" and spec: "spec \<in> set CATALOGUE"
  shows "case offer w src econ ctx item spec os of
           Inl _ \<Rightarrow> False | Inr os' \<Rightarrow> claims_answered w src econ ctx (ps @ [(item, spec)]) os'"
proof -
  have keys: "answered os (iv_key spec) \<longleftrightarrow> iv_key spec \<in> pair_key ` set ps"
    using ok by (auto simp: answered_def claims_answered_def image_Un [symmetric])
  obtain o' where o': "evaluate_intervention w src econ spec ctx (10 / 100) (extra_inputs spec) = Inr o'"
    using evaluate_returns [OF spec] by blast
  note key = evaluate_key [OF o']
  have old: "list_all (states_claim w src econ ctx (ps @ [(item, spec)]) good) rs"
    if "list_all (states_claim w src econ ctx ps good) rs" for good rs
    using that by (auto simp: list_all_iff intro: states_claim_extend)
  show ?thesis
  proof (cases "iv_key spec \<in> pair_key ` set ps")
    case True
    with ok keys old show ?thesis
      by (auto simp: offer_def claims_answered_def pair_key_def insert_absorb)
  next
    case False
    then have "claim ps (iv_key spec) = None"
      by (force simp: claim_def find_None_iff)
    then have "states_claim w src econ ctx (ps @ [(item, spec)]) good (from_outcome o' spec item) \<longleftrightarrow> good o'" for good
      using o' key by (simp add: states_claim_def claim_def find_append pair_key_def proposal_def)
    moreover have "iv_key spec \<notin> rn_key ` set (fst os)" "iv_key spec \<notin> rn_key ` set (snd os)"
      using False keys by (auto simp: answered_def)
    ultimately show ?thesis
      using ok keys False old o' key
      by (auto simp: offer_def claims_answered_def effective_def pair_key_def Let_def image_Un)
  qed
qed

lemma offer_pairs_answered:
  assumes "claims_answered w src econ ctx ps os" "snd ` set qs \<subseteq> set CATALOGUE"
  shows "case offer_pairs w src econ ctx qs os of Inl _ \<Rightarrow> False | Inr os' \<Rightarrow> claims_answered w src econ ctx (ps @ qs) os'"
  using assms
proof (induction qs arbitrary: ps os)
  case (Cons q qs)
  obtain item spec where q: "q = (item, spec)" by fastforce
  obtain os' where os': "offer w src econ ctx item spec os = Inr os'"
      "claims_answered w src econ ctx (ps @ [(item, spec)]) os'"
    using offer_step [OF Cons.prems(1), of spec item] Cons.prems(2) q by (auto split: sum.splits)
  show ?case
    using Cons.IH [OF os'(2)] Cons.prems(2) os'(1) q by (auto split: sum.splits)
qed simp

lemma relevant_pairs_catalogue: "snd ` set (relevant_pairs items) \<subseteq> set CATALOGUE"
  using relevant_specs_catalogue by (fastforce simp: relevant_pairs_def)

lemma offer_items_answered:
  "case offer_items w src econ ctx items ([], []) of
     Inl _ \<Rightarrow> False | Inr os \<Rightarrow> claims_answered w src econ ctx (relevant_pairs items) os"
  using offer_pairs_answered [OF _ relevant_pairs_catalogue, of w src econ ctx "[]" "([], [])" items]
  by (auto simp: offer_items_pairs claims_answered_def [of _ _ _ _ "[]" "([], [])"] split: sum.splits)

text \<open>An effective outcome is of an action that the rules of the mine permit.\<close>

lemma effective_permitted:
  assumes "proposal w src econ ctx spec = Inr o'" "effective o'"
  shows "permits w src (iv_key spec) (constraint_details ctx (10 / 100) (extra_inputs spec)) \<and> (\<exists>d > 0. io_delta o' = Some d)"
proof -
  obtain rep where rep: "evaluate_constraints w src (iv_key spec) (cx_mine_id ctx)
      (constraint_details ctx (10 / 100) (extra_inputs spec)) = Inr rep"
    using assms(1) by (auto simp: proposal_def evaluate_intervention_def split: sum.splits)
  have "feasible rep"
    using assms rep
    by (auto simp: proposal_def evaluate_intervention_def effective_def outcome_available_def Let_def split: if_splits)
  moreover have "\<exists>d > 0. io_delta o' = Some d"
    using assms(2) by (auto simp: effective_def recovers_def outcome_available_def opt_num_def)
  ultimately show ?thesis
    using rep evaluate_permits by blast
qed

text \<open>The offer is safe: it is what the claim of the action proposes, gains tonnes and is permitted.\<close>

definition safe_offer ::
  "constraint_world \<Rightarrow> constraint_source \<Rightarrow> mine_economics \<Rightarrow> scenario_context \<Rightarrow> (attention_item \<times> intervention_spec) list
     \<Rightarrow> recommendation \<Rightarrow> bool" where
  "safe_offer w src econ ctx pairs r \<longleftrightarrow>
     states_claim w src econ ctx pairs effective r \<and> opt_num (rn_delta r) > 0
     \<and> (case claim pairs (rn_key r) of
          None \<Rightarrow> False
        | Some (item, spec) \<Rightarrow> permits w src (rn_key r) (constraint_details ctx (10 / 100) (extra_inputs spec)))"

lemma claim_key: "claim pairs key = Some (item, spec) \<Longrightarrow> iv_key spec = key"
  unfolding claim_def using find_SomeD(1) by (fastforce simp: pair_key_def)

lemma claimed_safe:
  assumes "states_claim w src econ ctx pairs effective r"
  shows "safe_offer w src econ ctx pairs r"
proof -
  obtain item spec o' where c: "claim pairs (rn_key r) = Some (item, spec)" "proposal w src econ ctx spec = Inr o'"
      "effective o'" "r = from_outcome o' spec item"
    using assms unfolding states_claim_def by (cases "claim pairs (rn_key r)"; force split: sum.splits)
  show ?thesis
    using assms effective_permitted [OF c(2,3)] claim_key [OF c(1)] c(1,4)
    by (auto simp: safe_offer_def from_outcome_def opt_num_def)
qed

text \<open>The loop, the ranking and the cut together\<close>

lemma recommendations_answer:
  "case build_recommendations w src econ mine_id items (Inr ctx) objective limit of
     Inl _ \<Rightarrow> False
   | Inr b \<Rightarrow>
       (if cx_baseline ctx = None then rb_recommendations b = [] \<and> rb_blocked b = []
        else \<exists>offered. rb_recommendations b = take limit offered
          \<and> sorted_wrt (\<lambda>r s. outcome_score objective (outcome_stub s) \<le> outcome_score objective (outcome_stub r)) offered
          \<and> claims_answered w src econ ctx (relevant_pairs items) (offered, rb_blocked b)
          \<and> list_all (safe_offer w src econ ctx (relevant_pairs items)) offered)"
proof (cases "cx_baseline ctx")
  case None
  then show ?thesis by (simp add: build_recommendations_def no_recommendations_def)
next
  case (Some baseline)
  obtain offered blocked where os: "offer_items w src econ ctx items ([], []) = Inr (offered, blocked)"
      "claims_answered w src econ ctx (relevant_pairs items) (offered, blocked)"
    using offer_items_answered [of w src econ ctx items] by (auto split: sum.splits)
  let ?ranked = "sorted_desc (\<lambda>r. outcome_score objective (outcome_stub r)) offered"
  have "distinct (map rn_key ?ranked) = distinct (map rn_key offered)"
    by (simp add: distinct_map)
  with os(2) have a: "claims_answered w src econ ctx (relevant_pairs items) (?ranked, blocked)"
    by (simp add: claims_answered_def list_all_iff)
  then have safe: "list_all (safe_offer w src econ ctx (relevant_pairs items)) ?ranked"
    by (auto simp: claims_answered_def list_all_iff intro: claimed_safe)
  note order = sorted_desc_wrt [of "\<lambda>r. outcome_score objective (outcome_stub r)" offered]
  show ?thesis
  proof (cases "items = []")
    case True
    with Some a safe order os(1) show ?thesis
      by (auto simp: build_recommendations_def no_recommendations_def sorted_desc_def)
  next
    case False
    with Some os(1) a safe order show ?thesis
      by (simp add: build_recommendations_def Let_def) blast
  qed
qed

text \<open>
  C38: For a mine with a baseline the recommendations never raise, and they answer the attention
  queue: every action relevant to some problem is evaluated once, for the problem that ranks
  highest; it is offered when it is available and recovers tonnes, and listed as blocked
  otherwise. What is shown is the best of the offers under the objective, in order, and every
  offer is of an action that the rules of the mine permit with the magnitude it proposes. Without
  a baseline nothing is offered or blocked.
\<close>

theorem recommendations_sound:
  "case build_recommendations w src econ mine_id items (Inr ctx) objective limit of
     Inl _ \<Rightarrow> False
   | Inr b \<Rightarrow>
       (if cx_baseline ctx = None then rb_recommendations b = [] \<and> rb_blocked b = []
        else \<exists>offered. rb_recommendations b = take limit offered
          \<and> sorted_wrt (\<lambda>r s. outcome_score objective (outcome_stub s) \<le> outcome_score objective (outcome_stub r)) offered
          \<and> claims_answered w src econ ctx (relevant_pairs items) (offered, rb_blocked b)
          \<and> list_all (safe_offer w src econ ctx (relevant_pairs items)) offered)"
  by (rule recommendations_answer)

end
