(* ===== verification/Projection.thy ===== *)
theory Projection
  imports ScenarioEngine
begin

text \<open>
  What happens if nothing is done (\<open>app/api/core/projection.py\<close>): the measured shortfall rate of a
  mine carried forward, and the response options beside it at a common horizon.
\<close>

subsection \<open>Projections\<close>

definition HORIZONS :: "(string \<times> string \<times> rat) list" where
  "HORIZONS =
     [(''30_min'', ''In 30 minutes'', 1 / 2), (''2_hours'', ''In 2 hours'', 2),
      (''shift_end'', ''By end of shift'', 8), (''day_end'', ''By end of day'', 24)]"

definition RECOVERY_WINDOW_FRACTION :: rat where
  "RECOVERY_WINDOW_FRACTION = 65 / 100"

record projection_point =
  pp_key :: string
  pp_label :: string
  pp_hours_ahead :: rat
  pp_shortfall :: rat
  pp_recoverable :: bool
  pp_note :: string

definition point_as_dict :: "projection_point \<Rightarrow> dict" where
  "point_as_dict p =
     [(''key'', PStr (pp_key p)), (''label'', PStr (pp_label p)), (''hours_ahead'', PFloat (pp_hours_ahead p)),
      (''shortfall_t'', PFloat (py_round 1 (pp_shortfall p))), (''recoverable'', PBool (pp_recoverable p)),
      (''note'', PStr (pp_note p))]"

record projection =
  pj_mine_id :: string
  pj_available :: bool
  pj_rate :: "rat option"
  pj_points :: "projection_point list"
  pj_assumptions :: "string list"
  pj_mode :: calculation_mode
  pj_unavailable :: "string option"
  pj_evidence :: dict

definition projection_as_dict :: "projection \<Rightarrow> dict" where
  "projection_as_dict p =
     [(''mine_id'', PStr (pj_mine_id p)), (''available'', PBool (pj_available p)),
      (''shortfall_rate_tph'', opt_round 2 (pj_rate p)), (''points'', PList (map (PDict \<circ> point_as_dict) (pj_points p))),
      (''assumptions'', PList (map PStr (pj_assumptions p))),
      (''calculation_mode'', PStr (calculation_mode_value (pj_mode p))),
      (''unavailable_reason'', opt_str (pj_unavailable p)), (''evidence'', PDict (pj_evidence p))]"

definition unavailable_projection :: "string \<Rightarrow> string \<Rightarrow> projection" where
  "unavailable_projection mine_id reason =
     \<lparr>pj_mine_id = mine_id, pj_available = False, pj_rate = None, pj_points = [], pj_assumptions = [],
      pj_mode = INSUFFICIENT_DATA, pj_unavailable = Some reason, pj_evidence = []\<rparr>"

text \<open>
  The rows of a mine in \<open>ops.production_records\<close>; the statement takes the newest \<open>shifts\<close> of those
  with a plan and a result.
\<close>

record shift_row =
  sh_date :: int
  sh_planned :: "rat option"
  sh_actual :: "rat option"
  sh_hours :: "rat option"

definition select_shifts :: "nat \<Rightarrow> shift_row list \<Rightarrow> shift_row list" where
  "select_shifts shifts rows =
     take shifts (sort_key (\<lambda>r. - sh_date r) (filter (\<lambda>r. sh_actual r \<noteq> None \<and> sh_planned r \<noteq> None) rows))"

text \<open>\<open>float(r["working_hours"] or 8.0)\<close>\<close>

definition hours_or_eight :: "shift_row \<Rightarrow> rat" where
  "hours_or_eight r = (case sh_hours r of None \<Rightarrow> 8 | Some h \<Rightarrow> if h = 0 then 8 else h)"

definition projection_note :: "rat \<Rightarrow> rat \<Rightarrow> string" where
  "projection_note ahead shift_hours =
     (if ahead \<le> shift_hours * RECOVERY_WINDOW_FRACTION then ''A response started now can still recover this shift.''
      else if ahead \<le> shift_hours
      then ''Past the point where redirecting the fleet pays back within the ''
        @ ''shift; recovery moves to the next shift.''
      else ''Beyond this shift '' @ em_dash @ '' the gap carries into the following period.'')"

definition horizon_point :: "rat \<Rightarrow> rat \<Rightarrow> string \<times> string \<times> rat \<Rightarrow> projection_point" where
  "horizon_point rate shift_hours h =
     (case h of (key, label', ahead) \<Rightarrow>
        \<lparr>pp_key = key, pp_label = label', pp_hours_ahead = ahead, pp_shortfall = rate * ahead,
         pp_recoverable = (ahead \<le> shift_hours * RECOVERY_WINDOW_FRACTION),
         pp_note = projection_note ahead shift_hours\<rparr>)"

definition surplus_projection :: "string \<Rightarrow> nat \<Rightarrow> rat \<Rightarrow> rat \<Rightarrow> projection" where
  "surplus_projection mine_id n planned actual =
     \<lparr>pj_mine_id = mine_id, pj_available = True, pj_rate = Some 0, pj_points = [],
      pj_assumptions = [''Production is running '' @ fmt_commas 0 \<bar>planned - actual\<bar> @ '' t ahead of plan over the ''
        @ ''last '' @ show_nat n @ '' shifts, so there is no shortfall to project.''],
      pj_mode = HEURISTIC, pj_unavailable = None,
      pj_evidence = [(''shifts'', PInt (int n)), (''planned_t'', PFloat (py_round 1 planned)),
        (''actual_t'', PFloat (py_round 1 actual)), (''surplus_t'', PFloat (py_round 1 \<bar>planned - actual\<bar>))]\<rparr>"

definition shortfall_projection :: "string \<Rightarrow> nat \<Rightarrow> rat \<Rightarrow> rat \<Rightarrow> rat \<Rightarrow> rat \<Rightarrow> projection" where
  "shortfall_projection mine_id n planned actual hours shift_hours =
     (let shortfall = planned - actual; rate = shortfall / hours
      in \<lparr>pj_mine_id = mine_id, pj_available = True, pj_rate = Some rate,
          pj_points = map (horizon_point rate shift_hours) HORIZONS,
          pj_assumptions =
            [''Conditions persist unchanged. The rate is the mine'' @ [CHR 39] @ ''s own measured shortfall of ''
               @ fmt_commas 0 shortfall @ '' t over '' @ fmt_fixed 0 hours @ '' recorded working hours across ''
               @ show_nat n @ '' shifts.'',
             ''This is a linear persistence of an observed rate, not a forecast model. ''
               @ ''It answers what continues if nothing changes.'',
             ''The recovery window assumes a response is worth starting within the first ''
               @ fmt_fixed 0 (RECOVERY_WINDOW_FRACTION * 100) @ ''% of a '' @ fmt_fixed 0 shift_hours @ ''-hour shift.''],
          pj_mode = HEURISTIC, pj_unavailable = None,
          pj_evidence = [(''shifts'', PInt (int n)), (''planned_t'', PFloat (py_round 1 planned)),
            (''actual_t'', PFloat (py_round 1 actual)), (''shortfall_t'', PFloat (py_round 1 shortfall)),
            (''working_hours'', PFloat (py_round 1 hours)), (''shift_hours'', PFloat shift_hours)]\<rparr>)"

definition project_shifts :: "string \<Rightarrow> shift_row list \<Rightarrow> projection" where
  "project_shifts mine_id rows =
     (let planned = sum_list (map (the \<circ> sh_planned) rows); actual = sum_list (map (the \<circ> sh_actual) rows);
          hours = sum_list (map hours_or_eight rows)
      in if hours \<le> 0
         then unavailable_projection mine_id ''Recorded working hours are zero, so no rate can be derived.''
         else if planned - actual \<le> 0 then surplus_projection mine_id (length rows) planned actual
         else shortfall_projection mine_id (length rows) planned actual hours (hours_or_eight (hd rows)))"

text \<open>\<open>do_nothing\<close>: a statement that fails is not caught.\<close>

definition do_nothing :: "string \<Rightarrow> nat \<Rightarrow> shift_row list result \<Rightarrow> projection result" where
  "do_nothing mine_id shifts table =
     (case table of
        Inl e \<Rightarrow> Inl e
      | Inr all_rows \<Rightarrow>
          (let rows = select_shifts shifts all_rows
           in if rows = []
              then Inr (unavailable_projection mine_id
                     (''No production records exist for '' @ mine_id @ '', so no rate can be established.''))
              else Inr (project_shifts mine_id rows)))"

subsection \<open>Options at one horizon\<close>

definition number_of :: "pyval \<Rightarrow> rat result" where
  "number_of v =
     (case v of
        PInt i \<Rightarrow> Inr (of_int i)
      | PFloat r \<Rightarrow> Inr r
      | PBool b \<Rightarrow> Inr (if b then 1 else 0)
      | _ \<Rightarrow> Inl (Exn ''TypeError'' (''unsupported operand type(s) for -: '' @ sq ''float'' @ '' and '' @ sq (type_name v))))"

definition round_value :: "nat \<Rightarrow> pyval \<Rightarrow> pyval" where
  "round_value n v =
     (case v of PFloat r \<Rightarrow> PFloat (py_round n r) | PBool b \<Rightarrow> PInt (if b then 1 else 0) | _ \<Rightarrow> v)"

definition baseline_row :: "projection \<Rightarrow> rat \<Rightarrow> dict" where
  "baseline_row p shortfall =
     [(''label'', PStr ''Do nothing''), (''key'', PStr ''do_nothing''), (''shortfall_t'', PFloat (py_round 1 shortfall)),
      (''recovered_t'', PFloat 0), (''cost_inr'', PFloat 0), (''risk_delta'', PFloat 0),
      (''calculation_mode'', PStr (calculation_mode_value (pj_mode p))), (''is_baseline'', PBool True)]"

definition option_row :: "rat \<Rightarrow> dict \<Rightarrow> dict result" where
  "option_row shortfall option' =
     (let recovered = py_or (map_of option' ''expected_delta_t'') (PFloat 0)
      in case number_of recovered of
           Inl e \<Rightarrow> Inl e
         | Inr x \<Rightarrow>
             Inr [(''label'', py_or (map_of option' ''title'') (column option' ''key'')), (''key'', column option' ''key''),
                  (''shortfall_t'', PFloat (py_round 1 (max 0 (shortfall - x)))),
                  (''recovered_t'', round_value 1 recovered), (''cost_inr'', column option' ''cost_inr''),
                  (''risk_delta'', py_or (map_of option' ''risk_delta'') (PFloat 0)),
                  (''calculation_mode'', column option' ''calculation_mode''), (''is_baseline'', PBool False)])"

fun option_rows :: "rat \<Rightarrow> dict list \<Rightarrow> dict list result" where
  "option_rows shortfall [] = Inr []"
| "option_rows shortfall (option' # options) =
     (case option_row shortfall option' of
        Inl e \<Rightarrow> Inl e
      | Inr row \<Rightarrow> (case option_rows shortfall options of Inl e \<Rightarrow> Inl e | Inr rows \<Rightarrow> Inr (row # rows)))"

definition comparison_note :: string where
  "comparison_note = ''Every option is compared at the same horizon. Recovered tonnes are ''
     @ ''each option'' @ [CHR 39] @ ''s own estimate; they are not additive across options ''
     @ ''unless the options are independent.''"

definition compare_options ::
  "time_format \<Rightarrow> operational_clock \<Rightarrow> string \<Rightarrow> shift_row list result \<Rightarrow> dict list \<Rightarrow> string \<Rightarrow> dict result" where
  "compare_options tf clk mine_id table options horizon_key =
     (case do_nothing mine_id 5 table of
        Inl e \<Rightarrow> Inl e
      | Inr p \<Rightarrow>
          if \<not> pj_available p
          then Inr [(''mine_id'', PStr mine_id), (''available'', PBool False),
                    (''unavailable_reason'', opt_str (pj_unavailable p)), (''clock'', PDict (clock_as_dict tf clk))]
          else
            (let point = find (\<lambda>x. pp_key x = horizon_key) (pj_points p);
                 shortfall = (case point of Some x \<Rightarrow> pp_shortfall x | None \<Rightarrow> 0)
             in case option_rows shortfall options of
                  Inl e \<Rightarrow> Inl e
                | Inr rows \<Rightarrow>
                    Inr [(''mine_id'', PStr mine_id), (''available'', PBool True), (''horizon'', PStr horizon_key),
                         (''horizon_label'', PStr (case point of Some x \<Rightarrow> pp_label x | None \<Rightarrow> horizon_key)),
                         (''recoverable_at_horizon'', case point of Some x \<Rightarrow> PBool (pp_recoverable x) | None \<Rightarrow> PNone),
                         (''rows'', PList (map PDict (baseline_row p shortfall # rows))),
                         (''assumptions'', PList (map PStr (pj_assumptions p))),
                         (''clock'', PDict (clock_as_dict tf clk)), (''note'', PStr comparison_note)]))"

subsection \<open>What a projection promises\<close>

text \<open>
  A projection carries one rate forward, from nothing lost to ever more, and once a horizon is past
  recovery all later ones are.
\<close>

definition persists :: "projection \<Rightarrow> bool" where
  "persists p \<longleftrightarrow>
     (case pj_rate p of
        None \<Rightarrow> \<not> pj_available p \<and> pj_points p = [] \<and> pj_mode p = INSUFFICIENT_DATA \<and> pj_unavailable p \<noteq> None
      | Some rate \<Rightarrow>
          pj_available p \<and> 0 \<le> rate \<and> pj_mode p = HEURISTIC \<and> (pj_points p = [] \<longleftrightarrow> rate = 0)
          \<and> list_all (\<lambda>x. pp_shortfall x = rate * pp_hours_ahead x) (pj_points p)
          \<and> sorted (map pp_shortfall (pj_points p))
          \<and> sorted_wrt (\<lambda>x y. pp_recoverable y \<longrightarrow> pp_recoverable x) (pj_points p))"

lemma horizons_persist:
  assumes "0 < rate"
  shows "sorted (map pp_shortfall (map (horizon_point rate shift_hours) HORIZONS))"
    and "sorted_wrt (\<lambda>x y. pp_recoverable y \<longrightarrow> pp_recoverable x) (map (horizon_point rate shift_hours) HORIZONS)"
    and "list_all (\<lambda>x. pp_shortfall x = rate * pp_hours_ahead x) (map (horizon_point rate shift_hours) HORIZONS)"
    and "map (horizon_point rate shift_hours) HORIZONS \<noteq> []"
  using assms by (simp_all add: HORIZONS_def horizon_point_def)

lemma shortfall_persists:
  assumes "0 < planned - actual" "0 < hours"
  shows "persists (shortfall_projection mine_id n planned actual hours shift_hours)
    \<and> pj_rate (shortfall_projection mine_id n planned actual hours shift_hours) = Some ((planned - actual) / hours)"
proof -
  define rate where "rate = (planned - actual) / hours"
  define pts where "pts = map (horizon_point rate shift_hours) HORIZONS"
  define p where "p = shortfall_projection mine_id n planned actual hours shift_hours"
  have rate: "0 < rate" using assms by (simp add: rate_def)
  have p: "pj_rate p = Some rate" "pj_points p = pts" "pj_available p" "pj_mode p = HEURISTIC"
    by (simp_all add: p_def pts_def rate_def shortfall_projection_def Let_def)
  have "sorted (map pp_shortfall pts)" "sorted_wrt (\<lambda>x y. pp_recoverable y \<longrightarrow> pp_recoverable x) pts"
    "list_all (\<lambda>x. pp_shortfall x = rate * pp_hours_ahead x) pts" "pts \<noteq> []"
    unfolding pts_def using horizons_persist [OF rate] by blast+
  with p rate have "persists p"
    by (simp add: persists_def)
  with p(1) show ?thesis
    by (simp add: p_def rate_def)
qed

lemma project_shifts_persists:
  "persists (project_shifts mine_id rows)
   \<and> pj_rate (project_shifts mine_id rows) =
       (let hours = sum_list (map hours_or_eight rows)
        in if hours \<le> 0 then None
           else Some (max 0 (sum_list (map (the \<circ> sh_planned) rows) - sum_list (map (the \<circ> sh_actual) rows)) / hours))"
proof -
  define p a h where "p = sum_list (map (the \<circ> sh_planned) rows)" and "a = sum_list (map (the \<circ> sh_actual) rows)"
    and "h = sum_list (map hours_or_eight rows)"
  have run: "project_shifts mine_id rows =
      (if h \<le> 0 then unavailable_projection mine_id ''Recorded working hours are zero, so no rate can be derived.''
       else if p - a \<le> 0 then surplus_projection mine_id (length rows) p a
       else shortfall_projection mine_id (length rows) p a h (hours_or_eight (hd rows)))"
    by (simp add: project_shifts_def Let_def p_def a_def h_def)
  consider "h \<le> 0" | "0 < h" "p - a \<le> 0" | "0 < h" "0 < p - a"
    by linarith
  then have "persists (project_shifts mine_id rows)
      \<and> pj_rate (project_shifts mine_id rows) = (if h \<le> 0 then None else Some (max 0 (p - a) / h))"
  proof cases
    case 1
    then show ?thesis by (simp add: run unavailable_projection_def persists_def)
  next
    case 2
    then show ?thesis by (simp add: run surplus_projection_def persists_def)
  next
    case 3
    with shortfall_persists [OF 3(2,1), of mine_id "length rows" "hours_or_eight (hd rows)"] show ?thesis
      by (simp add: run)
  qed
  then show ?thesis
    by (simp add: p_def a_def h_def Let_def)
qed

text \<open>The newest shifts with a plan and a result, and what they add up to\<close>

definition window_gap :: "nat \<Rightarrow> shift_row list \<Rightarrow> rat" where
  "window_gap shifts rows =
     sum_list (map (the \<circ> sh_planned) (select_shifts shifts rows)) - sum_list (map (the \<circ> sh_actual) (select_shifts shifts rows))"

definition window_hours :: "nat \<Rightarrow> shift_row list \<Rightarrow> rat" where
  "window_hours shifts rows = sum_list (map hours_or_eight (select_shifts shifts rows))"

text \<open>
  Doing nothing is projected at the rate the mine has measured. Over the newest shifts that
  have both a plan and a result, the rate is the missing production by the hour, never below zero;
  every point is that rate times the hours ahead, so that the loss only grows, and a horizon after
  an unrecoverable one is never recoverable. Without such shifts or without hours there is no rate,
  no point and no number. Only a failing statement raises.
\<close>

theorem do_nothing_persists:
  "case table of
     Inl e \<Rightarrow> do_nothing mine_id shifts table = Inl e
   | Inr rows \<Rightarrow>
       (\<exists>p. do_nothing mine_id shifts table = Inr p \<and> persists p
          \<and> pj_rate p = (if select_shifts shifts rows = [] \<or> window_hours shifts rows \<le> 0 then None
                         else Some (max 0 (window_gap shifts rows) / window_hours shifts rows)))"
proof (cases table)
  case (Inl e)
  then show ?thesis by (simp add: do_nothing_def)
next
  case (Inr rows)
  show ?thesis
  proof (cases "select_shifts shifts rows = []")
    case True
    with Inr show ?thesis
      by (simp add: do_nothing_def unavailable_projection_def persists_def)
  next
    case False
    with Inr have "do_nothing mine_id shifts table = Inr (project_shifts mine_id (select_shifts shifts rows))"
      by (simp add: do_nothing_def)
    with Inr False project_shifts_persists [of mine_id "select_shifts shifts rows"] show ?thesis
      by (simp add: window_gap_def window_hours_def Let_def)
  qed
qed

text \<open>A shift recorded with no working hours at all counts as eight hours of work.\<close>

lemma idle_shift_counts: "sh_hours r = Some 0 \<Longrightarrow> hours_or_eight r = 8"
  by (simp add: hours_or_eight_def)

end
