(* ===== verification/ResponsePlan.thy ===== *)
theory ResponsePlan
  imports Recommendations Projection DecisionStore "HOL-Library.Multiset"
begin

text \<open>
  A response plan (\<open>app/api/core/response_plan.py\<close>): one problem of the attention queue, its cause,
  the actions that answer it, what they are expected to do, and its record in the decision store.
\<close>

subsection \<open>Text of a plan\<close>

definition HORIZON_ORDER :: "string list" where
  "HORIZON_ORDER = [''NOW'', ''NEXT'', ''NEXT_SHIFT'']"

definition HORIZON_LABELS :: "(string \<times> string) list" where
  "HORIZON_LABELS =
     [(''NOW'', ''Now '' @ em_dash @ '' next 30 minutes''),
      (''NEXT'', ''Next '' @ em_dash @ '' 30 minutes to 2 hours''),
      (''NEXT_SHIFT'', ''Next shift'')]"

definition horizon_label :: "string \<Rightarrow> string" where
  "horizon_label h = (case map_of HORIZON_LABELS h of None \<Rightarrow> [] | Some l \<Rightarrow> l)"

text \<open>\<open>rstrip('.')\<close>\<close>

definition rstrip_dots :: "string \<Rightarrow> string" where
  "rstrip_dots s = rev (dropWhile (\<lambda>c. c = CHR ''.'') (rev s))"

definition plan_situation :: "attention_item \<Rightarrow> projection \<Rightarrow> string" where
  "plan_situation item p =
     py_join '' ''
       ([ai_summary item,
         case item_impact item of
           Some x \<Rightarrow> ''Production at stake is '' @ fmt_commas 1 \<bar>x\<bar> @ '' t ('' @ rstrip_dots (ai_impact_basis item) @ '').''
         | None \<Rightarrow> ai_impact_basis item]
        @ (if pj_available p
           then (case find (\<lambda>x. pp_key x = ''shift_end'') (pj_points p) of
                   Some x \<Rightarrow>
                     if pp_shortfall x > 0
                     then [''If nothing changes, the gap reaches '' @ fmt_commas 0 (pp_shortfall x) @ '' t by end of shift.'']
                     else []
                 | None \<Rightarrow> [])
           else []))"

text \<open>The cause that the first driver of an equipment problem names; identifiers are texts.\<close>

definition equipment_cause :: "attention_item \<Rightarrow> (string \<times> string) option" where
  "equipment_cause item =
     (let driver = (case ai_drivers item of d # _ \<Rightarrow> d | [] \<Rightarrow> []);
          named = text_of (column driver ''worst_machine'');
          flagged = (case column driver ''flagged_ids'' of PList vs \<Rightarrow> map text_of vs | _ \<Rightarrow> []);
          worst = (if named \<noteq> [] then named else py_join '', '' (take 3 flagged))
      in if worst = [] then None
         else Some (''Equipment condition is the driver: '' @ worst @ '' ''
                @ (if named \<noteq> [] then ''is the most overdue'' else ''are flagged'') @ ''.'',
              calculation_mode_value MODEL_BACKED))"

definition constrained_stage :: "bottleneck \<Rightarrow> bool" where
  "constrained_stage b \<longleftrightarrow> bn_status b \<in> {''CONSTRAINED'', ''SATURATED''}"

definition gap_cause :: "bottleneck option \<Rightarrow> string \<times> string" where
  "gap_cause b' =
     (case b' of
        None \<Rightarrow>
          (''No stage could be measured, so the shortfall cannot be attributed to a '' @ ''specific part of the flow.'',
           calculation_mode_value INSUFFICIENT_DATA)
      | Some b \<Rightarrow>
          (if constrained_stage b
           then bn_label b @ '' is the binding stage at '' @ fmt_fixed 0 (bn_utilisation_pct b) @ ''% utilisation. '' @ bn_reason b
           else ''No stage of the material flow is constrained '' @ em_dash @ '' the most loaded, '' @ py_lower (bn_label b)
             @ '', is only at '' @ fmt_fixed 0 (bn_utilisation_pct b) @ ''% of capacity. The shortfall is ''
             @ ''therefore not explained by flow capacity: the likely causes are ''
             @ ''insufficient ore made available to the flow, lost operating time, ''
             @ ''or a plan set above what this mine has been achieving.'',
           calculation_mode_value (bn_mode b)))"

definition root_cause :: "attention_item \<Rightarrow> bottleneck option \<Rightarrow> string \<times> string" where
  "root_cause item b' =
     (let other = (ai_summary item, calculation_mode_value (ai_mode item))
      in if ai_key item = ''bottleneck'' \<and> b' \<noteq> None
         then (bn_reason (the b'), calculation_mode_value (bn_mode (the b')))
         else if ai_key item = ''production_gap'' then gap_cause b'
         else if ai_key item \<in> {''equipment_risk'', ''maintenance_overdue''}
         then (case equipment_cause item of Some c \<Rightarrow> c | None \<Rightarrow> other)
         else other)"

subsection \<open>Actions\<close>

definition group_actions :: "recommendation list \<Rightarrow> (string \<times> recommendation list) list" where
  "group_actions rs =
     filter (\<lambda>g. snd g \<noteq> []) (map (\<lambda>h. (h, filter (\<lambda>r. rn_horizon r = h) rs)) HORIZON_ORDER)"

definition group_as_dict :: "string \<times> recommendation list \<Rightarrow> dict" where
  "group_as_dict g =
     [(''horizon'', PStr (fst g)), (''label'', PStr (horizon_label (fst g))),
      (''actions'', PList (map (PDict \<circ> recommendation_as_dict) (snd g)))]"

text \<open>What is summed are the deltas as the payload of a recommendation has them, rounded.\<close>

definition offered_delta :: "recommendation \<Rightarrow> rat option" where
  "offered_delta r = map_option (py_round 1) (rn_delta r)"

definition expected_delta :: "recommendation list \<Rightarrow> rat" where
  "expected_delta rs = sum_list (known offered_delta rs)"

definition plan_quality :: "recommendation list \<Rightarrow> evidence_quality" where
  "plan_quality rs =
     (case py_max (\<lambda>g. - int (quality_rank g)) (map rn_evidence rs) of None \<Rightarrow> E_UNAVAILABLE | Some g \<Rightarrow> g)"

definition plan_mode :: "recommendation list \<Rightarrow> calculation_mode" where
  "plan_mode rs =
     (if rn_mode ` set rs = {MODEL_BACKED} then MODEL_BACKED else if rs \<noteq> [] then HEURISTIC else INSUFFICIENT_DATA)"

text \<open>\<open>sorted\<close> of a set of texts\<close>

definition sorted_set :: "string list \<Rightarrow> string list" where
  "sorted_set xs = sort (remdups xs)"

definition bottleneck_as_dict :: "bottleneck \<Rightarrow> dict" where
  "bottleneck_as_dict b =
     [(''stage'', PStr (bn_stage b)), (''label'', PStr (bn_label b)), (''utilisation_pct'', PFloat (bn_utilisation_pct b)),
      (''headroom_t'', opt_float (bn_headroom b)), (''status'', PStr (bn_status b)),
      (''calculation_mode'', PStr (calculation_mode_value (bn_mode b))), (''basis'', PStr (bn_basis b)),
      (''reason'', PStr (bn_reason b))]"

definition constraint_line :: "recommendation \<Rightarrow> dict" where
  "constraint_line r =
     [(''action'', PStr (rn_key r)), (''summary'', PStr (rn_constraint_summary r)), (''feasible'', PBool (rn_feasible r))]"

definition action_line :: "recommendation \<Rightarrow> dict" where
  "action_line r =
     [(''key'', PStr (rn_key r)), (''title'', PStr (rn_title r)), (''description'', PStr (rn_action r)),
      (''horizon'', PStr (rn_horizon r)), (''magnitude'', PFloat (10 / 100)), (''expected_delta_t'', opt_float (offered_delta r)),
      (''cost_inr'', opt_round 0 (rn_cost r)), (''cost_basis'', PStr (rn_cost_basis r)),
      (''risk_delta'', PFloat (py_round 3 (rn_risk r))), (''calculation_mode'', PStr (calculation_mode_value (rn_mode r))),
      (''method'', PStr (rn_method r)), (''tradeoffs'', PList (map PStr (rn_tradeoffs r))), (''owner'', PStr (rn_owner r))]"

subsection \<open>Generating\<close>

text \<open>A saved plan has its identity and reference; one that could not be saved has the error.\<close>

datatype plan_saved = Not_Asked | Saved created_plan | Not_Saved string

record response_plan =
  pl_mine_id :: string
  pl_item :: attention_item
  pl_objective :: scenario_objective
  pl_state :: operational_state
  pl_clock :: operational_clock
  pl_situation :: string
  pl_bottleneck :: "bottleneck option"
  pl_cause :: "string \<times> string"
  pl_actions :: "recommendation list"
  pl_not_available :: "recommendation list"
  pl_delta :: rat
  pl_residual :: "rat option"
  pl_projection :: projection
  pl_comparison :: dict
  pl_lifecycle :: string
  pl_saved :: plan_saved

definition plan_evidence :: "time_format \<Rightarrow> response_plan \<Rightarrow> dict" where
  "plan_evidence tf p =
     [(''drivers'', PList (map PDict (ai_drivers (pl_item p)))), (''impact_t'', opt_float (item_impact (pl_item p))),
      (''impact_basis'', PStr (ai_impact_basis (pl_item p))),
      (''bottleneck'', case pl_bottleneck p of None \<Rightarrow> PNone | Some b \<Rightarrow> PDict (bottleneck_as_dict b)),
      (''clock'', PDict (clock_as_dict tf (pl_clock p)))]"

definition constraints_checked :: "response_plan \<Rightarrow> pyval" where
  "constraints_checked p = PList (map (PDict \<circ> constraint_line) (pl_actions p @ pl_not_available p))"

definition plan_owners :: "response_plan \<Rightarrow> string list" where
  "plan_owners p = sorted_set (filter (\<lambda>t. t \<noteq> []) (map rn_owner (pl_actions p)))"

definition plan_approvals :: "response_plan \<Rightarrow> string list" where
  "plan_approvals p = sorted_set (concat (map rn_approval_roles (pl_actions p)))"

definition expected_note :: string where
  "expected_note = ''Action effects are individual estimates against the same baseline. ''
     @ ''They are summed here as an indication; actions that touch the same '' @ ''constraint will not stack fully.''"

definition plan_disclaimer :: string where
  "plan_disclaimer = ''This plan is a proposal for authorised mine personnel. Crucible AI does not ''
     @ ''execute operational actions and does not supersede the site'' @ [CHR 39] @ ''s approved '' @ ''procedures.''"

definition saved_entries :: "plan_saved \<Rightarrow> dict" where
  "saved_entries s =
     (case s of
        Not_Asked \<Rightarrow> []
      | Saved c \<Rightarrow>
          [(''plan_id'', PInt (int (cp_id c))), (''plan_ref'', PStr (cp_ref c)), (''persisted'', PBool True)]
      | Not_Saved t \<Rightarrow> [(''persisted'', PBool False), (''persist_error'', PStr t)])"

definition response_plan_as_dict :: "time_format \<Rightarrow> response_plan \<Rightarrow> dict" where
  "response_plan_as_dict tf p =
     (let item = pl_item p; offered = pl_actions p; rows = (\<lambda>rs. PList (map (PDict \<circ> recommendation_as_dict) rs));
          m = calculation_mode_value (plan_mode offered)
      in [(''mine_id'', PStr (pl_mine_id p)), (''available'', PBool True), (''addresses'', PStr (ai_key item)),
          (''title'', PStr (ai_title item @ '' response plan'')), (''objective'', PStr (objective_value (pl_objective p))),
          (''severity'', PStr (state_severity_value (ai_severity item))), (''state'', PStr (operational_value (pl_state p))),
          (''situation'', PStr (pl_situation p)), (''evidence'', PDict (plan_evidence tf p)),
          (''root_cause'', PStr (fst (pl_cause p))), (''root_cause_calculation_mode'', PStr (snd (pl_cause p))),
          (''action_groups'', PList (map (PDict \<circ> group_as_dict) (group_actions offered))), (''actions'', rows offered),
          (''not_available'', rows (pl_not_available p)),
          (''expected'', PDict
             [(''delta_t'', opt_round 1 (if offered = [] then None else Some (pl_delta p))),
              (''residual_gap_t'', opt_round 1 (pl_residual p)), (''calculation_mode'', PStr m),
              (''note'', PStr expected_note)]),
          (''do_nothing'', PDict (projection_as_dict (pl_projection p))), (''comparison'', PDict (pl_comparison p)),
          (''constraints_checked'', constraints_checked p),
          (''risks'', PList (map PStr (sorted_set (concat (map rn_tradeoffs offered))))),
          (''evidence_quality'', PStr (quality_value (plan_quality offered))), (''calculation_mode'', PStr m),
          (''approval_required'', PList (map PStr (plan_approvals p))), (''owners'', PList (map PStr (plan_owners p))),
          (''lifecycle_state'', PStr (pl_lifecycle p)), (''disclaimer'', PStr plan_disclaimer)]
         @ saved_entries (pl_saved p))"

text \<open>The item with the key that is asked for, if it is in the queue, else the first\<close>

definition chosen_item :: "string option \<Rightarrow> attention_item list \<Rightarrow> attention_item" where
  "chosen_item key items =
     (case key of
        None \<Rightarrow> hd items
      | Some k \<Rightarrow>
          if k = [] then hd items
          else (case find (\<lambda>i. ai_key i = k) items of Some i \<Rightarrow> i | None \<Rightarrow> hd items))"

record plan_request =
  pq_mine_id :: string
  pq_item_key :: "string option"
  pq_objective :: scenario_objective
  pq_created_by :: string
  pq_actor_role :: string
  pq_persist :: bool
  pq_incident_id :: "int option"

text \<open>What the services that a plan is built from answer; the statement of the projection is asked twice.\<close>

record plan_reads =
  rd_attention :: "attention_queue result"
  rd_shifts :: "shift_row list result"
  rd_flow :: "flow_report result"
  rd_context :: "scenario_context result"
  rd_clock :: operational_clock
  rd_shifts_again :: "shift_row list result"

definition create_request_of :: "time_format \<Rightarrow> plan_request \<Rightarrow> response_plan \<Rightarrow> create_request" where
  "create_request_of tf q p =
     \<lparr>cr_mine_id = pl_mine_id p, cr_objective = objective_value (pl_objective p), cr_created_by = pq_created_by q,
      cr_actor_role = pq_actor_role q, cr_incident_id = pq_incident_id q, cr_actions = map action_line (pl_actions p),
      cr_fields =
        [(''situation'', PStr (pl_situation p)), (''root_cause'', PStr (fst (pl_cause p))),
         (''expected_delta_t'', if pl_delta p = 0 then PNone else PFloat (pl_delta p)),
         (''residual_gap_t'', opt_float (pl_residual p)),
         (''calculation_mode'', PStr (calculation_mode_value (plan_mode (pl_actions p)))),
         (''evidence_quality'', PStr (quality_value (plan_quality (pl_actions p)))),
         (''evidence_detail'', PDict (plan_evidence tf p)), (''constraints_checked'', constraints_checked p),
         (''owner'', case plan_owners p of o' # _ \<Rightarrow> PStr o' | [] \<Rightarrow> PNone)]\<rparr>"

definition save_plan :: "db_oracle \<Rightarrow> time_format \<Rightarrow> plan_request \<Rightarrow> response_plan \<Rightarrow> gov_db \<Rightarrow> response_plan \<times> gov_db" where
  "save_plan ora tf q p db =
     (if pq_persist q \<and> pl_actions p \<noteq> []
      then (case create_plan ora (create_request_of tf q p) db of
              (Inr c, db') \<Rightarrow> (p\<lparr>pl_lifecycle := cp_state c, pl_saved := Saved c\<rparr>, db')
            | (Inl e, db') \<Rightarrow>
                (p\<lparr>pl_saved := Not_Saved (''The plan was generated but could not be saved ('' @ exn_type e @ ''). ''
                    @ ''It cannot be approved or tracked until it is saved.'')\<rparr>, db'))
      else (p, db))"

text \<open>The plan before it is saved; \<open>None\<close> where nothing requires attention\<close>

definition draft_plan ::
  "constraint_world \<Rightarrow> constraint_source \<Rightarrow> mine_economics \<Rightarrow> plan_request \<Rightarrow> plan_reads \<Rightarrow> response_plan option result"
where
  "draft_plan w src econ q rd =
     (case rd_attention rd of Inl e \<Rightarrow> Inl e | Inr queue \<Rightarrow>
        if aq_items queue = [] then Inr None
        else
          (let item = chosen_item (pq_item_key q) (aq_items queue); mine_id = pq_mine_id q
           in case do_nothing mine_id 5 (rd_shifts rd) of Inl e \<Rightarrow> Inl e | Inr projection \<Rightarrow>
             (case rd_flow rd of Inl e \<Rightarrow> Inl e | Inr flow \<Rightarrow>
             (case build_recommendations w src econ mine_id [item] (rd_context rd) (pq_objective q) 5 of
                Inl e \<Rightarrow> Inl e
              | Inr recs \<Rightarrow>
                  (let offered = rb_recommendations recs; delta = expected_delta offered
                   in case compare_options (cw_tf w) (rd_clock rd) mine_id (rd_shifts_again rd)
                          (map recommendation_as_dict offered) ''shift_end'' of
                        Inl e \<Rightarrow> Inl e
                      | Inr comparison \<Rightarrow>
                          Inr (Some \<lparr>pl_mine_id = mine_id, pl_item = item, pl_objective = pq_objective q,
                             pl_state = aq_state queue, pl_clock = aq_clock queue,
                             pl_situation = plan_situation item projection, pl_bottleneck = fr_bottleneck flow,
                             pl_cause = root_cause item (fr_bottleneck flow), pl_actions = offered,
                             pl_not_available = rb_blocked recs, pl_delta = delta,
                             pl_residual = map_option (\<lambda>x. \<bar>x\<bar> - delta) (item_impact item),
                             pl_projection = projection, pl_comparison = comparison,
                             pl_lifecycle = ''SIMULATED'', pl_saved = Not_Asked\<rparr>))))))"

definition generate ::
  "constraint_world \<Rightarrow> constraint_source \<Rightarrow> mine_economics \<Rightarrow> db_oracle \<Rightarrow> plan_request \<Rightarrow> plan_reads \<Rightarrow> gov_db
     \<Rightarrow> response_plan option result \<times> gov_db" where
  "generate w src econ ora q rd db =
     (case draft_plan w src econ q rd of
        Inl e \<Rightarrow> (Inl e, db)
      | Inr None \<Rightarrow> (Inr None, db)
      | Inr (Some p) \<Rightarrow> (let (p', db') = save_plan ora (cw_tf w) q p db in (Inr (Some p'), db')))"

text \<open>The answer where nothing requires attention\<close>

definition no_plan :: "string \<Rightarrow> operational_state \<Rightarrow> dict" where
  "no_plan mine_id st =
     [(''mine_id'', PStr mine_id), (''available'', PBool False),
      (''reason'', PStr ''Nothing currently requires attention at this mine.''),
      (''state'', PStr (operational_value st))]"

subsection \<open>Nothing of it raises\<close>

text \<open>What is read when no statement fails\<close>

definition answered_reads ::
  "attention_queue \<Rightarrow> shift_row list \<Rightarrow> flow_report \<Rightarrow> scenario_context \<Rightarrow> operational_clock \<Rightarrow> shift_row list
     \<Rightarrow> plan_reads" where
  "answered_reads queue shifts flow ctx clk again =
     \<lparr>rd_attention = Inr queue, rd_shifts = Inr shifts, rd_flow = Inr flow, rd_context = Inr ctx, rd_clock = clk,
      rd_shifts_again = Inr again\<rparr>"

lemma recommendation_delta:
  "\<exists>y. number_of (py_or (map_of (recommendation_as_dict r) ''expected_delta_t'') (PFloat 0)) = Inr y"
  by (cases "rn_delta r") (simp_all add: recommendation_as_dict_def py_or_def opt_round_def opt_float_def number_of_def)

lemma option_row_recommendation: "\<exists>row. option_row x (recommendation_as_dict r) = Inr row"
  using recommendation_delta [of r] by (auto simp: option_row_def Let_def)

lemma option_rows_recommendations: "\<exists>rows. option_rows x (map recommendation_as_dict rs) = Inr rows"
proof (induction rs)
  case (Cons r rs)
  with option_row_recommendation [of x r] show ?case by auto
qed simp

lemma do_nothing_returns: "\<exists>p. do_nothing mine_id n (Inr rows) = Inr p"
  by (simp add: do_nothing_def Let_def)

lemma compare_returns: "\<exists>c. compare_options tf clk mine_id (Inr rows) (map recommendation_as_dict rs) key = Inr c"
proof -
  obtain p where p: "do_nothing mine_id 5 (Inr rows) = Inr p"
    using do_nothing_returns by blast
  let ?x = "case find (\<lambda>x. pp_key x = key) (pj_points p) of Some x \<Rightarrow> pp_shortfall x | None \<Rightarrow> 0"
  obtain ys where "option_rows ?x (map recommendation_as_dict rs) = Inr ys"
    using option_rows_recommendations by blast
  with p show ?thesis
    by (simp add: compare_options_def Let_def)
qed

subsection \<open>The actions of a plan\<close>

lemma catalogue_horizons: "spec \<in> set CATALOGUE \<Longrightarrow> iv_horizon spec \<in> set HORIZON_ORDER"
  by (auto simp: CATALOGUE_def spec_defs HORIZON_ORDER_def)

lemma concat_nonempty: "concat (map snd (filter (\<lambda>g. snd g \<noteq> []) gs)) = concat (map snd gs)"
  by (induction gs) auto

lemma mset_classes:
  assumes "\<forall>r \<in> set rs. f r \<in> set hs" "distinct hs"
  shows "mset (concat (map (\<lambda>h. filter (\<lambda>r. f r = h) rs) hs)) = mset rs"
  using assms
proof (induction hs arbitrary: rs)
  case (Cons h hs)
  let ?rest = "filter (\<lambda>r. f r \<noteq> h) rs"
  have "filter (\<lambda>r. f r = k) ?rest = filter (\<lambda>r. f r = k) rs" if "k \<in> set hs" for k
    using that Cons.prems(2) by (auto intro: filter_cong)
  then have same: "map (\<lambda>k. filter (\<lambda>r. f r = k) ?rest) hs = map (\<lambda>k. filter (\<lambda>r. f r = k) rs) hs"
    by (intro map_cong refl)
  have "mset (concat (map (\<lambda>k. filter (\<lambda>r. f r = k) ?rest) hs)) = mset ?rest"
    using Cons.prems by (intro Cons.IH) auto
  moreover have "mset rs = mset (filter (\<lambda>r. f r = h) rs) + mset ?rest"
    unfolding mset_filter by (rule multiset_partition)
  ultimately show ?case
    by (simp only: same list.map concat.simps mset_append)
qed simp

lemma groups_keep_actions:
  "\<forall>r \<in> set rs. rn_horizon r \<in> set HORIZON_ORDER \<Longrightarrow> mset (concat (map snd (group_actions rs))) = mset rs"
  unfolding group_actions_def concat_nonempty by (simp only: map_map comp_def snd_conv)
    (rule mset_classes, simp_all add: HORIZON_ORDER_def)

lemma claim_member: "claim pairs key = Some p \<Longrightarrow> p \<in> set pairs"
  by (auto simp: claim_def dest: find_SomeD)

lemma offer_horizon:
  assumes "safe_offer w src econ ctx (relevant_pairs items) r"
  shows "rn_horizon r \<in> set HORIZON_ORDER"
proof -
  obtain item spec where c: "claim (relevant_pairs items) (rn_key r) = Some (item, spec)" "rn_horizon r = iv_horizon spec"
    using assms
    by (cases "claim (relevant_pairs items) (rn_key r)")
       (force simp: safe_offer_def states_claim_def from_outcome_def split: sum.splits)+
  have "spec \<in> set CATALOGUE"
    using claim_member [OF c(1)] relevant_pairs_catalogue [of items] by force
  with c(2) show ?thesis
    by (simp add: catalogue_horizons)
qed

subsection \<open>Filing\<close>

text \<open>The plan is a new row in its first state, its actions are numbered rows, and one entry logs it.\<close>

definition filed :: "create_request \<Rightarrow> created_plan \<Rightarrow> gov_db \<Rightarrow> gov_db \<Rightarrow> bool" where
  "filed q c db db' \<longleftrightarrow>
     cp_state c = ''SIMULATED''
     \<and> db_plans db' = db_plans db @ [\<lparr>pr_id = cp_id c, pr_ref = cp_ref c, pr_incident = cr_incident_id q,
          pr_mine_id = cr_mine_id q, pr_state = ''SIMULATED'', pr_fields = cr_fields q\<rparr>]
     \<and> db_actions db' = db_actions db
          @ map (\<lambda>(n, a). \<lparr>ac_plan_id = cp_id c, ac_position = n, ac_fields = a\<rparr>) (enumerate 1 (cr_actions q))
     \<and> db_approvals db' = db_approvals db
     \<and> (\<exists>entry. db_audit db' = db_audit db @ [entry] \<and> ae_event_type entry = ''response_plan.created''
          \<and> ae_entity_id entry = cp_ref c \<and> ae_actor_id entry = cr_created_by q)"

lemma insert_actions_exact:
  "insert_actions ora i n as db = Inr db' \<Longrightarrow>
     db' = db\<lparr>db_actions := db_actions db
       @ map (\<lambda>(k, a). \<lparr>ac_plan_id = i, ac_position = k, ac_fields = a\<rparr>) (enumerate n as)\<rparr>"
  by (induction ora i n as db rule: insert_actions.induct) (auto simp: tx_execute_Inr split: if_splits sum.splits)

lemma opt_event_actions: "opt_event ora ev db = Inr db' \<Longrightarrow> db_actions db' = db_actions db"
  by (auto simp: opt_event_def tx_execute_Inr split: option.splits)

lemma create_block_filed:
  assumes "create_block ora q db = Inr (c, db')"
  shows "filed q c db db'"
proof -
  let ?row = "\<lparr>pr_id = db_next_id db, pr_ref = next_plan_ref db, pr_incident = cr_incident_id q,
    pr_mine_id = cr_mine_id q, pr_state = ''SIMULATED'', pr_fields = cr_fields q\<rparr>"
  from assms obtain entry ev db2 where
      ins: "insert_actions ora (db_next_id db) 1 (cr_actions q) (apply_statement (Insert_Plan ?row) db) = Inr db2"
    and ev: "opt_event ora ev (apply_statement (Insert_Audit entry) db2) = Inr db'"
    and entry: "ae_event_type entry = ''response_plan.created''" "ae_entity_id entry = next_plan_ref db"
      "ae_actor_id entry = cr_created_by q"
    and c: "c = \<lparr>cp_id = db_next_id db, cp_ref = next_plan_ref db, cp_state = ''SIMULATED''\<rparr>"
    by (auto simp: create_block_def Let_def tx_execute_Inr write_audit_def split: option.splits sum.splits)
  show ?thesis
    using opt_event_core [OF ev] opt_event_actions [OF ev] entry c
    by (simp add: filed_def core_tables_def insert_actions_exact [OF ins])
qed

lemma create_plan_filed:
  "case create_plan ora q db of (Inl _, db') \<Rightarrow> db' = db | (Inr c, db') \<Rightarrow> filed q c db db'"
proof -
  obtain r db' where run: "create_plan ora q db = (r, db')" by fastforce
  from this [unfolded create_plan_def] show ?thesis
    by (cases rule: transaction_cases) (use run create_block_filed in auto)
qed

text \<open>Where a plan stands after it was generated\<close>

definition plan_filed :: "time_format \<Rightarrow> plan_request \<Rightarrow> response_plan \<Rightarrow> gov_db \<Rightarrow> gov_db \<Rightarrow> bool" where
  "plan_filed tf q p db db' \<longleftrightarrow>
     (case pl_saved p of
        Not_Asked \<Rightarrow> (\<not> pq_persist q \<or> pl_actions p = []) \<and> db' = db
      | Not_Saved _ \<Rightarrow> pq_persist q \<and> pl_actions p \<noteq> [] \<and> db' = db
      | Saved c \<Rightarrow> pq_persist q \<and> pl_actions p \<noteq> [] \<and> filed (create_request_of tf q p) c db db')"

lemma create_request_of_lifecycle [simp]:
  "create_request_of tf q (p\<lparr>pl_lifecycle := v, pl_saved := x\<rparr>) = create_request_of tf q p"
  by (simp add: create_request_of_def plan_evidence_def constraints_checked_def plan_owners_def)

lemma save_plan_filed:
  assumes "pl_lifecycle p = ''SIMULATED''" "pl_saved p = Not_Asked" "save_plan ora tf q p db = (p', db')"
  shows "pl_lifecycle p' = ''SIMULATED'' \<and> plan_filed tf q p' db db' \<and> pl_item p' = pl_item p \<and> pl_actions p' = pl_actions p"
proof (cases "pq_persist q \<and> pl_actions p \<noteq> []")
  case False
  with assms(3) have "p' = p" "db' = db"
    unfolding save_plan_def by (simp_all split: if_splits)
  with False assms(1,2) show ?thesis
    by (simp add: plan_filed_def)
next
  case True
  obtain r where run: "create_plan ora (create_request_of tf q p) db = (r, db')"
    and p': "p' = (case r of Inr c \<Rightarrow> p\<lparr>pl_lifecycle := cp_state c, pl_saved := Saved c\<rparr>
      | Inl e \<Rightarrow> p\<lparr>pl_saved := Not_Saved (''The plan was generated but could not be saved ('' @ exn_type e @ ''). ''
          @ ''It cannot be approved or tracked until it is saved.'')\<rparr>)"
    using assms(3) True by (cases "create_plan ora (create_request_of tf q p) db"; cases "fst (create_plan ora (create_request_of tf q p) db)")
      (simp_all add: save_plan_def)
  note f = create_plan_filed [where ora = ora and q = "create_request_of tf q p" and db = db, unfolded run]
  show ?thesis
  proof (cases r)
    case (Inl e)
    with True assms(1) p' f show ?thesis
      by (simp add: plan_filed_def)
  next
    case (Inr c)
    with f have "filed (create_request_of tf q p) c db db'" by simp
    moreover from this have "cp_state c = ''SIMULATED''" by (simp add: filed_def)
    ultimately show ?thesis
      using Inr True p' by (simp add: plan_filed_def)
  qed
qed

subsection \<open>What a plan is\<close>

text \<open>The actions of a plan are safe offers for its problem, each in the window of its horizon.\<close>

definition safe_actions ::
  "constraint_world \<Rightarrow> constraint_source \<Rightarrow> mine_economics \<Rightarrow> scenario_context \<Rightarrow> response_plan \<Rightarrow> bool" where
  "safe_actions w src econ ctx p \<longleftrightarrow>
     distinct (map rn_key (pl_actions p)) \<and> length (pl_actions p) \<le> 5
     \<and> list_all (safe_offer w src econ ctx (relevant_pairs [pl_item p])) (pl_actions p)
     \<and> mset (concat (map snd (group_actions (pl_actions p)))) = mset (pl_actions p)"

lemma recommendations_safe:
  assumes "build_recommendations w src econ mine_id items (Inr ctx) obj limit = Inr b"
  shows "distinct (map rn_key (rb_recommendations b)) \<and> length (rb_recommendations b) \<le> limit
    \<and> list_all (safe_offer w src econ ctx (relevant_pairs items)) (rb_recommendations b)"
proof (cases "cx_baseline ctx = None")
  case True
  then show ?thesis
    using recommendations_answer [where w = w and src = src and econ = econ and mine_id = mine_id and items = items and ctx = ctx
      and objective = obj and limit = limit] by (simp add: assms)
next
  case False
  then obtain offered where o': "rb_recommendations b = take limit offered"
      "claims_answered w src econ ctx (relevant_pairs items) (offered, rb_blocked b)"
      "list_all (safe_offer w src econ ctx (relevant_pairs items)) offered"
    using recommendations_answer [where w = w and src = src and econ = econ and mine_id = mine_id and items = items and ctx = ctx
      and objective = obj and limit = limit] by (auto simp: assms)
  then have "distinct (map rn_key offered)"
    by (simp add: claims_answered_def)
  then have "distinct (map rn_key (take limit offered))"
    by (simp add: take_map [symmetric])
  with o' show ?thesis
    by (auto simp: list_all_iff dest: in_set_takeD)
qed

lemma recommendations_return: "\<exists>b. build_recommendations w src econ mine_id items (Inr ctx) obj limit = Inr b"
  using recommendations_answer [where w = w and src = src and econ = econ and mine_id = mine_id and items = items and ctx = ctx
      and objective = obj and limit = limit]
  by (cases "build_recommendations w src econ mine_id items (Inr ctx) obj limit") simp_all

lemma draft_plan_answer:
  "case draft_plan w src econ q (answered_reads queue shifts flow ctx clk again) of
     Inl _ \<Rightarrow> False
   | Inr None \<Rightarrow> aq_items queue = []
   | Inr (Some p) \<Rightarrow> aq_items queue \<noteq> [] \<and> pl_item p = chosen_item (pq_item_key q) (aq_items queue)
       \<and> safe_actions w src econ ctx p \<and> pl_lifecycle p = ''SIMULATED'' \<and> pl_saved p = Not_Asked
       \<and> pl_delta p = expected_delta (pl_actions p)
       \<and> pl_residual p = map_option (\<lambda>x. \<bar>x\<bar> - expected_delta (pl_actions p)) (item_impact (pl_item p))"
proof (cases "aq_items queue = []")
  case True
  then show ?thesis by (simp add: draft_plan_def answered_reads_def)
next
  case False
  let ?item = "chosen_item (pq_item_key q) (aq_items queue)" and ?m = "pq_mine_id q"
  obtain pr where pr: "do_nothing ?m 5 (Inr shifts) = Inr pr"
    using do_nothing_returns by blast
  obtain b where b: "build_recommendations w src econ ?m [?item] (Inr ctx) (pq_objective q) 5 = Inr b"
    using recommendations_return by blast
  obtain c where c: "compare_options (cw_tf w) clk ?m (Inr again) (map recommendation_as_dict (rb_recommendations b))
      ''shift_end'' = Inr c"
    using compare_returns by blast
  note safe = recommendations_safe [OF b]
  have "mset (concat (map snd (group_actions (rb_recommendations b)))) = mset (rb_recommendations b)"
    using safe by (intro groups_keep_actions) (auto simp: list_all_iff intro: offer_horizon)
  with safe False pr b c show ?thesis
    by (simp add: draft_plan_def answered_reads_def safe_actions_def Let_def)
qed

lemma chosen_member: "items \<noteq> [] \<Longrightarrow> chosen_item key items \<in> set items"
  by (auto simp: chosen_item_def dest: find_SomeD split: option.split)

text \<open>
  C39: A response plan is a proposal. When what it reads answers, generating it never raises, not
  even when the store refuses it. There is a plan exactly when something requires attention; it is
  about one item of the queue, its actions are at most five different ones that gain tonnes and
  that the rules of the mine permit, and the windows of the shift keep every one of them. It stands
  at \<open>SIMULATED\<close>. The decision store gets the plan as one new row with its numbered actions and one
  log entry, and no approval; when the plan is not saved the store is as before, and a plan with
  actions that should have been saved says so.
\<close>

theorem response_plan_is_proposal:
  "case generate w src econ ora q (answered_reads queue shifts flow ctx clk again) db of
     (Inl _, _) \<Rightarrow> False
   | (Inr None, db') \<Rightarrow> aq_items queue = [] \<and> db' = db
   | (Inr (Some p), db') \<Rightarrow>
       pl_item p \<in> set (aq_items queue) \<and> safe_actions w src econ ctx p
       \<and> pl_lifecycle p = ''SIMULATED'' \<and> plan_filed (cw_tf w) q p db db' \<and> db_approvals db' = db_approvals db"
proof -
  note draft = draft_plan_answer [where w = w and src = src and econ = econ and q = q and queue = queue and shifts = shifts
    and flow = flow and ctx = ctx and clk = clk and again = again]
  show ?thesis
  proof (cases "draft_plan w src econ q (answered_reads queue shifts flow ctx clk again)")
    case (Inl e)
    with draft show ?thesis by simp
  next
    case (Inr r)
    note drafted = this
    show ?thesis
    proof (cases r)
      case None
      with draft drafted show ?thesis by (simp add: generate_def)
    next
      case (Some p)
      obtain p' db' where saved: "save_plan ora (cw_tf w) q p db = (p', db')" by fastforce
      have p: "aq_items queue \<noteq> []" "pl_item p = chosen_item (pq_item_key q) (aq_items queue)"
          "safe_actions w src econ ctx p" "pl_lifecycle p = ''SIMULATED''" "pl_saved p = Not_Asked"
        using draft drafted Some by simp_all
      have f: "pl_lifecycle p' = ''SIMULATED''" "plan_filed (cw_tf w) q p' db db'"
          "pl_item p' = pl_item p" "pl_actions p' = pl_actions p"
        using save_plan_filed [OF p(4,5) saved] by simp_all
      have "db_approvals db' = db_approvals db"
        using f(2) by (simp add: plan_filed_def filed_def split: plan_saved.splits)
      with f p chosen_member [OF p(1)] drafted Some saved show ?thesis
        by (auto simp: generate_def safe_actions_def)
    qed
  qed
qed

end
