(* ===== verification/DecisionMemory.thy ===== *)
theory DecisionMemory
  imports Attention "HOL-Library.Product_Lexorder"
begin

text \<open>
  What happened the last time (\<open>app/api/core/decision_memory.py\<close>): past decisions that compare with
  a situation, what they recovered, and how many there are.
\<close>

subsection \<open>Words\<close>

definition MIN_CASES_FOR_SUMMARY :: nat where
  "MIN_CASES_FOR_SUMMARY = 3"

definition STOPWORDS :: "string list" where
  "STOPWORDS = [''a'', ''an'', ''the'', ''and'', ''or'', ''of'', ''for'', ''to'', ''in'', ''on'', ''at'', ''is'', ''are'',
     ''was'', ''were'', ''be'', ''been'', ''with'', ''by'', ''from'', ''this'', ''that'', ''these'', ''those'', ''it'',
     ''its'', ''shift'', ''mine'', ''production'']"

definition TEST_WORDS :: "string list" where
  "TEST_WORDS = [''test'', ''guard'', ''rollback'', ''sm-test'', ''dummy'', ''sample'', ''fixture'']"

definition token_char :: "char \<Rightarrow> bool" where
  "token_char c = (let n = (of_char c :: nat) in 97 \<le> n \<and> n \<le> 122 \<or> 48 \<le> n \<and> n \<le> 57)"

text \<open>\<open>re.findall(r"[a-z0-9]+", s)\<close>\<close>

function token_runs :: "string \<Rightarrow> string list" where
  "token_runs s =
     (case dropWhile (\<lambda>c. \<not> token_char c) s of
        [] \<Rightarrow> []
      | c # cs \<Rightarrow> (c # takeWhile token_char cs) # token_runs (dropWhile token_char cs))"
  by pat_completeness auto
termination
proof (relation "measure length", simp, simp)
  fix s c cs
  assume "dropWhile (\<lambda>c. \<not> token_char c) s = c # cs"
  then have "Suc (length cs) \<le> length s"
    by (metis length_Cons length_dropWhile_le)
  then show "length (dropWhile token_char cs) < length s"
    using length_dropWhile_le [of token_char cs] by linarith
qed

declare token_runs.simps [simp del]

definition tokens :: "string option \<Rightarrow> string set" where
  "tokens t = (case t of None \<Rightarrow> {} | Some s \<Rightarrow> {x \<in> set (token_runs (py_lower s)). x \<notin> set STOPWORDS \<and> length x > 2})"

definition overlap_share :: "string set \<Rightarrow> string set \<Rightarrow> rat" where
  "overlap_share a b = (if a = {} \<or> b = {} then 0 else of_nat (card (a \<inter> b)) / of_nat (card (a \<union> b)))"

text \<open>
  The search for a word of a test between word boundaries. The characters of a text are its UTF-8
  groups; whether one outside of ASCII is a letter is a parameter.
\<close>

definition regex_word :: "(string \<Rightarrow> bool) \<Rightarrow> string \<Rightarrow> bool" where
  "regex_word letter g =
     (case g of
        [c] \<Rightarrow> (let n = (of_char c :: nat)
                in if n < 128 then token_char (lower_char c) \<or> c = CHR ''_'' else letter g)
      | _ \<Rightarrow> letter g)"

fun bounded_match :: "(string \<Rightarrow> bool) \<Rightarrow> string list \<Rightarrow> bool \<Rightarrow> string list \<Rightarrow> bool" where
  "bounded_match letter ws after_word [] = False"
| "bounded_match letter ws after_word (g # gs) =
     ((\<not> after_word \<and> list_ex (\<lambda>w. take (length w) (map py_lower (g # gs)) = map (\<lambda>c. [c]) w
          \<and> (case drop (length w) (g # gs) of [] \<Rightarrow> True | h # _ \<Rightarrow> \<not> regex_word letter h)) ws)
      \<or> bounded_match letter ws (regex_word letter g) gs)"

definition row_text :: "dict \<Rightarrow> string \<Rightarrow> string" where
  "row_text row k = text_of (column row k)"

definition is_test_row :: "(string \<Rightarrow> bool) \<Rightarrow> dict \<Rightarrow> bool" where
  "is_test_row letter row \<longleftrightarrow> bounded_match letter TEST_WORDS False (utf8_chars (row_text row ''problem''))"

subsection \<open>Cases\<close>

record past_case =
  pc_decision_id :: int
  pc_problem :: string
  pc_recommendation :: string
  pc_mine_id :: "string option"
  pc_decided_at :: "string option"
  pc_state :: string
  pc_predicted :: "rat option"
  pc_actual :: "rat option"
  pc_delta :: "rat option"
  pc_effectiveness :: "rat option"
  pc_similarity :: rat
  pc_basis :: string
  pc_unscoped :: bool

definition case_as_dict :: "past_case \<Rightarrow> dict" where
  "case_as_dict c =
     [(''decision_id'', PInt (pc_decision_id c)), (''problem'', PStr (pc_problem c)),
      (''recommendation'', PStr (pc_recommendation c)), (''mine_id'', opt_str (pc_mine_id c)),
      (''decided_at'', opt_str (pc_decided_at c)), (''lifecycle_state'', PStr (pc_state c)),
      (''predicted_value'', opt_float (pc_predicted c)), (''actual_value'', opt_float (pc_actual c)),
      (''delta'', opt_float (pc_delta c)), (''effectiveness'', opt_float (pc_effectiveness c)),
      (''similarity'', PFloat (py_round 3 (pc_similarity c))), (''match_basis'', PStr (pc_basis c)),
      (''mine_unscoped'', PBool (pc_unscoped c))]"

text \<open>
  The table is the join of the decisions with their outcomes, the newest first, or the exception of
  the statement. Its texts are texts or null, its numbers numbers or null.
\<close>

definition load_history :: "dict list result \<Rightarrow> string option \<Rightarrow> dict list" where
  "load_history table mine_id =
     (case table of
        Inl _ \<Rightarrow> []
      | Inr rows \<Rightarrow>
          take 200 (filter (\<lambda>row. row_text row ''lifecycle_state'' \<in> {''MEASURED'', ''LEARNED'', ''COMPLETED''}
            \<and> (case mine_id of
                 None \<Rightarrow> True
               | Some m \<Rightarrow> m = [] \<or> opt_text_of (column row ''mine_id'') \<in> {Some m, None})) rows))"

definition row_id :: "dict \<Rightarrow> int" where
  "row_id row = (case column row ''id'' of PInt i \<Rightarrow> i | _ \<Rightarrow> 0)"

definition to_case :: "runtime \<Rightarrow> dict \<Rightarrow> rat \<Rightarrow> string \<Rightarrow> past_case" where
  "to_case rt row similarity basis =
     \<lparr>pc_decision_id = row_id row, pc_problem = row_text row ''problem'', pc_recommendation = row_text row ''recommendation'',
      pc_mine_id = opt_text_of (column row ''mine_id''),
      pc_decided_at = (if py_truthy (column row ''decided_at'') then Some (py_str rt (column row ''decided_at'')) else None),
      pc_state = row_text row ''lifecycle_state'', pc_predicted = number_in (column row ''predicted_value''),
      pc_actual = number_in (column row ''actual_value''), pc_delta = number_in (column row ''delta''),
      pc_effectiveness = number_in (column row ''effectiveness''), pc_similarity = similarity, pc_basis = basis,
      pc_unscoped = (opt_text_of (column row ''mine_id'') = None)\<rparr>"

type_synonym case_identity = "string \<times> string \<times> rat option \<times> rat option"

definition case_identity :: "past_case \<Rightarrow> case_identity" where
  "case_identity c = (py_lower (py_strip (pc_problem c)), py_lower (py_strip (pc_recommendation c)), pc_predicted c, pc_actual c)"

fun deduplicate :: "past_case list \<Rightarrow> case_identity set \<Rightarrow> past_case list \<times> nat" where
  "deduplicate [] seen = ([], 0)"
| "deduplicate (c # cs) seen =
     (if case_identity c \<in> seen then (let (unique, n) = deduplicate cs seen in (unique, n + 1))
      else (let (unique, n) = deduplicate cs (insert (case_identity c) seen) in (c # unique, n)))"

text \<open>\<open>statistics.median\<close> of values that there are\<close>

definition py_median :: "rat list \<Rightarrow> rat" where
  "py_median xs =
     (let s = sort xs; n = length xs in if odd n then s ! (n div 2) else (s ! (n div 2 - 1) + s ! (n div 2)) / 2)"

record memory_summary =
  ms_measured :: nat
  ms_median :: rat
  ms_best :: rat
  ms_worst :: rat
  ms_effectiveness :: "rat option"

definition measured_cases :: "past_case list \<Rightarrow> past_case list" where
  "measured_cases cases = filter (\<lambda>c. pc_actual c \<noteq> None) cases"

definition summarise :: "past_case list \<Rightarrow> memory_summary option" where
  "summarise cases =
     (let measured' = measured_cases cases; actuals = known pc_actual measured'; effects = known pc_effectiveness measured'
      in if length measured' < MIN_CASES_FOR_SUMMARY then None
         else Some \<lparr>ms_measured = length measured', ms_median = py_round 2 (py_median actuals),
                ms_best = py_round 2 (Max (set actuals)), ms_worst = py_round 2 (Min (set actuals)),
                ms_effectiveness = (if effects = [] then None else Some (py_round 3 (py_median effects)))\<rparr>)"

definition summary_as_dict :: "memory_summary \<Rightarrow> dict" where
  "summary_as_dict s =
     [(''cases_measured'', PInt (int (ms_measured s))), (''median_actual'', PFloat (ms_median s)),
      (''best_actual'', PFloat (ms_best s)), (''worst_actual'', PFloat (ms_worst s))]
     @ (case ms_effectiveness s of
          None \<Rightarrow> []
        | Some x \<Rightarrow>
            [(''median_effectiveness'', PFloat x),
             (''note'', PStr (''Effectiveness is actual divided by predicted, so it measures how well ''
               @ ''Crucible AI forecast the result '' @ em_dash @ '' not how good the decision was.''))])"

subsection \<open>The search\<close>

record memory_query =
  mq_mine_id :: "string option"
  mq_key :: "string option"
  mq_problem :: "string option"
  mq_limit :: nat
  mq_widen :: bool

record memory_result =
  mr_query :: string
  mr_cases :: "past_case list"
  mr_summary :: "memory_summary option"
  mr_note :: string
  mr_same_mine_only :: bool

definition truthy_text :: "string option \<Rightarrow> bool" where
  "truthy_text t \<longleftrightarrow> t \<noteq> None \<and> t \<noteq> Some []"

definition target_tokens :: "memory_query \<Rightarrow> string set" where
  "target_tokens q = tokens (mq_problem q) \<union> tokens (mq_key q)"

definition compared_text :: "dict \<Rightarrow> string" where
  "compared_text row = row_text row ''problem'' @ '' '' @ row_text row ''recommendation''"

text \<open>One row: how it matches, if it does\<close>

definition match_row :: "(string \<Rightarrow> bool) \<Rightarrow> memory_query \<Rightarrow> dict \<Rightarrow> (rat \<times> string) option" where
  "match_row letter q row =
     (let text = compared_text row; score = overlap_share (target_tokens q) (tokens (Some text))
      in if is_test_row letter row then None
         else if truthy_text (mq_key q) \<and> str_in (py_lower (the (mq_key q))) (py_lower text) then Some (1, ''exact'')
         else if target_tokens q = {} then Some (0, ''recency'')
         else if score > 12 / 100 then Some (score, ''textual'')
         else None)"

definition collect_cases :: "runtime \<Rightarrow> (string \<Rightarrow> bool) \<Rightarrow> memory_query \<Rightarrow> dict list \<Rightarrow> past_case list" where
  "collect_cases rt letter q rows =
     known (\<lambda>row. map_option (\<lambda>(similarity, basis). to_case rt row similarity basis) (match_row letter q row)) rows"

definition case_rank :: "past_case \<Rightarrow> rat \<times> string" where
  "case_rank c = (pc_similarity c, case pc_decided_at c of None \<Rightarrow> [] | Some t \<Rightarrow> t)"

definition duplicate_note :: "nat \<Rightarrow> string" where
  "duplicate_note n =
     (if n = 0 then [] else '' '' @ show_nat n @ '' duplicate record(s) of the same event were collapsed.'')"

definition memory_note :: "past_case list \<Rightarrow> memory_summary option \<Rightarrow> bool \<Rightarrow> nat \<Rightarrow> string" where
  "memory_note cases summary same_mine duplicates =
     (if cases = []
      then ''No comparable past decision has been recorded and measured. This is ''
        @ ''the first time Crucible AI has seen this situation.''
      else
        (case summary of
           None \<Rightarrow>
             ''Only '' @ show_nat (length cases) @ '' distinct comparable case(s) found with a recorded ''
               @ ''outcome '' @ em_dash @ '' fewer than the '' @ show_nat MIN_CASES_FOR_SUMMARY
               @ '' needed before Crucible AI '' @ ''will summarise them. They are listed individually instead.''
               @ duplicate_note duplicates
         | Some s \<Rightarrow>
             if \<not> same_mine
             then ''Too few cases at this mine, so comparable decisions from other mines ''
               @ ''are included. Conditions differ between sites.''
             else
               (let unscoped = length (filter pc_unscoped cases)
                in ''Based on '' @ show_nat (ms_measured s) @ '' distinct measured case(s).'' @ duplicate_note duplicates
                   @ (if unscoped = 0 then []
                      else '' '' @ show_nat unscoped @ '' of them predate mine-level scoping and cannot be ''
                        @ ''confirmed as belonging to this mine.''))))"

text \<open>The cases of this mine, and of the others when there are too few\<close>

definition gather_cases :: "runtime \<Rightarrow> (string \<Rightarrow> bool) \<Rightarrow> dict list result \<Rightarrow> memory_query \<Rightarrow> past_case list \<times> bool" where
  "gather_cases rt letter table q =
     (let cases = collect_cases rt letter q (load_history table (mq_mine_id q))
      in if length cases < MIN_CASES_FOR_SUMMARY \<and> mq_widen q \<and> truthy_text (mq_mine_id q)
         then
           (let wider = filter (\<lambda>row. opt_text_of (column row ''mine_id'') \<noteq> mq_mine_id q) (load_history table None);
                extra = collect_cases rt letter q wider
            in if extra = [] then (cases, True) else (cases @ extra, False))
         else (cases, True))"

definition similar :: "runtime \<Rightarrow> (string \<Rightarrow> bool) \<Rightarrow> dict list result \<Rightarrow> memory_query \<Rightarrow> memory_result" where
  "similar rt letter table q =
     (let (found, same_mine) = gather_cases rt letter table q;
          (unique, duplicates) = deduplicate (sorted_desc case_rank found) {};
          cases = take (mq_limit q) unique; summary = summarise cases
      in \<lparr>mr_query = (if truthy_text (mq_problem q) then the (mq_problem q)
            else if truthy_text (mq_key q) then the (mq_key q) else ''recent decisions''),
          mr_cases = cases, mr_summary = summary, mr_note = memory_note cases summary same_mine duplicates,
          mr_same_mine_only = same_mine\<rparr>)"

definition memory_as_dict :: "memory_result \<Rightarrow> dict" where
  "memory_as_dict r =
     [(''query'', PStr (mr_query r)), (''case_count'', PInt (int (length (mr_cases r)))),
      (''cases'', PList (map (PDict \<circ> case_as_dict) (mr_cases r))),
      (''summary'', case mr_summary r of None \<Rightarrow> PNone | Some s \<Rightarrow> PDict (summary_as_dict s)),
      (''note'', PStr (mr_note r)), (''same_mine_only'', PBool (mr_same_mine_only r))]"

text \<open>\<open>for_recommendation\<close>, of a recommendation with a key and a title\<close>

definition for_recommendation ::
  "runtime \<Rightarrow> (string \<Rightarrow> bool) \<Rightarrow> dict list result \<Rightarrow> string \<Rightarrow> dict \<Rightarrow> dict" where
  "for_recommendation rt letter table mine_id r =
     memory_as_dict (similar rt letter table
       \<lparr>mq_mine_id = Some mine_id, mq_key = opt_text_of (column r ''key''), mq_problem = opt_text_of (column r ''title''),
        mq_limit = 3, mq_widen = True\<rparr>)"

subsection \<open>Distinct cases\<close>

lemma deduplicate_distinct:
  "distinct (map case_identity (fst (deduplicate cs seen)))
     \<and> list_all (\<lambda>c. case_identity c \<notin> seen) (fst (deduplicate cs seen)) \<and> set (fst (deduplicate cs seen)) \<subseteq> set cs"
proof (induction cs seen rule: deduplicate.induct)
  case (2 c cs seen)
  show ?case
  proof (cases "case_identity c \<in> seen")
    case True
    with 2(1) [OF True] show ?thesis by (auto simp: Let_def split_beta)
  next
    case False
    let ?u = "fst (deduplicate cs (insert (case_identity c) seen))"
    have u: "distinct (map case_identity ?u)" "\<forall>d \<in> set ?u. case_identity d \<noteq> case_identity c \<and> case_identity d \<notin> seen"
        "set ?u \<subseteq> set cs"
      using 2(2) [OF False] by (simp_all add: list_all_iff)
    have "fst (deduplicate (c # cs) seen) = c # ?u"
      using False by (simp add: Let_def split_beta)
    with u False show ?thesis
      by (simp add: list_all_iff) (metis (no_types, lifting) imageE subset_insertI2)
  qed
qed simp

lemma deduplicate_count: "length (fst (deduplicate cs seen)) + snd (deduplicate cs seen) = length cs"
  by (induction cs seen rule: deduplicate.induct) (auto simp: Let_def split: prod.split)

lemma deduplicate_sorted: "sorted_wrt R cs \<Longrightarrow> sorted_wrt R (fst (deduplicate cs seen))"
proof (induction cs seen rule: deduplicate.induct)
  case (2 c cs seen)
  then show ?case
    using deduplicate_distinct [of cs "insert (case_identity c) seen"] by (auto simp: Let_def split: prod.split)
qed simp

text \<open>A collapsed case is represented by the first with its identity, which ranks at least as high.\<close>

lemma deduplicate_represents:
  assumes "sorted_wrt (\<lambda>a b. f b \<le> (f a :: 'k::linorder)) cs" "c \<in> set cs" "case_identity c \<notin> seen"
  shows "\<exists>d \<in> set (fst (deduplicate cs seen)). case_identity d = case_identity c \<and> f c \<le> f d"
  using assms
proof (induction cs seen rule: deduplicate.induct)
  case (2 a cs seen)
  show ?case
  proof (cases "case_identity a \<in> seen")
    case True
    with 2 show ?thesis by (auto simp: Let_def split: prod.split)
  next
    case False
    show ?thesis
    proof (cases "case_identity c = case_identity a")
      case True
      have "f c \<le> f a" using 2(3,4) by auto
      with False True show ?thesis by (auto simp: Let_def split: prod.split)
    next
      case other: False
      with 2(2) [OF False] 2(3-5) False show ?thesis by (auto simp: Let_def split: prod.split)
    qed
  qed
qed simp

subsection \<open>Comparable cases\<close>

text \<open>A past decision that the search may compare: its row, how it matches, and where it comes from\<close>

definition comparable ::
  "runtime \<Rightarrow> (string \<Rightarrow> bool) \<Rightarrow> dict list \<Rightarrow> memory_query \<Rightarrow> bool \<Rightarrow> past_case \<Rightarrow> bool" where
  "comparable rt letter rows q same_mine c \<longleftrightarrow>
     (\<exists>row \<in> set rows. \<not> is_test_row letter row
        \<and> row_text row ''lifecycle_state'' \<in> {''MEASURED'', ''LEARNED'', ''COMPLETED''}
        \<and> match_row letter q row = Some (pc_similarity c, pc_basis c)
        \<and> c = to_case rt row (pc_similarity c) (pc_basis c)
        \<and> (if same_mine \<and> truthy_text (mq_mine_id q) then pc_mine_id c = mq_mine_id q \<or> pc_unscoped c else True))"

lemma collect_mem:
  "c \<in> set (collect_cases rt letter q rows) \<longleftrightarrow>
     (\<exists>row \<in> set rows. match_row letter q row = Some (pc_similarity c, pc_basis c)
        \<and> c = to_case rt row (pc_similarity c) (pc_basis c))"
proof -
  have "pc_similarity (to_case rt row x b) = x" "pc_basis (to_case rt row x b) = b" for row x b
    by (simp_all add: to_case_def)
  then show ?thesis
    unfolding collect_cases_def known_mem by fastforce
qed

lemma match_not_test: "match_row letter q row = Some m \<Longrightarrow> \<not> is_test_row letter row"
  by (auto simp: match_row_def Let_def)

lemma history_mem:
  assumes "row \<in> set (load_history (Inr rows) m)"
  shows "row \<in> set rows \<and> row_text row ''lifecycle_state'' \<in> {''MEASURED'', ''LEARNED'', ''COMPLETED''}
    \<and> (if truthy_text m then opt_text_of (column row ''mine_id'') = m \<or> opt_text_of (column row ''mine_id'') = None else True)"
  using in_set_takeD [OF assms [unfolded load_history_def sum.case]]
  by (cases m) (auto simp: truthy_text_def)

lemma collected_comparable:
  assumes "c \<in> set (collect_cases rt letter q (load_history (Inr rows) m))" "truthy_text (mq_mine_id q) \<Longrightarrow> s \<Longrightarrow> m = mq_mine_id q"
  shows "comparable rt letter rows q s c"
proof -
  obtain row where row: "row \<in> set (load_history (Inr rows) m)" "match_row letter q row = Some (pc_similarity c, pc_basis c)"
      "c = to_case rt row (pc_similarity c) (pc_basis c)"
    using assms(1) by (auto simp: collect_mem)
  have mine: "pc_mine_id c = opt_text_of (column row ''mine_id'')" "pc_unscoped c \<longleftrightarrow> opt_text_of (column row ''mine_id'') = None"
    by (subst row(3), simp add: to_case_def)+
  show ?thesis
    unfolding comparable_def
  proof (intro bexI [of _ row] conjI)
    show "if s \<and> truthy_text (mq_mine_id q) then pc_mine_id c = mq_mine_id q \<or> pc_unscoped c else True"
      using history_mem [OF row(1)] assms(2) mine by (auto split: if_splits)
  qed (use history_mem [OF row(1)] match_not_test [OF row(2)] row(2,3) in auto)
qed

lemma known_filter: "set (known f (filter P xs)) \<subseteq> set (known f xs)"
  by (fastforce simp: known_mem)

lemma gathered_comparable:
  assumes "gather_cases rt letter (Inr rows) q = (found, same)" "c \<in> set found"
  shows "comparable rt letter rows q same c"
proof -
  let ?own = "collect_cases rt letter q (load_history (Inr rows) (mq_mine_id q))"
  let ?wider = "filter (\<lambda>row. opt_text_of (column row ''mine_id'') \<noteq> mq_mine_id q) (load_history (Inr rows) None)"
  consider "found = ?own" "same" | "found = ?own @ collect_cases rt letter q ?wider" "\<not> same"
    using assms(1) by (auto simp: gather_cases_def Let_def split: if_splits)
  then show ?thesis
  proof cases
    case 1
    with assms(2) show ?thesis by (intro collected_comparable [where m = "mq_mine_id q"]) auto
  next
    case 2
    have "set (collect_cases rt letter q ?wider) \<subseteq> set (collect_cases rt letter q (load_history (Inr rows) None))"
      unfolding collect_cases_def by (rule known_filter)
    with 2 assms(2) consider "c \<in> set ?own" | "c \<in> set (collect_cases rt letter q (load_history (Inr rows) None))"
      by auto
    then show ?thesis
      by cases (rule collected_comparable; use 2 in simp)+
  qed
qed

lemma own_cases_gathered:
  "gather_cases rt letter table q = (found, same) \<Longrightarrow>
     set (collect_cases rt letter q (load_history table (mq_mine_id q))) \<subseteq> set found"
  by (auto simp: gather_cases_def Let_def split: if_splits)

text \<open>The case or one with the same identity is shown, or the list is full of cases at least as similar.\<close>

definition shown :: "memory_query \<Rightarrow> past_case list \<Rightarrow> past_case \<Rightarrow> bool" where
  "shown q cases c \<longleftrightarrow> case_identity c \<in> case_identity ` set cases
     \<or> length cases = mq_limit q \<and> (\<forall>d \<in> set cases. pc_similarity c \<le> pc_similarity d)"

lemma rank_similarity: "case_rank a \<le> case_rank b \<Longrightarrow> pc_similarity a \<le> pc_similarity b"
  by (auto simp: case_rank_def less_eq_prod_def)

lemma found_shown:
  assumes "c \<in> set found"
  shows "shown q (take (mq_limit q) (fst (deduplicate (sorted_desc case_rank found) {}))) c"
proof -
  let ?u = "fst (deduplicate (sorted_desc case_rank found) {})"
  have order: "sorted_wrt (\<lambda>a b. case_rank b \<le> case_rank a) ?u"
    by (rule deduplicate_sorted [OF sorted_desc_wrt])
  obtain d where d: "d \<in> set ?u" "case_identity d = case_identity c" "case_rank c \<le> case_rank d"
    using deduplicate_represents [OF sorted_desc_wrt, of c case_rank found "{}"] assms by auto
  show ?thesis
  proof (cases "d \<in> set (take (mq_limit q) ?u)")
    case True
    then have "case_identity d \<in> case_identity ` set (take (mq_limit q) ?u)" by (rule imageI)
    with d(2) show ?thesis by (simp add: shown_def)
  next
    case False
    have "set ?u = set (take (mq_limit q) ?u) \<union> set (drop (mq_limit q) ?u)"
      by (simp only: set_append [symmetric] append_take_drop_id)
    with False d(1) have drop: "d \<in> set (drop (mq_limit q) ?u)" by auto
    then have len: "length (take (mq_limit q) ?u) = mq_limit q"
      by (cases "mq_limit q \<le> length ?u") auto
    have "sorted_wrt (\<lambda>a b. case_rank b \<le> case_rank a) (take (mq_limit q) ?u @ drop (mq_limit q) ?u)"
      using order by simp
    then have "case_rank d \<le> case_rank e" if "e \<in> set (take (mq_limit q) ?u)" for e
      using that drop unfolding sorted_wrt_append by blast
    then have "pc_similarity c \<le> pc_similarity e" if "e \<in> set (take (mq_limit q) ?u)" for e
      using that d(3) rank_similarity order.trans by blast
    with len show ?thesis by (simp add: shown_def)
  qed
qed

text \<open>The rows that there are; a statement that fails leaves none.\<close>

definition rows_of :: "dict list result \<Rightarrow> dict list" where
  "rows_of table = (case table of Inl _ \<Rightarrow> [] | Inr rows \<Rightarrow> rows)"

lemma load_history_rows: "load_history table m = load_history (Inr (rows_of table)) m"
  by (cases table) (simp_all add: load_history_def rows_of_def)

lemma similar_rows: "similar rt letter table q = similar rt letter (Inr (rows_of table)) q"
  unfolding similar_def gather_cases_def load_history_rows [of table] load_history_rows [of "Inr (rows_of table)"]
  by (simp add: rows_of_def)

lemma similar_fields:
  assumes "gather_cases rt letter table q = (found, same)"
  shows "mr_cases (similar rt letter table q) = take (mq_limit q) (fst (deduplicate (sorted_desc case_rank found) {}))"
    "mr_same_mine_only (similar rt letter table q) = same"
    "mr_summary (similar rt letter table q) = summarise (mr_cases (similar rt letter table q))"
  using assms by (simp_all add: similar_def split_beta Let_def)

lemma summarise_floor:
  "case summarise cases of
     None \<Rightarrow> length (measured_cases cases) < 3
   | Some s \<Rightarrow> ms_measured s = length (measured_cases cases) \<and> 3 \<le> ms_measured s"
  by (simp add: summarise_def MIN_CASES_FOR_SUMMARY_def Let_def)

text \<open>
  What the decision memory reports is history. Its cases are different events, at most as many
  as asked for, the most similar first; each is a finished decision of the table that no test
  wrote, matched as it says, and of this mine or of none unless the result says that it looked
  further. No comparable decision of this mine is passed over: it is listed, or the list is full of
  cases at least as similar. A summary is given exactly when at least three of the cases were
  measured, and it counts those. A failing statement leaves no case.
\<close>

theorem memory_reports_history:
  "let r = similar rt letter table q; cases = mr_cases r
   in distinct (map case_identity cases) \<and> length cases \<le> mq_limit q
      \<and> sorted_wrt (\<lambda>a b. pc_similarity b \<le> pc_similarity a) cases
      \<and> list_all (comparable rt letter (rows_of table) q (mr_same_mine_only r)) cases
      \<and> list_all (shown q cases) (collect_cases rt letter q (load_history table (mq_mine_id q)))
      \<and> (case mr_summary r of
           None \<Rightarrow> length (measured_cases cases) < 3
         | Some s \<Rightarrow> ms_measured s = length (measured_cases cases) \<and> 3 \<le> ms_measured s)"
proof -
  obtain found same where g: "gather_cases rt letter (Inr (rows_of table)) q = (found, same)" by fastforce
  let ?u = "fst (deduplicate (sorted_desc case_rank found) {})"
  note f = similar_fields [OF g, folded similar_rows [of rt letter table q]]
  have u: "distinct (map case_identity ?u)" "set ?u \<subseteq> set found"
    using deduplicate_distinct [of "sorted_desc case_rank found" "{}"] by simp_all
  have "sorted_wrt (\<lambda>a b. case_rank b \<le> case_rank a) (take (mq_limit q) ?u)"
    by (intro sorted_wrt_take deduplicate_sorted sorted_desc_wrt)
  then have order: "sorted_wrt (\<lambda>a b. pc_similarity b \<le> pc_similarity a) (take (mq_limit q) ?u)"
    by (rule sorted_wrt_mono_rel [rotated]) (rule rank_similarity)
  have different: "distinct (map case_identity (take (mq_limit q) ?u))"
    using u(1) by (simp add: take_map [symmetric])
  have real: "list_all (comparable rt letter (rows_of table) q same) (take (mq_limit q) ?u)"
    using u(2) gathered_comparable [OF g] by (auto simp: list_all_iff dest: in_set_takeD)
  have all: "list_all (shown q (take (mq_limit q) ?u)) (collect_cases rt letter q (load_history table (mq_mine_id q)))"
    using own_cases_gathered [OF g] found_shown
    by (subst load_history_rows) (auto simp: list_all_iff)
  show ?thesis
    using order different real all summarise_floor [of "take (mq_limit q) ?u"]
    unfolding Let_def f by simp
qed

text \<open>
  Three ways in which the numbers around the cases mislead. The floor for looking at other mines
  counts the copies of one event; a mine without history compares the unscoped decisions twice and
  reports each as a collapsed duplicate; and the note on too few cases counts them all although the
  floor counts the measured ones.
\<close>

definition demo_row :: "int \<Rightarrow> pyval \<Rightarrow> pyval \<Rightarrow> dict" where
  "demo_row i mine actual =
     [(''id'', PInt i), (''problem'', PNone), (''recommendation'', PNone), (''mine_id'', mine), (''decided_at'', PNone),
      (''lifecycle_state'', PStr ''MEASURED''), (''predicted_value'', PNone), (''actual_value'', actual),
      (''delta'', PNone), (''effectiveness'', PNone)]"

definition demo_query :: memory_query where
  "demo_query = \<lparr>mq_mine_id = Some ''M1'', mq_key = None, mq_problem = None, mq_limit = 5, mq_widen = True\<rparr>"

lemmas demo_simps = similar_def gather_cases_def load_history_def collect_cases_def known_def List.map_filter_simps
  match_row_def is_test_row_def target_tokens_def tokens_def demo_row_def demo_query_def row_text_def column_def text_of_def
  opt_text_of_def number_in_def to_case_def truthy_text_def case_identity_def row_id_def Let_def
  MIN_CASES_FOR_SUMMARY_def sorted_desc_def case_rank_def

lemma copies_stop_the_search:
  "map pc_decision_id (mr_cases (similar rt letter (Inr
     [demo_row 1 (PStr ''M1'') (PFloat 5), demo_row 2 (PStr ''M1'') (PFloat 5), demo_row 3 (PStr ''M1'') (PFloat 5),
      demo_row 4 (PStr ''M2'') (PFloat 7)]) demo_query)) = [1]"
  by (simp add: demo_simps)

lemma unscoped_counted_twice:
  "snd (deduplicate (sorted_desc case_rank (fst (gather_cases rt letter (Inr [demo_row 1 PNone (PFloat 5)]) demo_query))) {}) = 1"
  by (simp add: demo_simps)

lemma unmeasured_are_few:
  assumes "measured_cases cases = []" "cases \<noteq> []"
  shows "\<exists>rest. memory_note cases (summarise cases) same n = ''Only '' @ show_nat (length cases) @ '' distinct '' @ rest"
  using assms by (simp add: memory_note_def summarise_def MIN_CASES_FOR_SUMMARY_def Let_def)

end
