(* ===== verification/Repository.thy ===== *)
theory Repository
  imports Execution
begin

text \<open>
  \<open>ExecutionRepository\<close> (\<open>core/storage/repository.py\<close>) over the tables of \<open>core/database/models.py\<close>.
  Every call opens a session of its own, so a statement that fails leaves the tables as they were;
  \<open>rp_fails\<close> says how the call of a number fails. The unique column of the executions is the
  model's own. JSON columns hold the dictionaries that are dumped into them; rows with the same
  time are answered in the order of their insertion.
\<close>

subsection \<open>Tables\<close>

record execution_row =
  xr_id :: nat
  xr_execution_id :: string
  xr_dataset_path :: "string option"
  xr_fingerprint :: "string option"
  xr_status :: string
  xr_success :: bool
  xr_message :: "string option"
  xr_result :: "dict option"
  xr_created_at :: int
  xr_completed_at :: "int option"

record fault_event =
  fe_id :: nat
  fe_execution_id :: string
  fe_type :: string
  fe_severity :: string
  fe_component :: "string option"
  fe_message :: "string option"
  fe_evidence :: "dict option"
  fe_created_at :: int

record recovery_event =
  re_id :: nat
  re_execution_id :: string
  re_decision :: string
  re_action :: "string option"
  re_status :: string
  re_reason :: "string option"
  re_evidence :: "dict option"
  re_created_at :: int

record repository =
  rp_executions :: "execution_row list"
  rp_faults :: "fault_event list"
  rp_recoveries :: "recovery_event list"
  rp_calls :: nat
  rp_fails :: "nat \<Rightarrow> exn option"
  rp_unique :: "string \<Rightarrow> string"

text \<open>A call with its clock; the counter moves whatever the call does.\<close>

type_synonym store = "repository \<times> env"

definition called :: "store \<Rightarrow> store" where
  "called s = ((fst s)\<lparr>rp_calls := Suc (rp_calls (fst s))\<rparr>, snd s)"

definition call_fails :: "store \<Rightarrow> exn option" where
  "call_fails s = rp_fails (fst s) (rp_calls (fst s))"

definition execution_named :: "string \<Rightarrow> repository \<Rightarrow> execution_row option" where
  "execution_named eid r = find (\<lambda>x. xr_execution_id x = eid) (rp_executions r)"

subsection \<open>Executions\<close>

definition create_execution ::
  "string \<Rightarrow> string option \<Rightarrow> string option \<Rightarrow> string \<Rightarrow> store \<Rightarrow> execution_row result \<times> store" where
  "create_execution eid path fingerprint status s =
     (case call_fails s of
        Some e \<Rightarrow> (Inl e, called s)
      | None \<Rightarrow>
          (let (r, env) = s; (now, env') = utc_now env
           in if execution_named eid r \<noteq> None then (Inl (Exn ''IntegrityError'' (rp_unique r eid)), called (r, env'))
              else
                (let x = \<lparr>xr_id = Suc (length (rp_executions r)), xr_execution_id = eid, xr_dataset_path = path, xr_fingerprint = fingerprint,
                      xr_status = status, xr_success = False, xr_message = None, xr_result = None, xr_created_at = now,
                      xr_completed_at = None\<rparr>
                 in (Inr x, called (r\<lparr>rp_executions := rp_executions r @ [x]\<rparr>, env')))))"

definition complete_execution ::
  "string \<Rightarrow> bool \<Rightarrow> string option \<Rightarrow> dict option \<Rightarrow> string option \<Rightarrow> store \<Rightarrow> execution_row option result \<times> store" where
  "complete_execution eid success message res status s =
     (case call_fails s of
        Some e \<Rightarrow> (Inl e, called s)
      | None \<Rightarrow>
          (let (r, env) = s
           in case execution_named eid r of
                None \<Rightarrow> (Inr None, called s)
              | Some x \<Rightarrow>
                  (let (now, env') = utc_now env;
                       x' = x\<lparr>xr_success := success,
                          xr_status := (case status of None \<Rightarrow> (if success then ''completed'' else ''failed'') | Some t \<Rightarrow> t),
                          xr_message := message, xr_result := res, xr_completed_at := Some now\<rparr>
                   in (Inr (Some x'),
                       called (r\<lparr>rp_executions := map (\<lambda>y. if xr_execution_id y = eid then x' else y) (rp_executions r)\<rparr>, env')))))"

definition get_execution :: "string \<Rightarrow> store \<Rightarrow> execution_row option result \<times> store" where
  "get_execution eid s =
     (case call_fails s of Some e \<Rightarrow> (Inl e, called s) | None \<Rightarrow> (Inr (execution_named eid (fst s)), called s))"

text \<open>Newest first, with the rows that were inserted later first among equal times\<close>

definition list_executions :: "int \<Rightarrow> store \<Rightarrow> execution_row list result \<times> store" where
  "list_executions limit s =
     (if limit \<le> 0 then (Inl (Exn ''ValueError'' ''limit must be positive.''), s)
      else (case call_fails s of
              Some e \<Rightarrow> (Inl e, called s)
            | None \<Rightarrow> (Inr (take (nat limit) (rev (sort_key xr_created_at (rp_executions (fst s))))), called s)))"

subsection \<open>Faults and recoveries\<close>

definition record_fault ::
  "string \<Rightarrow> string \<Rightarrow> string \<Rightarrow> string option \<Rightarrow> string option \<Rightarrow> dict option \<Rightarrow> store \<Rightarrow> fault_event result \<times> store" where
  "record_fault eid type severity component message evidence s =
     (case call_fails s of
        Some e \<Rightarrow> (Inl e, called s)
      | None \<Rightarrow>
          (let (r, env) = s; (now, env') = utc_now env;
               f = \<lparr>fe_id = Suc (length (rp_faults r)), fe_execution_id = eid, fe_type = type, fe_severity = severity, fe_component = component,
                    fe_message = message, fe_evidence = evidence, fe_created_at = now\<rparr>
           in (Inr f, called (r\<lparr>rp_faults := rp_faults r @ [f]\<rparr>, env'))))"

definition faults_of :: "string \<Rightarrow> repository \<Rightarrow> fault_event list" where
  "faults_of eid r = sort_key fe_created_at (filter (\<lambda>f. fe_execution_id f = eid) (rp_faults r))"

definition get_faults :: "string \<Rightarrow> store \<Rightarrow> fault_event list result \<times> store" where
  "get_faults eid s =
     (case call_fails s of Some e \<Rightarrow> (Inl e, called s) | None \<Rightarrow> (Inr (faults_of eid (fst s)), called s))"

definition record_recovery ::
  "string \<Rightarrow> string \<Rightarrow> string \<Rightarrow> string option \<Rightarrow> string option \<Rightarrow> dict option \<Rightarrow> store \<Rightarrow> recovery_event result \<times> store" where
  "record_recovery eid decision status action reason evidence s =
     (case call_fails s of
        Some e \<Rightarrow> (Inl e, called s)
      | None \<Rightarrow>
          (let (r, env) = s; (now, env') = utc_now env;
               e = \<lparr>re_id = Suc (length (rp_recoveries r)), re_execution_id = eid, re_decision = decision, re_action = action,
                    re_status = status, re_reason = reason, re_evidence = evidence, re_created_at = now\<rparr>
           in (Inr e, called (r\<lparr>rp_recoveries := rp_recoveries r @ [e]\<rparr>, env'))))"

definition recoveries_of :: "string \<Rightarrow> repository \<Rightarrow> recovery_event list" where
  "recoveries_of eid r = sort_key re_created_at (filter (\<lambda>e. re_execution_id e = eid) (rp_recoveries r))"

definition get_recoveries :: "string \<Rightarrow> store \<Rightarrow> recovery_event list result \<times> store" where
  "get_recoveries eid s =
     (case call_fails s of Some e \<Rightarrow> (Inl e, called s) | None \<Rightarrow> (Inr (recoveries_of eid (fst s)), called s))"

subsection \<open>Facts\<close>

lemma called_simps [simp]:
  "rp_executions (fst (called s)) = rp_executions (fst s)" "rp_faults (fst (called s)) = rp_faults (fst s)"
  "rp_recoveries (fst (called s)) = rp_recoveries (fst s)" "snd (called s) = snd s"
  "rp_fails (fst (called s)) = rp_fails (fst s)" "rp_unique (fst (called s)) = rp_unique (fst s)"
  by (simp_all add: called_def)

lemma execution_named_called [simp]: "execution_named eid (fst (called s)) = execution_named eid (fst s)"
  by (simp add: execution_named_def)

lemma faults_of_called [simp]: "faults_of eid (fst (called s)) = faults_of eid (fst s)"
  by (simp add: faults_of_def)

lemma recoveries_of_called [simp]: "recoveries_of eid (fst (called s)) = recoveries_of eid (fst s)"
  by (simp add: recoveries_of_def)

text \<open>Execution identifiers are unique; an execution of one is not changed by calls for another.\<close>

definition unique_executions :: "repository \<Rightarrow> bool" where
  "unique_executions r \<longleftrightarrow> distinct (map xr_execution_id (rp_executions r))"

lemma execution_named_None: "execution_named eid r = None \<longleftrightarrow> eid \<notin> xr_execution_id ` set (rp_executions r)"
  by (auto simp: execution_named_def find_None_iff)

lemma execution_named_id: "execution_named eid r = Some x \<Longrightarrow> xr_execution_id x = eid"
  by (auto simp: execution_named_def find_Some_iff)

lemma find_map_row:
  assumes "xr_execution_id x' = eid"
  shows "find (\<lambda>x. xr_execution_id x = k) (map (\<lambda>y. if xr_execution_id y = eid then x' else y) xs) =
     (if k = eid then map_option (\<lambda>_. x') (find (\<lambda>x. xr_execution_id x = k) xs) else find (\<lambda>x. xr_execution_id x = k) xs)"
  using assms by (induction xs) auto

lemma create_execution_named:
  assumes "create_execution eid path fp st s = (Inr x, s')"
  shows "execution_named eid (fst s) = None" "execution_named k (fst s') = (if k = eid then Some x else execution_named k (fst s))"
  using assms
  by (auto simp: create_execution_def Let_def execution_named_def find_append split: option.splits prod.splits if_splits)

lemma complete_execution_named:
  assumes "complete_execution eid ok m res st s = (Inr (Some x), s')"
  shows "execution_named k (fst s') = (if k = eid then Some x else execution_named k (fst s))"
    "xr_success x = ok" "xr_message x = m" "xr_result x = res"
    "xr_status x = (case st of None \<Rightarrow> if ok then ''completed'' else ''failed'' | Some t \<Rightarrow> t)"
proof -
  obtain y where y: "execution_named eid (fst s) = Some y" "xr_execution_id y = eid"
      "x = y\<lparr>xr_success := ok, xr_status := (case st of None \<Rightarrow> (if ok then ''completed'' else ''failed'') | Some t \<Rightarrow> t),
        xr_message := m, xr_result := res, xr_completed_at := Some (fst (utc_now (snd s)))\<rparr>"
      "rp_executions (fst s') = map (\<lambda>z. if xr_execution_id z = eid then x else z) (rp_executions (fst s))"
    using assms
    by (auto simp: complete_execution_def Let_def split_beta dest: execution_named_id split: option.splits)
  then have "xr_execution_id x = eid" by simp
  from find_map_row [OF this, where k = k and xs = "rp_executions (fst s)"] y(1)
  show "execution_named k (fst s') = (if k = eid then Some x else execution_named k (fst s))"
    by (auto simp: execution_named_def y(4))
  show "xr_success x = ok" "xr_message x = m" "xr_result x = res"
    "xr_status x = (case st of None \<Rightarrow> if ok then ''completed'' else ''failed'' | Some t \<Rightarrow> t)"
    by (simp_all add: y(3))
qed

end
