(* ===== verification/PlatformHealing.thy ===== *)
theory PlatformHealing
  imports RecoveryExec Planner Repository
begin

text \<open>
  The self-healing side of the platform orchestrator (\<open>core/platform/orchestrator.py\<close>):
  \<open>_to_domain_execution\<close>, which reads a persisted execution back as an execution of nodes, and
  \<open>analyze_and_heal\<close>, which chains detection, localization, root cause, decision, recovery and
  planning and records the fault and the recovery in the repository.
\<close>

subsection \<open>Status\<close>

definition STATUS_MAP :: "(string \<times> pipeline_status) list" where
  "STATUS_MAP = [(''created'', P_CREATED), (''started'', P_RUNNING), (''running'', P_RUNNING), (''completed'', P_SUCCESS),
     (''success'', P_SUCCESS), (''failed'', P_FAILED), (''rolling_back'', P_ROLLING_BACK), (''rolled_back'', P_ROLLED_BACK)]"

definition pipeline_statuses :: "pipeline_status list" where
  "pipeline_statuses = [P_CREATED, P_RUNNING, P_SUCCESS, P_FAILED, P_ROLLING_BACK, P_ROLLED_BACK]"

definition normalize_pipeline_status :: "runtime \<Rightarrow> pipeline_status + pyval \<Rightarrow> pipeline_status" where
  "normalize_pipeline_status rt raw =
     (case raw of
        Inl st \<Rightarrow> st
      | Inr v \<Rightarrow>
          (let text = py_lower (py_strip (py_str rt v))
           in case map_of STATUS_MAP text of
                Some st \<Rightarrow> st
              | None \<Rightarrow> (case find (\<lambda>st. pipeline_status_value st = text) pipeline_statuses of Some st \<Rightarrow> st | None \<Rightarrow> P_FAILED)))"

subsection \<open>Persisted executions as executions of nodes\<close>

text \<open>\<open>a or b\<close> on values, and \<open>d.get(k)\<close>\<close>

definition or_value :: "pyval \<Rightarrow> pyval \<Rightarrow> pyval" where
  "or_value a b = (if py_truthy a then a else b)"

definition dict_get :: "dict \<Rightarrow> string \<Rightarrow> pyval" where
  "dict_get d k = (case map_of d k of None \<Rightarrow> PNone | Some v \<Rightarrow> v)"

text \<open>\<open>finished_at or _utc_now()\<close>\<close>

definition finish_time :: "int option \<Rightarrow> store \<Rightarrow> int \<times> store" where
  "finish_time finished s =
     (case finished of Some t \<Rightarrow> (t, s) | None \<Rightarrow> (let (now, env) = utc_now (snd s) in (now, (fst s, env))))"

definition persisted_node ::
  "string \<Rightarrow> string \<Rightarrow> node_status \<Rightarrow> int \<Rightarrow> int \<Rightarrow> dict \<Rightarrow> string option \<Rightarrow> string option \<Rightarrow> node_execution" where
  "persisted_node eid nid status started finished out error_type error_message =
     \<lparr>ne_execution_id = eid, ne_node_id = nid, ne_status = status, ne_started_at = started, ne_finished_at = Some finished,
      ne_input_metadata = [], ne_output_metadata = out, ne_error_type = error_type, ne_error_message = error_message,
      ne_checkpoint_id = None\<rparr>"

definition fault_node :: "runtime \<Rightarrow> string \<Rightarrow> int \<Rightarrow> nat \<Rightarrow> fault_event \<Rightarrow> int \<Rightarrow> node_execution" where
  "fault_node rt eid started index f finished =
     (let evidence = (case fe_evidence f of None \<Rightarrow> [] | Some d \<Rightarrow> d);
          node_id = or_value (or_value (opt_str (fe_component f)) (dict_get evidence ''node_id''))
            (PStr (''persisted_fault_'' @ show_nat index));
          error_type = or_value (or_value (dict_get evidence ''error_type'') (PStr (fe_type f))) (PStr ''UnknownFault'');
          error_message = or_value (or_value (opt_str (fe_message f)) (dict_get evidence ''error_message''))
            (PStr ''Persisted fault event.'')
      in persisted_node eid (py_str rt node_id) N_FAILED started finished
           ([(''persistence_source'', PStr ''fault_events''), (''fault_event_id'', PInt (int (fe_id f))),
             (''fault_type'', PStr (fe_type f)), (''severity'', PStr (fe_severity f))]
            @ (if evidence \<noteq> [] then [(''evidence'', PDict evidence)] else []))
           (Some (py_str rt error_type)) (Some (py_str rt error_message)))"

fun fault_nodes ::
  "runtime \<Rightarrow> string \<Rightarrow> int \<Rightarrow> int option \<Rightarrow> nat \<Rightarrow> fault_event list \<Rightarrow> store \<Rightarrow> node_execution list \<times> store" where
  "fault_nodes rt eid started finished index [] s = ([], s)"
| "fault_nodes rt eid started finished index (f # fs) s =
     (let (t, s1) = finish_time finished s; (ns, s2) = fault_nodes rt eid started finished (Suc index) fs s1
      in (fault_node rt eid started index f t # ns, s2))"

text \<open>The node that stands for a failed execution without a recorded fault\<close>

definition placeholder_failure :: "runtime \<Rightarrow> execution_row \<Rightarrow> int \<Rightarrow> node_execution" where
  "placeholder_failure rt x finished =
     (let error_message = str_or (xr_message x) ''Execution was marked failed in persistence.'';
          evidence = [(''persistence_source'', PStr ''pipeline_executions''), (''execution_status'', PStr (xr_status x))]
            @ (case xr_result x of None \<Rightarrow> [] | Some d \<Rightarrow> [(''result'', PDict d)]);
          given = (\<lambda>k d. case xr_result x of None \<Rightarrow> d
            | Some res \<Rightarrow> if py_truthy (dict_get res k) then py_str rt (dict_get res k) else d)
      in persisted_node (xr_execution_id x) ''persisted_execution'' N_FAILED (xr_created_at x) finished evidence
           (Some (given ''error_type'' ''PersistedExecutionFailure'')) (Some (given ''error'' error_message)))"

definition placeholder_success :: "execution_row \<Rightarrow> int \<Rightarrow> node_execution" where
  "placeholder_success x finished =
     persisted_node (xr_execution_id x) ''persisted_execution'' N_SUCCESS (xr_created_at x) finished
       [(''persistence_source'', PStr ''pipeline_executions''), (''status'', PStr ''success'')] None None"

definition domain_nodes :: "runtime \<Rightarrow> execution_row \<Rightarrow> pipeline_status \<Rightarrow> store \<Rightarrow> node_execution list \<times> store" where
  "domain_nodes rt x status s =
     (let (answer, s1) = get_faults (xr_execution_id x) s;
          faults = (case answer of Inl e \<Rightarrow> [] | Inr fs \<Rightarrow> fs);
          (nodes, s2) = fault_nodes rt (xr_execution_id x) (xr_created_at x) (xr_completed_at x) 0 faults s1
      in if status \<in> {P_FAILED, P_ROLLED_BACK} \<and> nodes = []
         then (let (t, s3) = finish_time (xr_completed_at x) s2 in ([placeholder_failure rt x t], s3))
         else if status = P_SUCCESS \<and> nodes = []
         then (let (t, s3) = finish_time (xr_completed_at x) s2 in ([placeholder_success x t], s3))
         else (nodes, s2))"

definition to_domain_execution ::
  "runtime \<Rightarrow> pipeline_execution + execution_row \<Rightarrow> store \<Rightarrow> pipeline_execution result \<times> store" where
  "to_domain_execution rt execution s =
     (case execution of
        Inl e \<Rightarrow> (Inr e, s)
      | Inr x \<Rightarrow>
          if xr_execution_id x = [] then (Inl (Exn ''ValueError'' ''Pipeline execution does not contain a valid execution_id.''), s)
          else
            (let status = normalize_pipeline_status rt (Inr (PStr (xr_status x)));
                 (nodes, s') = domain_nodes rt x status s
             in (Inr \<lparr>pe_execution_id = xr_execution_id x, pe_status = status, pe_nodes = nodes, pe_started_at = xr_created_at x,
                      pe_finished_at = xr_completed_at x\<rparr>, s')))"

subsection \<open>Persistence\<close>

text \<open>Failures of the database are swallowed.\<close>

definition persist_execution_completion :: "string \<Rightarrow> bool \<Rightarrow> string option \<Rightarrow> dict option \<Rightarrow> store \<Rightarrow> store" where
  "persist_execution_completion eid success message res s = snd (complete_execution eid success message res None s)"

definition persist_fault ::
  "string \<Rightarrow> string \<Rightarrow> string \<Rightarrow> string option \<Rightarrow> string option \<Rightarrow> dict option \<Rightarrow> store \<Rightarrow> store" where
  "persist_fault eid type severity component message evidence s =
     snd (record_fault eid type severity component message evidence s)"

text \<open>\<open>str\<close> of the action, which is a member of an enumeration\<close>

fun action_member :: "recovery_action_type \<Rightarrow> string" where
  "action_member RETRY = ''RecoveryActionType.RETRY''"
| "action_member RERUN_FROM_NODE = ''RecoveryActionType.RERUN_FROM_NODE''"
| "action_member ROLLBACK = ''RecoveryActionType.ROLLBACK''"
| "action_member QUARANTINE = ''RecoveryActionType.QUARANTINE''"
| "action_member MANUAL_REVIEW = ''RecoveryActionType.MANUAL_REVIEW''"
| "action_member ABORT = ''RecoveryActionType.ABORT''"

definition persist_recovery_result :: "runtime \<Rightarrow> string \<Rightarrow> recovery_decision \<Rightarrow> recovery_result \<Rightarrow> store \<Rightarrow> store" where
  "persist_recovery_result rt eid d r s =
     snd (record_recovery eid (action_member (rd_action d)) (rr_status r) (Some (action_value (rd_action d))) (Some (rd_reason d))
       (Some [(''decision_type'', PStr ''RecoveryDecision''), (''recovery_type'', PStr ''RecoveryResult''),
         (''decision'', PDict (decision_to_dict d)), (''recovery'', PDict (recovery_result_to_dict rt r))]) s)"

subsection \<open>The chain\<close>

record platform_outcome =
  po_fault :: fault_report
  po_localization :: fault_localization
  po_root_cause :: root_cause_report
  po_decision :: recovery_decision
  po_recovery :: recovery_result
  po_validation :: "validation_result option"
  po_plan :: repair_plan
  po_execution :: pipeline_execution

text \<open>\<open>getattr(recovery_result, "node_execution", None)\<close>: a \<open>RecoveryResult\<close> has no such field.\<close>

definition recovered_node :: "recovery_result \<Rightarrow> node_execution option" where
  "recovered_node r = None"

definition validate_recovered :: "runtime \<Rightarrow> recovery_result \<Rightarrow> validation_result option" where
  "validate_recovered rt r =
     (case recovered_node r of
        None \<Rightarrow> None
      | Some n \<Rightarrow> (case validate_node_execution rt n None of Inl e \<Rightarrow> None | Inr v \<Rightarrow> Some v))"

definition timed :: "store \<Rightarrow> int \<times> store" where
  "timed s = (let (now, env) = utc_now (snd s) in (now, (fst s, env)))"

text \<open>The executor is called without nodes and without a callable; it clears its events first.\<close>

definition heal_recovery :: "rx_config \<Rightarrow> recovery_decision \<Rightarrow> store \<Rightarrow> recovery_result \<times> store" where
  "heal_recovery cf d s =
     (let (r, rx) = recover cf d None None \<lparr>rx_events = [], rx_env = snd s, rx_world = ()\<rparr> in (r, (fst s, rx_env rx)))"

definition persist_detected :: "string \<Rightarrow> fault_report \<Rightarrow> store \<Rightarrow> store" where
  "persist_detected eid fault s =
     (if fr_detected fault
      then persist_fault eid (fault_type_value (fr_fault_type fault)) (severity_value (fr_severity fault)) (fr_observed_node fault)
             (Some (fr_message fault)) (Some (fr_evidence fault)) s
      else s)"

definition analyze_and_heal ::
  "rx_config \<Rightarrow> node_event list \<Rightarrow> pipeline_execution + execution_row \<Rightarrow> store \<Rightarrow> platform_outcome result \<times> store" where
  "analyze_and_heal cf events execution s =
     (let rt = cf_runtime cf in
      case to_domain_execution rt execution s of
        (Inl e, s1) \<Rightarrow> (Inl e, s1)
      | (Inr ex, s1) \<Rightarrow>
          (let eid = pe_execution_id ex;
               lkg = cm_last_known_good (cf_manager cf) (Some eid);
               (now, s2) = timed s1;
               fault = detect now ex;
               s3 = persist_detected eid fault s2;
               loc = localize rt ex fault events;
               (analysed, s4) = timed s3;
               root = analyze analysed ex fault loc events
           in case decide ex fault loc lkg of
                Inl e \<Rightarrow> (Inl e, s4)
              | Inr d \<Rightarrow>
                  (let (r, s5) = heal_recovery cf d s4;
                       s6 = persist_recovery_result rt eid d r s5;
                       (planned, s7) = timed s6
                   in (Inr \<lparr>po_fault = fault, po_localization = loc, po_root_cause = root, po_decision = d, po_recovery = r,
                            po_validation = validate_recovered rt r,
                            po_plan = plan planned root (map_option ck_checkpoint_id lkg), po_execution = ex\<rparr>, s7))))"

subsection \<open>Facts about the adapter\<close>

definition db_works :: "repository \<Rightarrow> bool" where
  "db_works r \<longleftrightarrow> (\<forall>n. rp_fails r n = None)"

text \<open>The tables and the clock, which reading leaves alone\<close>

definition same_tables :: "store \<Rightarrow> store \<Rightarrow> bool" where
  "same_tables s s' \<longleftrightarrow> rp_executions (fst s') = rp_executions (fst s) \<and> rp_faults (fst s') = rp_faults (fst s)
     \<and> rp_recoveries (fst s') = rp_recoveries (fst s) \<and> rp_fails (fst s') = rp_fails (fst s) \<and> clock (snd s') = clock (snd s)"

lemma same_tables_refl [simp, intro]: "same_tables s s"
  by (simp add: same_tables_def)

lemma same_tables_trans [trans]: "same_tables a b \<Longrightarrow> same_tables b c \<Longrightarrow> same_tables a c"
  by (simp add: same_tables_def)

lemma same_tables_called [intro]: "same_tables a s \<Longrightarrow> same_tables a (called s)"
  by (simp add: same_tables_def)

lemma same_tables_timed: "timed s = (t, s') \<Longrightarrow> same_tables s s'"
  by (auto simp: timed_def utc_now_def same_tables_def)

lemma finish_time_same: "finish_time fin s = (t, s') \<Longrightarrow> same_tables s s'"
  by (auto simp: finish_time_def utc_now_def same_tables_def split: option.splits)

lemma get_faults_same: "get_faults eid s = (a, s') \<Longrightarrow> same_tables s s'"
  by (auto simp: get_faults_def split: option.splits)

text \<open>The faults that the adapter sees\<close>

definition recorded_faults :: "execution_row \<Rightarrow> store \<Rightarrow> fault_event list" where
  "recorded_faults x s = (if call_fails s = None then faults_of (xr_execution_id x) (fst s) else [])"

lemma get_faults_answer:
  "(case fst (get_faults (xr_execution_id x) s) of Inl e \<Rightarrow> [] | Inr fs \<Rightarrow> fs) = recorded_faults x s"
  by (simp add: get_faults_def recorded_faults_def split: option.splits)

lemma fault_nodes_shape:
  "fault_nodes rt eid st fin i fs s = (ns, s') \<Longrightarrow> same_tables s s' \<and> length ns = length fs
     \<and> list_all (\<lambda>n. ne_status n = N_FAILED) ns
     \<and> (case fs of [] \<Rightarrow> True | f # _ \<Rightarrow> \<exists>t. hd ns = fault_node rt eid st i f t)"
proof (induction fs arbitrary: i s ns s')
  case (Cons f fs)
  obtain t s1 ms where c: "finish_time fin s = (t, s1)" "fault_nodes rt eid st fin (Suc i) fs s1 = (ms, s')"
      "ns = fault_node rt eid st i f t # ms"
    using Cons.prems by (auto simp: Let_def split: prod.splits)
  from Cons.IH [OF c(2)] finish_time_same [OF c(1)] have "same_tables s s'"
    by (meson same_tables_trans)
  with Cons.IH [OF c(2)] c(3) show ?case
    by (auto simp: fault_node_def persisted_node_def Let_def)
qed simp

text \<open>What an execution of nodes says of the persisted one\<close>

definition stands_for :: "runtime \<Rightarrow> execution_row \<Rightarrow> fault_event list \<Rightarrow> pipeline_execution \<Rightarrow> bool" where
  "stands_for rt x faults e \<longleftrightarrow>
     pe_execution_id e = xr_execution_id x \<and> pe_status e = normalize_pipeline_status rt (Inr (PStr (xr_status x)))
     \<and> pe_started_at e = xr_created_at x \<and> pe_finished_at e = xr_completed_at x
     \<and> (case faults of
          f # _ \<Rightarrow> length (pe_nodes e) = length faults \<and> list_all (\<lambda>n. ne_status n = N_FAILED) (pe_nodes e)
            \<and> (\<exists>t. hd (pe_nodes e) = fault_node rt (xr_execution_id x) (xr_created_at x) 0 f t)
        | [] \<Rightarrow>
            if pe_status e \<in> {P_FAILED, P_ROLLED_BACK} then \<exists>t. pe_nodes e = [placeholder_failure rt x t]
            else if pe_status e = P_SUCCESS then \<exists>t. pe_nodes e = [placeholder_success x t]
            else pe_nodes e = [])"

lemma domain_nodes_shape:
  assumes "domain_nodes rt x st s = (ns, s')"
  shows "same_tables s s'
    \<and> (case recorded_faults x s of
          f # _ \<Rightarrow> length ns = length (recorded_faults x s) \<and> list_all (\<lambda>n. ne_status n = N_FAILED) ns
            \<and> (\<exists>t. hd ns = fault_node rt (xr_execution_id x) (xr_created_at x) 0 f t)
        | [] \<Rightarrow>
            if st \<in> {P_FAILED, P_ROLLED_BACK} then \<exists>t. ns = [placeholder_failure rt x t]
            else if st = P_SUCCESS then \<exists>t. ns = [placeholder_success x t] else ns = [])"
proof -
  obtain a s1 where g: "get_faults (xr_execution_id x) s = (a, s1)" by (metis surj_pair)
  have fs: "(case a of Inl e \<Rightarrow> [] | Inr fs \<Rightarrow> fs) = recorded_faults x s"
    using get_faults_answer [of x s] g by simp
  obtain ms s2 where n: "fault_nodes rt (xr_execution_id x) (xr_created_at x) (xr_completed_at x) 0 (recorded_faults x s) s1 = (ms, s2)"
    by (metis surj_pair)
  note shape = fault_nodes_shape [OF n]
  have same: "same_tables s s2"
    using get_faults_same [OF g] shape same_tables_trans by blast
  show ?thesis
  proof (cases "recorded_faults x s")
    case Nil
    with n have "ms = []" "s2 = s1" by simp_all
    then show ?thesis
      using assms same Nil same_tables_trans [OF same finish_time_same]
      by (auto simp: domain_nodes_def g fs n split: prod.splits if_splits)
  next
    case (Cons f fs')
    with shape have "ms \<noteq> []" by auto
    then have "(ns, s') = (ms, s2)"
      using assms by (simp add: domain_nodes_def g fs n)
    with shape same Cons show ?thesis by auto
  qed
qed

lemma to_domain_execution_row:
  "case to_domain_execution rt (Inr x) s of
     (Inl e, s') \<Rightarrow> xr_execution_id x = [] \<and> s' = s
   | (Inr e, s') \<Rightarrow> xr_execution_id x \<noteq> [] \<and> stands_for rt x (recorded_faults x s) e \<and> same_tables s s'"
proof (cases "xr_execution_id x = []")
  case True
  then show ?thesis by (simp add: to_domain_execution_def)
next
  case False
  let ?st = "normalize_pipeline_status rt (Inr (PStr (xr_status x)))"
  obtain ns s' where d: "domain_nodes rt x ?st s = (ns, s')" by (metis surj_pair)
  from domain_nodes_shape [OF d] False show ?thesis
    by (simp add: to_domain_execution_def Let_def d stands_for_def split: list.splits)
qed

lemma stands_for_failed_node:
  assumes "stands_for rt x faults e" and "faults \<noteq> [] \<or> pe_status e = P_FAILED"
  shows "\<exists>n t. failed_node e = Some n \<and> pe_nodes e \<noteq> [] \<and> hd (pe_nodes e) = n
    \<and> n = (case faults of f # _ \<Rightarrow> fault_node rt (xr_execution_id x) (xr_created_at x) 0 f t | [] \<Rightarrow> placeholder_failure rt x t)"
  using assms
  by (cases faults; cases "pe_nodes e")
    (auto simp: stands_for_def failed_node_def placeholder_failure_def persisted_node_def Let_def)

subsection \<open>The chain as a whole\<close>

text \<open>Without nodes and without a callable a retry and a rerun do nothing.\<close>

lemma make_result_success [simp]: "rr_success (fst (make_result d st ok from res msg ev rb v s)) = ok"
  by (simp add: make_result_def utc_now_def)

lemma bare_retry:
  assumes "execute_retry cf d None s = (out, s')"
  shows "case out of Inl e \<Rightarrow> False | Inr r \<Rightarrow> \<not> rr_success r"
  using assms [unfolded execute_retry_def Let_def option.case split_beta, symmetric] by (simp del: append.simps)

lemma failed_result_fails [simp]: "\<not> rr_success (fst (failed_result cf d st msg ev s))"
  by (simp add: failed_result_def make_result_def utc_now_def)

lemma bare_rerun:
  assumes "execute_rerun cf d None s = (out, s')"
  shows "case out of Inl e \<Rightarrow> True | Inr r \<Rightarrow> \<not> rr_success r"
proof (cases "restore_for_rerun cf (rd_checkpoint_id d)")
  case (Inl e)
  with assms show ?thesis by (auto simp: execute_rerun_def Let_def)
next
  case (Inr a)
  show ?thesis
    using assms [unfolded execute_rerun_def Let_def Inr sum.case option.case split_beta, symmetric] by (simp del: append.simps)
qed

definition restores :: "rx_config \<Rightarrow> recovery_decision \<Rightarrow> bool" where
  "restores cf d \<longleftrightarrow> rd_action d = ROLLBACK \<and> (case rd_checkpoint_id d of None \<Rightarrow> False | Some cid \<Rightarrow> usable cf cid)"

lemma bare_recovery:
  assumes "recover cf d None None s = (r, s')"
  shows "rr_success r \<longleftrightarrow> restores cf d"
proof (cases "rd_action d = ROLLBACK")
  case True
  with recover_rollback(1) [OF assms True] show ?thesis by (simp add: restores_def)
next
  case no_rollback: False
  have ok: "result_ok cf d r"
    using recover_audited [of cf d None None s] assms by simp
  from assms have "\<not> rr_success r"
  proof (cases rule: recover_cases)
    case normal
    then show ?thesis
      using ok no_rollback by (cases "rd_action d") (auto simp: dispatch_def result_ok_def dest: bare_retry bare_rerun)
  qed auto
  with no_rollback show ?thesis by (simp add: restores_def)
qed

text \<open>A row that is appended unless the database fails\<close>

definition appended :: "bool \<Rightarrow> ('a \<Rightarrow> bool) \<Rightarrow> 'a list \<Rightarrow> 'a list \<Rightarrow> bool" where
  "appended sure P xs ys \<longleftrightarrow> (\<exists>x. ys = xs @ [x] \<and> P x) \<or> (\<not> sure \<and> ys = xs)"

definition fault_row :: "string \<Rightarrow> fault_report \<Rightarrow> (nat \<Rightarrow> int) \<Rightarrow> fault_event \<Rightarrow> bool" where
  "fault_row eid f instants e \<longleftrightarrow>
     fe_execution_id e = eid \<and> fe_type e = fault_type_value (fr_fault_type f) \<and> fe_severity e = severity_value (fr_severity f)
     \<and> fe_component e = fr_observed_node f \<and> fe_message e = Some (fr_message f) \<and> fe_evidence e = Some (fr_evidence f)
     \<and> fe_created_at e \<in> range instants"

definition recovery_row :: "string \<Rightarrow> recovery_decision \<Rightarrow> recovery_result \<Rightarrow> recovery_event \<Rightarrow> bool" where
  "recovery_row eid d r e \<longleftrightarrow>
     re_execution_id e = eid \<and> re_decision e = action_member (rd_action d) \<and> re_action e = Some (action_value (rd_action d))
     \<and> re_status e = rr_status r \<and> re_reason e = Some (rd_reason d)"

lemma persist_detected_rows:
  assumes "s' = persist_detected eid f s"
  shows "rp_executions (fst s') = rp_executions (fst s)" "rp_recoveries (fst s') = rp_recoveries (fst s)"
    "rp_fails (fst s') = rp_fails (fst s)" "clock (snd s') = clock (snd s)"
    "if fr_detected f then appended (db_works (fst s)) (fault_row eid f (clock (snd s))) (rp_faults (fst s)) (rp_faults (fst s'))
     else rp_faults (fst s') = rp_faults (fst s)"
  unfolding assms
  by (auto simp: persist_detected_def persist_fault_def record_fault_def Let_def split_beta utc_now_def appended_def fault_row_def
      db_works_def call_fails_def split: option.splits)

lemma persist_recovery_rows:
  assumes "s' = persist_recovery_result rt eid d r s"
  shows "rp_executions (fst s') = rp_executions (fst s)" "rp_faults (fst s') = rp_faults (fst s)"
    "rp_fails (fst s') = rp_fails (fst s)"
    "appended (db_works (fst s)) (recovery_row eid d r) (rp_recoveries (fst s)) (rp_recoveries (fst s'))"
  unfolding assms
  by (auto simp: persist_recovery_result_def record_recovery_def Let_def split_beta utc_now_def appended_def recovery_row_def
      db_works_def call_fails_def split: option.splits)

lemma heal_recovery_repo:
  "heal_recovery cf d s = (r, s') \<Longrightarrow> fst s' = fst s \<and> (rr_success r \<longleftrightarrow> restores cf d)
     \<and> result_ok cf d r \<and> rr_events r \<noteq> []"
  using recover_audited [of cf d None None "\<lparr>rx_events = [], rx_env = snd s, rx_world = ()\<rparr>"]
  by (auto simp: heal_recovery_def bare_recovery split: prod.splits list.splits)

text \<open>What an outcome says about the execution that was analysed\<close>

definition healing_matches ::
  "rx_config \<Rightarrow> node_event list \<Rightarrow> pipeline_execution \<Rightarrow> platform_outcome \<Rightarrow> bool" where
  "healing_matches cf events ex out \<longleftrightarrow>
     (let lkg = cm_last_known_good (cf_manager cf) (Some (pe_execution_id ex)); f = po_fault out; loc = po_localization out;
          d = po_decision out
      in po_execution out = ex \<and> (\<exists>now. f = detect now ex) \<and> loc = localize (cf_runtime cf) ex f events
       \<and> (\<exists>now. po_root_cause out = analyze now ex f loc events)
       \<and> (\<exists>now. po_plan out = plan now (po_root_cause out) (map_option ck_checkpoint_id lkg))
       \<and> decide ex f loc lkg = Inr d \<and> decision_ok f lkg d \<and> rd_action d = analysis_action ex (lkg \<noteq> None) loc
       \<and> result_ok cf d (po_recovery out) \<and> (rr_success (po_recovery out) \<longleftrightarrow> restores cf d)
       \<and> po_validation out = None)"

lemma healing_matches_execution: "healing_matches cf events ex out \<Longrightarrow> po_execution out = ex"
  by (simp add: healing_matches_def Let_def)

definition healing_records :: "platform_outcome \<Rightarrow> store \<Rightarrow> store \<Rightarrow> bool" where
  "healing_records out s s' \<longleftrightarrow>
     (let eid = pe_execution_id (po_execution out); sure = db_works (fst s)
      in rp_executions (fst s') = rp_executions (fst s)
       \<and> (if fr_detected (po_fault out)
          then appended sure (fault_row eid (po_fault out) (clock (snd s))) (rp_faults (fst s)) (rp_faults (fst s'))
          else rp_faults (fst s') = rp_faults (fst s))
       \<and> appended sure (recovery_row eid (po_decision out) (po_recovery out)) (rp_recoveries (fst s)) (rp_recoveries (fst s'))
       \<and> rp_fails (fst s') = rp_fails (fst s))"

lemma heal_execution:
  assumes dom: "to_domain_execution (cf_runtime cf) execution s = (Inr ex, s1)" and same: "same_tables s s1"
  shows "\<exists>out s'. analyze_and_heal cf events execution s = (Inr out, s') \<and> healing_matches cf events ex out
    \<and> healing_records out s s'"
proof -
  let ?rt = "cf_runtime cf" and ?eid = "pe_execution_id ex"
  let ?lkg = "cm_last_known_good (cf_manager cf) (Some ?eid)"
  obtain now s2 where t1: "timed s1 = (now, s2)" by (metis surj_pair)
  define fault where "fault = detect now ex"
  define s3 where "s3 = persist_detected ?eid fault s2"
  define loc where "loc = localize ?rt ex fault events"
  obtain analysed s4 where t2: "timed s3 = (analysed, s4)" by (metis surj_pair)
  define rcr where "rcr = analyze analysed ex fault loc events"
  obtain d where d: "decide ex fault loc ?lkg = Inr d" "rd_action d = analysis_action ex (?lkg \<noteq> None) loc"
    using decide_detected unfolding fault_def by blast
  obtain r s5 where r: "heal_recovery cf d s4 = (r, s5)" by (metis surj_pair)
  define s6 where "s6 = persist_recovery_result ?rt ?eid d r s5"
  obtain planned s7 where t3: "timed s6 = (planned, s7)" by (metis surj_pair)
  let ?out = "\<lparr>po_fault = fault, po_localization = loc, po_root_cause = rcr, po_decision = d, po_recovery = r,
     po_validation = validate_recovered ?rt r, po_plan = plan planned rcr (map_option ck_checkpoint_id ?lkg), po_execution = ex\<rparr>"
  have run: "analyze_and_heal cf events execution s = (Inr ?out, s7)"
    unfolding analyze_and_heal_def Let_def dom prod.case sum.case t1 fault_def [symmetric] s3_def [symmetric]
      loc_def [symmetric] t2 rcr_def [symmetric] d(1) r s6_def [symmetric] t3 by (rule refl)
  have "healing_matches cf events ex ?out"
    using d decide_ok [OF d(1)] heal_recovery_repo [OF r]
    by (auto simp: healing_matches_def Let_def fault_def loc_def rcr_def validate_recovered_def recovered_node_def)
  moreover have "healing_records ?out s s7"
    using same same_tables_timed [OF t1] same_tables_timed [OF t2] same_tables_timed [OF t3] heal_recovery_repo [OF r]
      persist_detected_rows [OF s3_def] persist_recovery_rows [OF s6_def]
    by (auto simp: healing_records_def Let_def same_tables_def db_works_def)
  ultimately show ?thesis using run by blast
qed

text \<open>
  C23: The platform's self-healing chain answers for every execution, of nodes or persisted; only a
  persisted one without an identifier is refused. A persisted execution is read back as one that
  has a failed node for each recorded fault, or one that stands for the failure itself. The report
  is that of the detector, the localizer, the analyzer, the decision engine with the last known good
  checkpoint and the planner on it. The recovery succeeds exactly when the decision is a rollback to
  a checkpoint that the validator accepts and whose artifact can be read back from its file - retries
  and reruns never do anything - and its result is never validated. One row is added for a detected
  fault and one for the recovery, unless the database fails, and no execution changes.
\<close>

theorem platform_heals_by_rollback_only:
  "case analyze_and_heal cf events execution s of
     (Inl e, s') \<Rightarrow> s' = s \<and> (case execution of Inl _ \<Rightarrow> False | Inr x \<Rightarrow> xr_execution_id x = [])
   | (Inr out, s') \<Rightarrow>
       healing_matches cf events (po_execution out) out \<and> healing_records out s s'
       \<and> (case execution of
            Inl ex \<Rightarrow> po_execution out = ex
          | Inr x \<Rightarrow> stands_for (cf_runtime cf) x (recorded_faults x s) (po_execution out))"
proof (cases execution)
  case (Inl ex)
  have "to_domain_execution (cf_runtime cf) execution s = (Inr ex, s)"
    by (simp add: to_domain_execution_def Inl)
  from heal_execution [OF this same_tables_refl] obtain out s' where
    "analyze_and_heal cf events execution s = (Inr out, s')" "healing_matches cf events ex out" "healing_records out s s'"
    by metis
  with healing_matches_execution Inl show ?thesis by fastforce
next
  case (Inr x)
  obtain q s1 where q: "to_domain_execution (cf_runtime cf) execution s = (q, s1)" by (metis surj_pair)
  note row = to_domain_execution_row [where rt = "cf_runtime cf" and x = x and s = s, folded Inr, unfolded q prod.case]
  show ?thesis
  proof (cases q)
    case (Inl e)
    with row Inr q show ?thesis by (simp add: analyze_and_heal_def Let_def)
  next
    case domain: (Inr ex)
    with row have "same_tables s s1" and st: "stands_for (cf_runtime cf) x (recorded_faults x s) ex" by simp_all
    from heal_execution [OF q [unfolded domain] this(1)] obtain out s' where
      "analyze_and_heal cf events execution s = (Inr out, s')" "healing_matches cf events ex out" "healing_records out s s'"
      by metis
    with st healing_matches_execution Inr show ?thesis by fastforce
  qed
qed

subsection \<open>Limits of the chain\<close>

text \<open>Every rollback that the chain performs was decided to require an approval, which nobody gave.\<close>

lemma rollback_is_unapproved:
  "healing_matches cf events ex out \<Longrightarrow> rr_success (po_recovery out) \<Longrightarrow> rd_requires_approval (po_decision out)"
  by (auto simp: healing_matches_def restores_def decision_ok_def Let_def)

text \<open>An execution that is still running is reported as a fault of unknown type.\<close>

lemma running_is_reported:
  assumes "healing_matches cf events ex out" and "pe_status ex = P_RUNNING" and "pe_nodes ex = []"
  shows "fr_detected (po_fault out) \<and> fr_fault_type (po_fault out) = UNKNOWN \<and> fr_severity (po_fault out) = HIGH"
  using assms by (auto simp: healing_matches_def Let_def detect_def failed_node_def)

subsection \<open>Healing again\<close>

definition same_diagnosis :: "platform_outcome \<Rightarrow> platform_outcome \<Rightarrow> bool" where
  "same_diagnosis a b \<longleftrightarrow>
     (po_fault a)\<lparr>fr_timestamp := 0\<rparr> = (po_fault b)\<lparr>fr_timestamp := 0\<rparr> \<and> po_localization a = po_localization b
     \<and> po_decision a = po_decision b"

lemma detect_first_fault:
  assumes "stands_for rt x (f # fs) e" and "pe_status e \<noteq> P_SUCCESS"
  shows "\<exists>t. detect now e = detect now \<lparr>pe_execution_id = xr_execution_id x,
      pe_status = normalize_pipeline_status rt (Inr (PStr (xr_status x))),
      pe_nodes = [(fault_node rt (xr_execution_id x) (xr_created_at x) 0 f t)\<lparr>ne_finished_at := None\<rparr>],
      pe_started_at = 0, pe_finished_at = None\<rparr>"
proof -
  obtain n t where n: "failed_node e = Some n"
      "n = fault_node rt (xr_execution_id x) (xr_created_at x) 0 f t"
    using stands_for_failed_node [OF assms(1)] by auto
  then have "ne_status n = N_FAILED" by (simp add: fault_node_def persisted_node_def Let_def)
  with n assms show ?thesis
    by (intro exI [of _ t]) (simp add: detect_def failed_node_def stands_for_def Let_def)
qed

lemma fault_node_untimed:
  "(fault_node rt eid st i f t)\<lparr>ne_finished_at := None\<rparr> = (fault_node rt eid st i f t')\<lparr>ne_finished_at := None\<rparr>"
  by (simp add: fault_node_def persisted_node_def Let_def)

lemma detect_same:
  assumes "stands_for rt x (f # fs) e" and "stands_for rt x (f # gs) e'"
  shows "(detect now e)\<lparr>fr_timestamp := 0\<rparr> = (detect now' e')\<lparr>fr_timestamp := 0\<rparr>"
proof (cases "pe_status e = P_SUCCESS")
  case True
  with assms show ?thesis by (simp add: detect_def stands_for_def)
next
  case False
  then have "pe_status e' \<noteq> P_SUCCESS" using assms by (simp add: stands_for_def)
  from detect_first_fault [OF assms(1) False, of now] detect_first_fault [OF assms(2) this, of now]
  have "detect now e = detect now e'" using fault_node_untimed by metis
  moreover have "(detect now e')\<lparr>fr_timestamp := 0\<rparr> = (detect now' e')\<lparr>fr_timestamp := 0\<rparr>"
    by (simp add: detect_def Let_def split: option.split prod.split)
  ultimately show ?thesis by simp
qed

lemma localize_first_fault:
  assumes "stands_for rt x (f # fs) e" and "pe_status e \<noteq> P_SUCCESS"
  shows "localize rt e (detect now e) events = localize_rule6 e (ne_node_id (hd (pe_nodes e)))"
proof -
  obtain n where n: "failed_node e = Some n" "pe_nodes e \<noteq> []" "hd (pe_nodes e) = n"
    using stands_for_failed_node [OF assms(1)] by auto
  then have "preceding_nodes e (ne_node_id n) = []"
    by (cases "pe_nodes e") (auto simp: preceding_nodes_def)
  with n assms(2) show ?thesis by (simp add: localize_def detect_observed)
qed

lemma localize_same:
  assumes "stands_for rt x (f # fs) e" and "stands_for rt x (f # gs) e'"
  shows "localize rt e (detect now e) events = localize rt e' (detect now' e') events"
proof (cases "pe_status e = P_SUCCESS")
  case True
  with assms show ?thesis by (simp add: localize_def localized_def stands_for_def)
next
  case False
  then have "pe_status e' \<noteq> P_SUCCESS" using assms by (simp add: stands_for_def)
  moreover have "ne_node_id (hd (pe_nodes e)) = ne_node_id (hd (pe_nodes e'))"
    using assms by (auto simp: stands_for_def fault_node_def persisted_node_def Let_def)
  ultimately show ?thesis
    using localize_first_fault [OF assms(1) False] localize_first_fault [OF assms(2)] assms
    by (simp add: localize_rule6_def localized_def stands_for_def)
qed

lemma decide_untimed: "decide e (f\<lparr>fr_timestamp := t\<rparr>) loc lkg = decide e f loc lkg"
proof (cases f)
  case (fields eid detected observed ft severity message evidence time)
  show ?thesis unfolding fields fault_report.simps decide_defs Let_def by (rule refl)
qed

lemma decide_same:
  assumes "pe_execution_id e = pe_execution_id e'" and "f\<lparr>fr_timestamp := 0\<rparr> = f'\<lparr>fr_timestamp := 0\<rparr>"
  shows "decide e f loc lkg = decide e' f' loc lkg"
proof -
  have "decide e (f\<lparr>fr_timestamp := 0\<rparr>) loc lkg = decide e' (f\<lparr>fr_timestamp := 0\<rparr>) loc lkg"
    using assms(1) by (simp add: decide_def)
  then show ?thesis unfolding decide_untimed assms(2) by (metis assms(2) decide_untimed)
qed

lemma healing_matches_decide:
  "healing_matches cf events ex out \<Longrightarrow>
     decide ex (po_fault out) (po_localization out) (cm_last_known_good (cf_manager cf) (Some (pe_execution_id ex)))
       = Inr (po_decision out)"
  unfolding healing_matches_def Let_def by (elim conjE)

lemma healing_same:
  assumes a: "healing_matches cf events e a" "stands_for (cf_runtime cf) x (f # fs) e"
    and b: "healing_matches cf events e' b" "stands_for (cf_runtime cf) x (f # gs) e'"
  shows "same_diagnosis a b"
proof -
  obtain now now' where f: "po_fault a = detect now e" "po_fault b = detect now' e'"
    using a(1) b(1) by (auto simp: healing_matches_def Let_def)
  have l: "po_localization a = localize (cf_runtime cf) e (po_fault a) events"
      "po_localization b = localize (cf_runtime cf) e' (po_fault b) events"
    using a(1) b(1) by (simp_all add: healing_matches_def Let_def)
  have id: "pe_execution_id e = pe_execution_id e'"
    using a(2) b(2) by (simp add: stands_for_def)
  have loc: "po_localization a = po_localization b"
    unfolding l f by (rule localize_same [OF a(2) b(2)])
  have fault: "(po_fault a)\<lparr>fr_timestamp := 0\<rparr> = (po_fault b)\<lparr>fr_timestamp := 0\<rparr>"
    unfolding f by (rule detect_same [OF a(2) b(2)])
  have "po_decision a = po_decision b"
    using healing_matches_decide [OF a(1)] healing_matches_decide [OF b(1)] decide_same [OF id fault] by (simp add: id loc)
  with loc fault show ?thesis by (simp add: same_diagnosis_def)
qed

text \<open>A later fault does not come before the first.\<close>

lemma sort_key_head:
  assumes "sort_key k xs = x # ys" and "k x \<le> k z"
  shows "\<exists>zs. sort_key k (xs @ [z]) = x # zs"
proof (cases "sort_key k (xs @ [z])")
  case Nil
  then have "length (xs @ [z]) = 0" by (metis length_sort list.size(3))
  then show ?thesis by simp
next
  case (Cons w ws)
  have elems: "set (x # ys) = set xs" "set (w # ws) = insert z (set xs)"
    using arg_cong [OF assms(1), of set] arg_cong [OF Cons, of set] by simp_all
  have "sorted (map k (x # ys))" "sorted (map k (w # ws))"
    using sorted_sort_key [of k xs] sorted_sort_key [of k "xs @ [z]"] by (simp_all only: assms(1) Cons)
  then have min: "\<forall>u \<in> set xs. k x \<le> k u" "\<forall>u \<in> insert z (set xs). k w \<le> k u"
    using elems by auto
  have mem: "x \<in> set xs" "w \<in> insert z (set xs)" using elems by auto
  have "k x \<le> k w" using min(1) assms(2) mem(2) by auto
  moreover have "k w \<le> k x" using min(2) mem(1) by simp
  ultimately have kw: "k w = k x" by (rule antisym [symmetric])
  have "filter (\<lambda>u. k u = k x) (w # ws) = filter (\<lambda>u. k u = k x) xs @ filter (\<lambda>u. k u = k x) [z]"
    using sort_key_stable [of k "k x" "xs @ [z]"] by (simp add: Cons)
  moreover have "filter (\<lambda>u. k u = k x) xs = x # filter (\<lambda>u. k u = k x) ys"
    using sort_key_stable [of k "k x" xs] by (simp add: assms(1))
  ultimately show ?thesis using Cons kw by simp
qed

lemma faults_of_append:
  "faults_of eid (r\<lparr>rp_faults := fs\<rparr>) = sort_key fe_created_at (filter (\<lambda>f. fe_execution_id f = eid) fs)"
  by (simp add: faults_of_def)

lemma first_fault_stays:
  assumes "faults_of eid (fst s) = f # fs" and "\<And>n. fe_created_at f \<le> clock (snd s) n"
    and "healing_records out s s'"
  shows "\<exists>gs. faults_of eid (fst s') = f # gs"
proof -
  from assms(3) consider "rp_faults (fst s') = rp_faults (fst s)"
    | g where "rp_faults (fst s') = rp_faults (fst s) @ [g]" "fe_created_at g \<in> range (clock (snd s))"
    by (fastforce simp: healing_records_def Let_def appended_def fault_row_def split: if_splits)
  then show ?thesis
  proof cases
    case 1
    with assms(1) show ?thesis by (simp add: faults_of_def)
  next
    case (2 g)
    with assms(2) have "fe_created_at f \<le> fe_created_at g" by auto
    then show ?thesis
      using 2 assms(1) sort_key_head [where k = fe_created_at and x = f and ys = fs and z = g
          and xs = "filter (\<lambda>f. fe_execution_id f = eid) (rp_faults (fst s))"]
      by (cases "fe_execution_id g = eid") (auto simp: faults_of_def)
  qed
qed

text \<open>
  C24: Healing again changes nothing. When the database works, an execution with a recorded fault
  that is healed twice gets the same report but for its time, the same localization and the same
  decision, although the first call has recorded another fault. Assumed is that the clock never
  reads earlier than the first fault.
\<close>

theorem healing_again_agrees:
  assumes "db_works (fst s)" and "faults_of (xr_execution_id x) (fst s) = f # fs" and "xr_execution_id x \<noteq> []"
    and "\<And>n. fe_created_at f \<le> clock (snd s) n"
  shows "case analyze_and_heal cf events (Inr x) s of
      (Inl _, _) \<Rightarrow> False
    | (Inr a, s1) \<Rightarrow>
        (case analyze_and_heal cf events (Inr x) s1 of
           (Inl _, _) \<Rightarrow> False
         | (Inr b, s2) \<Rightarrow> same_diagnosis a b)"
proof -
  have heals: "\<exists>out s' e. analyze_and_heal cf events (Inr x) t = (Inr out, s') \<and> healing_matches cf events e out
      \<and> healing_records out t s' \<and> stands_for (cf_runtime cf) x (recorded_faults x t) e" for t
  proof -
    obtain q t1 where q: "to_domain_execution (cf_runtime cf) (Inr x) t = (q, t1)" by (metis surj_pair)
    from to_domain_execution_row [where rt = "cf_runtime cf" and x = x and s = t] assms(3) q
    obtain e where e: "q = Inr e" "stands_for (cf_runtime cf) x (recorded_faults x t) e" "same_tables t t1"
      by (cases q) auto
    from heal_execution [OF q [unfolded e(1)] e(3)] e(2) show ?thesis by metis
  qed
  obtain a s1 e where a: "analyze_and_heal cf events (Inr x) s = (Inr a, s1)" "healing_matches cf events e a"
      "healing_records a s s1" "stands_for (cf_runtime cf) x (recorded_faults x s) e"
    using heals by metis
  obtain b s2 e' where b: "analyze_and_heal cf events (Inr x) s1 = (Inr b, s2)" "healing_matches cf events e' b"
      "stands_for (cf_runtime cf) x (recorded_faults x s1) e'"
    using heals by metis
  obtain gs where gs: "faults_of (xr_execution_id x) (fst s1) = f # gs"
    using first_fault_stays [OF assms(2,4) a(3)] by blast
  have works: "db_works (fst s1)"
    using a(3) assms(1) by (simp add: healing_records_def Let_def db_works_def)
  have "recorded_faults x s = f # fs" "recorded_faults x s1 = f # gs"
    using assms(1,2) gs works by (simp_all add: recorded_faults_def db_works_def call_fails_def)
  with healing_same a b show ?thesis by (metis (no_types, lifting) case_prod_conv sum.case(2))
qed

definition demo_row :: execution_row where
  "demo_row = \<lparr>xr_id = 1, xr_execution_id = ''e1'', xr_dataset_path = None, xr_fingerprint = None, xr_status = ''failed'',
     xr_success = False, xr_message = None, xr_result = None, xr_created_at = 0, xr_completed_at = None\<rparr>"

definition demo_fault :: fault_event where
  "demo_fault = \<lparr>fe_id = 1, fe_execution_id = ''e1'', fe_type = ''ValueError'', fe_severity = ''high'', fe_component = Some ''orchestrator'',
     fe_message = Some ''bad'', fe_evidence = None, fe_created_at = 0\<rparr>"

definition demo_store :: store where
  "demo_store = (\<lparr>rp_executions = [demo_row], rp_faults = [demo_fault], rp_recoveries = [], rp_calls = 0, rp_fails = (\<lambda>_. None),
     rp_unique = (\<lambda>_. [])\<rparr>, demo_env)"

definition demo_config :: rx_config where
  "demo_config = \<lparr>cf_runtime = demo_rt, cf_manager = \<lparr>mg_root_dir = ''c'', mg_checkpoints = [], mg_files = (\<lambda>_. None),
     mg_write_error = (\<lambda>_. None)\<rparr>, cf_pipeline_id = ''recovery'', cf_max_attempts = 1\<rparr>"

theorem healing_again_agrees_witness:
  "\<exists>a s1 b s2. analyze_and_heal demo_config [] (Inr demo_row) demo_store = (Inr a, s1)
     \<and> analyze_and_heal demo_config [] (Inr demo_row) s1 = (Inr b, s2) \<and> same_diagnosis a b"
proof -
  have "db_works (fst demo_store)" "faults_of (xr_execution_id demo_row) (fst demo_store) = demo_fault # []"
    "xr_execution_id demo_row \<noteq> []" "\<And>n. fe_created_at demo_fault \<le> clock (snd demo_store) n"
    by (simp_all add: db_works_def demo_store_def demo_row_def demo_fault_def faults_of_def demo_env_def)
  note agree = healing_again_agrees [OF this, where cf = demo_config and events = "[]"]
  obtain q s1 where q: "analyze_and_heal demo_config [] (Inr demo_row) demo_store = (q, s1)" by (metis surj_pair)
  then obtain a where a: "q = Inr a" using agree by (cases q) auto
  obtain p s2 where p: "analyze_and_heal demo_config [] (Inr demo_row) s1 = (p, s2)" by (metis surj_pair)
  then obtain b where "p = Inr b" using agree q a by (cases p) auto
  then show ?thesis using agree q a p by auto
qed

end
