(* ===== verification/Monitor.thy ===== *)
theory Monitor
  imports Execution Measures
begin

text \<open>
  The pipeline monitor (\<open>core/monitoring/monitor.py\<close>): checks that raise alerts, and the buffer they
  are drained from. The state is the buffer with the counter of the identifiers; alerts carry the
  time at which they are raised.
\<close>

subsection \<open>Alerts and thresholds\<close>

record monitoring_alert =
  al_id :: string
  al_category :: string
  al_severity :: string
  al_execution_id :: "string option"
  al_node_id :: "string option"
  al_message :: string
  al_evidence :: "string list"
  al_metadata :: dict
  al_raised_at :: int

definition alert_to_dict :: "runtime \<Rightarrow> monitoring_alert \<Rightarrow> dict" where
  "alert_to_dict rt a =
     [(''alert_id'', PStr (al_id a)), (''category'', PStr (al_category a)), (''severity'', PStr (al_severity a)),
      (''execution_id'', opt_str (al_execution_id a)), (''node_id'', opt_str (al_node_id a)), (''message'', PStr (al_message a)),
      (''evidence'', PList (map PStr (al_evidence a))), (''metadata'', PDict (al_metadata a)),
      (''raised_at'', PStr (rt_iso rt (al_raised_at a)))]"

text \<open>
  The thresholds on missing values, rows, means and metrics are read by the checks; the others of
  the configuration are not.
\<close>

record monitoring_config =
  mc_max_missing :: rat
  mc_max_high_cardinality :: rat
  mc_min_rows :: int
  mc_max_mean_drift :: rat
  mc_max_std_drift :: rat
  mc_min_accuracy :: rat
  mc_min_r2 :: rat
  mc_max_prediction_drift :: rat

definition monitoring_defaults :: monitoring_config where
  "monitoring_defaults = \<lparr>mc_max_missing = 30 / 100, mc_max_high_cardinality = 80 / 100, mc_min_rows = 10, mc_max_mean_drift = 20 / 100,
     mc_max_std_drift = 30 / 100, mc_min_accuracy = 50 / 100, mc_min_r2 = 0, mc_max_prediction_drift = 25 / 100\<rparr>"

record monitor =
  mn_config :: monitoring_config
  mn_alerts :: "monitoring_alert list"
  mn_counter :: nat

text \<open>A monitor with the clock that its alerts read\<close>

type_synonym watch = "monitor \<times> env"

definition monitor_init :: "monitoring_config option \<Rightarrow> monitor" where
  "monitor_init c = \<lparr>mn_config = (case c of None \<Rightarrow> monitoring_defaults | Some x \<Rightarrow> x), mn_alerts = [], mn_counter = 0\<rparr>"

definition alert_id :: "nat \<Rightarrow> string" where
  "alert_id n = ''alert-'' @ zero_pad 6 (show_nat n)"

definition raise_alert ::
  "string \<Rightarrow> string \<Rightarrow> string \<Rightarrow> string list \<Rightarrow> string option \<Rightarrow> string option \<Rightarrow> watch \<Rightarrow> watch" where
  "raise_alert category severity message evidence execution node w =
     (let (m, e) = w; n = Suc (mn_counter m); (now, e') = utc_now e;
          a = \<lparr>al_id = alert_id n, al_category = category, al_severity = severity, al_execution_id = execution, al_node_id = node,
               al_message = message, al_evidence = evidence, al_metadata = [], al_raised_at = now\<rparr>
      in (m\<lparr>mn_alerts := mn_alerts m @ [a], mn_counter := n\<rparr>, e'))"

definition drain :: "monitor \<Rightarrow> monitoring_alert list \<times> monitor" where
  "drain m = (mn_alerts m, m\<lparr>mn_alerts := []\<rparr>)"

text \<open>\<open>{x:.1%}\<close>\<close>

definition fmt_percent :: "rat \<Rightarrow> string" where
  "fmt_percent x = fmt_fixed 1 (x * 100) @ ''%''"

subsection \<open>Checks\<close>

definition check_execution :: "pipeline_execution \<Rightarrow> watch \<Rightarrow> watch" where
  "check_execution execution m =
     (if pe_status execution = P_FAILED
      then
        (let failed = failed_node execution; node_id = map_option ne_node_id failed; eid = pe_execution_id execution;
             evidence = (case failed of
                None \<Rightarrow> []
              | Some n \<Rightarrow> [''failed_node: '' @ ne_node_id n]
                  @ (if truthy_str (ne_error_type n) then [''error_type: '' @ the (ne_error_type n)] else [])
                  @ (if truthy_str (ne_error_message n) then [''error_message: '' @ take_chars 200 (the (ne_error_message n))] else []))
         in raise_alert ''EXECUTION_FAILURE'' ''ERROR''
              (''Pipeline execution '' @ sq eid @ '' failed at node '' @ sq (fmt_opt node_id) @ ''.'') evidence (Some eid) node_id m)
      else m)"

definition check_data_quality :: "string \<Rightarrow> string \<Rightarrow> int \<Rightarrow> rat \<Rightarrow> rat \<Rightarrow> watch \<Rightarrow> watch" where
  "check_data_quality node_id eid row_count missing_fraction high_cardinality_fraction m =
     (let c = mn_config (fst m);
          m1 = (if row_count < mc_min_rows c
            then raise_alert ''DATA_QUALITY'' ''WARNING''
              (''Node '' @ sq node_id @ '': dataset has only '' @ show_int row_count @ '' rows (minimum: '' @ show_int (mc_min_rows c) @ '').'')
              [''row_count: '' @ show_int row_count] (Some eid) (Some node_id) m
            else m)
      in if missing_fraction > mc_max_missing c
         then raise_alert ''DATA_QUALITY'' ''WARNING''
           (''Node '' @ sq node_id @ '': missing data fraction '' @ fmt_percent missing_fraction @ '' exceeds threshold ''
            @ fmt_percent (mc_max_missing c) @ ''.'')
           [''missing_fraction: '' @ fmt_fixed 4 missing_fraction, ''threshold: '' @ fmt_fixed 4 (mc_max_missing c)]
           (Some eid) (Some node_id) m1
         else m1)"

text \<open>\<open>sorted(set(xs) - set(ys))\<close>\<close>

definition sorted_minus :: "string list \<Rightarrow> string list \<Rightarrow> string list" where
  "sorted_minus xs ys = sort (remdups (filter (\<lambda>x. x \<notin> set ys) xs))"

definition check_schema_change :: "runtime \<Rightarrow> string \<Rightarrow> string \<Rightarrow> string list \<Rightarrow> string list \<Rightarrow> watch \<Rightarrow> watch" where
  "check_schema_change rt node_id eid reference current m =
     (let added = sorted_minus current reference; removed = sorted_minus reference current;
          shown = (\<lambda>xs. rt_str rt (PList (map PStr xs)))
      in if added \<noteq> [] \<or> removed \<noteq> []
         then raise_alert ''SCHEMA_CHANGE'' ''ERROR''
           (''Node '' @ sq node_id @ '': schema changed. Added: '' @ shown added @ '', Removed: '' @ shown removed @ ''.'')
           [''added_columns: '' @ shown added, ''removed_columns: '' @ shown removed] (Some eid) (Some node_id) m
         else m)"

type_synonym column_stats = "(string \<times> (string \<times> rat) list) list"

definition stat_mean :: "(string \<times> rat) list \<Rightarrow> rat" where
  "stat_mean stats = (case map_of stats ''mean'' of None \<Rightarrow> 0 | Some x \<Rightarrow> x)"

text \<open>The relative shift of a mean, unless the reference is too close to zero\<close>

definition mean_drift :: "rat \<Rightarrow> rat \<Rightarrow> rat option" where
  "mean_drift ref cur = (if \<bar>ref\<bar> > 1 / 10 ^ 9 then Some (\<bar>cur - ref\<bar> / \<bar>ref\<bar>) else None)"

definition check_column_drift :: "string \<Rightarrow> string \<Rightarrow> column_stats \<Rightarrow> string \<times> (string \<times> rat) list \<Rightarrow> watch \<Rightarrow> watch" where
  "check_column_drift node_id eid current entry m =
     (let (col, stats) = entry; limit = mc_max_mean_drift (mn_config (fst m)); ref = stat_mean stats
      in case map_of current col of
           None \<Rightarrow> m
         | Some now_stats \<Rightarrow>
             (let cur = stat_mean now_stats
              in case mean_drift ref cur of
                   None \<Rightarrow> m
                 | Some drift \<Rightarrow>
                     if drift > limit
                     then raise_alert ''DATA_DRIFT'' ''WARNING''
                       (''Node '' @ sq node_id @ '': column '' @ sq col @ '' mean drifted '' @ fmt_percent drift
                        @ '' from reference (threshold: '' @ fmt_percent limit @ '').'')
                       [''column: '' @ col, ''ref_mean: '' @ fmt_fixed 4 ref, ''cur_mean: '' @ fmt_fixed 4 cur,
                        ''drift: '' @ fmt_fixed 4 drift] (Some eid) (Some node_id) m
                     else m))"

definition check_data_drift :: "string \<Rightarrow> string \<Rightarrow> column_stats \<Rightarrow> column_stats \<Rightarrow> watch \<Rightarrow> watch" where
  "check_data_drift node_id eid reference current m = fold (check_column_drift node_id eid current) reference m"

definition r_squared :: string where
  "r_squared = ''R'' @ [CHR 0xC2, CHR 0xB2]"

definition check_model_metrics :: "runtime \<Rightarrow> string \<Rightarrow> string \<Rightarrow> string \<Rightarrow> (string \<times> rat) list \<Rightarrow> watch \<Rightarrow> watch" where
  "check_model_metrics rt eid model task metrics m =
     (let below = (\<lambda>value limit label key.
            if value < limit
            then raise_alert ''MODEL_DEGRADATION'' ''WARNING''
              (''Model '' @ sq model @ '': '' @ label @ '' '' @ fmt_fixed 3 value @ '' is below minimum threshold ''
               @ fmt_fixed 3 limit @ ''.'')
              [''model: '' @ model, key @ '': '' @ fmt_fixed 4 value, ''threshold: '' @ rt_str rt (PFloat limit)] (Some eid) None m
            else m)
      in if task = ''classification''
         then (case map_of metrics ''accuracy'' of
                 None \<Rightarrow> m | Some acc \<Rightarrow> below acc (mc_min_accuracy (mn_config (fst m))) ''accuracy'' ''accuracy'')
         else if task = ''regression''
         then (case map_of metrics ''r2'' of None \<Rightarrow> m | Some r2 \<Rightarrow> below r2 (mc_min_r2 (mn_config (fst m))) r_squared ''r2'')
         else m)"

subsection \<open>Histories of calls\<close>

datatype monitor_call =
    Check_execution pipeline_execution
  | Check_quality string string int rat rat
  | Check_schema string string "string list" "string list"
  | Check_drift string string column_stats column_stats
  | Check_metrics string string string "(string \<times> rat) list"
  | Drain

text \<open>The alerts that were drained so far, and the monitor\<close>

fun monitor_step :: "runtime \<Rightarrow> monitor_call \<Rightarrow> monitoring_alert list \<times> watch \<Rightarrow> monitoring_alert list \<times> watch" where
  "monitor_step rt (Check_execution x) (out, w) = (out, check_execution x w)"
| "monitor_step rt (Check_quality n i rows missing high) (out, w) = (out, check_data_quality n i rows missing high w)"
| "monitor_step rt (Check_schema n i ref cur) (out, w) = (out, check_schema_change rt n i ref cur w)"
| "monitor_step rt (Check_drift n i ref cur) (out, w) = (out, check_data_drift n i ref cur w)"
| "monitor_step rt (Check_metrics i model task metrics) (out, w) = (out, check_model_metrics rt i model task metrics w)"
| "monitor_step rt Drain (out, m, e) = (let (alerts, m') = drain m in (out @ alerts, m', e))"

text \<open>The specification: the categories of the alerts that a call must raise\<close>

definition drifted :: "rat \<Rightarrow> column_stats \<Rightarrow> string \<times> (string \<times> rat) list \<Rightarrow> bool" where
  "drifted limit current entry \<longleftrightarrow>
     (case map_of current (fst entry) of
        None \<Rightarrow> False
      | Some stats \<Rightarrow> \<bar>stat_mean (snd entry)\<bar> > 1 / 10 ^ 9
          \<and> \<bar>stat_mean stats - stat_mean (snd entry)\<bar> > limit * \<bar>stat_mean (snd entry)\<bar>)"

definition metric_below :: "string \<Rightarrow> (string \<times> rat) list \<Rightarrow> rat \<Rightarrow> bool" where
  "metric_below key metrics limit \<longleftrightarrow> (case map_of metrics key of None \<Rightarrow> False | Some x \<Rightarrow> x < limit)"

fun breaches :: "monitoring_config \<Rightarrow> monitor_call \<Rightarrow> string list" where
  "breaches c (Check_execution x) = (if pe_status x = P_FAILED then [''EXECUTION_FAILURE''] else [])"
| "breaches c (Check_quality n i rows missing high) =
     replicate (of_bool (rows < mc_min_rows c) + of_bool (missing > mc_max_missing c)) ''DATA_QUALITY''"
| "breaches c (Check_schema n i ref cur) = (if set ref = set cur then [] else [''SCHEMA_CHANGE''])"
| "breaches c (Check_drift n i ref cur) = replicate (length (filter (drifted (mc_max_mean_drift c) cur) ref)) ''DATA_DRIFT''"
| "breaches c (Check_metrics i model task metrics) =
     (if task = ''classification'' \<and> metric_below ''accuracy'' metrics (mc_min_accuracy c)
         \<or> task = ''regression'' \<and> metric_below ''r2'' metrics (mc_min_r2 c)
      then [''MODEL_DEGRADATION''] else [])"
| "breaches c Drain = []"

text \<open>A check appends alerts of these categories, with the next identifiers.\<close>

definition raises :: "string list \<Rightarrow> watch \<Rightarrow> watch \<Rightarrow> bool" where
  "raises cats w w' \<longleftrightarrow>
     mn_config (fst w') = mn_config (fst w) \<and> mn_counter (fst w') = mn_counter (fst w) + length cats
     \<and> (\<exists>new. mn_alerts (fst w') = mn_alerts (fst w) @ new \<and> map al_category new = cats
          \<and> map al_id new = map alert_id [Suc (mn_counter (fst w))..<Suc (mn_counter (fst w) + length cats)])"

lemma raises_refl [simp, intro]: "raises [] w w"
  by (simp add: raises_def)

lemma raises_alert [intro]: "raises [c] w (raise_alert c sev msg ev x n w)"
  by (cases w) (simp add: raises_def raise_alert_def Let_def utc_now_def)

lemma raises_trans:
  assumes "raises xs a b" and "raises ys b c"
  shows "raises (xs @ ys) a c"
proof -
  have "[Suc n..<Suc (n + length (xs @ ys))] = [Suc n..<Suc (n + length xs)] @ [Suc (n + length xs)..<Suc (n + length xs + length ys)]" for n
    using upt_add_eq_append [of "Suc n" "Suc (n + length xs)" "length ys"] by (simp add: add.assoc)
  with assms show ?thesis by (fastforce simp: raises_def)
qed

lemma raises_config: "raises cats w w' \<Longrightarrow> mn_config (fst w') = mn_config (fst w)"
  by (simp add: raises_def)

lemma sorted_minus_Nil: "sorted_minus xs ys = [] \<longleftrightarrow> set xs \<subseteq> set ys"
proof -
  have "sorted_minus xs ys = [] \<longleftrightarrow> set (sorted_minus xs ys) = {}" by simp
  also have "\<dots> \<longleftrightarrow> set xs \<subseteq> set ys" by (auto simp: sorted_minus_def)
  finally show ?thesis .
qed

lemma drift_raises:
  "raises (if drifted (mc_max_mean_drift (mn_config (fst w))) current entry then [''DATA_DRIFT''] else []) w
     (check_column_drift node eid current entry w)"
proof -
  have over: "\<bar>cur - ref\<bar> / \<bar>ref\<bar> > limit \<longleftrightarrow> \<bar>cur - ref\<bar> > limit * \<bar>ref\<bar>" if "\<bar>ref\<bar> > 1 / 10 ^ 9" for cur ref limit :: rat
    using that by (subst pos_less_divide_eq) auto
  show ?thesis
    by (cases entry) (auto simp: check_column_drift_def drifted_def mean_drift_def over Let_def split: option.splits)
qed

lemma drifts_raise:
  "raises (replicate (length (filter (drifted (mc_max_mean_drift (mn_config (fst w))) current) entries)) ''DATA_DRIFT'') w
     (fold (check_column_drift node eid current) entries w)"
proof (induction entries arbitrary: w)
  case (Cons entry entries)
  let ?w = "check_column_drift node eid current entry w"
  note first = drift_raises [of w current entry node eid]
  from raises_trans [OF first Cons.IH [of ?w]] raises_config [OF first] show ?case
    by (simp split: if_splits)
qed simp

lemma check_raises: "call \<noteq> Drain \<Longrightarrow> \<exists>w'. monitor_step rt call (out, w) = (out, w') \<and> raises (breaches (mn_config (fst w)) call) w w'"
proof (cases call)
  case (Check_quality n i rows missing high)
  let ?q = "\<lambda>P. if P then [''DATA_QUALITY''] else []"
  define w1 where "w1 = check_data_quality n i rows (mc_max_missing (mn_config (fst w))) high w"
  have a: "raises (?q (rows < mc_min_rows (mn_config (fst w)))) w w1"
    by (auto simp: w1_def check_data_quality_def Let_def)
  have "raises (?q (missing > mc_max_missing (mn_config (fst w)))) w1 (check_data_quality n i rows missing high w)"
    by (auto simp: w1_def check_data_quality_def Let_def)
  from raises_trans [OF a this] Check_quality show ?thesis
    by (auto split: if_splits)
next
  case (Check_schema n i ref cur)
  then show ?thesis
    by (auto simp: check_schema_change_def Let_def sorted_minus_Nil)
next
  case (Check_drift n i ref cur)
  with drifts_raise [of w cur ref n i] show ?thesis
    by (auto simp: check_data_drift_def)
next
  case (Check_metrics i model task metrics)
  then show ?thesis
    by (auto simp: check_model_metrics_def Let_def metric_below_def split: option.splits)
qed (auto simp: check_execution_def Let_def)

text \<open>Identifiers: the number can be read back from the digits.\<close>

definition read_digits :: "string \<Rightarrow> nat" where
  "read_digits s = foldl (\<lambda>n c. 10 * n + (of_char c - 48)) 0 s"

lemma digit_code: "k < 10 \<Longrightarrow> of_char (char_of (48 + k) :: char) = (48 + k :: nat)"
  by (simp add: of_char_of)

lemma read_digits_append: "read_digits (s @ [c]) = 10 * read_digits s + (of_char c - 48)"
  by (simp add: read_digits_def)

lemma read_show_nat: "read_digits (show_nat n) = n"
proof (induction n rule: show_nat.induct)
  case (1 n)
  show ?case
  proof (cases "n < 10")
    case True
    then show ?thesis using digit_code [of n] by (subst show_nat.simps) (simp add: read_digits_def)
  next
    case False
    with 1 show ?thesis using digit_code [of "n mod 10"] by (subst show_nat.simps) (simp add: read_digits_append)
  qed
qed

lemma read_padded: "read_digits (replicate k (CHR ''0'') @ s) = read_digits s"
  by (induction k) (simp_all add: read_digits_def)

lemma read_zero_pad: "read_digits (zero_pad k (show_nat n)) = n"
  by (simp add: zero_pad_def read_padded read_show_nat)

lemma alert_id_inj: "alert_id m = alert_id n \<longleftrightarrow> m = n"
proof
  assume "alert_id m = alert_id n"
  then have "zero_pad 6 (show_nat m) = zero_pad 6 (show_nat n)" by (simp add: alert_id_def)
  then show "m = n" using read_zero_pad by metis
qed simp

definition numbered :: "monitoring_alert list \<Rightarrow> nat \<Rightarrow> bool" where
  "numbered alerts n \<longleftrightarrow> length alerts = n \<and> map al_id alerts = map alert_id [1..<Suc n]"

lemma numbered_distinct: "numbered alerts n \<Longrightarrow> distinct (map al_id alerts)"
  by (simp add: numbered_def distinct_map inj_on_def alert_id_inj)

lemma numbered_raises:
  assumes "numbered (out @ mn_alerts (fst w)) (mn_counter (fst w))" and "raises cats w w'"
  shows "numbered (out @ mn_alerts (fst w')) (mn_counter (fst w'))
    \<and> map al_category (out @ mn_alerts (fst w')) = map al_category (out @ mn_alerts (fst w)) @ cats"
proof -
  let ?n = "mn_counter (fst w)"
  obtain new where new: "mn_alerts (fst w') = mn_alerts (fst w) @ new" "map al_category new = cats"
      "map al_id new = map alert_id [Suc ?n..<Suc (?n + length cats)]" "mn_counter (fst w') = ?n + length cats"
    using assms(2) by (auto simp: raises_def)
  have "[1..<Suc (?n + length cats)] = [1..<Suc ?n] @ [Suc ?n..<Suc (?n + length cats)]"
    using upt_add_eq_append [of 1 "Suc ?n" "length cats"] by simp
  moreover have "length new = length cats" using new(2) by (metis length_map)
  ultimately show ?thesis
    using assms(1) new by (auto simp: numbered_def)
qed

lemma history_invariant:
  assumes "fold (monitor_step rt) calls (out, w) = (out', w')"
    and "numbered (out @ mn_alerts (fst w)) (mn_counter (fst w))"
  shows "mn_config (fst w') = mn_config (fst w) \<and> numbered (out' @ mn_alerts (fst w')) (mn_counter (fst w'))
    \<and> map al_category (out' @ mn_alerts (fst w'))
      = map al_category (out @ mn_alerts (fst w)) @ concat (map (breaches (mn_config (fst w))) calls)"
  using assms
proof (induction calls arbitrary: out w)
  case (Cons call calls)
  show ?case
  proof (cases "call = Drain")
    case True
    let ?w = "((fst w)\<lparr>mn_alerts := []\<rparr>, snd w)"
    have "fold (monitor_step rt) calls (out @ mn_alerts (fst w), ?w) = (out', w')"
      using Cons.prems(1) True by (cases w) (simp add: drain_def)
    from Cons.IH [OF this] Cons.prems(2) True show ?thesis by simp
  next
    case False
    from check_raises [OF this, of rt out w] obtain w1
      where w1: "monitor_step rt call (out, w) = (out, w1)" "raises (breaches (mn_config (fst w)) call) w w1" by blast
    have "fold (monitor_step rt) calls (out, w1) = (out', w')"
      using Cons.prems(1) w1(1) by simp
    from Cons.IH [OF this] numbered_raises [OF Cons.prems(2) w1(2)] raises_config [OF w1(2)] show ?thesis by simp
  qed
qed simp

text \<open>
  Over any history of checks and drains the monitor raises exactly the alerts that the
  thresholds demand, in the order of the checks: for a failed execution, too few rows, too many
  missing values, a changed set of columns, each mean that shifted too far and a metric below its
  minimum. None is lost or handed out twice: those drained and those still in the buffer carry the
  identifiers from one on without a gap or a repetition.
\<close>

theorem monitor_raises_on_breach:
  "case fold (monitor_step rt) calls ([], monitor_init c, e) of (out, m, e') \<Rightarrow>
     map al_category (out @ mn_alerts m) = concat (map (breaches (mn_config (monitor_init c))) calls)
     \<and> map al_id (out @ mn_alerts m) = map alert_id [1..<Suc (mn_counter m)] \<and> distinct (map al_id (out @ mn_alerts m))"
proof -
  obtain out m e' where run: "fold (monitor_step rt) calls ([], monitor_init c, e) = (out, m, e')" by (metis surj_pair)
  have "numbered ([] @ mn_alerts (fst (monitor_init c, e))) (mn_counter (fst (monitor_init c, e)))"
    by (simp add: numbered_def monitor_init_def)
  from history_invariant [OF run this] have h: "mn_config m = mn_config (monitor_init c)"
      "numbered (out @ mn_alerts m) (mn_counter m)"
      "map al_category (out @ mn_alerts m) = concat (map (breaches (mn_config (monitor_init c))) calls)"
    by (simp_all add: monitor_init_def)
  show ?thesis
    unfolding run prod.case using h(2,3) numbered_distinct [OF h(2)] unfolding numbered_def by blast
qed

end
