(* ===== verification/Splits.thy ===== *)
theory Splits
  imports Prelude
begin

text \<open>
  Splitting a data set for validation (\<open>app/engine/core/models/splitters.py\<close>). A split is the
  positions of its training and its test rows. The shufflers of scikit-learn, the sorting and
  random functions of numpy and the parsing and binning of pandas are a parameter, the record
  \<open>split_lib\<close>, whose documented behaviour is \<open>lib_laws\<close>.
\<close>

type_synonym split = "nat list \<times> nat list"

record split_lib =
  sl_train_test :: "nat \<Rightarrow> rat \<Rightarrow> int \<Rightarrow> split result"
  sl_stratified :: "pyval list \<Rightarrow> rat \<Rightarrow> int \<Rightarrow> split result"
  sl_group :: "pyval list \<Rightarrow> rat \<Rightarrow> int \<Rightarrow> split result"
  sl_datetime :: "pyval \<Rightarrow> int option"
  sl_argsort :: "int list \<Rightarrow> nat list"
  sl_isna :: "pyval \<Rightarrow> bool"
  sl_qcut :: "pyval list \<Rightarrow> nat \<Rightarrow> string list result"
  sl_permutation :: "int \<Rightarrow> string list \<Rightarrow> string list"

record dataset =
  ds_rows :: nat
  ds_columns :: "(string \<times> pyval list) list"
  ds_y :: "pyval list"

record split_request =
  sr_strategy :: string
  sr_test_size :: rat
  sr_random_state :: int
  sr_group :: "string option"
  sr_time :: "string option"
  sr_latitude :: "string option"
  sr_longitude :: "string option"

definition value_error :: "string \<Rightarrow> exn" where
  "value_error msg = Exn ''ValueError'' msg"

text \<open>A column that the strategy needs: not given, not there, or its values\<close>

definition needed_column :: "dataset \<Rightarrow> string option \<Rightarrow> string \<Rightarrow> string \<Rightarrow> pyval list result" where
  "needed_column ds name missing kind =
     (case name of
        None \<Rightarrow> Inl (value_error missing)
      | Some c \<Rightarrow>
          (case map_of (ds_columns ds) c of
             None \<Rightarrow> Inl (value_error (kind @ '' column not found: '' @ c))
           | Some vs \<Rightarrow> Inr vs))"

definition group_split :: "split_lib \<Rightarrow> split_request \<Rightarrow> dataset \<Rightarrow> split result" where
  "group_split lib q ds =
     (case needed_column ds (sr_group q) ''group_column is required for group_holdout.'' ''Group'' of
        Inl e \<Rightarrow> Inl e
      | Inr groups \<Rightarrow> sl_group lib groups (sr_test_size q) (sr_random_state q))"

text \<open>\<open>int(x)\<close> of a number that is not negative\<close>

definition split_index :: "nat \<Rightarrow> rat \<Rightarrow> nat" where
  "split_index n test_size = nat \<lfloor>of_nat n * (1 - test_size)\<rfloor>"

definition temporal_split :: "split_lib \<Rightarrow> split_request \<Rightarrow> dataset \<Rightarrow> split result" where
  "temporal_split lib q ds =
     (case needed_column ds (sr_time q) ''time_column is required for temporal_holdout.'' ''Time'' of
        Inl e \<Rightarrow> Inl e
      | Inr vs \<Rightarrow>
          (let times = map (sl_datetime lib) vs in
           if None \<in> set times
           then Inl (value_error ''Temporal column contains values that cannot be parsed as datetime.'')
           else
             (let order = sl_argsort lib (map the times); k = split_index (length order) (sr_test_size q)
              in if k = 0 then Inl (value_error ''Temporal training split is empty.'')
                 else if k \<ge> length order then Inl (value_error ''Temporal test split is empty.'')
                 else Inr (take k order, drop k order))))"

text \<open>The cells of five by five quantiles that hold whole blocks of rows\<close>

definition distinct_values :: "pyval list \<Rightarrow> nat" where
  "distinct_values vs = length (remdups vs)"

definition spatial_blocks :: "split_lib \<Rightarrow> pyval list \<Rightarrow> pyval list \<Rightarrow> string list result" where
  "spatial_blocks lib lats lons =
     (case sl_qcut lib lats (min 5 (distinct_values lats)) of
        Inl e \<Rightarrow> Inl e
      | Inr a \<Rightarrow>
          (case sl_qcut lib lons (min 5 (distinct_values lons)) of
             Inl e \<Rightarrow> Inl e
           | Inr b \<Rightarrow> Inr (map (\<lambda>(x, y). x @ ''_'' @ y) (zip a b))))"

text \<open>\<open>Series.unique\<close>, in the order of appearance\<close>

definition unique_blocks :: "string list \<Rightarrow> string list" where
  "unique_blocks bs = rev (remdups (rev bs))"

definition test_block_count :: "nat \<Rightarrow> rat \<Rightarrow> nat" where
  "test_block_count n test_size = max 1 (nat \<lceil>of_nat n * test_size\<rceil>)"

definition masked :: "string list \<Rightarrow> (string \<Rightarrow> bool) \<Rightarrow> nat list" where
  "masked bs P = filter (\<lambda>i. P (bs ! i)) [0..<length bs]"

definition spatial_split :: "split_lib \<Rightarrow> split_request \<Rightarrow> dataset \<Rightarrow> split result" where
  "spatial_split lib q ds =
     (let missing = ''latitude_column and longitude_column are required for spatial_holdout.''
      in if sr_latitude q = None \<or> sr_longitude q = None then Inl (value_error missing)
         else
           (case needed_column ds (sr_latitude q) missing ''Latitude'' of
              Inl e \<Rightarrow> Inl e
            | Inr lats \<Rightarrow>
                (case needed_column ds (sr_longitude q) missing ''Longitude'' of
                   Inl e \<Rightarrow> Inl e
                 | Inr lons \<Rightarrow>
                     (if list_ex (sl_isna lib) lats \<or> list_ex (sl_isna lib) lons
                      then Inl (value_error ''Spatial columns contain missing values.'')
                      else
                        (case spatial_blocks lib lats lons of
                           Inl e \<Rightarrow> Inl e
                         | Inr bs \<Rightarrow>
                             (let unique = unique_blocks bs;
                                  chosen = take (test_block_count (length unique) (sr_test_size q))
                                             (sl_permutation lib (sr_random_state q) unique);
                                  test = masked bs (\<lambda>b. b \<in> set chosen); train = masked bs (\<lambda>b. b \<notin> set chosen)
                              in if length unique < 2
                                 then Inl (value_error ''Not enough spatial blocks for spatial holdout.'')
                                 else if train = [] then Inl (value_error ''Spatial training split is empty.'')
                                 else if test = [] then Inl (value_error ''Spatial test split is empty.'')
                                 else Inr (train, test)))))))"

definition split_data :: "split_lib \<Rightarrow> split_request \<Rightarrow> dataset \<Rightarrow> split result" where
  "split_data lib q ds =
     (if ds_rows ds \<noteq> length (ds_y ds) then Inl (value_error ''X and y must contain the same number of rows.'')
      else if ds_rows ds < 4 then Inl (value_error ''Dataset is too small for validation splitting.'')
      else if \<not> (0 < sr_test_size q \<and> sr_test_size q < 1)
      then Inl (value_error ''test_size must be between 0 and 1.'')
      else if sr_strategy q = ''random_holdout''
      then sl_train_test lib (ds_rows ds) (sr_test_size q) (sr_random_state q)
      else if sr_strategy q = ''stratified_holdout'' then sl_stratified lib (ds_y ds) (sr_test_size q) (sr_random_state q)
      else if sr_strategy q = ''group_holdout'' then group_split lib q ds
      else if sr_strategy q = ''temporal_holdout'' then temporal_split lib q ds
      else if sr_strategy q = ''spatial_holdout'' then spatial_split lib q ds
      else Inl (value_error (''Unsupported validation strategy: '' @ sr_strategy q)))"

subsection \<open>No leakage\<close>

text \<open>Training and test rows are disjoint, not empty, and make up the data set.\<close>

definition parts :: "nat \<Rightarrow> split \<Rightarrow> bool" where
  "parts n s \<longleftrightarrow> distinct (fst s @ snd s) \<and> set (fst s @ snd s) = {..<n} \<and> fst s \<noteq> [] \<and> snd s \<noteq> []"

definition ok_split :: "nat \<Rightarrow> (split \<Rightarrow> bool) \<Rightarrow> split result \<Rightarrow> bool" where
  "ok_split n P r \<longleftrightarrow> (case r of Inl _ \<Rightarrow> True | Inr s \<Rightarrow> parts n s \<and> P s)"

text \<open>
  What the libraries document: shufflers partition the rows, the group shuffler along the
  groups; \<open>argsort\<close> sorts; \<open>qcut\<close> labels every row; \<open>permutation\<close> permutes.
\<close>

definition group_separated :: "'a list \<Rightarrow> split \<Rightarrow> bool" where
  "group_separated gs s \<longleftrightarrow> (\<forall>i \<in> set (fst s). \<forall>j \<in> set (snd s). gs ! i \<noteq> gs ! j)"

definition sorts :: "int list \<Rightarrow> nat list \<Rightarrow> bool" where
  "sorts ts order \<longleftrightarrow> distinct order \<and> set order = {..<length ts} \<and> sorted (map (\<lambda>i. ts ! i) order)"

definition lib_laws :: "split_lib \<Rightarrow> bool" where
  "lib_laws lib \<longleftrightarrow>
     (\<forall>n t r. ok_split n (\<lambda>_. True) (sl_train_test lib n t r))
     \<and> (\<forall>y t r. ok_split (length y) (\<lambda>_. True) (sl_stratified lib y t r))
     \<and> (\<forall>g t r. ok_split (length g) (group_separated g) (sl_group lib g t r))
     \<and> (\<forall>ts. sorts ts (sl_argsort lib ts))
     \<and> (\<forall>vs k bs. sl_qcut lib vs k = Inr bs \<longrightarrow> length bs = length vs)
     \<and> (\<forall>r bs. set (sl_permutation lib r bs) = set bs)"

definition columns_full :: "dataset \<Rightarrow> bool" where
  "columns_full ds \<longleftrightarrow> (\<forall>(c, vs) \<in> set (ds_columns ds). length vs = ds_rows ds)"

lemma needed_column_full:
  "columns_full ds \<Longrightarrow> needed_column ds name missing kind = Inr vs \<Longrightarrow> length vs = ds_rows ds
     \<and> (\<exists>c. name = Some c \<and> map_of (ds_columns ds) c = Some vs)"
  by (auto simp: needed_column_def columns_full_def dest!: map_of_SomeD split: option.splits)

text \<open>The values of the column that a request names\<close>

definition values_of :: "dataset \<Rightarrow> string option \<Rightarrow> pyval list" where
  "values_of ds name =
     (case name of None \<Rightarrow> [] | Some c \<Rightarrow> (case map_of (ds_columns ds) c of None \<Rightarrow> [] | Some vs \<Rightarrow> vs))"

lemma values_of_needed: "needed_column ds name missing kind = Inr vs \<Longrightarrow> values_of ds name = vs"
  by (auto simp: needed_column_def values_of_def split: option.splits)

definition in_order :: "split_lib \<Rightarrow> pyval list \<Rightarrow> split \<Rightarrow> bool" where
  "in_order lib vs s \<longleftrightarrow>
     (\<forall>i \<in> set (fst s). \<forall>j \<in> set (snd s). the (sl_datetime lib (vs ! i)) \<le> the (sl_datetime lib (vs ! j)))"

lemma temporal_split_ok:
  assumes "lib_laws lib" "columns_full ds"
  shows "ok_split (ds_rows ds) (in_order lib (values_of ds (sr_time q))) (temporal_split lib q ds)"
proof (cases "temporal_split lib q ds")
  case (Inr s)
  obtain vs where vs: "needed_column ds (sr_time q) ''time_column is required for temporal_holdout.'' ''Time'' = Inr vs"
    using Inr by (auto simp: temporal_split_def split: sum.splits)
  define ts where "ts = map (\<lambda>v. the (sl_datetime lib v)) vs"
  define order where "order = sl_argsort lib ts"
  obtain k where k: "0 < k" "k < length order" "s = (take k order, drop k order)"
    using Inr vs by (auto simp: temporal_split_def Let_def order_def ts_def comp_def split: if_splits)
  have len: "length vs = ds_rows ds" and val: "values_of ds (sr_time q) = vs"
    using needed_column_full [OF assms(2) vs] values_of_needed [OF vs] by simp_all
  have sorts: "distinct order" "set order = {..<ds_rows ds}" "sorted (map (\<lambda>i. ts ! i) order)"
    using assms(1) len by (auto simp: lib_laws_def sorts_def order_def ts_def)
  have "sorted (map (\<lambda>i. ts ! i) (take k order) @ map (\<lambda>i. ts ! i) (drop k order))"
    using sorts(3) by (simp flip: map_append)
  then have le: "ts ! i \<le> ts ! j" if "i \<in> set (take k order)" "j \<in> set (drop k order)" for i j
    using that by (auto simp: sorted_append)
  have here: "ts ! i = the (sl_datetime lib (vs ! i))" if "i \<in> set order" for i
    using that sorts(2) len by (simp add: ts_def)
  have "in_order lib vs s"
    unfolding in_order_def k(3) fst_conv snd_conv
  proof (intro ballI)
    fix i j assume ij: "i \<in> set (take k order)" "j \<in> set (drop k order)"
    then show "the (sl_datetime lib (vs ! i)) \<le> the (sl_datetime lib (vs ! j))"
      using le [OF ij] here [OF in_set_takeD [OF ij(1)]] here [OF in_set_dropD [OF ij(2)]] by simp
  qed
  moreover have "take k order \<noteq> []" "drop k order \<noteq> []"
    using k(1,2) by auto
  then have "parts (ds_rows ds) s"
    unfolding parts_def k(3) fst_conv snd_conv append_take_drop_id using sorts(1,2) by blast
  ultimately show ?thesis
    using Inr val by (simp add: ok_split_def)
qed (simp add: ok_split_def)

lemma group_split_ok:
  assumes "lib_laws lib" "columns_full ds"
  shows "ok_split (ds_rows ds) (group_separated (values_of ds (sr_group q))) (group_split lib q ds)"
proof (cases "needed_column ds (sr_group q) ''group_column is required for group_holdout.'' ''Group''")
  case (Inr vs)
  have "ok_split (length vs) (group_separated vs) (sl_group lib vs (sr_test_size q) (sr_random_state q))"
    using assms(1) by (simp add: lib_laws_def)
  then show ?thesis
    using Inr needed_column_full [OF assms(2) Inr] values_of_needed [OF Inr] by (simp add: group_split_def)
qed (simp add: group_split_def ok_split_def)

text \<open>No test row lies in a block of a training row.\<close>

definition blocks_separated :: "split_lib \<Rightarrow> pyval list \<Rightarrow> pyval list \<Rightarrow> split \<Rightarrow> bool" where
  "blocks_separated lib lats lons s \<longleftrightarrow>
     (case spatial_blocks lib lats lons of Inl _ \<Rightarrow> False | Inr bs \<Rightarrow> group_separated bs s)"

lemma masked_parts:
  "masked bs (\<lambda>b. b \<notin> C) \<noteq> [] \<Longrightarrow> masked bs (\<lambda>b. b \<in> C) \<noteq> [] \<Longrightarrow>
     parts (length bs) (masked bs (\<lambda>b. b \<notin> C), masked bs (\<lambda>b. b \<in> C))
     \<and> group_separated bs (masked bs (\<lambda>b. b \<notin> C), masked bs (\<lambda>b. b \<in> C))"
  by (auto simp: parts_def group_separated_def masked_def)

lemma spatial_split_ok:
  assumes "lib_laws lib" "columns_full ds"
  shows "ok_split (ds_rows ds) (blocks_separated lib (values_of ds (sr_latitude q)) (values_of ds (sr_longitude q)))
           (spatial_split lib q ds)"
proof (cases "spatial_split lib q ds")
  case (Inr s)
  let ?m = "''latitude_column and longitude_column are required for spatial_holdout.''"
  obtain lats lons bs C where
      cols: "needed_column ds (sr_latitude q) ?m ''Latitude'' = Inr lats"
        "needed_column ds (sr_longitude q) ?m ''Longitude'' = Inr lons"
    and bs: "spatial_blocks lib lats lons = Inr bs"
    and s: "s = (masked bs (\<lambda>b. b \<notin> C), masked bs (\<lambda>b. b \<in> C))" "fst s \<noteq> []" "snd s \<noteq> []"
    using Inr by (auto simp: spatial_split_def Let_def split: sum.splits if_splits)
  have lens: "length lats = ds_rows ds" "length lons = ds_rows ds"
    and vals: "values_of ds (sr_latitude q) = lats" "values_of ds (sr_longitude q) = lons"
    using needed_column_full [OF assms(2) cols(1)] needed_column_full [OF assms(2) cols(2)]
      values_of_needed [OF cols(1)] values_of_needed [OF cols(2)] by simp_all
  have "length bs = ds_rows ds"
    using bs lens assms(1) by (auto simp: spatial_blocks_def lib_laws_def split: sum.splits)
  then show ?thesis
    using Inr s masked_parts [of bs C] bs vals by (simp add: ok_split_def blocks_separated_def)
qed (simp add: ok_split_def)

text \<open>Why a strategy is chosen: what its training and test rows do not share\<close>

definition strategy_ok :: "split_lib \<Rightarrow> split_request \<Rightarrow> dataset \<Rightarrow> split \<Rightarrow> bool" where
  "strategy_ok lib q ds s \<longleftrightarrow>
     (if sr_strategy q = ''group_holdout'' then group_separated (values_of ds (sr_group q)) s
      else if sr_strategy q = ''temporal_holdout'' then in_order lib (values_of ds (sr_time q)) s
      else if sr_strategy q = ''spatial_holdout''
      then blocks_separated lib (values_of ds (sr_latitude q)) (values_of ds (sr_longitude q)) s
      else True)"

lemma ok_split_weaken: "ok_split n P r \<Longrightarrow> (\<And>s. P s \<Longrightarrow> Q s) \<Longrightarrow> ok_split n Q r"
  by (auto simp: ok_split_def split: sum.splits)

text \<open>
  C27: A validation split leaks nothing from training into testing. Whatever strategy is asked for,
  a split that is returned divides the rows into two parts that are disjoint and not empty; with
  a group holdout no group, and with a spatial holdout no block of the five by five quantile grid,
  lies in both; with a temporal holdout every training row is no later than every test row.
  Assumed are the documented laws of the shufflers, of \<open>argsort\<close>, \<open>qcut\<close> and \<open>permutation\<close>, and
  columns as long as the data set.
\<close>

theorem split_leaks_nothing:
  assumes "lib_laws lib" "columns_full ds"
  shows "case split_data lib q ds of Inl _ \<Rightarrow> True | Inr s \<Rightarrow> parts (ds_rows ds) s \<and> strategy_ok lib q ds s"
proof -
  have shuffled: "ok_split (ds_rows ds) (\<lambda>_. True) (sl_train_test lib (ds_rows ds) (sr_test_size q) (sr_random_state q))"
    "ok_split (length (ds_y ds)) (\<lambda>_. True) (sl_stratified lib (ds_y ds) (sr_test_size q) (sr_random_state q))"
    using assms(1) by (simp_all add: lib_laws_def)
  have "ok_split (ds_rows ds) (strategy_ok lib q ds) (split_data lib q ds)"
    unfolding split_data_def
    using shuffled group_split_ok [OF assms, of q] temporal_split_ok [OF assms, of q] spatial_split_ok [OF assms, of q]
    by (auto simp: strategy_ok_def ok_split_def split: sum.splits)
  then show ?thesis
    by (simp add: ok_split_def)
qed

text \<open>
  Libraries that obey the laws: the shufflers refuse, sorting is insertion by the key, every row is
  in one bin of its own value's text and nothing is permuted.
\<close>

definition demo_lib :: split_lib where
  "demo_lib = \<lparr>sl_train_test = (\<lambda>_ _ _. Inl (value_error [])), sl_stratified = (\<lambda>_ _ _. Inl (value_error [])),
     sl_group = (\<lambda>_ _ _. Inl (value_error [])),
     sl_datetime = (\<lambda>v. case v of PInt i \<Rightarrow> Some i | _ \<Rightarrow> None),
     sl_argsort = (\<lambda>ts. sort_key (\<lambda>i. ts ! i) [0..<length ts]), sl_isna = (\<lambda>v. v = PNone),
     sl_qcut = (\<lambda>vs _. Inr (map (\<lambda>v. case v of PStr s \<Rightarrow> s | _ \<Rightarrow> []) vs)), sl_permutation = (\<lambda>_ bs. bs)\<rparr>"

definition demo_dataset :: dataset where
  "demo_dataset = \<lparr>ds_rows = 4, ds_columns = [(''t'', map PInt [30, 10, 40, 20])], ds_y = map PInt [1, 2, 3, 4]\<rparr>"

definition demo_split_request :: split_request where
  "demo_split_request = \<lparr>sr_strategy = ''temporal_holdout'', sr_test_size = 1 / 4, sr_random_state = 42, sr_group = None,
     sr_time = Some ''t'', sr_latitude = None, sr_longitude = None\<rparr>"

lemma demo_lib_laws: "lib_laws demo_lib"
  by (simp add: lib_laws_def demo_lib_def ok_split_def sorts_def lessThan_atLeast0 flip: atLeastLessThan_upt)

lemma demo_columns_full: "columns_full demo_dataset"
  by (simp add: columns_full_def demo_dataset_def)

lemma demo_split: "split_data demo_lib demo_split_request demo_dataset = Inr ([1, 3, 0], [2])"
  by code_simp

theorem split_leaks_nothing_witness:
  "parts 4 ([1, 3, 0], [2]) \<and> in_order demo_lib (values_of demo_dataset (Some ''t'')) ([1, 3, 0], [2])"
  using split_leaks_nothing [OF demo_lib_laws demo_columns_full, of demo_split_request]
  by (simp add: demo_split strategy_ok_def) (simp add: demo_split_request_def demo_dataset_def)

end
