(* ===== verification/DatasetPlan.thy ===== *)
theory DatasetPlan
  imports Splits
begin

text \<open>
  Planning for a data set: the validation strategy (\<open>core/validation/strategy.py\<close>), the leakage
  detector (\<open>core/leakage/detector.py\<close>), the task detector (\<open>core/task_detection/detector.py\<close>) and
  the model candidates (\<open>core/models/candidates.py\<close>). What pandas says of a column is its profile.
\<close>

subsection \<open>Profiles\<close>

text \<open>
  One column: its name, what the dtype predicates of \<open>pd.api.types\<close> answer, the text of the dtype,
  the number of different values and of values that are not null, the share of the first hundred of
  those that \<open>to_datetime\<close> parses, the mean length of their texts, and the skew of the numbers
  unless it is NaN.
\<close>

record column_profile =
  cl_name :: string
  cl_bool :: bool
  cl_numeric :: bool
  cl_integer :: bool
  cl_datetime :: bool
  cl_object :: bool
  cl_string :: bool
  cl_category :: bool
  cl_dtype :: string
  cl_nunique :: nat
  cl_count :: nat
  cl_parsed :: rat
  cl_avg_length :: rat
  cl_skew :: "rat option"

record frame_profile =
  fp_rows :: nat
  fp_columns :: "column_profile list"

definition column_names :: "frame_profile \<Rightarrow> string list" where
  "column_names df = map cl_name (fp_columns df)"

definition profile_of :: "frame_profile \<Rightarrow> string \<Rightarrow> column_profile option" where
  "profile_of df name = find (\<lambda>c. cl_name c = name) (fp_columns df)"

text \<open>The names of columns are ASCII in their letters.\<close>

definition tidy_name :: "string \<Rightarrow> string" where
  "tidy_name column = py_strip (py_lower column)"

definition ends_with :: "string \<Rightarrow> string \<Rightarrow> bool" where
  "ends_with s t \<longleftrightarrow> suffix t s"

text \<open>The order in which a set of texts is iterated is that of their hashes, which differ between processes.\<close>

type_synonym hash = "string \<Rightarrow> nat"

definition set_order :: "hash \<Rightarrow> string list \<Rightarrow> string list" where
  "set_order h names = sort_key h names"

lemma set_set_order [simp]: "set (set_order h names) = set names"
  by (simp add: set_order_def)

definition textual :: "column_profile \<Rightarrow> bool" where
  "textual c \<longleftrightarrow> cl_object c \<or> cl_string c"

subsection \<open>Validation strategy\<close>

definition LATITUDE_NAMES :: "string list" where
  "LATITUDE_NAMES = [''latitude'', ''lat'', ''lat_deg'', ''latitude_deg'']"

definition LONGITUDE_NAMES :: "string list" where
  "LONGITUDE_NAMES = [''longitude'', ''lon'', ''lng'', ''long'', ''lon_deg'', ''longitude_deg'']"

definition TIME_HINTS :: "string list" where
  "TIME_HINTS = [''date'', ''time'', ''timestamp'', ''datetime'']"

definition GROUP_HINTS :: "string list" where
  "GROUP_HINTS = [''mine_id'', ''site_id'', ''equipment_id'', ''machine_id'', ''block_id'', ''location_id'']"

record validation_strategy =
  vs_strategy :: string
  vs_primary :: "string option"
  vs_secondary :: "string option"
  vs_reason :: string
  vs_confidence :: rat

definition normalized_columns :: "frame_profile \<Rightarrow> (string \<times> string) list" where
  "normalized_columns df = fold (\<lambda>c d. AList.update (tidy_name c) c d) (column_names df) []"

definition find_column :: "hash \<Rightarrow> (string \<times> string) list \<Rightarrow> string list \<Rightarrow> string option" where
  "find_column h normalized names =
     (case find (\<lambda>n. map_of normalized n \<noteq> None) (set_order h names) of
        None \<Rightarrow> None | Some n \<Rightarrow> map_of normalized n)"

definition is_identifier :: "string \<Rightarrow> bool" where
  "is_identifier column =
     (let name = tidy_name column
      in name \<in> {''id'', ''uuid'', ''identifier'', ''key'', ''code''}
         \<or> ends_with name ''_id'' \<or> ends_with name ''_uuid'' \<or> ends_with name ''_key'' \<or> ends_with name ''_code'')"

definition named_temporal :: "column_profile \<Rightarrow> bool" where
  "named_temporal c \<longleftrightarrow> list_ex (\<lambda>hint. str_in hint (tidy_name (cl_name c))) TIME_HINTS \<and> \<not> cl_numeric c"

definition parsed_temporal :: "column_profile \<Rightarrow> bool" where
  "parsed_temporal c \<longleftrightarrow> textual c \<and> cl_count c \<ge> 3 \<and> cl_parsed c \<ge> 90 / 100"

definition find_temporal :: "frame_profile \<Rightarrow> string option" where
  "find_temporal df =
     (let usable = filter (\<lambda>c. \<not> is_identifier (cl_name c)) (fp_columns df)
      in case find cl_datetime usable of Some c \<Rightarrow> Some (cl_name c) | None \<Rightarrow>
        (case find named_temporal usable of Some c \<Rightarrow> Some (cl_name c) | None \<Rightarrow>
          map_option cl_name (find parsed_temporal usable)))"

definition looks_classification :: "column_profile \<Rightarrow> bool" where
  "looks_classification c \<longleftrightarrow> cl_bool c \<or> cl_object c \<or> cl_string c \<or> cl_category c \<or> \<not> cl_numeric c \<or> cl_nunique c \<le> 2"

text \<open>\<open>if temporal\<close>: a column without a name does not count.\<close>

definition named :: "string option \<Rightarrow> string option" where
  "named column = (if truthy_str column then column else None)"

text \<open>A group identifier counts when it groups: more than one value, and fewer than rows.\<close>

definition usable_group :: "frame_profile \<Rightarrow> string option \<Rightarrow> string option" where
  "usable_group df g' =
     (case g' of
        None \<Rightarrow> None
      | Some g \<Rightarrow>
          (case profile_of df g of
             None \<Rightarrow> None
           | Some c \<Rightarrow> if cl_nunique c \<ge> 2 \<and> cl_nunique c < fp_rows df then Some g else None))"

definition stratifies :: "frame_profile \<Rightarrow> string option \<Rightarrow> bool" where
  "stratifies df target =
     (case target of
        None \<Rightarrow> False
      | Some t \<Rightarrow> (case profile_of df t of None \<Rightarrow> False | Some c \<Rightarrow> looks_classification c))"

definition select_strategy :: "hash \<Rightarrow> frame_profile \<Rightarrow> string option \<Rightarrow> validation_strategy" where
  "select_strategy h df target =
     (let normalized = normalized_columns df; find' = find_column h normalized
      in case (find' LATITUDE_NAMES, find' LONGITUDE_NAMES) of
           (Some lat, Some lon) \<Rightarrow>
             \<lparr>vs_strategy = ''spatial_holdout'', vs_primary = Some lat, vs_secondary = Some lon,
              vs_reason = ''Latitude and longitude detected; geographic holdout reduces spatial ''
                @ ''leakage and tests geographic generalization.'', vs_confidence = 98 / 100\<rparr>
         | _ \<Rightarrow>
          (case usable_group df (find' GROUP_HINTS) of
             Some g \<Rightarrow>
               \<lparr>vs_strategy = ''group_holdout'', vs_primary = Some g, vs_secondary = None,
                vs_reason = ''Entity/group identifier detected; group-aware validation prevents ''
                  @ ''the same entity appearing across training and validation.'', vs_confidence = 95 / 100\<rparr>
           | None \<Rightarrow>
          (case named (find_temporal df) of
             Some t \<Rightarrow>
               \<lparr>vs_strategy = ''temporal_holdout'', vs_primary = Some t, vs_secondary = None,
                vs_reason = ''Temporal information detected; chronological validation prevents ''
                  @ ''future information from entering the training set.'', vs_confidence = 95 / 100\<rparr>
           | None \<Rightarrow>
             if stratifies df target
             then \<lparr>vs_strategy = ''stratified_holdout'', vs_primary = target, vs_secondary = None,
                   vs_reason = ''Low-cardinality target detected; stratification preserves class distribution.'',
                   vs_confidence = 85 / 100\<rparr>
             else \<lparr>vs_strategy = ''random_holdout'', vs_primary = None, vs_secondary = None,
                   vs_reason = ''No strong spatial, temporal, or group structure detected.'', vs_confidence = 70 / 100\<rparr>)))"

subsection \<open>Leakage\<close>

definition FUTURE_HINTS :: "string list" where
  "FUTURE_HINTS = [''future'', ''next'', ''actual'', ''outcome'', ''post'', ''after'', ''result'']"

definition TARGET_DERIVED_HINTS :: "string list" where
  "TARGET_DERIVED_HINTS = [''predicted'', ''prediction'', ''target'']"

record leakage_finding =
  lf_column :: string
  lf_risk :: string
  lf_reason :: string

record leakage_report =
  lr_target :: "string option"
  lr_findings :: "leakage_finding list"
  lr_safe :: "string list"
  lr_risky :: "string list"

text \<open>The risk of a column other than the target, and its reason\<close>

definition column_risk :: "hash \<Rightarrow> string option \<Rightarrow> string \<Rightarrow> (string \<times> string) option" where
  "column_risk h target column =
     (let name = py_lower column; hit = (\<lambda>hints. find (\<lambda>hint. str_in hint name) (set_order h hints))
      in case hit FUTURE_HINTS of
           Some hint \<Rightarrow> Some (''high'', ''Column name contains future/outcome indicator '' @ sq hint)
         | None \<Rightarrow>
          (case hit TARGET_DERIVED_HINTS of
             Some hint \<Rightarrow> Some (''high'', ''Column appears to be model/target-derived: '' @ sq hint)
           | None \<Rightarrow>
             if target \<noteq> None \<and> str_in (py_lower (the target)) name
             then Some (''high'', ''Column name contains the target name'')
             else if ends_with name ''_id'' \<or> ends_with name ''_uuid'' \<or> ends_with name ''_key'' \<or> ends_with name ''_code''
             then Some (''medium'', ''Identifier-like column; requires entity leakage review'')
             else None))"

definition analyze_leakage :: "hash \<Rightarrow> frame_profile \<Rightarrow> string option \<Rightarrow> leakage_report" where
  "analyze_leakage h df target =
     (let features = filter (\<lambda>c. Some c \<noteq> target) (column_names df);
          risky = filter (\<lambda>c. column_risk h target c \<noteq> None) features
      in \<lparr>lr_target = target,
          lr_findings = map (\<lambda>c. let (risk, reason) = the (column_risk h target c)
            in \<lparr>lf_column = c, lf_risk = risk, lf_reason = reason\<rparr>) risky,
          lr_safe = filter (\<lambda>c. column_risk h target c = None) features, lr_risky = risky\<rparr>)"

definition overall_risk :: "leakage_report \<Rightarrow> string" where
  "overall_risk r =
     (let risks = lf_risk ` set (lr_findings r)
      in if ''high'' \<in> risks then ''high'' else if ''medium'' \<in> risks then ''medium'' else ''none'')"

definition leakage_as_dict :: "leakage_report \<Rightarrow> dict" where
  "leakage_as_dict r =
     [(''target'', opt_str (lr_target r)), (''leakage_risk'', PStr (overall_risk r)),
      (''leaky_columns'', PList (map PStr (lr_risky r))), (''safe_features'', PList (map PStr (lr_safe r))),
      (''findings'', PList (map (\<lambda>f. PDict [(''column'', PStr (lf_column f)), (''risk'', PStr (lf_risk f)),
         (''reason'', PStr (lf_reason f))]) (lr_findings r)))]"

subsection \<open>Task detection\<close>

definition TARGET_HINTS :: "string list" where
  "TARGET_HINTS = [''target'', ''label'', ''output'', ''prediction'', ''production'', ''production_t'', ''production_tonnes'',
     ''shortfall'', ''shortfall_t'', ''shortfall_pct'', ''prospectivity'', ''prospectivity_label'', ''grade'',
     ''grade_mn_pct'', ''manganese_grade'', ''mn_grade'', ''recovery'']"

definition LEAKAGE_HINTS :: "string list" where
  "LEAKAGE_HINTS = [''actual'', ''future'', ''next'', ''outcome'', ''risk_score'', ''prediction'', ''predicted'']"

definition ID_HINTS :: "string list" where
  "ID_HINTS = [''id'', ''uuid'', ''key'', ''code'']"

record target_candidate =
  tc_column :: string
  tc_score :: rat
  tc_reason :: string

record task_result =
  td_task_type :: string
  td_target :: "string option"
  td_features :: "string list"
  td_candidates :: "target_candidate list"
  td_confidence :: rat
  td_warnings :: "string list"

text \<open>The evidence on a column in the order in which it is added up\<close>

definition target_evidence :: "hash \<Rightarrow> column_profile \<Rightarrow> (rat \<times> string) list" where
  "target_evidence h c =
     (let name = py_lower (cl_name c)
      in (if name \<in> set TARGET_HINTS then [(5, ''target-name match'')] else [])
         @ map (\<lambda>hint. (2, ''name contains '' @ sq hint)) (filter (\<lambda>hint. str_in hint name \<and> name \<noteq> hint) (set_order h TARGET_HINTS))
         @ (if ends_with name ''_id'' \<or> name \<in> set ID_HINTS then [(-4, ''identifier-like'')] else [])
         @ (if cl_nunique c \<le> 1 then [(-5, ''constant'')] else [])
         @ (if cl_datetime c then [(-3, ''datetime'')] else [])
         @ (if cl_count c > 0 \<and> of_nat (cl_nunique c) / of_nat (cl_count c) > (98 / 100 :: rat)
            then [(-3, ''near-unique values'')] else []))"

definition candidate_of :: "hash \<Rightarrow> column_profile \<Rightarrow> target_candidate" where
  "candidate_of h c =
     \<lparr>tc_column = cl_name c, tc_score = sum_list (map fst (target_evidence h c)),
      tc_reason = py_join '', '' (map snd (target_evidence h c))\<rparr>"

definition target_candidates :: "hash \<Rightarrow> frame_profile \<Rightarrow> target_candidate list" where
  "target_candidates h df = rev (sort_key tc_score (rev (filter (\<lambda>t. tc_score t > 0) (map (candidate_of h) (fp_columns df)))))"

definition infer_task_type :: "column_profile \<Rightarrow> string" where
  "infer_task_type c =
     (if cl_bool c then ''classification''
      else if cl_numeric c then (if cl_nunique c \<le> 10 then ''classification'' else ''regression'')
      else ''classification'')"

definition spatial_task :: "frame_profile \<Rightarrow> string \<Rightarrow> string" where
  "spatial_task df task =
     (let names = set (map py_lower (column_names df))
      in if (''latitude'' \<in> names \<or> ''lat'' \<in> names) \<and> (''longitude'' \<in> names \<or> ''lon'' \<in> names)
         then (if task = ''classification'' then ''spatial_classification''
               else if task = ''regression'' then ''spatial_regression'' else task)
         else task)"

definition detect_task :: "hash \<Rightarrow> frame_profile \<Rightarrow> task_result" where
  "detect_task h df =
     (case target_candidates h df of
        [] \<Rightarrow>
          \<lparr>td_task_type = ''unknown'', td_target = None, td_features = column_names df, td_candidates = [], td_confidence = 0,
           td_warnings = [''No plausible target detected.'']\<rparr>
      | best # others \<Rightarrow>
          (let target = tc_column best
           in \<lparr>td_task_type = spatial_task df (case profile_of df target of None \<Rightarrow> [] | Some c \<Rightarrow> infer_task_type c),
               td_target = Some target, td_features = filter (\<lambda>c. c \<noteq> target) (column_names df),
               td_candidates = best # others, td_confidence = min 1 (tc_score best / 8),
               td_warnings = (if list_ex (\<lambda>hint. str_in hint (py_lower target)) LEAKAGE_HINTS
                 then [''Target '' @ sq target @ '' requires leakage review before training.''] else [])\<rparr>))"

subsection \<open>Model candidates\<close>

record model_candidate =
  mc_name :: string
  mc_family :: string
  mc_task :: string
  mc_reason :: string
  mc_priority :: nat

definition CLASSIFIERS :: "model_candidate list" where
  "CLASSIFIERS =
     [\<lparr>mc_name = ''logistic_regression'', mc_family = ''linear'', mc_task = ''classification'',
       mc_reason = ''Interpretable linear classification baseline.'', mc_priority = 1\<rparr>,
      \<lparr>mc_name = ''random_forest_classifier'', mc_family = ''tree_ensemble'', mc_task = ''classification'',
       mc_reason = ''Robust nonlinear model for mixed tabular relationships.'', mc_priority = 2\<rparr>,
      \<lparr>mc_name = ''gradient_boosting_classifier'', mc_family = ''boosting'', mc_task = ''classification'',
       mc_reason = ''Strong nonlinear tabular classifier.'', mc_priority = 3\<rparr>,
      \<lparr>mc_name = ''hist_gradient_boosting_classifier'', mc_family = ''boosting'', mc_task = ''classification'',
       mc_reason = ''Efficient boosting candidate for larger datasets.'', mc_priority = 4\<rparr>,
      \<lparr>mc_name = ''extra_trees_classifier'', mc_family = ''tree_ensemble'', mc_task = ''classification'',
       mc_reason = ''Randomized tree ensemble with strong nonlinear coverage.'', mc_priority = 5\<rparr>]"

definition REGRESSORS :: "model_candidate list" where
  "REGRESSORS =
     [\<lparr>mc_name = ''linear_regression'', mc_family = ''linear'', mc_task = ''regression'',
       mc_reason = ''Interpretable continuous-target baseline.'', mc_priority = 1\<rparr>,
      \<lparr>mc_name = ''random_forest_regressor'', mc_family = ''tree_ensemble'', mc_task = ''regression'',
       mc_reason = ''Robust nonlinear regression without feature scaling requirements.'', mc_priority = 2\<rparr>,
      \<lparr>mc_name = ''gradient_boosting_regressor'', mc_family = ''boosting'', mc_task = ''regression'',
       mc_reason = ''Strong general-purpose nonlinear tabular regressor.'', mc_priority = 3\<rparr>,
      \<lparr>mc_name = ''hist_gradient_boosting_regressor'', mc_family = ''boosting'', mc_task = ''regression'',
       mc_reason = ''Efficient boosting candidate for larger datasets.'', mc_priority = 4\<rparr>,
      \<lparr>mc_name = ''extra_trees_regressor'', mc_family = ''tree_ensemble'', mc_task = ''regression'',
       mc_reason = ''Highly randomized ensemble useful for nonlinear relationships.'', mc_priority = 5\<rparr>]"

text \<open>\<open>int(n * 0.05)\<close> of a number of rows\<close>

definition twentieth :: "nat \<Rightarrow> nat" where
  "twentieth n = n div 20"

definition infer_candidate_task :: "frame_profile \<Rightarrow> column_profile \<Rightarrow> string result" where
  "infer_candidate_task df c =
     (if cl_count c = 0 then Inl (value_error ''Target column contains no usable values.'')
      else if cl_bool c \<or> cl_object c \<or> cl_string c \<or> cl_category c \<or> \<not> cl_numeric c then Inr ''classification''
      else if cl_nunique c \<le> 2 then Inr ''classification''
      else if cl_integer c \<and> cl_nunique c \<le> min 20 (max 2 (twentieth (fp_rows df))) then Inr ''classification''
      else Inr ''regression'')"

definition generate_candidates ::
  "frame_profile \<Rightarrow> string \<Rightarrow> string option \<Rightarrow> (string \<times> model_candidate list) result" where
  "generate_candidates df target task_type =
     (case profile_of df target of
        None \<Rightarrow> Inl (value_error (''Target column not found: '' @ target))
      | Some c \<Rightarrow>
          if fp_rows df = 0 then Inl (value_error ''Cannot generate candidates for an empty dataset.'')
          else
            (case (if task_type \<noteq> None \<and> task_type \<noteq> Some [] then Inr (the task_type) else infer_candidate_task df c) of
               Inl e \<Rightarrow> Inl e
             | Inr task \<Rightarrow>
                 if task \<noteq> ''classification'' \<and> task \<noteq> ''regression''
                 then Inl (value_error (''Unsupported task type: '' @ task))
                 else
                   (let models = (if task = ''classification'' then CLASSIFIERS else REGRESSORS);
                        kept = (if fp_rows df < 100 then filter (\<lambda>m. mc_priority m \<le> 3) models else models)
                    in Inr (task, sort_key mc_priority kept))))"

subsection \<open>Facts\<close>

lemma find_mem: "find P xs = Some x \<Longrightarrow> x \<in> set xs \<and> P x"
  by (simp add: find_Some_iff) (metis nth_mem)

lemma normalized_D:
  "map_of (fold (\<lambda>c d. AList.update (tidy_name c) c d) cs d) n = Some c
     \<Longrightarrow> (c \<in> set cs \<and> tidy_name c = n) \<or> map_of d n = Some c"
  by (induction cs arbitrary: d) (fastforce simp: update_conv split: if_splits)+

lemma normalized_columns_D:
  "map_of (normalized_columns df) n = Some c \<Longrightarrow> c \<in> set (column_names df) \<and> tidy_name c = n"
  unfolding normalized_columns_def by (drule normalized_D) simp

lemma find_column_D:
  assumes "find_column h (normalized_columns df) names = Some c"
  shows "c \<in> set (column_names df) \<and> tidy_name c \<in> set names"
proof -
  obtain n where "find (\<lambda>n. map_of (normalized_columns df) n \<noteq> None) (set_order h names) = Some n"
    and c: "map_of (normalized_columns df) n = Some c"
    using assms by (auto simp: find_column_def split: option.splits)
  then have "n \<in> set names"
    by (metis find_mem set_set_order)
  with normalized_columns_D [OF c] show ?thesis by simp
qed

lemma profile_of_D: "profile_of df c = Some p \<Longrightarrow> p \<in> set (fp_columns df) \<and> cl_name p = c"
  unfolding profile_of_def by (drule find_mem)

lemma usable_group_D:
  "usable_group df g = Some c \<Longrightarrow> g = Some c
     \<and> (\<exists>p. profile_of df c = Some p \<and> cl_nunique p \<ge> 2 \<and> cl_nunique p < fp_rows df)"
  by (auto simp: usable_group_def split: option.splits if_splits)

lemma find_temporal_D:
  assumes "find_temporal df = Some c"
  shows "c \<in> set (column_names df) \<and> \<not> is_identifier c"
  using assms
  by (auto simp: find_temporal_def Let_def column_names_def dest!: find_mem split: option.splits)

lemma named_D: "named c = Some x \<Longrightarrow> c = Some x \<and> x \<noteq> []"
  by (auto simp: named_def truthy_str_def split: if_splits option.splits)

text \<open>What the chosen strategy promises of its columns\<close>

definition strategy_sound :: "frame_profile \<Rightarrow> string option \<Rightarrow> validation_strategy \<Rightarrow> bool" where
  "strategy_sound df target v \<longleftrightarrow>
     set_option (vs_primary v) \<union> set_option (vs_secondary v) \<subseteq> set (column_names df)
     \<and> (let s = vs_strategy v
        in case (vs_primary v, vs_secondary v) of
             (Some lat, Some lon) \<Rightarrow>
               s = ''spatial_holdout'' \<and> tidy_name lat \<in> set LATITUDE_NAMES \<and> tidy_name lon \<in> set LONGITUDE_NAMES
           | (Some c, None) \<Rightarrow>
               if s = ''group_holdout''
               then tidy_name c \<in> set GROUP_HINTS
                 \<and> (\<exists>p. profile_of df c = Some p \<and> 2 \<le> cl_nunique p \<and> cl_nunique p < fp_rows df)
               else if s = ''temporal_holdout'' then \<not> is_identifier c
               else s = ''stratified_holdout'' \<and> target = Some c \<and> stratifies df target
           | _ \<Rightarrow> s = ''random_holdout'' \<and> vs_primary v = None \<and> vs_secondary v = None \<and> \<not> stratifies df target)"

lemma stratifies_D: "stratifies df target \<Longrightarrow> \<exists>t. target = Some t \<and> t \<in> set (column_names df)"
  by (auto simp: stratifies_def column_names_def dest!: profile_of_D split: option.splits)

lemma select_strategy_sound: "strategy_sound df target (select_strategy h df target)"
proof (cases "\<exists>lat lon. find_column h (normalized_columns df) LATITUDE_NAMES = Some lat
    \<and> find_column h (normalized_columns df) LONGITUDE_NAMES = Some lon")
  case True
  then obtain lat lon where "find_column h (normalized_columns df) LATITUDE_NAMES = Some lat"
    "find_column h (normalized_columns df) LONGITUDE_NAMES = Some lon" by blast
  then show ?thesis
    using find_column_D by (simp add: select_strategy_def strategy_sound_def)
next
  case no_place: False
  let ?g = "usable_group df (find_column h (normalized_columns df) GROUP_HINTS)"
  show ?thesis
  proof (cases ?g)
    case (Some g)
    then have "select_strategy h df target =
      \<lparr>vs_strategy = ''group_holdout'', vs_primary = Some g, vs_secondary = None,
       vs_reason = ''Entity/group identifier detected; group-aware validation prevents ''
         @ ''the same entity appearing across training and validation.'', vs_confidence = 95 / 100\<rparr>"
      using no_place by (auto simp: select_strategy_def Let_def split: option.splits)
    then show ?thesis
      using usable_group_D [OF Some] find_column_D by (auto simp: strategy_sound_def)
  next
    case None
    let ?v = "select_strategy h df target"
    have v: "?v = (case named (find_temporal df) of
        Some t \<Rightarrow> \<lparr>vs_strategy = ''temporal_holdout'', vs_primary = Some t, vs_secondary = None,
          vs_reason = vs_reason ?v, vs_confidence = 95 / 100\<rparr>
      | None \<Rightarrow> if stratifies df target
          then \<lparr>vs_strategy = ''stratified_holdout'', vs_primary = target, vs_secondary = None,
            vs_reason = vs_reason ?v, vs_confidence = 85 / 100\<rparr>
          else \<lparr>vs_strategy = ''random_holdout'', vs_primary = None, vs_secondary = None,
            vs_reason = vs_reason ?v, vs_confidence = 70 / 100\<rparr>)"
      using None no_place by (auto simp: select_strategy_def Let_def split: option.splits)
    show ?thesis
    proof (cases "named (find_temporal df)")
      case (Some t)
      from v have "strategy_sound df target (select_strategy h df target) = strategy_sound df target
          \<lparr>vs_strategy = ''temporal_holdout'', vs_primary = Some t, vs_secondary = None,
           vs_reason = vs_reason ?v, vs_confidence = 95 / 100\<rparr>"
        unfolding Some option.case by (rule arg_cong)
      moreover have "t \<in> set (column_names df) \<and> \<not> is_identifier t"
        using named_D [OF Some] find_temporal_D by blast
      ultimately show ?thesis by (simp add: strategy_sound_def)
    next
      case no_time: None
      show ?thesis
      proof (cases "stratifies df target")
        case True
        from v have "strategy_sound df target (select_strategy h df target) = strategy_sound df target
            \<lparr>vs_strategy = ''stratified_holdout'', vs_primary = target, vs_secondary = None,
             vs_reason = vs_reason ?v, vs_confidence = 85 / 100\<rparr>"
          unfolding no_time option.case if_P [OF True] by (rule arg_cong)
        with stratifies_D [OF True] True show ?thesis by (auto simp: strategy_sound_def)
      next
        case False
        from v have "strategy_sound df target (select_strategy h df target) = strategy_sound df target
            \<lparr>vs_strategy = ''random_holdout'', vs_primary = None, vs_secondary = None,
             vs_reason = vs_reason ?v, vs_confidence = 70 / 100\<rparr>"
          unfolding no_time option.case if_not_P [OF False] by (rule arg_cong)
        with False show ?thesis by (simp add: strategy_sound_def)
      qed
    qed
  qed
qed

lemma analyze_leakage_columns:
  "lr_risky (analyze_leakage h df target) = map lf_column (lr_findings (analyze_leakage h df target))"
  "c \<in> set (lr_risky (analyze_leakage h df target)) \<longleftrightarrow>
     c \<in> set (column_names df) \<and> Some c \<noteq> target \<and> column_risk h target c \<noteq> None"
  by (auto simp: analyze_leakage_def Let_def split_beta comp_def)

text \<open>
  The group whose values split the data is the first of a Python set that the frame has, so
  the same frame is split by groups in one process and at random in another.
\<close>

definition demo_groups :: frame_profile where
  "demo_groups = (let c = (\<lambda>n k. \<lparr>cl_name = n, cl_bool = False, cl_numeric = True, cl_integer = True, cl_datetime = False,
      cl_object = False, cl_string = False, cl_category = False, cl_dtype = ''int64'', cl_nunique = k, cl_count = 9, cl_parsed = 0,
      cl_avg_length = 0, cl_skew = None\<rparr>)
    in \<lparr>fp_rows = 9, fp_columns = [c ''mine_id'' 3, c ''block_id'' 9, c ''grade'' 9]\<rparr>)"

lemma strategy_depends_on_hashes:
  "vs_strategy (select_strategy (\<lambda>s. if s = ''mine_id'' then 0 else 1) demo_groups (Some ''grade'')) = ''group_holdout''
   \<and> vs_strategy (select_strategy (\<lambda>s. if s = ''block_id'' then 0 else 1) demo_groups (Some ''grade'')) = ''random_holdout''"
  by code_simp

end
