(* ===== verification/Characterizer.thy ===== *)
theory Characterizer
  imports DatasetPlan Measures "HOL-Library.Multiset"
begin

text \<open>
  Characterization of a data set (\<open>core/datasets/characterization/characterizer.py\<close>) on the
  description of its frame: the profile of each column with its statistics.
\<close>

subsection \<open>Descriptions\<close>

text \<open>
  A described column has, beside its profile, the mean, deviation, least and greatest of its numbers
  unless pandas gives no number for them, and the share of all of its values that
  \<open>to_datetime\<close> parses, unless it raises.
\<close>

record described_column = column_profile +
  dc_mean :: "rat option"
  dc_std :: "rat option"
  dc_min :: "rat option"
  dc_max :: "rat option"
  dc_dates :: "rat option"

record frame_description =
  fd_rows :: nat
  fd_columns :: "described_column list"
  fd_duplicates :: nat

definition profile_of_description :: "frame_description \<Rightarrow> frame_profile" where
  "profile_of_description d = \<lparr>fp_rows = fd_rows d, fp_columns = map column_profile.truncate (fd_columns d)\<rparr>"

record column_characterization =
  cc_name :: string
  cc_dtype :: string
  cc_semantic_role :: string
  cc_missing_count :: nat
  cc_missing_fraction :: rat
  cc_unique_count :: nat
  cc_unique_fraction :: rat
  cc_mean :: "rat option"
  cc_std :: "rat option"
  cc_minimum :: "rat option"
  cc_maximum :: "rat option"

record characterization =
  ch_path :: string
  ch_rows :: nat
  ch_columns :: nat
  ch_numeric :: "string list"
  ch_categorical :: "string list"
  ch_datetime :: "string list"
  ch_spatial :: "string list"
  ch_temporal :: "string list"
  ch_group :: "string list"
  ch_identifier :: "string list"
  ch_targets :: "string list"
  ch_high_cardinality :: "string list"
  ch_constant :: "string list"
  ch_missing :: "string list"
  ch_profiles :: "column_characterization list"
  ch_role :: string
  ch_duplicates :: nat

subsection \<open>Names\<close>

definition CH_LATITUDES :: "string list" where
  "CH_LATITUDES = [''latitude'', ''lat'', ''lat_deg'', ''latitude_deg'', ''lat_dd'']"

definition CH_LONGITUDES :: "string list" where
  "CH_LONGITUDES = [''longitude'', ''lon'', ''lng'', ''long'', ''lon_deg'', ''longitude_deg'', ''longitude_dd'']"

definition TIME_KEYWORDS :: "string list" where
  "TIME_KEYWORDS = [''time'', ''date'', ''datetime'', ''timestamp'', ''year'', ''month'', ''day'']"

definition GROUP_NAMES :: "string list" where
  "GROUP_NAMES = [''mine_id'', ''mineid'', ''site_id'', ''siteid'', ''block_id'', ''blockid'', ''machine_id'', ''machineid'',
     ''equipment_id'', ''equipmentid'', ''borehole_id'', ''boreholeid'', ''sample_id'', ''sampleid'']"

definition TARGET_KEYWORDS :: "string list" where
  "TARGET_KEYWORDS = [''target'', ''label'', ''class'', ''grade'', ''production'', ''output'', ''yield'', ''prospectivity'',
     ''shortfall'', ''failure'', ''recovery'']"

definition METADATA_KEYWORDS :: "string list" where
  "METADATA_KEYWORDS = [''description'', ''purpose'', ''limitation'', ''generator'', ''real_or_synthetic'', ''source'', ''feature'',
     ''data_type'', ''target_or_feature'', ''leakage_risk'']"

definition REPORT_KEYWORDS :: "string list" where
  "REPORT_KEYWORDS = [''report'', ''warning'', ''error'', ''violation'']"

definition mentions :: "string list \<Rightarrow> string \<Rightarrow> bool" where
  "mentions keywords text \<longleftrightarrow> list_ex (\<lambda>k. str_in k text) keywords"

definition normalize_name :: "string \<Rightarrow> string" where
  "normalize_name name = map (\<lambda>c. if c = CHR ''-'' \<or> c = CHR '' '' then CHR ''_'' else c) (py_lower (py_strip name))"

subsection \<open>Columns\<close>

definition unique_share :: "nat \<Rightarrow> column_profile \<Rightarrow> rat" where
  "unique_share rows c = of_nat (cl_nunique c) / of_nat rows"

definition semantic_role :: "nat \<Rightarrow> described_column \<Rightarrow> string" where
  "semantic_role rows d =
     (let c = column_profile.truncate d; n = normalize_name (cl_name d); share = unique_share rows c
      in if n \<in> set CH_LATITUDES \<or> n \<in> set CH_LONGITUDES \<or> str_in ''latitude'' n \<or> str_in ''longitude'' n then ''spatial''
         else if cl_datetime d then ''temporal''
         else if mentions TIME_KEYWORDS n \<and> (case dc_dates d of None \<Rightarrow> False | Some x \<Rightarrow> x \<ge> 80 / 100) then ''temporal''
         else if n \<in> set GROUP_NAMES then ''group''
         else if ends_with n ''_id'' \<or> ends_with n ''id'' then (if share < 90 / 100 then ''group'' else ''identifier'')
         else if mentions METADATA_KEYWORDS n then ''metadata''
         else if mentions TARGET_KEYWORDS n then ''target_candidate''
         else if \<not> cl_numeric d \<and> share \<ge> 90 / 100 then ''identifier''
         else if \<not> cl_numeric d \<and> cl_nunique d \<le> max 20 (rows div 10) then ''categorical''
         else ''feature'')"

definition counts_as_number :: "described_column \<Rightarrow> bool" where
  "counts_as_number d \<longleftrightarrow> cl_numeric d \<and> \<not> cl_bool d"

definition characterize_column :: "nat \<Rightarrow> described_column \<Rightarrow> column_characterization" where
  "characterize_column rows d =
     (let missing = rows - cl_count d; stat = (\<lambda>x. if counts_as_number d then x else None)
      in \<lparr>cc_name = cl_name d, cc_dtype = cl_dtype d, cc_semantic_role = semantic_role rows d, cc_missing_count = missing,
          cc_missing_fraction = of_nat missing / of_nat rows, cc_unique_count = cl_nunique d,
          cc_unique_fraction = unique_share rows (column_profile.truncate d),
          cc_mean = stat (dc_mean d), cc_std = stat (dc_std d), cc_minimum = stat (dc_min d), cc_maximum = stat (dc_max d)\<rparr>)"

subsection \<open>Data sets\<close>

definition dataset_role :: "string \<Rightarrow> string list \<Rightarrow> string list \<Rightarrow> string list \<Rightarrow> string" where
  "dataset_role path targets spatial temporal =
     (let text = py_lower path
      in if mentions REPORT_KEYWORDS text then ''report''
         else if str_in ''metadata'' text then ''metadata''
         else if str_in ''ml_ready'' text then ''ml_ready''
         else if str_in ''scenario'' text then ''scenario''
         else if str_in ''synthetic'' text then ''source_data''
         else if spatial \<noteq> [] then ''spatial_dataset''
         else if targets \<noteq> [] then ''potential_ml_dataset''
         else if temporal \<noteq> [] then ''temporal_dataset''
         else ''tabular_dataset'')"

text \<open>The names of the columns with a property, in the order of the frame\<close>

definition columns_where :: "(described_column \<Rightarrow> bool) \<Rightarrow> frame_description \<Rightarrow> string list" where
  "columns_where P d = map cl_name (filter P (fd_columns d))"

text \<open>\<open>dict.fromkeys\<close>: the first of equal names is kept.\<close>

definition from_keys :: "string list \<Rightarrow> string list" where
  "from_keys xs = rev (remdups (rev xs))"

definition is_constant :: "described_column \<Rightarrow> bool" where
  "is_constant c \<longleftrightarrow> cl_nunique c \<le> 1"

definition is_high_cardinality :: "nat \<Rightarrow> described_column \<Rightarrow> bool" where
  "is_high_cardinality rows c \<longleftrightarrow>
     \<not> is_constant c \<and> unique_share rows (column_profile.truncate c) \<ge> 90 / 100 \<and> rows \<ge> 10"

definition characterize :: "string \<Rightarrow> frame_description \<Rightarrow> characterization result" where
  "characterize path d =
     (if fd_rows d = 0 \<or> fd_columns d = [] then Inl (value_error ''Cannot characterize an empty dataset.'')
      else
        (let n = fd_rows d; of_role = (\<lambda>role. columns_where (\<lambda>c. semantic_role n c = role) d);
             spatial = of_role ''spatial''; temporal = of_role ''temporal''; targets = of_role ''target_candidate''
         in Inr \<lparr>ch_path = path, ch_rows = n, ch_columns = length (fd_columns d),
              ch_numeric = columns_where (\<lambda>c. \<not> cl_datetime c \<and> counts_as_number c) d,
              ch_categorical = columns_where (\<lambda>c. \<not> cl_datetime c \<and> \<not> counts_as_number c) d,
              ch_datetime = from_keys (columns_where (\<lambda>c. cl_datetime c \<or> semantic_role n c = ''temporal'') d),
              ch_spatial = spatial, ch_temporal = temporal, ch_group = of_role ''group'', ch_identifier = of_role ''identifier'',
              ch_targets = targets, ch_high_cardinality = columns_where (is_high_cardinality n) d,
              ch_constant = columns_where is_constant d, ch_missing = columns_where (\<lambda>c. cl_count c < n) d,
              ch_profiles = map (characterize_column n) (fd_columns d),
              ch_role = dataset_role path targets spatial temporal, ch_duplicates = fd_duplicates d\<rparr>))"

definition column_to_dict :: "column_characterization \<Rightarrow> dict" where
  "column_to_dict c =
     [(''name'', PStr (cc_name c)), (''dtype'', PStr (cc_dtype c)), (''semantic_role'', PStr (cc_semantic_role c)),
      (''missing_count'', PInt (int (cc_missing_count c))), (''missing_pct'', PFloat (cc_missing_fraction c)),
      (''unique_count'', PInt (int (cc_unique_count c))), (''unique_fraction'', PFloat (cc_unique_fraction c)),
      (''mean'', opt_float (cc_mean c)), (''std'', opt_float (cc_std c)), (''min'', opt_float (cc_minimum c)),
      (''max'', opt_float (cc_maximum c))]"

text \<open>The key \<open>columns\<close> is written twice: it keeps its first place and its last value.\<close>

definition characterization_to_dict :: "characterization \<Rightarrow> dict" where
  "characterization_to_dict r =
     (let names = (\<lambda>xs. PList (map PStr xs)); profiles = PList (map (PDict \<circ> column_to_dict) (ch_profiles r))
      in [(''path'', PStr (ch_path r)), (''rows'', PInt (int (ch_rows r))), (''columns'', profiles),
          (''n_rows'', PInt (int (ch_rows r))), (''n_cols'', PInt (int (ch_columns r))), (''column_count'', PInt (int (ch_columns r))),
          (''numeric_columns'', names (ch_numeric r)), (''categorical_columns'', names (ch_categorical r)),
          (''datetime_columns'', names (ch_datetime r)), (''spatial_columns'', names (ch_spatial r)),
          (''temporal_columns'', names (ch_temporal r)), (''group_columns'', names (ch_group r)),
          (''identifier_columns'', names (ch_identifier r)), (''target_candidates'', names (ch_targets r)),
          (''high_cardinality_columns'', names (ch_high_cardinality r)), (''constant_columns'', names (ch_constant r)),
          (''missing_columns'', names (ch_missing r)),
          (''missing_total'', PInt (int (sum_list (map cc_missing_count (ch_profiles r))))),
          (''duplicate_rows'', PInt (int (ch_duplicates r))), (''columns_profile'', profiles),
          (''dataset_role'', PStr (ch_role r))])"

subsection \<open>Facts\<close>

definition SEMANTIC_ROLES :: "string list" where
  "SEMANTIC_ROLES = [''spatial'', ''temporal'', ''group'', ''identifier'', ''metadata'', ''target_candidate'', ''categorical'', ''feature'']"

lemma semantic_role_known: "semantic_role n c \<in> set SEMANTIC_ROLES"
  by (simp add: semantic_role_def SEMANTIC_ROLES_def Let_def)

lemma distinct_SEMANTIC_ROLES: "distinct SEMANTIC_ROLES"
  by (simp add: SEMANTIC_ROLES_def)

text \<open>Sorting a list by a key of finitely many values loses nothing.\<close>

lemma mset_by_key:
  assumes "distinct ks" and "\<And>x. x \<in> set xs \<Longrightarrow> key x \<in> set ks"
  shows "mset (concat (map (\<lambda>k. filter (\<lambda>x. key x = k) xs) ks)) = mset xs"
  using assms
proof (induction ks arbitrary: xs)
  case (Cons k ks)
  let ?rest = "filter (\<lambda>x. key x \<noteq> k) xs"
  have "filter (\<lambda>x. key x = j) xs = filter (\<lambda>x. key x = j) ?rest" if "j \<in> set ks" for j
    using that Cons.prems(1) by (auto intro: filter_cong)
  then have same: "map (\<lambda>j. filter (\<lambda>x. key x = j) xs) ks = map (\<lambda>j. filter (\<lambda>x. key x = j) ?rest) ks"
    by simp
  have others: "mset (concat (map (\<lambda>j. filter (\<lambda>x. key x = j) ?rest) ks)) = mset ?rest"
    using Cons.prems by (intro Cons.IH) auto
  have "mset (filter (\<lambda>x. key x = k) xs) + mset ?rest = mset xs"
    by (simp add: mset_filter multiset_partition [symmetric])
  then show ?case unfolding list.map concat.simps mset_append same others .
next
  case Nil
  then show ?case by (cases xs) auto
qed

lemma mset_map_by_key:
  assumes "distinct ks" and "\<And>x. x \<in> set xs \<Longrightarrow> key x \<in> set ks"
  shows "mset (concat (map (\<lambda>k. map f (filter (\<lambda>x. key x = k) xs)) ks)) = mset (map f xs)"
proof -
  have "concat (map (\<lambda>k. map f (filter (\<lambda>x. key x = k) xs)) ks) = map f (concat (map (\<lambda>k. filter (\<lambda>x. key x = k) xs) ks))"
    by (simp add: map_concat comp_def)
  then show ?thesis by (simp only: mset_map mset_by_key [OF assms])
qed

text \<open>
  A characterization gives each column one semantic role, one physical kind and one profile; the
  shares of its profiles are between zero and one, and constant columns are not of high cardinality.
\<close>

theorem characterize_accounts_for_columns:
  "case characterize path d of
     Inl e \<Rightarrow> fd_rows d = 0 \<or> fd_columns d = []
   | Inr r \<Rightarrow>
       mset (concat (map (\<lambda>role. columns_where (\<lambda>c. semantic_role (fd_rows d) c = role) d) SEMANTIC_ROLES))
         = mset (map cl_name (fd_columns d))
       \<and> mset (ch_numeric r @ ch_categorical r @ columns_where cl_datetime d) = mset (map cl_name (fd_columns d))
       \<and> map cc_name (ch_profiles r) = map cl_name (fd_columns d)
       \<and> list_all (\<lambda>p. 0 \<le> cc_missing_fraction p \<and> cc_missing_fraction p \<le> 1) (ch_profiles r)
       \<and> list_all (\<lambda>c. \<not> (is_constant c \<and> is_high_cardinality (fd_rows d) c)) (fd_columns d)"
proof (cases "fd_rows d = 0 \<or> fd_columns d = []")
  case True
  then show ?thesis by (auto simp: characterize_def)
next
  case False
  obtain r where r: "characterize path d = Inr r" "ch_profiles r = map (characterize_column (fd_rows d)) (fd_columns d)"
      "ch_numeric r = columns_where (\<lambda>c. \<not> cl_datetime c \<and> counts_as_number c) d"
      "ch_categorical r = columns_where (\<lambda>c. \<not> cl_datetime c \<and> \<not> counts_as_number c) d"
    using False by (auto simp: characterize_def Let_def)
  have roles: "mset (concat (map (\<lambda>role. columns_where (\<lambda>c. semantic_role (fd_rows d) c = role) d) SEMANTIC_ROLES))
      = mset (map cl_name (fd_columns d))"
    unfolding columns_where_def by (rule mset_map_by_key [OF distinct_SEMANTIC_ROLES semantic_role_known])
  have kinds: "mset (map cl_name (filter (\<lambda>c. \<not> cl_datetime c \<and> counts_as_number c) cs)
      @ map cl_name (filter (\<lambda>c. \<not> cl_datetime c \<and> \<not> counts_as_number c) cs) @ map cl_name (filter cl_datetime cs))
      = mset (map cl_name cs)" for cs :: "described_column list"
    by (induction cs) auto
  have "0 \<le> cc_missing_fraction p \<and> cc_missing_fraction p \<le> 1" if "p \<in> set (ch_profiles r)" for p
    using that False by (auto simp: r characterize_column_def Let_def divide_le_eq)
  then show ?thesis
    using roles kinds [of "fd_columns d"] by (auto simp: r list_all_iff columns_where_def is_high_cardinality_def
        characterize_column_def Let_def)
qed

text \<open>Any name that ends in the letters id is an entity, as a measured humidity is.\<close>

definition demo_humid :: described_column where
  "demo_humid = \<lparr>cl_name = ''humid'', cl_bool = False, cl_numeric = True, cl_integer = False, cl_datetime = False,
     cl_object = False, cl_string = False, cl_category = False, cl_dtype = ''float64'', cl_nunique = 5, cl_count = 10,
     cl_parsed = 0, cl_avg_length = 0, cl_skew = None, dc_mean = Some 1, dc_std = Some 1, dc_min = Some 0, dc_max = Some 2,
     dc_dates = None\<rparr>"

lemma humid_is_a_group: "semantic_role 10 demo_humid = ''group''"
  by code_simp

end
