(* ===== verification/Trainer.thy ===== *)
theory Trainer
  imports DatasetPlan "HOL-Library.Sublist"
begin

text \<open>
  Training and evaluation (\<open>core/models/trainer.py\<close>). A frame is a data set whose columns include the
  target; its rows are positions. scikit-learn is a parameter: what the shufflers answer is the
  \<open>split_lib\<close> of the splits, and fitting, predicting and scoring are the record \<open>training_lib\<close>
  over a type of fitted pipelines.
\<close>

subsection \<open>Libraries and results\<close>

text \<open>
  \<open>tl_number\<close> and \<open>tl_categorical\<close> tell which columns \<open>select_dtypes\<close> includes; a fit gets the name of
  the model, the random state, the numeric and the categorical columns, and the training rows.
\<close>

record 'p training_lib =
  tl_number :: "string \<Rightarrow> bool"
  tl_categorical :: "string \<Rightarrow> bool"
  tl_fit :: "string \<Rightarrow> int \<Rightarrow> string list \<Rightarrow> string list \<Rightarrow> dataset \<Rightarrow> 'p result"
  tl_predict :: "'p \<Rightarrow> dataset \<Rightarrow> pyval list result"
  tl_r2 :: "pyval list \<Rightarrow> pyval list \<Rightarrow> rat result"
  tl_mae :: "pyval list \<Rightarrow> pyval list \<Rightarrow> rat result"
  tl_rmse :: "pyval list \<Rightarrow> pyval list \<Rightarrow> rat result"
  tl_accuracy :: "pyval list \<Rightarrow> pyval list \<Rightarrow> rat result"
  tl_f1 :: "pyval list \<Rightarrow> pyval list \<Rightarrow> rat result"

record model_evaluation =
  me_model_name :: string
  me_task :: string
  me_primary :: rat
  me_metrics :: "(string \<times> rat) list"

record training_result =
  tr_evaluations :: "model_evaluation list"
  tr_best_name :: "string option"
  tr_best_score :: "rat option"

definition no_training :: training_result where
  "no_training = \<lparr>tr_evaluations = [], tr_best_name = None, tr_best_score = None\<rparr>"

subsection \<open>Frames\<close>

definition frame_columns :: "dataset \<Rightarrow> string list" where
  "frame_columns df = map fst (ds_columns df)"

definition pick_rows :: "nat list \<Rightarrow> dataset \<Rightarrow> dataset" where
  "pick_rows idx df =
     \<lparr>ds_rows = length idx, ds_columns = map (\<lambda>(c, vs). (c, map ((!) vs) idx)) (ds_columns df),
      ds_y = map ((!) (ds_y df)) idx\<rparr>"

definition keep_columns :: "(string \<Rightarrow> bool) \<Rightarrow> dataset \<Rightarrow> dataset" where
  "keep_columns P df = df\<lparr>ds_columns := filter (\<lambda>(c, vs). P c) (ds_columns df)\<rparr>"

text \<open>\<open>dropna(subset=[target])\<close>, then the features and the target apart\<close>

definition features_and_target :: "split_lib \<Rightarrow> dataset \<Rightarrow> string \<Rightarrow> pyval list \<Rightarrow> dataset" where
  "features_and_target lib df target vals =
     (let idx = filter (\<lambda>i. \<not> sl_isna lib (vals ! i)) [0..<length vals];
          clean = pick_rows idx (df\<lparr>ds_y := vals\<rparr>)
      in keep_columns (\<lambda>c. c \<noteq> target) clean)"

subsection \<open>Splitting\<close>

definition few_places :: "split_lib \<Rightarrow> split_request \<Rightarrow> dataset \<Rightarrow> bool" where
  "few_places lib q ds \<longleftrightarrow>
     (case (needed_column ds (sr_latitude q) [] [], needed_column ds (sr_longitude q) [] []) of
        (Inr lats, Inr lons) \<Rightarrow>
          \<not> list_ex (sl_isna lib) lats \<and> \<not> list_ex (sl_isna lib) lons
          \<and> (distinct_values lats < 2 \<or> distinct_values lons < 2)
      | _ \<Rightarrow> False)"

definition create_split :: "split_lib \<Rightarrow> split_request \<Rightarrow> dataset \<Rightarrow> split result" where
  "create_split lib q ds =
     (if sr_strategy q = ''group_holdout'' then group_split lib q ds
      else if sr_strategy q = ''stratified_holdout'' then sl_stratified lib (ds_y ds) (sr_test_size q) (sr_random_state q)
      else if sr_strategy q = ''temporal_holdout'' then temporal_split lib q ds
      else if sr_strategy q = ''spatial_holdout''
      then (if few_places lib q ds then Inl (value_error ''Not enough spatial variation for spatial holdout.'')
            else spatial_split lib q ds)
      else if sr_strategy q = ''random_holdout''
      then sl_train_test lib (ds_rows ds) (sr_test_size q) (sr_random_state q)
      else Inl (value_error (''Unsupported validation strategy: '' @ sr_strategy q)))"

text \<open>What \<open>_remove_identifiers\<close> removes\<close>

definition model_identifier :: "string \<Rightarrow> bool" where
  "model_identifier column \<longleftrightarrow>
     (let name = tidy_name column
      in name \<in> {''id'', ''uuid'', ''identifier'', ''key''}
         \<or> ends_with name ''_id'' \<or> ends_with name ''_uuid'' \<or> ends_with name ''_key'')"

definition remove_identifiers :: "dataset \<Rightarrow> dataset" where
  "remove_identifiers ds = keep_columns (\<lambda>c. \<not> model_identifier c) ds"

subsection \<open>Models\<close>

definition MODEL_NAMES :: "string list" where
  "MODEL_NAMES = [''linear_regression'', ''random_forest_regressor'', ''gradient_boosting_regressor'',
     ''hist_gradient_boosting_regressor'', ''logistic_regression'', ''random_forest_classifier'',
     ''gradient_boosting_classifier'', ''hist_gradient_boosting_classifier'', ''extra_trees_regressor'',
     ''extra_trees_classifier'']"

text \<open>The model of a name, as its name, or the refusal\<close>

definition build_model :: "string \<Rightarrow> string \<Rightarrow> string result" where
  "build_model name task =
     (if name \<notin> set MODEL_NAMES then Inl (value_error (''Unsupported model: '' @ name))
      else if task = ''regression'' \<and> (str_in ''classifier'' name \<or> name = ''logistic_regression'')
      then Inl (value_error (''Classification model '' @ sq name @ '' cannot be used for regression.''))
      else if task = ''classification'' \<and> (str_in ''regressor'' name \<or> name = ''linear_regression'')
      then Inl (value_error (''Regression model '' @ sq name @ '' cannot be used for classification.''))
      else Inr name)"

definition build_preprocessor :: "('p, 'z) training_lib_scheme \<Rightarrow> dataset \<Rightarrow> (string list \<times> string list) result" where
  "build_preprocessor ml X =
     (let numeric = filter (tl_number ml) (frame_columns X); categorical = filter (tl_categorical ml) (frame_columns X)
      in if numeric = [] \<and> categorical = [] then Inl (value_error ''No supported feature columns found.'')
         else Inr (numeric, categorical))"

definition evaluate_model ::
  "'p training_lib \<Rightarrow> string \<Rightarrow> string \<Rightarrow> pyval list \<Rightarrow> pyval list \<Rightarrow> model_evaluation result" where
  "evaluate_model ml name task truth guess =
     (if task = ''regression''
      then (case tl_r2 ml truth guess of Inl e \<Rightarrow> Inl e | Inr r2 \<Rightarrow>
           (case tl_mae ml truth guess of Inl e \<Rightarrow> Inl e | Inr mae \<Rightarrow>
           (case tl_rmse ml truth guess of Inl e \<Rightarrow> Inl e | Inr rmse \<Rightarrow>
              Inr \<lparr>me_model_name = name, me_task = task, me_primary = r2,
                   me_metrics = [(''r2'', r2), (''mae'', mae), (''rmse'', rmse)]\<rparr>)))
      else if task = ''classification''
      then (case tl_accuracy ml truth guess of Inl e \<Rightarrow> Inl e | Inr accuracy \<Rightarrow>
           (case tl_f1 ml truth guess of Inl e \<Rightarrow> Inl e | Inr f1 \<Rightarrow>
              Inr \<lparr>me_model_name = name, me_task = task, me_primary = f1,
                   me_metrics = [(''accuracy'', accuracy), (''f1_weighted'', f1)]\<rparr>))
      else Inl (value_error (''Unsupported task type: '' @ task)))"

text \<open>The pipelines that a trainer has fitted so far, by model\<close>

type_synonym 'p fitted = "(string \<times> 'p) list"

text \<open>The body of the \<open>try\<close>: a pipeline that was fitted stays fitted when scoring it fails.\<close>

definition try_model ::
  "'p training_lib \<Rightarrow> string \<Rightarrow> int \<Rightarrow> string list \<times> string list \<Rightarrow> dataset \<Rightarrow> dataset \<Rightarrow> string \<Rightarrow> 'p fitted
     \<Rightarrow> model_evaluation option \<times> 'p fitted" where
  "try_model ml task seed columns train test name fitted =
     (case tl_fit ml name seed (fst columns) (snd columns) train of
        Inl e \<Rightarrow> (None, fitted)
      | Inr p \<Rightarrow>
          (let fitted' = AList.update name p fitted
           in case tl_predict ml p test of
                Inl e \<Rightarrow> (None, fitted')
              | Inr guess \<Rightarrow>
                  (case evaluate_model ml name task (ds_y test) guess of
                     Inl e \<Rightarrow> (None, fitted') | Inr ev \<Rightarrow> (Some ev, fitted'))))"

fun train_models ::
  "'p training_lib \<Rightarrow> string \<Rightarrow> int \<Rightarrow> dataset \<Rightarrow> dataset \<Rightarrow> string list \<Rightarrow> 'p fitted
     \<Rightarrow> model_evaluation list result \<times> 'p fitted" where
  "train_models ml task seed train test [] fitted = (Inr [], fitted)"
| "train_models ml task seed train test (name # names) fitted =
     (case build_model name task of
        Inl e \<Rightarrow> (Inl e, fitted)
      | Inr _ \<Rightarrow>
          (case build_preprocessor ml train of
             Inl e \<Rightarrow> (Inl e, fitted)
           | Inr columns \<Rightarrow>
               (let (ev, fitted1) = try_model ml task seed columns train test name fitted;
                    (rest, fitted2) = train_models ml task seed train test names fitted1
                in (case rest of
                      Inl e \<Rightarrow> Inl e
                    | Inr evs \<Rightarrow> Inr ((case ev of None \<Rightarrow> [] | Some x \<Rightarrow> [x]) @ evs), fitted2))))"

definition train_on_split ::
  "'p training_lib \<Rightarrow> string \<Rightarrow> int \<Rightarrow> dataset \<Rightarrow> dataset \<Rightarrow> string list \<Rightarrow> 'p fitted
     \<Rightarrow> training_result result \<times> 'p fitted" where
  "train_on_split ml task seed train test candidates fitted =
     (if ds_rows train = 0 then (Inl (value_error ''Training split is empty.''), fitted)
      else if ds_rows test = 0 then (Inl (value_error ''Test split is empty.''), fitted)
      else if candidates = [] then (Inr no_training, fitted)
      else
        (let (r, fitted') = train_models ml task seed train test candidates fitted
         in (case r of
               Inl e \<Rightarrow> Inl e
             | Inr evs \<Rightarrow>
                 Inr (case py_max me_primary evs of
                        None \<Rightarrow> no_training
                      | Some best \<Rightarrow>
                          \<lparr>tr_evaluations = evs, tr_best_name = Some (me_model_name best),
                           tr_best_score = Some (me_primary best)\<rparr>), fitted')))"

definition train_and_evaluate ::
  "split_lib \<Rightarrow> 'p training_lib \<Rightarrow> dataset \<Rightarrow> string \<Rightarrow> string \<Rightarrow> string list \<Rightarrow> split_request \<Rightarrow> 'p fitted
     \<Rightarrow> training_result result \<times> 'p fitted" where
  "train_and_evaluate lib ml df target task candidates q fitted =
     (case map_of (ds_columns df) target of
        None \<Rightarrow> (Inl (value_error (''Target column not found: '' @ target)), fitted)
      | Some vals \<Rightarrow>
          if \<not> (0 < sr_test_size q \<and> sr_test_size q < 1)
          then (Inl (value_error ''test_size must be between 0 and 1.''), fitted)
          else
            (let X = features_and_target lib df target vals
             in if ds_rows X < 4 then (Inl (value_error ''Dataset is too small for model training.''), fitted)
                else
                  (case create_split lib q X of
                     Inl e \<Rightarrow> (Inl e, fitted)
                   | Inr (train, test) \<Rightarrow>
                       (let X_train = remove_identifiers (pick_rows train X); X_test = remove_identifiers (pick_rows test X)
                        in if ds_columns X_train = []
                           then (Inl (value_error ''No usable features remain after identifier removal.''), fitted)
                           else train_on_split ml task (sr_random_state q) X_train X_test candidates fitted))))"

definition fitted_pipeline :: "string \<Rightarrow> 'p fitted \<Rightarrow> 'p option" where
  "fitted_pipeline name fitted = map_of fitted name"

subsection \<open>What a training result says\<close>

text \<open>
  The evaluations are of candidates in their order; the best of them has the highest metric and is
  the first with it, and its pipeline is the one that was fitted.
\<close>

definition faithful_result :: "string list \<Rightarrow> 'p fitted \<Rightarrow> training_result \<Rightarrow> bool" where
  "faithful_result candidates fitted r \<longleftrightarrow>
     subseq (map me_model_name (tr_evaluations r)) candidates
     \<and> (case tr_best_name r of
          None \<Rightarrow> tr_evaluations r = [] \<and> tr_best_score r = None
        | Some b \<Rightarrow>
            (\<exists>ev pre post. tr_evaluations r = pre @ ev # post \<and> me_model_name ev = b \<and> tr_best_score r = Some (me_primary ev)
               \<and> list_all (\<lambda>x. me_primary x < me_primary ev) pre \<and> list_all (\<lambda>x. me_primary x \<le> me_primary ev) post)
            \<and> fitted_pipeline b fitted \<noteq> None)"

text \<open>The columns that a model is fitted on: no target and no identifier\<close>

definition model_columns :: "string \<Rightarrow> dataset \<Rightarrow> bool" where
  "model_columns target X \<longleftrightarrow> list_all (\<lambda>c. c \<noteq> target \<and> \<not> model_identifier c) (frame_columns X)"

lemma evaluate_model_name: "evaluate_model ml name task a b = Inr ev \<Longrightarrow> me_model_name ev = name"
  by (auto simp: evaluate_model_def split: sum.splits if_splits)

lemma try_model_fitted:
  assumes "try_model ml task seed cols X_train X_test name fitted = (ev, fitted')"
  shows "case ev of None \<Rightarrow> True | Some e \<Rightarrow> me_model_name e = name \<and> map_of fitted' name \<noteq> None"
    and "map_of fitted k \<noteq> None \<Longrightarrow> map_of fitted' k \<noteq> None"
  using assms
  by (auto simp: try_model_def Let_def update_conv dest: evaluate_model_name split: sum.splits option.splits)

lemma train_models_names:
  assumes "train_models ml task seed X_train X_test names fitted = (r, fitted')"
  shows "(case r of Inl _ \<Rightarrow> True | Inr evs \<Rightarrow> subseq (map me_model_name evs) names
      \<and> list_all (\<lambda>e. map_of fitted' (me_model_name e) \<noteq> None) evs)
    \<and> (\<forall>k. map_of fitted k \<noteq> None \<longrightarrow> map_of fitted' k \<noteq> None)"
  using assms
proof (induction names arbitrary: fitted r fitted')
  case (Cons name names)
  show ?case
  proof (cases "build_model name task")
    case (Inl e)
    with Cons.prems show ?thesis by auto
  next
    case (Inr n)
    note model = this
    show ?thesis
    proof (cases "build_preprocessor ml X_train")
      case (Inl e)
      with Cons.prems model show ?thesis by auto
    next
      case (Inr cols)
      obtain ev fitted1 where tried: "try_model ml task seed cols X_train X_test name fitted = (ev, fitted1)" by fastforce
      obtain rest fitted2 where rest: "train_models ml task seed X_train X_test names fitted1 = (rest, fitted2)" by fastforce
      note IH = Cons.IH [OF rest] and t = try_model_fitted [OF tried]
      have res: "r = (case rest of Inl e \<Rightarrow> Inl e | Inr evs \<Rightarrow> Inr ((case ev of None \<Rightarrow> [] | Some x \<Rightarrow> [x]) @ evs))" "fitted' = fitted2"
        using Cons.prems model Inr tried rest by simp_all
      show ?thesis
      proof (cases rest)
        case (Inl e)
        with IH t res show ?thesis by auto
      next
        case (Inr evs)
        with IH t res show ?thesis
          by (cases ev) auto
      qed
    qed
  qed
qed simp

lemma py_max_split:
  assumes "py_max f xs = Some m"
  shows "\<exists>pre post. xs = pre @ m # post \<and> list_all (\<lambda>x. f x < f m) pre \<and> list_all (\<lambda>x. f x \<le> f m) post"
proof -
  obtain i where i: "i < length xs" "xs ! i = m" "\<forall>j < i. f (xs ! j) \<noteq> f m"
    using py_max_first [OF assms] by (auto simp: find_Some_iff)
  have le: "f x \<le> f m" if "x \<in> set xs" for x
    using py_max_Some [OF assms] that by blast
  have "xs = take i xs @ m # drop (Suc i) xs"
    using i(1,2) id_take_nth_drop by blast
  moreover have "f x < f m" if mem: "x \<in> set (take i xs)" for x
  proof -
    obtain j where "j < length (take i xs)" "take i xs ! j = x"
      using mem unfolding in_set_conv_nth by blast
    then have "j < i" "x = xs ! j" by auto
    with i le [of x] in_set_takeD [OF mem] show ?thesis
      by (auto simp: order_less_le)
  qed
  moreover have "f x \<le> f m" if "x \<in> set (drop (Suc i) xs)" for x
    using le in_set_dropD [OF that] by blast
  ultimately show ?thesis
    unfolding list_all_iff by blast
qed

lemma train_on_split_faithful:
  assumes "train_on_split ml task seed X_train X_test candidates fitted = (Inr r, fitted')"
  shows "faithful_result candidates fitted' r"
proof (cases "candidates = []")
  case True
  with assms show ?thesis
    by (auto simp: train_on_split_def faithful_result_def no_training_def split: if_splits)
next
  case False
  obtain rs where run: "train_models ml task seed X_train X_test candidates fitted = (rs, fitted')"
    and r: "(case rs of Inl e \<Rightarrow> Inl e | Inr evs \<Rightarrow> Inr (case py_max me_primary evs of None \<Rightarrow> no_training
        | Some best \<Rightarrow> \<lparr>tr_evaluations = evs, tr_best_name = Some (me_model_name best),
            tr_best_score = Some (me_primary best)\<rparr>)) = Inr r"
    using assms False by (auto simp: train_on_split_def Let_def split: if_splits prod.splits)
  obtain evs where evs: "rs = Inr evs"
    using r by (cases rs) auto
  note names = train_models_names [OF run, unfolded evs sum.case]
  show ?thesis
  proof (cases "py_max me_primary evs")
    case None
    with r evs show ?thesis by (auto simp: faithful_result_def no_training_def)
  next
    case (Some best)
    then have "r = \<lparr>tr_evaluations = evs, tr_best_name = Some (me_model_name best), tr_best_score = Some (me_primary best)\<rparr>"
      using r evs by simp
    moreover have "best \<in> set evs"
      using py_max_Some [OF Some] by blast
    ultimately show ?thesis
      using names py_max_split [OF Some]
      by (auto simp: faithful_result_def fitted_pipeline_def list_all_iff)
  qed
qed

subsection \<open>What the models are trained on\<close>

lemma features_columns_full:
  "columns_full (features_and_target lib df target vals)"
  by (auto simp: features_and_target_def Let_def keep_columns_def pick_rows_def columns_full_def)

lemma features_y: "length (ds_y (features_and_target lib df target vals)) = ds_rows (features_and_target lib df target vals)"
  by (simp add: features_and_target_def Let_def keep_columns_def pick_rows_def)

lemma create_split_ok:
  assumes "lib_laws lib" "columns_full X" "length (ds_y X) = ds_rows X"
  shows "ok_split (ds_rows X) (strategy_ok lib q X) (create_split lib q X)"
proof -
  have shuffled: "ok_split (ds_rows X) (\<lambda>_. True) (sl_train_test lib (ds_rows X) (sr_test_size q) (sr_random_state q))"
    using assms(1) by (simp add: lib_laws_def)
  have stratified: "ok_split (ds_rows X) (\<lambda>_. True) (sl_stratified lib (ds_y X) (sr_test_size q) (sr_random_state q))"
    using assms(1) unfolding lib_laws_def assms(3) [symmetric] by blast
  show ?thesis
    unfolding create_split_def
    using shuffled stratified group_split_ok [OF assms(1,2), of q] temporal_split_ok [OF assms(1,2), of q]
      spatial_split_ok [OF assms(1,2), of q]
    by (auto simp: strategy_ok_def ok_split_def split: sum.splits)
qed

lemma trained_columns: "model_columns target (remove_identifiers (pick_rows idx (features_and_target lib df target vals)))"
  by (auto simp: model_columns_def frame_columns_def remove_identifiers_def keep_columns_def pick_rows_def
      features_and_target_def Let_def list_all_iff)

lemma train_and_evaluate_split:
  assumes "train_and_evaluate lib ml df target task candidates q fitted = (Inr r, fitted')"
  obtains vals s where "map_of (ds_columns df) target = Some vals"
    "create_split lib q (features_and_target lib df target vals) = Inr s"
    "train_on_split ml task (sr_random_state q) (remove_identifiers (pick_rows (fst s) (features_and_target lib df target vals)))
       (remove_identifiers (pick_rows (snd s) (features_and_target lib df target vals))) candidates fitted = (Inr r, fitted')"
  using assms by (auto simp: train_and_evaluate_def Let_def split: option.splits if_splits sum.splits)

subsection \<open>Which rows are fitted and which are scored\<close>

text \<open>
  The specification of a training, without the trainer's code. \<open>model_rows\<close> are some rows of the
  given frame as a model may see them: without the target and without identifiers, the targets
  beside them.
\<close>

definition known_rows :: "split_lib \<Rightarrow> pyval list \<Rightarrow> nat list" where
  "known_rows lib vals = filter (\<lambda>i. \<not> sl_isna lib (vals ! i)) [0..<length vals]"

definition model_rows :: "dataset \<Rightarrow> string \<Rightarrow> pyval list \<Rightarrow> nat list \<Rightarrow> dataset" where
  "model_rows df target vals rows =
     \<lparr>ds_rows = length rows,
      ds_columns = [(c, map ((!) vs) rows). (c, vs) \<leftarrow> ds_columns df, c \<noteq> target \<and> \<not> model_identifier c],
      ds_y = map ((!) vals) rows\<rparr>"

text \<open>\<open>p\<close> is the pipeline of a model that was fitted on the rows \<open>train\<close>.\<close>

definition fits :: "'p training_lib \<Rightarrow> int \<Rightarrow> dataset \<Rightarrow> string \<Rightarrow> 'p \<Rightarrow> bool" where
  "fits ml seed train name p \<longleftrightarrow>
     tl_fit ml name seed (filter (tl_number ml) (frame_columns train)) (filter (tl_categorical ml) (frame_columns train))
       train = Inr p"

text \<open>The metrics of an evaluation are those of \<open>guess\<close> against \<open>truth\<close>; the first is the primary one.\<close>

definition scores :: "'p training_lib \<Rightarrow> string \<Rightarrow> pyval list \<Rightarrow> pyval list \<Rightarrow> model_evaluation \<Rightarrow> bool" where
  "scores ml task truth guess ev \<longleftrightarrow> me_task ev = task
     \<and> (task = ''regression'' \<and> (\<exists>r2 mae rmse. tl_r2 ml truth guess = Inr r2 \<and> tl_mae ml truth guess = Inr mae
            \<and> tl_rmse ml truth guess = Inr rmse \<and> me_primary ev = r2
            \<and> me_metrics ev = [(''r2'', r2), (''mae'', mae), (''rmse'', rmse)])
        \<or> task = ''classification'' \<and> (\<exists>accuracy f1. tl_accuracy ml truth guess = Inr accuracy \<and> tl_f1 ml truth guess = Inr f1
            \<and> me_primary ev = f1 \<and> me_metrics ev = [(''accuracy'', accuracy), (''f1_weighted'', f1)]))"

text \<open>Fitted on \<open>train\<close>, and scored by its predictions for the rows \<open>test\<close> against their targets\<close>

definition held_out ::
  "'p training_lib \<Rightarrow> string \<Rightarrow> int \<Rightarrow> dataset \<Rightarrow> dataset \<Rightarrow> string \<Rightarrow> 'p \<Rightarrow> model_evaluation \<Rightarrow> bool" where
  "held_out ml task seed train test name p ev \<longleftrightarrow>
     fits ml seed train name p \<and> me_model_name ev = name
     \<and> (\<exists>guess. tl_predict ml p test = Inr guess \<and> scores ml task (ds_y test) guess ev)"

text \<open>
  The evaluations are those of the candidates that can be fitted on \<open>train\<close> and scored on \<open>test\<close>,
  in order; the pipelines kept are those fitted on \<open>train\<close>, beside those of other models.
\<close>

definition trained_on ::
  "'p training_lib \<Rightarrow> string \<Rightarrow> int \<Rightarrow> dataset \<Rightarrow> dataset \<Rightarrow> string list \<Rightarrow> 'p fitted
     \<Rightarrow> model_evaluation list \<Rightarrow> 'p fitted \<Rightarrow> bool" where
  "trained_on ml task seed train test candidates before evs fitted \<longleftrightarrow>
     (\<exists>trial. evs = List.map_filter trial candidates
        \<and> (\<forall>n \<in> set candidates. case trial n of
              Some ev \<Rightarrow> (\<exists>p. held_out ml task seed train test n p ev)
            | None \<Rightarrow> \<not> (\<exists>p ev. held_out ml task seed train test n p ev)))
     \<and> (\<forall>n p. n \<in> set candidates \<and> fits ml seed train n p \<longrightarrow> fitted_pipeline n fitted = Some p)
     \<and> (\<forall>n. n \<notin> set candidates \<or> \<not> (\<exists>p. fits ml seed train n p) \<longrightarrow>
            fitted_pipeline n fitted = fitted_pipeline n before)"

text \<open>
  The split that a result rests on: the rows with a target are parted into the rows fitted on and
  the rows scored on, as the strategy asks.
\<close>

definition honest_training ::
  "split_lib \<Rightarrow> 'p training_lib \<Rightarrow> dataset \<Rightarrow> string \<Rightarrow> string \<Rightarrow> string list \<Rightarrow> split_request \<Rightarrow> 'p fitted
     \<Rightarrow> training_result \<times> 'p fitted \<Rightarrow> bool" where
  "honest_training lib ml df target task candidates q before res \<longleftrightarrow>
     (\<exists>vals s. map_of (ds_columns df) target = Some vals
        \<and> (let rows = known_rows lib vals;
               train_rows = map ((!) rows) (fst s); test_rows = map ((!) rows) (snd s);
               train = model_rows df target vals train_rows; test = model_rows df target vals test_rows
           in distinct (train_rows @ test_rows) \<and> set (train_rows @ test_rows) = set rows
            \<and> train_rows \<noteq> [] \<and> test_rows \<noteq> []
            \<and> strategy_ok lib q (features_and_target lib df target vals) s
            \<and> model_columns target train \<and> model_columns target test
            \<and> trained_on ml task (sr_random_state q) train test candidates before
                (tr_evaluations (fst res)) (snd res)))"

subsection \<open>The trainer meets the specification\<close>

lemma evaluate_scores:
  "evaluate_model ml name task truth guess = Inr ev \<longleftrightarrow> me_model_name ev = name \<and> scores ml task truth guess ev"
  by (cases ev) (auto simp: evaluate_model_def scores_def split: sum.splits)

lemma evaluate_fails: "evaluate_model ml name task truth guess = Inl e \<Longrightarrow> me_model_name ev = name \<Longrightarrow> \<not> scores ml task truth guess ev"
  using evaluate_scores [of ml name task truth guess ev] by auto

lemma try_model_held_out:
  assumes "cols = (filter (tl_number ml) (frame_columns train), filter (tl_categorical ml) (frame_columns train))"
    and t: "try_model ml task seed cols train test name fitted = (ev, fitted')"
  shows "case ev of Some e \<Rightarrow> (\<exists>p. held_out ml task seed train test name p e)
           | None \<Rightarrow> \<not> (\<exists>p e. held_out ml task seed train test name p e)"
    and "fits ml seed train name p \<Longrightarrow> map_of fitted' = (map_of fitted)(name \<mapsto> p)"
    and "\<not> (\<exists>p. fits ml seed train name p) \<Longrightarrow> fitted' = fitted"
    and "k \<noteq> name \<Longrightarrow> map_of fitted' k = map_of fitted k"
  using t unfolding assms(1)
  by (auto simp: try_model_def held_out_def fits_def evaluate_scores Let_def update_conv'
      dest: evaluate_fails split: sum.splits option.splits)

lemma try_model_alone: "fst (try_model ml task seed cols train test name fitted) = fst (try_model ml task seed cols train test name [])"
  by (simp add: try_model_def Let_def split: sum.split)

lemma train_models_trained:
  fixes ml train
  defines "cols \<equiv> (filter (tl_number ml) (frame_columns train), filter (tl_categorical ml) (frame_columns train))"
  assumes "train_models ml task seed train test names before = (Inr evs, fitted)"
  shows "evs = List.map_filter (\<lambda>n. fst (try_model ml task seed cols train test n [])) names"
    and "n \<in> set names \<Longrightarrow> fits ml seed train n p \<Longrightarrow> map_of fitted n = Some p"
    and "n \<notin> set names \<or> \<not> (\<exists>p. fits ml seed train n p) \<Longrightarrow> map_of fitted n = map_of before n"
proof -
  have "evs = List.map_filter (\<lambda>n. fst (try_model ml task seed cols train test n [])) names
    \<and> (n \<in> set names \<longrightarrow> fits ml seed train n p \<longrightarrow> map_of fitted n = Some p)
    \<and> (n \<notin> set names \<or> \<not> (\<exists>p. fits ml seed train n p) \<longrightarrow> map_of fitted n = map_of before n)" for n p
    using assms(2)
  proof (induction names arbitrary: before evs)
    case (Cons name names)
    have c: "build_preprocessor ml train = Inr cols"
      using Cons.prems by (auto simp: build_preprocessor_def cols_def Let_def split: sum.splits if_splits)
    obtain ev fitted1 where tried: "try_model ml task seed cols train test name before = (ev, fitted1)" by fastforce
    obtain evs1 where rest: "train_models ml task seed train test names fitted1 = (Inr evs1, fitted)"
      and evs: "evs = (case ev of None \<Rightarrow> [] | Some x \<Rightarrow> [x]) @ evs1"
      using Cons.prems c tried by (auto split: sum.splits prod.splits)
    have ev: "fst (try_model ml task seed cols train test name []) = ev"
      using tried try_model_alone [of ml task seed cols train test name before] by simp
    note t = try_model_held_out(2-4) [OF cols_def [THEN meta_eq_to_obj_eq] tried]
    have "evs = List.map_filter (\<lambda>n. fst (try_model ml task seed cols train test n [])) (name # names)"
      using Cons.IH [OF rest] evs ev by (cases ev) (simp_all add: List.map_filter_simps)
    moreover have "map_of fitted n = Some p" if "n \<in> set (name # names)" "fits ml seed train n p"
      using that Cons.IH [OF rest] t(1) [of p] by (cases "n \<in> set names") auto
    moreover have "map_of fitted n = map_of before n"
      if "n \<notin> set (name # names) \<or> \<not> (\<exists>p. fits ml seed train n p)"
      using that Cons.IH [OF rest] t(2) t(3) [of n] by (cases "n = name") auto
    ultimately show ?case by blast
  qed simp
  then show "evs = List.map_filter (\<lambda>n. fst (try_model ml task seed cols train test n [])) names"
    and "n \<in> set names \<Longrightarrow> fits ml seed train n p \<Longrightarrow> map_of fitted n = Some p"
    and "n \<notin> set names \<or> \<not> (\<exists>p. fits ml seed train n p) \<Longrightarrow> map_of fitted n = map_of before n"
    by blast+
qed

lemma train_models_trained_on:
  assumes "train_models ml task seed train test names before = (Inr evs, fitted)"
  shows "trained_on ml task seed train test names before evs fitted"
  unfolding trained_on_def fitted_pipeline_def
  using train_models_trained [OF assms] try_model_held_out(1) [OF refl prod.collapse [symmetric]] by blast

lemma train_on_split_trained:
  assumes "train_on_split ml task seed train test candidates before = (Inr r, fitted)"
  shows "trained_on ml task seed train test candidates before (tr_evaluations r) fitted"
proof (cases "candidates = []")
  case True
  with assms show ?thesis
    by (auto simp: train_on_split_def trained_on_def no_training_def List.map_filter_simps split: if_splits)
next
  case False
  obtain rs where run: "train_models ml task seed train test candidates before = (rs, fitted)"
    and r: "(case rs of Inl e \<Rightarrow> Inl e | Inr evs \<Rightarrow> Inr (case py_max me_primary evs of None \<Rightarrow> no_training
        | Some best \<Rightarrow> \<lparr>tr_evaluations = evs, tr_best_name = Some (me_model_name best),
            tr_best_score = Some (me_primary best)\<rparr>)) = Inr r"
    using assms False by (auto simp: train_on_split_def Let_def split: if_splits prod.splits)
  obtain evs where evs: "rs = Inr evs" using r by (cases rs) auto
  have "tr_evaluations r = evs"
    using r evs by (cases "py_max me_primary evs") (auto simp: no_training_def)
  then show ?thesis using train_models_trained_on [OF run [unfolded evs]] by simp
qed

text \<open>The rows of the parts, as a model may see them\<close>

lemma part_rows:
  assumes "set part \<subseteq> {..<length (known_rows lib vals)}"
  shows "remove_identifiers (pick_rows part (features_and_target lib df target vals))
    = model_rows df target vals (map ((!) (known_rows lib vals)) part)"
proof -
  have nth: "map ((!) (map ((!) vs) (known_rows lib vals))) part = map ((!) vs) (map ((!) (known_rows lib vals)) part)" for vs
    using assms by auto
  have cols: "filter (\<lambda>(c, vs). \<not> model_identifier c) (map (\<lambda>(c, vs). (c, map ((!) vs) part))
      (filter (\<lambda>(c, vs). c \<noteq> target) (map (\<lambda>(c, vs). (c, map ((!) vs) (known_rows lib vals))) xs)))
    = [(c, map ((!) vs) (map ((!) (known_rows lib vals)) part)). (c, vs) \<leftarrow> xs, c \<noteq> target \<and> \<not> model_identifier c]" for xs
    by (induction xs) (auto simp: nth)
  show ?thesis
    unfolding remove_identifiers_def keep_columns_def pick_rows_def features_and_target_def model_rows_def
      known_rows_def [symmetric] Let_def
    by (simp add: cols [simplified] nth [simplified])
qed

lemma features_rows: "ds_rows (features_and_target lib df target vals) = length (known_rows lib vals)"
  by (simp add: features_and_target_def keep_columns_def pick_rows_def known_rows_def Let_def)

lemma parts_of_rows:
  assumes "parts (length rows) s" "distinct rows"
  shows "distinct (map ((!) rows) (fst s) @ map ((!) rows) (snd s))"
    and "set (map ((!) rows) (fst s) @ map ((!) rows) (snd s)) = set rows"
proof -
  have p: "distinct (fst s @ snd s)" "set (fst s @ snd s) = {..<length rows}"
    using assms(1) by (simp_all add: parts_def)
  have "inj_on ((!) rows) {..<length rows}" by (rule inj_on_nth) (use assms(2) in auto)
  then have "distinct (map ((!) rows) (fst s @ snd s))"
    using p by (simp only: distinct_map)
  then show "distinct (map ((!) rows) (fst s) @ map ((!) rows) (snd s))" by (simp only: map_append)
  have "set (map ((!) rows) (fst s @ snd s)) = set rows"
    unfolding list.set_map p(2) by (auto simp: set_conv_nth)
  then show "set (map ((!) rows) (fst s) @ map ((!) rows) (snd s)) = set rows" by (simp only: map_append)
qed

lemma known_rows_distinct: "distinct (known_rows lib vals)"
  by (simp add: known_rows_def)

lemma split_is_honest:
  assumes target: "map_of (ds_columns df) target = Some vals"
    and p: "parts (ds_rows (features_and_target lib df target vals)) s"
    and ok: "strategy_ok lib q (features_and_target lib df target vals) s"
    and run: "train_on_split ml task (sr_random_state q) (remove_identifiers (pick_rows (fst s) (features_and_target lib df target vals)))
       (remove_identifiers (pick_rows (snd s) (features_and_target lib df target vals))) candidates before = (Inr r, fitted)"
  shows "honest_training lib ml df target task candidates q before (r, fitted)"
proof -
  let ?rows = "known_rows lib vals"
  have q: "parts (length ?rows) s" using p by (simp add: features_rows)
  have f: "set (fst s) \<subseteq> {..<length ?rows}" "set (snd s) \<subseteq> {..<length ?rows}"
    and ne: "fst s \<noteq> []" "snd s \<noteq> []"
    using q by (auto simp: parts_def)
  note train = part_rows [OF f(1), of df target] and test = part_rows [OF f(2), of df target]
  have cols: "model_columns target (model_rows df target vals (map ((!) ?rows) (fst s)))"
    "model_columns target (model_rows df target vals (map ((!) ?rows) (snd s)))"
    unfolding train [symmetric] test [symmetric] by (rule trained_columns)+
  have t: "trained_on ml task (sr_random_state q) (model_rows df target vals (map ((!) ?rows) (fst s)))
      (model_rows df target vals (map ((!) ?rows) (snd s))) candidates before (tr_evaluations r) fitted"
    using train_on_split_trained [OF run] unfolding train test .
  show ?thesis
    unfolding honest_training_def Let_def fst_conv snd_conv
    by (intro exI [of _ vals] exI [of _ s] conjI target parts_of_rows [OF q known_rows_distinct] ok cols t)
      (simp_all add: ne)
qed

lemma train_and_evaluate_honest:
  assumes "lib_laws lib"
  shows "case train_and_evaluate lib ml df target task candidates q fitted of
      (Inl _, _) \<Rightarrow> True
    | (Inr r, fitted') \<Rightarrow>
        faithful_result candidates fitted' r
        \<and> honest_training lib ml df target task candidates q fitted (r, fitted')"
proof -
  obtain res fitted' where run: "train_and_evaluate lib ml df target task candidates q fitted = (res, fitted')" by fastforce
  show ?thesis
  proof (cases res)
    case (Inl e)
    with run show ?thesis by simp
  next
    case (Inr r)
    obtain vals s where s: "map_of (ds_columns df) target = Some vals"
        "create_split lib q (features_and_target lib df target vals) = Inr s"
        "train_on_split ml task (sr_random_state q) (remove_identifiers (pick_rows (fst s) (features_and_target lib df target vals)))
          (remove_identifiers (pick_rows (snd s) (features_and_target lib df target vals))) candidates fitted = (Inr r, fitted')"
      using run unfolding Inr by (rule train_and_evaluate_split)
    have "parts (ds_rows (features_and_target lib df target vals)) s
        \<and> strategy_ok lib q (features_and_target lib df target vals) s"
      using create_split_ok [OF assms, where X = "features_and_target lib df target vals" and q = q] s(2)
      by (simp add: features_columns_full features_y ok_split_def)
    then have "honest_training lib ml df target task candidates q fitted (r, fitted')"
      using split_is_honest [OF s(1) _ _ s(3)] by blast
    with train_on_split_faithful [OF s(3)] run Inr show ?thesis
      by simp
  qed
qed

text \<open>
  C25: A training result is honest. The rows that have a target are parted into two disjoint,
  non-empty parts, which share no group, no block of the grid and no later time where the strategy
  asks for that. The evaluations are exactly those of the candidates, in their order, that can be
  fitted on the rows of the first part with their targets and then scored: the metrics compare the
  predictions for the rows of the second part with the targets of these rows. No model sees the
  target column or an identifier. The pipeline kept of a candidate is the one fitted on the first
  part, and other pipelines stay. The best model is the first with the highest primary metric.
  Assumed are the documented laws of the shufflers, of \<open>argsort\<close>, \<open>qcut\<close> and \<open>permutation\<close>.
\<close>

theorem training_is_honest:
  assumes "lib_laws lib"
  shows "case train_and_evaluate lib ml df target task candidates q fitted of
      (Inl _, _) \<Rightarrow> True
    | (Inr r, fitted') \<Rightarrow>
        faithful_result candidates fitted' r
        \<and> honest_training lib ml df target task candidates q fitted (r, fitted')"
  using train_and_evaluate_honest [OF assms] .

definition demo_training_lib :: "unit training_lib" where
  "demo_training_lib = \<lparr>tl_number = (\<lambda>_. True), tl_categorical = (\<lambda>_. False), tl_fit = (\<lambda>_ _ _ _ _. Inr ()),
     tl_predict = (\<lambda>_ ds. Inr (ds_y ds)), tl_r2 = (\<lambda>_ _. Inr (1 / 2)), tl_mae = (\<lambda>_ _. Inr 0), tl_rmse = (\<lambda>_ _. Inr 0),
     tl_accuracy = (\<lambda>_ _. Inr 0), tl_f1 = (\<lambda>_ _. Inr 0)\<rparr>"

definition demo_frame :: dataset where
  "demo_frame = \<lparr>ds_rows = 4, ds_columns = [(''t'', map PInt [30, 10, 40, 20]), (''mine_id'', map PInt [1, 1, 2, 2]),
     (''grade'', map PInt [1, 2, 3, 4])], ds_y = []\<rparr>"

definition demo_result :: training_result where
  "demo_result = \<lparr>tr_evaluations = [\<lparr>me_model_name = ''linear_regression'', me_task = ''regression'', me_primary = 1 / 2,
     me_metrics = [(''r2'', 1 / 2), (''mae'', 0), (''rmse'', 0)]\<rparr>], tr_best_name = Some ''linear_regression'',
     tr_best_score = Some (1 / 2)\<rparr>"

lemma demo_training:
  "train_and_evaluate demo_lib demo_training_lib demo_frame ''grade'' ''regression'' [''linear_regression''] demo_split_request []
     = (Inr demo_result, [(''linear_regression'', ())])"
  by code_simp

theorem training_is_honest_witness:
  "faithful_result [''linear_regression''] [(''linear_regression'', ())] demo_result
   \<and> honest_training demo_lib demo_training_lib demo_frame ''grade'' ''regression'' [''linear_regression''] demo_split_request []
       (demo_result, [(''linear_regression'', ())])"
  using training_is_honest [OF demo_lib_laws, where ml = demo_training_lib and df = demo_frame and target = "''grade''"
      and task = "''regression''" and candidates = "[''linear_regression'']" and q = demo_split_request and fitted = "[]"]
  by (simp add: demo_training)

end
