(* ===== verification/Inference.thy ===== *)
theory Inference
  imports Trainer Integrity
begin

text \<open>
  Model artifacts and inference (\<open>core/inference/engine.py\<close>). joblib and the constructor of a frame
  are parameters, with prediction from the library of the trainer; an artifact file is its bytes in
  the file system of the integrity checks.
\<close>

subsection \<open>Artifacts\<close>

record 'p model_artifact =
  ma_model_name :: string
  ma_task_type :: string
  ma_execution_id :: string
  ma_pipeline :: "'p option"
  ma_feature_columns :: "string list"
  ma_target_column :: string
  ma_metrics :: "(string \<times> rat) list"
  ma_validation_strategy :: string
  ma_fingerprint :: string
  ma_checkpoint_id :: "string option"
  ma_trained_at :: int
  ma_metadata :: dict
  ma_integrity_status :: string

definition integrity_verified :: "'p model_artifact \<Rightarrow> bool" where
  "integrity_verified a \<longleftrightarrow> ma_integrity_status a = integrity_status_value I_PASSED"

text \<open>
  What joblib dumps an artifact to, why a path cannot be written, and what the bytes load as: an
  artifact, or an object of another type, unless loading raises.
\<close>

record 'p job_lib =
  jl_dump :: "'p model_artifact \<Rightarrow> string result"
  jl_write_error :: "string \<Rightarrow> exn option"
  jl_load :: "string \<Rightarrow> ('p model_artifact + string) result"

text \<open>A dump that raises is taken to leave the file as it was; a manifest that cannot be written is ignored.\<close>

definition save_artifact ::
  "runtime \<Rightarrow> 'p job_lib \<Rightarrow> string \<Rightarrow> 'p model_artifact \<Rightarrow> fs \<times> env \<Rightarrow> string result \<times> fs \<times> env" where
  "save_artifact rt jl path a fe =
     (let (f, e) = fe in
      case jl_write_error jl path of
        Some x \<Rightarrow> (Inl x, f, e)
      | None \<Rightarrow>
          (case jl_dump jl a of
             Inl x \<Rightarrow> (Inl x, f, e)
           | Inr bytes \<Rightarrow>
               (let (_, f', e') = create_manifest rt path (ma_execution_id a) (ma_fingerprint a) (ma_checkpoint_id a) (ma_model_name a)
                      (f\<lparr>fs_files := (fs_files f)(path \<mapsto> bytes)\<rparr>, e)
                in (Inr path, f', e'))))"

text \<open>\<open>joblib.load\<close> comes first, the check of the bytes second.\<close>

definition read_artifact :: "'p job_lib \<Rightarrow> string \<Rightarrow> fs \<Rightarrow> 'p model_artifact result" where
  "read_artifact jl path f =
     (case fs_files f path of
        None \<Rightarrow> Inl (Exn ''FileNotFoundError'' (''[Errno 2] No such file or directory: '' @ sq path))
      | Some bytes \<Rightarrow>
          (case fs_read_error f path of
             Some e \<Rightarrow> Inl e
           | None \<Rightarrow>
               (case jl_load jl bytes of
                  Inl e \<Rightarrow> Inl e
                | Inr (Inr other) \<Rightarrow> Inl (Exn ''TypeError'' (''Loaded object is '' @ other @ '', expected ModelArtifact.''))
                | Inr (Inl a) \<Rightarrow> Inr a)))"

definition load_artifact ::
  "runtime \<Rightarrow> 'p job_lib \<Rightarrow> string \<Rightarrow> bool \<Rightarrow> bool \<Rightarrow> int \<Rightarrow> fs \<Rightarrow> 'p model_artifact result" where
  "load_artifact rt jl path verify_integrity strict now f =
     (case read_artifact jl path f of
        Inl e \<Rightarrow> Inl e
      | Inr a \<Rightarrow>
          if verify_integrity
          then (case verify rt now f path False of
                  Inl e \<Rightarrow> Inl e
                | Inr r \<Rightarrow>
                    if strict \<and> \<not> ir_valid r \<and> ir_status r = I_FAILED then Inl (Exn ''ChecksumMismatchError'' (ir_reason r))
                    else Inr (a\<lparr>ma_integrity_status := integrity_status_value (ir_status r)\<rparr>))
          else Inr (a\<lparr>ma_integrity_status := ''unverified''\<rparr>))"

subsection \<open>Requests and results\<close>

text \<open>The data of a request: a frame, a dictionary or list that pandas converts, or anything else by its type.\<close>

datatype inference_data = Frame dataset | Convertible pyval | Other string

record inference_request =
  iq_request_id :: string
  iq_execution_id :: string
  iq_data :: inference_data

record inference_result =
  in_request_id :: string
  in_execution_id :: string
  in_model_name :: string
  in_task_type :: string
  in_predictions :: "pyval list"
  in_prediction_count :: nat
  in_input_rows :: nat
  in_schema_validated :: bool
  in_output_validated :: bool
  in_success :: bool
  in_message :: string
  in_metadata :: dict
  in_completed_at :: int

definition inference_to_dict :: "runtime \<Rightarrow> inference_result \<Rightarrow> dict" where
  "inference_to_dict rt r =
     [(''request_id'', PStr (in_request_id r)), (''execution_id'', PStr (in_execution_id r)),
      (''model_name'', PStr (in_model_name r)), (''task_type'', PStr (in_task_type r)),
      (''prediction_count'', PInt (int (in_prediction_count r))), (''input_rows'', PInt (int (in_input_rows r))),
      (''schema_validated'', PBool (in_schema_validated r)), (''output_validated'', PBool (in_output_validated r)),
      (''success'', PBool (in_success r)), (''message'', PStr (in_message r)), (''predictions'', PList (in_predictions r)),
      (''completed_at'', PStr (rt_iso rt (in_completed_at r)))]"

definition to_dataframe :: "(pyval \<Rightarrow> dataset result) \<Rightarrow> inference_data \<Rightarrow> dataset result" where
  "to_dataframe convert d =
     (case d of
        Frame df \<Rightarrow> Inr df
      | Convertible v \<Rightarrow> convert v
      | Other t \<Rightarrow> Inl (Exn ''TypeError''
          (''Cannot convert '' @ t @ '' to DataFrame. Provide a DataFrame, dict, list, or ndarray.'')))"

text \<open>
  \<open>np.isnan\<close> raises on an array that is not of numbers, and the \<open>except\<close> answers \<open>False\<close>; no number of
  the model is NaN.
\<close>

fun is_number :: "pyval \<Rightarrow> bool" where
  "is_number (PInt _) = True"
| "is_number (PFloat _) = True"
| "is_number (PBool _) = True"
| "is_number _ = False"

definition validate_output :: "pyval list \<Rightarrow> nat \<Rightarrow> bool" where
  "validate_output preds n \<longleftrightarrow> length preds = n \<and> list_all is_number preds"

text \<open>\<open>df[artifact.feature_columns]\<close> when no column is missing\<close>

definition select_columns :: "string list \<Rightarrow> dataset \<Rightarrow> dataset" where
  "select_columns cs df = df\<lparr>ds_columns := map (\<lambda>c. (c, the (map_of (ds_columns df) c))) cs\<rparr>"

definition run_pipeline :: "'p training_lib \<Rightarrow> 'p option \<Rightarrow> dataset \<Rightarrow> pyval list result" where
  "run_pipeline ml p X =
     (case p of
        None \<Rightarrow> Inl (Exn ''AttributeError'' (sq ''NoneType'' @ '' object has no attribute '' @ sq ''predict''))
      | Some q \<Rightarrow> tl_predict ml q X)"

definition result_of ::
  "inference_request \<Rightarrow> 'p model_artifact \<Rightarrow> pyval list \<Rightarrow> nat \<Rightarrow> bool \<Rightarrow> bool \<Rightarrow> string \<Rightarrow> dict \<Rightarrow> int \<Rightarrow> inference_result" where
  "result_of q a preds rows schema output message metadata now =
     \<lparr>in_request_id = iq_request_id q, in_execution_id = ma_execution_id a, in_model_name = ma_model_name a,
      in_task_type = ma_task_type a, in_predictions = preds, in_prediction_count = length preds, in_input_rows = rows,
      in_schema_validated = schema, in_output_validated = output, in_success = output, in_message = message,
      in_metadata = metadata, in_completed_at = now\<rparr>"

definition predict ::
  "runtime \<Rightarrow> 'p training_lib \<Rightarrow> (pyval \<Rightarrow> dataset result) \<Rightarrow> 'p model_artifact \<Rightarrow> inference_request \<Rightarrow> int
     \<Rightarrow> inference_result result" where
  "predict rt ml convert a q now =
     (case to_dataframe convert (iq_data q) of
        Inl e \<Rightarrow> Inl e
      | Inr df \<Rightarrow>
          (let rows = ds_rows df; missing = filter (\<lambda>c. c \<notin> set (frame_columns df)) (ma_feature_columns a)
           in Inr (if missing \<noteq> []
              then result_of q a [] rows False False
                (''Input schema validation failed. Missing columns: '' @ rt_str rt (PList (map PStr missing))) [] now
              else
                (case run_pipeline ml (ma_pipeline a) (select_columns (ma_feature_columns a) df) of
                   Inl e \<Rightarrow> result_of q a [] rows True False (''Prediction failed: '' @ exn_type e @ '': '' @ exn_str e) [] now
                 | Inr preds \<Rightarrow>
                     (let ok = validate_output preds rows
                      in result_of q a preds rows True ok
                        (if ok then ''Inference completed successfully.'' else ''Output validation failed: NaN or count mismatch.'')
                        [(''dataset_fingerprint'', PStr (ma_fingerprint a)), (''checkpoint_id'', opt_str (ma_checkpoint_id a))] now)))))"

subsection \<open>What a result says\<close>

definition schema_matches :: "string list \<Rightarrow> dataset \<Rightarrow> bool" where
  "schema_matches features df \<longleftrightarrow> set features \<subseteq> set (frame_columns df)"

text \<open>A prediction that succeeded on a frame\<close>

definition predicted ::
  "'p training_lib \<Rightarrow> 'p model_artifact \<Rightarrow> dataset \<Rightarrow> pyval list \<Rightarrow> bool" where
  "predicted ml a df preds \<longleftrightarrow>
     schema_matches (ma_feature_columns a) df
     \<and> run_pipeline ml (ma_pipeline a) (select_columns (ma_feature_columns a) df) = Inr preds
     \<and> length preds = ds_rows df \<and> list_all is_number preds"

lemma missing_Nil: "filter (\<lambda>c. c \<notin> set (frame_columns df)) fs = [] \<longleftrightarrow> schema_matches fs df"
  by (auto simp: schema_matches_def filter_empty_conv)

lemma result_of_simps [simp]:
  "in_success (result_of q a ps n sc ok m md t) = ok" "in_output_validated (result_of q a ps n sc ok m md t) = ok"
  "in_schema_validated (result_of q a ps n sc ok m md t) = sc" "in_predictions (result_of q a ps n sc ok m md t) = ps"
  "in_prediction_count (result_of q a ps n sc ok m md t) = length ps" "in_input_rows (result_of q a ps n sc ok m md t) = n"
  "in_execution_id (result_of q a ps n sc ok m md t) = ma_execution_id a"
  "in_request_id (result_of q a ps n sc ok m md t) = iq_request_id q"
  by (simp_all add: result_of_def)

lemma predict_result:
  "case predict rt ml convert a q now of
     Inl e \<Rightarrow> to_dataframe convert (iq_data q) = Inl e
   | Inr r \<Rightarrow>
       (case to_dataframe convert (iq_data q) of
          Inl e \<Rightarrow> False
        | Inr df \<Rightarrow>
            in_request_id r = iq_request_id q \<and> in_execution_id r = ma_execution_id a \<and> in_input_rows r = ds_rows df
            \<and> in_schema_validated r = schema_matches (ma_feature_columns a) df
            \<and> in_success r = predicted ml a df (in_predictions r) \<and> in_output_validated r = in_success r
            \<and> in_prediction_count r = length (in_predictions r))"
proof (cases "to_dataframe convert (iq_data q)")
  case (Inl e)
  then show ?thesis by (simp add: predict_def)
next
  case (Inr df)
  show ?thesis
  proof (cases "schema_matches (ma_feature_columns a) df")
    case False
    then show ?thesis using Inr by (simp add: predict_def Let_def missing_Nil predicted_def)
  next
    case True
    then show ?thesis
      using Inr by (cases "run_pipeline ml (ma_pipeline a) (select_columns (ma_feature_columns a) df)")
        (auto simp: predict_def Let_def missing_Nil predicted_def validate_output_def)
  qed
qed

lemma text_labels_fail:
  assumes "predict rt ml convert a q now = Inr r" and "PStr s \<in> set (in_predictions r)"
  shows "\<not> in_success r"
proof
  assume "in_success r"
  then obtain df where "predicted ml a df (in_predictions r)"
    using predict_result [where rt = rt and ml = ml and convert = convert and a = a and q = q and now = now] assms(1)
    by (auto split: sum.splits)
  with assms(2) show False by (auto simp: predicted_def list_all_iff)
qed

text \<open>
  C26: Inference answers for every frame; only data that cannot be made into a frame raises. The
  result tells whether every feature of the artifact is there, and it is a success exactly when
  they are, the fitted pipeline itself predicts on just these columns in the order of training, and
  it gives one number per row; the predictions are then these numbers. Text labels are never a
  success.
\<close>

theorem inference_is_faithful:
  "case predict rt ml convert a q now of
     Inl e \<Rightarrow> to_dataframe convert (iq_data q) = Inl e
   | Inr r \<Rightarrow>
       (case to_dataframe convert (iq_data q) of
          Inl e \<Rightarrow> False
        | Inr df \<Rightarrow>
            in_request_id r = iq_request_id q \<and> in_execution_id r = ma_execution_id a \<and> in_input_rows r = ds_rows df
            \<and> in_schema_validated r = schema_matches (ma_feature_columns a) df
            \<and> in_success r = predicted ml a df (in_predictions r) \<and> in_output_validated r = in_success r
            \<and> in_prediction_count r = length (in_predictions r))"
  by (rule predict_result)

subsection \<open>Saving and loading\<close>

text \<open>What loading must answer when the file of an artifact holds \<open>bytes\<close>\<close>

definition loaded_as ::
  "runtime \<Rightarrow> 'p job_lib \<Rightarrow> bool \<Rightarrow> string \<Rightarrow> string \<Rightarrow> 'p model_artifact result \<Rightarrow> bool" where
  "loaded_as rt jl strict saved bytes answer \<longleftrightarrow>
     (case jl_load jl bytes of
        Inl e \<Rightarrow> answer = Inl e
      | Inr (Inr other) \<Rightarrow> (\<exists>m. answer = Inl (Exn ''TypeError'' m))
      | Inr (Inl a) \<Rightarrow>
          if rt_sha256 rt bytes = rt_sha256 rt saved then answer = Inr (a\<lparr>ma_integrity_status := ''passed''\<rparr>)
          else if strict then (\<exists>m. answer = Inl (Exn ''ChecksumMismatchError'' m))
          else answer = Inr (a\<lparr>ma_integrity_status := ''failed''\<rparr>))"

lemma save_artifact_D:
  assumes "save_artifact rt jl p a (f, e) = (Inr p', f1, e1)"
  shows "\<exists>b m. jl_dump jl a = Inr b
    \<and> create_manifest rt p (ma_execution_id a) (ma_fingerprint a) (ma_checkpoint_id a) (ma_model_name a)
        (f\<lparr>fs_files := (fs_files f)(p \<mapsto> b)\<rparr>, e) = (m, f1, e1)"
  using assms by (auto simp: save_artifact_def Let_def split: option.splits sum.splits prod.splits)

text \<open>
  A saved artifact comes back. When its manifest could be written, loading the file gives the
  same artifact, marked as passed; when the file was overwritten with other bytes that joblib still
  loads, the artifact is marked as failed, and a strict load raises ChecksumMismatchError. Assumed
  are that the file can be read and that the JSON of this one manifest reads back to its keys and
  values.
\<close>

theorem artifact_roundtrip:
  assumes "save_artifact rt jl p a (f, e) = (Inr p', f1, e1)" and "jl_dump jl a = Inr b"
    and "create_manifest rt p (ma_execution_id a) (ma_fingerprint a) (ma_checkpoint_id a) (ma_model_name a)
        (f\<lparr>fs_files := (fs_files f)(p \<mapsto> b)\<rparr>, e) = (Inr m, f1, e1)"
    and "rt_dump_pretty rt (PDict (manifest_to_dict m)) = Inr t"
    and "rt_loads rt t = Inr (PDict d)" and "map_of d = map_of (manifest_to_dict m)"
    and "fs_read_error f p = None" and "fs_read_error f (manifest_path p) = None"
    and "jl_load jl b = Inr (Inl a)"
  shows "load_artifact rt jl p True strict now f1 = Inr (a\<lparr>ma_integrity_status := ''passed''\<rparr>)
    \<and> loaded_as rt jl strict b bytes (load_artifact rt jl p True strict now (f1\<lparr>fs_files := (fs_files f1)(p \<mapsto> bytes)\<rparr>))"
proof -
  let ?f = "f\<lparr>fs_files := (fs_files f)(p \<mapsto> b)\<rparr>"
  obtain t' where f1: "f1 = ?f\<lparr>fs_files := (fs_files ?f)(manifest_path p \<mapsto> t')\<rparr>" "im_checksum m = PStr (rt_sha256 rt b)"
    using create_manifest_ok [OF assms(3)] by auto
  have fields: "fs_read_error f1 p = None" using f1 assms(7) by simp
  have loaded: "loaded_as rt jl strict b c (load_artifact rt jl p True strict now (f1\<lparr>fs_files := (fs_files f1)(p \<mapsto> c)\<rparr>))" for c
  proof -
    have "fs_read_error ?f p = None" "fs_read_error ?f (manifest_path p) = None" using assms(7,8) by simp_all
    from verify_after_manifest [OF assms(3,4,5,6) this, where b = c and now = now] f1(2) fields show ?thesis
      by (auto simp: loaded_as_def load_artifact_def read_artifact_def split: sum.splits)
  qed
  have "f1\<lparr>fs_files := (fs_files f1)(p \<mapsto> b)\<rparr> = f1"
    using f1(1) by (simp add: fun_upd_twist)
  with loaded [of b] assms(9) have "load_artifact rt jl p True strict now f1 = Inr (a\<lparr>ma_integrity_status := ''passed''\<rparr>)"
    by (simp add: loaded_as_def)
  with loaded show ?thesis by blast
qed

definition demo_artifact :: "unit model_artifact" where
  "demo_artifact = \<lparr>ma_model_name = ''m'', ma_task_type = ''regression'', ma_execution_id = ''e'', ma_pipeline = Some (),
     ma_feature_columns = [''t''], ma_target_column = ''grade'', ma_metrics = [], ma_validation_strategy = ''random_holdout'',
     ma_fingerprint = [], ma_checkpoint_id = None, ma_trained_at = 0, ma_metadata = [], ma_integrity_status = ''unverified''\<rparr>"

definition demo_jobs :: "unit job_lib" where
  "demo_jobs = \<lparr>jl_dump = (\<lambda>_. Inr ''x''), jl_write_error = (\<lambda>_. None), jl_load = (\<lambda>_. Inr (Inl demo_artifact))\<rparr>"

theorem artifact_roundtrip_witness:
  "\<exists>f. load_artifact demo_json_rt demo_jobs ''a'' True True 0 f = Inr (demo_artifact\<lparr>ma_integrity_status := ''passed''\<rparr>)
     \<and> (\<exists>msg. load_artifact demo_json_rt demo_jobs ''a'' True True 0 (f\<lparr>fs_files := (fs_files f)(''a'' \<mapsto> ''y'')\<rparr>)
          = Inl (Exn ''ChecksumMismatchError'' msg))"
proof -
  let ?f1 = "demo_fs\<lparr>fs_files := (fs_files demo_fs)(manifest_path ''a'' \<mapsto> ''j'')\<rparr>"
  have same: "demo_fs\<lparr>fs_files := (fs_files demo_fs)(''a'' \<mapsto> ''x'')\<rparr> = demo_fs"
    by (simp add: demo_fs_def)
  have mk: "create_manifest demo_json_rt ''a'' (ma_execution_id demo_artifact) (ma_fingerprint demo_artifact)
      (ma_checkpoint_id demo_artifact) (ma_model_name demo_artifact) (demo_fs, demo_env)
      = (Inr demo_manifest, ?f1, snd (utc_now demo_env))"
    by (simp add: create_manifest_def demo_fs_def demo_json_rt_def demo_rt_def demo_env_def demo_artifact_def
        demo_manifest_def write_json_atomic_def utc_now_def opt_str_def)
  have dump: "jl_dump demo_jobs demo_artifact = Inr ''x''" "jl_load demo_jobs ''x'' = Inr (Inl demo_artifact)"
    by (simp_all add: demo_jobs_def)
  have save: "save_artifact demo_json_rt demo_jobs ''a'' demo_artifact (demo_fs, demo_env) = (Inr ''a'', ?f1, snd (utc_now demo_env))"
    by (simp add: save_artifact_def demo_jobs_def same mk)
  have rt: "rt_dump_pretty demo_json_rt z = Inr ''j''" "rt_sha256 demo_json_rt y = ''h'' @ y"
    "rt_loads demo_json_rt u = Inr (PDict (manifest_to_dict demo_manifest))" for y z u
    by (simp_all add: demo_json_rt_def demo_rt_def)
  have fs: "fs_read_error demo_fs q = None" for q by (simp add: demo_fs_def)
  have load: "jl_load demo_jobs c = Inr (Inl demo_artifact)" for c by (simp add: demo_jobs_def)
  from artifact_roundtrip [OF save dump(1) _ rt(1) rt(3) refl fs fs dump(2), unfolded same, OF mk, where strict = True and now = 0
      and bytes = "''y''"]
  show ?thesis
    by (intro exI [of _ ?f1]) (simp add: loaded_as_def load rt(2))
qed

end
