(* ===== verification/FeatureRoles.thy ===== *)
theory FeatureRoles
  imports DatasetPlan "HOL-Library.Multiset"
begin

text \<open>
  The role of each column (\<open>core/feature_roles/detector.py\<close>) and how to prepare it for training
  (\<open>core/preprocessing/recommender.py\<close>), on the profile of the frame.
\<close>

subsection \<open>Roles\<close>

datatype feature_role =
    R_TARGET | R_IDENTIFIER | R_SPATIAL | R_TEMPORAL | R_NUMERIC | R_CATEGORICAL | R_BOOLEAN | R_TEXT | R_UNKNOWN

fun role_value :: "feature_role \<Rightarrow> string" where
  "role_value R_TARGET = ''target''"
| "role_value R_IDENTIFIER = ''identifier''"
| "role_value R_SPATIAL = ''spatial''"
| "role_value R_TEMPORAL = ''temporal''"
| "role_value R_NUMERIC = ''numeric''"
| "role_value R_CATEGORICAL = ''categorical''"
| "role_value R_BOOLEAN = ''boolean''"
| "role_value R_TEXT = ''text''"
| "role_value R_UNKNOWN = ''unknown''"

record role_info =
  ri_column :: string
  ri_role :: feature_role
  ri_confidence :: rat
  ri_reason :: string

definition TEMPORAL_HINTS :: "string list" where
  "TEMPORAL_HINTS = [''date'', ''time'', ''timestamp'', ''datetime'', ''year'', ''month'', ''day'', ''week'']"

definition ID_EXACT_NAMES :: "string list" where
  "ID_EXACT_NAMES = [''id'', ''uuid'', ''identifier'', ''key'', ''code'']"

definition id_suffixed :: "string \<Rightarrow> bool" where
  "id_suffixed name \<longleftrightarrow> list_ex (ends_with name) [''_id'', ''_uuid'', ''_key'', ''_code'']"

definition parses_as_dates :: "column_profile \<Rightarrow> bool" where
  "parses_as_dates c \<longleftrightarrow> textual c \<and> cl_count c \<ge> 2 \<and> cl_parsed c \<ge> 90 / 100"

text \<open>\<open>_looks_temporal\<close> of both classes: a name with a hint decides, else the values do.\<close>

definition looks_temporal :: "string list \<Rightarrow> column_profile \<Rightarrow> string \<Rightarrow> bool" where
  "looks_temporal hints c name =
     (if list_ex (\<lambda>hint. str_in hint name) hints then \<not> cl_numeric c else parses_as_dates c)"

definition string_role :: "column_profile \<Rightarrow> feature_role \<times> rat \<times> string" where
  "string_role c =
     (if cl_count c = 0 then (R_UNKNOWN, 40 / 100, ''empty column'')
      else if of_nat (cl_nunique c) / of_nat (cl_count c) \<le> (20 / 100 :: rat)
      then (R_CATEGORICAL, 85 / 100, ''low-cardinality string column'')
      else if cl_avg_length c \<ge> 80 then (R_TEXT, 90 / 100, ''long free-form text'')
      else (R_CATEGORICAL, 70 / 100, ''string column''))"

definition detect_column :: "string option \<Rightarrow> column_profile \<Rightarrow> feature_role \<times> rat \<times> string" where
  "detect_column target c =
     (let name = tidy_name (cl_name c)
      in if target = Some (cl_name c) then (R_TARGET, 1, ''explicitly supplied target'')
         else if name \<in> set LATITUDE_NAMES \<or> name \<in> set LONGITUDE_NAMES
         then (R_SPATIAL, 1, ''latitude/longitude semantic name'')
         else if name \<in> set ID_EXACT_NAMES \<or> id_suffixed name then (R_IDENTIFIER, 98 / 100, ''identifier semantic name'')
         else if cl_datetime c then (R_TEMPORAL, 1, ''datetime dtype'')
         else if looks_temporal TEMPORAL_HINTS c name
         then (R_TEMPORAL, 90 / 100, ''datetime-like values or temporal name'')
         else if cl_bool c then (R_BOOLEAN, 1, ''boolean dtype'')
         else if cl_numeric c then (R_NUMERIC, 1, ''numeric dtype'')
         else if cl_category c then (R_CATEGORICAL, 1, ''pandas categorical dtype'')
         else if textual c then string_role c
         else (R_UNKNOWN, 30 / 100, ''unsupported dtype: '' @ cl_dtype c))"

record role_report =
  rr_target :: "string option"
  rr_roles :: "role_info list"

definition detect_roles :: "frame_profile \<Rightarrow> string option \<Rightarrow> role_report" where
  "detect_roles df target =
     \<lparr>rr_target = target,
      rr_roles = map (\<lambda>c. let (role, confidence, reason) = detect_column target c
        in \<lparr>ri_column = cl_name c, ri_role = role, ri_confidence = confidence, ri_reason = reason\<rparr>) (fp_columns df)\<rparr>"

text \<open>The columns of a role, one tuple of the report per role\<close>

definition role_columns :: "role_report \<Rightarrow> feature_role \<Rightarrow> string list" where
  "role_columns r role = map ri_column (filter (\<lambda>i. ri_role i = role) (rr_roles r))"

definition roles_as_dict :: "role_report \<Rightarrow> dict" where
  "roles_as_dict r =
     (let names = (\<lambda>role. PList (map PStr (role_columns r role)))
      in [(''target'', opt_str (rr_target r)),
          (''roles'', PDict (fold (\<lambda>i d. AList.update (ri_column i) (PStr (role_value (ri_role i))) d) (rr_roles r) [])),
          (''role_details'', PList (map (\<lambda>i. PDict [(''column'', PStr (ri_column i)), (''role'', PStr (role_value (ri_role i))),
             (''confidence'', PFloat (ri_confidence i)), (''reason'', PStr (ri_reason i))]) (rr_roles r))),
          (''features'', PList (map (PStr \<circ> ri_column) (filter (\<lambda>i. ri_role i \<in> {R_NUMERIC, R_CATEGORICAL, R_BOOLEAN, R_TEXT,
             R_SPATIAL, R_TEMPORAL}) (rr_roles r)))),
          (''dropped_columns'', PList (map PStr (role_columns r R_IDENTIFIER @ role_columns r R_UNKNOWN))),
          (''target_columns'', names R_TARGET), (''identifier_columns'', names R_IDENTIFIER),
          (''spatial_columns'', names R_SPATIAL), (''temporal_columns'', names R_TEMPORAL),
          (''numeric_columns'', names R_NUMERIC), (''categorical_columns'', names R_CATEGORICAL),
          (''boolean_columns'', names R_BOOLEAN), (''text_columns'', names R_TEXT), (''unknown_columns'', names R_UNKNOWN)])"

subsection \<open>Preprocessing\<close>

record prep_recommendation =
  pp_column :: string
  pp_role :: feature_role
  pp_actions :: "string list"
  pp_reason :: string
  pp_confidence :: rat

definition PREP_SPATIAL_NAMES :: "string list" where
  "PREP_SPATIAL_NAMES = [''latitude'', ''lat'', ''latitude_deg'', ''lat_deg'', ''longitude'', ''lon'', ''lng'',
     ''longitude_deg'', ''lon_deg'']"

definition PREP_TEMPORAL_HINTS :: "string list" where
  "PREP_TEMPORAL_HINTS = [''date'', ''timestamp'', ''datetime'']"

definition DATE_PARTS :: "string list" where
  "DATE_PARTS = [''extract_year'', ''extract_month'', ''extract_day'', ''extract_day_of_week'']"

definition strongly_skewed :: "column_profile \<Rightarrow> bool" where
  "strongly_skewed c \<longleftrightarrow> cl_count c \<ge> 8 \<and> (case cl_skew c of None \<Rightarrow> False | Some s \<Rightarrow> \<bar>s\<bar> > 1)"

definition numeric_advice :: "frame_profile \<Rightarrow> column_profile \<Rightarrow> string list \<times> string list" where
  "numeric_advice df c =
     ([''median_imputation''] @ (if strongly_skewed c then [''consider_log_or_power_transform''] else [])
        @ [''scale_if_model_requires_it''],
      [if cl_count c < fp_rows df then ''missing values present'' else ''numeric feature'']
        @ (if strongly_skewed c then [''strong skew detected''] else []))"

definition category_advice :: "column_profile \<Rightarrow> string list \<times> string list \<times> rat" where
  "category_advice c =
     (if cl_count c = 0 then ([''constant_or_empty_review''], [''empty categorical feature''], 70 / 100)
      else if of_nat (cl_nunique c) / of_nat (cl_count c) \<ge> (95 / 100 :: rat) \<and> cl_nunique c > 20
      then ([''review_high_cardinality'', ''consider_frequency_or_target_encoding''], [''high-cardinality categorical''],
            90 / 100)
      else ([''most_frequent_imputation'', ''one_hot_or_ordinal_encoding''], [''categorical feature''], 90 / 100))"

definition column_advice :: "frame_profile \<Rightarrow> column_profile \<Rightarrow> feature_role \<times> string list \<times> string list \<times> rat" where
  "column_advice df c =
     (let name = py_lower (cl_name c)
      in if name \<in> set PREP_SPATIAL_NAMES then (R_SPATIAL, [''retain''], [''spatial coordinate''], 98 / 100)
         else if name \<in> set ID_EXACT_NAMES \<or> id_suffixed name
         then (R_IDENTIFIER, [''exclude_from_default_features''], [''identifier-like column''], 98 / 100)
         else if cl_bool c then (R_BOOLEAN, [''encode_binary''], [''boolean feature''], 1)
         else if cl_datetime c then (R_TEMPORAL, DATE_PARTS, [''datetime feature''], 1)
         else if looks_temporal PREP_TEMPORAL_HINTS c name
         then (R_TEMPORAL, ''parse_datetime'' # DATE_PARTS, [''datetime-like string''], 90 / 100)
         else if cl_numeric c
         then (let (actions, reasons) = numeric_advice df c in (R_NUMERIC, actions, reasons, 95 / 100))
         else if cl_category c \<or> textual c then (R_CATEGORICAL, category_advice c)
         else (R_UNKNOWN, [''manual_review''], [''unsupported dtype: '' @ cl_dtype c], 40 / 100))"

definition recommend_prep :: "frame_profile \<Rightarrow> string option \<Rightarrow> prep_recommendation list" where
  "recommend_prep df target =
     map (\<lambda>c. let (role, actions, reasons, confidence) = column_advice df c
       in \<lparr>pp_column = cl_name c, pp_role = role, pp_actions = actions, pp_reason = py_join ''; '' reasons,
           pp_confidence = confidence\<rparr>) (filter (\<lambda>c. Some (cl_name c) \<noteq> target) (fp_columns df))"

text \<open>The columns that the plan lists under a role; its \<open>drop_columns\<close> stay empty.\<close>

definition prep_columns :: "prep_recommendation list \<Rightarrow> feature_role \<Rightarrow> string list" where
  "prep_columns rs role = map pp_column (filter (\<lambda>r. pp_role r = role) rs)"

subsection \<open>Every column has one role\<close>

definition all_roles :: "feature_role list" where
  "all_roles = [R_TARGET, R_IDENTIFIER, R_SPATIAL, R_TEMPORAL, R_NUMERIC, R_CATEGORICAL, R_BOOLEAN, R_TEXT, R_UNKNOWN]"

lemma all_roles_mset: "mset (concat (map (\<lambda>r. if r = x then [c] else []) all_roles)) = {#c#}"
  by (cases x) (simp_all add: all_roles_def)

lemma mset_concat_append:
  "mset (concat (map (\<lambda>r. f r @ g r) rs)) = mset (concat (map f rs)) + mset (concat (map g rs))"
  by (induction rs) simp_all

lemma mset_split: "mset (filter P xs) + mset (filter (\<lambda>x. \<not> P x) xs) = mset xs"
  by (induction xs) simp_all

lemma by_role_mset:
  "mset (concat (map (\<lambda>r. map ri_column (filter (\<lambda>i. ri_role i = r) infos)) all_roles)) = mset (map ri_column infos)"
proof (induction infos)
  case (Cons i infos)
  have "mset (concat (map (\<lambda>r. map ri_column (filter (\<lambda>j. ri_role j = r) (i # infos))) all_roles)) =
      mset (concat (map (\<lambda>r. (if r = ri_role i then [ri_column i] else []) @ map ri_column (filter (\<lambda>j. ri_role j = r) infos)) all_roles))"
    by (rule arg_cong [where f = "\<lambda>f. mset (concat (map f all_roles))"]) auto
  also have "\<dots> = {#ri_column i#} + mset (map ri_column infos)"
    by (simp only: mset_concat_append all_roles_mset Cons.IH)
  finally show ?case by simp
qed (simp add: all_roles_def)

text \<open>
  The plan accounts for every column. The roles assign each column of the frame to exactly one
  of the nine lists; the preprocessing plan advises on each column but the target, and the leakage
  report puts each of those either into the safe or into the risky features, with one finding per
  risky one, in the order of the frame. The validation strategy is sound: the columns that it names
  are in the frame, a group has at least two values and fewer than there are rows, a time column is
  no identifier, stratification is by the target, and nothing else than a random split is chosen
  only when the target could not be stratified.
\<close>

theorem plan_accounts_for_columns:
  "mset (concat (map (role_columns (detect_roles df target)) all_roles)) = mset (column_names df)
   \<and> map pp_column (recommend_prep df target) = filter (\<lambda>c. Some c \<noteq> target) (column_names df)
   \<and> lr_risky (analyze_leakage h df target) = map lf_column (lr_findings (analyze_leakage h df target))
   \<and> mset (lr_safe (analyze_leakage h df target) @ lr_risky (analyze_leakage h df target))
       = mset (filter (\<lambda>c. Some c \<noteq> target) (column_names df))
   \<and> strategy_sound df target (select_strategy h df target)"
proof (intro conjI)
  have names: "map ri_column (rr_roles (detect_roles df target)) = column_names df"
    by (simp add: detect_roles_def column_names_def split_beta comp_def)
  show "mset (concat (map (role_columns (detect_roles df target)) all_roles)) = mset (column_names df)"
    using by_role_mset [of "rr_roles (detect_roles df target)"] by (simp add: names role_columns_def [abs_def])
  show "map pp_column (recommend_prep df target) = filter (\<lambda>c. Some c \<noteq> target) (column_names df)"
    by (simp add: recommend_prep_def column_names_def split_beta comp_def filter_map)
  show "mset (lr_safe (analyze_leakage h df target) @ lr_risky (analyze_leakage h df target))
      = mset (filter (\<lambda>c. Some c \<noteq> target) (column_names df))"
    unfolding analyze_leakage_def Let_def leakage_report.simps mset_append
    by (subst mset_split [symmetric, where P = "\<lambda>c. column_risk h target c = None"]) (rule refl)
qed (rule analyze_leakage_columns(1) select_strategy_sound)+

text \<open>\<open>long\<close> is a longitude for the detector and an ordinary number for the recommender.\<close>

definition demo_long :: frame_profile where
  "demo_long = \<lparr>fp_rows = 9, fp_columns = [\<lparr>cl_name = ''long'', cl_bool = False, cl_numeric = True, cl_integer = False,
     cl_datetime = False, cl_object = False, cl_string = False, cl_category = False, cl_dtype = ''float64'', cl_nunique = 9,
     cl_count = 9, cl_parsed = 0, cl_avg_length = 0, cl_skew = None\<rparr>]\<rparr>"

lemma roles_disagree_on_long:
  "role_columns (detect_roles demo_long None) R_SPATIAL = [''long'']
   \<and> prep_columns (recommend_prep demo_long None) R_SPATIAL = [] \<and> prep_columns (recommend_prep demo_long None) R_NUMERIC = [''long'']"
  by code_simp

end
