(* ===== verification/PlatformRun.thy ===== *)
theory PlatformRun
  imports PlatformHealing Monitor Characterizer Inference FeatureRoles
begin

text \<open>
  \<open>CrucibleOrchestrator.run\<close> (\<open>core/platform/orchestrator.py\<close>): the stages from characterization to the
  artifact, with their checkpoints, the fallback to a random split, monitoring, persistence and the
  exits, and \<open>predict\<close>. What pandas, scikit-learn, joblib and MD5 answer is the record \<open>platform_lib\<close>;
  a frame is a data set that pandas describes column by column. The self-healing fields of the result
  stay \<open>None\<close> in a run and are left out.
\<close>

subsection \<open>Libraries, requests and state\<close>

record 'p platform_lib =
  pb_runtime :: runtime
  pb_split :: split_lib
  pb_training :: "'p training_lib"
  pb_hash :: hash
  pb_jobs :: "'p job_lib"
  pb_column :: "dataset \<Rightarrow> string \<Rightarrow> described_column"
  pb_duplicates :: "dataset \<Rightarrow> nat"
  pb_sample :: "dataset \<Rightarrow> string option"
  pb_md5 :: "string \<Rightarrow> string"
  pb_artifact_root :: string

text \<open>\<open>rq_frame\<close> is \<open>None\<close> when the argument is no frame.\<close>

record run_request =
  rq_execution_id :: "string option"
  rq_frame :: "dataset option"
  rq_dataset_path :: string
  rq_target :: "string option"
  rq_task_type :: "string option"
  rq_max_candidates :: "int option"
  rq_save :: bool

record 'p platform =
  pf_repo :: repository
  pf_env :: env
  pf_manager :: manager
  pf_monitor :: monitor
  pf_fitted :: "'p fitted"
  pf_fs :: fs

record 'p run_stages =
  sg_characterization :: "characterization option"
  sg_task :: "task_result option"
  sg_roles :: "role_report option"
  sg_leakage :: "leakage_report option"
  sg_prep :: "prep_recommendation list option"
  sg_strategy :: "validation_strategy option"
  sg_candidates :: "(string \<times> model_candidate list) option"
  sg_training :: "training_result option"
  sg_artifact :: "'p model_artifact option"

definition no_stages :: "'p run_stages" where
  "no_stages = \<lparr>sg_characterization = None, sg_task = None, sg_roles = None, sg_leakage = None, sg_prep = None, sg_strategy = None,
     sg_candidates = None, sg_training = None, sg_artifact = None\<rparr>"

record 'p orchestrator_result =
  ot_execution_id :: string
  ot_dataset_path :: string
  ot_fingerprint :: string
  ot_stages :: "'p run_stages"
  ot_success :: bool
  ot_message :: string
  ot_warnings :: "string list"
  ot_alerts :: "monitoring_alert list"
  ot_started_at :: int
  ot_completed_at :: "int option"

text \<open>\<open>f(x) if x is not None else None\<close>\<close>

definition or_none :: "('a \<Rightarrow> pyval) \<Rightarrow> 'a option \<Rightarrow> pyval" where
  "or_none f x = (case x of None \<Rightarrow> PNone | Some y \<Rightarrow> f y)"

definition to_summary :: "runtime \<Rightarrow> 'p orchestrator_result \<Rightarrow> dict" where
  "to_summary rt r =
     (let st = ot_stages r
      in [(''execution_id'', PStr (ot_execution_id r)), (''dataset_path'', PStr (ot_dataset_path r)),
          (''dataset_fingerprint'', PStr (ot_fingerprint r)), (''success'', PBool (ot_success r)), (''message'', PStr (ot_message r)),
          (''task_type'', or_none (PStr \<circ> td_task_type) (sg_task st)), (''target'', or_none (opt_str \<circ> td_target) (sg_task st)),
          (''validation_strategy'', or_none (PStr \<circ> vs_strategy) (sg_strategy st)),
          (''candidates'', PList (case sg_candidates st of None \<Rightarrow> [] | Some (task, cs) \<Rightarrow> map (PStr \<circ> mc_name) cs)),
          (''best_model'', or_none (opt_str \<circ> tr_best_name) (sg_training st)),
          (''best_score'', or_none (opt_float \<circ> tr_best_score) (sg_training st)),
          (''warnings'', PList (map PStr (ot_warnings r))), (''alerts'', PInt (int (length (ot_alerts r)))),
          (''started_at'', PStr (rt_iso rt (ot_started_at r))),
          (''completed_at'', or_none (PStr \<circ> rt_iso rt) (ot_completed_at r))])"

definition df_fingerprint :: "'p platform_lib \<Rightarrow> dataset \<Rightarrow> string" where
  "df_fingerprint lib df =
     ''sha:'' @ show_nat (ds_rows df) @ ''x'' @ show_nat (length (ds_columns df)) @ '':''
     @ (case pb_sample lib df of None \<Rightarrow> ''nohash'' | Some h \<Rightarrow> take 16 h) @ '':''
     @ take 8 (pb_md5 lib (py_join '','' (sort (frame_columns df))))"

definition describe_frame :: "'p platform_lib \<Rightarrow> dataset \<Rightarrow> frame_description" where
  "describe_frame lib df =
     \<lparr>fd_rows = ds_rows df, fd_columns = map (\<lambda>c. (pb_column lib df c)\<lparr>cl_name := c\<rparr>) (frame_columns df),
      fd_duplicates = pb_duplicates lib df\<rparr>"

definition frame_profile_of :: "'p platform_lib \<Rightarrow> dataset \<Rightarrow> frame_profile" where
  "frame_profile_of lib df = profile_of_description (describe_frame lib df)"

text \<open>A new orchestrator on a checkpoint manager, with the database, the clock and the files it works on\<close>

definition platform_init :: "manager \<Rightarrow> repository \<Rightarrow> env \<Rightarrow> fs \<Rightarrow> 'p platform" where
  "platform_init cm r e f =
     \<lparr>pf_repo = r, pf_env = e, pf_manager = cm, pf_monitor = monitor_init None, pf_fitted = [], pf_fs = f\<rparr>"

subsection \<open>Access to the parts of the state\<close>

definition on_store :: "(store \<Rightarrow> store) \<Rightarrow> 'p platform \<Rightarrow> 'p platform" where
  "on_store f s = (let (r, e) = f (pf_repo s, pf_env s) in s\<lparr>pf_repo := r, pf_env := e\<rparr>)"

definition on_monitor :: "(watch \<Rightarrow> watch) \<Rightarrow> 'p platform \<Rightarrow> 'p platform" where
  "on_monitor f s = (let (m, e) = f (pf_monitor s, pf_env s) in s\<lparr>pf_monitor := m, pf_env := e\<rparr>)"

definition read_clock :: "'p platform \<Rightarrow> int \<times> 'p platform" where
  "read_clock s = (let (now, e) = utc_now (pf_env s) in (now, s\<lparr>pf_env := e\<rparr>))"

definition make_checkpoint ::
  "'p platform_lib \<Rightarrow> string \<Rightarrow> string \<Rightarrow> dict \<Rightarrow> 'p platform \<Rightarrow> checkpoint result \<times> 'p platform" where
  "make_checkpoint lib eid node artifact s =
     (let (r, m, e) = cm_create (pb_runtime lib) eid node (PDict artifact) ''unknown'' [] [] ''passed'' [] (pf_manager s, pf_env s)
      in (r, s\<lparr>pf_manager := m, pf_env := e\<rparr>))"

subsection \<open>Planning the run\<close>

definition resolve_task :: "string option \<Rightarrow> string \<Rightarrow> string" where
  "resolve_task given detected =
     (let t = str_or given detected
      in if t = ''spatial_classification'' then ''classification''
         else if t = ''spatial_regression'' then ''regression'' else t)"

record run_plan =
  pn_target :: string
  pn_task :: string
  pn_roles :: role_report
  pn_leakage :: leakage_report
  pn_prep :: "prep_recommendation list"
  pn_strategy :: validation_strategy

definition plan_run :: "hash \<Rightarrow> frame_profile \<Rightarrow> string \<Rightarrow> string \<Rightarrow> run_plan" where
  "plan_run h p target task =
     \<lparr>pn_target = target, pn_task = task, pn_roles = detect_roles p (Some target), pn_leakage = analyze_leakage h p (Some target),
      pn_prep = recommend_prep p (Some target), pn_strategy = select_strategy h p (Some target)\<rparr>"

definition plan_warnings :: "runtime \<Rightarrow> task_result \<Rightarrow> run_plan \<Rightarrow> string list" where
  "plan_warnings rt task rp =
     td_warnings task
     @ (if lr_risky (pn_leakage rp) \<noteq> []
        then [''Leakage risk detected in: '' @ rt_str rt (PList (map PStr (lr_risky (pn_leakage rp))))] else [])"

text \<open>The names of the candidates to train, or the message of the refusal\<close>

definition limit_candidates :: "int option \<Rightarrow> string list \<Rightarrow> string + string list" where
  "limit_candidates limit names =
     (case limit of
        Some k \<Rightarrow>
          if k \<le> 0 then Inl ''max_candidates must be greater than zero.''
          else if take (nat k) names = [] then Inl ''No model candidates generated.'' else Inr (take (nat k) names)
      | None \<Rightarrow> if names = [] then Inl ''No model candidates generated.'' else Inr names)"

text \<open>\<open>xs[0] if xs else None\<close>, and the second one\<close>

definition item :: "nat \<Rightarrow> 'a list \<Rightarrow> 'a option" where
  "item i xs = (if i < length xs then Some (xs ! i) else None)"

definition training_request :: "run_plan \<Rightarrow> split_request" where
  "training_request rp =
     (let roles = role_columns (pn_roles rp)
      in \<lparr>sr_strategy = vs_strategy (pn_strategy rp), sr_test_size = 2 / 10, sr_random_state = 42,
          sr_group = item 0 (roles R_IDENTIFIER), sr_time = item 0 (roles R_TEMPORAL), sr_latitude = item 0 (roles R_SPATIAL),
          sr_longitude = item 1 (roles R_SPATIAL)\<rparr>)"

definition fallback_request :: split_request where
  "fallback_request = \<lparr>sr_strategy = ''random_holdout'', sr_test_size = 2 / 10, sr_random_state = 42, sr_group = None, sr_time = None,
     sr_latitude = None, sr_longitude = None\<rparr>"

definition apply_leakage_filter :: "dataset \<Rightarrow> leakage_report \<Rightarrow> string \<Rightarrow> dataset" where
  "apply_leakage_filter df r target = keep_columns (\<lambda>c. \<not> (c \<in> set (lr_risky r) \<and> c \<noteq> target)) df"

subsection \<open>Training\<close>

definition is_value_error :: "exn \<Rightarrow> bool" where
  "is_value_error e \<longleftrightarrow> exn_type e = ''ValueError''"

text \<open>The result with the warnings that training adds, and the fitted pipelines\<close>

definition train_stage ::
  "'p platform_lib \<Rightarrow> dataset \<Rightarrow> run_plan \<Rightarrow> string list \<Rightarrow> 'p fitted \<Rightarrow> training_result result \<times> string list \<times> 'p fitted" where
  "train_stage lib safe rp names fitted =
     (let train = train_and_evaluate (pb_split lib) (pb_training lib) safe (pn_target rp) (pn_task rp) names
      in case train (training_request rp) fitted of
           (Inr r, fitted1) \<Rightarrow> (Inr r, [], fitted1)
         | (Inl e, fitted1) \<Rightarrow>
             if is_value_error e
             then (let (r, fitted2) = train fallback_request fitted1
                   in (r, [''Validation strategy '' @ sq (vs_strategy (pn_strategy rp))
                     @ '' was incompatible with the dataset; falling back to random_holdout.''], fitted2))
             else (Inl e, [], fitted1))"

definition best_evaluation :: "training_result \<Rightarrow> model_evaluation option" where
  "best_evaluation r =
     (if truthy_str (tr_best_name r) \<and> tr_evaluations r \<noteq> []
      then Some (case find (\<lambda>e. Some (me_model_name e) = tr_best_name r) (tr_evaluations r) of
             None \<Rightarrow> hd (tr_evaluations r) | Some e \<Rightarrow> e)
      else None)"

definition monitor_stage :: "'p platform_lib \<Rightarrow> string \<Rightarrow> string \<Rightarrow> training_result \<Rightarrow> 'p platform \<Rightarrow> 'p platform" where
  "monitor_stage lib eid task r s =
     (case best_evaluation r of
        None \<Rightarrow> s
      | Some e \<Rightarrow> on_monitor (check_model_metrics (pb_runtime lib) eid (me_model_name e) task (me_metrics e)) s)"

subsection \<open>The artifact\<close>

definition build_artifact ::
  "string \<Rightarrow> run_plan \<Rightarrow> training_result \<Rightarrow> string list \<Rightarrow> string \<Rightarrow> string option \<Rightarrow> 'p platform
     \<Rightarrow> 'p model_artifact option \<times> 'p platform" where
  "build_artifact eid rp r features fingerprint checkpoint_id s =
     (if \<not> truthy_str (tr_best_name r) then (None, s)
      else
        (case find (\<lambda>e. Some (me_model_name e) = tr_best_name r) (tr_evaluations r) of
           None \<Rightarrow> (None, s)
         | Some e \<Rightarrow>
             (let (now, s') = read_clock s
              in (Some \<lparr>ma_model_name = the (tr_best_name r), ma_task_type = pn_task rp, ma_execution_id = eid,
                   ma_pipeline = fitted_pipeline (the (tr_best_name r)) (pf_fitted s), ma_feature_columns = features,
                   ma_target_column = pn_target rp, ma_metrics = me_metrics e,
                   ma_validation_strategy = vs_strategy (pn_strategy rp), ma_fingerprint = fingerprint,
                   ma_checkpoint_id = checkpoint_id, ma_trained_at = now, ma_metadata = [],
                   ma_integrity_status = ''unverified''\<rparr>, s'))))"

text \<open>The path of the artifact, and the warning when it cannot be saved\<close>

definition persist_artifact ::
  "'p platform_lib \<Rightarrow> bool \<Rightarrow> string \<Rightarrow> 'p model_artifact option \<Rightarrow> 'p platform
     \<Rightarrow> string option \<times> string list \<times> 'p platform" where
  "persist_artifact lib save eid artifact s =
     (case artifact of
        None \<Rightarrow> (None, [], s)
      | Some a \<Rightarrow>
          if \<not> save then (None, [], s)
          else
            (let path = pb_artifact_root lib @ ''/'' @ eid @ ''_'' @ ma_model_name a @ ''.joblib'';
                 (answer, f, e) = save_artifact (pb_runtime lib) (pb_jobs lib) path a (pf_fs s, pf_env s);
                 s' = s\<lparr>pf_fs := f, pf_env := e\<rparr>
             in (Some path,
                 (case answer of Inr _ \<Rightarrow> [] | Inl x \<Rightarrow> [''Artifact save failed: '' @ exn_type x @ '': '' @ exn_str x]), s')))"

subsection \<open>The body of the run\<close>

text \<open>\<open>target or task_result.target\<close>, when it names a column\<close>

definition chosen_target :: "string option \<Rightarrow> string option \<Rightarrow> string option" where
  "chosen_target given detected = named (opt_or given detected)"

definition characterize_stage ::
  "'p platform_lib \<Rightarrow> string \<Rightarrow> string \<Rightarrow> dataset \<Rightarrow> 'p platform \<Rightarrow> characterization result \<times> 'p platform" where
  "characterize_stage lib eid path df s =
     (case characterize path (describe_frame lib df) of
        Inl e \<Rightarrow> (Inl e, s)
      | Inr c \<Rightarrow>
          (let (ckpt, s1) = make_checkpoint lib eid ''characterization''
                 [(''rows'', PInt (int (ch_rows c))), (''columns'', PInt (int (ch_columns c))), (''fingerprint'', PStr (df_fingerprint lib df))] s
           in (case ckpt of Inl e \<Rightarrow> Inl e | Inr _ \<Rightarrow> Inr c, s1)))"

text \<open>A refusal is a message; a plan comes with the names to train.\<close>

definition plan_stage ::
  "'p platform_lib \<Rightarrow> run_request \<Rightarrow> dataset \<Rightarrow> characterization
     \<Rightarrow> (string + run_plan \<times> string list) result \<times> 'p run_stages \<times> string list" where
  "plan_stage lib q df c =
     (let p = frame_profile_of lib df; t = detect_task (pb_hash lib) p;
          st0 = no_stages\<lparr>sg_characterization := Some c, sg_task := Some t\<rparr>
      in case chosen_target (rq_target q) (td_target t) of
           None \<Rightarrow> (Inr (Inl ''Task detection could not identify a target column.''), st0, [])
         | Some target \<Rightarrow>
             (let task = resolve_task (rq_task_type q) (td_task_type t); rp = plan_run (pb_hash lib) p target task;
                  st1 = st0\<lparr>sg_roles := Some (pn_roles rp), sg_leakage := Some (pn_leakage rp), sg_prep := Some (pn_prep rp),
                    sg_strategy := Some (pn_strategy rp)\<rparr>;
                  warnings = plan_warnings (pb_runtime lib) t rp
              in case generate_candidates p target (Some task) of
                   Inl e \<Rightarrow> (Inl e, st1, warnings)
                 | Inr cs \<Rightarrow>
                     (Inr (case limit_candidates (rq_max_candidates q) (map mc_name (snd cs)) of
                             Inl message \<Rightarrow> Inl message | Inr names \<Rightarrow> Inr (rp, names)),
                      st1\<lparr>sg_candidates := Some cs\<rparr>, warnings)))"

text \<open>The training result, the artifact, where it was to be saved, and the alerts\<close>

type_synonym 'p trained = "training_result \<times> 'p model_artifact option \<times> string option \<times> monitoring_alert list"

definition train_run ::
  "'p platform_lib \<Rightarrow> run_request \<Rightarrow> string \<Rightarrow> dataset \<Rightarrow> run_plan \<Rightarrow> string list \<Rightarrow> 'p platform
     \<Rightarrow> 'p trained result \<times> string list \<times> 'p platform" where
  "train_run lib q eid df rp names s =
     (let safe = apply_leakage_filter df (pn_leakage rp) (pn_target rp); fp = df_fingerprint lib df;
          (trained, w, fitted) = train_stage lib safe rp names (pf_fitted s); s1 = s\<lparr>pf_fitted := fitted\<rparr>
      in case trained of
           Inl e \<Rightarrow> (Inl e, w, s1)
         | Inr r \<Rightarrow>
             (let (ckpt, s2) = make_checkpoint lib eid ''training''
                    [(''best_model'', opt_str (tr_best_name r)), (''best_score'', opt_float (tr_best_score r)), (''fingerprint'', PStr fp)] s1
              in case ckpt of
                   Inl e \<Rightarrow> (Inl e, w, s2)
                 | Inr c \<Rightarrow>
                     (let s3 = monitor_stage lib eid (pn_task rp) r s2;
                          (artifact, s4) = build_artifact eid rp r (filter (\<lambda>x. x \<noteq> pn_target rp) (frame_columns safe)) fp
                            (Some (ck_checkpoint_id c)) s3;
                          (path, w', s5) = persist_artifact lib (rq_save q) eid artifact s4;
                          (alerts, m) = drain (pf_monitor s5)
                      in (Inr (r, artifact, path, alerts), w @ w', s5\<lparr>pf_monitor := m\<rparr>))))"

subsection \<open>Exits\<close>

definition run_result ::
  "string \<Rightarrow> string \<Rightarrow> string \<Rightarrow> 'p run_stages \<Rightarrow> bool \<Rightarrow> string \<Rightarrow> string list \<Rightarrow> monitoring_alert list \<Rightarrow> int \<Rightarrow> 'p platform
     \<Rightarrow> 'p orchestrator_result \<times> 'p platform" where
  "run_result eid path fp stages ok message warnings alerts started s =
     (let (now, s') = read_clock s
      in (\<lparr>ot_execution_id = eid, ot_dataset_path = path, ot_fingerprint = fp, ot_stages = stages, ot_success = ok, ot_message = message,
           ot_warnings = warnings, ot_alerts = alerts, ot_started_at = started, ot_completed_at = Some now\<rparr>, s'))"

text \<open>\<open>_fail\<close> evaluates the defaults of its arguments, a time and an identifier that nobody uses.\<close>

definition fail_run ::
  "string \<Rightarrow> string \<Rightarrow> string \<Rightarrow> 'p run_stages \<Rightarrow> string \<Rightarrow> string list \<Rightarrow> int \<Rightarrow> 'p platform
     \<Rightarrow> 'p orchestrator_result \<times> 'p platform" where
  "fail_run eid path fp stages message warnings started s =
     (let s1 = s\<lparr>pf_env := snd (uuid4 (snd (utc_now (pf_env s))))\<rparr>;
          s2 = on_store (persist_execution_completion eid False (Some message)
            (Some [(''error'', PStr message), (''dataset_path'', PStr path), (''dataset_fingerprint'', PStr fp)])) s1
      in run_result eid path fp stages False message warnings [] started s2)"

definition raise_run ::
  "string \<Rightarrow> string \<Rightarrow> string \<Rightarrow> exn \<Rightarrow> string list \<Rightarrow> int \<Rightarrow> 'p platform \<Rightarrow> 'p orchestrator_result \<times> 'p platform" where
  "raise_run eid path fp e warnings started s =
     (let message = ''Pipeline error: '' @ exn_type e @ '': '' @ exn_str e;
          s1 = on_store (persist_execution_completion eid False (Some message)
            (Some [(''error_type'', PStr (exn_type e)), (''error'', PStr (exn_str e)), (''dataset_path'', PStr path),
              (''dataset_fingerprint'', PStr fp)])) s;
          s2 = on_store (persist_fault eid (exn_type e) ''high'' (Some ''orchestrator'') (Some (exn_str e))
            (Some [(''error_type'', PStr (exn_type e)), (''error_message'', PStr (exn_str e)), (''node_id'', PStr ''orchestrator'')])) s1
      in run_result eid path fp no_stages False message warnings [] started s2)"

definition completion_message :: "training_result \<Rightarrow> string" where
  "completion_message r =
     (case tr_best_score r of
        None \<Rightarrow> ''Pipeline completed.''
      | Some x \<Rightarrow> ''Pipeline completed. Best model: '' @ fmt_opt (tr_best_name r) @ '' (score='' @ fmt_fixed 4 x @ '')'')"

definition complete_run ::
  "string \<Rightarrow> string \<Rightarrow> string \<Rightarrow> 'p run_stages \<Rightarrow> run_plan \<Rightarrow> 'p trained \<Rightarrow> string list \<Rightarrow> int \<Rightarrow> 'p platform
     \<Rightarrow> 'p orchestrator_result \<times> 'p platform" where
  "complete_run eid path fp stages rp trained warnings started s =
     (let (r, artifact, saved, alerts) = trained; ok = tr_best_name r \<noteq> None; message = completion_message r;
          s1 = on_store (persist_execution_completion eid ok (Some message)
            (Some [(''dataset_path'', PStr path), (''dataset_fingerprint'', PStr fp), (''target'', PStr (pn_target rp)),
              (''task_type'', PStr (pn_task rp)), (''best_model'', opt_str (tr_best_name r)), (''best_score'', opt_float (tr_best_score r)),
              (''artifact_path'', opt_str saved), (''warnings'', PList (map PStr warnings))])) s
      in run_result eid path fp (stages\<lparr>sg_training := Some r, sg_artifact := artifact\<rparr>) ok message warnings alerts started s1)"

subsection \<open>Run and predict\<close>

definition start_execution :: "string \<Rightarrow> string \<Rightarrow> string \<Rightarrow> 'p platform \<Rightarrow> string list \<times> 'p platform" where
  "start_execution eid path fp s =
     (let (answer, r, e) = create_execution eid (Some path) (Some fp) ''started'' (pf_repo s, pf_env s)
      in (case answer of
            Inr _ \<Rightarrow> []
          | Inl x \<Rightarrow> [''Execution persistence initialization failed: '' @ exn_type x @ '': '' @ exn_str x],
          s\<lparr>pf_repo := r, pf_env := e\<rparr>))"

definition run_frame ::
  "'p platform_lib \<Rightarrow> run_request \<Rightarrow> string \<Rightarrow> int \<Rightarrow> dataset \<Rightarrow> 'p platform \<Rightarrow> 'p orchestrator_result \<times> 'p platform" where
  "run_frame lib q eid started df s =
     (let path = rq_dataset_path q; fp = df_fingerprint lib df; (w0, s1) = start_execution eid path fp s;
          (characterized, s2) = characterize_stage lib eid path df s1
      in case characterized of
           Inl e \<Rightarrow> raise_run eid path fp e w0 started s2
         | Inr c \<Rightarrow>
             (let (planned, stages, w1) = plan_stage lib q df c
              in case planned of
                   Inl e \<Rightarrow> raise_run eid path fp e (w0 @ w1) started s2
                 | Inr (Inl message) \<Rightarrow> fail_run eid path fp stages message (w0 @ w1) started s2
                 | Inr (Inr (rp, names)) \<Rightarrow>
                     (let (trained, w2, s3) = train_run lib q eid df rp names s2
                      in case trained of
                           Inl e \<Rightarrow> raise_run eid path fp e (w0 @ w1 @ w2) started s3
                         | Inr t \<Rightarrow> complete_run eid path fp stages rp t (w0 @ w1 @ w2) started s3)))"

text \<open>\<open>execution_id or str(uuid.uuid4())\<close>\<close>

definition given_or_uuid :: "string option \<Rightarrow> env \<Rightarrow> string \<times> env" where
  "given_or_uuid given e = (case named given of Some i \<Rightarrow> (i, e) | None \<Rightarrow> uuid4 e)"

definition run_platform :: "'p platform_lib \<Rightarrow> run_request \<Rightarrow> 'p platform \<Rightarrow> 'p orchestrator_result \<times> 'p platform" where
  "run_platform lib q s =
     (let (eid, e) = given_or_uuid (rq_execution_id q) (pf_env s); (started, s1) = read_clock (s\<lparr>pf_env := e\<rparr>)
      in case rq_frame q of
           None \<Rightarrow> fail_run eid (rq_dataset_path q) [] no_stages ''Input must be a pandas DataFrame.'' [] started s1
         | Some df \<Rightarrow> run_frame lib q eid started df s1)"

definition platform_predict ::
  "'p platform_lib \<Rightarrow> (pyval \<Rightarrow> dataset result) \<Rightarrow> 'p model_artifact \<Rightarrow> inference_data \<Rightarrow> string option \<Rightarrow> 'p platform
     \<Rightarrow> inference_result result \<times> 'p platform" where
  "platform_predict lib convert a data request_id s =
     (let (rid, e) = given_or_uuid request_id (pf_env s); (now, e') = utc_now e;
          r = predict (pb_runtime lib) (pb_training lib) convert a
            \<lparr>iq_request_id = rid, iq_execution_id = ma_execution_id a, iq_data = data\<rparr> now
      in (r, s\<lparr>pf_env := (case r of Inl _ \<Rightarrow> e | Inr _ \<Rightarrow> e')\<rparr>))"

subsection \<open>What a run leaves in the repository\<close>

lemma read_clock_parts [simp]:
  "pf_repo (snd (read_clock s)) = pf_repo s" "clock (pf_env (snd (read_clock s))) = clock (pf_env s)"
  by (simp_all add: read_clock_def utc_now_def Let_def)

lemma make_checkpoint_repo [simp]: "pf_repo (snd (make_checkpoint lib eid node a s)) = pf_repo s"
  by (simp add: make_checkpoint_def split_beta)

lemma make_checkpoint_keeps: "make_checkpoint lib eid node a s = (c, s') \<Longrightarrow> pf_repo s' = pf_repo s"
  using make_checkpoint_repo by (metis snd_conv)

lemma on_monitor_repo [simp]: "pf_repo (on_monitor f s) = pf_repo s"
  by (simp add: on_monitor_def split_beta)

lemma characterize_stage_repo: "characterize_stage lib eid path df s = (c, s') \<Longrightarrow> pf_repo s' = pf_repo s"
  using make_checkpoint_repo by (auto simp: characterize_stage_def Let_def split_beta split: sum.splits)

lemma build_artifact_repo: "build_artifact eid rp r fs fp ck s = (a, s') \<Longrightarrow> pf_repo s' = pf_repo s"
  by (auto simp: build_artifact_def Let_def split_beta split: option.splits if_splits)

lemma persist_artifact_repo: "persist_artifact lib save eid a s = (p, w, s') \<Longrightarrow> pf_repo s' = pf_repo s"
  by (auto simp: persist_artifact_def Let_def split: option.splits if_splits prod.splits)

lemma monitor_stage_repo [simp]: "pf_repo (monitor_stage lib eid task r s) = pf_repo s"
  by (simp add: monitor_stage_def split: option.split)

lemma train_run_repo:
  assumes "train_run lib q eid df rp names s = (t, w, s')"
  shows "pf_repo s' = pf_repo s"
proof -
  obtain trained w1 fitted where t: "train_stage lib (apply_leakage_filter df (pn_leakage rp) (pn_target rp)) rp names (pf_fitted s)
      = (trained, w1, fitted)"
    by (metis surj_pair)
  note run = assms [unfolded train_run_def Let_def t prod.case]
  show ?thesis
  proof (cases trained)
    case (Inl e)
    with run show ?thesis by auto
  next
    case (Inr r)
    define fp where "fp = df_fingerprint lib df"
    define safe where "safe = apply_leakage_filter df (pn_leakage rp) (pn_target rp)"
    obtain ckpt s2 where c: "make_checkpoint lib eid ''training'' [(''best_model'', opt_str (tr_best_name r)),
        (''best_score'', opt_float (tr_best_score r)), (''fingerprint'', PStr fp)] (s\<lparr>pf_fitted := fitted\<rparr>) = (ckpt, s2)"
      by (metis surj_pair)
    note run = run [unfolded Inr sum.case fp_def [symmetric] safe_def [symmetric] c prod.case]
    have repo: "pf_repo s2 = pf_repo s"
      using make_checkpoint_keeps [OF c] by simp
    show ?thesis
    proof (cases ckpt)
      case (Inl e)
      with run repo show ?thesis by simp
    next
      case (Inr k)
      obtain a s4 where b: "build_artifact eid rp r (filter (\<lambda>x. x \<noteq> pn_target rp) (frame_columns safe)) fp (Some (ck_checkpoint_id k))
          (monitor_stage lib eid (pn_task rp) r s2) = (a, s4)"
        by (metis surj_pair)
      obtain path w2 s5 where p: "persist_artifact lib (rq_save q) eid a s4 = (path, w2, s5)" by (metis surj_pair)
      from run [unfolded Inr sum.case b prod.case p] have "pf_repo s' = pf_repo s5"
        by (auto simp: drain_def)
      with build_artifact_repo [OF b] persist_artifact_repo [OF p] repo show ?thesis by simp
    qed
  qed
qed

definition fresh :: "string \<Rightarrow> repository \<Rightarrow> bool" where
  "fresh eid r \<longleftrightarrow> db_works r \<and> execution_named eid r = None"

text \<open>The row of an execution, and nothing else\<close>

definition row_added :: "string \<Rightarrow> (execution_row \<Rightarrow> bool) \<Rightarrow> repository \<Rightarrow> repository \<Rightarrow> bool" where
  "row_added eid P r r' \<longleftrightarrow>
     (\<exists>x. execution_named eid r' = Some x \<and> P x) \<and> (\<forall>k. k = eid \<or> execution_named k r' = execution_named k r)
     \<and> rp_recoveries r' = rp_recoveries r \<and> db_works r'"

lemma start_execution_row:
  assumes "start_execution eid path fp s = (w, s')" and "fresh eid (pf_repo s)"
  shows "w = []" "row_added eid (\<lambda>x. True) (pf_repo s) (pf_repo s')" "rp_faults (pf_repo s') = rp_faults (pf_repo s)"
proof -
  obtain a r e where c: "create_execution eid (Some path) (Some fp) ''started'' (pf_repo s, pf_env s) = (a, r, e)"
    by (metis surj_pair)
  have a: "\<exists>x. a = Inr x" and keeps: "rp_faults r = rp_faults (pf_repo s)" "rp_recoveries r = rp_recoveries (pf_repo s)" "rp_fails r = rp_fails (pf_repo s)"
    using c assms(2) by (auto simp: create_execution_def call_fails_def fresh_def db_works_def Let_def called_def utc_now_def)
  from a obtain x where x: "a = Inr x" ..
  with assms(1) c show "w = []" "rp_faults (pf_repo s') = rp_faults (pf_repo s)"
    by (auto simp: start_execution_def keeps)
  show "row_added eid (\<lambda>x. True) (pf_repo s) (pf_repo s')"
    using assms c x keeps create_execution_named(2) [OF c [unfolded x]]
    by (auto simp: start_execution_def row_added_def fresh_def db_works_def split: if_splits)
qed

lemma on_store_repo [simp]: "pf_repo (on_store f s) = fst (f (pf_repo s, pf_env s))"
  by (simp add: on_store_def split_beta)

text \<open>A row that says how an execution ended\<close>

definition ended_row :: "string \<Rightarrow> bool \<Rightarrow> string \<Rightarrow> execution_row \<Rightarrow> bool" where
  "ended_row eid ok m x \<longleftrightarrow>
     xr_execution_id x = eid \<and> xr_success x = ok \<and> xr_message x = Some m \<and> xr_status x = (if ok then ''completed'' else ''failed'')"

lemma completion_row:
  assumes "row_added eid P r (fst s)" and "s' = persist_execution_completion eid ok (Some m) res s"
  shows "row_added eid (ended_row eid ok m) r (fst s')"
    and "rp_faults (fst s') = rp_faults (fst s)"
proof -
  obtain y where y: "execution_named eid (fst s) = Some y" and works: "db_works (fst s)"
    using assms(1) by (auto simp: row_added_def)
  obtain x where c: "complete_execution eid ok (Some m) res None s = (Inr (Some x), s')"
    using y works by (auto simp: complete_execution_def call_fails_def db_works_def Let_def split_beta assms(2) persist_execution_completion_def)
  have keeps: "rp_faults (fst s') = rp_faults (fst s)" "rp_recoveries (fst s') = rp_recoveries (fst s)" "rp_fails (fst s') = rp_fails (fst s)"
    using c y works by (auto simp: complete_execution_def call_fails_def db_works_def Let_def split_beta called_def)
  note named = complete_execution_named [OF c]
  have "execution_named eid (fst s') = Some x" using named(1) [of eid] by simp
  moreover have "execution_named k (fst s') = execution_named k (fst s)" if "k \<noteq> eid" for k
    using named(1) [of k] that by simp
  ultimately show "row_added eid (ended_row eid ok m) r (fst s')"
    using assms(1) keeps named(2-) execution_named_id by (fastforce simp: row_added_def db_works_def ended_row_def)
  show "rp_faults (fst s') = rp_faults (fst s)" by (rule keeps)
qed

lemma persist_fault_row:
  assumes "row_added eid P r (fst s)" and "s' = persist_fault eid type sev (Some c) (Some m) ev s"
  shows "row_added eid P r (fst s')"
    and "\<exists>f. rp_faults (fst s') = rp_faults (fst s) @ [f] \<and> fe_execution_id f = eid \<and> fe_type f = type \<and> fe_component f = Some c
      \<and> fe_message f = Some m \<and> fe_evidence f = ev"
  using assms
  by (auto simp: persist_fault_def record_fault_def row_added_def call_fails_def db_works_def Let_def split_beta execution_named_def called_def)

text \<open>The row says what the result says.\<close>

definition row_of_result :: "'p orchestrator_result \<Rightarrow> execution_row \<Rightarrow> bool" where
  "row_of_result r = ended_row (ot_execution_id r) (ot_success r) (ot_message r)"

definition fault_of_result :: "'p orchestrator_result \<Rightarrow> fault_event \<Rightarrow> bool" where
  "fault_of_result r f \<longleftrightarrow>
     fe_execution_id f = ot_execution_id r \<and> fe_component f = Some ''orchestrator'' \<and> fe_message f \<noteq> None
     \<and> ot_message r = ''Pipeline error: '' @ fe_type f @ '': '' @ the (fe_message f)"

text \<open>A result that kept no stage stands for an exception.\<close>

definition run_recorded :: "'p orchestrator_result \<Rightarrow> repository \<Rightarrow> repository \<Rightarrow> bool" where
  "run_recorded r before after \<longleftrightarrow>
     row_added (ot_execution_id r) (row_of_result r) before after
     \<and> (if sg_characterization (ot_stages r) = None
        then \<not> ot_success r \<and> (\<exists>f. rp_faults after = rp_faults before @ [f] \<and> fault_of_result r f)
        else rp_faults after = rp_faults before)"

lemma run_result_parts:
  assumes "run_result eid path fp st ok m w al t s = (r, s')"
  shows "ot_execution_id r = eid" "ot_success r = ok" "ot_message r = m" "ot_stages r = st" "ot_warnings r = w" "ot_alerts r = al"
    "pf_repo s' = pf_repo s"
  using assms read_clock_parts(1) [of s] by (auto simp: run_result_def split_beta)

lemma fail_run_recorded:
  assumes "fail_run eid path fp st m w t s = (r, s')" and "row_added eid P b (pf_repo s)" and "rp_faults (pf_repo s) = rp_faults b"
    and "sg_characterization st \<noteq> None"
  shows "ot_execution_id r = eid" "run_recorded r b (pf_repo s')"
proof -
  note parts = run_result_parts [OF assms(1) [unfolded fail_run_def Let_def]]
  show "ot_execution_id r = eid" by (rule parts(1))
  show "run_recorded r b (pf_repo s')"
    unfolding run_recorded_def row_of_result_def
    using completion_row [OF _ refl, where s = "(pf_repo s, snd (uuid4 (snd (utc_now (pf_env s)))))"] assms(2-) by (simp add: parts)
qed

lemma complete_run_recorded:
  assumes "complete_run eid path fp st rp trained w t s = (r, s')" and "row_added eid P b (pf_repo s)"
    and "rp_faults (pf_repo s) = rp_faults b" and "sg_characterization st \<noteq> None"
  shows "ot_execution_id r = eid" "run_recorded r b (pf_repo s')"
proof -
  obtain tr a saved al where "trained = (tr, a, saved, al)" by (metis surj_pair)
  note parts = run_result_parts [OF assms(1) [unfolded complete_run_def Let_def this prod.case]]
  show "ot_execution_id r = eid" by (rule parts(1))
  show "run_recorded r b (pf_repo s')"
    unfolding run_recorded_def row_of_result_def
    using completion_row [OF _ refl, where s = "(pf_repo s, pf_env s)"] assms(2-) by (simp add: parts)
qed

lemma raise_run_recorded:
  assumes "raise_run eid path fp e w t s = (r, s')" and "row_added eid P b (pf_repo s)" and "rp_faults (pf_repo s) = rp_faults b"
  shows "ot_execution_id r = eid" "run_recorded r b (pf_repo s')"
proof -
  note parts = run_result_parts [OF assms(1) [unfolded raise_run_def Let_def]]
  show "ot_execution_id r = eid" by (rule parts(1))
  define m where "m = ''Pipeline error: '' @ exn_type e @ '': '' @ exn_str e"
  obtain res ev s1 s2 where s1: "s1 = persist_execution_completion eid False (Some m) res (pf_repo s, pf_env s)"
    and s2: "s2 = persist_fault eid (exn_type e) ''high'' (Some ''orchestrator'') (Some (exn_str e)) ev s1"
    and repo: "pf_repo s' = fst s2"
    using parts(7) [unfolded m_def [symmetric]] by (fastforce simp: on_store_def split_beta)
  have m: "ot_message r = m" using parts(3) by (simp only: m_def)
  have s: "row_added eid P b (fst (pf_repo s, pf_env s))" "rp_faults (fst s1) = rp_faults b"
    using assms(2,3) completion_row(2) [OF _ s1] by simp_all
  note row = persist_fault_row [OF completion_row(1) [OF s(1) s1] s2]
  from row(2) obtain f where f: "rp_faults (fst s2) = rp_faults b @ [f]" "fe_execution_id f = eid" "fe_type f = exn_type e"
      "fe_component f = Some ''orchestrator''" "fe_message f = Some (exn_str e)"
    unfolding s(2) by blast
  then have "fault_of_result r f"
    unfolding fault_of_result_def m m_def parts(1) by simp
  moreover have "\<not> ot_success r" "sg_characterization (ot_stages r) = None"
    using parts(2,4) by (simp_all add: no_stages_def)
  ultimately show "run_recorded r b (pf_repo s')"
    unfolding run_recorded_def row_of_result_def parts(1) m repo using row(1) f(1) by auto
qed

lemma plan_stage_characterized: "plan_stage lib q df c = (p, st, w) \<Longrightarrow> sg_characterization st = Some c"
  by (auto simp: plan_stage_def Let_def no_stages_def split: option.splits sum.splits)

lemma run_frame_recorded:
  assumes "run_frame lib q eid t df s = (r, s')" and "fresh eid (pf_repo s)"
  shows "ot_execution_id r = eid \<and> run_recorded r (pf_repo s) (pf_repo s')"
proof -
  let ?path = "rq_dataset_path q" and ?fp = "df_fingerprint lib df"
  obtain w0 s1 where st: "start_execution eid ?path ?fp s = (w0, s1)" by (metis surj_pair)
  obtain c s2 where c: "characterize_stage lib eid ?path df s1 = (c, s2)" by (metis surj_pair)
  have added: "row_added eid (\<lambda>x. True) (pf_repo s) (pf_repo s2)" "rp_faults (pf_repo s2) = rp_faults (pf_repo s)"
    using start_execution_row [OF st assms(2)] characterize_stage_repo [OF c] by simp_all
  note run = assms(1) [unfolded run_frame_def Let_def st c prod.case]
  show ?thesis
  proof (cases c)
    case (Inl e)
    with run raise_run_recorded [OF _ added] show ?thesis by simp
  next
    case (Inr ch)
    obtain p st w1 where p: "plan_stage lib q df ch = (p, st, w1)" by (metis surj_pair)
    note run = run [unfolded Inr sum.case p prod.case] and stage = plan_stage_characterized [OF p]
    show ?thesis
    proof (cases p)
      case (Inl e)
      with run raise_run_recorded [OF _ added] show ?thesis by simp
    next
      case planned: (Inr next')
      show ?thesis
      proof (cases next')
        case (Inl m)
        with planned run stage fail_run_recorded [OF _ added] show ?thesis by simp
      next
        case (Inr pn)
        obtain rp names where pn: "pn = (rp, names)" by (cases pn)
        obtain tr w2 s3 where tr: "train_run lib q eid df rp names s2 = (tr, w2, s3)" by (metis surj_pair)
        note added = added [folded train_run_repo [OF tr]]
        from run planned Inr pn tr stage show ?thesis
          using raise_run_recorded [OF _ added] complete_run_recorded [OF _ added] by (cases tr) simp_all
      qed
    qed
  qed
qed

lemma run_platform_frame:
  assumes "run_platform lib (q\<lparr>rq_execution_id := Some eid, rq_frame := Some df\<rparr>) s = (r, s')" and "eid \<noteq> []" and "fresh eid (pf_repo s)"
  shows "ot_execution_id r = eid \<and> run_recorded r (pf_repo s) (pf_repo s')"
  using assms run_frame_recorded [where s = "snd (read_clock s)" and eid = eid and df = df and r = r and s' = s']
  by (simp add: run_platform_def given_or_uuid_def named_def truthy_str_def split_beta)

text \<open>An input that is no frame is refused before its execution is created, and leaves no row.\<close>

lemma refused_input_is_not_recorded:
  assumes "run_platform lib (q\<lparr>rq_execution_id := Some eid, rq_frame := None\<rparr>) s = (r, s')" and "eid \<noteq> []" and "fresh eid (pf_repo s)"
  shows "\<not> ot_success r \<and> rp_executions (pf_repo s') = rp_executions (pf_repo s) \<and> rp_faults (pf_repo s') = rp_faults (pf_repo s)"
proof -
  let ?s = "snd (read_clock s)"
  have "fail_run eid (rq_dataset_path q) [] no_stages ''Input must be a pandas DataFrame.'' [] (fst (read_clock s)) ?s = (r, s')"
    using assms(1,2) by (simp add: run_platform_def given_or_uuid_def named_def split_beta)
  note parts = run_result_parts [OF this [unfolded fail_run_def Let_def]]
  show ?thesis
    using parts(2,7) assms(3)
    by (simp add: persist_execution_completion_def complete_execution_def call_fails_def fresh_def db_works_def called_def)
qed

subsection \<open>A run and its diagnosis\<close>

lemma ended_row_status:
  "ended_row eid ok m x \<Longrightarrow> normalize_pipeline_status rt (Inr (PStr (xr_status x))) = (if ok then P_SUCCESS else P_FAILED)"
  by (cases ok) (simp_all add: ended_row_def, code_simp+)

definition diagnosed :: "'p orchestrator_result \<Rightarrow> platform_outcome \<Rightarrow> bool" where
  "diagnosed r out \<longleftrightarrow>
     fr_execution_id (po_fault out) = ot_execution_id r \<and> (fr_detected (po_fault out) \<longleftrightarrow> \<not> ot_success r)
     \<and> fr_observed_node (po_fault out) =
         (if ot_success r then None
          else if sg_characterization (ot_stages r) = None then Some ''orchestrator'' else Some ''persisted_execution'')"

lemma fault_node_of_result:
  "fault_of_result r f \<Longrightarrow> ne_node_id (fault_node rt eid st i f t) = ''orchestrator''"
  by (simp add: fault_node_def fault_of_result_def Let_def persisted_node_def or_value_def opt_str_def)

lemma diagnosed_by_healing:
  assumes "healing_matches cf events e out" and "stands_for rt x fs e" and "row_of_result r x"
    and "if sg_characterization (ot_stages r) = None then \<not> ot_success r \<and> (\<exists>f. fs = [f] \<and> fault_of_result r f) else fs = []"
  shows "diagnosed r out"
proof -
  obtain now where f: "po_fault out = detect now e"
    using assms(1) by (auto simp: healing_matches_def Let_def)
  have st: "pe_status e = (if ot_success r then P_SUCCESS else P_FAILED)" "pe_execution_id e = ot_execution_id r"
    using assms(2,3) ended_row_status [where x = x and rt = rt]
    by (auto simp only: stands_for_def row_of_result_def) (simp add: ended_row_def)
  show ?thesis
  proof (cases "ot_success r")
    case True
    with st show ?thesis by (simp add: diagnosed_def f)
  next
    case False
    then obtain n t where n: "failed_node e = Some n"
        "n = (case fs of f # _ \<Rightarrow> fault_node rt (xr_execution_id x) (xr_created_at x) 0 f t | [] \<Rightarrow> placeholder_failure rt x t)"
      using stands_for_failed_node [OF assms(2)] st by auto
    have "ne_node_id n = (if sg_characterization (ot_stages r) = None then ''orchestrator'' else ''persisted_execution'')"
      using assms(4) fault_node_of_result
      by (auto simp: n(2) placeholder_failure_def persisted_node_def Let_def split: if_splits)
    with False st n(1) show ?thesis by (simp add: diagnosed_def f)
  qed
qed

text \<open>
  C20: A run keeps its record and its record can be diagnosed. With a working database and a new
  identifier, the run of a frame leaves exactly one row for the execution, which says what the result
  says: its success, its message and the status that follows from it; no other execution changes. An
  exception, and nothing else, also leaves a fault of the orchestrator with the type and the text of the
  exception. The self-healing chain, called with that row, answers: it detects a fault exactly when the
  run failed, at the node that the run left behind.
\<close>

theorem run_is_recorded_and_diagnosed:
  assumes "eid \<noteq> []" and "fresh eid (pf_repo s)" and "faults_of eid (pf_repo s) = []"
  shows "case run_platform lib (q\<lparr>rq_execution_id := Some eid, rq_frame := Some df\<rparr>) s of
    (r, s') \<Rightarrow>
      ot_execution_id r = eid \<and> run_recorded r (pf_repo s) (pf_repo s')
      \<and> (case execution_named eid (pf_repo s') of
           None \<Rightarrow> False
         | Some x \<Rightarrow>
             row_of_result r x
             \<and> (case analyze_and_heal cf events (Inr x) (pf_repo s', pf_env s') of
                  (Inl _, _) \<Rightarrow> False
                | (Inr out, _) \<Rightarrow> diagnosed r out))"
proof -
  obtain r s' where run: "run_platform lib (q\<lparr>rq_execution_id := Some eid, rq_frame := Some df\<rparr>) s = (r, s')" by (metis surj_pair)
  from run_platform_frame [OF run assms(1,2)] have r: "ot_execution_id r = eid" "run_recorded r (pf_repo s) (pf_repo s')" by simp_all
  obtain x where x: "execution_named eid (pf_repo s') = Some x" "row_of_result r x" and works: "db_works (pf_repo s')"
    using r by (auto simp: run_recorded_def row_added_def)
  have id: "xr_execution_id x = eid" using x(1) by (rule execution_named_id)
  have "recorded_faults x (pf_repo s', pf_env s') = faults_of eid (pf_repo s')"
    using works by (simp add: recorded_faults_def id call_fails_def db_works_def)
  moreover have "filter (\<lambda>f. fe_execution_id f = eid) (rp_faults (pf_repo s)) = []"
    using assms(3) unfolding faults_of_def by (metis length_0_conv length_sort)
  ultimately have faults: "if sg_characterization (ot_stages r) = None
      then \<not> ot_success r \<and> (\<exists>f. recorded_faults x (pf_repo s', pf_env s') = [f] \<and> fault_of_result r f)
      else recorded_faults x (pf_repo s', pf_env s') = []"
    using r by (auto simp: run_recorded_def faults_of_def fault_of_result_def)
  obtain p s1 where p: "to_domain_execution (cf_runtime cf) (Inr x) (pf_repo s', pf_env s') = (p, s1)" by (metis surj_pair)
  then obtain e where e: "p = Inr e" "stands_for (cf_runtime cf) x (recorded_faults x (pf_repo s', pf_env s')) e"
      "same_tables (pf_repo s', pf_env s') s1"
    using to_domain_execution_row [where rt = "cf_runtime cf" and x = x and s = "(pf_repo s', pf_env s')"] id assms(1)
    by (cases p) auto
  from heal_execution [OF p [unfolded e(1)] e(3)] obtain out s2 where
    "analyze_and_heal cf events (Inr x) (pf_repo s', pf_env s') = (Inr out, s2)" "healing_matches cf events e out"
    by metis
  with diagnosed_by_healing [OF _ e(2) x(2) faults] run r x show ?thesis by auto
qed

definition demo_column :: "string \<Rightarrow> described_column" where
  "demo_column c = \<lparr>cl_name = c, cl_bool = False, cl_numeric = True, cl_integer = True, cl_datetime = False, cl_object = False,
     cl_string = False, cl_category = False, cl_dtype = ''int64'', cl_nunique = (if c = ''mine_id'' then 2 else 4), cl_count = 4,
     cl_parsed = 0, cl_avg_length = 0, cl_skew = None, dc_mean = None, dc_std = None, dc_min = None, dc_max = None, dc_dates = None\<rparr>"

definition demo_platform_lib :: "unit platform_lib" where
  "demo_platform_lib = \<lparr>pb_runtime = demo_rt, pb_split = demo_lib, pb_training = demo_training_lib, pb_hash = (\<lambda>_. 0), pb_jobs = demo_jobs,
     pb_column = (\<lambda>_. demo_column), pb_duplicates = (\<lambda>_. 0), pb_sample = (\<lambda>_. None), pb_md5 = (\<lambda>_. ''m''), pb_artifact_root = ''a''\<rparr>"

definition demo_run_request :: run_request where
  "demo_run_request = \<lparr>rq_execution_id = Some ''e1'', rq_frame = Some demo_frame, rq_dataset_path = ''d'', rq_target = None, rq_task_type = None,
     rq_max_candidates = None, rq_save = True\<rparr>"

definition demo_platform :: "unit platform" where
  "demo_platform = platform_init (cf_manager demo_config)
     \<lparr>rp_executions = [], rp_faults = [], rp_recoveries = [], rp_calls = 0, rp_fails = (\<lambda>_. None), rp_unique = (\<lambda>_. [])\<rparr> demo_env demo_fs"

theorem run_is_recorded_and_diagnosed_witness:
  "\<exists>r s' x out s2. run_platform demo_platform_lib demo_run_request demo_platform = (r, s')
     \<and> run_recorded r (pf_repo demo_platform) (pf_repo s') \<and> execution_named ''e1'' (pf_repo s') = Some x \<and> row_of_result r x
     \<and> analyze_and_heal demo_config [] (Inr x) (pf_repo s', pf_env s') = (Inr out, s2) \<and> diagnosed r out"
proof -
  have "''e1'' \<noteq> []" "fresh ''e1'' (pf_repo demo_platform)" "faults_of ''e1'' (pf_repo demo_platform) = []"
    by (simp_all add: fresh_def db_works_def demo_platform_def platform_init_def faults_of_def execution_named_def)
  note run = run_is_recorded_and_diagnosed [OF this, where lib = demo_platform_lib and q = demo_run_request and df = demo_frame
      and cf = demo_config and events = "[]"]
  have q: "demo_run_request\<lparr>rq_execution_id := Some ''e1'', rq_frame := Some demo_frame\<rparr> = demo_run_request"
    by (simp add: demo_run_request_def)
  obtain r s' where r: "run_platform demo_platform_lib demo_run_request demo_platform = (r, s')" by (metis surj_pair)
  note run = run [unfolded q r prod.case]
  then obtain x where x: "execution_named ''e1'' (pf_repo s') = Some x" by (auto split: option.splits)
  obtain h s2 where h: "analyze_and_heal demo_config [] (Inr x) (pf_repo s', pf_env s') = (h, s2)" by (metis surj_pair)
  from run [unfolded x option.case h prod.case] r x h show ?thesis by (cases h) auto
qed

end
