(* ===== verification/PlatformTraining.thy ===== *)
theory PlatformTraining
  imports PlatformRun
begin

text \<open>
  What a platform run (\<open>core/platform/orchestrator.py\<close>) trains on: the frame after the leakage filter,
  the training result and the artifact that is built of it, and the fate of the strategies that
  need an identifier.
\<close>

subsection \<open>The leakage filter\<close>

lemma filtered_columns:
  "frame_columns (apply_leakage_filter df rep target) = filter (\<lambda>c. c = target \<or> c \<notin> set (lr_risky rep)) (frame_columns df)"
  by (auto simp: apply_leakage_filter_def frame_columns_def keep_columns_def filter_map o_def intro!: arg_cong [where f = "map fst"] filter_cong)

lemma profile_columns: "column_names (frame_profile_of lib df) = frame_columns df"
  by (simp add: column_names_def frame_profile_of_def profile_of_description_def describe_frame_def column_profile.truncate_def o_def)

lemma risky_columns:
  "set (lr_risky (analyze_leakage h p (Some target))) = {c \<in> set (column_names p). c \<noteq> target \<and> column_risk h (Some target) c \<noteq> None}"
  by (auto simp: analyze_leakage_def Let_def)

definition leakage_safe :: "hash \<Rightarrow> string \<Rightarrow> dataset \<Rightarrow> bool" where
  "leakage_safe h target df \<longleftrightarrow> list_all (\<lambda>c. c = target \<or> column_risk h (Some target) c = None) (frame_columns df)"

lemma filter_is_safe:
  "leakage_safe (pb_hash lib) target
     (apply_leakage_filter df (pn_leakage (plan_run (pb_hash lib) (frame_profile_of lib df) target task)) target)"
  by (auto simp: leakage_safe_def filtered_columns plan_run_def risky_columns profile_columns list_all_iff)

subsection \<open>Training in a run\<close>

text \<open>What holds of a training result, of the frame it was trained on and of the artifact of it\<close>

definition artifact_of :: "training_result \<Rightarrow> 'p fitted \<Rightarrow> dataset \<Rightarrow> string \<Rightarrow> 'p model_artifact option \<Rightarrow> bool" where
  "artifact_of r fitted df target artifact \<longleftrightarrow>
     (case artifact of
        None \<Rightarrow> \<not> truthy_str (tr_best_name r)
      | Some a \<Rightarrow>
          tr_best_name r = Some (ma_model_name a) \<and> ma_pipeline a = fitted_pipeline (ma_model_name a) fitted \<and> ma_pipeline a \<noteq> None
          \<and> ma_target_column a = target \<and> ma_feature_columns a = filter (\<lambda>c. c \<noteq> target) (frame_columns df)
          \<and> (\<exists>e \<in> set (tr_evaluations r). me_model_name e = ma_model_name a \<and> me_metrics e = ma_metrics a))"

definition trained_safely ::
  "'p platform_lib \<Rightarrow> dataset \<Rightarrow> run_plan \<Rightarrow> string list \<Rightarrow> training_result \<Rightarrow> 'p model_artifact option \<Rightarrow> 'p fitted \<Rightarrow> bool" where
  "trained_safely lib df rp names r artifact fitted \<longleftrightarrow>
     (let safe = apply_leakage_filter df (pn_leakage rp) (pn_target rp)
      in leakage_safe (pb_hash lib) (pn_target rp) safe \<and> faithful_result names fitted r
       \<and> (\<exists>q before. q \<in> {training_request rp, fallback_request}
            \<and> honest_training (pb_split lib) (pb_training lib) safe (pn_target rp) (pn_task rp) names q before (r, fitted))
       \<and> artifact_of r fitted safe (pn_target rp) artifact)"

lemma train_stage_result:
  assumes "train_stage lib safe rp names fitted = (Inr r, w, fitted')"
  shows "\<exists>q before. q \<in> {training_request rp, fallback_request}
    \<and> train_and_evaluate (pb_split lib) (pb_training lib) safe (pn_target rp) (pn_task rp) names q before = (Inr r, fitted')"
  using assms by (fastforce simp: train_stage_def Let_def split: prod.splits sum.splits if_splits)

lemma faithful_best:
  "faithful_result names fitted r \<Longrightarrow> tr_best_name r = Some b \<Longrightarrow>
     (\<exists>e \<in> set (tr_evaluations r). me_model_name e = b) \<and> fitted_pipeline b fitted \<noteq> None"
  by (auto simp: faithful_result_def)

lemma build_artifact_of:
  assumes "build_artifact eid rp r (filter (\<lambda>x. x \<noteq> pn_target rp) (frame_columns safe)) fp ck s = (a, s')"
    and "faithful_result names (pf_fitted s) r"
  shows "artifact_of r (pf_fitted s) safe (pn_target rp) a \<and> pf_fitted s' = pf_fitted s"
proof (cases "truthy_str (tr_best_name r)")
  case False
  with assms(1) show ?thesis by (auto simp: build_artifact_def artifact_of_def)
next
  case True
  then obtain b where b: "tr_best_name r = Some b" by (auto simp: truthy_str_def split: option.splits)
  from faithful_best [OF assms(2) b] obtain e where e: "find (\<lambda>e. Some (me_model_name e) = tr_best_name r) (tr_evaluations r) = Some e"
    by (cases "find (\<lambda>e. Some (me_model_name e) = tr_best_name r) (tr_evaluations r)") (auto simp: find_None_iff b)
  have "e \<in> set (tr_evaluations r)" "me_model_name e = b"
    using find_mem [OF e] by (simp_all add: b)
  moreover from True assms(1) have "a = Some \<lparr>ma_model_name = b, ma_task_type = pn_task rp, ma_execution_id = eid,
      ma_pipeline = fitted_pipeline b (pf_fitted s), ma_feature_columns = filter (\<lambda>x. x \<noteq> pn_target rp) (frame_columns safe),
      ma_target_column = pn_target rp, ma_metrics = me_metrics e, ma_validation_strategy = vs_strategy (pn_strategy rp),
      ma_fingerprint = fp, ma_checkpoint_id = ck, ma_trained_at = fst (read_clock s), ma_metadata = [],
      ma_integrity_status = ''unverified''\<rparr>" "s' = snd (read_clock s)"
    by (auto simp: build_artifact_def e [unfolded b, simplified] b split_beta Let_def)
  ultimately show ?thesis
    using faithful_best [OF assms(2) b] b by (auto simp: artifact_of_def read_clock_def split_beta)
qed

lemma train_run_safe:
  assumes "train_run lib q eid df rp names s = (Inr (r, a, path, al), w, s')" and "lib_laws (pb_split lib)"
    and "leakage_safe (pb_hash lib) (pn_target rp) (apply_leakage_filter df (pn_leakage rp) (pn_target rp))"
  shows "trained_safely lib df rp names r a (pf_fitted s')"
proof -
  define safe where "safe = apply_leakage_filter df (pn_leakage rp) (pn_target rp)"
  define fp where "fp = df_fingerprint lib df"
  obtain trained w1 fitted where t: "train_stage lib safe rp names (pf_fitted s) = (trained, w1, fitted)" by (metis surj_pair)
  note run = assms(1) [unfolded train_run_def Let_def safe_def [symmetric] fp_def [symmetric] t prod.case]
  have "\<exists>r'. trained = Inr r'"
  proof (cases trained)
    case (Inl e)
    from run [unfolded this sum.case] show ?thesis by simp
  qed simp
  then obtain r' where r': "trained = Inr r'" ..
  obtain c s2 where c: "make_checkpoint lib eid ''training'' [(''best_model'', opt_str (tr_best_name r')),
      (''best_score'', opt_float (tr_best_score r')), (''fingerprint'', PStr fp)] (s\<lparr>pf_fitted := fitted\<rparr>) = (c, s2)"
    by (metis surj_pair)
  have s2: "pf_fitted s2 = fitted" using c by (auto simp: make_checkpoint_def split_beta)
  note run = run [unfolded r' sum.case c prod.case]
  have "\<exists>k. c = Inr k"
  proof (cases c)
    case (Inl e)
    from run [unfolded this sum.case] show ?thesis by simp
  qed simp
  then obtain k where k: "c = Inr k" ..
  obtain b s4 where b: "build_artifact eid rp r' (filter (\<lambda>x. x \<noteq> pn_target rp) (frame_columns safe)) fp (Some (ck_checkpoint_id k))
      (monitor_stage lib eid (pn_task rp) r' s2) = (b, s4)"
    by (metis surj_pair)
  obtain p w2 s5 where p: "persist_artifact lib (rq_save q) eid b s4 = (p, w2, s5)" by (metis surj_pair)
  have s5: "pf_fitted s5 = pf_fitted s4"
    using p by (auto simp: persist_artifact_def Let_def split: option.splits if_splits prod.splits)
  have s3: "pf_fitted (monitor_stage lib eid (pn_task rp) r' s2) = fitted"
    by (simp add: monitor_stage_def on_monitor_def split_beta s2 split: option.split)
  from run [unfolded k sum.case b prod.case p] have res: "r = r'" "a = b" "pf_fitted s' = pf_fitted s5"
    by (auto simp: drain_def)
  obtain q0 before where q0: "q0 \<in> {training_request rp, fallback_request}"
      "train_and_evaluate (pb_split lib) (pb_training lib) safe (pn_target rp) (pn_task rp) names q0 before = (Inr r, fitted)"
    using train_stage_result [OF t [unfolded r']] unfolding res(1) by blast
  then have honest: "faithful_result names fitted r"
      "honest_training (pb_split lib) (pb_training lib) safe (pn_target rp) (pn_task rp) names q0 before (r, fitted)"
    using train_and_evaluate_honest [OF assms(2), where ml = "pb_training lib" and df = safe and target = "pn_target rp" and task = "pn_task rp"
        and candidates = names and q = q0 and fitted = before] by simp_all
  have "artifact_of r fitted safe (pn_target rp) a \<and> pf_fitted s4 = fitted"
    using build_artifact_of [OF b] honest(1) res by (simp add: s3)
  with honest q0(1) assms(3) res s5 show ?thesis
    by (auto simp: trained_safely_def safe_def [symmetric] Let_def)
qed

text \<open>The plan and the names that reach the training\<close>

definition planned_run :: "'p platform_lib \<Rightarrow> dataset \<Rightarrow> 'p run_stages \<Rightarrow> run_plan \<Rightarrow> string list \<Rightarrow> bool" where
  "planned_run lib df st rp names \<longleftrightarrow>
     rp = plan_run (pb_hash lib) (frame_profile_of lib df) (pn_target rp) (pn_task rp)
     \<and> sg_leakage st = Some (pn_leakage rp) \<and> sg_strategy st = Some (pn_strategy rp)
     \<and> names \<noteq> [] \<and> (\<exists>task cs. sg_candidates st = Some (task, cs) \<and> prefix names (map mc_name cs))"

lemma limit_candidates_prefix: "limit_candidates limit names = Inr ns \<Longrightarrow> ns \<noteq> [] \<and> prefix ns names"
  by (auto simp: limit_candidates_def take_is_prefix split: option.splits if_splits)

lemma plan_stage_planned:
  assumes "plan_stage lib q df c = (Inr (Inr (rp, names)), st, w)"
  shows "planned_run lib df st rp names \<and> sg_training st = None \<and> sg_artifact st = None"
  using assms limit_candidates_prefix
  by (fastforce simp: plan_stage_def planned_run_def plan_run_def Let_def no_stages_def split: option.splits sum.splits)

lemma plan_stage_untrained: "plan_stage lib q df c = (p, st, w) \<Longrightarrow> sg_training st = None \<and> sg_artifact st = None"
  by (auto simp: plan_stage_def Let_def no_stages_def split: option.splits sum.splits)

lemma planned_safe:
  "planned_run lib df st rp names \<Longrightarrow> leakage_safe (pb_hash lib) (pn_target rp) (apply_leakage_filter df (pn_leakage rp) (pn_target rp))"
  using filter_is_safe [where lib = lib and df = df and target = "pn_target rp" and task = "pn_task rp"]
  by (simp add: planned_run_def)

text \<open>What a result says of the training\<close>

definition run_trained :: "'p platform_lib \<Rightarrow> dataset option \<Rightarrow> 'p orchestrator_result \<Rightarrow> 'p fitted \<Rightarrow> bool" where
  "run_trained lib frame r fitted \<longleftrightarrow>
     (case sg_training (ot_stages r) of
        None \<Rightarrow> \<not> ot_success r \<and> sg_artifact (ot_stages r) = None
      | Some tr \<Rightarrow>
          (\<exists>df rp names. frame = Some df \<and> planned_run lib df (ot_stages r) rp names
             \<and> trained_safely lib df rp names tr (sg_artifact (ot_stages r)) fitted
             \<and> (ot_success r \<longleftrightarrow> tr_best_name tr \<noteq> None)))"

lemma untrained_run:
  "raise_run eid path fp e w t s = (r, s') \<Longrightarrow> run_trained lib frame r fitted"
  "fail_run eid path fp st m w t s = (r, s') \<Longrightarrow> sg_training st = None \<and> sg_artifact st = None \<Longrightarrow> run_trained lib frame r fitted"
  by (auto simp: raise_run_def fail_run_def run_result_def run_trained_def no_stages_def split_beta Let_def)

lemma complete_run_trained:
  assumes "complete_run eid path fp st rp (tr, a, saved, al) w t s = (r, s')" and "planned_run lib df st rp names"
    and "trained_safely lib df rp names tr a (pf_fitted s)"
  shows "run_trained lib (Some df) r (pf_fitted s')"
proof -
  note run = assms(1) [unfolded complete_run_def Let_def prod.case]
  note parts = run_result_parts [OF run]
  have "pf_fitted s' = pf_fitted s"
    using run by (auto simp: run_result_def read_clock_def on_store_def split_beta)
  with parts assms(2,3) show ?thesis
    by (auto simp: run_trained_def planned_run_def)
qed

lemma run_frame_trained:
  assumes "run_frame lib q eid t df s = (r, s')" and "lib_laws (pb_split lib)"
  shows "run_trained lib (Some df) r (pf_fitted s')"
proof -
  let ?path = "rq_dataset_path q" and ?fp = "df_fingerprint lib df"
  obtain w0 s1 where st: "start_execution eid ?path ?fp s = (w0, s1)" by (metis surj_pair)
  obtain c s2 where c: "characterize_stage lib eid ?path df s1 = (c, s2)" by (metis surj_pair)
  note run = assms(1) [unfolded run_frame_def Let_def st c prod.case]
  show ?thesis
  proof (cases c)
    case (Inl e)
    with run untrained_run(1) show ?thesis by simp
  next
    case (Inr ch)
    obtain p st w1 where p: "plan_stage lib q df ch = (p, st, w1)" by (metis surj_pair)
    note run = run [unfolded Inr sum.case p prod.case]
    consider (raised) e where "p = Inl e" | (refused) m where "p = Inr (Inl m)" | (planned) rp names where "p = Inr (Inr (rp, names))"
      by (metis old.prod.exhaust sum.exhaust_sel)
    then show ?thesis
    proof cases
      case raised
      with run untrained_run(1) show ?thesis by simp
    next
      case refused
      with run untrained_run(2) plan_stage_untrained [OF p] show ?thesis by simp
    next
      case planned
      obtain tr w2 s3 where tr: "train_run lib q eid df rp names s2 = (tr, w2, s3)" by (metis surj_pair)
      note ok = plan_stage_planned [OF p [unfolded planned]]
      show ?thesis
      proof (cases tr)
        case (Inl e)
        with run planned tr untrained_run(1) show ?thesis by simp
      next
        case (Inr x)
        obtain tres a saved al where x: "x = (tres, a, saved, al)" by (metis surj_pair)
        have "trained_safely lib df rp names tres a (pf_fitted s3)"
          using train_run_safe [OF tr [unfolded Inr x] assms(2)] ok planned_safe by blast
        then show ?thesis
          using run planned tr Inr x ok complete_run_trained [where rp = rp and names = names and a = a and st = st] by simp
      qed
    qed
  qed
qed

text \<open>
  C21: A run never trains on a column that the leakage detector names. Every result that carries a
  training result planned the frame it was given - its roles, its leakage and its strategy, with
  candidates of the generator in their order - and trained on the frame without the risky columns,
  with the strategy of the plan or with the random one; the evaluation is honest in the sense of the
  trainer, and the artifact, when there is one, holds the pipeline and the metrics of the best model
  and the columns of that frame. Without a training result the run is a failure. Assumed are the laws of the
  shufflers.
\<close>

theorem run_trains_without_leakage:
  assumes "lib_laws (pb_split lib)"
  shows "case run_platform lib q s of (r, s') \<Rightarrow> run_trained lib (rq_frame q) r (pf_fitted s')"
proof -
  obtain r s' where run: "run_platform lib q s = (r, s')" by (metis surj_pair)
  obtain eid e where eid: "given_or_uuid (rq_execution_id q) (pf_env s) = (eid, e)" by (metis surj_pair)
  obtain t s1 where t: "read_clock (s\<lparr>pf_env := e\<rparr>) = (t, s1)" by (metis surj_pair)
  note run' = run [unfolded run_platform_def Let_def eid prod.case t]
  have "run_trained lib (rq_frame q) r (pf_fitted s')"
  proof (cases "rq_frame q")
    case None
    from run' [unfolded None option.case] show ?thesis
      unfolding None by (rule untrained_run(2)) (simp add: no_stages_def)
  next
    case (Some df)
    with run' run_frame_trained assms show ?thesis by simp
  qed
  with run show ?thesis by simp
qed

theorem run_trains_without_leakage_witness:
  "case run_platform demo_platform_lib demo_run_request demo_platform of
     (r, s') \<Rightarrow> run_trained demo_platform_lib (Some demo_frame) r (pf_fitted s')"
  using run_trains_without_leakage [where lib = demo_platform_lib and q = demo_run_request and s = demo_platform] demo_lib_laws
  by (simp add: demo_platform_lib_def demo_run_request_def)

subsection \<open>Strategies that need an identifier\<close>

lemma kept_columns_map_of: "c \<notin> set (frame_columns ds) \<Longrightarrow> map_of (ds_columns ds) c = None"
  by (simp add: frame_columns_def map_of_eq_None_iff)

lemma feature_columns:
  "frame_columns (features_and_target lib df target vals) = filter (\<lambda>c. c \<noteq> target) (frame_columns df)"
  by (auto simp: features_and_target_def keep_columns_def pick_rows_def frame_columns_def Let_def filter_map o_def split_beta
      intro!: arg_cong [where f = "map fst"] filter_cong)

lemma suffixed_is_risky: "id_suffixed (py_lower c) \<Longrightarrow> column_risk h (Some target) c \<noteq> None"
  by (auto simp: column_risk_def id_suffixed_def Let_def split: option.splits)

lemma group_hints_suffixed: "list_all id_suffixed GROUP_HINTS"
  by code_simp

text \<open>The first strategy raises, and the random one takes its place.\<close>

definition falls_back :: "'p platform_lib \<Rightarrow> dataset \<Rightarrow> run_plan \<Rightarrow> string list \<Rightarrow> 'p fitted \<Rightarrow> bool" where
  "falls_back lib safe rp names fitted \<longleftrightarrow>
     (let (r, fitted') = train_and_evaluate (pb_split lib) (pb_training lib) safe (pn_target rp) (pn_task rp) names fallback_request fitted
      in train_stage lib safe rp names fitted = (r, [''Validation strategy '' @ sq (vs_strategy (pn_strategy rp))
           @ '' was incompatible with the dataset; falling back to random_holdout.''], fitted'))"

lemma value_error_falls_back:
  assumes "\<And>X. create_split (pb_split lib) (training_request rp) (features_and_target (pb_split lib) safe (pn_target rp) X) \<in> range (Inl \<circ> value_error)"
  shows "falls_back lib safe rp names fitted"
proof -
  have "\<exists>m. train_and_evaluate (pb_split lib) (pb_training lib) safe (pn_target rp) (pn_task rp) names (training_request rp) fitted
      = (Inl (value_error m), fitted)"
  proof (cases "map_of (ds_columns safe) (pn_target rp)")
    case None
    then show ?thesis by (intro exI [of _ "''Target column not found: '' @ pn_target rp"]) (simp add: train_and_evaluate_def)
  next
    case (Some vals)
    from assms [of vals] obtain m where
      "create_split (pb_split lib) (training_request rp) (features_and_target (pb_split lib) safe (pn_target rp) vals) = Inl (value_error m)"
      by auto
    with Some show ?thesis by (auto simp: train_and_evaluate_def Let_def)
  qed
  then obtain m where m: "train_and_evaluate (pb_split lib) (pb_training lib) safe (pn_target rp) (pn_task rp) names (training_request rp) fitted
      = (Inl (value_error m), fitted)" ..
  have "is_value_error (value_error m)" by (simp add: is_value_error_def value_error_def)
  then show ?thesis
    unfolding falls_back_def train_stage_def Let_def m prod.case sum.case split_beta by (simp del: append.simps)
qed

text \<open>Where the column to group by comes from: the first identifier of the role report\<close>

lemma training_group:
  assumes "sr_group (training_request (plan_run h p target task)) = Some c"
  shows "c \<in> set (column_names p) \<and> c \<noteq> target \<and> (tidy_name c \<in> set ID_EXACT_NAMES \<or> id_suffixed (tidy_name c))"
proof -
  have "c \<in> set (role_columns (detect_roles p (Some target)) R_IDENTIFIER)"
    using assms by (auto simp: training_request_def plan_run_def Let_def item_def split: if_splits)
  then obtain k where k: "k \<in> set (fp_columns p)" "c = cl_name k" "fst (detect_column (Some target) k) = R_IDENTIFIER"
    by (auto simp: role_columns_def detect_roles_def Let_def split_beta)
  then show ?thesis
    by (auto simp: column_names_def detect_column_def string_role_def Let_def split: if_splits)
qed

text \<open>
  C22: The group holdout never groups by the entity. When the names of the columns have no blanks
  around them and the plan asks for a group holdout by a column such as \<open>mine_id\<close>, that column is in
  the frame but not in what the trainer splits: the leakage filter takes every name that ends in
  \<open>_id\<close> away. So the training groups by the first identifier only if it is named exactly id, uuid,
  identifier, key or code, which is another column; in all other cases the split raises and the run
  falls back to a random holdout, with a warning.
\<close>

theorem group_holdout_never_groups_the_entity:
  assumes "list_all (\<lambda>c. tidy_name c = py_lower c) (frame_columns df)"
    and "rp = plan_run (pb_hash lib) (frame_profile_of lib df) target task" and "vs_strategy (pn_strategy rp) = ''group_holdout''"
    and "safe = apply_leakage_filter df (pn_leakage rp) target"
  shows "case vs_primary (pn_strategy rp) of
      None \<Rightarrow> False
    | Some g \<Rightarrow>
        g \<in> set (frame_columns df) \<and> g \<notin> set (frame_columns (features_and_target (pb_split lib) safe target vals))
        \<and> (if map_option tidy_name (sr_group (training_request rp)) \<in> Some ` set ID_EXACT_NAMES
           then sr_group (training_request rp) \<noteq> Some g
           else falls_back lib safe rp names fitted)"
proof -
  let ?p = "frame_profile_of lib df"
  have "strategy_sound ?p (Some target) (pn_strategy rp)"
    using select_strategy_sound by (simp add: assms(2) plan_run_def)
  then obtain g where g: "vs_primary (pn_strategy rp) = Some g" "g \<in> set (frame_columns df)" "tidy_name g \<in> set GROUP_HINTS"
    using assms(3) by (auto simp: strategy_sound_def Let_def profile_columns split: option.splits if_splits)
  have gone: "c \<notin> set (frame_columns (features_and_target (pb_split lib) safe target vals))"
    if "c \<in> set (frame_columns df)" "id_suffixed (tidy_name c)" for c vals
  proof -
    have "tidy_name c = py_lower c" using assms(1) that(1) by (auto simp: list_all_iff)
    then have "column_risk (pb_hash lib) (Some target) c \<noteq> None" using that(2) suffixed_is_risky by metis
    then show ?thesis
      using that(1) by (auto simp: feature_columns filtered_columns assms(2,4) plan_run_def risky_columns profile_columns)
  qed
  have suffixed: "id_suffixed (tidy_name g)" "tidy_name g \<notin> set ID_EXACT_NAMES"
    using g(3) group_hints_suffixed by (auto simp: list_all_iff GROUP_HINTS_def ID_EXACT_NAMES_def)
  have fallen: "falls_back lib safe rp names fitted"
    if "map_option tidy_name (sr_group (training_request rp)) \<notin> Some ` set ID_EXACT_NAMES"
  proof (rule value_error_falls_back)
    fix vals
    let ?X = "features_and_target (pb_split lib) safe (pn_target rp) vals"
    have request: "sr_strategy (training_request rp) = ''group_holdout''" "pn_target rp = target"
      by (simp_all add: training_request_def Let_def assms(3)) (simp add: assms(2) plan_run_def)
    have "\<exists>m. needed_column ?X (sr_group (training_request rp)) ''group_column is required for group_holdout.'' ''Group'' = Inl (value_error m)"
    proof (cases "sr_group (training_request rp)")
      case (Some c)
      from training_group [OF Some [unfolded assms(2)]] that Some have "c \<in> set (frame_columns df)" "id_suffixed (tidy_name c)"
        by (auto simp: profile_columns)
      from kept_columns_map_of [OF gone [OF this]] show ?thesis
        by (intro exI [of _ "''Group column not found: '' @ c"]) (simp add: needed_column_def Some request)
    qed (auto simp: needed_column_def)
    then show "create_split (pb_split lib) (training_request rp) ?X \<in> range (Inl \<circ> value_error)"
      by (auto simp: create_split_def group_split_def request)
  qed
  have "sr_group (training_request rp) = Some g \<Longrightarrow>
      map_option tidy_name (sr_group (training_request rp)) \<notin> Some ` set ID_EXACT_NAMES"
    using suffixed(2) by auto
  with fallen g gone [OF g(2) suffixed(1)] show ?thesis by auto
qed

definition demo_plan :: run_plan where
  "demo_plan = plan_run (pb_hash demo_platform_lib) (frame_profile_of demo_platform_lib demo_frame) ''grade'' ''regression''"

theorem group_holdout_never_groups_the_entity_witness:
  "vs_strategy (pn_strategy demo_plan) = ''group_holdout'' \<and> vs_primary (pn_strategy demo_plan) = Some ''mine_id''
   \<and> ''mine_id'' \<notin> set (frame_columns (features_and_target demo_lib (apply_leakage_filter demo_frame (pn_leakage demo_plan) ''grade'') ''grade'' []))
   \<and> falls_back demo_platform_lib (apply_leakage_filter demo_frame (pn_leakage demo_plan) ''grade'') demo_plan [''linear_regression''] []"
proof -
  have facts: "list_all (\<lambda>c. tidy_name c = py_lower c) (frame_columns demo_frame)"
      "vs_strategy (pn_strategy demo_plan) = ''group_holdout''" "vs_primary (pn_strategy demo_plan) = Some ''mine_id''"
      "map_option tidy_name (sr_group (training_request demo_plan)) = Some ''mine_id''" "Some ''mine_id'' \<notin> Some ` set ID_EXACT_NAMES"
    by code_simp+
  have lib: "pb_split demo_platform_lib = demo_lib" by (simp add: demo_platform_lib_def)
  show ?thesis
    using group_holdout_never_groups_the_entity [OF facts(1) demo_plan_def facts(2) refl, where vals = "[]" and fitted = "[]"
        and names = "[''linear_regression'']"] facts(2-)
    by (simp add: lib)
qed

end
