(* ===== verification/Intent.thy ===== *)
theory Intent
  imports Measures
begin

text \<open>
  Which of the engine's subjects a question is about (\<open>app/api/core/intent.py\<close>): phrases and words
  are counted for every intent and the strongest wins. Letters are ASCII.
\<close>

subsection \<open>Intents\<close>

record intent_spec =
  ip_key :: string
  ip_label :: string
  ip_phrases :: "string list"
  ip_words :: "string list"

definition INTENTS :: "intent_spec list" where
  "INTENTS =
     [\<lparr>ip_key = ''production_risk'', ip_label = ''Production risk'',
       ip_phrases = [''production forecast'', ''production plan'', ''production risk'', ''hit target'', ''meet target'', ''miss target'',
         ''production target'', ''behind plan'', ''below plan'', ''shortfall'', ''tonnes today'', ''output today'', ''how much will we produce''],
       ip_words = [''produce'', ''production'', ''forecast'', ''tonnage'', ''quota'', ''output'', ''plan'']\<rparr>,
      \<lparr>ip_key = ''equipment_risk'', ip_label = ''Equipment risk'',
       ip_phrases = [''equipment failure'', ''machine failure'', ''failure risk'', ''breakdown risk'', ''maintenance overdue'',
         ''fleet availability'', ''which machine'', ''which truck''],
       ip_words = [''truck'', ''loader'', ''excavator'', ''machine'', ''equipment'', ''fleet'', ''maintenance'', ''breakdown'', ''downtime'',
         ''servicing'']\<rparr>,
      \<lparr>ip_key = ''exploration_target'', ip_label = ''Exploration target'',
       ip_phrases = [''exploration target'', ''drill target'', ''prospectivity'', ''where should we explore'', ''which target'',
         ''target to drill'', ''ore body'', ''mineral potential''],
       ip_words = [''explore'', ''exploration'', ''drill'', ''deposit'', ''geology'', ''geochemical'', ''prospect'']\<rparr>,
      \<lparr>ip_key = ''material_flow'', ip_label = ''Material flow'',
       ip_phrases = [''material flow'', ''what is limiting'', ''limiting production'', ''where is the bottleneck'', ''stage utilisation'',
         ''stage utilization''],
       ip_words = [''bottleneck'', ''flow'', ''crusher'', ''haulage'', ''throughput'', ''stockpile'', ''constraint'']\<rparr>,
      \<lparr>ip_key = ''model_health'', ip_label = ''Model health'',
       ip_phrases = [''model drift'', ''model accuracy'', ''champion model'', ''which model is serving''],
       ip_words = [''challenger'', ''champion'', ''drift'', ''auc'', ''roc'', ''calibration'', ''retrain'']\<rparr>,
      \<lparr>ip_key = ''decision_history'', ip_label = ''Decision history'',
       ip_phrases = [''what happened last time'', ''previous decision'', ''past decision'', ''decision history'', ''did it work'',
         ''what did we do''],
       ip_words = [''decision'', ''outcome'', ''precedent'', ''history'', ''approved'', ''rejected'']\<rparr>]"

definition ambiguous_word :: "string \<Rightarrow> bool" where
  "ambiguous_word w \<longleftrightarrow>
     length (filter (\<lambda>s. w \<in> set (ip_words s)) INTENTS) > 1
     \<or> w \<in> {''target'', ''targets'', ''risk'', ''grade'', ''shift'', ''mine'', ''data''}"

definition PHRASE_WEIGHT :: rat where "PHRASE_WEIGHT = 10"
definition WORD_WEIGHT :: rat where "WORD_WEIGHT = 1"
definition MIN_SCORE :: rat where "MIN_SCORE = 1"

record classification =
  cf_intent :: string
  cf_label :: string
  cf_score :: rat
  cf_matched :: "string list"
  cf_runners_up :: "(string \<times> rat) list"
  cf_ambiguous :: bool

definition classification_as_dict :: "classification \<Rightarrow> dict" where
  "classification_as_dict c =
     [(''intent'', PStr (cf_intent c)), (''label'', PStr (cf_label c)), (''score'', PFloat (py_round 2 (cf_score c))),
      (''matched'', PList (map PStr (cf_matched c))),
      (''runners_up'', PList (map (\<lambda>(k, v). PDict [(''intent'', PStr k), (''score'', PFloat (py_round 2 v))]) (cf_runners_up c))),
      (''ambiguous'', PBool (cf_ambiguous c))]"

subsection \<open>Scores\<close>

definition is_letter :: "char \<Rightarrow> bool" where
  "is_letter c \<longleftrightarrow> (let n = (of_char c :: nat) in 97 \<le> n \<and> n \<le> 122)"

text \<open>\<open>re.findall("[a-z]+", text)\<close>: the longest runs of letters, with the run that is being read\<close>

fun letter_runs :: "string \<Rightarrow> string \<Rightarrow> string list" where
  "letter_runs run [] = (if run = [] then [] else [rev run])"
| "letter_runs run (c # cs) =
     (if is_letter c then letter_runs (c # run) cs
      else if run = [] then letter_runs [] cs else rev run # letter_runs [] cs)"

definition words_of :: "string \<Rightarrow> string list" where
  "words_of text = letter_runs [] (py_lower text)"

definition phrase_hits :: "string \<Rightarrow> intent_spec \<Rightarrow> string list" where
  "phrase_hits text s = filter (\<lambda>p. str_in p text) (ip_phrases s)"

definition word_hits :: "string list \<Rightarrow> intent_spec \<Rightarrow> string list" where
  "word_hits tokens s = filter (\<lambda>w. \<not> ambiguous_word w \<and> w \<in> set tokens) (ip_words s)"

definition intent_score :: "string \<Rightarrow> intent_spec \<Rightarrow> rat" where
  "intent_score query s =
     PHRASE_WEIGHT * of_nat (length (phrase_hits (py_lower query) s)) + WORD_WEIGHT * of_nat (length (word_hits (words_of query) s))"

definition intent_matches :: "string \<Rightarrow> intent_spec \<Rightarrow> string list" where
  "intent_matches query s =
     map (\<lambda>p. ''\"'' @ p @ ''\"'') (phrase_hits (py_lower query) s) @ word_hits (words_of query) s"

text \<open>The intents with a positive score, the strongest first and equals in their order\<close>

definition ranked_intents :: "string \<Rightarrow> intent_spec list" where
  "ranked_intents query = sort_key (\<lambda>s. - intent_score query s) (filter (\<lambda>s. intent_score query s > 0) INTENTS)"

definition classify_query :: "string \<Rightarrow> classification" where
  "classify_query query =
     (let scored = map (\<lambda>s. (ip_key s, intent_score query s)) (ranked_intents query)
      in case ranked_intents query of
           [] \<Rightarrow> \<lparr>cf_intent = ''general'', cf_label = ''General'', cf_score = 0, cf_matched = [], cf_runners_up = [], cf_ambiguous = False\<rparr>
         | best # others \<Rightarrow>
             (let score = intent_score query best
              in if score < MIN_SCORE
                 then \<lparr>cf_intent = ''general'', cf_label = ''General'', cf_score = score, cf_matched = [], cf_runners_up = take 3 scored,
                       cf_ambiguous = False\<rparr>
                 else \<lparr>cf_intent = ip_key best, cf_label = ip_label best, cf_score = score, cf_matched = intent_matches query best,
                       cf_runners_up = take 3 (tl scored),
                       cf_ambiguous = (case others of [] \<Rightarrow> False | o2 # _ \<Rightarrow> score - intent_score query o2 < WORD_WEIGHT)\<rparr>))"

subsection \<open>What wins\<close>

text \<open>Scores are whole numbers.\<close>

lemma intent_score_whole: "intent_score query s = of_nat (10 * length (phrase_hits (py_lower query) s) + length (word_hits (words_of query) s))"
  by (simp add: intent_score_def PHRASE_WEIGHT_def WORD_WEIGHT_def)

lemma intent_score_nonneg: "0 \<le> intent_score query s"
  by (simp add: intent_score_whole)

lemma whole_gap: "of_nat m - (of_nat n :: rat) < 1 \<longleftrightarrow> m \<le> n"
  by (metis of_nat_1 of_nat_add diff_less_eq of_nat_less_iff add.commute less_Suc_eq_le plus_1_eq_Suc)

lemma ranked_sorted: "ranked_intents query = best # others \<Longrightarrow>
    best \<in> set INTENTS \<and> intent_score query best > 0 \<and> list_all (\<lambda>s. intent_score query s \<le> intent_score query best) INTENTS"
proof -
  assume r: "ranked_intents query = best # others"
  have "sorted (map (\<lambda>s. - intent_score query s) (best # others))"
    unfolding r [symmetric] ranked_intents_def by simp
  moreover have s: "set (best # others) = {s \<in> set INTENTS. intent_score query s > 0}"
    unfolding r [symmetric] ranked_intents_def by simp
  ultimately have "intent_score query s \<le> intent_score query best" if "s \<in> set INTENTS" for s
    using that intent_score_nonneg [of query best] by (cases "intent_score query s > 0") auto
  moreover have "best \<in> set INTENTS \<and> intent_score query best > 0"
    using s by auto
  ultimately show ?thesis by (simp add: list_all_iff)
qed

text \<open>Intents of the same score keep their order.\<close>

lemma ranked_equals:
  assumes "m > 0"
  shows "filter (\<lambda>s. intent_score query s = m) (ranked_intents query) = filter (\<lambda>s. intent_score query s = m) INTENTS"
proof -
  let ?score = "intent_score query"
  have "filter (\<lambda>s. - ?score s = - m) (ranked_intents query) = filter (\<lambda>s. - ?score s = - m) (filter (\<lambda>s. ?score s > 0) INTENTS)"
    unfolding ranked_intents_def by (rule sort_key_stable)
  also have "\<dots> = filter (\<lambda>s. ?score s = m) INTENTS"
    unfolding filter_filter using assms by (intro filter_cong) auto
  finally show ?thesis by simp
qed

definition strongest :: "string \<Rightarrow> intent_spec \<Rightarrow> bool" where
  "strongest query s \<longleftrightarrow>
     (\<exists>before after. INTENTS = before @ s # after \<and> list_all (\<lambda>x. intent_score query x < intent_score query s) before
        \<and> list_all (\<lambda>x. intent_score query x \<le> intent_score query s) after)"

lemma ranked_strongest:
  assumes r: "ranked_intents query = best # others"
  shows "strongest query best"
proof -
  let ?m = "intent_score query best"
  note top = ranked_sorted [OF r]
  have "filter (\<lambda>s. intent_score query s = ?m) INTENTS = best # filter (\<lambda>s. intent_score query s = ?m) others"
    using ranked_equals [of ?m query] top by (simp add: r)
  then obtain us vs where uv: "INTENTS = us @ best # vs" "\<forall>u \<in> set us. intent_score query u \<noteq> ?m"
    by (auto simp: filter_eq_Cons_iff)
  moreover have "intent_score query x < ?m" if "x \<in> set us" for x
  proof -
    have "x \<in> set INTENTS" using that by (simp add: uv(1))
    with top uv(2) that show ?thesis by (auto simp: list_all_iff order_less_le)
  qed
  moreover have "intent_score query x \<le> ?m" if "x \<in> set vs" for x
  proof -
    have "x \<in> set INTENTS" using that by (simp add: uv(1))
    with top show ?thesis by (auto simp: list_all_iff)
  qed
  ultimately show ?thesis
    unfolding strongest_def list_all_iff by blast
qed

lemma ranked_ambiguous:
  assumes r: "ranked_intents query = best # others"
  shows "(case others of [] \<Rightarrow> False | o2 # _ \<Rightarrow> intent_score query best - intent_score query o2 < WORD_WEIGHT)
    \<longleftrightarrow> length (filter (\<lambda>s. intent_score query s = intent_score query best) INTENTS) > 1"
proof -
  let ?m = "intent_score query best"
  note top = ranked_sorted [OF r]
  have ties: "filter (\<lambda>s. intent_score query s = ?m) INTENTS = best # filter (\<lambda>s. intent_score query s = ?m) others"
    using ranked_equals [of ?m query] top by (simp add: r)
  have sorted: "sorted (map (\<lambda>s. - intent_score query s) (best # others))"
    unfolding r [symmetric] ranked_intents_def by simp
  show ?thesis
  proof (cases others)
    case Nil
    then show ?thesis by (simp add: ties)
  next
    case (Cons o2 rest)
    have "?m - intent_score query o2 < WORD_WEIGHT \<longleftrightarrow> ?m \<le> intent_score query o2"
      unfolding WORD_WEIGHT_def intent_score_whole whole_gap of_nat_le_iff by (rule refl)
    also have "\<dots> \<longleftrightarrow> intent_score query o2 = ?m"
      using sorted Cons by auto
    also have "\<dots> \<longleftrightarrow> filter (\<lambda>s. intent_score query s = ?m) others \<noteq> []"
      using sorted Cons by (auto simp: filter_empty_conv)
    finally show ?thesis using Cons by (simp add: ties)
  qed
qed

lemma ranked_none: "ranked_intents query = [] \<longleftrightarrow> list_all (\<lambda>s. intent_score query s = 0) INTENTS"
proof -
  have "ranked_intents query = [] \<longleftrightarrow> filter (\<lambda>s. intent_score query s > 0) INTENTS = []"
    unfolding ranked_intents_def by (metis length_0_conv length_sort)
  also have "\<dots> \<longleftrightarrow> list_all (\<lambda>s. intent_score query s = 0) INTENTS"
    using intent_score_nonneg by (auto simp: filter_empty_conv list_all_iff order.antisym not_less)
  finally show ?thesis .
qed

lemma strongest_scores: "intent_score query s > 0 \<Longrightarrow> \<not> intent_score query s < MIN_SCORE"
  unfolding MIN_SCORE_def intent_score_whole by (metis of_nat_0_less_iff of_nat_1 of_nat_less_iff less_one less_irrefl)

text \<open>What counts as evidence for an intent, said without the catalogue's counts\<close>

definition reserved :: "string \<Rightarrow> bool" where
  "reserved w \<longleftrightarrow> w \<in> {''target'', ''targets'', ''risk'', ''grade'', ''shift'', ''mine'', ''data''}"

definition evidence_for :: "string \<Rightarrow> intent_spec \<Rightarrow> nat" where
  "evidence_for query s =
     10 * length (filter (\<lambda>p. str_in p (py_lower query)) (ip_phrases s))
     + length (filter (\<lambda>w. w \<in> set (words_of query) \<and> list_all (\<lambda>x. x = s \<or> w \<notin> set (ip_words x)) INTENTS
         \<and> \<not> reserved w) (ip_words s))"

lemma filter_single:
  assumes "distinct xs" "s \<in> set xs" "P s"
  shows "length (filter P xs) > 1 \<longleftrightarrow> \<not> list_all (\<lambda>x. x = s \<or> \<not> P x) xs"
proof -
  have "length (filter P xs) = card {x \<in> set xs. P x}"
    using assms(1) by (metis distinct_card distinct_filter set_filter)
  then have "\<not> length (filter P xs) > 1 \<longleftrightarrow> card {x \<in> set xs. P x} \<le> Suc 0"
    by linarith
  also have "\<dots> \<longleftrightarrow> list_all (\<lambda>x. x = s \<or> \<not> P x) xs"
  proof -
    have "card {x \<in> set xs. P x} \<le> Suc 0 \<longleftrightarrow> (\<forall>x y. x \<in> set xs \<and> P x \<longrightarrow> y \<in> set xs \<and> P y \<longrightarrow> x = y)"
      by (subst card_le_Suc0_iff_eq) auto
    also have "\<dots> \<longleftrightarrow> (\<forall>x. x \<in> set xs \<longrightarrow> x = s \<or> \<not> P x)"
      using assms(2,3) by metis
    finally show ?thesis by (simp add: list_all_iff Ball_def)
  qed
  finally show ?thesis by blast
qed

lemma intents_distinct: "distinct INTENTS"
proof -
  have "distinct (map ip_key INTENTS)" by (simp add: INTENTS_def)
  then show ?thesis by (simp add: distinct_map)
qed

lemma word_counts:
  assumes "s \<in> set INTENTS" "w \<in> set (ip_words s)"
  shows "\<not> ambiguous_word w \<longleftrightarrow> list_all (\<lambda>x. x = s \<or> w \<notin> set (ip_words x)) INTENTS
    \<and> \<not> reserved w"
  using filter_single [OF intents_distinct assms(1), of "\<lambda>x. w \<in> set (ip_words x)"] assms(2)
  unfolding ambiguous_word_def reserved_def [symmetric] by simp

lemma intent_score_evidence: "s \<in> set INTENTS \<Longrightarrow> intent_score query s = of_nat (evidence_for query s)"
proof -
  assume s: "s \<in> set INTENTS"
  have "word_hits (words_of query) s = filter (\<lambda>w. w \<in> set (words_of query) \<and> list_all (\<lambda>x. x = s \<or> w \<notin> set (ip_words x)) INTENTS
         \<and> \<not> reserved w) (ip_words s)"
    unfolding word_hits_def
  proof (rule filter_cong [OF refl])
    fix w assume "w \<in> set (ip_words s)"
    from word_counts [OF s this]
    show "\<not> ambiguous_word w \<and> w \<in> set (words_of query)
        \<longleftrightarrow> w \<in> set (words_of query) \<and> list_all (\<lambda>x. x = s \<or> w \<notin> set (ip_words x)) INTENTS \<and> \<not> reserved w"
      by blast
  qed
  then show ?thesis
    unfolding intent_score_whole evidence_for_def phrase_hits_def by simp
qed

definition best_supported :: "string \<Rightarrow> intent_spec \<Rightarrow> bool" where
  "best_supported query s \<longleftrightarrow>
     (\<exists>before after. INTENTS = before @ s # after \<and> list_all (\<lambda>x. evidence_for query x < evidence_for query s) before
        \<and> list_all (\<lambda>x. evidence_for query x \<le> evidence_for query s) after)"

lemma strongest_supported: "strongest query s \<Longrightarrow> best_supported query s"
proof -
  assume "strongest query s"
  then obtain us vs where uv: "INTENTS = us @ s # vs" and u: "list_all (\<lambda>x. intent_score query x < intent_score query s) us"
    and v: "list_all (\<lambda>x. intent_score query x \<le> intent_score query s) vs"
    unfolding strongest_def by blast
  have "intent_score query x = of_nat (evidence_for query x)" if "x \<in> insert s (set us \<union> set vs)" for x
    using that by (intro intent_score_evidence) (auto simp: uv)
  with uv u v show ?thesis
    unfolding best_supported_def by (intro exI [of _ us] exI [of _ vs]) (simp add: list_all_iff)
qed

lemma none_supported: "list_all (\<lambda>s. intent_score query s = 0) INTENTS \<longleftrightarrow> list_all (\<lambda>s. evidence_for query s = 0) INTENTS"
  by (simp add: list_all_iff intent_score_evidence)

lemma ties_supported:
  "s \<in> set INTENTS \<Longrightarrow> filter (\<lambda>x. intent_score query x = intent_score query s) INTENTS
     = filter (\<lambda>x. evidence_for query x = evidence_for query s) INTENTS"
  by (rule filter_cong [OF refl]) (simp add: intent_score_evidence)

lemma classifier_general:
  "ranked_intents query = [] \<Longrightarrow> classify_query query
     = \<lparr>cf_intent = ''general'', cf_label = ''General'', cf_score = 0, cf_matched = [], cf_runners_up = [], cf_ambiguous = False\<rparr>"
  by (simp add: classify_query_def Let_def)

lemma classifier_answer:
  "ranked_intents query = best # others \<Longrightarrow> \<not> intent_score query best < MIN_SCORE \<Longrightarrow> classify_query query
     = \<lparr>cf_intent = ip_key best, cf_label = ip_label best, cf_score = intent_score query best, cf_matched = intent_matches query best,
        cf_runners_up = take 3 (map (\<lambda>s. (ip_key s, intent_score query s)) others),
        cf_ambiguous = (case others of [] \<Rightarrow> False | o2 # _ \<Rightarrow> intent_score query best - intent_score query o2 < WORD_WEIGHT)\<rparr>"
  by (simp add: classify_query_def Let_def)

text \<open>
  C40: The classifier answers with the strongest evidence. A question that no phrase and no
  unambiguous word matches is general, and only such a question is. Otherwise the intent is the
  first of those with the most evidence - ten for each phrase that the question contains, one for each
  of its words that no other intent claims and that is not reserved - with what matched, and it is
  reported as ambiguous exactly when another intent has as much.
\<close>

theorem classifier_picks_strongest:
  "let c = classify_query query in
     if list_all (\<lambda>s. evidence_for query s = 0) INTENTS
     then cf_intent c = ''general'' \<and> cf_score c = 0 \<and> cf_matched c = [] \<and> \<not> cf_ambiguous c
     else \<exists>s. best_supported query s \<and> cf_intent c = ip_key s \<and> cf_label c = ip_label s \<and> cf_score c = of_nat (evidence_for query s)
       \<and> cf_matched c = intent_matches query s
       \<and> (cf_ambiguous c \<longleftrightarrow> length (filter (\<lambda>x. evidence_for query x = evidence_for query s) INTENTS) > 1)"
proof (cases "ranked_intents query")
  case Nil
  then show ?thesis using ranked_none [of query] by (simp add: classifier_general none_supported)
next
  case (Cons best others)
  then have "\<not> list_all (\<lambda>s. evidence_for query s = 0) INTENTS" using ranked_none [of query] by (simp add: none_supported)
  moreover have "\<not> intent_score query best < MIN_SCORE" and b: "best \<in> set INTENTS"
    using ranked_sorted [OF Cons] strongest_scores by blast+
  moreover note classifier_answer [OF Cons this(1)] strongest_supported [OF ranked_strongest [OF Cons]] ranked_ambiguous [OF Cons]
  ultimately show ?thesis
    unfolding ties_supported [OF b]
    by (simp only: Let_def if_False) (intro exI [of _ best] conjI, simp_all only: intent_score_evidence [OF b] classification.select_convs)
qed

text \<open>The question that the module names as its motive\<close>

lemma exploration_question: "cf_intent (classify_query ''Which exploration target should we drill?'') = ''exploration_target''"
  by code_simp

end
