(* ===== verification/Playbooks.thy ===== *)
theory Playbooks
  imports Attention DecisionStore
begin

text \<open>
  A mine's standing responses (\<open>app/api/core/playbooks.py\<close>): triggers over the signals of the state
  engine, the playbooks that come with the platform, their table and its audit log. A JSON column
  holds what is dumped into it; which text comes first is the collation of the database.
\<close>

subsection \<open>Playbooks\<close>

record trigger_clause =
  tg_signal :: string
  tg_operator :: "string option"
  tg_value :: "rat option"
  tg_severity :: "string option"
  tg_field :: "string option"
  tg_equals :: "string option"

record playbook_step =
  ps_order :: nat
  ps_action :: string
  ps_intervention :: "string option"
  ps_owner :: "string option"
  ps_confirm :: bool

record playbook =
  bk_ref :: string
  bk_name :: string
  bk_incident :: string
  bk_description :: "string option"
  bk_mine_id :: "string option"
  bk_trigger :: "trigger_clause list"
  bk_steps :: "playbook_step list"
  bk_procedure :: "string option"
  bk_active :: bool
  bk_created_by :: string

definition clause_as_dict :: "trigger_clause \<Rightarrow> dict" where
  "clause_as_dict c =
     [(''signal'', PStr (tg_signal c)), (''operator'', opt_str (tg_operator c)), (''value'', opt_float (tg_value c)),
      (''severity_at_least'', opt_str (tg_severity c)), (''evidence_field'', opt_str (tg_field c)), (''equals'', opt_str (tg_equals c))]"

definition step_as_dict :: "playbook_step \<Rightarrow> dict" where
  "step_as_dict s =
     [(''order'', PInt (int (ps_order s))), (''action'', PStr (ps_action s)), (''intervention_key'', opt_str (ps_intervention s)),
      (''owner'', opt_str (ps_owner s)), (''requires_confirmation'', PBool (ps_confirm s))]"

definition playbook_as_dict :: "playbook \<Rightarrow> dict" where
  "playbook_as_dict p =
     [(''playbook_ref'', PStr (bk_ref p)), (''name'', PStr (bk_name p)), (''incident_type'', PStr (bk_incident p)),
      (''description'', opt_str (bk_description p)), (''mine_id'', opt_str (bk_mine_id p)),
      (''scope'', PStr (if truthy_str (bk_mine_id p) then ''this mine'' else ''all mines'')),
      (''trigger'', PList (map (PDict \<circ> clause_as_dict) (bk_trigger p))), (''steps'', PList (map (PDict \<circ> step_as_dict) (bk_steps p))),
      (''site_procedure_ref'', opt_str (bk_procedure p)), (''active'', PBool (bk_active p)), (''created_by'', PStr (bk_created_by p))]"

subsection \<open>The playbooks of the platform\<close>

definition clause :: "string \<Rightarrow> trigger_clause" where
  "clause signal = \<lparr>tg_signal = signal, tg_operator = None, tg_value = None, tg_severity = None, tg_field = None, tg_equals = None\<rparr>"

definition stage_clauses :: "string \<Rightarrow> trigger_clause list" where
  "stage_clauses stage =
     [(clause ''bottleneck'')\<lparr>tg_field := Some ''stage'', tg_equals := Some stage\<rparr>,
      (clause ''bottleneck'')\<lparr>tg_operator := Some ''gte'', tg_value := Some 85\<rparr>]"

definition step :: "nat \<Rightarrow> string \<Rightarrow> string option \<Rightarrow> string \<Rightarrow> bool \<Rightarrow> playbook_step" where
  "step n action key owner confirm =
     \<lparr>ps_order = n, ps_action = action, ps_intervention = key, ps_owner = Some owner, ps_confirm = confirm\<rparr>"

definition built_in :: "string \<Rightarrow> string \<Rightarrow> string \<Rightarrow> string \<Rightarrow> trigger_clause list \<Rightarrow> playbook_step list \<Rightarrow> playbook" where
  "built_in ref name incident description trigger acts =
     \<lparr>bk_ref = ref, bk_name = name, bk_incident = incident, bk_description = Some description, bk_mine_id = None, bk_trigger = trigger,
      bk_steps = acts, bk_procedure = None, bk_active = True, bk_created_by = ''system''\<rparr>"

definition BUILT_IN :: "playbook list" where
  "BUILT_IN =
     [built_in ''PB-PRODUCTION-GAP'' ''Production falling behind plan'' ''PRODUCTION_SHORTFALL''
        (''Production has been below plan across recent shifts. Establish which ''
         @ ''stage is binding before moving any equipment.'')
        [(clause ''production_gap'')\<lparr>tg_severity := Some ''DISRUPTION''\<rparr>]
        [step 1 ''Confirm the shortfall against the shift plan with the control room.'' None ''Shift Supervisor'' True,
         step 2 ''Identify the binding stage from the material flow analysis.'' None ''Production Engineer'' False,
         step 3 ''Recover lost operating time before committing equipment moves.'' (Some ''extend_operating_hours'') ''Shift Supervisor'' False,
         step 4 ''Reallocate haulage to the constrained stage.'' (Some ''equipment_redeploy'') ''Fleet Coordinator'' False,
         step 5 ''Record the outcome against the prediction at end of shift.'' None ''Shift Supervisor'' True],
      built_in ''PB-HAULAGE-BOTTLENECK'' ''Haulage is the binding constraint'' ''HAULAGE_BOTTLENECK''
        ''Cycle time or queueing has made haulage the limiting stage.'' (stage_clauses ''haulage'')
        [step 1 ''Confirm the queue at the loading face and at the tip.'' None ''Dispatch'' True,
         step 2 ''Check the haul road condition on the active corridor.'' None ''Dispatch'' False,
         step 3 ''Evaluate an alternative haul route.'' (Some ''fleet_reroute'') ''Dispatch'' False,
         step 4 ''Stagger departures to break up the queue.'' None ''Dispatch'' False],
      built_in ''PB-FACE-CONSTRAINT'' ''Face preparation is the binding constraint'' ''PRODUCTION_SHORTFALL''
        (''Broken ore at the face is limiting production. Moving haulage will ''
         @ ''not help: the trucks have nothing more to carry.'') (stage_clauses ''face'')
        [step 1 ''Confirm how much broken ore remains available at the face.'' None ''Production Engineer'' True,
         step 2 ''Check drill availability and the blast schedule.'' None ''Drill & Blast Engineer'' False,
         step 3 ''Bring the next blast forward if the shift window allows it.'' (Some ''blast_reschedule'') ''Drill & Blast Engineer'' False,
         step 4 ''Recover lost face time before committing equipment moves.'' (Some ''extend_operating_hours'') ''Shift Supervisor'' False],
      built_in ''PB-EQUIPMENT-RISK'' ''Fleet failure exposure is elevated'' ''EQUIPMENT_RISK''
        (''Several units are flagged for near-term failure. Inspect before ''
         @ ''redeploying, so a failing unit is not moved onto the critical path.'')
        [(clause ''equipment_risk'')\<lparr>tg_severity := Some ''WATCH''\<rparr>]
        [step 1 ''Inspect the flagged units before any reallocation.'' None ''Maintenance Manager'' True,
         step 2 ''Confirm which units are genuinely available.'' None ''Maintenance Manager'' False,
         step 3 ''Reallocate only low-risk units to the constrained stage.'' (Some ''equipment_redeploy'') ''Fleet Coordinator'' False,
         step 4 ''Schedule servicing for the flagged units in the next low-production window.'' None ''Maintenance Manager'' False]]"

subsection \<open>Triggers\<close>

definition severity_order :: "string \<Rightarrow> nat option" where
  "severity_order = map_of [(''NONE'', 0), (''WATCH'', 1), (''DISRUPTION'', 2), (''CRITICAL'', 3)]"

definition compare_with :: "string \<Rightarrow> (rat \<Rightarrow> rat \<Rightarrow> bool) option" where
  "compare_with = map_of [(''gt'', \<lambda>a b. a > b), (''gte'', \<lambda>a b. a \<ge> b), (''lt'', \<lambda>a b. a < b), (''lte'', \<lambda>a b. a \<le> b), (''eq'', \<lambda>a b. a = b)]"

text \<open>\<open>(signal.get("evidence") or {}).get(field)\<close>, which is missing when it is \<open>None\<close>\<close>

definition evidence_value :: "signal \<Rightarrow> string \<Rightarrow> pyval option" where
  "evidence_value s field = (case map_of (si_evidence s) field of Some PNone \<Rightarrow> None | v \<Rightarrow> v)"

definition severity_verdict :: "string \<Rightarrow> string \<Rightarrow> signal \<Rightarrow> bool \<times> string" where
  "severity_verdict label required s =
     (let severity = state_severity_value (si_severity s);
          actual = (case severity_order severity of None \<Rightarrow> 0 | Some n \<Rightarrow> n);
          needed = (case severity_order required of None \<Rightarrow> 99 | Some n \<Rightarrow> n); ok = actual \<ge> needed
      in (ok, label @ '' is '' @ py_lower severity @ (if ok then [] else '', below the required '' @ py_lower required)))"

definition value_verdict :: "runtime \<Rightarrow> string \<Rightarrow> string \<Rightarrow> rat \<Rightarrow> signal \<Rightarrow> bool \<times> string" where
  "value_verdict rt label op limit s =
     (case si_value s of
        None \<Rightarrow> (False, label @ '' has no measured value'')
      | Some observed \<Rightarrow>
          (case compare_with op of
             None \<Rightarrow> (False, ''unknown operator '' @ sq op)
           | Some holds \<Rightarrow>
               (holds observed limit,
                label @ '' is '' @ fmt_fixed 1 observed @ '' '' @ (if holds observed limit then [] else ''not '') @ op @ '' ''
                @ rt_str rt (PFloat limit))))"

text \<open>What a field of the evidence says against the clause\<close>

definition narrowing_refusal :: "runtime \<Rightarrow> trigger_clause \<Rightarrow> signal \<Rightarrow> string option" where
  "narrowing_refusal rt c s =
     (case tg_field c of
        None \<Rightarrow> None
      | Some field \<Rightarrow>
          (case evidence_value s field of
             None \<Rightarrow> Some (py_lower (si_label s) @ '' does not report '' @ sq field)
           | Some v \<Rightarrow>
               (case tg_equals c of
                  None \<Rightarrow> None
                | Some e \<Rightarrow> if py_str rt v \<noteq> e then Some (''the constrained stage is '' @ py_str rt v @ '', not '' @ e) else None)))"

definition evaluate_clause :: "runtime \<Rightarrow> (string \<times> signal) list \<Rightarrow> trigger_clause \<Rightarrow> bool \<times> string" where
  "evaluate_clause rt signals c =
     (case map_of (rev signals) (tg_signal c) of
        None \<Rightarrow> (False, ''signal '' @ sq (tg_signal c) @ '' is not produced for this mine'')
      | Some s \<Rightarrow>
          (let label = py_lower (si_label s)
           in case narrowing_refusal rt c s of
                Some why \<Rightarrow> (False, why)
              | None \<Rightarrow>
                  if si_mode s = INSUFFICIENT_DATA then (False, label @ '' could not be measured'')
                  else if truthy_str (tg_severity c) then severity_verdict label (the (tg_severity c)) s
                  else if truthy_str (tg_operator c) \<and> tg_value c \<noteq> None
                  then value_verdict rt label (the (tg_operator c)) (the (tg_value c)) s
                  else
                    (case tg_field c of
                       Some field \<Rightarrow> (True, label @ '' concerns '' @ py_str rt (the (evidence_value s field)))
                     | None \<Rightarrow> (False, ''the clause specifies no condition''))))"

subsection \<open>The table\<close>

record book_db =
  bd_books :: "playbook list"
  bd_audit :: "audit_entry list"

datatype book_statement = Select_Books | Upsert_Book playbook | Insert_Book_Audit audit_entry | Commit_Book

text \<open>How a statement fails on the tables, and the rank of a text in the collation\<close>

record book_source =
  bs_fails :: "book_statement \<Rightarrow> book_db \<Rightarrow> exn option"
  bs_rank :: "string \<Rightarrow> nat"

text \<open>\<open>ON CONFLICT (playbook_ref) DO UPDATE\<close> keeps who created the row.\<close>

definition upsert :: "playbook \<Rightarrow> playbook list \<Rightarrow> playbook list" where
  "upsert p ps =
     (if list_ex (\<lambda>q. bk_ref q = bk_ref p) ps
      then map (\<lambda>q. if bk_ref q = bk_ref p then p\<lparr>bk_created_by := bk_created_by q\<rparr> else q) ps
      else ps @ [p])"

definition saved_entry :: "playbook \<Rightarrow> string \<Rightarrow> string \<Rightarrow> audit_entry" where
  "saved_entry p actor role =
     \<lparr>ae_event_type = ''playbook.saved'', ae_actor_id = actor, ae_actor_role = role, ae_entity_type = ''playbook'', ae_entity_id = bk_ref p,
      ae_payload = [(''name'', PStr (bk_name p)), (''incident_type'', PStr (bk_incident p))]\<rparr>"

text \<open>Both statements in one transaction\<close>

definition save_playbook :: "book_source \<Rightarrow> playbook \<Rightarrow> string \<Rightarrow> string \<Rightarrow> book_db \<Rightarrow> dict result \<times> book_db" where
  "save_playbook src p actor role db =
     (let row = p\<lparr>bk_created_by := actor\<rparr>; audit = saved_entry p actor role in
      case bs_fails src (Upsert_Book row) db of
        Some e \<Rightarrow> (Inl e, db)
      | None \<Rightarrow>
          (let db1 = db\<lparr>bd_books := upsert row (bd_books db)\<rparr> in
           case bs_fails src (Insert_Book_Audit audit) db1 of
             Some e \<Rightarrow> (Inl e, db)
           | None \<Rightarrow>
               (let db2 = db1\<lparr>bd_audit := bd_audit db1 @ [audit]\<rparr> in
                case bs_fails src Commit_Book db2 of
                  Some e \<Rightarrow> (Inl e, db)
                | None \<Rightarrow> (Inr [(''playbook_ref'', PStr (bk_ref p)), (''saved'', PBool True)], db2))))"

text \<open>\<open>ORDER BY mine_id NULLS LAST, playbook_ref\<close>, by two stable sorts\<close>

definition book_order :: "book_source \<Rightarrow> playbook list \<Rightarrow> playbook list" where
  "book_order src ps =
     sort_key (\<lambda>p. case bk_mine_id p of None \<Rightarrow> (1 :: nat) | Some m \<Rightarrow> 0)
       (sort_key (\<lambda>p. case bk_mine_id p of None \<Rightarrow> 0 | Some m \<Rightarrow> bs_rank src m) (sort_key (\<lambda>p. bs_rank src (bk_ref p)) ps))"

definition applies_to :: "string option \<Rightarrow> playbook \<Rightarrow> bool" where
  "applies_to mine p \<longleftrightarrow> (if truthy_str mine then bk_mine_id p = mine \<or> bk_mine_id p = None else True)"

definition list_playbooks :: "book_source \<Rightarrow> string option \<Rightarrow> bool \<Rightarrow> book_db \<Rightarrow> playbook list" where
  "list_playbooks src mine include_inactive db =
     (case bs_fails src Select_Books db of
        Some e \<Rightarrow> BUILT_IN
      | None \<Rightarrow>
          (let stored = book_order src (filter (\<lambda>p. applies_to mine p \<and> (include_inactive \<or> bk_active p)) (bd_books db))
           in stored @ filter (\<lambda>p. bk_incident p \<notin> bk_incident ` set stored) BUILT_IN))"

fun seed_books :: "book_source \<Rightarrow> string \<Rightarrow> playbook list \<Rightarrow> nat \<Rightarrow> book_db \<Rightarrow> nat \<times> book_db" where
  "seed_books src actor [] saved db = (saved, db)"
| "seed_books src actor (p # ps) saved db =
     (let (answer, db') = save_playbook src p actor ''system'' db
      in seed_books src actor ps (case answer of Inl _ \<Rightarrow> saved | Inr _ \<Rightarrow> Suc saved) db')"

definition seed_built_ins :: "book_source \<Rightarrow> string \<Rightarrow> book_db \<Rightarrow> nat \<times> book_db" where
  "seed_built_ins src actor db = seed_books src actor BUILT_IN 0 db"

definition get_playbook :: "book_source \<Rightarrow> string \<Rightarrow> book_db \<Rightarrow> playbook result" where
  "get_playbook src ref db =
     (case find (\<lambda>p. bk_ref p = ref) (list_playbooks src None True db) of
        None \<Rightarrow> Inl (Exn ''InsufficientData'' (''No playbook '' @ sq ref @ '' exists.''))
      | Some p \<Rightarrow> Inr p)"

subsection \<open>Evaluation\<close>

record book_verdict =
  bv_book :: playbook
  bv_because :: "string option"

record book_evaluation =
  be_mine_id :: string
  be_state :: operational_state
  be_triggered :: "book_verdict list"
  be_dormant :: "book_verdict list"

text \<open>Whether a playbook fires, and why; without a trigger there is no verdict.\<close>

definition judge_playbook :: "runtime \<Rightarrow> (string \<times> signal) list \<Rightarrow> playbook \<Rightarrow> bool \<times> book_verdict" where
  "judge_playbook rt signals p =
     (let results = map (evaluate_clause rt signals) (bk_trigger p)
      in if bk_trigger p = [] then (False, \<lparr>bv_book = p, bv_because = None\<rparr>)
         else (list_all fst results, \<lparr>bv_book = p, bv_because = Some (py_join ''; '' (map snd results))\<rparr>))"

text \<open>The signals of a report, as they are read out of its dictionary\<close>

definition report_signals :: "state_report \<Rightarrow> (string \<times> signal) list" where
  "report_signals r = map (\<lambda>s. (si_key s, reread s)) (sp_signals r)"

definition evaluate_playbooks :: "runtime \<Rightarrow> book_source \<Rightarrow> state_report \<Rightarrow> string \<Rightarrow> book_db \<Rightarrow> book_evaluation" where
  "evaluate_playbooks rt src report mine_id db =
     (let verdicts = map (judge_playbook rt (report_signals report)) (list_playbooks src (Some mine_id) False db)
      in \<lparr>be_mine_id = mine_id, be_state = sp_state report, be_triggered = map snd (filter fst verdicts),
          be_dormant = map snd (filter (\<lambda>v. \<not> fst v) verdicts)\<rparr>)"

definition verdict_as_dict :: "bool \<Rightarrow> book_verdict \<Rightarrow> dict" where
  "verdict_as_dict fired v =
     (let p = bv_book v
      in case bv_because v of
           None \<Rightarrow> [(''playbook_ref'', PStr (bk_ref p)), (''name'', PStr (bk_name p)), (''reason'', PStr ''no trigger condition is defined'')]
         | Some why \<Rightarrow>
             [(''playbook_ref'', PStr (bk_ref p)), (''name'', PStr (bk_name p)), (''incident_type'', PStr (bk_incident p)),
              (''description'', opt_str (bk_description p)), (''because'', PStr why), (''site_procedure_ref'', opt_str (bk_procedure p))]
             @ (if fired then [(''steps'', PList (map (PDict \<circ> step_as_dict) (bk_steps p)))] else [(''reason'', PStr why)]))"

definition evaluation_as_dict :: "book_evaluation \<Rightarrow> dict" where
  "evaluation_as_dict e =
     [(''mine_id'', PStr (be_mine_id e)), (''state'', PStr (operational_value (be_state e))),
      (''triggered'', PList (map (PDict \<circ> verdict_as_dict True) (be_triggered e))),
      (''dormant'', PList (map (PDict \<circ> verdict_as_dict False) (be_dormant e))),
      (''note'', PStr (''A triggered playbook proposes steps for authorised personnel. Crucible AI ''
         @ ''does not start any of them, and where a site emergency procedure ''
         @ ''applies, that procedure takes precedence over these steps.''))]"

subsection \<open>When a playbook fires\<close>

text \<open>The specification: a condition on a measured signal, narrowed by its evidence\<close>

definition narrowing_ok :: "runtime \<Rightarrow> trigger_clause \<Rightarrow> signal \<Rightarrow> bool" where
  "narrowing_ok rt c s \<longleftrightarrow>
     (case tg_field c of
        None \<Rightarrow> True
      | Some field \<Rightarrow> (case evidence_value s field of
          None \<Rightarrow> False | Some v \<Rightarrow> tg_equals c = None \<or> tg_equals c = Some (py_str rt v)))"

text \<open>
  The one condition that a clause states, read off the clause alone: a severity takes precedence over
  a comparison, and a comparison over the mere naming of a field. A level or a relation that nobody
  knows, where it counts, is never met.
\<close>

datatype condition = Level_At_Least nat | Value_Is "rat \<Rightarrow> bool" | In_Scope | Never

definition is_given :: "string option \<Rightarrow> bool" where
  "is_given x \<longleftrightarrow> x \<noteq> None \<and> x \<noteq> Some []"

definition condition_of :: "trigger_clause \<Rightarrow> condition" where
  "condition_of c =
     (if is_given (tg_severity c)
      then (if tg_severity c = Some ''NONE'' then Level_At_Least 0
            else if tg_severity c = Some ''WATCH'' then Level_At_Least 1
            else if tg_severity c = Some ''DISRUPTION'' then Level_At_Least 2
            else if tg_severity c = Some ''CRITICAL'' then Level_At_Least 3 else Never)
      else if is_given (tg_operator c) \<and> tg_value c \<noteq> None
      then (let limit = the (tg_value c) in
            if tg_operator c = Some ''gt'' then Value_Is (\<lambda>x. limit < x)
            else if tg_operator c = Some ''gte'' then Value_Is (\<lambda>x. limit \<le> x)
            else if tg_operator c = Some ''lt'' then Value_Is (\<lambda>x. x < limit)
            else if tg_operator c = Some ''lte'' then Value_Is (\<lambda>x. x \<le> limit)
            else if tg_operator c = Some ''eq'' then Value_Is (\<lambda>x. x = limit) else Never)
      else if tg_field c \<noteq> None then In_Scope else Never)"

definition level :: "severity \<Rightarrow> nat" where
  "level v = (case v of V_NONE \<Rightarrow> 0 | V_WATCH \<Rightarrow> 1 | V_DISRUPTION \<Rightarrow> 2 | V_CRITICAL \<Rightarrow> 3)"

definition meets :: "signal \<Rightarrow> condition \<Rightarrow> bool" where
  "meets s cond \<longleftrightarrow>
     (case cond of
        Level_At_Least n \<Rightarrow> n \<le> level (si_severity s)
      | Value_Is holds \<Rightarrow> (case si_value s of None \<Rightarrow> False | Some x \<Rightarrow> holds x)
      | In_Scope \<Rightarrow> True
      | Never \<Rightarrow> False)"

definition clause_holds :: "runtime \<Rightarrow> (string \<times> signal) list \<Rightarrow> trigger_clause \<Rightarrow> bool" where
  "clause_holds rt signals c \<longleftrightarrow>
     (\<exists>s. map_of (rev signals) (tg_signal c) = Some s \<and> si_mode s \<noteq> INSUFFICIENT_DATA
        \<and> narrowing_ok rt c s \<and> meets s (condition_of c))"

lemma is_given_truthy: "is_given x = truthy_str x"
  by (auto simp: is_given_def split: option.split)

lemma level_order: "severity_order (state_severity_value v) = Some (level v)"
  by (cases v) (simp_all add: severity_order_def level_def)

lemma level_at_most: "level v \<le> 3"
  by (cases v) (simp_all add: level_def)

lemma severity_verdict_meets:
  assumes "truthy_str (tg_severity c)"
  shows "fst (severity_verdict label (the (tg_severity c)) s) = meets s (condition_of c)"
proof -
  obtain t where t: "tg_severity c = Some t" "t \<noteq> []" using assms by auto
  have "fst (severity_verdict label t s) \<longleftrightarrow> (case severity_order t of None \<Rightarrow> False | Some n \<Rightarrow> n \<le> level (si_severity s))"
    using level_at_most [of "si_severity s"] by (auto simp: severity_verdict_def level_order Let_def split: option.split)
  then show ?thesis
    by (simp add: meets_def condition_of_def is_given_def t severity_order_def)
qed

lemma value_verdict_meets:
  assumes "\<not> truthy_str (tg_severity c)" "truthy_str (tg_operator c)" "tg_value c \<noteq> None"
  shows "fst (value_verdict rt label (the (tg_operator c)) (the (tg_value c)) s) = meets s (condition_of c)"
proof -
  obtain op where op: "tg_operator c = Some op" "op \<noteq> []" using assms(2) by auto
  show ?thesis
    using assms(1,3)
    by (cases "si_value s")
      (simp_all add: value_verdict_def meets_def condition_of_def is_given_truthy op compare_with_def Let_def)
qed

lemma narrowing_refusal_None: "narrowing_refusal rt c s = None \<longleftrightarrow> narrowing_ok rt c s"
  by (auto simp: narrowing_refusal_def narrowing_ok_def split: option.splits)

lemma evaluate_clause_holds: "fst (evaluate_clause rt signals c) = clause_holds rt signals c"
proof (cases "map_of (rev signals) (tg_signal c)")
  case None
  then show ?thesis by (simp add: evaluate_clause_def clause_holds_def)
next
  case (Some s)
  show ?thesis
  proof (cases "narrowing_refusal rt c s")
    case None
    then have n: "narrowing_ok rt c s" by (simp add: narrowing_refusal_None)
    have scope: "(tg_field c \<noteq> None) = meets s (condition_of c)"
      if "\<not> truthy_str (tg_severity c)" "\<not> (truthy_str (tg_operator c) \<and> tg_value c \<noteq> None)"
      using that by (auto simp: meets_def condition_of_def is_given_truthy)
    show ?thesis
      unfolding evaluate_clause_def clause_holds_def Some option.case None Let_def
      using n severity_verdict_meets [of c _ s] value_verdict_meets [of c rt _ s] scope
      by (auto split: option.split)
  next
    case why: (Some why)
    then have "\<not> narrowing_ok rt c s" by (simp add: narrowing_refusal_None [symmetric])
    with why show ?thesis by (simp add: evaluate_clause_def clause_holds_def Some Let_def)
  qed
qed

text \<open>An operator that nobody knows does not matter beside a severity.\<close>

lemma unknown_operator_ignored:
  "fst (evaluate_clause rt [(''bottleneck'', s)]
     ((clause ''bottleneck'')\<lparr>tg_operator := Some ''between'', tg_value := Some 85, tg_severity := Some ''WATCH''\<rparr>))
   \<longleftrightarrow> si_mode s \<noteq> INSUFFICIENT_DATA \<and> si_severity s \<noteq> V_NONE"
  by (cases "si_severity s")
    (simp_all add: evaluate_clause_holds clause_holds_def clause_def narrowing_ok_def condition_of_def is_given_def meets_def level_def)

definition fires :: "runtime \<Rightarrow> (string \<times> signal) list \<Rightarrow> playbook \<Rightarrow> bool" where
  "fires rt signals p \<longleftrightarrow> bk_trigger p \<noteq> [] \<and> list_all (clause_holds rt signals) (bk_trigger p)"

lemma judge_playbook_fires: "fst (judge_playbook rt signals p) = fires rt signals p" "bv_book (snd (judge_playbook rt signals p)) = p"
  by (simp_all add: judge_playbook_def fires_def Let_def evaluate_clause_holds list_all_length)

text \<open>
  C34: Playbooks fire on measurements. Every playbook that applies to the mine is reported exactly once,
  in its order: as triggered when it has a trigger and all of its clauses hold, else as dormant. A
  clause holds exactly for a signal that the state engine produced and could measure, whose evidence has
  the field, with the value, that the clause names if it names one, and which meets the condition of
  the clause. The condition is read off the clause alone: a severity if one is given - an operator
  and a value beside it then play no part, known or not; else the comparison, if both an operator
  and a value are given; else none, beyond the evidence, if a field is named. A severity or an operator
  that nobody knows is never met where it is the condition, nor is a clause without any of the three.
\<close>

theorem playbooks_fire_on_measurements:
  "let e = evaluate_playbooks rt src report mine_id db; books = list_playbooks src (Some mine_id) False db;
       signals = report_signals report
   in map bv_book (be_triggered e) = filter (fires rt signals) books
    \<and> map bv_book (be_dormant e) = filter (\<lambda>p. \<not> fires rt signals p) books"
  by (simp add: evaluate_playbooks_def Let_def filter_map o_def judge_playbook_fires)

subsection \<open>Which playbooks apply\<close>

lemma set_book_order [simp]: "set (book_order src ps) = set ps"
  by (simp add: book_order_def)

lemma built_ins_active: "list_all bk_active BUILT_IN"
  by (simp add: BUILT_IN_def built_in_def)

text \<open>
  C35: The incident types of the platform stay covered. Whatever the table holds, whatever was saved and
  even when the table cannot be read, the playbooks that apply to a mine are active, each is a row of
  the mine or of all mines or comes with the platform, and for every kind of incident that the
  platform has a playbook for, one is among them. The platform's own copy of a built-in playbook is
  there exactly when the table cannot be read, or when the copy is itself such a row, or when no
  active row that applies has its incident type. So an inactive row does not switch off a built-in
  playbook, but an active row of the same incident type does, also one of another built-in.
\<close>

theorem incident_types_stay_covered:
  "let books = list_playbooks src mine False db; rows = filter (\<lambda>p. bk_active p \<and> applies_to mine p) (bd_books db) in
     list_all (\<lambda>p. bk_active p \<and> (if p \<in> set BUILT_IN then True else p \<in> set rows)) books
     \<and> list_all (\<lambda>b. list_ex (\<lambda>p. bk_incident p = bk_incident b) books) BUILT_IN
     \<and> list_all (\<lambda>b. (b \<in> set books) =
          (if bs_fails src Select_Books db = None \<and> bk_incident b \<in> bk_incident ` set rows
           then b \<in> set rows else True)) BUILT_IN"
proof (cases "bs_fails src Select_Books db")
  case None
  define stored where "stored = book_order src (filter (\<lambda>p. applies_to mine p \<and> bk_active p) (bd_books db))"
  have books: "list_playbooks src mine False db = stored @ filter (\<lambda>p. bk_incident p \<notin> bk_incident ` set stored) BUILT_IN"
    by (simp add: list_playbooks_def None stored_def)
  have rows: "set stored = {p \<in> set (bd_books db). applies_to mine p \<and> bk_active p}"
    by (simp add: stored_def)
  have A: "bk_active p \<and> (if p \<in> set BUILT_IN then True else p \<in> set stored)"
    if "p \<in> set (list_playbooks src mine False db)" for p
    using that built_ins_active rows by (auto simp: books list_all_iff)
  have B: "\<exists>p \<in> set (list_playbooks src mine False db). bk_incident p = bk_incident b" if "b \<in> set BUILT_IN" for b
    using that by (cases "bk_incident b \<in> bk_incident ` set stored") (auto simp: books)
  have r: "set (filter (\<lambda>p. bk_active p \<and> applies_to mine p) (bd_books db)) = set stored"
    using rows by auto
  have C: "(b \<in> set (list_playbooks src mine False db)) = (b \<in> set stored \<or> bk_incident b \<notin> bk_incident ` set stored)"
    if "b \<in> set BUILT_IN" for b
    using that by (auto simp: books)
  show ?thesis
    unfolding Let_def list_all_iff list_ex_iff r
    by (intro conjI ballI) (use A in blast, use A in blast, use B in blast, use C None in auto)
next
  case (Some e)
  then have "list_playbooks src mine False db = BUILT_IN" by (simp add: list_playbooks_def)
  then show ?thesis
    using built_ins_active Some by (auto simp: Let_def list_all_iff list_ex_iff)
qed

subsection \<open>Saving\<close>

definition unique_refs :: "book_db \<Rightarrow> bool" where
  "unique_refs db \<longleftrightarrow> distinct (map bk_ref (bd_books db))"

lemma find_unique:
  assumes "x \<in> set xs" and "P x" and "\<And>y. y \<in> set xs \<Longrightarrow> P y \<Longrightarrow> y = x"
  shows "find P xs = Some x"
proof (cases "find P xs")
  case None
  with assms(1,2) show ?thesis by (auto simp: find_None_iff)
next
  case (Some y)
  then have "y \<in> set xs \<and> P y" by (auto simp: find_Some_iff)
  with Some assms(3) show ?thesis by simp
qed

lemma upsert_refs: "map bk_ref (upsert p ps) = (if bk_ref p \<in> bk_ref ` set ps then map bk_ref ps else map bk_ref ps @ [bk_ref p])"
  by (auto simp: upsert_def list_ex_iff rev_image_eqI)

definition creator :: "playbook list \<Rightarrow> playbook \<Rightarrow> string" where
  "creator ps p = (case find (\<lambda>q. bk_ref q = bk_ref p) ps of None \<Rightarrow> bk_created_by p | Some q \<Rightarrow> bk_created_by q)"

lemma upsert_row:
  assumes "distinct (map bk_ref ps)"
  shows "p\<lparr>bk_created_by := creator ps p\<rparr> \<in> set (upsert p ps)"
    and "q \<in> set (upsert p ps) \<Longrightarrow> bk_ref q = bk_ref p \<Longrightarrow> q = p\<lparr>bk_created_by := creator ps p\<rparr>"
proof -
  have found: "creator ps p = bk_created_by q" if "q \<in> set ps" "bk_ref q = bk_ref p" for q
  proof -
    have "find (\<lambda>r. bk_ref r = bk_ref p) ps = Some q"
      using that assms by (intro find_unique) (auto simp: distinct_map inj_on_def)
    then show ?thesis by (simp add: creator_def)
  qed
  show "p\<lparr>bk_created_by := creator ps p\<rparr> \<in> set (upsert p ps)"
  proof (cases "list_ex (\<lambda>q. bk_ref q = bk_ref p) ps")
    case True
    then obtain q where "q \<in> set ps" "bk_ref q = bk_ref p" by (auto simp: list_ex_iff)
    with found [OF this] True show ?thesis by (force simp: upsert_def)
  next
    case False
    then have "find (\<lambda>q. bk_ref q = bk_ref p) ps = None" by (auto simp: list_ex_iff find_None_iff)
    then have "creator ps p = bk_created_by p" by (simp add: creator_def)
    with False show ?thesis by (simp add: upsert_def)
  qed
  show "q = p\<lparr>bk_created_by := creator ps p\<rparr>" if "q \<in> set (upsert p ps)" "bk_ref q = bk_ref p" for q
  proof (cases "list_ex (\<lambda>q. bk_ref q = bk_ref p) ps")
    case True
    with that found show ?thesis by (auto simp: upsert_def split: if_splits)
  next
    case False
    then have "find (\<lambda>q. bk_ref q = bk_ref p) ps = None" by (auto simp: list_ex_iff find_None_iff)
    then have "creator ps p = bk_created_by p" by (simp add: creator_def)
    with False that show ?thesis by (auto simp: upsert_def list_ex_iff)
  qed
qed

lemma save_playbook_cases:
  assumes "save_playbook src p actor role db = (r, db')"
  shows "case r of
      Inl _ \<Rightarrow> db' = db
    | Inr _ \<Rightarrow> db' = \<lparr>bd_books = upsert (p\<lparr>bk_created_by := actor\<rparr>) (bd_books db), bd_audit = bd_audit db @ [saved_entry p actor role]\<rparr>"
  using assms by (auto simp: save_playbook_def Let_def split: option.splits)

text \<open>
  Saving a playbook is atomic, audited and can be read back. Either nothing changes, or one row and
  one entry of the audit log are written: the references stay unique, no other row changes, the
  playbook is found under its reference - when the table can be read - with everything that was saved,
  active or not, and with the person who created the row, which a later save does not change.
\<close>

theorem saved_playbook_is_found:
  assumes "unique_refs db"
  shows "case save_playbook src p actor role db of
      (Inl _, db') \<Rightarrow> db' = db
    | (Inr _, db') \<Rightarrow>
        unique_refs db' \<and> bd_audit db' = bd_audit db @ [saved_entry p actor role]
        \<and> filter (\<lambda>q. bk_ref q \<noteq> bk_ref p) (bd_books db') = filter (\<lambda>q. bk_ref q \<noteq> bk_ref p) (bd_books db)
        \<and> (if bs_fails src Select_Books db' = None
           then get_playbook src (bk_ref p) db'
             = Inr (p\<lparr>bk_created_by := creator (bd_books db) (p\<lparr>bk_created_by := actor\<rparr>)\<rparr>)
           else True)"
proof -
  obtain r db' where s: "save_playbook src p actor role db = (r, db')" by (metis surj_pair)
  show ?thesis
  proof (cases r)
    case (Inl e)
    with save_playbook_cases [OF s] s show ?thesis by simp
  next
    case (Inr d)
    let ?row = "p\<lparr>bk_created_by := actor\<rparr>"
    let ?saved = "p\<lparr>bk_created_by := creator (bd_books db) ?row\<rparr>"
    have db': "bd_books db' = upsert ?row (bd_books db)" "bd_audit db' = bd_audit db @ [saved_entry p actor role]"
      using save_playbook_cases [OF s] Inr by simp_all
    note refs = assms [unfolded unique_refs_def]
    have unique: "unique_refs db'"
      using refs by (simp add: unique_refs_def db' upsert_refs)
    have others: "filter (\<lambda>q. bk_ref q \<noteq> bk_ref p) (bd_books db') = filter (\<lambda>q. bk_ref q \<noteq> bk_ref p) (bd_books db)"
    proof -
      have "filter (\<lambda>q. bk_ref q \<noteq> bk_ref p) (map (\<lambda>q. if bk_ref q = bk_ref p then f q else q) ps) = filter (\<lambda>q. bk_ref q \<noteq> bk_ref p) ps"
        if "\<And>q. bk_ref (f q) = bk_ref p" for f :: "playbook \<Rightarrow> playbook" and ps
        using that by (induction ps) auto
      then show ?thesis by (simp add: db' upsert_def)
    qed
    have "get_playbook src (bk_ref p) db' = Inr ?saved" if works: "bs_fails src Select_Books db' = None"
    proof -
      let ?stored = "book_order src (bd_books db')"
      have "find (\<lambda>q. bk_ref q = bk_ref p) ?stored = Some ?saved"
      proof (rule find_unique)
        show "?saved \<in> set ?stored" using upsert_row(1) [OF refs, of ?row] by (simp add: db')
        show "q = ?saved" if "q \<in> set ?stored" "bk_ref q = bk_ref p" for q
          using upsert_row(2) [OF refs, of q ?row] that by (simp add: db')
      qed simp
      moreover have "list_playbooks src None True db' = ?stored @ filter (\<lambda>q. bk_incident q \<notin> bk_incident ` set ?stored) BUILT_IN"
        by (simp add: list_playbooks_def works applies_to_def)
      ultimately show ?thesis by (simp add: get_playbook_def find_append)
    qed
    with s Inr unique others db' show ?thesis by simp
  qed
qed

definition demo_books :: book_source where
  "demo_books = \<lparr>bs_fails = (\<lambda>_ _. None), bs_rank = length\<rparr>"

text \<open>
  An active row of \<open>PB-PRODUCTION-GAP\<close> covers the incident type of \<open>PB-FACE-CONSTRAINT\<close>, which is then
  missing, saved as inactive or not saved at all.
\<close>

lemma face_playbook_covered:
  "map bk_ref (list_playbooks demo_books (Some ''m'') False \<lparr>bd_books = [BUILT_IN ! 0, (BUILT_IN ! 2)\<lparr>bk_active := False\<rparr>], bd_audit = []\<rparr>)
     = [''PB-PRODUCTION-GAP'', ''PB-HAULAGE-BOTTLENECK'', ''PB-EQUIPMENT-RISK'']"
  "map bk_ref (list_playbooks demo_books (Some ''m'') False \<lparr>bd_books = [BUILT_IN ! 0], bd_audit = []\<rparr>)
     = [''PB-PRODUCTION-GAP'', ''PB-HAULAGE-BOTTLENECK'', ''PB-EQUIPMENT-RISK'']"
  by (simp_all add: list_playbooks_def demo_books_def book_order_def applies_to_def BUILT_IN_def built_in_def)

theorem saved_playbook_is_found_witness:
  "\<exists>r db'. save_playbook demo_books (hd BUILT_IN) ''u1'' ''admin'' \<lparr>bd_books = [], bd_audit = []\<rparr> = (Inr r, db')
     \<and> get_playbook demo_books ''PB-PRODUCTION-GAP'' db' = Inr ((hd BUILT_IN)\<lparr>bk_created_by := ''u1''\<rparr>)"
proof -
  let ?db = "\<lparr>bd_books = [], bd_audit = []\<rparr> :: book_db"
  have "unique_refs ?db" by (simp add: unique_refs_def)
  note found = saved_playbook_is_found [OF this, where src = demo_books and p = "hd BUILT_IN" and actor = "''u1''" and role = "''admin''"]
  obtain r db' where s: "save_playbook demo_books (hd BUILT_IN) ''u1'' ''admin'' ?db = (r, db')" by (metis surj_pair)
  have ref: "bk_ref (hd BUILT_IN) = ''PB-PRODUCTION-GAP''" by (simp add: BUILT_IN_def built_in_def)
  show ?thesis
  proof (cases r)
    case (Inl e)
    with s show ?thesis by (auto simp: save_playbook_def demo_books_def Let_def)
  next
    case (Inr d)
    with found s ref show ?thesis by (simp add: demo_books_def creator_def)
  qed
qed

end
