(* ===== verification/Tonnage.thy ===== *)
theory Tonnage
  imports Measures Complex_Main "HOL-Library.Multiset" "HOL-Library.List_Lexorder" "HOL-Library.Char_ord"
begin

text \<open>
  The haulage-constrained production model (\<open>app/api/core/routing/production.py\<close>): the forecast, the
  attribution of a shortfall by relaxing one constraint at a time, the actions and the what-if
  simulation. The share of the cycle that a route's risk costs is a power with exponent 3/2, so the
  numbers are those of any ordered field with a floor: the reals for a route, rationals where a
  definition is evaluated.
\<close>

subsection \<open>Numbers\<close>

text \<open>\<open>round(x, n)\<close> and the formats, by way of the decimal that the number rounds to\<close>

definition half_even :: "'a::floor_ceiling \<Rightarrow> int" where
  "half_even x =
     (let f = \<lfloor>x\<rfloor>; d = x - of_int f
      in if d < 1/2 then f else if d > 1/2 then f + 1 else if even f then f else f + 1)"

definition round_to :: "nat \<Rightarrow> 'a::floor_ceiling \<Rightarrow> rat" where
  "round_to n x = of_int (half_even (x * 10 ^ n)) / 10 ^ n"

definition fmt_num :: "nat \<Rightarrow> 'a::floor_ceiling \<Rightarrow> string" where
  "fmt_num n x = fmt_fixed n (round_to n x)"

definition fmt_tonnes :: "'a::floor_ceiling \<Rightarrow> string" where
  "fmt_tonnes x = fmt_commas 0 (round_to 0 x)"

definition fmt_share :: "'a::floor_ceiling \<Rightarrow> string" where
  "fmt_share x = fmt_num 0 (x * 100) @ ''%''"

text \<open>\<open>int(x)\<close>\<close>

definition truncate_num :: "'a::floor_ceiling \<Rightarrow> int" where
  "truncate_num x = (if x \<ge> 0 then \<lfloor>x\<rfloor> else - \<lfloor>- x\<rfloor>)"

definition LOAD_MINUTES :: "'a::floor_ceiling" where "LOAD_MINUTES = 42 / 10"
definition DUMP_MINUTES :: "'a::floor_ceiling" where "DUMP_MINUTES = 18 / 10"
definition SPOT_MINUTES :: "'a::floor_ceiling" where "SPOT_MINUTES = 11 / 10"
definition WORKING_DAYS :: "'a::floor_ceiling" where "WORKING_DAYS = 26"
definition SHIFTS_PER_DAY :: "'a::floor_ceiling" where "SHIFTS_PER_DAY = 2"
definition SHIFT_MINUTES :: "'a::floor_ceiling" where "SHIFT_MINUTES = 600"

subsection \<open>Inputs\<close>

record 'a production_inputs =
  pi_target :: 'a
  pi_extraction :: 'a
  pi_trucks :: int
  pi_truck_capacity :: 'a
  pi_availability :: 'a
  pi_processing :: 'a
  pi_stockpile_capacity :: 'a
  pi_stockpile :: 'a
  pi_grade :: 'a
  pi_target_grade :: 'a
  pi_downtime :: 'a
  pi_queue :: 'a

definition default_inputs :: "'a::floor_ceiling production_inputs" where
  "default_inputs = \<lparr>pi_target = 150000, pi_extraction = 420, pi_trucks = 14, pi_truck_capacity = 55, pi_availability = 78 / 100,
     pi_processing = 6500, pi_stockpile_capacity = 45000, pi_stockpile = 12000, pi_grade = 38, pi_target_grade = 42,
     pi_downtime = 16 / 10, pi_queue = 12 / 100\<rparr>"

definition input_names :: "string list" where
  "input_names = [''target_monthly_t'', ''extraction_rate_tph'', ''trucks_available'', ''truck_capacity_t'', ''equipment_availability'',
     ''processing_capacity_tpd'', ''stockpile_capacity_t'', ''stockpile_current_t'', ''ore_grade_pct'', ''target_grade_pct'',
     ''predicted_downtime_hours_per_day'', ''queue_factor'']"

text \<open>\<open>as_dict\<close>, read by name\<close>

definition input_value :: "'a::floor_ceiling production_inputs \<Rightarrow> string \<Rightarrow> 'a option" where
  "input_value i =
     map_of [(''target_monthly_t'', pi_target i), (''extraction_rate_tph'', pi_extraction i), (''trucks_available'', of_int (pi_trucks i)),
       (''truck_capacity_t'', pi_truck_capacity i), (''equipment_availability'', pi_availability i),
       (''processing_capacity_tpd'', pi_processing i), (''stockpile_capacity_t'', pi_stockpile_capacity i),
       (''stockpile_current_t'', pi_stockpile i), (''ore_grade_pct'', pi_grade i), (''target_grade_pct'', pi_target_grade i),
       (''predicted_downtime_hours_per_day'', pi_downtime i), (''queue_factor'', pi_queue i)]"

definition clamp_num :: "'a::linorder \<Rightarrow> 'a \<Rightarrow> 'a option \<Rightarrow> 'a \<Rightarrow> 'a" where
  "clamp_num lo hi given d = (case given of None \<Rightarrow> d | Some x \<Rightarrow> max lo (min hi x))"

text \<open>\<open>from_payload\<close>: a name that the payload lacks, or has with no number, gets the default.\<close>

definition from_payload :: "(string \<Rightarrow> 'a option) \<Rightarrow> 'a::floor_ceiling production_inputs" where
  "from_payload p =
     (let d = default_inputs in
      \<lparr>pi_target = clamp_num 0 5000000 (p ''target_monthly_t'') (pi_target d),
       pi_extraction = clamp_num 0 100000 (p ''extraction_rate_tph'') (pi_extraction d),
       pi_trucks = truncate_num (clamp_num 0 500 (p ''trucks_available'') (of_int (pi_trucks d))),
       pi_truck_capacity = clamp_num 1 500 (p ''truck_capacity_t'') (pi_truck_capacity d),
       pi_availability = clamp_num 0 1 (p ''equipment_availability'') (pi_availability d),
       pi_processing = clamp_num 0 1000000 (p ''processing_capacity_tpd'') (pi_processing d),
       pi_stockpile_capacity = clamp_num 0 10000000 (p ''stockpile_capacity_t'') (pi_stockpile_capacity d),
       pi_stockpile = clamp_num 0 10000000 (p ''stockpile_current_t'') (pi_stockpile d),
       pi_grade = clamp_num 0 100 (p ''ore_grade_pct'') (pi_grade d),
       pi_target_grade = clamp_num (1 / 10) 100 (p ''target_grade_pct'') (pi_target_grade d),
       pi_downtime = clamp_num 0 24 (p ''predicted_downtime_hours_per_day'') (pi_downtime d),
       pi_queue = clamp_num 0 (9 / 10) (p ''queue_factor'') (pi_queue d)\<rparr>)"

definition payload_value :: "parser \<Rightarrow> dict \<Rightarrow> string \<Rightarrow> 'a::floor_ceiling option" where
  "payload_value parse payload name =
     (case map_of payload name of None \<Rightarrow> None | Some v \<Rightarrow> map_option of_rat (py_float parse v))"

subsection \<open>Haulage\<close>

record 'a haulage =
  hg_round_trip :: 'a
  hg_distance :: 'a
  hg_risk :: 'a
  hg_risk_delay :: 'a

definition haulage_from_route :: "real \<Rightarrow> real \<Rightarrow> real \<Rightarrow> real haulage" where
  "haulage_from_route one_way distance risk =
     (let unladen = one_way * (78 / 100); delay = (risk / 100) powr (3 / 2) * (22 / 100) * (one_way + unladen)
      in \<lparr>hg_round_trip = one_way + unladen + delay, hg_distance = distance, hg_risk = risk, hg_risk_delay = delay\<rparr>)"

subsection \<open>The forecast\<close>

record 'a production_forecast =
  fc_daily :: 'a
  fc_weekly :: 'a
  fc_monthly :: 'a
  fc_target :: 'a
  fc_variance :: 'a
  fc_variance_pct :: 'a
  fc_status :: string
  fc_binding :: string
  fc_capacities :: "(string \<times> 'a) list"
  fc_cycle :: "(string \<times> 'a) list"
  fc_grade_factor :: 'a

definition forecast_as_dict :: "'a::floor_ceiling production_forecast \<Rightarrow> dict" where
  "forecast_as_dict f =
     [(''daily_t'', PFloat (round_to 1 (fc_daily f))), (''weekly_t'', PFloat (round_to 1 (fc_weekly f))),
      (''monthly_t'', PFloat (round_to 1 (fc_monthly f))), (''target_monthly_t'', PFloat (round_to 1 (fc_target f))),
      (''variance_t'', PFloat (round_to 1 (fc_variance f))), (''variance_pct'', PFloat (round_to 2 (fc_variance_pct f))),
      (''status'', PStr (fc_status f)), (''binding_constraint'', PStr (fc_binding f)),
      (''capacities_tpd'', PDict (map (\<lambda>(k, v). (k, PFloat (round_to 1 v))) (fc_capacities f))),
      (''cycle'', PDict (map (\<lambda>(k, v). (k, PFloat (round_to 2 v))) (fc_cycle f))),
      (''grade_factor'', PFloat (round_to 4 (fc_grade_factor f)))]"

definition cycle_raw :: "'a::floor_ceiling haulage \<Rightarrow> 'a" where
  "cycle_raw h = LOAD_MINUTES + DUMP_MINUTES + SPOT_MINUTES + hg_round_trip h"

definition cycle_minutes :: "'a::floor_ceiling production_inputs \<Rightarrow> 'a haulage \<Rightarrow> 'a" where
  "cycle_minutes i h = cycle_raw h / max (1 / 10) (1 - pi_queue i)"

text \<open>Shift minutes of a day that are left after downtime\<close>

definition daily_minutes :: "'a::floor_ceiling production_inputs \<Rightarrow> 'a" where
  "daily_minutes i =
     max 0 (SHIFT_MINUTES - pi_downtime i * 60 / SHIFTS_PER_DAY) * pi_availability i * SHIFTS_PER_DAY"

definition trips_per_truck :: "'a::floor_ceiling production_inputs \<Rightarrow> 'a haulage \<Rightarrow> 'a" where
  "trips_per_truck i h = (if cycle_minutes i h > 0 then daily_minutes i / cycle_minutes i h else 0)"

definition capacities :: "'a::floor_ceiling production_inputs \<Rightarrow> 'a haulage \<Rightarrow> (string \<times> 'a) list" where
  "capacities i h =
     [(''haulage'', trips_per_truck i h * of_int (pi_trucks i) * pi_truck_capacity i),
      (''extraction'', pi_extraction i * (daily_minutes i / 60)), (''processing'', pi_processing i)]"

text \<open>\<open>min(capacities, key=capacities.get)\<close>: the first of the least\<close>

definition binding_constraint :: "'a::floor_ceiling production_inputs \<Rightarrow> 'a haulage \<Rightarrow> string \<times> 'a" where
  "binding_constraint i h = the (py_max (\<lambda>(k, v). - v) (capacities i h))"

definition grade_factor :: "'a::floor_ceiling production_inputs \<Rightarrow> 'a" where
  "grade_factor i = max (55 / 100) (min 1 (pi_grade i / pi_target_grade i))"

text \<open>The forecast, when the target grade is not zero\<close>

definition forecast_of :: "'a::floor_ceiling production_inputs \<Rightarrow> 'a haulage \<Rightarrow> 'a production_forecast" where
  "forecast_of i h =
     (let (binding, daily) = binding_constraint i h; effective = daily * grade_factor i; monthly = effective * WORKING_DAYS;
          variance = monthly - pi_target i; pct = (if pi_target i > 0 then variance / pi_target i * 100 else 0);
          cycle = cycle_minutes i h
      in \<lparr>fc_daily = effective, fc_weekly = effective * 6, fc_monthly = monthly, fc_target = pi_target i, fc_variance = variance,
          fc_variance_pct = pct,
          fc_status = (if \<bar>pct\<bar> < 1 then ''on_target'' else if variance > 0 then ''surplus'' else ''deficit''),
          fc_binding = binding, fc_capacities = capacities i h,
          fc_cycle = [(''total_minutes'', cycle), (''fixed_minutes'', LOAD_MINUTES + DUMP_MINUTES + SPOT_MINUTES),
            (''haul_round_trip_minutes'', hg_round_trip h), (''risk_delay_minutes'', hg_risk_delay h),
            (''queue_loss_minutes'', cycle - cycle_raw h), (''trips_per_truck_per_day'', trips_per_truck i h),
            (''effective_daily_minutes'', daily_minutes i)],
          fc_grade_factor = grade_factor i\<rparr>)"

definition zero_division :: exn where
  "zero_division = Exn ''ZeroDivisionError'' ''float division by zero''"

definition forecast_production :: "'a::floor_ceiling production_inputs \<Rightarrow> 'a haulage \<Rightarrow> 'a production_forecast result" where
  "forecast_production i h = (if pi_target_grade i = 0 then Inl zero_division else Inr (forecast_of i h))"

subsection \<open>Root cause\<close>

definition downtime_relaxed :: "'a::floor_ceiling production_inputs \<Rightarrow> 'a production_inputs" where
  "downtime_relaxed i = i\<lparr>pi_downtime := max (4 / 10) (pi_downtime i * (35 / 100)), pi_availability := min (94 / 100) (pi_availability i + 12 / 100)\<rparr>"

definition extra_trucks :: "'a::floor_ceiling production_inputs \<Rightarrow> int" where
  "extra_trucks i = max 2 (truncate_num (of_int (pi_trucks i) * (2 / 10) :: 'a))"

text \<open>Each cause with its label and with the inputs and the haulage that relax it\<close>

definition probes ::
  "'a::floor_ceiling production_inputs \<Rightarrow> 'a haulage \<Rightarrow> (string \<times> string \<times> 'a production_inputs \<times> 'a haulage) list" where
  "probes i h =
     [(''equipment_downtime'', ''Equipment downtime'', downtime_relaxed i, h),
      (''route_delays'', ''Route delays'', i, h\<lparr>hg_round_trip := hg_round_trip h - hg_risk_delay h, hg_risk_delay := 0\<rparr>),
      (''fleet_capacity'', ''Fleet capacity'', i\<lparr>pi_trucks := pi_trucks i + extra_trucks i\<rparr>, h),
      (''ore_grade'', ''Low-grade ore'', i\<lparr>pi_grade := pi_target_grade i\<rparr>, h),
      (''processing_bottleneck'', ''Processing bottleneck'', i\<lparr>pi_processing := pi_processing i * (125 / 100)\<rparr>, h),
      (''queueing'', ''Queueing and congestion'', i\<lparr>pi_queue := max (2 / 100) (pi_queue i * (3 / 10))\<rparr>, h)]"

definition recovered :: "'a::floor_ceiling production_forecast \<Rightarrow> string \<times> string \<times> 'a production_inputs \<times> 'a haulage \<Rightarrow> 'a" where
  "recovered f p = (case p of (cause, label, i, h) \<Rightarrow> max 0 (fc_monthly (forecast_of i h) - fc_monthly f))"

record contributor =
  co_cause :: string
  co_label :: string
  co_recoverable :: rat
  co_pct :: rat
  co_closes :: rat

record root_cause_result =
  rz_shortfall :: rat
  rz_shortfall_pct :: "rat option"
  rz_binding :: "string option"
  rz_contributors :: "contributor list"
  rz_attributable :: "rat option"

definition contributor_of ::
  "'a::floor_ceiling \<Rightarrow> 'a \<Rightarrow> 'a production_forecast \<Rightarrow> string \<times> string \<times> 'a production_inputs \<times> 'a haulage \<Rightarrow> contributor" where
  "contributor_of gains shortfall f p =
     (let gain = recovered f p; shown = round_to 1 gain
      in \<lparr>co_cause = fst p, co_label = fst (snd p), co_recoverable = shown,
          co_pct = (if gains > 0 then round_to 1 (100 * gain / gains) else 0),
          co_closes = round_to 1 (min 100 (100 * of_rat shown / shortfall))\<rparr>)"

definition root_cause_analysis ::
  "'a::floor_ceiling production_inputs \<Rightarrow> 'a haulage \<Rightarrow> 'a production_forecast \<Rightarrow> root_cause_result result" where
  "root_cause_analysis i h f =
     (if fc_variance f \<ge> 0
      then Inr \<lparr>rz_shortfall = 0, rz_shortfall_pct = None, rz_binding = None, rz_contributors = [], rz_attributable = None\<rparr>
      else if pi_target_grade i = 0 then Inl zero_division
      else
        (let shortfall = \<bar>fc_variance f\<bar>; found = filter (\<lambda>p. recovered f p > 1) (probes i h); gains = sum_list (map (recovered f) found)
         in Inr \<lparr>rz_shortfall = round_to 1 shortfall, rz_shortfall_pct = Some (round_to 2 \<bar>fc_variance_pct f\<bar>), rz_binding = Some (fc_binding f),
              rz_contributors = sort_key (\<lambda>c. - co_recoverable c) (map (contributor_of gains shortfall f) found),
              rz_attributable = Some (round_to 1 gains)\<rparr>))"

definition contributor_as_dict :: "contributor \<Rightarrow> dict" where
  "contributor_as_dict c =
     [(''cause'', PStr (co_cause c)), (''label'', PStr (co_label c)), (''recoverable_t'', PFloat (co_recoverable c)),
      (''contribution_pct'', PFloat (co_pct c)), (''closes_shortfall_pct'', PFloat (co_closes c))]"

definition root_cause_as_dict :: "root_cause_result \<Rightarrow> dict" where
  "root_cause_as_dict r =
     (case rz_binding r of
        None \<Rightarrow> [(''shortfall_t'', PFloat 0), (''contributors'', PList []),
          (''note'', PStr ''Production is forecast to meet or exceed target; no shortfall to attribute.'')]
      | Some b \<Rightarrow>
          [(''shortfall_t'', PFloat (rz_shortfall r)), (''shortfall_pct'', opt_float (rz_shortfall_pct r)), (''binding_constraint'', PStr b),
           (''contributors'', PList (map (PDict \<circ> contributor_as_dict) (rz_contributors r))),
           (''attributable_t'', opt_float (rz_attributable r)),
           (''method'', PStr (''Counterfactual: each cause is relaxed to a realistic best case in ''
              @ ''isolation and the recovered tonnage measured. Causes interact, so ''
              @ ''recovered tonnes do not sum to the shortfall.''))])"

subsection \<open>Actions\<close>

record 'a production_action =
  pa_action :: string
  pa_detail :: string
  pa_impact :: 'a
  pa_priority :: string

definition contributor_named :: "root_cause_result \<Rightarrow> string \<Rightarrow> contributor option" where
  "contributor_named r cause = find (\<lambda>c. co_cause c = cause) (rev (rz_contributors r))"

definition action_on ::
  "root_cause_result \<Rightarrow> string \<Rightarrow> bool \<Rightarrow> (contributor \<Rightarrow> string \<times> string \<times> string) \<Rightarrow> 'a::floor_ceiling production_action list" where
  "action_on r cause applies f =
     (case contributor_named r cause of
        None \<Rightarrow> []
      | Some c \<Rightarrow>
          if applies
          then (let (action, detail, priority) = f c
                in [\<lparr>pa_action = action, pa_detail = detail, pa_impact = of_rat (co_recoverable c), pa_priority = priority\<rparr>])
          else [])"

definition hold_action :: "'a::floor_ceiling production_inputs \<Rightarrow> 'a production_forecast \<Rightarrow> 'a production_action" where
  "hold_action i f = \<lparr>pa_action = ''Hold current plan'',
     pa_detail = ''Forecast production of '' @ fmt_tonnes (fc_monthly f) @ '' t meets the '' @ fmt_tonnes (pi_target i)
       @ '' t target. The binding constraint is '' @ fc_binding f @ ''.'', pa_impact = 0, pa_priority = ''low''\<rparr>"

definition stockpile_action :: "'a::floor_ceiling production_inputs \<Rightarrow> 'a production_forecast \<Rightarrow> 'a production_action list" where
  "stockpile_action i f =
     (let stock = max 0 (pi_stockpile i); gap = \<bar>fc_variance f\<bar>
      in if stock > 0
         then [\<lparr>pa_action = ''Draw '' @ fmt_tonnes (min stock gap) @ '' t from stockpile to cover the gap'',
           pa_detail = ''Current stock of '' @ fmt_tonnes stock @ '' t covers '' @ fmt_num 0 (min 100 (100 * stock / gap))
             @ ''% of the shortfall. This defers the problem rather than fixing it '' @ em_dash @ '' stock must be rebuilt.'',
           pa_impact = min stock gap, pa_priority = ''low''\<rparr>]
         else [])"

definition recommend_actions ::
  "'a::floor_ceiling production_inputs \<Rightarrow> 'a haulage \<Rightarrow> 'a production_forecast \<Rightarrow> root_cause_result \<Rightarrow> string \<Rightarrow> 'a production_action list" where
  "recommend_actions i h f r band =
     (if fc_status f \<noteq> ''deficit'' then [hold_action i f]
      else
        (let target_avail = min (94 / 100) (pi_availability i + 12 / 100); extra = extra_trucks i;
             worth = (\<lambda>c. fmt_commas 0 (co_recoverable c))
         in sort_key (\<lambda>a. - pa_impact a)
          (action_on r ''equipment_downtime'' True (\<lambda>c.
             (''Raise equipment availability from '' @ fmt_share (pi_availability i) @ '' to '' @ fmt_share target_avail,
              ''Downtime is currently '' @ fmt_num 1 (pi_downtime i) @ '' h/day. Cutting it recovers about '' @ worth c @ '' t/month ''
              @ em_dash @ '' '' @ fmt_fixed 0 (co_closes c) @ ''% of the shortfall.'', ''high''))
           @ action_on r ''route_delays'' True (\<lambda>c.
             (''Move haulage to the lower-risk route'',
              ''Route risk is adding '' @ fmt_num 1 (hg_risk_delay h) @ '' min to every cycle ('' @ py_lower band @ '' risk). ''
              @ ''Removing that delay is worth about '' @ worth c @ '' t/month.'', (if co_pct c > 20 then ''high'' else ''medium'')))
           @ action_on r ''fleet_capacity'' True (\<lambda>c.
             (''Add '' @ show_int extra @ '' trucks to the haulage fleet'',
              ''At the current '' @ fmt_num 0 (cycle_minutes i h) @ ''-minute cycle, '' @ show_int extra @ '' more trucks add roughly ''
              @ worth c @ '' t/month.'', ''medium''))
           @ action_on r ''ore_grade'' (pi_grade i < pi_target_grade i) (\<lambda>c.
             (''Prioritise higher-grade faces (currently '' @ fmt_num 1 (pi_grade i) @ ''% vs '' @ fmt_num 1 (pi_target_grade i) @ ''% target)'',
              ''Blending to target grade recovers about '' @ worth c @ '' t/month of saleable product without moving more material.'', ''medium''))
           @ action_on r ''processing_bottleneck'' (fc_binding f = ''processing'') (\<lambda>c.
             (''Processing plant is the binding constraint '' @ em_dash @ '' adding trucks will not help'',
              ''Haulage can deliver '' @ fmt_tonnes (the (map_of (fc_capacities f) ''haulage'')) @ '' t/day but the plant accepts ''
              @ fmt_tonnes (pi_processing i) @ '' t/day. Raising throughput 25% is worth '' @ worth c @ '' t/month.'', ''high''))
           @ stockpile_action i f)))"

subsection \<open>What-if\<close>

record 'a simulation =
  sm_baseline :: "'a production_forecast"
  sm_scenario :: "'a production_forecast"
  sm_applied :: dict
  sm_ignored :: "string list"

text \<open>\<open>hasattr(base_inputs, k)\<close>: a field, a method or an attribute that every object has\<close>

definition has_attribute :: "(string \<Rightarrow> bool) \<Rightarrow> string \<Rightarrow> bool" where
  "has_attribute object_attr k \<longleftrightarrow> k \<in> set input_names \<or> k = ''from_payload'' \<or> k = ''as_dict'' \<or> object_attr k"

text \<open>A field that was changed to something that is no number falls back to the default of the class.\<close>

definition changed_inputs ::
  "parser \<Rightarrow> 'a::floor_ceiling production_inputs \<Rightarrow> dict \<Rightarrow> 'a production_inputs" where
  "changed_inputs parse base valid =
     from_payload (\<lambda>k. if map_of valid k = None then input_value base k else payload_value parse valid k)"

definition changed_haulage :: "parser \<Rightarrow> 'a::floor_ceiling haulage \<Rightarrow> dict \<Rightarrow> 'a haulage" where
  "changed_haulage parse h changes =
     (case payload_value parse changes ''round_trip_minutes'' of None \<Rightarrow> h | Some x \<Rightarrow> h\<lparr>hg_round_trip := x\<rparr>)"

definition simulate_changes ::
  "(string \<Rightarrow> bool) \<Rightarrow> parser \<Rightarrow> 'a::floor_ceiling production_inputs \<Rightarrow> 'a haulage \<Rightarrow> dict \<Rightarrow> 'a simulation result" where
  "simulate_changes object_attr parse base h changes =
     (case forecast_production base h of
        Inl e \<Rightarrow> Inl e
      | Inr baseline \<Rightarrow>
          (let valid = filter (\<lambda>(k, v). has_attribute object_attr k) changes
           in case forecast_production (changed_inputs parse base valid) (changed_haulage parse h changes) of
                Inl e \<Rightarrow> Inl e
              | Inr scenario \<Rightarrow>
                  Inr \<lparr>sm_baseline = baseline, sm_scenario = scenario, sm_applied = valid,
                    sm_ignored = sort (remdups (filter (\<lambda>k. k \<notin> fst ` set valid \<and> k \<noteq> ''round_trip_minutes'') (map fst changes)))\<rparr>))"

definition simulation_as_dict :: "'a::floor_ceiling simulation \<Rightarrow> dict" where
  "simulation_as_dict s =
     (let b = sm_baseline s; c = sm_scenario s; delta = fc_monthly c - fc_monthly b
      in [(''baseline'', PDict (forecast_as_dict b)), (''scenario'', PDict (forecast_as_dict c)), (''applied_changes'', PDict (sm_applied s)),
          (''ignored_changes'', PList (map PStr (sm_ignored s))),
          (''delta'', PDict
            [(''monthly_t'', PFloat (round_to 1 delta)),
             (''monthly_pct'', if fc_monthly b > 0 then PFloat (round_to 2 (100 * delta / fc_monthly b)) else PNone),
             (''daily_t'', PFloat (round_to 1 (fc_daily c - fc_daily b))),
             (''closes_shortfall'', PBool (fc_status b = ''deficit'' \<and> fc_status c \<noteq> ''deficit'')),
             (''binding_constraint_changed'', PBool (fc_binding b \<noteq> fc_binding c))])])"

subsection \<open>Correctness\<close>

lemma binding_least:
  "binding_constraint i h \<in> set (capacities i h) \<and> list_all (\<lambda>c. snd (binding_constraint i h) \<le> snd c) (capacities i h)"
  by (auto simp: binding_constraint_def capacities_def)

lemma forecast_fields:
  "fc_binding (forecast_of i h) = fst (binding_constraint i h)"
  "fc_daily (forecast_of i h) = snd (binding_constraint i h) * grade_factor i"
  "fc_weekly (forecast_of i h) = 6 * fc_daily (forecast_of i h)"
  "fc_monthly (forecast_of i h) = 26 * fc_daily (forecast_of i h)"
  "fc_variance (forecast_of i h) = fc_monthly (forecast_of i h) - pi_target i"
  by (auto simp: forecast_of_def Let_def WORKING_DAYS_def split: prod.split)

lemma grade_factor_bounds: "55 / 100 \<le> grade_factor i" "grade_factor i \<le> 1"
  by (auto simp: grade_factor_def)

text \<open>The status in terms of the target\<close>

definition met_status :: "'a::floor_ceiling \<Rightarrow> 'a \<Rightarrow> string" where
  "met_status target variance =
     (if target > 0 \<and> 100 * variance \<ge> target then ''surplus''
      else if target > 0 \<and> 100 * variance \<le> - target then ''deficit'' else ''on_target'')"

lemma within_percent: "(0 :: 'a::floor_ceiling) < t \<Longrightarrow> \<bar>v / t * 100\<bar> < 1 \<longleftrightarrow> - t < 100 * v \<and> 100 * v < t"
  by (simp add: abs_less_iff minus_divide_left pos_divide_less_eq) (auto simp: algebra_simps)

lemma forecast_status: "fc_status (forecast_of i h) = met_status (pi_target i) (fc_variance (forecast_of i h))"
proof -
  define v where "v = fc_variance (forecast_of i h)"
  have "fc_status (forecast_of i h) =
      (if \<bar>if pi_target i > 0 then v / pi_target i * 100 else 0\<bar> < 1 then ''on_target'' else if v > 0 then ''surplus'' else ''deficit'')"
    unfolding v_def by (simp only: forecast_of_def Let_def case_prod_beta production_forecast.select_convs)
  also have "\<dots> = met_status (pi_target i) v"
  proof (cases "pi_target i > 0")
    case True
    then show ?thesis
      by (simp only: if_True within_percent) (auto simp: met_status_def)
  qed (simp add: met_status_def)
  finally show ?thesis by (simp add: v_def)
qed

text \<open>
  a forecast is the tonnage of one of the three capacities, none of which is smaller, that the
  grade keeps between 55 and 100 per cent of, over six days for the week and twenty-six for the
  month; it is in deficit exactly when a positive target is missed by one per cent of it or more, in
  surplus when it is exceeded by as much, and on target otherwise.
\<close>

theorem forecast_is_the_bottleneck:
  "\<exists>d. (fc_binding (forecast_of i h), d) \<in> set (capacities i h) \<and> list_all (\<lambda>c. d \<le> snd c) (capacities i h)
     \<and> fc_daily (forecast_of i h) = d * grade_factor i \<and> 55 / 100 \<le> grade_factor i \<and> grade_factor i \<le> 1
     \<and> fc_weekly (forecast_of i h) = 6 * fc_daily (forecast_of i h) \<and> fc_monthly (forecast_of i h) = 26 * fc_daily (forecast_of i h)
     \<and> fc_variance (forecast_of i h) = fc_monthly (forecast_of i h) - pi_target i
     \<and> fc_status (forecast_of i h) = met_status (pi_target i) (fc_variance (forecast_of i h))"
  using binding_least [of i h] grade_factor_bounds [of i]
  by (intro exI [of _ "snd (binding_constraint i h)"] conjI) (simp_all only: forecast_fields forecast_status prod.collapse)

lemma trips_nonneg: "0 \<le> pi_availability i \<Longrightarrow> 0 \<le> trips_per_truck i h"
  by (auto simp: trips_per_truck_def daily_minutes_def SHIFTS_PER_DAY_def intro!: divide_nonneg_pos mult_nonneg_nonneg)

lemma binding_mono:
  assumes "a \<le> (a' :: 'a::floor_ceiling)" and "fst (the (py_max (\<lambda>(k, v). - v) [(''haulage'', a), (''extraction'', b), (''processing'', c)])) \<noteq> ''haulage''"
  shows "the (py_max (\<lambda>(k, v). - v) [(''haulage'', a'), (''extraction'', b), (''processing'', c)])
    = the (py_max (\<lambda>(k, v). - v) [(''haulage'', a), (''extraction'', b), (''processing'', c)])"
  using assms by (auto split: if_splits)

lemma more_haulage:
  assumes "0 \<le> pi_availability i" "0 \<le> pi_truck_capacity i" "0 \<le> n" "fc_binding (forecast_of i h) \<noteq> ''haulage''"
  shows "binding_constraint (i\<lparr>pi_trucks := pi_trucks i + n\<rparr>) h = binding_constraint i h"
proof -
  have same: "trips_per_truck (i\<lparr>pi_trucks := k\<rparr>) h = trips_per_truck i h" "daily_minutes (i\<lparr>pi_trucks := k\<rparr>) = daily_minutes i"
    "pi_extraction (i\<lparr>pi_trucks := k\<rparr>) = pi_extraction i" "pi_processing (i\<lparr>pi_trucks := k\<rparr>) = pi_processing i"
    "pi_truck_capacity (i\<lparr>pi_trucks := k\<rparr>) = pi_truck_capacity i" "pi_trucks (i\<lparr>pi_trucks := k\<rparr>) = k" for k
    by (simp_all add: trips_per_truck_def cycle_minutes_def daily_minutes_def)
  have le: "trips_per_truck i h * of_int (pi_trucks i) * pi_truck_capacity i
      \<le> trips_per_truck i h * of_int (pi_trucks i + n) * pi_truck_capacity i"
    using trips_nonneg [OF assms(1)] assms(2,3) by (intro mult_right_mono mult_left_mono) auto
  have b: "fst (binding_constraint i h) \<noteq> ''haulage''"
    using assms(4) by (simp add: forecast_fields)
  show ?thesis
    using binding_mono [OF le] b by (simp only: binding_constraint_def capacities_def same)
qed

text \<open>
  adding trucks to an operation that the face or the plant limits gains nothing: when haulage is
  not the binding constraint, the same inputs with more trucks forecast the same tonnage and the same
  constraint.
\<close>

theorem more_trucks_do_not_help:
  assumes "0 \<le> pi_availability i" "0 \<le> pi_truck_capacity i" "0 \<le> n" "fc_binding (forecast_of i h) \<noteq> ''haulage''"
  shows "fc_monthly (forecast_of (i\<lparr>pi_trucks := pi_trucks i + n\<rparr>) h) = fc_monthly (forecast_of i h)
    \<and> fc_binding (forecast_of (i\<lparr>pi_trucks := pi_trucks i + n\<rparr>) h) = fc_binding (forecast_of i h)"
  using more_haulage [OF assms] by (simp add: forecast_fields grade_factor_def)

lemma example_limited_by_extraction:
  "fc_binding (forecast_of (default_inputs :: rat production_inputs) \<lparr>hg_round_trip = 30, hg_distance = 8, hg_risk = 20, hg_risk_delay = 1\<rparr>)
     = ''extraction''"
  by (simp add: forecast_fields binding_constraint_def capacities_def trips_per_truck_def cycle_minutes_def cycle_raw_def daily_minutes_def
      default_inputs_def LOAD_MINUTES_def DUMP_MINUTES_def SPOT_MINUTES_def SHIFT_MINUTES_def SHIFTS_PER_DAY_def)

theorem more_trucks_do_not_help_witness:
  "fc_monthly (forecast_of ((default_inputs :: rat production_inputs)\<lparr>pi_trucks := 24\<rparr>)
      \<lparr>hg_round_trip = 30, hg_distance = 8, hg_risk = 20, hg_risk_delay = 1\<rparr>)
    = fc_monthly (forecast_of default_inputs \<lparr>hg_round_trip = 30, hg_distance = 8, hg_risk = 20, hg_risk_delay = 1\<rparr>)"
  using more_trucks_do_not_help [of "default_inputs :: rat production_inputs" 10
      "\<lparr>hg_round_trip = 30, hg_distance = 8, hg_risk = 20, hg_risk_delay = 1\<rparr>"] example_limited_by_extraction
  by (simp add: default_inputs_def)

definition gaining :: "'a::floor_ceiling production_inputs \<Rightarrow> 'a haulage \<Rightarrow> 'a production_forecast \<Rightarrow> (string \<times> rat) list" where
  "gaining i h f = concat (map (\<lambda>p. if recovered f p > 1 then [(fst p, round_to 1 (recovered f p))] else []) (probes i h))"

lemma gaining_filter:
  "concat (map (\<lambda>p. if P p then [g p] else []) ps) = map g (filter P ps)"
  by (induction ps) auto

lemma gaining_distinct: "distinct (map fst (gaining i h f))"
proof -
  have "distinct (map fst (filter (\<lambda>p. recovered f p > 1) (probes i h)))"
    by (rule distinct_map_filter) (simp add: probes_def)
  then show ?thesis
    by (simp add: gaining_def gaining_filter comp_def)
qed

lemma half_even_mono_le: "x \<le> of_int k \<Longrightarrow> half_even x \<le> k"
proof -
  assume x: "x \<le> of_int k"
  show ?thesis
  proof (cases "\<lfloor>x\<rfloor> = k")
    case True
    then have "of_int k \<le> x" by (simp add: floor_eq_iff)
    with x have "x = of_int k" by simp
    then show ?thesis by (simp add: half_even_def)
  next
    case False
    then have "x \<noteq> of_int k" by auto
    with x have "\<lfloor>x\<rfloor> < k" by (simp add: floor_less_iff)
    then show ?thesis by (auto simp: half_even_def Let_def)
  qed
qed

lemma round_to_le_hundred: "x \<le> 100 \<Longrightarrow> round_to 1 x \<le> 100"
proof -
  assume "x \<le> 100"
  then have "half_even (x * 10 ^ 1) \<le> 1000"
    by (intro half_even_mono_le) simp
  then have "(of_int (half_even (x * 10 ^ 1)) :: rat) \<le> of_int 1000"
    by (simp only: of_int_le_iff)
  then show ?thesis
    by (simp add: round_to_def)
qed

text \<open>
  C36: a shortfall is attributed to exactly the causes whose relaxation gains more than one tonne a
  month, each listed once with the rounded gain, the largest first, none closing more than all of the
  shortfall; a forecast that meets the target has no contributors.
\<close>

theorem shortfall_attributed_to_gaining_causes:
  "case root_cause_analysis i h (forecast_of i h) of
     Inl e \<Rightarrow> pi_target_grade i = 0
   | Inr r \<Rightarrow> mset (map (\<lambda>c. (co_cause c, co_recoverable c)) (rz_contributors r))
         = (if fc_variance (forecast_of i h) < 0 then mset (gaining i h (forecast_of i h)) else {#})
       \<and> distinct (map co_cause (rz_contributors r))
       \<and> sorted (map (\<lambda>c. - co_recoverable c) (rz_contributors r))
       \<and> list_all (\<lambda>c. co_closes c \<le> 100) (rz_contributors r)"
proof -
  define f where "f = forecast_of i h"
  define found where "found = filter (\<lambda>p. recovered f p > 1) (probes i h)"
  define cs where "cs = map (contributor_of (sum_list (map (recovered f) found)) \<bar>fc_variance f\<bar> f) found"
  have pairs: "map (\<lambda>c. (co_cause c, co_recoverable c)) cs = gaining i h f"
    by (simp add: cs_def found_def gaining_def gaining_filter contributor_of_def Let_def comp_def)
  have causes: "map co_cause cs = map fst (gaining i h f)"
    by (simp flip: pairs add: comp_def)
  have "distinct (map co_cause cs)"
    by (simp add: causes gaining_distinct)
  then have d: "distinct (map co_cause (sort_key (\<lambda>c. - co_recoverable c) cs))"
    by (metis distinct_map distinct_sort set_sort)
  have closes: "list_all (\<lambda>c. co_closes c \<le> 100) cs"
    by (auto simp: cs_def list_all_iff contributor_of_def Let_def intro!: round_to_le_hundred simp del: One_nat_def)
  have m: "mset (map (\<lambda>c. (co_cause c, co_recoverable c)) (sort_key (\<lambda>c. - co_recoverable c) cs)) = mset (gaining i h f)"
    by (simp flip: pairs)
  have res: "root_cause_analysis i h f =
      (if fc_variance f \<ge> 0
       then Inr \<lparr>rz_shortfall = 0, rz_shortfall_pct = None, rz_binding = None, rz_contributors = [], rz_attributable = None\<rparr>
       else if pi_target_grade i = 0 then Inl zero_division
       else Inr \<lparr>rz_shortfall = round_to 1 \<bar>fc_variance f\<bar>, rz_shortfall_pct = Some (round_to 2 \<bar>fc_variance_pct f\<bar>),
              rz_binding = Some (fc_binding f), rz_contributors = sort_key (\<lambda>c. - co_recoverable c) cs,
              rz_attributable = Some (round_to 1 (sum_list (map (recovered f) found)))\<rparr>)"
    by (simp add: root_cause_analysis_def Let_def cs_def found_def)
  show ?thesis
    using d m closes by (simp add: res list_all_iff not_le flip: f_def)
qed

definition in_range :: "'a::floor_ceiling production_inputs \<Rightarrow> bool" where
  "in_range i \<longleftrightarrow> 0 \<le> pi_target i \<and> pi_target i \<le> 5000000 \<and> 0 \<le> pi_extraction i \<and> pi_extraction i \<le> 100000
     \<and> 0 \<le> pi_trucks i \<and> pi_trucks i \<le> 500 \<and> 1 \<le> pi_truck_capacity i \<and> pi_truck_capacity i \<le> 500
     \<and> 0 \<le> pi_availability i \<and> pi_availability i \<le> 1 \<and> 0 \<le> pi_processing i \<and> pi_processing i \<le> 1000000
     \<and> 0 \<le> pi_stockpile_capacity i \<and> pi_stockpile_capacity i \<le> 10000000 \<and> 0 \<le> pi_stockpile i \<and> pi_stockpile i \<le> 10000000
     \<and> 0 \<le> pi_grade i \<and> pi_grade i \<le> 100 \<and> 1 / 10 \<le> pi_target_grade i \<and> pi_target_grade i \<le> 100
     \<and> 0 \<le> pi_downtime i \<and> pi_downtime i \<le> 24 \<and> 0 \<le> pi_queue i \<and> pi_queue i \<le> 9 / 10"

lemma truncate_of_int [simp]: "truncate_num (of_int k) = k"
  by (simp add: truncate_num_def flip: of_int_minus)

lemma clamp_num_bounds: "lo \<le> hi \<Longrightarrow> lo \<le> d \<Longrightarrow> d \<le> hi \<Longrightarrow> lo \<le> clamp_num lo hi x d \<and> clamp_num lo hi x d \<le> hi"
  by (auto simp: clamp_num_def split: option.split)

lemma clamp_num_id: "lo \<le> x \<Longrightarrow> x \<le> hi \<Longrightarrow> clamp_num lo hi (Some x) d = x"
  by (simp add: clamp_num_def)

lemma truncate_num_bounds: "0 \<le> x \<Longrightarrow> x \<le> 500 \<Longrightarrow> 0 \<le> truncate_num x \<and> truncate_num x \<le> 500"
  by (auto simp: truncate_num_def floor_le_iff)

lemma payload_in_range: "in_range (from_payload p)"
  unfolding in_range_def from_payload_def Let_def default_inputs_def production_inputs.simps
  by (intro conjI clamp_num_bounds [THEN conjunct1] clamp_num_bounds [THEN conjunct2]
      truncate_num_bounds [THEN conjunct1] truncate_num_bounds [THEN conjunct2]) simp_all

lemma input_values:
  "input_value i ''target_monthly_t'' = Some (pi_target i)" "input_value i ''extraction_rate_tph'' = Some (pi_extraction i)"
  "input_value i ''trucks_available'' = Some (of_int (pi_trucks i))" "input_value i ''truck_capacity_t'' = Some (pi_truck_capacity i)"
  "input_value i ''equipment_availability'' = Some (pi_availability i)" "input_value i ''processing_capacity_tpd'' = Some (pi_processing i)"
  "input_value i ''stockpile_capacity_t'' = Some (pi_stockpile_capacity i)" "input_value i ''stockpile_current_t'' = Some (pi_stockpile i)"
  "input_value i ''ore_grade_pct'' = Some (pi_grade i)" "input_value i ''target_grade_pct'' = Some (pi_target_grade i)"
  "input_value i ''predicted_downtime_hours_per_day'' = Some (pi_downtime i)" "input_value i ''queue_factor'' = Some (pi_queue i)"
  by (simp_all add: input_value_def)

lemma payload_inverse: "in_range i \<Longrightarrow> from_payload (input_value i) = i"
proof -
  assume r: "in_range i"
  have t: "(0 :: 'a) \<le> of_int (pi_trucks i) \<and> of_int (pi_trucks i) \<le> (500 :: 'a)"
    using r by (simp add: in_range_def)
  show ?thesis
    using r t unfolding in_range_def from_payload_def Let_def input_values
    by (simp add: clamp_num_id)
qed

text \<open>
  C37: inputs read from a payload lie in the ranges the model accepts, whatever the payload holds, and
  reading them again from their own dictionary gives them back; so a what-if with no changes forecasts
  its baseline and reports nothing applied and nothing ignored.
\<close>

theorem payload_inputs_in_range:
  "in_range (from_payload p) \<and> from_payload (input_value (from_payload p)) = from_payload p
   \<and> simulate_changes object_attr parse (from_payload p) h []
       = Inr \<lparr>sm_baseline = forecast_of (from_payload p) h, sm_scenario = forecast_of (from_payload p) h, sm_applied = [], sm_ignored = []\<rparr>"
proof -
  have r: "in_range (from_payload p)" by (rule payload_in_range)
  then have g: "pi_target_grade (from_payload p) \<noteq> 0" by (auto simp: in_range_def)
  show ?thesis
    using r payload_inverse [OF r] g
    by (simp add: simulate_changes_def changed_inputs_def changed_haulage_def payload_value_def forecast_production_def)
qed

text \<open>Two things the relaxation and the what-if do besides\<close>

lemma best_case_lowers_good_availability:
  "94 / 100 < pi_availability i \<Longrightarrow> pi_availability (downtime_relaxed i) < pi_availability i"
  by (simp add: downtime_relaxed_def)

lemma numberless_change_resets:
  "pi_trucks (changed_inputs parse i [(''trucks_available'', PNone)] :: rat production_inputs) = 14"
  by (simp add: changed_inputs_def from_payload_def Let_def payload_value_def clamp_num_def default_inputs_def truncate_num_def)

end
